(* ===== verification/Prelude.thy ===== *)
theory Prelude
  imports Main "HOL-Library.AList" "HOL-Library.Multiset"
begin

text \<open>
  Shared material of the development: the result type of operations that may raise, the
  dictionary laws of association lists (Python dictionaries keep insertion order, so they are
  association lists whose keys are distinct), the append-only log files, and a few list lemmas.
  The collection \<open>py_simps\<close> gathers the rewrite rules the component proofs share.
\<close>

named_theorems py_simps

section \<open>Results\<close>

text \<open>
  The exceptions the modelled code raises. The first eight are built in; the
  others are the repository's own classes, with the message or the fields they carry (\<open>Raises\<close> names the
  class). The last is
  no exception: where a definition meets an input outside the model it stops with it, and says why.
\<close>

datatype err =
    AttributeError
  | TypeError
  | ValueError
  | KeyError
  | IndexError
  | ZeroDivisionError
  | StopIteration
  | OverflowError
  | StageGuardError string
  | StageRequestNotFound string
  | StageRequestNotApproved string
  | OrderDispatchRejected string string
  | RecoveryPlannerError string
  | WorkflowDuplicate string
  | BrokerRulesError string
  | BrokerAdapterError string
  | BrokerAccessDenied string
  | BrokerOrderRejected string
  | NotImplementedError string
  | LiquiditySymbolNotFound string
  | Raises string string
  | Unmodelled string

type_synonym 'a res = "err + 'a"

definition bind_res :: "'a res \<Rightarrow> ('a \<Rightarrow> 'b res) \<Rightarrow> 'b res" where
  "bind_res r f = (case r of Inl e \<Rightarrow> Inl e | Inr x \<Rightarrow> f x)"

lemma bind_res_simps [simp]:
  "bind_res (Inl e) f = Inl e"
  "bind_res (Inr x) f = f x"
  by (simp_all add: bind_res_def)

lemma bind_res_eq_Inr:
  "bind_res r f = Inr y \<longleftrightarrow> (\<exists>x. r = Inr x \<and> f x = Inr y)"
  by (cases r) auto

lemma bind_res_InrE:
  assumes "bind_res r f = Inr y"
  obtains x where "r = Inr x" "f x = Inr y"
  using assms by (auto simp: bind_res_eq_Inr)

text \<open>Running a fallible function over a list stops at the first exception.\<close>

fun map_res :: "('a \<Rightarrow> 'b res) \<Rightarrow> 'a list \<Rightarrow> 'b list res" where
  "map_res f [] = Inr []"
| "map_res f (x # xs) = bind_res (f x) (\<lambda>y. bind_res (map_res f xs) (\<lambda>ys. Inr (y # ys)))"

lemma map_res_all_Inr:
  "(\<And>x. x \<in> set xs \<Longrightarrow> f x = Inr (g x)) \<Longrightarrow> map_res f xs = Inr (map g xs)"
  by (induction xs) auto

lemma map_res_map_inverse:
  "(\<And>x. x \<in> set xs \<Longrightarrow> f (g x) = Inr x) \<Longrightarrow> map_res f (map g xs) = Inr xs"
  by (induction xs) auto

lemma map_res_Inr_length: "map_res f xs = Inr ys \<Longrightarrow> length ys = length xs"
  by (induction xs arbitrary: ys) (auto simp: bind_res_eq_Inr)

lemma map_res_list_all2: "map_res f xs = Inr ys \<longleftrightarrow> list_all2 (\<lambda>x y. f x = Inr y) xs ys"
  by (induction xs arbitrary: ys) (auto simp: bind_res_eq_Inr list_all2_Cons1)

lemma list_all2_mem1: "list_all2 P xs ys \<Longrightarrow> x \<in> set xs \<Longrightarrow> \<exists>y \<in> set ys. P x y"
  by (induction rule: list_all2_induct) auto

lemma list_all2_mem: "list_all2 P xs ys \<Longrightarrow> y \<in> set ys \<Longrightarrow> \<exists>x \<in> set xs. P x y"
  by (induction rule: list_all2_induct) auto

section \<open>Dictionaries\<close>

text \<open>
  \<open>AList.update\<close> is Python's item assignment: an existing key keeps its position, a new one
  goes to the end. \<open>AList.delete\<close> is \<open>pop\<close> with a default.
\<close>

definition wf_dict :: "('k \<times> 'v) list \<Rightarrow> bool" where
  "wf_dict d \<longleftrightarrow> distinct (map fst d)"

lemma wf_dict_Nil [simp, intro]: "wf_dict []"
  by (simp add: wf_dict_def)

lemma wf_dict_update [simp, intro]: "wf_dict d \<Longrightarrow> wf_dict (AList.update k v d)"
  by (simp add: wf_dict_def distinct_update)

lemma wf_dict_delete [simp, intro]: "wf_dict d \<Longrightarrow> wf_dict (AList.delete k d)"
  by (simp add: wf_dict_def distinct_delete)

lemma map_of_update [simp]:
  "map_of (AList.update k v d) k' = (if k' = k then Some v else map_of d k')"
  by (simp add: update_conv)

lemma map_of_delete [simp]:
  "map_of (AList.delete k d) k' = (if k' = k then None else map_of d k')"
  by (simp add: delete_conv)

lemma wf_dict_Cons [simp]: "wf_dict ((k, v) # d) \<longleftrightarrow> map_of d k = None \<and> wf_dict d"
  by (auto simp: wf_dict_def map_of_eq_None_iff)

lemma wf_dict_map_snd: "wf_dict (map (\<lambda>(k, v). (k, f v)) d) \<longleftrightarrow> wf_dict d"
  by (simp add: wf_dict_def case_prod_unfold comp_def)

text \<open>Every value of a dictionary satisfies a predicate.\<close>

definition dict_all :: "('v \<Rightarrow> bool) \<Rightarrow> ('k \<times> 'v) list \<Rightarrow> bool" where
  "dict_all P d \<longleftrightarrow> (\<forall>k v. map_of d k = Some v \<longrightarrow> P v)"

lemma dict_all_Nil [simp]: "dict_all P []"
  by (simp add: dict_all_def)

lemma dict_all_update: "dict_all P d \<Longrightarrow> P v \<Longrightarrow> dict_all P (AList.update k v d)"
  by (auto simp: dict_all_def split: if_splits)

lemma dict_all_delete: "dict_all P d \<Longrightarrow> dict_all P (AList.delete k d)"
  by (auto simp: dict_all_def split: if_splits)

lemma dict_all_mem: "wf_dict d \<Longrightarrow> dict_all P d \<Longrightarrow> (k, v) \<in> set d \<Longrightarrow> P v"
  by (auto simp: dict_all_def wf_dict_def dest: map_of_is_SomeI)

section \<open>Lists\<close>

text \<open>\<open>next((x for x in xs if p x), None)\<close> and the early-return search loops.\<close>

lemma find_map_cong:
  "(\<And>x. P (f x) = P x) \<Longrightarrow> find P (map f xs) = map_option f (find P xs)"
  by (induction xs) auto

lemma find_Some_iff_mem: "find P xs = Some x \<Longrightarrow> x \<in> set xs \<and> P x"
  by (induction xs) (auto split: if_splits)

lemma find_eq_None: "find P xs = None \<longleftrightarrow> (\<forall>x\<in>set xs. \<not> P x)"
  by (auto simp: find_None_iff)

lemma find_append: "find P (xs @ ys) = (case find P xs of None \<Rightarrow> find P ys | Some x \<Rightarrow> Some x)"
  by (induction xs) auto

text \<open>Updating in place the first element that satisfies a predicate.\<close>

fun update_first :: "('a \<Rightarrow> bool) \<Rightarrow> ('a \<Rightarrow> 'a) \<Rightarrow> 'a list \<Rightarrow> 'a list" where
  "update_first P f [] = []"
| "update_first P f (x # xs) = (if P x then f x # xs else x # update_first P f xs)"

lemma length_update_first [simp]: "length (update_first P f xs) = length xs"
  by (induction xs) auto

lemma map_update_first_cong:
  "(\<And>x. P x \<Longrightarrow> g (f x) = g x) \<Longrightarrow> map g (update_first P f xs) = map g xs"
  by (induction xs) auto

lemma set_update_first_subset:
  "set (update_first P f xs) \<subseteq> set xs \<union> {f x |x. x \<in> set xs \<and> P x}"
  by (induction xs) auto

lemma find_update_first:
  "(\<And>x. P x \<Longrightarrow> P (f x)) \<Longrightarrow> find P (update_first P f xs) = map_option f (find P xs)"
  by (induction xs) auto

lemma update_first_id: "find P xs = None \<Longrightarrow> update_first P f xs = xs"
  by (induction xs) (auto split: if_splits)

section \<open>Dictionaries in key order\<close>

lemma filter_key_eq: "wf_dict d \<Longrightarrow> filter (\<lambda>x. fst x = k) d = (case map_of d k of None \<Rightarrow> [] | Some v \<Rightarrow> [(k, v)])"
  by (induction d) (auto simp: wf_dict_def filter_empty_conv image_iff split: option.split)

text \<open>A dictionary sorted by key ends with the entry of its greatest key.\<close>

lemma sort_greatest_key:
  fixes d :: "('k :: linorder \<times> 'v) list"
  assumes "wf_dict d" "\<And>x. x \<in> set d \<Longrightarrow> fst x \<le> k"
  shows "sort_key fst d = sort_key fst (AList.delete k d) @ (case map_of d k of None \<Rightarrow> [] | Some v \<Rightarrow> [(k, v)])"
proof -
  have del: "AList.delete k d = filter (\<lambda>x. fst x \<noteq> k) d"
    by (induction d) auto
  let ?ys = "sort_key fst (filter (\<lambda>x. fst x \<noteq> k) d) @ filter (\<lambda>x. fst x = k) d"
  have "sort_key fst d = ?ys"
  proof (rule properties_for_sort_key)
    show "mset ?ys = mset d" by simp
  next
    fix x assume "x \<in> set ?ys"
    show "filter (\<lambda>y. fst x = fst y) ?ys = filter (\<lambda>y. fst x = fst y) d"
    proof (cases "fst x = k")
      case True
      then have "filter (\<lambda>y. fst y \<noteq> k \<and> fst x = fst y) d = []"
        and "filter (\<lambda>y. fst y = k \<and> fst x = fst y) d = filter (\<lambda>y. fst x = fst y) d"
        by (auto simp: filter_empty_conv intro: filter_cong)
      then show ?thesis by (simp add: filter_sort)
    next
      case False
      have "sort_key fst (filter (\<lambda>y. fst x = fst y) d) = filter (\<lambda>y. fst x = fst y) d"
        by (rule sort_key_id_if_sorted) (induction d, auto)
      moreover have "filter (\<lambda>y. fst y \<noteq> k \<and> fst x = fst y) d = filter (\<lambda>y. fst x = fst y) d"
        using False by (intro filter_cong) auto
      ultimately show ?thesis using False by (auto simp: filter_sort filter_empty_conv)
    qed
  next
    have "sorted (map fst (filter (\<lambda>x. fst x = k) d))" by (induction d) auto
    then show "sorted (map fst ?ys)"
      using assms(2) by (auto simp: sorted_append)
  qed
  then show ?thesis by (simp add: del filter_key_eq [OF assms(1)])
qed

lemma map_res_append: "map_res f (xs @ ys) = bind_res (map_res f xs) (\<lambda>a. bind_res (map_res f ys) (\<lambda>b. Inr (a @ b)))"
proof (induction xs)
  case Nil
  show ?case by (cases "map_res f ys") simp_all
next
  case (Cons x xs)
  then show ?case by (cases "f x"; cases "map_res f xs"; cases "map_res f ys") simp_all
qed

end
