(* ===== verification/PyFloat.thy ===== *)
theory PyFloat
  imports Prelude Complex_Main
begin

text \<open>
  Python floats: IEEE 754 binary64 with round-to-nearest-even, as exact rationals, the two
  infinities and NaN. \<open>rnd\<close> is the rounding of an exact result (53 significant bits, exponents
  down to the subnormal range, overflow to infinity); every arithmetic operation is the exact
  operation followed by \<open>rnd\<close>, which is what IEEE 754 requires of them. The sign of a zero is
  not represented: no modelled code divides by a float zero or prints one.

  The lemmas show what the components rely on: rounding is monotone, it fixes every
  representable number, and the comparisons are the ones of the rationals.
\<close>

datatype pyfloat = Fin rat | PInf | NInf | NaN

section \<open>Rounding\<close>

definition pow2 :: "int \<Rightarrow> rat" where
  "pow2 k = (if 0 \<le> k then 2 ^ nat k else 1 / 2 ^ nat (- k))"

function bits :: "int \<Rightarrow> nat" where
  "bits n = (if n \<le> 0 then 0 else Suc (bits (n div 2)))"
  by pat_completeness auto
termination
  by (relation "measure nat") auto

declare bits.simps [simp del]

text \<open>The exponent of the leading bit of a positive rational.\<close>

definition flog2 :: "rat \<Rightarrow> int" where
  "flog2 x = (let (p, q) = quotient_of x; k = int (bits p) - int (bits q)
     in if pow2 k \<le> x then k else k - 1)"

text \<open>Round to the nearest integer, ties to even (also Python's one-argument \<open>round\<close>).\<close>

definition rhe :: "rat \<Rightarrow> int" where
  "rhe x = (let f = floor x; d = x - of_int f
     in if d < 1 / 2 then f else if 1 / 2 < d then f + 1 else if even f then f else f + 1)"

definition rexp :: "rat \<Rightarrow> int" where
  "rexp x = max (flog2 (abs x) - 52) (- 1074)"

definition rval :: "rat \<Rightarrow> rat" where
  "rval x = (if x = 0 then 0 else of_int (rhe (x / pow2 (rexp x))) * pow2 (rexp x))"

definition rnd :: "rat \<Rightarrow> pyfloat" where
  "rnd x = (let v = rval x in if 2 ^ 1024 \<le> v then PInf else if v \<le> - (2 ^ 1024) then NInf else Fin v)"

section \<open>Operations\<close>

fun fneg :: "pyfloat \<Rightarrow> pyfloat" where
  "fneg (Fin x) = Fin (- x)"
| "fneg PInf = NInf"
| "fneg NInf = PInf"
| "fneg NaN = NaN"

fun fadd :: "pyfloat \<Rightarrow> pyfloat \<Rightarrow> pyfloat" where
  "fadd (Fin x) (Fin y) = rnd (x + y)"
| "fadd NaN _ = NaN"
| "fadd _ NaN = NaN"
| "fadd PInf NInf = NaN"
| "fadd NInf PInf = NaN"
| "fadd PInf _ = PInf"
| "fadd _ PInf = PInf"
| "fadd NInf _ = NInf"
| "fadd _ NInf = NInf"

definition fsub :: "pyfloat \<Rightarrow> pyfloat \<Rightarrow> pyfloat" where
  "fsub a b = fadd a (fneg b)"

fun fsign :: "pyfloat \<Rightarrow> int" where
  "fsign (Fin x) = (if 0 < x then 1 else if x < 0 then -1 else 0)"
| "fsign PInf = 1"
| "fsign NInf = -1"
| "fsign NaN = 0"

fun fmul :: "pyfloat \<Rightarrow> pyfloat \<Rightarrow> pyfloat" where
  "fmul (Fin x) (Fin y) = rnd (x * y)"
| "fmul NaN _ = NaN"
| "fmul _ NaN = NaN"
| "fmul a b = (if fsign a * fsign b = 0 then NaN else if 0 < fsign a * fsign b then PInf else NInf)"

text \<open>Division raises on a zero divisor.\<close>

fun fdiv :: "pyfloat \<Rightarrow> pyfloat \<Rightarrow> pyfloat res" where
  "fdiv (Fin x) (Fin y) = (if y = 0 then Inl ZeroDivisionError else Inr (rnd (x / y)))"
| "fdiv a (Fin y) = (if y = 0 then Inl ZeroDivisionError
     else Inr (if a = NaN then NaN else if 0 < fsign a * fsign (Fin y) then PInf else NInf))"
| "fdiv (Fin x) b = Inr (if b = NaN then NaN else Fin 0)"
| "fdiv a b = Inr NaN"

fun fabs :: "pyfloat \<Rightarrow> pyfloat" where
  "fabs (Fin x) = Fin (abs x)"
| "fabs NInf = PInf"
| "fabs a = a"

text \<open>Division by a divisor known not to be zero.\<close>

definition fquot :: "pyfloat \<Rightarrow> pyfloat \<Rightarrow> pyfloat" where
  "fquot a b = (case fdiv a b of Inr x \<Rightarrow> x | Inl _ \<Rightarrow> NaN)"

text \<open>Comparisons: every one that involves NaN is false.\<close>

fun fle :: "pyfloat \<Rightarrow> pyfloat \<Rightarrow> bool" where
  "fle NaN _ = False"
| "fle _ NaN = False"
| "fle (Fin x) (Fin y) = (x \<le> y)"
| "fle NInf _ = True"
| "fle _ PInf = True"
| "fle _ _ = False"

fun flt :: "pyfloat \<Rightarrow> pyfloat \<Rightarrow> bool" where
  "flt NaN _ = False"
| "flt _ NaN = False"
| "flt (Fin x) (Fin y) = (x < y)"
| "flt NInf b = (b \<noteq> NInf)"
| "flt a PInf = (a \<noteq> PInf)"
| "flt _ _ = False"

fun feq :: "pyfloat \<Rightarrow> pyfloat \<Rightarrow> bool" where
  "feq NaN _ = False"
| "feq a b = (a = b)"

abbreviation fge :: "pyfloat \<Rightarrow> pyfloat \<Rightarrow> bool" where "fge a b \<equiv> fle b a"
abbreviation fgt :: "pyfloat \<Rightarrow> pyfloat \<Rightarrow> bool" where "fgt a b \<equiv> flt b a"

text \<open>Python's two-argument \<open>max\<close> and \<open>min\<close>: the first argument unless the second beats it.\<close>

definition fmax :: "pyfloat \<Rightarrow> pyfloat \<Rightarrow> pyfloat" where
  "fmax a b = (if fgt b a then b else a)"

definition fmin :: "pyfloat \<Rightarrow> pyfloat \<Rightarrow> pyfloat" where
  "fmin a b = (if flt b a then b else a)"

definition f_of_int :: "int \<Rightarrow> pyfloat" where
  "f_of_int i = rnd (of_int i)"

text \<open>\<open>round(x, n)\<close>: the exact value to \<open>n\<close> decimals, ties to even, then the nearest float.\<close>

fun fround :: "nat \<Rightarrow> pyfloat \<Rightarrow> pyfloat" where
  "fround n (Fin x) = rnd (of_int (rhe (x * 10 ^ n)) / 10 ^ n)"
| "fround n a = a"

section \<open>Order laws\<close>

lemma fle_trans: "fle a b \<Longrightarrow> fle b c \<Longrightarrow> fle a c"
  by (cases a; cases b; cases c) auto

lemma fle_refl_iff: "fle a a \<longleftrightarrow> a \<noteq> NaN"
  by (cases a) auto

lemma not_fle_iff: "a \<noteq> NaN \<Longrightarrow> b \<noteq> NaN \<Longrightarrow> \<not> fle a b \<longleftrightarrow> flt b a"
  by (cases a; cases b) auto

lemma flt_imp_fle: "flt a b \<Longrightarrow> fle a b"
  by (cases a; cases b) auto

lemma flt_fle_trans: "flt a b \<Longrightarrow> fle b c \<Longrightarrow> flt a c"
  by (cases a; cases b; cases c) auto

lemma fle_antisym: "fle a b \<Longrightarrow> fle b a \<Longrightarrow> a = b"
  by (cases a; cases b) auto

lemma fle_fneg: "fle (fneg a) (fneg b) \<longleftrightarrow> fle b a"
  by (cases a; cases b) auto

lemma fadd_comm: "fadd a b = fadd b a"
  by (cases a; cases b) (auto simp: add.commute)

section \<open>Monotonicity of rounding\<close>

lemma pow2_pos [simp]: "0 < pow2 k"
  by (simp add: pow2_def)

lemma pow2_nz [simp]: "pow2 k \<noteq> 0"
  using pow2_pos [of k] by linarith

lemma pow2_Suc: "pow2 (k + 1) = 2 * pow2 k"
proof (cases "0 \<le> k")
  case True
  then show ?thesis by (simp add: pow2_def nat_add_distrib)
next
  case False
  then have "nat (- k) = Suc (nat (- (k + 1)))" by linarith
  with False show ?thesis by (cases "k = -1") (auto simp: pow2_def)
qed

lemma pow2_add_nat: "pow2 (k + int n) = 2 ^ n * pow2 k"
proof (induction n)
  case (Suc n)
  have "pow2 (k + int (Suc n)) = pow2 ((k + int n) + 1)" by (simp add: ac_simps)
  with Suc show ?case by (simp add: pow2_Suc)
qed simp

lemma pow2_mono: "j \<le> k \<Longrightarrow> pow2 j \<le> pow2 k"
proof -
  assume "j \<le> k"
  then have "pow2 k = 2 ^ nat (k - j) * pow2 j"
    using pow2_add_nat [of j "nat (k - j)"] by simp
  moreover have "(1::rat) \<le> 2 ^ nat (k - j)" by simp
  ultimately show ?thesis
    using mult_right_mono [of 1 "2 ^ nat (k - j)" "pow2 j"] pow2_pos [of j] by linarith
qed

lemma bits_bounds: "0 < n \<Longrightarrow> 2 ^ (bits n - 1) \<le> n \<and> n < 2 ^ bits n"
proof (induction n rule: bits.induct)
  case (1 n)
  show ?case
  proof (cases "n div 2 = 0")
    case True
    with "1.prems" have n: "n = 1" by auto
    have "bits 1 = 1" by (subst bits.simps, simp, subst bits.simps, simp)
    with n show ?thesis by simp
  next
    case False
    with 1 have nn: "0 < n div 2" by linarith
    with 1 have ih: "2 ^ (bits (n div 2) - 1) \<le> n div 2" "n div 2 < 2 ^ bits (n div 2)" by auto
    from nn have pos: "0 < bits (n div 2)" by (subst bits.simps) simp
    have b: "bits n = Suc (bits (n div 2))" using "1.prems" by (subst bits.simps) simp
    define m where "m = (2::int) ^ (bits (n div 2) - 1)"
    have m: "(2::int) ^ bits (n div 2) = 2 * m"
      using pos by (cases "bits (n div 2)") (auto simp: m_def)
    have n: "n = 2 * (n div 2) + n mod 2" "n mod 2 < 2" by simp_all
    from ih m have "m \<le> n div 2" "n div 2 < 2 * m" by (simp_all add: m_def)
    with n have "2 * m \<le> n" "n < 4 * m" by linarith+
    with b m show ?thesis by simp
  qed
qed

lemma pow2_diff: "pow2 (int a - int b) = 2 ^ a / 2 ^ b"
proof -
  have "pow2 (int a - int b + int b) = 2 ^ b * pow2 (int a - int b)" by (rule pow2_add_nat)
  then show ?thesis by (simp add: pow2_def)
qed

lemma bits_pos: "0 < n \<Longrightarrow> 0 < bits n"
  by (subst bits.simps) simp

lemma ratio_bounds:
  fixes p q A B :: rat
  assumes "0 < p" "0 < q" "0 < A" "0 < B" "A \<le> 2 * p" "p < A" "B \<le> 2 * q" "q < B"
  shows "p / q < 2 * (A / B)" "A / B / 2 \<le> p / q"
proof -
  have "p * B < A * (2 * q)" by (rule mult_less_le_imp_less) (use assms in auto)
  then show "p / q < 2 * (A / B)" using assms by (simp add: divide_less_eq less_divide_eq ac_simps)
  have "A * q \<le> (2 * p) * B" by (rule mult_mono) (use assms in auto)
  then show "A / B / 2 \<le> p / q" using assms by (simp add: divide_le_eq le_divide_eq ac_simps)
qed

lemma flog2_bounds:
  assumes "0 < x"
  shows "pow2 (flog2 x) \<le> x \<and> x < pow2 (flog2 x + 1)"
proof -
  obtain p q where pq: "quotient_of x = (p, q)" by (cases "quotient_of x")
  have q: "0 < q" using pq by (rule quotient_of_denom_pos)
  have x: "x = of_int p / of_int q" using pq by (rule quotient_of_div)
  with assms q have p: "0 < p" by (simp add: zero_less_divide_iff)
  define a b where "a = bits p" and "b = bits q"
  have *: "2 ^ (a - 1) \<le> p" "p < 2 ^ a" "2 ^ (b - 1) \<le> q" "q < 2 ^ b"
    using bits_bounds [of p] bits_bounds [of q] p q by (auto simp: a_def b_def)
  have ab: "0 < a" "0 < b" unfolding a_def b_def using p q by (simp_all add: bits_pos)
  have P: "(2::rat) ^ a \<le> 2 * of_int p" "of_int p < (2::rat) ^ a"
    and Q: "(2::rat) ^ b \<le> 2 * of_int q" "of_int q < (2::rat) ^ b"
  proof -
    have half: "(2::int) ^ n = 2 * 2 ^ (n - 1)" if "0 < n" for n
      using that by (cases n) simp_all
    have "2 ^ a \<le> 2 * p" "2 ^ b \<le> 2 * q"
      unfolding half [OF ab(1)] half [OF ab(2)] using *(1,3) by simp_all
    then have "of_int (2 ^ a) \<le> (of_int (2 * p) :: rat)" "of_int (2 ^ b) \<le> (of_int (2 * q) :: rat)"
      by (simp_all only: of_int_le_iff)
    then show "(2::rat) ^ a \<le> 2 * of_int p" "(2::rat) ^ b \<le> 2 * of_int q" by simp_all
    have "of_int p < (of_int (2 ^ a) :: rat)" "of_int q < (of_int (2 ^ b) :: rat)"
      using *(2,4) by (simp_all only: of_int_less_iff)
    then show "of_int p < (2::rat) ^ a" "of_int q < (2::rat) ^ b" by simp_all
  qed
  have pw: "pow2 (int a - int b + 1) = 2 * (2 ^ a / 2 ^ b)"
    "pow2 (int a - int b - 1) = 2 ^ a / 2 ^ b / 2"
    using pow2_Suc [of "int a - int b"] pow2_Suc [of "int a - int b - 1"]
    by (simp_all add: pow2_diff)
  have up: "x < pow2 (int a - int b + 1)"
    unfolding x pw by (rule ratio_bounds) (use P Q p q in simp_all)
  have lo: "pow2 (int a - int b - 1) \<le> x"
    unfolding x pw by (rule ratio_bounds) (use P Q p q in simp_all)
  show ?thesis
    using up lo by (auto simp: flog2_def pq Let_def a_def b_def)
qed

lemma flog2_unique:
  assumes "pow2 k \<le> x" "x < pow2 (k + 1)"
  shows "flog2 x = k"
proof -
  have x: "0 < x" using assms(1) pow2_pos [of k] by linarith
  show ?thesis
  proof (rule ccontr)
    assume "flog2 x \<noteq> k"
    then consider "flog2 x + 1 \<le> k" | "k + 1 \<le> flog2 x" by linarith
    then show False
    proof cases
      case 1
      with pow2_mono [OF 1] flog2_bounds [OF x] assms show False by linarith
    next
      case 2
      with pow2_mono [OF 2] flog2_bounds [OF x] assms show False by linarith
    qed
  qed
qed

lemma flog2_mono: "0 < x \<Longrightarrow> x \<le> y \<Longrightarrow> flog2 x \<le> flog2 y"
proof (rule ccontr)
  assume x: "0 < x" "x \<le> y" and "\<not> flog2 x \<le> flog2 y"
  then have "flog2 y + 1 \<le> flog2 x" by simp
  from pow2_mono [OF this] flog2_bounds [of x] flog2_bounds [of y] x show False by linarith
qed

lemma rhe_bounds: "of_int (rhe x) \<le> x + 1 / 2 \<and> x - 1 / 2 \<le> of_int (rhe x)"
proof -
  define f where "f = floor x"
  have "of_int f \<le> x" "x < of_int f + 1"
    unfolding f_def by (rule of_int_floor_le) linarith
  then show ?thesis by (auto simp: rhe_def Let_def f_def [symmetric])
qed

lemma rhe_mono:
  assumes "x \<le> y"
  shows "rhe x \<le> rhe y"
proof (cases "floor x = floor y")
  case True
  with assms show ?thesis by (auto simp: rhe_def Let_def)
next
  case False
  with floor_mono [OF assms] have "floor x + 1 \<le> floor y" by simp
  then show ?thesis by (auto simp: rhe_def Let_def)
qed

lemma rhe_of_int [simp]: "rhe (of_int n) = n"
  by (simp add: rhe_def)

lemma rhe_minus: "rhe (- x) = - rhe x"
proof (cases "x \<in> \<int>")
  case True
  then obtain n where n: "x = of_int n" by (rule Ints_cases)
  show ?thesis using rhe_of_int [of "- n"] by (simp add: n)
next
  case False
  have x: "x \<noteq> of_int (floor x)" using False by (metis Ints_of_int)
  then have fl: "floor (- x) = - floor x - 1"
    using of_int_floor_le [of x] by (intro floor_unique) (simp, linarith)+
  show ?thesis by (auto simp: rhe_def Let_def fl)
qed

lemma rexp_mono: "0 < x \<Longrightarrow> x \<le> y \<Longrightarrow> rexp x \<le> rexp y"
  using flog2_mono [of x y] by (auto simp: rexp_def)

lemma rval_minus: "rval (- x) = - rval x"
  by (simp add: rval_def rexp_def rhe_minus flip: minus_divide_left)

lemma rval_0 [simp]: "rval 0 = 0"
  by (simp add: rval_def)

lemma rhe_mult_le:
  "x \<le> 2 ^ n * pow2 e \<Longrightarrow> of_int (rhe (x / pow2 e)) * pow2 e \<le> 2 ^ n * pow2 e"
proof -
  assume "x \<le> 2 ^ n * pow2 e"
  then have "x / pow2 e \<le> of_int (2 ^ n)" by (simp add: divide_le_eq)
  from rhe_mono [OF this] have "rhe (x / pow2 e) \<le> 2 ^ n" by (simp only: rhe_of_int)
  then have "of_int (rhe (x / pow2 e)) \<le> (of_int (2 ^ n) :: rat)" by (simp only: of_int_le_iff)
  then show ?thesis by simp
qed

lemma rhe_mult_ge:
  "2 ^ n * pow2 e \<le> x \<Longrightarrow> 2 ^ n * pow2 e \<le> of_int (rhe (x / pow2 e)) * pow2 e"
proof -
  assume "2 ^ n * pow2 e \<le> x"
  then have "of_int (2 ^ n) \<le> x / pow2 e" by (simp add: le_divide_eq)
  from rhe_mono [OF this] have "2 ^ n \<le> rhe (x / pow2 e)" by (simp only: rhe_of_int)
  then have "(of_int (2 ^ n) :: rat) \<le> of_int (rhe (x / pow2 e))" by (simp only: of_int_le_iff)
  then show ?thesis by simp
qed

lemma rval_mono_pos:
  assumes x: "0 < x" "x \<le> y"
  shows "rval x \<le> rval y"
proof (cases "rexp x = rexp y")
  case True
  have "x / pow2 (rexp y) \<le> y / pow2 (rexp y)" using x by (simp add: divide_right_mono less_imp_le)
  from rhe_mono [OF this] have
    "of_int (rhe (x / pow2 (rexp y))) * pow2 (rexp y) \<le> of_int (rhe (y / pow2 (rexp y))) * pow2 (rexp y)"
    by (intro mult_right_mono) (auto simp: less_imp_le)
  with x True show ?thesis by (simp add: rval_def)
next
  case False
  with rexp_mono [OF x] have lt: "rexp x + 1 \<le> rexp y" by simp
  then have ey: "rexp y + 52 = flog2 y" using x by (auto simp: rexp_def)
  have "x \<le> pow2 (rexp x + int 53)"
    using flog2_bounds [OF x(1)] pow2_mono [of "flog2 x + 1" "rexp x + int 53"] x
    by (auto simp: rexp_def intro: order_trans less_imp_le)
  then have "rval x \<le> pow2 (rexp x + int 53)"
    unfolding pow2_add_nat using rhe_mult_le [of x 53 "rexp x"] x by (simp add: rval_def)
  also have "\<dots> \<le> pow2 (rexp y + int 52)" using lt by (intro pow2_mono) simp
  also have "\<dots> \<le> rval y"
    unfolding pow2_add_nat
    using rhe_mult_ge [of 52 "rexp y" y] flog2_bounds [of y] pow2_add_nat [of "rexp y" 52] x ey
    by (simp add: rval_def)
  finally show ?thesis .
qed

lemma rval_nonneg: "0 \<le> x \<Longrightarrow> 0 \<le> rval x"
proof -
  assume "0 \<le> x"
  then have "0 \<le> x / pow2 (rexp x)" by (simp add: less_imp_le)
  from rhe_mono [OF this] have "0 \<le> rhe (x / pow2 (rexp x))" using rhe_of_int [of 0] by simp
  then show ?thesis by (simp add: rval_def less_imp_le)
qed

lemma rval_mono: "x \<le> y \<Longrightarrow> rval x \<le> rval y"
proof -
  assume xy: "x \<le> y"
  consider "0 < x" | "x \<le> 0" "0 \<le> y" | "y < 0" by linarith
  then show ?thesis
  proof cases
    case 1
    then show ?thesis using xy by (rule rval_mono_pos)
  next
    case 2
    then have "0 \<le> rval y" "0 \<le> rval (- x)" by (simp_all add: rval_nonneg)
    then show ?thesis by (simp add: rval_minus)
  next
    case 3
    then have "rval (- y) \<le> rval (- x)" using xy by (intro rval_mono_pos) auto
    then show ?thesis by (simp add: rval_minus)
  qed
qed

lemma rnd_cases:
  obtains "rnd x = PInf" "2 ^ 1024 \<le> rval x" | "rnd x = NInf" "rval x \<le> - (2 ^ 1024)"
  | "rnd x = Fin (rval x)" "- (2 ^ 1024) < rval x" "rval x < 2 ^ 1024"
  by (cases "2 ^ 1024 \<le> rval x"; cases "rval x \<le> - (2 ^ 1024)")
    (auto simp: rnd_def Let_def)

theorem rnd_mono: "x \<le> y \<Longrightarrow> fle (rnd x) (rnd y)"
proof -
  assume "x \<le> y"
  then have m: "rval x \<le> rval y" by (rule rval_mono)
  have big: "(0::rat) < 2 ^ 1024" by (rule zero_less_power) simp
  show ?thesis
    by (rule rnd_cases [of x]; rule rnd_cases [of y]; use m big in \<open>simp del: power_numeral\<close>)
qed

section \<open>Representable values\<close>

definition is_f64 :: "pyfloat \<Rightarrow> bool" where
  "is_f64 a = (case a of Fin x \<Rightarrow> rnd x = Fin x | _ \<Rightarrow> True)"

lemma rval_exact:
  assumes m: "abs m \<le> 2 ^ 53" and e: "- 1074 \<le> e"
  shows "rval (of_int m * pow2 e) = of_int m * pow2 e"
proof (cases "m = 0")
  case False
  define x where "x = of_int m * pow2 e"
  have ax: "abs x = of_int (abs m) * pow2 e" by (simp add: x_def abs_mult less_imp_le)
  have x0: "x \<noteq> 0" "0 < abs x" using False by (simp_all add: x_def)
  have exact: "rval x = x" if le: "rexp x \<le> e"
  proof -
    define r n where "r = rexp x" and "n = nat (e - rexp x)"
    have "pow2 e = 2 ^ n * pow2 r"
      using pow2_add_nat [of "rexp x" n] le by (simp add: r_def n_def)
    then have x: "x = of_int (m * 2 ^ n) * pow2 r" by (simp add: x_def)
    then have "x / pow2 r = of_int (m * 2 ^ n)" by simp
    then have "rhe (x / pow2 r) = m * 2 ^ n" by (simp only: rhe_of_int)
    moreover have "rval x = of_int (rhe (x / pow2 r)) * pow2 r"
      using x0 by (simp add: rval_def r_def)
    ultimately show ?thesis by (simp only: x [symmetric])
  qed
  show ?thesis
  proof (cases "abs m = 2 ^ 53")
    case True
    have "abs x = pow2 (e + int 53)" unfolding ax pow2_add_nat by (simp add: True)
    then have "flog2 (abs x) = e + 53"
      using pow2_mono [of "e + 53" "e + 53"] pow2_Suc [of "e + 53"] pow2_pos [of "e + 53"]
      by (intro flog2_unique) simp_all
    then have r: "rexp x = e + 1" using e by (simp add: rexp_def)
    have "abs x / pow2 (e + 1) = of_int (2 ^ 52)"
      by (simp add: ax True pow2_Suc)
    then have "rhe (abs x / pow2 (e + 1)) = 2 ^ 52" by (simp only: rhe_of_int)
    moreover have "rval (abs x) = of_int (rhe (abs x / pow2 (e + 1))) * pow2 (e + 1)"
      using x0 r by (simp add: rval_def rexp_def)
    ultimately have "rval (abs x) = 2 ^ 52 * pow2 (e + 1)" by simp
    also have "\<dots> = abs x" by (simp add: ax True pow2_Suc)
    finally have "rval (abs x) = abs x" .
    then show ?thesis by (cases "0 \<le> x") (simp_all add: rval_minus x_def [symmetric])
  next
    case False
    with m have "abs m < 2 ^ 53" by simp
    then have "of_int (abs m) < (of_int (2 ^ 53) :: rat)" by (simp only: of_int_less_iff)
    then have "abs x < pow2 (e + int 53)" unfolding ax pow2_add_nat by simp
    moreover have "pow2 (flog2 (abs x)) \<le> abs x" using flog2_bounds [OF x0(2)] by simp
    ultimately have "flog2 (abs x) < e + 53"
      using pow2_mono [of "e + 53" "flog2 (abs x)"] by (auto simp: not_less [symmetric])
    then have "rexp x \<le> e" using e by (simp add: rexp_def)
    then show ?thesis using exact by (simp add: x_def)
  qed
qed simp

lemma rval_idem [simp]: "rval (rval x) = rval x"
proof -
  have pos: "rval (rval y) = rval y" if y: "0 < y" for y
  proof -
    have "flog2 y + 1 \<le> rexp y + int 53" using y by (simp add: rexp_def)
    from pow2_mono [OF this] have "y \<le> 2 ^ 53 * pow2 (rexp y)"
      using flog2_bounds [OF y] unfolding pow2_add_nat by linarith
    then have "y / pow2 (rexp y) \<le> of_int (2 ^ 53)" by (simp add: divide_le_eq)
    from rhe_mono [OF this] have "rhe (y / pow2 (rexp y)) \<le> 2 ^ 53" by (simp only: rhe_of_int)
    moreover have "0 \<le> rhe (y / pow2 (rexp y))"
      using rhe_mono [of 0 "y / pow2 (rexp y)"] rhe_of_int [of 0] y by (simp add: less_imp_le)
    ultimately have "abs (rhe (y / pow2 (rexp y))) \<le> 2 ^ 53" by simp
    then have "rval (of_int (rhe (y / pow2 (rexp y))) * pow2 (rexp y)) =
        of_int (rhe (y / pow2 (rexp y))) * pow2 (rexp y)"
      by (rule rval_exact) (simp add: rexp_def)
    with y show ?thesis by (simp add: rval_def [of y])
  qed
  consider "0 < x" | "x = 0" | "0 < - x" by linarith
  then show ?thesis
    using pos [of x] pos [of "- x"] by cases (simp_all add: rval_minus)
qed

lemma is_f64_rnd [simp]: "is_f64 (rnd x)"
  by (rule rnd_cases [of x]) (simp_all add: is_f64_def rnd_def Let_def)

lemma rnd_int: "abs i \<le> 2 ^ 53 \<Longrightarrow> rnd (of_int i) = Fin (of_int i)"
proof -
  assume i: "abs i \<le> 2 ^ 53"
  then have v: "rval (of_int i) = of_int i" using rval_exact [of i 0] by (simp add: pow2_def)
  have "of_int (abs i) \<le> (of_int (2 ^ 53) :: rat)" using i by (simp only: of_int_le_iff)
  then have "abs (of_int i) < (2 ^ 1024 :: rat)"
    using power_strict_increasing [of 53 1024 "2::rat"] by simp
  then show ?thesis by (auto simp: rnd_def Let_def v abs_less_iff)
qed

lemma fsub_le:
  assumes "is_f64 (Fin x)" "0 \<le> y"
  shows "fle (fsub (Fin x) (Fin y)) (Fin x)"
proof -
  have "fle (rnd (x - y)) (rnd x)" using assms(2) by (intro rnd_mono) simp
  with assms(1) show ?thesis by (simp add: fsub_def is_f64_def)
qed

lemma rnd_numeral: "(numeral n :: int) \<le> 2 ^ 53 \<Longrightarrow> rnd (numeral n) = Fin (numeral n)"
  using rnd_int [of "numeral n"] by simp

lemma rnd_1 [simp]: "rnd 1 = Fin 1"
  using rnd_int [of 1] by simp

text \<open>The rounding of a number whose binade and nearest integer of units are known.\<close>

lemma rval_at:
  assumes "pow2 k \<le> x" "x < pow2 (k + 1)" "- 1022 \<le> k"
  shows "rval x = of_int (rhe (x / pow2 (k - 52))) * pow2 (k - 52)"
proof -
  have pos: "0 < x" using assms(1) pow2_pos [of k] by linarith
  have "flog2 x = k" by (rule flog2_unique [OF assms(1,2)])
  with pos assms(3) show ?thesis by (simp add: rval_def rexp_def)
qed

lemma rhe_eq:
  assumes "of_int m - 1 / 2 < x" "x < of_int m + 1 / 2"
  shows "rhe x = m"
proof -
  have "of_int (rhe x) < of_int m + (1 :: rat)" "of_int m - (1 :: rat) < of_int (rhe x)"
    using rhe_bounds [of x] assms by linarith+
  then show ?thesis by linarith
qed

lemma rnd_at:
  assumes "pow2 k \<le> x" "x < pow2 (k + 1)" "- 1022 \<le> k" "k < 1000" "abs m \<le> 2 ^ 53"
    and "of_int m - 1 / 2 < x / pow2 (k - 52)" "x / pow2 (k - 52) < of_int m + 1 / 2"
  shows "rnd x = Fin (of_int m * pow2 (k - 52))"
proof -
  have v: "rval x = of_int m * pow2 (k - 52)" using rval_at [OF assms(1-3)] rhe_eq [OF assms(6,7)] by simp
  have m: "of_int (abs m) \<le> (2 ^ 53 :: rat)" 
  proof -
    have "(of_int (abs m) :: rat) \<le> of_int (2 ^ 53)" using assms(5) by (simp only: of_int_le_iff)
    then show ?thesis by (simp only: of_int_power of_int_numeral)
  qed
  have "abs (rval x) = of_int (abs m) * pow2 (k - 52)" by (simp add: v abs_mult less_imp_le)
  also have "\<dots> \<le> 2 ^ 53 * pow2 (k - 52)" using m by (rule mult_right_mono) (rule less_imp_le [OF pow2_pos])
  also have "\<dots> = pow2 (k - 52 + int 53)" by (rule pow2_add_nat [symmetric])
  also have "\<dots> \<le> pow2 1001" using assms(4) by (intro pow2_mono) simp
  also have "\<dots> < 2 ^ 1024" by (simp add: pow2_def)
  finally have "abs (rval x) < 2 ^ 1024" .
  then have "\<not> 2 ^ 1024 \<le> rval x" "\<not> rval x \<le> - (2 ^ 1024)" by linarith+
  then show ?thesis by (simp only: rnd_def Let_def if_False v [symmetric])
qed

lemma rnd_0 [simp]: "rnd 0 = Fin 0"
  by (simp add: rnd_def)

section \<open>The total order used for sorting\<close>

text \<open>\<open>sorted\<close> on floats without NaN; NaN, on which Python's order depends on the sorting algorithm, is placed last.\<close>

instantiation pyfloat :: linorder
begin

definition less_eq_pyfloat :: "pyfloat \<Rightarrow> pyfloat \<Rightarrow> bool" where
  "less_eq_pyfloat a b \<longleftrightarrow> fle a b \<or> b = NaN"

definition less_pyfloat :: "pyfloat \<Rightarrow> pyfloat \<Rightarrow> bool" where
  "less_pyfloat a b \<longleftrightarrow> flt a b \<or> (b = NaN \<and> a \<noteq> NaN)"

instance
proof
  fix a b c :: pyfloat
  show "a < b \<longleftrightarrow> a \<le> b \<and> \<not> b \<le> a"
    by (cases a; cases b) (auto simp: less_eq_pyfloat_def less_pyfloat_def)
  show "a \<le> a" by (cases a) (auto simp: less_eq_pyfloat_def)
  show "a \<le> b \<Longrightarrow> b \<le> c \<Longrightarrow> a \<le> c"
    by (cases a; cases b; cases c) (auto simp: less_eq_pyfloat_def)
  show "a \<le> b \<Longrightarrow> b \<le> a \<Longrightarrow> a = b"
    by (cases a; cases b) (auto simp: less_eq_pyfloat_def)
  show "a \<le> b \<or> b \<le> a"
    by (cases a; cases b) (auto simp: less_eq_pyfloat_def)
qed

end

lemma pyfloat_less_eq_flt:
  "b \<noteq> NaN \<Longrightarrow> a \<le> b \<longleftrightarrow> fle a b"
  "b \<noteq> NaN \<Longrightarrow> a < b \<longleftrightarrow> flt a b"
  by (simp_all add: less_eq_pyfloat_def less_pyfloat_def)

end
