(* ===== verification/PyValue.thy ===== *)
theory PyValue
  imports PyFloat "HOL-Library.Char_ord"
begin

text \<open>
  The dynamically typed values the code reads from YAML and JSON files and passes around as
  dictionaries, with the operations it applies to them: truth value, \<open>x or y\<close>, \<open>d.get\<close>,
  \<open>str\<close>, \<open>lower\<close>, \<open>strip\<close>, \<open>replace\<close>, prefix and suffix tests and iteration.
  Strings are ASCII (a \<open>char\<close> is one code point below 128, so \<open>lower\<close> and \<open>strip\<close> act on
  ASCII letters and whitespace); dictionary keys are strings. A JSON text and the value it
  denotes are identified: a file holds the value last written to it.
\<close>

datatype pyval =
    PNone
  | PBool bool
  | PInt int
  | PFloat pyfloat
  | PStr string
  | PList "pyval list"
  | PDict "(string \<times> pyval) list"

type_synonym pydict = "(string \<times> pyval) list"

text \<open>A JSON or YAML file is None where it does not exist and \<open>Some None\<close> where it does not parse; a
  JSON-lines file is the list of its non-blank lines, None for a line that is not JSON.\<close>

type_synonym json_file = "pyval option option"
type_synonym json_lines = "pyval option list"

section \<open>Truth, lookup\<close>

fun truthy :: "pyval \<Rightarrow> bool" where
  "truthy PNone = False"
| "truthy (PBool b) = b"
| "truthy (PInt i) = (i \<noteq> 0)"
| "truthy (PFloat x) = (x \<noteq> Fin 0)"
| "truthy (PStr s) = (s \<noteq> [])"
| "truthy (PList xs) = (xs \<noteq> [])"
| "truthy (PDict d) = (d \<noteq> [])"

definition py_or :: "pyval \<Rightarrow> pyval \<Rightarrow> pyval" where
  "py_or a b = (if truthy a then a else b)"

definition dget :: "pydict \<Rightarrow> string \<Rightarrow> pyval" where
  "dget d k = (case map_of d k of None \<Rightarrow> PNone | Some v \<Rightarrow> v)"

definition dget_def :: "pydict \<Rightarrow> string \<Rightarrow> pyval \<Rightarrow> pyval" where
  "dget_def d k v0 = (case map_of d k of None \<Rightarrow> v0 | Some v \<Rightarrow> v)"

text \<open>\<open>d[k]\<close> raises where \<open>get\<close> gives None.\<close>

definition dindex :: "pydict \<Rightarrow> string \<Rightarrow> pyval res" where
  "dindex d k = (case map_of d k of None \<Rightarrow> Inl KeyError | Some v \<Rightarrow> Inr v)"

definition is_mapping :: "pyval \<Rightarrow> bool" where
  "is_mapping v = (case v of PDict _ \<Rightarrow> True | _ \<Rightarrow> False)"

text \<open>The dictionary of a value tested with \<open>isinstance(v, Mapping)\<close>, else the empty one.\<close>

definition mapping_or_empty :: "pyval \<Rightarrow> pydict" where
  "mapping_or_empty v = (case v of PDict d \<Rightarrow> d | _ \<Rightarrow> [])"

text \<open>An optional string field as a JSON value and back.\<close>

definition ostr :: "string option \<Rightarrow> pyval" where
  "ostr x = (case x of None \<Rightarrow> PNone | Some s \<Rightarrow> PStr s)"

lemma ostr_simps [simp]: "ostr None = PNone" "ostr (Some s) = PStr s"
  by (simp_all add: ostr_def)

text \<open>\<open>a or b\<close> on optional strings: None and the empty string are false.\<close>

definition str_or :: "string option \<Rightarrow> string option \<Rightarrow> string option" where
  "str_or a b = (case a of Some (c # cs) \<Rightarrow> a | _ \<Rightarrow> b)"

definition otrue :: "string option \<Rightarrow> bool" where
  "otrue a = (case a of Some (c # cs) \<Rightarrow> True | _ \<Rightarrow> False)"

lemma str_or_simps [simp]:
  "str_or None b = b" "str_or (Some []) b = b" "str_or (Some (c # cs)) b = Some (c # cs)"
  by (simp_all add: str_or_def)

lemma otrue_simps [simp]: "\<not> otrue None" "\<not> otrue (Some [])" "otrue (Some (c # cs))"
  by (simp_all add: otrue_def)

lemma str_or_alt: "str_or a b = (if otrue a then a else b)"
  by (simp add: str_or_def otrue_def split: option.split list.split)

section \<open>Strings\<close>

definition chr_lower :: "char \<Rightarrow> char" where
  "chr_lower c = (let n = of_char c :: nat in if 65 \<le> n \<and> n \<le> 90 then char_of (n + 32) else c)"

definition str_lower :: "string \<Rightarrow> string" where
  "str_lower s = map chr_lower s"

definition chr_upper :: "char \<Rightarrow> char" where
  "chr_upper c = (let n = of_char c :: nat in if 97 \<le> n \<and> n \<le> 122 then char_of (n - 32) else c)"

definition str_upper :: "string \<Rightarrow> string" where
  "str_upper s = map chr_upper s"

definition is_space :: "char \<Rightarrow> bool" where
  "is_space c = (let n = of_char c :: nat in (9 \<le> n \<and> n \<le> 13) \<or> (28 \<le> n \<and> n \<le> 32))"

definition str_strip :: "string \<Rightarrow> string" where
  "str_strip s = rev (dropWhile is_space (rev (dropWhile is_space s)))"

definition starts_with :: "string \<Rightarrow> string \<Rightarrow> bool" where
  "starts_with p s = (take (length p) s = p)"

definition ends_with :: "string \<Rightarrow> string \<Rightarrow> bool" where
  "ends_with p s = (length p \<le> length s \<and> drop (length s - length p) s = p)"

text \<open>\<open>s.replace(old, new)\<close>: every occurrence from the left, for a non-empty \<open>old\<close>.\<close>

function str_replace :: "string \<Rightarrow> string \<Rightarrow> string \<Rightarrow> string" where
  "str_replace old new s =
     (case s of [] \<Rightarrow> []
      | c # cs \<Rightarrow> if old \<noteq> [] \<and> starts_with old s
          then new @ str_replace old new (drop (length old) s)
          else c # str_replace old new cs)"
  by pat_completeness auto
termination
  by (relation "measure (\<lambda>(old, new, s). length s)") auto

declare str_replace.simps [simp del]

text \<open>\<open>s.split(sep, 1)\<close> for a non-empty separator: the text before and after it, if present.\<close>

fun split_once :: "string \<Rightarrow> string \<Rightarrow> (string \<times> string) option" where
  "split_once sep [] = None"
| "split_once sep (c # cs) =
     (if starts_with sep (c # cs) then Some ([], drop (length sep) (c # cs))
      else map_option (\<lambda>(a, b). (c # a, b)) (split_once sep cs))"

fun str_join :: "string \<Rightarrow> string list \<Rightarrow> string" where
  "str_join sep [] = []"
| "str_join sep [x] = x"
| "str_join sep (x # y # ys) = x @ sep @ str_join sep (y # ys)"

lemma starts_with_append [simp]: "starts_with p (p @ s)"
  by (simp add: starts_with_def)

lemma starts_withE: "starts_with p s \<Longrightarrow> \<exists>t. s = p @ t"
  unfolding starts_with_def by (metis append_take_drop_id)

section \<open>Numbers as text\<close>

definition digit_char :: "nat \<Rightarrow> char" where
  "digit_char n = char_of (48 + n)"

definition is_digit :: "char \<Rightarrow> bool" where
  "is_digit c = (let n = of_char c :: nat in 48 \<le> n \<and> n \<le> 57)"

definition digit_val :: "char \<Rightarrow> nat" where
  "digit_val c = of_char c - 48"

text \<open>The decimal digits of a non-negative integer.\<close>

function nat_str :: "int \<Rightarrow> string" where
  "nat_str n = (if n < 10 then [digit_char (nat n)]
     else nat_str (n div 10) @ [digit_char (nat (n mod 10))])"
  by pat_completeness auto
termination
  by (relation "measure nat") auto

declare nat_str.simps [simp del]

definition int_str :: "int \<Rightarrow> string" where
  "int_str i = (if i < 0 then ''-'' @ nat_str (- i) else nat_str i)"

text \<open>A number printed with at least \<open>w\<close> digits, and read back from exactly \<open>w\<close> digits.\<close>

fun pad_str :: "nat \<Rightarrow> nat \<Rightarrow> string" where
  "pad_str 0 n = []"
| "pad_str (Suc w) n = pad_str w (n div 10) @ [digit_char (n mod 10)]"

definition digits_val :: "string \<Rightarrow> nat" where
  "digits_val s = foldl (\<lambda>a c. 10 * a + digit_val c) 0 s"

definition read_digits :: "nat \<Rightarrow> string \<Rightarrow> (nat \<times> string) option" where
  "read_digits w s = (let d = take w s in
     if length d = w \<and> list_all is_digit d then Some (digits_val d, drop w s) else None)"

lemma digit_char_props [simp]:
  "n < 10 \<Longrightarrow> is_digit (digit_char n)" "n < 10 \<Longrightarrow> digit_val (digit_char n) = n"
  by (simp_all add: digit_char_def is_digit_def digit_val_def Let_def)

lemma length_pad_str [simp]: "length (pad_str w n) = w"
  by (induction w n rule: pad_str.induct) auto

lemma pad_str_digits [simp]: "list_all is_digit (pad_str w n)"
  by (induction w n rule: pad_str.induct) auto

lemma digits_val_pad: "n < 10 ^ w \<Longrightarrow> digits_val (pad_str w n) = n"
proof (induction w n rule: pad_str.induct)
  case (2 w n)
  then have "n div 10 < 10 ^ w" by (simp add: less_mult_imp_div_less mult.commute)
  with 2 have "digits_val (pad_str w (n div 10)) = n div 10" by simp
  then show ?case by (simp add: digits_val_def)
qed (simp add: digits_val_def)

lemma read_digits_pad [simp]: "n < 10 ^ w \<Longrightarrow> read_digits w (pad_str w n @ r) = Some (n, r)"
  by (simp add: read_digits_def Let_def digits_val_pad)

section \<open>str and iteration\<close>

text \<open>
  The shortest decimal that rounds to the float. \<open>dec_exp x\<close> is the decimal exponent of the
  leading digit; with \<open>n\<close> digits the candidates are the two \<open>n\<close>-digit neighbours, the nearer
  one first, and the first that reads back as \<open>x\<close> is taken (17 digits always do).
\<close>

fun dec_exp_up :: "nat \<Rightarrow> rat \<Rightarrow> int" where
  "dec_exp_up 0 x = 0"
| "dec_exp_up (Suc k) x = (if 10 \<le> x then 1 + dec_exp_up k (x / 10) else 0)"

fun dec_exp_down :: "nat \<Rightarrow> rat \<Rightarrow> int" where
  "dec_exp_down 0 x = 0"
| "dec_exp_down (Suc k) x = (if x < 1 then dec_exp_down k (x * 10) - 1 else 0)"

definition dec_exp :: "rat \<Rightarrow> int" where
  "dec_exp x = (if 1 \<le> x then dec_exp_up 330 x else dec_exp_down 330 x)"

definition pow10 :: "int \<Rightarrow> rat" where
  "pow10 k = (if 0 \<le> k then 10 ^ nat k else 1 / 10 ^ nat (- k))"

fun shortest :: "nat \<Rightarrow> nat \<Rightarrow> rat \<Rightarrow> int \<Rightarrow> int \<times> int" where
  "shortest 0 n x e = (rhe (x / pow10 (e - 16)), e - 16)"
| "shortest (Suc f) n x e =
     (let s = e - int n + 1; y = x / pow10 s; a = rhe y; b = (if of_int a \<le> y then a + 1 else a - 1)
      in if rnd (of_int a * pow10 s) = Fin x then (a, s)
         else if rnd (of_int b * pow10 s) = Fin x then (b, s)
         else shortest f (Suc n) x e)"

definition zeros :: "nat \<Rightarrow> string" where
  "zeros n = replicate n CHR ''0''"

definition pos_float_str :: "rat \<Rightarrow> string" where
  "pos_float_str x =
     (let (m, s) = shortest 16 1 x (dec_exp x); ds = nat_str m; n = length ds;
          e = s + int n - 1
      in if - 4 \<le> e \<and> e < 16 then
           (if 0 \<le> s then ds @ zeros (nat s) @ ''.0''
            else if 0 \<le> e then take (nat e + 1) ds @ ''.'' @ drop (nat e + 1) ds
            else ''0.'' @ zeros (nat (- e - 1)) @ ds)
         else take 1 ds @ (if n = 1 then [] else ''.'' @ drop 1 ds) @ ''e'' @ (if e < 0 then ''-'' else ''+'')
           @ (if abs e < 10 then ''0'' else []) @ nat_str (abs e))"

fun float_str :: "pyfloat \<Rightarrow> string" where
  "float_str (Fin x) = (if x = 0 then ''0.0'' else if 0 < x then pos_float_str x else ''-'' @ pos_float_str (- x))"
| "float_str PInf = ''inf''"
| "float_str NInf = ''-inf''"
| "float_str NaN = ''nan''"

text \<open>
  \<open>repr\<close> of a string quotes it; the escapes modelled are those of the backslash, the quote and
  the control characters tab, newline and carriage return.
\<close>

definition repr_char :: "char \<Rightarrow> char \<Rightarrow> string" where
  "repr_char q c = (let n = of_char c :: nat in
     if n = 92 \<or> c = q then [char_of (92 :: nat), c]
     else if n = 10 then [char_of (92 :: nat), CHR ''n'']
     else if n = 13 then [char_of (92 :: nat), CHR ''r'']
     else if n = 9 then [char_of (92 :: nat), CHR ''t'']
     else [c])"

definition repr_str :: "string \<Rightarrow> string" where
  "repr_str s = (let a = char_of (39 :: nat); d = char_of (34 :: nat);
      q = (if a \<in> set s \<and> d \<notin> set s then d else a) in q # concat (map (repr_char q) s) @ [q])"

fun py_repr :: "pyval \<Rightarrow> string" where
  "py_repr PNone = ''None''"
| "py_repr (PBool b) = (if b then ''True'' else ''False'')"
| "py_repr (PInt i) = int_str i"
| "py_repr (PFloat x) = float_str x"
| "py_repr (PStr s) = repr_str s"
| "py_repr (PList xs) = ''['' @ str_join '', '' (map py_repr xs) @ '']''"
| "py_repr (PDict d) =
     ''{'' @ str_join '', '' (map (\<lambda>(k, v). repr_str k @ '': '' @ py_repr v) d) @ ''}''"

definition py_str :: "pyval \<Rightarrow> string" where
  "py_str v = (case v of PStr s \<Rightarrow> s | _ \<Rightarrow> py_repr v)"

lemma py_str_PStr [simp]: "py_str (PStr s) = s"
  by (simp add: py_str_def)

lemma py_str_PNone [simp]: "py_str PNone = ''None''"
  by (simp add: py_str_def)

text \<open>\<open>json.dumps(v, ensure_ascii=False)\<close> with its default separators.\<close>

definition hex_char :: "nat \<Rightarrow> char" where
  "hex_char n = (if n < 10 then digit_char n else char_of (n + 87))"

definition json_char :: "char \<Rightarrow> string" where
  "json_char c = (let n = of_char c :: nat; b = char_of (92 :: nat) in
     if n = 92 \<or> n = 34 then [b, c]
     else if n = 8 then [b, CHR ''b''] else if n = 12 then [b, CHR ''f'']
     else if n = 10 then [b, CHR ''n''] else if n = 13 then [b, CHR ''r''] else if n = 9 then [b, CHR ''t'']
     else if n < 32 then [b, CHR ''u'', CHR ''0'', CHR ''0'', hex_char (n div 16), hex_char (n mod 16)]
     else [c])"

definition json_str :: "string \<Rightarrow> string" where
  "json_str s = (let q = char_of (34 :: nat) in q # concat (map json_char s) @ [q])"

fun json_float :: "pyfloat \<Rightarrow> string" where
  "json_float PInf = ''Infinity''"
| "json_float NInf = ''-Infinity''"
| "json_float NaN = ''NaN''"
| "json_float a = float_str a"

fun json_text :: "pyval \<Rightarrow> string" where
  "json_text PNone = ''null''"
| "json_text (PBool b) = (if b then ''true'' else ''false'')"
| "json_text (PInt i) = int_str i"
| "json_text (PFloat x) = json_float x"
| "json_text (PStr s) = json_str s"
| "json_text (PList xs) = ''['' @ str_join '', '' (map json_text xs) @ '']''"
| "json_text (PDict d) = ''{'' @ str_join '', '' (map (\<lambda>(k, v). json_str k @ '': '' @ json_text v) d) @ ''}''"

text \<open>Iterating a value: a list's elements, a dictionary's keys, a string's characters.\<close>

definition py_iter :: "pyval \<Rightarrow> pyval list res" where
  "py_iter v = (case v of PList xs \<Rightarrow> Inr xs | PDict d \<Rightarrow> Inr (map (PStr \<circ> fst) d)
     | PStr s \<Rightarrow> Inr (map (\<lambda>c. PStr [c]) s) | _ \<Rightarrow> Inl TypeError)"

section \<open>int and float\<close>

text \<open>
  The text accepted by \<open>int\<close> and \<open>float\<close>: surrounding whitespace, a sign, digits that may
  be grouped by single underscores, and for \<open>float\<close> a fraction, an exponent, or one of the
  words \<open>inf\<close>, \<open>infinity\<close> and \<open>nan\<close> in any case.
\<close>

fun digit_group :: "bool \<Rightarrow> string \<Rightarrow> bool" where
  "digit_group prev [] = prev"
| "digit_group prev (c # cs) =
     (if is_digit c then digit_group True cs else c = CHR ''_'' \<and> prev \<and> cs \<noteq> [] \<and> digit_group False cs)"

definition digits_int :: "string \<Rightarrow> int" where
  "digits_int s = foldl (\<lambda>a c. 10 * a + int (digit_val c)) 0 (filter is_digit s)"

definition split_sign :: "string \<Rightarrow> bool \<times> string" where
  "split_sign s = (case s of c # cs \<Rightarrow> if c = CHR ''-'' then (True, cs) else if c = CHR ''+'' then (False, cs) else (False, s)
     | [] \<Rightarrow> (False, []))"

definition parse_int :: "string \<Rightarrow> int option" where
  "parse_int s = (let (neg, ds) = split_sign (str_strip s) in
     if digit_group False ds then Some (if neg then - digits_int ds else digits_int ds) else None)"

definition split_at_char :: "(char \<Rightarrow> bool) \<Rightarrow> string \<Rightarrow> string \<times> string option" where
  "split_at_char P s = (let a = takeWhile (\<lambda>c. \<not> P c) s in
     (a, case dropWhile (\<lambda>c. \<not> P c) s of [] \<Rightarrow> None | _ # r \<Rightarrow> Some r))"

definition parse_ufloat :: "string \<Rightarrow> rat option" where
  "parse_ufloat s =
     (let (m, ex) = split_at_char (\<lambda>c. c = CHR ''e'' \<or> c = CHR ''E'') s;
          (ip, fp) = split_at_char (\<lambda>c. c = CHR ''.'') m;
          f = (case fp of None \<Rightarrow> [] | Some t \<Rightarrow> t);
          fd = filter is_digit f;
          ok = ((ip = [] \<or> digit_group False ip) \<and> (f = [] \<or> digit_group False f) \<and> (ip \<noteq> [] \<or> f \<noteq> []));
          e = (case ex of None \<Rightarrow> Some 0 | Some t \<Rightarrow> (let (n, ds) = split_sign t in
                 if digit_group False ds then Some (if n then - digits_int ds else digits_int ds) else None))
      in if ok then map_option (\<lambda>k. (of_int (digits_int ip) + of_int (digits_int fd) / 10 ^ length fd) * pow10 k) e
         else None)"

definition parse_float :: "string \<Rightarrow> pyfloat option" where
  "parse_float s =
     (let (neg, t) = split_sign (str_strip s); l = str_lower t
      in if l = ''inf'' \<or> l = ''infinity'' then Some (if neg then NInf else PInf)
         else if l = ''nan'' then Some NaN
         else map_option (\<lambda>x. rnd (if neg then - x else x)) (parse_ufloat t))"

text \<open>\<open>int(v)\<close> and \<open>float(v)\<close>: \<open>int\<close> of an infinity is an OverflowError, of NaN a ValueError; \<open>float\<close> of an
  integer out of range is an OverflowError.\<close>

definition rat_trunc :: "rat \<Rightarrow> int" where
  "rat_trunc x = (if 0 \<le> x then floor x else - floor (- x))"

definition py_int :: "pyval \<Rightarrow> int res" where
  "py_int v = (case v of PInt i \<Rightarrow> Inr i | PBool b \<Rightarrow> Inr (if b then 1 else 0)
     | PFloat (Fin x) \<Rightarrow> Inr (rat_trunc x) | PFloat NaN \<Rightarrow> Inl ValueError | PFloat _ \<Rightarrow> Inl OverflowError
     | PStr s \<Rightarrow> (case parse_int s of None \<Rightarrow> Inl ValueError | Some i \<Rightarrow> Inr i)
     | _ \<Rightarrow> Inl TypeError)"

definition py_float :: "pyval \<Rightarrow> pyfloat res" where
  "py_float v = (case v of PInt i \<Rightarrow> (case f_of_int i of Fin x \<Rightarrow> Inr (Fin x) | _ \<Rightarrow> Inl OverflowError) | PBool b \<Rightarrow> Inr (if b then Fin 1 else Fin 0)
     | PFloat x \<Rightarrow> Inr x
     | PStr s \<Rightarrow> (case parse_float s of None \<Rightarrow> Inl ValueError | Some x \<Rightarrow> Inr x)
     | _ \<Rightarrow> Inl TypeError)"

text \<open>A conversion inside \<open>try: ... except (TypeError, ValueError): return None\<close>.\<close>

definition or_none :: "'a res \<Rightarrow> 'a option res" where
  "or_none r = (case r of Inr x \<Rightarrow> Inr (Some x)
     | Inl e \<Rightarrow> if e = TypeError \<or> e = ValueError then Inr None else Inl e)"

lemma or_none_simps [simp]:
  "or_none (Inr x) = Inr (Some x)" "or_none (Inl TypeError) = Inr None" "or_none (Inl ValueError) = Inr None"
  "or_none (Inl OverflowError) = Inl OverflowError"
  by (simp_all add: or_none_def)

text \<open>\<open>f"{x:.nf}"\<close>: the exact value to \<open>n\<close> decimals, ties to even.\<close>

fun fmt_fixed :: "nat \<Rightarrow> pyfloat \<Rightarrow> string" where
  "fmt_fixed n (Fin x) = (let m = rhe (abs x * 10 ^ n) in
     (if x < 0 then ''-'' else []) @ int_str (m div 10 ^ n) @ (if n = 0 then [] else ''.'' @ pad_str n (nat (m mod 10 ^ n))))"
| "fmt_fixed n a = float_str a"

section \<open>Typed reads\<close>

text \<open>
  Reading a field whose annotation is \<open>str\<close>, \<open>str | None\<close> or \<open>list[str]\<close>. The code stores what
  it finds unchecked; the typed records of the model report another JSON type as TypeError.
\<close>

definition as_text :: "pyval \<Rightarrow> string res" where
  "as_text v = (case v of PStr s \<Rightarrow> Inr s | _ \<Rightarrow> Inl TypeError)"

definition opt_text :: "pyval \<Rightarrow> string option res" where
  "opt_text v = (case v of PNone \<Rightarrow> Inr None | PStr s \<Rightarrow> Inr (Some s) | _ \<Rightarrow> Inl TypeError)"

definition text_list :: "pyval \<Rightarrow> string list res" where
  "text_list v = bind_res (py_iter v) (map_res as_text)"

text \<open>Subscripting a value that is not a dictionary with a string is a TypeError.\<close>

definition as_dict :: "pyval \<Rightarrow> pydict res" where
  "as_dict v = (case v of PDict d \<Rightarrow> Inr d | _ \<Rightarrow> Inl TypeError)"

text \<open>Calling \<open>get\<close> on it is an AttributeError.\<close>

definition as_dict_get :: "pyval \<Rightarrow> pydict res" where
  "as_dict_get v = (case v of PDict d \<Rightarrow> Inr d | _ \<Rightarrow> Inl AttributeError)"

lemma as_dict_get_PDict [simp]: "as_dict_get (PDict d) = Inr d"
  by (simp add: as_dict_get_def)

lemma typed_reads [simp]:
  "as_text (PStr s) = Inr s" "opt_text (ostr x) = Inr x" "opt_text PNone = Inr None"
  "opt_text (PStr s) = Inr (Some s)" "as_dict (PDict d) = Inr d" "py_int (PInt i) = Inr i"
  by (cases x; simp add: as_text_def opt_text_def as_dict_def py_int_def)+

lemma text_list_map [simp]: "text_list (PList (map PStr xs)) = Inr xs"
proof -
  have "map_res as_text (map PStr xs) = Inr (map py_str (map PStr xs))"
    by (rule map_res_all_Inr) auto
  then show ?thesis by (simp add: text_list_def py_iter_def comp_def)
qed

text \<open>\<open>dict(v)\<close>; a non-empty list of pairs is outside the model.\<close>

definition py_dict :: "pyval \<Rightarrow> pydict res" where
  "py_dict v = (case v of PDict d \<Rightarrow> Inr d
     | PStr s \<Rightarrow> if s = [] then Inr [] else Inl ValueError
     | PList xs \<Rightarrow> if xs = [] then Inr [] else Inl (Unmodelled ''dict of a list'')
     | _ \<Rightarrow> Inl TypeError)"

section \<open>Lookup laws\<close>

lemma str_strip_Nil [simp]: "str_strip [] = []"
  by (simp add: str_strip_def)

lemma dget_simps [simp]:
  "dget [] k = PNone"
  "dget ((k', v) # d) k = (if k = k' then v else dget d k)"
  by (simp_all add: dget_def)

lemma dget_def_simps [simp]:
  "dget_def [] k v0 = v0"
  "dget_def ((k', v) # d) k v0 = (if k = k' then v else dget_def d k v0)"
  by (simp_all add: dget_def_def)

lemma dindex_simps [simp]:
  "dindex [] k = Inl KeyError"
  "dindex ((k', v) # d) k = (if k = k' then Inr v else dindex d k)"
  by (simp_all add: dindex_def)

lemma truthy_ostr [simp]: "truthy (ostr x) = otrue x"
  by (simp add: ostr_def otrue_def split: option.split list.split)

lemma mapping_or_empty_simps [simp]: "mapping_or_empty (PDict d) = d" "mapping_or_empty PNone = []"
  by (simp_all add: mapping_or_empty_def)

end
