(* ===== verification/PyTime.thy ===== *)
theory PyTime
  imports PyValue
begin

text \<open>
  Dates and times as the code uses them: \<open>datetime\<close> values with an optional UTC offset (in
  seconds), their \<open>isoformat\<close> text, \<open>fromisoformat\<close> of the extended calendar form
  (\<open>YYYY-MM-DD\<close>, any one-character separator, \<open>HH:MM[:SS[.f+]]\<close>, then nothing, \<open>Z\<close> or
  \<open>+HH:MM[:SS]\<close>), and the instant they denote, in microseconds since 1970-01-01 UTC. The basic
  form without separators and week dates are not modelled: no writer of the repository emits
  them. The main lemma is the round trip of \<open>isoformat\<close> and \<open>fromisoformat\<close>.
\<close>

record pydt =
  yr :: nat
  mo :: nat
  dy :: nat
  hh :: nat
  mi :: nat
  ss :: nat
  us :: nat
  tzo :: "int option"

definition is_leap :: "nat \<Rightarrow> bool" where
  "is_leap y = (y mod 4 = 0 \<and> (y mod 100 \<noteq> 0 \<or> y mod 400 = 0))"

definition month_len :: "nat \<Rightarrow> nat \<Rightarrow> nat" where
  "month_len y m = (if m = 2 then (if is_leap y then 29 else 28)
     else if m \<in> {4, 6, 9, 11} then 30 else 31)"

definition valid_dt :: "pydt \<Rightarrow> bool" where
  "valid_dt d \<longleftrightarrow> 1 \<le> yr d \<and> yr d \<le> 9999 \<and> 1 \<le> mo d \<and> mo d \<le> 12 \<and> 1 \<le> dy d \<and> dy d \<le> month_len (yr d) (mo d)
     \<and> hh d < 24 \<and> mi d < 60 \<and> ss d < 60 \<and> us d < 1000000
     \<and> (case tzo d of None \<Rightarrow> True | Some z \<Rightarrow> abs z < 86400)"

section \<open>isoformat\<close>

definition offset_str :: "int \<Rightarrow> string" where
  "offset_str z = (let a = nat (abs z); h = a div 3600; m = a div 60 mod 60; s = a mod 60
     in (if z < 0 then ''-'' else ''+'') @ pad_str 2 h @ '':'' @ pad_str 2 m
        @ (if s = 0 then [] else '':'' @ pad_str 2 s))"

definition isoformat :: "pydt \<Rightarrow> string" where
  "isoformat d = pad_str 4 (yr d) @ ''-'' @ pad_str 2 (mo d) @ ''-'' @ pad_str 2 (dy d) @ ''T''
     @ pad_str 2 (hh d) @ '':'' @ pad_str 2 (mi d) @ '':'' @ pad_str 2 (ss d)
     @ (if us d = 0 then [] else ''.'' @ pad_str 6 (us d))
     @ (case tzo d of None \<Rightarrow> [] | Some z \<Rightarrow> offset_str z)"

section \<open>fromisoformat\<close>

definition expect :: "char \<Rightarrow> string \<Rightarrow> string option" where
  "expect c s = (case s of [] \<Rightarrow> None | x # xs \<Rightarrow> if x = c then Some xs else None)"

text \<open>Digits after the decimal point: the first six count, the rest is dropped.\<close>

definition read_fraction :: "string \<Rightarrow> (nat \<times> string) option" where
  "read_fraction s = (let ds = takeWhile is_digit s in
     if ds = [] then None
     else Some (digits_val (take 6 (ds @ replicate 6 CHR ''0'')), dropWhile is_digit s))"

definition read_seconds :: "string \<Rightarrow> (nat \<times> nat \<times> string) option" where
  "read_seconds r = (case expect CHR '':'' r of None \<Rightarrow> Some (0, 0, r)
     | Some r1 \<Rightarrow> (case read_digits 2 r1 of None \<Rightarrow> None
       | Some (s, r2) \<Rightarrow> (case r2 of
           c # r3 \<Rightarrow> if c = CHR ''.'' \<or> c = CHR '',''
             then map_option (\<lambda>(u, r4). (s, u, r4)) (read_fraction r3) else Some (s, 0, r2)
         | [] \<Rightarrow> Some (s, 0, r2))))"

definition read_offset :: "string \<Rightarrow> int option option" where
  "read_offset r = (case r of [] \<Rightarrow> Some None
     | c # r0 \<Rightarrow>
        if c = CHR ''Z'' then (if r0 = [] then Some (Some 0) else None)
        else if c = CHR ''+'' \<or> c = CHR ''-'' then
          (case read_digits 2 r0 of None \<Rightarrow> None | Some (h, r1) \<Rightarrow>
            (case expect CHR '':'' r1 of None \<Rightarrow> (if r1 = [] then Some (Some ((if c = CHR ''-'' then - 1 else 1) * int (h * 3600))) else None)
             | Some r2 \<Rightarrow> (case read_digits 2 r2 of None \<Rightarrow> None | Some (m, r3) \<Rightarrow>
                 (case read_seconds r3 of None \<Rightarrow> None
                  | Some (s, u, r4) \<Rightarrow> if r4 = [] \<and> u = 0
                      then Some (Some ((if c = CHR ''-'' then - 1 else 1) * int (h * 3600 + m * 60 + s)))
                      else None))))
        else None)"

definition read_date :: "string \<Rightarrow> (nat \<times> nat \<times> nat \<times> string) option" where
  "read_date s = (case read_digits 4 s of None \<Rightarrow> None | Some (y, r1) \<Rightarrow>
     (case expect CHR ''-'' r1 of None \<Rightarrow> None | Some r2 \<Rightarrow>
     (case read_digits 2 r2 of None \<Rightarrow> None | Some (m, r3) \<Rightarrow>
     (case expect CHR ''-'' r3 of None \<Rightarrow> None | Some r4 \<Rightarrow>
     (case read_digits 2 r4 of None \<Rightarrow> None | Some (d, r5) \<Rightarrow> Some (y, m, d, r5))))))"

definition read_time :: "string \<Rightarrow> (nat \<times> nat \<times> nat \<times> nat \<times> int option) option" where
  "read_time r = (case read_digits 2 r of None \<Rightarrow> None | Some (h, r1) \<Rightarrow>
     (case expect CHR '':'' r1 of
        None \<Rightarrow> map_option (\<lambda>z. (h, 0, 0, 0, z)) (read_offset r1)
      | Some r2 \<Rightarrow> (case read_digits 2 r2 of None \<Rightarrow> None | Some (m, r3) \<Rightarrow>
          (case read_seconds r3 of None \<Rightarrow> None | Some (s, u, r4) \<Rightarrow>
             map_option (\<lambda>z. (h, m, s, u, z)) (read_offset r4)))))"

definition fromisoformat :: "string \<Rightarrow> pydt option" where
  "fromisoformat s = (case read_date s of None \<Rightarrow> None | Some (y, m, d, r) \<Rightarrow>
     (let mk = (\<lambda>h n q u z. let dt = \<lparr>yr = y, mo = m, dy = d, hh = h, mi = n, ss = q, us = u, tzo = z\<rparr>
                  in if valid_dt dt then Some dt else None)
      in case r of [] \<Rightarrow> mk 0 0 0 0 None
       | sep # r1 \<Rightarrow> (case read_time r1 of None \<Rightarrow> None | Some (h, n, q, u, z) \<Rightarrow> mk h n q u z)))"

section \<open>The instant\<close>

text \<open>Days from 1970-01-01 in the proleptic Gregorian calendar.\<close>

definition days_from_civil :: "nat \<Rightarrow> nat \<Rightarrow> nat \<Rightarrow> int" where
  "days_from_civil y m d =
     (let y' = int y - (if m \<le> 2 then 1 else 0); era = y' div 400; yoe = y' - era * 400;
          mp = (int m + 9) mod 12; doy = (153 * mp + 2) div 5 + int d - 1;
          doe = yoe * 365 + yoe div 4 - yoe div 100 + doy
      in era * 146097 + doe - 719468)"

text \<open>The date of a day number: year, month, day.\<close>

definition civil_from_days :: "int \<Rightarrow> int \<times> int \<times> int" where
  "civil_from_days n =
     (let z = n + 719468; era = z div 146097; doe = z mod 146097;
          yoe = (doe - doe div 1460 + doe div 36524 - doe div 146096) div 365;
          doy = doe - (365 * yoe + yoe div 4 - yoe div 100); mp = (5 * doy + 2) div 153;
          d = doy - (153 * mp + 2) div 5 + 1; m = (if mp < 10 then mp + 3 else mp - 9)
      in (yoe + era * 400 + (if m \<le> 2 then 1 else 0), m, d))"

text \<open>\<open>date().isoformat()\<close> of the instant of so many microseconds, in UTC.\<close>

definition date_iso :: "int \<Rightarrow> string" where
  "date_iso t = (let (y, m, d) = civil_from_days (t div 86400000000)
     in pad_str 4 (nat y) @ ''-'' @ pad_str 2 (nat m) @ ''-'' @ pad_str 2 (nat d))"

definition epoch_us :: "pydt \<Rightarrow> int" where
  "epoch_us d = ((days_from_civil (yr d) (mo d) (dy d) * 86400 + int (hh d * 3600 + mi d * 60 + ss d)
      - (case tzo d of None \<Rightarrow> 0 | Some z \<Rightarrow> z)) * 1000000) + int (us d)"

text \<open>\<open>weekday()\<close>: Monday is 0.\<close>

definition weekday_of_days :: "int \<Rightarrow> int" where
  "weekday_of_days n = (n + 3) mod 7"

text \<open>The \<open>_utcnow_iso()\<close> of a clock reading: whole seconds, UTC written as \<open>Z\<close>.\<close>

definition utc_iso :: "pydt \<Rightarrow> string" where
  "utc_iso now = str_replace ''+00:00'' ''Z'' (isoformat (now\<lparr>us := 0\<rparr>))"

section \<open>Round trip\<close>

lemma expect_simps [simp]: "expect c [] = None" "expect c (x # xs) = (if x = c then Some xs else None)"
  by (simp_all add: expect_def)

lemma read_digits_pad' [simp]: "n < 10 ^ w \<Longrightarrow> read_digits w (pad_str w n) = Some (n, [])"
  using read_digits_pad [of n w "[]"] by simp

lemma not_digit_chars [simp]:
  "\<not> is_digit CHR ''+''" "\<not> is_digit CHR ''-''" "\<not> is_digit CHR ''Z''"
  by (simp_all add: is_digit_def)

lemma takeWhile_pad [simp]:
  "(case r of [] \<Rightarrow> True | c # _ \<Rightarrow> \<not> is_digit c) \<Longrightarrow> takeWhile is_digit (pad_str w n @ r) = pad_str w n"
  "(case r of [] \<Rightarrow> True | c # _ \<Rightarrow> \<not> is_digit c) \<Longrightarrow> dropWhile is_digit (pad_str w n @ r) = r"
  using pad_str_digits [of w n]
  by (cases r; simp add: list_all_iff takeWhile_append2 dropWhile_append2 takeWhile_tail)+

lemma read_fraction_pad [simp]:
  "n < 1000000 \<Longrightarrow> (case r of [] \<Rightarrow> True | c # _ \<Rightarrow> \<not> is_digit c)
     \<Longrightarrow> read_fraction (pad_str 6 n @ r) = Some (n, r)"
  using length_pad_str [of 6 n] by (auto simp: read_fraction_def Let_def digits_val_pad simp del: length_pad_str)

lemma read_fraction_pad' [simp]: "n < 1000000 \<Longrightarrow> read_fraction (pad_str 6 n) = Some (n, [])"
  using read_fraction_pad [of n "[]"] by simp

lemma read_offset_str:
  assumes "abs z < 86400"
  shows "read_offset (offset_str z) = Some (Some z)"
proof -
  define a where "a = nat (abs z)"
  have a: "a < 86400" using assms by (simp add: a_def)
  have h: "a div 3600 < 100" and m: "a div 60 mod 60 < 100" and s: "a mod 60 < 100"
    using a by (simp_all add: less_mult_imp_div_less order.strict_trans [OF mod_less_divisor])
  have "a div 3600 = a div 60 div 60" using div_mult2_eq [of a 60 60] by simp
  then have sum: "a div 3600 * 3600 + a div 60 mod 60 * 60 + a mod 60 = a"
    using div_mult_mod_eq [of "a div 60" 60] div_mult_mod_eq [of a 60] by linarith
  have z: "z = (if z < 0 then - 1 else 1) * int a" by (simp add: a_def)
  show ?thesis
    using h m s sum z
    by (simp add: offset_str_def Let_def a_def [symmetric] read_offset_def read_seconds_def split: if_splits)
qed

lemma read_date_iso:
  assumes "y < 10000" "m < 100" "d < 100"
  shows "read_date (pad_str 4 y @ ''-'' @ pad_str 2 m @ ''-'' @ pad_str 2 d @ r) = Some (y, m, d, r)"
  using assms by (simp add: read_date_def)

lemma offset_str_head: "\<exists>c r. offset_str z = c # r \<and> (c = CHR ''+'' \<or> c = CHR ''-'')"
  by (auto simp: offset_str_def Let_def)

lemma read_seconds_iso:
  assumes "s < 100" "u < 1000000"
    and r: "r = [] \<or> (\<exists>c q. r = c # q \<and> (c = CHR ''+'' \<or> c = CHR ''-''))"
  shows "read_seconds (CHR '':'' # pad_str 2 s @ (if u = 0 then [] else ''.'' @ pad_str 6 u) @ r) = Some (s, u, r)"
proof (cases "u = 0")
  case True
  with assms show ?thesis by (auto simp: read_seconds_def)
next
  case False
  with assms show ?thesis by (auto simp: read_seconds_def)
qed

theorem fromisoformat_isoformat:
  assumes v: "valid_dt d"
  shows "fromisoformat (isoformat d) = Some d"
proof -
  have b: "yr d < 10000" "mo d < 100" "dy d < 100" "hh d < 100" "mi d < 100" "ss d < 100" "us d < 1000000"
    using v by (auto simp: valid_dt_def month_len_def split: if_splits)
  define r where "r = (case tzo d of None \<Rightarrow> [] | Some z \<Rightarrow> offset_str z)"
  have r: "r = [] \<or> (\<exists>c q. r = c # q \<and> (c = CHR ''+'' \<or> c = CHR ''-''))"
    using offset_str_head by (auto simp: r_def split: option.split)
  have off: "read_offset r = Some (tzo d)"
  proof (cases "tzo d")
    case None
    then show ?thesis by (simp add: r_def read_offset_def)
  next
    case (Some z)
    with v show ?thesis by (simp add: r_def valid_dt_def read_offset_str)
  qed
  have "read_time (pad_str 2 (hh d) @ '':'' @ pad_str 2 (mi d) @ '':'' @ pad_str 2 (ss d)
      @ (if us d = 0 then [] else ''.'' @ pad_str 6 (us d)) @ r) = Some (hh d, mi d, ss d, us d, tzo d)"
    using b read_seconds_iso [OF b(6,7) r] off by (simp add: read_time_def)
  moreover have "\<lparr>yr = yr d, mo = mo d, dy = dy d, hh = hh d, mi = mi d, ss = ss d, us = us d, tzo = tzo d\<rparr> = d
    \<and> valid_dt \<lparr>yr = yr d, mo = mo d, dy = dy d, hh = hh d, mi = mi d, ss = ss d, us = us d, tzo = tzo d\<rparr>"
    using v by (cases d) simp
  ultimately show ?thesis
    using b v unfolding fromisoformat_def isoformat_def r_def [symmetric]
    by (subst read_date_iso) (simp_all add: Let_def)
qed

section \<open>Timestamps in JSON\<close>

text \<open>
  \<open>_datetime_to_iso\<close> and \<open>_datetime_from_iso\<close> of \<open>src/core/gate.py\<close>: the text is stripped and a
  final \<open>Z\<close> read as \<open>+00:00\<close>.
\<close>

definition datetime_to_iso :: "pydt option \<Rightarrow> pyval" where
  "datetime_to_iso v = (case v of None \<Rightarrow> PNone | Some d \<Rightarrow> PStr (isoformat d))"

definition datetime_from_iso :: "pyval \<Rightarrow> pydt option res" where
  "datetime_from_iso v = (case v of PNone \<Rightarrow> Inr None
     | PStr s \<Rightarrow> (let t = str_strip s; t' = (if ends_with ''Z'' t then butlast t @ ''+00:00'' else t)
         in case fromisoformat t' of None \<Rightarrow> Inl ValueError | Some d \<Rightarrow> Inr (Some d))
     | _ \<Rightarrow> Inl AttributeError)"

definition valid_odt :: "pydt option \<Rightarrow> bool" where
  "valid_odt v = (case v of None \<Rightarrow> True | Some d \<Rightarrow> valid_dt d)"

lemma digit_not_space: "is_digit c \<Longrightarrow> \<not> is_space c"
  by (auto simp: is_digit_def is_space_def Let_def)

lemma str_strip_id:
  assumes "s \<noteq> []" "\<not> is_space (hd s)" "\<not> is_space (last s)"
  shows "str_strip s = s"
proof -
  from assms have a: "dropWhile is_space s = s" by (cases s) auto
  from assms have "rev s \<noteq> []" "\<not> is_space (hd (rev s))" by (simp_all add: hd_rev)
  then have "dropWhile is_space (rev s) = rev s" by (cases "rev s") auto
  with a show ?thesis by (simp add: str_strip_def)
qed

lemma pad_hd_last: "0 < w \<Longrightarrow> is_digit (hd (pad_str w n)) \<and> is_digit (last (pad_str w n))"
proof -
  assume "0 < w"
  then have "pad_str w n \<noteq> []" by (metis length_pad_str length_0_conv less_numeral_extra(3))
  with pad_str_digits [of w n] show ?thesis by (auto simp: list_all_iff)
qed

lemma pad_nonempty [simp]: "0 < w \<Longrightarrow> pad_str w n \<noteq> []"
  by (metis length_pad_str length_0_conv less_numeral_extra(3))

lemma isoformat_ends:
  "isoformat d \<noteq> [] \<and> is_digit (hd (isoformat d)) \<and> is_digit (last (isoformat d))"
proof -
  have "is_digit (last (offset_str z)) \<and> offset_str z \<noteq> []" for z
    using pad_hd_last [of 2] by (simp add: offset_str_def Let_def)
  then show ?thesis
    using pad_hd_last [of 4 "yr d"] pad_hd_last [of 2 "ss d"] pad_hd_last [of 6 "us d"]
    by (auto simp: isoformat_def split: option.split)
qed

lemma datetime_iso_roundtrip [simp]: "valid_odt v \<Longrightarrow> datetime_from_iso (datetime_to_iso v) = Inr v"
proof (cases v)
  case (Some d)
  assume "valid_odt v"
  with Some have d: "valid_dt d" by (simp add: valid_odt_def)
  have s: "str_strip (isoformat d) = isoformat d"
    using isoformat_ends [of d] by (intro str_strip_id) (auto dest: digit_not_space)
  have "last (isoformat d) \<noteq> CHR ''Z''" using isoformat_ends [of d] by auto
  then have "\<not> ends_with ''Z'' (isoformat d)"
    using isoformat_ends [of d]
    by (auto simp: ends_with_def drop_eq_Nil2 last_drop dest!: arg_cong [where f = last])
  with Some s d show ?thesis
    by (simp add: datetime_from_iso_def datetime_to_iso_def Let_def fromisoformat_isoformat)
qed (simp add: datetime_from_iso_def datetime_to_iso_def)

section \<open>The \<open>Z\<close> form\<close>

text \<open>Writing the UTC offset as \<open>Z\<close> is undone by \<open>replace("Z", "+00:00")\<close>.\<close>

lemma str_replace_Nil: "str_replace old new [] = []"
  by (simp add: str_replace.simps)

lemma str_replace_char:
  "str_replace [a] new (c # cs) = (if c = a then new @ str_replace [a] new cs else c # str_replace [a] new cs)"
  by (subst str_replace.simps) (simp add: starts_with_def)

lemma str_replace_char_skip: "a \<notin> set s \<Longrightarrow> str_replace [a] new (s @ t) = s @ str_replace [a] new t"
  by (induction s) (auto simp: str_replace_char)

lemma str_replace_undo:
  assumes "old \<noteq> []" "a \<notin> set old" "a \<notin> set s"
  shows "str_replace [a] old (str_replace old [a] s) = s"
  using assms(3)
proof (induction s rule: length_induct)
  case (1 s)
  show ?case
  proof (cases s)
    case Nil
    then show ?thesis by (simp add: str_replace_Nil)
  next
    case (Cons c cs)
    show ?thesis
    proof (cases "starts_with old s")
      case True
      then obtain t where t: "s = old @ t" by (auto dest: starts_withE)
      then have "str_replace [a] old (str_replace old [a] t) = t" using 1 assms(1) by simp
      moreover have "str_replace old [a] s = a # str_replace old [a] t"
      proof -
        have "str_replace old [a] s = [a] @ str_replace old [a] (drop (length old) s)"
          using True assms(1) Cons by (subst str_replace.simps) simp
        then show ?thesis by (simp add: t)
      qed
      ultimately show ?thesis by (simp add: str_replace_char t)
    next
      case False
      then have "str_replace old [a] s = c # str_replace old [a] cs"
        by (subst str_replace.simps) (simp add: Cons)
      with 1 Cons show ?thesis by (auto simp: str_replace_char)
    qed
  qed
qed

lemma pad_no_letter: "\<not> is_digit c \<Longrightarrow> c \<notin> set (pad_str w n)"
  using pad_str_digits [of w n] by (auto simp: list_all_iff)

lemma isoformat_no_Z: "CHR ''Z'' \<notin> set (isoformat d)"
  by (auto simp: isoformat_def offset_str_def Let_def pad_no_letter split: option.splits if_splits)

lemma iso_Z_roundtrip:
  "str_replace ''Z'' ''+00:00'' (str_replace ''+00:00'' ''Z'' (isoformat d)) = isoformat d"
  by (simp add: str_replace_undo isoformat_no_Z)

lemma utc_iso_roundtrip: "valid_dt d \<Longrightarrow> fromisoformat (str_replace ''Z'' ''+00:00'' (utc_iso d)) = Some (d\<lparr>us := 0\<rparr>)"
  by (simp add: utc_iso_def iso_Z_roundtrip fromisoformat_isoformat valid_dt_def)

end
