(* ===== verification/Systems.thy ===== *)
theory Systems
  imports Prelude
begin

text \<open>
  The interfaces several components share, as locales: a system of steps with an invariant, one
  whose steps only append to a log, and a store of records read back by key. The components
  interpret them on their own operations; a run of a component is \<open>foldl step s ops\<close>.
\<close>

section \<open>Steps that keep an invariant\<close>

text \<open>The steps that keep the invariant may be only those an \<open>allowed\<close> predicate admits.\<close>

locale guarded_system =
  fixes step :: "'s \<Rightarrow> 'op \<Rightarrow> 's"
    and allowed :: "'op \<Rightarrow> bool"
    and inv :: "'s \<Rightarrow> bool"
  assumes allowed_step_inv: "inv s \<Longrightarrow> allowed x \<Longrightarrow> inv (step s x)"
begin

lemma allowed_run_inv: "inv s \<Longrightarrow> list_all allowed xs \<Longrightarrow> inv (foldl step s xs)"
  by (induction xs arbitrary: s) (auto intro: allowed_step_inv)

end

locale step_system =
  fixes step :: "'s \<Rightarrow> 'op \<Rightarrow> 's"
    and inv :: "'s \<Rightarrow> bool"
  assumes step_inv: "inv s \<Longrightarrow> inv (step s x)"

sublocale step_system \<subseteq> guarded_system step "\<lambda>_. True" inv
  by unfold_locales (rule step_inv)

context step_system begin

lemma run_inv: "inv s \<Longrightarrow> inv (foldl step s xs)"
  by (rule allowed_run_inv) (simp_all add: list_all_iff)

end

section \<open>Steps that only append to a log\<close>

locale logged_system = step_system step inv
  for step :: "'s \<Rightarrow> 'op \<Rightarrow> 's" and inv :: "'s \<Rightarrow> bool" +
  fixes log :: "'s \<Rightarrow> 'e list"
  assumes step_log: "\<exists>new. log (step s x) = log s @ new"
begin

lemma run_log: "\<exists>new. log (foldl step s xs) = log s @ new"
proof (induction xs arbitrary: s)
  case (Cons x xs)
  obtain a where "log (step s x) = log s @ a" using step_log by blast
  moreover obtain b where "log (foldl step (step s x) xs) = log (step s x) @ b" using Cons by blast
  ultimately show ?case by simp
qed simp

lemma run_log_mem: "e \<in> set (log s) \<Longrightarrow> e \<in> set (log (foldl step s xs))"
  using run_log [of s xs] by auto

lemma run_log_length: "length (log s) \<le> length (log (foldl step s xs))"
  using run_log [of s xs] by auto

end

section \<open>Records saved and read back by key\<close>

locale keyed_store =
  fixes save :: "'r \<Rightarrow> 's \<Rightarrow> 's"
    and load :: "'k \<Rightarrow> 's \<Rightarrow> 'r option"
    and key :: "'r \<Rightarrow> 'k"
    and fits :: "'r \<Rightarrow> bool"
    and ok :: "'s \<Rightarrow> bool"
  assumes load_save_same: "ok s \<Longrightarrow> fits r \<Longrightarrow> load (key r) (save r s) = Some r"
    and load_save_other: "ok s \<Longrightarrow> fits r \<Longrightarrow> k \<noteq> key r \<Longrightarrow> load k (save r s) = load k s"
    and ok_save: "ok s \<Longrightarrow> fits r \<Longrightarrow> ok (save r s)"
begin

lemma load_save: "ok s \<Longrightarrow> fits r \<Longrightarrow> load k (save r s) = (if k = key r then Some r else load k s)"
  by (simp add: load_save_same load_save_other)

lemma ok_saves: "ok s \<Longrightarrow> list_all fits rs \<Longrightarrow> ok (foldl (\<lambda>s r. save r s) s rs)"
  by (induction rs arbitrary: s) (auto intro: ok_save)

text \<open>After any number of saves a key reads back the last record saved under it.\<close>

lemma load_saves:
  "ok s \<Longrightarrow> list_all fits rs \<Longrightarrow> load k (foldl (\<lambda>s r. save r s) s rs) =
     (case find (\<lambda>r. key r = k) (rev rs) of Some r \<Rightarrow> Some r | None \<Rightarrow> load k s)"
proof (induction rs rule: rev_induct)
  case (snoc r rs)
  then show ?case by (simp add: load_save ok_saves)
qed simp

end

end
