(* ===== verification/Gate.thy ===== *)
theory Gate
  imports PyTime Systems "HOL-Library.List_Lexorder"
begin

text \<open>
  \<open>src/core/gate.py\<close>: the gate state (market, risk and human gates, the auto-execute flag), its
  JSON form, and the aggregator that merges partial updates into it. Every update of
  \<open>GateAggregator\<close> is a function on \<open>gate_state\<close>; \<open>gate_step\<close> collects them. An argument left
  at the class's \<open>_UNSET\<close> marker is None of an option. The defensive deep copies are the
  identity here, since values are immutable.

  Shown: auto-execute is only ever on with the profit readiness at \<open>ok\<close> and reduce-only off;
  the per-symbol blocks refine one map per component; the JSON form reads back.
\<close>

section \<open>State\<close>

record news_gate =
  ng_blocked :: bool
  ng_reason :: "string option"
  ng_release_ts :: "pydt option"

record calendar_gate =
  cg_blocked :: bool
  cg_holiday_block :: bool
  cg_reason :: "string option"

record spread_gate =
  sg_state :: string
  sg_reason :: "string option"
  sg_cooldown_eta :: "pydt option"

record liquidity_gate =
  lg_state :: string
  lg_recommendation :: "string option"
  lg_updated_at :: "pydt option"

record gate_block =
  gb_news :: "news_gate option"
  gb_calendar :: "calendar_gate option"
  gb_spread :: "spread_gate option"

record market_gate =
  mg_news :: news_gate
  mg_calendar :: calendar_gate
  mg_spread :: spread_gate
  mg_liquidity :: liquidity_gate
  mg_latency :: string
  mg_slippage :: string
  mg_readiness :: string
  mg_per_symbol :: "(string \<times> gate_block) list"

record risk_gate =
  rg_reduce_only :: bool
  rg_reduce_only_reason :: "string option"
  rg_kill_switch :: "string option"
  rg_kill_switch_reason :: "string option"

record human_gate =
  hg_double_entry :: bool
  hg_required_roles :: "string list"
  hg_acknowledged_roles :: "string list"
  hg_comment_required :: bool
  hg_comment_min :: int
  hg_ack_deadline :: "pydt option"

record gate_state =
  gs_market :: market_gate
  gs_risk :: risk_gate
  gs_human :: human_gate
  gs_auto_execute :: bool
  gs_cfg_hash :: "string option"
  gs_data_hash :: "string option"
  gs_schema_version :: pyval

definition gate_block_empty :: "gate_block \<Rightarrow> bool" where
  "gate_block_empty b = (gb_news b = None \<and> gb_calendar b = None \<and> gb_spread b = None)"

definition new_gate_block :: gate_block where
  "new_gate_block = \<lparr>gb_news = None, gb_calendar = None, gb_spread = None\<rparr>"

definition market_default :: market_gate where
  "market_default = \<lparr>
     mg_news = \<lparr>ng_blocked = False, ng_reason = None, ng_release_ts = None\<rparr>,
     mg_calendar = \<lparr>cg_blocked = False, cg_holiday_block = False, cg_reason = None\<rparr>,
     mg_spread = \<lparr>sg_state = ''normal'', sg_reason = None, sg_cooldown_eta = None\<rparr>,
     mg_liquidity = \<lparr>lg_state = ''normal'', lg_recommendation = None, lg_updated_at = None\<rparr>,
     mg_latency = ''ok'', mg_slippage = ''ok'', mg_readiness = ''ok'', mg_per_symbol = []\<rparr>"

definition risk_default :: risk_gate where
  "risk_default = \<lparr>rg_reduce_only = False, rg_reduce_only_reason = None,
     rg_kill_switch = None, rg_kill_switch_reason = None\<rparr>"

definition human_default :: human_gate where
  "human_default = \<lparr>hg_double_entry = False, hg_required_roles = [], hg_acknowledged_roles = [],
     hg_comment_required = False, hg_comment_min = 0, hg_ack_deadline = None\<rparr>"

definition gate_default :: gate_state where
  "gate_default = \<lparr>gs_market = market_default, gs_risk = risk_default, gs_human = human_default,
     gs_auto_execute = False, gs_cfg_hash = None, gs_data_hash = None, gs_schema_version = PNone\<rparr>"

section \<open>Guards\<close>

definition enforce_auto_execute_guards :: "string \<Rightarrow> string option \<Rightarrow> string \<Rightarrow> gate_state \<Rightarrow> gate_state" where
  "enforce_auto_execute_guards board_mode kill_switch_state spread_status g =
     (let board = str_lower board_mode; spread = str_lower spread_status;
          ks = str_lower (case str_or kill_switch_state (Some ''none'') of Some s \<Rightarrow> s | None \<Rightarrow> ''none'')
      in if board \<noteq> ''normal'' \<or> spread \<in> {''cooldown'', ''block'', ''halt''}
            \<or> ks \<notin> {''none'', ''normal''}
            \<or> lg_state (mg_liquidity (gs_market g)) \<in> {''guarded'', ''halted''}
            \<or> rg_reduce_only (gs_risk g)
         then g\<lparr>gs_auto_execute := False\<rparr> else g)"

definition set_auto_execute :: "string \<Rightarrow> gate_state \<Rightarrow> gate_state" where
  "set_auto_execute board_mode g = g\<lparr>gs_auto_execute :=
     (str_lower board_mode = ''normal'' \<and> mg_readiness (gs_market g) = ''ok'' \<and> \<not> rg_reduce_only (gs_risk g))\<rparr>"

definition set_profit_readiness_status :: "string \<Rightarrow> string \<Rightarrow> bool \<Rightarrow> gate_state \<Rightarrow> gate_state" where
  "set_profit_readiness_status status board_mode allow_auto_execute g =
     (let g1 = g\<lparr>gs_market := (gs_market g)\<lparr>mg_readiness := status\<rparr>\<rparr>
      in if \<not> allow_auto_execute then g1\<lparr>gs_auto_execute := False\<rparr>
         else g1\<lparr>gs_auto_execute :=
           (str_lower board_mode = ''normal'' \<and> status = ''ok'' \<and> \<not> rg_reduce_only (gs_risk g1))\<rparr>)"

section \<open>Updates\<close>

definition set_schema_version :: "pyval \<Rightarrow> gate_state \<Rightarrow> gate_state" where
  "set_schema_version v g = g\<lparr>gs_schema_version := v\<rparr>"

definition set_hashes :: "string option \<Rightarrow> string option \<Rightarrow> gate_state \<Rightarrow> gate_state" where
  "set_hashes cfg dat g =
     (let g1 = (if otrue cfg then g\<lparr>gs_cfg_hash := cfg\<rparr> else g)
      in if otrue dat then g1\<lparr>gs_data_hash := dat\<rparr> else g1)"

text \<open>\<open>_assign_symbol_component\<close>: the component and its new value (None removes it).\<close>

datatype component_value =
    CNews "news_gate option"
  | CCalendar "calendar_gate option"
  | CSpread "spread_gate option"

fun cv_is_none :: "component_value \<Rightarrow> bool" where
  "cv_is_none (CNews v) = (v = None)"
| "cv_is_none (CCalendar v) = (v = None)"
| "cv_is_none (CSpread v) = (v = None)"

fun set_component :: "component_value \<Rightarrow> gate_block \<Rightarrow> gate_block" where
  "set_component (CNews v) b = b\<lparr>gb_news := v\<rparr>"
| "set_component (CCalendar v) b = b\<lparr>gb_calendar := v\<rparr>"
| "set_component (CSpread v) b = b\<lparr>gb_spread := v\<rparr>"

definition assign_symbol_component ::
  "string \<Rightarrow> component_value \<Rightarrow> (string \<times> gate_block) list \<Rightarrow> (string \<times> gate_block) list" where
  "assign_symbol_component symb cv ps =
     (if cv_is_none cv then
        (case map_of ps symb of None \<Rightarrow> ps
         | Some b \<Rightarrow> let b' = set_component cv b in
             if gate_block_empty b' then AList.delete symb ps else AList.update symb b' ps)
      else (let b = (case map_of ps symb of None \<Rightarrow> new_gate_block | Some b \<Rightarrow> b)
            in AList.update symb (set_component cv b) ps))"

definition upd_per_symbol ::
  "('a option \<Rightarrow> component_value) \<Rightarrow> (string \<times> 'a option) list option \<Rightarrow> gate_state \<Rightarrow> gate_state" where
  "upd_per_symbol mk per_symbol g = (case per_symbol of None \<Rightarrow> g
     | Some ps \<Rightarrow> g\<lparr>gs_market := (gs_market g)\<lparr>mg_per_symbol :=
         foldl (\<lambda>m (symb, v). assign_symbol_component symb (mk v) m) (mg_per_symbol (gs_market g)) ps\<rparr>\<rparr>)"

definition update_news ::
  "news_gate option \<Rightarrow> (string \<times> news_gate option) list option \<Rightarrow> gate_state \<Rightarrow> gate_state" where
  "update_news global_state per_symbol g =
     (let g1 = (case global_state of None \<Rightarrow> g | Some n \<Rightarrow> g\<lparr>gs_market := (gs_market g)\<lparr>mg_news := n\<rparr>\<rparr>)
      in upd_per_symbol CNews per_symbol g1)"

definition update_calendar ::
  "calendar_gate option \<Rightarrow> (string \<times> calendar_gate option) list option \<Rightarrow> gate_state \<Rightarrow> gate_state" where
  "update_calendar global_state per_symbol g =
     (let g1 = (case global_state of None \<Rightarrow> g | Some c \<Rightarrow> g\<lparr>gs_market := (gs_market g)\<lparr>mg_calendar := c\<rparr>\<rparr>)
      in upd_per_symbol CCalendar per_symbol g1)"

definition update_spread ::
  "spread_gate option \<Rightarrow> (string \<times> spread_gate option) list option \<Rightarrow> gate_state \<Rightarrow> gate_state" where
  "update_spread global_state per_symbol g =
     (let g1 = (case global_state of None \<Rightarrow> g
         | Some s \<Rightarrow> let g0 = g\<lparr>gs_market := (gs_market g)\<lparr>mg_spread := s\<rparr>\<rparr>
             in if sg_state s \<noteq> ''normal'' then set_auto_execute ''guarded'' g0 else g0)
      in upd_per_symbol CSpread per_symbol g1)"

definition update_liquidity :: "liquidity_gate option \<Rightarrow> gate_state \<Rightarrow> gate_state" where
  "update_liquidity global_state g = (case global_state of None \<Rightarrow> g
     | Some l \<Rightarrow> let g0 = g\<lparr>gs_market := (gs_market g)\<lparr>mg_liquidity := l\<rparr>\<rparr>
         in if lg_state l \<in> {''guarded'', ''halted''} then set_auto_execute ''guarded'' g0 else g0)"

definition update_risk ::
  "bool option \<Rightarrow> string option option \<Rightarrow> string option option \<Rightarrow> string option option \<Rightarrow> gate_state \<Rightarrow> gate_state" where
  "update_risk reduce_only reduce_only_reason kill_switch_recommendation kill_switch_reason g =
     (let r0 = gs_risk g;
          r1 = (case reduce_only of None \<Rightarrow> r0 | Some b \<Rightarrow> r0\<lparr>rg_reduce_only := b\<rparr>);
          r2 = (case reduce_only_reason of None \<Rightarrow> r1 | Some x \<Rightarrow> r1\<lparr>rg_reduce_only_reason := x\<rparr>);
          r3 = (case kill_switch_recommendation of None \<Rightarrow> r2 | Some x \<Rightarrow> r2\<lparr>rg_kill_switch := x\<rparr>);
          r4 = (case kill_switch_reason of None \<Rightarrow> r3 | Some x \<Rightarrow> r3\<lparr>rg_kill_switch_reason := x\<rparr>);
          g1 = g\<lparr>gs_risk := r4\<rparr>
      in if rg_reduce_only r4 then g1\<lparr>gs_auto_execute := False\<rparr> else g1)"

text \<open>\<open>apply_risk_assessment\<close>: only the assessment's \<open>risk_state\<close> is read.\<close>

definition apply_risk_assessment :: "risk_gate \<Rightarrow> gate_state \<Rightarrow> gate_state" where
  "apply_risk_assessment risk_state g =
     (let g1 = g\<lparr>gs_risk := risk_state\<rparr>
      in if rg_reduce_only risk_state then g1\<lparr>gs_auto_execute := False\<rparr> else g1)"

definition update_human ::
  "bool option \<Rightarrow> string list option \<Rightarrow> string list option \<Rightarrow> pydt option option \<Rightarrow> bool option \<Rightarrow> int option
     \<Rightarrow> gate_state \<Rightarrow> gate_state" where
  "update_human double_entry required acknowledged deadline comment_required comment_min g =
     (let h0 = gs_human g;
          h1 = (case double_entry of None \<Rightarrow> h0 | Some b \<Rightarrow> h0\<lparr>hg_double_entry := b\<rparr>);
          h2 = (case required of None \<Rightarrow> h1 | Some x \<Rightarrow> h1\<lparr>hg_required_roles := x\<rparr>);
          h3 = (case acknowledged of None \<Rightarrow> h2 | Some x \<Rightarrow> h2\<lparr>hg_acknowledged_roles := x\<rparr>);
          h4 = (case deadline of None \<Rightarrow> h3 | Some x \<Rightarrow> h3\<lparr>hg_ack_deadline := x\<rparr>);
          h5 = (case comment_required of None \<Rightarrow> h4 | Some b \<Rightarrow> h4\<lparr>hg_comment_required := b\<rparr>);
          h6 = (case comment_min of None \<Rightarrow> h5 | Some n \<Rightarrow> h5\<lparr>hg_comment_min := n\<rparr>)
      in g\<lparr>gs_human := h6\<rparr>)"

definition clear_symbol :: "string \<Rightarrow> gate_state \<Rightarrow> gate_state" where
  "clear_symbol symb g = g\<lparr>gs_market := (gs_market g)\<lparr>mg_per_symbol :=
     AList.delete symb (mg_per_symbol (gs_market g))\<rparr>\<rparr>"

datatype gate_op =
    UpdNews "news_gate option" "(string \<times> news_gate option) list option"
  | UpdCalendar "calendar_gate option" "(string \<times> calendar_gate option) list option"
  | UpdSpread "spread_gate option" "(string \<times> spread_gate option) list option"
  | UpdLiquidity "liquidity_gate option"
  | UpdRisk "bool option" "string option option" "string option option" "string option option"
  | ApplyRisk risk_gate
  | UpdHuman "bool option" "string list option" "string list option" "pydt option option" "bool option" "int option"
  | ClearSymbol string
  | SetReadiness string string bool
  | SetAuto string
  | SetVersion pyval
  | SetHashes "string option" "string option"
  | EnforceGuards string "string option" string

fun gate_step :: "gate_state \<Rightarrow> gate_op \<Rightarrow> gate_state" where
  "gate_step g (UpdNews a b) = update_news a b g"
| "gate_step g (UpdCalendar a b) = update_calendar a b g"
| "gate_step g (UpdSpread a b) = update_spread a b g"
| "gate_step g (UpdLiquidity a) = update_liquidity a g"
| "gate_step g (UpdRisk a b c d) = update_risk a b c d g"
| "gate_step g (ApplyRisk r) = apply_risk_assessment r g"
| "gate_step g (UpdHuman a b c d e f) = update_human a b c d e f g"
| "gate_step g (ClearSymbol s) = clear_symbol s g"
| "gate_step g (SetReadiness s b a) = set_profit_readiness_status s b a g"
| "gate_step g (SetAuto b) = set_auto_execute b g"
| "gate_step g (SetVersion v) = set_schema_version v g"
| "gate_step g (SetHashes a b) = set_hashes a b g"
| "gate_step g (EnforceGuards b k s) = enforce_auto_execute_guards b k s g"

section \<open>JSON form\<close>

definition news_to_dict :: "news_gate \<Rightarrow> pydict" where
  "news_to_dict n = [(''blocked'', PBool (ng_blocked n)), (''reason'', ostr (ng_reason n)),
     (''release_ts'', datetime_to_iso (ng_release_ts n))]"

definition news_from_dict :: "pydict \<Rightarrow> news_gate res" where
  "news_from_dict d = bind_res (dindex d ''blocked'') (\<lambda>b.
     bind_res (opt_text (dget d ''reason'')) (\<lambda>r.
     bind_res (datetime_from_iso (dget d ''release_ts'')) (\<lambda>t.
     Inr \<lparr>ng_blocked = truthy b, ng_reason = r, ng_release_ts = t\<rparr>)))"

definition calendar_to_dict :: "calendar_gate \<Rightarrow> pydict" where
  "calendar_to_dict c = [(''blocked'', PBool (cg_blocked c)), (''holiday_block'', PBool (cg_holiday_block c)),
     (''reason'', ostr (cg_reason c))]"

definition calendar_from_dict :: "pydict \<Rightarrow> calendar_gate res" where
  "calendar_from_dict d = bind_res (dindex d ''blocked'') (\<lambda>b.
     bind_res (dindex d ''holiday_block'') (\<lambda>h.
     bind_res (opt_text (dget d ''reason'')) (\<lambda>r.
     Inr \<lparr>cg_blocked = truthy b, cg_holiday_block = truthy h, cg_reason = r\<rparr>)))"

definition spread_to_dict :: "spread_gate \<Rightarrow> pydict" where
  "spread_to_dict s = [(''state'', PStr (sg_state s)), (''reason'', ostr (sg_reason s)),
     (''cooldown_eta'', datetime_to_iso (sg_cooldown_eta s))]"

definition spread_from_dict :: "pydict \<Rightarrow> spread_gate res" where
  "spread_from_dict d = bind_res (bind_res (dindex d ''state'') as_text) (\<lambda>s.
     bind_res (opt_text (dget d ''reason'')) (\<lambda>r.
     bind_res (datetime_from_iso (dget d ''cooldown_eta'')) (\<lambda>t.
     Inr \<lparr>sg_state = s, sg_reason = r, sg_cooldown_eta = t\<rparr>)))"

definition liquidity_to_dict :: "liquidity_gate \<Rightarrow> pydict" where
  "liquidity_to_dict l = [(''state'', PStr (lg_state l)), (''recommendation'', ostr (lg_recommendation l)),
     (''updated_at'', datetime_to_iso (lg_updated_at l))]"

definition liquidity_from_dict :: "pydict \<Rightarrow> liquidity_gate res" where
  "liquidity_from_dict d = bind_res (as_text (dget_def d ''state'' (PStr ''normal''))) (\<lambda>s.
     bind_res (opt_text (dget d ''recommendation'')) (\<lambda>r.
     bind_res (datetime_from_iso (dget d ''updated_at'')) (\<lambda>t.
     Inr \<lparr>lg_state = s, lg_recommendation = r, lg_updated_at = t\<rparr>)))"

definition block_to_dict :: "gate_block \<Rightarrow> pydict" where
  "block_to_dict b =
     (case gb_news b of None \<Rightarrow> [] | Some n \<Rightarrow> [(''news'', PDict (news_to_dict n))])
     @ (case gb_calendar b of None \<Rightarrow> [] | Some c \<Rightarrow> [(''calendar'', PDict (calendar_to_dict c))])
     @ (case gb_spread b of None \<Rightarrow> [] | Some s \<Rightarrow> [(''spread'', PDict (spread_to_dict s))])"

text \<open>\<open>X.from_dict(v) if v else None\<close>.\<close>

definition opt_from :: "(pydict \<Rightarrow> 'a res) \<Rightarrow> pyval \<Rightarrow> 'a option res" where
  "opt_from f v = (if truthy v then bind_res (as_dict v) (\<lambda>d. bind_res (f d) (\<lambda>x. Inr (Some x))) else Inr None)"

definition block_from_dict :: "pydict \<Rightarrow> gate_block res" where
  "block_from_dict d = bind_res (opt_from news_from_dict (dget d ''news'')) (\<lambda>n.
     bind_res (opt_from calendar_from_dict (dget d ''calendar'')) (\<lambda>c.
     bind_res (opt_from spread_from_dict (dget d ''spread'')) (\<lambda>s.
     Inr \<lparr>gb_news = n, gb_calendar = c, gb_spread = s\<rparr>)))"

definition market_to_dict :: "market_gate \<Rightarrow> pydict" where
  "market_to_dict m = [(''news'', PDict (news_to_dict (mg_news m))),
     (''calendar'', PDict (calendar_to_dict (mg_calendar m))),
     (''spread'', PDict (spread_to_dict (mg_spread m))),
     (''liquidity'', PDict (liquidity_to_dict (mg_liquidity m))),
     (''latency_data_status'', PStr (mg_latency m)),
     (''slippage_data_status'', PStr (mg_slippage m)),
     (''profit_readiness_status'', PStr (mg_readiness m)),
     (''per_symbol'', PDict (filter (\<lambda>(k, v). v \<noteq> PDict [])
        (map (\<lambda>(k, b). (k, PDict (block_to_dict b))) (sort_key fst (mg_per_symbol m)))))]"

definition sub_dict :: "pydict \<Rightarrow> string \<Rightarrow> (pydict \<Rightarrow> 'a res) \<Rightarrow> 'a res" where
  "sub_dict d k f = bind_res (bind_res (dindex d k) as_dict) f"

definition market_from_dict :: "pydict \<Rightarrow> market_gate res" where
  "market_from_dict d =
     bind_res (as_dict_get (py_or (dget d ''per_symbol'') (PDict []))) (\<lambda>ps.
     bind_res (map_res (\<lambda>(k, v). bind_res (bind_res (as_dict_get v) block_from_dict) (\<lambda>b. Inr (k, b))) ps) (\<lambda>per.
     bind_res (sub_dict d ''news'' news_from_dict) (\<lambda>n.
     bind_res (sub_dict d ''calendar'' calendar_from_dict) (\<lambda>c.
     bind_res (sub_dict d ''spread'' spread_from_dict) (\<lambda>s.
     bind_res (bind_res (as_dict_get (dget_def d ''liquidity'' (PDict []))) liquidity_from_dict) (\<lambda>l.
     bind_res (as_text (dget_def d ''latency_data_status'' (PStr ''ok''))) (\<lambda>la.
     bind_res (as_text (dget_def d ''slippage_data_status'' (PStr ''ok''))) (\<lambda>sl.
     bind_res (as_text (dget_def d ''profit_readiness_status'' (PStr ''ok''))) (\<lambda>pr.
     Inr \<lparr>mg_news = n, mg_calendar = c, mg_spread = s, mg_liquidity = l, mg_latency = la,
       mg_slippage = sl, mg_readiness = pr, mg_per_symbol = per\<rparr>)))))))))"

definition risk_to_dict :: "risk_gate \<Rightarrow> pydict" where
  "risk_to_dict r = [(''reduce_only'', PBool (rg_reduce_only r)),
     (''reduce_only_reason'', ostr (rg_reduce_only_reason r)),
     (''kill_switch_recommendation'', ostr (rg_kill_switch r)),
     (''kill_switch_reason'', ostr (rg_kill_switch_reason r))]"

definition risk_from_dict :: "pydict \<Rightarrow> risk_gate res" where
  "risk_from_dict d = bind_res (dindex d ''reduce_only'') (\<lambda>b.
     bind_res (opt_text (dget d ''reduce_only_reason'')) (\<lambda>r.
     bind_res (opt_text (dget d ''kill_switch_recommendation'')) (\<lambda>k.
     bind_res (opt_text (dget d ''kill_switch_reason'')) (\<lambda>kr.
     Inr \<lparr>rg_reduce_only = truthy b, rg_reduce_only_reason = r, rg_kill_switch = k,
       rg_kill_switch_reason = kr\<rparr>))))"

definition human_to_dict :: "human_gate \<Rightarrow> pydict" where
  "human_to_dict h = [(''double_entry_required'', PBool (hg_double_entry h)),
     (''required_roles'', PList (map PStr (hg_required_roles h))),
     (''acknowledged_roles'', PList (map PStr (hg_acknowledged_roles h))),
     (''ack_deadline'', datetime_to_iso (hg_ack_deadline h)),
     (''manual_comment_required'', PBool (hg_comment_required h)),
     (''comment_min_length'', PInt (hg_comment_min h))]"

definition human_from_dict :: "pydict \<Rightarrow> human_gate res" where
  "human_from_dict d = bind_res (dindex d ''double_entry_required'') (\<lambda>b.
     bind_res (text_list (dget_def d ''required_roles'' (PList []))) (\<lambda>rr.
     bind_res (text_list (dget_def d ''acknowledged_roles'' (PList []))) (\<lambda>ar.
     bind_res (dindex d ''manual_comment_required'') (\<lambda>m.
     bind_res (bind_res (dindex d ''comment_min_length'') py_int) (\<lambda>n.
     bind_res (datetime_from_iso (dget d ''ack_deadline'')) (\<lambda>t.
     Inr \<lparr>hg_double_entry = truthy b, hg_required_roles = rr, hg_acknowledged_roles = ar,
       hg_comment_required = truthy m, hg_comment_min = n, hg_ack_deadline = t\<rparr>))))))"

definition gate_to_dict :: "gate_state \<Rightarrow> pydict" where
  "gate_to_dict g = [(''market'', PDict (market_to_dict (gs_market g))),
     (''risk'', PDict (risk_to_dict (gs_risk g))), (''human'', PDict (human_to_dict (gs_human g))),
     (''auto_execute'', PBool (gs_auto_execute g))]
     @ (case gs_cfg_hash g of None \<Rightarrow> [] | Some h \<Rightarrow> [(''cfg_hash'', PStr h)])
     @ (case gs_data_hash g of None \<Rightarrow> [] | Some h \<Rightarrow> [(''data_hash'', PStr h)])
     @ (if gs_schema_version g = PNone then [] else [(''schema_version'', gs_schema_version g)])"

definition gate_from_dict :: "pydict \<Rightarrow> gate_state res" where
  "gate_from_dict d = bind_res (bind_res (bind_res (dindex d ''market'') as_dict_get) market_from_dict) (\<lambda>m.
     bind_res (sub_dict d ''risk'' risk_from_dict) (\<lambda>r.
     bind_res (sub_dict d ''human'' human_from_dict) (\<lambda>h.
     bind_res (opt_text (dget d ''cfg_hash'')) (\<lambda>c.
     bind_res (opt_text (dget d ''data_hash'')) (\<lambda>da.
     Inr \<lparr>gs_market = m, gs_risk = r, gs_human = h,
       gs_auto_execute = truthy (dget_def d ''auto_execute'' (PBool False)),
       gs_cfg_hash = c, gs_data_hash = da, gs_schema_version = dget d ''schema_version''\<rparr>)))))"

section \<open>Persisting\<close>

text \<open>
  \<open>_resolve_hashes\<close> reads environment variables and files: \<open>he_cfg_sha\<close> is the SHA-256 of the
  file \<open>TRADECTL_CFG_PATH\<close> names where that exists, \<open>he_manifest\<close> what
  \<open>reports/data_manifest.json\<close> holds (None: no file; \<open>Some None\<close>: not JSON).
\<close>

record hash_env =
  he_cfg_path :: "string option"
  he_cfg_sha :: "string option"
  he_cfg_hash :: "string option"
  he_data_hash :: "string option"
  he_manifest :: "pyval option option"

definition manifest_hash :: "pyval \<Rightarrow> string option res" where
  "manifest_hash manifest =
     bind_res (as_dict_get manifest) (\<lambda>d.
     bind_res (as_dict_get (py_or (dget d ''strategies'') (PDict []))) (\<lambda>ss.
     bind_res (as_dict_get (py_or (dget ss ''m1_baseline_ma_rsi'') (PDict []))) (\<lambda>entry.
     opt_text (dget entry ''dataset_sha256''))))"

definition resolve_hashes ::
  "hash_env \<Rightarrow> string option \<Rightarrow> string option \<Rightarrow> (string option \<times> string option) res" where
  "resolve_hashes e cfg dat =
     (let cfg' = (if otrue cfg then cfg
                  else if otrue (he_cfg_path e) \<and> he_cfg_sha e \<noteq> None then he_cfg_sha e
                  else if otrue (he_cfg_hash e) then he_cfg_hash e else cfg)
      in if otrue dat then Inr (cfg', dat)
         else if otrue (he_data_hash e) then Inr (cfg', he_data_hash e)
         else (case he_manifest e of None \<Rightarrow> Inr (cfg', dat)
               | Some None \<Rightarrow> Inr (cfg', None)
               | Some (Some v) \<Rightarrow> bind_res (manifest_hash v) (\<lambda>h. Inr (cfg', h))))"

text \<open>\<open>persist_latest\<close>: the new state and the document written.\<close>

definition persist_latest ::
  "hash_env \<Rightarrow> string option \<Rightarrow> string option \<Rightarrow> gate_state \<Rightarrow> (gate_state \<times> pydict) res" where
  "persist_latest e cfg dat g = bind_res (resolve_hashes e cfg dat) (\<lambda>(c, d).
     let g' = set_hashes c d g in Inr (g', gate_to_dict g'))"

section \<open>Auto-execute\<close>

text \<open>The invariant: auto-execute needs the readiness at \<open>ok\<close> and no reduce-only; every per-symbol
  block holds something, under distinct symbols.\<close>

definition per_symbol_ok :: "(string \<times> gate_block) list \<Rightarrow> bool" where
  "per_symbol_ok ps \<longleftrightarrow> wf_dict ps \<and> dict_all (\<lambda>b. \<not> gate_block_empty b) ps"

definition auto_ok :: "gate_state \<Rightarrow> bool" where
  "auto_ok g \<longleftrightarrow> (gs_auto_execute g \<longrightarrow> mg_readiness (gs_market g) = ''ok'' \<and> \<not> rg_reduce_only (gs_risk g))"

definition gate_inv :: "gate_state \<Rightarrow> bool" where
  "gate_inv g \<longleftrightarrow> auto_ok g \<and> per_symbol_ok (mg_per_symbol (gs_market g))"

lemma set_component_not_empty: "\<not> cv_is_none cv \<Longrightarrow> \<not> gate_block_empty (set_component cv b)"
  by (cases cv) (auto simp: gate_block_empty_def)

lemma assign_per_symbol_ok: "per_symbol_ok ps \<Longrightarrow> per_symbol_ok (assign_symbol_component s cv ps)"
  by (auto simp: per_symbol_ok_def assign_symbol_component_def Let_def set_component_not_empty
      intro: dict_all_update dict_all_delete split: option.splits)

lemma assigns_per_symbol_ok:
  "per_symbol_ok ps \<Longrightarrow> per_symbol_ok (foldl (\<lambda>m (s, v). assign_symbol_component s (mk v) m) ps xs)"
  by (induction xs arbitrary: ps) (auto intro: assign_per_symbol_ok)

lemma upd_per_symbol_inv: "gate_inv g \<Longrightarrow> gate_inv (upd_per_symbol mk xs g)"
  by (auto simp: gate_inv_def auto_ok_def upd_per_symbol_def assigns_per_symbol_ok split: option.split)

lemmas gate_op_defs = update_news_def update_calendar_def update_spread_def update_liquidity_def
  update_risk_def apply_risk_assessment_def update_human_def clear_symbol_def
  set_profit_readiness_status_def set_auto_execute_def set_schema_version_def set_hashes_def
  enforce_auto_execute_guards_def

lemma gate_inv_market [simp]:
  "gate_inv (g\<lparr>gs_market := (gs_market g)\<lparr>mg_news := n\<rparr>\<rparr>) = gate_inv g"
  "gate_inv (g\<lparr>gs_market := (gs_market g)\<lparr>mg_calendar := c\<rparr>\<rparr>) = gate_inv g"
  "gate_inv (g\<lparr>gs_market := (gs_market g)\<lparr>mg_spread := s\<rparr>\<rparr>) = gate_inv g"
  "gate_inv (g\<lparr>gs_market := (gs_market g)\<lparr>mg_liquidity := l\<rparr>\<rparr>) = gate_inv g"
  by (simp_all add: gate_inv_def auto_ok_def)

lemma set_auto_inv: "gate_inv g \<Longrightarrow> gate_inv (set_auto_execute b g)"
  by (simp add: gate_inv_def auto_ok_def set_auto_execute_def)

lemma gate_step_inv: "gate_inv g \<Longrightarrow> gate_inv (gate_step g x)"
proof (cases x)
  case (UpdSpread a b)
  assume "gate_inv g"
  with UpdSpread show ?thesis
    by (cases a) (auto simp: update_spread_def Let_def intro!: upd_per_symbol_inv set_auto_inv)
next
  case (UpdLiquidity a)
  assume "gate_inv g"
  with UpdLiquidity show ?thesis
    by (cases a) (auto simp: update_liquidity_def Let_def intro!: set_auto_inv)
next
  case (ClearSymbol s)
  assume "gate_inv g"
  with ClearSymbol show ?thesis
    by (auto simp: gate_op_defs gate_inv_def auto_ok_def per_symbol_ok_def intro: dict_all_delete)
next
  case (UpdNews a b)
  assume "gate_inv g"
  with UpdNews show ?thesis
    by (cases a) (auto simp: update_news_def Let_def intro!: upd_per_symbol_inv)
next
  case (UpdCalendar a b)
  assume "gate_inv g"
  with UpdCalendar show ?thesis
    by (cases a) (auto simp: update_calendar_def Let_def intro!: upd_per_symbol_inv)
qed (simp_all add: gate_op_defs Let_def gate_inv_def auto_ok_def split: option.split)

interpretation gate: step_system gate_step gate_inv
  by unfold_locales (rule gate_step_inv)

lemma gate_default_inv [simp]: "gate_inv gate_default"
  by (simp add: gate_inv_def auto_ok_def per_symbol_ok_def gate_default_def market_default_def)

text \<open>C2: Whatever updates the services send, in any order, the aggregator never holds auto-execute
  on while reduce-only is on or the profit readiness is not \<open>ok\<close>.\<close>

theorem auto_execute_safe:
  "gs_auto_execute (foldl gate_step gate_default ops) \<Longrightarrow>
     mg_readiness (gs_market (foldl gate_step gate_default ops)) = ''ok'' \<and>
     \<not> rg_reduce_only (gs_risk (foldl gate_step gate_default ops))"
  using gate.run_inv [OF gate_default_inv, of ops] by (simp add: gate_inv_def auto_ok_def)

theorem auto_execute_safe_witness:
  "gs_auto_execute (foldl gate_step gate_default [SetVersion (PInt 1), SetAuto ''normal'']) \<and>
   \<not> rg_reduce_only (gs_risk (foldl gate_step gate_default [SetVersion (PInt 1), SetAuto ''normal'']))"
proof -
  have h: "gs_auto_execute (foldl gate_step gate_default [SetVersion (PInt 1), SetAuto ''normal''])"
    by code_simp
  from auto_execute_safe [OF h] h show ?thesis by blast
qed

section \<open>Per-symbol blocks as maps\<close>

definition sym_news :: "gate_state \<Rightarrow> string \<Rightarrow> news_gate option" where
  "sym_news g s = Option.bind (map_of (mg_per_symbol (gs_market g)) s) gb_news"

definition sym_calendar :: "gate_state \<Rightarrow> string \<Rightarrow> calendar_gate option" where
  "sym_calendar g s = Option.bind (map_of (mg_per_symbol (gs_market g)) s) gb_calendar"

definition sym_spread :: "gate_state \<Rightarrow> string \<Rightarrow> spread_gate option" where
  "sym_spread g s = Option.bind (map_of (mg_per_symbol (gs_market g)) s) gb_spread"

text \<open>What one update does to the three maps.\<close>

fun map_upds :: "(string \<Rightarrow> 'a option) \<Rightarrow> (string \<times> 'a option) list \<Rightarrow> string \<Rightarrow> 'a option" where
  "map_upds m [] = m"
| "map_upds m ((s, v) # xs) = map_upds (m(s := v)) xs"

definition view :: "(gate_block \<Rightarrow> 'a option) \<Rightarrow> (string \<times> gate_block) list \<Rightarrow> string \<Rightarrow> 'a option" where
  "view f ps s = Option.bind (map_of ps s) f"

lemma view_assign:
  assumes "\<And>b. gate_block_empty b \<Longrightarrow> f b = None" "f new_gate_block = None"
  shows "view f (assign_symbol_component s cv ps) =
    (view f ps)(s := f (set_component cv (case map_of ps s of None \<Rightarrow> new_gate_block | Some b \<Rightarrow> b)))"
proof -
  have "set_component cv new_gate_block = new_gate_block" if "cv_is_none cv"
    using that by (cases cv) (auto simp: new_gate_block_def)
  with assms show ?thesis
    by (auto simp: view_def assign_symbol_component_def Let_def fun_eq_iff split: option.split)
qed

lemma view_news: "view gb_news (assign_symbol_component s (CNews v) ps) = (view gb_news ps)(s := v)"
  "view gb_calendar (assign_symbol_component s (CNews v) ps) = view gb_calendar ps"
  "view gb_spread (assign_symbol_component s (CNews v) ps) = view gb_spread ps"
  by (subst view_assign;
    auto simp: gate_block_empty_def new_gate_block_def fun_eq_iff view_def split: option.split)+

lemma view_calendar: "view gb_calendar (assign_symbol_component s (CCalendar v) ps) = (view gb_calendar ps)(s := v)"
  "view gb_news (assign_symbol_component s (CCalendar v) ps) = view gb_news ps"
  "view gb_spread (assign_symbol_component s (CCalendar v) ps) = view gb_spread ps"
  by (subst view_assign;
    auto simp: gate_block_empty_def new_gate_block_def fun_eq_iff view_def split: option.split)+

lemma view_spread: "view gb_spread (assign_symbol_component s (CSpread v) ps) = (view gb_spread ps)(s := v)"
  "view gb_news (assign_symbol_component s (CSpread v) ps) = view gb_news ps"
  "view gb_calendar (assign_symbol_component s (CSpread v) ps) = view gb_calendar ps"
  by (subst view_assign;
    auto simp: gate_block_empty_def new_gate_block_def fun_eq_iff view_def split: option.split)+

lemmas view_simps = view_news view_calendar view_spread

lemma view_foldl_same:
  "(\<And>s v ps. view f (assign_symbol_component s (mk v) ps) = (view f ps)(s := v)) \<Longrightarrow>
   view f (foldl (\<lambda>m (s, v). assign_symbol_component s (mk v) m) ps xs) = map_upds (view f ps) xs"
  by (induction xs arbitrary: ps) auto

lemma view_foldl_other:
  "(\<And>s v ps. view f (assign_symbol_component s (mk v) ps) = view f ps) \<Longrightarrow>
   view f (foldl (\<lambda>m (s, v). assign_symbol_component s (mk v) m) ps xs) = view f ps"
  by (induction xs arbitrary: ps) auto

lemma sym_view: "sym_news g = view gb_news (mg_per_symbol (gs_market g))"
  "sym_calendar g = view gb_calendar (mg_per_symbol (gs_market g))"
  "sym_spread g = view gb_spread (mg_per_symbol (gs_market g))"
  by (simp_all add: fun_eq_iff sym_news_def sym_calendar_def sym_spread_def view_def)

text \<open>C32: A per-symbol spread update refines a pointwise update of the spread map, in the order
  given, and leaves the news and calendar maps as they were, also where it removes the last
  component of a block and with it the block.\<close>

theorem update_spread_refines:
  "sym_spread (update_spread gl (Some ps) g) = map_upds (sym_spread g) ps \<and>
   sym_news (update_spread gl (Some ps) g) = sym_news g \<and>
   sym_calendar (update_spread gl (Some ps) g) = sym_calendar g"
proof -
  define g1 where "g1 = update_spread gl None g"
  have g1: "mg_per_symbol (gs_market g1) = mg_per_symbol (gs_market g)"
    by (simp add: g1_def update_spread_def upd_per_symbol_def set_auto_execute_def Let_def split: option.split)
  have "update_spread gl (Some ps) g = upd_per_symbol CSpread (Some ps) g1"
    by (simp add: g1_def update_spread_def upd_per_symbol_def Let_def)
  then show ?thesis
    using view_foldl_same [of gb_spread CSpread] view_foldl_other [of gb_news CSpread]
      view_foldl_other [of gb_calendar CSpread]
    by (simp add: sym_view upd_per_symbol_def g1 view_simps)
qed

section \<open>JSON round trip\<close>

definition block_valid :: "gate_block \<Rightarrow> bool" where
  "block_valid b \<longleftrightarrow> (case gb_news b of None \<Rightarrow> True | Some n \<Rightarrow> valid_odt (ng_release_ts n)) \<and>
     (case gb_spread b of None \<Rightarrow> True | Some s \<Rightarrow> valid_odt (sg_cooldown_eta s))"

definition gate_valid :: "gate_state \<Rightarrow> bool" where
  "gate_valid g \<longleftrightarrow> valid_odt (ng_release_ts (mg_news (gs_market g))) \<and>
     valid_odt (sg_cooldown_eta (mg_spread (gs_market g))) \<and>
     valid_odt (lg_updated_at (mg_liquidity (gs_market g))) \<and>
     valid_odt (hg_ack_deadline (gs_human g)) \<and>
     per_symbol_ok (mg_per_symbol (gs_market g)) \<and>
     dict_all block_valid (mg_per_symbol (gs_market g))"

lemma news_roundtrip [simp]: "valid_odt (ng_release_ts n) \<Longrightarrow> news_from_dict (news_to_dict n) = Inr n"
  by (simp add: news_from_dict_def news_to_dict_def)

lemma calendar_roundtrip [simp]: "calendar_from_dict (calendar_to_dict c) = Inr c"
  by (simp add: calendar_from_dict_def calendar_to_dict_def)

lemma spread_roundtrip [simp]: "valid_odt (sg_cooldown_eta s) \<Longrightarrow> spread_from_dict (spread_to_dict s) = Inr s"
  by (simp add: spread_from_dict_def spread_to_dict_def)

lemma liquidity_roundtrip [simp]:
  "valid_odt (lg_updated_at l) \<Longrightarrow> liquidity_from_dict (liquidity_to_dict l) = Inr l"
  by (simp add: liquidity_from_dict_def liquidity_to_dict_def)

lemma opt_from_simps [simp]:
  "opt_from f PNone = Inr None" "d \<noteq> [] \<Longrightarrow> opt_from f (PDict d) = bind_res (f d) (\<lambda>x. Inr (Some x))"
  by (simp_all add: opt_from_def)

lemma to_dict_nonempty [simp]: "news_to_dict n \<noteq> []" "calendar_to_dict c \<noteq> []" "spread_to_dict s \<noteq> []"
  by (simp_all add: news_to_dict_def calendar_to_dict_def spread_to_dict_def)

lemma block_roundtrip [simp]: "block_valid b \<Longrightarrow> block_from_dict (block_to_dict b) = Inr b"
  by (cases "gb_news b"; cases "gb_calendar b"; cases "gb_spread b")
    (simp_all add: block_from_dict_def block_to_dict_def block_valid_def)

lemma block_to_dict_nonempty: "\<not> gate_block_empty b \<Longrightarrow> block_to_dict b \<noteq> []"
  by (auto simp: block_to_dict_def gate_block_empty_def split: option.split)

lemma risk_roundtrip [simp]: "risk_from_dict (risk_to_dict r) = Inr r"
  by (simp add: risk_from_dict_def risk_to_dict_def)

lemma human_roundtrip [simp]: "valid_odt (hg_ack_deadline h) \<Longrightarrow> human_from_dict (human_to_dict h) = Inr h"
  by (simp add: human_from_dict_def human_to_dict_def)

lemma market_roundtrip:
  assumes "valid_odt (ng_release_ts (mg_news m))" "valid_odt (sg_cooldown_eta (mg_spread m))"
    "valid_odt (lg_updated_at (mg_liquidity m))" "per_symbol_ok (mg_per_symbol m)"
    "dict_all block_valid (mg_per_symbol m)"
  shows "market_from_dict (market_to_dict m) = Inr (m\<lparr>mg_per_symbol := sort_key fst (mg_per_symbol m)\<rparr>)"
proof -
  define ps where "ps = sort_key fst (mg_per_symbol m)"
  define js where "js = map (\<lambda>(k, b). (k, PDict (block_to_dict b))) ps"
  have ok: "block_valid b \<and> \<not> gate_block_empty b" if "(k, b) \<in> set ps" for k b
    using that assms(4,5) dict_all_mem [of "mg_per_symbol m" _ k b] by (auto simp: ps_def per_symbol_ok_def)
  have flt: "filter (\<lambda>(k, v). v \<noteq> PDict []) js = js"
    unfolding js_def by (rule filter_True) (auto dest!: ok block_to_dict_nonempty)
  have "map_res (\<lambda>(k, v). bind_res (bind_res (as_dict_get v) block_from_dict) (\<lambda>b. Inr (k, b))) js = Inr ps"
    unfolding js_def by (rule map_res_map_inverse) (auto dest!: ok)
  moreover have "as_dict_get (py_or (PDict js) (PDict [])) = Inr js"
    by (simp add: py_or_def)
  ultimately show ?thesis
    using assms flt
    by (simp add: market_from_dict_def market_to_dict_def sub_dict_def js_def [symmetric] ps_def [symmetric])
qed

text \<open>The JSON document of a gate state reads back as the state, with the per-symbol blocks in
  symbol order.\<close>

theorem gate_json_roundtrip:
  assumes "gate_valid g"
  shows "gate_from_dict (gate_to_dict g) =
    Inr (g\<lparr>gs_market := (gs_market g)\<lparr>mg_per_symbol := sort_key fst (mg_per_symbol (gs_market g))\<rparr>\<rparr>)"
proof -
  have m: "market_from_dict (market_to_dict (gs_market g)) =
      Inr ((gs_market g)\<lparr>mg_per_symbol := sort_key fst (mg_per_symbol (gs_market g))\<rparr>)"
    using assms by (intro market_roundtrip) (simp_all add: gate_valid_def)
  show ?thesis
    using assms
    by (cases "gs_cfg_hash g"; cases "gs_data_hash g")
      (simp_all add: gate_from_dict_def gate_to_dict_def sub_dict_def m gate_valid_def)
qed

definition demo_gate :: gate_state where
  "demo_gate = update_news None (Some [(''USDJPY'', Some \<lparr>ng_blocked = True, ng_reason = Some ''cpi'',
     ng_release_ts = Some \<lparr>yr = 2025, mo = 2, dy = 28, hh = 13, mi = 30, ss = 0, us = 0, tzo = Some 0\<rparr>\<rparr>)])
     gate_default"

theorem gate_json_roundtrip_witness:
  "gate_valid demo_gate \<and> gate_from_dict (gate_to_dict demo_gate) = Inr (demo_gate\<lparr>gs_market :=
     (gs_market demo_gate)\<lparr>mg_per_symbol := sort_key fst (mg_per_symbol (gs_market demo_gate))\<rparr>\<rparr>)"
proof -
  have "gate_valid demo_gate"
    by (simp add: demo_gate_def gate_valid_def per_symbol_ok_def wf_dict_def dict_all_def gate_block_empty_def
        block_valid_def valid_odt_def valid_dt_def month_len_def is_leap_def update_news_def upd_per_symbol_def
        assign_symbol_component_def new_gate_block_def gate_default_def market_default_def human_default_def)
  then show ?thesis using gate_json_roundtrip by blast
qed

end
