(* ===== verification/Health.thy ===== *)
theory Health
  imports Gate
begin

text \<open>
  \<open>src/core/health.py\<close>: the health monitor. It keeps the reasons raised against the system, the
  worst status seen, the board-mode and kill-switch suggestions, and the queue of actions an
  operator has to acknowledge; it appends one event per raised condition to a log file, and it
  derives the guardrail snapshot the command line exits with. The clock readings of an operation
  and the outcome of the write to the log file are arguments; the event log is the list of
  documents written to it.

  Shown: the status is never below the severity of a recorded reason as long as the log can be
  written (and can be when it cannot), clearing a reason recomputes the status, action ids are
  unique so that an acknowledged action is gone, and what each exit code of the snapshot means.
\<close>

section \<open>State\<close>

record health_reason =
  hr_code :: string
  hr_level :: string
  hr_detail :: "string option"
  hr_action :: "string option"
  hr_raised_at :: pydt

record kill_switch_suggestion =
  kx_state :: string
  kx_reason :: string
  kx_runbook :: "string option"

record health_state =
  hs_status :: string
  hs_reasons :: "health_reason list"
  hs_board_mode :: "string option"
  hs_board_runbook :: "string option"
  hs_kill_switch :: "kill_switch_suggestion option"

record health_action =
  ha_id :: string
  ha_action :: string
  ha_reason :: string
  ha_evidence :: "string list"
  ha_expires_at :: "pydt option"
  ha_queued_at :: pydt

record monitor =
  hm_state :: health_state
  hm_actions :: "health_action list"
  hm_log :: "pydict list"

definition health_default :: health_state where
  "health_default = \<lparr>hs_status = ''ok'', hs_reasons = [], hs_board_mode = None,
     hs_board_runbook = None, hs_kill_switch = None\<rparr>"

definition monitor_default :: monitor where
  "monitor_default = \<lparr>hm_state = health_default, hm_actions = [], hm_log = []\<rparr>"

section \<open>Severity\<close>

definition severity_order :: "string list" where
  "severity_order = [''ok'', ''warn'', ''degraded'', ''soft_stop'', ''hard_stop'']"

fun index_or :: "nat \<Rightarrow> string \<Rightarrow> string list \<Rightarrow> nat" where
  "index_or d x [] = d"
| "index_or d x (y # ys) = (if x = y then 0 else if x \<in> set ys then Suc (index_or d x ys) else d)"

definition merge_status :: "string \<Rightarrow> string \<Rightarrow> string" where
  "merge_status current incoming =
     severity_order ! max (index_or 0 current severity_order) (index_or 1 incoming severity_order)"

definition level_map :: "(string \<times> string) list" where
  "level_map = [(''ok'', ''ok''), (''info'', ''ok''), (''warning'', ''warn''), (''degraded'', ''degraded''),
     (''soft_stop'', ''soft_stop''), (''critical'', ''soft_stop''), (''hard_stop'', ''hard_stop''),
     (''fatal'', ''hard_stop''), (''warn'', ''warn'')]"

definition level_to_status :: "string \<Rightarrow> string" where
  "level_to_status level = (case map_of level_map level of None \<Rightarrow> ''degraded'' | Some s \<Rightarrow> s)"

definition recompute_status :: "health_state \<Rightarrow> string" where
  "recompute_status h = foldl (\<lambda>s r. merge_status s (level_to_status (hr_level r))) ''ok'' (hs_reasons h)"

section \<open>Operations\<close>

definition event_ts :: "pydt \<Rightarrow> string" where
  "event_ts t = str_replace ''+00:00'' ''Z'' (isoformat t)"

text \<open>\<open>action.split("runbook:", 1)[-1].strip() or None\<close> for an action with that prefix.\<close>

definition runbook_ref :: "string option \<Rightarrow> string option" where
  "runbook_ref action = (case action of None \<Rightarrow> None
     | Some a \<Rightarrow> if starts_with ''runbook:'' a
         then str_or (Some (str_strip (drop (length ''runbook:'') a))) None else None)"

definition health_event ::
  "string \<Rightarrow> string \<Rightarrow> string option \<Rightarrow> string option \<Rightarrow> bool \<Rightarrow> pydt \<Rightarrow> pydict" where
  "health_event level reason detail action simulated now =
     [(''event'', PStr ''health.changed''), (''ts'', PStr (event_ts now)), (''level'', PStr level),
      (''reason'', PStr reason), (''detail'', ostr detail), (''recommended_action'', ostr action),
      (''simulated'', PBool simulated)]
     @ (case runbook_ref action of None \<Rightarrow> [] | Some r \<Rightarrow> [(''runbook_ref'', PStr r)])"

text \<open>\<open>_emit_health_event\<close>: where the append fails the method returns before it merges the status.\<close>

definition emit_health_event ::
  "string \<Rightarrow> string \<Rightarrow> string option \<Rightarrow> string option \<Rightarrow> bool \<Rightarrow> pydt \<Rightarrow> bool \<Rightarrow> monitor \<Rightarrow> monitor" where
  "emit_health_event level reason detail action simulated now write_ok m =
     (if \<not> write_ok then m
      else m\<lparr>hm_log := hm_log m @ [health_event level reason detail action simulated now],
             hm_state := (hm_state m)\<lparr>hs_status :=
               merge_status (hs_status (hm_state m)) (level_to_status level)\<rparr>\<rparr>)"

definition record_reason ::
  "string \<Rightarrow> string \<Rightarrow> string option \<Rightarrow> string option \<Rightarrow> pydt \<Rightarrow> health_reason list \<Rightarrow> health_reason list" where
  "record_reason level reason detail action now rs =
     (if find (\<lambda>r. hr_code r = reason) rs = None
      then rs @ [\<lparr>hr_code = reason, hr_level = level, hr_detail = detail, hr_action = action, hr_raised_at = now\<rparr>]
      else update_first (\<lambda>r. hr_code r = reason)
        (\<lambda>r. r\<lparr>hr_level := level, hr_detail := detail, hr_action := action, hr_raised_at := now\<rparr>) rs)"

definition raise_condition ::
  "string \<Rightarrow> string \<Rightarrow> string option \<Rightarrow> string option \<Rightarrow> bool \<Rightarrow> pydt \<Rightarrow> pydt \<Rightarrow> bool \<Rightarrow> monitor \<Rightarrow> monitor" where
  "raise_condition level reason detail action simulated now1 now2 write_ok m =
     (let m1 = m\<lparr>hm_state := (hm_state m)\<lparr>hs_reasons :=
                  record_reason level reason detail action now1 (hs_reasons (hm_state m))\<rparr>\<rparr>
      in emit_health_event level reason detail action simulated now2 write_ok m1)"

definition queue_action ::
  "string \<Rightarrow> string \<Rightarrow> string list \<Rightarrow> pydt option \<Rightarrow> string option \<Rightarrow> pydt \<Rightarrow> monitor \<Rightarrow> health_action \<times> monitor" where
  "queue_action action reason evidence expires_at action_id now m =
     (let aid = (if otrue action_id then the action_id else action @ '':'' @ reason)
      in case find (\<lambda>a. ha_id a = aid) (hm_actions m) of
           Some a \<Rightarrow> (a, m)
         | None \<Rightarrow> let a = \<lparr>ha_id = aid, ha_action = action, ha_reason = reason, ha_evidence = evidence,
                           ha_expires_at = expires_at, ha_queued_at = now\<rparr>
             in (a, m\<lparr>hm_actions := hm_actions m @ [a]\<rparr>))"

fun remove_first :: "('a \<Rightarrow> bool) \<Rightarrow> 'a list \<Rightarrow> 'a list" where
  "remove_first P [] = []"
| "remove_first P (x # xs) = (if P x then xs else x # remove_first P xs)"

definition ack_action :: "string \<Rightarrow> string \<Rightarrow> pydt \<Rightarrow> monitor \<Rightarrow> pydict \<times> monitor" where
  "ack_action action_id actor now m =
     (let payload = [(''action_id'', PStr action_id), (''actor'', PStr actor), (''ack_ts'', PStr (isoformat now))]
      in (payload @ (case find (\<lambda>a. ha_id a = action_id) (hm_actions m) of
             Some a \<Rightarrow> [(''status'', PStr ''acknowledged''), (''reason'', PStr (ha_reason a)),
                        (''action'', PStr (ha_action a)), (''evidence'', PList (map PStr (ha_evidence a)))]
           | None \<Rightarrow> [(''status'', PStr ''not_found'')]),
          m\<lparr>hm_actions := remove_first (\<lambda>a. ha_id a = action_id) (hm_actions m)\<rparr>))"

definition clear_condition :: "string option \<Rightarrow> monitor \<Rightarrow> monitor" where
  "clear_condition reason m = (case reason of
       None \<Rightarrow> m\<lparr>hm_state := health_default, hm_actions := []\<rparr>
     | Some r \<Rightarrow>
         let h = (hm_state m)\<lparr>hs_reasons := filter (\<lambda>x. hr_code x \<noteq> r) (hs_reasons (hm_state m))\<rparr>;
             m1 = m\<lparr>hm_actions := filter (\<lambda>a. ha_reason a \<noteq> r) (hm_actions m)\<rparr>
         in if hs_reasons h = [] then m1\<lparr>hm_state := h\<lparr>hs_status := ''ok''\<rparr>\<rparr>
            else m1\<lparr>hm_state := h\<lparr>hs_status := recompute_status h\<rparr>\<rparr>)"

definition enforce_auto_execute_policy :: "monitor \<Rightarrow> gate_state \<Rightarrow> gate_state" where
  "enforce_auto_execute_policy m g =
     (if hs_status (hm_state m) \<in> {''warn'', ''degraded'', ''soft_stop'', ''hard_stop''}
      then g\<lparr>gs_auto_execute := False\<rparr>
      else (let suggestion = str_lower (case str_or (hs_board_mode (hm_state m)) (Some []) of Some s \<Rightarrow> s | None \<Rightarrow> [])
            in if suggestion \<in> {''guarded'', ''halted'', ''halt''} then g\<lparr>gs_auto_execute := False\<rparr> else g))"

definition suggest_guarded ::
  "string \<Rightarrow> string option \<Rightarrow> gate_state option \<Rightarrow> string list \<Rightarrow> string option \<Rightarrow> pydt option \<Rightarrow> pydt
     \<Rightarrow> monitor \<Rightarrow> gate_state option \<times> monitor" where
  "suggest_guarded reason runbook gate evidence action_id expires_at now m =
     (let m1 = m\<lparr>hm_state := (hm_state m)\<lparr>hs_board_mode := Some reason, hs_board_runbook := runbook\<rparr>\<rparr>;
          m2 = snd (queue_action ''guarded'' reason evidence expires_at action_id now m1)
      in (map_option (enforce_auto_execute_policy m2) gate, m2))"

definition suggest_kill_switch ::
  "string \<Rightarrow> string \<Rightarrow> string option \<Rightarrow> gate_state option \<Rightarrow> monitor \<Rightarrow> gate_state option \<times> monitor" where
  "suggest_kill_switch state reason runbook gate m =
     (map_option (\<lambda>g. g\<lparr>gs_auto_execute := False\<rparr>) gate,
      m\<lparr>hm_state := (hm_state m)\<lparr>hs_kill_switch :=
        Some \<lparr>kx_state = state, kx_reason = reason, kx_runbook = runbook\<rparr>\<rparr>\<rparr>)"

definition suggest_resume ::
  "string \<Rightarrow> string option \<Rightarrow> string list \<Rightarrow> string option \<Rightarrow> pydt option \<Rightarrow> pydt \<Rightarrow> monitor \<Rightarrow> monitor" where
  "suggest_resume reason runbook evidence action_id expires_at now m =
     (let m1 = m\<lparr>hm_state := (hm_state m)\<lparr>hs_board_mode := Some reason, hs_board_runbook := runbook\<rparr>\<rparr>
      in snd (queue_action ''resume'' reason evidence expires_at action_id now m1))"

section \<open>Guardrail snapshot\<close>

record guardrail =
  gr_health_status :: string
  gr_board_mode :: string
  gr_kill_switch :: string
  gr_spread_status :: string
  gr_liquidity_status :: string
  gr_reduce_only :: bool
  gr_exit_code :: int
  gr_reasons :: "string list"
  gr_banner :: "string option"
  gr_runbook :: "string option"
  gr_kill_switch_reason :: "string option"
  gr_spread_reason :: "string option"
  gr_reduce_only_reason :: "string option"

definition normalise_spread_state :: "string \<Rightarrow> string" where
  "normalise_spread_state s = (if s \<in> {''halt'', ''block''} then ''block''
     else if s \<in> {''watch'', ''cooldown''} then ''cooldown'' else s)"

definition compute_exit_code :: "string \<Rightarrow> string \<Rightarrow> string \<Rightarrow> bool \<Rightarrow> int" where
  "compute_exit_code health_status kill_switch spread_status reduce_only =
     (if health_status = ''hard_stop'' \<or> kill_switch = ''hard_stop'' then 63
      else if kill_switch = ''soft_stop'' then 62
      else if spread_status = ''block'' then 62
      else if spread_status = ''cooldown'' \<or> reduce_only \<or> health_status \<in> {''warn'', ''degraded'', ''soft_stop''} then 21
      else 0)"

definition effective_kill_switch :: "monitor \<Rightarrow> gate_state \<Rightarrow> string option \<Rightarrow> string" where
  "effective_kill_switch m g kill_switch_state =
     the (str_or (str_or (str_or kill_switch_state (map_option kx_state (hs_kill_switch (hm_state m))))
            (rg_kill_switch (gs_risk g))) (Some ''none''))"

definition guardrail_board_mode :: "monitor \<Rightarrow> gate_state \<Rightarrow> string option \<Rightarrow> string" where
  "guardrail_board_mode m g kill_switch_state =
     (let status = hs_status (hm_state m); market = gs_market g in
      if effective_kill_switch m g kill_switch_state = ''hard_stop'' \<or> status = ''hard_stop'' then ''halted''
      else if normalise_spread_state (sg_state (mg_spread market)) \<noteq> ''normal''
            \<or> rg_reduce_only (gs_risk g)
            \<or> lg_state (mg_liquidity market) \<in> {''guarded'', ''halted''}
            \<or> status \<in> {''warn'', ''degraded'', ''soft_stop''} then ''guarded''
      else ''normal'')"

text \<open>The reason codes, each tag only where its reason is set.\<close>

definition tag_reason :: "string \<Rightarrow> string option \<Rightarrow> string list" where
  "tag_reason tag x = (if otrue x then [tag @ the x] else [])"

definition guardrail_snapshot :: "monitor \<Rightarrow> gate_state \<Rightarrow> string option \<Rightarrow> guardrail" where
  "guardrail_snapshot m g kill_switch_state =
     (let h = hm_state m; market = gs_market g; risk = gs_risk g;
          spread_state = normalise_spread_state (sg_state (mg_spread market));
          spread_reason = sg_reason (mg_spread market);
          liq = lg_state (mg_liquidity market);
          ks_reason = (if otrue (rg_kill_switch_reason risk) then rg_kill_switch_reason risk
                       else map_option kx_reason (hs_kill_switch h));
          ks = effective_kill_switch m g kill_switch_state;
          board = guardrail_board_mode m g kill_switch_state;
          liq_reason = (if liq \<noteq> ''normal'' then Some (''liquidity_'' @ liq) else None);
          banner = str_or (hs_board_mode h) (str_or spread_reason (str_or (rg_reduce_only_reason risk)
                     (str_or ks_reason liq_reason)));
          forced = (board = ''guarded'' \<and> \<not> rg_reduce_only risk);
          reduce = (rg_reduce_only risk \<or> forced);
          reduce_reason = (if forced then str_or (rg_reduce_only_reason risk) (Some ''board_mode_guarded'')
                           else rg_reduce_only_reason risk);
          reasons = map hr_code (hs_reasons h) @ tag_reason ''spread:'' spread_reason
             @ (if liq \<noteq> ''normal'' then [''liquidity:'' @ liq] else [])
             @ tag_reason ''reduce_only:'' reduce_reason
             @ (if ks \<noteq> ''none'' then [''kill_switch:'' @ ks] else [])
      in \<lparr>gr_health_status = hs_status h, gr_board_mode = board, gr_kill_switch = ks,
          gr_spread_status = spread_state, gr_liquidity_status = liq, gr_reduce_only = reduce,
          gr_exit_code = compute_exit_code (hs_status h) ks spread_state reduce,
          gr_reasons = reasons, gr_banner = banner,
          gr_runbook = (case hs_kill_switch h of None \<Rightarrow> hs_board_runbook h
             | Some k \<Rightarrow> if otrue (kx_runbook k) then kx_runbook k else hs_board_runbook h),
          gr_kill_switch_reason = ks_reason, gr_spread_reason = spread_reason,
          gr_reduce_only_reason = reduce_reason\<rparr>)"

section \<open>Documents\<close>

definition reason_to_dict :: "health_reason \<Rightarrow> pydict" where
  "reason_to_dict r = [(''code'', PStr (hr_code r)), (''level'', PStr (hr_level r)), (''detail'', ostr (hr_detail r)),
     (''recommended_action'', ostr (hr_action r)), (''raised_at'', PStr (isoformat (hr_raised_at r)))]"

definition kill_switch_to_dict :: "kill_switch_suggestion \<Rightarrow> pydict" where
  "kill_switch_to_dict k = [(''state'', PStr (kx_state k)), (''reason'', PStr (kx_reason k)),
     (''runbook'', ostr (kx_runbook k))]"

definition health_to_dict :: "health_state \<Rightarrow> pydict" where
  "health_to_dict h = [(''status'', PStr (hs_status h)),
     (''reasons'', PList (map (\<lambda>r. PDict (reason_to_dict r)) (hs_reasons h))),
     (''board_mode_suggestion'', ostr (hs_board_mode h)), (''board_mode_runbook'', ostr (hs_board_runbook h)),
     (''kill_switch'', (case hs_kill_switch h of None \<Rightarrow> PNone | Some k \<Rightarrow> PDict (kill_switch_to_dict k)))]"

definition action_to_dict :: "health_action \<Rightarrow> pydict" where
  "action_to_dict a = [(''id'', PStr (ha_id a)), (''action'', PStr (ha_action a)), (''reason'', PStr (ha_reason a)),
     (''evidence'', PList (map PStr (ha_evidence a))),
     (''expires_at'', (case ha_expires_at a of None \<Rightarrow> PNone | Some t \<Rightarrow> PStr (isoformat t))),
     (''queued_at'', PStr (isoformat (ha_queued_at a)))]"

definition guardrail_to_dict :: "guardrail \<Rightarrow> pydict" where
  "guardrail_to_dict s = [(''health_status'', PStr (gr_health_status s)), (''board_mode'', PStr (gr_board_mode s)),
     (''kill_switch_state'', PStr (gr_kill_switch s)), (''spread_status'', PStr (gr_spread_status s)),
     (''liquidity_status'', PStr (gr_liquidity_status s)), (''reduce_only'', PBool (gr_reduce_only s)),
     (''exit_code'', PInt (gr_exit_code s)), (''reasons'', PList (map PStr (gr_reasons s))),
     (''banner'', ostr (gr_banner s)), (''runbook'', ostr (gr_runbook s)),
     (''kill_switch_reason'', ostr (gr_kill_switch_reason s)), (''spread_reason'', ostr (gr_spread_reason s)),
     (''reduce_only_reason'', ostr (gr_reduce_only_reason s))]"

section \<open>Severity, as a number\<close>

definition sev :: "string \<Rightarrow> nat" where
  "sev s = index_or 0 s severity_order"

definition is_status :: "string \<Rightarrow> bool" where
  "is_status s \<longleftrightarrow> s \<in> set severity_order"

lemma is_status_cases:
  "is_status s \<Longrightarrow> (s = ''ok'' \<Longrightarrow> P) \<Longrightarrow> (s = ''warn'' \<Longrightarrow> P) \<Longrightarrow> (s = ''degraded'' \<Longrightarrow> P) \<Longrightarrow>
   (s = ''soft_stop'' \<Longrightarrow> P) \<Longrightarrow> (s = ''hard_stop'' \<Longrightarrow> P) \<Longrightarrow> P"
  by (auto simp: is_status_def severity_order_def)

lemma sev_simps [simp]:
  "sev ''ok'' = 0" "sev ''warn'' = 1" "sev ''degraded'' = 2" "sev ''soft_stop'' = 3" "sev ''hard_stop'' = 4"
  by (simp_all add: sev_def severity_order_def)

lemma is_status_simps [simp]:
  "is_status ''ok''" "is_status ''warn''" "is_status ''degraded''" "is_status ''soft_stop''" "is_status ''hard_stop''"
  by (simp_all add: is_status_def severity_order_def)

lemma merge_status_correct:
  "is_status a \<Longrightarrow> is_status b \<Longrightarrow> is_status (merge_status a b) \<and> sev (merge_status a b) = max (sev a) (sev b)"
  by (erule is_status_cases; erule is_status_cases; simp add: merge_status_def severity_order_def)

lemma level_to_status_ok [simp]: "is_status (level_to_status l)"
  by (auto simp: level_to_status_def level_map_def split: option.split)

lemma sev_inj: "is_status a \<Longrightarrow> is_status b \<Longrightarrow> sev a = sev b \<Longrightarrow> a = b"
  by (erule is_status_cases; erule is_status_cases; simp)

definition reason_sev :: "health_reason \<Rightarrow> nat" where
  "reason_sev r = sev (level_to_status (hr_level r))"

lemma merge_fold:
  "is_status s \<Longrightarrow> is_status (foldl (\<lambda>s r. merge_status s (level_to_status (hr_level r))) s rs) \<and>
   sev (foldl (\<lambda>s r. merge_status s (level_to_status (hr_level r))) s rs) = foldl max (sev s) (map reason_sev rs)"
  by (induction rs arbitrary: s) (simp_all add: merge_status_correct reason_sev_def)

lemma foldl_max: "foldl max (a :: nat) xs = Max (insert a (set xs))"
proof (induction xs arbitrary: a)
  case (Cons x xs)
  show ?case by (cases "xs = []") (simp_all add: Cons max.assoc)
qed simp

lemma recompute_status_max: "is_status (recompute_status h) \<and>
   sev (recompute_status h) = Max (insert 0 (reason_sev ` set (hs_reasons h)))"
  unfolding recompute_status_def using merge_fold [of "''ok''" "hs_reasons h"] by (simp add: foldl_max)

section \<open>The monitor as a system\<close>

text \<open>The operations with the outcome of each log write; the gate state some of them guard is not
  part of the monitor's own state.\<close>

datatype health_op =
    RaiseCond string string "string option" "string option" bool pydt pydt bool
  | QueueAct string string "string list" "pydt option" "string option" pydt
  | AckAct string string pydt
  | ClearCond "string option"
  | SuggestGuarded string "string option" "string list" "string option" "pydt option" pydt
  | SuggestKill string string "string option"
  | SuggestResume string "string option" "string list" "string option" "pydt option" pydt

fun health_step :: "monitor \<Rightarrow> health_op \<Rightarrow> monitor" where
  "health_step m (RaiseCond l r d a s t1 t2 w) = raise_condition l r d a s t1 t2 w m"
| "health_step m (QueueAct a r ev ex i t) = snd (queue_action a r ev ex i t m)"
| "health_step m (AckAct i actor t) = snd (ack_action i actor t m)"
| "health_step m (ClearCond r) = clear_condition r m"
| "health_step m (SuggestGuarded r b ev i ex t) = snd (suggest_guarded r b None ev i ex t m)"
| "health_step m (SuggestKill s r b) = snd (suggest_kill_switch s r b None m)"
| "health_step m (SuggestResume r b ev i ex t) = suggest_resume r b ev i ex t m"

definition queue_ok :: "monitor \<Rightarrow> bool" where
  "queue_ok m \<longleftrightarrow> distinct (map ha_id (hm_actions m)) \<and> distinct (map hr_code (hs_reasons (hm_state m)))
     \<and> is_status (hs_status (hm_state m))"

lemma record_reason_codes:
  "map hr_code (record_reason l r d a t rs) =
     (if r \<in> hr_code ` set rs then map hr_code rs else map hr_code rs @ [r])"
proof -
  have "map hr_code (update_first (\<lambda>x. hr_code x = r)
      (\<lambda>x. x\<lparr>hr_level := l, hr_detail := d, hr_action := a, hr_raised_at := t\<rparr>) rs) = map hr_code rs"
    by (rule map_update_first_cong) simp
  then show ?thesis by (auto simp: record_reason_def find_eq_None)
qed

lemma remove_first_sub: "set (remove_first P xs) \<subseteq> set xs"
  by (induction xs) auto

lemma remove_first_distinct: "distinct (map f xs) \<Longrightarrow> distinct (map f (remove_first P xs))"
  using remove_first_sub by (induction xs) (fastforce simp: image_iff)+

lemma remove_first_gone: "distinct (map f xs) \<Longrightarrow> k \<notin> f ` set (remove_first (\<lambda>x. f x = k) xs)"
  by (induction xs) auto

lemma queue_action_state [simp]:
  "hm_state (snd (queue_action a r ev ex i t m)) = hm_state m" "hm_log (snd (queue_action a r ev ex i t m)) = hm_log m"
  by (simp_all add: queue_action_def Let_def split: option.split)

lemma queue_action_distinct:
  "distinct (map ha_id (hm_actions m)) \<Longrightarrow> distinct (map ha_id (hm_actions (snd (queue_action a r ev ex i t m))))"
  by (auto simp: queue_action_def Let_def find_eq_None split: option.split)

lemma queue_action_actions_frame:
  "hm_actions (snd (queue_action a r ev ex i t (m\<lparr>hm_state := h\<rparr>))) = hm_actions (snd (queue_action a r ev ex i t m))"
  by (simp add: queue_action_def Let_def split: option.split)

lemma raise_condition_sel:
  "hm_actions (raise_condition l r d a s t1 t2 w m) = hm_actions m"
  "hs_reasons (hm_state (raise_condition l r d a s t1 t2 w m)) = record_reason l r d a t1 (hs_reasons (hm_state m))"
  "hs_status (hm_state (raise_condition l r d a s t1 t2 w m)) =
     (if w then merge_status (hs_status (hm_state m)) (level_to_status l) else hs_status (hm_state m))"
  "hm_log (raise_condition l r d a s t1 t2 w m) = hm_log m @ (if w then [health_event l r d a s t2] else [])"
  by (simp_all add: raise_condition_def emit_health_event_def Let_def)

lemma clear_condition_sel:
  "hm_log (clear_condition x m) = hm_log m"
  "hs_reasons (hm_state (clear_condition (Some r) m)) = filter (\<lambda>x. hr_code x \<noteq> r) (hs_reasons (hm_state m))"
  "hm_actions (clear_condition (Some r) m) = filter (\<lambda>x. ha_reason x \<noteq> r) (hm_actions m)"
  by (simp_all add: clear_condition_def Let_def split: option.split)

lemma clear_condition_status:
  "is_status (hs_status (hm_state (clear_condition (Some r) m))) \<and>
   sev (hs_status (hm_state (clear_condition (Some r) m))) =
     Max (insert 0 (reason_sev ` set (hs_reasons (hm_state (clear_condition (Some r) m)))))"
proof -
  define h where "h = (hm_state m)\<lparr>hs_reasons := filter (\<lambda>x. hr_code x \<noteq> r) (hs_reasons (hm_state m))\<rparr>"
  have "hm_state (clear_condition (Some r) m) =
      (if hs_reasons h = [] then h\<lparr>hs_status := ''ok''\<rparr> else h\<lparr>hs_status := recompute_status h\<rparr>)"
    by (simp add: clear_condition_def h_def Let_def)
  then show ?thesis using recompute_status_max [of h] by simp
qed

lemma health_step_queue_ok: "queue_ok m \<Longrightarrow> queue_ok (health_step m x)"
proof (cases x)
  case (RaiseCond l r d a s t1 t2 w)
  assume "queue_ok m"
  with RaiseCond show ?thesis
    by (simp add: queue_ok_def raise_condition_sel record_reason_codes merge_status_correct)
next
  case (ClearCond r)
  assume m: "queue_ok m"
  show ?thesis
  proof (cases r)
    case None
    with ClearCond show ?thesis by (simp add: queue_ok_def clear_condition_def health_default_def)
  next
    case (Some s)
    with ClearCond m show ?thesis
      by (simp add: queue_ok_def clear_condition_sel clear_condition_status distinct_map_filter)
  qed
qed (simp_all add: queue_ok_def suggest_guarded_def suggest_kill_switch_def suggest_resume_def ack_action_def Let_def
  queue_action_distinct queue_action_actions_frame remove_first_distinct)

lemma health_step_log: "\<exists>new. hm_log (health_step m x) = hm_log m @ new"
  by (cases x) (simp_all add: raise_condition_sel clear_condition_sel suggest_guarded_def suggest_kill_switch_def
    suggest_resume_def ack_action_def Let_def)

interpretation monitor: logged_system health_step queue_ok hm_log
  by unfold_locales (rule health_step_queue_ok health_step_log, assumption?)+

section \<open>Properties\<close>

text \<open>Every recorded reason is at most as severe as the status.\<close>

definition covered :: "monitor \<Rightarrow> bool" where
  "covered m \<longleftrightarrow> is_status (hs_status (hm_state m)) \<and>
     (\<forall>r\<in>set (hs_reasons (hm_state m)). reason_sev r \<le> sev (hs_status (hm_state m)))"

definition write_succeeds :: "health_op \<Rightarrow> bool" where
  "write_succeeds x = (case x of RaiseCond _ _ _ _ _ _ _ w \<Rightarrow> w | _ \<Rightarrow> True)"

lemma record_reason_mem:
  "x \<in> set (record_reason l r d a t rs) \<Longrightarrow> x \<in> set rs \<or> hr_level x = l"
  using set_update_first_subset by (fastforce simp: record_reason_def split: if_splits)

lemma covered_step: "covered m \<Longrightarrow> write_succeeds x \<Longrightarrow> covered (health_step m x)"
proof (cases x)
  case (RaiseCond l r d a s t1 t2 w)
  assume m: "covered m" and w: "write_succeeds x"
  have "reason_sev y \<le> max (sev (hs_status (hm_state m))) (sev (level_to_status l))"
    if "y \<in> set (record_reason l r d a t1 (hs_reasons (hm_state m)))" for y
    using record_reason_mem [OF that] m by (auto simp: covered_def reason_sev_def le_max_iff_disj)
  with RaiseCond w m show ?thesis
    by (simp add: covered_def raise_condition_sel merge_status_correct write_succeeds_def)
next
  case (ClearCond r)
  then show ?thesis
    by (cases r) (simp_all add: covered_def clear_condition_status clear_condition_def [of None] health_default_def)
qed (simp_all add: covered_def suggest_guarded_def suggest_kill_switch_def suggest_resume_def ack_action_def Let_def)

interpretation covered: guarded_system health_step write_succeeds covered
  by unfold_locales (rule covered_step)

lemma monitor_default_ok [simp]: "queue_ok monitor_default" "covered monitor_default"
  by (simp_all add: queue_ok_def covered_def monitor_default_def health_default_def)

text \<open>C31: As long as every append to the event log succeeds, the health status is never below the
  severity of a reason that is still recorded, whatever was raised, re-raised at another level,
  queued, acknowledged or cleared before.\<close>

theorem status_covers_reasons:
  assumes "list_all write_succeeds ops" "r \<in> set (hs_reasons (hm_state (foldl health_step monitor_default ops)))"
  shows "sev (level_to_status (hr_level r)) \<le> sev (hs_status (hm_state (foldl health_step monitor_default ops)))"
  using covered.allowed_run_inv [OF monitor_default_ok(2) assms(1)] assms(2)
  by (simp add: covered_def reason_sev_def)

definition demo_time :: pydt where
  "demo_time = \<lparr>yr = 2025, mo = 3, dy = 14, hh = 9, mi = 30, ss = 0, us = 0, tzo = Some 0\<rparr>"

theorem status_covers_reasons_witness:
  "sev (level_to_status ''fatal'') \<le> sev (hs_status (hm_state (foldl health_step monitor_default
     [RaiseCond ''fatal'' ''feed'' None None False demo_time demo_time True])))"
  using status_covers_reasons [of "[RaiseCond ''fatal'' ''feed'' None None False demo_time demo_time True]"
      "\<lparr>hr_code = ''feed'', hr_level = ''fatal'', hr_detail = None, hr_action = None, hr_raised_at = demo_time\<rparr>"]
  by (simp add: write_succeeds_def raise_condition_sel record_reason_def monitor_default_def health_default_def)

text \<open>A condition raised while the event log cannot be written is recorded as a reason, but the
  status and the log stay as they were, however severe the level: the status is merged only after
  the write.\<close>

theorem unwritten_raise_keeps_status:
  "hs_status (hm_state (raise_condition ''hard_stop'' r d a s t1 t2 False m)) = hs_status (hm_state m) \<and>
   r \<in> hr_code ` set (hs_reasons (hm_state (raise_condition ''hard_stop'' r d a s t1 t2 False m))) \<and>
   hm_log (raise_condition ''hard_stop'' r d a s t1 t2 False m) = hm_log m"
proof -
  have "r \<in> set (map hr_code (record_reason ''hard_stop'' r d a t1 (hs_reasons (hm_state m))))"
    by (simp only: record_reason_codes) auto
  then show ?thesis by (simp add: raise_condition_sel)
qed

text \<open>Clearing one reason leaves exactly the other reasons and sets the status to the worst
  severity among them, \<open>ok\<close> when none is left.\<close>

theorem clear_recomputes_status:
  "hs_reasons (hm_state (clear_condition (Some r) m)) = filter (\<lambda>x. hr_code x \<noteq> r) (hs_reasons (hm_state m)) \<and>
   is_status (hs_status (hm_state (clear_condition (Some r) m))) \<and>
   sev (hs_status (hm_state (clear_condition (Some r) m))) =
     Max (insert 0 (reason_sev ` set (filter (\<lambda>x. hr_code x \<noteq> r) (hs_reasons (hm_state m)))))"
  using clear_condition_status [of r m] by (simp add: clear_condition_sel)

text \<open>After any history, acknowledging an action id answers \<open>acknowledged\<close> exactly if an action
  with that id was queued, and then no queued action has it any more.\<close>

theorem ack_removes_action:
  fixes ops :: "health_op list"
  defines "m \<equiv> foldl health_step monitor_default ops"
  shows "i \<notin> ha_id ` set (hm_actions (snd (ack_action i actor t m))) \<and>
    (dget (fst (ack_action i actor t m)) ''status'' = PStr ''acknowledged'' \<longleftrightarrow> i \<in> ha_id ` set (hm_actions m))"
proof -
  have "distinct (map ha_id (hm_actions m))"
    using monitor.run_inv [OF monitor_default_ok(1)] by (simp add: m_def queue_ok_def)
  then have "i \<notin> ha_id ` set (remove_first (\<lambda>a. ha_id a = i) (hm_actions m))"
    by (rule remove_first_gone)
  then show ?thesis
    by (auto simp: ack_action_def Let_def dget_def find_eq_None dest!: find_Some_iff_mem split: option.split)
qed

text \<open>Queueing an action under the id of a queued one returns that action, with its own reason,
  evidence and times, and changes nothing.\<close>

theorem queue_action_idempotent:
  "queue_action a' r' ev' ex' (Some (ha_id (fst (queue_action a r ev ex i t m)))) t' (snd (queue_action a r ev ex i t m))
     = queue_action a r ev ex i t m"
proof -
  define aid where "aid = (if otrue i then the i else a @ '':'' @ r)"
  obtain x m' where q: "queue_action a r ev ex i t m = (x, m')" by fastforce
  have ne: "aid \<noteq> []"
    by (auto simp: aid_def otrue_def split: option.splits list.splits)
  have "ha_id x = aid \<and> find (\<lambda>y. ha_id y = aid) (hm_actions m') = Some x"
  proof (cases "find (\<lambda>y. ha_id y = aid) (hm_actions m)")
    case None
    with q show ?thesis by (auto simp: queue_action_def Let_def aid_def [symmetric] find_append)
  next
    case (Some y)
    with q find_Some_iff_mem [OF Some] show ?thesis by (simp add: queue_action_def Let_def aid_def [symmetric])
  qed
  then have find: "find (\<lambda>y. ha_id y = ha_id x) (hm_actions m') = Some x" and "ha_id x \<noteq> []"
    using ne by auto
  then have "otrue (Some (ha_id x))" by (cases "ha_id x") simp_all
  with q find show ?thesis by (simp add: queue_action_def Let_def)
qed

text \<open>The exit code of the guardrail snapshot tells the operator exactly what the board mode does:
  63 means halted, 0 means normal with no soft stop in force, and reduce-only is reported on a
  guarded board even where the risk gate has not set it.\<close>

theorem guardrail_exit_code:
  fixes m :: monitor and g :: gate_state and k :: "string option"
  defines "s \<equiv> guardrail_snapshot m g k"
  shows "(gr_exit_code s = 63 \<longleftrightarrow> gr_board_mode s = ''halted'') \<and>
    (gr_exit_code s = 0 \<longleftrightarrow> gr_board_mode s = ''normal'' \<and> gr_kill_switch s \<noteq> ''soft_stop'') \<and>
    (gr_reduce_only s \<longleftrightarrow> rg_reduce_only (gs_risk g) \<or> gr_board_mode s = ''guarded'')"
  by (auto simp: s_def guardrail_snapshot_def Let_def compute_exit_code_def guardrail_board_mode_def)

text \<open>A soft-stop recommendation with everything else normal makes the snapshot exit with 62
  while it still calls the board normal and leaves reduce-only off.\<close>

theorem soft_stop_board_normal:
  fixes g :: gate_state
  defines "s \<equiv> guardrail_snapshot monitor_default gate_default (Some ''soft_stop'')"
  shows "gr_exit_code s = 62 \<and> gr_board_mode s = ''normal'' \<and> \<not> gr_reduce_only s \<and> gr_banner s = None"
  unfolding s_def by code_simp

text \<open>The policy of a monitor leaves auto-execute on only while its status is \<open>ok\<close> (or a word
  that is no status at all) and no guarded or halted board is suggested.\<close>

theorem enforce_policy_off:
  "is_status (hs_status (hm_state m)) \<Longrightarrow> gs_auto_execute (enforce_auto_execute_policy m g) \<Longrightarrow>
   hs_status (hm_state m) = ''ok'' \<and> gs_auto_execute g \<and>
   (\<forall>w. hs_board_mode (hm_state m) = Some w \<longrightarrow> str_lower w \<notin> {''guarded'', ''halted'', ''halt''})"
  by (erule is_status_cases; cases "hs_board_mode (hm_state m)"; cases "the (hs_board_mode (hm_state m))")
    (auto simp: enforce_auto_execute_policy_def Let_def str_lower_def split: if_splits)

theorem enforce_policy_off_witness:
  "gs_auto_execute (enforce_auto_execute_policy monitor_default (set_auto_execute ''normal'' gate_default)) \<and>
   hs_status (hm_state monitor_default) = ''ok''"
proof -
  have h: "gs_auto_execute (enforce_auto_execute_policy monitor_default (set_auto_execute ''normal'' gate_default))"
    by code_simp
  from enforce_policy_off [OF _ h] h show ?thesis by (simp add: monitor_default_def health_default_def)
qed

end
