(* ===== verification/Risk.thy ===== *)
theory Risk
  imports Health
begin

text \<open>
  \<open>src/risk/manager.py\<close>: the risk manager, which turns drawdown, exposure, spread and equity
  into kill-switch and reduce-only guidance (\<open>evaluate\<close>) and into the decision on a ticket
  (\<open>evaluate_ticket\<close>), with its policy file; and the two small guards of
  \<open>src/risk/capital_guard.py\<close> and \<open>src/risk/correlation_guard.py\<close>. The funding curve and the
  reduce-only advisor are objects the caller passes in, so they are functions in the manager's
  record; a session date is its day number; the decision log is a list.

  Shown: which metrics give which guidance, that worse metrics never give weaker guidance, the
  decision table of a ticket, and how far a hard stop reaches into the health status.
\<close>

section \<open>Data\<close>

record risk_snapshot =
  rs_daily :: pyfloat
  rs_weekly :: pyfloat
  rs_equity :: "pyfloat option"
  rs_exposure :: "pyfloat option"
  rs_spread :: "string option"
  rs_session :: "int option"
  rs_funding :: "pyfloat option"

record risk_assessment =
  ra_state :: risk_gate
  ra_kill :: "string option"
  ra_kill_reason :: "string option"
  ra_funding :: "pyfloat option"

record risk_decision =
  rd_allowed :: bool
  rd_reduce_only :: bool
  rd_board_mode :: string
  rd_kill_switch :: string
  rd_spread :: string
  rd_reason :: "string option"
  rd_exit_code :: int

record risk_manager =
  rm_daily_stop :: pyfloat
  rm_weekly_stop :: pyfloat
  rm_soft :: pyfloat
  rm_hard :: pyfloat
  rm_floor :: pyfloat
  rm_advisor :: "(gate_state \<Rightarrow> risk_assessment option \<Rightarrow> string \<Rightarrow> string \<Rightarrow> bool \<times> string option) option"
  rm_curve :: "(int \<Rightarrow> pyfloat) option"

definition default_manager :: risk_manager where
  "default_manager = \<lparr>rm_daily_stop = Fin (5 / 2), rm_weekly_stop = Fin 5, rm_soft = Fin 2, rm_hard = Fin (5 / 2),
     rm_floor = Fin 80, rm_advisor = None, rm_curve = None\<rparr>"

definition default_snapshot :: risk_snapshot where
  "default_snapshot = \<lparr>rs_daily = Fin 0, rs_weekly = Fin 0, rs_equity = None, rs_exposure = None,
     rs_spread = None, rs_session = None, rs_funding = None\<rparr>"

section \<open>Policy file\<close>

definition dict_or_empty :: "pyval \<Rightarrow> (pydict \<Rightarrow> pyval) \<Rightarrow> pyval" where
  "dict_or_empty v f = (case v of PDict d \<Rightarrow> f d | _ \<Rightarrow> PDict [])"

text \<open>\<open>from_policy\<close>: None where the file does not exist, else what it holds.\<close>

definition from_policy :: "pyval option \<Rightarrow> string \<Rightarrow> (int \<Rightarrow> pyfloat) option \<Rightarrow> risk_manager res" where
  "from_policy file profile curve = (case file of
       None \<Rightarrow> Inr (default_manager\<lparr>rm_curve := curve\<rparr>)
     | Some v \<Rightarrow> bind_res (as_dict_get (py_or v (PDict []))) (\<lambda>payload.
         let profiles = dget_def payload ''profiles'' (PDict []);
             cfg = dict_or_empty profiles (\<lambda>d. dget_def d profile (PDict []));
             limits = dict_or_empty cfg (\<lambda>d. dget_def d ''risk_limits'' (PDict []));
             kill = dict_or_empty cfg (\<lambda>d. dget_def d ''kill_switch'' (PDict []))
         in bind_res (as_dict_get kill) (\<lambda>ks.
            bind_res (case dget_def ks ''drawdown_threshold_pct'' (PDict []) of
                PDict dd \<Rightarrow> bind_res (py_float (dget_def dd ''daily'' (PFloat (Fin (5 / 2))))) (\<lambda>a.
                   bind_res (py_float (dget_def dd ''weekly'' (PFloat (Fin 5)))) (\<lambda>b. Inr (a, b)))
              | _ \<Rightarrow> Inr (Fin (5 / 2), Fin 5)) (\<lambda>(daily, weekly).
            bind_res (py_float (dget_def ks ''capital_floor_pct_of_base'' (PFloat (Fin 80)))) (\<lambda>floor.
            bind_res (as_dict_get limits) (\<lambda>rl.
            bind_res (py_float (dget_def rl ''exposure_r_eff_soft_stop'' (PFloat (Fin 2)))) (\<lambda>soft.
            bind_res (py_float (dget_def rl ''exposure_r_eff_hard_stop'' (PFloat (Fin (5 / 2))))) (\<lambda>hard.
            Inr \<lparr>rm_daily_stop = daily, rm_weekly_stop = weekly, rm_soft = soft, rm_hard = hard,
                 rm_floor = floor, rm_advisor = None, rm_curve = curve\<rparr>))))))))"

section \<open>Evaluating the metrics\<close>

fun apply_kill_switch :: "string \<Rightarrow> string \<Rightarrow> string option \<times> string option \<Rightarrow> string option \<times> string option" where
  "apply_kill_switch level reason (ks, kr) =
     (if ks = Some ''hard_stop'' then (ks, kr)
      else if level = ''hard_stop'' \<or> ks = None then (Some level, Some reason) else (ks, kr))"

definition ge_opt :: "pyfloat option \<Rightarrow> pyfloat \<Rightarrow> bool" where
  "ge_opt x t = (case x of None \<Rightarrow> False | Some v \<Rightarrow> fge v t)"

definition le_opt :: "pyfloat option \<Rightarrow> pyfloat \<Rightarrow> bool" where
  "le_opt x t = (case x of None \<Rightarrow> False | Some v \<Rightarrow> fle v t)"

definition spread_word :: "string option \<Rightarrow> string" where
  "spread_word s = str_lower (case str_or s (Some []) of Some w \<Rightarrow> w | None \<Rightarrow> [])"

definition funding_rate :: "risk_manager \<Rightarrow> risk_snapshot \<Rightarrow> pyfloat option" where
  "funding_rate rm x = (case rs_funding x of Some r \<Rightarrow> Some r
     | None \<Rightarrow> (case (rm_curve rm, rs_session x) of (Some c, Some d) \<Rightarrow> Some (c d) | _ \<Rightarrow> None))"

text \<open>The guidance of \<open>evaluate\<close>: the kill switch with its reason, and the reduce-only reason.\<close>

definition reduce_guidance :: "risk_manager \<Rightarrow> risk_snapshot \<Rightarrow> string option" where
  "reduce_guidance rm x =
     (let r1 = (if ge_opt (rs_exposure x) (rm_hard rm) then None
                else if ge_opt (rs_exposure x) (rm_soft rm) then Some ''r_eff_soft_stop'' else None);
          sp = spread_word (rs_spread x)
      in if sp \<in> {''block'', ''halt''} then r1
         else if sp \<in> {''cooldown'', ''watch''} \<and> r1 = None then Some ''spread_cooldown'' else r1)"

definition kill_guidance :: "risk_manager \<Rightarrow> risk_snapshot \<Rightarrow> string option \<times> string option" where
  "kill_guidance rm x =
     (let k0 = (None, None);
          k1 = (if ge_opt (rs_exposure x) (rm_hard rm) then apply_kill_switch ''hard_stop'' ''r_eff_hard_stop'' k0 else k0);
          k2 = (if spread_word (rs_spread x) \<in> {''block'', ''halt''}
                then apply_kill_switch ''soft_stop'' ''spread_block'' k1 else k1);
          k3 = (if fge (rs_daily x) (rm_daily_stop rm) then apply_kill_switch ''soft_stop'' ''daily_drawdown'' k2 else k2);
          k4 = (if fge (rs_weekly x) (rm_weekly_stop rm) then apply_kill_switch ''soft_stop'' ''weekly_drawdown'' k3 else k3)
      in if le_opt (rs_equity x) (rm_floor rm) then apply_kill_switch ''hard_stop'' ''capital_floor'' k4 else k4)"

definition evaluate ::
  "risk_manager \<Rightarrow> risk_snapshot \<Rightarrow> monitor option \<Rightarrow> pydt \<Rightarrow> pydt \<Rightarrow> bool \<Rightarrow> risk_assessment \<times> monitor" where
  "evaluate rm x health_monitor now1 now2 write_ok =
     (let (ks, kr) = kill_guidance rm x;
          ro = reduce_guidance rm x;
          m = (case health_monitor of Some m \<Rightarrow> m | None \<Rightarrow> monitor_default);
          m' = (if ks \<noteq> None then
                  raise_condition (if ks = Some ''hard_stop'' then ''critical'' else ''warning'') ''risk_kill_switch''
                    kr (Some ''runbook:RUN-RISK-01#kill-switch'') False now1 now2 write_ok m
                else if ro \<noteq> None then
                  raise_condition ''warning'' ''risk_reduce_only''
                    ro (Some ''runbook:RUN-RISK-01#reduce-only'') False now1 now2 write_ok m
                else m)
      in (\<lparr>ra_state = \<lparr>rg_reduce_only = (ro \<noteq> None), rg_reduce_only_reason = ro,
                       rg_kill_switch = ks, rg_kill_switch_reason = kr\<rparr>,
           ra_kill = ks, ra_kill_reason = kr, ra_funding = funding_rate rm x\<rparr>, m'))"

section \<open>Deciding on a ticket\<close>

definition norm_spread :: "string option \<Rightarrow> string" where
  "norm_spread s = (if s = Some ''halt'' \<or> s = Some ''block'' then ''block''
     else if s = Some ''cooldown'' \<or> s = Some ''watch'' then ''cooldown'' else ''normal'')"

definition reduce_only_advice ::
  "risk_manager \<Rightarrow> gate_state \<Rightarrow> risk_assessment option \<Rightarrow> string \<Rightarrow> string \<Rightarrow> bool \<times> string option" where
  "reduce_only_advice rm g a spread ks = (case rm_advisor rm of None \<Rightarrow> (False, None) | Some f \<Rightarrow> f g a spread ks)"

definition ticket_kill_switch :: "gate_state \<Rightarrow> risk_assessment option \<Rightarrow> string option \<Rightarrow> string" where
  "ticket_kill_switch g a kill_switch_state =
     the (str_or (str_or (str_or kill_switch_state (Option.bind a ra_kill)) (rg_kill_switch (gs_risk g)))
        (Some ''none''))"

text \<open>\<open>evaluate_ticket\<close> with the gate state it works on (a fresh one where none is given).\<close>

definition decide_ticket ::
  "risk_manager \<Rightarrow> gate_state \<Rightarrow> risk_assessment option \<Rightarrow> string option \<Rightarrow> string option \<Rightarrow> risk_decision" where
  "decide_ticket rm g a spread_status kill_switch_state =
     (let spread = norm_spread (str_or spread_status (Some (sg_state (mg_spread (gs_market g)))));
          ks = ticket_kill_switch g a kill_switch_state;
          ro1 = (rg_reduce_only (gs_risk g) \<or> (case a of None \<Rightarrow> False | Some x \<Rightarrow> rg_reduce_only (ra_state x)));
          rr1 = (case a of None \<Rightarrow> rg_reduce_only_reason (gs_risk g)
                 | Some x \<Rightarrow> if otrue (rg_reduce_only_reason (ra_state x)) then rg_reduce_only_reason (ra_state x)
                            else rg_reduce_only_reason (gs_risk g));
          (adv, adv_reason) = reduce_only_advice rm g a spread ks;
          ro = (ro1 \<or> adv);
          rr = (if adv \<and> rr1 = None then str_or adv_reason (Some ''reduce_only_advisor'') else rr1);
          reason = str_or (sg_reason (mg_spread (gs_market g)))
             (str_or (rg_kill_switch_reason (gs_risk g)) (str_or (Option.bind a ra_kill_reason) rr));
          dec = (\<lambda>allowed reduce board rsn code. \<lparr>rd_allowed = allowed, rd_reduce_only = reduce, rd_board_mode = board,
             rd_kill_switch = ks, rd_spread = spread, rd_reason = rsn, rd_exit_code = code\<rparr>)
      in if ks = ''hard_stop'' then
           dec False ro ''halted'' (str_or reason (Some ''kill_switch_hard_stop'')) 63
         else if spread = ''block'' then
           dec False True ''guarded'' (str_or reason (Some ''spread_block'')) 62
         else if ks = ''soft_stop'' then
           dec False True ''guarded'' (str_or reason (Some ''kill_switch_soft_stop'')) 62
         else if spread = ''cooldown'' \<or> ro then
           dec True ro ''guarded'' (str_or reason (Some (if ro then ''reduce_only'' else ''spread_cooldown''))) 21
         else dec True ro ''normal'' reason 0)"

definition decision_to_dict :: "risk_decision \<Rightarrow> pydict" where
  "decision_to_dict d = [(''allowed'', PBool (rd_allowed d)), (''reduce_only'', PBool (rd_reduce_only d)),
     (''board_mode'', PStr (rd_board_mode d)), (''kill_switch_state'', PStr (rd_kill_switch d)),
     (''spread_status'', PStr (rd_spread d)), (''reason'', ostr (rd_reason d)), (''exit_code'', PInt (rd_exit_code d))]"

definition assessment_to_dict :: "risk_assessment \<Rightarrow> pydict" where
  "assessment_to_dict a = [(''risk_state'', PDict (risk_to_dict (ra_state a))),
     (''kill_switch_suggestion'', ostr (ra_kill a)), (''kill_switch_reason'', ostr (ra_kill_reason a)),
     (''funding_rate'', (case ra_funding a of None \<Rightarrow> PNone | Some x \<Rightarrow> PFloat x))]"

definition risk_event ::
  "risk_decision \<Rightarrow> string option \<Rightarrow> string option \<Rightarrow> gate_state \<Rightarrow> pydt \<Rightarrow> pydict" where
  "risk_event d actor runbook g now = [(''event'', PStr ''risk.decision''), (''ts'', PStr (event_ts (now\<lparr>us := 0\<rparr>))),
     (''actor'', ostr actor), (''runbook_ref'', ostr runbook), (''decision'', PDict (decision_to_dict d)),
     (''gate'', PDict (gate_to_dict g))]"

definition emit_risk_decision ::
  "risk_decision \<Rightarrow> string option \<Rightarrow> string option \<Rightarrow> gate_state \<Rightarrow> pydt \<Rightarrow> bool \<Rightarrow> pydict list \<Rightarrow> pydict list" where
  "emit_risk_decision d actor runbook g now write_ok lg =
     (if write_ok then lg @ [risk_event d actor runbook g now] else lg)"

definition evaluate_ticket ::
  "risk_manager \<Rightarrow> gate_state option \<Rightarrow> risk_assessment option \<Rightarrow> string option \<Rightarrow> string option
     \<Rightarrow> string option \<Rightarrow> string option \<Rightarrow> pydt \<Rightarrow> bool \<Rightarrow> pydict list \<Rightarrow> risk_decision \<times> pydict list" where
  "evaluate_ticket rm gate a spread_status kill_switch_state actor runbook now write_ok lg =
     (let g = (case gate of Some g \<Rightarrow> g | None \<Rightarrow> gate_default);
          d = decide_ticket rm g a spread_status kill_switch_state
      in (d, emit_risk_decision d actor runbook g now write_ok lg))"

definition simulate_losses :: "risk_manager \<Rightarrow> pyfloat \<Rightarrow> pyfloat \<Rightarrow> int \<Rightarrow> string option" where
  "simulate_losses rm drawdown weekly streak =
     (if fge weekly (rm_weekly_stop rm) then Some ''soft_stop''
      else if fge drawdown (rm_daily_stop rm) then Some ''soft_stop''
      else if 5 \<le> streak then Some ''soft_stop'' else None)"

section \<open>The allocation and correlation guards\<close>

definition capital_simulate :: "pyfloat \<Rightarrow> pyfloat \<Rightarrow> pyfloat \<Rightarrow> string" where
  "capital_simulate warn halt peak = (if fge peak halt then ''halt'' else if fge peak warn then ''throttle'' else ''ok'')"

definition correlation_breaches :: "(string \<times> pyfloat) list \<Rightarrow> pyfloat \<Rightarrow> string list" where
  "correlation_breaches pairs threshold = map fst (filter (\<lambda>(p, v). fge (fabs v) threshold) pairs)"

definition correlation_simulate :: "pyfloat \<Rightarrow> pyfloat \<Rightarrow> string" where
  "correlation_simulate threshold hotness =
     (if fge hotness threshold then ''hot''
      else if fge hotness (fmul threshold (rnd (9 / 10))) then ''warm'' else ''ok'')"

section \<open>Lemmas\<close>

text \<open>The recommendation as one table: the first limit that decides, with its reason.\<close>

lemma kill_guidance_result:
  "kill_guidance rm x =
     (if ge_opt (rs_exposure x) (rm_hard rm) then (Some ''hard_stop'', Some ''r_eff_hard_stop'')
      else if le_opt (rs_equity x) (rm_floor rm) then (Some ''hard_stop'', Some ''capital_floor'')
      else if spread_word (rs_spread x) \<in> {''block'', ''halt''} then (Some ''soft_stop'', Some ''spread_block'')
      else if fge (rs_daily x) (rm_daily_stop rm) then (Some ''soft_stop'', Some ''daily_drawdown'')
      else if fge (rs_weekly x) (rm_weekly_stop rm) then (Some ''soft_stop'', Some ''weekly_drawdown'') else (None, None))"
proof -
  have "(let k1 = (if a then apply_kill_switch ''hard_stop'' ''r_eff_hard_stop'' (None, None) else (None, None));
             k2 = (if b then apply_kill_switch ''soft_stop'' ''spread_block'' k1 else k1);
             k3 = (if c then apply_kill_switch ''soft_stop'' ''daily_drawdown'' k2 else k2);
             k4 = (if d then apply_kill_switch ''soft_stop'' ''weekly_drawdown'' k3 else k3)
         in if e then apply_kill_switch ''hard_stop'' ''capital_floor'' k4 else k4) =
     (if a then (Some ''hard_stop'', Some ''r_eff_hard_stop'') else if e then (Some ''hard_stop'', Some ''capital_floor'')
      else if b then (Some ''soft_stop'', Some ''spread_block'') else if c then (Some ''soft_stop'', Some ''daily_drawdown'')
      else if d then (Some ''soft_stop'', Some ''weekly_drawdown'') else (None, None))" for a b c d e
    by (cases a; cases b; cases c; cases d; cases e) simp_all
  from this [of "ge_opt (rs_exposure x) (rm_hard rm)" "spread_word (rs_spread x) \<in> {''block'', ''halt''}" "fge (rs_daily x) (rm_daily_stop rm)"
      "fge (rs_weekly x) (rm_weekly_stop rm)" "le_opt (rs_equity x) (rm_floor rm)"]
  show ?thesis unfolding kill_guidance_def Let_def .
qed

lemma kill_guidance_cases:
  "fst (kill_guidance rm x) =
     (if ge_opt (rs_exposure x) (rm_hard rm) \<or> le_opt (rs_equity x) (rm_floor rm) then Some ''hard_stop''
      else if spread_word (rs_spread x) \<in> {''block'', ''halt''} \<or> fge (rs_daily x) (rm_daily_stop rm)
              \<or> fge (rs_weekly x) (rm_weekly_stop rm) then Some ''soft_stop'' else None)"
  by (simp only: kill_guidance_result split: if_split) simp

lemma kill_guidance_reason: "fst (kill_guidance rm x) = None \<longleftrightarrow> snd (kill_guidance rm x) = None"
  by (simp only: kill_guidance_result split: if_split) simp

lemma kill_guidance_why:
  "snd (kill_guidance rm x) =
     (if ge_opt (rs_exposure x) (rm_hard rm) then Some ''r_eff_hard_stop''
      else if le_opt (rs_equity x) (rm_floor rm) then Some ''capital_floor''
      else if spread_word (rs_spread x) \<in> {''block'', ''halt''} then Some ''spread_block''
      else if fge (rs_daily x) (rm_daily_stop rm) then Some ''daily_drawdown''
      else if fge (rs_weekly x) (rm_weekly_stop rm) then Some ''weekly_drawdown'' else None)"
  by (simp only: kill_guidance_result split: if_split) simp

lemma stop_words:
  "(if h then Some ''hard_stop'' else if b then Some ''soft_stop'' else None) = Some ''hard_stop'' \<longleftrightarrow> h"
  "(if h then Some ''hard_stop'' else if b then Some ''soft_stop'' else None) = Some ''soft_stop'' \<longleftrightarrow> \<not> h \<and> b"
  "(if h then Some ''hard_stop'' else if b then Some ''soft_stop'' else None) = None \<longleftrightarrow> \<not> (h \<or> b)"
  by (cases h; cases b; simp)+

lemma kill_word:
  "fst (kill_guidance rm x) = Some ''hard_stop'' \<longleftrightarrow> ge_opt (rs_exposure x) (rm_hard rm) \<or> le_opt (rs_equity x) (rm_floor rm)"
  "fst (kill_guidance rm x) = Some ''soft_stop'' \<longleftrightarrow> \<not> (ge_opt (rs_exposure x) (rm_hard rm) \<or> le_opt (rs_equity x) (rm_floor rm)) \<and>
     (spread_word (rs_spread x) \<in> {''block'', ''halt''} \<or> fge (rs_daily x) (rm_daily_stop rm) \<or> fge (rs_weekly x) (rm_weekly_stop rm))"
  "fst (kill_guidance rm x) = None \<longleftrightarrow> \<not> (ge_opt (rs_exposure x) (rm_hard rm) \<or> le_opt (rs_equity x) (rm_floor rm)
     \<or> spread_word (rs_spread x) \<in> {''block'', ''halt''} \<or> fge (rs_daily x) (rm_daily_stop rm) \<or> fge (rs_weekly x) (rm_weekly_stop rm))"
  by (simp_all only: kill_guidance_cases stop_words disj_assoc)

lemma evaluate_sel:
  "ra_kill (fst (evaluate rm x hm t1 t2 w)) = fst (kill_guidance rm x)"
  "ra_kill_reason (fst (evaluate rm x hm t1 t2 w)) = snd (kill_guidance rm x)"
  "ra_state (fst (evaluate rm x hm t1 t2 w)) = \<lparr>rg_reduce_only = (reduce_guidance rm x \<noteq> None),
     rg_reduce_only_reason = reduce_guidance rm x, rg_kill_switch = fst (kill_guidance rm x),
     rg_kill_switch_reason = snd (kill_guidance rm x)\<rparr>"
  by (simp_all add: evaluate_def Let_def case_prod_unfold)

text \<open>How severe a kill-switch recommendation is.\<close>

definition kill_rank :: "string option \<Rightarrow> nat" where
  "kill_rank k = (if k = Some ''hard_stop'' then 2 else if k = Some ''soft_stop'' then 1 else 0)"

definition not_better :: "risk_snapshot \<Rightarrow> risk_snapshot \<Rightarrow> bool" where
  "not_better x y \<longleftrightarrow> fle (rs_daily x) (rs_daily y) \<and> fle (rs_weekly x) (rs_weekly y) \<and>
     rel_option fle (rs_exposure x) (rs_exposure y) \<and> rel_option fle (rs_equity y) (rs_equity x) \<and>
     rs_spread x = rs_spread y"

lemma ge_opt_mono: "rel_option fle a b \<Longrightarrow> ge_opt a t \<Longrightarrow> ge_opt b t"
  by (auto simp: ge_opt_def option_rel_Some1 option_rel_Some2 intro: fle_trans elim!: option.rel_cases)

lemma le_opt_mono: "rel_option fle b a \<Longrightarrow> le_opt a t \<Longrightarrow> le_opt b t"
  by (auto simp: le_opt_def intro: fle_trans elim!: option.rel_cases)

section \<open>Properties\<close>

text \<open>C9: A hard stop is recommended exactly on the exposure or capital limits, a soft stop exactly on
  a blocked spread or a drawdown limit when no hard stop is, nothing otherwise; there is a reason
  exactly when there is a recommendation, and it names the limit that decided: the exposure before
  the capital, the spread before the daily and the weekly drawdown. The state handed to the gate
  carries the same recommendation and reason.\<close>

theorem evaluate_kill_switch:
  "(ra_kill (fst (evaluate rm x hm t1 t2 w)) = Some ''hard_stop'' \<longleftrightarrow>
      ge_opt (rs_exposure x) (rm_hard rm) \<or> le_opt (rs_equity x) (rm_floor rm)) \<and>
   (ra_kill (fst (evaluate rm x hm t1 t2 w)) = None \<longleftrightarrow>
      \<not> (ge_opt (rs_exposure x) (rm_hard rm) \<or> le_opt (rs_equity x) (rm_floor rm)
         \<or> spread_word (rs_spread x) \<in> {''block'', ''halt''} \<or> fge (rs_daily x) (rm_daily_stop rm)
         \<or> fge (rs_weekly x) (rm_weekly_stop rm))) \<and>
   (ra_kill (fst (evaluate rm x hm t1 t2 w)) = None \<longleftrightarrow> ra_kill_reason (fst (evaluate rm x hm t1 t2 w)) = None) \<and>
   (ra_kill (fst (evaluate rm x hm t1 t2 w)) = Some ''soft_stop'' \<longleftrightarrow>
      \<not> (ge_opt (rs_exposure x) (rm_hard rm) \<or> le_opt (rs_equity x) (rm_floor rm)) \<and>
      (spread_word (rs_spread x) \<in> {''block'', ''halt''} \<or> fge (rs_daily x) (rm_daily_stop rm)
         \<or> fge (rs_weekly x) (rm_weekly_stop rm))) \<and>
   ra_kill_reason (fst (evaluate rm x hm t1 t2 w)) =
     (if ge_opt (rs_exposure x) (rm_hard rm) then Some ''r_eff_hard_stop''
      else if le_opt (rs_equity x) (rm_floor rm) then Some ''capital_floor''
      else if spread_word (rs_spread x) \<in> {''block'', ''halt''} then Some ''spread_block''
      else if fge (rs_daily x) (rm_daily_stop rm) then Some ''daily_drawdown''
      else if fge (rs_weekly x) (rm_weekly_stop rm) then Some ''weekly_drawdown'' else None) \<and>
   rg_kill_switch (ra_state (fst (evaluate rm x hm t1 t2 w))) = ra_kill (fst (evaluate rm x hm t1 t2 w)) \<and>
   rg_kill_switch_reason (ra_state (fst (evaluate rm x hm t1 t2 w))) = ra_kill_reason (fst (evaluate rm x hm t1 t2 w))"
  unfolding evaluate_sel risk_gate.simps by (intro conjI kill_word kill_guidance_reason kill_guidance_why refl)

text \<open>C13: Metrics that are nowhere better (drawdowns and exposure at least as high, equity at most as
  high, under the same spread) never weaken the kill-switch recommendation.\<close>

theorem evaluate_monotone:
  assumes "not_better x y"
  shows "kill_rank (ra_kill (fst (evaluate rm x hm t1 t2 w))) \<le> kill_rank (ra_kill (fst (evaluate rm y hm' t1' t2' w')))"
proof -
  have "ge_opt (rs_exposure x) (rm_hard rm) \<Longrightarrow> ge_opt (rs_exposure y) (rm_hard rm)"
    and "le_opt (rs_equity x) (rm_floor rm) \<Longrightarrow> le_opt (rs_equity y) (rm_floor rm)"
    and "fge (rs_daily x) (rm_daily_stop rm) \<Longrightarrow> fge (rs_daily y) (rm_daily_stop rm)"
    and "fge (rs_weekly x) (rm_weekly_stop rm) \<Longrightarrow> fge (rs_weekly y) (rm_weekly_stop rm)"
    and "rs_spread x = rs_spread y"
    using assms by (auto simp: not_better_def intro: ge_opt_mono le_opt_mono fle_trans)
  then show ?thesis by (simp add: evaluate_sel kill_guidance_cases kill_rank_def)
qed

theorem evaluate_monotone_witness:
  "kill_rank (ra_kill (fst (evaluate default_manager (default_snapshot\<lparr>rs_daily := Fin 3\<rparr>) None demo_time demo_time True)))
     \<le> kill_rank (ra_kill (fst (evaluate default_manager
           (default_snapshot\<lparr>rs_daily := Fin 4, rs_weekly := Fin 6\<rparr>) None demo_time demo_time True)))"
  by (rule evaluate_monotone) (simp add: not_better_def default_snapshot_def)

text \<open>Evaluating never moves the health status to \<open>hard_stop\<close>: a hard stop is raised as
  \<open>critical\<close>, which the health monitor maps to a soft stop.\<close>

theorem evaluate_never_hard_health:
  assumes "is_status (hs_status (hm_state m))" "hs_status (hm_state m) \<noteq> ''hard_stop''"
  shows "hs_status (hm_state (snd (evaluate rm x (Some m) t1 t2 w))) \<noteq> ''hard_stop''"
proof -
  have s: "sev (hs_status (hm_state m)) \<noteq> 4"
    using assms sev_inj [of _ "''hard_stop''"] by auto
  then have merge: "merge_status (hs_status (hm_state m)) l \<noteq> ''hard_stop''" if "is_status l" "sev l < 4" for l
    using merge_status_correct [OF assms(1) that(1)] that(2) by (auto simp: max_def split: if_splits)
  have l: "level_to_status ''critical'' = ''soft_stop''" "level_to_status ''warning'' = ''warn''"
    by (simp_all add: level_to_status_def level_map_def)
  show ?thesis
    using assms(2) by (auto simp: evaluate_def Let_def case_prod_unfold raise_condition_sel l merge)
qed

theorem evaluate_never_hard_health_witness:
  "ra_kill (fst (evaluate default_manager (default_snapshot\<lparr>rs_exposure := Some (Fin 3)\<rparr>) (Some monitor_default)
     demo_time demo_time True)) = Some ''hard_stop'' \<and>
   hs_status (hm_state (snd (evaluate default_manager (default_snapshot\<lparr>rs_exposure := Some (Fin 3)\<rparr>)
     (Some monitor_default) demo_time demo_time True))) \<noteq> ''hard_stop''"
proof
  show "hs_status (hm_state (snd (evaluate default_manager (default_snapshot\<lparr>rs_exposure := Some (Fin 3)\<rparr>)
     (Some monitor_default) demo_time demo_time True))) \<noteq> ''hard_stop''"
    by (rule evaluate_never_hard_health) (simp_all add: monitor_default_def health_default_def)
  show "ra_kill (fst (evaluate default_manager (default_snapshot\<lparr>rs_exposure := Some (Fin 3)\<rparr>) (Some monitor_default)
     demo_time demo_time True)) = Some ''hard_stop''"
    by (simp add: evaluate_sel kill_guidance_cases default_manager_def default_snapshot_def ge_opt_def)
qed

text \<open>C17: The decision on a ticket is consistent: it is refused exactly with exit codes 62 and 63,
  63 exactly under a hard stop and on a halted board, 0 exactly on a normal board with neither a
  soft stop nor reduce-only, and every other code comes with a non-empty reason.\<close>

theorem ticket_decision:
  fixes rm :: risk_manager and g :: gate_state and a :: "risk_assessment option" and sp ks :: "string option"
  defines "d \<equiv> decide_ticket rm g a sp ks"
  shows "(rd_allowed d \<longleftrightarrow> rd_exit_code d \<in> {0, 21}) \<and>
    (rd_exit_code d = 63 \<longleftrightarrow> rd_board_mode d = ''halted'') \<and>
    (rd_exit_code d = 63 \<longleftrightarrow> rd_kill_switch d = ''hard_stop'') \<and>
    (rd_exit_code d = 62 \<longleftrightarrow> \<not> rd_allowed d \<and> rd_board_mode d = ''guarded'' \<and> rd_reduce_only d) \<and>
    (rd_exit_code d = 0 \<longleftrightarrow> rd_board_mode d = ''normal'') \<and>
    (rd_exit_code d = 0 \<longleftrightarrow> rd_spread d = ''normal'' \<and> rd_kill_switch d \<notin> {''hard_stop'', ''soft_stop''} \<and> \<not> rd_reduce_only d) \<and>
    (rd_exit_code d = 0 \<or> otrue (rd_reason d))"
proof -
  have r: "otrue (str_or x (Some (c # cs)))" for x c cs by (simp add: str_or_alt)
  have n: "norm_spread s \<in> {''normal'', ''block'', ''cooldown''}" for s by (simp add: norm_spread_def)
  show ?thesis
    using n [of "str_or sp (Some (sg_state (mg_spread (gs_market g))))"]
    by (auto simp: d_def decide_ticket_def Let_def case_prod_unfold r)
qed

text \<open>Metrics beyond the exposure or capital limits refuse every ticket that is decided with the
  assessment they give, whatever the gate, the spread and the advisor say, unless the caller
  overrides the kill switch.\<close>

theorem hard_stop_refuses_ticket:
  assumes "ge_opt (rs_exposure x) (rm_hard rm) \<or> le_opt (rs_equity x) (rm_floor rm)"
  shows "\<not> rd_allowed (decide_ticket rm g (Some (fst (evaluate rm x hm t1 t2 w))) sp None) \<and>
    rd_exit_code (decide_ticket rm g (Some (fst (evaluate rm x hm t1 t2 w))) sp None) = 63"
proof -
  have "ticket_kill_switch g (Some (fst (evaluate rm x hm t1 t2 w))) None = ''hard_stop''"
    using assms by (auto simp: ticket_kill_switch_def evaluate_sel kill_guidance_cases)
  then show ?thesis by (simp add: decide_ticket_def Let_def case_prod_unfold)
qed

theorem hard_stop_refuses_ticket_witness:
  "rd_exit_code (decide_ticket default_manager gate_default (Some (fst (evaluate default_manager
     (default_snapshot\<lparr>rs_equity := Some (Fin 79)\<rparr>) None demo_time demo_time True))) (Some ''normal'') None) = 63"
  using hard_stop_refuses_ticket [of "default_snapshot\<lparr>rs_equity := Some (Fin 79)\<rparr>" default_manager
      gate_default None demo_time demo_time True "Some ''normal''"]
  by (simp add: default_manager_def le_opt_def)

text \<open>A blocked spread alone refuses the ticket with 62, but the decision reports the kill switch
  as \<open>none\<close>: the fallback to \<open>soft_stop\<close> is never taken, since the value is already a word.\<close>

theorem spread_block_reports_none:
  "rd_kill_switch (decide_ticket rm gate_default None (Some ''block'') None) = ''none'' \<and>
   \<not> rd_allowed (decide_ticket rm gate_default None (Some ''block'') None) \<and>
   rd_exit_code (decide_ticket rm gate_default None (Some ''block'') None) = 62"
  by (simp add: decide_ticket_def Let_def case_prod_unfold ticket_kill_switch_def norm_spread_def
      gate_default_def risk_default_def)

text \<open>The ticket decision and the guardrail snapshot exit with the same code on the same gate
  state and kill switch when the health monitor is clean, the liquidity gate is normal, the spread
  gate holds one of its five states and no advisor is set.\<close>

theorem exit_codes_agree:
  assumes "rm_advisor rm = None" "lg_state (mg_liquidity (gs_market g)) = ''normal''"
    "sg_state (mg_spread (gs_market g)) \<in> {''normal'', ''watch'', ''cooldown'', ''block'', ''halt''}"
  shows "gr_exit_code (guardrail_snapshot monitor_default g ks) = rd_exit_code (decide_ticket rm g None None ks)"
proof -
  have "ticket_kill_switch g None ks = effective_kill_switch monitor_default g ks"
    by (simp add: ticket_kill_switch_def effective_kill_switch_def monitor_default_def health_default_def)
  then show ?thesis
    using assms
    by (auto simp: guardrail_snapshot_def decide_ticket_def Let_def compute_exit_code_def guardrail_board_mode_def
        monitor_default_def health_default_def norm_spread_def normalise_spread_state_def reduce_only_advice_def)
qed

theorem exit_codes_agree_witness:
  "gr_exit_code (guardrail_snapshot monitor_default gate_default (Some ''hard_stop''))
     = rd_exit_code (decide_ticket default_manager gate_default None None (Some ''hard_stop''))"
  by (rule exit_codes_agree) (simp_all add: default_manager_def gate_default_def market_default_def)

text \<open>A halted liquidity gate does not reach the ticket decision: the guardrail snapshot reports a
  guarded board with exit code 21, the ticket is decided on a normal board with 0.\<close>

theorem halted_liquidity_ticket:
  fixes g :: gate_state
  defines "g \<equiv> update_liquidity (Some \<lparr>lg_state = ''halted'', lg_recommendation = None, lg_updated_at = None\<rparr>) gate_default"
  shows "gr_exit_code (guardrail_snapshot monitor_default g None) = 21 \<and>
    rd_exit_code (decide_ticket default_manager g None None None) = 0 \<and>
    rd_board_mode (decide_ticket default_manager g None None None) = ''normal''"
  by (simp add: g_def update_liquidity_def set_auto_execute_def guardrail_snapshot_def decide_ticket_def Let_def
      compute_exit_code_def guardrail_board_mode_def effective_kill_switch_def ticket_kill_switch_def norm_spread_def
      normalise_spread_state_def reduce_only_advice_def monitor_default_def health_default_def gate_default_def
      market_default_def risk_default_def default_manager_def)

end
