(* ===== verification/Sprt.thy ===== *)
theory Sprt
  imports PyTime Systems
begin

text \<open>
  \<open>src/risk/sprt.py\<close>: the sequential probability ratio test that stops a strategy. An evaluator
  adds one log-likelihood ratio per outcome and stops at the first sum beyond a bound; the state
  machine latches a stop until its cooldown is over. \<open>math.log\<close> is the argument \<open>mlog\<close>, since its
  last bit is the C library's. The evaluator mutates the state it is given, so it returns the
  state also where it raises.

  Shown: the test stops at the first crossing of the running sum and nowhere else, and a stop
  latches until the cooldown has passed.
\<close>

record sprt_result =
  sr_stop :: bool
  sr_reason :: "string option"
  sr_llr :: pyfloat
  sr_samples :: int

record sprt_state =
  st_llr :: pyfloat
  st_samples :: int
  st_stopped_at :: "pydt option"
  st_last_reason :: "string option"

record sprt_evaluator =
  se_p0 :: pyfloat
  se_p1 :: pyfloat
  se_log_a :: pyfloat
  se_log_b :: pyfloat

definition sprt_fresh :: sprt_state where
  "sprt_fresh = \<lparr>st_llr = Fin 0, st_samples = 0, st_stopped_at = None, st_last_reason = None\<rparr>"

text \<open>\<open>SprtEvaluator.__init__\<close>.\<close>

definition new_evaluator ::
  "(pyfloat \<Rightarrow> pyfloat res) \<Rightarrow> pyfloat \<Rightarrow> pyfloat \<Rightarrow> pyfloat \<Rightarrow> pyfloat \<Rightarrow> sprt_evaluator res" where
  "new_evaluator mlog alpha beta p0 p1 =
     bind_res (bind_res (fdiv (fsub (Fin 1) beta) alpha) mlog) (\<lambda>a.
     bind_res (bind_res (fdiv beta (fsub (Fin 1) alpha)) mlog) (\<lambda>b.
     Inr \<lparr>se_p0 = p0, se_p1 = p1, se_log_a = a, se_log_b = b\<rparr>))"

definition normalize_outcome :: "pyval \<Rightarrow> int res" where
  "normalize_outcome v = (case v of
       PBool b \<Rightarrow> Inr (if b then 1 else 0)
     | PInt i \<Rightarrow> if i = 0 \<or> i = 1 then Inr i else Inl ValueError
     | PFloat x \<Rightarrow> if fle (Fin 0) x \<and> fle x (Fin 1) then Inr (if fge x (Fin (1 / 2)) then 1 else 0) else Inl ValueError
     | _ \<Rightarrow> Inl ValueError)"

definition log_likelihood_ratio ::
  "(pyfloat \<Rightarrow> pyfloat res) \<Rightarrow> sprt_evaluator \<Rightarrow> pyval \<Rightarrow> pyfloat res" where
  "log_likelihood_ratio mlog e outcome = bind_res (normalize_outcome outcome) (\<lambda>v.
     if v = 1 then bind_res (fdiv (se_p1 e) (se_p0 e)) mlog
     else bind_res (fdiv (fsub (Fin 1) (se_p1 e)) (fsub (Fin 1) (se_p0 e))) mlog)"

fun evaluate_outcomes ::
  "(pyfloat \<Rightarrow> pyfloat res) \<Rightarrow> sprt_evaluator \<Rightarrow> pyval list \<Rightarrow> sprt_state \<Rightarrow> sprt_result res \<times> sprt_state" where
  "evaluate_outcomes mlog e [] s =
     (Inr \<lparr>sr_stop = False, sr_reason = None, sr_llr = st_llr s, sr_samples = st_samples s\<rparr>, s)"
| "evaluate_outcomes mlog e (v # vs) s =
     (case log_likelihood_ratio mlog e v of
        Inl err \<Rightarrow> (Inl err, s)
      | Inr r \<Rightarrow>
          let s1 = s\<lparr>st_llr := fadd (st_llr s) r, st_samples := st_samples s + 1\<rparr>;
              stop = (\<lambda>why. (Inr \<lparr>sr_stop = True, sr_reason = Some why, sr_llr = st_llr s1, sr_samples = st_samples s1\<rparr>,
                             s1\<lparr>st_last_reason := Some why\<rparr>))
          in if fge (st_llr s1) (se_log_a e) then stop ''accept''
             else if fle (st_llr s1) (se_log_b e) then stop ''reject''
             else evaluate_outcomes mlog e vs s1)"

text \<open>\<open>SprtStateMachine\<close>: \<open>evaluate\<close> and \<open>try_resume\<close>; the cooldown is in hours.\<close>

definition machine_evaluate ::
  "(pyfloat \<Rightarrow> pyfloat res) \<Rightarrow> sprt_evaluator \<Rightarrow> pyval list \<Rightarrow> pydt \<Rightarrow> sprt_state \<Rightarrow> sprt_result res \<times> sprt_state" where
  "machine_evaluate mlog e outcomes now s =
     (if st_stopped_at s \<noteq> None then
        (Inr \<lparr>sr_stop = True, sr_reason = str_or (st_last_reason s) (Some ''cooldown''),
              sr_llr = st_llr s, sr_samples = st_samples s\<rparr>, s)
      else (case evaluate_outcomes mlog e outcomes s of
          (Inr r, s1) \<Rightarrow> (Inr r, if sr_stop r
             then s1\<lparr>st_stopped_at := Some now, st_last_reason := sr_reason r\<rparr> else s1)
        | (Inl err, s1) \<Rightarrow> (Inl err, s1)))"

text \<open>Subtracting a time without offset from one with is a TypeError; \<open>stopped_at\<close> is in UTC.\<close>

definition try_resume :: "int \<Rightarrow> pydt \<Rightarrow> sprt_state \<Rightarrow> bool res \<times> sprt_state" where
  "try_resume cooldown_hours now s = (case st_stopped_at s of
       None \<Rightarrow> (Inr True, s)
     | Some t \<Rightarrow> if tzo now = None then (Inl TypeError, s)
         else if cooldown_hours * 3600000000 \<le> epoch_us now - epoch_us t then (Inr True, sprt_fresh)
         else (Inr False, s))"

section \<open>First crossing\<close>

definition crosses :: "sprt_evaluator \<Rightarrow> pyfloat \<Rightarrow> bool" where
  "crosses e x \<longleftrightarrow> fge x (se_log_a e) \<or> fle x (se_log_b e)"

text \<open>The number of outcomes after which the running sum first crosses a bound.\<close>

fun first_crossing :: "sprt_evaluator \<Rightarrow> pyfloat \<Rightarrow> pyfloat list \<Rightarrow> nat option" where
  "first_crossing e x [] = None"
| "first_crossing e x (r # rs) =
     (if crosses e (fadd x r) then Some 1 else map_option Suc (first_crossing e (fadd x r) rs))"

lemma first_crossing_spec:
  "first_crossing e x rs = Some n \<Longrightarrow> 0 < n \<and> n \<le> length rs \<and> crosses e (foldl fadd x (take n rs)) \<and>
     (\<forall>k. 0 < k \<longrightarrow> k < n \<longrightarrow> \<not> crosses e (foldl fadd x (take k rs)))"
proof (induction rs arbitrary: x n)
  case (Cons r rs)
  show ?case
  proof (cases "crosses e (fadd x r)")
    case True
    with Cons.prems show ?thesis by auto
  next
    case False
    with Cons.prems obtain m where m: "first_crossing e (fadd x r) rs = Some m" "n = Suc m" by auto
    from Cons.IH [OF m(1)] False m(2) show ?thesis
      by (auto simp: less_Suc_eq_0_disj gr0_conv_Suc)
  qed
qed simp

lemma first_crossing_None:
  "first_crossing e x rs = None \<Longrightarrow> 0 < k \<Longrightarrow> k \<le> length rs \<Longrightarrow> \<not> crosses e (foldl fadd x (take k rs))"
proof (induction rs arbitrary: x k)
  case (Cons r rs)
  then show ?case by (cases k; cases "k - 1") (auto split: if_splits)
qed simp

lemma evaluate_outcomes_crossing:
  assumes "map_res (log_likelihood_ratio mlog e) vs = Inr rs"
  shows "\<exists>r s'. evaluate_outcomes mlog e vs s = (Inr r, s') \<and>
    sr_stop r = (first_crossing e (st_llr s) rs \<noteq> None) \<and>
    sr_samples r = st_samples s + int (case first_crossing e (st_llr s) rs of None \<Rightarrow> length rs | Some n \<Rightarrow> n) \<and>
    sr_llr r = foldl fadd (st_llr s) (take (case first_crossing e (st_llr s) rs of None \<Rightarrow> length rs | Some n \<Rightarrow> n) rs) \<and>
    st_llr s' = sr_llr r \<and> st_samples s' = sr_samples r"
  using assms
proof (induction vs arbitrary: s rs)
  case (Cons v vs)
  then obtain r rs' where r: "log_likelihood_ratio mlog e v = Inr r" "map_res (log_likelihood_ratio mlog e) vs = Inr rs'"
    "rs = r # rs'" by (auto simp: bind_res_eq_Inr)
  show ?case
  proof (cases "crosses e (fadd (st_llr s) r)")
    case True
    with r show ?thesis by (auto simp: crosses_def Let_def)
  next
    case False
    with r Cons.IH [OF r(2), of "s\<lparr>st_llr := fadd (st_llr s) r, st_samples := st_samples s + 1\<rparr>"]
    show ?thesis by (auto simp: crosses_def Let_def split: option.split)
  qed
qed simp

text \<open>Over outcomes whose log-likelihood ratios are defined, the evaluator stops exactly if some
  running sum crosses a bound, and then at the first one: the samples it has counted end where the
  sum first crosses, and no shorter prefix crosses.\<close>

theorem sprt_first_crossing:
  assumes "map_res (log_likelihood_ratio mlog e) vs = Inr rs"
  shows "\<exists>r s'. evaluate_outcomes mlog e vs s = (Inr r, s') \<and>
    (if sr_stop r
     then \<exists>n>0. n \<le> length rs \<and> sr_samples r = st_samples s + int n \<and> crosses e (foldl fadd (st_llr s) (take n rs)) \<and>
          sr_llr r = foldl fadd (st_llr s) (take n rs) \<and>
          (\<forall>k. 0 < k \<longrightarrow> k < n \<longrightarrow> \<not> crosses e (foldl fadd (st_llr s) (take k rs)))
     else \<forall>k. 0 < k \<longrightarrow> k \<le> length rs \<longrightarrow> \<not> crosses e (foldl fadd (st_llr s) (take k rs)))"
proof (cases "first_crossing e (st_llr s) rs")
  case None
  with evaluate_outcomes_crossing [OF assms, of s] first_crossing_None [OF None] show ?thesis by fastforce
next
  case (Some n)
  with evaluate_outcomes_crossing [OF assms, of s] first_crossing_spec [OF Some] show ?thesis by fastforce
qed

definition demo_evaluator :: sprt_evaluator where
  "demo_evaluator = \<lparr>se_p0 = Fin (1 / 2), se_p1 = Fin 1, se_log_a = Fin 2, se_log_b = Fin (- 2)\<rparr>"

definition demo_log :: "pyfloat \<Rightarrow> pyfloat res" where
  "demo_log x = Inr (fsub x (Fin 1))"

theorem sprt_first_crossing_witness:
  "\<exists>r s'. evaluate_outcomes demo_log demo_evaluator [PBool True] sprt_fresh = (Inr r, s') \<and> \<not> sr_stop r"
proof -
  have r2: "rnd 2 = Fin 2" "rnd 1 = Fin 1" using rnd_int [of 2] rnd_int [of 1] by simp_all
  have m: "map_res (log_likelihood_ratio demo_log demo_evaluator) [PBool True] = Inr [Fin 1]"
    by (simp add: log_likelihood_ratio_def normalize_outcome_def demo_evaluator_def demo_log_def fsub_def r2)
  have nc: "\<not> crosses demo_evaluator (foldl fadd (st_llr sprt_fresh) (take 1 [Fin 1]))"
    by (simp add: crosses_def demo_evaluator_def sprt_fresh_def r2)
  obtain r s' where e: "evaluate_outcomes demo_log demo_evaluator [PBool True] sprt_fresh = (Inr r, s')"
    and i: "if sr_stop r
     then \<exists>n>0. n \<le> length [Fin 1] \<and> sr_samples r = st_samples sprt_fresh + int n \<and>
          crosses demo_evaluator (foldl fadd (st_llr sprt_fresh) (take n [Fin 1])) \<and>
          sr_llr r = foldl fadd (st_llr sprt_fresh) (take n [Fin 1]) \<and>
          (\<forall>k. 0 < k \<longrightarrow> k < n \<longrightarrow> \<not> crosses demo_evaluator (foldl fadd (st_llr sprt_fresh) (take k [Fin 1])))
     else \<forall>k. 0 < k \<longrightarrow> k \<le> length [Fin 1] \<longrightarrow>
          \<not> crosses demo_evaluator (foldl fadd (st_llr sprt_fresh) (take k [Fin 1]))"
    using sprt_first_crossing [OF m, of sprt_fresh] by blast
  have "\<not> sr_stop r"
  proof
    assume "sr_stop r"
    with i obtain n where "0 < n" "n \<le> 1" "crosses demo_evaluator (foldl fadd (st_llr sprt_fresh) (take n [Fin 1]))"
      by auto
    with nc show False by (cases n) auto
  qed
  with e show ?thesis by blast
qed

section \<open>The latch\<close>

datatype sprt_op = Evaluate "pyval list" pydt | TryResume pydt

fun sprt_step :: "(pyfloat \<Rightarrow> pyfloat res) \<Rightarrow> sprt_evaluator \<Rightarrow> int \<Rightarrow> sprt_state \<Rightarrow> sprt_op \<Rightarrow> sprt_state" where
  "sprt_step mlog e h s (Evaluate vs now) = snd (machine_evaluate mlog e vs now s)"
| "sprt_step mlog e h s (TryResume now) = snd (try_resume h now s)"

text \<open>The operations that come before the end of the cooldown of a stop at \<open>t\<close>.\<close>

definition within_cooldown :: "int \<Rightarrow> pydt \<Rightarrow> sprt_op \<Rightarrow> bool" where
  "within_cooldown h t x = (case x of Evaluate _ _ \<Rightarrow> True
     | TryResume now \<Rightarrow> epoch_us now - epoch_us t < h * 3600000000)"

text \<open>The state of a stopped machine, as the invariant of those steps.\<close>

definition latched :: "sprt_state \<Rightarrow> pydt \<Rightarrow> sprt_state \<Rightarrow> bool" where
  "latched l t s \<longleftrightarrow> s = l \<and> st_stopped_at l = Some t"

lemma sprt_step_latched: "latched l t s \<Longrightarrow> within_cooldown h t x \<Longrightarrow> latched l t (sprt_step mlog e h s x)"
  by (cases x) (simp_all add: latched_def machine_evaluate_def try_resume_def within_cooldown_def)

interpretation latch: guarded_system "sprt_step mlog e h" "within_cooldown h t" "latched l t" for mlog e h t l
  by unfold_locales (rule sprt_step_latched)

text \<open>Once the machine has stopped, every evaluation and every attempt to resume before the end of
  the cooldown leaves it as it is, so each further evaluation reports a stop; the first attempt
  after the cooldown resets it.\<close>

theorem sprt_stop_latches:
  assumes "st_stopped_at s = Some t" "list_all (within_cooldown h t) ops"
  shows "foldl (sprt_step mlog e h) s ops = s \<and>
    (\<exists>r. fst (machine_evaluate mlog e vs now (foldl (sprt_step mlog e h) s ops)) = Inr r \<and> sr_stop r) \<and>
    (tzo now \<noteq> None \<and> h * 3600000000 \<le> epoch_us now - epoch_us t \<longrightarrow>
       try_resume h now (foldl (sprt_step mlog e h) s ops) = (Inr True, sprt_fresh))"
proof -
  have "latched s t (foldl (sprt_step mlog e h) s ops)"
    by (rule latch.allowed_run_inv [OF _ assms(2)]) (simp add: latched_def assms(1))
  then have "foldl (sprt_step mlog e h) s ops = s" by (simp add: latched_def)
  then show ?thesis using assms(1) by (simp add: machine_evaluate_def try_resume_def)
qed

definition demo_stop :: sprt_state where
  "demo_stop = \<lparr>st_llr = Fin 3, st_samples = 9,
     st_stopped_at = Some \<lparr>yr = 2025, mo = 1, dy = 1, hh = 0, mi = 0, ss = 0, us = 0, tzo = Some 0\<rparr>,
     st_last_reason = Some ''accept''\<rparr>"

theorem sprt_stop_latches_witness:
  "\<exists>r. fst (machine_evaluate demo_log demo_evaluator [PBool True]
      \<lparr>yr = 2025, mo = 1, dy = 1, hh = 1, mi = 0, ss = 0, us = 0, tzo = Some 0\<rparr>
      (foldl (sprt_step demo_log demo_evaluator 24) demo_stop [Evaluate [PBool False]
         \<lparr>yr = 2025, mo = 1, dy = 1, hh = 0, mi = 30, ss = 0, us = 0, tzo = Some 0\<rparr>])) = Inr r \<and> sr_stop r"
  by (rule sprt_stop_latches [where h = 24 and t =
      "\<lparr>yr = 2025, mo = 1, dy = 1, hh = 0, mi = 0, ss = 0, us = 0, tzo = Some 0\<rparr>", THEN conjunct2, THEN conjunct1])
    (simp_all add: demo_stop_def within_cooldown_def)

end
