(* ===== verification/Emergency.thy ===== *)
theory Emergency
  imports PyTime Systems
begin

text \<open>
  \<open>src/emergency/orchestrator.py\<close>: the emergency playbooks. A registry read from a configuration
  file, and the orchestrator, whose state file holds at most one state per playbook: a trigger
  writes a pending state, an acknowledgement moves a pending one on, a completion ends it. Every
  method reads the state file afresh. The work-log service is the repository's no-op stub.

  Shown: the state file behaves as a store keyed by playbook, the status moves of every method
  (and that completing needs no acknowledgement), and that a simulated trigger leaves no trace.
\<close>

section \<open>Data\<close>

record em_context =
  ec_health :: string
  ec_kill_switch :: string
  ec_board_mode :: string
  ec_metrics :: pydict
  ec_refs :: "string list"

record playbook =
  pb_id :: string
  pb_trigger :: string
  pb_refs :: "string list"
  pb_actions :: "string list"
  pb_severity :: string
  pb_description :: "string option"

record playbook_state =
  ps_id :: string
  ps_status :: string
  ps_triggered_at :: string
  ps_trigger :: string
  ps_refs :: "string list"
  ps_acked_by :: "string option"
  ps_acked_at :: "string option"
  ps_completed_by :: "string option"
  ps_completed_at :: "string option"
  ps_notes :: "string option"

record orchestrator =
  eo_registry :: "playbook list"
  eo_file :: json_file
  eo_events :: "pydict list"
  eo_audit :: "pydict list"

definition em_context_to_dict :: "em_context \<Rightarrow> pydict" where
  "em_context_to_dict c = [(''health_state'', PStr (ec_health c)), (''kill_switch'', PStr (ec_kill_switch c)),
     (''board_mode'', PStr (ec_board_mode c)), (''metrics'', PDict (ec_metrics c)),
     (''runbook_refs'', PList (map PStr (ec_refs c)))]"

definition playbook_to_dict :: "playbook \<Rightarrow> pydict" where
  "playbook_to_dict p = [(''playbook_id'', PStr (pb_id p)), (''trigger'', PStr (pb_trigger p)),
     (''runbook_refs'', PList (map PStr (pb_refs p))), (''action_sequence'', PList (map PStr (pb_actions p))),
     (''severity'', PStr (pb_severity p)), (''description'', ostr (pb_description p))]"

definition playbook_state_to_dict :: "playbook_state \<Rightarrow> pydict" where
  "playbook_state_to_dict s = [(''playbook_id'', PStr (ps_id s)), (''status'', PStr (ps_status s)),
     (''triggered_at'', PStr (ps_triggered_at s)), (''trigger'', PStr (ps_trigger s)),
     (''runbook_refs'', PList (map PStr (ps_refs s))), (''acked_by'', ostr (ps_acked_by s)),
     (''acked_at'', ostr (ps_acked_at s)), (''completed_by'', ostr (ps_completed_by s)),
     (''completed_at'', ostr (ps_completed_at s)), (''notes'', ostr (ps_notes s))]"

section \<open>Registry\<close>

definition playbook_from_raw :: "pydict \<Rightarrow> playbook res" where
  "playbook_from_raw raw =
     bind_res (text_list (py_or (dget raw ''runbook_refs'') (PList []))) (\<lambda>refs.
     bind_res (text_list (py_or (py_or (dget raw ''action_sequence'') (dget raw ''steps'')) (PList []))) (\<lambda>acts.
     bind_res (opt_text (dget raw ''description'')) (\<lambda>descr.
     Inr \<lparr>pb_id = py_str (py_or (dget raw ''id'') (dget raw ''playbook_id'')),
          pb_trigger = py_str (py_or (py_or (dget raw ''trigger'') (dget raw ''id'')) (PStr [])),
          pb_refs = refs, pb_actions = acts,
          pb_severity = py_str (py_or (dget raw ''severity'') (PStr ''critical'')), pb_description = descr\<rparr>)))"

text \<open>\<open>reload\<close>; a configuration that is not YAML raises the parser's error, a ValueError here.\<close>

definition reload_registry :: "json_file \<Rightarrow> playbook list res" where
  "reload_registry file = (case file of None \<Rightarrow> Inr [] | Some None \<Rightarrow> Inl ValueError
     | Some (Some v) \<Rightarrow> bind_res (as_dict_get (py_or v (PDict []))) (\<lambda>payload.
         let raw = (if dget payload ''playbooks'' = PNone then dget_def payload ''actions'' (PList [])
                    else dget payload ''playbooks'')
         in bind_res (py_iter (py_or raw (PList []))) (map_res (\<lambda>r. bind_res (as_dict_get r) playbook_from_raw))))"

definition get_by_id :: "string \<Rightarrow> playbook list \<Rightarrow> playbook option" where
  "get_by_id i ps = find (\<lambda>p. pb_id p = i) ps"

definition find_by_trigger :: "string \<Rightarrow> playbook list \<Rightarrow> playbook option" where
  "find_by_trigger t ps = find (\<lambda>p. pb_trigger p = t) ps"

definition select_playbook :: "string \<Rightarrow> string option \<Rightarrow> playbook list \<Rightarrow> playbook option" where
  "select_playbook t i ps = (if otrue i then get_by_id (the i) ps else find_by_trigger t ps)"

section \<open>State file\<close>

definition state_from_raw :: "pydict \<Rightarrow> playbook_state res" where
  "state_from_raw raw =
     bind_res (text_list (py_or (dget raw ''runbook_refs'') (PList []))) (\<lambda>refs.
     bind_res (opt_text (dget raw ''acked_by'')) (\<lambda>ab.
     bind_res (opt_text (dget raw ''acked_at'')) (\<lambda>aa.
     bind_res (opt_text (dget raw ''completed_by'')) (\<lambda>cb.
     bind_res (opt_text (dget raw ''completed_at'')) (\<lambda>ca.
     bind_res (opt_text (dget raw ''notes'')) (\<lambda>notes.
     Inr \<lparr>ps_id = py_str (py_or (dget raw ''playbook_id'') (PStr [])),
          ps_status = py_str (py_or (dget raw ''status'') (PStr ''pending'')),
          ps_triggered_at = py_str (py_or (dget raw ''triggered_at'') (PStr [])),
          ps_trigger = py_str (py_or (dget raw ''trigger'') (PStr [])),
          ps_refs = refs, ps_acked_by = ab, ps_acked_at = aa, ps_completed_by = cb, ps_completed_at = ca,
          ps_notes = notes\<rparr>))))))"

definition load_all_states :: "json_file \<Rightarrow> playbook_state list res" where
  "load_all_states file = (case file of None \<Rightarrow> Inr [] | Some None \<Rightarrow> Inl ValueError
     | Some (Some v) \<Rightarrow> bind_res (as_dict_get v) (\<lambda>payload.
         bind_res (py_iter (dget_def payload ''playbooks'' (PList []))) (map_res (\<lambda>r. bind_res (as_dict_get r) state_from_raw))))"

definition find_state :: "string \<Rightarrow> playbook_state list \<Rightarrow> playbook_state option" where
  "find_state i sts = find (\<lambda>s. ps_id s = i) sts"

definition load_playbook_state :: "string \<Rightarrow> json_file \<Rightarrow> playbook_state option res" where
  "load_playbook_state i file = bind_res (load_all_states file) (\<lambda>sts. Inr (find_state i sts))"

text \<open>The saved state replaces the one of its playbook and goes to the end.\<close>

definition upsert :: "playbook_state \<Rightarrow> playbook_state list \<Rightarrow> playbook_state list" where
  "upsert s sts = filter (\<lambda>x. ps_id x \<noteq> ps_id s) sts @ [s]"

definition states_file :: "playbook_state list \<Rightarrow> json_file" where
  "states_file sts = Some (Some (PDict [(''playbooks'', PList (map (\<lambda>s. PDict (playbook_state_to_dict s)) sts))]))"

definition save_playbook_state :: "playbook_state \<Rightarrow> json_file \<Rightarrow> json_file res" where
  "save_playbook_state s file = bind_res (load_all_states file) (\<lambda>sts. Inr (states_file (upsert s sts)))"

section \<open>Orchestrator\<close>

definition trigger_playbook ::
  "string \<Rightarrow> em_context \<Rightarrow> string option \<Rightarrow> string \<Rightarrow> bool \<Rightarrow> pydt \<Rightarrow> orchestrator \<Rightarrow> (pydict \<times> orchestrator) res" where
  "trigger_playbook trig ctx pid actor simulate now eo =
     (case select_playbook trig pid (eo_registry eo) of
        None \<Rightarrow> Inr ([(''status'', PStr ''not_found''), (''trigger'', PStr trig), (''playbook_id'', ostr pid)], eo)
      | Some p \<Rightarrow>
          let payload = [(''event'', PStr ''EmergencyPlaybookTriggered''), (''schema_version'', PStr ''emergency.playbook.v1''),
                (''ts'', PStr (utc_iso now)), (''playbook'', PDict (playbook_to_dict p)),
                (''context'', PDict (em_context_to_dict ctx)), (''actor'', PStr actor), (''simulated'', PBool simulate)]
          in if simulate then Inr ([(''status'', PStr ''simulated''), (''payload'', PDict payload)], eo)
             else let s = \<lparr>ps_id = pb_id p, ps_status = ''pending'', ps_triggered_at = utc_iso now, ps_trigger = trig,
                          ps_refs = pb_refs p, ps_acked_by = None, ps_acked_at = None, ps_completed_by = None,
                          ps_completed_at = None, ps_notes = None\<rparr>
                  in bind_res (save_playbook_state s (eo_file eo)) (\<lambda>f.
                     Inr ([(''status'', PStr ''triggered''), (''playbook'', PDict (playbook_to_dict p)),
                           (''state'', PDict (playbook_state_to_dict s))],
                          eo\<lparr>eo_file := f, eo_events := eo_events eo @ [payload],
                            eo_audit := eo_audit eo @ [[(''event'', PStr ''audit.emergency''), (''ts'', PStr (utc_iso now)),
                              (''action'', PStr ''playbook_trigger''), (''playbook_id'', PStr (pb_id p)),
                              (''trigger'', PStr trig), (''actor'', PStr actor),
                              (''runbook_refs'', PList (map PStr (pb_refs p)))]]\<rparr>)))"

definition playbook_event :: "string \<Rightarrow> playbook_state \<Rightarrow> string \<Rightarrow> string option \<Rightarrow> pydt \<Rightarrow> pydict" where
  "playbook_event event s actor notes now = [(''event'', PStr event), (''ts'', PStr (utc_iso now)),
     (''playbook_id'', PStr (ps_id s)), (''status'', PStr (ps_status s)), (''actor'', PStr actor),
     (''notes'', ostr notes), (''runbook_refs'', PList (map PStr (ps_refs s)))]"

definition ack_playbook ::
  "string \<Rightarrow> string \<Rightarrow> string option \<Rightarrow> pydt \<Rightarrow> pydt \<Rightarrow> orchestrator \<Rightarrow> (pydict \<times> orchestrator) res" where
  "ack_playbook pid actor notes now1 now2 eo =
     bind_res (load_playbook_state pid (eo_file eo)) (\<lambda>x. case x of
        None \<Rightarrow> Inr ([(''status'', PStr ''not_found''), (''playbook_id'', PStr pid)], eo)
      | Some s \<Rightarrow>
          if ps_status s \<noteq> ''pending'' then
            Inr ([(''status'', PStr ''invalid_state''), (''state'', PDict (playbook_state_to_dict s))], eo)
          else let s' = s\<lparr>ps_status := ''acknowledged'', ps_acked_by := Some actor, ps_acked_at := Some (utc_iso now1),
                         ps_notes := notes\<rparr>
               in bind_res (save_playbook_state s' (eo_file eo)) (\<lambda>f.
                  Inr ([(''status'', PStr ''ok''), (''state'', PDict (playbook_state_to_dict s'))],
                       eo\<lparr>eo_file := f, eo_events := eo_events eo @
                           [playbook_event ''EmergencyPlaybookAcked'' s' actor notes now2]\<rparr>)))"

definition complete_playbook ::
  "string \<Rightarrow> string \<Rightarrow> string \<Rightarrow> string option \<Rightarrow> pydt \<Rightarrow> pydt \<Rightarrow> orchestrator \<Rightarrow> (pydict \<times> orchestrator) res" where
  "complete_playbook pid actor status notes now1 now2 eo =
     bind_res (load_playbook_state pid (eo_file eo)) (\<lambda>x. case x of
        None \<Rightarrow> Inr ([(''status'', PStr ''not_found''), (''playbook_id'', PStr pid)], eo)
      | Some s \<Rightarrow>
          let s' = s\<lparr>ps_status := status, ps_completed_by := Some actor, ps_completed_at := Some (utc_iso now1),
                     ps_notes := notes\<rparr>
          in bind_res (save_playbook_state s' (eo_file eo)) (\<lambda>f.
             Inr ([(''status'', PStr ''ok''), (''state'', PDict (playbook_state_to_dict s'))],
                  eo\<lparr>eo_file := f,
                    eo_events := eo_events eo @ [playbook_event ''EmergencyPlaybookCompleted'' s' actor notes now2],
                    eo_audit := eo_audit eo @ [[(''event'', PStr ''audit.emergency''), (''ts'', PStr (utc_iso now1)),
                      (''action'', PStr ''playbook_completed''), (''playbook_id'', PStr pid), (''actor'', PStr actor),
                      (''status'', PStr status), (''runbook_refs'', PList (map PStr (ps_refs s)))]]\<rparr>)))"

definition playbook_status :: "orchestrator \<Rightarrow> pydict list res" where
  "playbook_status eo = bind_res (load_all_states (eo_file eo)) (\<lambda>sts. Inr (map playbook_state_to_dict sts))"

section \<open>The state file as a store\<close>

interpretation playbooks: keyed_store upsert find_state ps_id "\<lambda>_. True" "\<lambda>_. True"
proof unfold_locales
  fix k and r :: playbook_state and s :: "playbook_state list" assume "k \<noteq> ps_id r"
  then have "find (\<lambda>x. ps_id x = k) (filter (\<lambda>x. ps_id x \<noteq> ps_id r) s) = find (\<lambda>x. ps_id x = k) s"
    by (induction s) auto
  with \<open>k \<noteq> ps_id r\<close> show "find_state k (upsert r s) = find_state k s"
    by (simp add: find_state_def upsert_def find_append split: option.split)
next
  fix r :: playbook_state and s :: "playbook_state list"
  have "find (\<lambda>x. ps_id x = ps_id r) (filter (\<lambda>x. ps_id x \<noteq> ps_id r) s) = None"
    by (simp add: find_eq_None)
  then show "find_state (ps_id r) (upsert r s) = Some r"
    by (simp add: find_state_def upsert_def find_append)
qed

section \<open>The state file\<close>

text \<open>Python reads an empty status back as \<open>pending\<close>, so a store of states is one with no empty status.\<close>

definition states_ok :: "playbook_state list \<Rightarrow> bool" where
  "states_ok sts \<longleftrightarrow> distinct (map ps_id sts) \<and> list_all (\<lambda>s. ps_status s \<noteq> []) sts"

lemma py_or_str: "py_or (PStr s) (PStr []) = PStr s"
  by (simp add: py_or_def)

lemma py_or_list_nil: "py_or (PList xs) (PList []) = PList xs"
  by (simp add: py_or_def)

lemma state_from_raw_roundtrip: "ps_status s \<noteq> [] \<Longrightarrow> state_from_raw (playbook_state_to_dict s) = Inr s"
proof -
  assume "ps_status s \<noteq> []"
  then have "py_or (PStr (ps_status s)) v = PStr (ps_status s)" for v by (simp add: py_or_def)
  then show ?thesis
    by (simp add: state_from_raw_def playbook_state_to_dict_def py_or_str py_or_list_nil)
qed

lemma load_states_file:
  assumes "list_all (\<lambda>s. ps_status s \<noteq> []) sts"
  shows "load_all_states (states_file sts) = Inr sts"
proof -
  have "map_res (\<lambda>r. bind_res (as_dict_get r) state_from_raw) (map (\<lambda>s. PDict (playbook_state_to_dict s)) sts) = Inr sts"
    by (rule map_res_map_inverse) (use assms in \<open>simp add: state_from_raw_roundtrip list_all_iff\<close>)
  then show ?thesis by (simp add: load_all_states_def states_file_def py_iter_def)
qed

lemma upsert_ok: "states_ok sts \<Longrightarrow> ps_status s \<noteq> [] \<Longrightarrow> states_ok (upsert s sts)"
  by (auto simp: states_ok_def upsert_def distinct_map_filter list_all_iff)

lemma find_upsert: "find_state k (upsert s sts) = (if k = ps_id s then Some s else find_state k sts)"
  by (rule playbooks.load_save) simp_all

lemma find_state_key: "find_state k sts = Some s \<Longrightarrow> ps_id s = k"
  by (auto simp: find_state_def dest: find_Some_iff_mem)

text \<open>The states an orchestrator's file holds.\<close>

definition states_of :: "orchestrator \<Rightarrow> playbook_state list" where
  "states_of eo = (case load_all_states (eo_file eo) of Inr sts \<Rightarrow> sts | Inl _ \<Rightarrow> [])"

definition orch_ok :: "orchestrator \<Rightarrow> bool" where
  "orch_ok eo \<longleftrightarrow> (\<exists>sts. load_all_states (eo_file eo) = Inr sts \<and> states_ok sts)"

lemma orch_ok_load: "orch_ok eo \<Longrightarrow> load_all_states (eo_file eo) = Inr (states_of eo) \<and> states_ok (states_of eo)"
  by (auto simp: orch_ok_def states_of_def)

lemma saved_states:
  assumes "orch_ok eo" "ps_status s \<noteq> []" "save_playbook_state s (eo_file eo) = Inr f" "eo_file eo' = f"
  shows "orch_ok eo' \<and> states_of eo' = upsert s (states_of eo)"
proof -
  have f: "f = states_file (upsert s (states_of eo))"
    using assms(3) orch_ok_load [OF assms(1)] by (simp add: save_playbook_state_def)
  have ok: "states_ok (upsert s (states_of eo))" using orch_ok_load [OF assms(1)] assms(2) by (simp add: upsert_ok)
  then have "load_all_states f = Inr (upsert s (states_of eo))"
    by (simp add: f load_states_file states_ok_def)
  with ok assms(4) show ?thesis by (simp add: orch_ok_def states_of_def)
qed

lemma save_defined: "orch_ok eo \<Longrightarrow> \<exists>f. save_playbook_state s (eo_file eo) = Inr f"
  by (auto simp: save_playbook_state_def dest: orch_ok_load)

section \<open>Status moves\<close>

text \<open>What one operation can do to the status of a playbook (None: no state yet).\<close>

inductive status_step :: "string option \<Rightarrow> string option \<Rightarrow> bool" where
  keep: "status_step s s"
| trigger: "status_step s (Some ''pending'')"
| ack: "status_step (Some ''pending'') (Some ''acknowledged'')"
| complete: "status_step (Some s) (Some t)"

inductive_cases status_step_fromNone: "status_step None t"
inductive_simps status_step_toNone: "status_step s None"

definition status_of :: "string \<Rightarrow> orchestrator \<Rightarrow> string option" where
  "status_of k eo = map_option ps_status (find_state k (states_of eo))"

datatype em_op =
    Trigger string em_context "string option" string bool pydt
  | Ack string string "string option" pydt pydt
  | Complete string string string "string option" pydt pydt

fun em_result :: "em_op \<Rightarrow> orchestrator \<Rightarrow> (pydict \<times> orchestrator) res" where
  "em_result (Trigger t c i a sim now) eo = trigger_playbook t c i a sim now eo"
| "em_result (Ack i a n t1 t2) eo = ack_playbook i a n t1 t2 eo"
| "em_result (Complete i a s n t1 t2) eo = complete_playbook i a s n t1 t2 eo"

definition em_step :: "orchestrator \<Rightarrow> em_op \<Rightarrow> orchestrator" where
  "em_step eo x = (case em_result x eo of Inl _ \<Rightarrow> eo | Inr (_, eo') \<Rightarrow> eo')"

text \<open>The operations with a non-empty completion status.\<close>

definition named_status :: "em_op \<Rightarrow> bool" where
  "named_status x = (case x of Complete _ _ s _ _ _ \<Rightarrow> s \<noteq> [] | _ \<Rightarrow> True)"

text \<open>Every operation on a well-formed store answers, and either changes nothing or saves one state.\<close>

lemma em_step_cases:
  assumes "orch_ok eo" "named_status x"
  shows "(\<exists>d. em_result x eo = Inr (d, em_step eo x)) \<and>
    (em_step eo x = eo \<or>
     (\<exists>s. ps_status s \<noteq> [] \<and> orch_ok (em_step eo x) \<and> states_of (em_step eo x) = upsert s (states_of eo) \<and>
        status_step (status_of (ps_id s) eo) (Some (ps_status s))))"
proof (cases x)
  case (Trigger t c i a sim now)
  show ?thesis
  proof (cases "select_playbook t i (eo_registry eo)")
    case None
    with Trigger show ?thesis by (simp add: em_step_def trigger_playbook_def)
  next
    case (Some p)
    define s where "s = \<lparr>ps_id = pb_id p, ps_status = ''pending'', ps_triggered_at = utc_iso now, ps_trigger = t,
       ps_refs = pb_refs p, ps_acked_by = None, ps_acked_at = None, ps_completed_by = None, ps_completed_at = None,
       ps_notes = None\<rparr>"
    obtain f where f: "save_playbook_state s (eo_file eo) = Inr f" using save_defined [OF assms(1)] by blast
    show ?thesis
    proof (cases sim)
      case True
      with Trigger Some show ?thesis by (simp add: em_step_def trigger_playbook_def Let_def)
    next
      case False
      have e: "eo_file (em_step eo x) = f" and r: "\<exists>d. em_result x eo = Inr (d, em_step eo x)"
        using False f Some Trigger by (simp_all add: em_step_def trigger_playbook_def Let_def s_def)
      from saved_states [OF assms(1) _ f e] r show ?thesis
        by (auto simp: s_def intro!: exI [of _ s] status_step.trigger)
    qed
  qed
next
  case (Ack i a n t1 t2)
  have l: "load_playbook_state i (eo_file eo) = Inr (find_state i (states_of eo))"
    using orch_ok_load [OF assms(1)] by (simp add: load_playbook_state_def)
  show ?thesis
  proof (cases "\<exists>s. find_state i (states_of eo) = Some s \<and> ps_status s = ''pending''")
    case True
    then obtain s0 where s0: "find_state i (states_of eo) = Some s0" "ps_status s0 = ''pending''" by blast
    define s where "s = s0\<lparr>ps_status := ''acknowledged'', ps_acked_by := Some a, ps_acked_at := Some (utc_iso t1), ps_notes := n\<rparr>"
    obtain f where f: "save_playbook_state s (eo_file eo) = Inr f" using save_defined [OF assms(1)] by blast
    have e: "eo_file (em_step eo x) = f" and r: "\<exists>d. em_result x eo = Inr (d, em_step eo x)"
      using l s0 f Ack by (simp_all add: em_step_def ack_playbook_def Let_def s_def)
    have "ps_id s = i" "ps_status s = ''acknowledged''"
      using s0(1) find_state_key [of i "states_of eo" s0] by (simp_all add: s_def)
    with saved_states [OF assms(1) _ f e] r s0 show ?thesis
      by (auto simp: status_of_def intro!: exI [of _ s] status_step.ack)
  next
    case False
    with l Ack show ?thesis
      by (cases "find_state i (states_of eo)") (auto simp: em_step_def ack_playbook_def Let_def)
  qed
next
  case (Complete i a st n t1 t2)
  have l: "load_playbook_state i (eo_file eo) = Inr (find_state i (states_of eo))"
    using orch_ok_load [OF assms(1)] by (simp add: load_playbook_state_def)
  show ?thesis
  proof (cases "find_state i (states_of eo)")
    case None
    with l Complete show ?thesis by (simp add: em_step_def complete_playbook_def)
  next
    case (Some s0)
    define s where "s = s0\<lparr>ps_status := st, ps_completed_by := Some a, ps_completed_at := Some (utc_iso t1), ps_notes := n\<rparr>"
    obtain f where f: "save_playbook_state s (eo_file eo) = Inr f" using save_defined [OF assms(1)] by blast
    have e: "eo_file (em_step eo x) = f" and r: "\<exists>d. em_result x eo = Inr (d, em_step eo x)"
      using l Some f Complete by (simp_all add: em_step_def complete_playbook_def Let_def s_def)
    have "ps_id s = i" "ps_status s = st" "st \<noteq> []"
      using Some find_state_key [of i "states_of eo" s0] assms(2) Complete by (simp_all add: s_def named_status_def)
    with saved_states [OF assms(1) _ f e] r Some show ?thesis
      by (auto simp: status_of_def intro!: exI [of _ s] status_step.complete)
  qed
qed

lemma em_step_ok: "orch_ok eo \<Longrightarrow> named_status x \<Longrightarrow> orch_ok (em_step eo x)"
  using em_step_cases [of eo x] by auto

interpretation emergency: guarded_system em_step named_status orch_ok
  by unfold_locales (rule em_step_ok)

section \<open>Properties\<close>

lemma em_step_moves:
  assumes "orch_ok eo" "named_status x"
  shows "(\<forall>k. status_step (status_of k eo) (status_of k (em_step eo x))) \<and>
    (\<exists>k. \<forall>j. j \<noteq> k \<longrightarrow> find_state j (states_of (em_step eo x)) = find_state j (states_of eo))"
proof (cases "em_step eo x = eo")
  case False
  with em_step_cases [OF assms] obtain s where s: "states_of (em_step eo x) = upsert s (states_of eo)"
    "status_step (status_of (ps_id s) eo) (Some (ps_status s))" by blast
  then show ?thesis
    by (auto simp: status_of_def find_upsert intro: status_step.keep intro!: exI [of _ "ps_id s"])
qed (simp add: status_step.keep)

text \<open>Starting without a state file, every operation answers without raising, moves the status of
  at most one playbook, and only from nothing or anything to \<open>pending\<close> by a trigger, from \<open>pending\<close>
  to \<open>acknowledged\<close>, or from a stored status to a completion status; a stored state never disappears.\<close>

theorem playbook_moves:
  fixes eo :: orchestrator
  assumes "eo_file eo = None" "list_all named_status ops" "named_status x"
  defines "e \<equiv> foldl em_step eo ops"
  shows "(\<exists>d. em_result x e = Inr (d, em_step e x)) \<and>
    (\<forall>k. status_step (status_of k e) (status_of k (em_step e x))) \<and>
    (\<exists>k. \<forall>j. j \<noteq> k \<longrightarrow> find_state j (states_of (em_step e x)) = find_state j (states_of e)) \<and>
    (\<forall>k. status_of k (em_step e x) = None \<longrightarrow> status_of k e = None)"
proof -
  have "orch_ok eo" using assms(1) by (simp add: orch_ok_def load_all_states_def states_ok_def)
  then have ok: "orch_ok e" unfolding e_def by (rule emergency.allowed_run_inv [OF _ assms(2)])
  have moves: "status_step (status_of k e) (status_of k (em_step e x))" for k
    using em_step_moves [OF ok assms(3)] by blast
  then have "status_of k e = None" if "status_of k (em_step e x) = None" for k
    using moves [of k] that by (simp add: status_step_toNone)
  with moves em_step_moves [OF ok assms(3)] em_step_cases [OF ok assms(3)] show ?thesis by blast
qed

definition demo_playbook :: playbook where
  "demo_playbook = \<lparr>pb_id = ''api'', pb_trigger = ''api_down'', pb_refs = [''RUN-1''], pb_actions = [''halt''],
     pb_severity = ''critical'', pb_description = None\<rparr>"

definition demo_orchestrator :: orchestrator where
  "demo_orchestrator = \<lparr>eo_registry = [demo_playbook], eo_file = None, eo_events = [], eo_audit = []\<rparr>"

definition demo_context :: em_context where
  "demo_context = \<lparr>ec_health = ''degraded'', ec_kill_switch = ''none'', ec_board_mode = ''guarded'', ec_metrics = [], ec_refs = []\<rparr>"

definition demo_now :: pydt where
  "demo_now = \<lparr>yr = 2025, mo = 5, dy = 1, hh = 0, mi = 0, ss = 0, us = 0, tzo = Some 0\<rparr>"

definition demo_trigger :: em_op where
  "demo_trigger = Trigger ''api_down'' demo_context None ''ops'' False demo_now"

theorem playbook_moves_witness:
  "\<exists>d. em_result (Ack ''api'' ''ops'' None demo_now demo_now) (foldl em_step demo_orchestrator [demo_trigger]) =
     Inr (d, em_step (foldl em_step demo_orchestrator [demo_trigger]) (Ack ''api'' ''ops'' None demo_now demo_now))"
  using playbook_moves [of demo_orchestrator "[demo_trigger]" "Ack ''api'' ''ops'' None demo_now demo_now"]
  by (simp add: demo_orchestrator_def demo_trigger_def named_status_def)

text \<open>What a single acknowledgement or completion of a stored state leaves.\<close>

lemma ack_pending:
  assumes "orch_ok eo" "find_state i (states_of eo) = Some s" "ps_status s = ''pending''"
  shows "\<exists>eo'. ack_playbook i a n t1 t2 eo = Inr ([(''status'', PStr ''ok''), (''state'', PDict (playbook_state_to_dict
      (s\<lparr>ps_status := ''acknowledged'', ps_acked_by := Some a, ps_acked_at := Some (utc_iso t1), ps_notes := n\<rparr>)))], eo') \<and>
    orch_ok eo' \<and> find_state i (states_of eo') = Some
      (s\<lparr>ps_status := ''acknowledged'', ps_acked_by := Some a, ps_acked_at := Some (utc_iso t1), ps_notes := n\<rparr>)"
proof -
  define s' where "s' = s\<lparr>ps_status := ''acknowledged'', ps_acked_by := Some a, ps_acked_at := Some (utc_iso t1), ps_notes := n\<rparr>"
  obtain f where f: "save_playbook_state s' (eo_file eo) = Inr f" using save_defined [OF assms(1)] by blast
  have l: "load_playbook_state i (eo_file eo) = Inr (Some s)"
    using orch_ok_load [OF assms(1)] assms(2) by (simp add: load_playbook_state_def)
  define eo' where "eo' = eo\<lparr>eo_file := f, eo_events := eo_events eo @
    [playbook_event ''EmergencyPlaybookAcked'' s' a n t2]\<rparr>"
  have "ack_playbook i a n t1 t2 eo = Inr ([(''status'', PStr ''ok''), (''state'', PDict (playbook_state_to_dict s'))], eo')"
    using l assms(3) f by (simp add: ack_playbook_def Let_def s'_def eo'_def)
  moreover have "orch_ok eo' \<and> states_of eo' = upsert s' (states_of eo)"
    by (rule saved_states [OF assms(1) _ f]) (simp_all add: s'_def eo'_def)
  moreover have "ps_id s' = i" using find_state_key [OF assms(2)] by (simp add: s'_def)
  ultimately show ?thesis by (simp add: find_upsert s'_def [symmetric])
qed

lemma complete_stored:
  assumes "orch_ok eo" "find_state i (states_of eo) = Some s" "st \<noteq> []"
  shows "\<exists>eo'. complete_playbook i a st n t1 t2 eo = Inr ([(''status'', PStr ''ok''), (''state'', PDict (playbook_state_to_dict
      (s\<lparr>ps_status := st, ps_completed_by := Some a, ps_completed_at := Some (utc_iso t1), ps_notes := n\<rparr>)))], eo') \<and>
    orch_ok eo' \<and> find_state i (states_of eo') = Some
      (s\<lparr>ps_status := st, ps_completed_by := Some a, ps_completed_at := Some (utc_iso t1), ps_notes := n\<rparr>)"
proof -
  define s' where "s' = s\<lparr>ps_status := st, ps_completed_by := Some a, ps_completed_at := Some (utc_iso t1), ps_notes := n\<rparr>"
  obtain f where f: "save_playbook_state s' (eo_file eo) = Inr f" using save_defined [OF assms(1)] by blast
  have l: "load_playbook_state i (eo_file eo) = Inr (Some s)"
    using orch_ok_load [OF assms(1)] assms(2) by (simp add: load_playbook_state_def)
  obtain eo' where c: "complete_playbook i a st n t1 t2 eo =
      Inr ([(''status'', PStr ''ok''), (''state'', PDict (playbook_state_to_dict s'))], eo')" and e: "eo_file eo' = f"
    using l f by (auto simp: complete_playbook_def Let_def s'_def)
  have "orch_ok eo' \<and> states_of eo' = upsert s' (states_of eo)"
    by (rule saved_states [OF assms(1) _ f e]) (simp add: s'_def assms(3))
  moreover have "ps_id s' = i" using find_state_key [OF assms(2)] by (simp add: s'_def)
  ultimately show ?thesis using c by (simp add: find_upsert s'_def [symmetric])
qed

text \<open>An acknowledgement succeeds once: it records the actor and time on the pending state, and a
  second acknowledgement of the playbook answers \<open>invalid_state\<close> and changes nothing.\<close>

theorem ack_succeeds_once:
  assumes "orch_ok eo" "find_state i (states_of eo) = Some s" "ps_status s = ''pending''"
  shows "\<exists>d eo' d'. ack_playbook i a n t1 t2 eo = Inr (d, eo') \<and> dget d ''status'' = PStr ''ok'' \<and>
    find_state i (states_of eo') = Some
      (s\<lparr>ps_status := ''acknowledged'', ps_acked_by := Some a, ps_acked_at := Some (utc_iso t1), ps_notes := n\<rparr>) \<and>
    ack_playbook i a' n' t1' t2' eo' = Inr (d', eo') \<and> dget d' ''status'' = PStr ''invalid_state''"
proof -
  from ack_pending [OF assms, of a n t1 t2] obtain eo' where
    e: "ack_playbook i a n t1 t2 eo = Inr ([(''status'', PStr ''ok''), (''state'', PDict (playbook_state_to_dict
      (s\<lparr>ps_status := ''acknowledged'', ps_acked_by := Some a, ps_acked_at := Some (utc_iso t1), ps_notes := n\<rparr>)))], eo')"
    and ok: "orch_ok eo'" and s': "find_state i (states_of eo') = Some
      (s\<lparr>ps_status := ''acknowledged'', ps_acked_by := Some a, ps_acked_at := Some (utc_iso t1), ps_notes := n\<rparr>)" by blast
  have "load_playbook_state i (eo_file eo') = Inr (find_state i (states_of eo'))"
    using orch_ok_load [OF ok] by (simp add: load_playbook_state_def)
  with e s' show ?thesis by (simp add: ack_playbook_def)
qed

definition demo_state :: playbook_state where
  "demo_state = \<lparr>ps_id = ''api'', ps_status = ''pending'', ps_triggered_at = ''-'', ps_trigger = ''api_down'', ps_refs = [],
     ps_acked_by = None, ps_acked_at = None, ps_completed_by = None, ps_completed_at = None, ps_notes = None\<rparr>"

definition demo_pending :: orchestrator where
  "demo_pending = demo_orchestrator\<lparr>eo_file := states_file [demo_state]\<rparr>"

lemma demo_pending_ok: "orch_ok demo_pending" "find_state ''api'' (states_of demo_pending) = Some demo_state"
proof -
  have "load_all_states (eo_file demo_pending) = Inr [demo_state]"
    by (simp add: demo_pending_def load_states_file demo_state_def)
  then show "orch_ok demo_pending" "find_state ''api'' (states_of demo_pending) = Some demo_state"
    by (simp_all add: orch_ok_def states_ok_def states_of_def find_state_def demo_state_def)
qed

theorem ack_succeeds_once_witness:
  "\<exists>d eo'. ack_playbook ''api'' ''ops'' None demo_now demo_now demo_pending = Inr (d, eo') \<and> dget d ''status'' = PStr ''ok''"
proof -
  have "ps_status demo_state = ''pending''" by (simp add: demo_state_def)
  from ack_succeeds_once [OF demo_pending_ok this, of "''ops''" None demo_now demo_now] show ?thesis by blast
qed

text \<open>A completion is accepted whatever the stored status: a playbook nobody acknowledged can be
  completed, and a completed one completed again with another status.\<close>

theorem complete_ignores_status:
  assumes "orch_ok eo" "find_state i (states_of eo) = Some s" "st \<noteq> []" "st' \<noteq> []"
  shows "\<exists>d eo1 d' eo2. complete_playbook i a st n t1 t2 eo = Inr (d, eo1) \<and> status_of i eo1 = Some st \<and>
    complete_playbook i a' st' n' t1' t2' eo1 = Inr (d', eo2) \<and> status_of i eo2 = Some st' \<and>
    dget d ''status'' = PStr ''ok'' \<and> dget d' ''status'' = PStr ''ok''"
proof -
  from complete_stored [OF assms(1-3), of a n t1 t2] obtain d eo1 s1 where
    1: "complete_playbook i a st n t1 t2 eo = Inr (d, eo1)" "dget d ''status'' = PStr ''ok''" "orch_ok eo1"
      "find_state i (states_of eo1) = Some s1" "ps_status s1 = st" by fastforce
  from complete_stored [OF 1(3,4) assms(4), of a' n' t1' t2'] obtain d' eo2 s2 where
    2: "complete_playbook i a' st' n' t1' t2' eo1 = Inr (d', eo2)" "dget d' ''status'' = PStr ''ok''"
      "find_state i (states_of eo2) = Some s2" "ps_status s2 = st'" by fastforce
  from 1 2 show ?thesis by (simp add: status_of_def)
qed

theorem complete_ignores_status_witness:
  "\<exists>d eo1. complete_playbook ''api'' ''ops'' ''completed'' None demo_now demo_now demo_pending = Inr (d, eo1) \<and>
     status_of ''api'' eo1 = Some ''completed''"
  using complete_ignores_status [OF demo_pending_ok, of "''completed''" "''reopened''" "''ops''" None demo_now demo_now]
  by simp blast

end
