(* ===== verification/StageGuard.thy ===== *)
theory StageGuard
  imports PyTime Systems "HOL-Library.List_Lexorder"
begin

text \<open>
  \<open>src/brokers/stage_guard.py\<close>: the guard on the autonomy stages
  \<open>manual_only < reduce_only < partial_auto < full_auto\<close>. It evaluates a context (readiness score,
  certification, alerts, drills, failover) into allowed promotions, keeps requests that operators
  approve or deny, and records each change of stage in its history, its state file and the audit log.

  Clock readings and the hexadecimal digits of a fresh request id are arguments, a method that
  reads the clock twice to test and date one record is given one reading, writes to the files are
  taken to succeed, and an exception leaves the guard as it was, since every one is raised before
  the first change. A time stamp that is read back is its instant in microseconds.
\<close>

section \<open>Data\<close>

definition stage_order :: "string list" where
  "stage_order = [''manual_only'', ''reduce_only'', ''partial_auto'', ''full_auto'']"

record transition =
  tr_from :: string
  tr_to :: string
  tr_actor :: string
  tr_reason :: "string option"
  tr_ts :: string

record request =
  rq_id :: string
  rq_stage :: string
  rq_by :: string
  rq_at :: string
  rq_status :: string
  rq_reason :: "string option"
  rq_approved_by :: "string option"
  rq_approved_at :: "string option"

record guard_context =
  gc_score :: "pyfloat option"
  gc_cert :: "string option"
  gc_alerts :: int
  gc_emergency :: bool
  gc_drill_overdue :: bool
  gc_incidents :: int
  gc_disclosure_ok :: bool
  gc_enabled :: bool
  gc_notes :: "string list"

record evaluation =
  ev_allowed :: "string list"
  ev_blocks :: "(string \<times> string list) list"
  ev_demotions :: "string list"
  ev_actions :: "string list"
  ev_refs :: "string list"

record guard =
  gd_stage :: string
  gd_updated_at :: string
  gd_updated_by :: string
  gd_history :: "transition list"
  gd_requests :: "request list"
  gd_file :: json_file
  gd_audit :: "pydict list"
  gd_events :: json_lines
  gd_worklog :: "pydict list"

definition transition_to_dict :: "transition \<Rightarrow> pydict" where
  "transition_to_dict t = [(''from_stage'', PStr (tr_from t)), (''to_stage'', PStr (tr_to t)),
     (''actor'', PStr (tr_actor t)), (''reason'', ostr (tr_reason t)), (''ts'', PStr (tr_ts t))]"

definition request_to_dict :: "request \<Rightarrow> pydict" where
  "request_to_dict r = [(''request_id'', PStr (rq_id r)), (''requested_stage'', PStr (rq_stage r)),
     (''requested_by'', PStr (rq_by r)), (''requested_at'', PStr (rq_at r)), (''status'', PStr (rq_status r)),
     (''reason'', ostr (rq_reason r)), (''approved_by'', ostr (rq_approved_by r)),
     (''approved_at'', ostr (rq_approved_at r))]"

definition blocks_to_dict :: "(string \<times> string list) list \<Rightarrow> pydict" where
  "blocks_to_dict bs = map (\<lambda>(s, rs). (s, PList (map PStr rs))) bs"

definition evaluation_to_dict :: "evaluation \<Rightarrow> pydict" where
  "evaluation_to_dict e = [(''allowed_promotions'', PList (map PStr (ev_allowed e))),
     (''blocks'', PDict (blocks_to_dict (ev_blocks e))),
     (''recommended_demotions'', PList (map PStr (ev_demotions e))),
     (''next_actions'', PList (map PStr (ev_actions e))), (''runbook_refs'', PList (map PStr (ev_refs e)))]"

section \<open>State file\<close>

definition state_to_dict :: "guard \<Rightarrow> pydict" where
  "state_to_dict g = [(''stage'', PStr (gd_stage g)), (''updated_at'', PStr (gd_updated_at g)),
     (''updated_by'', PStr (gd_updated_by g)),
     (''history'', PList (map (\<lambda>t. PDict (transition_to_dict t)) (gd_history g))),
     (''requests'', PList (map (\<lambda>r. PDict (request_to_dict r)) (gd_requests g)))]"

definition save_state :: "guard \<Rightarrow> guard" where
  "save_state g = g\<lparr>gd_file := Some (Some (PDict (state_to_dict g)))\<rparr>"

definition transition_from_dict :: "string \<Rightarrow> pydict \<Rightarrow> transition res" where
  "transition_from_dict now d =
     bind_res (as_text (dget_def d ''from_stage'' (PStr ''manual_only''))) (\<lambda>a.
     bind_res (as_text (dget_def d ''to_stage'' (PStr ''manual_only''))) (\<lambda>b.
     bind_res (as_text (dget_def d ''actor'' (PStr ''system''))) (\<lambda>c.
     bind_res (opt_text (dget d ''reason'')) (\<lambda>r.
     bind_res (as_text (dget_def d ''ts'' (PStr now))) (\<lambda>t.
     Inr \<lparr>tr_from = a, tr_to = b, tr_actor = c, tr_reason = r, tr_ts = t\<rparr>)))))"

definition request_from_dict :: "string \<Rightarrow> pydict \<Rightarrow> request res" where
  "request_from_dict now d =
     bind_res (as_text (dget d ''requested_stage'')) (\<lambda>s.
     bind_res (as_text (dget_def d ''requested_by'' (PStr ''system''))) (\<lambda>b.
     bind_res (as_text (dget_def d ''requested_at'' (PStr now))) (\<lambda>t.
     bind_res (as_text (dget_def d ''status'' (PStr ''requested''))) (\<lambda>st.
     bind_res (opt_text (dget d ''reason'')) (\<lambda>r.
     bind_res (opt_text (dget d ''approved_by'')) (\<lambda>ab.
     bind_res (opt_text (dget d ''approved_at'')) (\<lambda>aa.
     Inr \<lparr>rq_id = py_str (dget d ''request_id''), rq_stage = s, rq_by = b, rq_at = t, rq_status = st,
          rq_reason = r, rq_approved_by = ab, rq_approved_at = aa\<rparr>)))))))"

text \<open>\<open>[f entry for entry in v if isinstance(entry, Mapping)]\<close>\<close>

definition mappings_of :: "pyval \<Rightarrow> pydict list res" where
  "mappings_of v = bind_res (py_iter v) (\<lambda>xs. Inr (map mapping_or_empty (filter is_mapping xs)))"

definition load_state :: "json_file \<Rightarrow> string \<Rightarrow> guard \<Rightarrow> guard res" where
  "load_state file now g =
     (let fresh = g\<lparr>gd_stage := ''manual_only'', gd_updated_at := now, gd_updated_by := ''system''\<rparr>
      in case file of None \<Rightarrow> Inr fresh | Some None \<Rightarrow> Inr fresh
       | Some (Some v) \<Rightarrow>
           bind_res (as_dict_get v) (\<lambda>d.
           let stage = (case py_or (dget d ''stage'') (PStr ''manual_only'') of
                 PStr s \<Rightarrow> if s \<in> set stage_order then s else ''manual_only'' | _ \<Rightarrow> ''manual_only'')
           in bind_res (as_text (py_or (dget d ''updated_at'') (PStr now))) (\<lambda>upd.
              bind_res (as_text (py_or (dget d ''updated_by'') (PStr ''system''))) (\<lambda>who.
              bind_res (mappings_of (py_or (dget d ''history'') (PList []))) (\<lambda>hs.
              bind_res (map_res (transition_from_dict now) hs) (\<lambda>history.
              bind_res (mappings_of (py_or (dget d ''requests'') (PList []))) (\<lambda>rs.
              bind_res (map_res (request_from_dict now) rs) (\<lambda>requests.
              Inr (g\<lparr>gd_stage := stage, gd_updated_at := upd, gd_updated_by := who,
                     gd_history := history, gd_requests := requests\<rparr>)))))))))"

text \<open>The constructor: the logs are the files found, a given stage replaces the stored one.\<close>

definition new_guard ::
  "string option \<Rightarrow> json_file \<Rightarrow> pydict list \<Rightarrow> json_lines \<Rightarrow> pydict list \<Rightarrow> pydt \<Rightarrow> guard res" where
  "new_guard stage file audit events worklog now =
     bind_res (load_state file (utc_iso now)
       \<lparr>gd_stage = [], gd_updated_at = [], gd_updated_by = [], gd_history = [], gd_requests = [],
        gd_file = file, gd_audit = audit, gd_events = events, gd_worklog = worklog\<rparr>)
     (\<lambda>g. Inr (case stage of None \<Rightarrow> g | Some s \<Rightarrow> g\<lparr>gd_stage := s\<rparr>))"

section \<open>Reading the context\<close>

definition parse_ts :: "string \<Rightarrow> int option" where
  "parse_ts s = (if s = [] then None else map_option epoch_us (fromisoformat (str_replace ''Z'' ''+00:00'' s)))"

definition load_feature_flag :: "string \<Rightarrow> json_file \<Rightarrow> bool" where
  "load_feature_flag flag file = (case file of Some (Some v) \<Rightarrow>
       (case py_or v (PDict []) of PDict payload \<Rightarrow>
          (case dget payload ''defaults'' of PDict defaults \<Rightarrow>
             list_ex (\<lambda>profile. case dget defaults profile of PDict flags \<Rightarrow> dget flags flag = PBool True | _ \<Rightarrow> False)
               [''live'', ''paper'', ''backtest'']
           | _ \<Rightarrow> False)
        | _ \<Rightarrow> False)
     | _ \<Rightarrow> False)"

definition load_ops_readiness_score :: "json_lines \<Rightarrow> pyfloat option res" where
  "load_ops_readiness_score lines = (case rev lines of
       Some v # _ \<Rightarrow> bind_res (as_dict_get v) (\<lambda>d. or_none (py_float (dget d ''readiness_score'')))
     | _ \<Rightarrow> Inr None)"

definition load_certification_status :: "json_lines \<Rightarrow> string option res" where
  "load_certification_status lines = (case rev lines of
       Some v # _ \<Rightarrow> bind_res (as_dict_get v) (\<lambda>d. let s = dget d ''status'' in
          Inr (if truthy s then Some (py_str s) else None))
     | _ \<Rightarrow> Inr None)"

definition is_fill_alert :: "int \<Rightarrow> pydict \<Rightarrow> bool" where
  "is_fill_alert cutoff d \<longleftrightarrow> dget d ''event'' = PStr ''shadow.fill_drift_detected'' \<and>
     (case parse_ts (py_str (py_or (dget d ''ts'') (PStr []))) of None \<Rightarrow> True | Some t \<Rightarrow> \<not> t < cutoff) \<and>
     py_str (dget d ''severity'') = ''major''"

definition json_dicts :: "json_lines \<Rightarrow> pydict list res" where
  "json_dicts lines = map_res as_dict_get (map the (filter (\<lambda>l. l \<noteq> None) lines))"

definition count_fill_shadow_alerts :: "json_lines \<Rightarrow> int \<Rightarrow> pydt \<Rightarrow> int res" where
  "count_fill_shadow_alerts lines hours now =
     bind_res (json_dicts lines) (\<lambda>ds.
     Inr (int (length (filter (is_fill_alert (epoch_us now - hours * 3600000000)) ds))))"

definition load_failover_active :: "json_file \<Rightarrow> bool res" where
  "load_failover_active file = (case file of
       Some (Some v) \<Rightarrow> bind_res (as_dict_get v) (\<lambda>d.
          Inr (py_str (py_or (dget d ''status'') (PStr [])) \<in> {''blocked'', ''active'', ''triggered''}))
     | _ \<Rightarrow> Inr False)"

definition plan_id_from_execution_id :: "string \<Rightarrow> string" where
  "plan_id_from_execution_id s = (if ends_with ''-run'' s then take (length s - 4) s else s)"

definition load_drill_plans :: "json_lines \<Rightarrow> pydt \<Rightarrow> (pyval \<times> int) list res" where
  "load_drill_plans lines now = bind_res (json_dicts lines) (\<lambda>ds.
     Inr (map (\<lambda>d. (dget d ''plan_id'',
        case parse_ts (py_str (py_or (dget d ''scheduled_for'') (PStr []))) of None \<Rightarrow> epoch_us now | Some t \<Rightarrow> t)) ds))"

definition drill_completion_step :: "(string \<times> string) list \<Rightarrow> pydict \<Rightarrow> (string \<times> string) list" where
  "drill_completion_step m d =
     (let ex = dget d ''execution_id'';
          plan = py_or (dget d ''plan_id'') (PStr (plan_id_from_execution_id (py_str ex)));
          status = dget d ''status''
      in if truthy ex \<and> truthy plan \<and> truthy status then AList.update (py_str plan) (py_str status) m else m)"

definition load_drill_completion :: "json_lines \<Rightarrow> (string \<times> string) list res" where
  "load_drill_completion lines = bind_res (json_dicts lines) (\<lambda>ds. Inr (foldl drill_completion_step [] ds))"

definition drill_overdue :: "json_lines \<Rightarrow> json_lines \<Rightarrow> pydt \<Rightarrow> bool res" where
  "drill_overdue plan_lines execution_lines now =
     bind_res (load_drill_plans plan_lines now) (\<lambda>plans.
     if plans = [] then Inr False
     else bind_res (load_drill_completion execution_lines) (\<lambda>completion.
       Inr (list_ex (\<lambda>(pid, due). truthy pid \<and> due \<le> epoch_us now \<and>
              map_of completion (py_str pid) \<notin> {Some ''completed'', Some ''completed_with_notes''}) plans)))"

record guard_files =
  gf_readiness :: json_lines
  gf_certification :: json_lines
  gf_shadow_events :: json_lines
  gf_failover :: json_file
  gf_drill_plans :: json_lines
  gf_drill_executions :: json_lines
  gf_feature_flags :: json_file

definition load_context :: "guard_files \<Rightarrow> pydt \<Rightarrow> guard_context res" where
  "load_context f now =
     bind_res (load_ops_readiness_score (gf_readiness f)) (\<lambda>score.
     bind_res (load_certification_status (gf_certification f)) (\<lambda>cert.
     bind_res (count_fill_shadow_alerts (gf_shadow_events f) 24 now) (\<lambda>alerts.
     bind_res (load_failover_active (gf_failover f)) (\<lambda>emergency.
     bind_res (drill_overdue (gf_drill_plans f) (gf_drill_executions f) now) (\<lambda>overdue.
     Inr \<lparr>gc_score = score, gc_cert = cert, gc_alerts = alerts, gc_emergency = emergency,
          gc_drill_overdue = overdue, gc_incidents = 0, gc_disclosure_ok = True,
          gc_enabled = load_feature_flag ''brokers.autonomy_stage_enabled'' (gf_feature_flags f),
          gc_notes = (if score = None then [''ops_readiness_score:missing''] else []) @
                     (if cert = None then [''broker_certification:missing''] else [])\<rparr>)))))"

section \<open>Evaluating\<close>

definition stage_index :: "string \<Rightarrow> nat res" where
  "stage_index s = (case find (\<lambda>i. stage_order ! i = s) [0..<4] of Some i \<Rightarrow> Inr i | None \<Rightarrow> Inl ValueError)"

definition stage_requirements :: "string \<Rightarrow> guard_context \<Rightarrow> string list" where
  "stage_requirements stage c =
     (let below = (\<lambda>n. case gc_score c of None \<Rightarrow> True | Some x \<Rightarrow> flt x (Fin n)) in
      if stage = ''reduce_only'' then
        (if below 70 then [''ops_readiness_score<70''] else []) @
        (if gc_cert c \<notin> {Some ''pass'', Some ''pass_with_warning''} then [''broker_certification_not_pass''] else []) @
        (if gc_alerts c \<noteq> 0 then [''fill_shadow_alerts''] else []) @
        (if \<not> gc_disclosure_ok c then [''risk_disclosure_pending''] else [])
      else if stage = ''partial_auto'' then
        (if below 80 then [''ops_readiness_score<80''] else []) @
        (if gc_drill_overdue c then [''emergency_drill_overdue''] else []) @
        (if gc_emergency c then [''emergency_active''] else [])
      else if stage = ''full_auto'' then [''requires_m3_soak'']
      else [])"

definition low_readiness :: "guard_context \<Rightarrow> bool" where
  "low_readiness c = (case gc_score c of None \<Rightarrow> False | Some x \<Rightarrow> flt x (Fin 75))"

definition recommended_demotions :: "string \<Rightarrow> guard_context \<Rightarrow> string list" where
  "recommended_demotions stage c =
     (let auto = (stage \<in> {''partial_auto'', ''full_auto''}) in
      if gc_emergency c \<and> stage \<noteq> ''manual_only'' then [''manual_only'']
      else let r1 = (if gc_alerts c \<noteq> 0 \<and> auto then [''reduce_only''] else []);
               r2 = (if low_readiness c \<and> auto \<and> ''reduce_only'' \<notin> set r1 then r1 @ [''reduce_only''] else r1)
           in if gc_drill_overdue c \<and> auto \<and> ''reduce_only'' \<notin> set r2 then r2 @ [''reduce_only''] else r2)"

text \<open>\<open>evaluate\<close> without events, for the current stage.\<close>

definition evaluate_stage :: "string \<Rightarrow> guard_context \<Rightarrow> evaluation res" where
  "evaluate_stage current c =
     (if \<not> gc_enabled c then
        Inr \<lparr>ev_allowed = [],
             ev_blocks = map (\<lambda>s. (s, [''feature_flag_disabled''])) (filter (\<lambda>s. s \<noteq> current) stage_order),
             ev_demotions = [],
             ev_actions = [''Enable brokers.autonomy_stage_enabled to evaluate stages.''],
             ev_refs = [''RUN-BROKER-API-03'']\<rparr>
      else bind_res (stage_index current) (\<lambda>i.
        let later = drop (Suc i) stage_order;
            refs = (if gc_emergency c then [''RUN-BROKER-API-02''] else []) @
                   (if gc_alerts c \<noteq> 0 then [''RUN-BROKER-API-02''] else []) @
                   (if low_readiness c then [''OPS-READINESS-01''] else []) @
                   (if gc_drill_overdue c then [''RUN-BROKER-API-02''] else [])
        in Inr \<lparr>ev_allowed = filter (\<lambda>s. stage_requirements s c = []) later,
                ev_blocks = map (\<lambda>s. (s, stage_requirements s c)) (filter (\<lambda>s. stage_requirements s c \<noteq> []) later),
                ev_demotions = recommended_demotions current c,
                ev_actions =
                  (if gc_emergency c then [''Emergency plan active: review API failover status.''] else []) @
                  (if gc_alerts c \<noteq> 0 then [''FillShadow alerts detected: review shadow reconciliation.''] else []) @
                  (if low_readiness c then [''Ops readiness below threshold: review ops readiness evidence.''] else []) @
                  (if gc_drill_overdue c then [''Emergency drill overdue: schedule drill execution.''] else []),
                ev_refs = (if refs = [] then [''RUN-BROKER-API-03''] else sort (remdups refs))\<rparr>))"

section \<open>Transitions\<close>

definition apply_transition :: "transition \<Rightarrow> guard \<Rightarrow> guard" where
  "apply_transition t g = save_state (g\<lparr>gd_stage := tr_to t, gd_updated_at := tr_ts t, gd_updated_by := tr_actor t,
     gd_history := gd_history g @ [t]\<rparr>)"

definition append_audit :: "pydict \<Rightarrow> guard \<Rightarrow> guard" where
  "append_audit d g = g\<lparr>gd_audit := gd_audit g @ [d]\<rparr>"

definition append_event :: "pydict \<Rightarrow> guard \<Rightarrow> guard" where
  "append_event d g = g\<lparr>gd_events := gd_events g @ [Some (PDict d)]\<rparr>"

definition append_ops_worklog :: "pydict \<Rightarrow> guard \<Rightarrow> guard" where
  "append_ops_worklog d g = g\<lparr>gd_worklog := gd_worklog g @ [d]\<rparr>"

definition stage_changed :: "transition \<Rightarrow> string option \<Rightarrow> pydict" where
  "stage_changed t reason = [(''event'', PStr ''audit.autonomy_stage_changed''), (''stage_from'', PStr (tr_from t)),
     (''stage_to'', PStr (tr_to t)), (''actor'', PStr (tr_actor t)), (''reason'', ostr reason), (''ts'', PStr (tr_ts t))]"

text \<open>A transition to \<open>target\<close>, applied and audited under \<open>audit_reason\<close>.\<close>

definition change_stage ::
  "string \<Rightarrow> string \<Rightarrow> string option \<Rightarrow> string option \<Rightarrow> pydt \<Rightarrow> guard \<Rightarrow> transition \<times> guard" where
  "change_stage target actor reason audit_reason now g =
     (let t = \<lparr>tr_from = gd_stage g, tr_to = target, tr_actor = actor, tr_reason = reason, tr_ts = utc_iso now\<rparr>
      in (t, append_audit (stage_changed t audit_reason) (apply_transition t g)))"

definition blocks_text :: "evaluation \<Rightarrow> string \<Rightarrow> string" where
  "blocks_text e stage = (let rs = str_join '', '' (case map_of (ev_blocks e) stage of None \<Rightarrow> [] | Some rs \<Rightarrow> rs)
     in if rs = [] then ''blocked'' else rs)"

text \<open>The context is the one passed in, or what \<open>load_context\<close> gives.\<close>

definition promote ::
  "string \<Rightarrow> string \<Rightarrow> string option \<Rightarrow> guard_context res \<Rightarrow> bool \<Rightarrow> pydt \<Rightarrow> guard \<Rightarrow> (transition \<times> guard) res" where
  "promote stage actor reason context override now g =
     (if stage \<notin> set stage_order then Inl (StageGuardError (''Unknown stage: '' @ stage))
      else bind_res
        (if override then Inr ()
         else bind_res context (\<lambda>c. bind_res (evaluate_stage (gd_stage g) c) (\<lambda>e.
           if stage \<in> set (ev_allowed e) then Inr ()
           else Inl (StageGuardError (''Stage promotion blocked: '' @ stage @ '' ('' @ blocks_text e stage @ '')'')))))
        (\<lambda>_. bind_res (stage_index (gd_stage g)) (\<lambda>cur. bind_res (stage_index stage) (\<lambda>target.
           if target < cur then Inl (StageGuardError (''Cannot demote from '' @ gd_stage g @ '' to '' @ stage))
           else Inr (change_stage stage actor reason reason now g)))))"

definition rollback_one ::
  "string \<Rightarrow> string option \<Rightarrow> pydt \<Rightarrow> guard \<Rightarrow> (transition option \<times> guard) res" where
  "rollback_one actor reason now g =
     bind_res (stage_index (gd_stage g)) (\<lambda>i.
       if i = 0 then Inr (None, g)
       else let (t, g') = change_stage (stage_order ! (i - 1)) actor reason (str_or reason (Some ''rollback'')) now g
            in Inr (Some t, g'))"

definition on_error ::
  "string \<Rightarrow> string \<Rightarrow> string option \<Rightarrow> pydt \<Rightarrow> guard \<Rightarrow> (transition option \<times> guard) res" where
  "on_error error_class actor reason now g =
     (if error_class = ''circuit_breaker'' then rollback_one actor (str_or reason (Some ''circuit_breaker'')) now g
      else Inr (None, g))"

definition recover_stage ::
  "string \<Rightarrow> string option \<Rightarrow> pydt \<Rightarrow> guard \<Rightarrow> (transition option \<times> guard) res" where
  "recover_stage actor reason now g =
     bind_res (stage_index (gd_stage g)) (\<lambda>i.
       if length stage_order \<le> i + 1 then Inr (None, g)
       else let (t, g') = change_stage (stage_order ! (i + 1)) actor reason (str_or reason (Some ''recover'')) now g
            in Inr (Some t, g'))"

section \<open>Requests\<close>

definition request_transition ::
  "string \<Rightarrow> string \<Rightarrow> string option \<Rightarrow> string \<Rightarrow> pydt \<Rightarrow> guard \<Rightarrow> (request \<times> guard) res" where
  "request_transition stage actor reason hex now g =
     (if stage \<notin> set stage_order then Inl (StageGuardError (''Unknown stage: '' @ stage))
      else let r = \<lparr>rq_id = ''stage-'' @ hex, rq_stage = stage, rq_by = actor, rq_at = utc_iso now,
                    rq_status = ''requested'', rq_reason = reason, rq_approved_by = None, rq_approved_at = None\<rparr>;
               g1 = g\<lparr>gd_requests := gd_requests g @ [r]\<rparr>;
               g2 = append_audit [(''event'', PStr ''audit.autonomy_stage_request''), (''request_id'', PStr (rq_id r)),
                      (''requested_stage'', PStr stage), (''requested_by'', PStr actor), (''reason'', ostr reason),
                      (''ts'', PStr (rq_at r))] g1;
               g3 = append_event [(''event'', PStr ''autonomy_stage.requested''), (''request_id'', PStr (rq_id r)),
                      (''requested_stage'', PStr stage), (''requested_by'', PStr actor), (''ts'', PStr (rq_at r))] g2;
               g4 = append_ops_worklog [(''timestamp'', PStr (rq_at r)), (''task'', PStr ''autonomy_stage_review''),
                      (''request_id'', PStr (rq_id r)), (''requested_stage'', PStr stage), (''status'', PStr ''pending''),
                      (''runbook_ref'', PStr ''RUN-BROKER-API-03'')] g3
           in Inr (r, save_state g4))"

definition find_request :: "string \<Rightarrow> guard \<Rightarrow> request res" where
  "find_request rid g = (case find (\<lambda>r. rq_id r = rid) (gd_requests g) of
     Some r \<Rightarrow> Inr r | None \<Rightarrow> Inl (StageRequestNotFound rid))"

text \<open>The status of the request found by \<open>find_request\<close> is set in place.\<close>

definition settle_request :: "string \<Rightarrow> string \<Rightarrow> string \<Rightarrow> string \<Rightarrow> guard \<Rightarrow> guard" where
  "settle_request rid status actor ts g = g\<lparr>gd_requests := update_first (\<lambda>r. rq_id r = rid)
     (\<lambda>r. r\<lparr>rq_status := status, rq_approved_by := Some actor, rq_approved_at := Some ts\<rparr>) (gd_requests g)\<rparr>"

definition approve_request ::
  "string \<Rightarrow> string \<Rightarrow> string option \<Rightarrow> guard_context res \<Rightarrow> pydt \<Rightarrow> guard \<Rightarrow> (transition \<times> guard) res" where
  "approve_request rid actor reason context now g =
     bind_res (find_request rid g) (\<lambda>r.
     if rq_status r \<noteq> ''requested'' then Inl (StageRequestNotApproved (''Request '' @ rid @ '' not approvable''))
     else bind_res (promote (rq_stage r) actor (str_or reason (rq_reason r)) context False now g) (\<lambda>(t, g1).
       let g2 = settle_request rid ''approved'' actor (tr_ts t) g1;
           g3 = append_audit [(''event'', PStr ''audit.autonomy_stage_approved''), (''request_id'', PStr (rq_id r)),
                  (''stage'', PStr (rq_stage r)), (''approved_by'', PStr actor),
                  (''reason'', ostr (str_or reason (rq_reason r))), (''ts'', PStr (tr_ts t))] g2
       in Inr (t, save_state g3)))"

definition deny_request :: "string \<Rightarrow> string \<Rightarrow> string option \<Rightarrow> pydt \<Rightarrow> guard \<Rightarrow> (request \<times> guard) res" where
  "deny_request rid actor reason now g =
     bind_res (find_request rid g) (\<lambda>r.
     if rq_status r \<noteq> ''requested'' then Inl (StageRequestNotApproved (''Request '' @ rid @ '' not deniable''))
     else let ts = utc_iso now;
              g1 = settle_request rid ''denied'' actor ts g;
              g2 = append_audit [(''event'', PStr ''audit.autonomy_stage_denied''), (''request_id'', PStr (rq_id r)),
                     (''stage'', PStr (rq_stage r)), (''approved_by'', PStr actor), (''reason'', ostr reason),
                     (''ts'', PStr ts)] g1;
              g3 = append_event [(''event'', PStr ''autonomy_stage.denied''), (''request_id'', PStr (rq_id r)),
                     (''requested_stage'', PStr (rq_stage r)), (''denied_by'', PStr actor), (''reason'', ostr reason),
                     (''ts'', PStr ts)] g2
          in Inr (r\<lparr>rq_status := ''denied'', rq_approved_by := Some actor, rq_approved_at := Some ts\<rparr>, save_state g3))"

definition pending_requests :: "guard \<Rightarrow> request list" where
  "pending_requests g = filter (\<lambda>r. rq_status r = ''requested'') (gd_requests g)"

section \<open>Review events\<close>

definition should_emit_event :: "string \<Rightarrow> pydt \<Rightarrow> guard \<Rightarrow> bool res" where
  "should_emit_event event now g = (case rev (gd_events g) of
       Some v # _ \<Rightarrow> bind_res (as_dict_get v) (\<lambda>last.
          Inr (dget last ''event'' \<noteq> PStr event \<or>
            (case parse_ts (py_str (dget last ''ts'')) of None \<Rightarrow> True
             | Some t \<Rightarrow> 3600000000 < epoch_us now - t)))
     | _ \<Rightarrow> Inr True)"

definition float_or_none :: "pyfloat option \<Rightarrow> pyval" where
  "float_or_none x = (case x of None \<Rightarrow> PNone | Some v \<Rightarrow> PFloat v)"

definition emit_review_tasks :: "guard_context \<Rightarrow> evaluation \<Rightarrow> pydt \<Rightarrow> guard \<Rightarrow> guard res" where
  "emit_review_tasks c e now g =
     (if ev_demotions e = [] \<and> ev_blocks e = [] then Inr g
      else bind_res (should_emit_event ''autonomy_stage.review_needed'' now g) (\<lambda>emit.
        if \<not> emit then Inr g
        else Inr (append_ops_worklog
          [(''timestamp'', PStr (utc_iso now)), (''task'', PStr ''autonomy_stage_review''), (''status'', PStr ''needed''),
           (''stage'', PStr (gd_stage g)), (''runbook_ref'', PStr ''RUN-BROKER-API-03'')]
          (append_event
            [(''event'', PStr ''autonomy_stage.review_needed''), (''ts'', PStr (utc_iso now)),
             (''stage'', PStr (gd_stage g)), (''recommended_demotions'', PList (map PStr (ev_demotions e))),
             (''blocks'', PDict (blocks_to_dict (ev_blocks e))), (''ops_readiness_score'', float_or_none (gc_score c)),
             (''certification_status'', ostr (gc_cert c)), (''fill_shadow_alerts'', PInt (gc_alerts c)),
             (''emergency_active'', PBool (gc_emergency c)), (''drill_overdue'', PBool (gc_drill_overdue c)),
             (''runbook_refs'', PList (map PStr (ev_refs e)))] g))))"

text \<open>\<open>evaluate(context, emit_events=True)\<close> returns early, without events, where the flag is off.\<close>

definition evaluate_and_emit :: "guard_context \<Rightarrow> pydt \<Rightarrow> guard \<Rightarrow> (evaluation \<times> guard) res" where
  "evaluate_and_emit c now g = bind_res (evaluate_stage (gd_stage g) c) (\<lambda>e.
     if \<not> gc_enabled c then Inr (e, g)
     else bind_res (emit_review_tasks c e now g) (\<lambda>g'. Inr (e, g')))"

definition context_to_dict :: "guard_context \<Rightarrow> pydict" where
  "context_to_dict c = [(''ops_readiness_score'', float_or_none (gc_score c)), (''certification_status'', ostr (gc_cert c)),
     (''fill_shadow_alerts'', PInt (gc_alerts c)), (''emergency_active'', PBool (gc_emergency c)),
     (''drill_overdue'', PBool (gc_drill_overdue c)), (''incident_count'', PInt (gc_incidents c)),
     (''risk_disclosure_ok'', PBool (gc_disclosure_ok c)), (''stage_guard_enabled'', PBool (gc_enabled c)),
     (''notes'', PList (map PStr (gc_notes c)))]"

definition guard_status :: "guard_context res \<Rightarrow> pydt \<Rightarrow> guard \<Rightarrow> (pydict \<times> guard) res" where
  "guard_status context now g = bind_res context (\<lambda>c. bind_res (evaluate_and_emit c now g) (\<lambda>(e, g').
     Inr ([(''stage'', PStr (gd_stage g)), (''updated_at'', PStr (gd_updated_at g)), (''updated_by'', PStr (gd_updated_by g)),
        (''pending_requests'', PList (map (\<lambda>r. PDict (request_to_dict r)) (pending_requests g))),
        (''evaluation'', PDict (evaluation_to_dict e)), (''context'', PDict (context_to_dict c))], g')))"

section \<open>The guard as a system\<close>

datatype guard_op =
    Promote string string "string option" "guard_context res" bool pydt
  | Rollback string "string option" pydt
  | OnError string string "string option" pydt
  | Recover string "string option" pydt
  | Request string string "string option" string pydt
  | Approve string string "string option" "guard_context res" pydt
  | Deny string string "string option" pydt
  | Status "guard_context res" pydt

text \<open>The guard after an operation, whose exceptions leave it unchanged.\<close>

definition after :: "guard \<Rightarrow> ('a \<times> guard) res \<Rightarrow> guard" where
  "after g r = (case r of Inl _ \<Rightarrow> g | Inr (_, g') \<Rightarrow> g')"

lemma after_simps [simp]: "after g (Inl e) = g" "after g (Inr (x, g')) = g'"
  by (simp_all add: after_def)

fun guard_step :: "guard \<Rightarrow> guard_op \<Rightarrow> guard" where
  "guard_step g (Promote s a r c ov t) = after g (promote s a r c ov t g)"
| "guard_step g (Rollback a r t) = after g (rollback_one a r t g)"
| "guard_step g (OnError e a r t) = after g (on_error e a r t g)"
| "guard_step g (Recover a r t) = after g (recover_stage a r t g)"
| "guard_step g (Request s a r h t) = after g (request_transition s a r h t g)"
| "guard_step g (Approve i a r c t) = after g (approve_request i a r c t g)"
| "guard_step g (Deny i a r t) = after g (deny_request i a r t g)"
| "guard_step g (Status c t) = after g (guard_status c t g)"

lemma stage_index_alt:
  "stage_index s = (if s = ''manual_only'' then Inr 0 else if s = ''reduce_only'' then Inr 1
     else if s = ''partial_auto'' then Inr 2 else if s = ''full_auto'' then Inr 3 else Inl ValueError)"
proof -
  have "[0..<4] = [0, 1, 2, 3 :: nat]" by (simp add: upt_rec)
  then show ?thesis by (simp add: stage_index_def stage_order_def eq_commute [of _ s])
qed

lemma stage_index_cases:
  "stage_index s = Inr i \<longleftrightarrow> (s = ''manual_only'' \<and> i = 0) \<or> (s = ''reduce_only'' \<and> i = 1) \<or>
     (s = ''partial_auto'' \<and> i = 2) \<or> (s = ''full_auto'' \<and> i = 3)"
  by (simp add: stage_index_alt) blast

lemma stage_index_simps [simp]:
  "stage_index ''manual_only'' = Inr 0" "stage_index ''reduce_only'' = Inr 1"
  "stage_index ''partial_auto'' = Inr 2" "stage_index ''full_auto'' = Inr 3"
  by (simp_all add: stage_index_cases)

lemma stage_order_mem: "s \<in> set stage_order \<longleftrightarrow> (\<exists>i. stage_index s = Inr i)"
  by (auto simp: stage_index_cases stage_order_def)

lemma length_stage_order: "length stage_order = 4"
  by (simp add: stage_order_def)

lemma stage_order_nth [simp]: "i < 4 \<Longrightarrow> stage_order ! i \<in> set stage_order"
  by (simp add: stage_order_def nth_mem [of i "[''manual_only'', ''reduce_only'', ''partial_auto'', ''full_auto'']", simplified])

text \<open>A history that leads from one stage to another, step by step.\<close>

fun linked :: "string \<Rightarrow> transition list \<Rightarrow> string \<Rightarrow> bool" where
  "linked s [] e \<longleftrightarrow> s = e"
| "linked s (t # ts) e \<longleftrightarrow> tr_from t = s \<and> linked (tr_to t) ts e"

lemma linked_snoc: "linked s ts (tr_from t) \<Longrightarrow> linked s (ts @ [t]) (tr_to t)"
  by (induction ts arbitrary: s) auto

definition is_changed :: "pydict \<Rightarrow> bool" where
  "is_changed d \<longleftrightarrow> dget d ''event'' = PStr ''audit.autonomy_stage_changed''"

definition audit_view :: "pydict \<Rightarrow> pyval \<times> pyval \<times> pyval \<times> pyval" where
  "audit_view d = (dget d ''stage_from'', dget d ''stage_to'', dget d ''actor'', dget d ''ts'')"

definition transition_view :: "transition \<Rightarrow> pyval \<times> pyval \<times> pyval \<times> pyval" where
  "transition_view t = (PStr (tr_from t), PStr (tr_to t), PStr (tr_actor t), PStr (tr_ts t))"

definition guard_inv :: "guard \<Rightarrow> bool" where
  "guard_inv g \<longleftrightarrow> gd_stage g \<in> set stage_order \<and> linked ''manual_only'' (gd_history g) (gd_stage g) \<and>
     map audit_view (filter is_changed (gd_audit g)) = map transition_view (gd_history g)"

lemma change_stage_sel [simp]:
  "gd_stage (snd (change_stage s a r ar t g)) = s"
  "gd_history (snd (change_stage s a r ar t g)) = gd_history g @ [fst (change_stage s a r ar t g)]"
  "gd_audit (snd (change_stage s a r ar t g)) = gd_audit g @ [stage_changed (fst (change_stage s a r ar t g)) ar]"
  "gd_requests (snd (change_stage s a r ar t g)) = gd_requests g"
  "tr_from (fst (change_stage s a r ar t g)) = gd_stage g"
  "tr_to (fst (change_stage s a r ar t g)) = s"
  "tr_ts (fst (change_stage s a r ar t g)) = utc_iso t"
  by (simp_all add: change_stage_def append_audit_def apply_transition_def save_state_def Let_def)

lemma changed_view [simp]:
  "is_changed (stage_changed t ar)" "audit_view (stage_changed t ar) = transition_view t"
  by (simp_all add: is_changed_def stage_changed_def audit_view_def transition_view_def)

lemma change_stage_inv:
  assumes "guard_inv g" "s \<in> set stage_order"
  shows "guard_inv (snd (change_stage s a r ar t g))"
proof -
  define tr where "tr = fst (change_stage s a r ar t g)"
  have "linked ''manual_only'' (gd_history g @ [tr]) (tr_to tr)"
    using assms(1) by (intro linked_snoc) (simp add: tr_def guard_inv_def)
  then show ?thesis
    using assms by (simp add: guard_inv_def tr_def)
qed

text \<open>What preserves the three parts of the invariant: everything but the stage, the history and the
  audit records of changes.\<close>

definition same_stage :: "guard \<Rightarrow> guard \<Rightarrow> bool" where
  "same_stage g g' \<longleftrightarrow> gd_stage g' = gd_stage g \<and> gd_history g' = gd_history g \<and>
     filter is_changed (gd_audit g') = filter is_changed (gd_audit g)"

lemma same_stage_refl [simp]: "same_stage g g"
  by (simp add: same_stage_def)

lemma same_stage_trans: "same_stage g g1 \<Longrightarrow> same_stage g1 g2 \<Longrightarrow> same_stage g g2"
  by (simp add: same_stage_def)

lemma same_stage_ops [simp]:
  "same_stage g (save_state g') = same_stage g g'"
  "same_stage g (append_event d g') = same_stage g g'"
  "same_stage g (append_ops_worklog d g') = same_stage g g'"
  "same_stage g (settle_request i st a t g') = same_stage g g'"
  "\<not> is_changed d \<Longrightarrow> same_stage g (append_audit d g') = same_stage g g'"
  "same_stage g (g'\<lparr>gd_requests := rs\<rparr>) = same_stage g g'"
  by (simp_all add: same_stage_def save_state_def append_event_def append_ops_worklog_def settle_request_def append_audit_def)

lemma same_stage_inv: "same_stage g g' \<Longrightarrow> guard_inv g' = guard_inv g"
  by (simp add: same_stage_def guard_inv_def)

lemma not_changed [simp]:
  "s \<noteq> ''audit.autonomy_stage_changed'' \<Longrightarrow> \<not> is_changed ((''event'', PStr s) # d)"
  by (simp add: is_changed_def)

text \<open>The three ways an operation ends: an unchanged guard, bookkeeping, or one change of stage
  followed by bookkeeping.\<close>

lemma promote_Inr:
  assumes "promote s a r c ov t g = Inr (tr, g')"
  shows "s \<in> set stage_order \<and> tr = fst (change_stage s a r r t g) \<and> g' = snd (change_stage s a r r t g) \<and>
    (\<exists>i j. stage_index (gd_stage g) = Inr i \<and> stage_index s = Inr j \<and> i \<le> j) \<and>
    (ov \<or> (\<exists>cx e. c = Inr cx \<and> evaluate_stage (gd_stage g) cx = Inr e \<and> s \<in> set (ev_allowed e)))"
proof -
  have "change_stage s a r r t g = (tr, g')"
    and "s \<in> set stage_order \<and> (\<exists>i j. stage_index (gd_stage g) = Inr i \<and> stage_index s = Inr j \<and> i \<le> j) \<and>
      (ov \<or> (\<exists>cx e. c = Inr cx \<and> evaluate_stage (gd_stage g) cx = Inr e \<and> s \<in> set (ev_allowed e)))"
    using assms by (auto simp: promote_def bind_res_eq_Inr split: if_splits)
  then show ?thesis by simp
qed

lemma rollback_Inr:
  assumes "rollback_one a r t g = Inr (x, g')"
  shows "(x = None \<and> g' = g \<and> stage_index (gd_stage g) = Inr 0) \<or>
    (\<exists>i. stage_index (gd_stage g) = Inr (Suc i) \<and>
       x = Some (fst (change_stage (stage_order ! i) a r (str_or r (Some ''rollback'')) t g)) \<and>
       g' = snd (change_stage (stage_order ! i) a r (str_or r (Some ''rollback'')) t g))"
  using assms by (auto simp: rollback_one_def bind_res_eq_Inr gr0_conv_Suc case_prod_unfold Let_def split: if_splits)

lemma recover_Inr:
  assumes "recover_stage a r t g = Inr (x, g')"
  shows "(x = None \<and> g' = g) \<or>
    (\<exists>i. stage_index (gd_stage g) = Inr i \<and> i < 3 \<and>
       x = Some (fst (change_stage (stage_order ! Suc i) a r (str_or r (Some ''recover'')) t g)) \<and>
       g' = snd (change_stage (stage_order ! Suc i) a r (str_or r (Some ''recover'')) t g))"
  using assms by (auto simp: recover_stage_def bind_res_eq_Inr case_prod_unfold Let_def length_stage_order split: if_splits)

lemma stage_index_less: "stage_index s = Inr i \<Longrightarrow> i < 4"
  by (auto simp: stage_index_cases)

lemma approve_Inr:
  assumes "approve_request i a r c t g = Inr (tr, g')"
  shows "\<exists>rq g1. find_request i g = Inr rq \<and> rq_status rq = ''requested'' \<and>
    promote (rq_stage rq) a (str_or r (rq_reason rq)) c False t g = Inr (tr, g1) \<and>
    same_stage g1 g' \<and> gd_requests g' = gd_requests (settle_request i ''approved'' a (tr_ts tr) g1)"
proof -
  from assms obtain rq g1 where rq: "find_request i g = Inr rq" "rq_status rq = ''requested''"
    and p: "promote (rq_stage rq) a (str_or r (rq_reason rq)) c False t g = Inr (tr, g1)"
    and g': "g' = save_state (append_audit [(''event'', PStr ''audit.autonomy_stage_approved''), (''request_id'', PStr (rq_id rq)),
        (''stage'', PStr (rq_stage rq)), (''approved_by'', PStr a),
        (''reason'', ostr (str_or r (rq_reason rq))), (''ts'', PStr (tr_ts tr))]
        (settle_request i ''approved'' a (tr_ts tr) g1))"
    by (auto simp: approve_request_def bind_res_eq_Inr Let_def split: if_splits)
  have "same_stage g1 g'" by (simp add: g')
  moreover have "gd_requests g' = gd_requests (settle_request i ''approved'' a (tr_ts tr) g1)"
    by (simp add: g' save_state_def append_audit_def)
  ultimately show ?thesis using rq p by blast
qed

lemma deny_Inr:
  assumes "deny_request i a r t g = Inr (x, g')"
  shows "\<exists>rq. find_request i g = Inr rq \<and> rq_status rq = ''requested'' \<and> same_stage g g' \<and>
    gd_requests g' = gd_requests (settle_request i ''denied'' a (utc_iso t) g)"
  using assms
  by (auto simp: deny_request_def bind_res_eq_Inr Let_def split: if_splits)
    (simp add: save_state_def append_audit_def append_event_def)

lemma request_Inr:
  "request_transition s a r h t g = Inr (x, g') \<Longrightarrow> same_stage g g' \<and> gd_requests g' = gd_requests g @ [x]"
  by (auto simp: request_transition_def Let_def split: if_splits)
    (simp add: save_state_def append_audit_def append_event_def append_ops_worklog_def)

lemma emit_review_same: "emit_review_tasks c e t g = Inr g' \<Longrightarrow> same_stage g g' \<and> gd_requests g' = gd_requests g"
  by (auto simp: emit_review_tasks_def bind_res_eq_Inr split: if_splits)
    (simp_all add: append_event_def append_ops_worklog_def)

lemma status_Inr: "guard_status c t g = Inr (x, g') \<Longrightarrow> same_stage g g' \<and> gd_requests g' = gd_requests g"
  by (auto simp: guard_status_def evaluate_and_emit_def bind_res_eq_Inr dest!: emit_review_same split: if_splits)

text \<open>A guard that has moved to a stage of the order and done bookkeeping.\<close>

definition moved :: "guard \<Rightarrow> guard \<Rightarrow> bool" where
  "moved g g' \<longleftrightarrow> (\<exists>s a r ar t. s \<in> set stage_order \<and> same_stage (snd (change_stage s a r ar t g)) g')"

lemma movedI: "s \<in> set stage_order \<Longrightarrow> same_stage (snd (change_stage s a r ar t g)) g' \<Longrightarrow> moved g g'"
  unfolding moved_def by blast

lemma moved_change: "s \<in> set stage_order \<Longrightarrow> moved g (snd (change_stage s a r ar t g))"
  by (rule movedI [OF _ same_stage_refl])

lemma promote_moved: "promote s a r c ov t g = Inr (tr, g') \<Longrightarrow> moved g g'"
  by (drule promote_Inr) (auto intro: moved_change)

lemma rollback_moved: "rollback_one a r t g = Inr (x, g') \<Longrightarrow> g' = g \<or> moved g g'"
  by (drule rollback_Inr) (auto dest: stage_index_less intro!: moved_change stage_order_nth)

lemma recover_moved: "recover_stage a r t g = Inr (x, g') \<Longrightarrow> g' = g \<or> moved g g'"
  by (drule recover_Inr) (auto intro!: moved_change stage_order_nth)

lemma approve_moved: "approve_request i a r c t g = Inr (tr, g') \<Longrightarrow> moved g g'"
  by (drule approve_Inr) (auto dest!: promote_Inr intro!: movedI)

lemma guard_step_cases: "same_stage g (guard_step g x) \<or> moved g (guard_step g x)"
proof (cases x)
  case (Promote s a r c ov t)
  then show ?thesis by (cases "promote s a r c ov t g") (auto dest: promote_moved)
next
  case (Rollback a r t)
  then show ?thesis by (cases "rollback_one a r t g") (auto dest: rollback_moved)
next
  case (OnError e a r t)
  then show ?thesis by (cases "on_error e a r t g") (auto simp: on_error_def dest: rollback_moved split: if_splits)
next
  case (Recover a r t)
  then show ?thesis by (cases "recover_stage a r t g") (auto dest: recover_moved)
next
  case (Request s a r h t)
  then show ?thesis by (cases "request_transition s a r h t g") (auto dest: request_Inr)
next
  case (Approve i a r c t)
  then show ?thesis by (cases "approve_request i a r c t g") (auto dest: approve_moved)
next
  case (Deny i a r t)
  then show ?thesis by (cases "deny_request i a r t g") (auto dest: deny_Inr)
next
  case (Status c t)
  then show ?thesis by (cases "guard_status c t g") (auto dest: status_Inr)
qed

lemma guard_step_inv: "guard_inv g \<Longrightarrow> guard_inv (guard_step g x)"
  using guard_step_cases [of g x] same_stage_inv change_stage_inv by (auto simp: moved_def)

interpretation guard: step_system guard_step guard_inv
  by unfold_locales (rule guard_step_inv)

lemma evaluate_allowed:
  "evaluate_stage s c = Inr e \<Longrightarrow> st \<in> set (ev_allowed e) \<Longrightarrow>
   gc_enabled c \<and> (\<exists>i. stage_index s = Inr i \<and> st \<in> set (drop (Suc i) stage_order)) \<and> stage_requirements st c = []"
  by (auto simp: evaluate_stage_def bind_res_eq_Inr Let_def split: if_splits)

section \<open>Properties\<close>

text \<open>C1: From a new guard without a state file, whatever operations run and whichever of them fail,
  the stage is one of the four, the history leads to it from \<open>manual_only\<close> transition by transition,
  and the audit log holds exactly one change record per transition of the history, in order, with its
  stages, actor and time.\<close>

theorem stage_history_replays:
  "\<exists>g0. new_guard None None [] events worklog now = Inr g0 \<and>
    (let g = foldl guard_step g0 ops in
      gd_stage g \<in> {''manual_only'', ''reduce_only'', ''partial_auto'', ''full_auto''} \<and>
      linked ''manual_only'' (gd_history g) (gd_stage g) \<and>
      map audit_view (filter is_changed (gd_audit g)) = map transition_view (gd_history g))"
proof -
  obtain g0 where g0: "new_guard None None [] events worklog now = Inr g0" "guard_inv g0"
    by (auto simp: new_guard_def load_state_def guard_inv_def stage_order_def)
  have "guard_inv (foldl guard_step g0 ops)" by (rule guard.run_inv [OF g0(2)])
  with g0 show ?thesis by (auto simp: guard_inv_def stage_order_def Let_def)
qed

text \<open>C5: A promotion that is not an override succeeds only with the feature flag on, to a later stage,
  and with no unmet requirement of that stage.\<close>

theorem promote_requires:
  assumes "promote stage actor reason context False now g = Inr (t, g')"
  shows "\<exists>c i j. context = Inr c \<and> gc_enabled c \<and> stage_requirements stage c = [] \<and>
    stage_index (gd_stage g) = Inr i \<and> stage_index stage = Inr j \<and> i < j \<and> gd_stage g' = stage"
proof -
  from promote_Inr [OF assms] obtain c e where c: "context = Inr c" "evaluate_stage (gd_stage g) c = Inr e"
      "stage \<in> set (ev_allowed e)" and g': "gd_stage g' = stage"
    by auto
  then obtain i where i: "gc_enabled c" "stage_index (gd_stage g) = Inr i" "stage \<in> set (drop (Suc i) stage_order)"
      "stage_requirements stage c = []"
    using evaluate_allowed by blast
  have "\<exists>j. stage_index stage = Inr j \<and> i < j"
    using i(2,3) by (auto simp: stage_index_cases stage_order_def)
  with c(1) g' i show ?thesis by blast
qed

definition ready_context :: guard_context where
  "ready_context = \<lparr>gc_score = Some (Fin 90), gc_cert = Some ''fail'', gc_alerts = 2, gc_emergency = False,
     gc_drill_overdue = False, gc_incidents = 0, gc_disclosure_ok = True, gc_enabled = True, gc_notes = []\<rparr>"

definition demo_guard :: guard where
  "demo_guard = \<lparr>gd_stage = ''manual_only'', gd_updated_at = ''-'', gd_updated_by = ''system'', gd_history = [],
     gd_requests = [\<lparr>rq_id = ''stage-1'', rq_stage = ''partial_auto'', rq_by = ''ops'', rq_at = ''-'',
        rq_status = ''requested'', rq_reason = None, rq_approved_by = None, rq_approved_at = None\<rparr>],
     gd_file = None, gd_audit = [], gd_events = [], gd_worklog = []\<rparr>"

lemma demo_evaluation:
  "evaluate_stage ''manual_only'' ready_context = Inr \<lparr>ev_allowed = [''partial_auto''],
     ev_blocks = [(''reduce_only'', [''broker_certification_not_pass'', ''fill_shadow_alerts'']),
                  (''full_auto'', [''requires_m3_soak''])],
     ev_demotions = [], ev_actions = [''FillShadow alerts detected: review shadow reconciliation.''],
     ev_refs = [''RUN-BROKER-API-02'']\<rparr>"
  by (simp add: evaluate_stage_def ready_context_def stage_requirements_def stage_order_def low_readiness_def
      recommended_demotions_def Let_def)

lemma demo_promote:
  "promote ''partial_auto'' ''ops'' None (Inr ready_context) False demo_t demo_guard =
     Inr (change_stage ''partial_auto'' ''ops'' None None demo_t demo_guard)"
  by (simp add: promote_def demo_evaluation demo_guard_def stage_order_def)

theorem promote_requires_witness:
  "\<exists>c. Inr ready_context = (Inr c :: guard_context res) \<and> stage_requirements ''partial_auto'' c = []"
proof -
  define now :: pydt where "now = \<lparr>yr = 2025, mo = 1, dy = 1, hh = 0, mi = 0, ss = 0, us = 0, tzo = Some 0\<rparr>"
  obtain t g' where "change_stage ''partial_auto'' ''ops'' None None now demo_guard = (t, g')" by fastforce
  with demo_promote [of now]
  have "promote ''partial_auto'' ''ops'' None (Inr ready_context) False now demo_guard = Inr (t, g')" by simp
  from promote_requires [OF this] show ?thesis by blast
qed

text \<open>The stages need not be taken in order: with a failed certification and open fill alerts,
  \<open>reduce_only\<close> is blocked while \<open>partial_auto\<close> can be approved from \<open>manual_only\<close>, since its
  requirements do not contain those of the stage below.\<close>

theorem partial_auto_skips_reduce_only:
  fixes now :: pydt
  shows "\<exists>e t g'. evaluate_stage (gd_stage demo_guard) ready_context = Inr e \<and>
    map_of (ev_blocks e) ''reduce_only'' = Some [''broker_certification_not_pass'', ''fill_shadow_alerts''] \<and>
    approve_request ''stage-1'' ''ops'' None (Inr ready_context) now demo_guard = Inr (t, g') \<and>
    gd_stage g' = ''partial_auto''"
proof -
  obtain t g1 where c: "change_stage ''partial_auto'' ''ops'' None None now demo_guard = (t, g1)" by fastforce
  then have s: "gd_stage g1 = ''partial_auto''"
    using change_stage_sel(1) [of "''partial_auto''" "''ops''" None None now demo_guard] by simp
  have "find_request ''stage-1'' demo_guard = Inr (hd (gd_requests demo_guard))"
    by (simp add: find_request_def demo_guard_def)
  moreover have "rq_status (hd (gd_requests demo_guard)) = ''requested''" "rq_stage (hd (gd_requests demo_guard)) = ''partial_auto''"
    "rq_reason (hd (gd_requests demo_guard)) = None"
    by (simp_all add: demo_guard_def)
  ultimately have "\<exists>g'. approve_request ''stage-1'' ''ops'' None (Inr ready_context) now demo_guard = Inr (t, g') \<and>
      gd_stage g' = gd_stage g1"
    by (simp add: approve_request_def demo_promote c Let_def save_state_def append_audit_def settle_request_def)
  with s demo_evaluation show ?thesis by (auto simp: demo_guard_def)
qed

text \<open>\<open>recover\<close> moves one stage up with no evaluation and no rollback before it, also to
  \<open>full_auto\<close>, which no evaluation ever allows.\<close>

theorem recover_reaches_full_auto:
  "\<exists>t g'. recover_stage actor reason now (g\<lparr>gd_stage := ''partial_auto''\<rparr>) = Inr (Some t, g') \<and>
     gd_stage g' = ''full_auto'' \<and> stage_requirements ''full_auto'' c \<noteq> []"
  by (simp add: recover_stage_def stage_order_def case_prod_unfold Let_def stage_requirements_def)

text \<open>The operations that neither override the evaluation nor recover.\<close>

definition evaluated_op :: "guard_op \<Rightarrow> bool" where
  "evaluated_op x = (case x of Promote _ _ _ _ ov _ \<Rightarrow> \<not> ov | Recover _ _ _ \<Rightarrow> False | _ \<Rightarrow> True)"

definition below_full :: "guard \<Rightarrow> bool" where
  "below_full g \<longleftrightarrow> gd_stage g \<noteq> ''full_auto''"

lemma evaluate_not_full: "evaluate_stage s c = Inr e \<Longrightarrow> ''full_auto'' \<notin> set (ev_allowed e)"
  using evaluate_allowed [of s c e "''full_auto''"] by (auto simp: stage_requirements_def)

lemma promote_below_full: "promote s a r c False t g = Inr (tr, g') \<Longrightarrow> gd_stage g' \<noteq> ''full_auto''"
  by (drule promote_Inr) (auto dest: evaluate_not_full)

lemma rollback_below_full: "rollback_one a r t g = Inr (x, g') \<Longrightarrow> gd_stage g' \<noteq> ''full_auto''"
  by (drule rollback_Inr) (auto simp: stage_index_cases stage_order_def)

lemma same_stage_below: "same_stage g g' \<Longrightarrow> below_full g' = below_full g"
  by (simp add: same_stage_def below_full_def)

lemma below_full_step: "below_full g \<Longrightarrow> evaluated_op x \<Longrightarrow> below_full (guard_step g x)"
proof (cases x)
  case (Promote s a r c ov t)
  assume "below_full g" "evaluated_op x"
  with Promote show ?thesis
    by (cases "promote s a r c ov t g") (auto simp: evaluated_op_def below_full_def dest: promote_below_full)
next
  case (Rollback a r t)
  assume "below_full g"
  with Rollback show ?thesis
    by (cases "rollback_one a r t g") (auto simp: below_full_def dest: rollback_below_full)
next
  case (OnError e a r t)
  assume "below_full g"
  with OnError show ?thesis
    by (cases "on_error e a r t g") (auto simp: on_error_def below_full_def dest: rollback_below_full split: if_splits)
next
  case (Request s a r h t)
  assume "below_full g"
  with Request show ?thesis
    by (cases "request_transition s a r h t g") (auto dest!: request_Inr simp: same_stage_below)
next
  case (Approve i a r c t)
  assume "below_full g"
  with Approve show ?thesis
    by (cases "approve_request i a r c t g")
      (auto dest!: approve_Inr promote_below_full simp: same_stage_def below_full_def)
next
  case (Deny i a r t)
  assume "below_full g"
  with Deny show ?thesis
    by (cases "deny_request i a r t g") (auto dest!: deny_Inr simp: same_stage_below)
next
  case (Status c t)
  assume "below_full g"
  with Status show ?thesis
    by (cases "guard_status c t g") (auto dest!: status_Inr simp: same_stage_below)
qed (simp add: evaluated_op_def)

interpretation below_full: guarded_system guard_step evaluated_op below_full
  by unfold_locales (rule below_full_step)

text \<open>Without an override and without \<open>recover\<close>, no sequence of operations reaches \<open>full_auto\<close>
  from a stage below it.\<close>

theorem full_auto_unreachable:
  assumes "gd_stage g \<noteq> ''full_auto''" "list_all evaluated_op ops"
  shows "gd_stage (foldl guard_step g ops) \<noteq> ''full_auto''"
  using below_full.allowed_run_inv [of g ops] assms by (simp add: below_full_def)

theorem full_auto_unreachable_witness:
  "gd_stage (foldl guard_step demo_guard [OnError ''circuit_breaker'' ''ops'' None
     \<lparr>yr = 2025, mo = 1, dy = 1, hh = 0, mi = 0, ss = 0, us = 0, tzo = Some 0\<rparr>]) \<noteq> ''full_auto''"
  by (rule full_auto_unreachable) (simp_all add: demo_guard_def evaluated_op_def)

lemma find_settled:
  "find_request i (settle_request i st a ts g) =
     map_sum id (\<lambda>r. r\<lparr>rq_status := st, rq_approved_by := Some a, rq_approved_at := Some ts\<rparr>) (find_request i g)"
  by (simp add: find_request_def settle_request_def find_update_first split: option.split)

lemma find_request_cong: "gd_requests g = gd_requests h \<Longrightarrow> find_request i g = find_request i h"
  by (simp add: find_request_def)

lemma settled_once:
  assumes "find_request i g = Inr rq" "gd_requests g' = gd_requests (settle_request i st a ts g)" "st \<noteq> ''requested''"
  shows "approve_request i a' r' c' t' g' = Inl (StageRequestNotApproved (''Request '' @ i @ '' not approvable'')) \<and>
    deny_request i a' r' t' g' = Inl (StageRequestNotApproved (''Request '' @ i @ '' not deniable''))"
proof -
  have "find_request i g' = Inr (rq\<lparr>rq_status := st, rq_approved_by := Some a, rq_approved_at := Some ts\<rparr>)"
    using assms(1) find_request_cong [OF assms(2)] by (simp add: find_settled)
  with assms(3) show ?thesis by (simp add: approve_request_def deny_request_def)
qed

text \<open>A request is settled once: after an approval, approving or denying it again is refused, whatever
  the context and the actor, and the stage is the one that was requested.\<close>

theorem approve_settles_request:
  assumes "approve_request i a r c t g = Inr (tr, g')"
  shows "(\<exists>rq. find_request i g = Inr rq \<and> rq_status rq = ''requested'' \<and> gd_stage g' = rq_stage rq) \<and>
    approve_request i a' r' c' t' g' = Inl (StageRequestNotApproved (''Request '' @ i @ '' not approvable'')) \<and>
    deny_request i a' r' t' g' = Inl (StageRequestNotApproved (''Request '' @ i @ '' not deniable''))"
proof -
  from approve_Inr [OF assms] obtain rq g1 where rq: "find_request i g = Inr rq" "rq_status rq = ''requested''"
    and p: "promote (rq_stage rq) a (str_or r (rq_reason rq)) c False t g = Inr (tr, g1)"
    and g': "same_stage g1 g'" "gd_requests g' = gd_requests (settle_request i ''approved'' a (tr_ts tr) g1)" by blast
  from promote_Inr [OF p] have "gd_stage g1 = rq_stage rq" "gd_requests g1 = gd_requests g" by auto
  with rq g'(1) settled_once [OF _ g'(2)] show ?thesis
    by (auto simp: same_stage_def find_request_def)
qed

theorem approve_settles_request_witness:
  "\<exists>g'. approve_request ''stage-1'' ''b'' None (Inr ready_context)
      \<lparr>yr = 2025, mo = 1, dy = 1, hh = 0, mi = 0, ss = 0, us = 0, tzo = Some 0\<rparr> g' =
    Inl (StageRequestNotApproved (''Request '' @ ''stage-1'' @ '' not approvable''))"
proof -
  define now :: pydt where "now = \<lparr>yr = 2025, mo = 1, dy = 1, hh = 0, mi = 0, ss = 0, us = 0, tzo = Some 0\<rparr>"
  obtain t g1 where c: "change_stage ''partial_auto'' ''ops'' None None now demo_guard = (t, g1)" by fastforce
  have "\<exists>g'. approve_request ''stage-1'' ''ops'' None (Inr ready_context) now demo_guard = Inr (t, g')"
    using demo_promote [of now] c by (simp add: approve_request_def find_request_def demo_guard_def Let_def)
  then obtain g' where "approve_request ''stage-1'' ''ops'' None (Inr ready_context) now demo_guard = Inr (t, g')" ..
  from approve_settles_request [OF this, of "''b''" None "Inr ready_context" now] show ?thesis
    unfolding now_def by blast
qed

text \<open>A circuit breaker takes the stage one step down, and recovering afterwards brings it back; at
  \<open>manual_only\<close> it changes nothing.\<close>

theorem circuit_breaker_recover:
  assumes "stage_index (gd_stage g) = Inr n"
  shows "if n = 0 then on_error ''circuit_breaker'' a r t g = Inr (None, g)
    else \<exists>tr tr' g1 g2. on_error ''circuit_breaker'' a r t g = Inr (Some tr, g1) \<and>
      stage_index (gd_stage g1) = Inr (n - 1) \<and> recover_stage a' r' t' g1 = Inr (Some tr', g2) \<and>
      gd_stage g2 = gd_stage g"
proof (cases "n = 0")
  case False
  then obtain i where n: "n = Suc i" by (cases n) auto
  with assms have i: "i < 3" and s: "gd_stage g = stage_order ! Suc i"
    by (auto simp: stage_index_cases stage_order_def)
  have down: "stage_index (stage_order ! i) = Inr i"
    using i by (auto simp: stage_order_def less_Suc_eq numeral_eq_Suc stage_index_alt)
  show ?thesis
    using assms n i by (simp add: on_error_def rollback_one_def recover_stage_def case_prod_unfold Let_def down
        length_stage_order s)
qed (simp add: on_error_def rollback_one_def assms)

theorem circuit_breaker_recover_witness:
  "on_error ''circuit_breaker'' ''ops'' None
     \<lparr>yr = 2025, mo = 1, dy = 1, hh = 0, mi = 0, ss = 0, us = 0, tzo = Some 0\<rparr> demo_guard = Inr (None, demo_guard)"
  using circuit_breaker_recover [of demo_guard 0 "''ops''" None] by (simp add: demo_guard_def)

lemma transition_roundtrip: "transition_from_dict now (transition_to_dict t) = Inr t"
  by (simp add: transition_from_dict_def transition_to_dict_def)

lemma request_roundtrip: "request_from_dict now (request_to_dict r) = Inr r"
  by (simp add: request_from_dict_def request_to_dict_def)

lemma mappings_of_map: "mappings_of (PList (map (\<lambda>x. PDict (f x)) xs)) = Inr (map f xs)"
  by (simp add: mappings_of_def py_iter_def filter_map comp_def is_mapping_def)

lemma py_or_list: "py_or (PList xs) (PList []) = PList xs"
  by (simp add: py_or_def)

text \<open>The state file a guard writes reads back as its stage, times, history and requests.\<close>

theorem state_file_roundtrip:
  assumes "gd_stage g \<in> set stage_order" "gd_updated_at g \<noteq> []" "gd_updated_by g \<noteq> []"
  shows "load_state (gd_file (save_state g)) now g0 = Inr (g0\<lparr>gd_stage := gd_stage g, gd_updated_at := gd_updated_at g,
    gd_updated_by := gd_updated_by g, gd_history := gd_history g, gd_requests := gd_requests g\<rparr>)"
proof -
  have h: "map_res (transition_from_dict now) (map transition_to_dict (gd_history g)) = Inr (gd_history g)"
    by (rule map_res_map_inverse) (rule transition_roundtrip)
  have r: "map_res (request_from_dict now) (map request_to_dict (gd_requests g)) = Inr (gd_requests g)"
    by (rule map_res_map_inverse) (rule request_roundtrip)
  have s: "py_or (PStr (gd_stage g)) (PStr ''manual_only'') = PStr (gd_stage g)"
    using assms(1) by (auto simp: py_or_def stage_order_def)
  have u: "py_or (PStr (gd_updated_at g)) v = PStr (gd_updated_at g)" "py_or (PStr (gd_updated_by g)) v = PStr (gd_updated_by g)" for v
    using assms by (simp_all add: py_or_def)
  show ?thesis
    using assms by (simp add: load_state_def save_state_def state_to_dict_def Let_def mappings_of_map py_or_list h r s u)
qed

theorem state_file_roundtrip_witness:
  "load_state (gd_file (save_state demo_guard)) [] (demo_guard\<lparr>gd_requests := []\<rparr>) = Inr demo_guard"
  using state_file_roundtrip [of demo_guard "[]" "demo_guard\<lparr>gd_requests := []\<rparr>"]
  by (simp add: demo_guard_def stage_order_def)

end
