(* ===== verification/Failover.thy ===== *)
theory Failover
  imports StageGuard
begin

text \<open>
  \<open>src/brokers/failover.py\<close> with the planner it calls, \<open>src/emergency/planner.py\<close>: a failover plan
  is logged, and dispatching it writes the blocked state that the stage guard and the order router
  read, logs the dispatch, adds a work-log entry and dispatches an emergency plan. The emergency
  trigger is the repository's stub. Clock readings are arguments, one per reading.

  Shown: a dispatch blocks \<open>partial_auto\<close> in the stage guard and recommends a demotion, and a
  simulated dispatch does so as well.
\<close>

record failover_plan =
  fp_id :: string
  fp_reason :: string
  fp_actions :: "string list"
  fp_runbook :: string
  fp_created_at :: string
  fp_recovery_min :: int
  fp_manual_steps :: "string list option"
  fp_stage :: string

record emergency_plan =
  ep_id :: string
  ep_scenario :: string
  ep_runbook :: string
  ep_steps :: "string list"
  ep_recovery_min :: int
  ep_created_at :: string

record failover =
  fo_runbook :: string
  fo_file :: json_file
  fo_log :: "pydict list"
  fo_worklog :: "pydict list"
  fo_plan_log :: "pydict list"

definition failover_plan_to_dict :: "failover_plan \<Rightarrow> pydict" where
  "failover_plan_to_dict p = [(''plan_id'', PStr (fp_id p)), (''trigger_reason'', PStr (fp_reason p)),
     (''actions'', PList (map PStr (fp_actions p))), (''runbook_ref'', PStr (fp_runbook p)),
     (''created_at'', PStr (fp_created_at p)), (''expected_recovery_min'', PInt (fp_recovery_min p)),
     (''manual_steps'', PList (map PStr (case fp_manual_steps p of None \<Rightarrow> [] | Some xs \<Rightarrow> xs))),
     (''stage'', PStr (fp_stage p))]"

definition emergency_plan_to_dict :: "emergency_plan \<Rightarrow> pydict" where
  "emergency_plan_to_dict p = [(''plan_id'', PStr (ep_id p)), (''scenario'', PStr (ep_scenario p)),
     (''runbook_ref'', PStr (ep_runbook p)), (''steps'', PList (map PStr (ep_steps p))),
     (''expected_recovery_min'', PInt (ep_recovery_min p)), (''created_at'', PStr (ep_created_at p))]"

section \<open>Emergency planner\<close>

definition emergency_trigger :: "string \<Rightarrow> string \<Rightarrow> bool \<Rightarrow> pydict" where
  "emergency_trigger scenario runbook simulate = [(''status'', PStr ''stub''), (''scenario'', PStr scenario),
     (''runbook'', PStr runbook), (''simulated'', PBool simulate)]"

definition plan_dispatch ::
  "emergency_plan \<Rightarrow> bool \<Rightarrow> pydict \<Rightarrow> pydt \<Rightarrow> pydict list \<Rightarrow> pydict \<times> pydict list" where
  "plan_dispatch p simulate metadata now lg =
     ([(''status'', PStr (if simulate then ''simulated'' else ''triggered'')), (''plan_id'', PStr (ep_id p)),
       (''emergency'', PDict (emergency_trigger (ep_scenario p) (ep_runbook p) simulate))],
      lg @ [[(''event'', PStr ''emergency.plan_dispatched''), (''ts'', PStr (utc_iso now)),
        (''plan'', PDict (emergency_plan_to_dict p)), (''metadata'', PDict metadata), (''simulated'', PBool simulate)]])"

definition record_emergency_plan :: "emergency_plan \<Rightarrow> pydt \<Rightarrow> pydict list \<Rightarrow> pydict list" where
  "record_emergency_plan p now lg = lg @ [[(''event'', PStr ''emergency.plan_created''), (''ts'', PStr (utc_iso now))]
     @ emergency_plan_to_dict p]"

section \<open>Failover planner\<close>

definition write_failover_state :: "failover_plan \<Rightarrow> failover \<Rightarrow> failover" where
  "write_failover_state p f = f\<lparr>fo_file := Some (Some (PDict [(''status'', PStr ''blocked''), (''plan_id'', PStr (fp_id p)),
     (''runbook_ref'', PStr (fp_runbook p)), (''trigger_reason'', PStr (fp_reason p)),
     (''created_at'', PStr (fp_created_at p))]))\<rparr>"

definition record_failover_plan :: "failover_plan \<Rightarrow> pydt \<Rightarrow> failover \<Rightarrow> failover" where
  "record_failover_plan p now f = f\<lparr>fo_log := fo_log f @ [[(''event'', PStr ''broker_failover_planned''),
     (''ts'', PStr (utc_iso now)), (''plan'', PDict (failover_plan_to_dict p))]]\<rparr>"

definition dispatch_failover ::
  "failover_plan \<Rightarrow> bool \<Rightarrow> pydt \<Rightarrow> pydt \<Rightarrow> pydt \<Rightarrow> failover \<Rightarrow> pydict \<times> failover" where
  "dispatch_failover p simulate now1 now2 now3 f =
     (let f1 = write_failover_state p f;
          f2 = f1\<lparr>fo_log := fo_log f1 @ [[(''event'', PStr ''broker_failover_dispatched''), (''ts'', PStr (utc_iso now1)),
                 (''plan'', PDict (failover_plan_to_dict p)), (''simulated'', PBool simulate)]]\<rparr>;
          f3 = f2\<lparr>fo_worklog := fo_worklog f2 @ [[(''timestamp'', PStr (utc_iso now2)), (''task'', PStr ''broker_api_failover''),
                 (''status'', PStr (if simulate then ''simulated'' else ''triggered'')), (''plan_id'', PStr (fp_id p)),
                 (''runbook'', PStr (fp_runbook p))]]\<rparr>;
          ep = \<lparr>ep_id = fp_id p, ep_scenario = ''api_failover'', ep_runbook = fp_runbook p, ep_steps = fp_actions p,
                ep_recovery_min = fp_recovery_min p, ep_created_at = fp_created_at p\<rparr>;
          (d, lg) = plan_dispatch ep simulate [] now3 (fo_plan_log f3)
      in (d, f3\<lparr>fo_plan_log := lg\<rparr>))"

text \<open>The plan id holds the whole seconds since 1970; the clock is not before that.\<close>

definition make_plan :: "string \<Rightarrow> string \<Rightarrow> pydt \<Rightarrow> pydt \<Rightarrow> failover_plan" where
  "make_plan runbook reason now1 now2 = \<lparr>fp_id = ''failover-'' @ int_str (epoch_us now1 div 1000000), fp_reason = reason,
     fp_actions = [''pause_order_router'', ''notify_ops'', ''switch_to_manual'', ''capture_evidence''],
     fp_runbook = runbook, fp_created_at = utc_iso now2, fp_recovery_min = 30,
     fp_manual_steps = Some [''Route orders to manual execution'', ''Confirm kill switch state'',
        ''Capture broker metrics snapshot''], fp_stage = ''manual_only''\<rparr>"

text \<open>The six clock readings of \<open>plan\<close>: id, creation, planning record, and the three of a dispatch.\<close>

definition plan_failover ::
  "string \<Rightarrow> bool \<Rightarrow> pydt \<Rightarrow> pydt \<Rightarrow> pydt \<Rightarrow> pydt \<times> pydt \<times> pydt \<Rightarrow> failover \<Rightarrow> failover_plan \<times> failover" where
  "plan_failover reason dispatch now1 now2 now3 later f =
     (let p = make_plan (fo_runbook f) reason now1 now2;
          f1 = record_failover_plan p now3 f;
          (t1, t2, t3) = later
      in (p, if dispatch then snd (dispatch_failover p False t1 t2 t3 f1) else f1))"

section \<open>Effect on the stage guard\<close>

lemma dispatch_file: "fo_file (snd (dispatch_failover p sim t1 t2 t3 f)) = fo_file (write_failover_state p f)"
  by (simp add: dispatch_failover_def Let_def case_prod_unfold write_failover_state_def)

lemma dispatch_active: "load_failover_active (fo_file (snd (dispatch_failover p sim t1 t2 t3 f))) = Inr True"
  by (simp add: dispatch_file write_failover_state_def load_failover_active_def py_or_def)

text \<open>After a dispatch, every context the stage guard loads with that failover state has an active
  emergency: it never allows \<open>partial_auto\<close>, and from any stage above \<open>manual_only\<close> it recommends
  exactly the demotion to \<open>manual_only\<close>.\<close>

theorem dispatch_blocks_stages:
  assumes "load_context (files\<lparr>gf_failover := fo_file (snd (dispatch_failover p sim t1 t2 t3 f))\<rparr>) now = Inr c"
    and "evaluate_stage s c = Inr e"
  shows "gc_emergency c \<and> ''partial_auto'' \<notin> set (ev_allowed e) \<and>
    (gc_enabled c \<and> s \<noteq> ''manual_only'' \<longrightarrow> ev_demotions e = [''manual_only''])"
proof -
  have em: "gc_emergency c"
    using assms(1) by (auto simp: load_context_def bind_res_eq_Inr dispatch_active)
  then have "''partial_auto'' \<notin> set (ev_allowed e)"
    using evaluate_allowed [OF assms(2), of "''partial_auto''"] by (auto simp: stage_requirements_def)
  moreover have "ev_demotions e = [''manual_only'']" if "gc_enabled c" "s \<noteq> ''manual_only''"
    using assms(2) that em by (auto simp: evaluate_stage_def bind_res_eq_Inr recommended_demotions_def Let_def)
  ultimately show ?thesis using em by blast
qed

definition no_files :: guard_files where
  "no_files = \<lparr>gf_readiness = [], gf_certification = [], gf_shadow_events = [], gf_failover = None, gf_drill_plans = [],
     gf_drill_executions = [], gf_feature_flags = None\<rparr>"

definition demo_failover :: failover where
  "demo_failover = \<lparr>fo_runbook = ''RUN-BROKER-API-02'', fo_file = None, fo_log = [], fo_worklog = [], fo_plan_log = []\<rparr>"

theorem dispatch_blocks_stages_witness:
  fixes now :: pydt and p :: failover_plan
  defines "now \<equiv> \<lparr>yr = 2025, mo = 1, dy = 1, hh = 0, mi = 0, ss = 0, us = 0, tzo = Some 0\<rparr>"
    and "p \<equiv> make_plan ''RUN-BROKER-API-02'' ''timeout''
       \<lparr>yr = 2025, mo = 1, dy = 1, hh = 0, mi = 0, ss = 0, us = 0, tzo = Some 0\<rparr>
       \<lparr>yr = 2025, mo = 1, dy = 1, hh = 0, mi = 0, ss = 0, us = 0, tzo = Some 0\<rparr>"
  shows "\<exists>c e. load_context (no_files\<lparr>gf_failover := fo_file (snd (dispatch_failover p True now now now demo_failover))\<rparr>) now = Inr c \<and>
    evaluate_stage ''reduce_only'' c = Inr e \<and> ''partial_auto'' \<notin> set (ev_allowed e)"
proof -
  have "\<exists>c. load_context (no_files\<lparr>gf_failover := fo_file (snd (dispatch_failover p True now now now demo_failover))\<rparr>) now = Inr c"
    by (simp add: load_context_def no_files_def dispatch_active load_ops_readiness_score_def load_certification_status_def
        count_fill_shadow_alerts_def json_dicts_def drill_overdue_def load_drill_plans_def)
  then obtain c where c: "load_context (no_files\<lparr>gf_failover :=
      fo_file (snd (dispatch_failover p True now now now demo_failover))\<rparr>) now = Inr c" ..
  obtain e where e: "evaluate_stage ''reduce_only'' c = Inr e"
    by (cases "gc_enabled c") (auto simp: evaluate_stage_def Let_def)
  from dispatch_blocks_stages [OF c e] c e show ?thesis by blast
qed

text \<open>A simulated dispatch answers and logs as simulated, but writes the same blocked state as a
  real one, so the stage guard sees an active failover.\<close>

theorem simulated_dispatch_blocks:
  "dget (fst (dispatch_failover p True t1 t2 t3 f)) ''status'' = PStr ''simulated'' \<and>
   fo_file (snd (dispatch_failover p True t1 t2 t3 f)) = fo_file (snd (dispatch_failover p False t1 t2 t3 f)) \<and>
   load_failover_active (fo_file (snd (dispatch_failover p True t1 t2 t3 f))) = Inr True"
proof (intro conjI)
  show "load_failover_active (fo_file (snd (dispatch_failover p True t1 t2 t3 f))) = Inr True"
    by (rule dispatch_active)
qed (simp_all only: dispatch_file, simp add: dispatch_failover_def plan_dispatch_def Let_def)

end
