(* ===== verification/Orders.thy ===== *)
theory Orders
  imports PyTime Systems "HOL-Library.List_Lexorder"
begin

text \<open>
  \<open>src/brokers/order_store.py\<close>: the persistence of order envelopes and order states. A store holds,
  per mode directory, one JSON-lines file per UTC day, to which each saved state is appended, and one
  YAML file per order envelope; a load reads the day files in name order and takes the last record
  of the order. A JSON-lines file is its list of non-blank lines. Fields the code copies unchecked
  from a document are \<open>pyval\<close>s. Locks are taken to be free (their timeout is not modelled), the
  SHA-256 of a file is an argument, and so is the cutoff time of \<open>cleanup\<close>.

  Shown: a saved state reads back and is the latest one as long as the clock does not go back a
  day, the history only grows, and what \<open>cleanup\<close> does to day files of the same name.
\<close>

section \<open>Data\<close>

record recovery_action =
  ra_code :: string
  ra_label :: string
  ra_params :: "pydict option"
  ra_manual :: bool

record recovery_plan =
  rp_order :: string
  rp_id :: string
  rp_reason :: string
  rp_actions :: "recovery_action list"
  rp_runbook :: string
  rp_status :: string
  rp_assigned :: pyval
  rp_created :: pyval
  rp_updated :: pyval
  rp_notes :: "pyval list"

record envelope =
  oe_id :: string
  oe_external :: pyval
  oe_mode :: string
  oe_stage :: string
  oe_strategy :: pyval
  oe_ticket :: pyval
  oe_profile :: string
  oe_risk :: pydict
  oe_protect :: pyval
  oe_reduce_only :: bool
  oe_by :: string
  oe_at :: string

record order_state =
  ot_id :: string
  ot_status :: string
  ot_last :: string
  ot_attempt :: int
  ot_hash :: string
  ot_error :: pyval
  ot_retry :: pyval
  ot_ack :: pyval
  ot_fill :: pyval
  ot_recovery :: "recovery_plan option"
  ot_schema :: string

record day_file =
  df_mtime :: int
  df_lines :: json_lines

record order_store =
  os_modes :: "(string \<times> (string \<times> day_file) list) list"
  os_envelopes :: "((string \<times> string) \<times> pyval) list"
  os_audit :: "pydict list"
  os_worklog :: "pydict list"
  os_archive :: "((string \<times> string) \<times> json_lines) list"
  os_checksums :: "(string \<times> string \<times> string) list"

definition action_to_dict :: "recovery_action \<Rightarrow> pydict" where
  "action_to_dict a = [(''code'', PStr (ra_code a)), (''label'', PStr (ra_label a)),
     (''requires_manual'', PBool (ra_manual a))] @
     (case ra_params a of Some (x # xs) \<Rightarrow> [(''parameters'', PDict (x # xs))] | _ \<Rightarrow> [])"

definition plan_to_dict :: "recovery_plan \<Rightarrow> pydict" where
  "plan_to_dict p = [(''order_id'', PStr (rp_order p)), (''plan_id'', PStr (rp_id p)),
     (''trigger_reason'', PStr (rp_reason p)), (''actions'', PList (map (\<lambda>a. PDict (action_to_dict a)) (rp_actions p))),
     (''assigned_to'', rp_assigned p), (''runbook_ref'', PStr (rp_runbook p)), (''status'', PStr (rp_status p)),
     (''created_at'', rp_created p), (''updated_at'', rp_updated p), (''notes'', PList (rp_notes p))]"

definition envelope_to_dict :: "envelope \<Rightarrow> pydict" where
  "envelope_to_dict e = [(''order_id'', PStr (oe_id e)), (''external_id'', oe_external e), (''mode'', PStr (oe_mode e)),
     (''stage_guard_stage'', PStr (oe_stage e)), (''strategy_id'', oe_strategy e), (''ticket_id'', oe_ticket e),
     (''profile'', PStr (oe_profile e)), (''risk_snapshot'', PDict (oe_risk e)), (''protect_pips'', oe_protect e),
     (''reduce_only'', PBool (oe_reduce_only e)), (''submitted_by'', PStr (oe_by e)), (''submitted_at'', PStr (oe_at e))]"

definition order_state_to_dict :: "order_state \<Rightarrow> pydict" where
  "order_state_to_dict s = [(''schema_version'', PStr (ot_schema s)), (''order_id'', PStr (ot_id s)),
     (''status'', PStr (ot_status s)), (''last_transition'', PStr (ot_last s)), (''attempt'', PInt (ot_attempt s)),
     (''error_code'', ot_error s), (''retry_after'', ot_retry s), (''ack_received_at'', ot_ack s),
     (''fill_summary'', ot_fill s), (''evidence_hash'', PStr (ot_hash s)),
     (''recovery_plan'', (case ot_recovery s of None \<Rightarrow> PNone | Some p \<Rightarrow> PDict (plan_to_dict p)))]"

section \<open>Reading documents\<close>

text \<open>\<open>dict(v)\<close>; a list of pairs, which \<open>dict\<close> would accept, is reported as a ValueError.\<close>

definition py_dict :: "pyval \<Rightarrow> pydict res" where
  "py_dict v = (case v of PDict d \<Rightarrow> Inr d | PStr _ \<Rightarrow> Inl ValueError | PList _ \<Rightarrow> Inl ValueError | _ \<Rightarrow> Inl TypeError)"

definition envelope_from_payload :: "string \<Rightarrow> string \<Rightarrow> pydict \<Rightarrow> envelope res" where
  "envelope_from_payload now order_id d =
     bind_res (py_dict (py_or (dget d ''risk_snapshot'') (PDict []))) (\<lambda>risk.
     Inr \<lparr>oe_id = order_id, oe_external = dget d ''external_id'',
          oe_mode = py_str (dget_def d ''mode'' (PStr ''paper'')),
          oe_stage = py_str (dget_def d ''stage_guard_stage'' (PStr ''manual_only'')),
          oe_strategy = dget d ''strategy_id'', oe_ticket = dget d ''ticket_id'',
          oe_profile = py_str (dget_def d ''profile'' (PStr ''paper'')), oe_risk = risk,
          oe_protect = dget d ''protect_pips'', oe_reduce_only = truthy (dget_def d ''reduce_only'' (PBool False)),
          oe_by = py_str (dget_def d ''submitted_by'' (PStr ''system'')),
          oe_at = py_str (dget_def d ''submitted_at'' (PStr now))\<rparr>)"

definition action_from_payload :: "pydict \<Rightarrow> recovery_action res" where
  "action_from_payload d = bind_res (py_dict (py_or (dget d ''parameters'') (PDict []))) (\<lambda>ps.
     Inr \<lparr>ra_code = py_str (dget d ''code''), ra_label = py_str (dget d ''label''), ra_params = Some ps,
          ra_manual = truthy (dget_def d ''requires_manual'' (PBool False))\<rparr>)"

definition plan_from_payload :: "pydict \<Rightarrow> recovery_plan res" where
  "plan_from_payload d =
     bind_res (py_iter (py_or (dget d ''actions'') (PList []))) (\<lambda>xs.
     bind_res (map_res (\<lambda>x. action_from_payload (mapping_or_empty x)) (filter is_mapping xs)) (\<lambda>acts.
     bind_res (py_iter (py_or (dget d ''notes'') (PList []))) (\<lambda>notes.
     Inr \<lparr>rp_order = py_str (dget d ''order_id''), rp_id = py_str (dget d ''plan_id''),
          rp_reason = py_str (dget d ''trigger_reason''), rp_actions = acts,
          rp_runbook = py_str (dget d ''runbook_ref''), rp_status = py_str (dget d ''status''),
          rp_assigned = dget d ''assigned_to'', rp_created = dget d ''created_at'',
          rp_updated = dget d ''updated_at'', rp_notes = notes\<rparr>)))"

definition state_from_payload :: "pydict \<Rightarrow> order_state res" where
  "state_from_payload d =
     bind_res (case dget d ''recovery_plan'' of PDict p \<Rightarrow> bind_res (plan_from_payload p) (\<lambda>x. Inr (Some x)) | _ \<Rightarrow> Inr None) (\<lambda>rec.
     bind_res (py_int (dget_def d ''attempt'' (PInt 1))) (\<lambda>att.
     Inr \<lparr>ot_id = py_str (dget d ''order_id''), ot_status = py_str (dget d ''status''),
          ot_last = py_str (dget d ''last_transition''), ot_attempt = att, ot_hash = py_str (dget d ''evidence_hash''),
          ot_error = dget d ''error_code'', ot_retry = dget d ''retry_after'', ot_ack = dget d ''ack_received_at'',
          ot_fill = dget d ''fill_summary'', ot_recovery = rec,
          ot_schema = py_str (py_or (dget d ''schema_version'') (PStr ''broker.order_state.v1''))\<rparr>))"

section \<open>Store\<close>

definition mode_files :: "string \<Rightarrow> order_store \<Rightarrow> (string \<times> day_file) list" where
  "mode_files mode st = (case map_of (os_modes st) mode of None \<Rightarrow> [] | Some fs \<Rightarrow> fs)"

definition day_name :: "pydt \<Rightarrow> string" where
  "day_name now = pad_str 4 (yr now) @ pad_str 2 (mo now) @ pad_str 2 (dy now) @ ''.jsonl''"

definition append_line :: "string \<Rightarrow> int \<Rightarrow> pydict \<Rightarrow> (string \<times> day_file) list \<Rightarrow> (string \<times> day_file) list" where
  "append_line day t d fs =
     (let old = (case map_of fs day of None \<Rightarrow> [] | Some f \<Rightarrow> df_lines f)
      in AList.update day \<lparr>df_mtime = t, df_lines = old @ [Some (PDict d)]\<rparr> fs)"

definition save_envelope :: "envelope \<Rightarrow> order_store \<Rightarrow> order_store" where
  "save_envelope e st = st\<lparr>os_envelopes :=
     AList.update (oe_mode e, oe_id e) (PDict (envelope_to_dict e)) (os_envelopes st)\<rparr>"

text \<open>The clock is read for the file name and, after the write, for the audit record.\<close>

definition save_order_state :: "order_state \<Rightarrow> string \<Rightarrow> pydt \<Rightarrow> pydt \<Rightarrow> order_store \<Rightarrow> order_store" where
  "save_order_state s mode now1 now2 st = st\<lparr>
     os_modes := AList.update mode (append_line (day_name now1) (epoch_us now1) (order_state_to_dict s) (mode_files mode st))
                   (os_modes st),
     os_audit := os_audit st @ [[(''event'', PStr ''audit.order_state_saved''), (''ts'', PStr (utc_iso now2)),
       (''order_id'', PStr (ot_id s)), (''status'', PStr (ot_status s)), (''evidence_hash'', PStr (ot_hash s))]]\<rparr>"

text \<open>\<open>_read_jsonl\<close> over the day files in name order: lines that are not JSON, or are \<open>null\<close>, are skipped.\<close>

definition read_jsonl :: "json_lines \<Rightarrow> pyval list" where
  "read_jsonl ls = filter (\<lambda>v. v \<noteq> PNone) (map the (filter (\<lambda>l. l \<noteq> None) ls))"

definition mode_records :: "(string \<times> day_file) list \<Rightarrow> pyval list" where
  "mode_records fs = concat (map (\<lambda>(n, f). read_jsonl (df_lines f)) (sort_key fst fs))"

definition order_record :: "string \<Rightarrow> pyval \<Rightarrow> order_state option res" where
  "order_record order_id v = bind_res (as_dict_get v) (\<lambda>d.
     if py_str (dget d ''order_id'') \<noteq> order_id then Inr None
     else bind_res (state_from_payload d) (\<lambda>s. Inr (Some s)))"

definition history :: "string \<Rightarrow> string \<Rightarrow> order_store \<Rightarrow> order_state list res" where
  "history order_id mode st = bind_res (map_res (order_record order_id) (mode_records (mode_files mode st)))
     (\<lambda>xs. Inr (map the (filter (\<lambda>x. x \<noteq> None) xs)))"

definition latest_state :: "string \<Rightarrow> string \<Rightarrow> order_store \<Rightarrow> order_state option res" where
  "latest_state order_id mode st = bind_res (history order_id mode st)
     (\<lambda>ss. Inr (if ss = [] then None else Some (last ss)))"

definition load_envelope :: "string \<Rightarrow> string \<Rightarrow> string \<Rightarrow> order_store \<Rightarrow> envelope option res" where
  "load_envelope now order_id mode st = (case map_of (os_envelopes st) (mode, order_id) of None \<Rightarrow> Inr None
     | Some v \<Rightarrow> bind_res (as_dict_get (py_or v (PDict []))) (\<lambda>d.
         bind_res (envelope_from_payload now order_id d) (\<lambda>e. Inr (Some e))))"

definition load_order ::
  "string \<Rightarrow> string \<Rightarrow> pydt \<Rightarrow> order_store \<Rightarrow> (envelope option \<times> order_state option) res" where
  "load_order order_id mode now st = bind_res (load_envelope (utc_iso now) order_id mode st) (\<lambda>e.
     bind_res (latest_state order_id mode st) (\<lambda>s. Inr (e, s)))"

text \<open>\<open>list\<close>: the latest state of every order, filtered by status and, where it has an envelope, by strategy.\<close>

fun latest_by_order :: "pyval list \<Rightarrow> (string \<times> order_state) list \<Rightarrow> (string \<times> order_state) list res" where
  "latest_by_order [] m = Inr m"
| "latest_by_order (v # vs) m = bind_res (as_dict_get v) (\<lambda>d.
     let i = py_str (py_or (dget d ''order_id'') (PStr [])) in
     if i = [] then latest_by_order vs m
     else bind_res (state_from_payload d) (\<lambda>s. latest_by_order vs (AList.update i s m)))"

definition list_entry ::
  "string \<Rightarrow> string \<Rightarrow> string list \<Rightarrow> string option \<Rightarrow> order_store \<Rightarrow> string \<times> order_state
     \<Rightarrow> (envelope option \<times> order_state) list res" where
  "list_entry now mode status_in strategy st x = (case x of (i, s) \<Rightarrow>
     if status_in \<noteq> [] \<and> ot_status s \<notin> set status_in then Inr []
     else bind_res (load_envelope now i mode st) (\<lambda>e. case e of
         None \<Rightarrow> Inr [(None, s)]
       | Some env \<Rightarrow> if otrue strategy \<and> oe_strategy env \<noteq> ostr strategy then Inr [] else Inr [(Some env, s)]))"

definition list_orders ::
  "string \<Rightarrow> string list \<Rightarrow> string option \<Rightarrow> pydt \<Rightarrow> order_store \<Rightarrow> (envelope option \<times> order_state) list res" where
  "list_orders mode status_in strategy now st =
     bind_res (latest_by_order (mode_records (mode_files mode st)) []) (\<lambda>m.
     bind_res (map_res (list_entry (utc_iso now) mode status_in strategy st) m) (\<lambda>xs. Inr (concat xs)))"

section \<open>Cleanup\<close>

definition month_name :: "pydt \<Rightarrow> string" where
  "month_name t = pad_str 4 (yr t) @ pad_str 2 (mo t)"

definition expired :: "pydt \<Rightarrow> day_file \<Rightarrow> bool" where
  "expired cutoff f \<longleftrightarrow> df_mtime f \<le> epoch_us cutoff"

definition expired_files :: "pydt \<Rightarrow> order_store \<Rightarrow> (string \<times> day_file) list" where
  "expired_files cutoff st = concat (map (\<lambda>(m, fs). filter (\<lambda>(n, f). expired cutoff f) fs) (os_modes st))"

definition cleanup :: "(json_lines \<Rightarrow> string) \<Rightarrow> pydt \<Rightarrow> pydt \<Rightarrow> order_store \<Rightarrow> (string \<times> string) list \<times> order_store" where
  "cleanup sha cutoff now st =
     (let month = month_name cutoff; moved = expired_files cutoff st; dests = map (\<lambda>(n, f). (month, n)) moved;
          st1 = st\<lparr>os_modes := map (\<lambda>(m, fs). (m, filter (\<lambda>(n, f). \<not> expired cutoff f) fs)) (os_modes st),
                   os_archive := foldl (\<lambda>a (n, f). AList.update (month, n) (df_lines f) a) (os_archive st) moved,
                   os_checksums := os_checksums st @ map (\<lambda>(n, f). (month, sha (df_lines f), n)) moved\<rparr>
      in (dests, if dests = [] then st1
          else st1\<lparr>os_worklog := os_worklog st1 @ [[(''timestamp'', PStr (utc_iso now)),
            (''task'', PStr ''order_state_archive''), (''status'', PStr ''completed''),
            (''archived'', PInt (int (length dests))),
            (''paths'', PList (map (\<lambda>(m, n). PStr (''archive/orders/'' @ m @ ''/'' @ n)) dests))]]\<rparr>))"

section \<open>Reading back\<close>

text \<open>What a saved state reads back as: absent parameters of a recovery action become the empty dictionary.\<close>

definition norm_action :: "recovery_action \<Rightarrow> recovery_action" where
  "norm_action a = a\<lparr>ra_params := (case ra_params a of None \<Rightarrow> Some [] | Some d \<Rightarrow> Some d)\<rparr>"

definition norm_plan :: "recovery_plan \<Rightarrow> recovery_plan" where
  "norm_plan p = p\<lparr>rp_actions := map norm_action (rp_actions p)\<rparr>"

definition norm_state :: "order_state \<Rightarrow> order_state" where
  "norm_state s = s\<lparr>ot_recovery := map_option norm_plan (ot_recovery s)\<rparr>"

lemma norm_state_simps [simp]: "ot_id (norm_state s) = ot_id s" "ot_recovery s = None \<Longrightarrow> norm_state s = s"
  by (simp_all add: norm_state_def)

lemma action_roundtrip: "action_from_payload (action_to_dict a) = Inr (norm_action a)"
proof (cases "ra_params a")
  case (Some d)
  then show ?thesis
    by (cases d) (simp_all add: action_from_payload_def action_to_dict_def norm_action_def py_or_def py_dict_def)
qed (simp add: action_from_payload_def action_to_dict_def norm_action_def py_or_def py_dict_def)

lemma actions_roundtrip:
  "map_res (\<lambda>x. action_from_payload (mapping_or_empty x)) (map (\<lambda>a. PDict (action_to_dict a)) acts)
     = Inr (map norm_action acts)"
  by (induction acts) (simp_all add: action_roundtrip)

lemma py_or_list_same: "py_or (PList xs) (PList []) = PList xs"
  by (simp add: py_or_def)

lemma plan_roundtrip: "plan_from_payload (plan_to_dict p) = Inr (norm_plan p)"
proof -
  have "filter is_mapping (map (\<lambda>a. PDict (action_to_dict a)) (rp_actions p)) = map (\<lambda>a. PDict (action_to_dict a)) (rp_actions p)"
    by (rule filter_True) (auto simp: is_mapping_def)
  then show ?thesis
    by (simp add: plan_from_payload_def plan_to_dict_def norm_plan_def py_or_list_same py_iter_def actions_roundtrip)
qed

lemma state_roundtrip: "ot_schema s \<noteq> [] \<Longrightarrow> state_from_payload (order_state_to_dict s) = Inr (norm_state s)"
proof -
  assume "ot_schema s \<noteq> []"
  then have "py_or (PStr (ot_schema s)) v = PStr (ot_schema s)" for v by (simp add: py_or_def)
  then show ?thesis
    by (cases "ot_recovery s") (simp_all add: state_from_payload_def order_state_to_dict_def norm_state_def plan_roundtrip)
qed

section \<open>Appending\<close>

text \<open>Every day file of a mode is named at most as late as the day of a clock reading.\<close>

definition days_upto :: "string \<Rightarrow> string \<Rightarrow> order_store \<Rightarrow> bool" where
  "days_upto day mode st \<longleftrightarrow> wf_dict (mode_files mode st) \<and> (\<forall>x\<in>set (mode_files mode st). fst x \<le> day)"

lemma read_jsonl_append: "read_jsonl (a @ b) = read_jsonl a @ read_jsonl b"
  by (simp add: read_jsonl_def)

lemma read_jsonl_one [simp]: "read_jsonl [Some (PDict d)] = [PDict d]" "read_jsonl [] = []"
  by (simp_all add: read_jsonl_def)

lemma set_update_subset: "set (AList.update k v d) \<subseteq> insert (k, v) (set d)"
  by (induction d) auto

lemma delete_update_key: "AList.delete k (AList.update k v d) = AList.delete k d"
  by (induction d) auto

lemma mode_records_append:
  assumes "wf_dict fs" "\<And>x. x \<in> set fs \<Longrightarrow> fst x \<le> day"
  shows "mode_records (append_line day t d fs) = mode_records fs @ [PDict d]"
proof -
  define f where "f = \<lparr>df_mtime = t, df_lines = (case map_of fs day of None \<Rightarrow> [] | Some f \<Rightarrow> df_lines f) @ [Some (PDict d)]\<rparr>"
  have al: "append_line day t d fs = AList.update day f fs" by (simp add: append_line_def f_def Let_def)
  have "fst x \<le> day" if "x \<in> set (AList.update day f fs)" for x
    using that set_update_subset [of day f fs] assms(2) by fastforce
  from sort_greatest_key [OF wf_dict_update [OF assms(1)] this]
  have new: "sort_key fst (AList.update day f fs) = sort_key fst (AList.delete day fs) @ [(day, f)]"
    by (simp add: delete_update_key)
  from sort_greatest_key [OF assms] new show ?thesis
    by (simp add: al mode_records_def f_def read_jsonl_append split: option.split)
qed

lemma mode_files_save:
  "mode_files m (save_order_state s mode t1 t2 st) =
     (if m = mode then append_line (day_name t1) (epoch_us t1) (order_state_to_dict s) (mode_files mode st) else mode_files m st)"
  by (simp add: mode_files_def save_order_state_def)

lemma days_upto_save:
  assumes "days_upto (day_name t1) mode st"
  shows "days_upto (day_name t1) mode (save_order_state s mode t1 t2 st)"
proof -
  have "wf_dict (append_line (day_name t1) t d fs)" if "wf_dict fs" for t d and fs :: "(string \<times> day_file) list"
    using that by (simp add: append_line_def Let_def)
  moreover have "fst x \<le> day_name t1" if "x \<in> set (append_line (day_name t1) t d fs)" "\<forall>y\<in>set fs. fst y \<le> day_name t1"
    for x t d and fs :: "(string \<times> day_file) list"
    using that set_update_subset by (fastforce simp: append_line_def Let_def)
  ultimately show ?thesis
    using assms by (auto simp: days_upto_def mode_files_save)
qed

lemma order_record_saved:
  "ot_schema s \<noteq> [] \<Longrightarrow> order_record i (PDict (order_state_to_dict s)) = Inr (if ot_id s = i then Some (norm_state s) else None)"
  using state_roundtrip [of s] by (simp add: order_record_def) (simp add: order_state_to_dict_def)

lemma history_save:
  assumes "days_upto (day_name t1) mode st" "ot_schema s \<noteq> []"
  shows "history i mode (save_order_state s mode t1 t2 st) =
    bind_res (history i mode st) (\<lambda>h. Inr (h @ (if ot_id s = i then [norm_state s] else [])))"
proof -
  have "mode_records (mode_files mode (save_order_state s mode t1 t2 st)) =
      mode_records (mode_files mode st) @ [PDict (order_state_to_dict s)]"
    using assms(1) by (simp add: mode_files_save mode_records_append days_upto_def)
  then show ?thesis
    by (cases "map_res (order_record i) (mode_records (mode_files mode st))")
      (simp_all add: history_def map_res_append order_record_saved [OF assms(2)])
qed

lemma load_envelope_save [simp]:
  "load_envelope now i m (save_order_state s mode t1 t2 st) = load_envelope now i m st"
  by (simp add: load_envelope_def save_order_state_def)

lemma save_state_appends:
  assumes "days_upto (day_name t1) mode st" "ot_schema s \<noteq> []" "history (ot_id s) mode st = Inr h"
  shows "history (ot_id s) mode (save_order_state s mode t1 t2 st) = Inr (h @ [norm_state s]) \<and>
    latest_state (ot_id s) mode (save_order_state s mode t1 t2 st) = Inr (Some (norm_state s)) \<and>
    (\<forall>i m. i \<noteq> ot_id s \<or> m \<noteq> mode \<longrightarrow> history i m (save_order_state s mode t1 t2 st) = history i m st)"
proof -
  have other: "history i m (save_order_state s mode t1 t2 st) = history i m st" if "i \<noteq> ot_id s \<or> m \<noteq> mode" for i m
  proof (cases "m = mode")
    case True
    with that show ?thesis by (cases "history i mode st") (simp_all add: history_save [OF assms(1,2)])
  next
    case False
    then show ?thesis by (simp add: history_def mode_files_save)
  qed
  have "history (ot_id s) mode (save_order_state s mode t1 t2 st) = Inr (h @ [norm_state s])"
    by (simp add: history_save [OF assms(1,2)] assms(3))
  with other show ?thesis by (simp add: latest_state_def)
qed

text \<open>A state saved on a day that no day file is later than reads back, as the last element of the
  order's history and its latest state, up to the empty parameters of recovery actions; the
  histories of the other orders of the mode, and of the other modes, stay the same.\<close>

theorem saved_state_is_latest:
  assumes "days_upto (day_name t1) mode st" "ot_schema s \<noteq> []" "history (ot_id s) mode st = Inr h"
  shows "history (ot_id s) mode (save_order_state s mode t1 t2 st) = Inr (h @ [norm_state s]) \<and>
    latest_state (ot_id s) mode (save_order_state s mode t1 t2 st) = Inr (Some (norm_state s)) \<and>
    (\<forall>i m. i \<noteq> ot_id s \<or> m \<noteq> mode \<longrightarrow> history i m (save_order_state s mode t1 t2 st) = history i m st)"
  using assms by (rule save_state_appends)

definition empty_store :: order_store where
  "empty_store = \<lparr>os_modes = [], os_envelopes = [], os_audit = [], os_worklog = [], os_archive = [], os_checksums = []\<rparr>"

lemma empty_store_files [simp]: "mode_files m empty_store = []" "mode_records [] = []"
  by (simp_all add: mode_files_def empty_store_def mode_records_def)

definition demo_order :: order_state where
  "demo_order = \<lparr>ot_id = ''order-1'', ot_status = ''created'', ot_last = ''-'', ot_attempt = 1, ot_hash = ''h'', ot_error = PNone,
     ot_retry = PNone, ot_ack = PNone, ot_fill = PNone, ot_recovery = None, ot_schema = ''broker.order_state.v1''\<rparr>"

definition demo_clock :: pydt where
  "demo_clock = \<lparr>yr = 2025, mo = 6, dy = 2, hh = 0, mi = 0, ss = 0, us = 0, tzo = Some 0\<rparr>"

theorem saved_state_is_latest_witness:
  "latest_state ''order-1'' ''paper'' (save_order_state demo_order ''paper'' demo_clock demo_clock empty_store)
     = Inr (Some demo_order)"
proof -
  have "days_upto (day_name demo_clock) ''paper'' empty_store" "ot_schema demo_order \<noteq> []"
    "history (ot_id demo_order) ''paper'' empty_store = Inr []"
    by (simp_all add: days_upto_def demo_order_def history_def)
  from saved_state_is_latest [OF this, of demo_clock] show ?thesis by (simp add: demo_order_def)
qed

lemma load_envelope_saved: "load_envelope now (oe_id e) (oe_mode e) (save_envelope e st) = Inr (Some e)"
proof -
  have "py_or (PDict (oe_risk e)) (PDict []) = PDict (oe_risk e)" by (simp add: py_or_def)
  then show ?thesis
    by (simp add: load_envelope_def save_envelope_def py_or_def [of "PDict (envelope_to_dict e)"] envelope_from_payload_def)
      (simp add: envelope_to_dict_def py_dict_def)
qed

lemma mode_files_envelope [simp]: "mode_files m (save_envelope e st) = mode_files m st"
  by (simp add: mode_files_def save_envelope_def)

lemma history_envelope [simp]: "history i m (save_envelope e st) = history i m st"
  by (simp add: history_def)

lemma days_upto_envelope [simp]: "days_upto d m (save_envelope e st) = days_upto d m st"
  by (simp add: days_upto_def)

section \<open>The store by order id\<close>

text \<open>Saves of one day into one mode, with the records that read back unchanged, as a keyed store.\<close>

definition canonical :: "order_state \<Rightarrow> bool" where
  "canonical s \<longleftrightarrow> ot_schema s \<noteq> [] \<and> norm_state s = s"

definition latest_or_none :: "string \<Rightarrow> string \<Rightarrow> order_store \<Rightarrow> order_state option" where
  "latest_or_none mode i st = (case latest_state i mode st of Inr x \<Rightarrow> x | Inl _ \<Rightarrow> None)"

definition readable :: "string \<Rightarrow> pydt \<Rightarrow> order_store \<Rightarrow> bool" where
  "readable mode t st \<longleftrightarrow> days_upto (day_name t) mode st \<and> (\<forall>i. \<exists>h. history i mode st = Inr h)"

interpretation order_log: keyed_store "\<lambda>s. save_order_state s mode t t" "latest_or_none mode" ot_id canonical "readable mode t"
  for mode t
proof
  fix s r assume s: "readable mode t s" and r: "canonical r"
  then obtain h where h: "history (ot_id r) mode s = Inr h" by (auto simp: readable_def)
  have d: "days_upto (day_name t) mode s" and sc: "ot_schema r \<noteq> []" and n: "norm_state r = r"
    using s r by (simp_all add: readable_def canonical_def)
  note latest = save_state_appends [OF d sc h, of t, unfolded n]
  show "latest_or_none mode (ot_id r) (save_order_state r mode t t s) = Some r"
    using latest by (simp add: latest_or_none_def)
  show "latest_or_none mode k (save_order_state r mode t t s) = latest_or_none mode k s" if "k \<noteq> ot_id r" for k
    using latest that by (simp add: latest_or_none_def latest_state_def)
  have "\<exists>h. history i mode (save_order_state r mode t t s) = Inr h" for i
    using s by (auto simp: history_save [OF d sc] readable_def bind_res_eq_Inr)
  then show "readable mode t (save_order_state r mode t t s)"
    using days_upto_save [OF d] by (simp add: readable_def)
qed

text \<open>After any sequence of saves into an empty store on one day, the latest state of every order is
  the last one saved for it, and an order nothing was saved for has none.\<close>

theorem last_save_wins:
  assumes "list_all canonical rs"
  shows "latest_or_none mode i (foldl (\<lambda>st r. save_order_state r mode t t st) empty_store rs) =
    find (\<lambda>r. ot_id r = i) (rev rs)"
proof -
  have "readable mode t empty_store" by (simp add: readable_def days_upto_def history_def)
  moreover have "latest_or_none mode i empty_store = None"
    by (simp add: latest_or_none_def latest_state_def history_def)
  ultimately show ?thesis
    using order_log.load_saves [OF _ assms, of mode t empty_store i] by (simp split: option.split)
qed

theorem last_save_wins_witness:
  "latest_or_none ''paper'' ''order-1'' (foldl (\<lambda>st r. save_order_state r ''paper'' demo_clock demo_clock st) empty_store
     [demo_order, demo_order\<lparr>ot_status := ''sent''\<rparr>]) = Some (demo_order\<lparr>ot_status := ''sent''\<rparr>)"
  using last_save_wins [of "[demo_order, demo_order\<lparr>ot_status := ''sent''\<rparr>]" "''paper''" "''order-1''" demo_clock]
  by (simp add: canonical_def demo_order_def)

section \<open>Archiving\<close>

text \<open>\<open>cleanup\<close> moves the day files of all modes into one month directory under their own names, so
  of two expired files with the same name, in different modes, only the second one's lines are left
  in the archive, and the store has neither.\<close>

theorem cleanup_overwrites_archive:
  fixes cutoff now :: pydt and lines1 lines2 :: json_lines and n :: string
  defines "f1 \<equiv> \<lparr>df_mtime = epoch_us cutoff, df_lines = lines1\<rparr>" and "f2 \<equiv> \<lparr>df_mtime = epoch_us cutoff, df_lines = lines2\<rparr>"
  defines "st \<equiv> empty_store\<lparr>os_modes := [(''live'', [(n, f1)]), (''paper'', [(n, f2)])]\<rparr>"
  shows "os_archive (snd (cleanup sha cutoff now st)) = [((month_name cutoff, n), lines2)] \<and>
    mode_files ''live'' (snd (cleanup sha cutoff now st)) = [] \<and> mode_files ''paper'' (snd (cleanup sha cutoff now st)) = [] \<and>
    length (os_checksums (snd (cleanup sha cutoff now st))) = 2"
  by (simp add: cleanup_def Let_def expired_files_def expired_def st_def f1_def f2_def mode_files_def empty_store_def)

text \<open>\<open>cleanup\<close> keeps every day file that changed after the cutoff: a mode whose files all did keeps
  its histories.\<close>

theorem cleanup_keeps_recent:
  assumes "\<forall>x\<in>set (mode_files mode st). epoch_us cutoff < df_mtime (snd x)"
  shows "history i mode (snd (cleanup sha cutoff now st)) = history i mode st"
proof -
  have "mode_files mode (snd (cleanup sha cutoff now st)) = filter (\<lambda>(n, f). \<not> expired cutoff f) (mode_files mode st)"
    by (simp add: cleanup_def Let_def mode_files_def map_of_map split: option.split)
  also have "\<dots> = mode_files mode st"
    using assms by (intro filter_True) (auto simp: expired_def)
  finally show ?thesis by (simp add: history_def)
qed

theorem cleanup_keeps_recent_witness:
  "history ''order-1'' ''paper'' (snd (cleanup (\<lambda>_. []) (demo_clock\<lparr>yr := 2024\<rparr>) demo_clock
     (save_order_state demo_order ''paper'' demo_clock demo_clock empty_store)))
   = history ''order-1'' ''paper'' (save_order_state demo_order ''paper'' demo_clock demo_clock empty_store)"
  by (rule cleanup_keeps_recent) (simp add: mode_files_save append_line_def epoch_us_def days_from_civil_def demo_clock_def)

end
