(* ===== verification/Recovery.thy ===== *)
theory Recovery
  imports Orders
begin

text \<open>
  \<open>src/brokers/recovery.py\<close>: the recovery planner. It reads an error map from broker codes to
  descriptors and turns a broker error into a recovery plan, falling back to the \<open>UNKNOWN\<close>
  descriptor for an unmapped code or a missing context key. The documents of the two configuration
  files, the hexadecimal digits of a fresh plan id and the clock readings of a plan are arguments;
  the readings of one call are taken to be equal, since they only date records.

  Shown: when a plan exists, which descriptor it follows, and that it always has an action.
\<close>

record retry_policy =
  rt_mode :: string
  rt_max :: int
  rt_backoff :: "pyval list option"
  rt_handoff :: pyval

record error_descriptor =
  ed_code :: string
  ed_reason :: string
  ed_audit :: string
  ed_runbook :: string
  ed_retry :: retry_policy
  ed_template :: string
  ed_required :: "string list"

record error_context =
  ex_code :: string
  ex_reason :: string
  ex_audit :: string
  ex_runbook :: string
  ex_retry :: retry_policy
  ex_evidence :: string
  ex_data :: pydict
  ex_notes :: "string list"

record planner =
  pl_errors :: "(string \<times> error_descriptor) list"
  pl_config :: pydict
  pl_audit :: "pydict list"

definition retry_to_dict :: "retry_policy \<Rightarrow> pydict" where
  "retry_to_dict r = [(''mode'', PStr (rt_mode r)), (''max_attempts'', PInt (rt_max r)),
     (''backoff_sec'', PList (case rt_backoff r of None \<Rightarrow> [] | Some xs \<Rightarrow> xs)), (''handoff_role'', rt_handoff r)]"

section \<open>Configuration\<close>

definition parse_retry_policy :: "pyval \<Rightarrow> retry_policy res" where
  "parse_retry_policy v = (let d = mapping_or_empty v in
     bind_res (py_int (dget_def d ''max_attempts'' (PInt 1))) (\<lambda>n.
     bind_res (py_iter (py_or (dget d ''backoff_sec'') (PList []))) (\<lambda>xs.
     Inr \<lparr>rt_mode = py_str (dget_def d ''mode'' (PStr ''manual'')), rt_max = n,
          rt_backoff = (if xs = [] then None else Some xs), rt_handoff = dget d ''handoff_role''\<rparr>)))"

definition parse_descriptor :: "string \<Rightarrow> pydict \<Rightarrow> error_descriptor res" where
  "parse_descriptor key d =
     bind_res (parse_retry_policy (dget d ''retry_policy'')) (\<lambda>r.
     bind_res (text_list (py_or (dget d ''required_context'') (PList []))) (\<lambda>req.
     Inr \<lparr>ed_code = key, ed_reason = py_str (dget d ''trigger_reason''), ed_audit = py_str (dget d ''audit_event_id''),
          ed_runbook = py_str (dget d ''runbook_ref''), ed_retry = r,
          ed_template = py_str (dget d ''evidence_path_template''), ed_required = req\<rparr>))"

definition load_error_map :: "json_file \<Rightarrow> (string \<times> error_descriptor) list res" where
  "load_error_map file = (case file of None \<Rightarrow> Inr [] | Some None \<Rightarrow> Inl ValueError
     | Some (Some v) \<Rightarrow> (case py_or v (PDict []) of
          PDict payload \<Rightarrow> (case dget payload ''error_map'' of
             PDict raw \<Rightarrow> map_res (\<lambda>(k, x). bind_res (parse_descriptor k (mapping_or_empty x)) (\<lambda>d. Inr (k, d)))
                            (filter (\<lambda>(k, x). is_mapping x) raw)
           | _ \<Rightarrow> Inr [])
        | _ \<Rightarrow> Inr []))"

definition load_recovery_config :: "json_file \<Rightarrow> pydict res" where
  "load_recovery_config file = (case file of None \<Rightarrow> Inr [] | Some None \<Rightarrow> Inl ValueError
     | Some (Some v) \<Rightarrow> Inr (mapping_or_empty (py_or v (PDict []))))"

definition new_planner :: "json_file \<Rightarrow> json_file \<Rightarrow> pydict list \<Rightarrow> planner res" where
  "new_planner errors config audit = bind_res (load_error_map errors) (\<lambda>m. bind_res (load_recovery_config config) (\<lambda>c.
     Inr \<lparr>pl_errors = m, pl_config = c, pl_audit = audit\<rparr>))"

definition lookup_error :: "string \<Rightarrow> planner \<Rightarrow> error_descriptor option" where
  "lookup_error code p = map_of (pl_errors p) code"

definition recovery_sla_minutes :: "planner \<Rightarrow> int res" where
  "recovery_sla_minutes p = py_int (dget_def (pl_config p) ''sla_minutes'' (PInt 120))"

definition max_recovery_seconds :: "planner \<Rightarrow> int res" where
  "max_recovery_seconds p = py_int (dget_def (pl_config p) ''max_sec'' (PInt 7200))"

section \<open>Planning\<close>

definition simple_action :: "string \<Rightarrow> string \<Rightarrow> bool \<Rightarrow> recovery_action" where
  "simple_action code label manual = \<lparr>ra_code = code, ra_label = label, ra_params = None, ra_manual = manual\<rparr>"

definition actions_for_trigger :: "string \<Rightarrow> retry_policy \<Rightarrow> recovery_action list" where
  "actions_for_trigger reason r =
     (if reason = ''rate_limit'' then
        [simple_action ''wait'' ''Wait for rate-limit cooldown'' False,
         (simple_action ''retry'' ''Retry order submission'' False)\<lparr>ra_params := Some [(''max_attempts'', PInt (rt_max r))]\<rparr>]
      else if reason = ''timeout'' then
        [simple_action ''emergency_plan'' ''Trigger api_retry plan'' True,
         simple_action ''retry'' ''Retry after approval'' True]
      else if reason = ''partial_fill_timeout'' then
        [simple_action ''reduce_only'' ''Convert remaining qty to reduce-only'' True]
      else if reason = ''broker_reject'' then
        [simple_action ''review'' ''Review compliance rejection'' True]
      else [simple_action ''escalate'' ''Escalate to ops manager'' True])"

definition context_data :: "string \<Rightarrow> int \<Rightarrow> string option \<Rightarrow> pydict \<Rightarrow> pydict" where
  "context_data stage attempts lst ctx =
     AList.update ''last_attempt_ts'' (ostr lst) (AList.update ''attempt_count'' (PInt attempts)
       (AList.update ''stage_guard_stage'' (PStr stage) ctx))"

definition missing_context :: "error_descriptor \<Rightarrow> pydict \<Rightarrow> string list" where
  "missing_context d data = filter (\<lambda>k. map_of data k = None) (ed_required d)"

definition plan_recovery ::
  "string \<Rightarrow> string \<Rightarrow> string \<Rightarrow> int \<Rightarrow> string option \<Rightarrow> pydict \<Rightarrow> string \<Rightarrow> pydt \<Rightarrow> planner
     \<Rightarrow> (recovery_plan \<times> error_context \<times> planner) res" where
  "plan_recovery order_id code stage attempts lst ctx hex now p =
     (let first = (case lookup_error code p of Some d \<Rightarrow> Some d | None \<Rightarrow> lookup_error ''UNKNOWN'' p) in
      case first of
        None \<Rightarrow> Inl (RecoveryPlannerError (''missing error map for '' @ code))
      | Some d0 \<Rightarrow>
          let data = context_data stage attempts lst ctx;
              missing = missing_context d0 data;
              d = (if missing \<noteq> [] then (case lookup_error ''UNKNOWN'' p of Some u \<Rightarrow> u | None \<Rightarrow> d0) else d0);
              notes = (if missing \<noteq> [] then [''missing_context:'' @ str_join '','' missing] else []);
              evidence = str_replace ''<order_id>'' order_id (ed_template d);
              ts = utc_iso now;
              plan = \<lparr>rp_order = order_id, rp_id = ''recovery-'' @ hex, rp_reason = ed_reason d,
                 rp_actions = actions_for_trigger (ed_reason d) (ed_retry d), rp_runbook = ed_runbook d,
                 rp_status = ''planned'', rp_assigned = dget (pl_config p) ''default_owner'',
                 rp_created = PStr ts, rp_updated = PStr ts,
                 rp_notes = map PStr ([''broker_code='' @ code,
                    ''retry_policy='' @ json_text (PDict (retry_to_dict (ed_retry d)))] @ notes)\<rparr>;
              err = \<lparr>ex_code = code, ex_reason = ed_reason d, ex_audit = ed_audit d, ex_runbook = ed_runbook d,
                 ex_retry = ed_retry d, ex_evidence = evidence, ex_data = data, ex_notes = notes\<rparr>;
              audit = [[(''event'', PStr (ed_audit d)), (''ts'', PStr ts), (''order_id'', PStr order_id),
                 (''trigger_reason'', PStr (ed_reason d)), (''broker_code'', PStr code),
                 (''runbook_ref'', PStr (ed_runbook d)), (''evidence_path'', PStr evidence)]] @
                (if missing \<noteq> [] then [[(''event'', PStr ''audit.order_recovery_planned.context_missing''), (''ts'', PStr ts),
                 (''order_id'', PStr order_id), (''missing'', PList (map PStr missing)), (''broker_code'', PStr code)]] else [])
          in Inr (plan, err, p\<lparr>pl_audit := pl_audit p @ audit\<rparr>))"

lemma actions_nonempty: "actions_for_trigger r rt \<noteq> []"
  by (simp add: actions_for_trigger_def)

lemma recovery_facts:
  "plan_recovery oid code stage n lst ctx hex now p = Inr (plan, err, p') \<Longrightarrow>
     rp_actions plan \<noteq> [] \<and> rp_order plan = oid \<and> pl_config p' = pl_config p"
  by (auto simp: plan_recovery_def Let_def actions_nonempty split: option.splits)

section \<open>Properties\<close>

text \<open>Planning fails exactly if neither the broker code nor \<open>UNKNOWN\<close> is in the error map. A plan
  follows the code's descriptor when it is mapped and the context has every key it requires, follows
  \<open>UNKNOWN\<close> when that is mapped and the code is not or a key is missing, is for the order asked, and
  has at least one action.\<close>

theorem recovery_plan_descriptor:
  "(lookup_error code p = None \<and> lookup_error ''UNKNOWN'' p = None \<and>
      plan_recovery oid code stage n lst ctx hex now p = Inl (RecoveryPlannerError (''missing error map for '' @ code))) \<or>
   (\<exists>plan err p' d. plan_recovery oid code stage n lst ctx hex now p = Inr (plan, err, p') \<and>
      rp_order plan = oid \<and> rp_actions plan \<noteq> [] \<and> rp_reason plan = ed_reason d \<and> ex_runbook err = ed_runbook d \<and>
      d = (case lookup_error code p of
             Some d0 \<Rightarrow> if missing_context d0 (context_data stage n lst ctx) = [] then d0
                       else (case lookup_error ''UNKNOWN'' p of Some u \<Rightarrow> u | None \<Rightarrow> d0)
           | None \<Rightarrow> the (lookup_error ''UNKNOWN'' p)))"
  by (cases "lookup_error code p"; cases "lookup_error ''UNKNOWN'' p") (simp_all add: plan_recovery_def Let_def actions_nonempty)

text \<open>The keys the planner adds itself are never missing, whatever the caller's context.\<close>

theorem own_context_present:
  "map_of (context_data stage n lst ctx) ''stage_guard_stage'' = Some (PStr stage) \<and>
   map_of (context_data stage n lst ctx) ''attempt_count'' = Some (PInt n) \<and>
   map_of (context_data stage n lst ctx) ''last_attempt_ts'' = Some (ostr lst) \<and>
   set (missing_context d (context_data stage n lst ctx)) =
     {k \<in> set (ed_required d). k \<notin> {''stage_guard_stage'', ''attempt_count'', ''last_attempt_ts''} \<and> map_of ctx k = None}"
  by (auto simp: context_data_def missing_context_def)

end
