(* ===== verification/Lifecycle.thy ===== *)
theory Lifecycle
  imports Recovery StageGuard Health
begin

text \<open>
  \<open>src/brokers/order_lifecycle.py\<close>: the order lifecycle manager. It creates an order when the autonomy
  stage allows it, and saves one state per transition in the order store; a broker error is planned
  by the recovery planner and saved as an error state; a queue wait raises a health condition. The
  manager's record holds the store, the stage guard, the planner and its logs. Its calls into the
  fill recorder (\<open>src/brokers/fill_shadow.py\<close>) and the broker monitor (\<open>src/brokers/monitor.py\<close>)
  are recorded as a list of calls. SHA-256 is the argument \<open>sha\<close> (of a text or of a document's
  JSON text), a fresh order id's digits are an argument, the clock readings of one call are taken to
  be equal, and writes succeed. \<open>update_state\<close> can raise after it has saved, so the operations return
  the manager also where they raise.

  Shown: which orders a stage admits, that every update appends one state, which is then the latest,
  how attempts and evidence carry over, and what a scheduled recovery leaves.
\<close>

datatype broker_call =
    RecordFill string string string string string pydict
  | RecordQueueWait string string pyfloat int

record lifecycle =
  ol_store :: order_store
  ol_guard :: guard
  ol_planner :: planner
  ol_audit :: "pydict list"
  ol_metrics :: "pydict list"
  ol_agenda :: "pydict list"
  ol_health :: "pydict list"
  ol_calls :: "broker_call list"

record receipt =
  rc_order :: string
  rc_status :: string
  rc_completed_at :: string
  rc_hash :: string

section \<open>Creating\<close>

text \<open>The stage: from the context where one with entries is given, else the guard's.\<close>

definition create_stage :: "pydict option \<Rightarrow> guard \<Rightarrow> string" where
  "create_stage ctx g = (case ctx of Some (x # xs) \<Rightarrow> py_str (dget (x # xs) ''stage'') | _ \<Rightarrow> gd_stage g)"

definition new_order_state :: "(string \<Rightarrow> string) \<Rightarrow> string \<Rightarrow> pydt \<Rightarrow> order_state" where
  "new_order_state sha order_id now = \<lparr>ot_id = order_id, ot_status = ''created'', ot_last = utc_iso now, ot_attempt = 1,
     ot_hash = sha order_id, ot_error = PNone, ot_retry = PNone, ot_ack = PNone, ot_fill = PNone, ot_recovery = None,
     ot_schema = ''broker.order_state.v1''\<rparr>"

definition create_order ::
  "(string \<Rightarrow> string) \<Rightarrow> pydict \<Rightarrow> pydict option \<Rightarrow> string \<Rightarrow> pydt \<Rightarrow> lifecycle \<Rightarrow> envelope res \<times> lifecycle" where
  "create_order sha ticket ctx hex now lc =
     (let stage = create_stage ctx (ol_guard lc);
          reduce_only = truthy (dget_def ticket ''reduce_only'' (PBool False))
      in if stage = ''manual_only'' then (Inl (OrderDispatchRejected ''stage_manual_only'' ''RUN-BROKER-API-03''), lc)
         else if stage = ''reduce_only'' \<and> \<not> reduce_only then
           (Inl (OrderDispatchRejected ''stage_reduce_only_required'' ''RUN-RISK-01''), lc)
         else (case py_dict (py_or (dget ticket ''risk_snapshot'') (PDict [])) of
             Inl e \<Rightarrow> (Inl e, lc)
           | Inr risk \<Rightarrow>
               let order_id = ''order-'' @ hex;
                   mode = py_str (dget_def ticket ''mode'' (PStr ''paper''));
                   e = \<lparr>oe_id = order_id, oe_external = dget ticket ''external_id'', oe_mode = mode, oe_stage = stage,
                        oe_strategy = dget ticket ''strategy_id'', oe_ticket = dget ticket ''ticket_id'',
                        oe_profile = py_str (dget_def ticket ''profile'' (dget_def ticket ''mode'' (PStr ''paper''))),
                        oe_risk = risk, oe_protect = dget ticket ''protect_pips'', oe_reduce_only = reduce_only,
                        oe_by = py_str (dget_def ticket ''submitted_by'' (PStr ''system'')), oe_at = utc_iso now\<rparr>;
                   st = save_order_state (new_order_state sha order_id now) mode now now (save_envelope e (ol_store lc))
               in (Inr e, lc\<lparr>ol_store := st, ol_audit := ol_audit lc @ [[(''event'', PStr ''audit.order_created''),
                     (''ts'', PStr (utc_iso now)), (''order_id'', PStr order_id), (''stage_guard_stage'', PStr stage),
                     (''ticket_id'', oe_ticket e)]]\<rparr>)))"

section \<open>Updating\<close>

definition next_state ::
  "(string \<Rightarrow> string) \<Rightarrow> string \<Rightarrow> string \<Rightarrow> pydict \<Rightarrow> recovery_plan option \<Rightarrow> pydt \<Rightarrow> order_state option \<Rightarrow> order_state res" where
  "next_state sha order_id status payload recovery now current =
     bind_res (py_int (dget_def payload ''attempt'' (PInt (case current of None \<Rightarrow> 1 | Some c \<Rightarrow> ot_attempt c)))) (\<lambda>a.
     let ev = py_or (dget payload ''evidence_hash'') (case current of None \<Rightarrow> PNone | Some c \<Rightarrow> PStr (ot_hash c))
     in Inr \<lparr>ot_id = order_id, ot_status = status, ot_last = utc_iso now,
             ot_attempt = (if truthy (dget payload ''increment_attempt'') then a + 1 else a),
             ot_hash = (if truthy ev then py_str ev else sha order_id), ot_error = dget payload ''error_code'',
             ot_retry = dget payload ''retry_after'', ot_ack = dget payload ''ack_received_at'',
             ot_fill = dget payload ''fill_summary'', ot_recovery = recovery, ot_schema = ''broker.order_state.v1''\<rparr>)"

text \<open>The queue-wait part of \<open>update_state\<close>, which runs after the state is saved.\<close>

definition note_queue_wait :: "string \<Rightarrow> pydict \<Rightarrow> pydt \<Rightarrow> lifecycle \<Rightarrow> unit res \<times> lifecycle" where
  "note_queue_wait status payload now lc =
     (if status = ''queued'' \<and> truthy (dget payload ''queue_wait_ms'') then
        (case py_float (dget payload ''queue_wait_ms'') of
           Inl e \<Rightarrow> (Inl e, lc)
         | Inr w \<Rightarrow>
             if flt (Fin 0) w then
               (case bind_res (py_int (dget_def payload ''queue_depth'' (PInt 0))) (\<lambda>n.
                       bind_res (fdiv w (Fin 1000)) (\<lambda>s. Inr (n, s))) of
                  Inl e \<Rightarrow> (Inl e, lc)
                | Inr (n, s) \<Rightarrow> (Inr (), lc\<lparr>
                    ol_calls := ol_calls lc @ [RecordQueueWait (py_str (dget_def payload ''adapter'' (PStr ''unknown'')))
                      ''order.place'' s n],
                    ol_health := ol_health lc @ hm_log (raise_condition ''warn'' ''broker_queue_backlog''
                      (Some (''queue_wait_ms='' @ float_str w)) (Some ''runbook:RUN-BROKER-API-02#RL-01'') False now now True
                      monitor_default)\<rparr>))
             else (Inr (), lc))
      else (Inr (), lc))"

definition persist_update ::
  "string \<Rightarrow> string \<Rightarrow> pydict \<Rightarrow> pydt \<Rightarrow> envelope option \<Rightarrow> order_state \<Rightarrow> lifecycle \<Rightarrow> lifecycle" where
  "persist_update status mode payload now env s lc =
     (let stage = (case env of None \<Rightarrow> PNone | Some e \<Rightarrow> PStr (oe_stage e))
      in lc\<lparr>ol_store := save_order_state s mode now now (ol_store lc),
            ol_audit := ol_audit lc @ [[(''event'', PStr ''audit.order_state_changed''), (''ts'', PStr (utc_iso now)),
              (''order_id'', PStr (ot_id s)), (''status'', PStr status), (''stage_guard_stage'', stage),
              (''runbook_ref'', dget payload ''runbook_ref'')]],
            ol_metrics := ol_metrics lc @ [[(''ts'', PStr (utc_iso now)), (''order_id'', PStr (ot_id s)),
              (''status'', PStr status), (''stage_guard_stage'', stage), (''latency_ms'', dget payload ''latency_ms''),
              (''queue_wait_ms'', dget payload ''queue_wait_ms''), (''retry_after'', dget payload ''retry_after'')]]\<rparr>)"

definition update_order ::
  "(string \<Rightarrow> string) \<Rightarrow> string \<Rightarrow> string \<Rightarrow> string \<Rightarrow> pydict \<Rightarrow> recovery_plan option \<Rightarrow> pydt \<Rightarrow> lifecycle
     \<Rightarrow> order_state res \<times> lifecycle" where
  "update_order sha order_id status mode payload recovery now lc =
     (case bind_res (load_order order_id mode now (ol_store lc)) (\<lambda>(env, cur).
             bind_res (next_state sha order_id status payload recovery now cur) (\<lambda>s. Inr (env, s))) of
        Inl e \<Rightarrow> (Inl e, lc)
      | Inr (env, s) \<Rightarrow>
          let (r, lc2) = note_queue_wait status payload now (persist_update status mode payload now env s lc)
          in (bind_res r (\<lambda>_. Inr s), lc2))"

definition attach_fill ::
  "(string \<Rightarrow> string) \<Rightarrow> (pydict \<Rightarrow> string) \<Rightarrow> string \<Rightarrow> string \<Rightarrow> pydict \<Rightarrow> string \<Rightarrow> pydt \<Rightarrow> lifecycle
     \<Rightarrow> order_state res \<times> lifecycle" where
  "attach_fill sha doc_sha order_id mode fill status now lc =
     (let text = (\<lambda>k v. py_str (py_or (dget fill k) (PStr v)));
          lc1 = lc\<lparr>ol_calls := ol_calls lc @ [RecordFill (text ''ticket_id'' []) (text ''order_id'' order_id) status
                  (text ''adapter'' []) (text ''profile'' ''paper'') fill]\<rparr>
      in update_order sha order_id status mode
           [(''fill_summary'', PStr (doc_sha fill)), (''ack_received_at'', dget fill ''ack_received_at'')] None now lc1)"

definition schedule_recovery ::
  "(string \<Rightarrow> string) \<Rightarrow> string \<Rightarrow> string \<Rightarrow> string \<Rightarrow> pydict \<Rightarrow> string \<Rightarrow> pydt \<Rightarrow> lifecycle
     \<Rightarrow> (order_state \<times> recovery_plan) res \<times> lifecycle" where
  "schedule_recovery sha order_id mode code ctx hex now lc =
     (case bind_res (load_order order_id mode now (ol_store lc)) (\<lambda>(env, cur).
             plan_recovery order_id code (case env of None \<Rightarrow> ''manual_only'' | Some e \<Rightarrow> oe_stage e)
               (case cur of None \<Rightarrow> 1 | Some c \<Rightarrow> ot_attempt c) (map_option ot_last cur) ctx hex now (ol_planner lc)) of
        Inl e \<Rightarrow> (Inl e, lc)
      | Inr (plan, err, p') \<Rightarrow>
          (case update_order sha order_id ''error'' mode [(''error_code'', PStr code), (''runbook_ref'', PStr (ex_runbook err))]
                  (Some plan) now (lc\<lparr>ol_planner := p'\<rparr>) of
             (Inl e, lc1) \<Rightarrow> (Inl e, lc1)
           | (Inr s, lc1) \<Rightarrow>
               (case recovery_sla_minutes p' of
                  Inl e \<Rightarrow> (Inl e, lc1)
                | Inr sla \<Rightarrow> (Inr (s, plan), lc1\<lparr>ol_agenda := ol_agenda lc1 @ [[(''event'', PStr ''ops.agenda.todo''),
                    (''ts'', PStr (utc_iso now)), (''task'', PStr (''Order recovery '' @ order_id)),
                    (''owner'', py_or (rp_assigned plan) (PStr ''ops'')),
                    (''due'', PStr (date_iso (epoch_us now + sla * 60000000))), (''source'', PStr ''broker_orders''),
                    (''order_id'', PStr order_id), (''runbook_ref'', PStr (rp_runbook plan))]]\<rparr>))))"

definition finalize_order ::
  "(string \<Rightarrow> string) \<Rightarrow> string \<Rightarrow> string \<Rightarrow> pydt \<Rightarrow> lifecycle \<Rightarrow> receipt res \<times> lifecycle" where
  "finalize_order sha order_id mode now lc =
     (case load_order order_id mode now (ol_store lc) of
        Inl e \<Rightarrow> (Inl e, lc)
      | Inr _ \<Rightarrow>
          (case update_order sha order_id ''reconciled'' mode [] None now lc of
             (Inl e, lc1) \<Rightarrow> (Inl e, lc1)
           | (Inr s, lc1) \<Rightarrow>
               let r = \<lparr>rc_order = order_id, rc_status = ot_status s, rc_completed_at = utc_iso now, rc_hash = ot_hash s\<rparr>
               in (Inr r, lc1\<lparr>ol_audit := ol_audit lc1 @ [[(''event'', PStr ''audit.order_lifecycle_completed''),
                    (''ts'', PStr (rc_completed_at r)), (''order_id'', PStr order_id), (''status'', PStr (ot_status s)),
                    (''runbook_ref'', PStr ''RUN-BROKER-API-02'')]]\<rparr>)))"

definition receipt_to_dict :: "receipt \<Rightarrow> pydict" where
  "receipt_to_dict r = [(''order_id'', PStr (rc_order r)), (''status'', PStr (rc_status r)),
     (''completed_at'', PStr (rc_completed_at r)), (''evidence_hash'', PStr (rc_hash r))]"

section \<open>Lemmas\<close>

lemma note_queue_wait_frame [simp]:
  "ol_store (snd (note_queue_wait st p now lc)) = ol_store lc"
  "ol_agenda (snd (note_queue_wait st p now lc)) = ol_agenda lc"
  by (simp_all add: note_queue_wait_def split: sum.split prod.split)

lemma persist_update_frame [simp]:
  "ol_store (persist_update st mode p now env s lc) = save_order_state s mode now now (ol_store lc)"
  "ol_agenda (persist_update st mode p now env s lc) = ol_agenda lc"
  by (simp_all add: persist_update_def Let_def)

lemma next_state_sel:
  assumes "next_state sha i st p rec now cur = Inr s"
  shows "ot_id s = i" "ot_status s = st" "ot_recovery s = rec" "ot_schema s = ''broker.order_state.v1''"
    "ot_error s = dget p ''error_code''"
  using assms by (auto simp: next_state_def bind_res_eq_Inr Let_def)

text \<open>An update that gets as far as a new state saves it, also where it then raises.\<close>

lemma update_order_saves:
  assumes "load_order i mode now (ol_store lc) = Inr (env, cur)" "next_state sha i st p rec now cur = Inr s"
  shows "ol_store (snd (update_order sha i st mode p rec now lc)) = save_order_state s mode now now (ol_store lc)"
    and "ol_agenda (snd (update_order sha i st mode p rec now lc)) = ol_agenda lc"
  using assms by (simp_all add: update_order_def Let_def case_prod_unfold)

lemma update_order_Inr:
  assumes "update_order sha i st mode p rec now lc = (Inr s, lc')"
  shows "\<exists>env cur. load_order i mode now (ol_store lc) = Inr (env, cur) \<and> next_state sha i st p rec now cur = Inr s"
  using assms by (auto simp: update_order_def Let_def case_prod_unfold bind_res_eq_Inr split: sum.splits)

lemma load_order_history:
  assumes "load_order i mode now st = Inr (env, cur)"
  shows "\<exists>h. history i mode st = Inr h \<and> cur = (if h = [] then None else Some (last h))"
  using assms by (auto simp: load_order_def latest_state_def bind_res_eq_Inr split: if_splits)

lemma update_appends:
  assumes "days_upto (day_name now) mode (ol_store lc)" "update_order sha i st mode p rec now lc = (Inr s, lc')"
  shows "\<exists>h. history i mode (ol_store lc) = Inr h \<and> history i mode (ol_store lc') = Inr (h @ [norm_state s]) \<and>
    latest_state i mode (ol_store lc') = Inr (Some (norm_state s)) \<and> ot_id s = i \<and> ot_status s = st \<and>
    (h \<noteq> [] \<and> map_of p ''attempt'' = None \<and> map_of p ''increment_attempt'' = None \<longrightarrow> ot_attempt s = ot_attempt (last h)) \<and>
    (h \<noteq> [] \<and> map_of p ''evidence_hash'' = None \<and> ot_hash (last h) \<noteq> [] \<longrightarrow> ot_hash s = ot_hash (last h))"
proof -
  from update_order_Inr [OF assms(2)] obtain env cur where
    l: "load_order i mode now (ol_store lc) = Inr (env, cur)" and n: "next_state sha i st p rec now cur = Inr s" by blast
  from load_order_history [OF l] obtain h where h: "history i mode (ol_store lc) = Inr h"
    "cur = (if h = [] then None else Some (last h))" by blast
  have sel: "ot_id s = i" "ot_status s = st" "ot_schema s \<noteq> []" using next_state_sel [OF n] by simp_all
  have st: "ol_store lc' = save_order_state s mode now now (ol_store lc)"
    using update_order_saves(1) [OF l n] assms(2) by simp
  have "ot_attempt s = ot_attempt (last h)"
    if "h \<noteq> []" "map_of p ''attempt'' = None" "map_of p ''increment_attempt'' = None"
    using that n h(2) by (auto simp: next_state_def bind_res_eq_Inr Let_def dget_def_def dget_def)
  moreover have "ot_hash s = ot_hash (last h)"
    if "h \<noteq> []" "map_of p ''evidence_hash'' = None" "ot_hash (last h) \<noteq> []"
    using that n h(2) by (auto simp: next_state_def bind_res_eq_Inr Let_def dget_def py_or_def)
  ultimately show ?thesis
    using save_state_appends [OF assms(1) sel(3), of h now] h(1) sel st by auto
qed

section \<open>Properties\<close>

text \<open>C7: An update that returns a state has appended exactly that state to the order's history, and it
  is the latest one; it has the status asked for, and where the payload names no attempt and no
  evidence it carries the attempt and the evidence hash of the state before it.\<close>

theorem update_appends_state:
  assumes "days_upto (day_name now) mode (ol_store lc)" "update_order sha i st mode p rec now lc = (Inr s, lc')"
  shows "\<exists>h. history i mode (ol_store lc) = Inr h \<and> history i mode (ol_store lc') = Inr (h @ [norm_state s]) \<and>
    latest_state i mode (ol_store lc') = Inr (Some (norm_state s)) \<and> ot_id s = i \<and> ot_status s = st \<and>
    (h \<noteq> [] \<and> map_of p ''attempt'' = None \<and> map_of p ''increment_attempt'' = None \<longrightarrow> ot_attempt s = ot_attempt (last h)) \<and>
    (h \<noteq> [] \<and> map_of p ''evidence_hash'' = None \<and> ot_hash (last h) \<noteq> [] \<longrightarrow> ot_hash s = ot_hash (last h))"
  using assms by (rule update_appends)

definition demo_lifecycle :: lifecycle where
  "demo_lifecycle = \<lparr>ol_store = empty_store, ol_guard = demo_guard\<lparr>gd_stage := ''reduce_only''\<rparr>,
     ol_planner = \<lparr>pl_errors = [], pl_config = [], pl_audit = []\<rparr>, ol_audit = [], ol_metrics = [], ol_agenda = [],
     ol_health = [], ol_calls = []\<rparr>"

lemma empty_load [simp]: "load_order i mode now empty_store = Inr (None, None)"
  by (simp add: load_order_def load_envelope_def latest_state_def history_def)
    (simp add: empty_store_def)

lemma days_upto_empty [simp]: "days_upto d m empty_store"
  by (simp add: days_upto_def)

theorem update_appends_state_witness:
  "\<exists>s lc'. update_order (\<lambda>x. x) ''order-1'' ''sent'' ''paper'' [] None demo_clock demo_lifecycle = (Inr s, lc') \<and>
     latest_state ''order-1'' ''paper'' (ol_store lc') = Inr (Some (norm_state s))"
proof -
  have st: "days_upto (day_name demo_clock) ''paper'' (ol_store demo_lifecycle)" by (simp add: demo_lifecycle_def)
  have "ol_store demo_lifecycle = empty_store" by (simp add: demo_lifecycle_def)
  then have "\<exists>s lc'. update_order (\<lambda>x. x) ''order-1'' ''sent'' ''paper'' [] None demo_clock demo_lifecycle = (Inr s, lc')"
    by (simp add: update_order_def next_state_def note_queue_wait_def Let_def)
  then obtain s lc' where "update_order (\<lambda>x. x) ''order-1'' ''sent'' ''paper'' [] None demo_clock demo_lifecycle = (Inr s, lc')"
    by blast
  with update_appends_state [OF st this] show ?thesis by blast
qed

text \<open>An order is created only where the stage is not \<open>manual_only\<close>, and in \<open>reduce_only\<close> only for a
  reduce-only ticket; its envelope reads back, its history gains one state \<open>created\<close>. A ticket
  refused for its stage changes nothing.\<close>

theorem create_respects_stage:
  fixes lc :: lifecycle and ctx :: "pydict option"
  defines "stage \<equiv> create_stage ctx (ol_guard lc)"
  shows "(stage = ''manual_only'' \<longrightarrow>
      create_order sha ticket ctx hex now lc = (Inl (OrderDispatchRejected ''stage_manual_only'' ''RUN-BROKER-API-03''), lc)) \<and>
    (stage = ''reduce_only'' \<and> \<not> truthy (dget_def ticket ''reduce_only'' (PBool False)) \<longrightarrow>
      create_order sha ticket ctx hex now lc = (Inl (OrderDispatchRejected ''stage_reduce_only_required'' ''RUN-RISK-01''), lc)) \<and>
    (\<forall>e lc' h. create_order sha ticket ctx hex now lc = (Inr e, lc') \<and> days_upto (day_name now) (oe_mode e) (ol_store lc) \<and>
        history (oe_id e) (oe_mode e) (ol_store lc) = Inr h \<longrightarrow>
      stage \<noteq> ''manual_only'' \<and> oe_stage e = stage \<and> (stage = ''reduce_only'' \<longrightarrow> oe_reduce_only e) \<and>
      load_envelope (utc_iso now) (oe_id e) (oe_mode e) (ol_store lc') = Inr (Some e) \<and>
      history (oe_id e) (oe_mode e) (ol_store lc') = Inr (h @ [new_order_state sha (oe_id e) now]))"
proof (intro conjI allI impI; (elim conjE)?)
  fix e lc' h
  assume c: "create_order sha ticket ctx hex now lc = (Inr e, lc')"
    and d: "days_upto (day_name now) (oe_mode e) (ol_store lc)"
    and h: "history (oe_id e) (oe_mode e) (ol_store lc) = Inr h"
  from c have s: "stage \<noteq> ''manual_only''" "oe_stage e = stage" "stage = ''reduce_only'' \<longrightarrow> oe_reduce_only e"
    and st: "ol_store lc' = save_order_state (new_order_state sha (oe_id e) now) (oe_mode e) now now (save_envelope e (ol_store lc))"
    by (auto simp: create_order_def Let_def stage_def split: if_splits sum.splits)
  have n: "ot_schema (new_order_state sha (oe_id e) now) \<noteq> []" "ot_id (new_order_state sha (oe_id e) now) = oe_id e"
    "norm_state (new_order_state sha (oe_id e) now) = new_order_state sha (oe_id e) now"
    by (simp_all add: new_order_state_def norm_state_def)
  show "stage \<noteq> ''manual_only''" "oe_stage e = stage" using s by simp_all
  show "oe_reduce_only e" if "stage = ''reduce_only''" using s that by simp
  show "load_envelope (utc_iso now) (oe_id e) (oe_mode e) (ol_store lc') = Inr (Some e)"
    by (simp add: st load_envelope_saved)
  show "history (oe_id e) (oe_mode e) (ol_store lc') = Inr (h @ [new_order_state sha (oe_id e) now])"
    using d h n by (simp add: st history_save)
qed (simp_all add: create_order_def Let_def stage_def)

theorem create_respects_stage_witness:
  "\<exists>e lc'. create_order (\<lambda>x. x) [(''reduce_only'', PBool True)] None ''ab'' demo_clock demo_lifecycle = (Inr e, lc') \<and>
     load_envelope (utc_iso demo_clock) (oe_id e) (oe_mode e) (ol_store lc') = Inr (Some e)"
proof -
  have st: "ol_store demo_lifecycle = empty_store" "create_stage None (ol_guard demo_lifecycle) = ''reduce_only''"
    by (simp_all add: demo_lifecycle_def create_stage_def)
  have "\<exists>e lc'. create_order (\<lambda>x. x) [(''reduce_only'', PBool True)] None ''ab'' demo_clock demo_lifecycle = (Inr e, lc')"
    by (simp add: create_order_def st Let_def py_dict_def py_or_def)
  then obtain e lc' where
    c: "create_order (\<lambda>x. x) [(''reduce_only'', PBool True)] None ''ab'' demo_clock demo_lifecycle = (Inr e, lc')" by blast
  have "days_upto (day_name demo_clock) (oe_mode e) (ol_store demo_lifecycle)"
    "history (oe_id e) (oe_mode e) (ol_store demo_lifecycle) = Inr []"
    by (simp_all add: st history_def)
  with c create_respects_stage [of None demo_lifecycle "\<lambda>x. x" "[(''reduce_only'', PBool True)]" "''ab''" demo_clock]
  show ?thesis by blast
qed

text \<open>A context that has entries but no stage stands in for the guard: the stage becomes the text
  \<open>None\<close> and the order is created, even though the guard is at \<open>manual_only\<close>.\<close>

theorem create_without_stage:
  "\<exists>e lc'. create_order sha [] (Some [(''actor'', PStr a)]) hex now (lc\<lparr>ol_guard := g\<lparr>gd_stage := ''manual_only''\<rparr>\<rparr>) = (Inr e, lc') \<and>
     oe_stage e = ''None''"
  by (simp add: create_order_def create_stage_def Let_def py_dict_def py_or_def)

text \<open>An update to \<open>queued\<close> whose wait is not a number raises after the state was saved: the caller
  sees a ValueError, the store has the new state as the latest.\<close>

theorem queued_update_raises_after_save:
  fixes lc :: lifecycle and sha :: "string \<Rightarrow> string" and i mode :: string and now :: pydt
  defines "r \<equiv> update_order sha i ''queued'' mode [(''queue_wait_ms'', PStr ''soon'')] None now (lc\<lparr>ol_store := empty_store\<rparr>)"
  shows "fst r = Inl ValueError \<and>
    (\<exists>s. latest_state i mode (ol_store (snd r)) = Inr (Some s) \<and> ot_status s = ''queued'')"
proof -
  let ?p = "[(''queue_wait_ms'', PStr ''soon'')]"
  define lc0 where "lc0 = lc\<lparr>ol_store := empty_store\<rparr>"
  have l: "load_order i mode now (ol_store lc0) = Inr (None, None)" by (simp add: lc0_def)
  obtain s where n: "next_state sha i ''queued'' ?p None now None = Inr s"
    by (auto simp: next_state_def Let_def)
  have d: "days_upto (day_name now) mode (ol_store lc0)" "history i mode (ol_store lc0) = Inr []"
    by (simp_all add: lc0_def history_def)
  have "parse_float ''soon'' = None" by code_simp
  then have "fst r = Inl ValueError"
    using l n by (simp add: r_def update_order_def note_queue_wait_def py_float_def Let_def case_prod_unfold lc0_def)
  moreover have "latest_state i mode (ol_store (snd r)) = Inr (Some (norm_state s))"
    using save_state_appends [OF d(1), of s "[]" now] next_state_sel [OF n] d(2) update_order_saves(1) [OF l n]
    by (simp add: r_def lc0_def)
  moreover have "ot_status (norm_state s) = ''queued''"
    using next_state_sel [OF n] by (simp add: norm_state_def)
  ultimately show ?thesis by blast
qed

text \<open>A scheduled recovery leaves an \<open>error\<close> state with the broker code and the plan as the order's
  latest, keeps the attempt count, and puts exactly one task on the agenda; the plan has an action.\<close>

theorem recovery_recorded:
  assumes "days_upto (day_name now) mode (ol_store lc)"
    "schedule_recovery sha i mode code ctx hex now lc = (Inr (s, plan), lc')"
  shows "\<exists>h task. history i mode (ol_store lc) = Inr h \<and> latest_state i mode (ol_store lc') = Inr (Some (norm_state s)) \<and>
    ot_status s = ''error'' \<and> ot_error s = PStr code \<and> ot_recovery s = Some plan \<and> rp_actions plan \<noteq> [] \<and>
    rp_order plan = i \<and> (h \<noteq> [] \<longrightarrow> ot_attempt s = ot_attempt (last h)) \<and> ol_agenda lc' = ol_agenda lc @ [task]"
proof -
  let ?p = "\<lambda>err. [(''error_code'', PStr code), (''runbook_ref'', PStr (ex_runbook err))]"
  from assms(2) obtain env cur stage att lst err p' lc1 where
    p: "plan_recovery i code stage att lst ctx hex now (ol_planner lc) = Inr (plan, err, p')"
    and u: "update_order sha i ''error'' mode (?p err) (Some plan) now (lc\<lparr>ol_planner := p'\<rparr>) = (Inr s, lc1)"
    and st: "ol_store lc' = ol_store lc1" and ag: "\<exists>task. ol_agenda lc' = ol_agenda lc1 @ [task]"
    by (auto simp: schedule_recovery_def bind_res_eq_Inr split: sum.splits prod.splits)
  have d: "days_upto (day_name now) mode (ol_store (lc\<lparr>ol_planner := p'\<rparr>))" using assms(1) by simp
  from update_appends [OF d u] obtain h where h: "history i mode (ol_store lc) = Inr h"
    "latest_state i mode (ol_store lc1) = Inr (Some (norm_state s))" "ot_status s = ''error''"
    "h \<noteq> [] \<longrightarrow> ot_attempt s = ot_attempt (last h)" by auto
  from update_order_Inr [OF u] obtain env' cur' where
    l: "load_order i mode now (ol_store (lc\<lparr>ol_planner := p'\<rparr>)) = Inr (env', cur')"
    and n: "next_state sha i ''error'' (?p err) (Some plan) now cur' = Inr s" by blast
  have "ol_agenda lc1 = ol_agenda lc" using update_order_saves(2) [OF l n] u by simp
  moreover have "rp_actions plan \<noteq> [] \<and> rp_order plan = i"
    using recovery_facts [OF p] by blast
  ultimately show ?thesis
    using h st ag next_state_sel [OF n] by auto
qed

definition demo_planner :: planner where
  "demo_planner = \<lparr>pl_errors = [(''UNKNOWN'', \<lparr>ed_code = ''UNKNOWN'', ed_reason = ''unknown'', ed_audit = ''audit.unknown'',
     ed_runbook = ''RUN-1'', ed_retry = \<lparr>rt_mode = ''manual'', rt_max = 1, rt_backoff = None, rt_handoff = PNone\<rparr>,
     ed_template = ''x'', ed_required = []\<rparr>)], pl_config = [], pl_audit = []\<rparr>"

theorem recovery_recorded_witness:
  "\<exists>s plan lc'. schedule_recovery (\<lambda>x. x) ''order-1'' ''paper'' ''E42'' [] ''ff'' demo_clock
      (demo_lifecycle\<lparr>ol_planner := demo_planner\<rparr>) = (Inr (s, plan), lc') \<and> ot_status s = ''error''"
proof -
  define lc where "lc = demo_lifecycle\<lparr>ol_planner := demo_planner\<rparr>"
  have e: "ol_store lc = empty_store" "ol_planner lc = demo_planner" by (simp_all add: lc_def demo_lifecycle_def)
  then have d: "days_upto (day_name demo_clock) ''paper'' (ol_store lc)" by simp
  have "\<exists>s plan lc'. schedule_recovery (\<lambda>x. x) ''order-1'' ''paper'' ''E42'' [] ''ff'' demo_clock lc = (Inr (s, plan), lc')"
    by (simp add: schedule_recovery_def e plan_recovery_def lookup_error_def demo_planner_def missing_context_def Let_def
        update_order_def next_state_def note_queue_wait_def recovery_sla_minutes_def)
  then obtain s plan lc' where
    "schedule_recovery (\<lambda>x. x) ''order-1'' ''paper'' ''E42'' [] ''ff'' demo_clock lc = (Inr (s, plan), lc')" by blast
  with recovery_recorded [OF d this] show ?thesis unfolding lc_def by blast
qed

end
