(* ===== verification/Policy.thy ===== *)
theory Policy
  imports PyTime "HOL-Library.List_Lexorder"
begin

text \<open>
  \<open>src/infra/broker_rules.py\<close> and \<open>src/brokers/policy.py\<close>: the broker rules read from a YAML file and
  the check of an order against them. The document of the file, the outcome of the optional schema
  validation (a third-party package; None where it passes or is absent) and the path the loader names
  in its messages are arguments, and so are the clock and the time-zone database: \<open>zone\<close> gives the
  UTC offset of a zone at an instant in seconds, None for a name it does not know.

  Shown: which violations an order has, and in which cases the trading window is decided on the day
  of another time zone.
\<close>

section \<open>Rules\<close>

record time_window =
  tw_label :: string
  tw_start :: string
  tw_end :: string
  tw_zone :: string
  tw_days :: "string list"
  tw_notes :: "string list"

record symbol_rules =
  sr_symbol :: string
  sr_description :: string
  sr_pip_size :: pyfloat
  sr_contract_size :: pyfloat
  sr_min_lot :: pyfloat
  sr_lot_step :: pyfloat
  sr_precision :: int
  sr_min_distance :: "(string \<times> pyfloat) list"
  sr_freeze_level :: pyfloat
  sr_fifo :: bool
  sr_margin_mode :: string
  sr_windows :: "time_window list"
  sr_runbooks :: "string list"
  sr_notes :: "string list"
  sr_max_positions :: "int option"
  sr_protect_pips :: "pyfloat option"
  sr_order_types :: "string list"
  sr_swap_day :: "string option"
  sr_liquidity :: "string list"
  sr_metadata :: pydict

record broker_rules =
  br_schema :: string
  br_runbook :: string
  br_reviewed :: "string option"
  br_notes :: "string list"
  br_symbols :: "(string \<times> symbol_rules) list"

text \<open>\<open>except KeyError\<close> around a block.\<close>

definition on_key_error :: "string \<Rightarrow> 'a res \<Rightarrow> 'a res" where
  "on_key_error msg r = (case r of Inl KeyError \<Rightarrow> Inl (BrokerRulesError msg) | _ \<Rightarrow> r)"

text \<open>\<open>tuple(str(x) for x in v)\<close>.\<close>

definition str_tuple :: "pyval \<Rightarrow> string list res" where
  "str_tuple v = bind_res (py_iter v) (\<lambda>xs. Inr (map py_str xs))"

definition index_str :: "pydict \<Rightarrow> string \<Rightarrow> string res" where
  "index_str d k = bind_res (dindex d k) (\<lambda>v. Inr (py_str v))"

definition index_float :: "pydict \<Rightarrow> string \<Rightarrow> pyfloat res" where
  "index_float d k = bind_res (dindex d k) py_float"

definition window_from_mapping :: "pyval \<Rightarrow> time_window res" where
  "window_from_mapping v =
     bind_res (on_key_error ''Allowed time window is missing required fields''
       (bind_res (as_dict v) (\<lambda>d. bind_res (index_str d ''label'') (\<lambda>l. bind_res (index_str d ''start'') (\<lambda>s.
        bind_res (index_str d ''end'') (\<lambda>e. bind_res (index_str d ''timezone'') (\<lambda>z. Inr (d, l, s, e, z)))))))) (\<lambda>(d, l, s, e, z).
     bind_res (case dget_def d ''days'' (PList []) of PStr x \<Rightarrow> Inr [x] | y \<Rightarrow> str_tuple y) (\<lambda>days.
     bind_res (str_tuple (dget_def d ''notes'' (PList []))) (\<lambda>notes.
     Inr \<lparr>tw_label = l, tw_start = s, tw_end = e, tw_zone = z, tw_days = days, tw_notes = notes\<rparr>)))"

definition symbol_base :: "string \<Rightarrow> pydict \<Rightarrow> (symbol_rules \<times> pyval) res" where
  "symbol_base symbol d =
     bind_res (index_str d ''description'') (\<lambda>desc. bind_res (index_float d ''pip_size'') (\<lambda>pip.
     bind_res (index_float d ''contract_size'') (\<lambda>contract. bind_res (index_float d ''min_lot'') (\<lambda>lot.
     bind_res (index_float d ''lot_step'') (\<lambda>step. bind_res (bind_res (dindex d ''precision'') py_int) (\<lambda>prec.
     bind_res (index_float d ''freeze_level_pips'') (\<lambda>freeze. bind_res (dindex d ''fifo_required'') (\<lambda>fifo.
     bind_res (index_str d ''margin_mode'') (\<lambda>margin. bind_res (dindex d ''runbook_links'') (\<lambda>links.
     Inr (\<lparr>sr_symbol = symbol, sr_description = desc, sr_pip_size = pip, sr_contract_size = contract, sr_min_lot = lot,
           sr_lot_step = step, sr_precision = prec, sr_min_distance = [], sr_freeze_level = freeze, sr_fifo = truthy fifo,
           sr_margin_mode = margin, sr_windows = [], sr_runbooks = [], sr_notes = [], sr_max_positions = None,
           sr_protect_pips = None, sr_order_types = [], sr_swap_day = None, sr_liquidity = [], sr_metadata = []\<rparr>, links)))))))))))"

definition opt_res :: "(pyval \<Rightarrow> 'a res) \<Rightarrow> pyval \<Rightarrow> 'a option res" where
  "opt_res f v = (if v = PNone then Inr None else bind_res (f v) (\<lambda>x. Inr (Some x)))"

definition symbol_from_mapping :: "string \<Rightarrow> pyval \<Rightarrow> symbol_rules res" where
  "symbol_from_mapping symbol v =
     bind_res (as_dict v) (\<lambda>d.
     bind_res (on_key_error (''Symbol '' @ symbol @ '' is missing required fields'') (symbol_base symbol d)) (\<lambda>(base, links).
     bind_res (case dget_def d ''min_distance_pips'' (PDict []) of
         PDict m \<Rightarrow> map_res (\<lambda>(k, x). bind_res (py_float x) (\<lambda>y. Inr (k, y))) m
       | _ \<Rightarrow> Inl (BrokerRulesError (''Symbol '' @ symbol @ '' min_distance_pips must be a mapping''))) (\<lambda>dist.
     bind_res (bind_res (py_iter (dget_def d ''allowed_time_windows'' (PList []))) (map_res window_from_mapping)) (\<lambda>windows.
     bind_res (str_tuple links) (\<lambda>runbooks.
     bind_res (str_tuple (dget_def d ''notes'' (PList []))) (\<lambda>notes.
     bind_res (str_tuple (dget_def d ''allowed_order_types'' (PList []))) (\<lambda>types.
     bind_res (str_tuple (dget_def d ''liquidity_tags'' (PList []))) (\<lambda>tags.
     bind_res (case dget_def d ''metadata'' (PDict []) of PDict m \<Rightarrow> Inr m
       | _ \<Rightarrow> Inl (BrokerRulesError (''Symbol '' @ symbol @ '' metadata must be a mapping''))) (\<lambda>meta.
     bind_res (opt_res py_int (dget d ''max_positions'')) (\<lambda>maxp.
     bind_res (opt_res py_float (dget d ''protect_pips'')) (\<lambda>protect.
     bind_res (opt_res (\<lambda>x. Inr (py_str x)) (dget d ''swap_triple_day'')) (\<lambda>swap.
     Inr (base\<lparr>sr_min_distance := dist, sr_windows := windows, sr_runbooks := runbooks, sr_notes := notes,
            sr_max_positions := maxp, sr_protect_pips := protect, sr_order_types := types, sr_swap_day := swap,
            sr_liquidity := tags, sr_metadata := meta\<rparr>)))))))))))))"

definition load_rules :: "string \<Rightarrow> json_file \<Rightarrow> (pyval \<Rightarrow> string option) \<Rightarrow> broker_rules res" where
  "load_rules path file schema_error = (case file of
       None \<Rightarrow> Inl (BrokerRulesError (''Broker rules file does not exist: '' @ path))
     | Some None \<Rightarrow> Inl ValueError
     | Some (Some (PDict d)) \<Rightarrow>
         (case schema_error (PDict d) of
            Some e \<Rightarrow> Inl (BrokerRulesError (''Broker rules schema validation failed: '' @ e))
          | None \<Rightarrow>
              let version = py_str (dget_def d ''schema_version'' (PStr [])); runbook = py_str (dget_def d ''runbook_ref'' (PStr []))
              in if version = [] then Inl (BrokerRulesError ''Broker rules schema_version is required'')
                 else if runbook = [] then Inl (BrokerRulesError ''Broker rules runbook_ref is required'')
                 else bind_res (str_tuple (dget_def d ''notes'' (PList []))) (\<lambda>notes.
                   case dget_def d ''symbols'' (PDict []) of
                     PDict raw \<Rightarrow> bind_res (map_res (\<lambda>(k, x). bind_res (symbol_from_mapping k x) (\<lambda>r. Inr (k, r))) raw) (\<lambda>symbols.
                       Inr \<lparr>br_schema = version, br_runbook = runbook,
                         br_reviewed = (if dget d ''last_reviewed'' = PNone then None else Some (py_str (dget d ''last_reviewed''))),
                         br_notes = notes, br_symbols = symbols\<rparr>)
                   | _ \<Rightarrow> Inl (BrokerRulesError ''Broker rules symbols section must be a mapping'')))
     | Some (Some _) \<Rightarrow> Inl (BrokerRulesError (''Broker rules file must deserialize to a mapping: '' @ path)))"

definition for_symbol :: "broker_rules \<Rightarrow> string \<Rightarrow> symbol_rules res" where
  "for_symbol r symbol = (case map_of (br_symbols r) symbol of
       Some x \<Rightarrow> Inr x
     | None \<Rightarrow> Inl (BrokerRulesError (''Symbol '' @ symbol @ '' is not defined in broker rules (available: ''
         @ str_join '', '' (sort (map fst (br_symbols r))) @ '')'')))"

section \<open>Trading windows\<close>

definition weekday_name :: "pydt \<Rightarrow> string" where
  "weekday_name now = [''mon'', ''tue'', ''wed'', ''thu'', ''fri'', ''sat'', ''sun''] !
     nat (weekday_of_days (days_from_civil (yr now) (mo now) (dy now)))"

text \<open>\<open>strptime(text, "%H:%M")\<close> as microseconds of the day: one or two digits on each side.\<close>

definition short_number :: "string \<Rightarrow> nat option" where
  "short_number s = (if (length s = 1 \<or> length s = 2) \<and> list_all is_digit s then Some (digits_val s) else None)"

definition parse_hm :: "string \<Rightarrow> int res" where
  "parse_hm s = (case split_once '':'' s of
       None \<Rightarrow> Inl ValueError
     | Some (a, b) \<Rightarrow> (case (short_number a, short_number b) of
           (Some h, Some m) \<Rightarrow> if h < 24 \<and> m < 60 then Inr (int (h * 60 + m) * 60000000) else Inl ValueError
         | _ \<Rightarrow> Inl ValueError))"

definition local_time :: "(string \<Rightarrow> pydt \<Rightarrow> int option) \<Rightarrow> string \<Rightarrow> pydt \<Rightarrow> int" where
  "local_time zone z now = (epoch_us now + (case zone z now of None \<Rightarrow> 0 | Some s \<Rightarrow> s * 1000000)) mod 86400000000"

definition time_between :: "int \<Rightarrow> int \<Rightarrow> int \<Rightarrow> bool" where
  "time_between start stop t = (if start \<le> stop then start \<le> t \<and> t \<le> stop else start \<le> t \<or> t \<le> stop)"

fun within_windows :: "(string \<Rightarrow> pydt \<Rightarrow> int option) \<Rightarrow> pydt \<Rightarrow> time_window list \<Rightarrow> bool res" where
  "within_windows zone now [] = Inr False"
| "within_windows zone now (w # ws) =
     (if tw_days w \<noteq> [] \<and> weekday_name now \<notin> set (tw_days w) then within_windows zone now ws
      else bind_res (parse_hm (tw_start w)) (\<lambda>s. bind_res (parse_hm (tw_end w)) (\<lambda>e.
        if time_between s e (local_time zone (tw_zone w) now) then Inr True else within_windows zone now ws)))"

definition is_within_trading_window :: "(string \<Rightarrow> pydt \<Rightarrow> int option) \<Rightarrow> time_window list \<Rightarrow> pydt \<Rightarrow> bool res" where
  "is_within_trading_window zone ws now = (if ws = [] then Inr True else within_windows zone now ws)"

section \<open>Validation\<close>

record violation =
  vi_code :: string
  vi_message :: string
  vi_runbook :: "string option"

definition normalize_entry_type :: "string \<Rightarrow> string" where
  "normalize_entry_type t = (if t = ''marketable_limit'' then ''limit'' else t)"

definition order_type_allowed :: "symbol_rules \<Rightarrow> string \<Rightarrow> bool" where
  "order_type_allowed r t =
     (if sr_order_types r = [] \<or> normalize_entry_type t = [] then True
      else if t = ''marketable_limit'' then ''marketable_limit'' \<in> set (sr_order_types r) \<or> ''limit'' \<in> set (sr_order_types r)
      else normalize_entry_type t \<in> set (sr_order_types r))"

definition too_many_positions :: "symbol_rules \<Rightarrow> int \<Rightarrow> bool" where
  "too_many_positions r n = (case sr_max_positions r of None \<Rightarrow> False | Some k \<Rightarrow> k < n)"

definition validate_order ::
  "(string \<Rightarrow> pydt \<Rightarrow> int option) \<Rightarrow> broker_rules \<Rightarrow> pydict \<Rightarrow> pydt \<Rightarrow> violation list res" where
  "validate_order zone rules payload now =
     (let symbol = py_str (py_or (dget payload ''symbol'') (PStr []));
          entry = py_str (py_or (py_or (dget payload ''entry_type'') (dget payload ''order_type'')) (PStr []))
      in bind_res (py_int (py_or (dget payload ''open_positions'') (PInt 0))) (\<lambda>open_positions.
         if symbol = [] then Inr [\<lparr>vi_code = ''symbol_missing'', vi_message = ''Symbol is required.'', vi_runbook = None\<rparr>]
         else case for_symbol rules symbol of
           Inl (BrokerRulesError msg) \<Rightarrow> Inr [\<lparr>vi_code = ''symbol_unknown'', vi_message = msg, vi_runbook = None\<rparr>]
         | Inl e \<Rightarrow> Inl e
         | Inr r \<Rightarrow>
             let ref = (case sr_runbooks r of [] \<Rightarrow> None | x # _ \<Rightarrow> Some x);
                 v1 = (if order_type_allowed r entry then [] else [\<lparr>vi_code = ''order_type_invalid'',
                     vi_message = entry @ '' is not allowed for '' @ symbol, vi_runbook = ref\<rparr>]);
                 v2 = (if too_many_positions r open_positions then [\<lparr>vi_code = ''max_positions_exceeded'',
                     vi_message = int_str open_positions @ '' exceeds max_positions='' @ int_str (the (sr_max_positions r)),
                     vi_runbook = ref\<rparr>] else [])
             in if sr_windows r = [] then Inr (v1 @ v2)
                else bind_res (is_within_trading_window zone (sr_windows r) now) (\<lambda>inside.
                  Inr (v1 @ v2 @ (if inside then [] else [\<lparr>vi_code = ''trading_session_closed'',
                    vi_message = symbol @ '' is outside allowed trading windows'', vi_runbook = ref\<rparr>])))))"

section \<open>Facts\<close>

lemma validate_order_Inr:
  assumes "validate_order zone rules p now = Inr vs" "vs = [] \<or> (\<forall>v\<in>set vs. vi_code v = ''trading_session_closed'')"
  defines "symbol \<equiv> py_str (py_or (dget p ''symbol'') (PStr []))"
    and "entry \<equiv> py_str (py_or (py_or (dget p ''entry_type'') (dget p ''order_type'')) (PStr []))"
  shows "\<exists>sr n. map_of (br_symbols rules) symbol = Some sr \<and> py_int (py_or (dget p ''open_positions'') (PInt 0)) = Inr n \<and>
    order_type_allowed sr entry \<and> \<not> too_many_positions sr n \<and>
    (vs = [] \<longrightarrow> is_within_trading_window zone (sr_windows sr) now = Inr True)"
proof -
  obtain n where n: "py_int (py_or (dget p ''open_positions'') (PInt 0)) = Inr n"
    using assms(1) by (auto simp: validate_order_def Let_def bind_res_eq_Inr)
  have s: "symbol \<noteq> []"
    using assms(1,2) n by (auto simp: validate_order_def Let_def symbol_def)
  obtain sr where sr: "map_of (br_symbols rules) symbol = Some sr"
    using assms(1,2) n s by (cases "map_of (br_symbols rules) symbol")
      (auto simp: validate_order_def Let_def symbol_def [symmetric] for_symbol_def)
  show ?thesis
    using assms(1,2) n s sr
    by (auto simp: validate_order_def Let_def symbol_def [symmetric] entry_def [symmetric] for_symbol_def
        is_within_trading_window_def bind_res_eq_Inr split: if_splits)
qed

lemma within_windows_error: "within_windows zone now ws = Inl e \<Longrightarrow> e = ValueError"
proof (induction ws)
  case (Cons w ws)
  have "parse_hm s = Inl e' \<Longrightarrow> e' = ValueError" for s e'
    by (auto simp: parse_hm_def split: option.splits if_splits)
  with Cons show ?case
    by (cases "parse_hm (tw_start w)"; cases "parse_hm (tw_end w)") (auto split: if_splits)
qed simp

definition violation_codes :: "string set" where
  "violation_codes = {''symbol_missing'', ''symbol_unknown'', ''order_type_invalid'', ''max_positions_exceeded'', ''trading_session_closed''}"

lemma validate_order_codes:
  "validate_order zone rules p now = Inr vs \<Longrightarrow> v \<in> set vs \<Longrightarrow> vi_code v \<in> violation_codes"
  by (auto simp: validate_order_def Let_def bind_res_eq_Inr for_symbol_def violation_codes_def split: if_splits option.splits)

lemma validate_order_positions:
  assumes "validate_order zone rules p now = Inr vs" "v \<in> set vs" "vi_code v = ''max_positions_exceeded''"
  shows "\<exists>x sr n. map_of (br_symbols rules) x = Some sr \<and> py_int (py_or (dget p ''open_positions'') (PInt 0)) = Inr n \<and>
    too_many_positions sr n"
proof -
  define symbol where "symbol = py_str (py_or (dget p ''symbol'') (PStr []))"
  obtain n where n: "py_int (py_or (dget p ''open_positions'') (PInt 0)) = Inr n"
    using assms(1) by (auto simp: validate_order_def Let_def bind_res_eq_Inr)
  have s: "symbol \<noteq> []" using assms n by (auto simp: validate_order_def Let_def symbol_def)
  obtain sr where sr: "map_of (br_symbols rules) symbol = Some sr"
    using assms n s by (cases "map_of (br_symbols rules) symbol")
      (auto simp: validate_order_def Let_def symbol_def [symmetric] for_symbol_def)
  have "too_many_positions sr n"
    using assms n s sr
    by (auto simp: validate_order_def Let_def symbol_def [symmetric] for_symbol_def bind_res_eq_Inr split: if_splits)
  with n sr show ?thesis by blast
qed

lemma validate_order_error:
  "validate_order zone rules p now = Inl e \<Longrightarrow> e \<in> {ValueError, TypeError, OverflowError}"
proof -
  have i: "py_int v = Inl e' \<Longrightarrow> e' \<in> {ValueError, TypeError, OverflowError}" for v e'
    by (auto simp: py_int_def split: pyval.splits pyfloat.splits option.splits)
  assume v: "validate_order zone rules p now = Inl e"
  show ?thesis
  proof (cases "py_int (py_or (dget p ''open_positions'') (PInt 0))")
    case (Inl x)
    with v i show ?thesis by (auto simp: validate_order_def Let_def)
  next
    case (Inr n)
    with v obtain ws where "is_within_trading_window zone ws now = Inl e"
      by (cases "py_str (py_or (dget p ''symbol'') (PStr [])) = []";
          cases "map_of (br_symbols rules) (py_str (py_or (dget p ''symbol'') (PStr [])))")
        (auto simp: validate_order_def Let_def for_symbol_def bind_res_def split: if_split_asm sum.split_asm)
    then show ?thesis using within_windows_error by (auto simp: is_within_trading_window_def split: if_splits)
  qed
qed

section \<open>Trading windows\<close>

text \<open>The reference: a window is open when its days include the day it is where the window is, and the time
  there lies in it.\<close>

definition local_day :: "(string \<Rightarrow> pydt \<Rightarrow> int option) \<Rightarrow> string \<Rightarrow> pydt \<Rightarrow> string" where
  "local_day zone z now = [''mon'', ''tue'', ''wed'', ''thu'', ''fri'', ''sat'', ''sun''] !
     nat (weekday_of_days ((epoch_us now + (case zone z now of None \<Rightarrow> 0 | Some s \<Rightarrow> s * 1000000)) div 86400000000))"

definition window_open :: "(string \<Rightarrow> pydt \<Rightarrow> int option) \<Rightarrow> pydt \<Rightarrow> time_window \<Rightarrow> bool" where
  "window_open zone now w \<longleftrightarrow> (tw_days w = [] \<or> local_day zone (tw_zone w) now \<in> set (tw_days w)) \<and>
     (\<exists>s e. parse_hm (tw_start w) = Inr s \<and> parse_hm (tw_end w) = Inr e \<and> time_between s e (local_time zone (tw_zone w) now))"

definition window_times_ok :: "time_window \<Rightarrow> bool" where
  "window_times_ok w \<longleftrightarrow> (\<exists>s e. parse_hm (tw_start w) = Inr s \<and> parse_hm (tw_end w) = Inr e)"

lemma local_day_own_zone:
  assumes "valid_dt now" "tzo now = Some z" "zone n now = Some z"
  shows "local_day zone n now = weekday_name now"
proof -
  define u where "u = int (hh now * 3600 + mi now * 60 + ss now) * 1000000 + int (us now)"
  have "hh now \<le> 23" "mi now \<le> 59" "ss now \<le> 59" "us now < 1000000" using assms(1) by (auto simp: valid_dt_def)
  then have u: "0 \<le> u" "u < 86400000000" by (simp_all add: u_def)
  have "epoch_us now + z * 1000000 = days_from_civil (yr now) (mo now) (dy now) * 86400000000 + u"
    using assms(2) by (simp add: epoch_us_def u_def algebra_simps)
  then have "(epoch_us now + z * 1000000) div 86400000000 = days_from_civil (yr now) (mo now) (dy now)"
    using u by simp
  then show ?thesis using assms(3) by (simp add: local_day_def weekday_name_def)
qed

lemma within_windows_own_zone:
  assumes "valid_dt now" "tzo now = Some z" "\<forall>w\<in>set ws. zone (tw_zone w) now = Some z \<and> window_times_ok w"
  shows "within_windows zone now ws = Inr (\<exists>w\<in>set ws. window_open zone now w)"
  using assms(3)
proof (induction ws)
  case (Cons w ws)
  have d: "local_day zone (tw_zone w) now = weekday_name now"
    using local_day_own_zone [OF assms(1,2)] Cons.prems by simp
  obtain s e where p: "parse_hm (tw_start w) = Inr s" "parse_hm (tw_end w) = Inr e"
    using Cons.prems by (auto simp: window_times_ok_def)
  show ?case using Cons by (auto simp: window_open_def d p)
qed simp

text \<open>The trading window decides as the reference does when the clock is in the zone of the windows. The clock
  is in UTC, so this covers windows of zones at UTC only.\<close>

theorem trading_window_own_zone:
  assumes "valid_dt now" "tzo now = Some z" "\<forall>w\<in>set ws. zone (tw_zone w) now = Some z \<and> window_times_ok w" "ws \<noteq> []"
  shows "is_within_trading_window zone ws now = Inr (\<exists>w\<in>set ws. window_open zone now w)"
  using within_windows_own_zone [where zone = zone, OF assms(1-3)] assms(4) by (simp add: is_within_trading_window_def)

definition tokyo_window :: time_window where
  "tokyo_window = \<lparr>tw_label = ''tokyo_core'', tw_start = ''00:00'', tw_end = ''09:00'', tw_zone = ''Asia/Tokyo'',
     tw_days = [''mon'', ''tue'', ''wed'', ''thu'', ''fri''], tw_notes = []\<rparr>"

text \<open>20 and 21 hours UTC of a Sunday and a Friday: Monday and Saturday morning in Tokyo.\<close>

definition sunday_evening :: pydt where
  "sunday_evening = \<lparr>yr = 2026, mo = 1, dy = 4, hh = 23, mi = 0, ss = 0, us = 0, tzo = Some 0\<rparr>"

definition friday_evening :: pydt where
  "friday_evening = \<lparr>yr = 2026, mo = 1, dy = 9, hh = 23, mi = 0, ss = 0, us = 0, tzo = Some 0\<rparr>"

lemma tokyo_times [simp]: "parse_hm ''00:00'' = Inr 0" "parse_hm ''09:00'' = Inr 32400000000"
  by code_simp+

theorem trading_window_own_zone_witness:
  "is_within_trading_window (\<lambda>n t. Some 0) [tokyo_window] sunday_evening = Inr (\<exists>w\<in>set [tokyo_window]. window_open (\<lambda>n t. Some 0) sunday_evening w)"
proof -
  have v: "valid_dt sunday_evening" by (simp add: sunday_evening_def valid_dt_def month_len_def)
  have z: "tzo sunday_evening = Some 0" by (simp add: sunday_evening_def)
  have "parse_hm (tw_start tokyo_window) = Inr 0" "parse_hm (tw_end tokyo_window) = Inr 32400000000"
    by (simp_all add: tokyo_window_def)
  then have t: "\<forall>w\<in>set [tokyo_window]. Some 0 = Some (0 :: int) \<and> window_times_ok w"
    by (simp add: window_times_ok_def)
  show ?thesis by (rule trading_window_own_zone [OF v z t]) simp
qed

text \<open>For a window in another zone the weekday is the clock's (UTC) and the time the window's: a Tokyo window
  for Monday to Friday is closed on Monday at 8 in Tokyo and open on Saturday at 8.\<close>

theorem tokyo_window_wrong_day:
  "is_within_trading_window (\<lambda>n t. Some 32400) [tokyo_window] sunday_evening = Inr False \<and>
   window_open (\<lambda>n t. Some 32400) sunday_evening tokyo_window \<and>
   is_within_trading_window (\<lambda>n t. Some 32400) [tokyo_window] friday_evening = Inr True \<and>
   \<not> window_open (\<lambda>n t. Some 32400) friday_evening tokyo_window"
proof (intro conjI)
  have e: "epoch_us sunday_evening = 1767567600000000" "epoch_us friday_evening = 1767999600000000"
    by (simp_all add: sunday_evening_def friday_evening_def epoch_us_def days_from_civil_def Let_def)
  have l: "local_time (\<lambda>n t. Some 32400) ''Asia/Tokyo'' sunday_evening = 28800000000"
    "local_time (\<lambda>n t. Some 32400) ''Asia/Tokyo'' friday_evening = 28800000000"
    "local_day (\<lambda>n t. Some 32400) ''Asia/Tokyo'' sunday_evening = ''mon''"
    "local_day (\<lambda>n t. Some 32400) ''Asia/Tokyo'' friday_evening = ''sat''"
    by (simp_all add: local_time_def local_day_def e weekday_of_days_def)
  have w: "weekday_name sunday_evening = ''sun''" "weekday_name friday_evening = ''fri''"
    by (simp_all add: sunday_evening_def friday_evening_def weekday_name_def weekday_of_days_def days_from_civil_def Let_def)
  have t: "tw_days tokyo_window = [''mon'', ''tue'', ''wed'', ''thu'', ''fri'']" "tw_zone tokyo_window = ''Asia/Tokyo''"
    "parse_hm (tw_start tokyo_window) = Inr 0" "parse_hm (tw_end tokyo_window) = Inr 32400000000"
    by (simp_all add: tokyo_window_def)
  show "is_within_trading_window (\<lambda>n t. Some 32400) [tokyo_window] sunday_evening = Inr False"
    by (simp add: is_within_trading_window_def t w)
  show "is_within_trading_window (\<lambda>n t. Some 32400) [tokyo_window] friday_evening = Inr True"
    by (simp add: is_within_trading_window_def t w l time_between_def)
  show "window_open (\<lambda>n t. Some 32400) sunday_evening tokyo_window" "\<not> window_open (\<lambda>n t. Some 32400) friday_evening tokyo_window"
    by (simp_all add: window_open_def t l time_between_def)
qed

end
