(* ===== verification/RateLimit.thy ===== *)
theory RateLimit
  imports PyTime Systems
begin

text \<open>
  The rate limiter of \<open>src/brokers/monitor.py\<close>: \<open>RateLimitWindow\<close>, a token bucket with a queue of
  deferred operations and one token of credit for high-priority ones. The monotonic clock is read
  several times in a method; the readings of one call are taken to be equal and are the argument
  \<open>now\<close>, the wall clock that dates the metric records is \<open>ts\<close>. Python keeps the token count as an
  int after it was capped by \<open>burst\<close>; the model has the float of the same value.

  Shown: the token count stays between -1 (one credit) and the burst, at most burst + 1 operations
  pass at the instant of a refill, and (against the intent) the sustained rate is not enforced
  between two refill marks.
\<close>

record queue_entry =
  qe_operation :: string
  qe_priority :: string
  qe_at :: pyfloat

record reservation =
  rv_allowed :: bool
  rv_wait :: pyfloat
  rv_wait_ms :: pyfloat
  rv_priority :: string
  rv_tokens :: pyfloat
  rv_queued :: bool
  rv_depth :: int

record limiter =
  rl_burst :: int
  rl_sustained :: int
  rl_reset :: int
  rl_rules :: "(string \<times> string) list"
  rl_max_queue :: int
  rl_tokens :: pyfloat
  rl_last :: pyfloat
  rl_queue :: "queue_entry list"
  rl_credit_used :: int
  rl_metrics :: "pydict list"

text \<open>\<open>_credit_limit\<close>, set to 1 and never changed.\<close>

definition credit_limit :: int where
  "credit_limit = 1"

section \<open>Construction\<close>

definition rate_limit_config :: "pydict \<Rightarrow> (int \<times> int \<times> int \<times> (string \<times> string) list \<times> int) res" where
  "rate_limit_config p =
     bind_res (py_int (dget_def p ''burst'' (PInt 30))) (\<lambda>b.
     bind_res (py_int (dget_def p ''sustained_per_min'' (PInt 60))) (\<lambda>s.
     bind_res (py_int (dget_def p ''reset_sec'' (PInt 60))) (\<lambda>r.
     bind_res (as_dict_get (py_or (dget p ''priority_rules'') (PDict []))) (\<lambda>rules.
     bind_res (py_int (dget_def p ''max_queue_sec'' (PInt 120))) (\<lambda>q.
     Inr (b, s, r, map (\<lambda>(k, v). (k, py_str v)) rules, q))))))"

definition new_limiter :: "int \<times> int \<times> int \<times> (string \<times> string) list \<times> int \<Rightarrow> pyfloat \<Rightarrow> limiter" where
  "new_limiter c now = (case c of (b, s, r, rules, q) \<Rightarrow>
     \<lparr>rl_burst = b, rl_sustained = s, rl_reset = r, rl_rules = rules, rl_max_queue = q, rl_tokens = f_of_int b,
      rl_last = now, rl_queue = [], rl_credit_used = 0, rl_metrics = []\<rparr>)"

definition load_rate_limit_window :: "json_file \<Rightarrow> pyfloat \<Rightarrow> limiter res" where
  "load_rate_limit_window file now =
     bind_res (case file of None \<Rightarrow> Inr (PDict []) | Some None \<Rightarrow> Inl ValueError | Some (Some v) \<Rightarrow> Inr (py_or v (PDict []))) (\<lambda>payload.
     bind_res (as_dict_get (py_or (dget (mapping_or_empty payload) ''rate_limit'') (PDict []))) (\<lambda>cfg.
     bind_res (rate_limit_config cfg) (\<lambda>c. Inr (new_limiter c now))))"

section \<open>Operations\<close>

definition elapsed :: "pyfloat \<Rightarrow> limiter \<Rightarrow> pyfloat" where
  "elapsed now w = fmax (fsub now (rl_last w)) (Fin 0)"

definition refill_rate :: "limiter \<Rightarrow> pyfloat" where
  "refill_rate w = (case fdiv (f_of_int (rl_sustained w)) (Fin 60) of Inr r \<Rightarrow> r | Inl _ \<Rightarrow> NaN)"

definition refill_tokens :: "pyfloat \<Rightarrow> limiter \<Rightarrow> limiter" where
  "refill_tokens now w =
     (let w1 = w\<lparr>rl_tokens := fmin (f_of_int (rl_burst w)) (fadd (rl_tokens w) (fmul (elapsed now w) (refill_rate w)))\<rparr>;
          w2 = (if fle (f_of_int (rl_reset w)) (elapsed now w) then w1\<lparr>rl_last := now\<rparr> else w1)
      in if fle (Fin 1) (rl_tokens w2) then w2\<lparr>rl_credit_used := 0\<rparr> else w2)"

definition prune_queue :: "pyfloat \<Rightarrow> limiter \<Rightarrow> limiter" where
  "prune_queue now w = w\<lparr>rl_queue := filter (\<lambda>e. fle (fsub now (qe_at e)) (f_of_int (max (rl_max_queue w) 1))) (rl_queue w)\<rparr>"

definition queue_depth :: "pyfloat \<Rightarrow> limiter \<Rightarrow> int \<times> limiter" where
  "queue_depth now w = (let w1 = prune_queue now w in (int (length (rl_queue w1)), w1))"

definition queue_snapshot :: "pyfloat \<Rightarrow> limiter \<Rightarrow> pydict list \<times> limiter" where
  "queue_snapshot now w = (let w1 = prune_queue now w in
     (map (\<lambda>e. [(''operation'', PStr (qe_operation e)), (''priority'', PStr (qe_priority e)),
        (''queued_for_sec'', PFloat (fround 2 (fsub now (qe_at e))))]) (rl_queue w1), w1))"

definition priority_for :: "string \<Rightarrow> limiter \<Rightarrow> string" where
  "priority_for operation w = (case map_of (rl_rules w) operation of None \<Rightarrow> ''medium'' | Some p \<Rightarrow> p)"

definition append_rate_metrics ::
  "string \<Rightarrow> reservation \<Rightarrow> bool \<Rightarrow> string \<Rightarrow> pyfloat \<Rightarrow> pydt \<Rightarrow> limiter \<Rightarrow> limiter" where
  "append_rate_metrics operation r credit event now ts w =
     (let (depth, w1) = queue_depth now w in
      w1\<lparr>rl_metrics := rl_metrics w1 @ [[(''ts'', PStr (utc_iso ts)), (''event'', PStr event),
        (''operation'', PStr operation), (''priority'', PStr (rv_priority r)), (''allowed'', PBool (rv_allowed r)),
        (''wait_sec'', PFloat (fround 2 (rv_wait r))), (''queue_wait_ms'', PFloat (rv_wait_ms r)),
        (''tokens_remaining'', PFloat (fround 2 (rl_tokens w1))), (''queue_depth'', PInt depth),
        (''credit_used'', PBool credit)]]\<rparr>)"

definition granted :: "string \<Rightarrow> string \<Rightarrow> bool \<Rightarrow> pyfloat \<Rightarrow> pydt \<Rightarrow> limiter \<Rightarrow> reservation \<times> limiter" where
  "granted operation p credit now ts w =
     (let w1 = w\<lparr>rl_tokens := fsub (rl_tokens w) (Fin 1)\<rparr>;
          (depth, w2) = queue_depth now w1;
          r = \<lparr>rv_allowed = True, rv_wait = Fin 0, rv_wait_ms = Fin 0, rv_priority = p, rv_tokens = rl_tokens w1,
               rv_queued = False, rv_depth = depth\<rparr>
      in (r, append_rate_metrics operation r credit ''broker_rate_limit'' now ts w2))"

definition reserve_detail :: "string \<Rightarrow> string option \<Rightarrow> pyfloat \<Rightarrow> pydt \<Rightarrow> limiter \<Rightarrow> reservation \<times> limiter" where
  "reserve_detail operation priority now ts w =
     (let p = (if otrue priority then the priority else priority_for operation w);
          w1 = refill_tokens now w
      in if fle (Fin 1) (rl_tokens w1) then granted operation p False now ts w1
         else if p = ''high'' \<and> rl_credit_used w1 < credit_limit then
           granted operation p True now ts (w1\<lparr>rl_credit_used := rl_credit_used w1 + 1\<rparr>)
         else
           let wait = fmax (fsub (f_of_int (rl_reset w1)) (fsub now (rl_last w1))) (Fin 0);
               w2 = prune_queue now (w1\<lparr>rl_queue := rl_queue w1 @
                      [\<lparr>qe_operation = operation, qe_priority = p, qe_at = now\<rparr>]\<rparr>);
               (depth, w3) = queue_depth now w2;
               r = \<lparr>rv_allowed = False, rv_wait = wait, rv_wait_ms = fround 2 (fmul wait (Fin 1000)), rv_priority = p,
                    rv_tokens = rl_tokens w2, rv_queued = True, rv_depth = depth\<rparr>
           in (r, append_rate_metrics operation r False ''broker_rate_limit'' now ts w3))"

definition reserve :: "string \<Rightarrow> string \<Rightarrow> pyfloat \<Rightarrow> pydt \<Rightarrow> limiter \<Rightarrow> (bool \<times> pyfloat) \<times> limiter" where
  "reserve operation priority now ts w =
     (let (r, w1) = reserve_detail operation (Some priority) now ts w in ((rv_allowed r, rv_wait r), w1))"

definition tokens_remaining :: "pyfloat \<Rightarrow> limiter \<Rightarrow> pyfloat \<times> limiter" where
  "tokens_remaining now w = (let w1 = refill_tokens now w in (rl_tokens w1, w1))"

definition append_limit_event :: "string \<Rightarrow> pyfloat \<Rightarrow> pydt \<Rightarrow> limiter \<Rightarrow> limiter" where
  "append_limit_event reason now ts w =
     (let (depth, w1) = queue_depth now w;
          r = \<lparr>rv_allowed = True, rv_wait = Fin 0, rv_wait_ms = Fin 0, rv_priority = ''system'',
               rv_tokens = rl_tokens w, rv_queued = False, rv_depth = depth\<rparr>;
          w2 = append_rate_metrics ''rate_limit_update'' r False ''broker_rate_limit_adjusted'' now ts w1
      in w2\<lparr>rl_metrics := rl_metrics w2 @ [[(''ts'', PStr (utc_iso ts)),
           (''event'', PStr ''broker_rate_limit_adjusted_detail''), (''reason'', PStr reason),
           (''burst'', PInt (rl_burst w)), (''sustained_per_min'', PInt (rl_sustained w))]]\<rparr>)"

definition update_limits :: "int option \<Rightarrow> int option \<Rightarrow> pyfloat \<Rightarrow> pydt \<Rightarrow> limiter \<Rightarrow> limiter" where
  "update_limits burst sustained now ts w =
     (let w1 = (case burst of None \<Rightarrow> w | Some b \<Rightarrow> w\<lparr>rl_burst := max 1 b\<rparr>);
          w2 = (case sustained of None \<Rightarrow> w1 | Some s \<Rightarrow> w1\<lparr>rl_sustained := max 1 s\<rparr>);
          w3 = w2\<lparr>rl_tokens := fmin (rl_tokens w2) (f_of_int (rl_burst w2))\<rparr>
      in append_limit_event ''manual_update'' now ts w3)"

text \<open>\<open>int(n * factor)\<close>, for a factor that gives a finite product.\<close>

definition scaled :: "int \<Rightarrow> pyfloat \<Rightarrow> int" where
  "scaled n factor = (case fmul (f_of_int n) factor of Fin x \<Rightarrow> rat_trunc x | _ \<Rightarrow> 0)"

text \<open>The default factor, the float 0.8.\<close>

definition shrink_factor :: pyfloat where
  "shrink_factor = rnd (8 / 10)"

definition shrink_capacity :: "pyfloat \<Rightarrow> string \<Rightarrow> pyfloat \<Rightarrow> pydt \<Rightarrow> limiter \<Rightarrow> limiter" where
  "shrink_capacity factor reason now ts w =
     (let w1 = w\<lparr>rl_burst := max 1 (scaled (rl_burst w) factor)\<rparr>;
          w2 = w1\<lparr>rl_sustained := max 1 (scaled (rl_sustained w1) factor)\<rparr>;
          w3 = w2\<lparr>rl_tokens := fmin (rl_tokens w2) (f_of_int (rl_burst w2))\<rparr>
      in append_limit_event reason now ts w3)"

section \<open>The bucket\<close>

definition clock_ok :: "pyfloat \<Rightarrow> bool" where
  "clock_ok t \<longleftrightarrow> fle (Fin 0) t \<and> t \<noteq> PInf \<and> is_f64 t"

definition int_ok :: "int \<Rightarrow> bool" where
  "int_ok n \<longleftrightarrow> 0 \<le> n \<and> n \<le> 2 ^ 53"

text \<open>The token count is between 0 and the burst, or below 0 by the one credit that is then used.\<close>

definition tokens_ok :: "limiter \<Rightarrow> bool" where
  "tokens_ok w \<longleftrightarrow> is_f64 (rl_tokens w) \<and> fle (rl_tokens w) (f_of_int (rl_burst w)) \<and>
     (fle (Fin 0) (rl_tokens w) \<or> fle (Fin (- 1)) (rl_tokens w) \<and> rl_credit_used w = credit_limit)"

definition limiter_ok :: "limiter \<Rightarrow> bool" where
  "limiter_ok w \<longleftrightarrow> int_ok (rl_burst w) \<and> int_ok (rl_sustained w) \<and> clock_ok (rl_last w) \<and> tokens_ok w \<and>
     0 \<le> rl_credit_used w \<and> rl_credit_used w \<le> credit_limit"

lemma clock_okE:
  assumes "clock_ok t"
  obtains x where "t = Fin x" "0 \<le> x" "rnd x = Fin x"
  using assms by (cases t) (auto simp: clock_ok_def is_f64_def)

lemma f_of_int_ok [simp]: "int_ok n \<Longrightarrow> f_of_int n = Fin (of_int n)"
  by (simp add: int_ok_def f_of_int_def rnd_int)

lemma fle_Fin_cases: "fle a (Fin y) \<Longrightarrow> fle (Fin x) a \<Longrightarrow> \<exists>z. a = Fin z \<and> x \<le> z \<and> z \<le> y"
  by (cases a) auto

lemma rnd_not_NaN [simp]: "rnd x \<noteq> NaN" "fle a (rnd x) \<or> fle (rnd x) a \<or> a = NaN"
  by (rule rnd_cases [of x]; cases a; auto)+

lemma rnd_nonneg: "0 \<le> x \<Longrightarrow> fle (Fin 0) (rnd x)"
  using rnd_mono [of 0 x] by simp

text \<open>What a refill adds: a non-negative amount.\<close>

lemma elapsed_ok:
  assumes "clock_ok now" "clock_ok mark"
  shows "\<exists>e. fmax (fsub now mark) (Fin 0) = Fin e \<and> 0 \<le> e"
proof -
  obtain n l where n: "now = Fin n" "0 \<le> n" "rnd n = Fin n" and l: "mark = Fin l" "0 \<le> l"
    using assms by (meson clock_okE)
  have "fle (rnd (n - l)) (Fin n)" using rnd_mono [of "n - l" n] n(3) l(2) by simp
  then show ?thesis by (cases "rnd (n - l)") (auto simp: n(1) l(1) fsub_def fmax_def)
qed

lemma rate_ok:
  assumes "int_ok s"
  shows "\<exists>r. fdiv (f_of_int s) (Fin 60) = Inr (Fin r) \<and> 0 \<le> r"
proof -
  have s: "0 \<le> s" "rnd (of_int s) = Fin (of_int s)" using assms rnd_int by (auto simp: int_ok_def)
  then have "fle (rnd (of_int s / 60)) (Fin (of_int s))" using rnd_mono [of "of_int s / 60" "of_int s"] by simp
  moreover have "fle (Fin 0) (rnd (of_int s / 60))" using s by (intro rnd_nonneg) simp
  ultimately show ?thesis using fle_Fin_cases assms by fastforce
qed

lemma fadd_increases:
  assumes "is_f64 (Fin t)" "fle (Fin 0) a"
  shows "fle (Fin t) (fadd (Fin t) a)"
proof (cases a)
  case (Fin x)
  then show ?thesis using assms rnd_mono [of t "t + x"] by (simp add: is_f64_def)
qed (use assms in auto)

lemma fmin_cases: "fmin a b = a \<or> fmin a b = b" "a \<noteq> NaN \<Longrightarrow> fle (fmin a b) a"
  by (cases a; cases b; auto simp: fmin_def)+

lemma fmin_ge: "fle c a \<Longrightarrow> fle c b \<Longrightarrow> fle c (fmin a b)"
  by (auto simp: fmin_def)

lemma refill_tokens_le:
  assumes "limiter_ok w" "clock_ok now"
  shows "fle (rl_tokens w) (rl_tokens (refill_tokens now w)) \<and> is_f64 (rl_tokens (refill_tokens now w)) \<and>
    fle (rl_tokens (refill_tokens now w)) (f_of_int (rl_burst w))"
proof -
  obtain e where e: "fmax (fsub now (rl_last w)) (Fin 0) = Fin e" "0 \<le> e"
    using elapsed_ok assms by (auto simp: limiter_ok_def)
  obtain r where r: "fdiv (f_of_int (rl_sustained w)) (Fin 60) = Inr (Fin r)" "0 \<le> r"
    using rate_ok assms by (auto simp: limiter_ok_def)
  have b: "int_ok (rl_burst w)" using assms by (simp add: limiter_ok_def)
  have t: "is_f64 (rl_tokens w)" "fle (rl_tokens w) (f_of_int (rl_burst w))" "fle (Fin (- 1)) (rl_tokens w)"
    using assms(1) fle_trans [of "Fin (- 1)" "Fin 0"] by (auto simp: limiter_ok_def tokens_ok_def)
  then obtain x where x: "rl_tokens w = Fin x" using b by (auto dest: fle_Fin_cases)
  define v where "v = fadd (Fin x) (fmul (Fin e) (Fin r))"
  have "fle (Fin 0) (fmul (Fin e) (Fin r))" using e r by (auto intro: rnd_nonneg)
  then have v: "fle (Fin x) v" using fadd_increases t(1) x by (simp add: v_def)
  have vf: "is_f64 v" by (cases "rnd (e * r)") (simp_all add: v_def is_f64_def [of PInf] is_f64_def [of NInf] is_f64_def [of NaN])
  have bf: "is_f64 (f_of_int (rl_burst w))" by (simp add: f_of_int_def)
  have tok: "rl_tokens (refill_tokens now w) = fmin (f_of_int (rl_burst w)) v"
    by (simp add: refill_tokens_def elapsed_def refill_rate_def Let_def e r x v_def)
  show ?thesis
    using v t(2) x b bf vf fmin_cases [of "f_of_int (rl_burst w)" v] fmin_ge [of "Fin x" "f_of_int (rl_burst w)" v]
    by (auto simp: tok)
qed

lemma refill_frame [simp]:
  "rl_burst (refill_tokens now w) = rl_burst w" "rl_sustained (refill_tokens now w) = rl_sustained w"
  "rl_reset (refill_tokens now w) = rl_reset w" "rl_rules (refill_tokens now w) = rl_rules w"
  "rl_queue (refill_tokens now w) = rl_queue w"
  by (simp_all add: refill_tokens_def Let_def)

lemma refill_credit:
  "rl_credit_used (refill_tokens now w) =
     (if fle (Fin 1) (rl_tokens (refill_tokens now w)) then 0 else rl_credit_used w)"
  "rl_last (refill_tokens now w) = rl_last w \<or> rl_last (refill_tokens now w) = now"
  by (simp_all add: refill_tokens_def Let_def)

lemma tokens_ok_Fin:
  "int_ok (rl_burst w) \<Longrightarrow> tokens_ok w \<longleftrightarrow> (\<exists>x. rl_tokens w = Fin x \<and> rnd x = Fin x \<and> x \<le> of_int (rl_burst w) \<and>
     (0 \<le> x \<or> - 1 \<le> x \<and> rl_credit_used w = credit_limit))"
  by (cases "rl_tokens w") (auto simp: tokens_ok_def is_f64_def)

lemma refill_ok [intro]:
  assumes w: "limiter_ok w" and n: "clock_ok now"
  shows "limiter_ok (refill_tokens now w)"
proof -
  have b: "int_ok (rl_burst w)" using w by (simp add: limiter_ok_def)
  obtain x where x: "rl_tokens w = Fin x" "0 \<le> x \<or> - 1 \<le> x \<and> rl_credit_used w = credit_limit"
    using w b tokens_ok_Fin [of w] by (auto simp: limiter_ok_def)
  obtain y where y: "rl_tokens (refill_tokens now w) = Fin y" "rnd y = Fin y" "y \<le> of_int (rl_burst w)" "x \<le> y"
    using refill_tokens_le [OF w n] b x by (cases "rl_tokens (refill_tokens now w)") (auto simp: is_f64_def)
  have c: "rl_credit_used (refill_tokens now w) = (if 1 \<le> y then 0 else rl_credit_used w)"
    using refill_credit(1) [of now w] y by simp
  have "tokens_ok (refill_tokens now w)"
    using x y b c by (auto simp: tokens_ok_Fin)
  then show ?thesis
    using w n c refill_credit(2) [of now w] by (auto simp: limiter_ok_def credit_limit_def)
qed

text \<open>Spending a token, from 1 or more, or from 0 or more with the credit.\<close>

lemma spend_token:
  assumes "rnd x = Fin x" "0 \<le> x"
  shows "\<exists>z. fsub (Fin x) (Fin 1) = Fin z \<and> rnd z = Fin z \<and> - 1 \<le> z \<and> z \<le> x \<and> (1 \<le> x \<longrightarrow> 0 \<le> z)"
proof -
  have m: "rnd (- 1) = Fin (- 1)" using rnd_int [of "- 1"] by simp
  have "fle (Fin (- 1)) (rnd (x - 1))" "fle (rnd (x - 1)) (Fin x)"
    using rnd_mono [of "- 1" "x - 1"] rnd_mono [of "x - 1" x] assms by (simp_all add: m)
  then obtain z where z: "rnd (x - 1) = Fin z" "- 1 \<le> z" "z \<le> x" using fle_Fin_cases by blast
  moreover have "rnd z = Fin z" using is_f64_rnd [of "x - 1"] z(1) by (simp add: is_f64_def)
  moreover have "1 \<le> x \<longrightarrow> 0 \<le> z" using rnd_nonneg [of "x - 1"] z(1) by auto
  ultimately show ?thesis by (simp add: fsub_def)
qed

section \<open>Operations keep the bucket\<close>

datatype limiter_op =
    ReserveOp string "string option" pyfloat pydt
  | TokensOp pyfloat
  | SnapshotOp pyfloat
  | UpdateOp "int option" "int option" pyfloat pydt
  | ShrinkOp string pyfloat pydt

fun limiter_step :: "limiter \<Rightarrow> limiter_op \<Rightarrow> limiter" where
  "limiter_step w (ReserveOp operation p now ts) = snd (reserve_detail operation p now ts w)"
| "limiter_step w (TokensOp now) = snd (tokens_remaining now w)"
| "limiter_step w (SnapshotOp now) = snd (queue_snapshot now w)"
| "limiter_step w (UpdateOp b s now ts) = update_limits b s now ts w"
| "limiter_step w (ShrinkOp reason now ts) = shrink_capacity shrink_factor reason now ts w"

fun limiter_allowed :: "limiter_op \<Rightarrow> bool" where
  "limiter_allowed (ReserveOp operation p now ts) = clock_ok now"
| "limiter_allowed (TokensOp now) = clock_ok now"
| "limiter_allowed (SnapshotOp now) = True"
| "limiter_allowed (UpdateOp b s now ts) = (pred_option (\<lambda>n. n \<le> 2 ^ 53) b \<and> pred_option (\<lambda>n. n \<le> 2 ^ 53) s)"
| "limiter_allowed (ShrinkOp reason now ts) = True"

text \<open>Pruning and the metric records leave the bucket alone.\<close>

definition bucket :: "limiter \<Rightarrow> int \<times> int \<times> pyfloat \<times> pyfloat \<times> int" where
  "bucket w = (rl_burst w, rl_sustained w, rl_tokens w, rl_last w, rl_credit_used w)"

lemma limiter_ok_bucket: "bucket v = bucket w \<Longrightarrow> limiter_ok v = limiter_ok w"
  by (simp add: bucket_def limiter_ok_def tokens_ok_def)

lemma bucket_simps [simp]:
  "bucket (prune_queue now w) = bucket w"
  "bucket (w\<lparr>rl_metrics := m\<rparr>) = bucket w"
  "bucket (w\<lparr>rl_queue := q\<rparr>) = bucket w"
  by (simp_all add: bucket_def prune_queue_def)

lemma bucket_metrics [simp]:
  "bucket (append_rate_metrics operation r c event now ts w) = bucket w"
  "bucket (snd (queue_depth now w)) = bucket w"
  "bucket (append_limit_event reason now ts w) = bucket w"
  by (simp_all add: append_rate_metrics_def append_limit_event_def queue_depth_def Let_def)

lemma bucket_granted:
  "bucket (snd (granted operation p c now ts w)) = bucket (w\<lparr>rl_tokens := fsub (rl_tokens w) (Fin 1)\<rparr>)"
  by (simp add: granted_def queue_depth_def Let_def)

lemma granted_ok:
  assumes w: "limiter_ok w" and c: "fle (Fin 1) (rl_tokens w) \<or> rl_credit_used w < credit_limit"
  shows "limiter_ok (w\<lparr>rl_tokens := fsub (rl_tokens w) (Fin 1),
    rl_credit_used := (if fle (Fin 1) (rl_tokens w) then rl_credit_used w else rl_credit_used w + 1)\<rparr>)"
proof -
  have b: "int_ok (rl_burst w)" using w by (simp add: limiter_ok_def)
  obtain x where x: "rl_tokens w = Fin x" "rnd x = Fin x" "x \<le> of_int (rl_burst w)" "0 \<le> x"
    using w c b tokens_ok_Fin [of w] by (auto simp: limiter_ok_def)
  obtain z where z: "fsub (Fin x) (Fin 1) = Fin z" "rnd z = Fin z" "- 1 \<le> z" "z \<le> x" "1 \<le> x \<longrightarrow> 0 \<le> z"
    using spend_token [OF x(2,4)] by blast
  show ?thesis
    using w b c x z by (auto simp: limiter_ok_def tokens_ok_Fin credit_limit_def)
qed

lemma reserve_detail_allowed:
  "rv_allowed (fst (reserve_detail operation p now ts w)) =
     (fle (Fin 1) (rl_tokens (refill_tokens now w)) \<or>
      (if otrue p then the p else priority_for operation w) = ''high'' \<and> rl_credit_used (refill_tokens now w) < credit_limit)"
  by (simp add: reserve_detail_def granted_def Let_def case_prod_unfold)

lemma reserve_detail_bucket:
  "bucket (snd (reserve_detail operation p now ts w)) =
     (let w1 = refill_tokens now w in
      if rv_allowed (fst (reserve_detail operation p now ts w)) then
        bucket (w1\<lparr>rl_tokens := fsub (rl_tokens w1) (Fin 1),
          rl_credit_used := (if fle (Fin 1) (rl_tokens w1) then rl_credit_used w1 else rl_credit_used w1 + 1)\<rparr>)
      else bucket w1)"
proof -
  let ?w = "refill_tokens now w"
  define q where "q = (if otrue p then the p else priority_for operation w)"
  define u where "u = ?w\<lparr>rl_credit_used := rl_credit_used ?w + 1\<rparr>"
  have al: "rv_allowed (fst (reserve_detail operation p now ts w)) =
      (fle (Fin 1) (rl_tokens ?w) \<or> q = ''high'' \<and> rl_credit_used ?w < credit_limit)"
    unfolding reserve_detail_allowed q_def ..
  consider "fle (Fin 1) (rl_tokens ?w)"
    | "\<not> fle (Fin 1) (rl_tokens ?w)" "q = ''high'' \<and> rl_credit_used ?w < credit_limit"
    | "\<not> fle (Fin 1) (rl_tokens ?w)" "\<not> (q = ''high'' \<and> rl_credit_used ?w < credit_limit)" by blast
  then show ?thesis
  proof cases
    case 1
    then show ?thesis by (simp add: reserve_detail_def Let_def bucket_granted) (simp add: granted_def case_prod_unfold Let_def)
  next
    case 2
    then have "snd (reserve_detail operation p now ts w) = snd (granted operation q True now ts u)"
      unfolding reserve_detail_def Let_def q_def [symmetric] u_def by (simp only: if_False if_True simp_thms)
    then have "bucket (snd (reserve_detail operation p now ts w)) =
        bucket (?w\<lparr>rl_tokens := fsub (rl_tokens ?w) (Fin 1), rl_credit_used := rl_credit_used ?w + 1\<rparr>)"
      by (simp only: bucket_granted) (simp add: bucket_def u_def)
    then show ?thesis using 2 unfolding al Let_def by (simp only: if_False if_True simp_thms)
  next
    case 3
    then have "bucket (snd (reserve_detail operation p now ts w)) = bucket ?w"
      unfolding reserve_detail_def Let_def q_def [symmetric] case_prod_unfold
      by (simp only: if_False simp_thms) simp
    then show ?thesis using 3 unfolding al Let_def by (simp only: if_False simp_thms)
  qed
qed

lemma reserve_detail_ok:
  assumes w: "limiter_ok w" and n: "clock_ok now"
  shows "limiter_ok (snd (reserve_detail operation p now ts w))"
proof -
  have r: "limiter_ok (refill_tokens now w)" (is "limiter_ok ?w") using w n by (rule refill_ok)
  show ?thesis
  proof (cases "rv_allowed (fst (reserve_detail operation p now ts w))")
    case True
    then have "fle (Fin 1) (rl_tokens ?w) \<or> rl_credit_used ?w < credit_limit" by (auto simp: reserve_detail_allowed)
    from granted_ok [OF r this] show ?thesis
      using True limiter_ok_bucket reserve_detail_bucket [of operation p now ts w] unfolding Let_def by metis
  next
    case False
    with r show ?thesis
      using limiter_ok_bucket reserve_detail_bucket [of operation p now ts w] unfolding Let_def by metis
  qed
qed

lemma fmin_Fin: "fmin (Fin x) (Fin b) = Fin (if b < x then b else x)"
  by (simp add: fmin_def)

lemma cap_tokens_ok:
  assumes w: "limiter_ok w" and b: "int_ok b" and n: "int_ok n"
  shows "limiter_ok (w\<lparr>rl_burst := b, rl_sustained := n, rl_tokens := fmin (rl_tokens w) (f_of_int b)\<rparr>)"
proof -
  obtain x where x: "rl_tokens w = Fin x" "rnd x = Fin x" "0 \<le> x \<or> - 1 \<le> x \<and> rl_credit_used w = credit_limit"
    using w tokens_ok_Fin [of w] by (auto simp: limiter_ok_def)
  have rb: "rnd (of_int b) = Fin (of_int b)" and b0: "(0 :: rat) \<le> of_int b"
    using b rnd_int [of b] by (simp_all add: int_ok_def)
  define y where "y = (if of_int b < x then of_int b else x)"
  have t: "fmin (rl_tokens w) (f_of_int b) = Fin y" using b x(1) by (simp add: fmin_Fin y_def)
  have "rnd y = Fin y" "y \<le> of_int b" "0 \<le> y \<or> - 1 \<le> y \<and> rl_credit_used w = credit_limit"
    using x(2,3) rb b0 by (auto simp: y_def)
  then have "tokens_ok (w\<lparr>rl_burst := b, rl_sustained := n, rl_tokens := Fin y\<rparr>)"
    using b by (subst tokens_ok_Fin) simp_all
  then show ?thesis
    unfolding t using w b n by (simp add: limiter_ok_def)
qed

lemma shrink_factor_bounds: "\<exists>f. shrink_factor = Fin f \<and> 0 \<le> f \<and> f \<le> 1"
  using rnd_mono [of "8 / 10" 1] rnd_nonneg [of "8 / 10"] by (cases "rnd (8 / 10)") (auto simp: shrink_factor_def)

lemma scaled_ok: "int_ok n \<Longrightarrow> int_ok (max 1 (scaled n shrink_factor))"
proof -
  assume n: "int_ok n"
  then have n0: "0 \<le> n" "n \<le> 2 ^ 53" "(0 :: rat) \<le> of_int n" by (simp_all add: int_ok_def)
  obtain f where f: "shrink_factor = Fin f" "0 \<le> f" "f \<le> 1" using shrink_factor_bounds by blast
  have le: "of_int n * f \<le> of_int n" "0 \<le> of_int n * f"
    using f n0 mult_left_mono [of f 1 "of_int n"] by simp_all
  have "rnd (of_int n) = Fin (of_int n)" using n0 by (intro rnd_int) simp
  then obtain z where z: "rnd (of_int n * f) = Fin z" "0 \<le> z" "z \<le> of_int n"
    using fle_Fin_cases [of "rnd (of_int n * f)" "of_int n" 0] rnd_mono [OF le(1)] rnd_nonneg [OF le(2)] by auto
  have "fmul (f_of_int n) shrink_factor = Fin z" using n z(1) by (simp add: f(1))
  then have e: "scaled n shrink_factor = floor z" using z(2) by (simp add: scaled_def rat_trunc_def)
  define m where "m = floor z"
  have "m \<le> n" using z(3) unfolding m_def by linarith
  then show ?thesis using n0(2) unfolding e int_ok_def m_def [symmetric] by auto
qed

lemma limiter_step_ok:
  assumes w: "limiter_ok w" and a: "limiter_allowed x"
  shows "limiter_ok (limiter_step w x)"
proof (cases x)
  case (ReserveOp operation p now ts)
  with w a show ?thesis by (simp add: reserve_detail_ok)
next
  case (TokensOp now)
  with w a show ?thesis by (simp add: tokens_remaining_def Let_def refill_ok)
next
  case (SnapshotOp now)
  then have "bucket (limiter_step w x) = bucket w" by (simp add: queue_snapshot_def Let_def)
  with w show ?thesis using limiter_ok_bucket by blast
next
  case (UpdateOp b s now ts)
  define b' where "b' = (case b of None \<Rightarrow> rl_burst w | Some n \<Rightarrow> max 1 n)"
  define s' where "s' = (case s of None \<Rightarrow> rl_sustained w | Some n \<Rightarrow> max 1 n)"
  have bs: "int_ok b'" "int_ok s'"
    using w a by (auto simp: UpdateOp b'_def s'_def limiter_ok_def int_ok_def split: option.split)
  have "bucket (limiter_step w x) =
      bucket (w\<lparr>rl_burst := b', rl_sustained := s', rl_tokens := fmin (rl_tokens w) (f_of_int b')\<rparr>)"
    by (simp add: UpdateOp update_limits_def Let_def b'_def s'_def split: option.split)
  with cap_tokens_ok [OF w bs] show ?thesis using limiter_ok_bucket by blast
next
  case (ShrinkOp reason now ts)
  define b' where "b' = max 1 (scaled (rl_burst w) shrink_factor)"
  define s' where "s' = max 1 (scaled (rl_sustained w) shrink_factor)"
  have bs: "int_ok b'" "int_ok s'"
    using w by (auto simp: b'_def s'_def limiter_ok_def intro: scaled_ok)
  have "bucket (limiter_step w x) =
      bucket (w\<lparr>rl_burst := b', rl_sustained := s', rl_tokens := fmin (rl_tokens w) (f_of_int b')\<rparr>)"
    by (simp add: ShrinkOp shrink_capacity_def Let_def b'_def s'_def)
  with cap_tokens_ok [OF w bs] show ?thesis using limiter_ok_bucket by blast
qed

interpretation limiter: guarded_system limiter_step limiter_allowed limiter_ok
  by unfold_locales (rule limiter_step_ok)

lemma new_limiter_ok:
  "int_ok b \<Longrightarrow> int_ok s \<Longrightarrow> clock_ok now \<Longrightarrow> limiter_ok (new_limiter (b, s, r, rules, q) now)"
  by (simp add: new_limiter_def limiter_ok_def tokens_ok_Fin credit_limit_def int_ok_def rnd_int)

section \<open>Properties\<close>

text \<open>However a fresh window is used, its token count stays a finite number of at most the burst, below
  zero only when the single credit of a high-priority operation is spent, and then by at most one.\<close>

theorem limiter_tokens_bounded:
  assumes "int_ok b" "int_ok s" "clock_ok t" "list_all limiter_allowed xs"
  shows "tokens_ok (foldl limiter_step (new_limiter (b, s, r, rules, q) t) xs) \<and>
    rl_credit_used (foldl limiter_step (new_limiter (b, s, r, rules, q) t) xs) \<in> {0, credit_limit}"
proof -
  from limiter.allowed_run_inv [OF new_limiter_ok [OF assms(1-3)] assms(4)]
  have "limiter_ok (foldl limiter_step (new_limiter (b, s, r, rules, q) t) xs)" .
  then show ?thesis by (auto simp: limiter_ok_def credit_limit_def)
qed

definition demo_ts :: pydt where
  "demo_ts = \<lparr>yr = 2025, mo = 6, dy = 2, hh = 0, mi = 0, ss = 0, us = 0, tzo = Some 0\<rparr>"

lemma clock_ok_int: "0 \<le> n \<Longrightarrow> n \<le> 2 ^ 53 \<Longrightarrow> clock_ok (Fin (of_int n))"
  using rnd_int [of n] by (simp add: clock_ok_def is_f64_def)

theorem limiter_tokens_bounded_witness:
  "tokens_ok (foldl limiter_step (new_limiter (2, 60, 60, [], 120) (Fin 1000))
     [ReserveOp ''order.place'' (Some ''high'') (Fin 1000) demo_ts, ShrinkOp ''rate_limit_hit'' (Fin 1000) demo_ts])"
  using limiter_tokens_bounded [of 2 60 "Fin 1000" "[ReserveOp ''order.place'' (Some ''high'') (Fin 1000) demo_ts,
      ShrinkOp ''rate_limit_hit'' (Fin 1000) demo_ts]" 60 "[]" 120] clock_ok_int [of 1000]
  by (simp add: int_ok_def)

text \<open>Reservations made one after another at one instant.\<close>

fun reserve_all :: "(string \<times> string option) list \<Rightarrow> pyfloat \<Rightarrow> pydt \<Rightarrow> limiter \<Rightarrow> reservation list \<times> limiter" where
  "reserve_all [] now ts w = ([], w)"
| "reserve_all ((operation, p) # xs) now ts w =
     (let (r, w1) = reserve_detail operation p now ts w; (rs, w2) = reserve_all xs now ts w1 in (r # rs, w2))"

definition allowed_count :: "reservation list \<Rightarrow> int" where
  "allowed_count rs = int (length (filter rv_allowed rs))"

lemma refill_same_instant:
  assumes s: "int_ok (rl_sustained w)" and t: "clock_ok (rl_last w)" and k: "rl_tokens w = Fin (of_int k)"
    "- 1 \<le> k" "k \<le> rl_burst w" and b: "int_ok (rl_burst w)"
  shows "rl_tokens (refill_tokens (rl_last w) w) = Fin (of_int k)" "rl_last (refill_tokens (rl_last w) w) = rl_last w"
proof -
  obtain x where x: "rl_last w = Fin x" using t by (meson clock_okE)
  obtain r where r: "fdiv (f_of_int (rl_sustained w)) (Fin 60) = Inr (Fin r)" using rate_ok [OF s] by blast
  have e: "fmax (fsub (rl_last w) (rl_last w)) (Fin 0) = Fin 0" by (simp add: x fsub_def fmax_def)
  have "rnd (of_int k) = Fin (of_int k)" using k b by (intro rnd_int) (auto simp: int_ok_def)
  then show "rl_tokens (refill_tokens (rl_last w) w) = Fin (of_int k)"
    using k(3) b by (simp add: refill_tokens_def elapsed_def refill_rate_def Let_def e r k(1) fmin_Fin)
  show "rl_last (refill_tokens (rl_last w) w) = rl_last w" by (simp add: refill_tokens_def Let_def)
qed

lemma instant_burst:
  "int_ok (rl_sustained w) \<Longrightarrow> int_ok (rl_burst w) \<Longrightarrow> clock_ok (rl_last w) \<Longrightarrow> rl_tokens w = Fin (of_int k) \<Longrightarrow> - 1 \<le> k \<Longrightarrow>
     k \<le> rl_burst w \<Longrightarrow> k = - 1 \<longrightarrow> credit_limit \<le> rl_credit_used w \<Longrightarrow> 0 \<le> rl_credit_used w \<Longrightarrow>
     allowed_count (fst (reserve_all xs (rl_last w) ts w)) \<le> k + 1"
proof (induction xs arbitrary: w k)
  case Nil
  then show ?case by (simp add: allowed_count_def)
next
  case (Cons x xs)
  obtain operation p where x: "x = (operation, p)" by (cases x)
  let ?w = "refill_tokens (rl_last w) w" and ?d = "reserve_detail operation p (rl_last w) ts w"
  note same = refill_same_instant [OF Cons.prems(1,3,4,5,6,2)]
  have k0: "fle (Fin 1) (rl_tokens ?w) = (1 \<le> k)" by (simp add: same)
  have cr: "rl_credit_used ?w = (if 1 \<le> k then 0 else rl_credit_used w)" using refill_credit(1) [of "rl_last w" w] k0 by simp
  have step: "allowed_count (fst (reserve_all xs (rl_last w) ts v)) \<le> k' + 1"
    if "bucket v = (rl_burst w, rl_sustained w, Fin (of_int k'), rl_last w, c)" "- 1 \<le> k'" "k' \<le> k"
      "k' = - 1 \<longrightarrow> credit_limit \<le> c" "0 \<le> c" for v k' c
    using Cons.IH [of v k'] Cons.prems that by (simp add: bucket_def)
  show ?case
  proof (cases "rv_allowed (fst ?d)")
    case True
    then have kk: "0 \<le> k" and c: "\<not> 1 \<le> k \<longrightarrow> rl_credit_used ?w < credit_limit"
      using Cons.prems(5,7) k0 cr by (auto simp: reserve_detail_allowed split: if_splits)
    have "rnd (of_int (k - 1)) = Fin (of_int (k - 1))"
      using kk Cons.prems(2,6) by (intro rnd_int) (auto simp: int_ok_def)
    then have "fsub (Fin (of_int k)) (Fin 1) = Fin (of_int (k - 1))" by (simp add: fsub_def)
    then have "bucket (snd ?d) = (rl_burst w, rl_sustained w, Fin (of_int (k - 1)), rl_last w,
        if 1 \<le> k then 0 else rl_credit_used w + 1)"
      using True unfolding reserve_detail_bucket Let_def by (simp add: same cr bucket_def)
    from step [OF this] kk Cons.prems(8)
    have "allowed_count (fst (reserve_all xs (rl_last w) ts (snd ?d))) \<le> k"
      by (simp add: credit_limit_def)
    with True show ?thesis by (simp add: x case_prod_unfold Let_def allowed_count_def)
  next
    case False
    then have "bucket (snd ?d) = (rl_burst w, rl_sustained w, Fin (of_int k), rl_last w, rl_credit_used ?w)"
      unfolding reserve_detail_bucket Let_def by (simp add: same bucket_def)
    from step [OF this] Cons.prems cr
    have "allowed_count (fst (reserve_all xs (rl_last w) ts (snd ?d))) \<le> k + 1" by simp
    with False show ?thesis by (simp add: x case_prod_unfold Let_def allowed_count_def)
  qed
qed

text \<open>At the instant a fresh window starts at most its burst and one credited operation pass, however
  many are asked for.\<close>

theorem burst_limit:
  assumes "int_ok b" "int_ok s" "clock_ok t"
  shows "allowed_count (fst (reserve_all xs t ts (new_limiter (b, s, r, rules, q) t))) \<le> b + 1"
  using instant_burst [of "new_limiter (b, s, r, rules, q) t" b xs ts] assms
  by (simp add: new_limiter_def int_ok_def)

theorem burst_limit_witness:
  "allowed_count (fst (reserve_all (replicate 9 (''order.place'', Some ''high'')) (Fin 1000) demo_ts
     (new_limiter (1, 60, 60, [], 120) (Fin 1000)))) \<le> 2"
  using burst_limit [of 1 60 "Fin 1000" "replicate 9 (''order.place'', Some ''high'')" demo_ts 60 "[]" 120] clock_ok_int [of 1000]
  by (simp add: int_ok_def del: reserve_all.simps)

lemma reset_frame [simp]: "rl_reset (snd (reserve_detail operation p now ts w)) = rl_reset w"
proof -
  have "rl_reset (prune_queue now v) = rl_reset v" "rl_reset (append_rate_metrics o1 r c e now ts v) = rl_reset v"
    "rl_reset (snd (granted o1 q d now ts v)) = rl_reset v" for v o1 r c e q d
    by (simp_all add: prune_queue_def append_rate_metrics_def queue_depth_def granted_def Let_def)
  then show ?thesis by (simp add: reserve_detail_def queue_depth_def Let_def)
qed

lemma refill_gives_token:
  assumes w: "limiter_ok w" "1 \<le> rl_burst w" "fle (Fin 0) (rl_tokens w)"
    and a: "fle (Fin 1) (fmul (elapsed now w) (refill_rate w))"
  shows "fle (Fin 1) (rl_tokens (refill_tokens now w))"
proof -
  have b: "int_ok (rl_burst w)" using w(1) by (simp add: limiter_ok_def)
  then obtain x where x: "rl_tokens w = Fin x" "0 \<le> x" using w tokens_ok_Fin [of w] by (auto simp: limiter_ok_def)
  have "fle (Fin 1) (fadd (Fin x) (fmul (elapsed now w) (refill_rate w)))"
  proof (cases "fmul (elapsed now w) (refill_rate w)")
    case (Fin y)
    then show ?thesis using a x(2) rnd_mono [of 1 "x + y"] by simp
  qed (use a in auto)
  moreover have "fle (Fin 1) (f_of_int (rl_burst w))" using b w(2) by simp
  ultimately show ?thesis by (simp add: refill_tokens_def Let_def x(1) fmin_ge)
qed

text \<open>Between two refill marks every call adds the whole time since the last mark again: once that is worth
  a token, every reservation of that instant passes, so the sustained rate bounds nothing.\<close>

theorem sustained_rate_not_enforced:
  assumes "limiter_ok w" "1 \<le> rl_burst w" "fle (Fin 0) (rl_tokens w)" "clock_ok now"
    and "flt (elapsed now w) (f_of_int (rl_reset w))" "fle (Fin 1) (fmul (elapsed now w) (refill_rate w))"
  shows "list_all rv_allowed (fst (reserve_all xs now ts w))"
  using assms
proof (induction xs arbitrary: w)
  case (Cons x xs)
  obtain operation p where x: "x = (operation, p)" by (cases x)
  let ?d = "reserve_detail operation p now ts w"
  note tok = refill_gives_token [OF Cons.prems(1,2,3,6)]
  have al: "rv_allowed (fst ?d)" using tok by (simp add: reserve_detail_allowed)
  have last: "rl_last (refill_tokens now w) = rl_last w"
    using Cons.prems(5) by (cases "elapsed now w"; cases "f_of_int (rl_reset w)") (auto simp: refill_tokens_def Let_def)
  have bu: "bucket (snd ?d) = (rl_burst w, rl_sustained w, fsub (rl_tokens (refill_tokens now w)) (Fin 1), rl_last w,
      rl_credit_used (refill_tokens now w))"
    using al tok unfolding reserve_detail_bucket Let_def by (simp add: last) (simp add: bucket_def last)
  have ok: "limiter_ok (snd ?d)" using Cons.prems by (simp add: reserve_detail_ok)
  have "fle (Fin 0) (fsub (rl_tokens (refill_tokens now w)) (Fin 1))"
  proof (cases "rl_tokens (refill_tokens now w)")
    case (Fin y)
    then show ?thesis using tok rnd_nonneg [of "y - 1"] by (simp add: fsub_def)
  qed (use tok in \<open>auto simp: fsub_def\<close>)
  with bu ok Cons.prems have "list_all rv_allowed (fst (reserve_all xs now ts (snd ?d)))"
    by (intro Cons.IH) (simp_all add: bucket_def elapsed_def refill_rate_def)
  with al show ?case by (simp add: x case_prod_unfold Let_def)
qed simp

theorem sustained_rate_not_enforced_witness:
  "list_all rv_allowed (fst (reserve_all (replicate 1000 (''order.place'', None)) (Fin 30) demo_ts
     (new_limiter (30, 60, 60, [], 120) (Fin 0))))"
proof -
  define w where "w = new_limiter (30, 60, 60, [], 120) (Fin 0)"
  have c: "clock_ok (Fin 0)" "clock_ok (Fin 30)" using clock_ok_int [of 0] clock_ok_int [of 30] by simp_all
  have ok: "limiter_ok w" unfolding w_def using c by (intro new_limiter_ok) (simp_all add: int_ok_def)
  have r: "rnd 30 = Fin 30" using rnd_int [of 30] by simp
  have "elapsed (Fin 30) w = Fin 30" by (simp add: w_def new_limiter_def elapsed_def fsub_def r fmax_def)
  moreover have "refill_rate w = Fin 1" by (simp add: w_def new_limiter_def refill_rate_def int_ok_def)
  ultimately show ?thesis
    using sustained_rate_not_enforced [OF ok _ _ c(2), of "replicate 1000 (''order.place'', None)" demo_ts] r
    by (simp add: w_def new_limiter_def int_ok_def del: replicate.simps)
qed

end
