(* ===== verification/ApiMonitor.thy ===== *)
theory ApiMonitor
  imports RateLimit Health Failover
begin

text \<open>
  The rest of \<open>src/brokers/monitor.py\<close>: the broker API monitor with its latency thresholds, the alert
  sink, the heartbeat and the report. The monitor appends one metric record per call, alerts through
  the sink, raises a health condition, shrinks the rate limiter on a rate-limit error and has the
  failover planner plan and dispatch on authentication and network errors and on critical latency.

  The alert dispatcher (\<open>src/infra/alert.py\<close>) and the shadow store (\<open>src/shadow/store.py\<close>) a sink may
  hold are the lists of calls made to them. A \<open>tick\<close> has the clocks of one call (its readings are
  taken to be equal) and the digits of the alert id it may draw. Health events can be written.

  Shown: what each kind of error sets off, that only authentication and network errors and critical
  latency block the failover state, and that the report never counts a rate-limit hit.
\<close>

section \<open>Alerts\<close>

record tick =
  tk_now :: pydt
  tk_mono :: pyfloat
  tk_hex :: string

record alert =
  al_id :: string
  al_severity :: string
  al_code :: string
  al_message :: string
  al_adapter :: string
  al_operation :: string
  al_created_at :: string
  al_runbook :: "string option"
  al_metadata :: "pydict option"

record alert_sink =
  sk_log :: "pydict list"
  sk_shadow_log :: "pydict list option"
  sk_shadow_store :: "(string \<times> string \<times> pydict) list option"
  sk_dispatched :: "(string \<times> string) list option"
  sk_worklog :: "pydict list"

definition alert_to_dict :: "alert \<Rightarrow> pydict" where
  "alert_to_dict a = [(''alert_id'', PStr (al_id a)), (''severity'', PStr (al_severity a)), (''code'', PStr (al_code a)),
     (''message'', PStr (al_message a)), (''adapter'', PStr (al_adapter a)), (''operation'', PStr (al_operation a)),
     (''created_at'', PStr (al_created_at a)), (''runbook_ref'', ostr (al_runbook a)),
     (''metadata'', PDict (case al_metadata a of None \<Rightarrow> [] | Some m \<Rightarrow> m))]"

definition emit_to_sink :: "alert \<Rightarrow> alert_sink \<Rightarrow> alert_sink" where
  "emit_to_sink a s =
     (let payload = alert_to_dict a in
      \<lparr>sk_log = sk_log s @ [payload],
       sk_shadow_log = map_option (\<lambda>l. l @ [[(''event_type'', PStr ''broker_api.alert''), (''payload'', PDict payload),
         (''ts'', dget payload ''created_at'')]]) (sk_shadow_log s),
       sk_shadow_store = map_option (\<lambda>l. l @ [(al_id a, ''broker_api.alert'', payload)]) (sk_shadow_store s),
       sk_dispatched = map_option (\<lambda>l. l @ [(al_severity a, al_message a)]) (sk_dispatched s),
       sk_worklog = (if al_severity a = ''critical'' then
           sk_worklog s @ [[(''timestamp'', PStr (al_created_at a)), (''task'', PStr ''broker_api_recovery''),
             (''status'', PStr ''pending''), (''alert_id'', PStr (al_id a)), (''runbook'', ostr (al_runbook a))]]
         else sk_worklog s)\<rparr>)"

text \<open>\<open>list_alerts\<close> over the lines of the log; a line that is JSON but not an object raises when a bound is
  given.\<close>

fun list_alerts :: "string option \<Rightarrow> json_lines \<Rightarrow> pyval list res" where
  "list_alerts since [] = Inr []"
| "list_alerts since (None # ls) = list_alerts since ls"
| "list_alerts since (Some v # ls) =
     bind_res (if otrue since then bind_res (as_dict_get v) (\<lambda>d.
         Inr (py_str (py_or (dget d ''created_at'') (PStr [])) < the since)) else Inr False) (\<lambda>skip.
     bind_res (list_alerts since ls) (\<lambda>rest. Inr (if skip then rest else v # rest)))"

section \<open>The monitor\<close>

record slo =
  sl_warn :: int
  sl_critical :: int
  sl_queue :: int

record api_monitor =
  am_slo :: slo
  am_metrics :: "pydict list"
  am_health :: monitor
  am_sink :: "alert_sink option"
  am_limiter :: "limiter option"
  am_failover :: "failover option"

definition slo_from_file :: "json_file \<Rightarrow> slo res" where
  "slo_from_file file =
     bind_res (case file of None \<Rightarrow> Inr (PDict []) | Some None \<Rightarrow> Inl ValueError | Some (Some v) \<Rightarrow> Inr v) (\<lambda>v.
     bind_res (as_dict_get v) (\<lambda>d.
     bind_res (py_int (dget_def d ''latency_warn_ms'' (dget_def d ''latency_ms_p95'' (PInt 800)))) (\<lambda>w.
     bind_res (py_int (dget_def d ''latency_critical_ms'' (PInt 1500))) (\<lambda>c.
     bind_res (py_int (dget_def d ''queue_warn_sec'' (PInt 30))) (\<lambda>q.
     Inr \<lparr>sl_warn = w, sl_critical = c, sl_queue = q\<rparr>)))))"

definition new_api_monitor :: "json_file \<Rightarrow> pydict list \<Rightarrow> failover option \<Rightarrow> api_monitor res" where
  "new_api_monitor slo_file metrics planner = bind_res (slo_from_file slo_file) (\<lambda>s.
     Inr \<lparr>am_slo = s, am_metrics = metrics, am_health = monitor_default, am_sink = None, am_limiter = None,
          am_failover = planner\<rparr>)"

definition emit_alert :: "string \<Rightarrow> string \<Rightarrow> string \<Rightarrow> string \<Rightarrow> string \<Rightarrow> tick \<Rightarrow> api_monitor \<Rightarrow> api_monitor" where
  "emit_alert severity code message adapter operation t m =
     m\<lparr>am_sink := map_option (emit_to_sink
        \<lparr>al_id = ''broker-'' @ tk_hex t, al_severity = severity, al_code = code, al_message = message,
         al_adapter = adapter, al_operation = operation, al_created_at = utc_iso (tk_now t),
         al_runbook = Some ''RUN-BROKER-API-02'', al_metadata = Some []\<rparr>) (am_sink m)\<rparr>"

definition raise_health :: "string \<Rightarrow> string \<Rightarrow> string \<Rightarrow> tick \<Rightarrow> api_monitor \<Rightarrow> api_monitor" where
  "raise_health level code detail t m = m\<lparr>am_health := raise_condition level code (Some detail)
     (Some ''runbook:RUN-BROKER-API-02'') False (tk_now t) (tk_now t) True (am_health m)\<rparr>"

definition plan_and_dispatch :: "string \<Rightarrow> tick \<Rightarrow> api_monitor \<Rightarrow> api_monitor" where
  "plan_and_dispatch reason t m = (let n = tk_now t in
     m\<lparr>am_failover := map_option (\<lambda>f. snd (plan_failover reason True n n n (n, n, n) f)) (am_failover m)\<rparr>)"

definition record_call :: "string \<Rightarrow> string \<Rightarrow> pyfloat \<Rightarrow> string \<Rightarrow> tick \<Rightarrow> api_monitor \<Rightarrow> api_monitor" where
  "record_call adapter operation latency status t m =
     (let m1 = m\<lparr>am_metrics := am_metrics m @ [[(''ts'', PStr (utc_iso (tk_now t))), (''adapter'', PStr adapter),
                  (''operation'', PStr operation), (''latency_ms'', PFloat (fround 2 latency)), (''status'', PStr status),
                  (''error_bucket'', PNone)]]\<rparr>;
          text = adapter @ '':'' @ operation @ '' latency '' @ fmt_fixed 1 latency @ ''ms''
      in if fle (f_of_int (sl_critical (am_slo m))) latency then
           plan_and_dispatch ''broker_latency'' t (raise_health ''critical'' ''broker_latency'' text t
             (emit_alert ''critical'' ''broker.latency.critical'' text adapter operation t m1))
         else if fle (f_of_int (sl_warn (am_slo m))) latency then
           raise_health ''warning'' ''broker_latency'' text t
             (emit_alert ''warning'' ''broker.latency.warn'' text adapter operation t m1)
         else m1)"

definition record_error :: "string \<Rightarrow> string \<Rightarrow> string \<Rightarrow> string \<Rightarrow> tick \<Rightarrow> api_monitor \<Rightarrow> api_monitor" where
  "record_error adapter operation kind status t m =
     (let m1 = m\<lparr>am_metrics := am_metrics m @ [[(''ts'', PStr (utc_iso (tk_now t))), (''adapter'', PStr adapter),
                  (''operation'', PStr operation), (''latency_ms'', PNone), (''status'', PStr status),
                  (''error_bucket'', PStr kind)]]\<rparr>;
          text = adapter @ '':'' @ operation @ '' error '' @ kind;
          severity = (if kind \<in> {''auth'', ''rate_limit''} then ''critical'' else ''warning'');
          m2 = emit_alert severity (''broker.error.'' @ kind) text adapter operation t m1;
          m3 = (if kind = ''rate_limit'' then m2\<lparr>am_limiter :=
                  map_option (shrink_capacity shrink_factor ''rate_limit_hit'' (tk_mono t) (tk_now t)) (am_limiter m2)\<rparr> else m2);
          m4 = raise_health ''degraded'' (''broker_'' @ kind) text t m3
      in if kind \<in> {''auth'', ''network''} then plan_and_dispatch (''broker_'' @ kind) t m4 else m4)"

definition record_queue_wait :: "string \<Rightarrow> string \<Rightarrow> pyfloat \<Rightarrow> int \<Rightarrow> tick \<Rightarrow> api_monitor \<Rightarrow> api_monitor" where
  "record_queue_wait adapter operation wait depth t m =
     (let m1 = m\<lparr>am_metrics := am_metrics m @ [[(''ts'', PStr (utc_iso (tk_now t))), (''adapter'', PStr adapter),
                  (''operation'', PStr operation), (''status'', PStr ''queued''),
                  (''queue_wait_ms'', PFloat (fround 2 (fmul wait (Fin 1000)))), (''queue_depth'', PInt depth)]]\<rparr>;
          text = adapter @ '':'' @ operation @ '' queue_wait '' @ fmt_fixed 1 wait @ ''s''
      in if fle (f_of_int (sl_queue (am_slo m))) wait then
           raise_health ''warning'' ''broker_queue'' text t
             (emit_alert ''warning'' ''broker.queue.backlog'' text adapter operation t m1)
         else m1)"

section \<open>Heartbeat\<close>

record heartbeat =
  hb_status :: string
  hb_adapter :: string
  hb_latency :: pyfloat
  hb_operations :: "(string \<times> string) list"

definition heartbeat_to_dict :: "heartbeat \<Rightarrow> pydict" where
  "heartbeat_to_dict h = [(''status'', PStr (hb_status h)), (''adapter'', PStr (hb_adapter h)),
     (''latency_ms'', PFloat (fround 2 (hb_latency h))),
     (''operations'', PDict (map (\<lambda>(k, v). (k, PStr v)) (hb_operations h)))]"

text \<open>One probe of the adapter: None where the call returns, else the text of what it raises.\<close>

definition probe :: "string \<Rightarrow> string \<Rightarrow> string option \<Rightarrow> tick \<Rightarrow> api_monitor \<Rightarrow> (string \<times> string) \<times> api_monitor" where
  "probe operation adapter failure t m = (case failure of
       None \<Rightarrow> ((operation, ''ok''), m)
     | Some e \<Rightarrow> ((operation, ''error:'' @ e), record_error adapter operation ''timeout'' ''error'' t m))"

definition heartbeat_check ::
  "string \<Rightarrow> string option \<Rightarrow> string option \<Rightarrow> pyfloat \<Rightarrow> tick \<Rightarrow> tick \<Rightarrow> tick \<Rightarrow> api_monitor \<Rightarrow> heartbeat \<times> api_monitor" where
  "heartbeat_check adapter positions balances elapsed_ms t1 t2 t3 m =
     (let (p, m1) = probe ''fetch_positions'' adapter positions t1 m;
          (b, m2) = probe ''fetch_balances'' adapter balances t2 m1;
          status = (if positions = None \<and> balances = None then ''ok'' else ''error'')
      in (\<lparr>hb_status = status, hb_adapter = adapter, hb_latency = elapsed_ms, hb_operations = [p, b]\<rparr>,
          record_call adapter ''heartbeat'' elapsed_ms status t3 m2))"

section \<open>Report\<close>

record metrics_summary =
  ms_status :: string
  ms_requests :: int
  ms_errors :: int
  ms_hits :: int

definition one_if :: "bool \<Rightarrow> int" where
  "one_if b = (if b then 1 else 0)"

fun count_metrics :: "json_lines \<Rightarrow> (int \<times> int \<times> int) res" where
  "count_metrics [] = Inr (0, 0, 0)"
| "count_metrics (None # ls) = count_metrics ls"
| "count_metrics (Some v # ls) =
     bind_res (as_dict_get v) (\<lambda>d. bind_res (count_metrics ls) (\<lambda>(req, err, hits).
       Inr (req + one_if (truthy (dget d ''adapter'') \<and> truthy (dget d ''operation'')),
            err + one_if (dget d ''status'' = PStr ''error'' \<or> truthy (dget d ''error_bucket'')),
            hits + one_if (dget d ''event'' = PStr ''broker_rate_limit'' \<and> \<not> truthy (dget_def d ''allowed'' (PBool True))))))"

definition summarize_metrics :: "json_lines option \<Rightarrow> metrics_summary res" where
  "summarize_metrics file = (case file of
       None \<Rightarrow> Inr \<lparr>ms_status = ''missing'', ms_requests = 0, ms_errors = 0, ms_hits = 0\<rparr>
     | Some ls \<Rightarrow> bind_res (count_metrics ls) (\<lambda>(req, err, hits).
         Inr \<lparr>ms_status = (if err = 0 then ''ok'' else ''warn''), ms_requests = req, ms_errors = err, ms_hits = hits\<rparr>))"

definition report_lines :: "string \<Rightarrow> pydt \<Rightarrow> metrics_summary \<Rightarrow> int \<Rightarrow> string list" where
  "report_lines window now s alerts =
     [''# Broker Monitor Report ('' @ window @ '')'', [], ''- Generated At: '' @ utc_iso now,
      ''- Status: '' @ ms_status s, ''- Requests: '' @ int_str (ms_requests s), ''- Errors: '' @ int_str (ms_errors s),
      ''- Rate Limit Hits: '' @ int_str (ms_hits s), ''- Alerts: '' @ int_str alerts, [], ''## Notes'',
      ''- Metrics captured in metrics/broker_api.jsonl'', ''- Alerts captured in logs/events/broker_alerts.jsonl'', []]"

text \<open>The text written to \<open>broker_monitor_<date>.md\<close>, with the alert count of the sink's log where there is a
  sink.\<close>

definition monitor_report :: "string \<Rightarrow> pydt \<Rightarrow> json_lines option \<Rightarrow> json_lines option \<Rightarrow> string list res" where
  "monitor_report window now metrics_file alert_file =
     bind_res (summarize_metrics metrics_file) (\<lambda>s.
     bind_res (case alert_file of None \<Rightarrow> Inr 0 | Some ls \<Rightarrow> bind_res (list_alerts None ls) (\<lambda>xs. Inr (int (length xs)))) (\<lambda>n.
     Inr (report_lines window now s n)))"

section \<open>Steps\<close>

datatype monitor_op =
    CallOp string string pyfloat string tick
  | ErrorOp string string string string tick
  | QueueOp string string pyfloat int tick

fun monitor_step :: "api_monitor \<Rightarrow> monitor_op \<Rightarrow> api_monitor" where
  "monitor_step m (CallOp a o1 latency st t) = record_call a o1 latency st t m"
| "monitor_step m (ErrorOp a o1 kind st t) = record_error a o1 kind st t m"
| "monitor_step m (QueueOp a o1 wait depth t) = record_queue_wait a o1 wait depth t m"

lemma helper_frames [simp]:
  "am_slo (emit_alert lv c x a o1 t m) = am_slo m" "am_metrics (emit_alert lv c x a o1 t m) = am_metrics m"
  "am_health (emit_alert lv c x a o1 t m) = am_health m" "am_limiter (emit_alert lv c x a o1 t m) = am_limiter m"
  "am_failover (emit_alert lv c x a o1 t m) = am_failover m"
  "am_slo (raise_health l c x t m) = am_slo m" "am_metrics (raise_health l c x t m) = am_metrics m"
  "am_sink (raise_health l c x t m) = am_sink m" "am_limiter (raise_health l c x t m) = am_limiter m"
  "am_failover (raise_health l c x t m) = am_failover m"
  "am_slo (plan_and_dispatch r t m) = am_slo m" "am_metrics (plan_and_dispatch r t m) = am_metrics m"
  "am_sink (plan_and_dispatch r t m) = am_sink m" "am_limiter (plan_and_dispatch r t m) = am_limiter m"
  "am_health (plan_and_dispatch r t m) = am_health m"
  by (simp_all add: emit_alert_def raise_health_def plan_and_dispatch_def Let_def)

lemma raise_health_step:
  "am_health v = h \<Longrightarrow> \<exists>op. write_succeeds op \<and> am_health (raise_health l c x t v) = health_step h op"
  by (rule exI [of _ "RaiseCond l c (Some x) (Some ''runbook:RUN-BROKER-API-02'') False (tk_now t) (tk_now t) True"])
    (auto simp: raise_health_def write_succeeds_def)

lemma step_health:
  "am_health (monitor_step m x) = am_health m \<or>
   (\<exists>op. write_succeeds op \<and> am_health (monitor_step m x) = health_step (am_health m) op)"
  by (cases x) (auto simp: record_call_def record_error_def record_queue_wait_def Let_def intro!: raise_health_step)

text \<open>Each call appends one metric record, which has none of the limiter's keys.\<close>

definition op_record :: "monitor_op \<Rightarrow> pydict" where
  "op_record x = (case x of
       CallOp a o1 latency st t \<Rightarrow> [(''ts'', PStr (utc_iso (tk_now t))), (''adapter'', PStr a), (''operation'', PStr o1),
         (''latency_ms'', PFloat (fround 2 latency)), (''status'', PStr st), (''error_bucket'', PNone)]
     | ErrorOp a o1 kind st t \<Rightarrow> [(''ts'', PStr (utc_iso (tk_now t))), (''adapter'', PStr a), (''operation'', PStr o1),
         (''latency_ms'', PNone), (''status'', PStr st), (''error_bucket'', PStr kind)]
     | QueueOp a o1 wait depth t \<Rightarrow> [(''ts'', PStr (utc_iso (tk_now t))), (''adapter'', PStr a), (''operation'', PStr o1),
         (''status'', PStr ''queued''), (''queue_wait_ms'', PFloat (fround 2 (fmul wait (Fin 1000)))), (''queue_depth'', PInt depth)])"

lemma step_metrics: "am_metrics (monitor_step m x) = am_metrics m @ [op_record x]"
  by (cases x) (simp_all add: record_call_def record_error_def record_queue_wait_def Let_def op_record_def)

lemma step_slo [simp]: "am_slo (monitor_step m x) = am_slo m"
  by (cases x) (simp_all add: record_call_def record_error_def record_queue_wait_def Let_def)

lemma run_metrics: "am_metrics (foldl monitor_step m xs) = am_metrics m @ map op_record xs"
  by (induction xs arbitrary: m) (simp_all add: step_metrics)

interpretation api: logged_system monitor_step "\<lambda>m :: api_monitor. covered (am_health m) \<and> queue_ok (am_health m)" am_metrics
proof
  fix m :: api_monitor and x assume m: "covered (am_health m) \<and> queue_ok (am_health m)"
  show "covered (am_health (monitor_step m x)) \<and> queue_ok (am_health (monitor_step m x))"
    using step_health [of m x] m covered_step health_step_queue_ok by metis
qed (simp add: step_metrics)

section \<open>Failover\<close>

text \<open>The reason an operation has the planner dispatch a failover for, if it does.\<close>

definition failover_reason :: "slo \<Rightarrow> monitor_op \<Rightarrow> string option" where
  "failover_reason s x = (case x of
       CallOp a o1 latency st t \<Rightarrow> if fle (f_of_int (sl_critical s)) latency then Some ''broker_latency'' else None
     | ErrorOp a o1 kind st t \<Rightarrow> if kind \<in> {''auth'', ''network''} then Some (''broker_'' @ kind) else None
     | QueueOp a o1 wait depth t \<Rightarrow> None)"

lemma plan_failover_file:
  "fo_file (snd (plan_failover r True t1 t2 t3 (t4, t5, t6) f)) =
     fo_file (write_failover_state (make_plan (fo_runbook f) r t1 t2) f)"
  "fo_runbook (snd (plan_failover r True t1 t2 t3 (t4, t5, t6) f)) = fo_runbook f"
  by (simp_all add: plan_failover_def Let_def dispatch_file)
    (simp_all add: write_failover_state_def dispatch_failover_def record_failover_plan_def Let_def case_prod_unfold)

lemma step_failover:
  assumes "am_failover m = Some f"
  shows "\<exists>f'. am_failover (monitor_step m x) = Some f' \<and> (case failover_reason (am_slo m) x of
      None \<Rightarrow> fo_file f' = fo_file f
    | Some r \<Rightarrow> \<exists>d. fo_file f' = Some (Some (PDict d)) \<and> dget d ''status'' = PStr ''blocked'' \<and> dget d ''trigger_reason'' = PStr r)"
proof -
  have "fo_file (snd (plan_failover r True t t t (t, t, t) f)) = Some (Some (PDict
      [(''status'', PStr ''blocked''), (''plan_id'', PStr (fp_id p)), (''runbook_ref'', PStr (fp_runbook p)),
       (''trigger_reason'', PStr r), (''created_at'', PStr (fp_created_at p))]))" if "p = make_plan (fo_runbook f) r t t" for r t p
    by (simp add: plan_failover_file write_failover_state_def that make_plan_def)
  then have pd: "\<exists>f'. am_failover (plan_and_dispatch r t v) = Some f' \<and> (\<exists>d. fo_file f' = Some (Some (PDict d)) \<and>
      dget d ''status'' = PStr ''blocked'' \<and> dget d ''trigger_reason'' = PStr r)" if "am_failover v = Some f" for r t v
    by (simp add: plan_and_dispatch_def that Let_def)
  show ?thesis
    by (cases x) (auto simp: record_call_def record_error_def record_queue_wait_def Let_def failover_reason_def assms
        intro!: pd)
qed

lemma step_keeps_planner: "am_failover m = Some f \<Longrightarrow> \<exists>f'. am_failover (monitor_step m x) = Some f'"
  using step_failover by blast

section \<open>Properties\<close>

text \<open>The failover state after any sequence of calls of a monitor with a planner: it is the one before
  them if no call was an authentication or network error or reached the critical latency, and otherwise
  it is blocked, with the reason of the last such call. No other error blocks, and nothing unblocks.\<close>

theorem failover_follows_last_trigger:
  assumes "am_failover m = Some f"
  shows "\<exists>f'. am_failover (foldl monitor_step m xs) = Some f' \<and>
    (case rev (List.map_filter (failover_reason (am_slo m)) xs) of
       [] \<Rightarrow> fo_file f' = fo_file f
     | r # _ \<Rightarrow> load_failover_active (fo_file f') = Inr True \<and>
         (\<exists>d. fo_file f' = Some (Some (PDict d)) \<and> dget d ''trigger_reason'' = PStr r))"
  using assms
proof (induction xs arbitrary: m f)
  case Nil
  then show ?case by (simp add: map_filter_simps)
next
  case (Cons x xs)
  obtain f1 where f1: "am_failover (monitor_step m x) = Some f1" "case failover_reason (am_slo m) x of
      None \<Rightarrow> fo_file f1 = fo_file f
    | Some r \<Rightarrow> \<exists>d. fo_file f1 = Some (Some (PDict d)) \<and> dget d ''status'' = PStr ''blocked'' \<and> dget d ''trigger_reason'' = PStr r"
    using step_failover [OF Cons.prems, of x] by blast
  obtain f' where f': "am_failover (foldl monitor_step (monitor_step m x) xs) = Some f'"
    "case rev (List.map_filter (failover_reason (am_slo m)) xs) of
       [] \<Rightarrow> fo_file f' = fo_file f1
     | r # _ \<Rightarrow> load_failover_active (fo_file f') = Inr True \<and>
         (\<exists>d. fo_file f' = Some (Some (PDict d)) \<and> dget d ''trigger_reason'' = PStr r)"
    using Cons.IH [OF f1(1)] by auto
  show ?case
  proof (cases "rev (List.map_filter (failover_reason (am_slo m)) xs)")
    case Nil
    then show ?thesis
      using f1 f' by (auto simp: map_filter_simps load_failover_active_def py_or_def split: option.splits)
  next
    case (Cons r rs)
    then show ?thesis
      using f' by (auto simp: map_filter_simps split: option.splits)
  qed
qed

definition demo_slo :: slo where
  "demo_slo = \<lparr>sl_warn = 750, sl_critical = 1500, sl_queue = 30\<rparr>"

definition demo_tick :: tick where
  "demo_tick = \<lparr>tk_now = demo_ts, tk_mono = Fin 30, tk_hex = ''a1b2c3d4e5f6''\<rparr>"

definition demo_api :: api_monitor where
  "demo_api = \<lparr>am_slo = demo_slo, am_metrics = [], am_health = monitor_default, am_sink = None, am_limiter = None,
     am_failover = Some demo_failover\<rparr>"

theorem failover_follows_last_trigger_witness:
  "\<exists>f'. am_failover (foldl monitor_step demo_api [ErrorOp ''sandbox'' ''order.place'' ''timeout'' ''error'' demo_tick,
      ErrorOp ''sandbox'' ''order.place'' ''auth'' ''error'' demo_tick, QueueOp ''sandbox'' ''order.place'' (Fin 2) 1 demo_tick])
    = Some f' \<and> load_failover_active (fo_file f') = Inr True"
  using failover_follows_last_trigger [of demo_api demo_failover "[ErrorOp ''sandbox'' ''order.place'' ''timeout'' ''error'' demo_tick,
      ErrorOp ''sandbox'' ''order.place'' ''auth'' ''error'' demo_tick, QueueOp ''sandbox'' ''order.place'' (Fin 2) 1 demo_tick]"]
  by (auto simp: demo_api_def failover_reason_def map_filter_simps)

definition op_request :: "monitor_op \<Rightarrow> bool" where
  "op_request x = (case x of CallOp a o1 _ _ _ \<Rightarrow> a \<noteq> [] \<and> o1 \<noteq> [] | ErrorOp a o1 _ _ _ \<Rightarrow> a \<noteq> [] \<and> o1 \<noteq> []
     | QueueOp a o1 _ _ _ \<Rightarrow> a \<noteq> [] \<and> o1 \<noteq> [])"

definition op_error :: "monitor_op \<Rightarrow> bool" where
  "op_error x = (case x of CallOp _ _ _ st _ \<Rightarrow> st = ''error'' | ErrorOp _ _ kind st _ \<Rightarrow> st = ''error'' \<or> kind \<noteq> []
     | QueueOp _ _ _ _ _ \<Rightarrow> False)"

lemma count_metrics_ops:
  "count_metrics (map (Some \<circ> PDict \<circ> op_record) xs) =
     Inr (int (length (filter op_request xs)), int (length (filter op_error xs)), 0)"
proof (induction xs)
  case (Cons x xs)
  have "(truthy (dget (op_record x) ''adapter'') \<and> truthy (dget (op_record x) ''operation'')) = op_request x"
    "(dget (op_record x) ''status'' = PStr ''error'' \<or> truthy (dget (op_record x) ''error_bucket'')) = op_error x"
    "dget (op_record x) ''event'' = PNone"
    by (cases x; simp add: op_record_def op_request_def op_error_def)+
  with Cons show ?case by (simp add: one_if_def)
qed simp

text \<open>The report over the metric records of a monitor: every call with an adapter and an operation is a
  request, every call with status \<open>error\<close> or an error kind is an error, and no rate-limit hit is ever
  counted, because the limiter writes its records to a file of its own.\<close>

theorem report_counts:
  assumes "am_metrics m = []"
  shows "summarize_metrics (Some (map (Some \<circ> PDict) (am_metrics (foldl monitor_step m xs)))) = Inr
    \<lparr>ms_status = (if list_all (\<lambda>x. \<not> op_error x) xs then ''ok'' else ''warn''), ms_requests = int (length (filter op_request xs)),
     ms_errors = int (length (filter op_error xs)), ms_hits = 0\<rparr>"
  using count_metrics_ops [of xs]
  by (simp add: summarize_metrics_def run_metrics assms comp_assoc list_all_iff filter_empty_conv)

theorem report_counts_witness:
  "summarize_metrics (Some (map (Some \<circ> PDict) (am_metrics (foldl monitor_step demo_api
     [ErrorOp ''sandbox'' ''order.place'' ''rate_limit'' ''error'' demo_tick])))) = Inr
    \<lparr>ms_status = ''warn'', ms_requests = 1, ms_errors = 1, ms_hits = 0\<rparr>"
  using report_counts [of demo_api "[ErrorOp ''sandbox'' ''order.place'' ''rate_limit'' ''error'' demo_tick]"]
  by (simp add: demo_api_def op_request_def op_error_def del: foldl.simps)

end
