(* ===== verification/Router.thy ===== *)
theory Router
  imports Policy ApiMonitor
begin

text \<open>
  \<open>src/execution/order_router.py\<close> with the adapters behind it (\<open>BrokerAdapterRegistry\<close> of
  \<open>src/brokers/adapter.py\<close> and \<open>src/brokers/sandbox.py\<close>). An order goes through the failover state, the
  kill switch, the broker policy and the rate limiter before an adapter places it; every outcome is
  recorded with the broker monitor.

  Files several objects write by their default paths are one field of the router's record: the order
  audit log (router and adapter), the API metrics (router, adapter and monitor, the monitor's
  \<open>am_metrics\<close>), the kill-switch state (router and adapter), the failover state (router and the
  monitor's planner). Without a monitor of its own the router makes one for every order:
  \<open>ro_monitor\<close> then keeps only what is in files (metrics, health events, the planner's files).

  The access service answers by a function (the repository's stub allows everyone), a loaded secret is
  known by its presence, and one \<open>attempt\<close> holds the clocks, the fresh digits, the zone database and
  the adapter's latency. Writes succeed.

  Shown: what an acknowledged order has passed, what each rejection leaves behind, and how an
  authentication failure closes the router and the autonomy stages.
\<close>

section \<open>Requests\<close>

record order_request =
  rq_ticket :: string
  rq_symbol :: string
  rq_side :: string
  rq_quantity :: pyfloat
  rq_price :: "pyfloat option"
  rq_reduce_only :: bool
  rq_ttl :: "int option"

record broker_order =
  bo_id :: string
  bo_ticket :: string
  bo_status :: string
  bo_adapter :: string
  bo_submitted :: string
  bo_ack :: "string option"
  bo_payload :: pydict

definition normalize_side :: "pyval \<Rightarrow> string" where
  "normalize_side v = (let text = str_lower (py_str (py_or v (PStr []))) in
     if text \<in> {''long'', ''buy''} then ''buy'' else if text \<in> {''short'', ''sell''} then ''sell'' else text)"

definition coerce_float :: "pyval \<Rightarrow> pyfloat option res" where
  "coerce_float v = (if v = PNone then Inr None else or_none (py_float v))"

definition coerce_int :: "pyval \<Rightarrow> int option res" where
  "coerce_int v = (if v = PNone then Inr None else or_none (py_int v))"

definition derive_price :: "string \<Rightarrow> string \<Rightarrow> pyfloat option \<Rightarrow> broker_rules \<Rightarrow> pyfloat option" where
  "derive_price symbol side entry_price rules = (case entry_price of
       None \<Rightarrow> None
     | Some p \<Rightarrow> (case for_symbol rules symbol of
           Inl _ \<Rightarrow> Some p
         | Inr r \<Rightarrow> (case sr_protect_pips r of
               None \<Rightarrow> Some p
             | Some pips \<Rightarrow> let offset = fmul pips (sr_pip_size r)
                 in Some (if side = ''buy'' then fadd p offset else fsub p offset))))"

text \<open>\<open>str(payload.get(a) or payload.get(b) or default)\<close>.\<close>

definition text_of :: "pydict \<Rightarrow> string \<Rightarrow> string \<Rightarrow> string \<Rightarrow> string" where
  "text_of p a b v0 = py_str (py_or (py_or (dget p a) (dget p b)) (PStr v0))"

definition build_request :: "pydict \<Rightarrow> broker_rules \<Rightarrow> (order_request \<times> string \<times> string \<times> string \<times> string) res" where
  "build_request p rules =
     (let ticket = text_of p ''ticket_id'' ''id'' []; symbol = text_of p ''symbol'' ''pair'' [];
          side = normalize_side (py_or (dget p ''side'') (dget p ''direction''));
          entry_type = text_of p ''entry_type'' ''entry_mode'' ''market'';
          adapter = py_str (py_or (dget p ''adapter'') (PStr ''sandbox''));
          profile = text_of p ''profile'' ''mode'' ''paper'';
          prin = py_str (py_or (dget p ''principal_id'') (PStr []));
          device = py_str (py_or (dget p ''device_id'') (PStr []));
          missing = (\<lambda>reason. Inl (OrderDispatchRejected reason ''RUN-BROKER-API-01''))
      in bind_res (coerce_float (py_or (dget p ''quantity'') (dget p ''size_lot''))) (\<lambda>quantity.
         bind_res (coerce_float (dget p ''entry_price'')) (\<lambda>entry_price.
         bind_res (coerce_int (py_or (dget p ''ttl_sec'') (dget p ''ttl_seconds''))) (\<lambda>ttl.
         if ticket = [] then missing ''ticket_id_missing''
         else if symbol = [] then missing ''symbol_missing''
         else if side \<noteq> ''buy'' \<and> side \<noteq> ''sell'' then missing ''side_missing''
         else case quantity of
           None \<Rightarrow> missing ''quantity_missing''
         | Some q \<Rightarrow>
             if prin = [] \<or> device = [] then missing ''principal_or_device_missing''
             else bind_res (coerce_float (dget p ''price'')) (\<lambda>price.
               Inr (\<lparr>rq_ticket = ticket, rq_symbol = symbol, rq_side = side, rq_quantity = q,
                  rq_price = (if entry_type = ''marketable_limit'' \<and> price = None
                     then derive_price symbol side entry_price rules else price),
                  rq_reduce_only = truthy (dget_def p ''reduce_only'' (PBool False)), rq_ttl = ttl\<rparr>,
                 adapter, profile, prin, device))))))"

definition payload_from_ticket :: "pydict \<Rightarrow> pydict" where
  "payload_from_ticket t =
     (let entry = mapping_or_empty (dget t ''entry''); position = mapping_or_empty (dget t ''position'');
          protect = mapping_or_empty (dget t ''protect'');
          base = [(''ticket_id'', dget t ''ticket_id''), (''symbol'', py_or (dget t ''pair'') (dget t ''symbol'')),
            (''side'', PStr (normalize_side (dget position ''direction''))),
            (''quantity'', py_or (dget position ''size_lot'') (dget position ''quantity'')),
            (''reduce_only'', dget_def position ''reduce_only'' (PBool False)),
            (''entry_type'', dget entry ''type''), (''entry_price'', dget entry ''price''), (''price'', dget entry ''price''),
            (''ttl_seconds'', dget protect ''ttl_seconds''), (''principal_id'', dget t ''principal_id''),
            (''device_id'', dget t ''device_id''), (''adapter'', py_or (dget t ''adapter'') (PStr ''sandbox'')),
            (''profile'', py_or (py_or (dget t ''profile'') (dget t ''mode'')) (PStr ''paper''))];
          p1 = (if truthy (dget t ''side'') then AList.update ''side'' (dget t ''side'') base else base)
      in if truthy (dget t ''quantity'') then AList.update ''quantity'' (dget t ''quantity'') p1 else p1)"

section \<open>Adapters\<close>

record access =
  ac_status :: string
  ac_reasons :: "string list"
  ac_runbook :: "string option"
  ac_device :: "string option"

text \<open>The access-governance stub: everyone is allowed, no device is bound.\<close>

definition noop_access :: "string \<Rightarrow> access" where
  "noop_access prin = \<lparr>ac_status = ''allowed'', ac_reasons = [], ac_runbook = None, ac_device = None\<rparr>"

record attempt =
  at_zone :: "string \<Rightarrow> pydt \<Rightarrow> int option"
  at_tick :: tick
  at_hex :: string
  at_secret :: bool
  at_latency :: pyfloat

definition at_time :: "attempt \<Rightarrow> string" where
  "at_time a = utc_iso (tk_now (at_tick a))"

text \<open>\<open>str(payload.get("state") or "none")\<close> of the kill-switch file.\<close>

definition kill_switch_text :: "json_file \<Rightarrow> string res" where
  "kill_switch_text file = (case file of Some (Some v) \<Rightarrow>
       bind_res (as_dict_get v) (\<lambda>d. Inr (py_str (py_or (dget d ''state'') (PStr ''none''))))
     | _ \<Rightarrow> Inr ''none'')"

definition feature_enabled :: "string \<Rightarrow> string \<Rightarrow> json_file \<Rightarrow> bool res" where
  "feature_enabled flag profile file = (case file of
       None \<Rightarrow> Inr False
     | Some None \<Rightarrow> Inl ValueError
     | Some (Some v) \<Rightarrow> Inr (truthy (dget (mapping_or_empty (dget (mapping_or_empty (dget (mapping_or_empty v) ''defaults'')) profile)) flag)))"

text \<open>The name of the adapter the registry resolves to; only the sandbox exists.\<close>

definition get_adapter :: "string \<Rightarrow> string \<Rightarrow> json_file \<Rightarrow> string res" where
  "get_adapter adapter profile flags =
     bind_res (feature_enabled ''brokers.api_enabled'' profile flags) (\<lambda>api.
     bind_res (feature_enabled ''brokers.api_sandbox_only'' profile flags) (\<lambda>sandbox_only.
     let name = (if api then adapter else ''sandbox'') in
     if name \<noteq> ''sandbox'' \<and> sandbox_only then Inl (BrokerAdapterError ''broker api sandbox-only mode is enabled'')
     else if name = ''sandbox'' then Inr name
     else Inl (BrokerAdapterError (''unknown broker adapter: '' @ name))))"

definition require_access :: "access \<Rightarrow> string \<Rightarrow> string \<Rightarrow> attempt \<Rightarrow> unit res \<times> pydict list" where
  "require_access ac prin device a =
     (let denied = (\<lambda>reasons. [[(''ts'', PStr (at_time a)), (''event'', PStr ''audit.broker_access_denied''),
            (''principal_id'', PStr prin), (''device_id'', PStr device), (''reasons'', PList (map PStr reasons)),
            (''runbook_ref'', ostr (ac_runbook ac))]])
      in if ac_status ac \<noteq> ''allowed'' then
           (Inl (BrokerAccessDenied (''access denied: '' @ str_join '', '' (ac_reasons ac))), denied (ac_reasons ac))
         else if otrue (ac_device ac) \<and> ac_device ac \<noteq> Some device then
           (Inl (BrokerAccessDenied ''device mismatch''), denied [''device_mismatch''])
         else (Inr (), []))"

definition opt_float :: "pyfloat option \<Rightarrow> pyval" where
  "opt_float x = (case x of None \<Rightarrow> PNone | Some y \<Rightarrow> PFloat y)"

definition opt_int :: "int option \<Rightarrow> pyval" where
  "opt_int x = (case x of None \<Rightarrow> PNone | Some y \<Rightarrow> PInt y)"

definition sandbox_order :: "order_request \<Rightarrow> string \<Rightarrow> string \<Rightarrow> attempt \<Rightarrow> broker_order" where
  "sandbox_order rq prin device a = \<lparr>bo_id = ''sbx-'' @ at_hex a, bo_ticket = rq_ticket rq, bo_status = ''acknowledged'',
     bo_adapter = ''sandbox'', bo_submitted = at_time a, bo_ack = Some (at_time a),
     bo_payload = [(''symbol'', PStr (rq_symbol rq)), (''side'', PStr (rq_side rq)),
       (''quantity'', PFloat (rq_quantity rq)), (''price'', opt_float (rq_price rq)),
       (''reduce_only'', PBool (rq_reduce_only rq)), (''ttl_sec'', opt_int (rq_ttl rq)),
       (''principal_id'', PStr prin), (''device_id'', PStr device)]\<rparr>"

definition adapter_failed :: "attempt \<Rightarrow> order_request \<Rightarrow> string \<Rightarrow> pydict" where
  "adapter_failed a rq reason = [(''ts'', PStr (at_time a)), (''event'', PStr ''audit.broker_order_failed''),
     (''adapter'', PStr ''sandbox''), (''ticket_id'', PStr (rq_ticket rq)), (''reason'', PStr reason),
     (''secret_present'', PBool (at_secret a))]"

text \<open>\<open>SandboxAdapter.place_order\<close>: the result with the audit and the metric records it appends.\<close>

definition sandbox_place_order ::
  "access \<Rightarrow> json_file \<Rightarrow> order_request \<Rightarrow> string \<Rightarrow> string \<Rightarrow> attempt \<Rightarrow> broker_order res \<times> pydict list \<times> pydict list" where
  "sandbox_place_order ac kill_file rq prin device a =
     (case require_access ac prin device a of
        (Inl e, audit) \<Rightarrow> (Inl e, audit, [])
      | (Inr _, _) \<Rightarrow>
          (case kill_switch_text kill_file of
             Inl e \<Rightarrow> (Inl e, [], [])
           | Inr state \<Rightarrow>
               if state \<in> {''stop'', ''STOP''} then
                 (Inl (BrokerOrderRejected ''kill switch stop''), [adapter_failed a rq ''kill_switch_stop''], [])
               else if state \<in> {''reduce_only'', ''REDUCE_ONLY''} \<and> \<not> rq_reduce_only rq then
                 (Inl (BrokerOrderRejected ''reduce only required''), [adapter_failed a rq ''reduce_only_required''], [])
               else
                 let order = sandbox_order rq prin device a
                 in (Inr order,
                     [[(''ts'', PStr (at_time a)), (''event'', PStr ''audit.broker_order_submitted''), (''adapter'', PStr ''sandbox''),
                       (''ticket_id'', PStr (rq_ticket rq)), (''order_id'', PStr (bo_id order)), (''status'', PStr (bo_status order)),
                       (''secret_present'', PBool (at_secret a))]],
                     [[(''ts'', PStr (at_time a)), (''adapter'', PStr ''sandbox''), (''operation'', PStr ''place_order''),
                       (''status'', PStr (bo_status order)), (''error_code'', PNone), (''latency_ms'', PInt 0),
                       (''retries'', PInt 0), (''secret_present'', PBool (at_secret a))]])))"

definition sandbox_modify_order :: "string \<Rightarrow> pydict \<Rightarrow> pydt \<Rightarrow> broker_order \<times> pydict list" where
  "sandbox_modify_order order_id updates now =
     (\<lparr>bo_id = order_id, bo_ticket = py_str (py_or (dget updates ''ticket_id'') (PStr ''unknown'')), bo_status = ''modified'',
       bo_adapter = ''sandbox'', bo_submitted = utc_iso now, bo_ack = Some (utc_iso now), bo_payload = updates\<rparr>,
      [[(''ts'', PStr (utc_iso now)), (''event'', PStr ''audit.broker_order_modified''), (''adapter'', PStr ''sandbox''),
        (''order_id'', PStr order_id)]])"

definition sandbox_cancel_order :: "string \<Rightarrow> pydt \<Rightarrow> pydict list" where
  "sandbox_cancel_order order_id now =
     [[(''ts'', PStr (utc_iso now)), (''event'', PStr ''audit.broker_order_cancelled''), (''adapter'', PStr ''sandbox''),
       (''order_id'', PStr order_id)]]"

section \<open>The router\<close>

record router =
  ro_rules :: broker_rules
  ro_enforcer :: "broker_rules res"
  ro_access :: "string \<Rightarrow> access"
  ro_flags :: json_file
  ro_kill :: json_file
  ro_failover :: json_file
  ro_limiter :: "limiter option"
  ro_own_monitor :: bool
  ro_monitor :: api_monitor
  ro_audit :: "pydict list"

text \<open>The failover state file: the one the monitor's planner writes, where it has one.\<close>

definition failover_file :: "router \<Rightarrow> json_file" where
  "failover_file r = (case am_failover (ro_monitor r) of Some f \<Rightarrow> fo_file f | None \<Rightarrow> ro_failover r)"

definition assert_failover :: "json_file \<Rightarrow> unit res" where
  "assert_failover file = (case file of Some (Some v) \<Rightarrow>
       bind_res (as_dict_get v) (\<lambda>d.
         if py_str (py_or (dget d ''status'') (PStr [])) \<in> {''blocked'', ''active''}
         then Inl (OrderDispatchRejected ''broker_failover_active'' ''RUN-BROKER-API-02'') else Inr ())
     | _ \<Rightarrow> Inr ())"

definition log_audit :: "pydict list \<Rightarrow> router \<Rightarrow> router" where
  "log_audit es r = r\<lparr>ro_audit := ro_audit r @ es\<rparr>"

definition log_metrics :: "pydict list \<Rightarrow> router \<Rightarrow> router" where
  "log_metrics es r = r\<lparr>ro_monitor := (ro_monitor r)\<lparr>am_metrics := am_metrics (ro_monitor r) @ es\<rparr>\<rparr>"

definition assert_kill_switch :: "order_request \<Rightarrow> attempt \<Rightarrow> router \<Rightarrow> unit res \<times> router" where
  "assert_kill_switch rq a r = (case kill_switch_text (ro_kill r) of
       Inl e \<Rightarrow> (Inl e, r)
     | Inr text \<Rightarrow>
         let state = str_lower text;
             failed = (\<lambda>reason. (Inl (OrderDispatchRejected reason ''RUN-RISK-01''),
                log_audit [[(''ts'', PStr (at_time a)), (''event'', PStr ''audit.broker_order_failed''),
                  (''ticket_id'', PStr (rq_ticket rq)), (''reason'', PStr reason)]] r))
         in if state = ''stop'' then failed ''kill_switch_stop''
            else if state = ''reduce_only'' \<and> \<not> rq_reduce_only rq then failed ''reduce_only_required''
            else (Inr (), r))"

definition assert_policy :: "pydict \<Rightarrow> string \<Rightarrow> attempt \<Rightarrow> router \<Rightarrow> unit res" where
  "assert_policy payload profile a r =
     bind_res (ro_enforcer r) (\<lambda>rules.
     bind_res (validate_order (at_zone a) rules payload (tk_now (at_tick a))) (\<lambda>vs.
     case (if profile \<noteq> ''live'' then filter (\<lambda>v. vi_code v \<noteq> ''trading_session_closed'') vs else vs) of
       [] \<Rightarrow> Inr ()
     | v # _ \<Rightarrow> Inl (OrderDispatchRejected (vi_code v) (the (str_or (vi_runbook v) (Some ''RUN-BROKER-API-02''))))))"

definition session_monitor :: "router \<Rightarrow> router" where
  "session_monitor r = (if ro_own_monitor r then r else
     let m = ro_monitor r in
     r\<lparr>ro_monitor := m\<lparr>am_health := monitor_default\<lparr>hm_log := hm_log (am_health m)\<rparr>, am_sink := None, am_limiter := None\<rparr>\<rparr>)"

definition reserve_rate_limit :: "attempt \<Rightarrow> router \<Rightarrow> reservation option \<times> router" where
  "reserve_rate_limit a r = (case ro_limiter r of
       None \<Rightarrow> (None, r)
     | Some w \<Rightarrow>
         let t = at_tick a; (v, w1) = reserve_detail ''order.place'' (Some (priority_for ''order.place'' w)) (tk_mono t) (tk_now t) w
         in (Some v, r\<lparr>ro_limiter := Some w1\<rparr>))"

definition with_monitor :: "(api_monitor \<Rightarrow> api_monitor) \<Rightarrow> router \<Rightarrow> router" where
  "with_monitor f r = r\<lparr>ro_monitor := f (ro_monitor r)\<rparr>"

definition defer_order :: "string \<Rightarrow> reservation \<Rightarrow> attempt \<Rightarrow> router \<Rightarrow> router" where
  "defer_order adapter v a r =
     (let t = at_tick a;
          r1 = (if rv_wait v \<noteq> Fin 0 then
                  with_monitor (record_queue_wait adapter ''order.place'' (rv_wait v) (rv_depth v) t) r else r)
      in with_monitor (record_error adapter ''order.place'' ''rate_limit'' ''error'' t) r1)"

definition place_via_adapter ::
  "order_request \<Rightarrow> string \<Rightarrow> string \<Rightarrow> string \<Rightarrow> attempt \<Rightarrow> router \<Rightarrow> broker_order res \<times> router" where
  "place_via_adapter rq adapter prin device a r =
     (let t = at_tick a;
          (res, audit, metrics) = sandbox_place_order (ro_access r prin) (ro_kill r) rq prin device a;
          r1 = log_metrics metrics (log_audit audit r);
          failed = (\<lambda>kind. with_monitor (record_error adapter ''order.place'' kind ''error'' t) r1)
      in case res of
           Inl (BrokerAccessDenied _) \<Rightarrow> (Inl (OrderDispatchRejected ''broker_access_denied'' ''RUN-BROKER-API-02''), failed ''auth'')
         | Inl (BrokerOrderRejected msg) \<Rightarrow> (Inl (OrderDispatchRejected msg ''RUN-BROKER-API-02''), failed ''policy'')
         | Inl e \<Rightarrow> (Inl e, failed ''unknown'')
         | Inr order \<Rightarrow>
             (Inr order,
              log_metrics [[(''ts'', PStr (at_time a)), (''adapter'', PStr (bo_adapter order)),
                  (''operation'', PStr ''order_router.submit''), (''status'', PStr (bo_status order)),
                  (''ticket_id'', PStr (bo_ticket order)), (''order_id'', PStr (bo_id order)),
                  (''latency_ms'', PFloat (fround 2 (at_latency a))), (''retries'', PInt 0)]]
              (log_audit [[(''ts'', PStr (at_time a)), (''event'', PStr ''audit.broker_order_ack''),
                  (''adapter'', PStr (bo_adapter order)), (''ticket_id'', PStr (bo_ticket order)),
                  (''order_id'', PStr (bo_id order)), (''status'', PStr (bo_status order)), (''payload'', PDict (bo_payload order))]]
              (with_monitor (record_call adapter ''order.place'' (at_latency a) (bo_status order) t) r1))))"

definition submit :: "pydict \<Rightarrow> attempt \<Rightarrow> router \<Rightarrow> broker_order res \<times> router" where
  "submit payload a r =
     (case build_request payload (ro_rules r) of
        Inl e \<Rightarrow> (Inl e, r)
      | Inr (rq, adapter, profile, prin, device) \<Rightarrow>
          (case assert_failover (failover_file r) of
             Inl e \<Rightarrow> (Inl e, r)
           | Inr _ \<Rightarrow>
               (case assert_kill_switch rq a r of
                  (Inl e, r1) \<Rightarrow> (Inl e, r1)
                | (Inr _, _) \<Rightarrow>
                    (case assert_policy payload profile a r of
                       Inl e \<Rightarrow> (Inl e, r)
                     | Inr _ \<Rightarrow>
                         let (v, r1) = reserve_rate_limit a (session_monitor r) in
                         if (case v of None \<Rightarrow> False | Some x \<Rightarrow> \<not> rv_allowed x) then
                           (Inl (OrderDispatchRejected ''rate_limit_deferred'' ''RUN-BROKER-API-02''), defer_order adapter (the v) a r1)
                         else (case get_adapter adapter profile (ro_flags r1) of
                             Inl e \<Rightarrow> (Inl e, r1)
                           | Inr _ \<Rightarrow> place_via_adapter rq adapter prin device a r1)))))"

definition submit_ticket :: "pydict \<Rightarrow> attempt \<Rightarrow> router \<Rightarrow> broker_order res \<times> router" where
  "submit_ticket ticket a r = submit (payload_from_ticket ticket) a r"

definition cancel_order :: "string \<Rightarrow> router \<Rightarrow> unit res \<times> router" where
  "cancel_order order_id r = (Inl (NotImplementedError ''Order cancellation is not wired yet.''), r)"

section \<open>What an acknowledged order has passed\<close>

lemma assert_kill_switch_pass:
  "assert_kill_switch rq a r = (Inr u, r1) \<longleftrightarrow> r1 = r \<and>
     (\<exists>text. kill_switch_text (ro_kill r) = Inr text \<and> str_lower text \<noteq> ''stop'' \<and>
       (str_lower text = ''reduce_only'' \<longrightarrow> rq_reduce_only rq))"
  by (cases "kill_switch_text (ro_kill r)") (auto simp: assert_kill_switch_def Let_def)

definition failed_record :: "attempt \<Rightarrow> order_request \<Rightarrow> string \<Rightarrow> pydict" where
  "failed_record a rq reason = [(''ts'', PStr (at_time a)), (''event'', PStr ''audit.broker_order_failed''),
     (''ticket_id'', PStr (rq_ticket rq)), (''reason'', PStr reason)]"

lemma assert_kill_switch_fail:
  "assert_kill_switch rq a r = (Inl e, r1) \<Longrightarrow> r1 = r \<and> kill_switch_text (ro_kill r) = Inl e \<or>
     (\<exists>reason. e = OrderDispatchRejected reason ''RUN-RISK-01'' \<and> reason \<in> {''kill_switch_stop'', ''reduce_only_required''} \<and>
        r1 = log_audit [failed_record a rq reason] r)"
  by (cases "kill_switch_text (ro_kill r)") (auto simp: assert_kill_switch_def Let_def failed_record_def split: if_splits)

abbreviation granted_router :: "attempt \<Rightarrow> router \<Rightarrow> router" where
  "granted_router a r \<equiv> snd (reserve_rate_limit a (session_monitor r))"

text \<open>The five ways \<open>submit\<close> ends: before the kill switch or in the policy, at the kill switch, deferred by the
  limiter, without an adapter, or at the adapter with every guard passed.\<close>

lemma submit_cases:
  obtains (refused) e where "submit payload a r = (Inl e, r)"
      "build_request payload (ro_rules r) = Inl e \<or> assert_failover (failover_file r) = Inl e \<or>
       kill_switch_text (ro_kill r) = Inl e \<or> (\<exists>profile. assert_policy payload profile a r = Inl e)"
  | (killed) reason rq where "submit payload a r = (Inl (OrderDispatchRejected reason ''RUN-RISK-01''), log_audit [failed_record a rq reason] r)"
      "reason \<in> {''kill_switch_stop'', ''reduce_only_required''}"
  | (deferred) adapter v where "submit payload a r =
      (Inl (OrderDispatchRejected ''rate_limit_deferred'' ''RUN-BROKER-API-02''), defer_order adapter v a (granted_router a r))"
      "fst (reserve_rate_limit a (session_monitor r)) = Some v" "\<not> rv_allowed v"
  | (unrouted) e adapter profile where "submit payload a r = (Inl e, granted_router a r)"
      "get_adapter adapter profile (ro_flags (granted_router a r)) = Inl e"
  | (placed) rq adapter profile prin device where
      "submit payload a r = place_via_adapter rq adapter prin device a (granted_router a r)"
      "build_request payload (ro_rules r) = Inr (rq, adapter, profile, prin, device)"
      "assert_failover (failover_file r) = Inr ()" "assert_kill_switch rq a r = (Inr (), r)"
      "assert_policy payload profile a r = Inr ()"
      "\<forall>v. fst (reserve_rate_limit a (session_monitor r)) = Some v \<longrightarrow> rv_allowed v"
proof (cases "build_request payload (ro_rules r)")
  case (Inl e)
  then show thesis by (intro refused [of e]) (simp_all add: submit_def)
next
  case b: (Inr x)
  obtain rq adapter profile prin device where x: "x = (rq, adapter, profile, prin, device)" by (cases x)
  note s = submit_def [of payload a r, unfolded b x sum.case prod.case]
  show thesis
  proof (cases "assert_failover (failover_file r)")
    case (Inl e)
    then show thesis by (intro refused [of e]) (simp_all add: s)
  next
    case f: (Inr u)
    note s = s [unfolded f sum.case]
    obtain k r0 where k: "assert_kill_switch rq a r = (k, r0)" by (cases "assert_kill_switch rq a r")
    show thesis
    proof (cases k)
      case (Inl e)
      with k assert_kill_switch_fail [of rq a r e r0] show thesis
        by (auto simp: s intro: refused [of e] killed)
    next
      case (Inr u')
      with k have r0: "r0 = r" "assert_kill_switch rq a r = (Inr (), r)" using assert_kill_switch_pass by simp_all
      note s = s [unfolded r0(2) sum.case prod.case]
      show thesis
      proof (cases "assert_policy payload profile a r")
        case (Inl e)
        then show thesis by (intro refused [of e]) (auto simp: s)
      next
        case p: (Inr u'')
        note s = s [unfolded p sum.case Let_def case_prod_unfold]
        show thesis
        proof (cases "case fst (reserve_rate_limit a (session_monitor r)) of None \<Rightarrow> False | Some x \<Rightarrow> \<not> rv_allowed x")
          case True
          then show thesis using deferred [of adapter] by (auto simp: s split: option.splits)
        next
          case False
          then show thesis
            using b x f r0 p unrouted [of _ adapter profile] placed [of rq adapter prin device profile]
            by (cases "get_adapter adapter profile (ro_flags (granted_router a r))") (auto simp: s split: option.splits)
        qed
      qed
    qed
  qed
qed

definition events :: "pydict list \<Rightarrow> pyval list" where
  "events = map (\<lambda>d. dget d ''event'')"

lemma require_access_cases:
  obtains "require_access ac prin device a = (Inr (), [])"
  | reason es where "require_access ac prin device a = (Inl (BrokerAccessDenied reason), es)"
      "events es = [PStr ''audit.broker_access_denied'']"
  by (cases "ac_status ac = ''allowed''"; cases "otrue (ac_device ac) \<and> ac_device ac \<noteq> Some device")
    (auto simp: require_access_def events_def)

text \<open>What the adapter returns: the order with its record, or an error with at most one record.\<close>

lemma sandbox_place_order_cases:
  obtains es ms where "sandbox_place_order ac file rq prin device a = (Inr (sandbox_order rq prin device a), es, ms)"
      "events es = [PStr ''audit.broker_order_submitted'']" "\<forall>d\<in>set es. dget d ''order_id'' = PStr (''sbx-'' @ at_hex a)"
  | e es where "sandbox_place_order ac file rq prin device a = (Inl e, es, [])"
      "set (events es) \<subseteq> {PStr ''audit.broker_access_denied'', PStr ''audit.broker_order_failed''}"
      "(\<exists>m. e = BrokerAccessDenied m) \<or> e = AttributeError \<or>
       e \<in> BrokerOrderRejected ` {''kill switch stop'', ''reduce only required''}"
proof (cases rule: require_access_cases [of ac prin device a])
  case 1
  show ?thesis
  proof (cases "kill_switch_text file")
    case (Inl e)
    then have "e = AttributeError" by (auto simp: kill_switch_text_def as_dict_get_def bind_res_def split: option.splits pyval.splits)
    with 1 Inl show ?thesis by (intro that(2) [of e "[]"]) (simp_all add: sandbox_place_order_def events_def)
  next
    case (Inr state)
    consider "state \<in> {''stop'', ''STOP''}"
      | "state \<notin> {''stop'', ''STOP''}" "state \<in> {''reduce_only'', ''REDUCE_ONLY''} \<and> \<not> rq_reduce_only rq"
      | "state \<notin> {''stop'', ''STOP''}" "\<not> (state \<in> {''reduce_only'', ''REDUCE_ONLY''} \<and> \<not> rq_reduce_only rq)" by blast
    then show ?thesis
    proof cases
      case s: 1
      then have "sandbox_place_order ac file rq prin device a =
          (Inl (BrokerOrderRejected ''kill switch stop''), [adapter_failed a rq ''kill_switch_stop''], [])"
        unfolding sandbox_place_order_def 1 Inr by (simp only: sum.case prod.case if_True)
      then show ?thesis by (rule that(2)) (simp_all add: events_def adapter_failed_def)
    next
      case s: 2
      then have "sandbox_place_order ac file rq prin device a =
          (Inl (BrokerOrderRejected ''reduce only required''), [adapter_failed a rq ''reduce_only_required''], [])"
        unfolding sandbox_place_order_def 1 Inr by (simp only: sum.case prod.case if_True if_False simp_thms)
      then show ?thesis by (rule that(2)) (simp_all add: events_def adapter_failed_def)
    next
      case s: 3
      then have "\<exists>d ms. sandbox_place_order ac file rq prin device a = (Inr (sandbox_order rq prin device a), [d], ms) \<and>
          dget d ''event'' = PStr ''audit.broker_order_submitted'' \<and> dget d ''order_id'' = PStr (''sbx-'' @ at_hex a)"
        unfolding sandbox_place_order_def 1 Inr Let_def by (simp only: sum.case prod.case if_False simp_thms) (simp add: sandbox_order_def)
      then show ?thesis using that(1) by (auto simp: events_def)
    qed
  qed
next
  case (2 reason es)
  then have "sandbox_place_order ac file rq prin device a = (Inl (BrokerAccessDenied reason), es, [])"
    by (simp add: sandbox_place_order_def)
  then show ?thesis by (rule that(2)) (simp_all add: 2(2))
qed

lemma log_sel [simp]:
  "ro_audit (log_audit es r) = ro_audit r @ es" "ro_audit (log_metrics ms r) = ro_audit r"
  "ro_audit (with_monitor f r) = ro_audit r" "ro_monitor (log_audit es r) = ro_monitor r"
  "ro_monitor (with_monitor f r) = f (ro_monitor r)" "ro_failover (log_audit es r) = ro_failover r"
  "ro_failover (log_metrics ms r) = ro_failover r" "ro_failover (with_monitor f r) = ro_failover r"
  "am_failover (ro_monitor (log_metrics ms r)) = am_failover (ro_monitor r)"
  "am_slo (ro_monitor (log_metrics ms r)) = am_slo (ro_monitor r)"
  by (simp_all add: log_audit_def log_metrics_def with_monitor_def)

lemma place_via_adapter_audit:
  "\<exists>es. ro_audit (snd (place_via_adapter rq adapter prin device a r)) = ro_audit r @ es \<and>
     (case fst (place_via_adapter rq adapter prin device a r) of
        Inr ord \<Rightarrow> ord = sandbox_order rq prin device a \<and>
          events es = [PStr ''audit.broker_order_submitted'', PStr ''audit.broker_order_ack''] \<and>
          map (\<lambda>d. dget d ''order_id'') es = [PStr (bo_id ord), PStr (bo_id ord)]
      | Inl e \<Rightarrow> set (events es) \<subseteq> {PStr ''audit.broker_access_denied'', PStr ''audit.broker_order_failed''})"
proof (cases rule: sandbox_place_order_cases [of "ro_access r prin" "ro_kill r" rq prin device a])
  case (1 es ms)
  then obtain d where "es = [d]" "dget d ''order_id'' = PStr (''sbx-'' @ at_hex a)" by (cases es) (auto simp: events_def)
  with 1 show ?thesis
    by (simp add: place_via_adapter_def Let_def events_def) (simp add: sandbox_order_def)
next
  case (2 e es)
  then show ?thesis
    by (cases e) (auto simp: place_via_adapter_def Let_def)
qed

lemma session_monitor_sel [simp]:
  "ro_audit (session_monitor r) = ro_audit r" "ro_access (session_monitor r) = ro_access r"
  "ro_limiter (session_monitor r) = ro_limiter r" "am_failover (ro_monitor (session_monitor r)) = am_failover (ro_monitor r)"
  "am_slo (ro_monitor (session_monitor r)) = am_slo (ro_monitor r)" "ro_failover (session_monitor r) = ro_failover r"
  by (simp_all add: session_monitor_def Let_def)

lemma reserve_rate_limit_sel [simp]:
  "ro_audit (snd (reserve_rate_limit a r)) = ro_audit r" "ro_access (snd (reserve_rate_limit a r)) = ro_access r"
  "ro_monitor (snd (reserve_rate_limit a r)) = ro_monitor r" "ro_failover (snd (reserve_rate_limit a r)) = ro_failover r"
  by (simp_all add: reserve_rate_limit_def Let_def case_prod_unfold split: option.split)

lemma reserve_rate_limit_fst:
  "fst (reserve_rate_limit a r) = map_option (\<lambda>w. fst (reserve_detail ''order.place'' (Some (priority_for ''order.place'' w))
     (tk_mono (at_tick a)) (tk_now (at_tick a)) w)) (ro_limiter r)"
  by (simp add: reserve_rate_limit_def Let_def case_prod_unfold split: option.split)

lemma defer_order_audit [simp]: "ro_audit (defer_order adapter v a r) = ro_audit r"
  by (simp add: defer_order_def Let_def)

lemma assert_policy_pass:
  assumes "assert_policy payload profile a r = Inr ()"
  shows "\<exists>rules vs. ro_enforcer r = Inr rules \<and> validate_order (at_zone a) rules payload (tk_now (at_tick a)) = Inr vs \<and>
    (\<forall>v\<in>set vs. vi_code v = ''trading_session_closed'') \<and> (profile = ''live'' \<longrightarrow> vs = [])"
proof -
  obtain rules vs where rv: "ro_enforcer r = Inr rules" "validate_order (at_zone a) rules payload (tk_now (at_tick a)) = Inr vs"
    using assms by (auto simp: assert_policy_def bind_res_eq_Inr)
  define ws where "ws = (if profile \<noteq> ''live'' then filter (\<lambda>v. vi_code v \<noteq> ''trading_session_closed'') vs else vs)"
  have "ws = []" using assms rv by (cases ws) (simp_all add: assert_policy_def ws_def [symmetric])
  then have "\<forall>v\<in>set vs. vi_code v = ''trading_session_closed''" "profile = ''live'' \<longrightarrow> vs = []"
    unfolding ws_def by (auto simp: filter_empty_conv split: if_splits)
  with rv show ?thesis by blast
qed

section \<open>Properties\<close>

text \<open>C4: An order that \<open>submit\<close> acknowledges has passed every guard: the failover state is not blocked, the kill
  switch is not at stop and under reduce-only the order reduces, the broker's rules know the symbol and
  allow the order type and the number of open positions (and for a live profile the trading window is
  open), the rate limiter granted it and the access service allowed it; the order placed is the one
  requested.\<close>

theorem acknowledged_order_safe:
  assumes "submit payload a r = (Inr ord, r')"
  shows "\<exists>rq adapter profile prin device state rules sr n.
    build_request payload (ro_rules r) = Inr (rq, adapter, profile, prin, device) \<and> ord = sandbox_order rq prin device a \<and>
    assert_failover (failover_file r) = Inr () \<and>
    kill_switch_text (ro_kill r) = Inr state \<and> str_lower state \<noteq> ''stop'' \<and> (str_lower state = ''reduce_only'' \<longrightarrow> rq_reduce_only rq) \<and>
    ro_enforcer r = Inr rules \<and> map_of (br_symbols rules) (py_str (py_or (dget payload ''symbol'') (PStr []))) = Some sr \<and>
    order_type_allowed sr (py_str (py_or (py_or (dget payload ''entry_type'') (dget payload ''order_type'')) (PStr []))) \<and>
    py_int (py_or (dget payload ''open_positions'') (PInt 0)) = Inr n \<and> \<not> too_many_positions sr n \<and>
    (profile = ''live'' \<longrightarrow> is_within_trading_window (at_zone a) (sr_windows sr) (tk_now (at_tick a)) = Inr True) \<and>
    (\<forall>w. ro_limiter r = Some w \<longrightarrow> rv_allowed (fst (reserve_detail ''order.place'' (Some (priority_for ''order.place'' w))
       (tk_mono (at_tick a)) (tk_now (at_tick a)) w)))"
proof (cases rule: submit_cases [of payload a r])
  case (placed rq adapter profile prin device)
  note b = placed(2) and f = placed(3) and k = placed(4) and p = placed(5) and al = placed(6)
  have pl: "place_via_adapter rq adapter prin device a (granted_router a r) = (Inr ord, r')" using placed(1) assms by simp
  obtain rules vs where rules: "ro_enforcer r = Inr rules"
    and vs: "validate_order (at_zone a) rules payload (tk_now (at_tick a)) = Inr vs"
      "\<forall>v\<in>set vs. vi_code v = ''trading_session_closed''" "profile = ''live'' \<longrightarrow> vs = []"
    using assert_policy_pass [OF p] by blast
  have ord: "ord = sandbox_order rq prin device a"
    using place_via_adapter_audit [of rq adapter prin device a "granted_router a r"] pl by auto
  have lim: "\<forall>w. ro_limiter r = Some w \<longrightarrow> rv_allowed (fst (reserve_detail ''order.place'' (Some (priority_for ''order.place'' w))
       (tk_mono (at_tick a)) (tk_now (at_tick a)) w))"
  proof (intro allI impI)
    fix w assume w: "ro_limiter r = Some w"
    have "fst (reserve_rate_limit a (session_monitor r)) = Some (fst (reserve_detail ''order.place''
        (Some (priority_for ''order.place'' w)) (tk_mono (at_tick a)) (tk_now (at_tick a)) w))"
      by (simp only: reserve_rate_limit_fst session_monitor_sel w option.map)
    with al show "rv_allowed (fst (reserve_detail ''order.place'' (Some (priority_for ''order.place'' w))
        (tk_mono (at_tick a)) (tk_now (at_tick a)) w))" by blast
  qed
  obtain state where t: "kill_switch_text (ro_kill r) = Inr state" "str_lower state \<noteq> ''stop''"
      "str_lower state = ''reduce_only'' \<longrightarrow> rq_reduce_only rq"
    using k unfolding assert_kill_switch_pass by blast
  have "vs = [] \<or> (\<forall>v\<in>set vs. vi_code v = ''trading_session_closed'')" using vs(2) by blast
  from validate_order_Inr [OF vs(1) this] obtain sr n where
    sr: "map_of (br_symbols rules) (py_str (py_or (dget payload ''symbol'') (PStr []))) = Some sr"
      "py_int (py_or (dget payload ''open_positions'') (PInt 0)) = Inr n" "\<not> too_many_positions sr n"
      "order_type_allowed sr (py_str (py_or (py_or (dget payload ''entry_type'') (dget payload ''order_type'')) (PStr [])))"
    and win: "vs = [] \<longrightarrow> is_within_trading_window (at_zone a) (sr_windows sr) (tk_now (at_tick a)) = Inr True" by blast
  have live: "profile = ''live'' \<longrightarrow> is_within_trading_window (at_zone a) (sr_windows sr) (tk_now (at_tick a)) = Inr True"
    using win vs(3) by blast
  show ?thesis
    by (rule exI [of _ rq], rule exI [of _ adapter], rule exI [of _ profile], rule exI [of _ prin], rule exI [of _ device],
        rule exI [of _ state], rule exI [of _ rules], rule exI [of _ sr], rule exI [of _ n], intro conjI)
      (fact b ord f t rules sr live lim)+
qed (use assms in simp_all)

text \<open>What an order leaves in the audit log: a submitted and an acknowledged record with its id if it was
  placed; otherwise no acknowledgement, only records of a denial or a failure.\<close>

theorem submit_audit:
  "\<exists>es. ro_audit (snd (submit payload a r)) = ro_audit r @ es \<and>
     (case fst (submit payload a r) of
        Inr ord \<Rightarrow> events es = [PStr ''audit.broker_order_submitted'', PStr ''audit.broker_order_ack''] \<and>
          map (\<lambda>d. dget d ''order_id'') es = [PStr (bo_id ord), PStr (bo_id ord)]
      | Inl e \<Rightarrow> set (events es) \<subseteq> {PStr ''audit.broker_access_denied'', PStr ''audit.broker_order_failed''})"
proof (cases rule: submit_cases [of payload a r])
  case (placed rq adapter profile prin device)
  then show ?thesis
    using place_via_adapter_audit [of rq adapter prin device a "granted_router a r"]
    by (auto split: sum.splits)
qed (auto simp: events_def failed_record_def)

section \<open>After a failover\<close>

lemma assert_failover_error:
  "assert_failover file = Inl e \<Longrightarrow> e = AttributeError \<or> e = OrderDispatchRejected ''broker_failover_active'' ''RUN-BROKER-API-02''"
  by (auto simp: assert_failover_def bind_res_def as_dict_get_def split: option.splits sum.splits pyval.splits if_splits)

lemma coerce_error: "coerce_float v = Inl e \<Longrightarrow> e = OverflowError" "coerce_int v = Inl e \<Longrightarrow> e = OverflowError"
proof -
  have "py_float v = Inl e' \<Longrightarrow> e' \<in> {TypeError, ValueError, OverflowError}" for e'
    by (auto simp: py_float_def split: pyval.splits pyfloat.splits option.splits)
  moreover have "py_int v = Inl e' \<Longrightarrow> e' \<in> {TypeError, ValueError, OverflowError}" for e'
    by (auto simp: py_int_def split: pyval.splits pyfloat.splits option.splits)
  ultimately show "coerce_float v = Inl e \<Longrightarrow> e = OverflowError" "coerce_int v = Inl e \<Longrightarrow> e = OverflowError"
    by (auto simp: coerce_float_def coerce_int_def or_none_def split: sum.splits if_splits)
qed

lemma bind_res_error: "bind_res x f = Inl e \<Longrightarrow> (\<And>e'. x = Inl e' \<Longrightarrow> e' \<in> E) \<Longrightarrow> (\<And>y e'. f y = Inl e' \<Longrightarrow> e' \<in> E) \<Longrightarrow> e \<in> E"
  by (cases x) auto

lemma bind_res_Inr_error [simp]: "bind_res x (\<lambda>y. Inr (g y)) = Inl e \<longleftrightarrow> x = Inl e"
  by (cases x) auto

definition request_errors :: "err set" where
  "request_errors = {OverflowError} \<union> (\<lambda>reason. OrderDispatchRejected reason ''RUN-BROKER-API-01'') `
     {''ticket_id_missing'', ''symbol_missing'', ''side_missing'', ''quantity_missing'', ''principal_or_device_missing''}"

lemma build_request_error:
  assumes "build_request p rules = Inl e"
  shows "e \<in> request_errors"
  using assms unfolding build_request_def Let_def
  by (elim bind_res_error) (auto simp: request_errors_def dest!: coerce_error elim!: bind_res_error split: if_splits option.splits)

lemma kill_switch_text_error: "kill_switch_text file = Inl e \<Longrightarrow> e = AttributeError"
  by (auto simp: kill_switch_text_def as_dict_get_def bind_res_def split: option.splits pyval.splits)

lemma assert_policy_error:
  assumes "assert_policy payload profile a r = Inl e" "ro_enforcer r = Inr rules"
  shows "e \<in> {ValueError, TypeError, OverflowError} \<or> (\<exists>c ref. e = OrderDispatchRejected c ref \<and> c \<in> violation_codes)"
proof (cases "validate_order (at_zone a) rules payload (tk_now (at_tick a))")
  case (Inl e')
  then show ?thesis using assms validate_order_error [OF Inl] by (auto simp: assert_policy_def)
next
  case (Inr vs)
  define ws where "ws = (if profile \<noteq> ''live'' then filter (\<lambda>v. vi_code v \<noteq> ''trading_session_closed'') vs else vs)"
  have "set ws \<subseteq> set vs" by (simp add: ws_def)
  then show ?thesis
    using assms Inr validate_order_codes [OF Inr] by (cases ws) (auto simp: assert_policy_def ws_def [symmetric])
qed

lemma get_adapter_error: "get_adapter adapter profile flags = Inl e \<Longrightarrow> e = ValueError \<or> (\<exists>m. e = BrokerAdapterError m)"
  by (auto simp: get_adapter_def feature_enabled_def bind_res_def Let_def split: option.splits if_splits)

lemma refused_error:
  assumes "build_request payload (ro_rules r) = Inl e \<or> assert_failover (failover_file r) = Inl e \<or>
       kill_switch_text (ro_kill r) = Inl e \<or> (\<exists>profile. assert_policy payload profile a r = Inl e)" "ro_enforcer r = Inr rules"
  shows "e \<noteq> OrderDispatchRejected ''broker_access_denied'' ref"
  using assms build_request_error [of payload "ro_rules r" e] assert_failover_error [of "failover_file r" e]
    kill_switch_text_error [of "ro_kill r" e] assert_policy_error [of payload _ a r e rules]
  by (auto simp: request_errors_def violation_codes_def)

text \<open>A router whose failover state is blocked refuses every order and stays as it is.\<close>

lemma failover_latches:
  assumes "assert_failover (failover_file r) = Inl e"
  shows "\<exists>e'. submit payload a r = (Inl e', r)"
  by (cases "build_request payload (ro_rules r)") (auto simp: submit_def assms)

lemma record_error_blocks:
  assumes "am_failover m = Some f" "kind \<in> {''auth'', ''network''}"
  shows "\<exists>f'. am_failover (record_error adapter op kind st t m) = Some f' \<and>
    assert_failover (fo_file f') = Inl (OrderDispatchRejected ''broker_failover_active'' ''RUN-BROKER-API-02'') \<and>
    load_failover_active (fo_file f') = Inr True"
proof -
  obtain f' d where "am_failover (record_error adapter op kind st t m) = Some f'" "fo_file f' = Some (Some (PDict d))"
    "dget d ''status'' = PStr ''blocked''"
    using step_failover [OF assms(1), of "ErrorOp adapter op kind st t"] assms(2) by (auto simp: failover_reason_def)
  then show ?thesis by (simp add: assert_failover_def load_failover_active_def py_or_def)
qed

text \<open>A denied access closes the router: the failover state is blocked, every later order is refused and leaves
  the router as it is, and the stage guard reads an active failover.\<close>

theorem denied_access_closes_router:
  assumes "submit payload a r = (Inl (OrderDispatchRejected ''broker_access_denied'' ref), r')"
    and "ro_enforcer r = Inr rules" "am_failover (ro_monitor r) = Some f"
  shows "load_failover_active (failover_file r') = Inr True \<and> (\<forall>p a2. \<exists>e. submit p a2 r' = (Inl e, r'))"
proof (cases rule: submit_cases [of payload a r])
  case (refused e)
  then show ?thesis using refused_error [OF refused(2) assms(2)] assms(1) by auto
next
  case (unrouted e adapter profile)
  then show ?thesis using get_adapter_error [OF unrouted(2)] assms(1) by auto
next
  case (placed rq adapter profile prin device)
  let ?r = "granted_router a r"
  from placed(1) assms(1) have pl: "place_via_adapter rq adapter prin device a ?r =
    (Inl (OrderDispatchRejected ''broker_access_denied'' ref), r')" by simp
  have f: "am_failover (ro_monitor (log_metrics ms (log_audit es ?r))) = Some f" for ms es using assms(3) by simp
  obtain es ms where r': "r' = with_monitor (record_error adapter ''order.place'' ''auth'' ''error'' (at_tick a)) (log_metrics ms (log_audit es ?r))"
  proof (cases rule: sandbox_place_order_cases [of "ro_access ?r prin" "ro_kill ?r" rq prin device a])
    case (1 es ms)
    with pl show ?thesis by (simp add: place_via_adapter_def Let_def)
  next
    case (2 e es)
    with pl show ?thesis by (intro that [of "[]" es]) (auto simp: place_via_adapter_def Let_def)
  qed
  obtain f' where "am_failover (ro_monitor r') = Some f'"
    "assert_failover (fo_file f') = Inl (OrderDispatchRejected ''broker_failover_active'' ''RUN-BROKER-API-02'')"
    "load_failover_active (fo_file f') = Inr True"
    using record_error_blocks [OF f, of "''auth''" adapter "''order.place''" "''error''" "at_tick a" ms es] by (auto simp: r')
  then show ?thesis using failover_latches [of r'] by (simp add: failover_file_def)
qed (use assms in simp_all)

section \<open>Examples\<close>

definition demo_symbol :: symbol_rules where
  "demo_symbol = \<lparr>sr_symbol = ''USDJPY'', sr_description = ''-'', sr_pip_size = Fin (1 / 100), sr_contract_size = Fin 100000,
     sr_min_lot = Fin 1, sr_lot_step = Fin 1, sr_precision = 3, sr_min_distance = [], sr_freeze_level = Fin 2, sr_fifo = True,
     sr_margin_mode = ''netting'', sr_windows = [], sr_runbooks = [], sr_notes = [], sr_max_positions = Some 20,
     sr_protect_pips = Some (Fin 1), sr_order_types = [''market''], sr_swap_day = None, sr_liquidity = [], sr_metadata = []\<rparr>"

definition demo_rules :: broker_rules where
  "demo_rules = \<lparr>br_schema = ''v1'', br_runbook = ''RUN'', br_reviewed = None, br_notes = [], br_symbols = [(''USDJPY'', demo_symbol)]\<rparr>"

definition demo_attempt :: attempt where
  "demo_attempt = \<lparr>at_zone = (\<lambda>z t. Some 0), at_tick = demo_tick, at_hex = ''00ff'', at_secret = False, at_latency = Fin 5\<rparr>"

definition demo_router :: router where
  "demo_router = \<lparr>ro_rules = demo_rules, ro_enforcer = Inr demo_rules, ro_access = noop_access, ro_flags = None, ro_kill = None,
     ro_failover = None, ro_limiter = None, ro_own_monitor = False, ro_monitor = demo_api, ro_audit = []\<rparr>"

definition demo_order_payload :: pydict where
  "demo_order_payload = [(''ticket_id'', PStr ''T-1''), (''symbol'', PStr ''USDJPY''), (''side'', PStr ''long''), (''quantity'', PFloat (Fin 1)),
     (''principal_id'', PStr ''ops''), (''device_id'', PStr ''d1'')]"

lemma demo_lower [simp]: "str_lower ''long'' = ''long''" "str_lower ''none'' = ''none''"
  by code_simp+

lemma demo_request: "build_request demo_order_payload rules = Inr (\<lparr>rq_ticket = ''T-1'', rq_symbol = ''USDJPY'', rq_side = ''buy'',
    rq_quantity = Fin 1, rq_price = None, rq_reduce_only = False, rq_ttl = None\<rparr>, ''sandbox'', ''paper'', ''ops'', ''d1'')"
  by (simp add: demo_order_payload_def build_request_def text_of_def py_or_def normalize_side_def coerce_float_def coerce_int_def
      py_float_def Let_def)

lemma demo_policy: "assert_policy demo_order_payload ''paper'' demo_attempt (demo_router\<lparr>ro_access := ac\<rparr>) = Inr ()"
  by (simp add: assert_policy_def demo_router_def demo_order_payload_def validate_order_def py_or_def for_symbol_def demo_rules_def
      demo_symbol_def order_type_allowed_def normalize_entry_type_def too_many_positions_def Let_def)

lemma demo_submit: "submit demo_order_payload demo_attempt (demo_router\<lparr>ro_access := ac\<rparr>) =
  place_via_adapter \<lparr>rq_ticket = ''T-1'', rq_symbol = ''USDJPY'', rq_side = ''buy'', rq_quantity = Fin 1, rq_price = None,
      rq_reduce_only = False, rq_ttl = None\<rparr> ''sandbox'' ''ops'' ''d1'' demo_attempt (granted_router demo_attempt (demo_router\<lparr>ro_access := ac\<rparr>))"
proof -
  let ?r = "demo_router\<lparr>ro_access := ac\<rparr>"
  have f: "assert_failover (failover_file ?r) = Inr ()"
    by (simp add: failover_file_def demo_router_def demo_api_def demo_failover_def assert_failover_def)
  have k: "assert_kill_switch rq demo_attempt ?r = (Inr (), ?r)" for rq
    unfolding assert_kill_switch_pass by (simp add: demo_router_def kill_switch_text_def)
  have v: "fst (reserve_rate_limit demo_attempt (session_monitor ?r)) = None"
    by (simp add: reserve_rate_limit_fst demo_router_def)
  have g: "get_adapter ''sandbox'' ''paper'' flags = Inr ''sandbox''" if "flags = None" for flags
    by (simp add: get_adapter_def feature_enabled_def that)
  have "ro_flags (granted_router demo_attempt ?r) = None"
    by (simp add: reserve_rate_limit_def session_monitor_def demo_router_def)
  from g [OF this] show ?thesis
    by (simp add: submit_def demo_request demo_policy f k v case_prod_unfold)
qed

theorem acknowledged_order_safe_witness:
  "\<exists>rules sr. ro_enforcer demo_router = Inr rules \<and> map_of (br_symbols rules) ''USDJPY'' = Some sr"
proof -
  have r: "demo_router\<lparr>ro_access := noop_access\<rparr> = demo_router" by (simp add: demo_router_def)
  have "\<exists>ord r'. submit demo_order_payload demo_attempt demo_router = (Inr ord, r')"
    unfolding demo_submit [of noop_access, unfolded r]
    by (simp add: place_via_adapter_def sandbox_place_order_def require_access_def kill_switch_text_def Let_def)
      (simp add: demo_router_def reserve_rate_limit_def session_monitor_def noop_access_def Let_def)
  then obtain ord r' where "submit demo_order_payload demo_attempt demo_router = (Inr ord, r')" by blast
  from acknowledged_order_safe [OF this] show ?thesis by (auto simp: demo_order_payload_def py_or_def)
qed

definition locked_access :: "string \<Rightarrow> access" where
  "locked_access prin = \<lparr>ac_status = ''denied'', ac_reasons = [''expired''], ac_runbook = None, ac_device = None\<rparr>"

theorem denied_access_closes_router_witness:
  "\<exists>ref r'. submit demo_order_payload demo_attempt (demo_router\<lparr>ro_access := locked_access\<rparr>) =
      (Inl (OrderDispatchRejected ''broker_access_denied'' ref), r') \<and> (\<exists>e. submit demo_order_payload demo_attempt r' = (Inl e, r'))"
proof -
  let ?r = "demo_router\<lparr>ro_access := locked_access\<rparr>"
  have "ro_access (granted_router demo_attempt ?r) ''ops'' = locked_access ''ops''" by simp
  then have "\<exists>ref r'. submit demo_order_payload demo_attempt ?r = (Inl (OrderDispatchRejected ''broker_access_denied'' ref), r')"
    unfolding demo_submit
    by (simp add: place_via_adapter_def sandbox_place_order_def require_access_def locked_access_def Let_def)
  then obtain ref r' where s: "submit demo_order_payload demo_attempt ?r = (Inl (OrderDispatchRejected ''broker_access_denied'' ref), r')"
    by blast
  from denied_access_closes_router [OF this, of demo_rules demo_failover] show ?thesis
    using s by (auto simp: demo_router_def demo_api_def)
qed

section \<open>Tickets\<close>

lemma payload_from_ticket_get:
  "map_of (payload_from_ticket t) ''price'' = Some (dget (mapping_or_empty (dget t ''entry'')) ''price'')"
  "map_of (payload_from_ticket t) ''entry_price'' = Some (dget (mapping_or_empty (dget t ''entry'')) ''price'')"
  "map_of (payload_from_ticket t) ''open_positions'' = None"
  by (simp_all add: payload_from_ticket_def Let_def)

text \<open>A request built from a ticket has the ticket's entry price whatever the broker's rules are: the price is
  copied to both fields, so the protective offset of a marketable limit order is never applied.\<close>

theorem ticket_price_is_entry_price:
  assumes "build_request (payload_from_ticket t) rules = Inr (rq, rest)"
  shows "coerce_float (dget (mapping_or_empty (dget t ''entry'')) ''price'') = Inr (rq_price rq)"
proof -
  have p: "dget (payload_from_ticket t) ''price'' = dget (mapping_or_empty (dget t ''entry'')) ''price''"
    "dget (payload_from_ticket t) ''entry_price'' = dget (mapping_or_empty (dget t ''entry'')) ''price''"
    by (simp_all add: dget_def [of "payload_from_ticket t"] payload_from_ticket_get)
  show ?thesis
    using assms by (auto simp: build_request_def Let_def bind_res_eq_Inr p derive_price_def split: if_splits option.splits)
qed

theorem ticket_price_is_entry_price_witness:
  "\<exists>rq rest. build_request (payload_from_ticket (demo_order_payload @ [(''entry'', PDict [(''type'', PStr ''marketable_limit''),
      (''price'', PFloat (Fin 150))])])) demo_rules = Inr (rq, rest) \<and> rq_price rq = Some (Fin 150)"
proof -
  let ?t = "demo_order_payload @ [(''entry'', PDict [(''type'', PStr ''marketable_limit''), (''price'', PFloat (Fin 150))])]"
  have "\<exists>rq rest. build_request (payload_from_ticket ?t) demo_rules = Inr (rq, rest)"
    by (simp add: demo_order_payload_def payload_from_ticket_def build_request_def text_of_def py_or_def normalize_side_def
        coerce_float_def coerce_int_def py_float_def Let_def)
  then obtain rq rest where b: "build_request (payload_from_ticket ?t) demo_rules = Inr (rq, rest)" by blast
  from ticket_price_is_entry_price [OF this] have "rq_price rq = Some (Fin 150)"
    by (simp add: demo_order_payload_def coerce_float_def py_float_def)
  with b show ?thesis by blast
qed

text \<open>An order from a ticket never exceeds the number of open positions: the payload built from a ticket does
  not carry that number, and the policy takes a missing one for zero.\<close>

theorem ticket_skips_position_limit:
  assumes "\<forall>x sr k. map_of (br_symbols rules) x = Some sr \<and> sr_max_positions sr = Some k \<longrightarrow> 0 \<le> k"
    and "validate_order zone rules (payload_from_ticket t) now = Inr vs"
  shows "\<forall>v\<in>set vs. vi_code v \<noteq> ''max_positions_exceeded''"
proof -
  have "dget (payload_from_ticket t) ''open_positions'' = PNone" by (simp add: dget_def payload_from_ticket_get)
  then have n: "py_int (py_or (dget (payload_from_ticket t) ''open_positions'') (PInt 0)) = Inr 0" by (simp add: py_or_def)
  have "\<not> too_many_positions sr 0" if "map_of (br_symbols rules) x = Some sr" for x sr
  proof (cases "sr_max_positions sr")
    case (Some k)
    with assms(1) that have "0 \<le> k" by blast
    with Some show ?thesis by (simp add: too_many_positions_def)
  qed (simp add: too_many_positions_def)
  with validate_order_positions [OF assms(2)] n show ?thesis by fastforce
qed

theorem ticket_skips_position_limit_witness:
  "\<exists>vs. validate_order (\<lambda>z t. Some 0) demo_rules (payload_from_ticket (demo_order_payload @ [(''open_positions'', PInt 99)])) demo_ts = Inr vs \<and>
     (\<forall>v\<in>set vs. vi_code v \<noteq> ''max_positions_exceeded'')"
proof -
  let ?p = "payload_from_ticket (demo_order_payload @ [(''open_positions'', PInt 99)])"
  have "\<exists>vs. validate_order (\<lambda>z t. Some 0) demo_rules ?p demo_ts = Inr vs"
    by (simp add: demo_order_payload_def payload_from_ticket_def validate_order_def py_or_def for_symbol_def demo_rules_def
        demo_symbol_def Let_def)
  then obtain vs where v: "validate_order (\<lambda>z t. Some 0) demo_rules ?p demo_ts = Inr vs" by blast
  have "\<forall>x sr k. map_of (br_symbols demo_rules) x = Some sr \<and> sr_max_positions sr = Some k \<longrightarrow> 0 \<le> k"
    by (simp add: demo_rules_def demo_symbol_def)
  from ticket_skips_position_limit [OF this v] v show ?thesis by blast
qed

text \<open>The kill-switch file stops the router only with the words \<open>stop\<close> and \<open>reduce_only\<close>: a file with the
  words of the risk manager and the health monitor, \<open>hard_stop\<close> or \<open>soft_stop\<close>, lets every order pass.\<close>

theorem hard_stop_file_passes:
  "assert_kill_switch rq a (r\<lparr>ro_kill := Some (Some (PDict [(''state'', PStr ''hard_stop'')]))\<rparr>) =
    (Inr (), r\<lparr>ro_kill := Some (Some (PDict [(''state'', PStr ''hard_stop'')]))\<rparr>)"
proof -
  have "str_lower ''hard_stop'' = ''hard_stop''" by code_simp
  then show ?thesis unfolding assert_kill_switch_pass by (simp add: kill_switch_text_def py_or_def)
qed

end
