(* ===== verification/AllocationConfig.thy ===== *)
theory AllocationConfig
  imports PyTime
begin

text \<open>
  The configuration half of \<open>src/strategies/allocation.py\<close>: value coercions, the recursive merge of
  configuration layers, session windows, symbol templates, and \<open>StrategyAllocationPolicy.load\<close>,
  which builds a policy from a YAML document, a profile and the runtime guardrail file.

  \<open>str.format\<close> is modelled for templates whose fields are plain names (all templates of the
  repository's configurations are); a field with an attribute, an index, a conversion or a format
  specification is outside the model. Shown: the merge looks up as the layered maps do, the session
  windows wrap around midnight, a profile that the guardrail does not name is not changed by it.
\<close>

section \<open>Coercions\<close>

definition coerce_float_or :: "pyval \<Rightarrow> pyfloat \<Rightarrow> pyfloat res" where
  "coerce_float_or v d = (case v of PNone \<Rightarrow> Inr d
     | PBool _ \<Rightarrow> py_float v | PInt _ \<Rightarrow> py_float v | PFloat _ \<Rightarrow> py_float v
     | _ \<Rightarrow> (case parse_float (str_strip (py_str v)) of None \<Rightarrow> Inr d | Some x \<Rightarrow> Inr x))"

text \<open>A float is not an \<open>int\<close>: its text \<open>2.0\<close> does not parse, and the default is taken.\<close>

definition coerce_int_or :: "pyval \<Rightarrow> int \<Rightarrow> int" where
  "coerce_int_or v d = (case v of PNone \<Rightarrow> d | PInt i \<Rightarrow> i | PBool b \<Rightarrow> (if b then 1 else 0)
     | _ \<Rightarrow> (case parse_int (str_strip (py_str v)) of None \<Rightarrow> d | Some i \<Rightarrow> i))"

definition normalize_text :: "pyval \<Rightarrow> string" where
  "normalize_text v = (case v of PNone \<Rightarrow> [] | _ \<Rightarrow> str_lower (str_strip (py_str v)))"

definition positive_int_or_none :: "pyval \<Rightarrow> int option" where
  "positive_int_or_none v = (let n = coerce_int_or v 0 in if 0 < n then Some n else None)"

lemma coerce_float_or_simps [simp]:
  "coerce_float_or PNone d = Inr d" "coerce_float_or (PFloat x) d = Inr x"
  by (simp_all add: coerce_float_or_def py_float_def)

lemma coerce_int_or_simps [simp]:
  "coerce_int_or PNone d = d" "coerce_int_or (PInt i) d = i"
  by (simp_all add: coerce_int_or_def)

lemma normalize_text_simps [simp]:
  "normalize_text PNone = []" "normalize_text (PStr s) = str_lower (str_strip s)"
  by (simp_all add: normalize_text_def)

section \<open>Merging configuration layers\<close>

function deep_merge :: "pydict \<Rightarrow> pydict \<Rightarrow> pydict" where
  "deep_merge merged [] = merged"
| "deep_merge merged ((key, v) # rest) =
     deep_merge (AList.update key
       (case map_of merged key of
          Some (PDict a) \<Rightarrow> (case v of PDict b \<Rightarrow> PDict (deep_merge a b) | _ \<Rightarrow> v)
        | _ \<Rightarrow> v) merged) rest"
  by pat_completeness auto
termination
  by (relation "measure (\<lambda>(m, d). size_list (size_prod (\<lambda>_. 0) size) d)") auto

text \<open>What a layer makes of one value.\<close>

definition merge_value :: "pyval option \<Rightarrow> pyval \<Rightarrow> pyval" where
  "merge_value old v = (case (old, v) of (Some (PDict a), PDict b) \<Rightarrow> PDict (deep_merge a b) | _ \<Rightarrow> v)"

lemma deep_merge_Cons:
  "deep_merge m ((k, v) # d) = deep_merge (AList.update k (merge_value (map_of m k) v) m) d"
  by (simp add: merge_value_def split: option.split pyval.split)

declare deep_merge.simps(2) [simp del]

lemma deep_merge_lookup:
  "wf_dict d \<Longrightarrow> map_of (deep_merge m d) k =
     (case map_of d k of None \<Rightarrow> map_of m k | Some v \<Rightarrow> Some (merge_value (map_of m k) v))"
proof (induction d arbitrary: m)
  case (Cons p d)
  obtain k' v where p: "p = (k', v)" by (cases p)
  with Cons show ?case by (auto simp: deep_merge_Cons split: option.split)
qed simp

lemma wf_dict_deep_merge: "wf_dict m \<Longrightarrow> wf_dict (deep_merge m d)"
proof (induction d arbitrary: m)
  case (Cons p d)
  obtain k v where "p = (k, v)" by (cases p)
  with Cons show ?case by (simp add: deep_merge_Cons)
qed simp

section \<open>Session windows\<close>

definition session_items :: "pyval \<Rightarrow> string list" where
  "session_items v = (case v of PStr s \<Rightarrow> [s]
     | PList xs \<Rightarrow> filter (\<lambda>s. str_strip s \<noteq> []) (map py_str xs)
     | PDict d \<Rightarrow> filter (\<lambda>s. str_strip s \<noteq> []) (map fst d)
     | _ \<Rightarrow> [])"

definition parse_range :: "string \<Rightarrow> (int \<times> int) option" where
  "parse_range item = (case split_once ''-'' (str_strip item) of None \<Rightarrow> None
     | Some (left, right) \<Rightarrow>
         (let start = coerce_int_or (PStr left) (- 1); fin = coerce_int_or (PStr right) (- 1)
          in if 0 \<le> start \<and> start \<le> 23 \<and> 0 \<le> fin \<and> fin \<le> 23 then Some (start, fin) else None))"

definition parse_session_ranges :: "pyval \<Rightarrow> (int \<times> int) list" where
  "parse_session_ranges v = List.map_filter parse_range (session_items v)"

lemma parse_session_ranges_None [simp]: "parse_session_ranges PNone = []"
  by (simp add: parse_session_ranges_def session_items_def List.map_filter_def)

fun hour_in_some :: "int \<Rightarrow> (int \<times> int) list \<Rightarrow> bool" where
  "hour_in_some hour [] = False"
| "hour_in_some hour ((start, fin) # rest) =
     (if start \<le> fin \<and> start \<le> hour \<and> hour \<le> fin then True
      else if fin < start \<and> (start \<le> hour \<or> hour \<le> fin) then True
      else hour_in_some hour rest)"

definition hour_in_ranges :: "int \<Rightarrow> (int \<times> int) list \<Rightarrow> bool" where
  "hour_in_ranges hour ranges = (if ranges = [] then True else hour_in_some hour ranges)"

section \<open>Symbol templates\<close>

definition field_char :: "char \<Rightarrow> bool" where
  "field_char c = (c \<notin> {CHR ''{'', CHR ''}'', CHR ''['', CHR '':'', CHR ''!''})"

definition format_field :: "(string \<times> string) list \<Rightarrow> string \<Rightarrow> string res" where
  "format_field env nm =
     (if CHR ''.'' \<in> set nm \<or> (list_all is_digit nm \<and> 18 < length nm) then Inl (Unmodelled ''format field'')
      else if list_all is_digit nm then Inl IndexError
      else case map_of env nm of None \<Rightarrow> Inl KeyError | Some v \<Rightarrow> Inr v)"

lemma dropWhile_shorter: "dropWhile P cs = e # es \<Longrightarrow> length es < length cs"
  using length_dropWhile_le [of P cs] by simp

text \<open>\<open>text.format(**env)\<close>.\<close>

function format_text :: "(string \<times> string) list \<Rightarrow> string \<Rightarrow> string res" where
  "format_text env s = (case s of [] \<Rightarrow> Inr []
     | c # cs \<Rightarrow>
        if c = CHR ''{'' then
          (case cs of [] \<Rightarrow> Inl ValueError
           | d # ds \<Rightarrow>
              if d = CHR ''{'' then bind_res (format_text env ds) (\<lambda>r. Inr (CHR ''{'' # r))
              else (case dropWhile field_char cs of [] \<Rightarrow> Inl ValueError
                    | e # es \<Rightarrow>
                       if e = CHR ''{'' then Inl ValueError
                       else if e \<noteq> CHR ''}'' then Inl (Unmodelled ''format field'')
                       else bind_res (format_field env (takeWhile field_char cs)) (\<lambda>v.
                            bind_res (format_text env es) (\<lambda>r. Inr (v @ r)))))
        else if c = CHR ''}'' then
          (case cs of d # ds \<Rightarrow> if d = CHR ''}'' then bind_res (format_text env ds) (\<lambda>r. Inr (CHR ''}'' # r))
             else Inl ValueError
           | [] \<Rightarrow> Inl ValueError)
        else bind_res (format_text env cs) (\<lambda>r. Inr (c # r)))"
  by pat_completeness auto

termination
  by (relation "measure (\<lambda>(env, s). length s)")
    (auto dest!: dropWhile_shorter split: if_splits)

declare format_text.simps [simp del]

definition render_symbol_scoped_value :: "string \<Rightarrow> string option \<Rightarrow> string res" where
  "render_symbol_scoped_value value symb = (let t = str_strip value in
     case symb of None \<Rightarrow> Inr t
     | Some s \<Rightarrow> if t = [] then Inr t else
        (let base = (if 6 \<le> length s then str_upper (take 3 s) else s);
             quot = (if 6 \<le> length s then str_upper (take 3 (drop 3 s)) else [])
         in case format_text [(''symbol'', s), (''symbol_lower'', str_lower s), (''base'', base),
                (''quote'', quot), (''base_lower'', str_lower base), (''quote_lower'', str_lower quot)] t of
              Inr r \<Rightarrow> Inr r
            | Inl e \<Rightarrow> if e = KeyError \<or> e = IndexError then Inr t else Inl e))"

lemma render_Nil [simp]: "render_symbol_scoped_value [] symb = Inr []"
  by (simp add: render_symbol_scoped_value_def split: option.split)

section \<open>Loading a policy\<close>

record policy =
  pl_mode :: string
  pl_tie_break :: "pyval list"
  pl_selection_mode :: string
  pl_max_per_symbol :: "int option"
  pl_global :: pydict
  pl_strategies :: "(string \<times> pydict) list"
  pl_source_path :: "string option"

definition default_tie_break :: "pyval list" where
  "default_tie_break = [PStr ''score_desc'', PStr ''priority_asc'', PStr ''strategy_id_asc'']"

definition pass_through_policy :: policy where
  "pass_through_policy = \<lparr>pl_mode = ''pass_through'', pl_tie_break = default_tie_break,
     pl_selection_mode = ''select_many'', pl_max_per_symbol = None, pl_global = [], pl_strategies = [],
     pl_source_path = None\<rparr>"

definition is_pass_through :: "policy \<Rightarrow> bool" where
  "is_pass_through p = (pl_mode p = ''pass_through'')"

text \<open>The runtime guardrail document: the given path or the one in the environment; an absent or
  unreadable file counts as empty.\<close>

definition load_runtime_guardrail_payload :: "string option \<Rightarrow> string \<Rightarrow> (string \<Rightarrow> json_file) \<Rightarrow> pydict" where
  "load_runtime_guardrail_payload path env_value files =
     (let e = str_strip env_value;
          candidate = (case path of Some q \<Rightarrow> Some q | None \<Rightarrow> if e = [] then None else Some e)
      in case candidate of None \<Rightarrow> []
         | Some q \<Rightarrow> (case files q of Some (Some v) \<Rightarrow> mapping_or_empty v | _ \<Rightarrow> []))"

text \<open>The name of the active profile.\<close>

definition active_profile :: "pydict \<Rightarrow> string option \<Rightarrow> pyval" where
  "active_profile payload profile =
     py_or (ostr profile) (py_or (dget payload ''active_profile'') (PStr ''pass_through''))"

definition select_profile :: "pydict \<Rightarrow> string option \<Rightarrow> pydict res" where
  "select_profile payload profile =
     (let defaults = mapping_or_empty (dget payload ''defaults'') in
      case dget payload ''profiles'' of
        PDict profiles \<Rightarrow>
          (case active_profile payload profile of
             PStr name \<Rightarrow> (case dget profiles name of PDict d \<Rightarrow> Inr (deep_merge defaults d) | _ \<Rightarrow> Inl ValueError)
           | PList _ \<Rightarrow> Inl TypeError
           | PDict _ \<Rightarrow> Inl TypeError
           | _ \<Rightarrow> Inl ValueError)
      | _ \<Rightarrow> Inr (deep_merge defaults payload))"

definition apply_guardrail :: "pydict \<Rightarrow> string option \<Rightarrow> pydict \<Rightarrow> pydict \<Rightarrow> pydict" where
  "apply_guardrail payload profile guardrail selected =
     (let name = py_str (py_or (py_or (dget guardrail ''allocation_profile'') (ostr profile)) (PStr []));
          status = py_str (py_or (dget guardrail ''status'') (PStr []))
      in case dget guardrail ''allocation_profile_overrides'' of
           PDict overrides \<Rightarrow>
             if status = ''active'' \<and> (name = [] \<or> PStr name = active_profile payload profile)
             then deep_merge selected overrides else selected
         | _ \<Rightarrow> selected)"

definition build_policy :: "string \<Rightarrow> pydict \<Rightarrow> policy res" where
  "build_policy path selected =
     (let mode0 = normalize_text (dget selected ''mode'');
          rules = (case dget selected ''tie_break'' of PList xs \<Rightarrow> xs | _ \<Rightarrow> []);
          global_map = mapping_or_empty (dget selected ''global'');
          strategy_map = mapping_or_empty (dget selected ''strategies'');
          selection = dget global_map ''selection'';
          cfg = mapping_or_empty selection;
          sel0 = (if is_mapping selection then normalize_text (dget cfg ''mode'') else []);
          sel1 = (if sel0 = [] then ''select_one'' else sel0);
          sel2 = (if sel1 \<in> {''select_one'', ''select_many''} then sel1 else ''select_one'')
      in bind_res (map_res (\<lambda>(k, v). bind_res (py_dict v) (\<lambda>d. Inr (k, d))) strategy_map) (\<lambda>strategies.
         Inr \<lparr>pl_mode = (if mode0 = [] then ''pass_through'' else mode0),
              pl_tie_break = (if rules = [] then default_tie_break else rules),
              pl_selection_mode = sel2,
              pl_max_per_symbol = positive_int_or_none (dget cfg ''max_per_symbol''),
              pl_global = global_map, pl_strategies = strategies, pl_source_path = Some path\<rparr>))"

definition load_policy :: "string \<Rightarrow> pyval \<Rightarrow> string option \<Rightarrow> pydict \<Rightarrow> policy res" where
  "load_policy path doc profile guardrail =
     (case py_or doc (PDict []) of
        PDict payload \<Rightarrow> bind_res (select_profile payload profile) (\<lambda>selected.
          build_policy path (apply_guardrail payload profile guardrail selected))
      | _ \<Rightarrow> Inl ValueError)"

section \<open>What loading guarantees\<close>

text \<open>Merging configuration layers looks a key up as layered maps do: the later layer's value, merged
  with the earlier one's where both are mappings, else the earlier layer's; the result is a dictionary.\<close>

theorem merged_layers_lookup:
  assumes "wf_dict m" "wf_dict d"
  shows "wf_dict (deep_merge m d) \<and>
    map_of (deep_merge m d) k = (case (map_of m k, map_of d k) of
        (x, None) \<Rightarrow> x
      | (Some (PDict a), Some (PDict b)) \<Rightarrow> Some (PDict (deep_merge a b))
      | (_, Some v) \<Rightarrow> Some v)"
  using wf_dict_deep_merge [OF assms(1)] deep_merge_lookup [OF assms(2)]
  by (auto simp: merge_value_def split: option.split pyval.split)

theorem merged_layers_lookup_witness:
  "wf_dict (deep_merge [(''a'', PInt 1)] [(''a'', PInt 2)]) \<and>
    map_of (deep_merge [(''a'', PInt 1)] [(''a'', PInt 2)]) ''a'' = Some (PInt 2)"
  using merged_layers_lookup [of "[(''a'', PInt 1)]" "[(''a'', PInt 2)]" "''a''"] by simp

lemma split_range_bounds:
  "parse_range item = Some (a, b) \<Longrightarrow> 0 \<le> a \<and> a \<le> 23 \<and> 0 \<le> b \<and> b \<le> 23"
  by (auto simp: parse_range_def Let_def split: option.splits if_splits)

lemma hour_in_some_mod:
  assumes "0 \<le> hour" "hour \<le> 23" "\<And>a b. (a, b) \<in> set rs \<Longrightarrow> 0 \<le> a \<and> a \<le> 23 \<and> 0 \<le> b \<and> b \<le> 23"
  shows "hour_in_some hour rs \<longleftrightarrow> (\<exists>(a, b) \<in> set rs. (hour - a) mod 24 \<le> (b - a) mod 24)"
  using assms(3)
proof (induction rs)
  case (Cons r rs)
  obtain a b where r: "r = (a, b)" by (cases r)
  have ab: "0 \<le> a" "a \<le> 23" "0 \<le> b" "b \<le> 23" using Cons.prems [of a b] by (auto simp: r)
  have "(hour - a) mod 24 \<le> (b - a) mod 24 \<longleftrightarrow>
      (a \<le> b \<and> a \<le> hour \<and> hour \<le> b) \<or> (b < a \<and> (a \<le> hour \<or> hour \<le> b))"
  proof -
    have m: "(x - a) mod 24 = (if a \<le> x then x - a else x - a + 24)" if "0 \<le> x" "x \<le> 23" for x :: int
    proof (cases "a \<le> x")
      case False
      have "(x - a) mod 24 = (x - a + 24) mod 24" by (rule mod_add_self2 [symmetric])
      also have "\<dots> = x - a + 24" using False that ab by (intro mod_pos_pos_trivial) auto
      finally show ?thesis using False by simp
    qed (use that ab in simp)
    show ?thesis using assms(1,2) ab by (auto simp: m)
  qed
  moreover have "hour_in_some hour rs \<longleftrightarrow> (\<exists>(a, b) \<in> set rs. (hour - a) mod 24 \<le> (b - a) mod 24)"
    using Cons.prems by (intro Cons.IH) auto
  ultimately show ?case by (auto simp: r)
qed simp

text \<open>A parsed session window is the circular interval of hours from its start to its end, so a window
  that ends before it starts runs over midnight; without windows every hour is in session.\<close>

theorem session_windows_circular:
  assumes "0 \<le> hour" "hour \<le> 23"
  shows "hour_in_ranges hour (parse_session_ranges v) \<longleftrightarrow> parse_session_ranges v = [] \<or>
    (\<exists>(a, b) \<in> set (parse_session_ranges v). (hour - a) mod 24 \<le> (b - a) mod 24)"
proof -
  have "0 \<le> a \<and> a \<le> 23 \<and> 0 \<le> b \<and> b \<le> 23" if "(a, b) \<in> set (parse_session_ranges v)" for a b
    using that split_range_bounds by (auto simp: parse_session_ranges_def List.map_filter_def)
  from hour_in_some_mod [OF assms this] show ?thesis by (simp add: hour_in_ranges_def)
qed

theorem session_windows_circular_witness:
  "hour_in_ranges 2 (parse_session_ranges (PStr ''22-06''))"
proof -
  have p: "parse_session_ranges (PStr ''22-06'') = [(22, 6)]" by code_simp
  show ?thesis using session_windows_circular [of 2 "PStr ''22-06''"] by (simp add: p)
qed

text \<open>A window that does not parse is dropped, and a filter whose windows are all dropped lets every hour
  pass: a restriction written with minutes opens the strategy around the clock.\<close>

theorem malformed_window_opens:
  "parse_session_ranges (PList [PStr ''08:00-14:00'']) = [] \<and>
   hour_in_ranges hour (parse_session_ranges (PList [PStr ''08:00-14:00'']))"
proof -
  have "parse_session_ranges (PList [PStr ''08:00-14:00'']) = []" by code_simp
  then show ?thesis by (simp add: hour_in_ranges_def)
qed

text \<open>An active guardrail that names a profile other than the active one changes nothing.\<close>

lemma guardrail_other_profile:
  "dget guardrail ''allocation_profile'' = PStr name \<Longrightarrow> name \<noteq> [] \<Longrightarrow>
     PStr name \<noteq> active_profile payload profile \<Longrightarrow> apply_guardrail payload profile guardrail d = d"
  by (simp add: apply_guardrail_def py_or_def Let_def split: pyval.split)

end
