(* ===== verification/Allocation.thy ===== *)
theory Allocation
  imports AllocationConfig Risk "HOL-Library.List_Lexorder" "HOL-Library.Product_Lexorder"
begin

text \<open>
  The decision half of \<open>src/strategies/allocation.py\<close>, with the candidate record of
  \<open>src/strategies/candidate.py\<close> and the part of \<open>src/strategies/registry.py\<close> that calls it: the
  filters a candidate passes, its score, the conflicts with open positions, the tie-break order and
  the selection per symbol.

  A signal is any object; it is modelled by its attributes, as a dictionary. \<open>cn_oid\<close> is the identity
  of a candidate object (\<open>id\<close>). Sort keys are compared as Python compares tuples; with a NaN in a key
  Python's order depends on the sorting algorithm, and here NaN is the greatest float.

  Shown: every candidate gets one outcome; what is selected has passed every filter, and is first in
  the tie-break order; risk guidance that is not normal stops every candidate under the default
  filters.
\<close>

section \<open>Sort keys\<close>

text \<open>A component of a tie-break key. The keys of one policy have the same shape, so components of
  different kinds are never compared.\<close>

datatype tie_key = KNum pyfloat | KInt int | KText string

fun tie_code :: "tie_key \<Rightarrow> nat \<times> pyfloat \<times> int \<times> string" where
  "tie_code (KNum x) = (0, x, 0, [])"
| "tie_code (KInt i) = (1, NaN, i, [])"
| "tie_code (KText s) = (2, NaN, 0, s)"

lemma tie_code_inj [simp]: "tie_code a = tie_code b \<longleftrightarrow> a = b"
  by (cases a; cases b) auto

instantiation tie_key :: linorder
begin

definition less_eq_tie_key :: "tie_key \<Rightarrow> tie_key \<Rightarrow> bool" where
  "less_eq_tie_key a b \<longleftrightarrow> tie_code a \<le> tie_code b"

definition less_tie_key :: "tie_key \<Rightarrow> tie_key \<Rightarrow> bool" where
  "less_tie_key a b \<longleftrightarrow> tie_code a < tie_code b"

instance
  by standard
    (auto simp: less_eq_tie_key_def less_tie_key_def less_le_not_le intro: order_trans dest: order.antisym)

end

lemma tie_key_order [simp]:
  "KNum x \<le> KNum y \<longleftrightarrow> x \<le> y" "KInt i \<le> KInt j \<longleftrightarrow> i \<le> j" "KText s \<le> KText t \<longleftrightarrow> s \<le> t"
  "KNum x < KNum y \<longleftrightarrow> x < y" "KInt i < KInt j \<longleftrightarrow> i < j" "KText s < KText t \<longleftrightarrow> s < t"
  by (auto simp: less_eq_tie_key_def less_tie_key_def)

section \<open>Data\<close>

record candidate_trade =
  ct_candidate_id :: string
  ct_strategy_id :: string
  ct_symbol :: string
  ct_side :: string
  ct_timestamp :: string
  ct_entry :: "pyfloat option"
  ct_stop :: "pyfloat option"
  ct_target :: "pyfloat option"
  ct_confidence :: "pyfloat option"
  ct_holding_minutes :: "pyfloat option"
  ct_portfolio_group :: string
  ct_exposure_bucket :: string
  ct_expected_edge :: "pyfloat option"
  ct_estimated_cost :: "pyfloat option"
  ct_quality_score :: "pyfloat option"
  ct_regime_fit :: "pyfloat option"
  ct_session_tag :: "string option"
  ct_atr_value :: "pyfloat option"
  ct_trend_value :: "pyfloat option"
  ct_cost_ratio :: "pyfloat option"
  ct_metadata :: pydict

definition ofl :: "pyfloat option \<Rightarrow> pyval" where
  "ofl x = (case x of None \<Rightarrow> PNone | Some a \<Rightarrow> PFloat a)"

text \<open>\<open>s or None\<close>.\<close>

definition text_or_none :: "string \<Rightarrow> pyval" where
  "text_or_none s = (if s = [] then PNone else PStr s)"

definition trade_to_dict :: "candidate_trade \<Rightarrow> pydict" where
  "trade_to_dict t = [(''candidate_id'', PStr (ct_candidate_id t)), (''strategy_id'', PStr (ct_strategy_id t)),
     (''symbol'', PStr (ct_symbol t)), (''side'', PStr (ct_side t)), (''timestamp'', PStr (ct_timestamp t)),
     (''entry'', ofl (ct_entry t)), (''stop'', ofl (ct_stop t)), (''target'', ofl (ct_target t)),
     (''confidence'', ofl (ct_confidence t)), (''expected_holding_minutes'', ofl (ct_holding_minutes t)),
     (''portfolio_group'', text_or_none (ct_portfolio_group t)), (''exposure_bucket'', text_or_none (ct_exposure_bucket t)),
     (''expected_edge'', ofl (ct_expected_edge t)), (''estimated_cost'', ofl (ct_estimated_cost t)),
     (''quality_score'', ofl (ct_quality_score t)), (''regime_fit'', ofl (ct_regime_fit t)),
     (''session_tag'', ostr (ct_session_tag t)), (''atr_value'', ofl (ct_atr_value t)),
     (''trend_value'', ofl (ct_trend_value t)), (''cost_ratio'', ofl (ct_cost_ratio t)),
     (''metadata'', PDict (ct_metadata t))]"

record alloc_candidate =
  cn_oid :: nat
  cn_strategy_id :: string
  cn_signal :: pydict
  cn_priority :: int
  cn_weight :: pyfloat
  cn_parameters :: pydict
  cn_trade :: "candidate_trade option"

record active_position =
  ap_strategy_id :: string
  ap_symbol :: string
  ap_direction :: string
  ap_opened_at :: "pydt option"
  ap_position_id :: string
  ap_portfolio_group :: string
  ap_exposure_bucket :: string

record alloc_context =
  ac_now :: pydt
  ac_board_mode :: string
  ac_kill_switch :: string
  ac_regime :: "pyfloat option"
  ac_positions :: "active_position list"

record alloc_outcome =
  oc_strategy_id :: string
  oc_symbol :: string
  oc_selected :: bool
  oc_reason :: string
  oc_score :: "pyfloat option"
  oc_decision :: string
  oc_portfolio_group :: string
  oc_exposure_bucket :: string
  oc_estimated_cost :: "pyfloat option"
  oc_slot_cost :: "pyfloat option"
  oc_blocked_by_strategy :: "string option"
  oc_blocked_by_position :: "string option"
  oc_replaced_candidate :: "string option"
  oc_notes :: "string option"

definition outcome_to_dict :: "alloc_outcome \<Rightarrow> pydict" where
  "outcome_to_dict o1 = [(''strategy_id'', PStr (oc_strategy_id o1)), (''symbol'', PStr (oc_symbol o1)),
     (''selected'', PBool (oc_selected o1)), (''decision'', PStr (oc_decision o1)), (''reason'', PStr (oc_reason o1)),
     (''reason_code'', PStr (oc_reason o1)), (''score'', ofl (oc_score o1)),
     (''portfolio_group'', text_or_none (oc_portfolio_group o1)), (''exposure_bucket'', text_or_none (oc_exposure_bucket o1)),
     (''estimated_cost'', ofl (oc_estimated_cost o1)), (''slot_cost'', ofl (oc_slot_cost o1)),
     (''blocked_by_strategy_id'', ostr (oc_blocked_by_strategy o1)),
     (''blocked_by_position_id'', ostr (oc_blocked_by_position o1)),
     (''replaced_candidate_id'', ostr (oc_replaced_candidate o1)), (''notes'', ostr (oc_notes o1))]"

record alloc_result =
  ar_selected :: "alloc_candidate list"
  ar_outcomes :: "alloc_outcome list"

definition result_to_dict :: "alloc_result \<Rightarrow> pydict" where
  "result_to_dict r = [(''selected_strategy_ids'', PList (map (PStr \<circ> cn_strategy_id) (ar_selected r))),
     (''outcomes'', PList (map (PDict \<circ> outcome_to_dict) (ar_outcomes r)))]"

record evaluated =
  ev_candidate :: alloc_candidate
  ev_symbol :: string
  ev_score :: "pyfloat option"
  ev_accepted :: bool
  ev_reason :: string
  ev_role_priority :: int
  ev_portfolio_group :: string
  ev_exposure_bucket :: string
  ev_estimated_cost :: "pyfloat option"
  ev_slot_cost :: "pyfloat option"
  ev_blocked_by_strategy :: "string option"
  ev_blocked_by_position :: "string option"
  ev_replaced_candidate :: "string option"
  ev_notes :: "string option"

section \<open>What a candidate says\<close>

definition signal_symbol :: "pydict \<Rightarrow> string" where
  "signal_symbol s = (case dget s ''symbol'' of PNone \<Rightarrow> ''UNKNOWN''
     | v \<Rightarrow> (let t = str_upper (str_strip (py_str v)) in if t = [] then ''UNKNOWN'' else t))"

definition signal_direction :: "pydict \<Rightarrow> string" where
  "signal_direction s = normalize_text (dget s ''direction'')"

definition signal_score :: "pydict \<Rightarrow> pyfloat res" where
  "signal_score s = bind_res (coerce_float_or (dget s ''score'') NaN) (\<lambda>score.
     if feq score score then Inr score else
     bind_res (coerce_float_or (dget s ''confidence'') NaN) (\<lambda>confidence.
     if feq confidence confidence then Inr confidence else
     bind_res (coerce_float_or (dget s ''quality_score'') NaN) (\<lambda>quality.
     if feq quality quality then Inr quality else Inr (Fin 1))))"

definition candidate_symbol :: "alloc_candidate \<Rightarrow> string" where
  "candidate_symbol c = (case cn_trade c of
       Some t \<Rightarrow> if ct_symbol t \<noteq> [] then ct_symbol t else signal_symbol (cn_signal c)
     | None \<Rightarrow> signal_symbol (cn_signal c))"

definition candidate_direction :: "alloc_candidate \<Rightarrow> string" where
  "candidate_direction c = (case cn_trade c of
       Some t \<Rightarrow> if ct_side t \<noteq> [] then str_lower (str_strip (ct_side t)) else signal_direction (cn_signal c)
     | None \<Rightarrow> signal_direction (cn_signal c))"

definition candidate_score :: "alloc_candidate \<Rightarrow> pyfloat res" where
  "candidate_score c = (case cn_trade c of
       None \<Rightarrow> signal_score (cn_signal c)
     | Some t \<Rightarrow> (case ct_expected_edge t of Some x \<Rightarrow> Inr x
         | None \<Rightarrow> (case ct_confidence t of Some x \<Rightarrow> Inr x
             | None \<Rightarrow> (case ct_quality_score t of Some x \<Rightarrow> Inr x | None \<Rightarrow> signal_score (cn_signal c)))))"

definition extract_execution :: "pydict \<Rightarrow> pydict" where
  "extract_execution parameters = mapping_or_empty (dget parameters ''execution'')"

definition extract_cost_estimate :: "pydict \<Rightarrow> (pyfloat \<times> pyfloat) res" where
  "extract_cost_estimate parameters = (let ex = extract_execution parameters in
     bind_res (coerce_float_or (dget ex ''spread'') (Fin 0)) (\<lambda>spread.
     bind_res (coerce_float_or (dget ex ''slippage'') (Fin 0)) (\<lambda>slippage. Inr (spread, slippage))))"

definition candidate_estimated_cost :: "alloc_candidate \<Rightarrow> pyfloat res" where
  "candidate_estimated_cost c = (case Option.bind (cn_trade c) ct_estimated_cost of
       Some x \<Rightarrow> Inr x
     | None \<Rightarrow> bind_res (extract_cost_estimate (cn_parameters c)) (\<lambda>(spread, slippage). Inr (fadd spread slippage)))"

section \<open>Layered configuration\<close>

text \<open>A section of the strategy's configuration over the same section of the global one.\<close>

definition resolve_section :: "string \<Rightarrow> policy \<Rightarrow> pydict \<Rightarrow> pydict" where
  "resolve_section name p cfg =
     deep_merge (mapping_or_empty (dget_def (pl_global p) name (PDict []))) (mapping_or_empty (dget_def cfg name (PDict [])))"

definition resolve_portfolio_cfg :: "policy \<Rightarrow> pydict \<Rightarrow> pydict" where
  "resolve_portfolio_cfg = resolve_section ''portfolio''"

definition resolve_cost_penalty :: "policy \<Rightarrow> pydict \<Rightarrow> pydict" where
  "resolve_cost_penalty = resolve_section ''cost_penalty''"

definition resolve_regime_cfg :: "policy \<Rightarrow> pydict \<Rightarrow> pydict" where
  "resolve_regime_cfg = resolve_section ''regime''"

definition default_blocked_states :: "pyval" where
  "default_blocked_states = PList [PStr ''soft_stop'', PStr ''hard_stop'', PStr ''triggered'']"

definition resolve_hard_filters :: "policy \<Rightarrow> pydict \<Rightarrow> pydict" where
  "resolve_hard_filters p cfg = (let m = resolve_section ''hard_filters'' p cfg
     in case map_of m ''kill_switch_blocked_states'' of
          None \<Rightarrow> AList.update ''kill_switch_blocked_states'' default_blocked_states m | Some _ \<Rightarrow> m)"

text \<open>\<open>str(a or b or "").strip()\<close>, rendered for the symbol.\<close>

definition template_value :: "string \<Rightarrow> string \<Rightarrow> policy \<Rightarrow> pydict \<Rightarrow> string option \<Rightarrow> string res" where
  "template_value k1 k2 p cfg symb = (let pf = resolve_portfolio_cfg p cfg in
     render_symbol_scoped_value (str_strip (py_str (py_or (py_or (dget pf k1) (dget pf k2)) (PStr [])))) symb)"

definition portfolio_group :: "policy \<Rightarrow> pydict \<Rightarrow> string option \<Rightarrow> string res" where
  "portfolio_group = template_value ''group_template'' ''group''"

definition exposure_bucket :: "policy \<Rightarrow> pydict \<Rightarrow> string option \<Rightarrow> string res" where
  "exposure_bucket = template_value ''exposure_bucket_template'' ''exposure_bucket''"

text \<open>The configuration of a strategy, empty where there is none.\<close>

definition strategy_cfg :: "policy \<Rightarrow> string \<Rightarrow> pydict" where
  "strategy_cfg p sid = (case map_of (pl_strategies p) sid of None \<Rightarrow> [] | Some d \<Rightarrow> d)"

definition position_portfolio_group :: "policy \<Rightarrow> active_position \<Rightarrow> string res" where
  "position_portfolio_group p pos = (if ap_portfolio_group pos \<noteq> [] then Inr (str_strip (ap_portfolio_group pos))
     else portfolio_group p (strategy_cfg p (ap_strategy_id pos)) (Some (ap_symbol pos)))"

definition position_exposure_bucket :: "policy \<Rightarrow> active_position \<Rightarrow> string res" where
  "position_exposure_bucket p pos = (if ap_exposure_bucket pos \<noteq> [] then Inr (str_strip (ap_exposure_bucket pos))
     else exposure_bucket p (strategy_cfg p (ap_strategy_id pos)) (Some (ap_symbol pos)))"

record candidate_meta =
  cm_portfolio_group :: string
  cm_exposure_bucket :: string
  cm_holding_minutes :: pyfloat
  cm_slot_cost :: pyfloat
  cm_role_priority :: int

definition candidate_metadata :: "policy \<Rightarrow> string \<Rightarrow> string option \<Rightarrow> candidate_meta res" where
  "candidate_metadata p sid symb = (let cfg = strategy_cfg p sid; pf = resolve_portfolio_cfg p cfg in
     bind_res (portfolio_group p cfg symb) (\<lambda>g.
     bind_res (exposure_bucket p cfg symb) (\<lambda>e.
     bind_res (coerce_float_or (dget pf ''expected_holding_minutes'') (Fin 0)) (\<lambda>h.
     bind_res (coerce_float_or (dget pf ''slot_cost'') (Fin 0)) (\<lambda>s.
     Inr \<lparr>cm_portfolio_group = g, cm_exposure_bucket = e, cm_holding_minutes = h, cm_slot_cost = s,
          cm_role_priority = coerce_int_or (dget pf ''role_priority'') 100\<rparr>)))))"

section \<open>Conflicts with open positions\<close>

definition symbol_matches :: "alloc_candidate \<Rightarrow> alloc_context \<Rightarrow> active_position list" where
  "symbol_matches c x = filter (\<lambda>q. ap_symbol q = candidate_symbol c) (ac_positions x)"

text \<open>The positions whose name (group or bucket) is the candidate's; none for an empty name.\<close>

definition name_matches :: "string res \<Rightarrow> (active_position \<Rightarrow> string res) \<Rightarrow> active_position list \<Rightarrow> active_position list res" where
  "name_matches cand nm qs = bind_res cand (\<lambda>g. if g = [] then Inr [] else
     bind_res (map_res nm qs) (\<lambda>gs. Inr (map snd (filter (\<lambda>(h, q). h = g) (zip gs qs)))))"

definition group_matches :: "policy \<Rightarrow> pydict \<Rightarrow> alloc_candidate \<Rightarrow> alloc_context \<Rightarrow> active_position list res" where
  "group_matches p cfg c x =
     name_matches (portfolio_group p cfg (Some (candidate_symbol c))) (position_portfolio_group p) (ac_positions x)"

definition exposure_matches :: "policy \<Rightarrow> pydict \<Rightarrow> alloc_candidate \<Rightarrow> alloc_context \<Rightarrow> active_position list res" where
  "exposure_matches p cfg c x =
     name_matches (exposure_bucket p cfg (Some (candidate_symbol c))) (position_exposure_bucket p) (ac_positions x)"

fun first_match :: "active_position list \<Rightarrow> active_position option" where
  "first_match [] = None"
| "first_match (q # qs) = Some q"

type_synonym conflict = "string \<times> string option \<times> string option"

definition blocked_by :: "string \<Rightarrow> active_position list \<Rightarrow> conflict" where
  "blocked_by reason qs = (reason, map_option ap_strategy_id (first_match qs), map_option ap_position_id (first_match qs))"

definition match_conflict :: "string \<Rightarrow> string \<Rightarrow> int option \<Rightarrow> active_position list \<Rightarrow> conflict option" where
  "match_conflict kind rule limit qs =
     (if (case limit of None \<Rightarrow> False | Some n \<Rightarrow> n \<le> int (length qs)) then Some (blocked_by (''active_'' @ kind @ ''_limit'') qs)
      else if qs \<noteq> [] \<and> rule = ''block'' then Some (blocked_by (''active_'' @ kind @ ''_conflict'') qs)
      else if qs \<noteq> [] \<and> rule = ''defer'' then Some (blocked_by (''active_'' @ kind @ ''_deferred'') qs)
      else None)"

definition active_rule :: "pydict \<Rightarrow> string \<Rightarrow> string" where
  "active_rule pf key = (let t = normalize_text (dget pf key) in if t = [] then ''allow'' else t)"

definition resolve_conflict :: "policy \<Rightarrow> pydict \<Rightarrow> alloc_candidate \<Rightarrow> alloc_context \<Rightarrow> conflict option res" where
  "resolve_conflict p cfg c x =
     (if ac_positions x = [] then Inr None else
      let pf = resolve_portfolio_cfg p cfg in
      case match_conflict ''symbol'' (active_rule pf ''active_symbol_policy'') None (symbol_matches c x) of
        Some r \<Rightarrow> Inr (Some r)
      | None \<Rightarrow> bind_res (group_matches p cfg c x) (\<lambda>gs.
          case match_conflict ''group'' (active_rule pf ''active_group_policy'')
                 (positive_int_or_none (dget pf ''max_active_per_group'')) gs of
            Some r \<Rightarrow> Inr (Some r)
          | None \<Rightarrow> bind_res (exposure_matches p cfg c x) (\<lambda>es.
              Inr (match_conflict ''exposure'' (active_rule pf ''active_exposure_policy'')
                 (positive_int_or_none (dget pf ''max_active_per_exposure_bucket'')) es))))"

section \<open>Score\<close>

definition regime_multiplier :: "policy \<Rightarrow> pydict \<Rightarrow> alloc_candidate \<Rightarrow> pyfloat option \<Rightarrow> pyfloat res" where
  "regime_multiplier p cfg c regime_value = (case regime_value of None \<Rightarrow> Inr (Fin 1)
     | Some v \<Rightarrow> (let rc = resolve_regime_cfg p cfg in
         bind_res (coerce_float_or (dget rc ''trend_threshold'') (Fin 0)) (\<lambda>threshold.
         bind_res (coerce_float_or (dget rc ''align_bonus'') (Fin 0)) (\<lambda>align_bonus.
         bind_res (coerce_float_or (dget rc ''mismatch_penalty'') (Fin 1)) (\<lambda>mismatch_penalty.
         let direction = candidate_direction c;
             aligned = (if direction = ''long'' then fgt v threshold
                        else if direction = ''short'' then flt v (fneg threshold) else True)
         in Inr (if aligned then fmax (Fin 0) (fadd (Fin 1) align_bonus) else fmax (Fin 0) mismatch_penalty))))))"

text \<open>The penalty for so many matching positions under the rule \<open>penalize\<close>.\<close>

definition match_penalty :: "pydict \<Rightarrow> string \<Rightarrow> string \<Rightarrow> active_position list \<Rightarrow> pyfloat \<Rightarrow> pyfloat res" where
  "match_penalty pf rule_key penalty_key qs score =
     bind_res (coerce_float_or (dget pf penalty_key) (Fin 0)) (\<lambda>penalty.
       Inr (if qs \<noteq> [] \<and> active_rule pf rule_key = ''penalize'' \<and> fgt penalty (Fin 0)
            then fsub score (fmul (f_of_int (int (length qs))) penalty) else score))"

text \<open>\<open>strategy_cfg.get("score", \<dots>).get(key)\<close>.\<close>

definition score_cfg :: "pydict \<Rightarrow> pydict res" where
  "score_cfg cfg = as_dict_get (dget_def cfg ''score'' (PDict []))"

definition holding_minutes :: "pydict \<Rightarrow> alloc_candidate \<Rightarrow> pyfloat res" where
  "holding_minutes pf c = (case Option.bind (cn_trade c) ct_holding_minutes of Some h \<Rightarrow> Inr h
     | None \<Rightarrow> coerce_float_or (dget pf ''expected_holding_minutes'') (Fin 0))"

definition weighted_score :: "policy \<Rightarrow> pydict \<Rightarrow> alloc_candidate \<Rightarrow> pyfloat option \<Rightarrow> pyfloat \<Rightarrow> pyfloat \<Rightarrow> pyfloat res" where
  "weighted_score p cfg c regime_value spread slippage =
     bind_res (coerce_float_or (dget cfg ''weight'') (if cn_weight c = Fin 0 then Fin 1 else cn_weight c)) (\<lambda>weight.
     bind_res (score_cfg cfg) (\<lambda>sc.
     bind_res (coerce_float_or (dget sc ''bias'') (Fin 0)) (\<lambda>bias.
     bind_res (candidate_score c) (\<lambda>cs.
     bind_res (regime_multiplier p cfg c regime_value) (\<lambda>mult.
     let pen = resolve_cost_penalty p cfg in
     bind_res (coerce_float_or (dget pen ''spread_weight'') (Fin 0)) (\<lambda>sw.
     bind_res (coerce_float_or (dget pen ''slippage_weight'') (Fin 0)) (\<lambda>lw.
     Inr (fsub (fsub (fmul (fadd (fmul cs weight) bias) mult) (fmul spread sw)) (fmul slippage lw)))))))))"

definition compute_score :: "policy \<Rightarrow> pydict \<Rightarrow> alloc_candidate \<Rightarrow> alloc_context \<Rightarrow> pyfloat \<Rightarrow> pyfloat \<Rightarrow> pyfloat res" where
  "compute_score p cfg c x spread slippage =
     bind_res (weighted_score p cfg c (ac_regime x) spread slippage) (\<lambda>s0.
     let pf = resolve_portfolio_cfg p cfg in
     bind_res (holding_minutes pf c) (\<lambda>minutes.
     bind_res (coerce_float_or (dget pf ''holding_minute_weight'') (Fin 0)) (\<lambda>mw.
     let s1 = (if fgt minutes (Fin 0) \<and> fgt mw (Fin 0) then fsub s0 (fmul minutes mw) else s0) in
     bind_res (coerce_float_or (dget pf ''slot_cost'') (Fin 0)) (\<lambda>slot.
     let s2 = (if fgt slot (Fin 0) then fsub s1 slot else s1) in
     bind_res (match_penalty pf ''active_symbol_policy'' ''active_symbol_penalty'' (symbol_matches c x) s2) (\<lambda>s3.
     bind_res (group_matches p cfg c x) (\<lambda>gs.
     bind_res (match_penalty pf ''active_group_policy'' ''active_group_penalty'' gs s3) (\<lambda>s4.
     bind_res (exposure_matches p cfg c x) (\<lambda>es.
     bind_res (match_penalty pf ''active_exposure_policy'' ''active_exposure_penalty'' es s4) (\<lambda>s5.
     Inr (fround 8 s5))))))))))"

section \<open>Filters\<close>

definition kill_switch_blocked :: "pydict \<Rightarrow> alloc_context \<Rightarrow> bool res" where
  "kill_switch_blocked hf x = bind_res (py_iter (dget hf ''kill_switch_blocked_states'')) (\<lambda>states.
     let k = str_lower (str_strip (ac_kill_switch x)) in Inr (k \<noteq> [] \<and> k \<in> set (map normalize_text states)))"

definition board_mode_blocked :: "pydict \<Rightarrow> alloc_context \<Rightarrow> bool" where
  "board_mode_blocked hf x = (case dget hf ''board_modes'' of
       PList modes \<Rightarrow> modes \<noteq> [] \<and> str_lower (str_strip (ac_board_mode x)) \<notin> set (map normalize_text modes)
     | _ \<Rightarrow> False)"

definition session_blocked :: "pydict \<Rightarrow> alloc_context \<Rightarrow> bool" where
  "session_blocked hf x = (let r1 = parse_session_ranges (dget hf ''session_utc_ranges'');
      r = (if r1 = [] then parse_session_ranges (dget hf ''session_utc_range'') else r1)
     in \<not> hour_in_ranges (int (hh (ac_now x))) r)"

definition min_score :: "policy \<Rightarrow> pydict \<Rightarrow> pyfloat res" where
  "min_score p cfg = bind_res (score_cfg (pl_global p)) (\<lambda>g.
     bind_res (coerce_float_or (dget g ''min_score'') (Fin 0)) (\<lambda>a.
     bind_res (score_cfg cfg) (\<lambda>s.
     bind_res (coerce_float_or (dget s ''min_score'') (Fin 0)) (\<lambda>b. Inr (fmax a b)))))"

definition reject :: "string \<Rightarrow> evaluated \<Rightarrow> evaluated" where
  "reject reason e = e\<lparr>ev_accepted := False, ev_reason := reason\<rparr>"

definition new_evaluated :: "alloc_candidate \<Rightarrow> evaluated" where
  "new_evaluated c = \<lparr>ev_candidate = c, ev_symbol = candidate_symbol c, ev_score = None, ev_accepted = False,
     ev_reason = [], ev_role_priority = 100, ev_portfolio_group = [], ev_exposure_bucket = [],
     ev_estimated_cost = None, ev_slot_cost = None, ev_blocked_by_strategy = None, ev_blocked_by_position = None,
     ev_replaced_candidate = None, ev_notes = None\<rparr>"

text \<open>The end of the evaluation: conflicts with open positions, then the score.\<close>

definition evaluate_score ::
  "policy \<Rightarrow> pydict \<Rightarrow> alloc_candidate \<Rightarrow> alloc_context \<Rightarrow> pyfloat \<Rightarrow> pyfloat \<Rightarrow> evaluated \<Rightarrow> evaluated res" where
  "evaluate_score p cfg c x spread slippage e =
     bind_res (resolve_conflict p cfg c x) (\<lambda>conf. case conf of
       Some (reason, strategy, position) \<Rightarrow> Inr (reject reason (e\<lparr>ev_blocked_by_strategy := strategy,
           ev_blocked_by_position := position, ev_notes := Some ''blocked by active position policy''\<rparr>))
     | None \<Rightarrow> bind_res (compute_score p cfg c x spread slippage) (\<lambda>score.
         bind_res (min_score p cfg) (\<lambda>least.
         Inr (if flt score least then reject ''score_below_min'' (e\<lparr>ev_score := Some score\<rparr>)
              else e\<lparr>ev_score := Some score, ev_accepted := True, ev_reason := ''candidate_ok''\<rparr>))))"

text \<open>The evaluation from the cost estimate on, of a candidate that passed the filters before it.\<close>

definition evaluate_costs :: "policy \<Rightarrow> pydict \<Rightarrow> pydict \<Rightarrow> alloc_candidate \<Rightarrow> alloc_context \<Rightarrow> evaluated \<Rightarrow> evaluated res" where
  "evaluate_costs p cfg hf c x e0 =
     bind_res (extract_cost_estimate (cn_parameters c)) (\<lambda>(spread, slippage).
     bind_res (candidate_estimated_cost c) (\<lambda>cost.
     let e = e0\<lparr>ev_estimated_cost := Some cost\<rparr> in
     bind_res (coerce_float_or (dget hf ''spread_max'') (Fin (- 1))) (\<lambda>spread_max.
     if fge spread_max (Fin 0) \<and> fgt spread spread_max then Inr (reject ''spread_blocked'' e)
     else if session_blocked hf x then Inr (reject ''session_blocked'' e)
     else evaluate_score p cfg c x spread slippage e)))"

definition evaluate_candidate :: "policy \<Rightarrow> alloc_context \<Rightarrow> alloc_candidate \<Rightarrow> evaluated res" where
  "evaluate_candidate p x c =
     (let found = map_of (pl_strategies p) (cn_strategy_id c) in
      if found = None \<and> truthy (dget_def (pl_global p) ''require_strategy_config'' (PBool True))
      then Inr (reject ''strategy_not_configured'' (new_evaluated c)) else
      let cfg = strategy_cfg p (cn_strategy_id c); pf = resolve_portfolio_cfg p cfg in
      bind_res (portfolio_group p cfg (Some (candidate_symbol c))) (\<lambda>g.
      bind_res (exposure_bucket p cfg (Some (candidate_symbol c))) (\<lambda>b.
      bind_res (coerce_float_or (dget pf ''slot_cost'') (Fin 0)) (\<lambda>slot.
      let e = (new_evaluated c)\<lparr>ev_role_priority := coerce_int_or (dget pf ''role_priority'') 100,
                 ev_portfolio_group := g, ev_exposure_bucket := b, ev_slot_cost := Some slot\<rparr> in
      if \<not> truthy (dget_def cfg ''enabled'' (PBool True)) then Inr (reject ''strategy_disabled'' e) else
      let hf = resolve_hard_filters p cfg in
      bind_res (kill_switch_blocked hf x) (\<lambda>killed.
      if killed then Inr (reject ''kill_switch_blocked'' e)
      else if board_mode_blocked hf x then Inr (reject ''board_mode_blocked'' e)
      else evaluate_costs p cfg hf c x e)))))"

section \<open>Selection\<close>

definition tie_component :: "evaluated \<Rightarrow> pyval \<Rightarrow> tie_key list" where
  "tie_component e rule =
     (let score = (case ev_score e of Some s \<Rightarrow> s | None \<Rightarrow> NInf); c = ev_candidate e; token = normalize_text rule in
      if token = ''score_desc'' then [KNum (fneg score)]
      else if token = ''score_asc'' then [KNum score]
      else if token = ''priority_asc'' then [KInt (cn_priority c)]
      else if token = ''priority_desc'' then [KInt (- cn_priority c)]
      else if token = ''role_priority_asc'' then [KInt (ev_role_priority e)]
      else if token = ''role_priority_desc'' then [KInt (- ev_role_priority e)]
      else if token = ''weight_desc'' then [KNum (fneg (cn_weight c))]
      else if token = ''weight_asc'' then [KNum (cn_weight c)]
      else if token = ''strategy_id_desc'' then [KText (map (\<lambda>ch. char_of (255 - of_char ch :: nat)) (cn_strategy_id c))]
      else if token = ''strategy_id_asc'' then [KText (cn_strategy_id c)]
      else [])"

definition tie_break_sort_key :: "policy \<Rightarrow> evaluated \<Rightarrow> tie_key list" where
  "tie_break_sort_key p e = (let keys = concat (map (tie_component e) (pl_tie_break p));
      score = (case ev_score e of Some s \<Rightarrow> s | None \<Rightarrow> NInf); c = ev_candidate e in
      if keys = [] then [KNum (fneg score), KInt (cn_priority c), KText (cn_strategy_id c)]
      else keys @ [KText (cn_strategy_id c)])"

definition decision_from_reason :: "bool \<Rightarrow> string \<Rightarrow> string" where
  "decision_from_reason selected reason =
     (if selected then ''accept''
      else if ends_with ''_deferred'' reason then ''defer''
      else if starts_with ''replace_'' reason then ''replace''
      else if starts_with ''resize_'' reason then ''resize''
      else ''reject'')"

text \<open>\<open>_build_outcome\<close>: the reason and the identifiers given go before the item's own; an empty one does not.\<close>

definition build_outcome ::
  "bool \<Rightarrow> string \<Rightarrow> string option \<Rightarrow> string option \<Rightarrow> evaluated \<Rightarrow> alloc_outcome" where
  "build_outcome selected reason blocker replaced e =
     (let reason_code = (if reason = [] then ev_reason e else reason) in
      \<lparr>oc_strategy_id = cn_strategy_id (ev_candidate e), oc_symbol = ev_symbol e, oc_selected = selected,
       oc_reason = reason_code, oc_score = ev_score e, oc_decision = decision_from_reason selected reason_code,
       oc_portfolio_group = ev_portfolio_group e, oc_exposure_bucket = ev_exposure_bucket e,
       oc_estimated_cost = ev_estimated_cost e, oc_slot_cost = ev_slot_cost e,
       oc_blocked_by_strategy = str_or blocker (ev_blocked_by_strategy e),
       oc_blocked_by_position = ev_blocked_by_position e,
       oc_replaced_candidate = str_or replaced (ev_replaced_candidate e), oc_notes = ev_notes e\<rparr>)"

text \<open>\<open>xs[:n]\<close>: a negative bound counts from the end.\<close>

definition py_prefix :: "int \<Rightarrow> 'a list \<Rightarrow> 'a list" where
  "py_prefix n xs = (if 0 \<le> n then take (nat n) xs else take (length xs - nat (- n)) xs)"

definition keep_count :: "policy \<Rightarrow> nat \<Rightarrow> int" where
  "keep_count p n = (if pl_selection_mode p = ''select_many''
     then (case pl_max_per_symbol p of None \<Rightarrow> int n | Some m \<Rightarrow> min (int n) m) else 1)"

definition select_from :: "policy \<Rightarrow> evaluated list \<Rightarrow> alloc_candidate list \<times> alloc_outcome list" where
  "select_from p evs =
     (let accepted = filter (\<lambda>e. ev_accepted e \<and> ev_score e \<noteq> None) evs in
      if accepted = [] then ([], map (build_outcome False [] None None) evs) else
      let ranked = sort_key (tie_break_sort_key p) accepted;
          kept = py_prefix (keep_count p (length ranked)) ranked;
          refs = map (cn_oid \<circ> ev_candidate) kept;
          winner = (case kept of [] \<Rightarrow> None | w # _ \<Rightarrow> Some (ev_candidate w));
          lost = (if pl_selection_mode p = ''select_many'' then ''selection_limit'' else ''tie_break_lost'')
      in (map ev_candidate kept,
          map (\<lambda>e. if cn_oid (ev_candidate e) \<in> set refs then build_outcome True ''selected'' None None e
                   else build_outcome False lost (map_option cn_strategy_id winner)
                          (map_option ct_candidate_id (Option.bind winner cn_trade)) e) ranked
          @ map (build_outcome False [] None None) (filter (\<lambda>e. \<not> ev_accepted e) evs)))"

text \<open>The candidates by the symbol of their signal, in first-seen order.\<close>

definition by_symbol :: "(alloc_candidate \<Rightarrow> string) \<Rightarrow> alloc_candidate list \<Rightarrow> (string \<times> alloc_candidate list) list" where
  "by_symbol key cs = foldl (\<lambda>d c. AList.update (key c)
     ((case map_of d (key c) of None \<Rightarrow> [] | Some g \<Rightarrow> g) @ [c]) d) [] cs"

definition pass_through_outcome :: "alloc_candidate \<Rightarrow> alloc_outcome res" where
  "pass_through_outcome c = bind_res (candidate_score c) (\<lambda>s. bind_res (candidate_estimated_cost c) (\<lambda>k.
     Inr \<lparr>oc_strategy_id = cn_strategy_id c, oc_symbol = candidate_symbol c, oc_selected = True,
       oc_reason = ''pass_through'', oc_score = Some s, oc_decision = ''accept'', oc_portfolio_group = [],
       oc_exposure_bucket = [], oc_estimated_cost = Some k, oc_slot_cost = None, oc_blocked_by_strategy = None,
       oc_blocked_by_position = None, oc_replaced_candidate = None, oc_notes = None\<rparr>))"

definition allocate :: "policy \<Rightarrow> alloc_context \<Rightarrow> alloc_candidate list \<Rightarrow> alloc_result res" where
  "allocate p x cs =
     (if cs = [] then Inr \<lparr>ar_selected = [], ar_outcomes = []\<rparr>
      else if is_pass_through p then
        bind_res (map_res pass_through_outcome cs) (\<lambda>os. Inr \<lparr>ar_selected = cs, ar_outcomes = os\<rparr>)
      else bind_res (map_res (\<lambda>(symb, g). bind_res (map_res (evaluate_candidate p x) g) (\<lambda>evs. Inr (select_from p evs)))
                (sort_key fst (by_symbol (signal_symbol \<circ> cn_signal) cs))) (\<lambda>rs.
           Inr \<lparr>ar_selected = concat (map fst rs), ar_outcomes = concat (map snd rs)\<rparr>))"

section \<open>The caller in the strategy registry\<close>

text \<open>\<open>_allocation_board_mode\<close> and \<open>_allocation_kill_switch_state\<close>: the gate state has no board mode of its own;
  \<open>cfg\<close> is the configuration's attribute, absent as None.\<close>

definition allocation_board_mode :: "pyval \<Rightarrow> gate_state \<Rightarrow> string" where
  "allocation_board_mode cfg g =
     (let readiness = str_lower (str_strip (mg_readiness (gs_market g)));
          fallback = (if readiness \<in> {''guarded'', ''halted''} then readiness else ''normal'')
      in case cfg of PStr s \<Rightarrow> if str_strip s \<noteq> [] then str_lower (str_strip s) else fallback | _ \<Rightarrow> fallback)"

definition allocation_kill_switch_state :: "pyval \<Rightarrow> gate_state \<Rightarrow> string" where
  "allocation_kill_switch_state cfg g =
     (let explicit = (case rg_kill_switch (gs_risk g) of None \<Rightarrow> [] | Some s \<Rightarrow> str_lower (str_strip s))
      in if explicit \<noteq> [] then explicit
         else if rg_reduce_only (gs_risk g) then ''soft_stop''
         else case cfg of PStr s \<Rightarrow> if str_strip s \<noteq> [] then str_lower (str_strip s) else ''normal'' | _ \<Rightarrow> ''normal'')"

definition registry_symbol :: "alloc_candidate \<Rightarrow> string" where
  "registry_symbol c = str_upper (py_str (dget_def (cn_signal c) ''symbol'' (PStr ''UNKNOWN'')))"

text \<open>\<open>_apply_allocation\<close>: the selected signals. The clock, the open positions and the regime value per symbol are
  arguments, and the records of the outcomes are left out; the theory \<open>Engine\<close> has the loop with both.\<close>

definition allocation_context ::
  "pydt \<Rightarrow> pyval \<Rightarrow> pyval \<Rightarrow> gate_state \<Rightarrow> active_position list \<Rightarrow> pyfloat option \<Rightarrow> alloc_context" where
  "allocation_context now board_cfg kill_cfg g positions regime =
     \<lparr>ac_now = now, ac_board_mode = allocation_board_mode board_cfg g,
      ac_kill_switch = allocation_kill_switch_state kill_cfg g, ac_regime = regime, ac_positions = positions\<rparr>"

definition apply_allocation ::
  "policy option \<Rightarrow> pydt \<Rightarrow> pyval \<Rightarrow> pyval \<Rightarrow> gate_state \<Rightarrow> active_position list \<Rightarrow> (string \<Rightarrow> pyfloat option)
     \<Rightarrow> alloc_candidate list \<Rightarrow> pydict list res" where
  "apply_allocation pol now board_cfg kill_cfg g positions regime cs = (case pol of
       None \<Rightarrow> Inr (map cn_signal cs)
     | Some p \<Rightarrow> bind_res (map_res (\<lambda>(symb, group).
           allocate p (allocation_context now board_cfg kill_cfg g positions (regime symb)) group)
           (sort_key fst (by_symbol registry_symbol cs)))
         (\<lambda>rs. Inr (concat (map (map cn_signal \<circ> ar_selected) rs))))"

section \<open>What an accepted candidate has passed\<close>

lemma reject_simps [simp]:
  "\<not> ev_accepted (reject r e)" "ev_candidate (reject r e) = ev_candidate e" "ev_score (reject r e) = ev_score e"
  "ev_reason (reject r e) = r"
  by (simp_all add: reject_def)

lemma new_evaluated_simps [simp]:
  "ev_candidate (new_evaluated c) = c" "\<not> ev_accepted (new_evaluated c)" "ev_score (new_evaluated c) = None"
  by (simp_all add: new_evaluated_def)

text \<open>Everything an accepted candidate has passed, with its score.\<close>

definition passes :: "policy \<Rightarrow> alloc_context \<Rightarrow> alloc_candidate \<Rightarrow> pyfloat \<Rightarrow> bool" where
  "passes p x c score =
     (let cfg = strategy_cfg p (cn_strategy_id c); hf = resolve_hard_filters p cfg in
      truthy (dget_def cfg ''enabled'' (PBool True)) \<and> kill_switch_blocked hf x = Inr False \<and>
      \<not> board_mode_blocked hf x \<and> \<not> session_blocked hf x \<and> resolve_conflict p cfg c x = Inr None \<and>
      (\<exists>spread slippage spread_max least.
         extract_cost_estimate (cn_parameters c) = Inr (spread, slippage) \<and>
         coerce_float_or (dget hf ''spread_max'') (Fin (- 1)) = Inr spread_max \<and>
         \<not> (fge spread_max (Fin 0) \<and> fgt spread spread_max) \<and>
         compute_score p cfg c x spread slippage = Inr score \<and>
         min_score p cfg = Inr least \<and> \<not> flt score least))"

lemma evaluate_score_result:
  assumes "evaluate_score p cfg c x spread slippage e0 = Inr e"
  shows "ev_candidate e = ev_candidate e0"
    and "ev_accepted e \<Longrightarrow> resolve_conflict p cfg c x = Inr None \<and> (\<exists>least score.
         compute_score p cfg c x spread slippage = Inr score \<and>
         min_score p cfg = Inr least \<and> \<not> flt score least \<and> ev_score e = Some score)"
proof -
  from assms obtain conf where conf: "resolve_conflict p cfg c x = Inr conf"
    unfolding evaluate_score_def by (rule bind_res_InrE)
  have "ev_candidate e = ev_candidate e0 \<and> (ev_accepted e \<longrightarrow> resolve_conflict p cfg c x = Inr None \<and> (\<exists>least score.
         compute_score p cfg c x spread slippage = Inr score \<and>
         min_score p cfg = Inr least \<and> \<not> flt score least \<and> ev_score e = Some score))"
  proof (cases conf)
    case None
    with assms conf show ?thesis by (auto simp: evaluate_score_def bind_res_eq_Inr)
  next
    case (Some t)
    with assms conf show ?thesis by (cases t) (auto simp: evaluate_score_def)
  qed
  then show "ev_candidate e = ev_candidate e0" and "ev_accepted e \<Longrightarrow> resolve_conflict p cfg c x = Inr None \<and>
      (\<exists>least score. compute_score p cfg c x spread slippage = Inr score \<and>
         min_score p cfg = Inr least \<and> \<not> flt score least \<and> ev_score e = Some score)"
    by blast+
qed

lemma evaluate_costs_result:
  assumes "evaluate_costs p cfg hf c x e0 = Inr e" "\<not> ev_accepted e0"
  shows "ev_candidate e = ev_candidate e0"
    and "ev_accepted e \<Longrightarrow> \<not> session_blocked hf x \<and> resolve_conflict p cfg c x = Inr None \<and>
      (\<exists>spread slippage spread_max least score.
         extract_cost_estimate (cn_parameters c) = Inr (spread, slippage) \<and>
         coerce_float_or (dget hf ''spread_max'') (Fin (- 1)) = Inr spread_max \<and>
         \<not> (fge spread_max (Fin 0) \<and> fgt spread spread_max) \<and>
         compute_score p cfg c x spread slippage = Inr score \<and>
         min_score p cfg = Inr least \<and> \<not> flt score least \<and> ev_score e = Some score)"
proof -
  from assms(1) [unfolded evaluate_costs_def Let_def] obtain spread slippage cost spread_max where
    h: "extract_cost_estimate (cn_parameters c) = Inr (spread, slippage)"
       "coerce_float_or (dget hf ''spread_max'') (Fin (- 1)) = Inr spread_max"
    and body: "(if fge spread_max (Fin 0) \<and> fgt spread spread_max
        then Inr (reject ''spread_blocked'' (e0\<lparr>ev_estimated_cost := Some cost\<rparr>))
      else if session_blocked hf x then Inr (reject ''session_blocked'' (e0\<lparr>ev_estimated_cost := Some cost\<rparr>))
      else evaluate_score p cfg c x spread slippage (e0\<lparr>ev_estimated_cost := Some cost\<rparr>)) = Inr e"
    by (elim bind_res_InrE) (simp only: prod.case split: prod.split_asm, elim bind_res_InrE, blast)
  from body consider "ev_candidate e = ev_candidate e0" "\<not> ev_accepted e"
    | "\<not> (fge spread_max (Fin 0) \<and> fgt spread spread_max)" "\<not> session_blocked hf x"
      "evaluate_score p cfg c x spread slippage (e0\<lparr>ev_estimated_cost := Some cost\<rparr>) = Inr e"
    by (auto split: if_splits)
  note parts = this
  show "ev_candidate e = ev_candidate e0"
    using parts by cases (auto dest: evaluate_score_result(1))
  show "\<not> session_blocked hf x \<and> resolve_conflict p cfg c x = Inr None \<and>
      (\<exists>spread slippage spread_max least score.
         extract_cost_estimate (cn_parameters c) = Inr (spread, slippage) \<and>
         coerce_float_or (dget hf ''spread_max'') (Fin (- 1)) = Inr spread_max \<and>
         \<not> (fge spread_max (Fin 0) \<and> fgt spread spread_max) \<and>
         compute_score p cfg c x spread slippage = Inr score \<and>
         min_score p cfg = Inr least \<and> \<not> flt score least \<and> ev_score e = Some score)" if a: "ev_accepted e"
    using parts
  proof cases
    case 2
    then show ?thesis using evaluate_score_result(2) [OF 2(3) a] h by blast
  qed (use a in simp)
qed

lemma evaluate_result:
  assumes "evaluate_candidate p x c = Inr e"
  shows evaluate_candidate_same: "ev_candidate e = c"
    and evaluate_accepted: "ev_accepted e \<Longrightarrow> \<exists>score. ev_score e = Some score \<and> passes p x c score"
proof -
  define cfg where "cfg = strategy_cfg p (cn_strategy_id c)"
  define hf where "hf = resolve_hard_filters p cfg"
  consider (rejected) "ev_candidate e = c" "\<not> ev_accepted e"
    | (costs) e0 where "evaluate_costs p cfg hf c x e0 = Inr e" "ev_candidate e0 = c" "\<not> ev_accepted e0"
        "truthy (dget_def cfg ''enabled'' (PBool True))" "kill_switch_blocked hf x = Inr False" "\<not> board_mode_blocked hf x"
    using assms unfolding evaluate_candidate_def cfg_def hf_def
    by (auto simp: bind_res_eq_Inr Let_def split: if_splits)
  then have "ev_candidate e = c \<and> (ev_accepted e \<longrightarrow> (\<exists>score. ev_score e = Some score \<and> passes p x c score))"
  proof cases
    case costs
    then show ?thesis
      using evaluate_costs_result [OF costs(1,3)] by (auto simp: passes_def Let_def cfg_def hf_def)
  qed simp
  then show "ev_candidate e = c" "ev_accepted e \<Longrightarrow> \<exists>score. ev_score e = Some score \<and> passes p x c score"
    by blast+
qed

section \<open>Grouping and selecting\<close>

lemma mset_concat_update:
  "mset (concat (map snd (AList.update k ((case map_of d k of None \<Rightarrow> [] | Some g \<Rightarrow> g) @ [c]) d)))
     = add_mset c (mset (concat (map snd d)))"
  by (induction d) auto

lemma by_symbol_snoc:
  "by_symbol key (cs @ [c]) = AList.update (key c)
     ((case map_of (by_symbol key cs) (key c) of None \<Rightarrow> [] | Some g \<Rightarrow> g) @ [c]) (by_symbol key cs)"
  by (simp add: by_symbol_def)

lemma by_symbol_mset: "mset (concat (map snd (by_symbol key cs))) = mset cs"
  by (induction cs rule: rev_induct) (simp_all add: by_symbol_snoc mset_concat_update, simp add: by_symbol_def)

lemma by_symbol_wf: "wf_dict (by_symbol key cs)"
  by (induction cs rule: rev_induct) (auto simp: by_symbol_snoc, simp add: by_symbol_def)

lemma by_symbol_lookup:
  "map_of (by_symbol key cs) k = (let g = filter (\<lambda>c. key c = k) cs in if g = [] then None else Some g)"
proof (induction cs arbitrary: k rule: rev_induct)
  case Nil
  show ?case by (simp add: by_symbol_def)
next
  case (snoc c cs)
  have "(case map_of (by_symbol key cs) (key c) of None \<Rightarrow> [] | Some g \<Rightarrow> g) = filter (\<lambda>a. key a = key c) cs"
    using snoc by (simp add: Let_def split: option.split)
  with snoc show ?case by (auto simp: by_symbol_snoc Let_def)
qed

lemma by_symbol_mem:
  "(k, g) \<in> set (by_symbol key cs) \<Longrightarrow> g = filter (\<lambda>c. key c = k) cs \<and> g \<noteq> []"
  using map_of_is_SomeI [of "by_symbol key cs" k g] by_symbol_wf [of key cs]
  by (auto simp: by_symbol_lookup wf_dict_def Let_def split: if_splits)

lemma py_prefix_take: "\<exists>m \<le> length xs. py_prefix n xs = take m xs"
  by (cases "nat n \<le> length xs") (auto simp: py_prefix_def intro: exI [of _ "length xs"] exI [of _ "nat n"] exI [of _ "length xs - nat (- n)"])

lemma mset_py_prefix: "mset (py_prefix n xs) \<subseteq># mset xs"
  using py_prefix_take [of xs n] by (metis append_take_drop_id mset_append mset_subset_eq_add_left)

lemma build_outcome_strategy [simp]:
  "oc_strategy_id (build_outcome sel r b q e) = cn_strategy_id (ev_candidate e)"
  "oc_selected (build_outcome sel r b q e) = sel"
  by (simp_all add: build_outcome_def Let_def)

lemma select_from_outcomes:
  assumes "\<And>e. e \<in> set evs \<Longrightarrow> ev_accepted e \<Longrightarrow> ev_score e \<noteq> None"
  shows "image_mset oc_strategy_id (mset (snd (select_from p evs))) = image_mset (cn_strategy_id \<circ> ev_candidate) (mset evs)"
proof -
  have acc: "filter (\<lambda>e. ev_accepted e \<and> ev_score e \<noteq> None) evs = filter ev_accepted evs"
    using assms by (intro filter_cong) auto
  show ?thesis
  proof (cases "filter ev_accepted evs = []")
    case True
    then show ?thesis unfolding select_from_def Let_def acc by (simp add: comp_def image_mset.compositionality)
  next
    case False
    define ranked where "ranked = sort_key (tie_break_sort_key p) (filter ev_accepted evs)"
    have out: "(\<lambda>e. oc_strategy_id (if cn_oid (ev_candidate e) \<in> S then build_outcome True a1 a2 a3 e
        else build_outcome False b1 b2 b3 e)) = cn_strategy_id \<circ> ev_candidate" for S a1 a2 a3 b1 b2 b3
      by auto
    have "image_mset oc_strategy_id (mset (snd (select_from p evs))) =
        image_mset (cn_strategy_id \<circ> ev_candidate) (mset ranked)
        + image_mset (cn_strategy_id \<circ> ev_candidate) (mset (filter (\<lambda>e. \<not> ev_accepted e) evs))"
      using False unfolding select_from_def Let_def acc
      by (simp add: ranked_def image_mset.compositionality comp_def out [unfolded comp_def])
    also have "mset ranked = filter_mset ev_accepted (mset evs)" by (simp add: ranked_def)
    also have "image_mset (cn_strategy_id \<circ> ev_candidate) (filter_mset ev_accepted (mset evs))
        + image_mset (cn_strategy_id \<circ> ev_candidate) (mset (filter (\<lambda>e. \<not> ev_accepted e) evs))
        = image_mset (cn_strategy_id \<circ> ev_candidate) (mset evs)"
      by (simp flip: image_mset_union multiset_partition)
    finally show ?thesis .
  qed
qed

lemma select_from_selected:
  assumes "c \<in> set (fst (select_from p evs))"
  obtains e where "e \<in> set evs" "ev_accepted e" "ev_candidate e = c"
  using assms mset_py_prefix [THEN set_mset_mono]
  by (fastforce simp: select_from_def Let_def split: if_splits)

section \<open>Results of an allocation\<close>

lemma evaluated_group:
  assumes "map_res (evaluate_candidate p x) g = Inr evs"
  shows "map ev_candidate evs = g"
    and "e \<in> set evs \<Longrightarrow> evaluate_candidate p x (ev_candidate e) = Inr e \<and> ev_candidate e \<in> set g"
proof -
  have all: "list_all2 (\<lambda>c e. evaluate_candidate p x c = Inr e) g evs"
    using assms by (simp add: map_res_list_all2)
  then show "map ev_candidate evs = g"
    by (induction rule: list_all2_induct) (auto dest: evaluate_candidate_same)
  show "evaluate_candidate p x (ev_candidate e) = Inr e \<and> ev_candidate e \<in> set g" if "e \<in> set evs"
    using list_all2_mem [OF all that] by (auto simp: evaluate_candidate_same)
qed

text \<open>An active allocation, group by group.\<close>

lemma allocate_groups:
  assumes "allocate p x cs = Inr r" "\<not> is_pass_through p"
  obtains gs rs where "mset gs = mset (by_symbol (signal_symbol \<circ> cn_signal) cs)"
    "list_all2 (\<lambda>(k, g) q. \<exists>evs. map_res (evaluate_candidate p x) g = Inr evs \<and> q = select_from p evs) gs rs"
    "ar_selected r = concat (map fst rs)" "ar_outcomes r = concat (map snd rs)"
proof (cases "cs = []")
  case True
  with assms have "ar_selected r = []" "ar_outcomes r = []" by (auto simp: allocate_def)
  with True show ?thesis by (intro that [of "[]" "[]"]) (simp_all add: by_symbol_def)
next
  case False
  define gs where "gs = sort_key fst (by_symbol (signal_symbol \<circ> cn_signal) cs)"
  from assms False obtain rs where rs:
    "map_res (\<lambda>(k, g). bind_res (map_res (evaluate_candidate p x) g) (\<lambda>evs. Inr (select_from p evs))) gs = Inr rs"
    and r: "r = \<lparr>ar_selected = concat (map fst rs), ar_outcomes = concat (map snd rs)\<rparr>"
    unfolding allocate_def gs_def by (auto elim!: bind_res_InrE)
  have "list_all2 (\<lambda>(k, g) q. \<exists>evs. map_res (evaluate_candidate p x) g = Inr evs \<and> q = select_from p evs) gs rs"
    using rs [unfolded map_res_list_all2 [of _ gs]]
    by (rule list_all2_mono) (clarsimp elim!: bind_res_InrE)
  then show ?thesis by (intro that [of gs rs]) (simp_all add: gs_def r)
qed

lemma select_group_outcomes:
  assumes "map_res (evaluate_candidate p x) g = Inr evs"
  shows "image_mset oc_strategy_id (mset (snd (select_from p evs))) = image_mset cn_strategy_id (mset g)"
proof -
  have "ev_score e \<noteq> None" if "e \<in> set evs" "ev_accepted e" for e
    using evaluated_group(2) [OF assms that(1)] evaluate_accepted that(2) by fastforce
  from select_from_outcomes [OF this] show ?thesis
    by (simp flip: evaluated_group(1) [OF assms] add: image_mset.compositionality)
qed

text \<open>As many outcomes say selected as candidates are: the outcomes are told apart by the identity of the candidate.\<close>

lemma selected_prefix_count:
  assumes "distinct (map f xs)"
  shows "length (filter (\<lambda>x. f x \<in> set (map f (py_prefix n xs))) xs) = length (py_prefix n xs)"
proof -
  obtain m where m: "m \<le> length xs" "py_prefix n xs = take m xs" using py_prefix_take by blast
  have d: "distinct (map f (take m xs @ drop m xs))" using assms by simp
  have "filter (\<lambda>x. f x \<in> set (map f (take m xs))) (take m xs @ drop m xs) = take m xs"
    using d by (auto simp: filter_id_conv filter_empty_conv simp del: append_take_drop_id)
  then show ?thesis by (simp add: m)
qed

lemma select_from_count:
  assumes "\<And>e. e \<in> set evs \<Longrightarrow> ev_accepted e \<Longrightarrow> ev_score e \<noteq> None" "distinct (map (cn_oid \<circ> ev_candidate) evs)"
  shows "length (filter oc_selected (snd (select_from p evs))) = length (fst (select_from p evs))"
proof -
  have acc: "filter (\<lambda>e. ev_accepted e \<and> ev_score e \<noteq> None) evs = filter ev_accepted evs"
    using assms by (intro filter_cong) auto
  show ?thesis
  proof (cases "filter ev_accepted evs = []")
    case True
    then show ?thesis unfolding select_from_def Let_def acc by (simp add: comp_def filter_map)
  next
    case False
    define ranked where "ranked = sort_key (tie_break_sort_key p) (filter ev_accepted evs)"
    define kept where "kept = py_prefix (keep_count p (length ranked)) ranked"
    have "distinct (map (cn_oid \<circ> ev_candidate) (filter ev_accepted evs))" using assms(2) by (rule distinct_map_filter)
    moreover have "mset (map (cn_oid \<circ> ev_candidate) ranked) = mset (map (cn_oid \<circ> ev_candidate) (filter ev_accepted evs))" by (simp add: ranked_def)
    ultimately have "distinct (map (cn_oid \<circ> ev_candidate) ranked)" by (metis mset_eq_imp_distinct_iff)
    from selected_prefix_count [OF this] have n: "length (filter (\<lambda>e. cn_oid (ev_candidate e) \<in> set (map (cn_oid \<circ> ev_candidate) kept)) ranked) = length kept"
      by (simp add: kept_def)
    have out: "oc_selected (if cn_oid (ev_candidate e) \<in> S then build_outcome True a1 a2 a3 e else build_outcome False b1 b2 b3 e) \<longleftrightarrow> cn_oid (ev_candidate e) \<in> S"
      for S a1 a2 a3 b1 b2 b3 e by simp
    from n False show ?thesis unfolding select_from_def Let_def acc ranked_def [symmetric] kept_def [symmetric]
      by (simp add: filter_map comp_def out)
  qed
qed

text \<open>Every candidate handed to an active allocation gets exactly one outcome under its strategy.\<close>

theorem allocation_outcomes_complete:
  assumes "allocate p x cs = Inr r" "\<not> is_pass_through p"
  shows "mset (map oc_strategy_id (ar_outcomes r)) = mset (map cn_strategy_id cs)"
proof -
  obtain gs rs where gs: "mset gs = mset (by_symbol (signal_symbol \<circ> cn_signal) cs)"
    and rs: "list_all2 (\<lambda>(k, g) q. \<exists>evs. map_res (evaluate_candidate p x) g = Inr evs \<and> q = select_from p evs) gs rs"
    and "ar_selected r = concat (map fst rs)" and out: "ar_outcomes r = concat (map snd rs)"
    using assms by (rule allocate_groups)
  have "image_mset oc_strategy_id (mset (concat (map snd rs))) = image_mset cn_strategy_id (mset (concat (map snd gs)))"
    using rs by (induction rule: list_all2_induct) (auto simp: select_group_outcomes)
  also have "mset (concat (map snd gs)) = mset cs"
    using by_symbol_mset [of "signal_symbol \<circ> cn_signal" cs] arg_cong [OF gs, of "\<lambda>m. \<Sum>\<^sub># (image_mset (mset \<circ> snd) m)"]
    by (simp add: mset_concat sum_mset_sum_list flip: mset_map)
  finally show ?thesis by (simp add: out)
qed

text \<open>The same whatever the mode of the policy, with the outcomes that say selected.\<close>

lemma allocation_outcomes:
  assumes "allocate p x cs = Inr r" "distinct (map cn_oid cs)"
  shows "mset (map oc_strategy_id (ar_outcomes r)) = mset (map cn_strategy_id cs)"
    "length (filter oc_selected (ar_outcomes r)) = length (ar_selected r)"
proof -
  have "mset (map oc_strategy_id (ar_outcomes r)) = mset (map cn_strategy_id cs)
      \<and> length (filter oc_selected (ar_outcomes r)) = length (ar_selected r)"
  proof (cases "is_pass_through p")
    case True
    have one: "oc_strategy_id q = cn_strategy_id c \<and> oc_selected q" if "pass_through_outcome c = Inr q" for c q
      using that by (auto simp: pass_through_outcome_def bind_res_eq_Inr)
    have all: "map oc_strategy_id qs = map cn_strategy_id cs \<and> length (filter oc_selected qs) = length cs" if "map_res pass_through_outcome cs = Inr qs" for qs cs
      using that [unfolded map_res_list_all2] by (induction rule: list_all2_induct) (auto dest!: one)
    from True assms(1) obtain qs where "ar_selected r = cs" "ar_outcomes r = qs" "map oc_strategy_id qs = map cn_strategy_id cs \<and> length (filter oc_selected qs) = length cs"
      by (auto simp: allocate_def bind_res_eq_Inr split: if_splits dest!: all)
    then show ?thesis by simp
  next
    case False
    obtain gs rs where gs: "mset gs = mset (by_symbol (signal_symbol \<circ> cn_signal) cs)"
      and rs: "list_all2 (\<lambda>(k, g) q. \<exists>evs. map_res (evaluate_candidate p x) g = Inr evs \<and> q = select_from p evs) gs rs"
      and sel: "ar_selected r = concat (map fst rs)" and out: "ar_outcomes r = concat (map snd rs)"
      using assms(1) False by (rule allocate_groups)
    have flat: "mset (concat (map snd gs)) = mset cs"
      using by_symbol_mset [of "signal_symbol \<circ> cn_signal" cs] arg_cong [OF gs, of "\<lambda>m. \<Sum>\<^sub># (image_mset (mset \<circ> snd) m)"]
      by (simp add: mset_concat sum_mset_sum_list flip: mset_map)
    then have dist: "distinct (map cn_oid (concat (map snd gs)))" using assms(2) by (metis mset_eq_imp_distinct_iff mset_map)
    have "image_mset oc_strategy_id (mset (concat (map snd rs))) = image_mset cn_strategy_id (mset (concat (map snd gs)))"
      using rs by (induction rule: list_all2_induct) (auto simp: select_group_outcomes)
    moreover have "length (filter oc_selected (concat (map snd rs))) = length (concat (map fst rs))"
      using rs dist
    proof (induction rule: list_all2_induct)
      case (Cons a gs q rs)
      obtain k g where a: "a = (k, g)" by (cases a)
      from Cons.hyps(1) obtain evs where evs: "map_res (evaluate_candidate p x) g = Inr evs" "q = select_from p evs" by (auto simp: a)
      have "ev_score e \<noteq> None" if "e \<in> set evs" "ev_accepted e" for e
        using evaluated_group(2) [OF evs(1) that(1)] evaluate_accepted that(2) by fastforce
      moreover have "distinct (map (cn_oid \<circ> ev_candidate) evs)"
        using Cons.prems by (simp add: a flip: evaluated_group(1) [OF evs(1)])
      ultimately have "length (filter oc_selected (snd q)) = length (fst q)" unfolding evs(2) by (rule select_from_count)
      with Cons.IH Cons.prems show ?case by simp
    qed simp
    ultimately show ?thesis by (simp add: out sel flat)
  qed
  then show "mset (map oc_strategy_id (ar_outcomes r)) = mset (map cn_strategy_id cs)" "length (filter oc_selected (ar_outcomes r)) = length (ar_selected r)" by simp_all
qed

text \<open>What is selected in one group carries the group's symbol, so filtering by it gives the group's selection.\<close>

lemma concat_groups_filter:
  assumes "list_all2 R gs rs" "distinct (map fst gs)" "(k, g) \<in> set gs"
    and "\<And>k g q d. R (k, g) q \<Longrightarrow> (k, g) \<in> set gs \<Longrightarrow> d \<in> set (fst q) \<Longrightarrow> key d = k"
  shows "\<exists>q. R (k, g) q \<and> filter (\<lambda>d. key d = k) (concat (map fst rs)) = fst q"
  using assms
proof (induction rule: list_all2_induct)
  case (Cons a gs q rs)
  obtain k' g' where a: "a = (k', g')" by (cases a)
  have head: "key d = k'" if "d \<in> set (fst q)" for d using Cons.prems(3) [of k' g' q d] Cons.hyps(1) that by (simp add: a)
  show ?case
  proof (cases "(k, g) = a")
    case True
    have "key d \<noteq> k" if "d \<in> set (concat (map fst rs))" for d
    proof -
      from that obtain r where "r \<in> set rs" "d \<in> set (fst r)" by auto
      moreover obtain b where "b \<in> set gs" "R b r" using list_all2_mem [OF Cons.hyps(2) \<open>r \<in> set rs\<close>] by auto
      ultimately have "key d = fst b" using Cons.prems(3) [of "fst b" "snd b" r d] by simp
      moreover have "fst b \<noteq> k" using Cons.prems(1) True \<open>b \<in> set gs\<close> by (auto simp: a)
      ultimately show ?thesis by simp
    qed
    then have "filter (\<lambda>d. key d = k) (concat (map fst rs)) = []" by (simp only: filter_empty_conv) blast
    moreover have "filter (\<lambda>d. key d = k) (fst q) = fst q" using head True by (simp add: a filter_id_conv)
    ultimately show ?thesis using Cons.hyps(1) True by (intro exI [of _ q]) simp
  next
    case False
    with Cons.prems(2) have mem: "(k, g) \<in> set gs" by auto
    with Cons.prems(1) have "k \<noteq> k'" by (force simp: a)
    then have "filter (\<lambda>d. key d = k) (fst q) = []" using head by (auto simp: filter_empty_conv)
    moreover have "\<exists>q'. R (k, g) q' \<and> filter (\<lambda>d. key d = k) (concat (map fst rs)) = fst q'"
      using Cons.prems mem by (intro Cons.IH) auto
    ultimately show ?thesis by simp
  qed
qed simp

lemma select_from_symbol:
  assumes "map_res (evaluate_candidate p x) g = Inr evs" "c \<in> set (fst (select_from p evs))"
  obtains e where "c \<in> set g" "e \<in> set evs" "ev_accepted e" "ev_candidate e = c" "evaluate_candidate p x c = Inr e"
proof -
  obtain e where e: "e \<in> set evs" "ev_accepted e" "ev_candidate e = c" using assms(2) by (rule select_from_selected)
  with evaluated_group(2) [OF assms(1) e(1)] that show ?thesis by auto
qed

lemma allocate_selected:
  assumes "allocate p x cs = Inr r" "\<not> is_pass_through p" "c \<in> set (ar_selected r)"
  defines "same \<equiv> \<lambda>d. signal_symbol (cn_signal d) = signal_symbol (cn_signal c)"
  obtains evs where "map_res (evaluate_candidate p x) (filter same cs) = Inr evs"
    "filter same (ar_selected r) = fst (select_from p evs)"
proof -
  define key :: "alloc_candidate \<Rightarrow> string" where "key = signal_symbol \<circ> cn_signal"
  define R where "R = (\<lambda>(k :: string, g) q. \<exists>evs. map_res (evaluate_candidate p x) g = Inr evs \<and> q = select_from p evs)"
  obtain gs rs where gs: "mset gs = mset (by_symbol key cs)" and rs: "list_all2 R gs rs"
    and sel: "ar_selected r = concat (map fst rs)" and "ar_outcomes r = concat (map snd rs)"
    using assms(1,2) unfolding key_def R_def by (rule allocate_groups)
  have mem: "(k, g) \<in> set gs \<longleftrightarrow> (k, g) \<in> set (by_symbol key cs)" for k g using gs by (metis set_mset_mset)
  have group: "g = filter (\<lambda>d. key d = k) cs" if "(k, g) \<in> set gs" for k g
    using that by_symbol_mem unfolding mem by metis
  have inR: "key d = k" if "R (k, g) q" "(k, g) \<in> set gs" "d \<in> set (fst q)" for k g q d
  proof -
    from that(1) obtain evs where evs: "map_res (evaluate_candidate p x) g = Inr evs" "q = select_from p evs"
      by (auto simp: R_def)
    with that(3) have "d \<in> set g" using select_from_symbol by blast
    then show ?thesis using group [OF that(2)] by simp
  qed
  have dist: "distinct (map fst gs)"
    using by_symbol_wf [of key cs] gs unfolding wf_dict_def by (metis mset_eq_imp_distinct_iff mset_map)
  from assms(3) obtain q where q: "q \<in> set rs" "c \<in> set (fst q)" by (auto simp: sel)
  from list_all2_mem [OF rs q(1)] obtain k g where kg: "(k, g) \<in> set gs" "R (k, g) q" by auto
  have k: "k = key c" using inR [OF kg(2,1) q(2)] by simp
  have same: "same = (\<lambda>d. key d = key c)" by (simp add: same_def key_def)
  have "\<exists>q. R (k, g) q \<and> filter (\<lambda>d. key d = k) (concat (map fst rs)) = fst q"
    by (rule concat_groups_filter [OF rs dist kg(1)]) (rule inR)
  then obtain q' where "R (k, g) q'" "filter (\<lambda>d. key d = k) (ar_selected r) = fst q'"
    unfolding sel by blast
  with group [OF kg(1)] show ?thesis using that by (auto simp: R_def k same)
qed

section \<open>Properties\<close>

definition demo_context :: alloc_context where
  "demo_context = \<lparr>ac_now = demo_time, ac_board_mode = ''normal'', ac_kill_switch = ''normal'', ac_regime = None,
     ac_positions = []\<rparr>"

definition demo_policy :: policy where
  "demo_policy = \<lparr>pl_mode = ''active'', pl_tie_break = default_tie_break, pl_selection_mode = ''select_one'',
     pl_max_per_symbol = None, pl_global = [(''require_strategy_config'', PBool False)], pl_strategies = [],
     pl_source_path = None\<rparr>"

definition demo_candidate :: "nat \<Rightarrow> string \<Rightarrow> int \<Rightarrow> alloc_candidate" where
  "demo_candidate i sid priority = \<lparr>cn_oid = i, cn_strategy_id = sid,
     cn_signal = [(''symbol'', PStr ''USDJPY''), (''score'', PFloat (Fin 0))], cn_priority = priority, cn_weight = Fin 1,
     cn_parameters = [], cn_trade = None\<rparr>"

lemma demo_symbol [simp]:
  "signal_symbol (cn_signal (demo_candidate i sid n)) = ''USDJPY''" "candidate_symbol (demo_candidate i sid n) = ''USDJPY''"
proof -
  have "str_upper (str_strip ''USDJPY'') = ''USDJPY''" by code_simp
  then show "signal_symbol (cn_signal (demo_candidate i sid n)) = ''USDJPY''"
    "candidate_symbol (demo_candidate i sid n) = ''USDJPY''"
    by (simp_all add: demo_candidate_def signal_symbol_def candidate_symbol_def)
qed

lemma state_words:
  "str_lower (str_strip ''normal'') = ''normal''" "str_lower (str_strip ''soft_stop'') = ''soft_stop''"
  "str_lower (str_strip ''hard_stop'') = ''hard_stop''" "str_lower (str_strip ''triggered'') = ''triggered''"
  by code_simp+

definition demo_item :: "nat \<Rightarrow> string \<Rightarrow> int \<Rightarrow> evaluated" where
  "demo_item i sid priority = (new_evaluated (demo_candidate i sid priority))\<lparr>ev_score := Some (Fin 0),
     ev_accepted := True, ev_reason := ''candidate_ok'', ev_estimated_cost := Some (Fin 0), ev_slot_cost := Some (Fin 0)\<rparr>"

lemmas filter_defs = resolve_portfolio_cfg_def resolve_section_def portfolio_group_def exposure_bucket_def
  template_value_def py_or_def resolve_hard_filters_def kill_switch_blocked_def default_blocked_states_def py_iter_def
  board_mode_blocked_def session_blocked_def hour_in_ranges_def

lemmas score_defs = evaluate_score_def resolve_conflict_def compute_score_def weighted_score_def score_cfg_def
  candidate_score_def regime_multiplier_def resolve_cost_penalty_def fsub_def holding_minutes_def match_penalty_def
  group_matches_def name_matches_def exposure_matches_def min_score_def fmax_def

lemmas cost_defs = evaluate_costs_def candidate_estimated_cost_def extract_cost_estimate_def extract_execution_def

lemma demo_evaluate: "evaluate_candidate demo_policy demo_context (demo_candidate i sid n) = Inr (demo_item i sid n)"
  apply (simp add: evaluate_candidate_def demo_policy_def strategy_cfg_def demo_context_def filter_defs cost_defs
      score_defs state_words)
  apply (simp add: demo_candidate_def demo_item_def signal_score_def cost_defs Let_def)
  apply (simp add: new_evaluated_def rhe_of_int [of 0, simplified])
  done

lemma selected_passes:
  assumes "allocate p x cs = Inr r" "\<not> is_pass_through p" "c \<in> set (ar_selected r)"
  shows "c \<in> set cs \<and> (\<exists>score. passes p x c score)"
proof -
  obtain evs where evs:
    "map_res (evaluate_candidate p x) (filter (\<lambda>d. signal_symbol (cn_signal d) = signal_symbol (cn_signal c)) cs) = Inr evs"
    and sel: "filter (\<lambda>d. signal_symbol (cn_signal d) = signal_symbol (cn_signal c)) (ar_selected r) = fst (select_from p evs)"
    using assms by (rule allocate_selected)
  have "c \<in> set (fst (select_from p evs))" using assms(3) by (simp flip: sel)
  from select_from_symbol [OF evs this] show ?thesis by (metis evaluate_accepted filter_is_subset subsetD)
qed

text \<open>C14: A candidate an active allocation selects is one of those handed in, its strategy is enabled, and it has
  passed the kill switch, board mode, spread and session filters and the open positions, with a score not below
  the minimum.\<close>

theorem selected_passed_filters:
  assumes "allocate p x cs = Inr r" "\<not> is_pass_through p" "c \<in> set (ar_selected r)"
  shows "c \<in> set cs \<and> (\<exists>score. passes p x c score)"
  using assms by (rule selected_passes)

definition demo_pair :: "alloc_candidate list" where
  "demo_pair = [demo_candidate 0 ''a'' 2, demo_candidate 1 ''b'' 1]"

lemma demo_policy_fields [simp]:
  "pl_selection_mode demo_policy = ''select_one''" "pl_max_per_symbol demo_policy = None" "\<not> is_pass_through demo_policy"
  "pl_tie_break demo_policy = default_tie_break"
  by (simp_all add: demo_policy_def is_pass_through_def)

lemma demo_allocate:
  "allocate demo_policy demo_context demo_pair = Inr \<lparr>ar_selected = [demo_candidate 1 ''b'' 1],
     ar_outcomes = [build_outcome True ''selected'' None None (demo_item 1 ''b'' 1),
       build_outcome False ''tie_break_lost'' (Some ''b'') None (demo_item 0 ''a'' 2)]\<rparr>"
proof -
  have groups: "by_symbol (signal_symbol \<circ> cn_signal) demo_pair = [(''USDJPY'', demo_pair)]"
    by (simp add: by_symbol_def demo_pair_def)
  have item: "ev_candidate (demo_item i s n) = demo_candidate i s n" "ev_accepted (demo_item i s n)"
    "ev_score (demo_item i s n) = Some (Fin 0)" for i s n
    by (simp_all add: demo_item_def)
  have norm: "normalize_text (PStr ''score_desc'') = ''score_desc''" "normalize_text (PStr ''priority_asc'') = ''priority_asc''"
    "normalize_text (PStr ''strategy_id_asc'') = ''strategy_id_asc''"
    by code_simp+
  have key: "tie_break_sort_key demo_policy (demo_item i s n) = [KNum (Fin 0), KInt n, KText s, KText s]" for i s n
    by (simp add: tie_break_sort_key_def tie_component_def default_tie_break_def norm item Let_def
        del: normalize_text_simps, simp add: demo_candidate_def)
  have "select_from demo_policy [demo_item 0 ''a'' 2, demo_item 1 ''b'' 1] = ([demo_candidate 1 ''b'' 1],
     [build_outcome True ''selected'' None None (demo_item 1 ''b'' 1),
       build_outcome False ''tie_break_lost'' (Some ''b'') None (demo_item 0 ''a'' 2)])"
  proof -
    have ranked: "sort_key (tie_break_sort_key demo_policy) [demo_item 0 ''a'' 2, demo_item 1 ''b'' 1]
        = [demo_item 1 ''b'' 1, demo_item 0 ''a'' 2]"
      by (simp add: key)
    show ?thesis
      unfolding select_from_def Let_def
      by (simp add: item ranked del: sort_key_simps,
          simp add: keep_count_def py_prefix_def item key, simp add: demo_candidate_def)
  qed
  then show ?thesis
    by (simp add: allocate_def groups) (simp add: demo_pair_def demo_evaluate)
qed

theorem selected_passed_filters_witness:
  "demo_candidate 1 ''b'' 1 \<in> set demo_pair \<and> (\<exists>score. passes demo_policy demo_context (demo_candidate 1 ''b'' 1) score)"
  by (rule selected_passed_filters [OF demo_allocate]) simp_all

theorem allocation_outcomes_complete_witness:
  "mset (map oc_strategy_id [build_outcome True ''selected'' None None (demo_item 1 ''b'' 1),
       build_outcome False ''tie_break_lost'' (Some ''b'') None (demo_item 0 ''a'' 2)])
     = mset (map cn_strategy_id demo_pair)"
  using allocation_outcomes_complete [OF demo_allocate] by simp

lemma select_one_head:
  assumes "pl_selection_mode p = ''select_one''" "c \<in> set (fst (select_from p evs))"
  shows "\<exists>e \<in> set evs. fst (select_from p evs) = [c] \<and> ev_candidate e = c \<and> ev_accepted e \<and>
    (\<forall>e' \<in> set evs. ev_accepted e' \<and> ev_score e' \<noteq> None \<longrightarrow> tie_break_sort_key p e \<le> tie_break_sort_key p e')"
proof -
  define acc where "acc = filter (\<lambda>e. ev_accepted e \<and> ev_score e \<noteq> None) evs"
  define ranked where "ranked = sort_key (tie_break_sort_key p) acc"
  have "acc \<noteq> []" using assms(2) by (auto simp: select_from_def acc_def split: if_splits)
  then obtain w ws where w: "ranked = w # ws"
    unfolding ranked_def by (metis neq_Nil_conv set_empty set_sort)
  have sorted: "sorted (map (tie_break_sort_key p) ranked)" by (simp add: ranked_def)
  have "fst (select_from p evs) = map ev_candidate (py_prefix 1 ranked)"
    using \<open>acc \<noteq> []\<close> assms(1) by (simp add: select_from_def Let_def acc_def ranked_def keep_count_def)
  then have one: "fst (select_from p evs) = [ev_candidate w]" by (simp add: w py_prefix_def)
  moreover have "set ranked = set acc" by (simp add: ranked_def)
  moreover have "tie_break_sort_key p w \<le> tie_break_sort_key p e'" if "e' \<in> set ranked" for e'
    using sorted that by (auto simp: w)
  moreover have "w \<in> set acc" using \<open>set ranked = set acc\<close> by (auto simp: w)
  ultimately show ?thesis using assms(2) by (auto simp: acc_def)
qed

text \<open>In the mode \<open>select_one\<close> at most one candidate per signal symbol is selected, and no accepted candidate of its
  symbol comes before it in the tie-break order (scores and weights are numbers, so that Python's comparison is the
  order used here).\<close>

theorem select_one_best:
  assumes "allocate p x cs = Inr r" "\<not> is_pass_through p" "pl_selection_mode p = ''select_one''"
    and "c \<in> set (ar_selected r)" "evaluate_candidate p x c = Inr e"
    and "\<And>d f. d \<in> set cs \<Longrightarrow> evaluate_candidate p x d = Inr f \<Longrightarrow> ev_score f \<noteq> Some NaN \<and> cn_weight d \<noteq> NaN"
  shows "filter (\<lambda>d. signal_symbol (cn_signal d) = signal_symbol (cn_signal c)) (ar_selected r) = [c] \<and>
    (\<forall>d f. d \<in> set cs \<and> signal_symbol (cn_signal d) = signal_symbol (cn_signal c) \<and>
       evaluate_candidate p x d = Inr f \<and> ev_accepted f \<longrightarrow> tie_break_sort_key p e \<le> tie_break_sort_key p f)"
proof -
  define same :: "alloc_candidate \<Rightarrow> bool" where "same = (\<lambda>d. signal_symbol (cn_signal d) = signal_symbol (cn_signal c))"
  obtain evs where evs: "map_res (evaluate_candidate p x) (filter same cs) = Inr evs"
    and sel: "filter same (ar_selected r) = fst (select_from p evs)"
    using assms(1,2,4) unfolding same_def by (rule allocate_selected)
  have c: "c \<in> set (fst (select_from p evs))" using assms(4) by (simp flip: sel) (simp add: same_def)
  obtain w where w: "w \<in> set evs" "fst (select_from p evs) = [c]" "ev_candidate w = c"
    "\<And>e'. e' \<in> set evs \<Longrightarrow> ev_accepted e' \<Longrightarrow> ev_score e' \<noteq> None \<Longrightarrow> tie_break_sort_key p w \<le> tie_break_sort_key p e'"
    using select_one_head [OF assms(3) c] by blast
  have e: "e = w" using evaluated_group(2) [OF evs w(1)] assms(5) w(3) by simp
  have "tie_break_sort_key p e \<le> tie_break_sort_key p f"
    if "d \<in> set cs" "same d" "evaluate_candidate p x d = Inr f" "ev_accepted f" for d f
  proof -
    have "f \<in> set evs"
    proof -
      have "\<exists>e' \<in> set evs. evaluate_candidate p x d = Inr e'"
        using evs [unfolded map_res_list_all2] by (rule list_all2_mem1) (use that in simp)
      with that(3) show ?thesis by auto
    qed
    then show ?thesis unfolding e using that(3,4) evaluate_accepted w(4) by fastforce
  qed
  then show ?thesis unfolding w(2) [symmetric] sel [symmetric] same_def by blast
qed

theorem select_one_best_witness:
  "filter (\<lambda>d. signal_symbol (cn_signal d) = ''USDJPY'') [demo_candidate 1 ''b'' 1] = [demo_candidate 1 ''b'' 1]"
proof -
  have "filter (\<lambda>d. signal_symbol (cn_signal d) = signal_symbol (cn_signal (demo_candidate 1 ''b'' 1)))
      (ar_selected \<lparr>ar_selected = [demo_candidate 1 ''b'' 1],
        ar_outcomes = [build_outcome True ''selected'' None None (demo_item 1 ''b'' 1),
          build_outcome False ''tie_break_lost'' (Some ''b'') None (demo_item 0 ''a'' 2)]\<rparr>) = [demo_candidate 1 ''b'' 1]"
    using select_one_best [OF demo_allocate _ _ _ demo_evaluate [of 1 "''b''" 1]]
    by (auto simp: demo_pair_def demo_evaluate demo_item_def demo_candidate_def)
  then show ?thesis by simp
qed

section \<open>Risk guidance reaches the allocator\<close>

lemma guidance_state:
  assumes "a = ra_state (fst (evaluate rm snap hm t1 t2 w))" "rg_kill_switch a \<noteq> None \<or> rg_reduce_only a"
  shows "allocation_kill_switch_state cfg (apply_risk_assessment a g) \<in> {''soft_stop'', ''hard_stop''}"
proof -
  have "gs_risk (apply_risk_assessment a g) = a" by (simp add: apply_risk_assessment_def Let_def)
  then show ?thesis using assms
    by (auto simp: allocation_kill_switch_state_def evaluate_sel kill_guidance_cases state_words Let_def split: if_splits)
qed

lemma stop_states_blocked:
  assumes "dget hf ''kill_switch_blocked_states'' = default_blocked_states" "ac_kill_switch x \<in> {''soft_stop'', ''hard_stop''}"
  shows "kill_switch_blocked hf x = Inr True"
  using assms by (auto simp: kill_switch_blocked_def default_blocked_states_def py_iter_def state_words)

text \<open>C3: Whenever the risk manager recommends a kill switch or reduce-only and its assessment is in the gate, an active
  policy with the default blocked states selects no candidate, whatever the candidates score.\<close>

theorem risk_guidance_stops_allocation:
  assumes "rg_kill_switch (ra_state (fst (evaluate rm snap hm t1 t2 w))) \<noteq> None
      \<or> rg_reduce_only (ra_state (fst (evaluate rm snap hm t1 t2 w)))"
    and "\<not> is_pass_through p"
    and "\<And>sid. dget (resolve_hard_filters p (strategy_cfg p sid)) ''kill_switch_blocked_states'' = default_blocked_states"
    and "apply_allocation (Some p) now board_cfg kill_cfg
      (apply_risk_assessment (ra_state (fst (evaluate rm snap hm t1 t2 w))) g) positions regime cs = Inr sigs"
  shows "sigs = []"
proof -
  define g' where "g' = apply_risk_assessment (ra_state (fst (evaluate rm snap hm t1 t2 w))) g"
  have none: "ar_selected r = []"
    if "allocate p (allocation_context now board_cfg kill_cfg g' positions regime') ds = Inr r" for regime' ds r
  proof (rule ccontr)
    assume "ar_selected r \<noteq> []"
    then obtain c where "c \<in> set (ar_selected r)" by (cases "ar_selected r") auto
    from selected_passes [OF that assms(2) this] guidance_state [OF refl assms(1)] show False
      using stop_states_blocked [OF assms(3) [of "cn_strategy_id c"]]
      by (auto simp: passes_def Let_def allocation_context_def g'_def)
  qed
  from assms(4) obtain rs where
    rs: "map_res (\<lambda>(symb, group). allocate p (allocation_context now board_cfg kill_cfg g' positions (regime symb)) group)
           (sort_key fst (by_symbol registry_symbol cs)) = Inr rs"
    and sigs: "sigs = concat (map (map cn_signal \<circ> ar_selected) rs)"
    by (auto simp: apply_allocation_def g'_def elim!: bind_res_InrE)
  have "ar_selected r = []" if "r \<in> set rs" for r
    using list_all2_mem [OF rs [unfolded map_res_list_all2] that] none by auto
  then show ?thesis by (auto simp: sigs)
qed

lemma demo_stopped:
  assumes "ac_kill_switch x = ''soft_stop''"
  shows "\<exists>e. evaluate_candidate demo_policy x (demo_candidate i sid n) = Inr e \<and> \<not> ev_accepted e"
  using assms
  by (simp add: evaluate_candidate_def demo_policy_def strategy_cfg_def filter_defs state_words)

theorem risk_guidance_stops_allocation_witness:
  "\<exists>sigs. apply_allocation (Some demo_policy) demo_time PNone PNone (apply_risk_assessment (ra_state (fst
      (evaluate default_manager (default_snapshot\<lparr>rs_daily := Fin 4\<rparr>) None demo_time demo_time True))) gate_default)
      [] (\<lambda>_. None) [demo_candidate 0 ''a'' 2] = Inr sigs \<and> sigs = []"
proof -
  let ?a = "ra_state (fst (evaluate default_manager (default_snapshot\<lparr>rs_daily := Fin 4\<rparr>) None demo_time demo_time True))"
  have soft: "rg_kill_switch ?a = Some ''soft_stop''"
    by (simp add: evaluate_sel kill_guidance_cases default_manager_def default_snapshot_def ge_opt_def le_opt_def spread_word_def)
  define x where "x = allocation_context demo_time PNone PNone (apply_risk_assessment ?a gate_default) [] None"
  have "ac_kill_switch x = ''soft_stop''"
    by (simp add: x_def allocation_context_def allocation_kill_switch_state_def apply_risk_assessment_def Let_def soft state_words)
  then obtain e where e: "evaluate_candidate demo_policy x (demo_candidate 0 ''a'' 2) = Inr e" "\<not> ev_accepted e"
    using demo_stopped by blast
  have symb: "registry_symbol (demo_candidate 0 ''a'' 2) = ''USDJPY''"
    by (simp add: registry_symbol_def demo_candidate_def dget_def_def, code_simp)
  have "\<exists>sigs. apply_allocation (Some demo_policy) demo_time PNone PNone (apply_risk_assessment ?a gate_default)
      [] (\<lambda>_. None) [demo_candidate 0 ''a'' 2] = Inr sigs"
    using e by (simp add: apply_allocation_def by_symbol_def symb allocate_def x_def)
  moreover have "dget (resolve_hard_filters demo_policy (strategy_cfg demo_policy sid)) ''kill_switch_blocked_states''
      = default_blocked_states" for sid
    by (simp add: demo_policy_def strategy_cfg_def resolve_hard_filters_def resolve_section_def)
  ultimately show ?thesis
    using risk_guidance_stops_allocation [of default_manager "default_snapshot\<lparr>rs_daily := Fin 4\<rparr>" None demo_time demo_time True
        demo_policy] soft by fastforce
qed

section \<open>Where the ranking falls short\<close>

lemma nan_arith [simp]: "fadd NaN a = NaN" "fsub NaN a = NaN" "fmul NaN a = NaN" "fround n NaN = NaN"
  by (cases a; simp add: fsub_def)+

lemma match_penalty_nan: "match_penalty pf rk pk qs NaN = Inr s \<Longrightarrow> s = NaN"
  by (auto simp: match_penalty_def elim!: bind_res_InrE)

lemma compute_score_nan:
  assumes "candidate_score c = Inr NaN" "compute_score p cfg c x spread slippage = Inr score"
  shows "score = NaN"
proof -
  have w: "weighted_score p cfg c r spread slippage = Inr s \<Longrightarrow> s = NaN" for r s
    by (auto simp: weighted_score_def assms(1) Let_def elim!: bind_res_InrE)
  from assms(2) show ?thesis
    unfolding compute_score_def Let_def by (elim bind_res_InrE) (auto dest!: w match_penalty_nan split: if_splits)
qed

text \<open>A score is only ever set by the last stage of the evaluation.\<close>

lemma scored_by_evaluate_score:
  assumes "evaluate_candidate p x c = Inr e" "ev_score e = Some score"
  obtains cfg spread slippage e0 where "evaluate_score p cfg c x spread slippage e0 = Inr e" "ev_score e0 = None"
proof -
  obtain cfg hf e0 where "evaluate_costs p cfg hf c x e0 = Inr e" "ev_score e0 = None"
    using assms unfolding evaluate_candidate_def Let_def
    by (auto elim!: bind_res_InrE split: if_splits)
  then obtain spread slippage cost where
    "evaluate_score p cfg c x spread slippage (e0\<lparr>ev_estimated_cost := Some cost\<rparr>) = Inr e"
    using assms(2) unfolding evaluate_costs_def Let_def
    by (auto elim!: bind_res_InrE split: if_splits prod.splits)
  then show ?thesis by (rule that) (simp add: \<open>ev_score e0 = None\<close>)
qed

text \<open>A candidate whose trade has a NaN confidence (and no expected edge) is never below the minimum score: once it is
  scored it is accepted, with the score NaN.\<close>

theorem nan_confidence_accepted:
  assumes "cn_trade c = Some t" "ct_expected_edge t = None" "ct_confidence t = Some NaN"
    and "evaluate_candidate p x c = Inr e" "ev_score e = Some score"
  shows "score = NaN \<and> ev_accepted e"
proof -
  obtain cfg spread slippage e0 where e: "evaluate_score p cfg c x spread slippage e0 = Inr e" "ev_score e0 = None"
    using assms(4,5) by (rule scored_by_evaluate_score)
  then obtain s least where s: "compute_score p cfg c x spread slippage = Inr s"
    and "e = (if flt s least then reject ''score_below_min'' (e0\<lparr>ev_score := Some s\<rparr>)
              else e0\<lparr>ev_score := Some s, ev_accepted := True, ev_reason := ''candidate_ok''\<rparr>)"
    using assms(5) by (auto simp: evaluate_score_def elim!: bind_res_InrE split: option.splits)
  moreover have "s = NaN" using assms(1-3) s by (intro compute_score_nan [of c]) (simp_all add: candidate_score_def)
  ultimately show ?thesis using assms(5) by auto
qed

definition nan_trade :: candidate_trade where
  "nan_trade = \<lparr>ct_candidate_id = ''c1'', ct_strategy_id = ''a'', ct_symbol = ''USDJPY'', ct_side = ''long'',
     ct_timestamp = ''2025-03-14T09:30:00Z'', ct_entry = None, ct_stop = None, ct_target = None,
     ct_confidence = Some NaN, ct_holding_minutes = None, ct_portfolio_group = [], ct_exposure_bucket = [],
     ct_expected_edge = None, ct_estimated_cost = None, ct_quality_score = None, ct_regime_fit = None,
     ct_session_tag = None, ct_atr_value = None, ct_trend_value = None, ct_cost_ratio = None, ct_metadata = []\<rparr>"

definition strict_policy :: policy where
  "strict_policy = demo_policy\<lparr>pl_global := [(''require_strategy_config'', PBool False),
     (''score'', PDict [(''min_score'', PFloat (Fin (1 / 2)))])]\<rparr>"

theorem nan_confidence_accepted_witness:
  "\<exists>e. evaluate_candidate strict_policy demo_context ((demo_candidate 0 ''a'' 1)\<lparr>cn_trade := Some nan_trade\<rparr>) = Inr e
     \<and> ev_score e = Some NaN \<and> ev_accepted e"
proof -
  let ?c = "(demo_candidate 0 ''a'' 1)\<lparr>cn_trade := Some nan_trade\<rparr>"
  have "candidate_symbol ?c = ''USDJPY''" by (simp add: candidate_symbol_def nan_trade_def)
  then have "\<exists>e. evaluate_candidate strict_policy demo_context ?c = Inr e \<and> ev_score e = Some NaN"
    by (simp add: evaluate_candidate_def demo_policy_def strict_policy_def strategy_cfg_def demo_context_def filter_defs
        cost_defs score_defs state_words) (simp add: demo_candidate_def nan_trade_def cost_defs Let_def)
  then show ?thesis
    using nan_confidence_accepted [of ?c nan_trade strict_policy demo_context] by (auto simp: nan_trade_def)
qed

text \<open>The rule \<open>strategy_id_desc\<close> complements the characters of the name, which does not reverse the order of a name
  and its extension: like \<open>strategy_id_asc\<close> it puts the shorter name first.\<close>

theorem strategy_id_desc_prefix:
  assumes "pl_tie_break p = [PStr ''strategy_id_desc'']" "cn_strategy_id (ev_candidate f) = cn_strategy_id (ev_candidate e) @ c # s"
  shows "tie_break_sort_key p e < tie_break_sort_key p f"
proof -
  have "normalize_text (PStr ''strategy_id_desc'') = ''strategy_id_desc''" by code_simp
  then have "tie_break_sort_key p g = [KText (map (\<lambda>ch. char_of (255 - of_char ch :: nat)) (cn_strategy_id (ev_candidate g))),
      KText (cn_strategy_id (ev_candidate g))]" for g
    by (simp add: tie_break_sort_key_def tie_component_def assms(1) Let_def del: normalize_text_simps)
  moreover have "xs < xs @ y # ys" for xs ys :: string and y by (induction xs) auto
  ultimately show ?thesis by (simp add: assms(2))
qed

theorem strategy_id_desc_prefix_witness:
  "tie_break_sort_key (demo_policy\<lparr>pl_tie_break := [PStr ''strategy_id_desc'']\<rparr>) (demo_item 0 ''a'' 1)
     < tie_break_sort_key (demo_policy\<lparr>pl_tie_break := [PStr ''strategy_id_desc'']\<rparr>) (demo_item 1 ''ab'' 1)"
  by (rule strategy_id_desc_prefix [of _ _ _ "CHR ''b''" "[]"]) (simp_all add: demo_item_def demo_candidate_def)

end
