(* ===== verification/PyDate.thy ===== *)
theory PyDate
  imports PyTime
begin

text \<open>
  What several services do with timestamps: the text of an instant with \<open>Z\<close> for UTC and its reading
  back, the order of two instants (a naive and an aware one do not compare), days, and the count of
  weekdays between two days.
\<close>

section \<open>Text\<close>

text \<open>\<open>ts.isoformat().replace("+00:00", "Z")\<close>, and the helper \<open>_parse_ts\<close> that several modules have:
  anything but a non-empty text that parses gives None.\<close>

definition iso_text :: "pydt \<Rightarrow> string" where
  "iso_text d = str_replace ''+00:00'' ''Z'' (isoformat d)"

definition parse_stamp :: "pyval \<Rightarrow> pydt option" where
  "parse_stamp v = (case v of PStr s \<Rightarrow> if s = [] then None else fromisoformat (str_replace ''Z'' ''+00:00'' s) | _ \<Rightarrow> None)"

lemma iso_text_nonempty [simp]: "iso_text d \<noteq> []"
proof
  assume "iso_text d = []"
  then have "str_replace ''Z'' ''+00:00'' (iso_text d) = []" by (simp add: str_replace_Nil)
  then show False using isoformat_ends [of d] by (simp add: iso_text_def iso_Z_roundtrip)
qed

lemma parse_stamp_iso_text [simp]: "valid_dt d \<Longrightarrow> parse_stamp (PStr (iso_text d)) = Some d"
  by (simp add: parse_stamp_def) (simp add: iso_text_def iso_Z_roundtrip fromisoformat_isoformat)

lemma if_SomeD: "(if P x then Some x else None) = Some d \<Longrightarrow> P d"
  by (auto split: if_splits)

lemma fromisoformat_valid:
  assumes "fromisoformat s = Some d"
  shows "valid_dt d"
proof (cases "read_date s")
  case None
  with assms show ?thesis by (simp add: fromisoformat_def)
next
  case (Some p)
  obtain y m dd r where p: "p = (y, m, dd, r)" by (cases p)
  show ?thesis
  proof (cases r)
    case Nil
    with assms Some p show ?thesis by (simp add: fromisoformat_def Let_def) (erule if_SomeD)
  next
    case (Cons c r1)
    show ?thesis
    proof (cases "read_time r1")
      case None
      with assms Some p Cons show ?thesis by (simp add: fromisoformat_def)
    next
      case (Some q)
      obtain h n q' u z where "q = (h, n, q', u, z)" by (cases q)
      with assms \<open>read_date s = Some p\<close> p Cons Some show ?thesis
        by (simp add: fromisoformat_def Let_def) (erule if_SomeD)
    qed
  qed
qed

lemma parse_stamp_valid: "parse_stamp v = Some d \<Longrightarrow> valid_dt d"
  by (auto simp: parse_stamp_def fromisoformat_valid split: pyval.splits if_splits)

lemma parse_stamp_simps [simp]: "parse_stamp PNone = None" "parse_stamp (PStr []) = None"
  by (simp_all add: parse_stamp_def)

section \<open>Order\<close>

definition same_zone_kind :: "pydt \<Rightarrow> pydt \<Rightarrow> bool" where
  "same_zone_kind a b \<longleftrightarrow> (tzo a = None) = (tzo b = None)"

definition dt_less :: "pydt \<Rightarrow> pydt \<Rightarrow> bool res" where
  "dt_less a b = (if same_zone_kind a b then Inr (epoch_us a < epoch_us b) else Inl TypeError)"

definition dt_at_least :: "pydt \<Rightarrow> pydt \<Rightarrow> bool res" where
  "dt_at_least a b = (if same_zone_kind a b then Inr (epoch_us b \<le> epoch_us a) else Inl TypeError)"

text \<open>\<open>ts < now - delta\<close> for a span of microseconds (\<open>now - delta\<close> has the zone of \<open>now\<close>).\<close>

definition older_than :: "int \<Rightarrow> pydt \<Rightarrow> pydt \<Rightarrow> bool res" where
  "older_than lag now ts = (if same_zone_kind ts now then Inr (epoch_us ts < epoch_us now - lag) else Inl TypeError)"

text \<open>\<open>max\<close> of a non-empty list: the first of the greatest.\<close>

fun dt_max :: "pydt \<Rightarrow> pydt list \<Rightarrow> pydt res" where
  "dt_max m [] = Inr m"
| "dt_max m (d # ds) = bind_res (dt_less m d) (\<lambda>b. dt_max (if b then d else m) ds)"

lemma dt_max_result: "dt_max m ds = Inr d \<Longrightarrow> d \<in> set (m # ds) \<and> (\<forall>x \<in> set (m # ds). epoch_us x \<le> epoch_us d \<and> same_zone_kind x d)"
proof (induction ds arbitrary: m)
  case (Cons x ds)
  from Cons.prems have k: "same_zone_kind m x" and r: "dt_max (if epoch_us m < epoch_us x then x else m) ds = Inr d"
    by (auto simp: dt_less_def split: if_splits)
  from Cons.IH [OF r] k show ?case by (auto simp: same_zone_kind_def split: if_splits)
qed (simp add: same_zone_kind_def)

lemma dt_max_total: "(\<And>x. x \<in> set ds \<Longrightarrow> same_zone_kind m x) \<Longrightarrow> \<exists>d. dt_max m ds = Inr d"
proof (induction ds arbitrary: m)
  case (Cons x ds)
  have k: "same_zone_kind m x" using Cons.prems by simp
  then have "\<exists>d. dt_max (if epoch_us m < epoch_us x then x else m) ds = Inr d"
    by (intro Cons.IH) (use Cons.prems in \<open>auto simp: same_zone_kind_def\<close>)
  with k show ?case by (simp add: dt_less_def)
qed simp

section \<open>Days\<close>

definition day_number :: "pydt \<Rightarrow> int" where
  "day_number d = days_from_civil (yr d) (mo d) (dy d)"

definition last_day :: int where
  "last_day = days_from_civil 9999 12 31"

text \<open>The weekdays of the days from a cursor up to a day, counted as the loop
  \<open>while cursor <= end_date\<close> does; a step past the last day a date can have raises.\<close>

function count_weekdays :: "int \<Rightarrow> int \<Rightarrow> int \<Rightarrow> int res" where
  "count_weekdays cursor end_date n =
     (if cursor \<le> end_date then
        (let n' = (if weekday_of_days cursor < 5 then n + 1 else n)
         in if cursor = last_day then Inl OverflowError else count_weekdays (cursor + 1) end_date n')
      else Inr n)"
  by pat_completeness auto
termination
  by (relation "measure (\<lambda>(c, e, n). nat (e + 1 - c))") auto

declare count_weekdays.simps [simp del]

definition business_days_since :: "pydt option \<Rightarrow> pydt \<Rightarrow> int res" where
  "business_days_since start end_ts = (case start of None \<Rightarrow> Inr 0
     | Some s \<Rightarrow> if day_number end_ts \<le> day_number s then Inr 0
         else count_weekdays (day_number s + 1) (day_number end_ts) 0)"

text \<open>The weekdays up to and including a day, from five a week: day 0 is a Thursday.\<close>

definition weekdays_to :: "int \<Rightarrow> int" where
  "weekdays_to d = 5 * ((d + 3) div 7) + min 5 ((d + 3) mod 7 + 1)"

lemma weekdays_to_next: "weekdays_to (d + 1) = weekdays_to d + (if weekday_of_days (d + 1) < 5 then 1 else 0)"
proof -
  define a r where "a = (d + 3) div 7" and "r = (d + 3) mod 7"
  have d: "d + 3 = 7 * a + r" "0 \<le> r" "r < 7" by (simp_all add: a_def r_def)
  show ?thesis
  proof (cases "r = 6")
    case True
    then have "d + 1 + 3 = 7 * (a + 1)" using d by simp
    then have "(d + 1 + 3) div 7 = a + 1" "(d + 1 + 3) mod 7 = 0" by simp_all
    then show ?thesis using True by (simp add: weekdays_to_def weekday_of_days_def a_def [symmetric] r_def [symmetric])
  next
    case False
    then have n: "d + 1 + 3 = 7 * a + (r + 1)" "0 \<le> r + 1" "r + 1 < 7" using d by simp_all
    have "(d + 1 + 3) div 7 = a" "(d + 1 + 3) mod 7 = r + 1"
      using int_div_pos_eq [OF n] int_mod_pos_eq [OF n] by simp_all
    then show ?thesis using d by (simp add: weekdays_to_def weekday_of_days_def a_def [symmetric] r_def [symmetric])
  qed
qed

lemma count_weekdays_closed:
  "end_date < last_day \<Longrightarrow> cursor \<le> end_date + 1 \<Longrightarrow>
     count_weekdays cursor end_date n = Inr (n + weekdays_to end_date - weekdays_to (cursor - 1))"
proof (induction cursor end_date n rule: count_weekdays.induct)
  case (1 cursor end_date n)
  show ?case
  proof (cases "cursor \<le> end_date")
    case True
    with 1 have "count_weekdays (cursor + 1) end_date (if weekday_of_days cursor < 5 then n + 1 else n)
      = Inr ((if weekday_of_days cursor < 5 then n + 1 else n) + weekdays_to end_date - weekdays_to cursor)"
      by simp
    then show ?thesis using True 1 weekdays_to_next [of "cursor - 1"]
      by (subst count_weekdays.simps) (simp add: Let_def)
  next
    case False
    with 1 have "cursor - 1 = end_date" by simp
    with False show ?thesis by (subst count_weekdays.simps) simp
  qed
qed

lemma count_weekdays_nonneg: "count_weekdays cursor end_date n = Inr k \<Longrightarrow> n \<le> k"
proof (induction cursor end_date n rule: count_weekdays.induct)
  case (1 cursor end_date n)
  have unf: "count_weekdays cursor end_date n =
     (if cursor \<le> end_date then
        (let n' = (if weekday_of_days cursor < 5 then n + 1 else n)
         in if cursor = last_day then Inl OverflowError else count_weekdays (cursor + 1) end_date n')
      else Inr n)" by (rule count_weekdays.simps)
  show ?case
  proof (cases "cursor \<le> end_date \<and> cursor \<noteq> last_day")
    case True
    with 1 unf have "(if weekday_of_days cursor < 5 then n + 1 else n) \<le> k" by (simp add: Let_def)
    then show ?thesis by (simp split: if_splits)
  next
    case False
    with 1 unf show ?thesis by (simp add: Let_def split: if_splits)
  qed
qed

text \<open>The loop over the days returns for every pair of days before the last one a date can have, with the weekdays after
  the first up to the second: five for every seven days, and the rest of the last week.\<close>

theorem business_days_returns:
  assumes "day_number end_ts < last_day"
  shows "business_days_since (Some start) end_ts
    = Inr (if day_number end_ts \<le> day_number start then 0 else weekdays_to (day_number end_ts) - weekdays_to (day_number start))"
  using assms by (simp add: business_days_since_def count_weekdays_closed)

theorem business_days_returns_witness:
  "business_days_since (Some \<lparr>yr = 2025, mo = 3, dy = 14, hh = 9, mi = 0, ss = 0, us = 0, tzo = Some 0\<rparr>)
     \<lparr>yr = 2025, mo = 3, dy = 24, hh = 9, mi = 0, ss = 0, us = 0, tzo = Some 0\<rparr> = Inr 6"
  by (subst business_days_returns) (simp_all add: day_number_def last_day_def days_from_civil_def weekdays_to_def Let_def)

section \<open>Datetimes from days\<close>

text \<open>The instant on a datetime's own clock.\<close>

definition local_us :: "pydt \<Rightarrow> int" where
  "local_us d = epoch_us (d\<lparr>tzo := None\<rparr>)"

lemma local_us_epoch: "local_us d = epoch_us d + (case tzo d of None \<Rightarrow> 0 | Some z \<Rightarrow> z) * 1000000"
  by (simp add: local_us_def epoch_us_def algebra_simps)

text \<open>\<open>civil_from_days\<close> inverts \<open>days_from_civil\<close>: within an era of 400 years, the year of a day is found by
  comparing with the first days of the years, which are checked one by one.\<close>

definition era_n :: "int \<Rightarrow> int" where
  "era_n d = d - d div 1460 + d div 36524 - d div 146096"

definition year_start :: "int \<Rightarrow> int" where
  "year_start y = 365 * y + y div 4 - y div 100"

lemma div_step: "0 < k \<Longrightarrow> (d + 1) div k = d div k \<or> (d + 1) div k = d div k + (1 :: int)"
proof -
  assume k: "0 < k"
  have "d div k \<le> (d + 1) div k" by (rule zdiv_mono1) (use k in auto)
  moreover have "(d + 1) div k \<le> (d + k) div k" by (rule zdiv_mono1) (use k in auto)
  ultimately show ?thesis using k by auto
qed

lemma era_n_step: "era_n d \<le> era_n (d + 1)"
proof -
  have e: "x div 146096 = x div 36524 div (4 :: int)" for x using zdiv_zmult2_eq [of 4 x 36524] by simp
  define b where "b = d div 36524"
  define b' where "b' = (d + 1) div 36524"
  have "b' = b \<or> b' = b + 1" unfolding b_def b'_def by (rule div_step) simp
  moreover have "(b + 1) div 4 = b div 4 \<or> (b + 1) div 4 = b div 4 + 1" by (rule div_step) simp
  ultimately have "b - b div 4 \<le> b' - b' div 4" by auto
  moreover have "(d + 1) div 1460 = d div 1460 \<or> (d + 1) div 1460 = d div 1460 + 1" by (rule div_step) simp
  ultimately show ?thesis unfolding era_n_def e by (simp only: b_def [symmetric] b'_def [symmetric])
qed

lemma era_n_mono: "d \<le> d' \<Longrightarrow> era_n d \<le> era_n d'"
proof (induction "nat (d' - d)" arbitrary: d')
  case (Suc n)
  then have "era_n d \<le> era_n (d' - 1)" by (intro Suc.hyps(1)) auto
  with era_n_step [of "d' - 1"] show ?case by simp
qed simp

lemma era_years_check: "list_all (\<lambda>y. 365 * y \<le> era_n (year_start y) \<and> (y = 0 \<or> era_n (year_start y - 1) < 365 * y)) [0..399]"
  by code_simp

lemma era_years:
  assumes "0 \<le> y" "y < 400"
  shows "365 * y \<le> era_n (year_start y)" "y = 0 \<or> era_n (year_start y - 1) < 365 * y"
  using era_years_check assms by (auto simp: list_all_iff)

lemma year_start_step: "year_start (y + 1) \<le> year_start y + 366"
proof -
  have "(y + 1) div 4 \<le> y div 4 + 1" "y div 100 \<le> (y + 1) div 100" by linarith+
  then show ?thesis by (simp add: year_start_def)
qed

lemma yoe_doy:
  fixes d :: int
  assumes "0 \<le> d" "d < 146097"
  defines "y \<equiv> era_n d div 365"
  shows "0 \<le> y \<and> y < 400 \<and> year_start y \<le> d \<and> d \<le> year_start y + 365"
proof -
  have "era_n 0 \<le> era_n d" "era_n d \<le> era_n 146096" by (rule era_n_mono, use assms in simp)+
  then have n: "0 \<le> era_n d" "era_n d < 146000" by (simp_all add: era_n_def)
  then have y: "0 \<le> y" "y < 400" by (simp_all add: y_def)
  have e: "365 * y \<le> era_n d" "era_n d < 365 * y + 365" unfolding y_def by linarith+
  have lower: "year_start y \<le> d"
  proof (rule ccontr)
    assume "\<not> year_start y \<le> d"
    then have "era_n d \<le> era_n (year_start y - 1)" by (intro era_n_mono) simp
    with era_years(2) [OF y] e assms(1) \<open>\<not> _\<close> show False by (auto simp: year_start_def)
  qed
  have upper: "d \<le> year_start y + 365"
  proof (cases "y = 399")
    case True
    then show ?thesis using assms by (simp add: year_start_def)
  next
    case False
    show ?thesis
    proof (rule ccontr)
      assume "\<not> d \<le> year_start y + 365"
      then have "era_n (year_start (y + 1)) \<le> era_n d" using year_start_step [of y] by (intro era_n_mono) simp
      moreover have "365 * (y + 1) \<le> era_n (year_start (y + 1))" by (rule era_years) (use y False in auto)
      ultimately show False using e by simp
    qed
  qed
  from y lower upper show ?thesis by blast
qed

lemma days_civil_roundtrip:
  assumes "civil_from_days n = (y, m, d)" "1 \<le> y"
  shows "days_from_civil (nat y) (nat m) (nat d) = n" and "1 \<le> m" "m \<le> 12" "1 \<le> d" "d \<le> 31"
proof -
  define z where "z = n + 719468"
  define doe where "doe = z mod 146097"
  define era where "era = z div 146097"
  define yoe where "yoe = era_n doe div 365"
  define doy where "doy = doe - year_start yoe"
  define mp where "mp = (5 * doy + 2) div 153"
  have doe: "0 \<le> doe" "doe < 146097" by (simp_all add: doe_def)
  have yy: "0 \<le> yoe" "yoe < 400" "0 \<le> doy" "doy \<le> 365"
    using yoe_doy [OF doe] by (simp_all add: yoe_def doy_def)
  have mp: "0 \<le> mp" "mp \<le> 11" using yy by (simp_all add: mp_def)
  have dd: "0 \<le> doy - (153 * mp + 2) div 5" "doy - (153 * mp + 2) div 5 \<le> 30"
  proof -
    have m: "153 * mp \<le> 5 * doy + 2" "5 * doy + 2 < 153 * mp + 153" unfolding mp_def by linarith+
    define h where "h = (153 * mp + 2) div 5"
    have "5 * h \<le> 153 * mp + 2" "153 * mp + 2 < 5 * h + 5" unfolding h_def by linarith+
    with m show "0 \<le> doy - (153 * mp + 2) div 5" "doy - (153 * mp + 2) div 5 \<le> 30" unfolding h_def [symmetric] by linarith+
  qed
  define M where "M = (if mp < 10 then mp + 3 else mp - 9)"
  define D where "D = doy - (153 * mp + 2) div 5 + 1"
  have "civil_from_days n = (yoe + era * 400 + (if M \<le> 2 then 1 else 0), M, D)"
    by (simp only: civil_from_days_def Let_def z_def doe_def era_def yoe_def era_n_def doy_def year_start_def mp_def M_def D_def)
  then have c: "d = doy - (153 * mp + 2) div 5 + 1" "m = (if mp < 10 then mp + 3 else mp - 9)"
    "y = yoe + era * 400 + (if m \<le> 2 then 1 else 0)"
    using assms(1) by (simp_all only: prod.inject M_def D_def)
  show m: "1 \<le> m" "m \<le> 12" and d: "1 \<le> d" "d \<le> 31" using c mp dd by (auto split: if_splits)
  have n1: "int (nat y) - (if nat m \<le> 2 then 1 else 0) = yoe + era * 400"
    using c(3) assms(2) m by (auto simp: nat_le_iff)
  have n2: "(yoe + era * 400) div 400 = era" using yy by simp
  have n3: "(int (nat m) + 9) mod 12 = mp"
  proof (cases "mp < 10")
    case True
    then have "int (nat m) + 9 = mp + 12" using c(2) mp by simp
    then show ?thesis using True mp by (simp add: mod_add_self2)
  next
    case False
    then have "int (nat m) + 9 = mp" using c(2) mp by simp
    then show ?thesis using mp by simp
  qed
  have n4: "int (nat d) = doy - (153 * mp + 2) div 5 + 1" using c(1) d by simp
  have "days_from_civil (nat y) (nat m) (nat d) = era * 146097 + (yoe * 365 + yoe div 4 - yoe div 100 + doy) - 719468"
    unfolding days_from_civil_def Let_def n1 n2 n3 n4 by simp
  also have "yoe * 365 + yoe div 4 - yoe div 100 + doy = doe" by (simp add: doy_def year_start_def)
  also have "era * 146097 + doe = z" by (simp add: era_def doe_def)
  finally show "days_from_civil (nat y) (nat m) (nat d) = n" by (simp add: z_def)
qed


section \<open>Shifting a datetime\<close>

text \<open>The datetime of a local time, in microseconds since 1970-01-01 on its own clock; years 1 to 9999.\<close>

definition dt_of_local :: "int option \<Rightarrow> int \<Rightarrow> pydt res" where
  "dt_of_local z t = (let r = t mod 86400000000; (y, m, d) = civil_from_days (t div 86400000000)
     in if y < 1 \<or> 9999 < y then Inl OverflowError
        else Inr \<lparr>yr = nat y, mo = nat m, dy = nat d, hh = nat (r div 3600000000), mi = nat (r div 60000000 mod 60),
                  ss = nat (r div 1000000 mod 60), us = nat (r mod 1000000), tzo = z\<rparr>)"

text \<open>\<open>d + timedelta\<close>, and \<open>astimezone(timezone.utc)\<close> of an aware datetime with the naive ones taken as UTC.\<close>

definition dt_plus :: "int \<Rightarrow> pydt \<Rightarrow> pydt res" where
  "dt_plus k d = dt_of_local (tzo d) (local_us d + k)"

definition as_utc :: "pydt \<Rightarrow> pydt res" where
  "as_utc d = (case tzo d of None \<Rightarrow> Inr (d\<lparr>tzo := Some 0\<rparr>) | Some z \<Rightarrow> dt_of_local (Some 0) (epoch_us d))"

lemma time_of_day_sum:
  fixes r :: int
  assumes "0 \<le> r" "r < 86400000000"
  shows "int (nat (r div 3600000000) * 3600 + nat (r div 60000000 mod 60) * 60 + nat (r div 1000000 mod 60)) * 1000000 + int (nat (r mod 1000000)) = r"
proof -
  define s where "s = r div 1000000"
  have a: "r div 60000000 = s div 60" "r div 3600000000 = s div 60 div 60"
    using zdiv_zmult2_eq [of 60 r 1000000] zdiv_zmult2_eq [of 60 r 60000000] by (simp_all add: s_def)
  have "0 \<le> s" using assms by (simp add: s_def)
  define q where "q = s div 60"
  have q: "q * 60 + s mod 60 = s" "q div 60 * 60 + q mod 60 = q" by (simp_all only: q_def div_mult_mod_eq)
  from \<open>0 \<le> s\<close> have "0 \<le> q" "0 \<le> q div 60" by (simp_all add: q_def)
  then have "int (nat (r div 3600000000) * 3600 + nat (r div 60000000 mod 60) * 60 + nat (s mod 60)) = s"
    unfolding a q_def [symmetric] by simp (use q in linarith)
  moreover have "int (nat (r mod 1000000)) = r mod 1000000" by simp
  ultimately show ?thesis by (simp add: s_def [symmetric]) (simp add: s_def)
qed

lemma dt_of_local_result:
  assumes "dt_of_local z t = Inr d"
  shows "local_us d = t \<and> tzo d = z"
proof -
  obtain y m dd where c: "civil_from_days (t div 86400000000) = (y, m, dd)" by (cases "civil_from_days (t div 86400000000)")
  define r where "r = t mod 86400000000"
  have r: "0 \<le> r" "r < 86400000000" by (simp_all add: r_def)
  from assms c have y: "1 \<le> y" and d: "d = \<lparr>yr = nat y, mo = nat m, dy = nat dd, hh = nat (r div 3600000000), mi = nat (r div 60000000 mod 60),
      ss = nat (r div 1000000 mod 60), us = nat (r mod 1000000), tzo = z\<rparr>"
    by (simp_all add: dt_of_local_def Let_def r_def split: if_splits)
  have "local_us d = days_from_civil (nat y) (nat m) (nat dd) * 86400000000
      + (int (nat (r div 3600000000) * 3600 + nat (r div 60000000 mod 60) * 60 + nat (r div 1000000 mod 60)) * 1000000 + int (nat (r mod 1000000)))"
    by (simp add: d local_us_def epoch_us_def algebra_simps)
  also have "\<dots> = t div 86400000000 * 86400000000 + r"
    by (simp only: time_of_day_sum [OF r] days_civil_roundtrip(1) [OF c y])
  also have "\<dots> = t" by (simp add: r_def)
  finally show ?thesis by (simp add: d)
qed

lemma dt_plus_result:
  assumes "dt_plus k d = Inr d'"
  shows "epoch_us d' = epoch_us d + k" "tzo d' = tzo d"
  using dt_of_local_result [OF assms [unfolded dt_plus_def]] by (simp_all add: local_us_epoch split: option.splits)

lemma as_utc_result:
  assumes "as_utc d = Inr d'"
  shows "epoch_us d' = epoch_us d" "tzo d' = Some 0"
  using assms dt_of_local_result [of "Some 0" "epoch_us d" d'] local_us_epoch [of d']
  by (auto simp: as_utc_def epoch_us_def split: option.splits)

end
