(* ===== verification/EventBus.thy ===== *)
theory EventBus
  imports PyTime Systems "HOL-Library.List_Lexorder"
begin

text \<open>
  \<open>src/core/event_bus.py\<close>: the bounded queue with its backpressure policies, the JSON-lines log with
  rotation and retention, the state cache and file, and replay.

  The coroutines are cut at the points where they can be suspended: \<open>publish\<close> runs to its \<open>put\<close>, where it
  either puts the message or waits (\<open>eb_pending\<close>); a waiting publisher resumes when there is room; a
  subscription takes the head of the queue, delivers it or skips it. \<open>bus_step\<close> is the relation of these
  steps, in any order, labelled with what happens to the messages. \<open>env\<close> holds the clock readings of one
  call. A log file keeps its lines, its size in bytes and its modification time; years have four digits.

  Shown: the queue keeps its bound and every message published is accounted for, in every reachable
  state; under \<open>drop_oldest\<close> no publisher ever waits; a persisted event is replayed. And where the
  bus loses events: two subscriptions share one queue, and a second rotation overwrites an archive.
\<close>

section \<open>State\<close>

record bus_config =
  bc_max :: int
  bc_policy :: string
  bc_retention :: int
  bc_flush :: int

definition default_bus_config :: bus_config where
  "default_bus_config = \<lparr>bc_max = 512, bc_policy = ''block'', bc_retention = 7, bc_flush = 30\<rparr>"

text \<open>\<open>__post_init__\<close>.\<close>

definition new_bus_config :: "int \<Rightarrow> string \<Rightarrow> int \<Rightarrow> int \<Rightarrow> bus_config res" where
  "new_bus_config queue_maxsize rule retention_days flush_interval =
     (if queue_maxsize \<le> 0 \<or> retention_days \<le> 0 \<or> flush_interval \<le> 0 then Inl ValueError
      else Inr \<lparr>bc_max = queue_maxsize, bc_policy = rule, bc_retention = retention_days, bc_flush = flush_interval\<rparr>)"

record bus_message =
  bm_event :: pyval
  bm_type :: "string option"
  bm_context :: pydict

record pressure_sample =
  ps_type :: "string option"
  ps_depth :: nat
  ps_policy :: string
  ps_ts :: pydt
  ps_wait :: "pyfloat option"

record log_file =
  lf_lines :: json_lines
  lf_size :: nat
  lf_mtime :: pyfloat

record event_bus =
  eb_config :: bus_config
  eb_queue :: "bus_message list"
  eb_pending :: "bus_message list"
  eb_samples :: "pressure_sample list"
  eb_dropped :: nat
  eb_last_prune :: pyfloat
  eb_last_flush :: pyfloat
  eb_cache :: pydict
  eb_current :: "string option"
  eb_logs :: "(string \<times> log_file) list"
  eb_archive :: "(string \<times> log_file) list"
  eb_metrics :: "pyval list"
  eb_state_file :: json_file

definition new_event_bus :: "bus_config \<Rightarrow> (string \<times> log_file) list \<Rightarrow> (string \<times> log_file) list \<Rightarrow> json_file \<Rightarrow> event_bus" where
  "new_event_bus cfg logs archive state = \<lparr>eb_config = cfg, eb_queue = [], eb_pending = [], eb_samples = [],
     eb_dropped = 0, eb_last_prune = Fin 0, eb_last_flush = Fin 0, eb_cache = [], eb_current = None, eb_logs = logs,
     eb_archive = archive, eb_metrics = [], eb_state_file = state\<rparr>"

text \<open>The readings of one call: the clock for the pressure sample, the day of the log, the record and the
  waiting metric; the modification time the file system gives; the epoch for pruning and flushing; the
  milliseconds waited in \<open>put\<close>; whether the log could be written.\<close>

record bus_env =
  be_ts_pressure :: pydt
  be_ts_log :: pydt
  be_ts_record :: pydt
  be_ts_wait :: pydt
  be_mtime :: pyfloat
  be_epoch_prune :: pyfloat
  be_epoch_flush :: pyfloat
  be_wait_ms :: pyfloat
  be_write_ok :: bool

section \<open>Pressure and backpressure\<close>

definition emit_queue_metric :: "pressure_sample \<Rightarrow> event_bus \<Rightarrow> event_bus" where
  "emit_queue_metric s b = b\<lparr>eb_metrics := eb_metrics b @ [PDict ([(''event_type'', ostr (ps_type s)),
     (''queue_depth'', PInt (int (ps_depth s))), (''policy'', PStr (ps_policy s)), (''ts'', PStr (isoformat (ps_ts s)))]
     @ (case ps_wait s of None \<Rightarrow> [] | Some w \<Rightarrow> [(''queue_wait_ms'', PFloat w)]))]\<rparr>"

definition maybe_record_queue_pressure :: "bus_env \<Rightarrow> nat \<Rightarrow> string option \<Rightarrow> event_bus \<Rightarrow> event_bus" where
  "maybe_record_queue_pressure env depth etype b =
     (if flt (rnd (of_nat depth / of_int (bc_max (eb_config b)))) (rnd (8 / 10)) then b
      else let s = \<lparr>ps_type = etype, ps_depth = depth, ps_policy = bc_policy (eb_config b), ps_ts = be_ts_pressure env,
                    ps_wait = None\<rparr>
           in emit_queue_metric s (b\<lparr>eb_samples := eb_samples b @ [s]\<rparr>))"

text \<open>The second component is the message dropped.\<close>

definition apply_backpressure :: "nat \<Rightarrow> event_bus \<Rightarrow> event_bus \<times> bus_message option" where
  "apply_backpressure depth b =
     (if int depth < bc_max (eb_config b) then (b, None)
      else if bc_policy (eb_config b) = ''drop_oldest'' then
        (case eb_queue b of [] \<Rightarrow> (b, None)
         | m # q \<Rightarrow> (b\<lparr>eb_queue := q, eb_dropped := eb_dropped b + 1\<rparr>, Some m))
      else (b, None))"

section \<open>The log\<close>

definition date_token :: "pydt \<Rightarrow> string" where
  "date_token d = pad_str 4 (yr d) @ pad_str 2 (mo d) @ pad_str 2 (dy d)"

definition log_path :: "string option \<Rightarrow> string" where
  "log_path day = (case day of None \<Rightarrow> [] | Some t \<Rightarrow> ''logs/events/'' @ t @ ''.jsonl'')"

definition max_log_size :: nat where
  "max_log_size = 50 * 1024 * 1024"

text \<open>A full log is compressed to the archive under its day and removed.\<close>

definition rotate_if_needed :: "pyfloat \<Rightarrow> string \<Rightarrow> event_bus \<Rightarrow> event_bus" where
  "rotate_if_needed mtime day b = (case map_of (eb_logs b) day of None \<Rightarrow> b
     | Some f \<Rightarrow> if lf_size f < max_log_size then b
         else b\<lparr>eb_archive := AList.update day (f\<lparr>lf_mtime := mtime\<rparr>) (eb_archive b), eb_logs := AList.delete day (eb_logs b)\<rparr>)"

definition current_log :: "bus_env \<Rightarrow> event_bus \<Rightarrow> event_bus" where
  "current_log env b =
     (let day = date_token (be_ts_log env);
          b1 = (case eb_current b of Some old \<Rightarrow> if old \<noteq> day then rotate_if_needed (be_mtime env) old b else b | None \<Rightarrow> b)
      in b1\<lparr>eb_current := Some day\<rparr>)"

definition update_state_cache :: "string \<Rightarrow> string option \<Rightarrow> event_bus \<Rightarrow> event_bus" where
  "update_state_cache ts etype b =
     (let name = str_strip (case etype of None \<Rightarrow> [] | Some s \<Rightarrow> s);
          key = (if name = [] then ''unknown'' else name);
          c0 = eb_cache b;
          c1 = (case map_of c0 ''last_event'' of None \<Rightarrow> AList.update ''last_event'' (PDict []) c0 | Some _ \<Rightarrow> c0);
          c2 = (case dget c1 ''last_event'' of PDict d \<Rightarrow> AList.update ''last_event'' (PDict (AList.update key (PStr ts) d)) c1
                | _ \<Rightarrow> c1)
      in b\<lparr>eb_cache := AList.update ''last_log'' (PStr (log_path (eb_current b))) (AList.update ''last_ts'' (PStr ts) c2)\<rparr>)"

definition prune_retention :: "pyfloat \<Rightarrow> event_bus \<Rightarrow> event_bus" where
  "prune_retention now b =
     (if flt (fsub now (eb_last_prune b)) (Fin 3600) then b
      else let cutoff = fsub now (f_of_int (bc_retention (eb_config b) * 86400));
               keep = filter (\<lambda>(day, f). \<not> flt (lf_mtime f) cutoff)
           in b\<lparr>eb_logs := keep (eb_logs b), eb_archive := keep (eb_archive b), eb_last_prune := now\<rparr>)"

definition flush_state_if_needed :: "pyfloat \<Rightarrow> event_bus \<Rightarrow> event_bus" where
  "flush_state_if_needed now b =
     (if flt (fsub now (eb_last_flush b)) (f_of_int (bc_flush (eb_config b))) then b
      else b\<lparr>eb_state_file := Some (Some (PDict (eb_cache b))), eb_last_flush := now\<rparr>)"

text \<open>The record of a message: its text in the log has the JSON text of the record and a newline.\<close>

definition record_ts :: "bus_env \<Rightarrow> string" where
  "record_ts env = str_replace ''+00:00'' ''Z'' (isoformat (be_ts_record env))"

definition log_record :: "bus_env \<Rightarrow> bus_message \<Rightarrow> pydict" where
  "log_record env m = [(''ts'', PStr (record_ts env)), (''event_type'', ostr (bm_type m)), (''event'', bm_event m),
     (''context'', PDict (bm_context m))]"

definition append_line :: "pyfloat \<Rightarrow> pyval \<Rightarrow> log_file option \<Rightarrow> log_file" where
  "append_line mtime v f = (let n = length (json_text v) + 1 in case f of
       None \<Rightarrow> \<lparr>lf_lines = [Some v], lf_size = n, lf_mtime = mtime\<rparr>
     | Some g \<Rightarrow> \<lparr>lf_lines = lf_lines g @ [Some v], lf_size = lf_size g + n, lf_mtime = mtime\<rparr>)"

definition write_record :: "bus_env \<Rightarrow> string \<Rightarrow> pydict \<Rightarrow> event_bus \<Rightarrow> event_bus" where
  "write_record env day r b = (if be_write_ok env
     then b\<lparr>eb_logs := AList.update day (append_line (be_mtime env) (PDict r) (map_of (eb_logs b) day)) (eb_logs b)\<rparr> else b)"

definition append_log :: "bus_env \<Rightarrow> bus_message \<Rightarrow> event_bus \<Rightarrow> event_bus" where
  "append_log env m b0 =
     (let b1 = current_log env b0; day = date_token (be_ts_log env);
          b2 = write_record env day (log_record env m) b1;
          b3 = update_state_cache (record_ts env) (bm_type m) b2;
          b4 = rotate_if_needed (be_mtime env) day b3;
          b5 = prune_retention (be_epoch_prune env) b4
      in flush_state_if_needed (be_epoch_flush env) b5)"

section \<open>Publishing and subscribing\<close>

definition full :: "event_bus \<Rightarrow> bool" where
  "full b \<longleftrightarrow> bc_max (eb_config b) \<le> int (length (eb_queue b))"

text \<open>\<open>put\<close> with room, and the metric of a long wait.\<close>

definition put_message :: "bus_env \<Rightarrow> bus_message \<Rightarrow> event_bus \<Rightarrow> event_bus" where
  "put_message env m b =
     (let b1 = b\<lparr>eb_queue := eb_queue b @ [m]\<rparr>
      in if fge (be_wait_ms env) (Fin 100)
         then emit_queue_metric \<lparr>ps_type = bm_type m, ps_depth = length (eb_queue b1), ps_policy = bc_policy (eb_config b),
                ps_ts = be_ts_wait env, ps_wait = Some (be_wait_ms env)\<rparr> b1
         else b1)"

definition publish :: "bus_env \<Rightarrow> bool \<Rightarrow> bus_message \<Rightarrow> event_bus \<Rightarrow> event_bus \<times> bus_message option" where
  "publish env persist m b =
     (let depth = length (eb_queue b);
          b1 = maybe_record_queue_pressure env depth (bm_type m) b;
          (b2, dropped) = apply_backpressure depth b1;
          b3 = (if persist then append_log env m b2 else b2)
      in (if full b3 then b3\<lparr>eb_pending := eb_pending b3 @ [m]\<rparr> else put_message env m b3, dropped))"

text \<open>A waiting publisher, one of \<open>eb_pending\<close>, finds room.\<close>

definition resume_publish :: "bus_env \<Rightarrow> nat \<Rightarrow> event_bus \<Rightarrow> event_bus" where
  "resume_publish env i b =
     put_message env (eb_pending b ! i) (b\<lparr>eb_pending := take i (eb_pending b) @ drop (Suc i) (eb_pending b)\<rparr>)"

text \<open>What a subscription to \<open>etype\<close> does with a message it has taken.\<close>

definition delivers :: "string \<Rightarrow> (pyval \<Rightarrow> bool) \<Rightarrow> bus_message \<Rightarrow> bool" where
  "delivers etype filter_fn m \<longleftrightarrow> bm_type m = Some etype \<and> filter_fn (bm_event m)"

datatype bus_label =
    Published bus_message "bus_message option"
  | Resumed bus_message
  | Taken string bus_message bool

inductive bus_step :: "event_bus \<Rightarrow> bus_label \<Rightarrow> event_bus \<Rightarrow> bool" where
  step_publish: "publish env persist m b = (b', dropped) \<Longrightarrow> bus_step b (Published m dropped) b'"
| step_resume: "i < length (eb_pending b) \<Longrightarrow> \<not> full b \<Longrightarrow>
     bus_step b (Resumed (eb_pending b ! i)) (resume_publish env i b)"
| step_take: "eb_queue b = m # q \<Longrightarrow>
     bus_step b (Taken etype m (delivers etype filter_fn m)) (b\<lparr>eb_queue := q\<rparr>)"

inductive bus_run :: "event_bus \<Rightarrow> bus_label list \<Rightarrow> event_bus \<Rightarrow> bool" where
  run_start: "bus_run b [] b"
| run_step: "bus_run b ls b' \<Longrightarrow> bus_step b' l b'' \<Longrightarrow> bus_run b (ls @ [l]) b''"

inductive_cases bus_stepE: "bus_step b l b'"

section \<open>Replay\<close>

definition ts_of_text :: "string \<Rightarrow> int option" where
  "ts_of_text s = map_option epoch_us (fromisoformat (str_replace ''Z'' ''+00:00'' s))"

definition type_wanted :: "string list option \<Rightarrow> pydict \<Rightarrow> bool" where
  "type_wanted types r = (case types of None \<Rightarrow> True
     | Some ts \<Rightarrow> ts = [] \<or> str_lower (py_str (dget_def r ''event_type'' (PStr []))) \<in> set ts
         \<or> str_lower (py_str (dget_def (mapping_or_empty (dget r ''event'')) ''event'' (PStr []))) \<in> set ts)"

definition replay_wanted :: "int \<Rightarrow> int \<Rightarrow> string list option \<Rightarrow> pydict \<Rightarrow> bool" where
  "replay_wanted from_us to_us types r = (case ts_of_text (py_str (dget r ''ts'')) of None \<Rightarrow> False
     | Some t \<Rightarrow> from_us \<le> t \<and> t \<le> to_us \<and> type_wanted types r)"

fun replay_lines :: "int \<Rightarrow> int \<Rightarrow> string list option \<Rightarrow> json_lines \<Rightarrow> pydict list res" where
  "replay_lines from_us to_us types [] = Inr []"
| "replay_lines from_us to_us types (line # rest) = (case line of
       None \<Rightarrow> replay_lines from_us to_us types rest
     | Some (PDict r) \<Rightarrow> bind_res (replay_lines from_us to_us types rest) (\<lambda>rs.
         Inr (if replay_wanted from_us to_us types r then r # rs else rs))
     | Some _ \<Rightarrow> Inl AttributeError)"

definition log_lines :: "event_bus \<Rightarrow> json_lines" where
  "log_lines b = concat (map (lf_lines \<circ> snd) (sort_key fst (eb_logs b)))
     @ concat (map (lf_lines \<circ> snd) (sort_key fst (eb_archive b)))"

definition replay :: "int \<Rightarrow> pydt option \<Rightarrow> pydt \<Rightarrow> string list option \<Rightarrow> event_bus \<Rightarrow> pydict list res" where
  "replay from_us to_ts clock types b =
     replay_lines from_us (epoch_us (case to_ts of None \<Rightarrow> clock | Some t \<Rightarrow> t)) (map_option (map str_lower) types) (log_lines b)"

definition replay_since_ts :: "string \<Rightarrow> pydt \<Rightarrow> event_bus \<Rightarrow> int" where
  "replay_since_ts etype now b =
     (let cached = mapping_or_empty (dget (eb_cache b) ''last_event'');
          v = py_or (dget cached etype) (dget cached (str_upper etype));
          fallback = epoch_us now - bc_retention (eb_config b) * 86400 * 1000000
      in if truthy v then (case ts_of_text (py_str v) of Some t \<Rightarrow> t | None \<Rightarrow> fallback) else fallback)"

definition latest_event_snapshot :: "string \<Rightarrow> int \<Rightarrow> pydt \<Rightarrow> event_bus \<Rightarrow> pydict option res" where
  "latest_event_snapshot etype since_us clock b = bind_res (replay since_us None clock (Some [etype]) b) (\<lambda>rs.
     Inr (if rs = [] then None else Some (last rs)))"

text \<open>The payloads a new subscription gets from the log before it goes live.\<close>

definition replay_backlog :: "string \<Rightarrow> string \<Rightarrow> (pyval \<Rightarrow> bool) \<Rightarrow> pydt \<Rightarrow> pydt \<Rightarrow> event_bus \<Rightarrow> pyval list res" where
  "replay_backlog etype backlog_mode filter_fn now clock b =
     (let key = str_lower etype; since = replay_since_ts key now b
      in if backlog_mode = ''snapshot'' then
           bind_res (latest_event_snapshot key since clock b) (\<lambda>s. Inr (case s of None \<Rightarrow> []
             | Some r \<Rightarrow> filter filter_fn [dget r ''event'']))
         else if backlog_mode = ''catchup'' then
           bind_res (replay since None clock (Some [key]) b) (\<lambda>rs. Inr (filter filter_fn (map (\<lambda>r. dget r ''event'') rs)))
         else Inr [])"

text \<open>\<open>recover\<close>: an absent or unreadable state file changes nothing.\<close>

definition recover :: "json_file \<Rightarrow> event_bus \<Rightarrow> event_bus res" where
  "recover f b = (case f of Some (Some v) \<Rightarrow> bind_res (py_dict v) (\<lambda>d. Inr (b\<lparr>eb_cache := d\<rparr>)) | _ \<Rightarrow> Inr b)"

section \<open>Frames\<close>

lemma pressure_frame [simp]:
  "eb_queue (maybe_record_queue_pressure env n t b) = eb_queue b"
  "eb_pending (maybe_record_queue_pressure env n t b) = eb_pending b"
  "eb_config (maybe_record_queue_pressure env n t b) = eb_config b"
  by (simp_all add: maybe_record_queue_pressure_def emit_queue_metric_def Let_def)

text \<open>The log's bookkeeping leaves the queue side alone.\<close>

definition same_queue :: "event_bus \<Rightarrow> event_bus \<Rightarrow> bool" where
  "same_queue b c \<longleftrightarrow> eb_queue c = eb_queue b \<and> eb_pending c = eb_pending b \<and> eb_config c = eb_config b"

lemma same_queue_ops [simp]:
  "same_queue b (rotate_if_needed t day b)" "same_queue b (write_record env day r b)"
  "same_queue b (update_state_cache ts et b)" "same_queue b (prune_retention t b)" "same_queue b (flush_state_if_needed t b)"
  by (simp_all add: same_queue_def rotate_if_needed_def write_record_def update_state_cache_def prune_retention_def
      flush_state_if_needed_def Let_def split: option.split)

lemma same_queue_current [simp]: "same_queue b (current_log env b)"
  using same_queue_ops(1) [of b] by (simp add: current_log_def same_queue_def Let_def split: option.split)

lemma same_queue_trans: "same_queue a b \<Longrightarrow> same_queue b c \<Longrightarrow> same_queue a c"
  by (simp add: same_queue_def)

lemma append_log_frame [simp]:
  "eb_queue (append_log env m b) = eb_queue b" "eb_pending (append_log env m b) = eb_pending b"
  "eb_config (append_log env m b) = eb_config b"
proof -
  have "same_queue b (append_log env m b)"
    unfolding append_log_def Let_def by (meson same_queue_trans same_queue_ops same_queue_current)
  then show "eb_queue (append_log env m b) = eb_queue b" "eb_pending (append_log env m b) = eb_pending b"
    "eb_config (append_log env m b) = eb_config b"
    by (simp_all add: same_queue_def)
qed

lemma put_message_frame [simp]:
  "eb_queue (put_message env m b) = eb_queue b @ [m]" "eb_pending (put_message env m b) = eb_pending b"
  "eb_config (put_message env m b) = eb_config b" "eb_logs (put_message env m b) = eb_logs b"
  "eb_archive (put_message env m b) = eb_archive b"
  by (simp_all add: put_message_def emit_queue_metric_def Let_def)

text \<open>The queue, the waiting publishers and the dropped message after a publication.\<close>

lemma publish_result:
  assumes "publish env persist m b = (b', dropped)"
  shows "eb_config b' = eb_config b \<and>
    (if \<not> full b then dropped = None \<and> eb_queue b' = eb_queue b @ [m] \<and> eb_pending b' = eb_pending b
     else if bc_policy (eb_config b) = ''drop_oldest'' \<and> eb_queue b \<noteq> [] then
       dropped = Some (hd (eb_queue b)) \<and>
       (if int (length (eb_queue b)) \<le> bc_max (eb_config b)
        then eb_queue b' = tl (eb_queue b) @ [m] \<and> eb_pending b' = eb_pending b
        else eb_queue b' = tl (eb_queue b) \<and> eb_pending b' = eb_pending b @ [m])
     else dropped = None \<and> eb_queue b' = eb_queue b \<and> eb_pending b' = eb_pending b @ [m])"
  using assms
  by (cases "eb_queue b") (auto simp: publish_def apply_backpressure_def full_def Let_def split: if_splits prod.splits)

lemma resume_publish_result:
  "eb_queue (resume_publish env i b) = eb_queue b @ [eb_pending b ! i]"
  "eb_pending (resume_publish env i b) = take i (eb_pending b) @ drop (Suc i) (eb_pending b)"
  "eb_config (resume_publish env i b) = eb_config b"
  by (simp_all add: resume_publish_def)

section \<open>The queue in every reachable state\<close>

text \<open>The messages that come in and go out with a step.\<close>

fun came_in :: "bus_label \<Rightarrow> bus_message multiset" where
  "came_in (Published m d) = {#m#}"
| "came_in l = {#}"

fun went_out :: "bus_label \<Rightarrow> bus_message multiset" where
  "went_out (Published m (Some d)) = {#d#}"
| "went_out (Published m None) = {#}"
| "went_out (Resumed m) = {#}"
| "went_out (Taken t m ok) = {#m#}"

definition bus_ok :: "event_bus \<Rightarrow> bool" where
  "bus_ok b \<longleftrightarrow> 0 < bc_max (eb_config b) \<and> int (length (eb_queue b)) \<le> bc_max (eb_config b)
     \<and> (bc_policy (eb_config b) = ''drop_oldest'' \<longrightarrow> eb_pending b = [])"

lemma bus_step_config: "bus_step b l b' \<Longrightarrow> eb_config b' = eb_config b"
  by (auto elim!: bus_stepE dest: publish_result simp: resume_publish_result)

lemma bus_step_ok:
  assumes "bus_step b l b'" "bus_ok b"
  shows "bus_ok b'"
  using assms(1)
proof cases
  case (step_publish env persist m dropped)
  have q: "full b \<Longrightarrow> eb_queue b \<noteq> []" using assms(2) by (auto simp: bus_ok_def full_def)
  show ?thesis
    using publish_result [OF step_publish(2)] assms(2) q
    by (auto simp: bus_ok_def full_def split: if_splits)
next
  case (step_resume i env)
  then show ?thesis using assms(2) by (auto simp: bus_ok_def full_def resume_publish_result)
next
  case step_take
  then show ?thesis using assms(2) by (auto simp: bus_ok_def)
qed

lemma mset_remove_nth: "i < length xs \<Longrightarrow> add_mset (xs ! i) (mset (take i xs @ drop (Suc i) xs)) = mset xs"
  by (metis id_take_nth_drop mset.simps(2) mset_append union_mset_add_mset_right)

lemma bus_step_accounts:
  assumes "bus_step b l b'"
  shows "mset (eb_queue b') + mset (eb_pending b') + went_out l = mset (eb_queue b) + mset (eb_pending b) + came_in l"
  using assms
proof cases
  case (step_publish env persist m dropped)
  then show ?thesis
    using publish_result [OF step_publish(2)] by (cases "eb_queue b") (auto split: if_splits)
next
  case (step_resume i env)
  then show ?thesis using mset_remove_nth [of i "eb_pending b"] by (simp add: resume_publish_result)
next
  case step_take
  then show ?thesis by simp
qed

lemma bus_run_ok: "bus_run b ls b' \<Longrightarrow> bus_ok b \<Longrightarrow> bus_ok b' \<and> eb_config b' = eb_config b"
  by (induction rule: bus_run.induct) (auto simp: bus_step_config bus_step_ok)

lemma bus_run_accounts:
  assumes "bus_run b ls b'"
  shows "mset (eb_queue b') + mset (eb_pending b') + sum_list (map went_out ls)
    = mset (eb_queue b) + mset (eb_pending b) + sum_list (map came_in ls)"
  using assms
proof (induction rule: bus_run.induct)
  case (run_step b ls b' l b'')
  have "mset (eb_queue b'') + mset (eb_pending b'') + (sum_list (map went_out ls) + went_out l)
      = (mset (eb_queue b'') + mset (eb_pending b'') + went_out l) + sum_list (map went_out ls)"
    by (simp only: ac_simps)
  also have "\<dots> = (mset (eb_queue b') + mset (eb_pending b') + sum_list (map went_out ls)) + came_in l"
    unfolding bus_step_accounts [OF run_step.hyps(2)] by (simp only: ac_simps)
  finally show ?case unfolding run_step.IH by (simp add: ac_simps)
qed simp

lemma new_event_bus_ok: "0 < bc_max cfg \<Longrightarrow> bus_ok (new_event_bus cfg logs archive state)"
  by (simp add: bus_ok_def new_event_bus_def)

text \<open>In every reachable state the queue holds at most \<open>queue_maxsize\<close> messages, however many publishers and
  subscriptions interleave.\<close>

theorem queue_bounded:
  assumes "new_bus_config n rule days flush = Inr cfg" "bus_run (new_event_bus cfg logs archive state) ls b"
  shows "int (length (eb_queue b)) \<le> n"
proof -
  have "0 < bc_max cfg \<and> bc_max cfg = n" using assms(1) by (auto simp: new_bus_config_def split: if_splits)
  with bus_run_ok [OF assms(2) new_event_bus_ok] show ?thesis by (auto simp: bus_ok_def new_event_bus_def)
qed

text \<open>C6: Every message published is, in every reachable state, in exactly one place: in the queue, with a waiting
  publisher, taken by a subscription or dropped.\<close>

theorem messages_accounted:
  assumes "bus_run (new_event_bus cfg logs archive state) ls b"
  shows "sum_list (map came_in ls) = mset (eb_queue b) + mset (eb_pending b) + sum_list (map went_out ls)"
  using bus_run_accounts [OF assms] by (simp add: new_event_bus_def)

text \<open>Under \<open>drop_oldest\<close> a publisher never waits: whatever happened before, publishing puts the message at once.\<close>

theorem drop_oldest_never_waits:
  assumes "new_bus_config n ''drop_oldest'' days flush = Inr cfg" "bus_run (new_event_bus cfg logs archive state) ls b"
    and "publish env persist m b = (b', dropped)"
  shows "eb_pending b' = [] \<and> eb_queue b' \<noteq> [] \<and> last (eb_queue b') = m"
proof -
  have c: "0 < bc_max cfg" "bc_policy cfg = ''drop_oldest''"
    using assms(1) by (auto simp: new_bus_config_def split: if_splits)
  with bus_run_ok [OF assms(2) new_event_bus_ok] have b: "bus_ok b" "bc_policy (eb_config b) = ''drop_oldest''"
    by (simp_all add: new_event_bus_def)
  then have "eb_pending b = []" "full b \<longrightarrow> eb_queue b \<noteq> []" "int (length (eb_queue b)) \<le> bc_max (eb_config b)"
    by (auto simp: bus_ok_def full_def)
  with publish_result [OF assms(3)] b(2) show ?thesis by (auto split: if_splits)
qed

section \<open>Replay of what was persisted\<close>

lemma ts_of_record_ts: "valid_dt (be_ts_record env) \<Longrightarrow> ts_of_text (record_ts env) = Some (epoch_us (be_ts_record env))"
  by (simp add: ts_of_text_def record_ts_def iso_Z_roundtrip fromisoformat_isoformat)

lemma replay_lines_mem:
  "replay_lines f t types ls = Inr rs \<Longrightarrow> Some (PDict r) \<in> set ls \<Longrightarrow> replay_wanted f t types r \<Longrightarrow> r \<in> set rs"
  by (induction ls arbitrary: rs) (auto split: option.splits pyval.splits if_splits elim!: bind_res_InrE)

lemma mem_update: "(k, v) \<in> set (AList.update k v d)"
  by (induction d) auto

text \<open>Whether a line is in the log or the archive, in a file that pruning keeps.\<close>

definition holds_line :: "pyval \<Rightarrow> pyfloat \<Rightarrow> event_bus \<Rightarrow> bool" where
  "holds_line v mtime b \<longleftrightarrow> (\<exists>day f. ((day, f) \<in> set (eb_logs b) \<or> (day, f) \<in> set (eb_archive b))
     \<and> lf_mtime f = mtime \<and> Some v \<in> set (lf_lines f))"

lemma holds_line_log: "holds_line v mtime b \<Longrightarrow> Some v \<in> set (log_lines b)"
  by (force simp: holds_line_def log_lines_def)

lemma append_log_holds:
  assumes "be_write_ok env"
    and "\<not> flt (be_mtime env) (fsub (be_epoch_prune env) (f_of_int (bc_retention (eb_config b) * 86400)))"
  shows "holds_line (PDict (log_record env m)) (be_mtime env) (append_log env m b)"
proof -
  define day where "day = date_token (be_ts_log env)"
  define b2 where "b2 = write_record env day (log_record env m) (current_log env b)"
  define b3 where "b3 = update_state_cache (record_ts env) (bm_type m) b2"
  define b4 where "b4 = rotate_if_needed (be_mtime env) day b3"
  obtain f where f: "map_of (eb_logs b2) day = Some f" "(day, f) \<in> set (eb_logs b2)" "lf_mtime f = be_mtime env"
    "Some (PDict (log_record env m)) \<in> set (lf_lines f)"
    using assms(1)
    by (auto simp: b2_def write_record_def mem_update append_line_def Let_def split: option.split)
  have b3: "eb_logs b3 = eb_logs b2" "eb_archive b3 = eb_archive b2"
    by (simp_all add: b3_def update_state_cache_def Let_def)
  have h4: "holds_line (PDict (log_record env m)) (be_mtime env) b4"
  proof (cases "lf_size f < max_log_size")
    case True
    with f show ?thesis by (auto simp: b4_def rotate_if_needed_def b3 holds_line_def)
  next
    case False
    then have "b4 = b3\<lparr>eb_archive := AList.update day (f\<lparr>lf_mtime := be_mtime env\<rparr>) (eb_archive b3),
        eb_logs := AList.delete day (eb_logs b3)\<rparr>"
      by (simp add: b4_def rotate_if_needed_def b3 f(1))
    with f mem_update [of day "f\<lparr>lf_mtime := be_mtime env\<rparr>" "eb_archive b3"] show ?thesis
      unfolding holds_line_def by (intro exI [of _ day] exI [of _ "f\<lparr>lf_mtime := be_mtime env\<rparr>"]) simp
  qed
  have "eb_config b4 = eb_config b"
    using same_queue_ops(1) [of b3 "be_mtime env" day] same_queue_ops(2) [of "current_log env b" env day "log_record env m"]
      same_queue_ops(3) [of b2 "record_ts env" "bm_type m"] same_queue_current [of b env]
    by (simp add: same_queue_def b4_def b3_def b2_def)
  with assms(2) h4 have "holds_line (PDict (log_record env m)) (be_mtime env) (prune_retention (be_epoch_prune env) b4)"
    by (force simp: prune_retention_def holds_line_def Let_def)
  then have "holds_line (PDict (log_record env m)) (be_mtime env)
      (flush_state_if_needed (be_epoch_flush env) (prune_retention (be_epoch_prune env) b4))"
    by (simp add: flush_state_if_needed_def holds_line_def)
  then show ?thesis by (simp add: append_log_def Let_def b4_def b3_def b2_def day_def)
qed

lemma publish_log:
  "set (log_lines (fst (publish env True m b))) = set (log_lines (append_log env m
     (fst (apply_backpressure (length (eb_queue b)) (maybe_record_queue_pressure env (length (eb_queue b)) (bm_type m) b)))))"
  by (simp add: publish_def Let_def log_lines_def split: prod.split)

lemma apply_backpressure_config [simp]: "eb_config (fst (apply_backpressure n b)) = eb_config b"
  by (simp add: apply_backpressure_def split: list.split)

text \<open>C18: An event published with persistence is among the records replayed over a period that contains it, whether the
  publication had to wait or not and whether its log was rotated or not.\<close>

theorem persisted_event_replayed:
  assumes "be_write_ok env" "valid_dt (be_ts_record env)"
    and "\<not> flt (be_mtime env) (fsub (be_epoch_prune env) (f_of_int (bc_retention (eb_config b) * 86400)))"
    and "from_us \<le> epoch_us (be_ts_record env)" "epoch_us (be_ts_record env) \<le> epoch_us to_ts"
    and "replay from_us (Some to_ts) clock None (fst (publish env True m b)) = Inr rs"
  shows "log_record env m \<in> set rs"
proof -
  let ?b = "fst (apply_backpressure (length (eb_queue b)) (maybe_record_queue_pressure env (length (eb_queue b)) (bm_type m) b))"
  have "Some (PDict (log_record env m)) \<in> set (log_lines (fst (publish env True m b)))"
    unfolding publish_log using assms(1,3) by (intro holds_line_log [OF append_log_holds]) simp_all
  moreover have "replay_wanted from_us (epoch_us to_ts) None (log_record env m)"
    using assms(2,4,5) by (simp add: replay_wanted_def log_record_def ts_of_record_ts type_wanted_def)
  ultimately show ?thesis
    using assms(6) unfolding replay_def by (auto intro: replay_lines_mem)
qed

section \<open>The log is well typed\<close>

text \<open>Every line of the log and the archive is a dictionary.\<close>

definition log_typed :: "event_bus \<Rightarrow> bool" where
  "log_typed b \<longleftrightarrow> (\<forall>d f. (d, f) \<in> set (eb_logs b) \<or> (d, f) \<in> set (eb_archive b) \<longrightarrow>
     (\<forall>l \<in> set (lf_lines f). \<exists>r. l = Some (PDict r)))"

lemma set_update_sub: "set (AList.update k v d) \<subseteq> insert (k, v) (set d)"
  by (induction d) auto

lemma set_delete_sub: "set (AList.delete k d) \<subseteq> set d"
  by (induction d) auto

lemma map_of_set: "map_of d k = Some v \<Longrightarrow> (k, v) \<in> set d"
  by (rule map_of_SomeD)

definition lines_typed :: "log_file \<Rightarrow> bool" where
  "lines_typed f \<longleftrightarrow> (\<forall>l \<in> set (lf_lines f). \<exists>r. l = Some (PDict r))"

lemma log_typed_alt: "log_typed b \<longleftrightarrow> (\<forall>d f. (d, f) \<in> set (eb_logs b) \<or> (d, f) \<in> set (eb_archive b) \<longrightarrow> lines_typed f)"
  by (simp add: log_typed_def lines_typed_def)

lemma log_typed_rotate:
  assumes "log_typed b"
  shows "log_typed (rotate_if_needed t day b)"
proof (cases "map_of (eb_logs b) day")
  case None
  with assms show ?thesis by (simp add: rotate_if_needed_def)
next
  case (Some f)
  then have "lines_typed f" using assms by (auto simp: log_typed_alt dest: map_of_set)
  then have f: "lines_typed (f\<lparr>lf_mtime := t\<rparr>)" by (simp add: lines_typed_def)
  have "lines_typed g" if "(d, g) \<in> set (AList.update day (f\<lparr>lf_mtime := t\<rparr>) (eb_archive b))" for d g
    using that set_update_sub f assms unfolding log_typed_alt by fast
  moreover have "lines_typed g" if "(d, g) \<in> set (AList.delete day (eb_logs b))" for d g
    using that set_delete_sub assms unfolding log_typed_alt by fast
  ultimately show ?thesis using assms Some by (auto simp: rotate_if_needed_def log_typed_alt)
qed

lemma log_typed_write:
  assumes "log_typed b"
  shows "log_typed (write_record env day r b)"
proof -
  define f where "f = append_line (be_mtime env) (PDict r) (map_of (eb_logs b) day)"
  have f: "lines_typed f"
  proof (cases "map_of (eb_logs b) day")
    case None
    then show ?thesis by (simp add: f_def append_line_def lines_typed_def Let_def)
  next
    case (Some g)
    then have "lines_typed g" using assms by (auto simp: log_typed_alt dest: map_of_set)
    with Some show ?thesis by (auto simp: f_def append_line_def lines_typed_def Let_def)
  qed
  have "lines_typed g" if "(d, g) \<in> set (AList.update day f (eb_logs b))" for d g
    using that set_update_sub f assms unfolding log_typed_alt by fast
  with assms show ?thesis by (auto simp: log_typed_alt write_record_def f_def)
qed

lemma log_typed_rest:
  "log_typed b \<Longrightarrow> log_typed (update_state_cache ts et b)"
  "log_typed b \<Longrightarrow> log_typed (prune_retention t b)"
  "log_typed b \<Longrightarrow> log_typed (flush_state_if_needed t b)"
  "log_typed b \<Longrightarrow> log_typed (put_message env m b)"
  "log_typed b \<Longrightarrow> log_typed (maybe_record_queue_pressure env n et b)"
  by (auto simp: log_typed_def update_state_cache_def prune_retention_def flush_state_if_needed_def put_message_def
      maybe_record_queue_pressure_def emit_queue_metric_def Let_def)

lemma log_typed_current: "log_typed b \<Longrightarrow> log_typed (current_log env b)"
proof -
  assume b: "log_typed b"
  define b1 where "b1 = (case eb_current b of Some old \<Rightarrow>
      if old \<noteq> date_token (be_ts_log env) then rotate_if_needed (be_mtime env) old b else b | None \<Rightarrow> b)"
  have "log_typed b1" using b log_typed_rotate by (simp add: b1_def split: option.split)
  then have "log_typed (b1\<lparr>eb_current := Some (date_token (be_ts_log env))\<rparr>)" by (simp add: log_typed_def)
  then show ?thesis by (simp add: current_log_def b1_def Let_def)
qed

lemma log_typed_append: "log_typed b \<Longrightarrow> log_typed (append_log env m b)"
  unfolding append_log_def Let_def
  by (intro log_typed_rest log_typed_rotate log_typed_write log_typed_current)

lemma log_typed_publish: "log_typed b \<Longrightarrow> log_typed (fst (publish env persist m b))"
proof -
  assume b: "log_typed b"
  define b1 where "b1 = maybe_record_queue_pressure env (length (eb_queue b)) (bm_type m) b"
  define b2 where "b2 = fst (apply_backpressure (length (eb_queue b)) b1)"
  define b3 where "b3 = (if persist then append_log env m b2 else b2)"
  have "log_typed b1" using b by (simp add: b1_def log_typed_rest)
  then have "log_typed b2" by (auto simp: b2_def apply_backpressure_def log_typed_def split: list.split)
  then have b3: "log_typed b3" by (simp add: b3_def log_typed_append)
  then have "log_typed (b3\<lparr>eb_pending := eb_pending b3 @ [m]\<rparr>)" by (simp add: log_typed_def)
  with b3 have "log_typed (if full b3 then b3\<lparr>eb_pending := eb_pending b3 @ [m]\<rparr> else put_message env m b3)"
    by (simp add: log_typed_rest)
  then show ?thesis by (simp only: publish_def Let_def case_prod_unfold fst_conv b3_def b2_def b1_def)
qed

lemma log_typed_step: "bus_step b l b' \<Longrightarrow> log_typed b \<Longrightarrow> log_typed b'"
proof (induction rule: bus_step.induct)
  case (step_publish env persist m b b' dropped)
  then show ?case using log_typed_publish [of b env persist m] by simp
next
  case (step_resume i b env)
  then have "log_typed (b\<lparr>eb_pending := take i (eb_pending b) @ drop (Suc i) (eb_pending b)\<rparr>)" by (simp add: log_typed_def)
  then show ?case by (simp add: resume_publish_def log_typed_rest)
qed (simp add: log_typed_def)

lemma log_typed_run: "bus_run b ls b' \<Longrightarrow> log_typed b \<Longrightarrow> log_typed b'"
  by (induction rule: bus_run.induct) (auto intro: log_typed_step)

lemma replay_lines_total: "(\<forall>l \<in> set ls. \<exists>r. l = Some (PDict r)) \<Longrightarrow> \<exists>rs. replay_lines f t types ls = Inr rs"
  by (induction ls) fastforce+

lemma replay_typed: "log_typed b \<Longrightarrow> \<exists>rs. replay from_us to_ts clock types b = Inr rs"
  unfolding replay_def by (rule replay_lines_total) (force simp: log_lines_def log_typed_def)

text \<open>A bus that starts with an empty log directory only ever writes dictionaries, so replaying never raises, in any
  reachable state and for any period and event types.\<close>

theorem replay_never_raises:
  assumes "bus_run (new_event_bus cfg [] [] state) ls b"
  shows "\<exists>rs. replay from_us to_ts clock types b = Inr rs"
  by (rule replay_typed, rule log_typed_run [OF assms]) (simp add: log_typed_def new_event_bus_def)

section \<open>Where events are lost\<close>

text \<open>C40: All subscriptions take from one queue: a subscription to another event type takes the only event published,
  does not deliver it, and nothing is left for the subscription it was meant for.\<close>

theorem other_subscription_loses_event:
  assumes "new_bus_config n rule days flush = Inr cfg" "bm_type m = Some etype" "other \<noteq> etype"
  shows "\<exists>b. bus_run (new_event_bus cfg [] [] None) [Published m None, Taken other m False] b
    \<and> eb_queue b = [] \<and> eb_pending b = []"
proof -
  let ?b0 = "new_event_bus cfg [] [] None"
  have c: "0 < bc_max cfg" using assms(1) by (auto simp: new_bus_config_def split: if_splits)
  obtain env :: bus_env where True by blast
  obtain b1 d where b1: "publish env False m ?b0 = (b1, d)" by (cases "publish env False m ?b0")
  have "\<not> full ?b0" using c by (simp add: full_def new_event_bus_def)
  with publish_result [OF b1] have q: "d = None" "eb_queue b1 = [m]" "eb_pending b1 = []"
    by (auto simp: new_event_bus_def)
  have "bus_run ?b0 ([] @ [Published m None]) b1"
    by (rule run_step [OF run_start]) (use b1 q in \<open>auto intro: step_publish\<close>)
  moreover have "\<not> delivers other (\<lambda>_. True) m" using assms(2,3) by (simp add: delivers_def)
  then have "bus_step b1 (Taken other m False) (b1\<lparr>eb_queue := []\<rparr>)"
    using step_take [of b1 m "[]" other "\<lambda>_. True"] by (simp add: q)
  ultimately have "bus_run ?b0 (([] @ [Published m None]) @ [Taken other m False]) (b1\<lparr>eb_queue := []\<rparr>)"
    by (rule run_step)
  then show ?thesis using q by (intro exI [of _ "b1\<lparr>eb_queue := []\<rparr>"]) simp
qed

text \<open>A rotation writes the archive of the day anew: what an earlier rotation of the same day had archived is gone.\<close>

theorem rotation_overwrites_archive:
  assumes "map_of (eb_logs b) day = Some f" "max_log_size \<le> lf_size f" "map_of (eb_archive b) day = Some old"
  shows "map_of (eb_archive (rotate_if_needed t day b)) day = Some (f\<lparr>lf_mtime := t\<rparr>)"
  using assms by (simp add: rotate_if_needed_def)

section \<open>Witnesses\<close>

definition demo_ts :: pydt where
  "demo_ts = \<lparr>yr = 2025, mo = 3, dy = 14, hh = 9, mi = 30, ss = 0, us = 0, tzo = Some 0\<rparr>"

definition demo_env :: bus_env where
  "demo_env = \<lparr>be_ts_pressure = demo_ts, be_ts_log = demo_ts, be_ts_record = demo_ts, be_ts_wait = demo_ts,
     be_mtime = Fin 0, be_epoch_prune = Fin 0, be_epoch_flush = Fin 0, be_wait_ms = Fin 0, be_write_ok = True\<rparr>"

definition demo_message :: "string \<Rightarrow> bus_message" where
  "demo_message t = \<lparr>bm_event = PNone, bm_type = Some t, bm_context = []\<rparr>"

definition tiny_config :: bus_config where
  "tiny_config = \<lparr>bc_max = 1, bc_policy = ''drop_oldest'', bc_retention = 7, bc_flush = 30\<rparr>"

lemma tiny_config_new: "new_bus_config 1 ''drop_oldest'' 7 30 = Inr tiny_config"
  by (simp add: new_bus_config_def tiny_config_def)

text \<open>Two events published into a queue of one: the first is dropped.\<close>

definition demo_bus1 :: event_bus where
  "demo_bus1 = fst (publish demo_env False (demo_message ''a'') (new_event_bus tiny_config [] [] None))"

definition demo_bus2 :: event_bus where
  "demo_bus2 = fst (publish demo_env False (demo_message ''b'') demo_bus1)"

lemma demo_publications:
  "publish demo_env False (demo_message ''a'') (new_event_bus tiny_config [] [] None) = (demo_bus1, None)"
  "publish demo_env False (demo_message ''b'') demo_bus1 = (demo_bus2, Some (demo_message ''a''))"
  "eb_queue demo_bus2 = [demo_message ''b'']" "eb_pending demo_bus2 = []"
proof -
  obtain d1 where p1: "publish demo_env False (demo_message ''a'') (new_event_bus tiny_config [] [] None) = (demo_bus1, d1)"
    unfolding demo_bus1_def by (metis prod.collapse)
  have q1: "d1 = None" "eb_queue demo_bus1 = [demo_message ''a'']" "eb_pending demo_bus1 = []" "eb_config demo_bus1 = tiny_config"
    using publish_result [OF p1] by (simp_all add: full_def new_event_bus_def tiny_config_def)
  obtain d2 where p2: "publish demo_env False (demo_message ''b'') demo_bus1 = (demo_bus2, d2)"
    unfolding demo_bus2_def by (metis prod.collapse)
  have q2: "d2 = Some (demo_message ''a'')" "eb_queue demo_bus2 = [demo_message ''b'']" "eb_pending demo_bus2 = []"
    using publish_result [OF p2] by (simp_all add: full_def q1 tiny_config_def)
  show "publish demo_env False (demo_message ''a'') (new_event_bus tiny_config [] [] None) = (demo_bus1, None)"
    "publish demo_env False (demo_message ''b'') demo_bus1 = (demo_bus2, Some (demo_message ''a''))"
    "eb_queue demo_bus2 = [demo_message ''b'']" "eb_pending demo_bus2 = []"
    using p1 p2 q1 q2 by simp_all
qed

lemma demo_run1: "bus_run (new_event_bus tiny_config [] [] None) [Published (demo_message ''a'') None] demo_bus1"
  using run_step [OF run_start step_publish [OF demo_publications(1)]] by simp

lemma demo_run: "bus_run (new_event_bus tiny_config [] [] None)
    [Published (demo_message ''a'') None, Published (demo_message ''b'') (Some (demo_message ''a''))] demo_bus2"
  using run_step [OF demo_run1 step_publish [OF demo_publications(2)]] by simp

theorem queue_bounded_witness: "int (length (eb_queue demo_bus2)) \<le> 1"
  by (rule queue_bounded [OF tiny_config_new demo_run])

theorem messages_accounted_witness:
  "{#demo_message ''a'', demo_message ''b''#} = {#demo_message ''b''#} + {#} + {#demo_message ''a''#}"
  using messages_accounted [OF demo_run] by (simp add: demo_publications)

theorem drop_oldest_never_waits_witness:
  "eb_pending demo_bus2 = [] \<and> eb_queue demo_bus2 \<noteq> [] \<and> last (eb_queue demo_bus2) = demo_message ''b''"
  by (rule drop_oldest_never_waits [OF tiny_config_new demo_run1 demo_publications(2)])

theorem other_subscription_loses_event_witness:
  "\<exists>b. bus_run (new_event_bus tiny_config [] [] None) [Published (demo_message ''a'') None, Taken ''b'' (demo_message ''a'') False] b
    \<and> eb_queue b = [] \<and> eb_pending b = []"
  by (rule other_subscription_loses_event [OF tiny_config_new, where etype = "''a''"]) (simp_all add: demo_message_def)

theorem rotation_overwrites_archive_witness:
  "\<exists>f b. max_log_size \<le> lf_size f \<and>
    map_of (eb_archive (rotate_if_needed (Fin 1) ''20250314'' b)) ''20250314'' = Some (f\<lparr>lf_mtime := Fin 1\<rparr>)"
proof -
  let ?f = "\<lparr>lf_lines = [None], lf_size = 50 * 1024 * 1024, lf_mtime = Fin 0\<rparr>"
  let ?g = "\<lparr>lf_lines = [], lf_size = 0, lf_mtime = Fin 0\<rparr>"
  have "map_of (eb_archive (rotate_if_needed (Fin 1) ''20250314''
      (new_event_bus tiny_config [(''20250314'', ?f)] [(''20250314'', ?g)] None))) ''20250314'' = Some (?f\<lparr>lf_mtime := Fin 1\<rparr>)"
    by (rule rotation_overwrites_archive [where old = ?g]) (simp_all add: new_event_bus_def max_log_size_def)
  then show ?thesis by (intro exI [of _ ?f] exI conjI) (simp_all add: max_log_size_def)
qed

theorem replay_never_raises_witness: "\<exists>rs. replay 0 None demo_ts None demo_bus2 = Inr rs"
  by (rule replay_never_raises [OF demo_run])

theorem persisted_event_replayed_witness:
  "\<exists>rs. replay 0 (Some demo_ts) demo_ts None (fst (publish demo_env True (demo_message ''a'') (new_event_bus tiny_config [] [] None)))
     = Inr rs \<and> log_record demo_env (demo_message ''a'') \<in> set rs"
proof -
  have "log_typed (fst (publish demo_env True (demo_message ''a'') (new_event_bus tiny_config [] [] None)))"
    by (rule log_typed_publish) (simp add: log_typed_def new_event_bus_def)
  then obtain rs where rs: "replay 0 (Some demo_ts) demo_ts None
      (fst (publish demo_env True (demo_message ''a'') (new_event_bus tiny_config [] [] None))) = Inr rs"
    using replay_typed by blast
  have "f_of_int (7 * 86400) = Fin 604800" using rnd_int [of 604800] by (simp add: f_of_int_def)
  moreover have "rnd (- 604800) = Fin (- 604800)" using rnd_int [of "- 604800"] by simp
  ultimately have "\<not> flt (be_mtime demo_env) (fsub (be_epoch_prune demo_env)
      (f_of_int (bc_retention (eb_config (new_event_bus tiny_config [] [] None)) * 86400)))"
    by (simp add: demo_env_def new_event_bus_def tiny_config_def fsub_def)
  then have "log_record demo_env (demo_message ''a'') \<in> set rs"
    using rs by (intro persisted_event_replayed [OF _ _ _ _ _ rs])
      (simp_all add: demo_env_def demo_ts_def valid_dt_def month_len_def epoch_us_def days_from_civil_def)
  with rs show ?thesis by blast
qed

end
