(* ===== verification/HealthStore.thy ===== *)
theory HealthStore
  imports PyDate EventBus
begin

text \<open>
  The health state store of \<open>core/health_store.py\<close> and the escalation job of \<open>core/health_jobs.py\<close>.
  A store is its three files: the state document, the history of transitions and the ledger of
  acknowledgements. The counters are recomputed from the history: transitions into a degraded or
  stopped state within thirty days, and weekdays since the latest \<open>ok\<close>. The job saves them and
  publishes an escalation past its thresholds, on the event bus where one is configured.

  Shown: what a transition returns reads back from the file; the counters are those of the history;
  an \<open>ok\<close> that is the latest resets the weekday count; the job escalates exactly past the
  thresholds. And where the store fails: a transition with a naive timestamp stops the counters for
  good, and a system that was never ok never escalates by days.
\<close>

section \<open>Summary and files\<close>

record health_summary =
  sm_state :: string
  sm_last_ok :: pyval
  sm_rolling :: int
  sm_business :: int

definition summary_to_dict :: "health_summary \<Rightarrow> pydict" where
  "summary_to_dict s = [(''current_state'', PStr (sm_state s)), (''last_ok_ts'', sm_last_ok s),
     (''rolling_30d_degraded_count'', PInt (sm_rolling s)), (''business_days_since_last_ok'', PInt (sm_business s))]"

record health_files =
  hf_state :: json_file
  hf_history :: json_lines
  hf_ledger :: "pyval list"

definition load_health :: "health_files \<Rightarrow> health_summary res" where
  "load_health f = (case hf_state f of
       None \<Rightarrow> Inr \<lparr>sm_state = ''ok'', sm_last_ok = PNone, sm_rolling = 0, sm_business = 0\<rparr>
     | Some None \<Rightarrow> Inl ValueError
     | Some (Some v) \<Rightarrow> bind_res (as_dict_get v) (\<lambda>d.
         bind_res (py_int (py_or (dget d ''rolling_30d_degraded_count'') (PInt 0))) (\<lambda>r.
         bind_res (py_int (py_or (dget d ''business_days_since_last_ok'') (PInt 0))) (\<lambda>b.
         Inr \<lparr>sm_state = py_str (py_or (dget d ''current_state'') (PStr ''ok'')), sm_last_ok = dget d ''last_ok_ts'',
              sm_rolling = r, sm_business = b\<rparr>))))"

definition save_health :: "health_summary \<Rightarrow> health_files \<Rightarrow> health_files" where
  "save_health s f = f\<lparr>hf_state := Some (Some (PDict (summary_to_dict s)))\<rparr>"

definition read_history :: "health_files \<Rightarrow> pyval list" where
  "read_history f = List.map_filter id (hf_history f)"

section \<open>Counters\<close>

text \<open>The state an entry of the history leads to, in lower case.\<close>

definition entry_state :: "pydict \<Rightarrow> string" where
  "entry_state e = str_lower (py_str (py_or (dget e ''to'') (py_or (dget e ''to_state'') (PStr []))))"

definition ok_stamp :: "pyval \<Rightarrow> pydt option res" where
  "ok_stamp v = bind_res (as_dict_get v) (\<lambda>e. Inr (if entry_state e = ''ok'' then parse_stamp (dget e ''ts'') else None))"

definition latest_ok_ts :: "pyval list \<Rightarrow> pydt option res" where
  "latest_ok_ts history = bind_res (map_res ok_stamp history) (\<lambda>ts. case List.map_filter id ts of
       [] \<Rightarrow> Inr None
     | d # ds \<Rightarrow> bind_res (dt_max d ds) (\<lambda>m. Inr (Some m)))"

text \<open>\<open>now - span\<close> raises where the result has no date.\<close>

definition subtractable :: "int \<Rightarrow> pydt \<Rightarrow> bool" where
  "subtractable lag d \<longleftrightarrow> days_from_civil 1 1 1 * 86400000000 \<le> local_us d - lag
     \<and> local_us d - lag < (last_day + 1) * 86400000000"

definition thirty_days :: int where
  "thirty_days = 30 * 86400 * 1000000"

definition is_degraded :: "string \<Rightarrow> bool" where
  "is_degraded s \<longleftrightarrow> s \<in> {''degraded'', ''soft_stop'', ''hard_stop''}"

definition degraded_within :: "pydt \<Rightarrow> pyval \<Rightarrow> bool res" where
  "degraded_within now v = bind_res (as_dict_get v) (\<lambda>e. case parse_stamp (dget e ''ts'') of
       None \<Rightarrow> Inr False
     | Some t \<Rightarrow> bind_res (older_than thirty_days now t) (\<lambda>old. Inr (\<not> old \<and> is_degraded (entry_state e))))"

definition rolling_degraded_count :: "pyval list \<Rightarrow> pydt \<Rightarrow> int res" where
  "rolling_degraded_count history now = (if \<not> subtractable thirty_days now then Inl OverflowError
     else bind_res (map_res (degraded_within now) history) (\<lambda>bs. Inr (int (length (filter id bs)))))"

definition refresh_counters :: "health_summary \<Rightarrow> pydt \<Rightarrow> pyval list \<Rightarrow> health_summary res" where
  "refresh_counters s now history =
     bind_res (latest_ok_ts history) (\<lambda>last_ok.
     let s1 = (case last_ok of None \<Rightarrow> s | Some d \<Rightarrow> s\<lparr>sm_last_ok := PStr (iso_text d)\<rparr>) in
     bind_res (rolling_degraded_count history now) (\<lambda>c.
     bind_res (business_days_since (parse_stamp (sm_last_ok s1)) now) (\<lambda>b.
     Inr (s1\<lparr>sm_rolling := c, sm_business := b\<rparr>))))"

section \<open>Transitions and acknowledgements\<close>

definition level_states :: "(string \<times> string) list" where
  "level_states = [(''ok'', ''ok''), (''info'', ''ok''), (''warn'', ''warn''), (''warning'', ''warn''), (''degraded'', ''degraded''),
     (''soft_stop'', ''soft_stop''), (''critical'', ''soft_stop''), (''hard_stop'', ''hard_stop''), (''fatal'', ''hard_stop'')]"

definition resolve_to_state :: "pydict \<Rightarrow> string \<Rightarrow> string" where
  "resolve_to_state ev fallback =
     (let v = py_or (dget ev ''to_state'') (py_or (dget ev ''to'') (dget ev ''status''))
      in if truthy v then py_str v
         else case map_of level_states (str_lower (py_str (py_or (dget ev ''level'') (PStr [])))) of
                Some s \<Rightarrow> s | None \<Rightarrow> fallback)"

text \<open>The time of a transition; the clock is read where the event brings none.\<close>

definition transition_ts :: "pydt \<Rightarrow> pydict \<Rightarrow> pydt" where
  "transition_ts now ev = (case parse_stamp (PStr (py_str (py_or (dget ev ''ts'') (PStr [])))) of Some t \<Rightarrow> t | None \<Rightarrow> now)"

definition transition_entry :: "pydt \<Rightarrow> pydict \<Rightarrow> health_summary \<Rightarrow> pydict" where
  "transition_entry now ev s =
     [(''ts'', PStr (iso_text (transition_ts now ev))),
      (''from'', PStr (py_str (py_or (dget ev ''from_state'') (py_or (dget ev ''from'') (PStr (sm_state s)))))),
      (''to'', PStr (resolve_to_state ev (sm_state s))),
      (''reason'', py_or (dget ev ''reason'') (py_or (dget ev ''code'') (dget ev ''detail''))),
      (''alert_id'', dget ev ''alert_id''), (''runbook_ref'', dget ev ''runbook_ref'')]"

text \<open>The summary a transition starts from, before the counters.\<close>

definition transition_summary :: "pydt \<Rightarrow> pydict \<Rightarrow> health_summary \<Rightarrow> health_summary" where
  "transition_summary now ev s = (let to_state = resolve_to_state ev (sm_state s) in
     (if to_state = ''ok'' then s\<lparr>sm_last_ok := PStr (iso_text (transition_ts now ev))\<rparr> else s)\<lparr>sm_state := to_state\<rparr>)"

text \<open>The entry is in the history before the counters are computed, which may raise.\<close>

definition record_transition :: "pydt \<Rightarrow> pydict \<Rightarrow> health_files \<Rightarrow> health_files \<times> health_summary res" where
  "record_transition now ev f = (case load_health f of Inl e \<Rightarrow> (f, Inl e)
     | Inr s \<Rightarrow>
        let f1 = f\<lparr>hf_history := hf_history f @ [Some (PDict (transition_entry now ev s))]\<rparr>
        in case refresh_counters (transition_summary now ev s) (transition_ts now ev) (read_history f1) of
             Inl e \<Rightarrow> (f1, Inl e)
           | Inr s2 \<Rightarrow> (save_health s2 f1, Inr s2))"

definition record_degraded_ack :: "pydt \<Rightarrow> pydt \<Rightarrow> pydict \<Rightarrow> health_files \<Rightarrow> health_files \<times> int res" where
  "record_degraded_ack now stamp ack f = (case load_health f of Inl e \<Rightarrow> (f, Inl e)
     | Inr s \<Rightarrow> (case business_days_since (parse_stamp (sm_last_ok s)) now of Inl e \<Rightarrow> (f, Inl e)
       | Inr n \<Rightarrow> (save_health (s\<lparr>sm_business := n\<rparr>) (f\<lparr>hf_ledger := hf_ledger f @ [PDict
            [(''ack_id'', py_or (dget ack ''ack_id'') (dget ack ''id'')), (''actor'', py_or (dget ack ''actor'') (dget ack ''user'')),
             (''source'', py_or (dget ack ''source'') (PStr ''cli'')), (''reason'', dget ack ''reason''),
             (''stage_after'', py_or (dget ack ''stage_after'') (dget ack ''status'')), (''runbook_ref'', dget ack ''runbook_ref''),
             (''business_day_seq'', PInt n), (''ts'', PStr (utc_iso stamp))]]\<rparr>), Inr n)))"

definition entry_since :: "int \<Rightarrow> pydt \<Rightarrow> pyval \<Rightarrow> bool res" where
  "entry_since lag now v = bind_res (as_dict_get v) (\<lambda>e. case parse_stamp (dget e ''ts'') of
       None \<Rightarrow> Inr False
     | Some t \<Rightarrow> bind_res (older_than lag now t) (\<lambda>old. Inr (\<not> old)))"

definition list_history :: "int option \<Rightarrow> pydt \<Rightarrow> health_files \<Rightarrow> pyval list res" where
  "list_history since now f = (let h = read_history f in case since of None \<Rightarrow> Inr h
     | Some lag \<Rightarrow> if \<not> subtractable lag now then Inl OverflowError
         else bind_res (map_res (entry_since lag now) h) (\<lambda>bs. Inr (map snd (filter fst (zip bs h)))))"

section \<open>The escalation job\<close>

record escalation_job =
  ej_days :: int
  ej_count :: int
  ej_calendar :: string
  ej_runbook :: string

definition default_job :: escalation_job where
  "default_job = \<lparr>ej_days = 3, ej_count = 2, ej_calendar = ''weekday_v1'', ej_runbook = ''RUN-DATA-05#escalation_review''\<rparr>"

record escalation_result =
  er_status :: string
  er_summary :: health_summary
  er_escalated :: bool
  er_payload :: "pydict option"

definition escalation_to_dict :: "escalation_result \<Rightarrow> pydict" where
  "escalation_to_dict r = [(''status'', PStr (er_status r)), (''summary'', PDict (summary_to_dict (er_summary r))),
     (''escalated'', PBool (er_escalated r)), (''event_payload'', case er_payload r of None \<Rightarrow> PNone | Some d \<Rightarrow> PDict d)]"

definition should_escalate :: "escalation_job \<Rightarrow> health_summary \<Rightarrow> bool" where
  "should_escalate j s \<longleftrightarrow> ej_days j \<le> sm_business s \<or> ej_count j \<le> sm_rolling s"

definition escalation_payload :: "escalation_job \<Rightarrow> pydt \<Rightarrow> health_summary \<Rightarrow> pydict" where
  "escalation_payload j stamp s = [(''event'', PStr ''health.escalate''), (''ts'', PStr (utc_iso stamp)),
     (''business_days_since_last_ok'', PInt (sm_business s)), (''rolling_30d_degraded_count'', PInt (sm_rolling s)),
     (''calendar_version'', PStr (ej_calendar j)), (''runbook_ref'', PStr (ej_runbook j))]"

text \<open>The files, the job's own event log and the bus it publishes on.\<close>

record escalation_world =
  ew_files :: health_files
  ew_log :: "pyval list"
  ew_bus :: "event_bus option"

definition escalation_message :: "pydict \<Rightarrow> bus_message" where
  "escalation_message p = \<lparr>bm_event = PDict p, bm_type = Some ''health.escalate'', bm_context = []\<rparr>"

definition run_escalation ::
  "escalation_job \<Rightarrow> pydt \<Rightarrow> pydt \<Rightarrow> bus_env \<Rightarrow> escalation_world \<Rightarrow> escalation_world \<times> escalation_result res" where
  "run_escalation j now stamp env w =
     (case bind_res (load_health (ew_files w)) (\<lambda>s. refresh_counters s now (read_history (ew_files w))) of
        Inl e \<Rightarrow> (w, Inl e)
      | Inr s \<Rightarrow>
          let w1 = w\<lparr>ew_files := save_health s (ew_files w)\<rparr>; p = escalation_payload j stamp s
          in if should_escalate j s
             then (w1\<lparr>ew_log := ew_log w1 @ [PDict p],
                     ew_bus := map_option (\<lambda>b. fst (publish env True (escalation_message p) b)) (ew_bus w1)\<rparr>,
                   Inr \<lparr>er_status = ''ok'', er_summary = s, er_escalated = True, er_payload = Some p\<rparr>)
             else (w1, Inr \<lparr>er_status = ''ok'', er_summary = s, er_escalated = False, er_payload = None\<rparr>))"

section \<open>Reading back\<close>

lemma nat_str_nonempty [simp]: "nat_str n \<noteq> []"
  by (subst nat_str.simps) simp

lemma int_str_nonempty [simp]: "int_str i \<noteq> []"
  by (simp add: int_str_def)

lemma pos_float_str_nonempty [simp]: "pos_float_str x \<noteq> []"
  by (simp add: pos_float_str_def Let_def split: prod.split)

lemma float_str_nonempty [simp]: "float_str x \<noteq> []"
  by (cases x) simp_all

lemma py_str_truthy: "truthy v \<Longrightarrow> py_str v \<noteq> []"
  by (cases v) (simp_all add: py_str_def)

lemma level_states_nonempty: "map_of level_states k = Some s \<Longrightarrow> s \<noteq> []"
  by (auto simp: level_states_def split: if_splits)

lemma resolve_to_state_nonempty: "fallback \<noteq> [] \<Longrightarrow> resolve_to_state ev fallback \<noteq> []"
  by (auto simp: resolve_to_state_def Let_def py_str_truthy level_states_nonempty split: option.splits)

lemma load_save_health [simp]: "sm_state s \<noteq> [] \<Longrightarrow> load_health (save_health s f) = Inr s"
  by (simp add: load_health_def save_health_def summary_to_dict_def py_or_def)

lemma load_health_state: "load_health f = Inr s \<Longrightarrow> sm_state s \<noteq> []"
  by (auto simp: load_health_def bind_res_eq_Inr py_or_def py_str_truthy split: option.splits)

lemma refresh_counters_result:
  assumes "refresh_counters s now h = Inr s'"
  obtains lo where "latest_ok_ts h = Inr lo" "sm_last_ok s' = (case lo of None \<Rightarrow> sm_last_ok s | Some t \<Rightarrow> PStr (iso_text t))"
    "rolling_degraded_count h now = Inr (sm_rolling s')" "sm_state s' = sm_state s"
    "business_days_since (parse_stamp (sm_last_ok s')) now = Inr (sm_business s')"
proof -
  obtain lo where lo: "latest_ok_ts h = Inr lo" using assms by (auto simp: refresh_counters_def bind_res_eq_Inr)
  show ?thesis by (rule that [OF lo]) (use assms lo in \<open>auto simp: refresh_counters_def bind_res_eq_Inr split: option.splits\<close>)
qed

lemma transition_summary_simps [simp]:
  "sm_state (transition_summary now ev s) = resolve_to_state ev (sm_state s)"
  "sm_last_ok (transition_summary now ev s) = (if resolve_to_state ev (sm_state s) = ''ok''
     then PStr (iso_text (transition_ts now ev)) else sm_last_ok s)"
  by (simp_all add: transition_summary_def Let_def)

lemma record_transition_result:
  assumes "record_transition now ev f = (f', Inr s)"
  obtains s0 f1 where "load_health f = Inr s0" "hf_history f1 = hf_history f @ [Some (PDict (transition_entry now ev s0))]"
    "refresh_counters (transition_summary now ev s0) (transition_ts now ev) (read_history f1) = Inr s"
    "f' = save_health s f1" "sm_state s = resolve_to_state ev (sm_state s0)" "sm_state s \<noteq> []"
proof -
  obtain s0 where l: "load_health f = Inr s0"
    using assms by (cases "load_health f") (auto simp: record_transition_def)
  define f1 where "f1 = f\<lparr>hf_history := hf_history f @ [Some (PDict (transition_entry now ev s0))]\<rparr>"
  have r: "refresh_counters (transition_summary now ev s0) (transition_ts now ev) (read_history f1) = Inr s" "f' = save_health s f1"
    using assms by (auto simp: record_transition_def l Let_def f1_def split: sum.splits)
  have st: "sm_state s = resolve_to_state ev (sm_state s0)"
    using r(1) by (rule refresh_counters_result) simp
  show ?thesis
    by (rule that [OF l _ r st]) (simp_all add: f1_def st resolve_to_state_nonempty load_health_state [OF l])
qed

text \<open>What a transition returns is what the state file reads back as.\<close>

theorem transition_reads_back:
  assumes "record_transition now ev f = (f', Inr s)"
  shows "load_health f' = Inr s"
  using assms by (rule record_transition_result) simp

section \<open>The counters are those of the history\<close>

text \<open>An entry counts when its time reads, is of the kind of \<open>now\<close> and at most thirty days before it, and it leads
  to a degraded or stopped state.\<close>

definition counts :: "pydt \<Rightarrow> pyval \<Rightarrow> bool" where
  "counts now v \<longleftrightarrow> (case v of PDict e \<Rightarrow> (case parse_stamp (dget e ''ts'') of None \<Rightarrow> False
     | Some t \<Rightarrow> epoch_us now - thirty_days \<le> epoch_us t \<and> is_degraded (entry_state e)) | _ \<Rightarrow> False)"

lemma degraded_within_counts: "degraded_within now v = Inr b \<Longrightarrow> b = counts now v"
  by (cases v) (auto simp: degraded_within_def as_dict_get_def counts_def older_than_def split: option.splits if_splits)

lemma rolling_counts:
  assumes "rolling_degraded_count h now = Inr n"
  shows "n = int (length (filter (counts now) h))"
proof -
  obtain bs where bs: "map_res (degraded_within now) h = Inr bs" "n = int (length (filter id bs))"
    using assms by (auto simp: rolling_degraded_count_def bind_res_eq_Inr split: if_splits)
  have "bs = map (counts now) h"
    using bs(1) by (induction h arbitrary: bs) (auto simp: bind_res_eq_Inr dest: degraded_within_counts)
  with bs(2) show ?thesis by (simp add: filter_map o_def)
qed

lemma map_filter_id_mem: "x \<in> set (List.map_filter id xs) \<longleftrightarrow> Some x \<in> set xs"
  by (induction xs) (auto simp: List.map_filter_simps split: option.split)

lemma latest_ok_from:
  assumes "latest_ok_ts h = Inr (Some m)"
  shows "\<exists>v \<in> set h. ok_stamp v = Inr (Some m)"
proof -
  obtain ts where ts: "map_res ok_stamp h = Inr ts" using assms by (auto simp: latest_ok_ts_def bind_res_eq_Inr)
  obtain d ds where d: "List.map_filter id ts = d # ds" "dt_max d ds = Inr m"
    using assms ts by (auto simp: latest_ok_ts_def bind_res_eq_Inr split: list.splits)
  from dt_max_result [OF d(2)] d(1) have "Some m \<in> set ts" by (simp flip: map_filter_id_mem)
  moreover have "list_all2 (\<lambda>v d. ok_stamp v = Inr d) h ts" using ts by (simp add: map_res_list_all2)
  ultimately show ?thesis by (meson list_all2_mem)
qed

lemma latest_ok_mem:
  assumes "latest_ok_ts h = Inr r" "PDict e \<in> set h" "entry_state e = ''ok''" "parse_stamp (dget e ''ts'') = Some t"
  shows "\<exists>m. r = Some m \<and> epoch_us t \<le> epoch_us m \<and> valid_dt m"
proof -
  obtain ts where ts: "map_res ok_stamp h = Inr ts" using assms(1) by (auto simp: latest_ok_ts_def bind_res_eq_Inr)
  have all2: "list_all2 (\<lambda>v d. ok_stamp v = Inr d) h ts" using ts by (simp add: map_res_list_all2)
  from list_all2_mem1 [OF this assms(2)] have "Some t \<in> set ts" by (auto simp: ok_stamp_def assms(3,4))
  then have t: "t \<in> set (List.map_filter id ts)" by (simp add: map_filter_id_mem)
  then obtain d ds where d: "List.map_filter id ts = d # ds" by (cases "List.map_filter id ts") auto
  obtain m where m: "dt_max d ds = Inr m" "r = Some m"
    using assms(1) ts d by (auto simp: latest_ok_ts_def bind_res_eq_Inr)
  from dt_max_result [OF m(1)] t d have "epoch_us t \<le> epoch_us m" "Some m \<in> set ts"
    by (auto simp flip: map_filter_id_mem)
  moreover from list_all2_mem [OF all2 this(2)] have "valid_dt m"
    by (auto simp: ok_stamp_def bind_res_eq_Inr parse_stamp_valid split: if_splits)
  ultimately show ?thesis using m(2) by blast
qed

text \<open>After a transition the rolling count is the number of entries of the history that count, and the business days are the
  weekdays after the day of the latest \<open>ok\<close> up to the day of the transition.\<close>

theorem transition_counters:
  assumes "record_transition now ev f = (f', Inr s)" "day_number (transition_ts now ev) < last_day"
  shows "sm_rolling s = int (length (filter (counts (transition_ts now ev)) (read_history f')))
     \<and> sm_business s = (case parse_stamp (sm_last_ok s) of None \<Rightarrow> 0
        | Some d \<Rightarrow> if day_number (transition_ts now ev) \<le> day_number d then 0
            else weekdays_to (day_number (transition_ts now ev)) - weekdays_to (day_number d))"
proof -
  obtain s0 f1 where r: "refresh_counters (transition_summary now ev s0) (transition_ts now ev) (read_history f1) = Inr s"
    and f': "f' = save_health s f1"
    using assms(1) by (rule record_transition_result)
  have h: "read_history f' = read_history f1" by (simp add: f' read_history_def save_health_def)
  from r have "rolling_degraded_count (read_history f1) (transition_ts now ev) = Inr (sm_rolling s)"
    and b: "business_days_since (parse_stamp (sm_last_ok s)) (transition_ts now ev) = Inr (sm_business s)"
    by (rule refresh_counters_result, blast)+
  from rolling_counts [OF this(1)] h b assms(2) show ?thesis
    by (auto simp: business_days_since_def count_weekdays_closed split: option.splits if_splits)
qed

section \<open>An ok resets the weekday count\<close>

lemma day_of_local_us: "valid_dt d \<Longrightarrow> local_us d div 86400000000 = day_number d"
proof -
  assume v: "valid_dt d"
  define n where "n = hh d * 3600 + mi d * 60 + ss d"
  have "n < 86400" "us d < 1000000" using v by (auto simp: valid_dt_def n_def)
  then have "int n \<le> 86399" "int (us d) < 1000000" by simp_all
  then have r: "int n * 1000000 + int (us d) < 86400000000" by linarith
  have "local_us d = 86400000000 * day_number d + (int n * 1000000 + int (us d))"
    by (simp add: local_us_def epoch_us_def day_number_def n_def algebra_simps)
  with r show ?thesis by (simp add: int_div_pos_eq)
qed

lemma day_number_mono:
  assumes "valid_dt a" "valid_dt b" "tzo a = tzo b" "epoch_us a \<le> epoch_us b"
  shows "day_number a \<le> day_number b"
proof -
  have "local_us a \<le> local_us b" using assms(3,4) by (simp add: local_us_epoch)
  then show ?thesis using zdiv_mono1 [of "local_us a" "local_us b" 86400000000] assms(1,2) by (simp add: day_of_local_us)
qed

definition ok_stamps_in :: "int option \<Rightarrow> pyval list \<Rightarrow> bool" where
  "ok_stamps_in z h \<longleftrightarrow> list_all (\<lambda>v. case ok_stamp v of Inr (Some d) \<Rightarrow> tzo d = z | _ \<Rightarrow> True) h"

lemma str_lower_ok: "str_lower ''ok'' = ''ok''"
  by (simp add: str_lower_def chr_lower_def)

lemma transition_entry_get [simp]:
  "dget (transition_entry now ev s) ''ts'' = PStr (iso_text (transition_ts now ev))"
  "dget (transition_entry now ev s) ''to'' = PStr (resolve_to_state ev (sm_state s))"
  by (simp_all add: transition_entry_def)

lemma transition_entry_state:
  "sm_state s \<noteq> [] \<Longrightarrow> entry_state (transition_entry now ev s) = str_lower (resolve_to_state ev (sm_state s))"
  by (simp add: entry_state_def py_or_def resolve_to_state_nonempty)

lemma read_history_snoc: "hf_history f1 = hf_history f @ [Some v] \<Longrightarrow> read_history f1 = read_history f @ [v]"
  by (simp add: read_history_def List.map_filter_def)

text \<open>A transition to \<open>ok\<close> leaves no business days since the last \<open>ok\<close>, when all times of \<open>ok\<close> in the history are of
  the zone of the transition.\<close>

theorem ok_resets_business_days:
  assumes "record_transition now ev f = (f', Inr s)" "sm_state s = ''ok''" "valid_dt (transition_ts now ev)"
    and zone: "ok_stamps_in (tzo (transition_ts now ev)) (read_history f)"
  shows "sm_business s = 0"
proof -
  let ?t = "transition_ts now ev"
  obtain s0 f1 where l: "load_health f = Inr s0" and h1: "hf_history f1 = hf_history f @ [Some (PDict (transition_entry now ev s0))]"
    and r: "refresh_counters (transition_summary now ev s0) ?t (read_history f1) = Inr s"
    and st: "sm_state s = resolve_to_state ev (sm_state s0)"
    using assms(1) by (rule record_transition_result)
  let ?e = "transition_entry now ev s0"
  have e: "entry_state ?e = ''ok''" "parse_stamp (dget ?e ''ts'') = Some ?t"
    using assms(2,3) st load_health_state [OF l] by (simp_all add: transition_entry_state str_lower_ok)
  have h: "read_history f1 = read_history f @ [PDict ?e]" by (rule read_history_snoc [OF h1])
  obtain lo where lo: "latest_ok_ts (read_history f1) = Inr lo"
    "sm_last_ok s = (case lo of None \<Rightarrow> sm_last_ok (transition_summary now ev s0) | Some t \<Rightarrow> PStr (iso_text t))"
    and b: "business_days_since (parse_stamp (sm_last_ok s)) ?t = Inr (sm_business s)"
    using r by (rule refresh_counters_result)
  have "PDict ?e \<in> set (read_history f1)" by (simp add: h)
  from latest_ok_mem [OF lo(1) this e] obtain m where m: "lo = Some m" "epoch_us ?t \<le> epoch_us m" "valid_dt m" "PDict ?e \<in> set (read_history f1)"
    using h by auto
  have "tzo m = tzo ?t"
  proof -
    obtain v where "v \<in> set (read_history f1)" "ok_stamp v = Inr (Some m)" using latest_ok_from [of "read_history f1" m] lo(1) m(1) by auto
    with zone e show ?thesis by (auto simp: h ok_stamps_in_def list_all_iff ok_stamp_def split: sum.splits option.splits)
  qed
  with m have "day_number ?t \<le> day_number m" by (intro day_number_mono assms(3)) simp_all
  with b lo(2) m show ?thesis by (simp add: business_days_since_def)
qed

section \<open>Escalation\<close>

text \<open>The job escalates exactly when enough entries count or enough weekdays have passed, and what it saved reads back.\<close>

theorem escalation_decision:
  assumes "run_escalation j now stamp env w = (w', Inr r)"
  shows "(er_escalated r \<longleftrightarrow> ej_days j \<le> sm_business (er_summary r)
       \<or> ej_count j \<le> int (length (filter (counts now) (read_history (ew_files w)))))
     \<and> business_days_since (parse_stamp (sm_last_ok (er_summary r))) now = Inr (sm_business (er_summary r))
     \<and> load_health (ew_files w') = Inr (er_summary r)
     \<and> (ew_log w' \<noteq> ew_log w \<longleftrightarrow> er_escalated r)"
proof -
  obtain s0 s where s0: "load_health (ew_files w) = Inr s0" and s: "refresh_counters s0 now (read_history (ew_files w)) = Inr s"
    using assms by (auto simp: run_escalation_def bind_res_eq_Inr split: sum.splits)
  have w': "er_summary r = s" "ew_files w' = save_health s (ew_files w)" "er_escalated r = should_escalate j s"
    "ew_log w' = (if should_escalate j s then ew_log w @ [PDict (escalation_payload j stamp s)] else ew_log w)"
    using assms by (auto simp: run_escalation_def s0 s Let_def split: if_splits)
  from s have st: "sm_state s = sm_state s0" and c: "rolling_degraded_count (read_history (ew_files w)) now = Inr (sm_rolling s)"
    and b: "business_days_since (parse_stamp (sm_last_ok s)) now = Inr (sm_business s)"
    by (rule refresh_counters_result, blast)+
  show ?thesis using load_health_state [OF s0] rolling_counts [OF c] b by (simp add: w' st should_escalate_def)
qed

section \<open>A naive time stops the counters\<close>

datatype store_op =
    Transition pydt pydict
  | Acknowledge pydt pydt pydict
  | SaveState health_summary

fun store_step :: "health_files \<Rightarrow> store_op \<Rightarrow> health_files" where
  "store_step f (Transition now ev) = fst (record_transition now ev f)"
| "store_step f (Acknowledge now stamp ack) = fst (record_degraded_ack now stamp ack f)"
| "store_step f (SaveState s) = save_health s f"

lemma store_step_history: "\<exists>new. hf_history (store_step f op) = hf_history f @ new"
  by (cases op) (auto simp: record_transition_def record_degraded_ack_def save_health_def Let_def split: sum.splits)

interpretation health_log: logged_system store_step "\<lambda>_. True" hf_history
  by unfold_locales (simp_all add: store_step_history)

lemma naive_entry_stops:
  assumes "PDict e \<in> set h" "parse_stamp (dget e ''ts'') = Some t" "tzo t = None" "tzo now \<noteq> None"
  shows "refresh_counters s now h \<noteq> Inr s'"
proof
  assume "refresh_counters s now h = Inr s'"
  then have "rolling_degraded_count h now = Inr (sm_rolling s')" by (rule refresh_counters_result)
  then obtain bs where "map_res (degraded_within now) h = Inr bs"
    by (auto simp: rolling_degraded_count_def bind_res_eq_Inr split: if_splits)
  then have "list_all2 (\<lambda>v b. degraded_within now v = Inr b) h bs" by (simp add: map_res_list_all2)
  from list_all2_mem1 [OF this assms(1)] assms(2-4) show False
    by (auto simp: degraded_within_def older_than_def same_zone_kind_def)
qed

text \<open>Once a transition with a time of no zone is recorded, the escalation job never succeeds again, whatever is recorded
  later.\<close>

theorem naive_transition_stops_job:
  assumes "load_health f = Inr s0" "parse_stamp (dget ev ''ts'') = Some t" "tzo t = None" "tzo now' \<noteq> None"
    and "ew_files w = foldl store_step (fst (record_transition now ev f)) ops"
  shows "snd (run_escalation j now' stamp env w) \<noteq> Inr r"
proof -
  have ts: "transition_ts now ev = t" using assms(2)
    by (auto simp: transition_ts_def parse_stamp_def py_or_def split: pyval.splits if_splits)
  let ?e = "transition_entry now ev s0"
  have e: "parse_stamp (dget ?e ''ts'') = Some t" using parse_stamp_valid [OF assms(2)] by (simp add: ts)
  have "Some (PDict ?e) \<in> set (hf_history (fst (record_transition now ev f)))"
    by (auto simp: record_transition_def assms(1) Let_def save_health_def split: sum.split)
  then have "Some (PDict ?e) \<in> set (hf_history (ew_files w))"
    using health_log.run_log_mem assms(5) by metis
  then have "PDict ?e \<in> set (read_history (ew_files w))" by (simp add: read_history_def map_filter_id_mem)
  from naive_entry_stops [OF this e assms(3,4)] show ?thesis
    by (auto simp: run_escalation_def bind_res_def Let_def split: sum.splits)
qed

section \<open>Witnesses\<close>

definition empty_files :: health_files where
  "empty_files = \<lparr>hf_state = None, hf_history = [], hf_ledger = []\<rparr>"

definition demo_event :: "string \<Rightarrow> pydict" where
  "demo_event st = [(''status'', PStr st)]"

lemma demo_ts_facts: "valid_dt demo_ts" "tzo demo_ts = Some 0" "subtractable thirty_days demo_ts" "day_number demo_ts < last_day"
  by (simp_all add: demo_ts_def valid_dt_def month_len_def subtractable_def local_us_def epoch_us_def thirty_days_def last_day_def
      day_number_def days_from_civil_def Let_def)

lemma demo_event_facts: "transition_ts demo_ts (demo_event st) = demo_ts"
  "st \<noteq> [] \<Longrightarrow> resolve_to_state (demo_event st) x = st"
  by (simp_all add: transition_ts_def demo_event_def resolve_to_state_def py_or_def)

lemma demo_states: "str_lower ''degraded'' = ''degraded''" "is_degraded ''degraded''" "\<not> is_degraded ''ok''"
  by (simp_all add: str_lower_def chr_lower_def is_degraded_def)

definition ok_summary :: health_summary where
  "ok_summary = \<lparr>sm_state = ''ok'', sm_last_ok = PNone, sm_rolling = 0, sm_business = 0\<rparr>"

lemma load_empty: "load_health empty_files = Inr ok_summary"
  by (simp add: load_health_def empty_files_def ok_summary_def)

lemma older_self: "older_than thirty_days demo_ts demo_ts = Inr False"
  by (simp add: older_than_def same_zone_kind_def thirty_days_def)

lemma business_self: "business_days_since (Some demo_ts) demo_ts = Inr 0" "business_days_since None demo_ts = Inr 0"
  by (simp_all add: business_days_since_def)

lemma demo_transition:
  assumes "st = ''ok'' \<or> st = ''degraded''"
  shows "\<exists>f' s. record_transition demo_ts (demo_event st) empty_files = (f', Inr s) \<and> sm_state s = st"
proof -
  have ne: "st \<noteq> []" using assms by auto
  define e where "e = transition_entry demo_ts (demo_event st) ok_summary"
  have es: "entry_state e = st" using assms
    by (auto simp: e_def transition_entry_state ok_summary_def demo_event_facts str_lower_ok demo_states)
  have pe: "parse_stamp (dget e ''ts'') = Some demo_ts" by (simp add: e_def demo_event_facts demo_ts_facts)
  have h: "read_history (empty_files\<lparr>hf_history := hf_history empty_files @ [Some (PDict e)]\<rparr>) = [PDict e]"
    by (simp add: read_history_def empty_files_def List.map_filter_def)
  have ok: "latest_ok_ts [PDict e] = Inr (if st = ''ok'' then Some demo_ts else None)"
    by (simp add: latest_ok_ts_def ok_stamp_def es pe List.map_filter_def)
  have roll: "\<exists>n. rolling_degraded_count [PDict e] demo_ts = Inr n"
    by (simp add: rolling_degraded_count_def degraded_within_def pe demo_ts_facts older_self)
  have "\<exists>s. refresh_counters (transition_summary demo_ts (demo_event st) ok_summary) demo_ts [PDict e] = Inr s"
    using roll by (auto simp: refresh_counters_def ok business_self demo_ts_facts demo_event_facts ne ok_summary_def)
  then obtain s where s: "refresh_counters (transition_summary demo_ts (demo_event st) ok_summary) demo_ts [PDict e] = Inr s" ..
  then have "sm_state s = sm_state (transition_summary demo_ts (demo_event st) ok_summary)" by (rule refresh_counters_result)
  with s h show ?thesis by (simp add: record_transition_def load_empty Let_def demo_event_facts ne e_def [symmetric])
qed

theorem transition_reads_back_witness:
  "\<exists>f' s. record_transition demo_ts (demo_event ''ok'') empty_files = (f', Inr s) \<and> load_health f' = Inr s"
  using demo_transition [of "''ok''"] transition_reads_back by blast

theorem transition_counters_witness:
  "\<exists>f' s. record_transition demo_ts (demo_event ''degraded'') empty_files = (f', Inr s) \<and>
     sm_rolling s = int (length (filter (counts demo_ts) (read_history f')))"
proof -
  obtain f' s where r: "record_transition demo_ts (demo_event ''degraded'') empty_files = (f', Inr s)"
    using demo_transition by blast
  show ?thesis by (intro exI [of _ f'] exI [of _ s]) (use transition_counters [OF r] r in \<open>simp add: demo_event_facts demo_ts_facts\<close>)
qed

theorem ok_resets_business_days_witness:
  "\<exists>f' s. record_transition demo_ts (demo_event ''ok'') empty_files = (f', Inr s) \<and> sm_business s = 0"
proof -
  obtain f' s where r: "record_transition demo_ts (demo_event ''ok'') empty_files = (f', Inr s)" "sm_state s = ''ok''"
    using demo_transition by blast
  from ok_resets_business_days [OF this] show ?thesis
    using r(1) by (auto simp: demo_event_facts demo_ts_facts ok_stamps_in_def read_history_def empty_files_def List.map_filter_def)
qed

definition degraded_entry :: pyval where
  "degraded_entry = PDict [(''ts'', PStr (iso_text demo_ts)), (''to'', PStr ''degraded'')]"

definition degraded_world :: escalation_world where
  "degraded_world = \<lparr>ew_files = empty_files\<lparr>hf_history := [Some degraded_entry, Some degraded_entry]\<rparr>, ew_log = [], ew_bus = None\<rparr>"

lemma degraded_world_run:
  "\<exists>w' r. run_escalation default_job demo_ts demo_ts demo_env degraded_world = (w', Inr r)"
proof -
  have h: "read_history (ew_files degraded_world) = [degraded_entry, degraded_entry]"
    by (simp add: degraded_world_def read_history_def List.map_filter_def)
  have l: "load_health (ew_files degraded_world) = Inr ok_summary"
    by (simp add: load_health_def degraded_world_def empty_files_def ok_summary_def)
  have es: "entry_state [(''ts'', PStr (iso_text demo_ts)), (''to'', PStr ''degraded'')] = ''degraded''"
    by (simp add: entry_state_def py_or_def demo_states)
  have "\<exists>s. refresh_counters ok_summary demo_ts [degraded_entry, degraded_entry] = Inr s"
    by (simp add: refresh_counters_def latest_ok_ts_def ok_stamp_def degraded_entry_def es List.map_filter_def
        rolling_degraded_count_def degraded_within_def demo_ts_facts older_self business_self ok_summary_def)
  then show ?thesis by (auto simp: run_escalation_def h l Let_def)
qed

theorem escalation_decision_witness:
  "\<exists>w' r. run_escalation default_job demo_ts demo_ts demo_env degraded_world = (w', Inr r) \<and> er_escalated r"
proof -
  obtain w' r where r: "run_escalation default_job demo_ts demo_ts demo_env degraded_world = (w', Inr r)"
    using degraded_world_run by blast
  have c: "counts demo_ts degraded_entry"
    by (simp add: counts_def degraded_entry_def demo_ts_facts thirty_days_def entry_state_def py_or_def demo_states)
  show ?thesis
    by (intro exI [of _ w'] exI [of _ r])
      (use escalation_decision [OF r] r c in \<open>simp add: degraded_world_def read_history_def List.map_filter_def default_job_def\<close>)
qed

theorem naive_transition_stops_job_witness:
  "snd (run_escalation default_job demo_ts demo_ts demo_env \<lparr>ew_files = foldl store_step (fst (record_transition demo_ts
      [(''ts'', PStr (iso_text (demo_ts\<lparr>tzo := None\<rparr>))), (''status'', PStr ''degraded'')] empty_files))
        [Transition demo_ts (demo_event ''ok'')], ew_log = [], ew_bus = None\<rparr>)
     \<noteq> Inr \<lparr>er_status = ''ok'', er_summary = ok_summary, er_escalated = False, er_payload = None\<rparr>"
proof (rule naive_transition_stops_job [OF load_empty, where now = demo_ts and ops = "[Transition demo_ts (demo_event ''ok'')]"])
  have "valid_dt (demo_ts\<lparr>tzo := None\<rparr>)" using demo_ts_facts(1) by (simp add: valid_dt_def)
  then show "parse_stamp (dget [(''ts'', PStr (iso_text (demo_ts\<lparr>tzo := None\<rparr>))), (''status'', PStr ''degraded'')] ''ts'')
    = Some (demo_ts\<lparr>tzo := None\<rparr>)" by simp
qed (simp_all add: demo_ts_facts)

end
