(* ===== verification/Liquidity.thy ===== *)
theory Liquidity
  imports Gate
begin

text \<open>
  \<open>src/risk/liquidity_monitor.py\<close>: samples of several quote sources, kept per symbol over a window;
  a snapshot of the last sample's symbol with its divergence, latency and spread, the alerts these
  raise, and the liquidity gate written to the gate file.

  A sample given as a mapping has a textual timestamp or none. \<open>env\<close> holds the clock readings, the fresh
  alert identifiers with their timestamps and what \<open>persist_latest\<close> reads; the published events, the
  worklog and the validation log are lists of documents. The sums behind a NaN quote are those of
  \<open>PyFloat\<close>; sorting places NaN last.

  Shown: how the state follows from the alerts, that a halted or guarded snapshot turns auto-execute
  off in the gate file, that the samples kept are within the window, and where the monitor falls short.
\<close>

section \<open>Samples\<close>

record liq_sample =
  ls_source :: string
  ls_symbol :: string
  ls_ts :: pydt
  ls_bid :: pyfloat
  ls_ask :: pyfloat
  ls_spread :: pyfloat
  ls_latency :: pyfloat
  ls_depth :: "pyfloat option"

datatype sample_input = IsSample liq_sample | IsMapping pydict | IsOther

definition pip_size :: "string \<Rightarrow> pyfloat" where
  "pip_size symb = (if ends_with ''JPY'' (str_upper (str_replace ''/'' [] symb)) then rnd (1 / 100) else rnd (1 / 10000))"

definition sample_from_mapping :: "pydt \<Rightarrow> pydict \<Rightarrow> liq_sample res" where
  "sample_from_mapping now d =
     bind_res (case dget d ''ts'' of PStr s \<Rightarrow> (case fromisoformat (str_replace ''Z'' ''+00:00'' s) of
          None \<Rightarrow> Inl ValueError | Some t \<Rightarrow> Inr t) | _ \<Rightarrow> Inr now) (\<lambda>ts.
     let num = (\<lambda>k. py_float (dget_def d k (PFloat (Fin 0)))) in
     bind_res (num ''bid'') (\<lambda>bid. bind_res (num ''ask'') (\<lambda>ask. bind_res (num ''spread'') (\<lambda>spread.
     bind_res (num ''update_latency_ms'') (\<lambda>latency.
     bind_res (if dget d ''depth'' = PNone then Inr None else bind_res (py_float (dget d ''depth'')) (Inr \<circ> Some)) (\<lambda>depth.
     Inr \<lparr>ls_source = py_str (py_or (dget d ''source'') (PStr ''unknown'')),
          ls_symbol = py_str (py_or (dget d ''symbol'') (PStr ''UNKNOWN'')), ls_ts = ts, ls_bid = bid, ls_ask = ask,
          ls_spread = spread, ls_latency = latency, ls_depth = depth\<rparr>))))))"

fun parse_samples :: "pydt \<Rightarrow> sample_input list \<Rightarrow> liq_sample list res" where
  "parse_samples now [] = Inr []"
| "parse_samples now (IsSample s # xs) = bind_res (parse_samples now xs) (\<lambda>ys. Inr (s # ys))"
| "parse_samples now (IsMapping d # xs) = bind_res (sample_from_mapping now d) (\<lambda>s.
     bind_res (parse_samples now xs) (\<lambda>ys. Inr (s # ys)))"
| "parse_samples now (IsOther # xs) = parse_samples now xs"

record liq_thresholds =
  lt_divergence_warn :: pyfloat
  lt_divergence_alert :: pyfloat
  lt_latency_warn :: pyfloat
  lt_latency_alert :: pyfloat
  lt_spread_warn :: pyfloat
  lt_spread_alert :: pyfloat

definition default_thresholds :: liq_thresholds where
  "default_thresholds = \<lparr>lt_divergence_warn = Fin (3 / 2), lt_divergence_alert = Fin 3, lt_latency_warn = Fin 1500,
     lt_latency_alert = Fin 3000, lt_spread_warn = Fin 2, lt_spread_alert = Fin 3\<rparr>"

definition thresholds_from_mapping :: "pydict option \<Rightarrow> liq_thresholds res" where
  "thresholds_from_mapping payload = (let d = (case payload of None \<Rightarrow> [] | Some x \<Rightarrow> x);
      num = (\<lambda>k v. py_float (dget_def d k (PFloat v))) in
     bind_res (num ''divergence_warn_pips'' (Fin (3 / 2))) (\<lambda>dw. bind_res (num ''divergence_alert_pips'' (Fin 3)) (\<lambda>da.
     bind_res (num ''latency_warn_ms'' (Fin 1500)) (\<lambda>lw. bind_res (num ''latency_alert_ms'' (Fin 3000)) (\<lambda>la.
     bind_res (num ''spread_warn_multiplier'' (Fin 2)) (\<lambda>sw. bind_res (num ''spread_alert_multiplier'' (Fin 3)) (\<lambda>sa.
     Inr \<lparr>lt_divergence_warn = dw, lt_divergence_alert = da, lt_latency_warn = lw, lt_latency_alert = la,
          lt_spread_warn = sw, lt_spread_alert = sa\<rparr>)))))))"

section \<open>Statistics\<close>

definition percentile :: "pyfloat list \<Rightarrow> pyfloat \<Rightarrow> pyfloat option" where
  "percentile xs q = (if xs = [] then None else
     let vs = sort xs; n = int (length xs) - 1;
         idx = (case fmul (fquot q (Fin 100)) (f_of_int n) of Fin x \<Rightarrow> rhe x | _ \<Rightarrow> 0)
     in Some (vs ! nat (min (max idx 0) n)))"

text \<open>\<open>statistics.median\<close> of a non-empty list.\<close>

definition float_median :: "pyfloat list \<Rightarrow> pyfloat" where
  "float_median xs = (let vs = sort xs; n = length vs; i = n div 2 in
     if odd n then vs ! i else fquot (fadd (vs ! (i - 1)) (vs ! i)) (Fin 2))"

text \<open>\<open>max\<close> of a non-empty list: the first of the greatest.\<close>

fun float_max :: "pyfloat list \<Rightarrow> pyfloat" where
  "float_max [] = NaN"
| "float_max (x # xs) = foldl fmax x xs"

definition mid_gap :: "pyfloat \<Rightarrow> liq_sample \<Rightarrow> liq_sample \<Rightarrow> pyfloat" where
  "mid_gap pip a b = fquot (fabs (fsub (fquot (fadd (ls_bid a) (ls_ask a)) (Fin 2))
     (fquot (fadd (ls_bid b) (ls_ask b)) (Fin 2)))) pip"

fun divergences :: "pyfloat \<Rightarrow> liq_sample list \<Rightarrow> pyfloat list" where
  "divergences pip [] = []"
| "divergences pip (a # rest) = map (mid_gap pip a) rest @ divergences pip rest"

text \<open>The latest sample of each source, sources in order of their first sample.\<close>

definition latest_by_source :: "liq_sample list \<Rightarrow> (string \<times> liq_sample) list" where
  "latest_by_source items = foldl (\<lambda>d s. AList.update (ls_source s) s d) [] (sort_key (epoch_us \<circ> ls_ts) items)"

definition spread_multiplier :: "liq_sample list \<Rightarrow> pyfloat option" where
  "spread_multiplier items = (let spreads = map ls_spread items in if spreads = [] then None else
     let baseline = float_median spreads in if fgt baseline (Fin 0) then Some (fquot (float_max spreads) baseline) else None)"

section \<open>Alerts and snapshots\<close>

record liq_alert =
  la_code :: string
  la_severity :: string
  la_symbol :: string
  la_detail :: string
  la_id :: string
  la_ts :: string

definition alert_to_dict :: "liq_alert \<Rightarrow> pydict" where
  "alert_to_dict a = [(''alert_id'', PStr (la_id a)), (''code'', PStr (la_code a)), (''severity'', PStr (la_severity a)),
     (''symbol'', PStr (la_symbol a)), (''detail'', PStr (la_detail a)), (''source'', PNone), (''ts'', PStr (la_ts a))]"

record liq_snapshot =
  sn_symbol :: string
  sn_state :: string
  sn_divergence :: "pyfloat option"
  sn_latency :: "pyfloat option"
  sn_spread :: "pyfloat option"
  sn_stale_ratio :: "pyfloat option"
  sn_alerts :: "liq_alert list"
  sn_recommendation :: string
  sn_runbook :: "string option"
  sn_updated_at :: string
  sn_sources :: "(string \<times> liq_sample) list"

definition float_or_none :: "pyfloat option \<Rightarrow> pyval" where
  "float_or_none x = (case x of None \<Rightarrow> PNone | Some a \<Rightarrow> PFloat a)"

definition snapshot_to_dict :: "liq_snapshot \<Rightarrow> pydict" where
  "snapshot_to_dict s = [(''symbol'', PStr (sn_symbol s)), (''state'', PStr (sn_state s)),
     (''divergence_p95'', float_or_none (sn_divergence s)), (''update_latency_p95'', float_or_none (sn_latency s)),
     (''spread_multiplier'', float_or_none (sn_spread s)), (''stale_ratio'', float_or_none (sn_stale_ratio s)),
     (''alerts'', PList (map (PDict \<circ> alert_to_dict) (sn_alerts s))), (''recommendation'', PStr (sn_recommendation s)),
     (''runbook'', ostr (sn_runbook s)), (''updated_at'', PStr (sn_updated_at s)),
     (''sources'', PDict (map (\<lambda>(k, q). (k, PDict [(''bid'', PFloat (ls_bid q)), (''ask'', PFloat (ls_ask q)),
        (''spread'', PFloat (ls_spread q)), (''update_latency_ms'', PFloat (ls_latency q))])) (sn_sources s)))]"

text \<open>One measure against its two thresholds: code, severity and detail of the alert, if any.\<close>

definition measure_alert :: "string \<Rightarrow> pyfloat \<Rightarrow> pyfloat \<Rightarrow> (pyfloat \<Rightarrow> string) \<Rightarrow> pyfloat option
     \<Rightarrow> (string \<times> string \<times> string) list" where
  "measure_alert code alert_level warn_level detail x = (case x of None \<Rightarrow> []
     | Some v \<Rightarrow> if fge v alert_level then [(code, ''critical'', detail v)]
                 else if fge v warn_level then [(code, ''warning'', detail v)] else [])"

definition raise_alerts ::
  "liq_thresholds \<Rightarrow> pyfloat option \<Rightarrow> pyfloat option \<Rightarrow> pyfloat option \<Rightarrow> (string \<times> string \<times> string) list" where
  "raise_alerts t divergence latency spread =
     measure_alert ''price_divergence'' (lt_divergence_alert t) (lt_divergence_warn t)
       (\<lambda>v. ''divergence_p95='' @ fmt_fixed 2 v @ ''pips'') divergence
     @ measure_alert ''stale_quote'' (lt_latency_alert t) (lt_latency_warn t)
       (\<lambda>v. ''update_latency_p95='' @ fmt_fixed 0 v @ ''ms'') latency
     @ measure_alert ''spread_shock'' (lt_spread_alert t) (lt_spread_warn t)
       (\<lambda>v. ''spread_multiplier='' @ fmt_fixed 2 v) spread"

text \<open>State, recommendation and runbook.\<close>

definition liq_runbook :: string where
  "liq_runbook = ''docs/runbooks/RUN-LIQ-01.md''"

definition judge_liquidity :: "string list \<Rightarrow> bool \<Rightarrow> string \<times> string \<times> string option" where
  "judge_liquidity severities measured =
     (if ''critical'' \<in> set severities then (''halted'', ''halted'', Some liq_runbook)
      else if severities \<noteq> [] then (''guarded'', ''guarded'', Some liq_runbook)
      else if measured then (''watch'', ''monitor'', None)
      else (''normal'', ''monitor'', None))"

record liq_env =
  le_now :: pydt
  le_updated :: pydt
  le_stamp :: pydt
  le_fresh :: "nat \<Rightarrow> string \<times> string"
  le_hash :: hash_env

definition make_alerts :: "liq_env \<Rightarrow> string \<Rightarrow> (string \<times> string \<times> string) list \<Rightarrow> liq_alert list" where
  "make_alerts env symb raised = map (\<lambda>(i, code, severity, detail). \<lparr>la_code = code, la_severity = severity,
     la_symbol = symb, la_detail = detail, la_id = fst (le_fresh env i), la_ts = snd (le_fresh env i)\<rparr>)
     (zip [0..<length raised] raised)"

definition build_snapshot :: "liq_env \<Rightarrow> liq_thresholds \<Rightarrow> string \<Rightarrow> liq_sample list \<Rightarrow> liq_snapshot res" where
  "build_snapshot env t symb items = (if items = [] then Inl (LiquiditySymbolNotFound symb) else
     let sources = latest_by_source items;
         divergence = percentile (divergences (pip_size symb) (map snd sources)) (Fin 95);
         latencies = map ls_latency items;
         latency = percentile latencies (Fin 95);
         spread = spread_multiplier items;
         raised = raise_alerts t divergence latency spread;
         alerts = make_alerts env symb raised;
         (state, recommendation, runbook) = judge_liquidity (map (fst \<circ> snd) raised) (divergence \<noteq> None \<or> latency \<noteq> None);
         stale = length (filter (\<lambda>v. fge v (lt_latency_warn t)) latencies)
     in Inr \<lparr>sn_symbol = symb, sn_state = state, sn_divergence = divergence, sn_latency = latency, sn_spread = spread,
          sn_stale_ratio = Some (rnd (of_nat stale / of_nat (length latencies))), sn_alerts = alerts,
          sn_recommendation = recommendation, sn_runbook = runbook, sn_updated_at = utc_iso (le_updated env),
          sn_sources = sources\<rparr>)"

section \<open>The service\<close>

record liq_monitor =
  lm_samples :: "(string \<times> liq_sample list) list"
  lm_latest :: "(string \<times> liq_snapshot) list"
  lm_has_bus :: bool
  lm_events :: "(string \<times> pyval) list"
  lm_snapshot_file :: json_file
  lm_metrics :: "pyval list"
  lm_gate_file :: json_file
  lm_worklog :: "pyval list"
  lm_validation :: "(string \<times> string list) list"

definition new_liq_monitor :: "bool \<Rightarrow> json_file \<Rightarrow> liq_monitor" where
  "new_liq_monitor has_bus gate_file = \<lparr>lm_samples = [], lm_latest = [], lm_has_bus = has_bus, lm_events = [],
     lm_snapshot_file = None, lm_metrics = [], lm_gate_file = gate_file, lm_worklog = [], lm_validation = []\<rparr>"

definition add_sample :: "liq_sample \<Rightarrow> (string \<times> liq_sample list) list \<Rightarrow> (string \<times> liq_sample list) list" where
  "add_sample s d = AList.update (ls_symbol s) ((case map_of d (ls_symbol s) of None \<Rightarrow> [] | Some xs \<Rightarrow> xs) @ [s]) d"

text \<open>\<open>(now - entry.ts).total_seconds() <= window_sec\<close>; a naive timestamp cannot be subtracted.\<close>

definition in_window :: "pydt \<Rightarrow> int \<Rightarrow> liq_sample \<Rightarrow> bool res" where
  "in_window now window_sec s = (if tzo (ls_ts s) = None then Inl TypeError
     else Inr (epoch_us now - epoch_us (ls_ts s) \<le> window_sec * 1000000))"

definition prune_samples :: "pydt \<Rightarrow> int \<Rightarrow> liq_sample list \<Rightarrow> liq_sample list res" where
  "prune_samples now window_sec xs = bind_res (map_res (in_window now window_sec) xs) (\<lambda>bs.
     Inr (map snd (filter fst (zip bs xs))))"

text \<open>Symbol by symbol, up to the first that raises.\<close>

fun prune_all :: "pydt \<Rightarrow> int \<Rightarrow> (string \<times> liq_sample list) list \<Rightarrow> (string \<times> liq_sample list) list \<times> err option" where
  "prune_all now window_sec [] = ([], None)"
| "prune_all now window_sec ((k, xs) # d) = (case prune_samples now window_sec xs of
       Inl e \<Rightarrow> ((k, xs) # d, Some e)
     | Inr ys \<Rightarrow> (case prune_all now window_sec d of (d', e) \<Rightarrow> ((k, ys) # d', e)))"

definition snapshot_metric :: "liq_snapshot \<Rightarrow> pyval" where
  "snapshot_metric s = PDict [(''ts'', PStr (sn_updated_at s)), (''symbol'', PStr (sn_symbol s)),
     (''divergence_p95'', float_or_none (sn_divergence s)), (''update_latency_p95'', float_or_none (sn_latency s)),
     (''alerts_count'', PInt (int (length (sn_alerts s)))), (''state'', PStr (sn_state s))]"

text \<open>The gate file: unreadable or invalid counts as a new gate.\<close>

definition load_gate :: "json_file \<Rightarrow> gate_state" where
  "load_gate f = (case f of Some (Some v) \<Rightarrow> (case bind_res (as_dict v) gate_from_dict of Inr g \<Rightarrow> g | Inl _ \<Rightarrow> gate_default)
     | _ \<Rightarrow> gate_default)"

definition update_gate_state :: "liq_env \<Rightarrow> liq_snapshot \<Rightarrow> json_file \<Rightarrow> json_file res" where
  "update_gate_state env s f =
     (case fromisoformat (str_replace ''Z'' ''+00:00'' (sn_updated_at s)) of None \<Rightarrow> Inl ValueError
      | Some t \<Rightarrow> bind_res (persist_latest (le_hash env) None None (update_liquidity (Some \<lparr>lg_state = sn_state s,
            lg_recommendation = Some (sn_recommendation s), lg_updated_at = Some t\<rparr>) (load_gate f))) (\<lambda>(g, d).
          Inr (Some (Some (PDict d)))))"

definition snapshot_events :: "liq_snapshot \<Rightarrow> (string \<times> pyval) list" where
  "snapshot_events s = (''liquidity.snapshot'', PDict ((''event'', PStr ''liquidity.snapshot'') # snapshot_to_dict s))
     # map (\<lambda>a. (''liquidity.alert'', PDict (alert_to_dict a @ [(''event'', PStr ''liquidity.alert'')]))) (sn_alerts s)"

definition worklog_entry :: "liq_snapshot \<Rightarrow> liq_alert \<Rightarrow> pyval" where
  "worklog_entry s a = PDict [(''timestamp'', PStr (sn_updated_at s)), (''task'', PStr ''liquidity_watch''),
     (''symbol'', PStr (sn_symbol s)), (''alert'', PStr (la_code a)), (''severity'', PStr (la_severity a)),
     (''alert_id'', PStr (la_id a))]"

definition validation_lines :: "liq_snapshot \<Rightarrow> string list" where
  "validation_lines s = (let num = (\<lambda>x. py_str (float_or_none x)); row = (\<lambda>k v. ''| '' @ k @ '' | '' @ v @ '' |'') in
     [''## Liquidity Alert ('' @ sn_symbol s @ '')'', [], ''| Field | Value |'', ''| --- | --- |'',
      row ''Timestamp'' (sn_updated_at s), row ''State'' (sn_state s), row ''Recommendation'' (sn_recommendation s),
      row ''Divergence p95'' (num (sn_divergence s)), row ''Update latency p95'' (num (sn_latency s)),
      row ''Spread multiplier'' (num (sn_spread s)), row ''Alerts'' (int_str (int (length (sn_alerts s)))),
      row ''Runbook'' (case str_or (sn_runbook s) (Some liq_runbook) of Some r \<Rightarrow> r | None \<Rightarrow> liq_runbook), [],
      ''| Alert ID | Code | Severity | Detail |'', ''| --- | --- | --- | --- |'']
     @ map (\<lambda>a. ''| '' @ la_id a @ '' | '' @ la_code a @ '' | '' @ la_severity a @ '' | '' @ la_detail a @ '' |'') (sn_alerts s)
     @ [[]])"

text \<open>What follows a snapshot: its file and metric, the gate, the events, and for alerts the worklog and the
  validation log of the day.\<close>

definition record_snapshot :: "liq_env \<Rightarrow> liq_snapshot \<Rightarrow> liq_monitor \<Rightarrow> liq_monitor \<times> liq_snapshot res" where
  "record_snapshot env s m =
     (let m1 = m\<lparr>lm_latest := AList.update (sn_symbol s) s (lm_latest m),
               lm_snapshot_file := Some (Some (PDict (snapshot_to_dict s))), lm_metrics := lm_metrics m @ [snapshot_metric s]\<rparr>
      in case update_gate_state env s (lm_gate_file m1) of
           Inl e \<Rightarrow> (m1, Inl e)
         | Inr f \<Rightarrow>
             let m2 = m1\<lparr>lm_gate_file := f\<rparr>;
                 m3 = (if lm_has_bus m2 then m2\<lparr>lm_events := lm_events m2 @ snapshot_events s\<rparr> else m2);
                 day = pad_str 4 (yr (le_stamp env)) @ pad_str 2 (mo (le_stamp env)) @ pad_str 2 (dy (le_stamp env));
                 m4 = (if sn_alerts s = [] then m3 else m3\<lparr>lm_worklog := lm_worklog m3 @ map (worklog_entry s) (sn_alerts s),
                    lm_validation := AList.update (''liquidity_alert_'' @ day @ ''.md'') (validation_lines s) (lm_validation m3)\<rparr>)
             in (m4, Inr s))"

datatype liq_error = NoSamples | LiqErr err

text \<open>\<open>update\<close>: the new state also where it raises. \<open>LiquiditySampleError\<close> is \<open>NoSamples\<close>.\<close>

definition update_liquidity_monitor ::
  "liq_env \<Rightarrow> sample_input list \<Rightarrow> int \<Rightarrow> liq_thresholds option \<Rightarrow> liq_monitor \<Rightarrow> liq_monitor \<times> (liq_error + liq_snapshot)" where
  "update_liquidity_monitor env samples window_sec thresholds m =
     (case parse_samples (le_now env) samples of
        Inl e \<Rightarrow> (m, Inl (LiqErr e))
      | Inr parsed \<Rightarrow>
          if parsed = [] then (m, Inl NoSamples) else
          let t = (case thresholds of None \<Rightarrow> default_thresholds | Some x \<Rightarrow> x);
              added = foldl (\<lambda>d s. add_sample s d) (lm_samples m) parsed
          in case prune_all (le_now env) window_sec added of
               (kept, Some e) \<Rightarrow> (m\<lparr>lm_samples := kept\<rparr>, Inl (LiqErr e))
             | (kept, None) \<Rightarrow>
                 let m1 = m\<lparr>lm_samples := kept\<rparr>; symb = ls_symbol (last parsed)
                 in case build_snapshot env t symb (case map_of kept symb of None \<Rightarrow> [] | Some xs \<Rightarrow> xs) of
                      Inl e \<Rightarrow> (m1, Inl (LiqErr e))
                    | Inr s \<Rightarrow> (case record_snapshot env s m1 of (m2, Inl e) \<Rightarrow> (m2, Inl (LiqErr e)) | (m2, Inr q) \<Rightarrow> (m2, Inr q)))"

record liq_assessment =
  lx_symbol :: string
  lx_state :: string
  lx_recommendation :: string
  lx_alerts :: "liq_alert list"

definition evaluate_liquidity :: "string \<Rightarrow> liq_monitor \<Rightarrow> liq_assessment res" where
  "evaluate_liquidity symb m = (case map_of (lm_latest m) symb of None \<Rightarrow> Inl (LiquiditySymbolNotFound symb)
     | Some s \<Rightarrow> Inr \<lparr>lx_symbol = symb, lx_state = sn_state s, lx_recommendation = sn_recommendation s, lx_alerts = sn_alerts s\<rparr>)"

definition export_liquidity :: "string \<Rightarrow> liq_monitor \<Rightarrow> pydict" where
  "export_liquidity path m = [(''status'', PStr ''ok''),
     (''snapshots'', PDict (map (\<lambda>(k, s). (k, PDict (snapshot_to_dict s))) (lm_latest m))), (''snapshot_path'', PStr path)]"

section \<open>The steps of an update\<close>

lemma update_success:
  assumes "update_liquidity_monitor env samples window_sec thresholds m = (m', Inr s)"
  obtains parsed kept where "parse_samples (le_now env) samples = Inr parsed" "parsed \<noteq> []"
    "prune_all (le_now env) window_sec (foldl (\<lambda>d s. add_sample s d) (lm_samples m) parsed) = (kept, None)"
    "build_snapshot env (case thresholds of None \<Rightarrow> default_thresholds | Some x \<Rightarrow> x) (ls_symbol (last parsed))
       (case map_of kept (ls_symbol (last parsed)) of None \<Rightarrow> [] | Some xs \<Rightarrow> xs) = Inr s"
    "record_snapshot env s (m\<lparr>lm_samples := kept\<rparr>) = (m', Inr s)"
proof -
  from assms obtain parsed where parsed: "parse_samples (le_now env) samples = Inr parsed" "parsed \<noteq> []"
    by (auto simp: update_liquidity_monitor_def split: sum.splits if_splits)
  define added where "added = foldl (\<lambda>d s. add_sample s d) (lm_samples m) parsed"
  obtain kept e where kept: "prune_all (le_now env) window_sec added = (kept, e)" by (cases "prune_all (le_now env) window_sec added")
  with assms parsed have e: "e = None"
    by (cases e) (auto simp: update_liquidity_monitor_def added_def Let_def)
  define symb where "symb = ls_symbol (last parsed)"
  define b where "b = build_snapshot env (case thresholds of None \<Rightarrow> default_thresholds | Some x \<Rightarrow> x) symb
       (case map_of kept symb of None \<Rightarrow> [] | Some xs \<Rightarrow> xs)"
  have upd: "update_liquidity_monitor env samples window_sec thresholds m = (case b of
       Inl e \<Rightarrow> (m\<lparr>lm_samples := kept\<rparr>, Inl (LiqErr e))
     | Inr s \<Rightarrow> (case record_snapshot env s (m\<lparr>lm_samples := kept\<rparr>) of
         (m2, Inl e) \<Rightarrow> (m2, Inl (LiqErr e)) | (m2, Inr q) \<Rightarrow> (m2, Inr q)))"
    using parsed kept e by (simp add: update_liquidity_monitor_def added_def Let_def b_def symb_def)
  have same: "r = Inr q \<Longrightarrow> record_snapshot env t n = (n', r) \<Longrightarrow> q = t" for t n n' r q
    by (auto simp: record_snapshot_def Let_def split: sum.splits)
  from assms upd obtain t where t: "b = Inr t" by (cases b) auto
  with assms upd obtain n r where n: "record_snapshot env t (m\<lparr>lm_samples := kept\<rparr>) = (n, r)"
    by (cases "record_snapshot env t (m\<lparr>lm_samples := kept\<rparr>)")
  with assms upd t have "r = Inr s" "n = m'" by (auto split: sum.splits)
  then have n': "record_snapshot env t (m\<lparr>lm_samples := kept\<rparr>) = (m', Inr s)" using n by simp
  then have "s = t" by (rule same [OF refl])
  with that [OF parsed kept [unfolded e added_def]] t n' show ?thesis by (simp add: b_def symb_def)
qed

lemma record_snapshot_result:
  assumes "record_snapshot env s m = (m', Inr s')"
  shows "lm_samples m' = lm_samples m" "lm_latest m' = AList.update (sn_symbol s) s (lm_latest m)"
    "update_gate_state env s (lm_gate_file m) = Inr (lm_gate_file m')"
  using assms by (auto simp: record_snapshot_def Let_def split: sum.splits if_splits)

text \<open>The gate written carries the state of the snapshot.\<close>

lemma update_gate_state_file:
  assumes "update_gate_state env s f = Inr f'"
  shows "\<exists>g. f' = Some (Some (PDict (gate_to_dict g))) \<and> lg_state (mg_liquidity (gs_market g)) = sn_state s
    \<and> (sn_state s \<in> {''guarded'', ''halted''} \<longrightarrow> \<not> gs_auto_execute g)"
proof -
  from assms obtain t g d where
    "persist_latest (le_hash env) None None (update_liquidity (Some \<lparr>lg_state = sn_state s,
        lg_recommendation = Some (sn_recommendation s), lg_updated_at = Some t\<rparr>) (load_gate f)) = Inr (g, d)"
    and f: "f' = Some (Some (PDict d))"
    by (auto simp: update_gate_state_def split: option.splits elim!: bind_res_InrE)
  then obtain c e where g: "g = set_hashes c e (update_liquidity (Some \<lparr>lg_state = sn_state s,
        lg_recommendation = Some (sn_recommendation s), lg_updated_at = Some t\<rparr>) (load_gate f))" "d = gate_to_dict g"
    by (auto simp: persist_latest_def Let_def elim!: bind_res_InrE)
  then have "lg_state (mg_liquidity (gs_market g)) = sn_state s"
    "sn_state s \<in> {''guarded'', ''halted''} \<longrightarrow> \<not> gs_auto_execute g"
    by (auto simp: set_hashes_def update_liquidity_def set_auto_execute_def str_lower_def chr_lower_def Let_def)
  with f g(2) show ?thesis by blast
qed

lemma build_snapshot_symbol: "build_snapshot env t symb items = Inr s \<Longrightarrow> sn_symbol s = symb"
  by (auto simp: build_snapshot_def Let_def split: if_splits prod.splits)

section \<open>State and gate\<close>

lemma make_alerts_Nil [simp]: "make_alerts env symb [] = []"
  by (simp add: make_alerts_def)

lemma severities_of_alerts [simp]: "map la_severity (make_alerts env symb raised) = map (fst \<circ> snd) raised"
  unfolding make_alerts_def by (rule nth_equalityI) (auto simp: case_prod_unfold)

lemma snapshot_state:
  assumes "build_snapshot env t symb items = Inr s"
  shows "sn_state s = (if ''critical'' \<in> set (map la_severity (sn_alerts s)) then ''halted''
    else if sn_alerts s \<noteq> [] then ''guarded'' else ''watch'')"
proof -
  define raised where "raised = raise_alerts t (percentile (divergences (pip_size symb) (map snd (latest_by_source items))) (Fin 95))
      (percentile (map ls_latency items) (Fin 95)) (spread_multiplier items)"
  have lat: "percentile (map ls_latency items) (Fin 95) \<noteq> None"
    using assms by (auto simp: build_snapshot_def percentile_def Let_def split: if_splits)
  have alerts: "map la_severity (sn_alerts s) = map (fst \<circ> snd) raised"
    and state: "sn_state s = fst (judge_liquidity (map (fst \<circ> snd) raised) True)"
    using assms lat
    by (auto simp: build_snapshot_def Let_def raised_def severities_of_alerts split: if_splits prod.splits)
  from alerts have "sn_alerts s = [] \<longleftrightarrow> raised = []" by (metis map_is_Nil_conv)
  then show ?thesis by (simp add: state alerts judge_liquidity_def)
qed

text \<open>A snapshot is halted exactly when one of its alerts is critical, guarded when it has only warnings, and on watch
  when it has none: the state \<open>normal\<close> is never reached.\<close>

theorem liquidity_state_levels:
  assumes "build_snapshot env t symb items = Inr s"
  shows "sn_state s = (if ''critical'' \<in> set (map la_severity (sn_alerts s)) then ''halted''
    else if sn_alerts s \<noteq> [] then ''guarded'' else ''watch'')"
  using assms by (rule snapshot_state)

text \<open>C10: When an update ends halted or guarded, the gate file it leaves holds that liquidity state with auto-execute off.\<close>

theorem liquidity_stops_auto_execute:
  assumes "update_liquidity_monitor env samples window_sec thresholds m = (m', Inr s)" "sn_state s \<in> {''guarded'', ''halted''}"
  shows "\<exists>g. lm_gate_file m' = Some (Some (PDict (gate_to_dict g))) \<and>
    lg_state (mg_liquidity (gs_market g)) = sn_state s \<and> \<not> gs_auto_execute g"
proof -
  obtain parsed kept where "parse_samples (le_now env) samples = Inr parsed" "parsed \<noteq> []"
    and k: "prune_all (le_now env) window_sec (foldl (\<lambda>d s. add_sample s d) (lm_samples m) parsed) = (kept, None)"
    and b: "build_snapshot env (case thresholds of None \<Rightarrow> default_thresholds | Some x \<Rightarrow> x) (ls_symbol (last parsed))
       (case map_of kept (ls_symbol (last parsed)) of None \<Rightarrow> [] | Some xs \<Rightarrow> xs) = Inr s"
    and r: "record_snapshot env s (m\<lparr>lm_samples := kept\<rparr>) = (m', Inr s)"
    using assms(1) by (rule update_success)
  from update_gate_state_file [OF record_snapshot_result(3) [OF r]] assms(2) show ?thesis by blast
qed

text \<open>The gate follows the symbol of the last sample alone: while another symbol's latest snapshot stays halted, a
  quiet update of a second symbol writes its own state into the gate.\<close>

theorem gate_follows_last_symbol:
  assumes "update_liquidity_monitor env samples window_sec thresholds m = (m', Inr s)"
    and "map_of (lm_latest m) other = Some h" "sn_state h = ''halted''" "other \<noteq> sn_symbol s" "sn_alerts s = []"
  shows "map_of (lm_latest m') other = Some h \<and>
    (\<exists>g. lm_gate_file m' = Some (Some (PDict (gate_to_dict g))) \<and> lg_state (mg_liquidity (gs_market g)) = ''watch'')"
proof -
  obtain parsed kept where "parse_samples (le_now env) samples = Inr parsed" "parsed \<noteq> []"
    and k: "prune_all (le_now env) window_sec (foldl (\<lambda>d s. add_sample s d) (lm_samples m) parsed) = (kept, None)"
    and b: "build_snapshot env (case thresholds of None \<Rightarrow> default_thresholds | Some x \<Rightarrow> x) (ls_symbol (last parsed))
       (case map_of kept (ls_symbol (last parsed)) of None \<Rightarrow> [] | Some xs \<Rightarrow> xs) = Inr s"
    and r: "record_snapshot env s (m\<lparr>lm_samples := kept\<rparr>) = (m', Inr s)"
    using assms(1) by (rule update_success)
  have "sn_state s = ''watch''" using snapshot_state [OF b] assms(5) by simp
  with update_gate_state_file [OF record_snapshot_result(3) [OF r]] record_snapshot_result(2) [OF r] assms(2,4)
  show ?thesis by auto
qed

section \<open>The window\<close>

lemma prune_samples_result:
  assumes "prune_samples now w xs = Inr ys" "y \<in> set ys"
  shows "epoch_us now - epoch_us (ls_ts y) \<le> w * 1000000 \<and> y \<in> set xs"
proof -
  obtain bs where "map_res (in_window now w) xs = Inr bs" and ys: "ys = map snd (filter fst (zip bs xs))"
    using assms(1) by (auto simp: prune_samples_def elim!: bind_res_InrE)
  then have all: "list_all2 (\<lambda>x b. in_window now w x = Inr b) xs bs" by (simp add: map_res_list_all2)
  from assms(2) obtain i where i: "i < length bs" "i < length xs" "bs ! i" "xs ! i = y"
    by (auto simp: ys set_zip)
  with all have "in_window now w y = Inr True" by (auto simp: list_all2_conv_all_nth)
  with i show ?thesis by (auto simp: in_window_def split: if_splits)
qed

lemma prune_all_result:
  "prune_all now w d = (kept, None) \<Longrightarrow> map_of kept k = Some ys \<Longrightarrow> \<exists>xs. prune_samples now w xs = Inr ys"
proof (induction d arbitrary: kept)
  case (Cons p d)
  obtain j xs where p: "p = (j, xs)" by (cases p)
  from Cons.prems(1) obtain zs rest where z: "prune_samples now w xs = Inr zs" "prune_all now w d = (rest, None)"
      "kept = (j, zs) # rest"
    by (auto simp: p split: sum.splits prod.splits)
  show ?case
  proof (cases "j = k")
    case True
    with Cons.prems(2) z show ?thesis by auto
  next
    case False
    with Cons.prems(2) z Cons.IH [OF z(2)] show ?thesis by simp
  qed
qed simp

text \<open>After a successful update every sample kept, of any symbol, is within the window.\<close>

theorem samples_within_window:
  assumes "update_liquidity_monitor env samples window_sec thresholds m = (m', Inr s)"
    and "map_of (lm_samples m') symb = Some xs" "x \<in> set xs"
  shows "epoch_us (le_now env) - epoch_us (ls_ts x) \<le> window_sec * 1000000"
proof -
  obtain parsed kept where "parse_samples (le_now env) samples = Inr parsed" "parsed \<noteq> []"
    and k: "prune_all (le_now env) window_sec (foldl (\<lambda>d s. add_sample s d) (lm_samples m) parsed) = (kept, None)"
    and b: "build_snapshot env (case thresholds of None \<Rightarrow> default_thresholds | Some x \<Rightarrow> x) (ls_symbol (last parsed))
       (case map_of kept (ls_symbol (last parsed)) of None \<Rightarrow> [] | Some xs \<Rightarrow> xs) = Inr s"
    and r: "record_snapshot env s (m\<lparr>lm_samples := kept\<rparr>) = (m', Inr s)"
    using assms(1) by (rule update_success)
  have "lm_samples m' = kept" using record_snapshot_result(1) [OF r] by simp
  with prune_all_result [OF k] assms(2,3) prune_samples_result show ?thesis by metis
qed

section \<open>A naive timestamp\<close>

text \<open>Some symbol holds a sample without a time zone.\<close>

definition poisoned :: "(string \<times> liq_sample list) list \<Rightarrow> bool" where
  "poisoned d \<longleftrightarrow> (\<exists>k xs s. map_of d k = Some xs \<and> s \<in> set xs \<and> tzo (ls_ts s) = None)"

lemma poisoned_add:
  assumes "poisoned d"
  shows "poisoned (add_sample s d)"
proof -
  obtain k xs x where x: "map_of d k = Some xs" "x \<in> set xs" "tzo (ls_ts x) = None" using assms by (auto simp: poisoned_def)
  then have "\<exists>ys. map_of (add_sample s d) k = Some ys \<and> x \<in> set ys"
    by (cases "k = ls_symbol s") (simp_all add: add_sample_def)
  with x(3) show ?thesis by (auto simp: poisoned_def)
qed

lemma poisoned_add_naive: "tzo (ls_ts s) = None \<Longrightarrow> poisoned (add_sample s d)"
  by (auto simp: poisoned_def add_sample_def intro!: exI [of _ "ls_symbol s"])

lemma poisoned_adds: "poisoned d \<Longrightarrow> poisoned (foldl (\<lambda>d s. add_sample s d) d xs)"
  by (induction xs arbitrary: d) (auto intro: poisoned_add)

lemma poisoned_adds_naive: "s \<in> set xs \<Longrightarrow> tzo (ls_ts s) = None \<Longrightarrow> poisoned (foldl (\<lambda>d s. add_sample s d) d xs)"
  by (induction xs arbitrary: d) (auto intro: poisoned_adds poisoned_add_naive)

lemma prune_naive: "s \<in> set xs \<Longrightarrow> tzo (ls_ts s) = None \<Longrightarrow> \<exists>e. prune_samples now w xs = Inl e"
proof -
  assume s: "s \<in> set xs" "tzo (ls_ts s) = None"
  have "map_res (in_window now w) xs \<noteq> Inr bs" for bs
    using list_all2_mem1 [of "\<lambda>x y. in_window now w x = Inr y" xs bs s] s by (auto simp: map_res_list_all2 in_window_def)
  then show ?thesis by (cases "map_res (in_window now w) xs") (auto simp: prune_samples_def)
qed

lemma poisoned_prune: "poisoned d \<Longrightarrow> \<exists>kept e. prune_all now w d = (kept, Some e) \<and> poisoned kept"
proof (induction d)
  case Nil
  then show ?case by (simp add: poisoned_def)
next
  case (Cons p d)
  obtain k xs where p: "p = (k, xs)" by (cases p)
  show ?case
  proof (cases "prune_samples now w xs")
    case (Inl e)
    with Cons.prems show ?thesis by (simp add: p)
  next
    case (Inr ys)
    then have "\<forall>s \<in> set xs. tzo (ls_ts s) \<noteq> None" using prune_naive [of _ xs now w] by force
    with Cons.prems obtain k' zs s where z: "map_of d k' = Some zs" "s \<in> set zs" "tzo (ls_ts s) = None" "k' \<noteq> k"
      by (auto simp: poisoned_def p split: if_splits)
    then have "poisoned d" by (auto simp: poisoned_def)
    with Cons.IH obtain kept e where ih: "prune_all now w d = (kept, Some e)" by blast
    have keep: "prune_all now w d = (kept, Some e) \<Longrightarrow> map_of d k' = Some zs \<Longrightarrow> map_of kept k' = Some zs" for d kept
    proof (induction d arbitrary: kept)
      case (Cons q d)
      obtain j ws where q: "q = (j, ws)" by (cases q)
      show ?case
      proof (cases "prune_samples now w ws")
        case Inl
        with Cons show ?thesis by (auto simp: q)
      next
        case (Inr vs)
        then have "j \<noteq> k' \<or> ws \<noteq> zs" using prune_naive [OF z(2,3), of now w] by auto
        with Cons Inr show ?thesis by (auto simp: q split: prod.splits if_splits)
      qed
    qed simp
    from keep [OF ih z(1)] have "poisoned ((k, ys) # kept)" using z by (auto simp: poisoned_def)
    with ih Inr show ?thesis by (simp add: p)
  qed
qed

definition liq_step :: "liq_monitor \<Rightarrow> liq_env \<times> sample_input list \<times> int \<times> liq_thresholds option \<Rightarrow> liq_monitor" where
  "liq_step m u = (case u of (env, samples, w, t) \<Rightarrow> fst (update_liquidity_monitor env samples w t m))"

text \<open>An update whose pruning meets a naive timestamp.\<close>

lemma update_meets_naive:
  assumes "parse_samples (le_now env) samples = Inr parsed" "parsed \<noteq> []"
    and "poisoned (foldl (\<lambda>d s. add_sample s d) (lm_samples m) parsed)"
  shows "poisoned (lm_samples (fst (update_liquidity_monitor env samples w t m)))
     \<and> snd (update_liquidity_monitor env samples w t m) \<noteq> Inr s"
proof -
  obtain kept e where "prune_all (le_now env) w (foldl (\<lambda>d s. add_sample s d) (lm_samples m) parsed) = (kept, Some e)" "poisoned kept"
    using poisoned_prune [OF assms(3)] by blast
  then show ?thesis by (simp add: update_liquidity_monitor_def assms(1,2) Let_def)
qed

lemma poisoned_update:
  assumes "poisoned (lm_samples m)"
  shows "poisoned (lm_samples (fst (update_liquidity_monitor env samples w t m)))
     \<and> snd (update_liquidity_monitor env samples w t m) \<noteq> Inr s"
proof (cases "\<exists>parsed. parse_samples (le_now env) samples = Inr parsed \<and> parsed \<noteq> []")
  case True
  then show ?thesis using update_meets_naive poisoned_adds [OF assms] by blast
next
  case False
  with assms show ?thesis
    by (cases "parse_samples (le_now env) samples") (auto simp: update_liquidity_monitor_def)
qed

lemma poisoned_run: "poisoned (lm_samples m) \<Longrightarrow> poisoned (lm_samples (foldl liq_step m ops))"
  by (induction ops arbitrary: m) (auto simp: liq_step_def poisoned_update split: prod.split)

text \<open>One sample with a timestamp that names no time zone disables the monitor: it stays among the samples, and no
  later update ever succeeds, whatever it brings.\<close>

theorem naive_timestamp_disables:
  assumes "parse_samples (le_now e0) xs0 = Inr parsed" "x \<in> set parsed" "tzo (ls_ts x) = None"
  shows "snd (update_liquidity_monitor env samples w t (foldl liq_step (fst (update_liquidity_monitor e0 xs0 w0 t0 m)) ops)) \<noteq> Inr s"
proof -
  have "parsed \<noteq> []" using assms(2) by auto
  with assms(1) have "poisoned (lm_samples (fst (update_liquidity_monitor e0 xs0 w0 t0 m)))"
    using update_meets_naive poisoned_adds_naive [OF assms(2,3)] by blast
  from poisoned_update [OF poisoned_run [OF this]] show ?thesis by blast
qed

section \<open>Witnesses\<close>

definition demo_liq_ts :: pydt where
  "demo_liq_ts = \<lparr>yr = 2025, mo = 3, dy = 14, hh = 9, mi = 30, ss = 0, us = 0, tzo = Some 0\<rparr>"

definition demo_liq_env :: liq_env where
  "demo_liq_env = \<lparr>le_now = demo_liq_ts, le_updated = demo_liq_ts, le_stamp = demo_liq_ts, le_fresh = (\<lambda>_. ([], [])),
     le_hash = \<lparr>he_cfg_path = None, he_cfg_sha = None, he_cfg_hash = None, he_data_hash = None, he_manifest = None\<rparr>\<rparr>"

definition demo_sample :: "string \<Rightarrow> pyfloat \<Rightarrow> pydt \<Rightarrow> liq_sample" where
  "demo_sample symb latency ts = \<lparr>ls_source = ''lp1'', ls_symbol = symb, ls_ts = ts, ls_bid = Fin 1, ls_ask = Fin 1,
     ls_spread = Fin 0, ls_latency = latency, ls_depth = None\<rparr>"

lemma percentile_single: "percentile [x] q = Some x"
  by (simp add: percentile_def Let_def)

lemma demo_snapshot:
  "\<exists>s. build_snapshot demo_liq_env default_thresholds symb [demo_sample symb latency ts] = Inr s \<and> sn_symbol s = symb \<and>
     sn_updated_at s = utc_iso demo_liq_ts \<and>
     map la_severity (sn_alerts s) = (if fge latency (Fin 3000) then [''critical''] else if fge latency (Fin 1500) then [''warning''] else [])"
  by (simp add: build_snapshot_def Let_def latest_by_source_def demo_sample_def percentile_single percentile_def [of "[]"]
      spread_multiplier_def float_median_def raise_alerts_def measure_alert_def judge_liquidity_def default_thresholds_def
      demo_liq_env_def upt_rec)

theorem liquidity_state_levels_witness:
  "\<exists>s. build_snapshot demo_liq_env default_thresholds ''EURUSD'' [demo_sample ''EURUSD'' (Fin 5000) demo_liq_ts] = Inr s
     \<and> sn_state s = ''halted''"
proof -
  obtain s where s: "build_snapshot demo_liq_env default_thresholds ''EURUSD'' [demo_sample ''EURUSD'' (Fin 5000) demo_liq_ts] = Inr s"
    "map la_severity (sn_alerts s) = [''critical'']"
    using demo_snapshot [of "''EURUSD''" "Fin 5000" demo_liq_ts] by auto
  from liquidity_state_levels [OF s(1)] s show ?thesis by simp
qed

lemma demo_gate_update:
  assumes "sn_updated_at s = utc_iso demo_liq_ts"
  shows "\<exists>f'. update_gate_state demo_liq_env s f = Inr f'"
proof -
  have "valid_dt demo_liq_ts" by (simp add: valid_dt_def demo_liq_ts_def month_len_def)
  from utc_iso_roundtrip [OF this] assms show ?thesis
    by (simp add: update_gate_state_def persist_latest_def resolve_hashes_def demo_liq_env_def Let_def)
qed

lemma demo_record:
  assumes "sn_updated_at s = utc_iso demo_liq_ts"
  shows "\<exists>m'. record_snapshot demo_liq_env s m = (m', Inr s)"
proof -
  obtain f' where "update_gate_state demo_liq_env s (lm_gate_file m) = Inr f'" using demo_gate_update [OF assms] by blast
  then show ?thesis by (simp add: record_snapshot_def Let_def)
qed

lemma demo_update:
  assumes "lm_samples m = []"
  shows "\<exists>m' s. update_liquidity_monitor demo_liq_env [IsSample (demo_sample symb latency demo_liq_ts)] 300 None m = (m', Inr s)
    \<and> sn_symbol s = symb \<and> lm_samples m' = [(symb, [demo_sample symb latency demo_liq_ts])] \<and>
     map la_severity (sn_alerts s) = (if fge latency (Fin 3000) then [''critical''] else if fge latency (Fin 1500) then [''warning''] else [])"
proof -
  let ?x = "demo_sample symb latency demo_liq_ts"
  obtain s where s: "build_snapshot demo_liq_env default_thresholds symb [?x] = Inr s" "sn_symbol s = symb"
    "sn_updated_at s = utc_iso demo_liq_ts"
    "map la_severity (sn_alerts s) = (if fge latency (Fin 3000) then [''critical''] else if fge latency (Fin 1500) then [''warning''] else [])"
    using demo_snapshot [of symb latency demo_liq_ts] by blast
  obtain m' where m': "record_snapshot demo_liq_env s (m\<lparr>lm_samples := [(symb, [?x])]\<rparr>) = (m', Inr s)"
    using demo_record [OF s(3)] by blast
  have x: "ls_symbol ?x = symb" "in_window demo_liq_ts 300 ?x = Inr True"
    by (simp_all add: demo_sample_def in_window_def demo_liq_ts_def)
  have "update_liquidity_monitor demo_liq_env [IsSample ?x] 300 None m = (m', Inr s)"
    using s(1) m' by (simp add: update_liquidity_monitor_def assms add_sample_def x prune_samples_def Let_def
        demo_liq_env_def [THEN arg_cong [where f = le_now]])
  with s m' record_snapshot_result(1) [OF m'] show ?thesis by auto
qed

theorem liquidity_stops_auto_execute_witness:
  "\<exists>m' g. fst (update_liquidity_monitor demo_liq_env [IsSample (demo_sample ''EURUSD'' (Fin 5000) demo_liq_ts)] 300 None
      (new_liq_monitor False None)) = m' \<and> lm_gate_file m' = Some (Some (PDict (gate_to_dict g))) \<and> \<not> gs_auto_execute g"
proof -
  obtain m' s where u: "update_liquidity_monitor demo_liq_env [IsSample (demo_sample ''EURUSD'' (Fin 5000) demo_liq_ts)] 300 None
      (new_liq_monitor False None) = (m', Inr s)" and a: "map la_severity (sn_alerts s) = [''critical'']"
    using demo_update [of "new_liq_monitor False None" "''EURUSD''" "Fin 5000"] by (auto simp: new_liq_monitor_def)
  obtain kept where "build_snapshot demo_liq_env default_thresholds ''EURUSD'' kept = Inr s"
    using u by (rule update_success) (auto simp: demo_sample_def split: option.splits)
  from snapshot_state [OF this] a have "sn_state s = ''halted''" by simp
  with liquidity_stops_auto_execute [OF u] u show ?thesis by auto
qed

theorem samples_within_window_witness:
  "\<exists>m' :: liq_monitor. map_of (lm_samples m') ''EURUSD'' = Some [demo_sample ''EURUSD'' (Fin 0) demo_liq_ts] \<and>
     epoch_us (le_now demo_liq_env) - epoch_us (ls_ts (demo_sample ''EURUSD'' (Fin 0) demo_liq_ts)) \<le> 300 * 1000000"
proof -
  obtain m' s where u: "update_liquidity_monitor demo_liq_env [IsSample (demo_sample ''EURUSD'' (Fin 0) demo_liq_ts)] 300 None
      (new_liq_monitor False None) = (m', Inr s)" "lm_samples m' = [(''EURUSD'', [demo_sample ''EURUSD'' (Fin 0) demo_liq_ts])]"
    using demo_update [of "new_liq_monitor False None" "''EURUSD''" "Fin 0"] by (auto simp: new_liq_monitor_def)
  show ?thesis by (rule exI [of _ m']) (use samples_within_window [OF u(1), of "''EURUSD''"] u(2) in simp)
qed

definition halted_snapshot :: liq_snapshot where
  "halted_snapshot = \<lparr>sn_symbol = ''USDJPY'', sn_state = ''halted'', sn_divergence = Some (Fin 5), sn_latency = None,
     sn_spread = None, sn_stale_ratio = None, sn_alerts = [], sn_recommendation = ''halted'', sn_runbook = None,
     sn_updated_at = [], sn_sources = []\<rparr>"

theorem gate_follows_last_symbol_witness:
  "\<exists>(m' :: liq_monitor) g. map_of (lm_latest m') ''USDJPY'' = Some halted_snapshot \<and> lm_gate_file m' = Some (Some (PDict (gate_to_dict g)))
     \<and> lg_state (mg_liquidity (gs_market g)) = ''watch''"
proof -
  let ?m = "(new_liq_monitor False None)\<lparr>lm_latest := [(''USDJPY'', halted_snapshot)]\<rparr>"
  obtain m' s where u: "update_liquidity_monitor demo_liq_env [IsSample (demo_sample ''EURUSD'' (Fin 0) demo_liq_ts)] 300 None ?m
      = (m', Inr s)" "sn_symbol s = ''EURUSD''" "sn_alerts s = []"
    using demo_update [of ?m "''EURUSD''" "Fin 0"] by (auto simp: new_liq_monitor_def)
  have h: "sn_state halted_snapshot = ''halted''" by (simp add: halted_snapshot_def)
  show ?thesis using gate_follows_last_symbol [OF u(1), of "''USDJPY''" halted_snapshot] u(2,3) h by auto
qed

theorem naive_timestamp_disables_witness:
  "snd (update_liquidity_monitor demo_liq_env [IsSample (demo_sample ''EURUSD'' (Fin 0) demo_liq_ts)] 300 None
     (foldl liq_step (fst (update_liquidity_monitor demo_liq_env
        [IsSample (demo_sample ''EURUSD'' (Fin 0) (demo_liq_ts\<lparr>tzo := None\<rparr>))] 300 None (new_liq_monitor False None))) []))
     \<noteq> Inr halted_snapshot"
  by (rule naive_timestamp_disables [where parsed = "[demo_sample ''EURUSD'' (Fin 0) (demo_liq_ts\<lparr>tzo := None\<rparr>)]"
      and x = "demo_sample ''EURUSD'' (Fin 0) (demo_liq_ts\<lparr>tzo := None\<rparr>)"])
    (simp_all add: demo_sample_def demo_liq_ts_def)

end
