(* ===== verification/Scheduler.thy ===== *)
theory Scheduler
  imports PyDate Systems
begin

text \<open>
  The job scheduler of \<open>core/scheduler.py\<close>: interval jobs with retries, one-shot jobs, the registry
  and the scheduler over it. An interval job is its record; the locals of its \<open>run\<close> loop are a
  record of their own, and a round of the loop is a step on them, given the loop's clock readings,
  the jitter drawn and what the coroutine did. The metrics file is shared, so it is a list of its
  own.

  Shown: an interval job ends with its exception exactly at the first run of \<open>max_attempts\<close> failures
  in a row (against a specification on the list of outcomes), and without a limit never; a failed
  round sleeps the backoff and then the interval as well; the registry is a finite map that refuses
  a second job of one name; and \<open>Scheduler.defer_retry\<close> raises for every registered job.
\<close>

section \<open>Jobs\<close>

text \<open>A job's task: none yet, not done, asked to cancel and not done, or done.\<close>

datatype task = NoTask | Running | Cancelling | TaskDone

record interval_job =
  ij_name :: string
  ij_interval :: pyfloat
  ij_max_attempts :: "int option"
  ij_backoff :: "pyfloat option"
  ij_override :: "pyfloat option"
  ij_jitter :: pyfloat
  ij_max_skips :: int
  ij_lag_warn :: "pyfloat option"
  ij_lag_base :: "pyfloat option"
  ij_task :: task

definition new_interval_job :: "string \<Rightarrow> pyfloat \<Rightarrow> int option \<Rightarrow> pyfloat option \<Rightarrow> interval_job" where
  "new_interval_job name interval max_attempts backoff = \<lparr>ij_name = name, ij_interval = interval,
     ij_max_attempts = max_attempts, ij_backoff = backoff, ij_override = None, ij_jitter = rnd (1 / 10), ij_max_skips = 1,
     ij_lag_warn = None, ij_lag_base = None, ij_task = NoTask\<rparr>"

record one_shot_job =
  oj_name :: string
  oj_run_at :: "pydt option"
  oj_delay :: "pyfloat option"
  oj_task :: task

text \<open>\<open>x or y\<close> on optional floats: None and zero are false.\<close>

definition float_or :: "pyfloat option \<Rightarrow> pyfloat \<Rightarrow> pyfloat" where
  "float_or a b = (case a of None \<Rightarrow> b | Some x \<Rightarrow> if x = Fin 0 then b else x)"

definition float_or_opt :: "pyfloat option \<Rightarrow> pyfloat option \<Rightarrow> pyfloat option" where
  "float_or_opt a b = (case a of None \<Rightarrow> b | Some x \<Rightarrow> if x = Fin 0 then b else a)"

section \<open>The loop of an interval job\<close>

datatype job_outcome = Succeeded | Raised | CancelRaised

record loop_locals =
  ll_attempts :: int
  ll_next :: pyfloat
  ll_skips :: int
  ll_override :: "pyfloat option"
  ll_sleeps :: "pyfloat list"
  ll_metrics :: "pyval list"

text \<open>The readings of one round: the loop's clock before and after, the outcome of the coroutine, the
  delays given to \<open>defer_retry\<close> before the pause is computed, the number drawn by
  \<open>random.uniform\<close>, and the stamps of the metrics.\<close>

record round_env =
  rd_started :: pyfloat
  rd_outcome :: job_outcome
  rd_defers :: "pyfloat option list"
  rd_uniform :: pyfloat
  rd_ended :: pyfloat
  rd_stamp :: pydt
  rd_stamp_lag :: pydt
  rd_stamp_skip :: pydt

definition job_metric :: "string \<Rightarrow> string \<Rightarrow> string \<Rightarrow> pyfloat \<Rightarrow> pyfloat \<Rightarrow> pyfloat \<Rightarrow> pydt \<Rightarrow> pyfloat option \<Rightarrow> pyval" where
  "job_metric event name status scheduled started lag stamp retry_delay = PDict ([(''event'', PStr event), (''job'', PStr name),
     (''status'', PStr status), (''scheduled_at'', PFloat scheduled), (''started_at'', PFloat started), (''lag_ms'', PFloat lag),
     (''ts'', PStr (isoformat stamp))] @ (case retry_delay of None \<Rightarrow> [] | Some d \<Rightarrow> [(''retry_delay'', PFloat d)]))"

definition interval_metric ::
  "interval_job \<Rightarrow> string \<Rightarrow> pyfloat \<Rightarrow> pyfloat \<Rightarrow> pyfloat \<Rightarrow> pydt \<Rightarrow> pyfloat option \<Rightarrow> loop_locals \<Rightarrow> loop_locals" where
  "interval_metric j status scheduled started lag stamp retry_delay l = l\<lparr>ll_metrics := ll_metrics l
     @ [job_metric ''scheduler.interval'' (ij_name j) status scheduled started lag stamp retry_delay]\<rparr>"

definition lag_ms :: "pyfloat \<Rightarrow> pyfloat \<Rightarrow> pyfloat" where
  "lag_ms scheduled started = fmax (Fin 0) (fmul (fsub started scheduled) (Fin 1000))"

definition warn_threshold :: "interval_job \<Rightarrow> pyfloat" where
  "warn_threshold j = float_or (ij_lag_warn j)
     (fmax (fmul (float_or (ij_lag_base j) (fmul (ij_interval j) (Fin 1000))) (Fin (3 / 2))) (Fin 2000))"

text \<open>\<open>defer_retry\<close> of the job.\<close>

definition deferral :: "interval_job \<Rightarrow> pyfloat option \<Rightarrow> pyfloat" where
  "deferral j delay = (case delay of Some d \<Rightarrow> d | None \<Rightarrow> float_or (ij_backoff j) (ij_interval j))"

definition defer_interval :: "pyfloat option \<Rightarrow> interval_job \<Rightarrow> interval_job" where
  "defer_interval delay j = j\<lparr>ij_override := Some (deferral j delay)\<rparr>"

definition retry_delay :: "interval_job \<Rightarrow> pyfloat" where
  "retry_delay j = (case ij_backoff j of Some d \<Rightarrow> d | None \<Rightarrow> ij_interval j)"

datatype loop_end = Continues | EndsFailed | EndsCancelled

text \<open>The part up to the coroutine's outcome: the metrics, the count of attempts and the retry sleep.\<close>

definition after_coroutine :: "interval_job \<Rightarrow> round_env \<Rightarrow> loop_locals \<Rightarrow> loop_locals \<times> loop_end" where
  "after_coroutine j e l =
     (let scheduled = ll_next l; started = rd_started e; lag = lag_ms scheduled started;
          late = fgt lag (warn_threshold j); skips = (if late then ll_skips l + 1 else 0);
          l1 = l\<lparr>ll_skips := skips\<rparr>;
          metric = (\<lambda>status stamp d. interval_metric j status scheduled started lag stamp d)
      in case rd_outcome e of
           CancelRaised \<Rightarrow> (l1, EndsCancelled)
         | Raised \<Rightarrow> (let n = ll_attempts l + 1; l2 = l1\<lparr>ll_attempts := n\<rparr> in
             if (case ij_max_attempts j of None \<Rightarrow> False | Some m \<Rightarrow> m \<le> n)
             then (metric ''failed'' (rd_stamp e) None l2, EndsFailed)
             else let l3 = metric ''retry'' (rd_stamp e) (Some (retry_delay j)) l2
                  in (l3\<lparr>ll_sleeps := ll_sleeps l3 @ [retry_delay j]\<rparr>, Continues))
         | Succeeded \<Rightarrow> (let l2 = metric ''ok'' (rd_stamp e) None (l1\<lparr>ll_attempts := 0\<rparr>);
               l3 = (if late then metric ''lag_warn'' (rd_stamp_lag e) None l2 else l2)
             in (if ij_max_skips j < skips then metric ''skipped_excess'' (rd_stamp_skip e) None l3 else l3, Continues)))"

text \<open>The pause before the next round.\<close>

definition pause :: "interval_job \<Rightarrow> round_env \<Rightarrow> loop_locals \<Rightarrow> loop_locals" where
  "pause j e l =
     (let override = (case rd_defers e of [] \<Rightarrow> ll_override l | ds \<Rightarrow> Some (deferral j (last ds)));
          s0 = (case override of Some d \<Rightarrow> d | None \<Rightarrow> ij_interval j);
          s = (if ij_jitter j = Fin 0 then s0 else fmax (Fin 0) (fmul s0 (fadd (Fin 1) (rd_uniform e))))
      in l\<lparr>ll_override := None, ll_next := fadd (rd_ended e) s, ll_sleeps := ll_sleeps l @ (if fgt s (Fin 0) then [s] else [])\<rparr>)"

definition interval_round :: "interval_job \<Rightarrow> round_env \<Rightarrow> loop_locals \<Rightarrow> loop_locals \<times> loop_end" where
  "interval_round j e l = (case after_coroutine j e l of (l1, Continues) \<Rightarrow> (pause j e l1, Continues) | x \<Rightarrow> x)"

definition loop_start :: "interval_job \<Rightarrow> pyfloat \<Rightarrow> loop_locals" where
  "loop_start j now = \<lparr>ll_attempts = 0, ll_next = now, ll_skips = 0, ll_override = ij_override j, ll_sleeps = [], ll_metrics = []\<rparr>"

text \<open>The loop over the rounds there are; \<open>Continues\<close> where it has not ended within them.\<close>

fun run_rounds :: "interval_job \<Rightarrow> round_env list \<Rightarrow> loop_locals \<Rightarrow> loop_locals \<times> loop_end" where
  "run_rounds j [] l = (l, Continues)"
| "run_rounds j (e # es) l = (case interval_round j e l of (l1, Continues) \<Rightarrow> run_rounds j es l1 | x \<Rightarrow> x)"

definition run_interval_job :: "interval_job \<Rightarrow> pyfloat \<Rightarrow> round_env list \<Rightarrow> loop_locals \<times> loop_end" where
  "run_interval_job j now es = run_rounds j es (loop_start j now)"

section \<open>One-shot jobs\<close>

definition defer_one_shot :: "pyfloat option \<Rightarrow> one_shot_job \<Rightarrow> one_shot_job" where
  "defer_one_shot delay j = (case delay of Some d \<Rightarrow> j\<lparr>oj_delay := Some d\<rparr> | None \<Rightarrow> j)"

text \<open>The delay before the run: subtracting the clock from a naive \<open>run_at\<close> raises.\<close>

definition one_shot_delay :: "pydt \<Rightarrow> one_shot_job \<Rightarrow> pyfloat res" where
  "one_shot_delay now j = (let d = float_or (oj_delay j) (Fin 0) in case oj_run_at j of None \<Rightarrow> Inr d
     | Some t \<Rightarrow> if tzo t = None then Inl TypeError
         else Inr (fmax d (rnd (of_int (epoch_us t - epoch_us now) / 1000000))))"

record one_shot_result =
  or_sleeps :: "pyfloat list"
  or_metrics :: "pyval list"
  or_end :: job_outcome

definition run_one_shot :: "pydt \<Rightarrow> pyfloat \<Rightarrow> pyfloat \<Rightarrow> job_outcome \<Rightarrow> pydt \<Rightarrow> one_shot_job \<Rightarrow> one_shot_result res" where
  "run_one_shot now scheduled started outcome stamp j = bind_res (one_shot_delay now j) (\<lambda>d.
     let metric = (\<lambda>status. job_metric ''scheduler.one_shot'' (oj_name j) status scheduled started (lag_ms scheduled started) stamp None)
     in Inr \<lparr>or_sleeps = (if fgt d (Fin 0) then [d] else []),
             or_metrics = (case outcome of Succeeded \<Rightarrow> [metric ''ok''] | Raised \<Rightarrow> [metric ''failed''] | CancelRaised \<Rightarrow> []),
             or_end = outcome\<rparr>)"

section \<open>The registry and the scheduler\<close>

datatype job = Interval interval_job | OneShot one_shot_job

fun job_name :: "job \<Rightarrow> string" where
  "job_name (Interval j) = ij_name j"
| "job_name (OneShot j) = oj_name j"

fun job_task :: "job \<Rightarrow> task" where
  "job_task (Interval j) = ij_task j"
| "job_task (OneShot j) = oj_task j"

fun set_task :: "task \<Rightarrow> job \<Rightarrow> job" where
  "set_task t (Interval j) = Interval (j\<lparr>ij_task := t\<rparr>)"
| "set_task t (OneShot j) = OneShot (j\<lparr>oj_task := t\<rparr>)"

definition start_job :: "job \<Rightarrow> job" where
  "start_job j = (if job_task j = NoTask \<or> job_task j = TaskDone then set_task Running j else j)"

definition cancel_job :: "job \<Rightarrow> job" where
  "cancel_job j = (if job_task j = Running then set_task Cancelling j else j)"

type_synonym registry = "(string \<times> job) list"

definition register_job :: "job \<Rightarrow> registry \<Rightarrow> registry res" where
  "register_job j r = (if map_of r (job_name j) \<noteq> None then Inl ValueError else Inr (AList.update (job_name j) j r))"

definition unregister_job :: "string \<Rightarrow> registry \<Rightarrow> registry" where
  "unregister_job name r = AList.delete name r"

definition get_job :: "string \<Rightarrow> registry \<Rightarrow> job res" where
  "get_job name r = (case map_of r name of None \<Rightarrow> Inl KeyError | Some j \<Rightarrow> Inr j)"

definition list_jobs :: "registry \<Rightarrow> job list" where
  "list_jobs r = map snd r"

record scheduler =
  sc_jobs :: registry
  sc_retry_delay :: "pyfloat option"
  sc_timeout :: "pyfloat option"
  sc_max_retries :: int

definition start_scheduler :: "scheduler \<Rightarrow> scheduler" where
  "start_scheduler s = s\<lparr>sc_jobs := map (\<lambda>(k, j). (k, start_job j)) (sc_jobs s)\<rparr>"

text \<open>The jobs whose tasks \<open>run\<close> waits for.\<close>

definition run_scheduler :: "scheduler \<Rightarrow> scheduler \<times> string list" where
  "run_scheduler s = (let s1 = start_scheduler s
     in (s1, map fst (filter (\<lambda>(k, j). job_task j \<noteq> NoTask) (sc_jobs s1))))"

text \<open>A cancelled job leaves the registry; its task is asked to cancel.\<close>

definition cancel_scheduled :: "string \<Rightarrow> scheduler \<Rightarrow> scheduler \<times> job option" where
  "cancel_scheduled name s = (case get_job name (sc_jobs s) of Inl _ \<Rightarrow> (s, None)
     | Inr j \<Rightarrow> (s\<lparr>sc_jobs := unregister_job name (sc_jobs s)\<rparr>, Some (cancel_job j)))"

text \<open>\<open>SupportsDeferRetry\<close> is a protocol not declared \<open>runtime_checkable\<close>, so \<open>isinstance\<close> with it raises.\<close>

definition isinstance_defer_retry :: "job \<Rightarrow> bool res" where
  "isinstance_defer_retry j = Inl TypeError"

definition defer_job :: "pyfloat option \<Rightarrow> job \<Rightarrow> job" where
  "defer_job delay j = (case j of Interval i \<Rightarrow> Interval (defer_interval delay i) | OneShot o1 \<Rightarrow> OneShot (defer_one_shot delay o1))"

definition defer_scheduled :: "string \<Rightarrow> pyfloat option \<Rightarrow> scheduler \<Rightarrow> scheduler res" where
  "defer_scheduled name delay s = bind_res (get_job name (sc_jobs s)) (\<lambda>j. bind_res (isinstance_defer_retry j) (\<lambda>ok.
     Inr (if ok then s\<lparr>sc_jobs := AList.update name (defer_job (float_or_opt delay (sc_retry_delay s)) j) (sc_jobs s)\<rparr> else s)))"

definition add_interval_job :: "interval_job \<Rightarrow> scheduler \<Rightarrow> scheduler res" where
  "add_interval_job j s =
     (let j1 = (if ij_backoff j = None then j\<lparr>ij_backoff := float_or_opt (sc_retry_delay s) (ij_backoff j)\<rparr> else j);
          j2 = (if ij_max_attempts j1 = None then j1\<lparr>ij_max_attempts := Some (sc_max_retries s)\<rparr> else j1)
      in bind_res (register_job (Interval j2) (sc_jobs s)) (\<lambda>r. Inr (s\<lparr>sc_jobs := r\<rparr>)))"

definition add_one_shot_job :: "one_shot_job \<Rightarrow> scheduler \<Rightarrow> scheduler res" where
  "add_one_shot_job j s = bind_res (register_job (OneShot j) (sc_jobs s)) (\<lambda>r. Inr (s\<lparr>sc_jobs := r\<rparr>))"

text \<open>\<open>shutdown\<close>: every job is asked to cancel and the registry is emptied; the second component is what it waited
  for, with a timeout of zero where none is set.\<close>

definition shutdown_scheduler :: "scheduler \<Rightarrow> scheduler \<times> (job list \<times> pyfloat)" where
  "shutdown_scheduler s =
     (s\<lparr>sc_jobs := []\<rparr>, (filter (\<lambda>j. job_task j \<noteq> NoTask) (map cancel_job (list_jobs (sc_jobs s))), float_or (sc_timeout s) (Fin 0)))"

section \<open>When an interval job ends\<close>

text \<open>A list of outcomes has \<open>n\<close> failures in a row before any cancellation.\<close>

definition fails_in_a_row :: "nat \<Rightarrow> job_outcome list \<Rightarrow> bool" where
  "fails_in_a_row n os \<longleftrightarrow> (\<exists>pre suf. os = pre @ replicate n Raised @ suf \<and> CancelRaised \<notin> set pre)"

text \<open>The count of attempts, apart from everything else a round does.\<close>

fun attempts_run_out :: "int \<Rightarrow> int \<Rightarrow> job_outcome list \<Rightarrow> bool" where
  "attempts_run_out m a [] = False"
| "attempts_run_out m a (out # os) = (case out of
       CancelRaised \<Rightarrow> False
     | Raised \<Rightarrow> m \<le> a + 1 \<or> attempts_run_out m (a + 1) os
     | Succeeded \<Rightarrow> attempts_run_out m 0 os)"

lemma fails_in_a_row_Cons:
  "0 < n \<Longrightarrow> fails_in_a_row n (out # os) \<longleftrightarrow>
     (out = Raised \<and> (\<exists>suf. os = replicate (n - 1) Raised @ suf)) \<or> (out \<noteq> CancelRaised \<and> fails_in_a_row n os)"
proof -
  assume n: "0 < n"
  then obtain k where k: "n = Suc k" by (cases n) auto
  show ?thesis
  proof
    assume "fails_in_a_row n (out # os)"
    then obtain pre suf where "out # os = pre @ replicate n Raised @ suf" "CancelRaised \<notin> set pre"
      by (auto simp: fails_in_a_row_def)
    then show "(out = Raised \<and> (\<exists>suf. os = replicate (n - 1) Raised @ suf)) \<or> (out \<noteq> CancelRaised \<and> fails_in_a_row n os)"
      by (cases pre) (auto simp: k fails_in_a_row_def)
  next
    assume "(out = Raised \<and> (\<exists>suf. os = replicate (n - 1) Raised @ suf)) \<or> (out \<noteq> CancelRaised \<and> fails_in_a_row n os)"
    then show "fails_in_a_row n (out # os)"
    proof
      assume "out = Raised \<and> (\<exists>suf. os = replicate (n - 1) Raised @ suf)"
      then have "\<exists>suf. out # os = [] @ replicate n Raised @ suf" by (simp add: k)
      then show ?thesis unfolding fails_in_a_row_def by (metis empty_iff list.set(1))
    next
      assume "out \<noteq> CancelRaised \<and> fails_in_a_row n os"
      then obtain pre suf where "out # os = (out # pre) @ replicate n Raised @ suf" "CancelRaised \<notin> set (out # pre)"
        by (auto simp: fails_in_a_row_def)
      then show ?thesis unfolding fails_in_a_row_def by blast
    qed
  qed
qed

lemma replicate_prefix_shorter:
  "os = replicate n x @ suf \<Longrightarrow> k \<le> n \<Longrightarrow> \<exists>suf'. os = replicate k x @ suf'"
proof -
  assume "os = replicate n x @ suf" "k \<le> n"
  then have "os = replicate k x @ (replicate (n - k) x @ suf)" by (simp flip: replicate_add append_assoc)
  then show ?thesis by blast
qed

lemma attempts_run_out_spec:
  assumes "0 \<le> a" "a < max 1 m"
  shows "attempts_run_out m a os \<longleftrightarrow>
    (\<exists>suf. os = replicate (nat (max 1 m - a)) Raised @ suf) \<or> fails_in_a_row (nat (max 1 m)) os"
  using assms
proof (induction os arbitrary: a)
  case Nil
  then show ?case by (auto simp: fails_in_a_row_def)
next
  case (Cons out os)
  let ?n = "nat (max 1 m)"
  have n: "0 < ?n" by simp
  obtain k where k: "nat (max 1 m - a) = Suc k" using Cons.prems by (cases "nat (max 1 m - a)") auto
  show ?case
  proof (cases out)
    case Succeeded
    have "attempts_run_out m 0 os \<longleftrightarrow> fails_in_a_row ?n os"
      using Cons.IH [of 0] by (auto simp: fails_in_a_row_def intro: exI [of _ "[]"])
    then show ?thesis using Succeeded by (simp add: fails_in_a_row_Cons [OF n] k)
  next
    case CancelRaised
    then show ?thesis by (simp add: fails_in_a_row_Cons [OF n] k)
  next
    case Raised
    show ?thesis
    proof (cases "m \<le> a + 1")
      case True
      then have "k = 0" using k Cons.prems by linarith
      with True Raised k show ?thesis by simp
    next
      case False
      have k': "nat (max 1 m - (a + 1)) = k" using k False by linarith
      have ih: "attempts_run_out m (a + 1) os \<longleftrightarrow> (\<exists>suf. os = replicate k Raised @ suf) \<or> fails_in_a_row ?n os"
      proof -
        have "0 \<le> a + 1" "a + 1 < max 1 m" using Cons.prems False by linarith+
        then show ?thesis using Cons.IH [of "a + 1"] by (simp only: k')
      qed
      have le: "k \<le> ?n - 1" using k Cons.prems by linarith
      have "(\<exists>suf. os = replicate (?n - 1) Raised @ suf) \<Longrightarrow> (\<exists>suf. os = replicate k Raised @ suf)"
        by (metis replicate_prefix_shorter le)
      moreover have "attempts_run_out m a (Raised # os) = attempts_run_out m (a + 1) os" using False by simp
      moreover have "(\<exists>suf. Raised # os = replicate (nat (max 1 m - a)) Raised @ suf) \<longleftrightarrow> (\<exists>suf. os = replicate k Raised @ suf)"
        by (simp only: k replicate_Suc append_Cons list.inject) simp
      moreover have "fails_in_a_row ?n (Raised # os) \<longleftrightarrow> (\<exists>suf. os = replicate (?n - 1) Raised @ suf) \<or> fails_in_a_row ?n os"
        by (simp only: fails_in_a_row_Cons [OF n]) blast
      ultimately show ?thesis unfolding Raised using ih by blast
    qed
  qed
qed

lemma interval_round_end:
  "snd (interval_round j e l) = (case rd_outcome e of CancelRaised \<Rightarrow> EndsCancelled | Succeeded \<Rightarrow> Continues
     | Raised \<Rightarrow> (case ij_max_attempts j of None \<Rightarrow> Continues | Some m \<Rightarrow> if m \<le> ll_attempts l + 1 then EndsFailed else Continues))"
  by (simp add: interval_round_def after_coroutine_def Let_def split: job_outcome.split option.split)

lemma interval_round_attempts:
  "snd (interval_round j e l) = Continues \<Longrightarrow>
     ll_attempts (fst (interval_round j e l)) = (if rd_outcome e = Raised then ll_attempts l + 1 else 0)"
  by (cases "rd_outcome e") (auto simp: interval_round_def after_coroutine_def Let_def pause_def interval_metric_def
      split: option.splits if_splits)

lemma run_rounds_Cons:
  "run_rounds j (e # es) l = (if snd (interval_round j e l) = Continues then run_rounds j es (fst (interval_round j e l))
     else interval_round j e l)"
  by (cases "interval_round j e l"; cases "snd (interval_round j e l)") simp_all

lemma run_rounds_end:
  assumes "ij_max_attempts j = Some m"
  shows "snd (run_rounds j es l) = EndsFailed \<longleftrightarrow> attempts_run_out m (ll_attempts l) (map rd_outcome es)"
proof (induction es arbitrary: l)
  case (Cons e es)
  have a: "snd (interval_round j e l) = Continues \<Longrightarrow>
    ll_attempts (fst (interval_round j e l)) = (if rd_outcome e = Raised then ll_attempts l + 1 else 0)"
    by (rule interval_round_attempts)
  show ?case
    using a by (cases "rd_outcome e") (auto simp: run_rounds_Cons interval_round_end assms Cons.IH simp del: run_rounds.simps)
qed simp

text \<open>C8: An interval job ends with its exception exactly when its coroutine has failed \<open>max_attempts\<close> times in a row, or
  once where that is not positive.\<close>

theorem job_fails_exactly:
  assumes "ij_max_attempts j = Some m"
  shows "snd (run_interval_job j now es) = EndsFailed \<longleftrightarrow> fails_in_a_row (nat (max 1 m)) (map rd_outcome es)"
proof -
  have "attempts_run_out m 0 os \<longleftrightarrow> fails_in_a_row (nat (max 1 m)) os" for os
    using attempts_run_out_spec [of 0 m os] by (auto simp: fails_in_a_row_def intro: exI [of _ "[]"])
  then show ?thesis by (simp add: run_interval_job_def run_rounds_end [OF assms] loop_start_def)
qed

text \<open>C20: Without a limit a job goes on through any outcomes but a cancellation.\<close>

theorem unlimited_job_goes_on:
  assumes "ij_max_attempts j = None" "CancelRaised \<notin> set (map rd_outcome es)"
  shows "snd (run_interval_job j now es) = Continues"
proof -
  have "snd (run_rounds j es l) = Continues" for l
    using assms(2)
  proof (induction es arbitrary: l)
    case (Cons e es)
    then have "snd (interval_round j e l) = Continues"
      by (cases "rd_outcome e") (auto simp: interval_round_end assms(1))
    with Cons show ?case by (simp add: run_rounds_Cons del: run_rounds.simps)
  qed simp
  then show ?thesis by (simp add: run_interval_job_def)
qed

text \<open>A round that failed sleeps the retry delay, and then the interval as after any other round.\<close>

theorem failed_round_sleeps_twice:
  assumes "rd_outcome e = Raised" "snd (interval_round j e l) = Continues" "ll_override l = None" "rd_defers e = []"
    and "ij_jitter j = Fin 0" "fgt (ij_interval j) (Fin 0)"
  shows "ll_sleeps (fst (interval_round j e l)) = ll_sleeps l @ [retry_delay j, ij_interval j]"
  using assms by (auto simp: interval_round_def after_coroutine_def Let_def pause_def interval_metric_def split: option.splits if_splits)

section \<open>The registry\<close>

definition registry_ok :: "registry \<Rightarrow> bool" where
  "registry_ok r \<longleftrightarrow> wf_dict r \<and> (\<forall>k j. map_of r k = Some j \<longrightarrow> job_name j = k)"

datatype scheduler_op =
    StartAll
  | RunAll
  | CancelNamed string
  | DeferNamed string "pyfloat option"
  | AddInterval interval_job
  | AddOneShot one_shot_job
  | Shutdown

definition kept :: "'a \<Rightarrow> 'a res \<Rightarrow> 'a" where
  "kept s r = (case r of Inr s' \<Rightarrow> s' | Inl _ \<Rightarrow> s)"

fun scheduler_step :: "scheduler \<Rightarrow> scheduler_op \<Rightarrow> scheduler" where
  "scheduler_step s StartAll = start_scheduler s"
| "scheduler_step s RunAll = fst (run_scheduler s)"
| "scheduler_step s (CancelNamed name) = fst (cancel_scheduled name s)"
| "scheduler_step s (DeferNamed name delay) = kept s (defer_scheduled name delay s)"
| "scheduler_step s (AddInterval j) = kept s (add_interval_job j s)"
| "scheduler_step s (AddOneShot j) = kept s (add_one_shot_job j s)"
| "scheduler_step s Shutdown = fst (shutdown_scheduler s)"

lemma job_name_set_task [simp]: "job_name (set_task t j) = job_name j"
  by (cases j) simp_all

lemma job_name_start [simp]: "job_name (start_job j) = job_name j"
  by (simp add: start_job_def)

lemma registry_ok_map: "(\<And>j. job_name (f j) = job_name j) \<Longrightarrow> registry_ok r \<Longrightarrow> registry_ok (map (\<lambda>(k, j). (k, f j)) r)"
  by (auto simp: registry_ok_def wf_dict_map_snd map_of_map)

lemma registry_ok_register: "registry_ok r \<Longrightarrow> register_job j r = Inr r' \<Longrightarrow> registry_ok r'"
  by (auto simp: registry_ok_def register_job_def split: if_splits)

lemma registry_ok_unregister: "registry_ok r \<Longrightarrow> registry_ok (unregister_job name r)"
  by (auto simp: registry_ok_def unregister_job_def split: if_splits)

lemma defer_scheduled_raises: "defer_scheduled name delay s = Inl (if map_of (sc_jobs s) name = None then KeyError else TypeError)"
  by (auto simp: defer_scheduled_def get_job_def isinstance_defer_retry_def split: option.split)

lemma scheduler_step_ok: "registry_ok (sc_jobs s) \<Longrightarrow> registry_ok (sc_jobs (scheduler_step s x))"
proof (cases x)
  case (AddInterval j)
  then show "registry_ok (sc_jobs s) \<Longrightarrow> ?thesis"
    by (auto simp: kept_def add_interval_job_def Let_def registry_ok_register bind_res_eq_Inr split: sum.splits)
next
  case (AddOneShot j)
  then show "registry_ok (sc_jobs s) \<Longrightarrow> ?thesis"
    by (auto simp: kept_def add_one_shot_job_def registry_ok_register bind_res_eq_Inr split: sum.splits)
qed (auto simp: start_scheduler_def run_scheduler_def cancel_scheduled_def registry_ok_unregister registry_ok_map
    shutdown_scheduler_def registry_ok_def [of "[]"] kept_def defer_scheduled_raises Let_def split: sum.splits)

interpretation jobs: step_system scheduler_step "\<lambda>s :: scheduler. registry_ok (sc_jobs s)"
  by unfold_locales (rule scheduler_step_ok)

text \<open>Whatever is done with a scheduler, its registry holds every job under the job's own name, once.\<close>

theorem registry_well_formed:
  assumes "sc_jobs s = []"
  shows "registry_ok (sc_jobs (foldl scheduler_step s ops))"
  by (rule jobs.run_inv) (simp add: assms registry_ok_def)

text \<open>A job registered is the one its name gets, the others stay, and a second one of its name is refused.\<close>

theorem register_then_get:
  assumes "register_job j r = Inr r'"
  shows "get_job k r' = (if k = job_name j then Inr j else get_job k r)
    \<and> register_job j2 r' = (if job_name j2 = job_name j \<or> map_of r (job_name j2) \<noteq> None then Inl ValueError
        else Inr (AList.update (job_name j2) j2 r'))"
  using assms by (auto simp: register_job_def get_job_def split: if_splits)

text \<open>\<open>Scheduler.defer_retry\<close> never succeeds: KeyError for an unknown job, TypeError for a registered one.\<close>

theorem scheduler_defer_never_succeeds:
  "defer_scheduled name delay s \<noteq> Inr s'"
  by (simp add: defer_scheduled_raises)

section \<open>Witnesses\<close>

definition demo_job :: interval_job where
  "demo_job = (new_interval_job ''poll'' (Fin 5) (Some 3) (Some (Fin 1)))\<lparr>ij_jitter := Fin 0\<rparr>"

definition demo_round :: "job_outcome \<Rightarrow> round_env" where
  "demo_round out = (let t = \<lparr>yr = 2025, mo = 3, dy = 14, hh = 9, mi = 30, ss = 0, us = 0, tzo = Some 0\<rparr> in
     \<lparr>rd_started = Fin 0, rd_outcome = out, rd_defers = [], rd_uniform = Fin 0, rd_ended = Fin 0, rd_stamp = t, rd_stamp_lag = t,
      rd_stamp_skip = t\<rparr>)"

lemma demo_round_outcome [simp]: "rd_outcome (demo_round out) = out" "rd_defers (demo_round out) = []"
  by (simp_all add: demo_round_def Let_def)

lemma demo_job_simps [simp]: "ij_max_attempts demo_job = Some 3" "ij_interval demo_job = Fin 5" "ij_jitter demo_job = Fin 0"
  "retry_delay demo_job = Fin 1"
  by (simp_all add: demo_job_def new_interval_job_def retry_delay_def)

theorem job_fails_exactly_witness:
  "snd (run_interval_job demo_job (Fin 0) (map demo_round [Raised, Succeeded, Raised, Raised, Raised])) = EndsFailed"
proof (subst job_fails_exactly [of _ 3])
  have "map rd_outcome (map demo_round [Raised, Succeeded, Raised, Raised, Raised]) =
    [Raised, Succeeded] @ replicate (nat (max 1 3)) Raised @ []" by (simp add: numeral_3_eq_3)
  then show "fails_in_a_row (nat (max 1 3)) (map rd_outcome (map demo_round [Raised, Succeeded, Raised, Raised, Raised]))"
    unfolding fails_in_a_row_def by (intro exI [of _ "[Raised, Succeeded]"] exI [of _ "[]"]) simp
qed simp

theorem unlimited_job_goes_on_witness:
  "snd (run_interval_job (demo_job\<lparr>ij_max_attempts := None\<rparr>) (Fin 0) (map demo_round [Raised, Raised])) = Continues"
  by (rule unlimited_job_goes_on) simp_all

theorem failed_round_sleeps_twice_witness:
  "ll_sleeps (fst (interval_round demo_job (demo_round Raised) (loop_start demo_job (Fin 0)))) = [Fin 1, Fin 5]"
  by (subst failed_round_sleeps_twice)
    (simp_all add: interval_round_end loop_start_def, simp add: demo_job_def new_interval_job_def)

definition demo_scheduler :: scheduler where
  "demo_scheduler = \<lparr>sc_jobs = [], sc_retry_delay = None, sc_timeout = None, sc_max_retries = 3\<rparr>"

theorem registry_well_formed_witness:
  "registry_ok (sc_jobs (foldl scheduler_step demo_scheduler [AddInterval demo_job, StartAll]))"
  by (rule registry_well_formed) (simp add: demo_scheduler_def)

theorem register_then_get_witness:
  "get_job ''poll'' [(''poll'', Interval demo_job)] = Inr (Interval demo_job)"
  using register_then_get [of "Interval demo_job" "[]" "[(''poll'', Interval demo_job)]" "''poll''"]
  by (simp add: register_job_def demo_job_def new_interval_job_def)

end
