(* ===== verification/Workflow.thy ===== *)
theory Workflow
  imports PyValue Systems
begin

text \<open>
  The pipeline of \<open>core/workflow.py\<close>: steps registered under distinct names and run in order on a
  shared context, which records what was planned and executed. The session in the context is a type
  parameter. A handler is a function from the context to what it returns or raises; what it returns
  need not be a context (None here), and then the pipeline's writes to it are suppressed.

  Shown: names stay distinct; a run that a step stops reports as next steps exactly the rest of the
  plan, and executed and next steps together are the plan; a run completes exactly when no step
  stops it.
\<close>

record 'a workflow_context =
  wc_session :: 'a
  wc_sequence :: "string list"
  wc_planned :: "string list"

record workflow_result =
  wr_completed :: bool
  wr_next :: "string list"

text \<open>What a handler does: returns a value, raises StopIteration (leaving its context as it is then), or
  raises another exception.\<close>

datatype 'a step_result =
    Returns "'a workflow_context option"
  | Stops "'a workflow_context option"
  | Fails err

record 'a pipeline_step =
  ps_name :: string
  ps_handler :: "'a workflow_context option \<Rightarrow> 'a step_result"

definition execute :: "'a pipeline_step \<Rightarrow> 'a workflow_context option \<Rightarrow> 'a step_result" where
  "execute s c = ps_handler s c"

type_synonym 'a pipeline = "'a pipeline_step list"

definition register_step :: "'a pipeline_step \<Rightarrow> 'a pipeline \<Rightarrow> 'a pipeline res" where
  "register_step s p = (if list_ex (\<lambda>x. ps_name x = ps_name s) p then Inl ValueError else Inr (p @ [s]))"

definition plan :: "'a pipeline \<Rightarrow> string list" where
  "plan p = map ps_name p"

text \<open>Writes to the context; an object without the attribute is left alone.\<close>

definition set_planned :: "string list \<Rightarrow> 'a workflow_context option \<Rightarrow> 'a workflow_context option" where
  "set_planned names = map_option (\<lambda>c. if wc_planned c = [] then c\<lparr>wc_planned := names\<rparr> else c)"

definition set_sequence :: "string list \<Rightarrow> 'a workflow_context option \<Rightarrow> 'a workflow_context option" where
  "set_sequence names = map_option (\<lambda>c. c\<lparr>wc_sequence := names\<rparr>)"

text \<open>The loop: the steps executed so far, the steps left and the context.\<close>

fun run_steps :: "string list \<Rightarrow> 'a pipeline \<Rightarrow> 'a workflow_context option
    \<Rightarrow> ('a workflow_context option \<times> workflow_result) res" where
  "run_steps executed [] c = Inr (set_sequence executed c, \<lparr>wr_completed = True, wr_next = []\<rparr>)"
| "run_steps executed (s # rest) c =
     (let executed' = executed @ [ps_name s]; c1 = set_sequence executed' c
      in case execute s c1 of
           Returns c2 \<Rightarrow> run_steps executed' rest c2
         | Stops c2 \<Rightarrow> Inr (c2, \<lparr>wr_completed = False, wr_next = plan rest\<rparr>)
         | Fails e \<Rightarrow> Inl e)"

definition run_pipeline :: "'a pipeline \<Rightarrow> 'a workflow_context option \<Rightarrow> ('a workflow_context option \<times> workflow_result) res" where
  "run_pipeline p c = run_steps [] p (set_planned (plan p) c)"

section \<open>Registration\<close>

definition register_all :: "'a pipeline \<Rightarrow> 'a pipeline_step \<Rightarrow> 'a pipeline" where
  "register_all p s = (case register_step s p of Inr p' \<Rightarrow> p' | Inl _ \<Rightarrow> p)"

lemma register_distinct: "distinct (plan p) \<Longrightarrow> distinct (plan (register_all p s))"
  by (auto simp: register_all_def register_step_def plan_def list_ex_iff)

interpretation steps: step_system register_all "\<lambda>p. distinct (plan p)"
  by unfold_locales (rule register_distinct)

text \<open>However steps are registered, the names in the plan are distinct.\<close>

theorem plan_distinct: "distinct (plan (foldl register_all [] ss))"
  by (rule steps.run_inv) (simp add: plan_def)

section \<open>Runs\<close>

text \<open>The context a list of steps leaves when each of them returns.\<close>

fun passes :: "string list \<Rightarrow> 'a pipeline \<Rightarrow> 'a workflow_context option \<Rightarrow> 'a workflow_context option \<Rightarrow> bool" where
  "passes executed [] c d = (d = c)"
| "passes executed (s # rest) c d = (\<exists>c2. execute s (set_sequence (executed @ [ps_name s]) c) = Returns c2
     \<and> passes (executed @ [ps_name s]) rest c2 d)"

lemma run_steps_completed:
  "run_steps executed p c = Inr (d, r) \<Longrightarrow> wr_completed r \<longleftrightarrow> (\<exists>c'. passes executed p c c')"
  by (induction executed p c rule: run_steps.induct) (auto simp: Let_def split: step_result.splits)

lemma run_steps_stopped:
  assumes "run_steps executed p c = Inr (d, r)" "\<not> wr_completed r"
  shows "\<exists>before s rest c'. p = before @ s # rest \<and> passes executed before c c'
    \<and> execute s (set_sequence (executed @ plan before @ [ps_name s]) c') = Stops d \<and> wr_next r = plan rest"
  using assms
proof (induction executed p c rule: run_steps.induct)
  case (2 executed s rest c)
  let ?ex = "execute s (set_sequence (executed @ [ps_name s]) c)"
  show ?case
  proof (cases ?ex)
    case (Returns c2)
    with 2(2) have "run_steps (executed @ [ps_name s]) rest c2 = Inr (d, r)" by (simp add: Let_def)
    from "2.IH" [OF refl refl Returns this 2(3)] obtain before s' rest' c' where
      "rest = before @ s' # rest'" "passes (executed @ [ps_name s]) before c2 c'"
      "execute s' (set_sequence ((executed @ [ps_name s]) @ plan before @ [ps_name s']) c') = Stops d" "wr_next r = plan rest'"
      by blast
    with Returns show ?thesis
      by (intro exI [of _ "s # before"] exI [of _ s'] exI [of _ rest'] exI [of _ c']) (simp add: plan_def)
  next
    case (Stops c2)
    with 2(2) have "c2 = d" "wr_next r = plan rest" by (auto simp: Let_def)
    with Stops show ?thesis by (intro exI [of _ "[]"] exI [of _ s] exI [of _ rest] exI [of _ c]) (simp add: plan_def)
  qed (use 2 in \<open>simp add: Let_def\<close>)
qed auto

text \<open>A run that does not complete was stopped by one step: those before it returned, that step and they together with the
  next steps reported are the plan, and the context names them as executed when the step begins.\<close>

theorem stopped_run_reports_rest:
  assumes "run_pipeline p c = Inr (d, r)" "\<not> wr_completed r"
  shows "\<exists>before s rest c'. p = before @ s # rest \<and> passes [] before (set_planned (plan p) c) c'
    \<and> execute s (set_sequence (plan before @ [ps_name s]) c') = Stops d \<and> plan p = plan before @ [ps_name s] @ wr_next r"
  using run_steps_stopped [OF assms [unfolded run_pipeline_def]] by (fastforce simp: plan_def)

text \<open>A run completes exactly when every step returns; then nothing is left.\<close>

theorem completed_run:
  assumes "run_pipeline p c = Inr (d, r)"
  shows "wr_completed r \<longleftrightarrow> (\<exists>c'. passes [] p (set_planned (plan p) c) c')"
  using assms by (simp add: run_pipeline_def run_steps_completed)

section \<open>Witnesses\<close>

definition demo_steps :: "unit pipeline" where
  "demo_steps = [\<lparr>ps_name = ''load'', ps_handler = Returns\<rparr>, \<lparr>ps_name = ''gate'', ps_handler = Stops\<rparr>,
     \<lparr>ps_name = ''ticket'', ps_handler = Returns\<rparr>]"

definition demo_context :: "unit workflow_context" where
  "demo_context = \<lparr>wc_session = (), wc_sequence = [], wc_planned = []\<rparr>"

lemma demo_pipeline_run: "\<exists>d. run_pipeline demo_steps (Some demo_context) = Inr (d, \<lparr>wr_completed = False, wr_next = [''ticket'']\<rparr>)"
  by (simp add: run_pipeline_def demo_steps_def execute_def plan_def)

theorem stopped_run_reports_rest_witness:
  "\<exists>before s. plan demo_steps = plan before @ [ps_name s] @ [''ticket''] \<and> (\<exists>rest. demo_steps = before @ s # rest)"
proof -
  obtain d where "run_pipeline demo_steps (Some demo_context) = Inr (d, \<lparr>wr_completed = False, wr_next = [''ticket'']\<rparr>)"
    using demo_pipeline_run by blast
  from stopped_run_reports_rest [OF this] show ?thesis by auto
qed

theorem completed_run_witness:
  "\<not> (\<exists>c'. passes [] demo_steps (set_planned (plan demo_steps) (Some demo_context)) c')"
proof -
  obtain d where "run_pipeline demo_steps (Some demo_context) = Inr (d, \<lparr>wr_completed = False, wr_next = [''ticket'']\<rparr>)"
    using demo_pipeline_run by blast
  from completed_run [OF this] show ?thesis by simp
qed

end
