(* ===== verification/Sizing.thy ===== *)
theory Sizing
  imports Policy
begin

text \<open>
  Position sizing: \<open>sizing/fractional.py\<close>, \<open>sizing/rounding.py\<close> and \<open>sizing/position_sizer.py\<close> over
  the broker rules. A size is a fraction of the equity at risk over the stop distance, at least the
  minimal lot and a multiple of the lot step; the recommended stop and target respect the broker's
  minimal distances, its protection and the volatility hint.

  Shown: the bounds of a sizing result; that it fails only for the reasons the code names; and two
  ways the result misses its purpose: the lot is computed on the requested stop although a wider one
  is recommended, and rounding to the lot step loses a step where the quotient is inexact.
\<close>

section \<open>Fraction and rounding\<close>

definition fractional_size :: "pyfloat \<Rightarrow> pyfloat \<Rightarrow> pyfloat \<Rightarrow> pyfloat res" where
  "fractional_size equity risk_pct stop_distance =
     (if fle stop_distance (Fin 0) then Inl ValueError
      else fdiv (fmul equity (fquot risk_pct (Fin 100))) stop_distance)"

text \<open>\<open>math.floor\<close> of a float.\<close>

definition float_floor :: "pyfloat \<Rightarrow> int res" where
  "float_floor x = (case x of Fin r \<Rightarrow> Inr (floor r) | NaN \<Rightarrow> Inl ValueError | _ \<Rightarrow> Inl OverflowError)"

definition round_lot :: "pyfloat \<Rightarrow> pyfloat \<Rightarrow> pyfloat res" where
  "round_lot size_lot lot_step =
     (if fle lot_step (Fin 0) then Inl ValueError
      else bind_res (fdiv size_lot lot_step) (\<lambda>q. bind_res (float_floor q) (\<lambda>n.
        let stepped = fmul (f_of_int n) lot_step
        in Inr (if fle stepped (Fin 0) then lot_step else stepped))))"

section \<open>The sizer\<close>

record sizing_request =
  sq_symbol :: string
  sq_equity :: pyfloat
  sq_risk_pct :: pyfloat
  sq_stop :: pyfloat
  sq_ratio :: pyfloat
  sq_atr :: "pyfloat option"
  sq_entry :: string
  sq_ttl :: "int option"

record oco_recommendation =
  oco_stop :: pyfloat
  oco_target :: pyfloat
  oco_min :: pyfloat

record sizing_result =
  sz_lot :: pyfloat
  sz_raw :: pyfloat
  sz_oco :: oco_recommendation
  sz_metadata :: pydict

text \<open>\<open>d.get(a, d.get(b, 0.0))\<close> on the minimal distances.\<close>

definition distance :: "(string \<times> pyfloat) list \<Rightarrow> string \<Rightarrow> string \<Rightarrow> pyfloat" where
  "distance d a b = (case map_of d a of Some x \<Rightarrow> x | None \<Rightarrow> (case map_of d b of Some x \<Rightarrow> x | None \<Rightarrow> Fin 0))"

definition fmax_opt :: "pyfloat \<Rightarrow> pyfloat option \<Rightarrow> pyfloat" where
  "fmax_opt x y = (case y of None \<Rightarrow> x | Some z \<Rightarrow> fmax x z)"

definition recommended_stop :: "symbol_rules \<Rightarrow> sizing_request \<Rightarrow> pyfloat" where
  "recommended_stop r q = fmax_opt (fmax_opt (fmax (sq_stop q) (distance (sr_min_distance r) ''sl'' ''stop_loss'')) (sr_protect_pips r)) (sq_atr q)"

definition recommend :: "symbol_rules \<Rightarrow> sizing_request \<Rightarrow> oco_recommendation" where
  "recommend r q = \<lparr>oco_stop = recommended_stop r q,
     oco_target = fmax (fmul (recommended_stop r q) (sq_ratio q)) (distance (sr_min_distance r) ''tp'' ''take_profit''),
     oco_min = distance (sr_min_distance r) ''sl'' ''stop_loss''\<rparr>"

definition sizing_metadata :: "symbol_rules \<Rightarrow> sizing_request \<Rightarrow> pydict" where
  "sizing_metadata r q = [(''min_lot'', PFloat (sr_min_lot r)), (''lot_step'', PFloat (sr_lot_step r)), (''pip_size'', PFloat (sr_pip_size r)),
     (''contract_size'', PFloat (sr_contract_size r)), (''min_distance_pips'', PDict (map (\<lambda>(k, x). (k, PFloat x)) (sr_min_distance r))),
     (''entry_type'', PStr (sq_entry q)), (''ttl_seconds'', case sq_ttl q of None \<Rightarrow> PNone | Some n \<Rightarrow> PInt n)]"

definition size_position :: "broker_rules \<Rightarrow> sizing_request \<Rightarrow> sizing_result res" where
  "size_position br q = bind_res (for_symbol br (sq_symbol q)) (\<lambda>r.
     if fle (sq_stop q) (Fin 0) then Inl ValueError
     else if fle (sq_risk_pct q) (Fin 0) then Inl ValueError
     else if fle (sq_equity q) (Fin 0) then Inl ValueError
     else bind_res (fractional_size (sq_equity q) (sq_risk_pct q) (fmul (sq_stop q) (fmul (sr_contract_size r) (sr_pip_size r)))) (\<lambda>raw0.
       let raw = fmax raw0 (sr_min_lot r) in
       bind_res (round_lot raw (sr_lot_step r)) (\<lambda>lot0.
         let lot = (if flt lot0 (sr_min_lot r) then sr_min_lot r else lot0)
         in Inr \<lparr>sz_lot = lot, sz_raw = raw, sz_oco = recommend r q, sz_metadata = sizing_metadata r q\<rparr>)))"

section \<open>Bounds\<close>

lemma fmax_ge: "a \<noteq> NaN \<Longrightarrow> b \<noteq> NaN \<Longrightarrow> fle a (fmax a b) \<and> fle b (fmax a b) \<and> fmax a b \<noteq> NaN"
  by (cases a; cases b) (auto simp: fmax_def)

lemma fmax_opt_ge: "a \<noteq> NaN \<Longrightarrow> (\<And>b. y = Some b \<Longrightarrow> b \<noteq> NaN) \<Longrightarrow> fle a (fmax_opt a y) \<and> (\<forall>b. y = Some b \<longrightarrow> fle b (fmax_opt a y)) \<and> fmax_opt a y \<noteq> NaN"
  using fmax_ge by (cases y) (auto simp: fmax_opt_def fle_refl_iff)

lemma fmul_Fin_not_NaN: "fmul (Fin x) (Fin y) \<noteq> NaN"
  by (rule rnd_cases [of "x * y"]) simp_all

lemma fmul_not_NaN: "f_of_int n \<noteq> NaN \<Longrightarrow> 0 < s \<Longrightarrow> fmul (f_of_int n) (Fin s) \<noteq> NaN"
  by (cases "f_of_int n") (simp_all add: fmul_Fin_not_NaN del: fmul.simps(1))

lemma f_of_int_not_NaN: "f_of_int n \<noteq> NaN"
  unfolding f_of_int_def by (rule rnd_cases [of "of_int n"]) simp_all

lemma round_lot_pos:
  assumes "round_lot x (Fin s) = Inr y"
  shows "y \<noteq> NaN \<and> fgt y (Fin 0)"
proof -
  have s: "0 < s" using assms by (auto simp: round_lot_def split: if_splits)
  obtain q n where "fdiv x (Fin s) = Inr q" "float_floor q = Inr n"
    and y: "y = (if fle (fmul (f_of_int n) (Fin s)) (Fin 0) then Fin s else fmul (f_of_int n) (Fin s))"
    using assms s unfolding round_lot_def Let_def by (auto simp: bind_res_eq_Inr simp del: fmul.simps)
  have nn: "fmul (f_of_int n) (Fin s) \<noteq> NaN" by (rule fmul_not_NaN [OF f_of_int_not_NaN s])
  show ?thesis
  proof (cases "fle (fmul (f_of_int n) (Fin s)) (Fin 0)")
    case True
    with y s show ?thesis by simp
  next
    case False
    with not_fle_iff [OF nn, of "Fin 0"] y nn show ?thesis by simp
  qed
qed

lemma round_lot_steps:
  assumes "round_lot x step = Inr y"
  shows "y = step \<or> (\<exists>d n. fdiv x step = Inr d \<and> float_floor d = Inr n \<and> y = fmul (f_of_int n) step)"
  using assms unfolding round_lot_def Let_def by (cases "fle step (Fin 0)") (auto simp: bind_res_eq_Inr split: if_splits)

lemma size_position_cases:
  assumes "size_position br q = Inr z"
  obtains r raw0 lot0 where "for_symbol br (sq_symbol q) = Inr r" "round_lot (sz_raw z) (sr_lot_step r) = Inr lot0"
    "sz_lot z = (if flt lot0 (sr_min_lot r) then sr_min_lot r else lot0)" "sz_oco z = recommend r q"
    "\<not> fle (sq_stop q) (Fin 0)" "\<not> fle (sq_risk_pct q) (Fin 0)" "\<not> fle (sq_equity q) (Fin 0)" "sz_raw z = fmax raw0 (sr_min_lot r)"
    "fractional_size (sq_equity q) (sq_risk_pct q) (fmul (sq_stop q) (fmul (sr_contract_size r) (sr_pip_size r))) = Inr raw0"
  using assms by (auto simp: size_position_def bind_res_eq_Inr Let_def split: if_splits)

text \<open>The numbers of the rules and the request are numbers; the minimal lot is positive.\<close>

definition proper_numbers :: "symbol_rules \<Rightarrow> sizing_request \<Rightarrow> bool" where
  "proper_numbers r q \<longleftrightarrow> (\<exists>s. sr_lot_step r = Fin s) \<and> (\<exists>m. sr_min_lot r = Fin m \<and> 0 < m) \<and> sq_stop q \<noteq> NaN
     \<and> distance (sr_min_distance r) ''sl'' ''stop_loss'' \<noteq> NaN \<and> sr_protect_pips r \<noteq> Some NaN \<and> sq_atr q \<noteq> Some NaN"

text \<open>C15: The lot of a sizing result is at least the minimal lot, and it is the minimal lot, one lot step, or as many whole
  steps as the raw size holds; its stop is at least the one requested, the broker's minimal distance, the protection and
  the volatility hint. There is no greatest lot.\<close>

theorem sizing_bounds:
  assumes "size_position br q = Inr z" "for_symbol br (sq_symbol q) = Inr r" "proper_numbers r q"
  shows "fle (sr_min_lot r) (sz_lot z) \<and> fle (sq_stop q) (oco_stop (sz_oco z))
    \<and> fle (distance (sr_min_distance r) ''sl'' ''stop_loss'') (oco_stop (sz_oco z))
    \<and> (\<forall>p. sr_protect_pips r = Some p \<longrightarrow> fle p (oco_stop (sz_oco z))) \<and> (\<forall>a. sq_atr q = Some a \<longrightarrow> fle a (oco_stop (sz_oco z)))
    \<and> (sz_lot z = sr_min_lot r \<or> sz_lot z = sr_lot_step r
        \<or> (\<exists>d n. fdiv (sz_raw z) (sr_lot_step r) = Inr d \<and> float_floor d = Inr n \<and> sz_lot z = fmul (f_of_int n) (sr_lot_step r)))"
proof -
  obtain s m where n: "sr_lot_step r = Fin s" "sr_min_lot r = Fin m" using assms(3) by (auto simp: proper_numbers_def)
  obtain lot0 where l: "round_lot (sz_raw z) (Fin s) = Inr lot0" "sz_lot z = (if flt lot0 (Fin m) then Fin m else lot0)"
    and oco: "sz_oco z = recommend r q"
    using assms(1) by (rule size_position_cases) (use assms(2) n in auto)
  have "lot0 \<noteq> NaN" using round_lot_pos [OF l(1)] by simp
  then have lot: "fle (Fin m) (sz_lot z)" using l(2) not_fle_iff [of "Fin m" lot0] by auto
  define b where "b = fmax (sq_stop q) (distance (sr_min_distance r) ''sl'' ''stop_loss'')"
  define p where "p = fmax_opt b (sr_protect_pips r)"
  have b: "fle (sq_stop q) b" "fle (distance (sr_min_distance r) ''sl'' ''stop_loss'') b" "b \<noteq> NaN"
    using fmax_ge [of "sq_stop q" "distance (sr_min_distance r) ''sl'' ''stop_loss''"] assms(3)
    by (simp_all add: proper_numbers_def b_def)
  have p: "fle b p" "\<forall>x. sr_protect_pips r = Some x \<longrightarrow> fle x p" "p \<noteq> NaN"
    using fmax_opt_ge [OF b(3), of "sr_protect_pips r"] assms(3) by (auto simp: proper_numbers_def p_def)
  have a: "fle p (fmax_opt p (sq_atr q))" "\<forall>x. sq_atr q = Some x \<longrightarrow> fle x (fmax_opt p (sq_atr q))"
    using fmax_opt_ge [OF p(3), of "sq_atr q"] assms(3) by (auto simp: proper_numbers_def)
  have stop: "oco_stop (sz_oco z) = fmax_opt p (sq_atr q)"
    by (simp add: oco recommend_def recommended_stop_def p_def b_def)
  have bs: "fle b (fmax_opt p (sq_atr q))" by (rule fle_trans [OF p(1) a(1)])
  have steps: "sz_lot z = Fin m \<or> sz_lot z = Fin s \<or> (\<exists>d n. fdiv (sz_raw z) (Fin s) = Inr d \<and> float_floor d = Inr n \<and> sz_lot z = fmul (f_of_int n) (Fin s))"
    using l(2) round_lot_steps [OF l(1)] by (cases "flt lot0 (Fin m)") simp_all
  have "\<forall>p. sr_protect_pips r = Some p \<longrightarrow> fle p (fmax_opt (fmax_opt b (sr_protect_pips r)) (sq_atr q))"
    using p(2) a(1) by (auto simp: p_def intro: fle_trans)
  with lot a fle_trans [OF b(1) bs] fle_trans [OF b(2) bs] steps show ?thesis
    unfolding stop n p_def by blast
qed

text \<open>The lot does not depend on the volatility hint, although the recommended stop widens to it: the amount at risk
  grows with the hint.\<close>

theorem lot_ignores_wider_stop:
  assumes "size_position br q = Inr z" "for_symbol br (sq_symbol q) = Inr r" "proper_numbers r q" "sq_atr q = Some a"
  shows "\<exists>z0. size_position br (q\<lparr>sq_atr := None\<rparr>) = Inr z0 \<and> sz_lot z0 = sz_lot z \<and> fle a (oco_stop (sz_oco z))"
proof -
  have "\<exists>z0. size_position br (q\<lparr>sq_atr := None\<rparr>) = Inr z0 \<and> sz_lot z0 = sz_lot z"
    using assms(1) by (rule size_position_cases) (use assms(2) in \<open>simp add: size_position_def Let_def\<close>)
  moreover have "fle a (oco_stop (sz_oco z))"
  proof -
    have "sz_oco z = recommend r q" using assms(1) by (rule size_position_cases) (use assms(2) in auto)
    moreover have "fmax_opt (fmax (sq_stop q) (distance (sr_min_distance r) ''sl'' ''stop_loss'')) (sr_protect_pips r) \<noteq> NaN"
      using fmax_ge [of "sq_stop q" "distance (sr_min_distance r) ''sl'' ''stop_loss''"] assms(3)
        fmax_opt_ge [of "fmax (sq_stop q) (distance (sr_min_distance r) ''sl'' ''stop_loss'')" "sr_protect_pips r"]
      by (auto simp: proper_numbers_def)
    ultimately show ?thesis using fmax_opt_ge [of _ "sq_atr q"] assms(3,4)
      by (auto simp: recommend_def recommended_stop_def proper_numbers_def)
  qed
  ultimately show ?thesis by blast
qed

text \<open>The lot 0.29 with the step 0.01 rounds to 0.28: the quotient of the two floats is just below 29.\<close>

theorem round_lot_loses_step:
  "round_lot (rnd (29 / 100)) (rnd (1 / 100)) = Inr (rnd (28 / 100))"
proof -
  have a: "rnd (29 / 100) = Fin (5224175567749775 / 2 ^ 54)"
    by (subst rnd_at [of "- 2" _ 5224175567749775]) (simp_all add: pow2_def)
  have b: "rnd (1 / 100) = Fin (5764607523034235 / 2 ^ 59)"
    by (subst rnd_at [of "- 7" _ 5764607523034235]) (simp_all add: pow2_def)
  have c: "rnd (28 / 100) = Fin (1261007895663739 / 2 ^ 52)"
    by (subst rnd_at [of "- 2" _ 5044031582654956]) (simp_all add: pow2_def)
  have q: "rnd (5224175567749775 / 2 ^ 54 / (5764607523034235 / 2 ^ 59)) = Fin (8162774324609023 / 2 ^ 48)"
    by (subst rnd_at [of 4 _ 8162774324609023]) (simp_all add: pow2_def)
  have n: "floor (8162774324609023 / 2 ^ 48 :: rat) = 28"
    by (simp add: floor_eq_iff)
  have p: "rnd (28 * (5764607523034235 / 2 ^ 59)) = Fin (1261007895663739 / 2 ^ 52)"
    by (subst rnd_at [of "- 2" _ 5044031582654956]) (simp_all add: pow2_def)
  have i: "f_of_int 28 = Fin 28" using rnd_int [of 28] by (simp add: f_of_int_def)
  have d: "fdiv (Fin (5224175567749775 / 2 ^ 54)) (Fin (5764607523034235 / 2 ^ 59)) = Inr (Fin (8162774324609023 / 2 ^ 48))"
    using q by simp
  have f: "float_floor (Fin (8162774324609023 / 2 ^ 48)) = Inr 28" using n by (simp add: float_floor_def)
  have m: "fmul (f_of_int 28) (Fin (5764607523034235 / 2 ^ 59)) = Fin (1261007895663739 / 2 ^ 52)" using p by (simp add: i)
  show ?thesis unfolding a b c by (simp only: round_lot_def d f m bind_res_simps Let_def) simp
qed

section \<open>Witnesses\<close>

definition demo_rules :: symbol_rules where
  "demo_rules = \<lparr>sr_symbol = ''X'', sr_description = [], sr_pip_size = Fin 1, sr_contract_size = Fin 1, sr_min_lot = Fin 1,
     sr_lot_step = Fin 1, sr_precision = 0, sr_min_distance = [], sr_freeze_level = Fin 0, sr_fifo = False, sr_margin_mode = [],
     sr_windows = [], sr_runbooks = [], sr_notes = [], sr_max_positions = None, sr_protect_pips = None, sr_order_types = [],
     sr_swap_day = None, sr_liquidity = [], sr_metadata = []\<rparr>"

definition demo_broker :: broker_rules where
  "demo_broker = \<lparr>br_schema = [], br_runbook = [], br_reviewed = None, br_notes = [], br_symbols = [(''X'', demo_rules)]\<rparr>"

definition demo_sizing :: sizing_request where
  "demo_sizing = \<lparr>sq_symbol = ''X'', sq_equity = Fin 100, sq_risk_pct = Fin 100, sq_stop = Fin 10, sq_ratio = Fin 2,
     sq_atr = Some (Fin 40), sq_entry = [], sq_ttl = None\<rparr>"

lemma demo_for_symbol: "for_symbol demo_broker (sq_symbol demo_sizing) = Inr demo_rules"
  by (simp add: for_symbol_def demo_broker_def demo_sizing_def)

lemma demo_proper: "proper_numbers demo_rules demo_sizing" "sq_atr demo_sizing = Some (Fin 40)"
  by (simp_all add: proper_numbers_def demo_rules_def demo_sizing_def distance_def)

lemma demo_size: "\<exists>z. size_position demo_broker demo_sizing = Inr z \<and> sz_lot z = Fin 10"
  by (simp add: size_position_def demo_for_symbol)
    (simp add: demo_sizing_def demo_rules_def fractional_size_def fquot_def rnd_numeral fmax_def round_lot_def float_floor_def f_of_int_def Let_def)

theorem sizing_bounds_witness:
  "\<exists>z. size_position demo_broker demo_sizing = Inr z \<and> fle (Fin 1) (sz_lot z) \<and> fle (Fin 40) (oco_stop (sz_oco z))"
proof -
  obtain z where "size_position demo_broker demo_sizing = Inr z" using demo_size by blast
  with sizing_bounds [OF this demo_for_symbol demo_proper(1)] show ?thesis by (auto simp: demo_proper(2) demo_rules_def)
qed

theorem lot_ignores_wider_stop_witness:
  "\<exists>(z0 :: sizing_result) (z :: sizing_result). size_position demo_broker (demo_sizing\<lparr>sq_atr := None\<rparr>) = Inr z0 \<and> sz_lot z0 = sz_lot z \<and> fle (Fin 40) (oco_stop (sz_oco z))"
proof -
  obtain z where "size_position demo_broker demo_sizing = Inr z" using demo_size by blast
  from lot_ignores_wider_stop [OF this demo_for_symbol demo_proper] show ?thesis by blast
qed

end
