(* ===== verification/Fills.thy ===== *)
theory Fills
  imports PyDate Sizing Systems
begin

text \<open>
  Fill records: the shadow store of \<open>brokers/fill_shadow.py\<close> (two JSON-lines files) and the drift
  detector of \<open>brokers/fill_drift.py\<close> over them. Identifiers and clock readings are arguments.

  Shown: a recorded fill is listed, and stays listed whatever is recorded later; the detector raises
  an alert for exactly the records whose drift is not below the threshold, major from twice it; the
  counts of its metric are those of its alerts. And where it fails: a record whose time does not
  parse makes every listing raise, and a price that is no number always alerts.
\<close>

section \<open>The shadow store\<close>

record shadow_session =
  sh_id :: string
  sh_adapter :: string
  sh_profile :: string
  sh_scenario :: "string option"
  sh_strict :: bool
  sh_started :: string

record shadow_fill =
  sf_event :: string
  sf_ticket :: string
  sf_order :: "string option"
  sf_status :: string
  sf_adapter :: string
  sf_profile :: string
  sf_recorded :: string
  sf_payload :: pydict

record shadow_store =
  ss_events :: json_lines
  ss_sessions :: json_lines

definition start_shadow_session :: "string \<Rightarrow> pydt \<Rightarrow> string \<Rightarrow> string \<Rightarrow> string option \<Rightarrow> bool \<Rightarrow> shadow_store \<Rightarrow> shadow_store \<times> shadow_session" where
  "start_shadow_session hex now adapter profile scenario strict st =
     (let s = \<lparr>sh_id = ''shadow-'' @ take 8 hex, sh_adapter = adapter, sh_profile = profile, sh_scenario = scenario, sh_strict = strict,
               sh_started = utc_iso now\<rparr>
      in (st\<lparr>ss_sessions := ss_sessions st @ [Some (PDict [(''session_id'', PStr (sh_id s)), (''adapter'', PStr adapter),
            (''profile'', PStr profile), (''scenario'', ostr scenario), (''strict'', PBool strict), (''started_at'', PStr (sh_started s))])]\<rparr>, s))"

definition fill_document :: "shadow_fill \<Rightarrow> pydict" where
  "fill_document r = [(''event'', PStr ''shadow.fill_recorded''), (''event_id'', PStr (sf_event r)), (''ts'', PStr (sf_recorded r)),
     (''ticket_id'', PStr (sf_ticket r)), (''order_id'', ostr (sf_order r)), (''status'', PStr (sf_status r)),
     (''adapter'', PStr (sf_adapter r)), (''profile'', PStr (sf_profile r)), (''payload'', PDict (sf_payload r))]"

definition append_fill :: "shadow_fill \<Rightarrow> shadow_store \<Rightarrow> shadow_store" where
  "append_fill r st = st\<lparr>ss_events := ss_events st @ [Some (PDict (fill_document r))]\<rparr>"

definition record_fill :: "string \<Rightarrow> pydt \<Rightarrow> string \<Rightarrow> string option \<Rightarrow> string \<Rightarrow> string \<Rightarrow> string \<Rightarrow> pydict
    \<Rightarrow> shadow_store \<Rightarrow> shadow_store \<times> shadow_fill" where
  "record_fill hex now ticket order status adapter profile payload st =
     (let r = \<lparr>sf_event = ''shadow-'' @ take 12 hex, sf_ticket = ticket, sf_order = order, sf_status = status, sf_adapter = adapter,
               sf_profile = profile, sf_recorded = utc_iso now, sf_payload = payload\<rparr>
      in (append_fill r st, r))"

text \<open>The time of a record as microseconds of UTC; unlike the other modules this one lets a text that does not parse
  raise. A naive time is taken as UTC.\<close>

definition fill_ts :: "string \<Rightarrow> int option res" where
  "fill_ts s = (if s = [] then Inr None else case fromisoformat (str_replace ''Z'' ''+00:00'' s) of
       None \<Rightarrow> Inl ValueError | Some d \<Rightarrow> Inr (Some (epoch_us d)))"

definition read_fills :: "shadow_store \<Rightarrow> pyval list" where
  "read_fills st = List.map_filter id (ss_events st)"

definition fill_status :: "pydict \<Rightarrow> string" where
  "fill_status r = str_lower (py_str (py_or (dget r ''status'') (PStr [])))"

text \<open>Whether a record is listed, given an aware lower bound in microseconds and the statuses asked for.\<close>

definition fill_listed :: "int option \<Rightarrow> string list \<Rightarrow> pyval \<Rightarrow> bool res" where
  "fill_listed since statuses v = bind_res (as_dict_get v) (\<lambda>r.
     bind_res (fill_ts (py_str (py_or (dget r ''ts'') (py_or (dget r ''recorded_at'') (PStr []))))) (\<lambda>t.
       let early = (case (since, t) of (Some a, Some b) \<Rightarrow> b < a | _ \<Rightarrow> False)
       in Inr (\<not> early \<and> (statuses = [] \<or> fill_status r \<in> set (map str_lower statuses)))))"

definition list_fills :: "int option \<Rightarrow> string list \<Rightarrow> shadow_store \<Rightarrow> pyval list res" where
  "list_fills since statuses st = bind_res (map_res (fill_listed since statuses) (read_fills st)) (\<lambda>bs.
     Inr (map snd (filter fst (zip bs (read_fills st)))))"

definition exported :: "string \<Rightarrow> pyval \<Rightarrow> bool res" where
  "exported day v = bind_res (as_dict_get v) (\<lambda>r.
     Inr (starts_with (str_replace ''-'' [] day) (str_replace ''-'' [] (py_str (py_or (dget r ''ts'') (PStr []))))))"

text \<open>The document \<open>export_date\<close> writes.\<close>

definition export_date :: "string \<Rightarrow> shadow_store \<Rightarrow> pyval res" where
  "export_date day st = bind_res (map_res (exported day) (read_fills st)) (\<lambda>bs.
     Inr (PList (map snd (filter fst (zip bs (read_fills st))))))"

definition pending_fill :: "pyval \<Rightarrow> bool" where
  "pending_fill v = (fill_status (mapping_or_empty v) \<notin> {''filled'', ''acknowledged''})"

definition fill_summary :: "int \<Rightarrow> bool \<Rightarrow> pydt \<Rightarrow> shadow_store \<Rightarrow> pydict res" where
  "fill_summary window_minutes alerts now st =
     bind_res (list_fills (Some (epoch_us now - window_minutes * 60000000)) [] st) (\<lambda>rs.
     let pending = filter pending_fill rs in
     Inr ([(''status'', PStr ''ok''), (''window_minutes'', PInt window_minutes), (''records'', PInt (int (length rs))),
           (''pending'', PInt (int (length pending)))]
        @ (if alerts then [(''alerts'', PList (map (\<lambda>v. let r = mapping_or_empty v in PDict [(''ticket_id'', dget r ''ticket_id''),
              (''order_id'', dget r ''order_id''), (''status'', dget r ''status'')]) pending))] else [])))"

section \<open>Drift\<close>

record drift_alert =
  da_ticket :: string
  da_order :: "string option"
  da_symbol :: string
  da_pips :: pyfloat
  da_severity :: string
  da_expected :: pyfloat
  da_fill :: pyfloat

text \<open>The distance in pips; a symbol without rules has the usual pip. Only a division by zero is guarded.\<close>

definition drift_pips :: "broker_rules \<Rightarrow> string \<Rightarrow> pyfloat \<Rightarrow> pyfloat \<Rightarrow> pyfloat" where
  "drift_pips rules symbol expected fill =
     (let pip = (case for_symbol rules symbol of Inr r \<Rightarrow> sr_pip_size r | Inl _ \<Rightarrow> rnd (1 / 10000)); gap = fabs (fsub fill expected)
      in if pip = Fin 0 then gap else fquot gap pip)"

definition coerce_price :: "pyval \<Rightarrow> pyfloat option res" where
  "coerce_price v = (if v = PNone then Inr None else or_none (py_float v))"

definition drift_severity :: "pyfloat \<Rightarrow> pyfloat \<Rightarrow> string" where
  "drift_severity threshold drift = (if fge drift (fmul threshold (Fin 2)) then ''major'' else ''minor'')"

definition detect_one :: "broker_rules \<Rightarrow> pyfloat \<Rightarrow> pydict \<Rightarrow> drift_alert option res" where
  "detect_one rules threshold rec =
     (let payload = mapping_or_empty (dget rec ''payload''); symbol = py_str (py_or (dget payload ''symbol'') (py_or (dget rec ''symbol'') (PStr [])))
      in bind_res (coerce_price (dget payload ''expected_price'')) (\<lambda>expected. bind_res (coerce_price (dget payload ''fill_price'')) (\<lambda>fill.
         Inr (case (expected, fill) of
             (Some e, Some f) \<Rightarrow> (let drift = drift_pips rules symbol e f in
                if symbol = [] \<or> flt drift threshold then None
                else Some \<lparr>da_ticket = py_str (py_or (dget rec ''ticket_id'') (PStr [])),
                   da_order = (let t = py_str (py_or (dget rec ''order_id'') (PStr [])) in if t = [] then None else Some t),
                   da_symbol = symbol, da_pips = drift, da_severity = drift_severity threshold drift, da_expected = e, da_fill = f\<rparr>)
           | _ \<Rightarrow> None))))"

definition drift_event :: "pydt \<Rightarrow> drift_alert \<Rightarrow> pyval" where
  "drift_event now a = PDict [(''ts'', PStr (utc_iso now)), (''event'', PStr ''shadow.fill_drift_detected''), (''ticket_id'', PStr (da_ticket a)),
     (''order_id'', ostr (da_order a)), (''symbol'', PStr (da_symbol a)), (''drift_pips'', PFloat (da_pips a)),
     (''severity'', PStr (da_severity a)), (''expected_price'', PFloat (da_expected a)), (''fill_price'', PFloat (da_fill a))]"

definition count_severity :: "drift_alert list \<Rightarrow> (string \<times> int) list" where
  "count_severity as = foldl (\<lambda>d a. AList.update (da_severity a) ((case map_of d (da_severity a) of None \<Rightarrow> 0 | Some n \<Rightarrow> n) + 1) d) [] as"

record drift_logs =
  dl_events :: "pyval list"
  dl_metrics :: "pyval list"

text \<open>The events of the alerts before a record that raises stay in the log. The clock is read once per entry: the
  argument gives the readings.\<close>

fun detect_loop :: "broker_rules \<Rightarrow> pyfloat \<Rightarrow> (nat \<Rightarrow> pydt) \<Rightarrow> pydict list \<Rightarrow> drift_alert list \<Rightarrow> drift_logs \<Rightarrow> drift_logs \<times> drift_alert list res" where
  "detect_loop rules threshold clock [] as l = (l, Inr as)"
| "detect_loop rules threshold clock (r # rs) as l = (case detect_one rules threshold r of
       Inl e \<Rightarrow> (l, Inl e)
     | Inr None \<Rightarrow> detect_loop rules threshold clock rs as l
     | Inr (Some a) \<Rightarrow> detect_loop rules threshold clock rs (as @ [a])
         (l\<lparr>dl_events := dl_events l @ [drift_event (clock (length as)) a]\<rparr>))"

definition drift_metric :: "pydt \<Rightarrow> drift_alert list \<Rightarrow> pyval" where
  "drift_metric now as = PDict [(''ts'', PStr (utc_iso now)), (''metric'', PStr ''broker_shadow''),
     (''drift_count'', PInt (int (length as))), (''severity_counts'', PDict (map (\<lambda>(k, n). (k, PInt n)) (count_severity as)))]"

definition detect_drift :: "broker_rules \<Rightarrow> pyfloat \<Rightarrow> (nat \<Rightarrow> pydt) \<Rightarrow> pydict list \<Rightarrow> drift_logs \<Rightarrow> drift_logs \<times> drift_alert list res" where
  "detect_drift rules threshold clock rs l = (case detect_loop rules threshold clock rs [] l of
       (l1, Inr as) \<Rightarrow> (if as = [] then l1 else l1\<lparr>dl_metrics := dl_metrics l1 @ [drift_metric (clock (length as)) as]\<rparr>, Inr as)
     | x \<Rightarrow> x)"

section \<open>What is recorded is listed\<close>

datatype shadow_op =
    StartSession string pydt string string "string option" bool
  | RecordFill string pydt string "string option" string string string pydict

fun shadow_step :: "shadow_store \<Rightarrow> shadow_op \<Rightarrow> shadow_store" where
  "shadow_step st (StartSession hex now a p sc strict) = fst (start_shadow_session hex now a p sc strict st)"
| "shadow_step st (RecordFill hex now t ord s a p pay) = fst (record_fill hex now t ord s a p pay st)"

lemma shadow_step_events: "\<exists>new. ss_events (shadow_step st x) = ss_events st @ new"
  by (cases x) (auto simp: start_shadow_session_def record_fill_def append_fill_def Let_def)

interpretation shadow: logged_system shadow_step "\<lambda>_. True" ss_events
  by unfold_locales (simp_all add: shadow_step_events)

lemma utc_iso_nonempty: "utc_iso d \<noteq> []"
  using iso_text_nonempty [of "d\<lparr>us := 0\<rparr>"] by (simp add: utc_iso_def iso_text_def)

lemma fill_ts_utc_iso: "valid_dt d \<Longrightarrow> fill_ts (utc_iso d) = Inr (Some (epoch_us (d\<lparr>us := 0\<rparr>)))"
  by (simp add: fill_ts_def utc_iso_nonempty utc_iso_roundtrip)

lemma fill_document_get [simp]: "dget (fill_document r) ''ts'' = PStr (sf_recorded r)"
  "dget (fill_document r) ''status'' = PStr (sf_status r)"
  by (simp_all add: fill_document_def)

lemma list_fills_snoc:
  assumes "list_fills since statuses st = Inr old" "fill_listed since statuses v = Inr b" "ss_events st' = ss_events st @ [Some v]"
  shows "list_fills since statuses st' = Inr (old @ (if b then [v] else []))"
proof -
  obtain bs where bs: "map_res (fill_listed since statuses) (read_fills st) = Inr bs"
    "old = map snd (filter fst (zip bs (read_fills st)))"
    using assms(1) by (auto simp: list_fills_def bind_res_eq_Inr)
  have r: "read_fills st' = read_fills st @ [v]" by (simp add: read_fills_def assms(3) List.map_filter_def)
  have len: "length bs = length (read_fills st)" by (rule map_res_Inr_length [OF bs(1)])
  show ?thesis by (simp add: list_fills_def r map_res_append bs assms(2) len)
qed

text \<open>Where the store can be listed, a fill recorded since the bound is listed last, after what was listed before.\<close>

theorem recorded_fill_listed:
  assumes "record_fill hex now ticket order status adapter profile payload st = (st', r)" "valid_dt now"
    and "list_fills (Some since) [] st = Inr old" "since \<le> epoch_us (now\<lparr>us := 0\<rparr>)"
  shows "list_fills (Some since) [] st' = Inr (old @ [PDict (fill_document r)])"
proof -
  have r: "sf_recorded r = utc_iso now" and e: "ss_events st' = ss_events st @ [Some (PDict (fill_document r))]"
    using assms(1) by (auto simp: record_fill_def append_fill_def Let_def)
  have "fill_listed (Some since) [] (PDict (fill_document r)) = Inr True"
    using assms(4) by (simp add: fill_listed_def r py_or_def utc_iso_nonempty fill_ts_utc_iso [OF assms(2)])
  from list_fills_snoc [OF assms(3) this e] show ?thesis by simp
qed

text \<open>A record whose time does not parse makes every listing raise, whatever is recorded later.\<close>

theorem unreadable_time_stops_listing:
  assumes "Some (PDict r) \<in> set (ss_events st)" "dget r ''ts'' = PStr s" "s \<noteq> []" "fromisoformat (str_replace ''Z'' ''+00:00'' s) = None"
  shows "list_fills since statuses (foldl shadow_step st ops) \<noteq> Inr xs"
proof
  let ?st = "foldl shadow_step st ops"
  assume "list_fills since statuses ?st = Inr xs"
  then obtain bs where "map_res (fill_listed since statuses) (read_fills ?st) = Inr bs"
    by (auto simp: list_fills_def bind_res_eq_Inr)
  then have a: "list_all2 (\<lambda>v b. fill_listed since statuses v = Inr b) (read_fills ?st) bs" by (simp add: map_res_list_all2)
  have "Some (PDict r) \<in> set (ss_events ?st)" by (rule shadow.run_log_mem [OF assms(1)])
  then have "PDict r \<in> set (read_fills ?st)"
    by (auto simp: read_fills_def List.map_filter_def image_iff intro!: bexI [of _ "Some (PDict r)"])
  from list_all2_mem1 [OF a this] show False
    using assms(2-4) by (auto simp: fill_listed_def py_or_def fill_ts_def)
qed

section \<open>Alerts\<close>

definition count_of :: "string \<Rightarrow> drift_alert list \<Rightarrow> int" where
  "count_of s as = int (length (filter (\<lambda>a. da_severity a = s) as))"

lemma count_severity_lookup: "map_of (count_severity as) s = (if count_of s as = 0 then None else Some (count_of s as))"
  by (induction as rule: rev_induct) (auto simp: count_severity_def count_of_def)

fun somes :: "'a option list \<Rightarrow> 'a list" where
  "somes [] = []"
| "somes (None # xs) = somes xs"
| "somes (Some x # xs) = x # somes xs"

lemma somes_mem: "x \<in> set (somes xs) \<longleftrightarrow> Some x \<in> set xs"
  by (induction xs rule: somes.induct) auto

lemma detect_loop_result:
  assumes "detect_loop rules threshold clock rs as l = (l', Inr as')"
  shows "\<exists>os. map_res (detect_one rules threshold) rs = Inr os \<and> as' = as @ somes os
    \<and> dl_metrics l' = dl_metrics l
    \<and> dl_events l' = dl_events l @ map (\<lambda>i. drift_event (clock i) (as' ! i)) [length as..<length as']"
  using assms
proof (induction rules threshold clock rs as l rule: detect_loop.induct)
  case (2 rules threshold clock r rs as l)
  show ?case
  proof (cases "detect_one rules threshold r")
    case (Inl e)
    with 2 show ?thesis by simp
  next
    case (Inr x)
    show ?thesis
    proof (cases x)
      case None
      with 2 Inr obtain os where "map_res (detect_one rules threshold) rs = Inr os" "as' = as @ somes os"
        "dl_metrics l' = dl_metrics l"
        "dl_events l' = dl_events l @ map (\<lambda>i. drift_event (clock i) (as' ! i)) [length as..<length as']" by auto
      with Inr None show ?thesis by (intro exI [of _ "None # os"]) simp
    next
      case (Some a)
      with 2 Inr obtain os where os: "map_res (detect_one rules threshold) rs = Inr os" "as' = (as @ [a]) @ somes os"
        "dl_metrics l' = dl_metrics l"
        "dl_events l' = (dl_events l @ [drift_event (clock (length as)) a])
           @ map (\<lambda>i. drift_event (clock i) (as' ! i)) [length (as @ [a])..<length as']" by auto
      have "length as < length as'" "as' ! length as = a" by (simp_all add: os(2) nth_append)
      then have "map (\<lambda>i. drift_event (clock i) (as' ! i)) [length as..<length as'] =
        drift_event (clock (length as)) a # map (\<lambda>i. drift_event (clock i) (as' ! i)) [Suc (length as)..<length as']"
        by (simp add: upt_conv_Cons)
      with Inr Some os show ?thesis by (intro exI [of _ "Some a # os"]) simp
    qed
  qed
qed simp

lemma detect_one_alert:
  assumes "detect_one rules threshold r = Inr (Some a)"
  shows "\<not> flt (da_pips a) threshold \<and> da_severity a = drift_severity threshold (da_pips a)
    \<and> da_pips a = drift_pips rules (da_symbol a) (da_expected a) (da_fill a)"
proof -
  let ?p = "mapping_or_empty (dget r ''payload'')"
  obtain e f where e: "coerce_price (dget ?p ''expected_price'') = Inr e" and f: "coerce_price (dget ?p ''fill_price'') = Inr f"
    using assms by (auto simp: detect_one_def Let_def bind_res_eq_Inr)
  obtain e' f' where "e = Some e'" "f = Some f'"
    using assms by (cases e; cases f) (simp_all add: detect_one_def Let_def e f)
  with assms show ?thesis by (auto simp: detect_one_def Let_def e f split: if_splits)
qed

text \<open>The alerts are those of the records, in order, each logged as an event; an alert's drift is that of its prices and
  not below the threshold, its severity follows from it, and the metric counts the alerts by severity.\<close>

theorem drift_alerts_exact:
  assumes "detect_drift rules threshold clock rs l = (l', Inr as)"
  shows "\<exists>os. map_res (detect_one rules threshold) rs = Inr os \<and> as = somes os
    \<and> (\<forall>a \<in> set as. \<not> flt (da_pips a) threshold \<and> da_severity a = drift_severity threshold (da_pips a)
          \<and> da_pips a = drift_pips rules (da_symbol a) (da_expected a) (da_fill a))
    \<and> dl_events l' = dl_events l @ map (\<lambda>i. drift_event (clock i) (as ! i)) [0..<length as]
    \<and> dl_metrics l' = dl_metrics l @ (if as = [] then [] else [drift_metric (clock (length as)) as])"
proof -
  obtain l1 where l1: "detect_loop rules threshold clock rs [] l = (l1, Inr as)"
    "l' = (if as = [] then l1 else l1\<lparr>dl_metrics := dl_metrics l1 @ [drift_metric (clock (length as)) as]\<rparr>)"
    using assms by (auto simp: detect_drift_def split: prod.splits sum.splits)
  obtain os where os: "map_res (detect_one rules threshold) rs = Inr os" "as = somes os"
    "dl_metrics l1 = dl_metrics l" "dl_events l1 = dl_events l @ map (\<lambda>i. drift_event (clock i) (as ! i)) [0..<length as]"
    using detect_loop_result [OF l1(1)] by auto
  have "\<forall>a \<in> set as. \<exists>r. detect_one rules threshold r = Inr (Some a)"
  proof
    fix a assume "a \<in> set as"
    then have "Some a \<in> set os" by (auto simp: os(2) somes_mem)
    moreover have "list_all2 (\<lambda>r x. detect_one rules threshold r = Inr x) rs os" using os(1) by (simp add: map_res_list_all2)
    ultimately show "\<exists>r. detect_one rules threshold r = Inr (Some a)" by (meson list_all2_mem)
  qed
  then have "\<forall>a \<in> set as. \<not> flt (da_pips a) threshold \<and> da_severity a = drift_severity threshold (da_pips a)
     \<and> da_pips a = drift_pips rules (da_symbol a) (da_expected a) (da_fill a)"
    using detect_one_alert by blast
  with os l1(2) show ?thesis by (intro exI [of _ os]) auto
qed

text \<open>A fill price that is no number always raises an alert, and a minor one.\<close>

theorem nan_price_alerts:
  assumes "for_symbol rules s = Inr sr" "sr_pip_size sr = Fin p" "s \<noteq> []"
  shows "\<exists>a. detect_one rules threshold [(''payload'', PDict [(''expected_price'', PFloat (Fin e)), (''fill_price'', PStr ''nan''),
      (''symbol'', PStr s)])] = Inr (Some a) \<and> da_severity a = ''minor''"
proof -
  have "py_float (PStr ''nan'') = Inr NaN" by (simp add: py_float_def) code_simp
  then have c: "coerce_price (PStr ''nan'') = Inr (Some NaN)" by (simp add: coerce_price_def)
  have c': "coerce_price (PFloat (Fin e)) = Inr (Some (Fin e))" by (simp add: coerce_price_def py_float_def)
  have "drift_severity threshold NaN = ''minor''" by (cases "fmul threshold (Fin 2)") (simp_all add: drift_severity_def)
  moreover have "drift_pips rules s (Fin e) NaN = NaN" using assms by (simp add: drift_pips_def fsub_def fquot_def Let_def)
  ultimately show ?thesis using assms(3)
    by (simp add: detect_one_def Let_def mapping_or_empty_def py_or_def c c')
qed

section \<open>Witnesses\<close>

definition demo_fill_ts :: pydt where
  "demo_fill_ts = \<lparr>yr = 2025, mo = 3, dy = 14, hh = 9, mi = 30, ss = 0, us = 0, tzo = Some 0\<rparr>"

definition empty_store :: shadow_store where
  "empty_store = \<lparr>ss_events = [], ss_sessions = []\<rparr>"

theorem recorded_fill_listed_witness:
  "\<exists>st' r. record_fill ''0123456789abcdef'' demo_fill_ts ''T1'' None ''filled'' ''sandbox'' ''paper'' [] empty_store = (st', r)
     \<and> list_fills (Some 0) [] st' = Inr [PDict (fill_document r)]"
proof -
  obtain st' r where r: "record_fill ''0123456789abcdef'' demo_fill_ts ''T1'' None ''filled'' ''sandbox'' ''paper'' [] empty_store = (st', r)"
    by (cases "record_fill ''0123456789abcdef'' demo_fill_ts ''T1'' None ''filled'' ''sandbox'' ''paper'' [] empty_store") auto
  have "list_fills (Some 0) [] st' = Inr ([] @ [PDict (fill_document r)])"
    by (rule recorded_fill_listed [OF r])
      (simp_all add: demo_fill_ts_def valid_dt_def month_len_def list_fills_def read_fills_def empty_store_def List.map_filter_def
        epoch_us_def days_from_civil_def Let_def)
  with r show ?thesis by auto
qed

theorem unreadable_time_stops_listing_witness:
  "list_fills None [] (foldl shadow_step \<lparr>ss_events = [Some (PDict [(''ts'', PStr ''today'')])], ss_sessions = []\<rparr>
     [RecordFill [] demo_fill_ts ''T1'' None ''filled'' [] [] []]) \<noteq> Inr []"
proof (rule unreadable_time_stops_listing [where r = "[(''ts'', PStr ''today'')]" and s = "''today''"])
  show "fromisoformat (str_replace ''Z'' ''+00:00'' ''today'') = None" by code_simp
  show "dget [(''ts'', PStr ''today'')] ''ts'' = PStr ''today''" by (simp add: dget_def)
qed simp_all

definition demo_drift :: pydict where
  "demo_drift = [(''payload'', PDict [(''expected_price'', PFloat (Fin 1)), (''fill_price'', PFloat (Fin 4)), (''symbol'', PStr ''X'')])]"

lemma demo_drift_run: "\<exists>l' a. detect_drift demo_broker (Fin 1) (\<lambda>_. demo_fill_ts) [demo_drift] \<lparr>dl_events = [], dl_metrics = []\<rparr> = (l', Inr [a])
   \<and> da_pips a = Fin 3"
  by (simp add: detect_drift_def detect_one_def demo_drift_def Let_def mapping_or_empty_def py_or_def coerce_price_def py_float_def
      drift_pips_def for_symbol_def demo_broker_def demo_rules_def fsub_def fquot_def rnd_numeral)

theorem drift_alerts_exact_witness:
  "\<exists>l' a. detect_drift demo_broker (Fin 1) (\<lambda>_. demo_fill_ts) [demo_drift] \<lparr>dl_events = [], dl_metrics = []\<rparr> = (l', Inr [a])
    \<and> dl_events l' = [drift_event demo_fill_ts a] \<and> da_severity a = ''major''"
proof -
  obtain l' a where d: "detect_drift demo_broker (Fin 1) (\<lambda>_. demo_fill_ts) [demo_drift] \<lparr>dl_events = [], dl_metrics = []\<rparr> = (l', Inr [a])"
    "da_pips a = Fin 3" using demo_drift_run by blast
  have "drift_severity (Fin 1) (Fin 3) = ''major''" by (simp add: drift_severity_def rnd_numeral)
  with drift_alerts_exact [OF d(1)] d show ?thesis by auto
qed

theorem nan_price_alerts_witness:
  "\<exists>a. detect_one demo_broker (Fin 1) [(''payload'', PDict [(''expected_price'', PFloat (Fin 1)), (''fill_price'', PStr ''nan''),
      (''symbol'', PStr ''X'')])] = Inr (Some a) \<and> da_severity a = ''minor''"
  by (rule nan_price_alerts [of _ _ demo_rules 1]) (simp_all add: for_symbol_def demo_broker_def demo_rules_def)

end
