(* ===== verification/Exposure.thy ===== *)
theory Exposure
  imports PyDate
begin

text \<open>
  The alert dispatcher of \<open>infra/alert.py\<close> and the portfolio exposure analysis of
  \<open>risk/portfolio_exposure.py\<close>, which raises its alert through it. The SMTP settings are a record
  of the environment variables, and what the mail server answers is an argument.

  Shown: which variances an analysis finds; that an alert is always logged before any mail is tried,
  and that a failed mail raises only on request; and where the analysis is blind: an account with no
  positive equity raises no margin alarm, and the alert of a critical variance is a warning.
\<close>

section \<open>Alerts\<close>

record alert_event =
  ae_severity :: string
  ae_message :: string
  ae_reason :: "string option"
  ae_runbook :: "string option"
  ae_metadata :: "pydict option"
  ae_ts :: "string option"

definition simple_alert :: "string \<Rightarrow> string \<Rightarrow> alert_event" where
  "simple_alert level message = \<lparr>ae_severity = level, ae_message = message, ae_reason = None, ae_runbook = None,
     ae_metadata = None, ae_ts = None\<rparr>"

definition alert_event_dict :: "pydt \<Rightarrow> alert_event \<Rightarrow> pydict" where
  "alert_event_dict now e = [(''ts'', ostr (str_or (ae_ts e) (Some (utc_iso now)))), (''severity'', PStr (ae_severity e)),
     (''message'', PStr (ae_message e)), (''reason'', ostr (ae_reason e)), (''runbook_ref'', ostr (ae_runbook e)),
     (''metadata'', PDict (case ae_metadata e of None \<Rightarrow> [] | Some d \<Rightarrow> d))]"

record smtp_env =
  se_host :: "string option"
  se_port :: "string option"
  se_user :: "string option"
  se_pass :: "string option"
  se_from :: "string option"
  se_to :: "string option"

definition smtp_configured :: "smtp_env \<Rightarrow> bool" where
  "smtp_configured e \<longleftrightarrow> otrue (se_host e) \<and> otrue (se_to e) \<and> (otrue (se_from e) \<or> otrue (se_user e))"

definition alert_subject :: "pydict \<Rightarrow> string" where
  "alert_subject p = ''[tradectl]['' @ str_upper (py_str (dget_def p ''severity'' (PStr ''info''))) @ ''] ''
     @ py_str (py_or (dget p ''reason'') (PStr ''alert''))"

definition newline :: string where
  "newline = [char_of (10 :: nat)]"

definition alert_body :: "pydict \<Rightarrow> string" where
  "alert_body p = str_join newline ([''Severity: '' @ py_str (dget p ''severity''), ''Message: '' @ py_str (dget p ''message''),
     ''Reason: '' @ py_str (dget p ''reason''), ''Runbook: '' @ py_str (dget p ''runbook_ref'')]
     @ (if truthy (dget p ''metadata'') then [''Metadata: '' @ json_text (dget p ''metadata'')] else []))"

record mail =
  ml_host :: string
  ml_port :: int
  ml_login :: "(string \<times> string) option"
  ml_from :: string
  ml_to :: string
  ml_subject :: string
  ml_body :: string

definition getenv :: "string option \<Rightarrow> string \<Rightarrow> string" where
  "getenv v d = (case v of None \<Rightarrow> d | Some s \<Rightarrow> s)"

text \<open>The mail handed to the server, or the exception before that.\<close>

definition compose_mail :: "smtp_env \<Rightarrow> string option \<Rightarrow> pydict \<Rightarrow> mail res" where
  "compose_mail e override p = bind_res (py_int (PStr (getenv (se_port e) ''587''))) (\<lambda>port.
     let sender = getenv (se_from e) (getenv (se_user e) []); recipients = (if otrue override then getenv override [] else getenv (se_to e) [])
     in if \<not> otrue (se_host e) \<or> sender = [] \<or> recipients = []
        then Inl (Raises ''AlertChannelConfigError'' ''SMTP configuration is missing'')
        else Inr \<lparr>ml_host = getenv (se_host e) [], ml_port = port,
               ml_login = (if otrue (se_user e) \<and> otrue (se_pass e) then Some (getenv (se_user e) [], getenv (se_pass e) []) else None),
               ml_from = sender, ml_to = recipients, ml_subject = alert_subject p, ml_body = alert_body p\<rparr>)"

record alert_state =
  as_log :: "pyval list"
  as_mails :: "mail list"

text \<open>\<open>failure\<close> is the server's error, None where it takes the mail.\<close>

definition send_email :: "smtp_env \<Rightarrow> string option \<Rightarrow> string option \<Rightarrow> pydict \<Rightarrow> alert_state \<Rightarrow> alert_state \<times> unit res" where
  "send_email e failure override p s = (case compose_mail e override p of
       Inl x \<Rightarrow> (s, Inl x)
     | Inr m \<Rightarrow> (case failure of Some msg \<Rightarrow> (s, Inl (Raises ''AlertSendError'' msg)) | None \<Rightarrow> (s\<lparr>as_mails := as_mails s @ [m]\<rparr>, Inr ())))"

definition channel_error :: "err \<Rightarrow> bool" where
  "channel_error x \<longleftrightarrow> (case x of Raises c _ \<Rightarrow> c = ''AlertChannelConfigError'' \<or> c = ''AlertSendError'' | _ \<Rightarrow> False)"

definition dispatch_event :: "smtp_env \<Rightarrow> string option \<Rightarrow> pydt \<Rightarrow> bool \<Rightarrow> alert_event \<Rightarrow> alert_state \<Rightarrow> alert_state \<times> unit res" where
  "dispatch_event e failure now raise_on_error ev s =
     (let p = alert_event_dict now ev; s1 = s\<lparr>as_log := as_log s @ [PDict p]\<rparr>
      in if \<not> smtp_configured e then (s1, Inr ())
         else (case send_email e failure None p s1 of
             (s2, Inl x) \<Rightarrow> (s2, if channel_error x \<and> \<not> raise_on_error then Inr () else Inl x)
           | r \<Rightarrow> r))"

definition dispatch_alert ::
  "smtp_env \<Rightarrow> string option \<Rightarrow> pydt \<Rightarrow> bool \<Rightarrow> string option \<Rightarrow> string option \<Rightarrow> alert_event option \<Rightarrow> alert_state \<Rightarrow> alert_state \<times> unit res" where
  "dispatch_alert e failure now raise_on_error level message ev s = (case ev of
       Some x \<Rightarrow> dispatch_event e failure now raise_on_error x s
     | None \<Rightarrow> (case (level, message) of
           (Some l, Some m) \<Rightarrow> dispatch_event e failure now raise_on_error (simple_alert l m) s
         | _ \<Rightarrow> (s, Inl (Raises ''AlertTemplateError'' ''level and message are required''))))"

definition test_channel :: "smtp_env \<Rightarrow> string option \<Rightarrow> pydt \<Rightarrow> string \<Rightarrow> string \<Rightarrow> alert_state \<Rightarrow> alert_state \<times> pydict res" where
  "test_channel e failure now channel to_address s =
     (if channel \<noteq> ''smtp'' then (s, Inl (Raises ''AlertChannelConfigError'' (''unsupported channel: '' @ channel)))
      else if \<not> smtp_configured e then (s, Inl (Raises ''AlertChannelConfigError'' ''SMTP configuration is missing''))
      else case send_email e failure (Some to_address) (alert_event_dict now ((simple_alert ''info'' ''Alert channel test'')
             \<lparr>ae_reason := Some ''channel_test'', ae_metadata := Some [(''channel'', PStr channel)]\<rparr>)) s of
          (s1, Inl x) \<Rightarrow> (s1, Inl x)
        | (s1, Inr _) \<Rightarrow> (s1, Inr [(''status'', PStr ''ok''), (''channel'', PStr channel), (''to'', PStr to_address)]))"

section \<open>Exposure\<close>

record guard_inputs =
  gi_equity :: pyfloat
  gi_margin :: pyfloat
  gi_net :: pyfloat
  gi_hedge :: pyfloat

definition guard_inputs_dict :: "guard_inputs \<Rightarrow> pydict" where
  "guard_inputs_dict g = [(''total_equity'', PFloat (gi_equity g)), (''margin_utilization'', PFloat (gi_margin g)),
     (''net_r_eff'', PFloat (gi_net g)), (''hedge_ratio'', PFloat (gi_hedge g))]"

type_synonym thresholds = "(string \<times> pyfloat) list"

definition default_exposure :: thresholds where
  "default_exposure = [(''margin_utilization_warn'', rnd (45 / 100)), (''margin_utilization_critical'', rnd (6 / 10)),
     (''hedge_ratio_warn'', rnd (3 / 10)), (''net_r_eff_warn'', rnd (8 / 10)), (''net_r_eff_critical'', rnd (12 / 10))]"

fun merge_thresholds :: "pydict \<Rightarrow> thresholds \<Rightarrow> thresholds res" where
  "merge_thresholds [] t = Inr t"
| "merge_thresholds ((k, v) # d) t = bind_res (or_none (py_float v)) (\<lambda>x.
     merge_thresholds d (case x of None \<Rightarrow> t | Some y \<Rightarrow> AList.update k y t))"

text \<open>A file that does not parse lets the parser's exception through (a ValueError here).\<close>

definition load_exposure_thresholds :: "json_file \<Rightarrow> thresholds res" where
  "load_exposure_thresholds f = (case f of None \<Rightarrow> Inr default_exposure | Some None \<Rightarrow> Inl ValueError
     | Some (Some v) \<Rightarrow> (case py_or v (PDict []) of
           PDict d \<Rightarrow> (case dget d ''thresholds'' of PDict t \<Rightarrow> merge_thresholds t default_exposure | _ \<Rightarrow> Inr default_exposure)
         | _ \<Rightarrow> Inr default_exposure))"

definition compute_guard_inputs :: "pydict \<Rightarrow> guard_inputs res" where
  "compute_guard_inputs d =
     bind_res (py_float (py_or (dget d ''total_equity'') (PFloat (Fin 0)))) (\<lambda>equity.
     bind_res (py_float (py_or (dget d ''total_margin_used'') (py_or (dget d ''total_margin'') (PFloat (Fin 0))))) (\<lambda>margin.
     bind_res (if equity = Fin 0 then Inr (Fin 0) else fdiv margin equity) (\<lambda>ratio.
     bind_res (py_float (py_or (dget d ''r_eff_total'') (PFloat (Fin 0)))) (\<lambda>net.
     bind_res (py_float (py_or (dget d ''hedge_ratio'') (PFloat (Fin 0)))) (\<lambda>hedge.
     Inr \<lparr>gi_equity = equity, gi_margin = ratio, gi_net = net, gi_hedge = hedge\<rparr>)))))"

record variance =
  va_kind :: string
  va_severity :: string
  va_details :: string
  va_detected :: string
  va_action :: "string option"

definition variance_dict :: "variance \<Rightarrow> pydict" where
  "variance_dict v = [(''kind'', PStr (va_kind v)), (''severity'', PStr (va_severity v)), (''details'', PStr (va_details v)),
     (''detected_at'', PStr (va_detected v)), (''recommended_action'', ostr (va_action v))]"

definition new_variance :: "string \<Rightarrow> string \<Rightarrow> string \<Rightarrow> pyfloat \<Rightarrow> variance" where
  "new_variance now kind severity x = \<lparr>va_kind = kind, va_severity = severity, va_details = kind @ ''='' @ fmt_fixed 2 x,
     va_detected = now, va_action = Some ''runbook:RUN-ACCOUNT-02''\<rparr>"

text \<open>A measure with a critical and a warning bound, and one with a warning bound only. The bounds are always there,
  being among the defaults.\<close>

definition bound :: "thresholds \<Rightarrow> string \<Rightarrow> pyfloat" where
  "bound t k = (case map_of t k of Some x \<Rightarrow> x | None \<Rightarrow> NaN)"

definition two_level :: "string \<Rightarrow> thresholds \<Rightarrow> string \<Rightarrow> pyfloat \<Rightarrow> variance list" where
  "two_level now t kind x = (if fge x (bound t (kind @ ''_critical'')) then [new_variance now kind ''critical'' x]
     else if fge x (bound t (kind @ ''_warn'')) then [new_variance now kind ''warn'' x] else [])"

definition one_level :: "string \<Rightarrow> thresholds \<Rightarrow> string \<Rightarrow> pyfloat \<Rightarrow> variance list" where
  "one_level now t kind x = (if fge x (bound t (kind @ ''_warn'')) then [new_variance now kind ''warn'' x] else [])"

text \<open>The readings of the clock in one analysis.\<close>

record exposure_clock =
  xc_margin :: pydt
  xc_hedge :: pydt
  xc_net :: pydt
  xc_metric :: pydt
  xc_audit :: pydt
  xc_alert :: pydt

definition find_variances :: "exposure_clock \<Rightarrow> thresholds \<Rightarrow> guard_inputs \<Rightarrow> variance list" where
  "find_variances c t g = two_level (utc_iso (xc_margin c)) t ''margin_utilization'' (gi_margin g) @ one_level (utc_iso (xc_hedge c)) t ''hedge_ratio'' (gi_hedge g)
     @ two_level (utc_iso (xc_net c)) t ''net_r_eff'' (gi_net g)"

record exposure_world =
  xw_metrics :: "pyval list"
  xw_audit :: "pyval list"
  xw_alerts :: alert_state

definition exposure_metric :: "pydt \<Rightarrow> variance list \<Rightarrow> pyval" where
  "exposure_metric now vs = PDict [(''ts'', PStr (utc_iso now)), (''event'', PStr ''account_aggregator.variance_detected''),
     (''variance_count'', PInt (int (length vs))), (''severity'', PList (map PStr
        (filter (\<lambda>s. s \<in> set (map va_severity vs)) [''critical'', ''warn''])))]"

definition exposure_audit :: "pydt \<Rightarrow> pyval" where
  "exposure_audit now = PDict [(''ts'', PStr (utc_iso now)), (''event'', PStr ''account_aggregator.variance_detected'')]"

definition detect_variance ::
  "thresholds \<Rightarrow> smtp_env \<Rightarrow> string option \<Rightarrow> exposure_clock \<Rightarrow> pydict \<Rightarrow> exposure_world \<Rightarrow> exposure_world \<times> pydict list res" where
  "detect_variance t e failure c d w = (case compute_guard_inputs d of Inl x \<Rightarrow> (w, Inl x)
     | Inr g \<Rightarrow>
        let vs = find_variances c t g in
        if vs = [] then (w, Inr [])
        else let (a, r) = dispatch_alert e failure (xc_alert c) False (Some ''warning'') (Some ''account_aggregator variance detected'')
                 None (xw_alerts w)
             in (w\<lparr>xw_metrics := xw_metrics w @ [exposure_metric (xc_metric c) vs], xw_audit := xw_audit w @ [exposure_audit (xc_audit c)],
                   xw_alerts := a\<rparr>, bind_res r (\<lambda>_. Inr (map variance_dict vs))))"

section \<open>Delivery\<close>

lemma send_email_log [simp]: "as_log (fst (send_email e failure override p s)) = as_log s"
  by (simp add: send_email_def split: sum.split option.split)

lemma compose_mail_error: "compose_mail e override p = Inl x \<Longrightarrow> channel_error x \<or> (x = ValueError \<and> py_int (PStr (getenv (se_port e) ''587'')) = Inl x)"
proof -
  assume a: "compose_mail e override p = Inl x"
  show ?thesis
  proof (cases "py_int (PStr (getenv (se_port e) ''587''))")
    case (Inl y)
    then have "x = y" "y = ValueError" using a by (auto simp: compose_mail_def py_int_def split: option.splits)
    with Inl show ?thesis by simp
  next
    case (Inr n)
    with a show ?thesis by (auto simp: compose_mail_def Let_def channel_error_def split: if_splits)
  qed
qed

text \<open>An alert is logged exactly once, whatever the mail server does; unless asked to, a dispatch raises only where the
  port of the settings is no number.\<close>

theorem alert_logged_once:
  assumes "dispatch_event e failure now raise_on_error ev s = (s', r)"
  shows "as_log s' = as_log s @ [PDict (alert_event_dict now ev)]
    \<and> (\<not> raise_on_error \<longrightarrow> r = Inr () \<or> (r = Inl ValueError \<and> smtp_configured e \<and> parse_int (getenv (se_port e) ''587'') = None))"
proof (cases "smtp_configured e")
  case False
  with assms show ?thesis by (auto simp: dispatch_event_def Let_def)
next
  case True
  let ?p = "alert_event_dict now ev" and ?s1 = "s\<lparr>as_log := as_log s @ [PDict (alert_event_dict now ev)]\<rparr>"
  obtain s2 q where q: "send_email e failure None ?p ?s1 = (s2, q)" by (cases "send_email e failure None ?p ?s1")
  have "as_log s2 = as_log ?s1" using send_email_log [of e failure None ?p ?s1] by (simp only: q fst_conv)
  moreover have "s' = s2 \<and> (case q of Inr _ \<Rightarrow> r = Inr () | Inl x \<Rightarrow> r = (if channel_error x \<and> \<not> raise_on_error then Inr () else Inl x))"
    using assms True q by (auto simp: dispatch_event_def Let_def split: sum.splits)
  moreover have "channel_error x \<or> (x = ValueError \<and> parse_int (getenv (se_port e) ''587'') = None)" if "q = Inl x" for x
  proof (cases "compose_mail e None ?p")
    case (Inl y)
    then have "x = y" using q that by (simp add: send_email_def)
    with compose_mail_error [OF Inl] show ?thesis by (auto simp: py_int_def split: option.splits)
  next
    case (Inr m)
    with q that show ?thesis by (cases failure) (auto simp: send_email_def channel_error_def)
  qed
  ultimately show ?thesis using True by (cases q) auto
qed

section \<open>Blind spots\<close>

lemma kinds: "va_kind (new_variance now k s x) = k" "va_severity (new_variance now k s x) = s"
  by (simp_all add: new_variance_def)

definition numbers :: "pydict \<Rightarrow> rat \<Rightarrow> rat \<Rightarrow> bool" where
  "numbers d equity margin \<longleftrightarrow> dget d ''total_equity'' = PFloat (Fin equity) \<and> dget d ''total_margin_used'' = PFloat (Fin margin)"

text \<open>An account whose equity is zero or negative has no margin variance, however much margin it uses.\<close>

theorem no_equity_no_margin_alarm:
  assumes "detect_variance t e failure c d w = (w', Inr vs)" "numbers d equity margin" "equity \<le> 0" "0 < margin"
    and "bound t ''margin_utilization_warn'' = Fin a" "bound t ''margin_utilization_critical'' = Fin b" "0 < a" "0 < b"
  shows "\<forall>v \<in> set vs. dget v ''kind'' \<noteq> PStr ''margin_utilization''"
proof -
  obtain g where g: "compute_guard_inputs d = Inr g" using assms(1) by (cases "compute_guard_inputs d") (auto simp: detect_variance_def)
  have m: "gi_margin g = Fin 0 \<or> (equity < 0 \<and> gi_margin g = rnd (margin / equity))"
  proof (cases "equity = 0")
    case True
    with g assms(2,4) show ?thesis by (auto simp: compute_guard_inputs_def numbers_def py_or_def py_float_def bind_res_eq_Inr)
  next
    case False
    with g assms(2-4) show ?thesis by (auto simp: compute_guard_inputs_def numbers_def py_or_def py_float_def bind_res_eq_Inr)
  qed
  have "fle (gi_margin g) (Fin 0)"
    using m
  proof
    assume r: "equity < 0 \<and> gi_margin g = rnd (margin / equity)"
    then have "margin / equity \<le> 0" using assms(4) by (simp add: divide_nonneg_neg)
    from rnd_mono [OF this] r show ?thesis by simp
  qed simp
  then have "\<not> fge (gi_margin g) (Fin a)" "\<not> fge (gi_margin g) (Fin b)"
    using assms(7,8) by (cases "gi_margin g"; auto)+
  then have "two_level now t ''margin_utilization'' (gi_margin g) = []" for now
    using assms(5,6) by (simp add: two_level_def)
  then have f: "find_variances c t g = one_level (utc_iso (xc_hedge c)) t ''hedge_ratio'' (gi_hedge g) @ two_level (utc_iso (xc_net c)) t ''net_r_eff'' (gi_net g)"
    by (simp add: find_variances_def)
  have "set vs \<subseteq> variance_dict ` set (find_variances c t g)"
    using assms(1) g by (auto simp: detect_variance_def Let_def bind_res_eq_Inr split: if_splits prod.splits)
  moreover have "\<forall>v \<in> set (find_variances c t g). va_kind v \<noteq> ''margin_utilization''"
    unfolding f by (auto simp: one_level_def two_level_def kinds)
  ultimately show ?thesis by (auto simp: variance_dict_def)
qed

text \<open>The alert of an analysis is a warning also where a variance is critical.\<close>

theorem critical_variance_alerts_warning:
  assumes "detect_variance t e failure c d w = (w', Inr vs)" "v \<in> set vs" "dget v ''severity'' = PStr ''critical''"
  shows "\<exists>p. as_log (xw_alerts w') = as_log (xw_alerts w) @ [PDict p] \<and> dget p ''severity'' = PStr ''warning''"
proof -
  let ?p = "alert_event_dict (xc_alert c) (simple_alert ''warning'' ''account_aggregator variance detected'')"
  obtain g where g: "compute_guard_inputs d = Inr g" using assms(1) by (cases "compute_guard_inputs d") (auto simp: detect_variance_def)
  have ne: "find_variances c t g \<noteq> []" using assms(1,2) g by (auto simp: detect_variance_def)
  obtain a r where a: "dispatch_event e failure (xc_alert c) False (simple_alert ''warning'' ''account_aggregator variance detected'')
      (xw_alerts w) = (a, r)" by fastforce
  have "xw_alerts w' = a" using assms(1) g ne a by (auto simp: detect_variance_def dispatch_alert_def Let_def)
  moreover have "as_log a = as_log (xw_alerts w) @ [PDict ?p]"
  proof (cases "smtp_configured e")
    case False
    with a show ?thesis by (auto simp: dispatch_event_def Let_def)
  next
    case True
    have "fst (dispatch_event e failure (xc_alert c) False (simple_alert ''warning'' ''account_aggregator variance detected'') (xw_alerts w))
      = fst (send_email e failure None ?p ((xw_alerts w)\<lparr>as_log := as_log (xw_alerts w) @ [PDict ?p]\<rparr>))"
      using True by (simp add: dispatch_event_def Let_def split: prod.split sum.split)
    then show ?thesis using a by simp
  qed
  ultimately show ?thesis by (intro exI [of _ ?p]) (simp add: alert_event_dict_def simple_alert_def)
qed

section \<open>Witnesses\<close>

definition no_smtp :: smtp_env where
  "no_smtp = \<lparr>se_host = None, se_port = None, se_user = None, se_pass = None, se_from = None, se_to = None\<rparr>"

definition bad_port :: smtp_env where
  "bad_port = \<lparr>se_host = Some ''mail'', se_port = Some ''smtp'', se_user = Some ''u'', se_pass = None, se_from = None, se_to = Some ''ops''\<rparr>"

definition demo_alert_ts :: pydt where
  "demo_alert_ts = \<lparr>yr = 2025, mo = 3, dy = 14, hh = 9, mi = 30, ss = 0, us = 0, tzo = Some 0\<rparr>"

lemma bad_port_raises:
  "snd (dispatch_event bad_port None demo_alert_ts False (simple_alert ''warning'' ''x'') \<lparr>as_log = [], as_mails = []\<rparr>) = Inl ValueError"
proof -
  have "py_int (PStr ''smtp'') = Inl ValueError" by (simp add: py_int_def) code_simp
  then have "compose_mail bad_port None p = Inl ValueError" for p by (simp add: compose_mail_def bad_port_def getenv_def)
  then show ?thesis by (simp add: dispatch_event_def send_email_def Let_def smtp_configured_def channel_error_def) (simp add: bad_port_def)
qed

theorem alert_logged_once_witness:
  "\<exists>s'. dispatch_event bad_port None demo_alert_ts False (simple_alert ''warning'' ''x'') \<lparr>as_log = [], as_mails = []\<rparr> = (s', Inl ValueError)
    \<and> length (as_log s') = 1 \<and> parse_int (getenv (se_port bad_port) ''587'') = None"
proof -
  obtain s' where d: "dispatch_event bad_port None demo_alert_ts False (simple_alert ''warning'' ''x'') \<lparr>as_log = [], as_mails = []\<rparr>
      = (s', Inl ValueError)" using bad_port_raises by (metis prod.collapse)
  show ?thesis by (rule exI [of _ s']) (use alert_logged_once [OF d] d in simp)
qed

definition demo_limits :: thresholds where
  "demo_limits = [(''margin_utilization_warn'', Fin 1), (''margin_utilization_critical'', Fin 2), (''hedge_ratio_warn'', Fin 1),
     (''net_r_eff_warn'', Fin 1), (''net_r_eff_critical'', Fin 2)]"

definition demo_clock :: exposure_clock where
  "demo_clock = \<lparr>xc_margin = demo_alert_ts, xc_hedge = demo_alert_ts, xc_net = demo_alert_ts, xc_metric = demo_alert_ts,
     xc_audit = demo_alert_ts, xc_alert = demo_alert_ts\<rparr>"

definition demo_world :: exposure_world where
  "demo_world = \<lparr>xw_metrics = [], xw_audit = [], xw_alerts = \<lparr>as_log = [], as_mails = []\<rparr>\<rparr>"

definition demo_account :: "rat \<Rightarrow> pydict" where
  "demo_account net = [(''total_equity'', PFloat (Fin (- 100))), (''total_margin_used'', PFloat (Fin 50)), (''r_eff_total'', PFloat (Fin net))]"

lemma demo_inputs: "\<exists>g. compute_guard_inputs (demo_account net) = Inr g \<and> gi_hedge g = Fin 0 \<and> gi_net g = Fin net"
  by (simp add: compute_guard_inputs_def demo_account_def py_or_def py_float_def)

lemma demo_bounds: "bound demo_limits ''margin_utilization_warn'' = Fin 1" "bound demo_limits ''margin_utilization_critical'' = Fin 2"
  "bound demo_limits ''net_r_eff_critical'' = Fin 2" "bound demo_limits ''hedge_ratio_warn'' = Fin 1"
  by (simp_all add: bound_def demo_limits_def)

lemma demo_detect: "\<exists>w' v vs. detect_variance demo_limits no_smtp None demo_clock (demo_account 5) demo_world = (w', Inr vs)
    \<and> v \<in> set vs \<and> dget v ''severity'' = PStr ''critical''"
proof -
  obtain g where g: "compute_guard_inputs (demo_account 5) = Inr g" "gi_net g = Fin 5" using demo_inputs by blast
  let ?v = "new_variance (utc_iso demo_alert_ts) ''net_r_eff'' ''critical'' (Fin 5)"
  have v: "?v \<in> set (find_variances demo_clock demo_limits g)"
    by (simp add: find_variances_def two_level_def g demo_bounds demo_clock_def)
  have d: "dget (variance_dict ?v) ''severity'' = PStr ''critical''" by (simp add: variance_dict_def kinds)
  have s: "snd (dispatch_alert no_smtp None ts False (Some l) (Some m) None a) = Inr ()" for ts l m a
    by (simp add: dispatch_alert_def dispatch_event_def Let_def smtp_configured_def no_smtp_def)
  obtain a where a: "dispatch_alert no_smtp None (xc_alert demo_clock) False (Some ''warning'') (Some ''account_aggregator variance detected'') None
      (xw_alerts demo_world) = (a, Inr ())" by (metis prod.collapse s)
  have "\<exists>w'. detect_variance demo_limits no_smtp None demo_clock (demo_account 5) demo_world
      = (w', Inr (map variance_dict (find_variances demo_clock demo_limits g)))"
    using v by (auto simp: detect_variance_def g(1) a Let_def)
  then obtain w' where w': "detect_variance demo_limits no_smtp None demo_clock (demo_account 5) demo_world
      = (w', Inr (map variance_dict (find_variances demo_clock demo_limits g)))" ..
  have m: "variance_dict ?v \<in> set (map variance_dict (find_variances demo_clock demo_limits g))" using v by simp
  show ?thesis using w' m d by blast
qed

theorem no_equity_no_margin_alarm_witness:
  "\<exists>w' vs. detect_variance demo_limits no_smtp None demo_clock (demo_account 5) demo_world = (w', Inr vs)
     \<and> filter (\<lambda>v. dget v ''kind'' = PStr ''margin_utilization'') vs = []"
proof -
  obtain w' vs where d: "detect_variance demo_limits no_smtp None demo_clock (demo_account 5) demo_world = (w', Inr vs)"
    using demo_detect by blast
  have "numbers (demo_account 5) (- 100) 50" by (simp add: numbers_def demo_account_def)
  from no_equity_no_margin_alarm [OF d this _ _ demo_bounds(1,2)] d show ?thesis by (auto simp: filter_empty_conv)
qed

theorem critical_variance_alerts_warning_witness:
  "\<exists>w' p. as_log (xw_alerts w') = [PDict p] \<and> dget p ''severity'' = PStr ''warning''
     \<and> w' = fst (detect_variance demo_limits no_smtp None demo_clock (demo_account 5) demo_world)"
proof -
  obtain w' v vs where d: "detect_variance demo_limits no_smtp None demo_clock (demo_account 5) demo_world = (w', Inr vs)"
    "v \<in> set vs" "dget v ''severity'' = PStr ''critical''" using demo_detect by blast
  from critical_variance_alerts_warning [OF d] d(1) show ?thesis by (auto simp: demo_world_def)
qed

end
