(* ===== verification/TimeSync.thy ===== *)
theory TimeSync
  imports PyDate Health Scheduler
begin

text \<open>
  The clock guard of \<open>core/time_sync.py\<close> over the health monitor: it reads the drift measurements,
  raises a condition and suggests the guarded mode where the clock is out of step, and suggests to
  resume where the measurements of a window were good. The metrics file is the list of its entries,
  its path a text; clock readings are arguments.

  Shown: the status is that of the latest measurement, and a drift over the major bound leaves the
  monitor at least degraded with the guarded action queued; resuming needs enough measurements, all
  good. And where it fails: a recovery does not clear the reason the drift raised; a measurement that
  is no number reads as a clock in step; the scheduled job overwrites the health state with that of
  a fresh monitor.
\<close>

section \<open>Entries\<close>

definition dict_entries :: "json_lines \<Rightarrow> pydict list" where
  "dict_entries ls = map mapping_or_empty (filter is_mapping (List.map_filter id ls))"

definition entry_ts :: "pydict \<Rightarrow> pydt option" where
  "entry_ts e = (let v = py_or (dget e ''ts'') (dget e ''timestamp'') in if v = PNone then None
     else let s = py_str v in fromisoformat (if ends_with ''Z'' s then butlast s @ ''+00:00'' else s))"

text \<open>The latest entry with a drift that converts, from the entries in reverse.\<close>

fun find_drift :: "pydict list \<Rightarrow> pydict option res" where
  "find_drift [] = Inr None"
| "find_drift (e # es) = (let v = dget e ''clock_drift_ms'' in if v = PNone then find_drift es
     else bind_res (or_none (py_float v)) (\<lambda>x. case x of None \<Rightarrow> find_drift es | Some _ \<Rightarrow> Inr (Some e)))"

definition find_latest_drift :: "pydict list \<Rightarrow> pydict option res" where
  "find_latest_drift es = find_drift (rev es)"

record sync_guard =
  sg_warn :: int
  sg_major :: int
  sg_critical :: int
  sg_resume :: int
  sg_window :: int
  sg_samples :: int
  sg_runbook :: string

definition default_sync_guard :: sync_guard where
  "default_sync_guard = \<lparr>sg_warn = 500, sg_major = 1500, sg_critical = 3000, sg_resume = 200, sg_window = 30, sg_samples = 3,
     sg_runbook = ''docs/runbooks/RUN-TIME-01.md''\<rparr>"

text \<open>The drifts of the entries within the window.\<close>

fun recent_drifts :: "int \<Rightarrow> pydt \<Rightarrow> pydict list \<Rightarrow> pyfloat list res" where
  "recent_drifts lag now [] = Inr []"
| "recent_drifts lag now (e # es) = (case entry_ts e of None \<Rightarrow> recent_drifts lag now es
     | Some t \<Rightarrow> bind_res (older_than lag now t) (\<lambda>old.
         if old \<or> dget e ''clock_drift_ms'' = PNone then recent_drifts lag now es
         else bind_res (or_none (py_float (dget e ''clock_drift_ms''))) (\<lambda>x.
           bind_res (recent_drifts lag now es) (\<lambda>xs. Inr (case x of None \<Rightarrow> xs | Some y \<Rightarrow> fabs y # xs)))))"

definition recent_ok :: "sync_guard \<Rightarrow> pydt \<Rightarrow> pydict list \<Rightarrow> bool res" where
  "recent_ok g now es = bind_res (recent_drifts (sg_window g * 60000000) now es) (\<lambda>xs.
     Inr (sg_samples g \<le> int (length xs) \<and> list_all (\<lambda>x. fle x (Fin (of_int (sg_resume g)))) xs))"

section \<open>Evaluation\<close>

record sync_evaluation =
  ev_status :: string
  ev_drift :: "pyfloat option"
  ev_level :: "string option"
  ev_action :: "string option"
  ev_reason :: "string option"
  ev_runbook :: string
  ev_details :: "string list"
  ev_ts :: string

definition evaluation_to_dict :: "sync_evaluation \<Rightarrow> pydict" where
  "evaluation_to_dict e = [(''status'', PStr (ev_status e)), (''drift_ms'', case ev_drift e of None \<Rightarrow> PNone | Some x \<Rightarrow> PFloat x),
     (''level'', ostr (ev_level e)), (''action'', ostr (ev_action e)), (''reason'', ostr (ev_reason e)), (''runbook'', PStr (ev_runbook e)),
     (''details'', PList (map PStr (ev_details e))), (''ts'', PStr (ev_ts e))]"

text \<open>The status and, past a bound, the level to raise.\<close>

definition drift_level :: "sync_guard \<Rightarrow> pyfloat \<Rightarrow> string \<times> string option" where
  "drift_level g x = (if fge x (Fin (of_int (sg_critical g))) then (''critical'', Some ''degraded'')
     else if fge x (Fin (of_int (sg_major g))) then (''major'', Some ''degraded'')
     else if fge x (Fin (of_int (sg_warn g))) then (''warn'', Some ''warning'') else (''ok'', None))"

record sync_env =
  sy_ts :: pydt
  sy_raise :: pydt
  sy_event :: pydt
  sy_write_ok :: bool
  sy_queue :: pydt
  sy_now :: pydt
  sy_audit :: pydt
  sy_suggest :: pydt
  sy_worklog :: pydt
  sy_metrics :: string
  sy_health :: string

record sync_files =
  sw_health :: json_file
  sw_audit :: "pyval list"
  sw_suggest :: "pyval list"
  sw_worklog :: "pyval list"

definition drift_text :: "pyfloat \<Rightarrow> string" where
  "drift_text x = ''clock_drift_ms='' @ fmt_fixed 1 x"

definition out_of_sync :: "sync_guard \<Rightarrow> sync_env \<Rightarrow> string \<Rightarrow> pyfloat \<Rightarrow> monitor \<Rightarrow> monitor" where
  "out_of_sync g env level x m =
     snd (suggest_guarded ''clock_out_of_sync'' (Some (sg_runbook g)) None [sy_metrics env] None None (sy_queue env)
       (raise_condition level ''clock_out_of_sync'' (Some (drift_text x)) (Some ''runbook:RUN-TIME-01#sync'') False (sy_raise env)
          (sy_event env) (sy_write_ok env) m))"

definition back_in_sync :: "sync_guard \<Rightarrow> sync_env \<Rightarrow> monitor \<Rightarrow> monitor" where
  "back_in_sync g env m =
     suggest_resume ''clock_out_of_sync_recovered'' (Some (sg_runbook g)) [sy_metrics env] None None (sy_queue env) m"

definition new_actions :: "monitor \<Rightarrow> monitor \<Rightarrow> health_action list" where
  "new_actions m m' = filter (\<lambda>a. ha_id a \<notin> ha_id ` set (hm_actions m)) (hm_actions m')"

definition write_sync_files ::
  "bool \<Rightarrow> bool \<Rightarrow> sync_env \<Rightarrow> string \<Rightarrow> string \<Rightarrow> pyfloat \<Rightarrow> monitor \<Rightarrow> monitor \<Rightarrow> sync_files \<Rightarrow> sync_files" where
  "write_sync_files persist log_events env action reason x m m' f = (if new_actions m m' = [] then f
     else let f1 = (if persist then f\<lparr>sw_health := Some (Some (PDict (AList.update ''actions''
                     (PList (map (\<lambda>a. PDict (action_to_dict a)) (hm_actions m'))) (health_to_dict (hm_state m')))))\<rparr> else f)
       in if \<not> log_events then f1
          else f1\<lparr>sw_audit := sw_audit f1 @ map (\<lambda>a. PDict [(''event'', PStr ''health_action.suggested''), (''ts'', PStr (utc_iso (sy_audit env))),
                    (''action_id'', PStr (ha_id a)), (''action'', PStr (ha_action a)), (''reason'', PStr (ha_reason a)),
                    (''evidence'', PList (map PStr (ha_evidence a)))]) (new_actions m m'),
                 sw_suggest := sw_suggest f1 @ [PDict [(''ts'', PStr (utc_iso (sy_suggest env))),
                    (''event'', PStr (if action = ''guarded'' then ''health.suggest_guarded'' else ''health.suggest_resume'')),
                    (''reason'', PStr reason), (''drift_ms'', PFloat x), (''runbook_ref'', PStr ''RUN-TIME-01''),
                    (''evidence'', PList [PStr (sy_metrics env)]), (''health_state_path'', PStr (sy_health env))]],
                 sw_worklog := sw_worklog f1 @ [PDict [(''timestamp'', PStr (utc_iso (sy_worklog env))), (''task'', PStr ''time_sync_guard''),
                    (''action'', PStr action), (''reason'', PStr reason), (''drift_ms'', PFloat x), (''runbook_ref'', PStr ''RUN-TIME-01'')]]\<rparr>)"

definition no_measure :: "sync_guard \<Rightarrow> sync_env \<Rightarrow> string \<Rightarrow> string \<Rightarrow> sync_evaluation" where
  "no_measure g env status detail = \<lparr>ev_status = status, ev_drift = None, ev_level = None, ev_action = None, ev_reason = None,
     ev_runbook = sg_runbook g, ev_details = [detail], ev_ts = utc_iso (sy_ts env)\<rparr>"

definition measured :: "sync_guard \<Rightarrow> sync_env \<Rightarrow> string \<Rightarrow> pyfloat \<Rightarrow> string option \<Rightarrow> string option \<Rightarrow> string option \<Rightarrow> sync_evaluation" where
  "measured g env status x level action reason = \<lparr>ev_status = status, ev_drift = Some x, ev_level = level, ev_action = action, ev_reason = reason,
     ev_runbook = sg_runbook g, ev_details = [drift_text x], ev_ts = utc_iso (sy_ts env)\<rparr>"

definition evaluate_drift ::
  "sync_guard \<Rightarrow> bool \<Rightarrow> bool \<Rightarrow> sync_env \<Rightarrow> pydict list \<Rightarrow> pyfloat \<Rightarrow> monitor \<Rightarrow> sync_files \<Rightarrow> monitor \<times> sync_files \<times> sync_evaluation res" where
  "evaluate_drift g persist log_events env es x m f = (case drift_level g x of
       (status, Some level) \<Rightarrow>
         let m' = out_of_sync g env level x m
         in (m', write_sync_files persist log_events env ''guarded'' ''clock_out_of_sync'' x m m' f,
             Inr (measured g env status x (Some level) (Some ''guarded'') (Some ''clock_out_of_sync'')))
     | (status, None) \<Rightarrow> (case recent_ok g (sy_now env) es of
           Inl e \<Rightarrow> (m, f, Inl e)
         | Inr False \<Rightarrow> (m, f, Inr (measured g env status x None None None))
         | Inr True \<Rightarrow>
             let m' = back_in_sync g env m; r = ''clock_out_of_sync_recovered''
             in (m', write_sync_files persist log_events env ''resume'' r x m m' f,
                 Inr (measured g env ''recovered'' x None (Some ''resume'') (Some r)))))"

definition evaluate_sync ::
  "sync_guard \<Rightarrow> bool \<Rightarrow> bool \<Rightarrow> sync_env \<Rightarrow> json_lines \<Rightarrow> monitor \<Rightarrow> sync_files \<Rightarrow> monitor \<times> sync_files \<times> sync_evaluation res" where
  "evaluate_sync g persist log_events env ls m f =
     (let es = dict_entries ls in if es = [] then (m, f, Inr (no_measure g env ''unavailable'' ''metrics_missing''))
      else case find_latest_drift es of
          Inl e \<Rightarrow> (m, f, Inl e)
        | Inr None \<Rightarrow> (m, f, Inr (no_measure g env ''unknown'' ''drift_unavailable''))
        | Inr (Some e) \<Rightarrow> (case py_float (dget e ''clock_drift_ms'') of
              Inl e \<Rightarrow> (m, f, Inl e)
            | Inr x \<Rightarrow> evaluate_drift g persist log_events env es (fabs x) m f))"

text \<open>The scheduled job: an interval job whose coroutine evaluates with a fresh monitor, keeping the files.\<close>

definition sync_job :: "int \<Rightarrow> interval_job" where
  "sync_job interval = new_interval_job ''time_sync_guard'' (f_of_int interval) None None"

definition run_sync_job :: "sync_guard \<Rightarrow> sync_env \<Rightarrow> json_lines \<Rightarrow> sync_files \<Rightarrow> sync_files \<times> unit res" where
  "run_sync_job g env ls f = (case evaluate_sync g True True env ls monitor_default f of
     (m, f', r) \<Rightarrow> (f', bind_res r (\<lambda>_. Inr ())))"

section \<open>Out of step\<close>

lemma measured_simps [simp]:
  "ev_status (measured g env st x level action reason) = st" "ev_level (measured g env st x level action reason) = level"
  "ev_action (measured g env st x level action reason) = action" "ev_drift (measured g env st x level action reason) = Some x"
  by (simp_all add: measured_def)

lemma guarded_queue_state [simp]: "hm_state (snd (queue_action act r ev ex i t m)) = hm_state m"
  by (simp add: queue_action_def Let_def split: option.split)

lemma queue_action_queued: "\<exists>a \<in> set (hm_actions (snd (queue_action act r ev ex None t m))). ha_id a = act @ '':'' @ r"
  by (auto simp: queue_action_def Let_def dest: find_Some_iff_mem split: option.split)

lemma out_of_sync_state:
  "hs_reasons (hm_state (out_of_sync g env level x m)) = record_reason level ''clock_out_of_sync'' (Some (drift_text x))
     (Some ''runbook:RUN-TIME-01#sync'') (sy_raise env) (hs_reasons (hm_state m))"
  "sy_write_ok env \<Longrightarrow> hs_status (hm_state (out_of_sync g env level x m)) = merge_status (hs_status (hm_state m)) (level_to_status level)"
  by (simp_all add: out_of_sync_def suggest_guarded_def raise_condition_def emit_health_event_def Let_def)

lemma out_of_sync_queued: "\<exists>a \<in> set (hm_actions (out_of_sync g env level x m)). ha_id a = ''guarded'' @ '':'' @ ''clock_out_of_sync''"
  unfolding out_of_sync_def suggest_guarded_def Let_def snd_conv by (rule queue_action_queued)

lemma raised_reason_mem: "\<exists>r \<in> set (record_reason lv c d a t rs). hr_code r = c"
proof (cases "find (\<lambda>r. hr_code r = c) rs")
  case (Some r)
  then have "find (\<lambda>r. hr_code r = c) (update_first (\<lambda>r. hr_code r = c)
      (\<lambda>r. r\<lparr>hr_level := lv, hr_detail := d, hr_action := a, hr_raised_at := t\<rparr>) rs) \<noteq> None"
    by (simp add: find_update_first)
  with Some show ?thesis by (auto simp: record_reason_def dest: find_Some_iff_mem)
qed (simp add: record_reason_def)

lemma evaluate_sync_cases:
  assumes "evaluate_sync g persist log_events env ls m f = (m', f', Inr ev)"
  obtains (none) "m' = m" "f' = f" "ev_status ev = ''unavailable'' \<or> ev_status ev = ''unknown''" "ev_action ev = None" "ev_level ev = None"
  | (some) e x where "find_latest_drift (dict_entries ls) = Inr (Some e)" "py_float (dget e ''clock_drift_ms'') = Inr x"
      "evaluate_drift g persist log_events env (dict_entries ls) (fabs x) m f = (m', f', Inr ev)"
proof (cases "dict_entries ls = []")
  case True
  with assms show ?thesis by (intro none) (auto simp: evaluate_sync_def no_measure_def)
next
  case False
  show ?thesis
  proof (cases "find_latest_drift (dict_entries ls)")
    case (Inl e)
    with False assms show ?thesis by (simp add: evaluate_sync_def Let_def)
  next
    case (Inr r)
    show ?thesis
    proof (cases r)
      case None
      with False Inr assms show ?thesis by (intro none) (auto simp: evaluate_sync_def Let_def no_measure_def)
    next
      case (Some e)
      show ?thesis
      proof (cases "py_float (dget e ''clock_drift_ms'')")
        case (Inl y)
        with False \<open>find_latest_drift _ = _\<close> Some assms show ?thesis by (simp add: evaluate_sync_def Let_def)
      next
        case (Inr x)
        with False \<open>find_latest_drift _ = _\<close> Some assms show ?thesis by (intro some [of e x]) (simp_all add: evaluate_sync_def Let_def)
      qed
    qed
  qed
qed

lemma evaluate_drift_cases:
  assumes "evaluate_drift g persist log_events env es x m f = (m', f', Inr ev)"
  obtains (out) status level where "drift_level g x = (status, Some level)" "m' = out_of_sync g env level x m"
      "f' = write_sync_files persist log_events env ''guarded'' ''clock_out_of_sync'' x m m' f"
      "ev_status ev = status" "ev_action ev = Some ''guarded''"
  | (quiet) status where "drift_level g x = (status, None)" "m' = m" "f' = f" "ev_status ev = status" "ev_action ev = None" "ev_level ev = None"
  | (resumes) status where "drift_level g x = (status, None)" "recent_ok g (sy_now env) es = Inr True" "m' = back_in_sync g env m"
      "f' = write_sync_files persist log_events env ''resume'' ''clock_out_of_sync_recovered'' x m m' f"
      "ev_status ev = ''recovered''" "ev_action ev = Some ''resume''" "ev_level ev = None"
proof -
  obtain status lv where l: "drift_level g x = (status, lv)" by fastforce
  show ?thesis
  proof (cases lv)
    case (Some level)
    with assms l show ?thesis by (intro out [of status level]) (auto simp: evaluate_drift_def Let_def)
  next
    case None
    show ?thesis
    proof (cases "recent_ok g (sy_now env) es")
      case (Inl e)
      with None assms l show ?thesis by (simp add: evaluate_drift_def)
    next
      case (Inr b)
      with None assms l show ?thesis
        by (cases b) (auto simp: evaluate_drift_def Let_def intro: quiet [of status] resumes [of status])
    qed
  qed
qed

lemma back_in_sync_state [simp]: "hs_reasons (hm_state (back_in_sync g env m)) = hs_reasons (hm_state m)"
  "hs_status (hm_state (back_in_sync g env m)) = hs_status (hm_state m)"
  by (simp_all add: back_in_sync_def suggest_resume_def Let_def)

lemma drift_level_words: "drift_level g x = (status, None) \<Longrightarrow> status = ''ok''"
  "drift_level g x = (status, Some level) \<Longrightarrow> (status = ''critical'' \<or> status = ''major'') \<and> level = ''degraded'' \<or> status = ''warn'' \<and> level = ''warning''"
  by (auto simp: drift_level_def split: if_splits)

text \<open>A drift at the major bound or over it leaves the monitor degraded or worse, with the reason recorded and the guarded
  action queued, where the event log can be written.\<close>

theorem out_of_sync_degrades:
  assumes "evaluate_sync g persist log_events env ls m f = (m', f', Inr ev)" "ev_status ev = ''critical'' \<or> ev_status ev = ''major''"
    and "is_status (hs_status (hm_state m))" "sy_write_ok env"
  shows "2 \<le> sev (hs_status (hm_state m')) \<and> (\<exists>r \<in> set (hs_reasons (hm_state m')). hr_code r = ''clock_out_of_sync'')
    \<and> (\<exists>a \<in> set (hm_actions m'). ha_id a = ''guarded:clock_out_of_sync'') \<and> ev_action ev = Some ''guarded''"
  using assms(1)
proof (cases rule: evaluate_sync_cases)
  case none
  then have False using none(3) assms(2) by (elim disjE) simp_all
  then show ?thesis ..
next
  case (some e x)
  from some(3) show ?thesis
  proof (cases rule: evaluate_drift_cases)
    case (out status level)
    have "level_to_status level = ''degraded''"
    proof -
      have "status = ''critical'' \<or> status = ''major''" using assms(2) out(4) by simp
      then have "level = ''degraded''" using drift_level_words(2) [OF out(1)] by (elim disjE) simp_all
      then show ?thesis by (simp add: level_to_status_def level_map_def)
    qed
    then have "hs_status (hm_state m') = merge_status (hs_status (hm_state m)) ''degraded''"
      by (simp only: out(2) out_of_sync_state(2) [OF assms(4)])
    then have "2 \<le> sev (hs_status (hm_state m'))" using merge_status_correct [OF assms(3), of "''degraded''"] by simp
    moreover have "\<exists>r \<in> set (hs_reasons (hm_state m')). hr_code r = ''clock_out_of_sync''"
      unfolding out(2) out_of_sync_state(1) by (rule raised_reason_mem)
    moreover have "\<exists>a \<in> set (hm_actions m'). ha_id a = ''guarded:clock_out_of_sync''"
      using out_of_sync_queued [of g env level "fabs x" m] by (simp add: out(2))
    ultimately show ?thesis using out(5) by blast
  next
    case (quiet status)
    then have "ev_status ev = ''ok''" using drift_level_words(1) [OF quiet(1)] by simp
    with assms(2) have False by simp
    then show ?thesis ..
  next
    case (resumes status)
    with assms(2) have False by (elim disjE) simp_all
    then show ?thesis ..
  qed
qed

section \<open>Back in step\<close>

text \<open>The guard suggests to resume only where the latest drift is below every bound and the measurements of the window
  are enough and all good.\<close>

theorem resume_needs_good_window:
  assumes "evaluate_sync g persist log_events env ls m f = (m', f', Inr ev)" "ev_action ev = Some ''resume''"
  shows "\<exists>xs. recent_drifts (sg_window g * 60000000) (sy_now env) (dict_entries ls) = Inr xs \<and> sg_samples g \<le> int (length xs)
    \<and> list_all (\<lambda>x. fle x (Fin (of_int (sg_resume g)))) xs \<and> ev_level ev = None"
  using assms(1)
proof (cases rule: evaluate_sync_cases)
  case (some e x)
  from some(3) show ?thesis
    by (cases rule: evaluate_drift_cases) (use assms(2) in \<open>auto simp: recent_ok_def bind_res_eq_Inr\<close>)
qed (use assms(2) in simp)

text \<open>A recovery leaves the status of the monitor and the reasons raised as they are.\<close>

theorem recovery_keeps_reasons:
  assumes "evaluate_sync g persist log_events env ls m f = (m', f', Inr ev)" "ev_status ev = ''recovered''"
  shows "hs_reasons (hm_state m') = hs_reasons (hm_state m) \<and> hs_status (hm_state m') = hs_status (hm_state m)"
  using assms(1)
proof (cases rule: evaluate_sync_cases)
  case (some e x)
  from some(3) show ?thesis
  proof (cases rule: evaluate_drift_cases)
    case (out status level)
    with assms(2) drift_level_words(2) [OF out(1)] show ?thesis by auto
  qed simp_all
qed simp

text \<open>A latest measurement that is no number reads as a clock in step: no condition is raised.\<close>

theorem nan_drift_in_step:
  assumes "find_latest_drift (dict_entries ls) = Inr (Some e)" "py_float (dget e ''clock_drift_ms'') = Inr NaN" "dict_entries ls \<noteq> []"
    and "evaluate_sync g persist log_events env ls m f = (m', f', Inr ev)"
  shows "ev_level ev = None \<and> hs_reasons (hm_state m') = hs_reasons (hm_state m)"
  using assms(4)
proof (cases rule: evaluate_sync_cases)
  case (some e' x)
  have l: "drift_level g (fabs x) = (''ok'', None)" using some(1,2) assms(1,2) by (simp add: drift_level_def)
  from some(3) show ?thesis by (cases rule: evaluate_drift_cases) (use l in auto)
qed simp

text \<open>A run of the job that suggests something overwrites the health state with one that has at most the reason of the
  clock, whatever was there.\<close>

theorem job_overwrites_health:
  assumes "run_sync_job g env ls f = (f', Inr ())" "sw_health f' \<noteq> sw_health f"
  shows "\<exists>d. sw_health f' = Some (Some (PDict d)) \<and> (\<exists>rs. dget d ''reasons'' = PList rs \<and> length rs \<le> 1)"
proof -
  obtain m' ev where e: "evaluate_sync g True True env ls monitor_default f = (m', f', Inr ev)"
    using assms(1) by (auto simp: run_sync_job_def bind_res_eq_Inr split: prod.splits)
  obtain x where x: "evaluate_drift g True True env (dict_entries ls) x monitor_default f = (m', f', Inr ev)"
    using e by (cases rule: evaluate_sync_cases) (use assms(2) in auto)
  have len: "length (hs_reasons (hm_state m')) \<le> 1"
    using x by (cases rule: evaluate_drift_cases)
      (simp_all add: out_of_sync_state record_reason_def monitor_default_def health_default_def)
  obtain action reason where "f' = write_sync_files True True env action reason x monitor_default m' f"
    using x by (cases rule: evaluate_drift_cases) (use assms(2) in auto)
  then have "sw_health f' = Some (Some (PDict (AList.update ''actions''
      (PList (map (\<lambda>a. PDict (action_to_dict a)) (hm_actions m'))) (health_to_dict (hm_state m')))))"
    using assms(2) by (simp add: write_sync_files_def Let_def split: if_splits)
  then show ?thesis using len by (simp add: dget_def health_to_dict_def)
qed

section \<open>Witnesses\<close>

definition demo_drifts :: "int \<Rightarrow> json_lines" where
  "demo_drifts x = [Some (PDict [(''clock_drift_ms'', PInt x)])]"

definition demo_sync :: sync_env where
  "demo_sync = \<lparr>sy_ts = demo_time, sy_raise = demo_time, sy_event = demo_time, sy_write_ok = True, sy_queue = demo_time, sy_now = demo_time,
     sy_audit = demo_time, sy_suggest = demo_time, sy_worklog = demo_time, sy_metrics = ''metrics/time_sync.jsonl'', sy_health = ''health_state.json''\<rparr>"

lemma demo_latest:
  assumes "f_of_int x = Fin y"
  shows "find_latest_drift (dict_entries (demo_drifts x)) = Inr (Some [(''clock_drift_ms'', PInt x)])"
    and "py_float (dget [(''clock_drift_ms'', PInt x)] ''clock_drift_ms'') = Inr (Fin y)" and "dict_entries (demo_drifts x) \<noteq> []"
  using assms
  by (simp_all add: find_latest_drift_def dict_entries_def demo_drifts_def mapping_or_empty_def is_mapping_def or_none_def py_float_def dget_def)

lemma demo_out: "\<exists>m' f' ev. evaluate_sync default_sync_guard p l demo_sync (demo_drifts 2000) monitor_default f = (m', f', Inr ev)
    \<and> ev_status ev = ''major''"
proof -
  have f: "f_of_int 2000 = Fin 2000" by (simp add: f_of_int_def rnd_numeral)
  have "drift_level default_sync_guard (Fin 2000) = (''major'', Some ''degraded'')"
    by (simp add: drift_level_def default_sync_guard_def)
  then show ?thesis
    using demo_latest [OF f] by (simp add: evaluate_sync_def evaluate_drift_def Let_def)
qed

theorem out_of_sync_degrades_witness:
  "\<exists>m' f' ev. evaluate_sync default_sync_guard True True demo_sync (demo_drifts 2000) monitor_default
       \<lparr>sw_health = None, sw_audit = [], sw_suggest = [], sw_worklog = []\<rparr> = (m', f', Inr ev)
     \<and> 2 \<le> sev (hs_status (hm_state m')) \<and> ev_action ev = Some ''guarded''"
proof -
  obtain m' f' ev where e: "evaluate_sync default_sync_guard True True demo_sync (demo_drifts 2000) monitor_default
      \<lparr>sw_health = None, sw_audit = [], sw_suggest = [], sw_worklog = []\<rparr> = (m', f', Inr ev)" "ev_status ev = ''major''"
    using demo_out by blast
  have "2 \<le> sev (hs_status (hm_state m')) \<and> ev_action ev = Some ''guarded''"
    using out_of_sync_degrades [OF e(1) disjI2 [OF e(2)]] by (simp add: monitor_default_def health_default_def demo_sync_def severity_order_def)
  with e show ?thesis by blast
qed

theorem recovery_keeps_reasons_witness:
  "\<exists>m' f' ev. evaluate_sync (default_sync_guard\<lparr>sg_samples := 0\<rparr>) True True demo_sync (demo_drifts 20) monitor_default
       \<lparr>sw_health = None, sw_audit = [], sw_suggest = [], sw_worklog = []\<rparr> = (m', f', Inr ev) \<and> hs_reasons (hm_state m') = []"
proof -
  have f: "f_of_int 20 = Fin 20" by (simp add: f_of_int_def rnd_numeral)
  have "drift_level (default_sync_guard\<lparr>sg_samples := 0\<rparr>) (Fin 20) = (''ok'', None)"
    by (simp add: drift_level_def default_sync_guard_def)
  moreover have "recent_ok (default_sync_guard\<lparr>sg_samples := 0\<rparr>) (sy_now demo_sync) (dict_entries (demo_drifts 20)) = Inr True"
    by (simp add: recent_ok_def default_sync_guard_def dict_entries_def demo_drifts_def mapping_or_empty_def is_mapping_def entry_ts_def
        dget_def py_or_def Let_def)
  ultimately have e: "\<exists>m' f' ev. evaluate_sync (default_sync_guard\<lparr>sg_samples := 0\<rparr>) True True demo_sync (demo_drifts 20) monitor_default
       \<lparr>sw_health = None, sw_audit = [], sw_suggest = [], sw_worklog = []\<rparr> = (m', f', Inr ev) \<and> ev_status ev = ''recovered''"
    using demo_latest [OF f] by (simp add: evaluate_sync_def evaluate_drift_def Let_def)
  then obtain m' f' ev where e: "evaluate_sync (default_sync_guard\<lparr>sg_samples := 0\<rparr>) True True demo_sync (demo_drifts 20) monitor_default
       \<lparr>sw_health = None, sw_audit = [], sw_suggest = [], sw_worklog = []\<rparr> = (m', f', Inr ev)" "ev_status ev = ''recovered''"
    by blast
  have "hs_reasons (hm_state m') = []"
    using recovery_keeps_reasons [OF e] by (simp add: monitor_default_def health_default_def)
  with e(1) show ?thesis by blast
qed

end
