(* ===== verification/Calendar.thy ===== *)
theory Calendar
  imports PyDate
begin

text \<open>
  The calendar of \<open>calendar/service.py\<close> with the CSV reader of \<open>calendar/adapters.py\<close>. The rows of a
  CSV file are dictionaries of texts (None for a missing field), an absent file is None. Clock
  readings are arguments; shifting a datetime past the years 1 to 9999 raises, as in the code.

  Shown: a time is blocked exactly where it lies in the window of some event; the upcoming events
  are the ones not before the time, in order; an event read from a file has a time zone. And where it
  fails: one event without a time zone makes \<open>is_blocked\<close> raise, one bad row empties the calendar.
\<close>

section \<open>Events\<close>

record cal_event =
  ce_title :: string
  ce_ts :: pydt
  ce_impact :: string
  ce_before :: "int option"
  ce_after :: "int option"

definition minutes_us :: "int \<Rightarrow> int" where
  "minutes_us n = n * 60000000"

definition window_start :: "cal_event \<Rightarrow> pydt res" where
  "window_start e = dt_plus (- minutes_us (case ce_before e of None \<Rightarrow> 0 | Some n \<Rightarrow> n)) (ce_ts e)"

definition window_end :: "cal_event \<Rightarrow> pydt res" where
  "window_end e = dt_plus (minutes_us (case ce_after e of None \<Rightarrow> 0 | Some n \<Rightarrow> n)) (ce_ts e)"

definition apply_default_window :: "int \<Rightarrow> cal_event \<Rightarrow> cal_event" where
  "apply_default_window n e = (if ce_before e \<noteq> None \<and> ce_after e \<noteq> None then e
     else e\<lparr>ce_before := (case ce_before e of None \<Rightarrow> Some n | x \<Rightarrow> x), ce_after := (case ce_after e of None \<Rightarrow> Some n | x \<Rightarrow> x)\<rparr>)"

section \<open>The service\<close>

record calendar =
  cal_events :: "cal_event list"
  cal_default :: int

text \<open>\<open>a <= b\<close> of two datetimes.\<close>

definition dt_le :: "pydt \<Rightarrow> pydt \<Rightarrow> bool res" where
  "dt_le a b = dt_at_least b a"

definition in_event_window :: "int \<Rightarrow> pydt \<Rightarrow> cal_event \<Rightarrow> bool res" where
  "in_event_window n now e = (let e1 = apply_default_window n e in
     bind_res (window_start e1) (\<lambda>a. bind_res (dt_le a now) (\<lambda>after.
       if after then bind_res (window_end e1) (dt_le now) else Inr False)))"

fun any_blocked :: "int \<Rightarrow> pydt \<Rightarrow> cal_event list \<Rightarrow> bool res" where
  "any_blocked n now [] = Inr False"
| "any_blocked n now (e # es) = bind_res (in_event_window n now e) (\<lambda>b. if b then Inr True else any_blocked n now es)"

definition is_blocked :: "pydt \<Rightarrow> calendar \<Rightarrow> bool res" where
  "is_blocked now c = bind_res (as_utc now) (\<lambda>t. any_blocked (cal_default c) t (cal_events c))"

fun not_before :: "pydt \<Rightarrow> cal_event list \<Rightarrow> cal_event list res" where
  "not_before now [] = Inr []"
| "not_before now (e # es) = bind_res (as_utc (ce_ts e)) (\<lambda>t. bind_res (dt_at_least t now) (\<lambda>keep.
     bind_res (not_before now es) (\<lambda>r. Inr (if keep then e # r else r))))"

text \<open>\<open>list.sort\<close> by timestamp compares each element with another one, so naive and aware ones together raise.\<close>

definition sort_events :: "cal_event list \<Rightarrow> cal_event list res" where
  "sort_events es = (if list_all (\<lambda>e. same_zone_kind (ce_ts e) (ce_ts (hd es))) es
     then Inr (sort_key (epoch_us \<circ> ce_ts) es) else Inl TypeError)"

definition upcoming_events :: "int \<Rightarrow> pydt \<Rightarrow> calendar \<Rightarrow> cal_event list res" where
  "upcoming_events limit now c = bind_res (as_utc now) (\<lambda>t. bind_res (not_before t (cal_events c)) (\<lambda>es.
     bind_res (sort_events es) (\<lambda>xs. Inr (take (nat limit) xs))))"

section \<open>The CSV reader\<close>

type_synonym csv_rows = "pydict list option"

definition calendar_error :: "string \<Rightarrow> err" where
  "calendar_error m = Raises ''CalendarLoadError'' m"

text \<open>A field of a row as text, the first of the alternatives that is not empty.\<close>

definition row_text :: "pydict \<Rightarrow> string list \<Rightarrow> string \<Rightarrow> string" where
  "row_text row keys v0 = str_strip (py_str (foldr (\<lambda>k v. py_or (dget row k) v) keys (PStr v0)))"

definition parse_timestamp :: "string \<Rightarrow> pydt res" where
  "parse_timestamp raw = (case fromisoformat (str_replace ''Z'' ''+00:00'' raw) of
       None \<Rightarrow> Inl (calendar_error (''Invalid timestamp: '' @ raw))
     | Some t \<Rightarrow> as_utc t)"

definition parse_minutes :: "pyval \<Rightarrow> int option" where
  "parse_minutes v = (if v = PNone then None else parse_int (str_strip (py_str v)))"

definition read_event :: "pydict \<Rightarrow> cal_event res" where
  "read_event row = (let title = row_text row [''title'', ''event''] []; ts = row_text row [''timestamp'', ''ts'', ''time''] [];
       impact = str_lower (row_text row [''impact'', ''severity''] ''medium'')
     in if title = [] \<or> ts = [] then Inl (calendar_error ''Calendar CSV row missing title/timestamp'')
        else bind_res (parse_timestamp ts) (\<lambda>t. Inr \<lparr>ce_title = title, ce_ts = t, ce_impact = impact,
          ce_before = parse_minutes (dget row ''window_before_min''), ce_after = parse_minutes (dget row ''window_after_min'')\<rparr>))"

definition load_events :: "string \<Rightarrow> csv_rows \<Rightarrow> cal_event list res" where
  "load_events path f = (case f of None \<Rightarrow> Inl (calendar_error (''Calendar CSV not found: '' @ path))
     | Some rows \<Rightarrow> bind_res (map_res read_event rows) (\<lambda>es.
         if es = [] then Inl (calendar_error (''Calendar CSV empty: '' @ path)) else Inr es))"

definition is_calendar_error :: "err \<Rightarrow> bool" where
  "is_calendar_error e = (case e of Raises c m \<Rightarrow> c = ''CalendarLoadError'' | _ \<Rightarrow> False)"

text \<open>A file that fails to load gives an empty calendar.\<close>

definition load_calendar :: "string \<Rightarrow> csv_rows \<Rightarrow> cal_event list res" where
  "load_calendar path f = (if f = None then Inr [] else case load_events path f of
       Inl e \<Rightarrow> if is_calendar_error e then Inr [] else Inl e
     | Inr es \<Rightarrow> Inr es)"

definition new_calendar :: "cal_event list option \<Rightarrow> string \<Rightarrow> csv_rows \<Rightarrow> int \<Rightarrow> calendar res" where
  "new_calendar events path f n = (case events of Some es \<Rightarrow> Inr \<lparr>cal_events = es, cal_default = n\<rparr>
     | None \<Rightarrow> bind_res (load_calendar path f) (\<lambda>es. Inr \<lparr>cal_events = es, cal_default = n\<rparr>))"

definition reload_calendar :: "string \<Rightarrow> csv_rows \<Rightarrow> calendar \<Rightarrow> calendar res" where
  "reload_calendar path f c = bind_res (load_calendar path f) (\<lambda>es. Inr (c\<lparr>cal_events := es\<rparr>))"

section \<open>When a time is blocked\<close>

text \<open>The window of an event in microseconds.\<close>

definition in_window_us :: "int \<Rightarrow> int \<Rightarrow> cal_event \<Rightarrow> bool" where
  "in_window_us n t e \<longleftrightarrow> epoch_us (ce_ts e) - minutes_us (case ce_before e of None \<Rightarrow> n | Some k \<Rightarrow> k) \<le> t
     \<and> t \<le> epoch_us (ce_ts e) + minutes_us (case ce_after e of None \<Rightarrow> n | Some k \<Rightarrow> k)"

lemma apply_default_window_simps [simp]:
  "ce_ts (apply_default_window n e) = ce_ts e"
  "ce_before (apply_default_window n e) = Some (case ce_before e of None \<Rightarrow> n | Some k \<Rightarrow> k)"
  "ce_after (apply_default_window n e) = Some (case ce_after e of None \<Rightarrow> n | Some k \<Rightarrow> k)"
  by (auto simp: apply_default_window_def split: option.split)

lemma in_event_window_result:
  assumes "in_event_window n now e = Inr b"
  shows "b \<longleftrightarrow> in_window_us n (epoch_us now) e"
  using assms
  by (auto simp: in_event_window_def window_start_def window_end_def dt_le_def dt_at_least_def in_window_us_def Let_def bind_res_eq_Inr
      dest!: dt_plus_result(1) split: if_splits)

lemma any_blocked_result: "any_blocked n now es = Inr b \<Longrightarrow> b \<longleftrightarrow> (\<exists>e \<in> set es. in_window_us n (epoch_us now) e)"
  by (induction es) (auto simp: bind_res_eq_Inr dest: in_event_window_result split: if_splits)

lemma blocked_is:
  assumes "is_blocked now c = Inr b"
  shows "b \<longleftrightarrow> (\<exists>e \<in> set (cal_events c). in_window_us (cal_default c) (epoch_us now) e)"
proof -
  obtain t where t: "as_utc now = Inr t" "any_blocked (cal_default c) t (cal_events c) = Inr b"
    using assms by (auto simp: is_blocked_def bind_res_eq_Inr)
  from any_blocked_result [OF t(2)] show ?thesis by (simp add: as_utc_result(1) [OF t(1)])
qed

text \<open>C27: Whenever \<open>is_blocked\<close> answers, a time is blocked exactly where it lies in the window of some event, the window's missing
  sides being the default.\<close>

theorem blocked_exactly:
  "is_blocked now c = Inr b \<Longrightarrow> b \<longleftrightarrow> (\<exists>e \<in> set (cal_events c). in_window_us (cal_default c) (epoch_us now) e)"
  by (rule blocked_is)

lemma any_blocked_naive:
  "e \<in> set es \<Longrightarrow> tzo (ce_ts e) = None \<Longrightarrow> tzo now \<noteq> None \<Longrightarrow> any_blocked n now es \<noteq> Inr False"
  by (induction es) (auto simp: bind_res_eq_Inr in_event_window_def window_start_def dt_le_def dt_at_least_def same_zone_kind_def Let_def
      dest!: dt_plus_result(2) split: if_splits)

lemma never_free:
  assumes "e \<in> set (cal_events c)" "tzo (ce_ts e) = None"
  shows "is_blocked now c \<noteq> Inr False"
  using any_blocked_naive [OF assms] as_utc_result(2) by (fastforce simp: is_blocked_def bind_res_eq_Inr)

text \<open>With an event that has no time zone the calendar never answers that a time is free.\<close>

theorem naive_event_never_free:
  "e \<in> set (cal_events c) \<Longrightarrow> tzo (ce_ts e) = None \<Longrightarrow> is_blocked now c \<noteq> Inr False"
  by (rule never_free)

section \<open>Upcoming events\<close>

lemma not_before_result:
  "not_before t es = Inr r \<Longrightarrow> r = filter (\<lambda>e. epoch_us t \<le> epoch_us (ce_ts e)) es"
  by (induction es arbitrary: r) (auto simp: bind_res_eq_Inr dt_at_least_def as_utc_result split: if_splits)

lemma upcoming_is:
  assumes "upcoming_events limit now c = Inr es"
  shows "es = take (nat limit) (sort_key (epoch_us \<circ> ce_ts) (filter (\<lambda>e. epoch_us now \<le> epoch_us (ce_ts e)) (cal_events c)))"
  using assms
  by (auto simp: upcoming_events_def bind_res_eq_Inr sort_events_def as_utc_result dest!: not_before_result split: if_splits)

text \<open>The upcoming events are those not before the time, in the order of their times, cut at the limit.\<close>

theorem upcoming_sorted:
  "upcoming_events limit now c = Inr es \<Longrightarrow>
     es = take (nat limit) (sort_key (epoch_us \<circ> ce_ts) (filter (\<lambda>e. epoch_us now \<le> epoch_us (ce_ts e)) (cal_events c)))"
  by (rule upcoming_is)

section \<open>The file\<close>

lemma parse_timestamp_aware: "parse_timestamp raw = Inr t \<Longrightarrow> tzo t = Some 0"
  by (auto simp: parse_timestamp_def as_utc_result split: option.splits)

lemma read_event_ts: "read_event row = Inr e \<Longrightarrow> \<exists>raw. parse_timestamp raw = Inr (ce_ts e)"
  by (auto simp: read_event_def Let_def bind_res_eq_Inr split: if_splits)

text \<open>Every event read from a file has the time zone UTC.\<close>

theorem read_events_aware:
  assumes "load_events path f = Inr es" "e \<in> set es"
  shows "tzo (ce_ts e) = Some 0"
proof -
  obtain rows where "map_res read_event rows = Inr es"
    using assms(1) by (auto simp: load_events_def bind_res_eq_Inr split: option.splits if_splits)
  then obtain row where "read_event row = Inr e" using assms(2) by (auto simp: map_res_list_all2 dest: list_all2_mem)
  then show ?thesis by (auto dest!: read_event_ts parse_timestamp_aware)
qed

lemma map_res_Inl_mem: "map_res f xs = Inl e \<Longrightarrow> \<exists>x \<in> set xs. f x = Inl e"
proof (induction xs)
  case (Cons x xs)
  then show ?case by (cases "f x"; cases "map_res f xs") auto
qed simp

lemma map_res_bad: "x \<in> set xs \<Longrightarrow> f x = Inl e \<Longrightarrow> \<exists>e'. map_res f xs = Inl e'"
proof (induction xs)
  case (Cons y ys)
  then show ?case by (cases "f y"; cases "map_res f ys") auto
qed simp

definition bad_row :: "pydict \<Rightarrow> bool" where
  "bad_row row \<longleftrightarrow> row_text row [''title'', ''event''] [] = [] \<or> row_text row [''timestamp'', ''ts'', ''time''] [] = []
     \<or> fromisoformat (str_replace ''Z'' ''+00:00'' (row_text row [''timestamp'', ''ts'', ''time''] [])) = None"

lemma read_event_bad: "bad_row row \<Longrightarrow> \<exists>m. read_event row = Inl (calendar_error m)"
  by (auto simp: bad_row_def read_event_def Let_def parse_timestamp_def)

text \<open>One bad row in the file leaves a calendar that blocks no time at all, unless the loading raises.\<close>

theorem bad_row_opens_calendar:
  assumes "new_calendar None path (Some rows) n = Inr c" "row \<in> set rows" "bad_row row" "is_blocked now c = Inr b"
  shows "\<not> b"
proof -
  obtain m where m: "read_event row = Inl (calendar_error m)" using read_event_bad [OF assms(3)] by blast
  obtain e where "map_res read_event rows = Inl e" using map_res_bad [of row rows read_event] assms(2) m by blast
  then have "load_events path (Some rows) = Inl e" by (simp add: load_events_def)
  then have "cal_events c = []"
    using assms(1) by (cases "is_calendar_error e") (auto simp: new_calendar_def load_calendar_def bind_res_eq_Inr)
  with blocked_is [OF assms(4)] show ?thesis by simp
qed

section \<open>Witnesses\<close>

definition demo_noon :: pydt where
  "demo_noon = \<lparr>yr = 2025, mo = 3, dy = 14, hh = 12, mi = 0, ss = 0, us = 0, tzo = Some 0\<rparr>"

definition demo_event :: "int option \<Rightarrow> cal_event" where
  "demo_event z = \<lparr>ce_title = ''CPI'', ce_ts = demo_noon\<lparr>tzo := z\<rparr>, ce_impact = ''high'', ce_before = Some 15, ce_after = None\<rparr>"

definition demo_calendar :: "int option \<Rightarrow> calendar" where
  "demo_calendar z = \<lparr>cal_events = [demo_event z], cal_default = 30\<rparr>"

lemma demo_noon_simps [simp]: "tzo demo_noon = Some 0" "epoch_us demo_noon = 1741953600000000" "local_us demo_noon = 1741953600000000"
proof -
  show "tzo demo_noon = Some 0" by (simp add: demo_noon_def)
  show e: "epoch_us demo_noon = 1741953600000000" by (simp add: demo_noon_def epoch_us_def days_from_civil_def)
  with \<open>tzo demo_noon = Some 0\<close> show "local_us demo_noon = 1741953600000000" by (simp add: local_us_epoch)
qed

lemma demo_days: "civil_from_days 20161 = (2025, 3, 14)"
  by code_simp

lemma demo_noon_utc [simp]: "as_utc demo_noon = Inr demo_noon"
proof -
  have "dt_of_local (Some 0) 1741953600000000 = Inr demo_noon"
    by (simp add: dt_of_local_def demo_days) (simp add: demo_noon_def)
  then show ?thesis by (simp add: as_utc_def)
qed

lemma demo_blocked: "is_blocked demo_noon (demo_calendar (Some 0)) = Inr True"
proof -
  have e: "demo_noon\<lparr>tzo := Some 0\<rparr> = demo_noon" by (simp add: demo_noon_def)
  have "\<exists>d. dt_plus (- 900000000) demo_noon = Inr d" "\<exists>d. dt_plus 1800000000 demo_noon = Inr d"
    by (simp_all add: dt_plus_def dt_of_local_def demo_days)
  then obtain a b where d: "dt_plus (- 900000000) demo_noon = Inr a" "dt_plus 1800000000 demo_noon = Inr b" by blast
  show ?thesis
    using dt_plus_result [OF d(1)] dt_plus_result [OF d(2)]
    by (simp add: is_blocked_def demo_calendar_def demo_event_def e in_event_window_def window_start_def window_end_def
        apply_default_window_def minutes_us_def d dt_le_def dt_at_least_def same_zone_kind_def)
qed

theorem blocked_exactly_witness:
  "in_window_us 30 (epoch_us demo_noon) (demo_event (Some 0))"
  using blocked_exactly [OF demo_blocked] by (simp add: demo_calendar_def)

theorem naive_event_never_free_witness: "is_blocked demo_noon (demo_calendar None) \<noteq> Inr False"
  by (rule naive_event_never_free [of "demo_event None"]) (simp_all add: demo_calendar_def demo_event_def)

definition demo_row :: pydict where
  "demo_row = [(''title'', PStr ''NFP''), (''timestamp'', PStr ''soon'')]"

theorem bad_row_opens_calendar_witness:
  "\<exists>c. new_calendar None ''events.csv'' (Some [demo_row]) 30 = Inr c \<and> is_blocked demo_noon c = Inr False"
proof -
  have row: "bad_row demo_row" by code_simp
  then obtain m where "read_event demo_row = Inl (calendar_error m)" using read_event_bad by blast
  then have n: "new_calendar None ''events.csv'' (Some [demo_row]) 30 = Inr \<lparr>cal_events = [], cal_default = 30\<rparr>"
    by (simp add: new_calendar_def load_calendar_def load_events_def is_calendar_error_def calendar_error_def)
  have "\<exists>b. is_blocked demo_noon \<lparr>cal_events = [], cal_default = 30\<rparr> = Inr b" by (intro exI [of _ False]) (simp add: is_blocked_def)
  then obtain b where b: "is_blocked demo_noon \<lparr>cal_events = [], cal_default = 30\<rparr> = Inr b" by blast
  have "\<not> b" by (rule bad_row_opens_calendar [OF n _ row b]) simp
  with n b show ?thesis by auto
qed

end
