(* ===== verification/Spread.thy ===== *)
theory Spread
  imports Calendar Systems
begin

text \<open>
  The spread guard: \<open>execution/spread.py\<close> with the limits read from a strategy manifest by
  \<open>core/spread_guard.py\<close>. A \<open>Decimal\<close> is the exact value of the text it is made from, an infinity or
  NaN; comparing with a NaN raises InvalidOperation (exponents past the limits of the decimal module
  aside). Clock readings are arguments, the metrics files are lists.

  Shown: what a spread, a clock drift and a news event make of the state, and that only the spread
  blocks; the started cooldowns of a monitor are those of the symbols in one; the windows and the
  multiplier of a manifest cover those of every strategy. And where it fails: an update with a NaN
  raises and keeps the old state, the past side of the news window never matters, an event without
  a time zone silences the news.
\<close>

section \<open>Decimals\<close>

datatype decimal = DNum rat | DPInf | DNInf | DNaN

text \<open>\<open>Decimal(s)\<close> for a text that \<open>float\<close> accepts, else InvalidOperation.\<close>

definition invalid_operation :: err where
  "invalid_operation = Raises ''InvalidOperation'' []"

definition decimal_of_text :: "string \<Rightarrow> decimal res" where
  "decimal_of_text s = (let (neg, t) = split_sign (str_strip s); l = str_lower t
      in if l = ''inf'' \<or> l = ''infinity'' then Inr (if neg then DNInf else DPInf)
         else if l = ''nan'' then Inr DNaN
         else case parse_ufloat t of None \<Rightarrow> Inl invalid_operation | Some x \<Rightarrow> Inr (DNum (if neg then - x else x)))"

fun float_of_decimal :: "decimal \<Rightarrow> pyfloat" where
  "float_of_decimal (DNum x) = rnd x"
| "float_of_decimal DPInf = PInf"
| "float_of_decimal DNInf = NInf"
| "float_of_decimal DNaN = NaN"

fun dec_le :: "decimal \<Rightarrow> decimal \<Rightarrow> bool res" where
  "dec_le DNaN _ = Inl invalid_operation"
| "dec_le _ DNaN = Inl invalid_operation"
| "dec_le (DNum a) (DNum b) = Inr (a \<le> b)"
| "dec_le DNInf _ = Inr True"
| "dec_le _ DPInf = Inr True"
| "dec_le _ _ = Inr False"

definition decimal_of_float :: "pyfloat \<Rightarrow> decimal res" where
  "decimal_of_float x = decimal_of_text (float_str x)"

section \<open>The evaluation\<close>

record spread_evaluation =
  se_status :: string
  se_p95 :: decimal
  se_p99 :: decimal
  se_reason :: "string option"
  se_drift :: "int option"
  se_news :: "string option"
  se_expires :: "pydt option"

definition spread_evaluation_dict :: "spread_evaluation \<Rightarrow> pydict" where
  "spread_evaluation_dict e = [(''status'', PStr (se_status e)), (''p95'', PFloat (float_of_decimal (se_p95 e))),
     (''p99'', PFloat (float_of_decimal (se_p99 e))), (''cooldown_reason'', ostr (se_reason e)),
     (''ntp_drift_ms'', case se_drift e of None \<Rightarrow> PNone | Some n \<Rightarrow> PInt n), (''news_id'', ostr (se_news e)),
     (''expires_at'', case se_expires e of None \<Rightarrow> PNone | Some t \<Rightarrow> PStr (isoformat t))]"

text \<open>The status of the spread alone, and what the other signals make of a status.\<close>

definition spread_status :: "decimal \<Rightarrow> decimal \<Rightarrow> decimal \<Rightarrow> decimal \<Rightarrow> string res" where
  "spread_status p95 p99 cooldown block = bind_res (dec_le block p99) (\<lambda>b. if b then Inr ''block''
     else bind_res (dec_le cooldown p95) (\<lambda>c. Inr (if c then ''cooldown'' else ''normal'')))"

definition raise_status :: "bool \<Rightarrow> string \<Rightarrow> string" where
  "raise_status signal s = (if signal then (if s = ''block'' then ''block'' else ''cooldown'') else s)"

definition drift_signal :: "int \<Rightarrow> int option \<Rightarrow> bool" where
  "drift_signal ntp_max d = (case d of None \<Rightarrow> False | Some n \<Rightarrow> ntp_max < n)"

definition spread_reasons :: "string \<Rightarrow> bool \<Rightarrow> bool \<Rightarrow> string list" where
  "spread_reasons st drift news = (if st = ''normal'' then [] else [''wide_spread'']) @ (if drift then [''ntp_drift''] else [])
     @ (if news then [''news_volatility''] else [])"

definition evaluate_spread_guard ::
  "pyfloat \<Rightarrow> pyfloat \<Rightarrow> pyfloat \<Rightarrow> pyfloat \<Rightarrow> int option \<Rightarrow> int \<Rightarrow> string option \<Rightarrow> int \<Rightarrow> pydt \<Rightarrow> spread_evaluation res" where
  "evaluate_spread_guard p95 p99 cooldown block drift ntp_max news minutes now =
     bind_res (decimal_of_float p95) (\<lambda>d95. bind_res (decimal_of_float p99) (\<lambda>d99.
     bind_res (decimal_of_float block) (\<lambda>db. bind_res (decimal_of_float cooldown) (\<lambda>dc.
     bind_res (spread_status d95 d99 dc db) (\<lambda>st.
       let status = raise_status (otrue news) (raise_status (drift_signal ntp_max drift) st);
           rs = spread_reasons st (drift_signal ntp_max drift) (otrue news)
       in bind_res (if status = ''normal'' then Inr None else bind_res (dt_plus (minutes_us minutes) now) (\<lambda>t. Inr (Some t))) (\<lambda>ex.
          Inr \<lparr>se_status = status, se_p95 = d95, se_p99 = d99, se_reason = (if rs = [] then None else Some (str_join '','' rs)),
               se_drift = drift, se_news = news, se_expires = ex\<rparr>))))))"

section \<open>The monitor\<close>

record spread_state =
  ss_state :: string
  ss_pips :: decimal
  ss_percentile :: pyfloat
  ss_threshold :: decimal
  ss_eta :: "pydt option"
  ss_updated :: pydt
  ss_window :: int
  ss_reason :: "string option"

record spread_monitor =
  sm_cooldown :: decimal
  sm_block :: decimal
  sm_ntp_max :: int
  sm_minutes :: int
  sm_lookback :: int
  sm_state :: "(string \<times> spread_state) list"
  sm_reasons :: "(string \<times> string option) list"
  sm_drift :: "int option"
  sm_news :: "string option"

definition new_simple_monitor :: "pyfloat \<Rightarrow> pyfloat \<Rightarrow> int \<Rightarrow> int \<Rightarrow> int option \<Rightarrow> spread_monitor res" where
  "new_simple_monitor cooldown block ntp_max minutes lookback = bind_res (decimal_of_float cooldown) (\<lambda>dc. bind_res (decimal_of_float block) (\<lambda>db.
     Inr \<lparr>sm_cooldown = dc, sm_block = db, sm_ntp_max = ntp_max, sm_minutes = minutes,
          sm_lookback = (case lookback of None \<Rightarrow> 1800 | Some n \<Rightarrow> if n = 0 then 1800 else n),
          sm_state = [], sm_reasons = [], sm_drift = None, sm_news = None\<rparr>))"

definition cooldown_state :: "spread_monitor \<Rightarrow> string" where
  "cooldown_state m = (let st = map (ss_state \<circ> snd) (sm_state m) in
     if list_ex (\<lambda>s. s = ''block'' \<or> s = ''halt'') st then ''block''
     else if list_ex (\<lambda>s. s = ''cooldown'' \<or> s = ''watch'') st then ''cooldown'' else ''normal'')"

text \<open>\<open>int(float(token) * unit)\<close>; a text that is no number gives None, an infinity raises.\<close>

definition scaled_int :: "string \<Rightarrow> int \<Rightarrow> int option res" where
  "scaled_int t unit_s = bind_res (or_none (py_float (PStr t))) (\<lambda>x. case x of None \<Rightarrow> Inr None
     | Some y \<Rightarrow> or_none (py_int (PFloat (if unit_s = 1 then y else fmul y (f_of_int unit_s)))))"

definition parse_window_seconds :: "pyval \<Rightarrow> int option res" where
  "parse_window_seconds v = (if \<not> truthy v then Inr None else case v of
       PStr w \<Rightarrow> (let t = str_lower (str_strip w) in
         if ends_with ''h'' t then scaled_int (butlast t) 3600 else if ends_with ''m'' t then scaled_int (butlast t) 60 else scaled_int t 1)
     | _ \<Rightarrow> Inl AttributeError)"

definition degraded_error :: err where
  "degraded_error = Raises ''SpreadDataDegradedError'' ''spread metrics missing (p95/p99)''"

definition frame_symbol :: "pydict \<Rightarrow> string" where
  "frame_symbol f = py_str (py_or (dget f ''symbol'') (PStr ''*''))"

definition frame_news :: "pydict \<Rightarrow> pyval" where
  "frame_news f = py_or (dget f ''news_id'') (dget f ''news_event'')"

definition opt_int :: "pyval \<Rightarrow> int option res" where
  "opt_int v = (if v = PNone then Inr None else bind_res (py_int v) (\<lambda>i. Inr (Some i)))"

definition update_simple :: "pydt \<Rightarrow> pydt \<Rightarrow> pydict \<Rightarrow> spread_monitor \<Rightarrow> spread_monitor res" where
  "update_simple now_eval now f m =
     (let p95 = dget_def f ''p95'' (dget f ''spread_p95''); p99 = dget_def f ''p99'' (dget_def f ''spread_p99'' p95)
      in if p95 = PNone \<or> p99 = PNone then Inl degraded_error
         else bind_res (parse_window_seconds (dget f ''window'')) (\<lambda>w.
           bind_res (py_float p95) (\<lambda>x95. bind_res (py_float p99) (\<lambda>x99.
           bind_res (opt_int (dget f ''ntp_drift_ms'')) (\<lambda>drift.
           bind_res (evaluate_spread_guard x95 x99 (float_of_decimal (sm_cooldown m)) (float_of_decimal (sm_block m)) drift (sm_ntp_max m)
               (if truthy (frame_news f) then Some (py_str (frame_news f)) else None) (sm_minutes m) now_eval) (\<lambda>e.
           bind_res (decimal_of_text (py_str p99)) (\<lambda>pips.
             Inr (m\<lparr>sm_state := AList.update (frame_symbol f)
                     \<lparr>ss_state = se_status e, ss_pips = pips, ss_percentile = Fin 99, ss_threshold = (if se_status e = ''block'' then sm_block m else sm_cooldown m),
                      ss_eta = se_expires e, ss_updated = now,
                      ss_window = (case w of None \<Rightarrow> sm_lookback m | Some n \<Rightarrow> if n = 0 then sm_lookback m else n), ss_reason = se_reason e\<rparr> (sm_state m),
                    sm_reasons := AList.update (frame_symbol f) (se_reason e) (sm_reasons m),
                    sm_drift := se_drift e, sm_news := se_news e\<rparr>))))))))"

definition current_state :: "string list option \<Rightarrow> spread_monitor \<Rightarrow> (string \<times> spread_state) list" where
  "current_state symbols m = (case symbols of None \<Rightarrow> sm_state m | Some ks \<Rightarrow> filter (\<lambda>(k, _). k \<in> set ks) (sm_state m))"

definition current_snapshot :: "spread_monitor \<Rightarrow> (string \<times> spread_state) res" where
  "current_snapshot m = (case sm_state m of [] \<Rightarrow> Inl (Raises ''SpreadDataDegradedError'' ''SpreadMonitorProtocol.current_state() returned an empty mapping'')
     | x # _ \<Rightarrow> Inr x)"

section \<open>Drift and news\<close>

text \<open>The last drift of the metrics file, from its lines in reverse; a line that is no object raises.\<close>

definition int_of_round :: "pyfloat \<Rightarrow> int res" where
  "int_of_round x = (case x of Fin y \<Rightarrow> Inr (rhe y) | NaN \<Rightarrow> Inl ValueError | _ \<Rightarrow> Inl OverflowError)"

fun last_drift :: "json_lines \<Rightarrow> int option res" where
  "last_drift [] = Inr None"
| "last_drift (l # ls) = (case l of None \<Rightarrow> last_drift ls
     | Some v \<Rightarrow> bind_res (as_dict_get v) (\<lambda>d. let drift = dget d ''clock_drift_ms'' in
         if drift = PNone then last_drift ls
         else bind_res (or_none (bind_res (py_float drift) int_of_round)) (\<lambda>n. case n of None \<Rightarrow> last_drift ls | Some i \<Rightarrow> Inr (Some i))))"

definition load_latest_ntp_drift :: "json_lines \<Rightarrow> int option res" where
  "load_latest_ntp_drift ls = last_drift (rev ls)"

definition normalize_event_time :: "cal_event \<Rightarrow> pydt" where
  "normalize_event_time e = (case tzo (ce_ts e) of None \<Rightarrow> (ce_ts e)\<lparr>tzo := Some 0\<rparr> | Some z \<Rightarrow> ce_ts e)"

definition resolve_news_event :: "pydt \<Rightarrow> pydt \<Rightarrow> int \<times> int \<Rightarrow> calendar \<Rightarrow> string option res" where
  "resolve_news_event now now_cal w c = (case is_blocked now c of Inl _ \<Rightarrow> Inr None
     | Inr True \<Rightarrow> Inr (Some ''calendar_blocked'')
     | Inr False \<Rightarrow> (case upcoming_events 1 now_cal c of Inl _ \<Rightarrow> Inr None
         | Inr [] \<Rightarrow> Inr None
         | Inr (e # _) \<Rightarrow> (let t = normalize_event_time e in
             bind_res (dt_plus (minutes_us (fst w)) now) (\<lambda>a. bind_res (dt_plus (minutes_us (snd w)) now) (\<lambda>b.
             bind_res (dt_le a t) (\<lambda>after. if after then bind_res (dt_le t b) (\<lambda>before. Inr (if before then Some (ce_title e) else None))
               else Inr None))))))"

section \<open>The monitor with drift and news\<close>

record guard_monitor =
  gm_base :: spread_monitor
  gm_calendar :: calendar
  gm_news_minutes :: "int \<times> int"
  gm_news_block :: bool
  gm_emit :: bool
  gm_started :: "(string \<times> pydt) list"
  gm_metrics :: "pyval list"

record guard_env =
  ge_drifts :: json_lines
  ge_news :: pydt
  ge_calendar :: pydt
  ge_eval :: pydt
  ge_state :: pydt
  ge_metric :: pydt

definition in_cooldown :: "string \<Rightarrow> bool" where
  "in_cooldown s \<longleftrightarrow> s = ''cooldown'' \<or> s = ''block'' \<or> s = ''halt''"

definition network_metrics ::
  "pydt \<Rightarrow> string \<Rightarrow> string \<Rightarrow> string option \<Rightarrow> spread_state \<Rightarrow> guard_monitor \<Rightarrow> guard_monitor" where
  "network_metrics stamp symbol prev prev_reason st g =
     (if in_cooldown (ss_state st) then
        (if \<not> in_cooldown prev \<or> prev \<noteq> ss_state st then
           g\<lparr>gm_started := AList.update symbol (ss_updated st) (gm_started g),
             gm_metrics := gm_metrics g @ [PDict [(''ts'', PStr (utc_iso stamp)), (''event'', PStr ''spread.cooldown.start''), (''symbol'', PStr symbol),
               (''status'', PStr (ss_state st)), (''cooldown_reason'', ostr (ss_reason st)),
               (''ntp_drift_ms'', case sm_drift (gm_base g) of None \<Rightarrow> PNone | Some n \<Rightarrow> PInt n), (''news_id'', ostr (sm_news (gm_base g))),
               (''cooldown_eta'', case ss_eta st of None \<Rightarrow> PNone | Some t \<Rightarrow> PStr (isoformat t))]]\<rparr>
         else g)
      else case map_of (gm_started g) symbol of None \<Rightarrow> g
        | Some t \<Rightarrow> g\<lparr>gm_started := AList.delete symbol (gm_started g),
             gm_metrics := gm_metrics g @ [PDict [(''ts'', PStr (utc_iso stamp)), (''event'', PStr ''spread.cooldown.clear''), (''symbol'', PStr symbol),
               (''status'', PStr (ss_state st)),
               (''duration_sec'', PFloat (fmax (Fin 0) (rnd (of_int (epoch_us (ss_updated st) - epoch_us t) / 1000000)))),
               (''cooldown_reason'', ostr prev_reason)]]\<rparr>)"

text \<open>The frame with the drift of the file and the news of the calendar where it has none.\<close>

definition add_drift :: "json_lines \<Rightarrow> pydict \<Rightarrow> pydict res" where
  "add_drift ls f = (if dget f ''ntp_drift_ms'' \<noteq> PNone then Inr f
     else bind_res (load_latest_ntp_drift ls) (\<lambda>d. Inr (case d of None \<Rightarrow> f | Some n \<Rightarrow> AList.update ''ntp_drift_ms'' (PInt n) f)))"

definition add_news :: "guard_env \<Rightarrow> guard_monitor \<Rightarrow> pydict \<Rightarrow> pydict res" where
  "add_news env g f = (if \<not> gm_news_block g \<or> truthy (frame_news f) then Inr f
     else bind_res (resolve_news_event (ge_news env) (ge_calendar env) (gm_news_minutes g) (gm_calendar g)) (\<lambda>n.
       Inr (if otrue n then AList.update ''news_event'' (ostr n) f else f)))"

definition update_guard :: "guard_env \<Rightarrow> pydict \<Rightarrow> guard_monitor \<Rightarrow> guard_monitor res" where
  "update_guard env f g = (let symbol = frame_symbol f; prev = map_of (sm_state (gm_base g)) symbol in
     bind_res (add_drift (ge_drifts env) f) (\<lambda>f1. bind_res (add_news env g f1) (\<lambda>f2.
     bind_res (update_simple (ge_eval env) (ge_state env) f2 (gm_base g)) (\<lambda>b.
       let g1 = g\<lparr>gm_base := b\<rparr> in Inr (case map_of (sm_state b) symbol of
           Some st \<Rightarrow> if gm_emit g then network_metrics (ge_metric env) symbol (case prev of None \<Rightarrow> ''normal'' | Some p \<Rightarrow> ss_state p)
               (case prev of None \<Rightarrow> None | Some p \<Rightarrow> ss_reason p) st g1 else g1
         | None \<Rightarrow> g1)))))"

section \<open>Limits from the manifest\<close>

definition load_strategies :: "json_file \<Rightarrow> pydict option" where
  "load_strategies f = (let d = (case f of Some (Some v) \<Rightarrow> mapping_or_empty v | _ \<Rightarrow> []) in
     case dget d ''strategies'' of PDict entries \<Rightarrow> Some entries | _ \<Rightarrow> None)"

definition extract_filters :: "pyval \<Rightarrow> pydict" where
  "extract_filters v = (case v of PDict e \<Rightarrow> (case dget (mapping_or_empty (dget e ''parameters'')) ''filters'' of PDict f \<Rightarrow> f
       | _ \<Rightarrow> mapping_or_empty (dget e ''filters'')) | _ \<Rightarrow> [])"

definition parse_window :: "pyval \<Rightarrow> (int \<times> int) option res" where
  "parse_window v = (case v of PList [a, b] \<Rightarrow> or_none (bind_res (py_int a) (\<lambda>x. bind_res (py_int b) (\<lambda>y. Inr (x, y)))) | _ \<Rightarrow> Inr None)"

fun collect :: "('a \<Rightarrow> 'b option res) \<Rightarrow> 'a list \<Rightarrow> 'b list res" where
  "collect f [] = Inr []"
| "collect f (x # xs) = bind_res (f x) (\<lambda>y. bind_res (collect f xs) (\<lambda>ys. Inr (case y of None \<Rightarrow> ys | Some z \<Rightarrow> z # ys)))"

definition news_block_window :: "json_file \<Rightarrow> int \<times> int \<Rightarrow> (int \<times> int) res" where
  "news_block_window f w0 = (case load_strategies f of None \<Rightarrow> Inr w0
     | Some entries \<Rightarrow> bind_res (collect (\<lambda>v. parse_window (dget (extract_filters v) ''news_block_minutes'')) (map snd entries)) (\<lambda>ws.
         Inr (if ws = [] then w0 else (Min (set (map fst ws)), Max (set (map snd ws))))))"

definition manifest_multiplier :: "pyval \<Rightarrow> pyfloat option res" where
  "manifest_multiplier v = (let x = dget (extract_filters v) ''spread_guard_multiplier'' in if x = PNone then Inr None else or_none (py_float x))"

definition guard_multiplier :: "json_file \<Rightarrow> pyfloat \<Rightarrow> pyfloat res" where
  "guard_multiplier f x0 = (case load_strategies f of None \<Rightarrow> Inr x0
     | Some entries \<Rightarrow> bind_res (collect manifest_multiplier (map snd entries)) (\<lambda>xs. Inr (case xs of [] \<Rightarrow> x0 | x # ys \<Rightarrow> foldl fmax x ys)))"

record spread_limits =
  sl_cooldown :: pyfloat
  sl_block :: pyfloat
  sl_minutes :: pyfloat

definition spread_thresholds :: "pydict \<Rightarrow> json_file \<Rightarrow> spread_limits res" where
  "spread_thresholds cfg f =
     bind_res (if dget cfg ''guard_threshold_pips'' = PNone then Inr (rnd (12 / 10)) else py_float (dget cfg ''guard_threshold_pips'')) (\<lambda>c.
     bind_res (guard_multiplier f (Fin 2)) (\<lambda>k.
     bind_res (if dget cfg ''cooldown_minutes'' = PNone then Inr 10 else py_int (dget cfg ''cooldown_minutes'')) (\<lambda>n.
     bind_res (py_float (PInt n)) (\<lambda>x. Inr \<lparr>sl_cooldown = c, sl_block = fmul c k, sl_minutes = x\<rparr>))))"

definition build_spread_monitor :: "pydict \<Rightarrow> pydict \<Rightarrow> json_file \<Rightarrow> calendar \<Rightarrow> guard_monitor res" where
  "build_spread_monitor cfg gates f cal = bind_res (spread_thresholds cfg f) (\<lambda>l.
     bind_res (news_block_window f (- 15, 30)) (\<lambda>w. bind_res (py_int (PFloat (sl_minutes l))) (\<lambda>n.
     bind_res (new_simple_monitor (sl_cooldown l) (sl_block l) 50 n None) (\<lambda>b.
       Inr \<lparr>gm_base = b, gm_calendar = cal, gm_news_minutes = w, gm_news_block = truthy (dget_def gates ''enable_news_block'' (PBool True)),
            gm_emit = True, gm_started = [], gm_metrics = []\<rparr>))))"

section \<open>The status\<close>

lemma spread_status_cases:
  assumes "spread_status d95 d99 dc db = Inr s"
  obtains (block) "s = ''block''" "dec_le db d99 = Inr True"
  | (cool) "s = ''cooldown''" "dec_le db d99 = Inr False" "dec_le dc d95 = Inr True"
  | (normal) "s = ''normal''" "dec_le db d99 = Inr False" "dec_le dc d95 = Inr False"
  using assms by (auto simp: spread_status_def bind_res_eq_Inr split: if_splits)

lemma evaluate_cases:
  assumes "evaluate_spread_guard p95 p99 cooldown block drift ntp_max news minutes now = Inr e"
  obtains d95 d99 dc db st where "decimal_of_float p95 = Inr d95" "decimal_of_float p99 = Inr d99" "decimal_of_float cooldown = Inr dc"
    "decimal_of_float block = Inr db" "spread_status d95 d99 dc db = Inr st" "se_p95 e = d95" "se_p99 e = d99"
    "se_status e = raise_status (otrue news) (raise_status (drift_signal ntp_max drift) st)"
    "se_status e = ''normal'' \<and> se_expires e = None \<or> se_status e \<noteq> ''normal'' \<and> (\<exists>t. dt_plus (minutes_us minutes) now = Inr t \<and> se_expires e = Some t)"
proof -
  define status where "status = (\<lambda>st. raise_status (otrue news) (raise_status (drift_signal ntp_max drift) st))"
  from assms show ?thesis
    unfolding evaluate_spread_guard_def Let_def status_def [symmetric]
    by (elim bind_res_InrE) (rule that, assumption+, auto simp: status_def bind_res_eq_Inr split: if_splits)
qed

text \<open>C16: Of the signals only the spread blocks: the status is \<open>block\<close> exactly where the 99th percentile reaches the block limit, and
  \<open>normal\<close> exactly where neither limit is reached, the clock is within its bound and there is no news; every other status ends so
  many minutes after the evaluation.\<close>

theorem spread_status_exactly:
  assumes "evaluate_spread_guard p95 p99 cooldown block drift ntp_max news minutes now = Inr e"
  shows "\<exists>dc db. decimal_of_float cooldown = Inr dc \<and> decimal_of_float block = Inr db \<and>
    (se_status e = ''block'' \<longleftrightarrow> dec_le db (se_p99 e) = Inr True) \<and>
    (se_status e = ''normal'' \<longleftrightarrow> dec_le db (se_p99 e) = Inr False \<and> dec_le dc (se_p95 e) = Inr False \<and> \<not> drift_signal ntp_max drift \<and> \<not> otrue news) \<and>
    map_option epoch_us (se_expires e) = (if se_status e = ''normal'' then None else Some (epoch_us now + minutes_us minutes))"
proof -
  obtain d95 d99 dc db st where e: "decimal_of_float cooldown = Inr dc" "decimal_of_float block = Inr db" "spread_status d95 d99 dc db = Inr st"
    "se_p95 e = d95" "se_p99 e = d99" "se_status e = raise_status (otrue news) (raise_status (drift_signal ntp_max drift) st)"
    "se_status e = ''normal'' \<and> se_expires e = None \<or> se_status e \<noteq> ''normal'' \<and> (\<exists>t. dt_plus (minutes_us minutes) now = Inr t \<and> se_expires e = Some t)"
    using assms by (elim evaluate_cases) blast
  have x: "map_option epoch_us (se_expires e) = (if se_status e = ''normal'' then None else Some (epoch_us now + minutes_us minutes))"
    using e(7) by (auto dest: dt_plus_result(1))
  have "(se_status e = ''block'' \<longleftrightarrow> dec_le db d99 = Inr True) \<and>
      (se_status e = ''normal'' \<longleftrightarrow> dec_le db d99 = Inr False \<and> dec_le dc d95 = Inr False \<and> \<not> drift_signal ntp_max drift \<and> \<not> otrue news)"
    using e(3) by (cases rule: spread_status_cases) (simp_all add: e(6) raise_status_def)
  with x show ?thesis by (intro exI [of _ dc] exI [of _ db]) (simp add: e(1,2,4,5))
qed

lemma evaluate_status_label:
  assumes "evaluate_spread_guard p95 p99 cooldown block drift ntp_max news minutes now = Inr e"
  shows "se_status e \<in> {''normal'', ''cooldown'', ''block''}"
  using assms
proof (cases rule: evaluate_cases)
  case (1 d95 d99 dc db st)
  from 1(5) show ?thesis by (cases rule: spread_status_cases) (simp_all add: 1(8) raise_status_def)
qed

text \<open>A NaN among the spreads cannot be compared.\<close>

lemma decimal_of_NaN: "decimal_of_float NaN = Inr DNaN"
  by code_simp

lemma evaluate_nan: "\<exists>err. evaluate_spread_guard p95 NaN cooldown block drift ntp_max news minutes now = Inl err"
proof (rule ccontr)
  assume "\<nexists>err. evaluate_spread_guard p95 NaN cooldown block drift ntp_max news minutes now = Inl err"
  then obtain e where "evaluate_spread_guard p95 NaN cooldown block drift ntp_max news minutes now = Inr e"
    by (cases "evaluate_spread_guard p95 NaN cooldown block drift ntp_max news minutes now") auto
  then show False
  proof (cases rule: evaluate_cases)
    case (1 d95 d99 dc db st)
    have "d99 = DNaN" using 1(2) by (simp add: decimal_of_NaN)
    with 1(5) show ?thesis by (cases rule: spread_status_cases; cases db; simp)
  qed
qed

section \<open>The monitor's states\<close>

lemma update_simple_cases:
  assumes "update_simple t1 t2 f m = Inr m'"
  obtains st e x95 x99 drift where "evaluate_spread_guard x95 x99 (float_of_decimal (sm_cooldown m)) (float_of_decimal (sm_block m)) drift
      (sm_ntp_max m) (if truthy (frame_news f) then Some (py_str (frame_news f)) else None) (sm_minutes m) t1 = Inr e"
    "py_float (dget_def f ''p99'' (dget_def f ''spread_p99'' (dget_def f ''p95'' (dget f ''spread_p95'')))) = Inr x99"
    "sm_state m' = AList.update (frame_symbol f) st (sm_state m)" "ss_state st = se_status e" "ss_eta st = se_expires e"
proof -
  from assms have n: "(dget_def f ''p95'' (dget f ''spread_p95'') = PNone
      \<or> dget_def f ''p99'' (dget_def f ''spread_p99'' (dget_def f ''p95'' (dget f ''spread_p95''))) = PNone) = False"
    by (auto simp: update_simple_def Let_def split: if_splits)
  from assms show ?thesis
    unfolding update_simple_def Let_def n if_False by (elim bind_res_InrE) (rule that, assumption+, auto)
qed

lemma frame_lookup_drift: "add_drift ls f = Inr f1 \<Longrightarrow> k \<noteq> ''ntp_drift_ms'' \<Longrightarrow> map_of f1 k = map_of f k"
  by (auto simp: add_drift_def bind_res_eq_Inr split: if_splits option.splits)

lemma frame_lookup_news: "add_news env g f = Inr f1 \<Longrightarrow> k \<noteq> ''news_event'' \<Longrightarrow> map_of f1 k = map_of f k"
  by (auto simp: add_news_def bind_res_eq_Inr split: if_splits)

lemma update_guard_cases:
  assumes "update_guard env f g = Inr g'"
  obtains f2 b where "update_simple (ge_eval env) (ge_state env) f2 (gm_base g) = Inr b" "frame_symbol f2 = frame_symbol f"
    "\<And>k. k \<noteq> ''ntp_drift_ms'' \<Longrightarrow> k \<noteq> ''news_event'' \<Longrightarrow> map_of f2 k = map_of f k"
    "g' = (case map_of (sm_state b) (frame_symbol f) of
       Some st \<Rightarrow> if gm_emit g then network_metrics (ge_metric env) (frame_symbol f)
           (case map_of (sm_state (gm_base g)) (frame_symbol f) of None \<Rightarrow> ''normal'' | Some p \<Rightarrow> ss_state p)
           (case map_of (sm_state (gm_base g)) (frame_symbol f) of None \<Rightarrow> None | Some p \<Rightarrow> ss_reason p) st (g\<lparr>gm_base := b\<rparr>) else g\<lparr>gm_base := b\<rparr>
     | None \<Rightarrow> g\<lparr>gm_base := b\<rparr>)"
proof -
  from assms obtain f1 f2 b where f: "add_drift (ge_drifts env) f = Inr f1" "add_news env g f1 = Inr f2"
    and b: "update_simple (ge_eval env) (ge_state env) f2 (gm_base g) = Inr b"
    and g': "g' = (case map_of (sm_state b) (frame_symbol f) of
       Some st \<Rightarrow> if gm_emit g then network_metrics (ge_metric env) (frame_symbol f)
           (case map_of (sm_state (gm_base g)) (frame_symbol f) of None \<Rightarrow> ''normal'' | Some p \<Rightarrow> ss_state p)
           (case map_of (sm_state (gm_base g)) (frame_symbol f) of None \<Rightarrow> None | Some p \<Rightarrow> ss_reason p) st (g\<lparr>gm_base := b\<rparr>) else g\<lparr>gm_base := b\<rparr>
     | None \<Rightarrow> g\<lparr>gm_base := b\<rparr>)"
    unfolding update_guard_def Let_def by (elim bind_res_InrE) (simp only: sum.inject)
  have look: "map_of f2 k = map_of f k" if "k \<noteq> ''ntp_drift_ms''" "k \<noteq> ''news_event''" for k
    using frame_lookup_drift [OF f(1) that(1)] frame_lookup_news [OF f(2) that(2)] by simp
  have fs: "frame_symbol f2 = frame_symbol f" using look [of "''symbol''"] by (simp add: frame_symbol_def dget_def)
  show ?thesis by (rule that [OF b fs look g'])
qed

definition cooling :: "spread_state option \<Rightarrow> bool" where
  "cooling x = (case x of None \<Rightarrow> False | Some st \<Rightarrow> in_cooldown (ss_state st))"

definition started_ok :: "guard_monitor \<Rightarrow> bool" where
  "started_ok g \<longleftrightarrow> gm_emit g \<and> (\<forall>s. map_of (gm_started g) s \<noteq> None \<longleftrightarrow> cooling (map_of (sm_state (gm_base g)) s))"

text \<open>A step of the monitor: an update that raises leaves it as it was.\<close>

definition guard_step :: "guard_monitor \<Rightarrow> guard_env \<times> pydict \<Rightarrow> guard_monitor" where
  "guard_step g op = (case update_guard (fst op) (snd op) g of Inl _ \<Rightarrow> g | Inr g' \<Rightarrow> g')"

lemma network_metrics_started:
  "gm_base (network_metrics t s prev pr st g) = gm_base g" "gm_emit (network_metrics t s prev pr st g) = gm_emit g"
  "map_of (gm_started (network_metrics t s prev pr st g)) k =
     (if k \<noteq> s then map_of (gm_started g) k else if \<not> in_cooldown (ss_state st) then None
      else if \<not> in_cooldown prev \<or> prev \<noteq> ss_state st then Some (ss_updated st) else map_of (gm_started g) s)"
  by (auto simp: network_metrics_def split: option.split)

lemma guard_step_ok:
  assumes "started_ok g"
  shows "started_ok (guard_step g op)"
proof (cases "update_guard (fst op) (snd op) g")
  case (Inr g')
  let ?s = "frame_symbol (snd op)"
  from Inr show ?thesis
  proof (cases rule: update_guard_cases)
    case (1 f2 b)
    from 1(1) obtain st where st: "sm_state b = AList.update ?s st (sm_state (gm_base g))"
      by (cases rule: update_simple_cases) (simp add: 1(2))
    have prev: "map_of (gm_started g) ?s \<noteq> None \<longleftrightarrow> cooling (map_of (sm_state (gm_base g)) ?s)"
      using assms by (simp add: started_ok_def)
    have "g' = network_metrics (ge_metric (fst op)) ?s (case map_of (sm_state (gm_base g)) ?s of None \<Rightarrow> ''normal'' | Some p \<Rightarrow> ss_state p)
        (case map_of (sm_state (gm_base g)) ?s of None \<Rightarrow> None | Some p \<Rightarrow> ss_reason p) st (g\<lparr>gm_base := b\<rparr>)"
      using 1(4) st assms by (simp add: started_ok_def)
    moreover have "in_cooldown (ss_state st) \<Longrightarrow> map_of (gm_started g) ?s = None
        \<Longrightarrow> \<not> in_cooldown (case map_of (sm_state (gm_base g)) ?s of None \<Rightarrow> ''normal'' | Some p \<Rightarrow> ss_state p)"
      using prev by (auto simp: cooling_def in_cooldown_def split: option.splits)
    ultimately show ?thesis
      using assms prev st
      by (auto simp: guard_step_def Inr started_ok_def network_metrics_started cooling_def)
  qed
qed (simp add: guard_step_def assms)

interpretation spread_guard: step_system guard_step started_ok
  by unfold_locales (rule guard_step_ok)

lemma build_started_ok: "build_spread_monitor cfg gates f cal = Inr g \<Longrightarrow> started_ok g"
  by (auto simp: build_spread_monitor_def bind_res_eq_Inr new_simple_monitor_def started_ok_def cooling_def)

text \<open>After any updates, failed ones included, a monitor built from the manifest holds a start time for exactly the symbols that
  are in a cooldown.\<close>

theorem started_are_cooling:
  assumes "build_spread_monitor cfg gates f cal = Inr g"
  shows "map_of (gm_started (foldl guard_step g ops)) symbol \<noteq> None \<longleftrightarrow> cooling (map_of (sm_state (gm_base (foldl guard_step g ops))) symbol)"
  using spread_guard.run_inv [OF build_started_ok [OF assms]] by (simp add: started_ok_def)

text \<open>An update whose 99th percentile is a NaN raises and leaves every state as it was.\<close>

theorem nan_spread_keeps_state:
  assumes "py_float (dget_def f ''p99'' (dget_def f ''spread_p99'' (dget_def f ''p95'' (dget f ''spread_p95'')))) = Inr NaN"
  shows "(\<exists>err. update_guard env f g = Inl err) \<and> guard_step g (env, f) = g"
proof -
  have raises: "\<exists>err. update_guard env f g = Inl err"
  proof (rule ccontr)
    assume "\<nexists>err. update_guard env f g = Inl err"
    then obtain g' where "update_guard env f g = Inr g'" by (cases "update_guard env f g") auto
    then show False
    proof (cases rule: update_guard_cases)
      case (1 f2 b)
      from 1(1) show ?thesis
      proof (cases rule: update_simple_cases)
        case (1 st e x95 x99 drift)
        then have "x99 = NaN" using assms \<open>\<And>k. _ \<Longrightarrow> _ \<Longrightarrow> map_of f2 k = map_of f k\<close> by (simp add: dget_def_def dget_def)
        with 1(1) evaluate_nan show ?thesis by (metis sum.distinct(1))
      qed
    qed
  qed
  then show ?thesis by (auto simp: guard_step_def)
qed

section \<open>News\<close>

lemma normalize_event_time_simps [simp]:
  "epoch_us (normalize_event_time e) = epoch_us (ce_ts e)" "tzo (normalize_event_time e) \<noteq> None"
  by (auto simp: normalize_event_time_def epoch_us_def split: option.split)

lemma upcoming_after: "upcoming_events 1 now c = Inr (e # es) \<Longrightarrow> epoch_us now \<le> epoch_us (ce_ts e)"
proof -
  assume u: "upcoming_events 1 now c = Inr (e # es)"
  have "e \<in> set (e # es)" by simp
  then have "e \<in> set (take (nat 1) (sort_key (epoch_us \<circ> ce_ts) (filter (\<lambda>e. epoch_us now \<le> epoch_us (ce_ts e)) (cal_events c))))"
    by (simp only: upcoming_is [OF u])
  then have "e \<in> set (sort_key (epoch_us \<circ> ce_ts) (filter (\<lambda>e. epoch_us now \<le> epoch_us (ce_ts e)) (cal_events c)))" by (rule in_set_takeD)
  then show ?thesis by simp
qed

text \<open>How far the news window reaches into the past makes no difference: an event that has begun is no upcoming event.\<close>

theorem past_window_ignored:
  assumes "w \<le> 0" "w' \<le> 0" "tzo now \<noteq> None" "epoch_us now \<le> epoch_us now_cal"
    and "dt_plus (minutes_us w) now = Inr a" "dt_plus (minutes_us w') now = Inr a'"
  shows "resolve_news_event now now_cal (w, h) c = resolve_news_event now now_cal (w', h) c"
proof (cases "is_blocked now c = Inr False \<and> (\<exists>e es. upcoming_events 1 now_cal c = Inr (e # es))")
  case True
  then obtain e es where e: "is_blocked now c = Inr False" "upcoming_events 1 now_cal c = Inr (e # es)" by blast
  have le: "dt_le x (normalize_event_time e) = Inr True" if "dt_plus (minutes_us k) now = Inr x" "k \<le> 0" for x k
    using dt_plus_result [OF that(1)] upcoming_after [OF e(2)] that(2) assms(3,4)
    by (auto simp: dt_le_def dt_at_least_def same_zone_kind_def minutes_us_def)
  show ?thesis by (simp add: resolve_news_event_def e assms(5,6) le [OF assms(5,1)] le [OF assms(6,2)])
next
  case False
  then show ?thesis by (auto simp: resolve_news_event_def split: sum.splits bool.splits list.splits)
qed

text \<open>With an event that has no time zone in the calendar no event to come is ever reported.\<close>

theorem naive_event_silences_news:
  assumes "e \<in> set (cal_events c)" "tzo (ce_ts e) = None"
  shows "resolve_news_event now now_cal w c \<in> {Inr None, Inr (Some ''calendar_blocked'')}"
proof (cases "is_blocked now c")
  case (Inr b)
  moreover have "b" using Inr never_free [OF assms] by (cases b) auto
  ultimately show ?thesis by (simp add: resolve_news_event_def)
qed (simp add: resolve_news_event_def)

section \<open>The manifest\<close>

lemma collect_mem: "collect f xs = Inr ys \<Longrightarrow> x \<in> set xs \<Longrightarrow> f x = Inr (Some y) \<Longrightarrow> y \<in> set ys"
  by (induction xs arbitrary: ys) (auto simp: bind_res_eq_Inr split: option.splits)

lemma collect_from: "collect f xs = Inr ys \<Longrightarrow> y \<in> set ys \<Longrightarrow> \<exists>x \<in> set xs. f x = Inr (Some y)"
  by (induction xs arbitrary: ys) (fastforce simp: bind_res_eq_Inr split: option.splits)+

text \<open>The window of the monitor covers that of every strategy of the manifest.\<close>

theorem manifest_window_covers:
  assumes "news_block_window f w0 = Inr (a, b)" "load_strategies f = Some entries" "(name, v) \<in> set entries"
    and "parse_window (dget (extract_filters v) ''news_block_minutes'') = Inr (Some (x, y))"
  shows "a \<le> x \<and> y \<le> b"
proof -
  obtain ws where ws: "collect (\<lambda>v. parse_window (dget (extract_filters v) ''news_block_minutes'')) (map snd entries) = Inr ws"
    and ab: "(a, b) = (if ws = [] then w0 else (Min (set (map fst ws)), Max (set (map snd ws))))"
    using assms(1,2) by (auto simp: news_block_window_def bind_res_eq_Inr)
  have "v \<in> set (map snd entries)" using assms(3) by force
  then have m: "(x, y) \<in> set ws" using collect_mem [OF ws] assms(4) by blast
  then have "Min (set (map fst ws)) \<le> x" "y \<le> Max (set (map snd ws))" by (force intro: Min_le Max_ge)+
  with m ab show ?thesis by (cases ws) auto
qed

lemma foldl_fmax_ge:
  "NaN \<notin> set (x # xs) \<Longrightarrow> y \<in> set (x # xs) \<Longrightarrow> fle y (foldl fmax x xs)"
proof (induction xs arbitrary: x y)
  case (Cons z zs)
  have m: "fle x (fmax x z)" "fle z (fmax x z)" "fmax x z \<noteq> NaN"
    using Cons.prems(1) by (auto simp: fmax_def fle_refl_iff not_fle_iff [symmetric] dest: flt_imp_fle)
  have n: "NaN \<notin> set (fmax x z # zs)" using Cons.prems(1) m(3) by auto
  have top: "fle (fmax x z) (foldl fmax (fmax x z) zs)" by (rule Cons.IH [OF n]) simp
  show ?case
  proof (cases "y \<in> set zs")
    case True
    then show ?thesis using Cons.IH [OF n] by simp
  next
    case False
    then have "y = x \<or> y = z" using Cons.prems(2) by simp
    then show ?thesis using fle_trans [OF m(1) top] fle_trans [OF m(2) top] by auto
  qed
qed (auto simp: fle_refl_iff)

text \<open>The multiplier is at least that of every strategy, as long as none is a NaN.\<close>

theorem manifest_multiplier_covers:
  assumes "guard_multiplier f x0 = Inr k" "load_strategies f = Some entries" "(name, v) \<in> set entries" "manifest_multiplier v = Inr (Some x)"
    and "\<And>u y. u \<in> set (map snd entries) \<Longrightarrow> manifest_multiplier u = Inr (Some y) \<Longrightarrow> y \<noteq> NaN"
  shows "fle x k"
proof -
  obtain xs where xs: "collect manifest_multiplier (map snd entries) = Inr xs" "k = (case xs of [] \<Rightarrow> x0 | x # ys \<Rightarrow> foldl fmax x ys)"
    using assms(1,2) by (auto simp: guard_multiplier_def bind_res_eq_Inr)
  have "v \<in> set (map snd entries)" using assms(3) by force
  then have "x \<in> set xs" using collect_mem [OF xs(1)] assms(4) by blast
  moreover have "NaN \<notin> set xs" using collect_from [OF xs(1)] assms(5) by blast
  ultimately show ?thesis using foldl_fmax_ge xs(2) by (cases xs) auto
qed

section \<open>Witnesses\<close>

lemma float_str_digit:
  assumes "0 < d" "d < 10"
  shows "float_str (Fin (of_int d)) = [digit_char (nat d)] @ ''.0''"
proof -
  have r: "rnd (of_int d) = Fin (of_int d)" using assms by (intro rnd_int) simp
  have x: "(1 :: rat) \<le> of_int d" "\<not> (10 :: rat) \<le> of_int d" "(of_int d :: rat) \<noteq> 0" "(0 :: rat) < of_int d" using assms by simp_all
  have "dec_exp (of_int d) = 0" using x by (simp add: dec_exp_def numeral_eq_Suc)
  moreover have "shortest 16 1 (of_int d) 0 = (d, 0)" by (simp add: numeral_eq_Suc pow10_def Let_def r)
  moreover have "nat_str d = [digit_char (nat d)]" using assms by (simp add: nat_str.simps)
  ultimately have "pos_float_str (of_int d) = [digit_char (nat d)] @ ''.0''"
    by (simp add: pos_float_str_def zeros_def)
  with x show ?thesis by simp
qed

lemma demo_decimals: "decimal_of_float (Fin 1) = Inr (DNum 1)" "decimal_of_float (Fin 2) = Inr (DNum 2)"
proof -
  have "digit_char 1 = CHR ''1''" "digit_char 2 = CHR ''2''" by code_simp+
  then have "float_str (Fin 1) = ''1.0''" "float_str (Fin 2) = ''2.0''" using float_str_digit [of 1] float_str_digit [of 2] by simp_all
  moreover have "decimal_of_text ''1.0'' = Inr (DNum 1)" "decimal_of_text ''2.0'' = Inr (DNum 2)" by code_simp+
  ultimately show "decimal_of_float (Fin 1) = Inr (DNum 1)" "decimal_of_float (Fin 2) = Inr (DNum 2)" by (simp_all add: decimal_of_float_def)
qed

lemma demo_soon: "\<exists>d. dt_plus 600000000 demo_noon = Inr d"
  by (simp add: dt_plus_def dt_of_local_def demo_days)

lemma demo_spread_evaluation:
  "\<exists>e. evaluate_spread_guard (Fin 1) (Fin 2) (Fin 1) (Fin 2) None 50 None 10 demo_noon = Inr e \<and> se_status e = ''block''"
proof -
  obtain d where "dt_plus 600000000 demo_noon = Inr d" using demo_soon by blast
  then show ?thesis
    by (simp add: evaluate_spread_guard_def demo_decimals spread_status_def drift_signal_def raise_status_def minutes_us_def Let_def)
qed

theorem spread_status_exactly_witness:
  "\<exists>e dc db. evaluate_spread_guard (Fin 1) (Fin 2) (Fin 1) (Fin 2) None 50 None 10 demo_noon = Inr e \<and> dec_le db (se_p99 e) = Inr True
     \<and> decimal_of_float (Fin 1) = Inr dc \<and> map_option epoch_us (se_expires e) = Some (epoch_us demo_noon + minutes_us 10)"
proof -
  obtain e where e: "evaluate_spread_guard (Fin 1) (Fin 2) (Fin 1) (Fin 2) None 50 None 10 demo_noon = Inr e" "se_status e = ''block''"
    using demo_spread_evaluation by blast
  show ?thesis using spread_status_exactly [OF e(1)] e by auto
qed

definition demo_guard_env :: guard_env where
  "demo_guard_env = \<lparr>ge_drifts = [], ge_news = demo_noon, ge_calendar = demo_noon, ge_eval = demo_noon, ge_state = demo_noon, ge_metric = demo_noon\<rparr>"

definition demo_frame :: pydict where
  "demo_frame = [(''symbol'', PStr ''EURUSD''), (''p95'', PInt 1), (''p99'', PInt 2)]"

lemma demo_monitor:
  obtains g where "build_spread_monitor [(''guard_threshold_pips'', PInt 1)] [(''enable_news_block'', PBool False)] None \<lparr>cal_events = [], cal_default = 30\<rparr> = Inr g"
    "gm_base g = \<lparr>sm_cooldown = DNum 1, sm_block = DNum 2, sm_ntp_max = 50, sm_minutes = 10, sm_lookback = 1800, sm_state = [], sm_reasons = [], sm_drift = None, sm_news = None\<rparr>"
    "\<not> gm_news_block g"
proof -
  have "py_float (PInt 1) = Inr (Fin 1)" "py_float (PInt 10) = Inr (Fin 10)" "fmul (Fin 1) (Fin 2) = Fin 2"
    using rnd_int [of 1] rnd_int [of 10] rnd_int [of 2] by (simp_all add: py_float_def f_of_int_def)
  moreover have "py_int (PFloat (Fin 10)) = Inr 10" by (simp add: py_int_def rat_trunc_def)
  ultimately have "\<exists>g. build_spread_monitor [(''guard_threshold_pips'', PInt 1)] [(''enable_news_block'', PBool False)] None \<lparr>cal_events = [], cal_default = 30\<rparr> = Inr g
    \<and> gm_base g = \<lparr>sm_cooldown = DNum 1, sm_block = DNum 2, sm_ntp_max = 50, sm_minutes = 10, sm_lookback = 1800, sm_state = [], sm_reasons = [], sm_drift = None, sm_news = None\<rparr>
    \<and> \<not> gm_news_block g"
    by (simp add: build_spread_monitor_def spread_thresholds_def guard_multiplier_def load_strategies_def news_block_window_def
        new_simple_monitor_def demo_decimals)
  then show ?thesis using that by blast
qed

theorem started_are_cooling_witness:
  "\<exists>g. build_spread_monitor [(''guard_threshold_pips'', PInt 1)] [(''enable_news_block'', PBool False)] None \<lparr>cal_events = [], cal_default = 30\<rparr> = Inr g
     \<and> map_of (gm_started (foldl guard_step g [(demo_guard_env, demo_frame)])) ''EURUSD'' \<noteq> None"
proof -
  obtain g where g: "build_spread_monitor [(''guard_threshold_pips'', PInt 1)] [(''enable_news_block'', PBool False)] None \<lparr>cal_events = [], cal_default = 30\<rparr> = Inr g"
    "gm_base g = \<lparr>sm_cooldown = DNum 1, sm_block = DNum 2, sm_ntp_max = 50, sm_minutes = 10, sm_lookback = 1800, sm_state = [], sm_reasons = [], sm_drift = None, sm_news = None\<rparr>"
    "\<not> gm_news_block g" by (rule demo_monitor)
  obtain e where e: "evaluate_spread_guard (Fin 1) (Fin 2) (Fin 1) (Fin 2) None 50 None 10 demo_noon = Inr e" "se_status e = ''block''"
    using demo_spread_evaluation by blast
  have f: "py_float (PInt 1) = Inr (Fin 1)" "py_float (PInt 2) = Inr (Fin 2)" "rnd 1 = Fin 1" "rnd 2 = Fin 2"
    using rnd_int [of 1] rnd_int [of 2] by (simp_all add: py_float_def f_of_int_def)
  have d: "decimal_of_text (py_str (PInt 2)) = Inr (DNum 2)" by code_simp
  have "\<exists>b. update_simple demo_noon demo_noon demo_frame (gm_base g) = Inr b \<and> cooling (map_of (sm_state b) ''EURUSD'')"
    using e by (simp add: update_simple_def demo_frame_def g(2) f d parse_window_seconds_def opt_int_def frame_news_def py_or_def frame_symbol_def
        cooling_def in_cooldown_def Let_def)
  then obtain b where b: "update_simple demo_noon demo_noon demo_frame (gm_base g) = Inr b" "cooling (map_of (sm_state b) ''EURUSD'')" by blast
  have "add_drift [] demo_frame = Inr demo_frame" by (simp add: add_drift_def load_latest_ntp_drift_def)
  moreover have "add_news demo_guard_env g demo_frame = Inr demo_frame" using g(3) by (simp add: add_news_def)
  ultimately obtain g' where "update_guard demo_guard_env demo_frame g = Inr g'" "gm_base g' = b"
    using b(1) by (auto simp: update_guard_def Let_def demo_guard_env_def network_metrics_started split: option.split)
  then have "gm_base (guard_step g (demo_guard_env, demo_frame)) = b" by (simp add: guard_step_def)
  with b(2) started_are_cooling [OF g(1), of "[(demo_guard_env, demo_frame)]" "''EURUSD''"] g(1) show ?thesis by auto
qed

theorem nan_spread_keeps_state_witness:
  "\<exists>g. build_spread_monitor [(''guard_threshold_pips'', PInt 1)] [(''enable_news_block'', PBool False)] None \<lparr>cal_events = [], cal_default = 30\<rparr> = Inr g
     \<and> guard_step g (demo_guard_env, [(''p95'', PInt 1), (''p99'', PFloat NaN)]) = g"
proof -
  obtain g where g: "build_spread_monitor [(''guard_threshold_pips'', PInt 1)] [(''enable_news_block'', PBool False)] None \<lparr>cal_events = [], cal_default = 30\<rparr> = Inr g"
    by (rule demo_monitor)
  have "guard_step g (demo_guard_env, [(''p95'', PInt 1), (''p99'', PFloat NaN)]) = g"
    using nan_spread_keeps_state [of "[(''p95'', PInt 1), (''p99'', PFloat NaN)]"] by (simp add: py_float_def)
  with g show ?thesis by blast
qed

theorem past_window_ignored_witness:
  "resolve_news_event demo_noon demo_noon (- 15, 30) (demo_calendar (Some 0)) = resolve_news_event demo_noon demo_noon (0, 30) (demo_calendar (Some 0))"
proof -
  have "\<exists>a. dt_plus (minutes_us (- 15)) demo_noon = Inr a" "\<exists>a. dt_plus (minutes_us 0) demo_noon = Inr a"
    by (simp_all add: dt_plus_def dt_of_local_def demo_days minutes_us_def)
  then obtain a a' where "dt_plus (minutes_us (- 15)) demo_noon = Inr a" "dt_plus (minutes_us 0) demo_noon = Inr a'" by blast
  then show ?thesis by (intro past_window_ignored [where w = "- 15" and w' = 0]) simp_all
qed

end
