(* ===== verification/PyStamp.thy ===== *)
theory PyStamp
  imports PyDate "HOL-Library.List_Lexorder" "HOL-Library.Product_Lexorder"
begin

text \<open>
  The text of an instant in UTC: its shape, its order against the texts of other instants (a cutoff
  may have microseconds), and reading it back.
\<close>

section \<open>The order of texts\<close>

lemma lex_append:
  fixes xs ys :: "'a :: linorder list"
  shows "length xs = length ys \<Longrightarrow> xs @ a < ys @ b \<longleftrightarrow> xs < ys \<or> xs = ys \<and> a < b"
  by (induction xs ys rule: list_induct2) auto

lemma digit_char_less: "a < 10 \<Longrightarrow> b < 10 \<Longrightarrow> digit_char a < digit_char b \<longleftrightarrow> a < b"
  by (simp add: digit_char_def less_char_def)

lemma digit_char_eq: "a < 10 \<Longrightarrow> b < 10 \<Longrightarrow> digit_char a = digit_char b \<longleftrightarrow> a = b"
  using digit_char_less [of a b] digit_char_less [of b a] by (metis less_irrefl nat_neq_iff)

lemma pad_str_eq: "n < 10 ^ w \<Longrightarrow> m < 10 ^ w \<Longrightarrow> pad_str w n = pad_str w m \<longleftrightarrow> n = m"
  using digits_val_pad [of n w] digits_val_pad [of m w] by metis

lemma tens_less: "n div 10 < m div 10 \<or> n div 10 = m div 10 \<and> n mod 10 < m mod 10 \<longleftrightarrow> n < (m :: nat)"
proof -
  define a b c d where v: "a = n div 10" "b = m div 10" "c = n mod 10" "d = m mod 10"
  have "c < 10" "d < 10" "n = 10 * a + c" "m = 10 * b + d" by (simp_all add: v)
  then show ?thesis unfolding v [symmetric] by auto
qed

lemma pad_str_less: "n < 10 ^ w \<Longrightarrow> m < 10 ^ w \<Longrightarrow> pad_str w n < pad_str w m \<longleftrightarrow> n < m"
proof (induction w arbitrary: n m)
  case (Suc w)
  have d: "n div 10 < 10 ^ w" "m div 10 < 10 ^ w" using Suc.prems by (simp_all add: less_mult_imp_div_less mult.commute)
  have "pad_str (Suc w) n < pad_str (Suc w) m \<longleftrightarrow> n div 10 < m div 10 \<or> n div 10 = m div 10 \<and> n mod 10 < m mod 10"
    by (simp add: lex_append Suc.IH [OF d] pad_str_eq [OF d] digit_char_less)
  also have "\<dots> \<longleftrightarrow> n < m" by (rule tens_less)
  finally show ?case .
qed simp

lemma pad_lex:
  "n < 10 ^ w \<Longrightarrow> m < 10 ^ w \<Longrightarrow> pad_str w n @ a < pad_str w m @ b \<longleftrightarrow> n < m \<or> n = m \<and> a < b"
  by (simp add: lex_append pad_str_less pad_str_eq)

section \<open>The order of times\<close>

lemma str_replace_skip:
  assumes "c \<notin> set s"
  shows "str_replace (c # cs) new (s @ t) = s @ str_replace (c # cs) new t"
  using assms
proof (induction s)
  case (Cons x s)
  then have "\<not> starts_with (c # cs) (x # s @ t)" using Cons.prems by (auto simp: starts_with_def)
  with Cons show ?case by (subst str_replace.simps) simp
qed simp

definition second_text :: "pydt \<Rightarrow> string" where
  "second_text d = pad_str 4 (yr d) @ ''-'' @ pad_str 2 (mo d) @ ''-'' @ pad_str 2 (dy d) @ ''T'' @ pad_str 2 (hh d) @ '':'' @ pad_str 2 (mi d)
     @ '':'' @ pad_str 2 (ss d)"

definition second_key :: "pydt \<Rightarrow> nat \<times> nat \<times> nat \<times> nat \<times> nat \<times> nat" where
  "second_key d = (yr d, mo d, dy d, hh d, mi d, ss d)"

definition in_range :: "pydt \<Rightarrow> bool" where
  "in_range d \<longleftrightarrow> yr d < 10000 \<and> mo d < 100 \<and> dy d < 100 \<and> hh d < 100 \<and> mi d < 100 \<and> ss d < 100 \<and> us d < 1000000"

lemma second_text_plus: "CHR ''+'' \<notin> set (second_text d)"
  by (auto simp: second_text_def pad_no_letter)

lemma iso_text_utc:
  assumes "tzo d = Some 0"
  shows "iso_text d = second_text d @ (if us d = 0 then [] else ''.'' @ pad_str 6 (us d)) @ ''Z''"
proof -
  have z: "offset_str 0 = ''+00:00''" "str_replace ''+00:00'' ''Z'' ''+00:00'' = ''Z''" by code_simp+
  have f: "CHR ''+'' \<notin> set (if us d = 0 then [] else ''.'' @ pad_str 6 (us d))" by (auto simp: pad_no_letter)
  have "isoformat d = second_text d @ (if us d = 0 then [] else ''.'' @ pad_str 6 (us d)) @ ''+00:00''"
    using assms z(1) by (simp add: isoformat_def second_text_def)
  then show ?thesis
    by (simp only: iso_text_def str_replace_skip [OF second_text_plus] str_replace_skip [OF f] z(2))
qed

lemma utc_iso_utc: "tzo d = Some 0 \<Longrightarrow> utc_iso d = second_text d @ ''Z''"
  using iso_text_utc [of "d\<lparr>us := 0\<rparr>"] by (simp add: utc_iso_def iso_text_def second_text_def)

lemma cons_append_less: "(c :: char) # a < c # b \<longleftrightarrow> a < b" "(CHR ''Z'' # a < CHR ''.'' # b) = False" "(CHR ''Z'' # a < CHR ''Z'' # b) = (a < b)"
  by (simp_all add: less_char_def)

lemma pair_less: "(a, b) < (c, d) \<longleftrightarrow> a < c \<or> a = c \<and> b < d" for a c :: "'a :: linorder" and b d :: "'b :: linorder"
  by (auto simp: less_prod_simp)

text \<open>A time of whole seconds, as text, lies before a cutoff's text exactly where its second lies before the cutoff's.\<close>

lemma second_before:
  assumes "tzo a = Some 0" "tzo c = Some 0" "in_range a" "in_range c"
  shows "utc_iso a < iso_text c \<longleftrightarrow> second_key a < second_key c"
proof -
  have n: "\<not> ''Z'' < (if us c = 0 then [] else ''.'' @ pad_str 6 (us c)) @ ''Z''"
    by (simp add: cons_append_less)
  show ?thesis
    unfolding utc_iso_utc [OF assms(1)] iso_text_utc [OF assms(2)] second_text_def second_key_def append_assoc
    using assms(3,4) n by (simp add: in_range_def pad_lex pair_less del: less_prod_simp)
qed

lemma dt_of_local_range: "dt_of_local z t = Inr d \<Longrightarrow> in_range d"
proof -
  assume a: "dt_of_local z t = Inr d"
  obtain y m dd where c: "civil_from_days (t div 86400000000) = (y, m, dd)" by (cases "civil_from_days (t div 86400000000)")
  define r where "r = t mod 86400000000"
  have r: "0 \<le> r" "r < 86400000000" by (simp_all add: r_def)
  from a c have y: "1 \<le> y" "y \<le> 9999" and d: "d = \<lparr>yr = nat y, mo = nat m, dy = nat dd, hh = nat (r div 3600000000), mi = nat (r div 60000000 mod 60),
      ss = nat (r div 1000000 mod 60), us = nat (r mod 1000000), tzo = z\<rparr>"
    by (simp_all add: dt_of_local_def Let_def r_def split: if_splits)
  have nb: "nat x < k" if "x < int k" "0 < k" for x k using that by simp
  have "r div 3600000000 < 100" using zdiv_mono1 [of r "360000000000" 3600000000] r(2) zdiv_mono1 [of r 86399999999 3600000000] by simp
  then have "nat (r div 3600000000) < 100" by (intro nb) simp_all
  moreover have "nat (r div 60000000 mod 60) < 100" "nat (r div 1000000 mod 60) < 100"
    by (rule nb, rule less_le_trans [OF pos_mod_bound]; simp)+
  moreover have "nat (r mod 1000000) < 1000000" by (rule nb, rule less_le_trans [OF pos_mod_bound]; simp)
  moreover have "nat y < 10000" "nat m < 100" "nat dd < 100" using days_civil_roundtrip(3,5) [OF c y(1)] y(2) by (auto intro!: nb)
  ultimately show ?thesis unfolding d in_range_def by (simp only: pydt.simps simp_thms)
qed

lemma dt_plus_range: "dt_plus k d = Inr d' \<Longrightarrow> in_range d'"
  by (auto simp: dt_plus_def dest: dt_of_local_range)

section \<open>Reading back\<close>

lemma utc_text_back:
  assumes "tzo d = Some 0"
  shows "butlast (iso_text d) @ ''+00:00'' = isoformat d" "ends_with ''Z'' (iso_text d)" "str_strip (iso_text d) = iso_text d"
proof -
  define b where "b = second_text d @ (if us d = 0 then [] else ''.'' @ pad_str 6 (us d))"
  have t: "iso_text d = b @ ''Z''" using iso_text_utc [OF assms] by (simp add: b_def)
  have z: "offset_str 0 = ''+00:00''" by code_simp
  show "butlast (iso_text d) @ ''+00:00'' = isoformat d"
    using z assms by (simp add: t b_def isoformat_def second_text_def butlast_append)
  show "ends_with ''Z'' (iso_text d)" by (simp add: t ends_with_def)
  have h: "is_digit (hd (iso_text d))" using pad_hd_last [of 4 "yr d"] by (simp add: t b_def second_text_def)
  have "\<not> is_space CHR ''Z''" by code_simp
  then show "str_strip (iso_text d) = iso_text d" using h by (intro str_strip_id) (auto simp: t dest: digit_not_space)
qed

lemma utc_iso_not_empty: "utc_iso d \<noteq> []"
  using iso_text_nonempty [of "d\<lparr>us := 0\<rparr>"] by (simp add: iso_text_def utc_iso_def)

end
