(* ===== verification/DataManifest.thy ===== *)
theory DataManifest
  imports PyStamp Systems
begin

text \<open>
  The manifest of data files, \<open>data/manifest.py\<close>. The manifest file is a JSON file; the files it tells
  of are given by a function from a path to the hash of its content (None where there is no file).
  Fresh identifiers and clock readings are arguments.

  Shown: a saved manifest loads as it was; a recorded file verifies under its identifier as long as it
  does not change, whatever is recorded later; a difference of two manifests is by identifier. And
  where it fails: verification by path takes the oldest entry, so a file recorded again after a change
  never verifies by its path.
\<close>

section \<open>Entries\<close>

record manifest_entry =
  me_id :: string
  me_kind :: string
  me_path :: string
  me_hash :: string
  me_rows :: pyval
  me_timespan :: pyval
  me_source :: pyval
  me_owner :: pyval
  me_reviewer :: pyval
  me_playbook :: pyval
  me_status :: string
  me_tags :: "pyval list"

definition manifest_entry_dict :: "manifest_entry \<Rightarrow> pydict" where
  "manifest_entry_dict e = [(''id'', PStr (me_id e)), (''kind'', PStr (me_kind e)), (''path'', PStr (me_path e)), (''hash_sha256'', PStr (me_hash e)),
     (''rows'', me_rows e), (''timespan'', me_timespan e), (''source'', me_source e), (''owner'', me_owner e), (''reviewer'', me_reviewer e),
     (''validation_playbook_id'', me_playbook e), (''status'', PStr (me_status e)), (''tags'', PList (me_tags e))]"

record manifest =
  mf_schema :: string
  mf_generated :: string
  mf_entries :: "manifest_entry list"

definition manifest_dict :: "manifest \<Rightarrow> pydict" where
  "manifest_dict m = [(''schema_version'', PStr (mf_schema m)), (''generated_at'', PStr (mf_generated m)),
     (''entries'', PList (map (\<lambda>e. PDict (manifest_entry_dict e)) (mf_entries m)))]"

text \<open>\<open>str(d.get(k) or v0)\<close>.\<close>

definition text_or :: "pydict \<Rightarrow> string \<Rightarrow> string \<Rightarrow> string" where
  "text_or d k v0 = py_str (py_or (dget d k) (PStr v0))"

definition read_entry :: "pyval \<Rightarrow> manifest_entry res" where
  "read_entry v = bind_res (as_dict_get v) (\<lambda>d. bind_res (py_iter (py_or (dget d ''tags'') (PList []))) (\<lambda>tags.
     Inr \<lparr>me_id = text_or d ''id'' [], me_kind = text_or d ''kind'' ''unknown'', me_path = text_or d ''path'' [], me_hash = text_or d ''hash_sha256'' [],
          me_rows = dget d ''rows'', me_timespan = dget d ''timespan'', me_source = dget d ''source'', me_owner = dget d ''owner'',
          me_reviewer = dget d ''reviewer'', me_playbook = dget d ''validation_playbook_id'', me_status = text_or d ''status'' ''provisional'',
          me_tags = tags\<rparr>))"

definition default_schema :: string where
  "default_schema = ''data.manifest.v1''"

definition load_manifest :: "pydt \<Rightarrow> json_file \<Rightarrow> manifest res" where
  "load_manifest now f = (case f of None \<Rightarrow> Inr \<lparr>mf_schema = default_schema, mf_generated = utc_iso now, mf_entries = []\<rparr>
     | Some None \<Rightarrow> Inl ValueError
     | Some (Some v) \<Rightarrow> bind_res (as_dict_get v) (\<lambda>d. bind_res (py_iter (dget_def d ''entries'' (PList []))) (\<lambda>raws.
         bind_res (map_res read_entry raws) (\<lambda>es.
           Inr \<lparr>mf_schema = text_or d ''schema_version'' default_schema, mf_generated = text_or d ''generated_at'' (utc_iso now), mf_entries = es\<rparr>))))"

definition save_manifest :: "manifest \<Rightarrow> json_file" where
  "save_manifest m = Some (Some (PDict (manifest_dict m)))"

section \<open>Operations\<close>

text \<open>The files by path, each the hash of its content; the manifest and its file.\<close>

type_synonym file_hashes = "string \<Rightarrow> string option"

definition file_not_found :: "string \<Rightarrow> err" where
  "file_not_found path = Raises ''FileNotFoundError'' path"

definition new_entry :: "string \<Rightarrow> string \<Rightarrow> string \<Rightarrow> string \<Rightarrow> string option \<Rightarrow> string option \<Rightarrow> string list \<Rightarrow> manifest_entry" where
  "new_entry uid path kind hash owner playbook tags = \<lparr>me_id = uid, me_kind = kind, me_path = path, me_hash = hash, me_rows = PNone, me_timespan = PNone,
     me_source = PNone, me_owner = ostr owner, me_reviewer = PNone, me_playbook = ostr playbook, me_status = ''provisional'', me_tags = map PStr tags\<rparr>"

definition record_file ::
  "file_hashes \<Rightarrow> string \<Rightarrow> pydt \<Rightarrow> string \<Rightarrow> string \<Rightarrow> string option \<Rightarrow> string option \<Rightarrow> string list \<Rightarrow> bool \<Rightarrow> manifest \<Rightarrow> (manifest \<times> json_file) res" where
  "record_file files uid now path kind owner playbook tags force m = (case files path of
       None \<Rightarrow> Inl (file_not_found path)
     | Some h \<Rightarrow> if \<not> force \<and> list_ex (\<lambda>e. me_id e = uid) (mf_entries m) then Inl ValueError
         else let m' = m\<lparr>mf_generated := utc_iso now, mf_entries := mf_entries m @ [new_entry uid path kind h owner playbook tags]\<rparr>
              in Inr (m', save_manifest m'))"

record verification =
  vf_status :: string
  vf_path :: string
  vf_entry :: "string option"
  vf_expected :: "string option"
  vf_current :: string

definition check_hash :: "file_hashes \<Rightarrow> string \<Rightarrow> manifest_entry option \<Rightarrow> verification res" where
  "check_hash files path entry = (case files path of None \<Rightarrow> Inl (file_not_found path)
     | Some h \<Rightarrow> Inr \<lparr>vf_status = (if map_option me_hash entry = Some h then ''ok'' else ''mismatch''), vf_path = path,
         vf_entry = map_option me_id entry, vf_expected = map_option me_hash entry, vf_current = h\<rparr>)"

definition verify_file :: "file_hashes \<Rightarrow> string option \<Rightarrow> string option \<Rightarrow> manifest \<Rightarrow> verification res" where
  "verify_file files path entry_id m =
     (if path = None \<and> entry_id = None then Inl ValueError
      else if otrue entry_id then (case find (\<lambda>e. Some (me_id e) = entry_id) (mf_entries m) of
          None \<Rightarrow> Inl ValueError | Some e \<Rightarrow> check_hash files (me_path e) (Some e))
      else case path of None \<Rightarrow> Inl (Raises ''IsADirectoryError'' ''.'')
        | Some p \<Rightarrow> check_hash files p (find (\<lambda>e. me_path e = p) (mf_entries m)))"

text \<open>The entries by identifier: a later one of the same identifier replaces the earlier.\<close>

definition entry_index :: "manifest \<Rightarrow> (string \<times> manifest_entry) list" where
  "entry_index m = foldl (\<lambda>d e. AList.update (me_id e) e d) [] (mf_entries m)"

record manifest_diff =
  md_added :: "manifest_entry list"
  md_removed :: "manifest_entry list"
  md_changed :: "manifest_entry list"

definition diff_manifests :: "manifest \<Rightarrow> manifest \<Rightarrow> manifest_diff" where
  "diff_manifests base target = (let b = entry_index base; t = entry_index target in
     \<lparr>md_added = map snd (filter (\<lambda>(k, e). map_of b k = None) t), md_removed = map snd (filter (\<lambda>(k, e). map_of t k = None) b),
      md_changed = map snd (filter (\<lambda>(k, e). case map_of b k of None \<Rightarrow> False | Some e0 \<Rightarrow> me_hash e \<noteq> me_hash e0) t)\<rparr>)"

definition diff_files :: "pydt \<Rightarrow> pydt \<Rightarrow> json_file \<Rightarrow> json_file \<Rightarrow> manifest_diff res" where
  "diff_files now now' base target = bind_res (load_manifest now base) (\<lambda>b. bind_res (load_manifest now' target) (\<lambda>t. Inr (diff_manifests b t)))"

section \<open>Round trip\<close>

definition full_entry :: "manifest_entry \<Rightarrow> bool" where
  "full_entry e \<longleftrightarrow> me_kind e \<noteq> [] \<and> me_status e \<noteq> []"

lemma py_or_text: "py_or (PStr s) v = (if s = [] then v else PStr s)"
  by (simp add: py_or_def)

lemma text_or_here: "dget d k = PStr s \<Longrightarrow> s \<noteq> [] \<or> v0 = [] \<Longrightarrow> text_or d k v0 = s"
  by (auto simp: text_or_def py_or_text)

lemma read_entry_dict: "full_entry e \<Longrightarrow> read_entry (PDict (manifest_entry_dict e)) = Inr e"
  by (cases e) (auto simp: read_entry_def manifest_entry_dict_def text_or_def py_or_def py_iter_def full_entry_def)

lemma load_save_manifest:
  assumes "mf_schema m \<noteq> []" "mf_generated m \<noteq> []" "list_all full_entry (mf_entries m)"
  shows "load_manifest now (save_manifest m) = Inr m"
proof -
  have "map_res read_entry (map (\<lambda>e. PDict (manifest_entry_dict e)) (mf_entries m)) = Inr (mf_entries m)"
    using assms(3) by (intro map_res_map_inverse) (simp add: read_entry_dict list_all_iff)
  then show ?thesis
    using assms(1,2) by (simp add: load_manifest_def save_manifest_def manifest_dict_def py_iter_def text_or_def py_or_def)
qed

text \<open>C38: A saved manifest loads as it was, where its schema, time, kinds and states are not empty.\<close>

theorem manifest_roundtrip:
  "mf_schema m \<noteq> [] \<Longrightarrow> mf_generated m \<noteq> [] \<Longrightarrow> list_all full_entry (mf_entries m) \<Longrightarrow> load_manifest now (save_manifest m) = Inr m"
  by (rule load_save_manifest)

section \<open>Verification\<close>

text \<open>What a session of the service records, one record after the other.\<close>

record recording =
  rc_files :: file_hashes
  rc_uid :: string
  rc_now :: pydt
  rc_path :: string
  rc_kind :: string
  rc_owner :: "string option"
  rc_playbook :: "string option"
  rc_tags :: "string list"
  rc_force :: bool

definition record_step :: "manifest \<Rightarrow> recording \<Rightarrow> manifest" where
  "record_step m r = (case record_file (rc_files r) (rc_uid r) (rc_now r) (rc_path r) (rc_kind r) (rc_owner r) (rc_playbook r) (rc_tags r) (rc_force r) m of
       Inl _ \<Rightarrow> m | Inr (m', _) \<Rightarrow> m')"

lemma record_step_appends: "\<exists>new. mf_entries (record_step m r) = mf_entries m @ new"
  by (auto simp: record_step_def record_file_def Let_def split: option.split)

interpretation manifest_log: logged_system record_step "\<lambda>_. True" mf_entries
  by unfold_locales (auto intro: record_step_appends)

lemma find_append_mem: "find P xs = Some x \<Longrightarrow> find P (xs @ ys) = Some x"
  by (simp add: find_append)

text \<open>A file recorded under a fresh identifier verifies under it as long as its content does not change, whatever is recorded
  later.\<close>

theorem recorded_verifies:
  assumes "record_file files uid now path kind owner playbook tags force m = Inr (m', f)"
    and "uid \<noteq> []" "find (\<lambda>e. me_id e = uid) (mf_entries m) = None" "files' path = files path"
  shows "map_option vf_status (case verify_file files' None (Some uid) (foldl record_step m' rs) of Inl _ \<Rightarrow> None | Inr v \<Rightarrow> Some v) = Some ''ok''"
proof -
  obtain h where h: "files path = Some h" and m': "mf_entries m' = mf_entries m @ [new_entry uid path kind h owner playbook tags]"
    using assms(1) by (auto simp: record_file_def Let_def split: option.splits if_splits)
  obtain new where new: "mf_entries (foldl record_step m' rs) = mf_entries m' @ new"
    using manifest_log.run_log by blast
  have "find (\<lambda>e. me_id e = uid) (mf_entries m') = Some (new_entry uid path kind h owner playbook tags)"
    using assms(3) by (simp add: m' find_append new_entry_def)
  then have "find (\<lambda>e. me_id e = uid) (mf_entries (foldl record_step m' rs)) = Some (new_entry uid path kind h owner playbook tags)"
    unfolding new by (rule find_append_mem)
  then show ?thesis using assms(2,4) h by (cases uid) (simp_all add: verify_file_def check_hash_def new_entry_def)
qed

text \<open>A file recorded again after its content changed does not verify by its path: the oldest entry is the one compared.\<close>

theorem rerecorded_mismatches:
  assumes "find (\<lambda>e. me_path e = path) (mf_entries m) = Some e" "files path = Some h" "me_hash e \<noteq> h"
    and "record_file files uid now path kind owner playbook tags force m = Inr (m', f)"
  shows "map_option vf_status (case verify_file files (Some path) None m' of Inl _ \<Rightarrow> None | Inr v \<Rightarrow> Some v) = Some ''mismatch''"
proof -
  have "mf_entries m' = mf_entries m @ [new_entry uid path kind h owner playbook tags]"
    using assms(2,4) by (auto simp: record_file_def Let_def split: if_splits)
  then have "find (\<lambda>e. me_path e = path) (mf_entries m') = Some e" using find_append_mem [OF assms(1)] by simp
  then show ?thesis using assms(2,3) by (simp add: verify_file_def check_hash_def)
qed

section \<open>Differences\<close>

lemma entry_index_lookup: "map_of (entry_index m) k = find (\<lambda>e. me_id e = k) (rev (mf_entries m))"
proof -
  have "map_of (foldl (\<lambda>d e. AList.update (me_id e) e d) [] es) k = find (\<lambda>e. me_id e = k) (rev es)" for es
    by (induction es rule: rev_induct) auto
  then show ?thesis by (simp add: entry_index_def)
qed

lemma entry_index_wf: "wf_dict (entry_index m)"
proof -
  have "wf_dict d \<Longrightarrow> wf_dict (foldl (\<lambda>d e. AList.update (me_id e) e d) d es)" for d es
    by (induction es arbitrary: d) simp_all
  from this [of "[]"] show ?thesis by (simp add: entry_index_def)
qed

lemma index_mem: "(k, e) \<in> set (entry_index m) \<Longrightarrow> map_of (entry_index m) k = Some e"
  using entry_index_wf [of m] by (simp add: wf_dict_def)

lemma index_filter: "e \<in> set (map snd (filter (\<lambda>(k, e). P k e) (entry_index m))) \<longleftrightarrow> (\<exists>k. map_of (entry_index m) k = Some e \<and> P k e)"
proof
  assume "\<exists>k. map_of (entry_index m) k = Some e \<and> P k e"
  then obtain k where "map_of (entry_index m) k = Some e" "P k e" by blast
  then have "(k, e) \<in> set (filter (\<lambda>(k, e). P k e) (entry_index m))" by (simp add: map_of_SomeD)
  then show "e \<in> set (map snd (filter (\<lambda>(k, e). P k e) (entry_index m)))" by force
next
  assume "e \<in> set (map snd (filter (\<lambda>(k, e). P k e) (entry_index m)))"
  then obtain k where "(k, e) \<in> set (entry_index m)" "P k e" by auto
  then show "\<exists>k. map_of (entry_index m) k = Some e \<and> P k e" using index_mem by blast
qed

definition last_entry :: "string \<Rightarrow> manifest \<Rightarrow> manifest_entry option" where
  "last_entry k m = find (\<lambda>e. me_id e = k) (rev (mf_entries m))"

text \<open>The difference of two manifests compares, for each identifier, the last entries that have it.\<close>

theorem diff_exact:
  "(e \<in> set (md_added (diff_manifests b t)) \<longleftrightarrow> (\<exists>k. last_entry k t = Some e \<and> last_entry k b = None)) \<and>
   (e \<in> set (md_removed (diff_manifests b t)) \<longleftrightarrow> (\<exists>k. last_entry k b = Some e \<and> last_entry k t = None)) \<and>
   (e \<in> set (md_changed (diff_manifests b t)) \<longleftrightarrow> (\<exists>k e0. last_entry k t = Some e \<and> last_entry k b = Some e0 \<and> me_hash e \<noteq> me_hash e0))"
  by (simp only: diff_manifests_def Let_def manifest_diff.simps index_filter last_entry_def entry_index_lookup) (auto split: option.splits)

section \<open>Witnesses\<close>

definition demo_stamp :: pydt where
  "demo_stamp = \<lparr>yr = 2025, mo = 3, dy = 14, hh = 9, mi = 30, ss = 0, us = 0, tzo = Some 0\<rparr>"

definition demo_manifest :: "string \<Rightarrow> manifest" where
  "demo_manifest h = \<lparr>mf_schema = default_schema, mf_generated = ''2025-03-14T09:30:00Z'',
     mf_entries = [new_entry ''id-1'' ''data/eurusd.csv'' ''csv'' h None None []]\<rparr>"

theorem manifest_roundtrip_witness: "load_manifest demo_stamp (save_manifest (demo_manifest ''aa'')) = Inr (demo_manifest ''aa'')"
  by (rule manifest_roundtrip) (simp_all add: demo_manifest_def default_schema_def full_entry_def new_entry_def)

definition demo_hashes :: file_hashes where
  "demo_hashes p = (if p = ''data/eurusd.csv'' then Some ''bb'' else None)"

theorem recorded_verifies_witness:
  "\<exists>m' f. record_file demo_hashes ''id-2'' demo_stamp ''data/eurusd.csv'' ''csv'' None None [] False (demo_manifest ''aa'') = Inr (m', f)
     \<and> map_option vf_status (case verify_file demo_hashes None (Some ''id-2'') m' of Inl _ \<Rightarrow> None | Inr v \<Rightarrow> Some v) = Some ''ok''"
proof -
  obtain m' f where r: "record_file demo_hashes ''id-2'' demo_stamp ''data/eurusd.csv'' ''csv'' None None [] False (demo_manifest ''aa'') = Inr (m', f)"
    by (simp add: record_file_def demo_hashes_def demo_manifest_def new_entry_def Let_def)
  from recorded_verifies [OF r, of demo_hashes "[]"] r show ?thesis by (auto simp: demo_manifest_def new_entry_def)
qed

theorem rerecorded_mismatches_witness:
  "\<exists>m' f. record_file demo_hashes ''id-2'' demo_stamp ''data/eurusd.csv'' ''csv'' None None [] False (demo_manifest ''aa'') = Inr (m', f)
     \<and> map_option vf_status (case verify_file demo_hashes (Some ''data/eurusd.csv'') None m' of Inl _ \<Rightarrow> None | Inr v \<Rightarrow> Some v) = Some ''mismatch''"
proof -
  obtain m' f where r: "record_file demo_hashes ''id-2'' demo_stamp ''data/eurusd.csv'' ''csv'' None None [] False (demo_manifest ''aa'') = Inr (m', f)"
    by (simp add: record_file_def demo_hashes_def demo_manifest_def new_entry_def Let_def)
  from rerecorded_mismatches [OF _ _ _ r, of "new_entry ''id-1'' ''data/eurusd.csv'' ''csv'' ''aa'' None None []" "''bb''"] r
  show ?thesis by (auto simp: demo_manifest_def new_entry_def demo_hashes_def)
qed

end
