(* ===== verification/Gateway.thy ===== *)
theory Gateway
  imports DataManifest
begin

text \<open>
  The shadow gateway, \<open>shadow_gateway/\<close>: feature flags, audit and metrics, the session supervisor with
  its clients, the back-pressure governor and the offline cache. The parts share the audit log, the
  metrics and the flag file, so they act on one record. SQLite's table is the list of its rows in the
  order of their row ids; the hash of a written Parquet file is an argument, as are clock readings and
  the outcomes of a command.

  Shown: the retry loop returns after the first success or the last attempt; event numbers never go
  back; a flag set is the flag read; the cache holds the last payload of every event. And where it
  fails: a disconnect makes a disabled session an active one, and a failover leaves the client
  connected to the old endpoint.
\<close>

section \<open>Feature flags, audit, metrics\<close>

definition load_flags :: "json_file \<Rightarrow> pydict" where
  "load_flags f = (case f of Some (Some v) \<Rightarrow> mapping_or_empty v | _ \<Rightarrow> [])"

definition is_enabled :: "json_file \<Rightarrow> string \<Rightarrow> string \<Rightarrow> bool" where
  "is_enabled f flag mode = (case dget (load_flags f) ''defaults'' of PDict d \<Rightarrow> (case dget d mode of PDict p \<Rightarrow> truthy (dget p flag) | _ \<Rightarrow> False)
     | _ \<Rightarrow> False)"

definition set_flag :: "string \<Rightarrow> string \<Rightarrow> bool \<Rightarrow> json_file \<Rightarrow> json_file" where
  "set_flag flag mode b f = (let payload = load_flags f; defaults = mapping_or_empty (dget payload ''defaults''); p = mapping_or_empty (dget defaults mode)
     in Some (Some (PDict (AList.update ''defaults'' (PDict (AList.update mode (PDict (AList.update flag (PBool b) p)) defaults)) payload))))"

record gw_session =
  gs_id :: string
  gs_primary :: string
  gs_secondary :: string
  gs_active :: string
  gs_protocol :: string
  gs_profile :: string
  gs_connected :: bool
  gs_last_event :: "int option"
  gs_state :: string

definition opt_int_val :: "int option \<Rightarrow> pyval" where
  "opt_int_val x = (case x of None \<Rightarrow> PNone | Some n \<Rightarrow> PInt n)"

definition gw_session_dict :: "gw_session \<Rightarrow> pydict" where
  "gw_session_dict s = [(''session_id'', PStr (gs_id s)), (''primary_endpoint'', PStr (gs_primary s)), (''secondary_endpoint'', PStr (gs_secondary s)),
     (''active_endpoint'', PStr (gs_active s)), (''protocol'', PStr (gs_protocol s)), (''profile'', PStr (gs_profile s)),
     (''connected'', PBool (gs_connected s)), (''last_event_id'', opt_int_val (gs_last_event s)), (''state'', PStr (gs_state s))]"

text \<open>The SSE and the WebSocket client are alike but for the class.\<close>

record gw_client =
  gc_ws :: bool
  gc_endpoint :: string
  gc_connected :: bool
  gc_last_event :: "int option"

definition newer :: "int \<Rightarrow> int option \<Rightarrow> int option" where
  "newer n last_id = (case last_id of None \<Rightarrow> Some n | Some m \<Rightarrow> if m < n then Some n else last_id)"

definition connect_client :: "gw_client \<Rightarrow> gw_client" where
  "connect_client c = c\<lparr>gc_connected := True\<rparr>"

definition disconnect_client :: "gw_client \<Rightarrow> gw_client" where
  "disconnect_client c = c\<lparr>gc_connected := False\<rparr>"

definition client_event :: "int \<Rightarrow> gw_client \<Rightarrow> gw_client" where
  "client_event n c = c\<lparr>gc_last_event := newer n (gc_last_event c)\<rparr>"

definition build_client :: "string \<Rightarrow> string \<Rightarrow> gw_client" where
  "build_client protocol endpoint = \<lparr>gc_ws = (protocol = ''ws''), gc_endpoint = endpoint, gc_connected = False, gc_last_event = None\<rparr>"

record cache_row =
  cr_id :: string
  cr_type :: string
  cr_payload :: pydict
  cr_created :: string

record gateway =
  gw_flags :: json_file
  gw_audit :: "pyval list"
  gw_metrics :: "pyval list"
  gw_max_reconnect :: int
  gw_sess :: "gw_session option"
  gw_cl :: "gw_client option"
  gw_threshold :: pyfloat
  gw_rows :: "cache_row list"
  gw_profile :: "string option"

definition audit_event :: "pydt \<Rightarrow> string \<Rightarrow> pydict \<Rightarrow> gateway \<Rightarrow> gateway" where
  "audit_event now event payload g = g\<lparr>gw_audit := gw_audit g @ [PDict [(''ts'', PStr (utc_iso now)), (''event_type'', PStr event), (''payload'', PDict payload)]]\<rparr>"

record metric_tags =
  mt_session :: pyval
  mt_channel :: pyval
  mt_latency :: pyval
  mt_depth :: pyval
  mt_ratio :: pyval
  mt_retries :: pyval
  mt_pressure :: pyval

definition no_tags :: metric_tags where
  "no_tags = \<lparr>mt_session = PNone, mt_channel = PNone, mt_latency = PNone, mt_depth = PNone, mt_ratio = PNone, mt_retries = PNone, mt_pressure = PNone\<rparr>"

definition record_metric :: "pydt \<Rightarrow> string \<Rightarrow> pyval \<Rightarrow> metric_tags \<Rightarrow> gateway \<Rightarrow> gateway" where
  "record_metric now metric v t g = g\<lparr>gw_metrics := gw_metrics g @ [PDict [(''ts'', PStr (utc_iso now)), (''metric'', PStr metric), (''value'', v),
     (''session_id'', mt_session t), (''channel'', mt_channel t), (''latency_ms'', mt_latency t), (''queue_depth'', mt_depth t),
     (''queue_depth_ratio'', mt_ratio t), (''retry_count'', mt_retries t), (''backpressure_state'', mt_pressure t), (''tags'', PDict [])]]\<rparr>"

section \<open>The session supervisor\<close>

definition build_session :: "string \<Rightarrow> string \<Rightarrow> string \<Rightarrow> string \<Rightarrow> string \<Rightarrow> string \<Rightarrow> bool \<Rightarrow> string \<Rightarrow> gw_session" where
  "build_session uid primary secondary profile protocol active conn state = \<lparr>gs_id = ''shadow-gw-'' @ take 8 uid, gs_primary = primary,
     gs_secondary = secondary, gs_active = active, gs_protocol = protocol, gs_profile = profile, gs_connected = conn,
     gs_last_event = None, gs_state = state\<rparr>"

definition session_audit :: "pydt \<Rightarrow> gw_session \<Rightarrow> string \<Rightarrow> string \<Rightarrow> bool \<Rightarrow> gateway \<Rightarrow> gateway" where
  "session_audit now s reason state endpoint = audit_event now ''audit.shadow_gateway.session'' ([(''session_id'', PStr (gs_id s)),
     (''profile'', PStr (gs_profile s)), (''reason'', PStr reason), (''last_event_id'', opt_int_val (gs_last_event s)), (''state'', PStr state)]
     @ (if endpoint then [(''active_endpoint'', PStr (gs_active s))] else []))"

definition start_session :: "string \<Rightarrow> pydt \<Rightarrow> string \<Rightarrow> string \<Rightarrow> string \<Rightarrow> string \<Rightarrow> gateway \<Rightarrow> gateway \<times> gw_session" where
  "start_session uid now primary secondary profile protocol g =
     (if \<not> is_enabled (gw_flags g) ''shadow.gateway.streaming'' profile then
        let s = build_session uid primary secondary profile protocol primary False ''disabled''
        in (session_audit now s ''feature_flag_disabled'' (gs_state s) False (g\<lparr>gw_sess := Some s\<rparr>), s)
      else
        let forced = is_enabled (gw_flags g) ''shadow.gateway.force_failover'' profile;
            active = (if forced then secondary else primary);
            s = build_session uid primary secondary profile protocol active True ''active''
        in (session_audit now s (if forced then ''started_force_failover'' else ''started'') (gs_state s) True
              (g\<lparr>gw_cl := Some (connect_client (build_client protocol active)), gw_sess := Some s\<rparr>), s))"

definition reconnect_seconds :: "gateway \<Rightarrow> int" where
  "reconnect_seconds g = max 1 (min (gw_max_reconnect g - 1) 5)"

definition handle_disconnect :: "pydt \<Rightarrow> pydt \<Rightarrow> pydt \<Rightarrow> string \<Rightarrow> gateway \<Rightarrow> gateway \<times> pydict" where
  "handle_disconnect t1 t2 t3 reason g = (case gw_sess g of None \<Rightarrow> (g, [(''status'', PStr ''error''), (''reason'', PStr ''session_missing'')])
     | Some s \<Rightarrow> let n = reconnect_seconds g;
           g1 = session_audit t1 s reason ''disconnected'' False g;
           g2 = record_metric t2 ''shadow.gateway.reconnect_time'' (PInt n) (no_tags\<lparr>mt_session := PStr (gs_id s), mt_channel := PStr (gs_protocol s)\<rparr>) g1;
           g3 = audit_event t3 ''audit.shadow_gateway.retry'' [(''session_id'', PStr (gs_id s)), (''event_type'', PStr ''reconnect''),
             (''attempt'', PInt 1), (''backoff_ms'', PInt (n * 1000)), (''result'', PStr ''ok'')] g2
         in (g3\<lparr>gw_sess := Some (s\<lparr>gs_connected := True, gs_state := ''active''\<rparr>)\<rparr>, [(''status'', PStr ''ok''), (''reconnect_seconds'', PInt n)]))"

definition record_gw_event :: "int \<Rightarrow> gateway \<Rightarrow> gateway" where
  "record_gw_event n g = (case gw_sess g of None \<Rightarrow> g
     | Some s \<Rightarrow> g\<lparr>gw_cl := map_option (client_event n) (gw_cl g), gw_sess := Some (s\<lparr>gs_last_event := newer n (gs_last_event s)\<rparr>)\<rparr>)"

definition gw_failover :: "pydt \<Rightarrow> string \<Rightarrow> gateway \<Rightarrow> gateway \<times> pydict" where
  "gw_failover now reason g = (case gw_sess g of None \<Rightarrow> (g, [(''status'', PStr ''error''), (''reason'', PStr ''session_missing'')])
     | Some s \<Rightarrow> let s' = s\<lparr>gs_active := gs_secondary s, gs_state := ''failover''\<rparr>
         in (session_audit now s' (''failover:'' @ reason) (gs_state s') True (g\<lparr>gw_sess := Some s'\<rparr>),
             [(''status'', PStr ''ok''), (''active_endpoint'', PStr (gs_active s'))]))"

text \<open>One attempt of a command: whether it returned true (an exception counts as false), and the clocks.\<close>

record retry_env =
  re_ok :: bool
  re_started :: pyfloat
  re_ended :: pyfloat
  re_audit :: pydt
  re_metric :: pydt

definition retry_audit :: "gw_session \<Rightarrow> string \<Rightarrow> int \<Rightarrow> retry_env \<Rightarrow> gateway \<Rightarrow> gateway" where
  "retry_audit s event n e g = (let ms = fmul (fsub (re_ended e) (re_started e)) (Fin 1000) in
     record_metric (re_metric e) ''shadow.gateway.command.retry'' (PFloat (f_of_int n))
       (no_tags\<lparr>mt_session := PStr (gs_id s), mt_retries := PInt n, mt_latency := PFloat ms\<rparr>)
       (audit_event (re_audit e) ''audit.shadow_gateway.retry'' [(''session_id'', PStr (gs_id s)), (''event_type'', PStr event), (''attempt'', PInt n),
         (''backoff_ms'', PInt (250 * n)), (''result'', PStr (if re_ok e then ''ok'' else ''retry'')), (''duration_ms'', PFloat ms)] g))"

function retry_loop :: "gw_session \<Rightarrow> string \<Rightarrow> int \<Rightarrow> (int \<Rightarrow> retry_env) \<Rightarrow> int \<Rightarrow> gateway \<Rightarrow> gateway \<times> bool \<times> int" where
  "retry_loop s event max_attempts env attempt g =
     (if attempt < max_attempts then
        let n = attempt + 1; g1 = retry_audit s event n (env n) g
        in if re_ok (env n) then (g1, True, n) else retry_loop s event max_attempts env n g1
      else (g, False, attempt))"
  by pat_completeness auto
termination
  by (relation "measure (\<lambda>(s, event, m, env, a, g). nat (m - a))") auto

declare retry_loop.simps [simp del]

definition execute_with_retry :: "string \<Rightarrow> int \<Rightarrow> (int \<Rightarrow> retry_env) \<Rightarrow> gateway \<Rightarrow> gateway \<times> pydict" where
  "execute_with_retry event max_attempts env g = (case gw_sess g of None \<Rightarrow> (g, [(''status'', PStr ''error''), (''reason'', PStr ''session_missing'')])
     | Some s \<Rightarrow> (case retry_loop s event max_attempts env 0 g of
         (g', ok, n) \<Rightarrow> (g', [(''status'', PStr (if ok then ''ok'' else ''error'')), (''attempts'', PInt n)])))"

section \<open>Back pressure\<close>

definition observe_queue :: "pydt \<Rightarrow> pydt \<Rightarrow> int \<Rightarrow> int \<Rightarrow> string option \<Rightarrow> string option \<Rightarrow> gateway \<Rightarrow> gateway \<times> string res" where
  "observe_queue t1 t2 depth capacity sid channel g =
     (let ratio = (if capacity \<le> 0 then Fin 0 else rnd (of_int depth / of_int capacity))
      in if ratio = PInf \<or> ratio = NInf then (g, Inl OverflowError)
         else let state = (if fge ratio (gw_threshold g) then ''throttled'' else ''normal'');
           g1 = record_metric t1 ''shadow.gateway.queue_depth'' (PFloat ratio) (no_tags\<lparr>mt_session := ostr sid, mt_channel := ostr channel,
             mt_depth := PInt depth, mt_ratio := PFloat ratio, mt_pressure := PStr state\<rparr>) g
         in (if state = ''throttled'' then audit_event t2 ''audit.shadow_gateway.backpressure'' [(''session_id'', ostr sid), (''queue_depth'', PInt depth),
               (''capacity'', PInt capacity), (''ratio'', PFloat ratio), (''state'', PStr state)] g1 else g1, Inr state))"

section \<open>The offline cache\<close>

definition cache_enabled :: "gateway \<Rightarrow> bool" where
  "cache_enabled g = (case gw_profile g of Some (c # cs) \<Rightarrow> is_enabled (gw_flags g) ''shadow.gateway.offline_cache'' (c # cs) | _ \<Rightarrow> True)"

text \<open>\<open>INSERT OR REPLACE\<close>: the old row of the event goes, the new one is the last.\<close>

definition enqueue :: "pydt \<Rightarrow> string \<Rightarrow> string \<Rightarrow> pydict \<Rightarrow> gateway \<Rightarrow> gateway" where
  "enqueue now eid type payload g = (if \<not> cache_enabled g then g
     else g\<lparr>gw_rows := filter (\<lambda>r. cr_id r \<noteq> eid) (gw_rows g) @ [\<lparr>cr_id = eid, cr_type = type, cr_payload = payload, cr_created = utc_iso now\<rparr>]\<rparr>)"

definition cache_event :: "cache_row \<Rightarrow> pydict" where
  "cache_event r = [(''event_id'', PStr (cr_id r)), (''event_type'', PStr (cr_type r)), (''payload'', PDict (cr_payload r)), (''created_at'', PStr (cr_created r))]"

definition load_cache :: "gateway \<Rightarrow> pydict list" where
  "load_cache g = (if cache_enabled g then map cache_event (gw_rows g) else [])"

text \<open>The manifest entry of a flushed file: the first of its path is changed in place, else one is recorded.\<close>

record flush_env =
  fl_path :: string
  fl_stem :: string
  fl_hash :: "pydict list \<Rightarrow> string"
  fl_playbook :: string
  fl_started :: pyfloat
  fl_ended :: pyfloat
  fl_t1 :: pydt
  fl_t2 :: pydt
  fl_t3 :: pydt
  fl_t4 :: pydt
  fl_t5 :: pydt
  fl_uid :: string

definition entry_of_path :: "string \<Rightarrow> pyval \<Rightarrow> bool" where
  "entry_of_path path v = (case v of PDict d \<Rightarrow> dget d ''path'' = PStr path | _ \<Rightarrow> False)"

definition set_entry_hash :: "string \<Rightarrow> string \<Rightarrow> pyval \<Rightarrow> pyval" where
  "set_entry_hash hash playbook v = (case v of PDict d \<Rightarrow>
     PDict (AList.update ''validation_playbook_id'' (PStr playbook) (AList.update ''hash_sha256'' (PStr hash) d)) | _ \<Rightarrow> v)"

definition upsert_entry :: "flush_env \<Rightarrow> string \<Rightarrow> json_file \<Rightarrow> json_file res" where
  "upsert_entry e hash f =
     (let record_new = bind_res (load_manifest (fl_t4 e) f) (\<lambda>m. bind_res (record_file (\<lambda>_. Some hash) (fl_uid e) (fl_t5 e) (fl_path e)
            ''shadow_gateway_cache'' (Some ''ops_manager'') (Some (fl_playbook e)) [''shadow_gateway'', ''cache_replay''] False m) (\<lambda>(m', f'). Inr f'))
      in case f of None \<Rightarrow> record_new
         | Some v \<Rightarrow> bind_res (case v of None \<Rightarrow> Inr [] | Some w \<Rightarrow> as_dict_get w) (\<lambda>d. case dget d ''entries'' of
             PList es \<Rightarrow> if list_ex (entry_of_path (fl_path e)) es
               then Inr (Some (Some (PDict (AList.update ''generated_at'' (PStr (utc_iso (fl_t4 e)))
                      (AList.update ''entries'' (PList (update_first (entry_of_path (fl_path e)) (set_entry_hash hash (fl_playbook e)) es)) d)))))
               else record_new
           | _ \<Rightarrow> record_new))"

definition flush_result :: "string \<Rightarrow> int \<Rightarrow> pyfloat \<Rightarrow> pyval \<Rightarrow> string \<Rightarrow> pydict" where
  "flush_result status n ms checksum path = [(''status'', PStr status), (''batch_size'', PInt n), (''duration_ms'', PFloat ms), (''checksum'', checksum),
     (''output_path'', PStr path)]"

definition flush_to_parquet :: "flush_env \<Rightarrow> json_file \<Rightarrow> gateway \<Rightarrow> gateway \<times> (json_file \<times> pydict) res" where
  "flush_to_parquet e f g = (if \<not> cache_enabled g then (g, Inr (f, flush_result ''disabled'' 0 (Fin 0) PNone (fl_path e)))
     else let events = load_cache g; n = int (length events); ms = fmul (fsub (fl_ended e) (fl_started e)) (Fin 1000); hash = fl_hash e events;
         g1 = record_metric (fl_t1 e) ''shadow.gateway.cache.flush_duration_ms'' (PFloat ms) (no_tags\<lparr>mt_latency := PFloat ms\<rparr>) g;
         g2 = record_metric (fl_t2 e) ''shadow.gateway.cache.flush_batch_events'' (PFloat (f_of_int n)) no_tags g1;
         g3 = audit_event (fl_t3 e) ''audit.shadow_gateway.cache'' [(''cache_key'', PStr (fl_stem e)), (''batch_size'', PInt n), (''duration_ms'', PFloat ms),
           (''checksum'', PStr hash)] g2
       in (g3, bind_res (upsert_entry e hash f) (\<lambda>f'. Inr (f', flush_result ''ok'' n ms (PStr hash) (fl_path e)))))"

text \<open>The parts as the bootstrap makes them.\<close>

definition configure_gateway :: "string \<Rightarrow> json_file \<Rightarrow> cache_row list \<Rightarrow> gateway" where
  "configure_gateway mode flags rows = \<lparr>gw_flags = flags, gw_audit = [], gw_metrics = [], gw_max_reconnect = 30, gw_sess = None, gw_cl = None,
     gw_threshold = rnd (8 / 10), gw_rows = rows, gw_profile = Some mode\<rparr>"

section \<open>Retries\<close>

text \<open>The result of the loop: the first attempt that succeeds, or the last one.\<close>

lemma upto_find_step: "a < m \<Longrightarrow> find P [a + 1..m] = (if P (a + 1) then Some (a + 1) else find P [a + 1 + 1..m])"
  by (simp add: upto.simps [of "a + 1" m])

lemma retry_loop_result:
  "a \<le> max 0 m \<Longrightarrow> 0 \<le> a \<Longrightarrow> snd (retry_loop s event m env a g) =
     (case find (\<lambda>i. re_ok (env i)) [a + 1..m] of Some n \<Rightarrow> (True, n) | None \<Rightarrow> (False, max 0 m))"
proof (induction s event m env a g rule: retry_loop.induct)
  case (1 s event m env a g)
  show ?case
  proof (cases "a < m")
    case True
    then show ?thesis
      using 1 by (subst retry_loop.simps) (simp add: upto_find_step Let_def)
  next
    case False
    then show ?thesis using 1 by (subst retry_loop.simps) auto
  qed
qed

text \<open>C30: A command is retried until it first succeeds, at most so many times; the loop always returns.\<close>

theorem retry_first_success:
  assumes "gw_sess g = Some s"
  shows "snd (execute_with_retry event m env g) = (case find (\<lambda>i. re_ok (env i)) [1..m] of
     Some n \<Rightarrow> [(''status'', PStr ''ok''), (''attempts'', PInt n)] | None \<Rightarrow> [(''status'', PStr ''error''), (''attempts'', PInt (max 0 m))])"
proof -
  obtain g' ok n where r: "retry_loop s event m env 0 g = (g', ok, n)" by (cases "retry_loop s event m env 0 g")
  with retry_loop_result [of 0 m s event env g] assms show ?thesis by (auto simp: execute_with_retry_def split: option.splits)
qed

section \<open>Sessions\<close>

datatype gw_op =
    Start string pydt string string string string
  | Disconnect pydt pydt pydt string
  | Event int
  | Failover pydt string
  | Retry string int "int \<Rightarrow> retry_env"
  | Observe pydt pydt int int "string option" "string option"
  | SetFlag string string bool

fun gw_step :: "gateway \<Rightarrow> gw_op \<Rightarrow> gateway" where
  "gw_step g (Start uid now p q profile protocol) = fst (start_session uid now p q profile protocol g)"
| "gw_step g (Disconnect t1 t2 t3 reason) = fst (handle_disconnect t1 t2 t3 reason g)"
| "gw_step g (Event n) = record_gw_event n g"
| "gw_step g (Failover now reason) = fst (gw_failover now reason g)"
| "gw_step g (Retry event m env) = fst (execute_with_retry event m env g)"
| "gw_step g (Observe t1 t2 d c sid ch) = fst (observe_queue t1 t2 d c sid ch g)"
| "gw_step g (SetFlag flag mode b) = g\<lparr>gw_flags := set_flag flag mode b (gw_flags g)\<rparr>"

lemma log_simps [simp]:
  "gw_sess (audit_event t ev p g) = gw_sess g" "gw_sess (record_metric t m v tags g) = gw_sess g"
  "gw_cl (audit_event t ev p g) = gw_cl g" "gw_cl (record_metric t m v tags g) = gw_cl g"
  "gw_flags (audit_event t ev p g) = gw_flags g" "gw_flags (record_metric t m v tags g) = gw_flags g"
  "gw_rows (audit_event t ev p g) = gw_rows g" "gw_rows (record_metric t m v tags g) = gw_rows g"
  "gw_sess (session_audit t s r st b g) = gw_sess g" "gw_cl (session_audit t s r st b g) = gw_cl g"
  "gw_sess (retry_audit s ev n e g) = gw_sess g" "gw_cl (retry_audit s ev n e g) = gw_cl g"
  "gw_rows (retry_audit s ev n e g) = gw_rows g" "gw_rows (session_audit t s r st b g) = gw_rows g"
  by (simp_all add: audit_event_def record_metric_def session_audit_def retry_audit_def Let_def)

lemma retry_loop_session: "gw_sess (fst (retry_loop s event m env a g)) = gw_sess g \<and> gw_cl (fst (retry_loop s event m env a g)) = gw_cl g"
proof (induction s event m env a g rule: retry_loop.induct)
  case (1 s event m env a g)
  then show ?case by (subst retry_loop.simps, subst retry_loop.simps) (simp add: Let_def)
qed

text \<open>The last event of the session is at least as high as any event recorded since its start, and an event never lowers it.\<close>

definition event_reached :: "int \<Rightarrow> gateway \<Rightarrow> bool" where
  "event_reached n g \<longleftrightarrow> (case gw_sess g of None \<Rightarrow> True | Some s \<Rightarrow> (case gs_last_event s of None \<Rightarrow> False | Some k \<Rightarrow> n \<le> k))"

definition same_session :: "gw_op \<Rightarrow> bool" where
  "same_session op = (case op of Start _ _ _ _ _ _ \<Rightarrow> False | _ \<Rightarrow> True)"

lemma execute_session: "gw_sess (fst (execute_with_retry event m env g)) = gw_sess g"
proof (cases "gw_sess g")
  case (Some s)
  obtain g' r where "retry_loop s event m env 0 g = (g', r)" by (cases "retry_loop s event m env 0 g")
  with Some retry_loop_session [of s event m env 0 g] show ?thesis by (auto simp: execute_with_retry_def split: prod.split)
qed (simp add: execute_with_retry_def)

lemma event_reached_step: "event_reached n g \<Longrightarrow> same_session op \<Longrightarrow> event_reached n (gw_step g op)"
proof (cases op)
  case (Retry event m env)
  then show "event_reached n g \<Longrightarrow> ?thesis" by (simp add: event_reached_def execute_session)
qed (auto simp: event_reached_def same_session_def handle_disconnect_def record_gw_event_def gw_failover_def observe_queue_def newer_def Let_def
    split: option.splits)

interpretation gw_events: guarded_system gw_step same_session "event_reached n" for n
  by unfold_locales (rule event_reached_step)

theorem events_never_go_back:
  assumes "list_all same_session ops" "gw_sess g = Some s"
  shows "event_reached n (foldl gw_step (record_gw_event n g) ops)"
proof (rule gw_events.allowed_run_inv)
  show "event_reached n (record_gw_event n g)"
    using assms(2) by (auto simp: event_reached_def record_gw_event_def newer_def split: option.split)
qed (rule assms(1))

text \<open>A disconnect reported for a session that the feature flag disabled makes it an active, connected one, without any client.\<close>

theorem disconnect_activates_disabled:
  assumes "\<not> is_enabled (gw_flags g) ''shadow.gateway.streaming'' profile" "gw_cl g = None"
  shows "map_option (\<lambda>s. (gs_state s, gs_connected s)) (gw_sess (fst (handle_disconnect t1 t2 t3 reason (fst (start_session uid now p q profile protocol g)))))
       = Some (''active'', True)
     \<and> gw_cl (fst (handle_disconnect t1 t2 t3 reason (fst (start_session uid now p q profile protocol g)))) = None"
  using assms by (simp add: start_session_def handle_disconnect_def Let_def)

text \<open>After a failover the session names the secondary endpoint, while the client stays connected to the primary one.\<close>

theorem failover_keeps_old_client:
  assumes "is_enabled (gw_flags g) ''shadow.gateway.streaming'' profile" "\<not> is_enabled (gw_flags g) ''shadow.gateway.force_failover'' profile"
  shows "map_option gs_active (gw_sess (fst (gw_failover t reason (fst (start_session uid now p q profile protocol g))))) = Some q
     \<and> map_option gc_endpoint (gw_cl (fst (gw_failover t reason (fst (start_session uid now p q profile protocol g))))) = Some p"
  using assms by (simp add: start_session_def gw_failover_def build_session_def build_client_def connect_client_def Let_def)

section \<open>Flags\<close>

text \<open>A flag set is the flag read, and no other flag changes.\<close>

theorem set_flag_read:
  "is_enabled (set_flag flag mode b f) flag' mode' = (if flag' = flag \<and> mode' = mode then b else is_enabled f flag' mode')"
proof -
  define d where "d = mapping_or_empty (dget (load_flags f) ''defaults'')"
  have e: "is_enabled f x y \<longleftrightarrow> truthy (dget (mapping_or_empty (dget d y)) x)" for x y
    by (simp add: is_enabled_def d_def mapping_or_empty_def split: pyval.split)
  have "load_flags (set_flag flag mode b f) = AList.update ''defaults''
      (PDict (AList.update mode (PDict (AList.update flag (PBool b) (mapping_or_empty (dget d mode)))) d)) (load_flags f)"
    by (simp add: set_flag_def load_flags_def d_def Let_def)
  then show ?thesis unfolding e
    by (simp add: is_enabled_def dget_def mapping_or_empty_def split: pyval.split option.split)
qed

section \<open>The cache\<close>

definition cached :: "string \<Rightarrow> gateway \<Rightarrow> cache_row option" where
  "cached k g = find (\<lambda>r. cr_id r = k) (gw_rows g)"

definition cache_ok :: "gateway \<Rightarrow> bool" where
  "cache_ok g \<longleftrightarrow> cache_enabled g \<and> distinct (map cr_id (gw_rows g))"

definition put_row :: "cache_row \<Rightarrow> gateway \<Rightarrow> gateway" where
  "put_row r g = g\<lparr>gw_rows := filter (\<lambda>x. cr_id x \<noteq> cr_id r) (gw_rows g) @ [r]\<rparr>"

lemma enqueue_put_row:
  "cache_enabled g \<Longrightarrow> enqueue now eid type payload g = put_row \<lparr>cr_id = eid, cr_type = type, cr_payload = payload, cr_created = utc_iso now\<rparr> g"
  by (simp add: enqueue_def put_row_def)

lemma find_filter_other: "(\<And>x. P x \<Longrightarrow> Q x) \<Longrightarrow> find P (filter Q xs) = find P xs"
  by (induction xs) auto

lemma find_filter_none: "(\<And>x. P x \<Longrightarrow> \<not> Q x) \<Longrightarrow> find P (filter Q xs) = None"
  by (induction xs) auto

interpretation cache: keyed_store put_row cached cr_id "\<lambda>_. True" cache_ok
proof unfold_locales
  fix g r
  show "cached (cr_id r) (put_row r g) = Some r"
    by (simp add: cached_def put_row_def find_append find_filter_none)
  fix k assume k: "k \<noteq> cr_id r"
  have "find (\<lambda>x. cr_id x = k) (filter (\<lambda>x. cr_id x \<noteq> cr_id r) (gw_rows g)) = find (\<lambda>x. cr_id x = k) (gw_rows g)"
    by (rule find_filter_other) (use k in simp)
  with k show "cached k (put_row r g) = cached k g"
    by (simp add: cached_def put_row_def find_append split: option.split)
next
  fix g r assume "cache_ok g"
  then show "cache_ok (put_row r g)"
    by (auto simp: cache_ok_def put_row_def cache_enabled_def distinct_map_filter split: option.split list.split)
qed

definition enqueue_all :: "(pydt \<times> string \<times> string \<times> pydict) list \<Rightarrow> gateway \<Rightarrow> gateway" where
  "enqueue_all xs g = foldl (\<lambda>g (now, eid, type, payload). enqueue now eid type payload g) g xs"

definition row_of :: "pydt \<times> string \<times> string \<times> pydict \<Rightarrow> cache_row" where
  "row_of x = (case x of (now, eid, type, payload) \<Rightarrow> \<lparr>cr_id = eid, cr_type = type, cr_payload = payload, cr_created = utc_iso now\<rparr>)"

lemma enqueue_all_rows: "cache_ok g \<Longrightarrow> enqueue_all xs g = foldl (\<lambda>g r. put_row r g) g (map row_of xs)"
proof (induction xs arbitrary: g)
  case (Cons x xs)
  obtain now eid type payload where x: "x = (now, eid, type, payload)" by (cases x)
  have "enqueue now eid type payload g = put_row (row_of x) g" using Cons.prems by (simp add: cache_ok_def enqueue_put_row row_of_def x)
  with Cons cache.ok_save [OF Cons.prems] show ?case by (simp add: enqueue_all_def x)
qed (simp add: enqueue_all_def)

text \<open>An enabled cache holds, for every event, the payload enqueued last for it.\<close>

theorem cache_holds_last:
  assumes "cache_ok g"
  shows "cached k (enqueue_all xs g) = (case find (\<lambda>r. cr_id r = k) (rev (map row_of xs)) of Some r \<Rightarrow> Some r | None \<Rightarrow> cached k g)"
  using cache.load_saves [OF assms, of "map row_of xs" k] by (simp add: enqueue_all_rows [OF assms] list_all_iff)

text \<open>Flushing reports every event of the cache and leaves all of them in it.\<close>

lemma flush_keeps_rows: "gw_rows (fst (flush_to_parquet e f g)) = gw_rows g"
  by (simp add: flush_to_parquet_def Let_def)

section \<open>A flushed file in the manifest\<close>

lemma update_first_map: "update_first P f (map g xs) = map g (update_first (P \<circ> g) h xs)" if "\<And>x. f (g x) = g (h x)"
  using that by (induction xs) auto

lemma manifest_entry_dict_hash:
  "AList.update ''validation_playbook_id'' (PStr pb) (AList.update ''hash_sha256'' (PStr h) (manifest_entry_dict e)) =
     manifest_entry_dict (e\<lparr>me_hash := h, me_playbook := PStr pb\<rparr>)"
  by (simp add: manifest_entry_dict_def)

lemma manifest_dict_update:
  "AList.update ''generated_at'' (PStr t) (AList.update ''entries'' (PList (map (\<lambda>e. PDict (manifest_entry_dict e)) es)) (manifest_dict m)) =
     manifest_dict (m\<lparr>mf_generated := t, mf_entries := es\<rparr>)"
  by (simp add: manifest_dict_def)

definition manifest_ok :: "manifest \<Rightarrow> bool" where
  "manifest_ok m \<longleftrightarrow> mf_schema m \<noteq> [] \<and> mf_generated m \<noteq> [] \<and> list_all full_entry (mf_entries m)"

lemma load_ok: "manifest_ok m \<Longrightarrow> load_manifest now (save_manifest m) = Inr m"
  by (simp add: manifest_ok_def load_save_manifest)

lemma entry_of_path_dict: "entry_of_path path (PDict (manifest_entry_dict e)) \<longleftrightarrow> me_path e = path"
  by (simp add: entry_of_path_def manifest_entry_dict_def)

lemma find_list_ex: "list_ex P xs \<longleftrightarrow> find P xs \<noteq> None"
  by (induction xs) auto

lemma upsert_entry_saved:
  assumes "manifest_ok m" and fresh: "find (\<lambda>x. me_id x = fl_uid e) (mf_entries m) = None"
  shows "\<exists>m'. upsert_entry e hash (save_manifest m) = Inr (save_manifest m') \<and> mf_schema m' = mf_schema m \<and> mf_generated m' \<in> {utc_iso (fl_t4 e), utc_iso (fl_t5 e)}
    \<and> list_all full_entry (mf_entries m') \<and> map_option me_hash (find (\<lambda>x. me_path x = fl_path e) (mf_entries m')) = Some hash"
proof (cases "list_ex (\<lambda>x. me_path x = fl_path e) (mf_entries m)")
  case True
  define m' where "m' = m\<lparr>mf_generated := utc_iso (fl_t4 e),
    mf_entries := update_first (\<lambda>x. me_path x = fl_path e) (\<lambda>x. x\<lparr>me_hash := hash, me_playbook := PStr (fl_playbook e)\<rparr>) (mf_entries m)\<rparr>"
  have u: "update_first (entry_of_path (fl_path e)) (set_entry_hash hash (fl_playbook e)) (map (\<lambda>x. PDict (manifest_entry_dict x)) (mf_entries m))
      = map (\<lambda>x. PDict (manifest_entry_dict x)) (mf_entries m')"
    by (subst update_first_map [where h = "\<lambda>x. x\<lparr>me_hash := hash, me_playbook := PStr (fl_playbook e)\<rparr>"])
      (simp_all add: set_entry_hash_def manifest_entry_dict_hash comp_def entry_of_path_dict m'_def)
  have ex: "list_ex (entry_of_path (fl_path e)) (map (\<lambda>x. PDict (manifest_entry_dict x)) (mf_entries m))"
    using True by (simp add: list_ex_iff entry_of_path_dict)
  have "dget (manifest_dict m) ''entries'' = PList (map (\<lambda>x. PDict (manifest_entry_dict x)) (mf_entries m))" by (simp add: manifest_dict_def)
  then have "upsert_entry e hash (save_manifest m) = Inr (save_manifest m')"
    by (simp add: upsert_entry_def save_manifest_def ex u manifest_dict_update Let_def) (simp add: m'_def)
  moreover have "map_option me_hash (find (\<lambda>x. me_path x = fl_path e) (mf_entries m')) = Some hash"
  proof -
    obtain x where "find (\<lambda>x. me_path x = fl_path e) (mf_entries m) = Some x" using True by (auto simp: find_list_ex)
    then have "find (\<lambda>x. me_path x = fl_path e) (mf_entries m') = Some (x\<lparr>me_hash := hash, me_playbook := PStr (fl_playbook e)\<rparr>)"
      by (simp add: m'_def find_update_first)
    then show ?thesis by simp
  qed
  moreover have "list_all full_entry (mf_entries m')"
    using assms set_update_first_subset [of "\<lambda>x. me_path x = fl_path e" "\<lambda>x. x\<lparr>me_hash := hash, me_playbook := PStr (fl_playbook e)\<rparr>" "mf_entries m"]
    by (fastforce simp: manifest_ok_def m'_def list_all_iff full_entry_def)
  ultimately show ?thesis by (intro exI [of _ m']) (simp add: m'_def)
next
  case False
  define x where "x = new_entry (fl_uid e) (fl_path e) ''shadow_gateway_cache'' hash (Some ''ops_manager'') (Some (fl_playbook e)) [''shadow_gateway'', ''cache_replay'']"
  define m' where "m' = m\<lparr>mf_generated := utc_iso (fl_t5 e), mf_entries := mf_entries m @ [x]\<rparr>"
  have ex: "\<not> list_ex (entry_of_path (fl_path e)) (map (\<lambda>x. PDict (manifest_entry_dict x)) (mf_entries m))"
    using False by (simp add: list_ex_iff entry_of_path_dict)
  have d: "dget (manifest_dict m) ''entries'' = PList (map (\<lambda>x. PDict (manifest_entry_dict x)) (mf_entries m))" by (simp add: manifest_dict_def)
  have "\<not> list_ex (\<lambda>x. me_id x = fl_uid e) (mf_entries m)" using fresh by (simp add: find_list_ex)
  then have r: "record_file (\<lambda>_. Some hash) (fl_uid e) (fl_t5 e) (fl_path e) ''shadow_gateway_cache'' (Some ''ops_manager'') (Some (fl_playbook e))
      [''shadow_gateway'', ''cache_replay''] False m = Inr (m', save_manifest m')"
    by (simp add: record_file_def m'_def x_def Let_def)
  have l: "load_manifest (fl_t4 e) (Some (Some (PDict (manifest_dict m)))) = Inr m" using load_ok [OF assms(1)] by (simp add: save_manifest_def)
  have "upsert_entry e hash (save_manifest m) = Inr (save_manifest m')"
    by (simp add: upsert_entry_def save_manifest_def d ex l r Let_def)
  moreover have "find (\<lambda>x. me_path x = fl_path e) (mf_entries m') = Some x"
    using False by (simp add: m'_def find_append find_list_ex x_def new_entry_def)
  moreover have "list_all full_entry (mf_entries m')"
    using assms by (simp add: m'_def manifest_ok_def x_def full_entry_def new_entry_def)
  ultimately show ?thesis by (intro exI [of _ m']) (simp add: m'_def x_def new_entry_def)
qed

text \<open>C29: A flushed file verifies by its path afterwards, under the manifest the service saved: the entry of its path has the hash of what
  was written.\<close>

theorem flushed_file_verifies:
  assumes "cache_enabled g" "manifest_ok m" "find (\<lambda>x. me_id x = fl_uid e) (mf_entries m) = None"
    and "files (fl_path e) = Some (fl_hash e (load_cache g))"
  shows "\<exists>f' r m' v. snd (flush_to_parquet e (save_manifest m) g) = Inr (f', r) \<and> load_manifest now f' = Inr m'
    \<and> verify_file files (Some (fl_path e)) None m' = Inr v \<and> vf_status v = ''ok''"
proof -
  obtain m' where m': "upsert_entry e (fl_hash e (load_cache g)) (save_manifest m) = Inr (save_manifest m')" "mf_schema m' = mf_schema m"
    "mf_generated m' \<in> {utc_iso (fl_t4 e), utc_iso (fl_t5 e)}" "list_all full_entry (mf_entries m')"
    "map_option me_hash (find (\<lambda>x. me_path x = fl_path e) (mf_entries m')) = Some (fl_hash e (load_cache g))"
    using upsert_entry_saved [OF assms(2,3)] by blast
  have "manifest_ok m'" using m'(2-4) assms(2) by (auto simp: manifest_ok_def utc_iso_not_empty)
  then have "load_manifest now (save_manifest m') = Inr m'" by (rule load_ok)
  moreover have "\<exists>v. verify_file files (Some (fl_path e)) None m' = Inr v \<and> vf_status v = ''ok''"
    using m'(5) assms(4) by (simp add: verify_file_def check_hash_def)
  moreover have "\<exists>r. snd (flush_to_parquet e (save_manifest m) g) = Inr (save_manifest m', r)"
    using assms(1) m'(1) by (simp add: flush_to_parquet_def Let_def)
  ultimately show ?thesis by blast
qed

section \<open>Witnesses\<close>

definition demo_gateway :: "bool \<Rightarrow> gateway" where
  "demo_gateway streaming = configure_gateway ''prod'' (set_flag ''shadow.gateway.streaming'' ''prod'' streaming
     (set_flag ''shadow.gateway.offline_cache'' ''prod'' True None)) []"

lemma demo_flags:
  "is_enabled (gw_flags (demo_gateway b)) ''shadow.gateway.streaming'' ''prod'' = b"
  "\<not> is_enabled (gw_flags (demo_gateway b)) ''shadow.gateway.force_failover'' ''prod''"
  "cache_enabled (demo_gateway b)"
  by (simp_all add: demo_gateway_def configure_gateway_def set_flag_def is_enabled_def load_flags_def mapping_or_empty_def cache_enabled_def Let_def)

definition demo_retry :: "int \<Rightarrow> retry_env" where
  "demo_retry n = \<lparr>re_ok = (n = 2), re_started = Fin 0, re_ended = Fin 1, re_audit = demo_stamp, re_metric = demo_stamp\<rparr>"

definition demo_running :: gateway where
  "demo_running = fst (start_session ''0123456789'' demo_stamp ''https://a'' ''https://b'' ''prod'' ''sse'' (demo_gateway True))"

lemma demo_running_session: "\<exists>s. gw_sess demo_running = Some s"
  by (simp add: demo_running_def start_session_def demo_flags Let_def)

theorem retry_first_success_witness:
  "snd (execute_with_retry ''command.retry'' 3 demo_retry demo_running) = [(''status'', PStr ''ok''), (''attempts'', PInt 2)]"
proof -
  obtain s where s: "gw_sess demo_running = Some s" using demo_running_session by blast
  have "find (\<lambda>i. re_ok (demo_retry i)) [1..3] = Some 2" by (simp add: demo_retry_def upto.simps)
  with retry_first_success [OF s, of "''command.retry''" 3 demo_retry] show ?thesis by simp
qed

theorem events_never_go_back_witness: "event_reached 7 (foldl gw_step (record_gw_event 7 demo_running) [Event 3, Failover demo_stamp ''manual''])"
proof -
  obtain s where s: "gw_sess demo_running = Some s" using demo_running_session by blast
  show ?thesis by (rule events_never_go_back [OF _ s]) (simp add: same_session_def)
qed

theorem disconnect_activates_disabled_witness:
  "map_option gs_state (gw_sess (fst (handle_disconnect demo_stamp demo_stamp demo_stamp ''lost''
     (fst (start_session ''0123456789'' demo_stamp ''https://a'' ''https://b'' ''prod'' ''sse'' (demo_gateway False)))))) = Some ''active''"
proof -
  have "gw_cl (demo_gateway False) = None" by (simp add: demo_gateway_def configure_gateway_def)
  with disconnect_activates_disabled [of "demo_gateway False" "''prod''" demo_stamp demo_stamp demo_stamp "''lost''"] demo_flags
  show ?thesis by (fastforce simp: option.map_comp comp_def)
qed

theorem failover_keeps_old_client_witness:
  "map_option gc_endpoint (gw_cl (fst (gw_failover demo_stamp ''manual''
     (fst (start_session ''0123456789'' demo_stamp ''https://a'' ''https://b'' ''prod'' ''sse'' (demo_gateway True)))))) = Some ''https://a''"
  using failover_keeps_old_client [of "demo_gateway True" "''prod''"] demo_flags by blast

theorem cache_holds_last_witness:
  "map_option cr_payload (cached ''e1'' (enqueue_all [(demo_stamp, ''e1'', ''tick'', []), (demo_stamp, ''e1'', ''tick'', [(''bid'', PInt 1)])] (demo_gateway True)))
     = Some [(''bid'', PInt 1)]"
proof -
  have "cache_ok (demo_gateway True)" by (simp add: cache_ok_def demo_flags) (simp add: demo_gateway_def configure_gateway_def)
  from cache_holds_last [OF this] show ?thesis by (simp add: row_of_def)
qed

definition demo_flush :: flush_env where
  "demo_flush = \<lparr>fl_path = ''data/cache.parquet'', fl_stem = ''cache'', fl_hash = (\<lambda>es. if es = [] then ''e3'' else ''f0''), fl_playbook = ''FR47'',
     fl_started = Fin 0, fl_ended = Fin 1, fl_t1 = demo_stamp, fl_t2 = demo_stamp, fl_t3 = demo_stamp, fl_t4 = demo_stamp, fl_t5 = demo_stamp, fl_uid = ''id-9''\<rparr>"

theorem flushed_file_verifies_witness:
  "\<exists>f' r m' v. snd (flush_to_parquet demo_flush (save_manifest (demo_manifest ''aa'')) (demo_gateway True)) = Inr (f', r) \<and> load_manifest demo_stamp f' = Inr m'
     \<and> verify_file (\<lambda>_. Some (fl_hash demo_flush (load_cache (demo_gateway True)))) (Some ''data/cache.parquet'') None m' = Inr v \<and> vf_status v = ''ok''"
proof -
  have p: "fl_path demo_flush = ''data/cache.parquet''" by (simp add: demo_flush_def)
  have m: "manifest_ok (demo_manifest ''aa'')" by (simp add: manifest_ok_def demo_manifest_def default_schema_def full_entry_def new_entry_def)
  have u: "find (\<lambda>x. me_id x = fl_uid demo_flush) (mf_entries (demo_manifest ''aa'')) = None" by (simp add: demo_manifest_def demo_flush_def new_entry_def)
  show ?thesis using flushed_file_verifies [OF demo_flags(3) m u, of "\<lambda>_. Some (fl_hash demo_flush (load_cache (demo_gateway True)))"] unfolding p by blast
qed

end
