(* ===== verification/ShadowStore.thy ===== *)
theory ShadowStore
  imports PyStamp Systems
begin

text \<open>
  The shadow state: \<open>shadow/store.py\<close> and \<open>shadow/session.py\<close>. A SQLite table is the list of its rows;
  a second row of one primary key raises IntegrityError; texts compare by their codes. Rows of one
  time are listed in the order of the table, which SQL leaves open. The events of one subscription
  are drained by a task that ends with the first exception.

  Shown: pruning by text keeps, in each of the three tables, exactly the rows of the cutoff's second or later; an event of a ticket
  leaves the ticket with its status; acknowledgements and alerts of new identifiers are kept. And
  where it fails: an alert sent twice ends the task, so nothing after it is recorded.
\<close>

section \<open>Tables\<close>

record shadow_ticket =
  st_id :: string
  st_status :: string
  st_payload :: pydict
  st_updated :: string

record shadow_alert =
  sa_id :: string
  sa_type :: string
  sa_payload :: pydict
  sa_created :: string

record shadow_ack =
  sk_id :: string
  sk_source :: string
  sk_reference :: string
  sk_actor :: "string option"
  sk_noted :: string

definition shadow_ticket_dict :: "shadow_ticket \<Rightarrow> pydict" where
  "shadow_ticket_dict t = [(''ticket_id'', PStr (st_id t)), (''status'', PStr (st_status t)), (''payload'', PDict (st_payload t)), (''updated_at'', PStr (st_updated t))]"

definition shadow_alert_dict :: "shadow_alert \<Rightarrow> pydict" where
  "shadow_alert_dict a = [(''alert_id'', PStr (sa_id a)), (''event_type'', PStr (sa_type a)), (''payload'', PDict (sa_payload a)), (''created_at'', PStr (sa_created a))]"

definition shadow_ack_dict :: "shadow_ack \<Rightarrow> pydict" where
  "shadow_ack_dict a = [(''ack_id'', PStr (sk_id a)), (''source'', PStr (sk_source a)), (''reference_id'', PStr (sk_reference a)),
     (''actor'', ostr (sk_actor a)), (''noted_at'', PStr (sk_noted a))]"

record shadow_db =
  db_tickets :: "shadow_ticket list"
  db_alerts :: "shadow_alert list"
  db_acks :: "shadow_ack list"
  db_ttl :: int

section \<open>Operations of the store\<close>

text \<open>Rows older than the cutoff go; the cutoff keeps its microseconds, the rows' times have none.\<close>

definition prune_before :: "string \<Rightarrow> shadow_db \<Rightarrow> shadow_db" where
  "prune_before cutoff b = b\<lparr>db_tickets := filter (\<lambda>t. \<not> st_updated t < cutoff) (db_tickets b),
     db_alerts := filter (\<lambda>a. \<not> sa_created a < cutoff) (db_alerts b), db_acks := filter (\<lambda>a. \<not> sk_noted a < cutoff) (db_acks b)\<rparr>"

definition prune_expired :: "pydt \<Rightarrow> shadow_db \<Rightarrow> shadow_db \<times> unit res" where
  "prune_expired now b = (if db_ttl b \<le> 0 then (b, Inr ())
     else case dt_plus (- (db_ttl b * 3600000000)) now of Inl e \<Rightarrow> (b, Inl e) | Inr c \<Rightarrow> (prune_before (iso_text c) b, Inr ()))"

definition put_ticket :: "shadow_ticket \<Rightarrow> shadow_ticket list \<Rightarrow> shadow_ticket list" where
  "put_ticket t ts = (if list_ex (\<lambda>x. st_id x = st_id t) ts then update_first (\<lambda>x. st_id x = st_id t) (\<lambda>_. t) ts else ts @ [t])"

definition upsert_ticket :: "pydt \<Rightarrow> pydt \<Rightarrow> string \<Rightarrow> string \<Rightarrow> pydict \<Rightarrow> shadow_db \<Rightarrow> shadow_db \<times> unit res" where
  "upsert_ticket now now' tid status payload b =
     prune_expired now' (b\<lparr>db_tickets := put_ticket \<lparr>st_id = tid, st_status = status, st_payload = payload, st_updated = utc_iso now\<rparr> (db_tickets b)\<rparr>)"

definition integrity_error :: "string \<Rightarrow> err" where
  "integrity_error col = Raises ''IntegrityError'' (''UNIQUE constraint failed: '' @ col)"

definition add_alert :: "pydt \<Rightarrow> pydt \<Rightarrow> string \<Rightarrow> string \<Rightarrow> pydict \<Rightarrow> shadow_db \<Rightarrow> shadow_db \<times> unit res" where
  "add_alert now now' aid type payload b = (if list_ex (\<lambda>a. sa_id a = aid) (db_alerts b) then (b, Inl (integrity_error ''shadow_alert.alert_id''))
     else prune_expired now' (b\<lparr>db_alerts := db_alerts b @ [\<lparr>sa_id = aid, sa_type = type, sa_payload = payload, sa_created = utc_iso now\<rparr>]\<rparr>))"

text \<open>The column for the actor takes None and texts; a list or an object is no SQL value.\<close>

definition sql_text :: "pyval \<Rightarrow> string option res" where
  "sql_text v = (case v of PNone \<Rightarrow> Inr None | PStr s \<Rightarrow> Inr (Some s) | PList _ \<Rightarrow> Inl (Raises ''ProgrammingError'' []) | PDict _ \<Rightarrow> Inl (Raises ''ProgrammingError'' [])
     | _ \<Rightarrow> Inl (Unmodelled ''actor of another type''))"

definition record_ack :: "pydt \<Rightarrow> pydt \<Rightarrow> string \<Rightarrow> string \<Rightarrow> string \<Rightarrow> pyval \<Rightarrow> shadow_db \<Rightarrow> shadow_db \<times> unit res" where
  "record_ack now now' kid source reference actor b = (case sql_text actor of Inl e \<Rightarrow> (b, Inl e)
     | Inr a \<Rightarrow> if list_ex (\<lambda>x. sk_id x = kid) (db_acks b) then (b, Inl (integrity_error ''shadow_ack.ack_id''))
         else prune_expired now' (b\<lparr>db_acks := db_acks b @ [\<lparr>sk_id = kid, sk_source = source, sk_reference = reference, sk_actor = a, sk_noted = utc_iso now\<rparr>]\<rparr>))"

definition newest_first :: "('a \<Rightarrow> string) \<Rightarrow> 'a list \<Rightarrow> 'a list" where
  "newest_first f xs = rev (sort_key f (rev xs))"

definition list_tickets :: "shadow_db \<Rightarrow> shadow_ticket list" where
  "list_tickets b = newest_first st_updated (db_tickets b)"

definition list_alerts :: "shadow_db \<Rightarrow> shadow_alert list" where
  "list_alerts b = newest_first sa_created (db_alerts b)"

definition list_acks :: "shadow_db \<Rightarrow> shadow_ack list" where
  "list_acks b = newest_first sk_noted (db_acks b)"

section \<open>The session\<close>

record shadow_world =
  sh_db :: shadow_db
  sh_log :: "pyval list"

record shadow_env =
  sv_store :: pydt
  sv_prune :: pydt
  sv_ident :: pydt
  sv_received :: pydt

text \<open>\<open>strftime\<close> with year, month, day, hour, minute, second and microsecond.\<close>

definition event_id :: "pydt \<Rightarrow> string \<Rightarrow> string" where
  "event_id now type = str_replace ''.'' ''_'' type @ ''_'' @ pad_str 4 (yr now) @ pad_str 2 (mo now) @ pad_str 2 (dy now)
     @ pad_str 2 (hh now) @ pad_str 2 (mi now) @ pad_str 2 (ss now) @ pad_str 6 (us now)"

definition first_of :: "pydict \<Rightarrow> string list \<Rightarrow> string \<Rightarrow> string" where
  "first_of d ks v0 = py_str (foldr (\<lambda>k v. py_or (dget d k) v) ks (PStr v0))"

definition ticket_event :: "string \<Rightarrow> bool" where
  "ticket_event type \<longleftrightarrow> type = ''ticket.proposed'' \<or> type = ''ticket.updated''"

definition alert_event_type :: "string \<Rightarrow> bool" where
  "alert_event_type type \<longleftrightarrow> \<not> ticket_event type \<and> (starts_with ''health.'' type \<or> starts_with ''ops.'' type)"

definition store_event :: "shadow_env \<Rightarrow> string \<Rightarrow> pydict \<Rightarrow> shadow_db \<Rightarrow> shadow_db \<times> unit res" where
  "store_event env type p b =
     (if ticket_event type then upsert_ticket (sv_store env) (sv_prune env) (first_of p [''ticket_id'', ''id''] ''unknown'') (first_of p [''status''] ''pending'') p b
      else if alert_event_type type then add_alert (sv_store env) (sv_prune env) (first_of p [''alert_id'', ''id''] (event_id (sv_ident env) type)) type p b
      else if type = ''shadow.ack'' then record_ack (sv_store env) (sv_prune env) (first_of p [''ack_id''] (event_id (sv_ident env) type))
             (first_of p [''source''] ''shadow'') (first_of p [''reference_id'', ''ticket_id''] ''unknown'') (dget p ''actor'') b
      else (b, Inr ()))"

definition process_event :: "shadow_env \<Rightarrow> string \<Rightarrow> pydict \<Rightarrow> shadow_world \<Rightarrow> shadow_world \<times> unit res" where
  "process_event env type p w = (case store_event env type p (sh_db w) of
       (b, Inl e) \<Rightarrow> (w\<lparr>sh_db := b\<rparr>, Inl e)
     | (b, Inr _) \<Rightarrow> (w\<lparr>sh_db := b, sh_log := sh_log w @ [PDict [(''ts'', PStr (utc_iso (sv_received env))), (''event_type'', PStr type), (''payload'', PDict p)]]\<rparr>, Inr ()))"

text \<open>The task of one subscription: payloads that are no dictionary are passed over, an exception ends it.\<close>

fun drain :: "string \<Rightarrow> (shadow_env \<times> pyval) list \<Rightarrow> shadow_world \<Rightarrow> shadow_world \<times> unit res" where
  "drain type [] w = (w, Inr ())"
| "drain type ((env, v) # xs) w = (case v of
       PDict p \<Rightarrow> (case process_event env type p w of (w', Inl e) \<Rightarrow> (w', Inl e) | (w', Inr _) \<Rightarrow> drain type xs w')
     | _ \<Rightarrow> drain type xs w)"

section \<open>Pruning\<close>

lemma older_text:
  assumes "dt_plus (- (db_ttl b * 3600000000)) now = Inr c" "tzo now = Some 0" "tzo d = Some 0" "in_range d"
  shows "utc_iso d < iso_text c \<longleftrightarrow> second_key d < second_key c"
proof -
  have "tzo c = Some 0" using dt_plus_result(2) [OF assms(1)] assms(2) by simp
  then show ?thesis using second_before [OF assms(3) _ assms(4) dt_plus_range [OF assms(1)]] by simp
qed

lemma prune_result:
  "dt_plus (- (db_ttl b * 3600000000)) now = Inr c \<Longrightarrow> 0 < db_ttl b \<Longrightarrow> prune_expired now b = (prune_before (iso_text c) b, Inr ())"
  by (simp add: prune_expired_def)

lemma prune_keeps:
  assumes "dt_plus (- (db_ttl b * 3600000000)) now = Inr c" "tzo now = Some 0" "0 < db_ttl b"
    and "st_updated t = utc_iso d" "tzo d = Some 0" "in_range d"
  shows "t \<in> set (db_tickets (fst (prune_expired now b))) \<longleftrightarrow> t \<in> set (db_tickets b) \<and> \<not> second_key d < second_key c"
  using older_text [OF assms(1,2,5,6)] by (simp add: prune_result [OF assms(1,3)] prune_before_def assms(4))

text \<open>C21: Pruning, a comparison of texts, keeps of each of the three tables exactly the rows whose time is of the cutoff's second or later,
  tickets by their last update, alerts by their creation, acknowledgements by their note; it raises nothing and leaves the lifetime as it is.\<close>

theorem prune_exact:
  assumes "dt_plus (- (db_ttl b * 3600000000)) now = Inr c" "tzo now = Some 0" "0 < db_ttl b" "tzo d = Some 0" "in_range d"
  shows "(st_updated t = utc_iso d \<longrightarrow> (t \<in> set (db_tickets (fst (prune_expired now b))) \<longleftrightarrow> t \<in> set (db_tickets b) \<and> \<not> second_key d < second_key c))
    \<and> (sa_created a = utc_iso d \<longrightarrow> (a \<in> set (db_alerts (fst (prune_expired now b))) \<longleftrightarrow> a \<in> set (db_alerts b) \<and> \<not> second_key d < second_key c))
    \<and> (sk_noted k = utc_iso d \<longrightarrow> (k \<in> set (db_acks (fst (prune_expired now b))) \<longleftrightarrow> k \<in> set (db_acks b) \<and> \<not> second_key d < second_key c))
    \<and> snd (prune_expired now b) = Inr () \<and> db_ttl (fst (prune_expired now b)) = db_ttl b"
  using older_text [OF assms(1,2,4,5)] by (simp add: prune_result [OF assms(1,3)] prune_before_def)

section \<open>Tickets\<close>

lemma put_ticket_mem: "t \<in> set (put_ticket t ts)"
proof (cases "list_ex (\<lambda>x. st_id x = st_id t) ts")
  case True
  then have "t \<in> set (update_first (\<lambda>x. st_id x = st_id t) (\<lambda>_. t) ts)" by (induction ts) auto
  with True show ?thesis by (simp add: put_ticket_def)
qed (simp add: put_ticket_def)

lemma newest_first_set [simp]: "set (newest_first f xs) = set xs"
  by (simp add: newest_first_def)

text \<open>An event of a ticket that is processed leaves the ticket, with its status and the payload of the event, in the list of tickets,
  where the clocks are less than the lifetime of a row apart.\<close>

theorem ticket_event_listed:
  assumes "ticket_event type" "process_event env type p w = (w', Inr ())" "0 < db_ttl (sh_db w)"
    and "dt_plus (- (db_ttl (sh_db w) * 3600000000)) (sv_prune env) = Inr c" "tzo (sv_prune env) = Some 0"
    and "tzo (sv_store env) = Some 0" "in_range (sv_store env)" "\<not> second_key (sv_store env) < second_key c"
  shows "\<lparr>st_id = first_of p [''ticket_id'', ''id''] ''unknown'', st_status = first_of p [''status''] ''pending'', st_payload = p,
      st_updated = utc_iso (sv_store env)\<rparr> \<in> set (list_tickets (sh_db w'))"
proof -
  let ?t = "\<lparr>st_id = first_of p [''ticket_id'', ''id''] ''unknown'', st_status = first_of p [''status''] ''pending'', st_payload = p,
      st_updated = utc_iso (sv_store env)\<rparr>"
  let ?b = "(sh_db w)\<lparr>db_tickets := put_ticket ?t (db_tickets (sh_db w))\<rparr>"
  have "?t \<in> set (db_tickets (fst (prune_expired (sv_prune env) ?b)))"
    using prune_keeps [of ?b "sv_prune env" c ?t "sv_store env"] assms(3-8) put_ticket_mem [of ?t "db_tickets (sh_db w)"] by simp
  moreover have "sh_db w' = fst (prune_expired (sv_prune env) ?b)"
    using assms(1,2) by (auto simp: process_event_def store_event_def upsert_ticket_def split: prod.splits sum.splits)
  ultimately show ?thesis by (simp add: list_tickets_def)
qed

section \<open>Keys\<close>

definition keys_ok :: "shadow_world \<Rightarrow> bool" where
  "keys_ok w \<longleftrightarrow> distinct (map st_id (db_tickets (sh_db w))) \<and> distinct (map sa_id (db_alerts (sh_db w))) \<and> distinct (map sk_id (db_acks (sh_db w)))"

lemma put_ticket_ids: "map st_id (put_ticket t ts) = (if st_id t \<in> set (map st_id ts) then map st_id ts else map st_id ts @ [st_id t])"
proof -
  have "list_ex (\<lambda>x. st_id x = st_id t) ts \<longleftrightarrow> st_id t \<in> set (map st_id ts)" by (induction ts) auto
  then show ?thesis by (simp add: put_ticket_def map_update_first_cong)
qed

lemma prune_keys: "keys_ok (w\<lparr>sh_db := b\<rparr>) \<Longrightarrow> keys_ok (w\<lparr>sh_db := fst (prune_expired now b)\<rparr>)"
  by (auto simp: keys_ok_def prune_expired_def prune_before_def distinct_map_filter split: sum.split)

lemma store_event_keys: "keys_ok w \<Longrightarrow> keys_ok (w\<lparr>sh_db := fst (store_event env type p (sh_db w))\<rparr>)"
  unfolding store_event_def upsert_ticket_def add_alert_def record_ack_def
  by (auto intro!: prune_keys simp: list_ex_iff split: sum.split) (auto simp: keys_ok_def put_ticket_ids)

definition shadow_step :: "shadow_world \<Rightarrow> shadow_env \<times> string \<times> pydict \<Rightarrow> shadow_world" where
  "shadow_step w x = (case x of (env, type, p) \<Rightarrow> fst (process_event env type p w))"

interpretation shadow_keys: step_system shadow_step keys_ok
proof unfold_locales
  fix w and x :: "shadow_env \<times> string \<times> pydict" assume w: "keys_ok w"
  obtain env type p where x: "x = (env, type, p)" by (cases x)
  obtain b r where "store_event env type p (sh_db w) = (b, r)" by (cases "store_event env type p (sh_db w)")
  with store_event_keys [OF w, of env type p] show "keys_ok (shadow_step w x)"
    by (cases r) (auto simp: shadow_step_def x process_event_def keys_ok_def)
qed

text \<open>Whatever events arrive, no table has two rows of one identifier.\<close>

theorem identifiers_stay_unique:
  "keys_ok w \<Longrightarrow> keys_ok (foldl shadow_step w xs)"
  by (rule shadow_keys.run_inv)

section \<open>An alert sent twice\<close>

text \<open>An alert whose identifier is in the table ends the task: the event is not logged and the ones after it are not processed.\<close>

theorem repeated_alert_ends_task:
  assumes "alert_event_type type" "a \<in> set (db_alerts (sh_db w))" "sa_id a = first_of p [''alert_id'', ''id''] (event_id (sv_ident env) type)"
  shows "drain type ((env, PDict p) # xs) w = (w, Inl (integrity_error ''shadow_alert.alert_id''))"
proof -
  have "list_ex (\<lambda>a. sa_id a = first_of p [''alert_id'', ''id''] (event_id (sv_ident env) type)) (db_alerts (sh_db w))"
    using assms(2,3) by (auto simp: list_ex_iff)
  then show ?thesis using assms(1) by (simp add: process_event_def store_event_def add_alert_def alert_event_type_def)
qed

section \<open>Witnesses\<close>

definition demo_shadow_ts :: pydt where
  "demo_shadow_ts = \<lparr>yr = 2025, mo = 3, dy = 14, hh = 12, mi = 0, ss = 0, us = 0, tzo = Some 0\<rparr>"

definition demo_cutoff :: pydt where
  "demo_cutoff = \<lparr>yr = 2025, mo = 3, dy = 13, hh = 0, mi = 0, ss = 0, us = 0, tzo = Some 0\<rparr>"

definition demo_shadow :: "shadow_ticket list \<Rightarrow> shadow_world" where
  "demo_shadow ts = \<lparr>sh_db = \<lparr>db_tickets = ts, db_alerts = [\<lparr>sa_id = ''a1'', sa_type = ''ops.disk'', sa_payload = [], sa_created = ''2025-03-14T11:00:00Z''\<rparr>],
     db_acks = [], db_ttl = 36\<rparr>, sh_log = []\<rparr>"

lemma demo_cut: "dt_plus (- (36 * 3600000000)) demo_shadow_ts = Inr demo_cutoff"
proof -
  have "epoch_us demo_shadow_ts = 1741953600000000" by (simp add: demo_shadow_ts_def epoch_us_def days_from_civil_def)
  then have "local_us demo_shadow_ts = 1741953600000000" by (simp add: local_us_epoch) (simp add: demo_shadow_ts_def)
  moreover have "civil_from_days 20160 = (2025, 3, 13)" by code_simp
  moreover have "tzo demo_shadow_ts = Some 0" by (simp add: demo_shadow_ts_def)
  ultimately show ?thesis by (simp add: dt_plus_def dt_of_local_def) (simp add: demo_cutoff_def)
qed

lemma demo_shadow_range: "tzo demo_shadow_ts = Some 0" "in_range demo_shadow_ts" "tzo demo_cutoff = Some 0" "in_range demo_cutoff"
  by (simp_all add: demo_shadow_ts_def demo_cutoff_def in_range_def)

definition demo_ticket :: "pydt \<Rightarrow> shadow_ticket" where
  "demo_ticket d = \<lparr>st_id = ''t1'', st_status = ''open'', st_payload = [], st_updated = utc_iso d\<rparr>"

definition demo_ack :: "pydt \<Rightarrow> shadow_ack" where
  "demo_ack d = \<lparr>sk_id = ''k1'', sk_source = ''shadow'', sk_reference = ''t1'', sk_actor = None, sk_noted = utc_iso d\<rparr>"

definition demo_alert :: "pydt \<Rightarrow> shadow_alert" where
  "demo_alert d = \<lparr>sa_id = ''a1'', sa_type = ''ops.disk'', sa_payload = [], sa_created = utc_iso d\<rparr>"

definition demo_tables :: "pydt \<Rightarrow> shadow_db" where
  "demo_tables d = \<lparr>db_tickets = [demo_ticket d], db_alerts = [demo_alert d], db_acks = [demo_ack d], db_ttl = 36\<rparr>"

theorem prune_exact_witness:
  "let d = demo_cutoff\<lparr>yr := 2024\<rparr>; b = fst (prune_expired demo_shadow_ts (demo_tables d))
   in demo_ticket d \<notin> set (db_tickets b) \<and> demo_alert d \<notin> set (db_alerts b) \<and> demo_ack d \<notin> set (db_acks b) \<and> db_ttl b = 36"
proof -
  let ?d = "demo_cutoff\<lparr>yr := 2024\<rparr>"
  have c: "dt_plus (- (db_ttl (demo_tables ?d) * 3600000000)) demo_shadow_ts = Inr demo_cutoff"
    using demo_cut by (simp add: demo_tables_def)
  have t: "0 < db_ttl (demo_tables ?d)" "tzo ?d = Some 0" "in_range ?d" "second_key ?d < second_key demo_cutoff"
    by (simp_all add: demo_tables_def demo_cutoff_def in_range_def second_key_def)
  from prune_exact [OF c demo_shadow_range(1) t(1-3), of "demo_ticket ?d" "demo_alert ?d" "demo_ack ?d"] t(4)
  show ?thesis by (simp add: Let_def demo_ticket_def demo_alert_def demo_ack_def demo_tables_def)
qed

definition demo_shadow_env :: shadow_env where
  "demo_shadow_env = \<lparr>sv_store = demo_shadow_ts, sv_prune = demo_shadow_ts, sv_ident = demo_shadow_ts, sv_received = demo_shadow_ts\<rparr>"

theorem ticket_event_listed_witness:
  "\<exists>w'. process_event demo_shadow_env ''ticket.updated'' [(''ticket_id'', PStr ''t1''), (''status'', PStr ''filled'')] (demo_shadow []) = (w', Inr ())
     \<and> filter (\<lambda>t. st_id t = ''t1'' \<and> st_status t = ''filled'') (list_tickets (sh_db w')) \<noteq> []"
proof -
  let ?p = "[(''ticket_id'', PStr ''t1''), (''status'', PStr ''filled'')]"
  have "\<exists>w'. process_event demo_shadow_env ''ticket.updated'' ?p (demo_shadow []) = (w', Inr ())"
    using demo_cut by (simp add: process_event_def store_event_def ticket_event_def upsert_ticket_def prune_expired_def demo_shadow_def demo_shadow_env_def)
  then obtain w' where w: "process_event demo_shadow_env ''ticket.updated'' ?p (demo_shadow []) = (w', Inr ())" by blast
  have "dt_plus (- (db_ttl (sh_db (demo_shadow [])) * 3600000000)) (sv_prune demo_shadow_env) = Inr demo_cutoff"
    using demo_cut by (simp add: demo_shadow_def demo_shadow_env_def)
  moreover have "\<not> second_key (sv_store demo_shadow_env) < second_key demo_cutoff"
    by (simp add: demo_shadow_env_def second_key_def demo_shadow_ts_def demo_cutoff_def)
  ultimately have "\<lparr>st_id = ''t1'', st_status = ''filled'', st_payload = ?p, st_updated = utc_iso demo_shadow_ts\<rparr> \<in> set (list_tickets (sh_db w'))"
    using ticket_event_listed [OF _ w, of demo_cutoff] demo_shadow_range
    by (simp add: ticket_event_def demo_shadow_env_def first_of_def py_or_def) (simp add: demo_shadow_def)
  then have "filter (\<lambda>t. st_id t = ''t1'' \<and> st_status t = ''filled'') (list_tickets (sh_db w')) \<noteq> []"
    by (force simp: filter_empty_conv)
  with w show ?thesis by blast
qed

theorem identifiers_stay_unique_witness: "keys_ok (foldl shadow_step (demo_shadow []) [(demo_shadow_env, ''ops.disk'', [])])"
  by (rule identifiers_stay_unique) (simp add: keys_ok_def demo_shadow_def)

theorem repeated_alert_ends_task_witness:
  "drain ''ops.disk'' [(demo_shadow_env, PDict [(''alert_id'', PStr ''a1'')]), (demo_shadow_env, PDict [(''alert_id'', PStr ''a2'')])] (demo_shadow [])
     = (demo_shadow [], Inl (integrity_error ''shadow_alert.alert_id''))"
proof (rule repeated_alert_ends_task)
  show "alert_event_type ''ops.disk''" by (simp add: alert_event_type_def ticket_event_def starts_with_def)
  show "\<lparr>sa_id = ''a1'', sa_type = ''ops.disk'', sa_payload = [], sa_created = ''2025-03-14T11:00:00Z''\<rparr> \<in> set (db_alerts (sh_db (demo_shadow [])))"
    by (simp add: demo_shadow_def)
qed (simp add: first_of_def py_or_def)

end
