(* ===== verification/Resync.thy ===== *)
theory Resync
  imports PyStamp
begin

text \<open>
  The resynchronisation queue of \<open>core/resync.py\<close>. The backfill of the data service is a parameter: it
  gives the provider used, its retries and the count of bars, fails with a message, or raises. The
  queue file, the manual jobs and the worklog are lists of lines; clock readings are arguments.

  Shown: the counts of the summary are those of the jobs, each job writes one line to the queue and a
  manual job per symbol where it fails; a dry run writes nothing; a line of the queue reads back as its
  job. And where it fails: a completed job stays in the queue, and the worklog entry of a manual job
  loses its task name.
\<close>

section \<open>Jobs\<close>

record resync_job =
  rj_id :: string
  rj_group :: pyval
  rj_start :: pydt
  rj_end :: pydt
  rj_symbols :: "string list"
  rj_timeframe :: string
  rj_priority :: string
  rj_plan :: "string list"
  rj_manual :: bool
  rj_retries :: int
  rj_status :: string
  rj_index :: pyval
  rj_total :: pyval

definition parse_dt :: "pyval \<Rightarrow> pydt option" where
  "parse_dt v = (if v = PNone then None else let t = str_strip (py_str v) in if t = [] then None
     else case fromisoformat (if ends_with ''Z'' t then butlast t @ ''+00:00'' else t) of None \<Rightarrow> None
       | Some d \<Rightarrow> Some (if tzo d = None then d\<lparr>tzo := Some 0\<rparr> else d))"

definition or_now :: "pydt \<Rightarrow> pydt option \<Rightarrow> pydt" where
  "or_now now d = (case d of None \<Rightarrow> now | Some t \<Rightarrow> t)"

definition texts_of :: "pyval \<Rightarrow> string list res" where
  "texts_of v = bind_res (py_iter (py_or v (PList []))) (\<lambda>xs. Inr (map py_str xs))"

definition job_from_mapping :: "pydt \<times> pydt \<Rightarrow> pydict \<Rightarrow> resync_job res" where
  "job_from_mapping now d = bind_res (texts_of (dget d ''symbols'')) (\<lambda>symbols. bind_res (texts_of (dget d ''failover_plan'')) (\<lambda>plan.
     bind_res (py_int (py_or (dget d ''retry_count'') (PInt 0))) (\<lambda>n.
       Inr \<lparr>rj_id = py_str (py_or (dget d ''job_id'') (PStr [])), rj_group = dget d ''resync_job_id'',
            rj_start = or_now (fst now) (parse_dt (dget d ''start'')), rj_end = or_now (snd now) (parse_dt (dget d ''end'')),
            rj_symbols = symbols, rj_timeframe = py_str (py_or (dget d ''timeframe'') (PStr ''M5'')),
            rj_priority = py_str (py_or (dget d ''priority'') (PStr ''normal'')), rj_plan = plan,
            rj_manual = truthy (dget d ''manual_csv_required''), rj_retries = n, rj_status = py_str (py_or (dget d ''status'') (PStr ''queued'')),
            rj_index = dget d ''segment_index'', rj_total = dget d ''segment_total''\<rparr>)))"

section \<open>The queue\<close>

text \<open>The latest line of each job; a line that is no object raises.\<close>

fun latest_jobs :: "json_lines \<Rightarrow> (string \<times> pydict) list \<Rightarrow> (string \<times> pydict) list res" where
  "latest_jobs [] acc = Inr acc"
| "latest_jobs (l # ls) acc = (case l of None \<Rightarrow> latest_jobs ls acc
     | Some v \<Rightarrow> bind_res (as_dict_get v) (\<lambda>d. if truthy (dget d ''job_id'') then latest_jobs ls (AList.update (py_str (dget d ''job_id'')) d acc)
         else latest_jobs ls acc))"

definition sort_group :: "resync_job \<Rightarrow> string option" where
  "sort_group j = (case py_or (rj_group j) (PStr []) of PStr s \<Rightarrow> Some s | _ \<Rightarrow> None)"

definition sort_index :: "resync_job \<Rightarrow> int option" where
  "sort_index j = (case py_or (rj_index j) (PInt 0) of PInt n \<Rightarrow> Some n | _ \<Rightarrow> None)"

definition job_key :: "resync_job \<Rightarrow> string \<times> int \<times> int" where
  "job_key j = (case sort_group j of None \<Rightarrow> [] | Some s \<Rightarrow> s, case sort_index j of None \<Rightarrow> 0 | Some n \<Rightarrow> n, epoch_us (rj_start j))"

text \<open>Groups that are no text and indices that are no integer are outside the model.\<close>

definition sort_jobs :: "resync_job list \<Rightarrow> resync_job list res" where
  "sort_jobs js = (if list_all (\<lambda>j. sort_group j \<noteq> None \<and> sort_index j \<noteq> None) js then Inr (sort_key job_key js)
     else Inl (Unmodelled ''sort of mixed types''))"

definition load_queue :: "(string \<Rightarrow> pydt \<times> pydt) \<Rightarrow> json_lines \<Rightarrow> resync_job list res" where
  "load_queue clock ls = bind_res (latest_jobs ls []) (\<lambda>latest. bind_res (map_res (\<lambda>(k, d). job_from_mapping (clock k) d) latest) sort_jobs)"

section \<open>Processing\<close>

datatype backfill_outcome = Filled "string option" int int | FillFailed string | FillRaises err

record job_clock =
  jc_update :: pydt
  jc_manual :: "nat \<Rightarrow> pydt \<times> pydt"

record resync_world =
  rw_queue :: "pyval list"
  rw_manual :: "pyval list"
  rw_worklog :: "pyval list"

text \<open>\<open>dict[k] = v\<close> for the optional entries of an update.\<close>

definition queue_update :: "pydt \<Rightarrow> string \<Rightarrow> string option \<Rightarrow> int option \<Rightarrow> string option \<Rightarrow> int option \<Rightarrow> resync_job \<Rightarrow> pydict" where
  "queue_update now status provider bars error retries j = [(''ts'', PStr (utc_iso now)), (''job_id'', PStr (rj_id j)), (''resync_job_id'', rj_group j),
     (''segment_index'', rj_index j), (''segment_total'', rj_total j), (''start'', PStr (iso_text (rj_start j))), (''end'', PStr (iso_text (rj_end j))),
     (''symbols'', PList (map PStr (rj_symbols j))), (''timeframe'', PStr (rj_timeframe j)), (''priority'', PStr (rj_priority j)),
     (''failover_plan'', PList (map PStr (rj_plan j))), (''manual_csv_required'', PBool (rj_manual j \<or> status = ''manual_csv_required'')),
     (''retry_count'', PInt (case retries of None \<Rightarrow> rj_retries j | Some n \<Rightarrow> n)), (''status'', PStr status)]
     @ (if otrue provider then [(''provider_used'', ostr provider)] else []) @ (case bars of None \<Rightarrow> [] | Some n \<Rightarrow> [(''bars'', PInt n)])
     @ (if otrue error then [(''error'', ostr error)] else [])"

text \<open>\<open>strftime("%Y-%m-%d")\<close>.\<close>

definition day_text :: "pydt \<Rightarrow> string" where
  "day_text d = nat_str (int (yr d)) @ ''-'' @ pad_str 2 (mo d) @ ''-'' @ pad_str 2 (dy d)"

definition manual_job :: "pydt \<Rightarrow> resync_job \<Rightarrow> string \<Rightarrow> pydict" where
  "manual_job now j symbol = (let date = day_text (rj_start j) in
     [(''ts'', PStr (utc_iso now)), (''job_id'', PStr (''manual_csv_'' @ symbol @ ''_'' @ rj_timeframe j @ ''_'' @ date)), (''task'', PStr ''manual_csv''),
      (''provider'', PStr ''manual_csv''), (''symbol'', PStr symbol), (''timeframe'', PStr (rj_timeframe j)), (''date'', PStr date),
      (''start'', PStr (iso_text (rj_start j))), (''end'', PStr (iso_text (rj_end j))), (''status'', PStr ''queued''), (''resync_job_id'', rj_group j),
      (''source_job_id'', PStr (rj_id j))])"

text \<open>\<open>{"timestamp": ..., "task": task, **payload}\<close>: the entries of the payload replace the ones before.\<close>

definition worklog_line :: "pydt \<Rightarrow> string \<Rightarrow> pydict \<Rightarrow> pydict" where
  "worklog_line now task payload = foldl (\<lambda>d (k, v). AList.update k v d) [(''timestamp'', PStr (utc_iso now)), (''task'', PStr task)] payload"

fun enqueue_manual :: "(nat \<Rightarrow> pydt \<times> pydt) \<Rightarrow> resync_job \<Rightarrow> nat \<Rightarrow> string list \<Rightarrow> resync_world \<Rightarrow> resync_world \<times> int" where
  "enqueue_manual clock j i [] w = (w, 0)"
| "enqueue_manual clock j i (symbol # symbols) w =
     (let p = manual_job (fst (clock i)) j symbol;
          w1 = w\<lparr>rw_manual := rw_manual w @ [PDict p], rw_worklog := rw_worklog w @ [PDict (worklog_line (snd (clock i)) ''manual_csv_enqueue'' p)]\<rparr>
      in case enqueue_manual clock j (Suc i) symbols w1 of (w2, n) \<Rightarrow> (w2, n + 1))"

record resync_summary =
  rs_jobs :: "pydict list"
  rs_completed :: int
  rs_failed :: int
  rs_failover :: "string list"
  rs_manual :: int
  rs_retries :: int

definition job_line :: "string \<Rightarrow> pydict \<Rightarrow> resync_job \<Rightarrow> pydict" where
  "job_line status extra j = [(''job_id'', PStr (rj_id j)), (''status'', PStr status)] @ extra
     @ [(''symbols'', PList (map PStr (rj_symbols j))), (''timeframe'', PStr (rj_timeframe j))]"

definition planned_line :: "resync_job \<Rightarrow> pydict" where
  "planned_line j = job_line ''planned'' [] j @ [(''start'', PStr (iso_text (rj_start j))), (''end'', PStr (iso_text (rj_end j))), (''priority'', PStr (rj_priority j))]"

definition append_update :: "pydict \<Rightarrow> resync_world \<Rightarrow> resync_world" where
  "append_update p w = w\<lparr>rw_queue := rw_queue w @ [PDict p]\<rparr>"

definition process_one :: "(resync_job \<Rightarrow> backfill_outcome) \<Rightarrow> job_clock \<Rightarrow> resync_job \<Rightarrow> resync_world \<Rightarrow> resync_summary \<Rightarrow> resync_world \<times> resync_summary res" where
  "process_one backfill c j w s =
     (if rj_manual j then
        (case enqueue_manual (jc_manual c) j 0 (rj_symbols j) w of (w1, n) \<Rightarrow>
           (append_update (queue_update (jc_update c) ''manual_csv_required'' None None None None j) w1,
            Inr (s\<lparr>rs_manual := rs_manual s + n, rs_jobs := rs_jobs s @ [job_line ''manual_csv_required'' [] j]\<rparr>)))
      else case backfill j of
          FillRaises e \<Rightarrow> (w, Inl e)
        | Filled provider retries bars \<Rightarrow>
            (append_update (queue_update (jc_update c) ''completed'' provider (Some bars) None (Some retries) j) w,
             Inr (s\<lparr>rs_completed := rs_completed s + 1, rs_retries := rs_retries s + retries,
               rs_failover := (case provider of Some (x # xs) \<Rightarrow> if (x # xs) \<in> set (rs_failover s) then rs_failover s else rs_failover s @ [x # xs]
                 | _ \<Rightarrow> rs_failover s),
               rs_jobs := rs_jobs s @ [job_line ''completed'' [(''provider_used'', ostr provider), (''bars'', PInt bars)] j]\<rparr>))
        | FillFailed m \<Rightarrow> (case enqueue_manual (jc_manual c) j 0 (rj_symbols j) w of (w1, n) \<Rightarrow>
            (append_update (queue_update (jc_update c) ''failed'' None None (Some m) (Some (rj_retries j)) j) w1,
             Inr (s\<lparr>rs_failed := rs_failed s + 1, rs_manual := rs_manual s + n,
               rs_jobs := rs_jobs s @ [job_line ''failed'' [(''error'', PStr m)] j]\<rparr>))))"

fun process_jobs :: "(resync_job \<Rightarrow> backfill_outcome) \<Rightarrow> bool \<Rightarrow> (job_clock \<times> resync_job) list \<Rightarrow> resync_world \<Rightarrow> resync_summary \<Rightarrow> resync_world \<times> resync_summary res" where
  "process_jobs backfill dry [] w s = (w, Inr s)"
| "process_jobs backfill dry ((c, j) # js) w s =
     (if rj_id j = [] then process_jobs backfill dry js w s
      else if dry then process_jobs backfill dry js w (s\<lparr>rs_jobs := rs_jobs s @ [planned_line j]\<rparr>)
      else case process_one backfill c j w s of (w1, Inl e) \<Rightarrow> (w1, Inl e) | (w1, Inr s1) \<Rightarrow> process_jobs backfill dry js w1 s1)"

definition empty_summary :: resync_summary where
  "empty_summary = \<lparr>rs_jobs = [], rs_completed = 0, rs_failed = 0, rs_failover = [], rs_manual = 0, rs_retries = 0\<rparr>"

definition resync :: "(resync_job \<Rightarrow> backfill_outcome) \<Rightarrow> bool \<Rightarrow> (job_clock \<times> resync_job) list \<Rightarrow> resync_world \<Rightarrow> resync_world \<times> resync_summary res" where
  "resync backfill dry js w = process_jobs backfill dry js w empty_summary"

section \<open>What is written\<close>

lemma enqueue_manual_result:
  "enqueue_manual clock j i ids w = (w', n) \<Longrightarrow> n = int (length ids) \<and> rw_queue w' = rw_queue w
     \<and> (\<exists>new. rw_manual w' = rw_manual w @ new \<and> length new = length ids)"
proof (induction ids arbitrary: i w w' n)
  case Nil
  then show ?case by simp
next
  case (Cons x ids)
  define p where "p = manual_job (fst (clock i)) j x"
  define w1 where "w1 = w\<lparr>rw_manual := rw_manual w @ [PDict p],
     rw_worklog := rw_worklog w @ [PDict (worklog_line (snd (clock i)) ''manual_csv_enqueue'' p)]\<rparr>"
  obtain w2 m where e: "enqueue_manual clock j (Suc i) ids w1 = (w2, m)" by (cases "enqueue_manual clock j (Suc i) ids w1")
  have "(w', n) = (w2, m + 1)" using Cons.prems e by (simp only: enqueue_manual.simps Let_def p_def [symmetric] w1_def [symmetric]) simp
  with Cons.IH [OF e] obtain new where "n = int (length (x # ids))" "rw_queue w' = rw_queue w" "rw_manual w' = rw_manual w @ PDict p # new"
    "length new = length ids" by (auto simp: w1_def)
  then show ?case by (intro conjI exI [of _ "PDict p # new"]) simp_all
qed

definition line_id :: "pyval \<Rightarrow> pyval" where
  "line_id v = dget (mapping_or_empty v) ''job_id''"

lemma queue_update_id [simp]: "line_id (PDict (queue_update now st p b e r j)) = PStr (rj_id j)"
  by (simp add: line_id_def queue_update_def)

text \<open>The manual jobs of a resync job: one per symbol where a CSV is required or the backfill fails.\<close>

definition manual_jobs :: "(resync_job \<Rightarrow> backfill_outcome) \<Rightarrow> resync_job \<Rightarrow> int" where
  "manual_jobs backfill j = (if rj_manual j then int (length (rj_symbols j)) else case backfill j of FillFailed _ \<Rightarrow> int (length (rj_symbols j)) | _ \<Rightarrow> 0)"

definition is_filled :: "(resync_job \<Rightarrow> backfill_outcome) \<Rightarrow> resync_job \<Rightarrow> bool" where
  "is_filled backfill j \<longleftrightarrow> \<not> rj_manual j \<and> (case backfill j of Filled _ _ _ \<Rightarrow> True | _ \<Rightarrow> False)"

definition is_failed :: "(resync_job \<Rightarrow> backfill_outcome) \<Rightarrow> resync_job \<Rightarrow> bool" where
  "is_failed backfill j \<longleftrightarrow> \<not> rj_manual j \<and> (case backfill j of FillFailed _ \<Rightarrow> True | _ \<Rightarrow> False)"

lemma process_one_result:
  assumes "process_one backfill c j w s = (w', Inr s')"
  shows "rs_completed s' = rs_completed s + (if is_filled backfill j then 1 else 0) \<and> rs_failed s' = rs_failed s + (if is_failed backfill j then 1 else 0)
    \<and> rs_manual s' = rs_manual s + manual_jobs backfill j \<and> length (rs_jobs s') = Suc (length (rs_jobs s))
    \<and> map line_id (rw_queue w') = map line_id (rw_queue w) @ [PStr (rj_id j)]
    \<and> (\<exists>new. rw_manual w' = rw_manual w @ new \<and> int (length new) = manual_jobs backfill j)"
proof -
  obtain w1 n where e: "enqueue_manual (jc_manual c) j 0 (rj_symbols j) w = (w1, n)" by (cases "enqueue_manual (jc_manual c) j 0 (rj_symbols j) w")
  from enqueue_manual_result [OF e] assms show ?thesis
    by (auto simp: process_one_def e append_update_def is_filled_def is_failed_def manual_jobs_def split: if_splits backfill_outcome.splits)
qed

text \<open>The counts of a run's summary are those of its jobs; every job with an identifier writes one line to the queue, in order, and
  the manual jobs counted are the ones appended.\<close>

theorem resync_counts:
  assumes "resync backfill False js w = (w', Inr s)"
  shows "rs_completed s = int (length (filter (is_filled backfill) (filter (\<lambda>j. rj_id j \<noteq> []) (map snd js))))
    \<and> rs_failed s = int (length (filter (is_failed backfill) (filter (\<lambda>j. rj_id j \<noteq> []) (map snd js))))
    \<and> rs_manual s = sum_list (map (manual_jobs backfill) (filter (\<lambda>j. rj_id j \<noteq> []) (map snd js)))
    \<and> map line_id (rw_queue w') = map line_id (rw_queue w) @ map (\<lambda>j. PStr (rj_id j)) (filter (\<lambda>j. rj_id j \<noteq> []) (map snd js))
    \<and> (\<exists>new. rw_manual w' = rw_manual w @ new \<and> int (length new) = rs_manual s)"
proof -
  have "process_jobs backfill False js w s0 = (w', Inr s) \<Longrightarrow>
      rs_completed s = rs_completed s0 + int (length (filter (is_filled backfill) (filter (\<lambda>j. rj_id j \<noteq> []) (map snd js))))
    \<and> rs_failed s = rs_failed s0 + int (length (filter (is_failed backfill) (filter (\<lambda>j. rj_id j \<noteq> []) (map snd js))))
    \<and> rs_manual s = rs_manual s0 + sum_list (map (manual_jobs backfill) (filter (\<lambda>j. rj_id j \<noteq> []) (map snd js)))
    \<and> map line_id (rw_queue w') = map line_id (rw_queue w) @ map (\<lambda>j. PStr (rj_id j)) (filter (\<lambda>j. rj_id j \<noteq> []) (map snd js))
    \<and> (\<exists>new. rw_manual w' = rw_manual w @ new \<and> int (length new) = rs_manual s - rs_manual s0)" for s0
  proof (induction js arbitrary: w s0)
    case (Cons x js)
    obtain c j where x: "x = (c, j)" by (cases x)
    show ?case
    proof (cases "rj_id j = []")
      case True
      with Cons.prems x have p: "process_jobs backfill False js w s0 = (w', Inr s)" by simp
      have eq: "filter (\<lambda>j. rj_id j \<noteq> []) (map snd (x # js)) = filter (\<lambda>j. rj_id j \<noteq> []) (map snd js)" using True x by simp
      show ?thesis unfolding eq by (rule Cons.IH [OF p])
    next
      case False
      obtain w1 r where p: "process_one backfill c j w s0 = (w1, r)" by (cases "process_one backfill c j w s0")
      with False Cons.prems x obtain s1 where r: "r = Inr s1" and next_run: "process_jobs backfill False js w1 s1 = (w', Inr s)"
        by (auto split: sum.splits)
      note one = process_one_result [OF p [unfolded r]]
      from one obtain n1 where n1: "rw_manual w1 = rw_manual w @ n1" "int (length n1) = manual_jobs backfill j" by blast
      from Cons.IH [OF next_run] obtain n2 where n2: "rw_manual w' = rw_manual w1 @ n2" "int (length n2) = rs_manual s - rs_manual s1" by blast
      have "rw_manual w' = rw_manual w @ (n1 @ n2)" "int (length (n1 @ n2)) = rs_manual s - rs_manual s0" using n1 n2 one by simp_all
      then show ?thesis using one Cons.IH [OF next_run] False x by auto
    qed
  qed simp
  note counts = this [OF assms [unfolded resync_def]]
  have zero: "rs_completed empty_summary = 0" "rs_failed empty_summary = 0" "rs_manual empty_summary = 0" by (simp_all add: empty_summary_def)
  show ?thesis by (rule counts [unfolded zero add_0_left diff_zero])
qed

text \<open>A dry run writes nothing and plans every job that has an identifier.\<close>

theorem dry_run_writes_nothing:
  "resync backfill True js w = (w, Inr (empty_summary\<lparr>rs_jobs := map (\<lambda>(c, j). planned_line j) (filter (\<lambda>(c, j). rj_id j \<noteq> []) js)\<rparr>))"
proof -
  have "process_jobs backfill True js w s = (w, Inr (s\<lparr>rs_jobs := rs_jobs s @ map (\<lambda>(c, j). planned_line j) (filter (\<lambda>(c, j). rj_id j \<noteq> []) js)\<rparr>))" for s
    by (induction js arbitrary: s) auto
  then show ?thesis by (simp add: resync_def empty_summary_def)
qed

section \<open>Reading a line back\<close>

lemma parse_dt_iso: "valid_dt d \<Longrightarrow> tzo d = Some 0 \<Longrightarrow> parse_dt (PStr (iso_text d)) = Some d"
  by (simp add: parse_dt_def Let_def utc_text_back fromisoformat_isoformat)

definition utc_job :: "resync_job \<Rightarrow> bool" where
  "utc_job j \<longleftrightarrow> valid_dt (rj_start j) \<and> tzo (rj_start j) = Some 0 \<and> valid_dt (rj_end j) \<and> tzo (rj_end j) = Some 0
     \<and> rj_timeframe j \<noteq> [] \<and> rj_priority j \<noteq> []"

lemma texts_of_map: "texts_of (PList (map PStr xs)) = Inr xs"
  by (cases xs) (simp_all add: texts_of_def py_or_def py_iter_def comp_def)

lemma job_of_update:
  assumes "utc_job j" "st \<noteq> []"
  shows "job_from_mapping now (queue_update t st p b e r j) =
     Inr (j\<lparr>rj_manual := rj_manual j \<or> st = ''manual_csv_required'', rj_retries := (case r of None \<Rightarrow> rj_retries j | Some n \<Rightarrow> n), rj_status := st\<rparr>)"
proof -
  have i: "py_int (py_or (PInt n) (PInt 0)) = Inr n" for n by (simp add: py_or_def)
  have o: "py_str (py_or (PStr s) (PStr [])) = s" for s by (simp add: py_or_def)
  show ?thesis
    using assms by (simp add: queue_update_def job_from_mapping_def texts_of_map i o parse_dt_iso or_now_def utc_job_def) (simp add: py_or_def)
qed

text \<open>The line a job writes reads back as the job with its new status and retries.\<close>

theorem queue_line_roundtrip:
  assumes "utc_job j" "st \<noteq> []"
  shows "job_from_mapping now (queue_update t st p b e r j) =
     Inr (j\<lparr>rj_manual := rj_manual j \<or> st = ''manual_csv_required'', rj_retries := (case r of None \<Rightarrow> rj_retries j | Some n \<Rightarrow> n), rj_status := st\<rparr>)"
  by (rule job_of_update [OF assms])

lemma latest_jobs_snoc:
  "latest_jobs (ls @ [Some (PDict d)]) acc = Inr latest \<Longrightarrow> dget d ''job_id'' = PStr k \<Longrightarrow> k \<noteq> [] \<Longrightarrow> map_of latest k = Some d"
proof (induction ls arbitrary: acc)
  case Nil
  then show ?case by auto
next
  case (Cons l ls)
  then show ?case by (auto simp: bind_res_eq_Inr split: option.splits if_splits)
qed

lemma map_res_mem: "map_res f xs = Inr ys \<Longrightarrow> x \<in> set xs \<Longrightarrow> \<exists>y \<in> set ys. f x = Inr y"
  by (auto simp: map_res_list_all2 dest: list_all2_mem1)

text \<open>A job whose last line says that it is completed is in the queue again when that is loaded.\<close>

theorem completed_job_stays_queued:
  assumes "load_queue clock (ls @ [Some (PDict (queue_update t ''completed'' p b e r j))]) = Inr js" "utc_job j" "rj_id j \<noteq> []"
  shows "\<exists>j' \<in> set js. rj_id j' = rj_id j \<and> rj_status j' = ''completed'' \<and> rj_symbols j' = rj_symbols j"
proof -
  let ?d = "queue_update t ''completed'' p b e r j"
  obtain latest js0 where l: "latest_jobs (ls @ [Some (PDict ?d)]) [] = Inr latest" "map_res (\<lambda>(k, d). job_from_mapping (clock k) d) latest = Inr js0"
    "sort_jobs js0 = Inr js"
    using assms(1) by (auto simp: load_queue_def bind_res_eq_Inr)
  have "dget ?d ''job_id'' = PStr (rj_id j)" by (simp add: queue_update_def)
  then have "map_of latest (rj_id j) = Some ?d" by (rule latest_jobs_snoc [OF l(1) _ assms(3)])
  then have "(rj_id j, ?d) \<in> set latest" by (rule map_of_SomeD)
  from map_res_mem [OF l(2) this] obtain j' where j': "j' \<in> set js0" "job_from_mapping (clock (rj_id j)) ?d = Inr j'" by auto
  have "rj_id j' = rj_id j \<and> rj_status j' = ''completed'' \<and> rj_symbols j' = rj_symbols j"
    using job_of_update [OF assms(2), of "''completed''" "clock (rj_id j)" t p b e r] j'(2) by auto
  moreover have "set js = set js0" using l(3) by (auto simp: sort_jobs_def split: if_splits)
  ultimately show ?thesis using j'(1) by blast
qed

text \<open>The worklog entry of a manual job has the task of its payload, whatever task it is written for.\<close>

theorem worklog_loses_task: "dget (worklog_line now task (manual_job t j symbol)) ''task'' = PStr ''manual_csv''"
  by (simp add: worklog_line_def manual_job_def Let_def)

section \<open>Witnesses\<close>

definition demo_rj_ts :: pydt where
  "demo_rj_ts = \<lparr>yr = 2025, mo = 3, dy = 14, hh = 9, mi = 30, ss = 0, us = 0, tzo = Some 0\<rparr>"

definition demo_rj :: resync_job where
  "demo_rj = \<lparr>rj_id = ''job-1'', rj_group = PStr ''g'', rj_start = demo_rj_ts, rj_end = demo_rj_ts, rj_symbols = [''EURUSD''], rj_timeframe = ''M5'',
     rj_priority = ''normal'', rj_plan = [], rj_manual = False, rj_retries = 0, rj_status = ''queued'', rj_index = PInt 1, rj_total = PInt 1\<rparr>"

definition demo_jc :: job_clock where
  "demo_jc = \<lparr>jc_update = demo_rj_ts, jc_manual = (\<lambda>_. (demo_rj_ts, demo_rj_ts))\<rparr>"

lemma demo_utc_job: "utc_job demo_rj"
  by (simp add: utc_job_def demo_rj_def demo_rj_ts_def valid_dt_def month_len_def)

theorem resync_counts_witness:
  "\<exists>w' s. resync (\<lambda>_. FillFailed ''no provider'') False [(demo_jc, demo_rj)] \<lparr>rw_queue = [], rw_manual = [], rw_worklog = []\<rparr> = (w', Inr s)
     \<and> rs_failed s = 1 \<and> rs_manual s = 1 \<and> length (rw_manual w') = 1"
proof -
  have j: "rj_id demo_rj \<noteq> []" "\<not> rj_manual demo_rj" "length (rj_symbols demo_rj) = 1" by (simp_all add: demo_rj_def)
  have "\<exists>w' s. resync (\<lambda>_. FillFailed ''no provider'') False [(demo_jc, demo_rj)] \<lparr>rw_queue = [], rw_manual = [], rw_worklog = []\<rparr> = (w', Inr s)"
    by (simp add: resync_def process_one_def j split: prod.split)
  then obtain w' s where r: "resync (\<lambda>_. FillFailed ''no provider'') False [(demo_jc, demo_rj)] \<lparr>rw_queue = [], rw_manual = [], rw_worklog = []\<rparr> = (w', Inr s)"
    by blast
  from resync_counts [OF r] j have "rs_failed s = 1 \<and> rs_manual s = 1 \<and> length (rw_manual w') = 1"
    by (auto simp: is_failed_def manual_jobs_def)
  with r show ?thesis by blast
qed

theorem queue_line_roundtrip_witness:
  "job_from_mapping (demo_rj_ts, demo_rj_ts) (queue_update demo_rj_ts ''completed'' None (Some 12) None (Some 0) demo_rj) = Inr (demo_rj\<lparr>rj_status := ''completed''\<rparr>)"
  using queue_line_roundtrip [OF demo_utc_job, of "''completed''"] by (simp add: demo_rj_def)

theorem completed_job_stays_queued_witness:
  "\<exists>js. load_queue (\<lambda>_. (demo_rj_ts, demo_rj_ts)) [Some (PDict (queue_update demo_rj_ts ''completed'' None (Some 12) None (Some 0) demo_rj))] = Inr js
     \<and> filter (\<lambda>j. rj_status j = ''completed'') js \<noteq> []"
proof -
  let ?u = "queue_update demo_rj_ts ''completed'' None (Some 12) None (Some 0) demo_rj"
  have "dget ?u ''job_id'' = PStr ''job-1''" by (simp add: queue_update_def demo_rj_def)
  moreover have "job_from_mapping (demo_rj_ts, demo_rj_ts) ?u = Inr (demo_rj\<lparr>rj_status := ''completed''\<rparr>)"
    by (simp add: job_of_update [OF demo_utc_job]) (simp add: demo_rj_def)
  moreover have "sort_jobs [demo_rj\<lparr>rj_status := ''completed''\<rparr>] = Inr (sort_key job_key [demo_rj\<lparr>rj_status := ''completed''\<rparr>])"
    by (simp add: sort_jobs_def sort_group_def sort_index_def py_or_def demo_rj_def)
  ultimately have "\<exists>js. load_queue (\<lambda>_. (demo_rj_ts, demo_rj_ts)) ([] @ [Some (PDict ?u)]) = Inr js"
    by (simp add: load_queue_def)
  then obtain js where l: "load_queue (\<lambda>_. (demo_rj_ts, demo_rj_ts)) ([] @ [Some (PDict (queue_update demo_rj_ts ''completed'' None (Some 12) None (Some 0) demo_rj))]) = Inr js"
    by blast
  have "rj_id demo_rj \<noteq> []" by (simp add: demo_rj_def)
  from completed_job_stays_queued [OF l demo_utc_job this] l show ?thesis by (auto simp: filter_empty_conv)
qed

end
