(* ===== verification/Orb.thy ===== *)
theory Orb
  imports PyStamp Systems
begin

text \<open>
  The opening-range strategy, \<open>strategies/us_orb_vwap_retest.py\<close>: per symbol a session that collects the
  range and the volume-weighted price, then waits for a breakout and, within a deadline, for a retest of
  that price, when it signals. What the feature context looks up is an argument: the last element of
  a series, or an exception. An attribute the gate or the configuration does not have is \<open>PNone\<close>.

  Shown: the defensive branches are never reached, since the fields of a breakout are set and cleared
  together; a session signals exactly on a retest that holds; never more signals in a session than
  its limit; and no signal without the required features or past the kill switch, the board mode, the
  spread limit or the hours.
\<close>

section \<open>Reading parameters\<close>

definition coerce_or :: "pyval \<Rightarrow> pyfloat \<Rightarrow> pyfloat res" where
  "coerce_or v x0 = (case v of PNone \<Rightarrow> Inr x0 | PInt _ \<Rightarrow> py_float v | _ \<Rightarrow> (case py_float v of Inr x \<Rightarrow> Inr x | Inl _ \<Rightarrow> Inr x0))"

definition coerce_int :: "pyval \<Rightarrow> int \<Rightarrow> int" where
  "coerce_int v n0 = (if v = PNone then n0 else case py_int v of Inr n \<Rightarrow> n | Inl _ \<Rightarrow> n0)"

definition normalize_token :: "pyval \<Rightarrow> string" where
  "normalize_token v = (if v = PNone then [] else str_lower (str_strip (py_str v)))"

definition entry_params :: "pyval \<Rightarrow> pydict" where
  "entry_params params = mapping_or_empty (dget (mapping_or_empty params) ''entry'')"

definition filter_params :: "pyval \<Rightarrow> pydict" where
  "filter_params params = (let nested = mapping_or_empty (dget (entry_params params) ''filters'')
     in if nested \<noteq> [] then nested else mapping_or_empty (dget (mapping_or_empty params) ''filters''))"

definition execution_params :: "pyval \<Rightarrow> pydict" where
  "execution_params params = mapping_or_empty (dget (mapping_or_empty params) ''execution'')"

text \<open>\<open>int\<close> of a text that is no integer raises.\<close>

definition timeframe_to_minutes :: "string \<Rightarrow> int res" where
  "timeframe_to_minutes token = (let t = str_lower (str_strip token);
       units = (\<lambda>k. case parse_int (butlast t) of None \<Rightarrow> Inl ValueError | Some n \<Rightarrow> Inr (max 1 n * k))
     in if ends_with ''m'' t then units 1 else if ends_with ''h'' t then units 60 else if ends_with ''d'' t then units 1440 else Inr 5)"

definition parse_hhmm :: "pyval \<Rightarrow> int \<Rightarrow> int \<times> int" where
  "parse_hhmm v h0 = (case v of
       PStr s \<Rightarrow> (let token = str_strip s in case split_once '':'' token of
           Some (a, b) \<Rightarrow> (case (parse_int a, parse_int b) of
               (Some h, Some m) \<Rightarrow> if 0 \<le> h \<and> h \<le> 23 \<and> 0 \<le> m \<and> m \<le> 59 then (h, m) else (h0, 0) | _ \<Rightarrow> (h0, 0))
         | None \<Rightarrow> (case parse_int token of Some h \<Rightarrow> if 0 \<le> h \<and> h \<le> 23 then (h, 0) else (h0, 0) | None \<Rightarrow> (h0, 0)))
     | _ \<Rightarrow> (h0, 0))"

definition parse_session_range :: "pyval \<Rightarrow> int \<times> int" where
  "parse_session_range v = (case v of
       PStr s \<Rightarrow> (case split_once ''-'' s of
           Some (a, b) \<Rightarrow> (case (parse_int (str_strip a), parse_int (str_strip b)) of
               (Some x, Some y) \<Rightarrow> if 0 \<le> x \<and> x \<le> 23 \<and> 0 \<le> y \<and> y \<le> 23 then (x, y) else (13, 21) | _ \<Rightarrow> (13, 21))
         | None \<Rightarrow> (13, 21))
     | _ \<Rightarrow> (13, 21))"

definition session_allowed :: "pydt \<Rightarrow> int \<Rightarrow> int \<Rightarrow> bool" where
  "session_allowed ts a b = (if a \<le> b then a \<le> int (hh ts) \<and> int (hh ts) \<le> b else a \<le> int (hh ts) \<or> int (hh ts) \<le> b)"

fun split_commas :: "string \<Rightarrow> string \<Rightarrow> string list" where
  "split_commas acc [] = [rev acc]"
| "split_commas acc (c # s) = (if c = CHR '','' then rev acc # split_commas [] s else split_commas (c # acc) s)"

definition allowed_token_set :: "pyval \<Rightarrow> string list" where
  "allowed_token_set v = map str_lower (filter (\<lambda>t. t \<noteq> []) (map str_strip (case v of
       PNone \<Rightarrow> [] | PStr s \<Rightarrow> split_commas [] s | PList xs \<Rightarrow> map py_str xs | _ \<Rightarrow> [py_str v])))"

text \<open>An empty set stands for the default.\<close>

definition tokens_or :: "pyval \<Rightarrow> string list \<Rightarrow> string list" where
  "tokens_or v ts0 = (let ts = allowed_token_set v in if ts = [] then ts0 else ts)"

section \<open>The context\<close>

record orb_context =
  oc_keys :: "string list"
  oc_now :: "pydt option"
  oc_timeframe :: pyval
  oc_watchlist :: "string list"
  oc_params :: pyval
  oc_kill :: pyval
  oc_reduce_only :: pyval
  oc_board :: pyval
  oc_config_board :: pyval
  oc_readiness :: pyval
  oc_lookup :: "string \<Rightarrow> string \<Rightarrow> pyval res"

definition filled_text :: "pyval \<Rightarrow> string option" where
  "filled_text v = (case v of PStr s \<Rightarrow> let t = str_strip s in if t = [] then None else Some (str_lower t) | _ \<Rightarrow> None)"

definition kill_switch_state :: "orb_context \<Rightarrow> string" where
  "kill_switch_state c = (case filled_text (oc_kill c) of Some t \<Rightarrow> t
     | None \<Rightarrow> if truthy (oc_reduce_only c) then ''soft_stop'' else ''normal'')"

definition board_mode :: "orb_context \<Rightarrow> string" where
  "board_mode c = (case filled_text (oc_board c) of Some t \<Rightarrow> t
     | None \<Rightarrow> (case filled_text (oc_config_board c) of Some t \<Rightarrow> t
       | None \<Rightarrow> (case filled_text (oc_readiness c) of Some t \<Rightarrow> if t = ''guarded'' \<or> t = ''halted'' then t else ''normal'' | None \<Rightarrow> ''normal'')))"

definition orb_features :: "string list" where
  "orb_features = [''open_5m'', ''high_5m'', ''low_5m'', ''close_5m'', ''volume_5m'', ''atr_14_1h'', ''session_tag_5m'']"

section \<open>The settings of a call\<close>

record orb_limits =
  ol_min_breakout :: pyfloat
  ol_breakout_atr :: pyfloat
  ol_breakout_cost :: pyfloat
  ol_vwap_bias :: pyfloat
  ol_min_retest :: pyfloat
  ol_retest_cost :: pyfloat
  ol_retest_atr :: pyfloat
  ol_cost_ratio :: pyfloat

record orb_config =
  og_start :: "int \<times> int"
  og_wraps :: bool
  og_timeframe :: int
  og_minutes :: int
  og_retest_bars :: int
  og_max_signals :: int
  og_cost :: pyfloat
  og_tags :: "string list"
  og_directions :: "string list"
  og_limits :: orb_limits
  og_now :: pydt

definition read_positive :: "pydict \<Rightarrow> string \<Rightarrow> pyfloat \<Rightarrow> pyfloat res" where
  "read_positive d k x0 = bind_res (coerce_or (dget d k) x0) (\<lambda>x. Inr (fmax (Fin 0) x))"

definition session_hours :: "orb_context \<Rightarrow> int \<times> int" where
  "session_hours c = (let entry = entry_params (oc_params c); filters = filter_params (oc_params c)
     in parse_session_range (dget_def entry ''session_utc_range'' (dget_def filters ''session_utc_range'' (PStr ''13-21''))))"

definition start_time :: "orb_context \<Rightarrow> int \<times> int" where
  "start_time c = (let h = fst (session_hours c); v = dget (entry_params (oc_params c)) ''session_start_utc''
     in parse_hhmm (if v = PNone then PStr (if h = 13 then ''13:30'' else pad_str 2 (nat h) @ '':00'') else v) h)"

text \<open>The limits of the filters, in the order in which they are read.\<close>

definition read_limits :: "pydict \<Rightarrow> orb_limits res" where
  "read_limits f = bind_res (read_positive f ''min_breakout_abs'' (rnd (3 / 100))) (\<lambda>x1. bind_res (read_positive f ''breakout_atr_mult'' (Fin (1 / 4))) (\<lambda>x2.
     bind_res (read_positive f ''breakout_cost_mult'' (Fin 3)) (\<lambda>x3. bind_res (read_positive f ''vwap_bias_cost_mult'' (Fin (1 / 2))) (\<lambda>x4.
     bind_res (read_positive f ''retest_min_abs'' (rnd (1 / 100))) (\<lambda>x5. bind_res (read_positive f ''retest_cost_mult'' (rnd (12 / 10))) (\<lambda>x6.
     bind_res (read_positive f ''retest_atr_mult'' (rnd (5 / 100))) (\<lambda>x7. bind_res (coerce_or (dget f ''max_cost_to_range_ratio'') (Fin (- 1))) (\<lambda>x8.
       Inr \<lparr>ol_min_breakout = x1, ol_breakout_atr = x2, ol_breakout_cost = x3, ol_vwap_bias = x4, ol_min_retest = x5, ol_retest_cost = x6,
              ol_retest_atr = x7, ol_cost_ratio = x8\<rparr>))))))))"

text \<open>The tests before the loop: the spread, the kill switch, the board mode.\<close>

definition gates_open :: "orb_context \<Rightarrow> pyfloat \<Rightarrow> pyfloat \<Rightarrow> bool" where
  "gates_open c spread spread_max \<longleftrightarrow> (let filters = filter_params (oc_params c) in
     \<not> (fge spread_max (Fin 0) \<and> fgt spread spread_max)
     \<and> kill_switch_state c \<notin> set (tokens_or (dget filters ''kill_switch_blocked_states'') [''soft_stop'', ''hard_stop'', ''triggered''])
     \<and> board_mode c \<in> set (tokens_or (dget filters ''board_modes'') [''normal'', ''guarded'']))"

text \<open>None where the call returns early without a signal.\<close>

definition resolve_config :: "orb_context \<Rightarrow> orb_config option res" where
  "resolve_config c = (if \<not> list_all (\<lambda>k. k \<in> set (oc_keys c)) orb_features then Inr None
     else let entry = entry_params (oc_params c); filters = filter_params (oc_params c); execution = execution_params (oc_params c); (a, b) = session_hours c
       in bind_res (timeframe_to_minutes (py_str (dget_def entry ''timeframe'' (py_or (oc_timeframe c) (PStr ''5m''))))) (\<lambda>tf.
          bind_res (read_positive execution ''spread'' (Fin 0)) (\<lambda>spread. bind_res (read_positive execution ''slippage'' (Fin 0)) (\<lambda>slippage.
          bind_res (coerce_or (dget filters ''spread_max'') (Fin (- 1))) (\<lambda>spread_max.
            if \<not> gates_open c spread spread_max then Inr None
            else bind_res (read_limits filters) (\<lambda>limits. case oc_now c of None \<Rightarrow> Inr None | Some t \<Rightarrow> bind_res (as_utc t) (\<lambda>now.
                 Inr (if session_allowed now a b then Some \<lparr>og_start = start_time c, og_wraps = b < a, og_timeframe = tf,
                   og_minutes = max tf (coerce_int (dget entry ''orb_minutes'') 30), og_retest_bars = max 1 (coerce_int (dget entry ''retest_max_bars'') 6),
                   og_max_signals = max 1 (coerce_int (dget entry ''max_signals_per_session'') 1), og_cost = fadd spread slippage,
                   og_tags = tokens_or (dget_def entry ''allowed_session_tags'' (dget filters ''allowed_session_tags'')) [''newyork'', ''overlap'', ''us''],
                   og_directions = tokens_or (dget_def entry ''allowed_directions'' (dget filters ''allowed_directions'')) [''long'', ''short''],
                   og_limits = limits, og_now = now\<rparr> else None))))))))"

section \<open>Sessions\<close>

record orb_session =
  os_date :: "nat \<times> nat \<times> nat"
  os_start :: pydt
  os_orb_end :: pydt
  os_bars :: int
  os_high :: "pyfloat option"
  os_low :: "pyfloat option"
  os_pv :: pyfloat
  os_volume :: pyfloat
  os_direction :: "string option"
  os_level :: "pyfloat option"
  os_price :: "pyfloat option"
  os_at :: "pydt option"
  os_deadline :: "pydt option"
  os_emitted :: int

definition reset_breakout :: "orb_session \<Rightarrow> orb_session" where
  "reset_breakout s = s\<lparr>os_direction := None, os_level := None, os_price := None, os_at := None, os_deadline := None\<rparr>"

type_synonym orb_states = "(string \<times> orb_session) list"

definition session_date :: "orb_config \<Rightarrow> (nat \<times> nat \<times> nat) res" where
  "session_date g = (let now = og_now g; today = (yr now, mo now, dy now)
     in if \<not> og_wraps g then Inr today
        else if fst (og_start g) < int (hh now) \<or> fst (og_start g) = int (hh now) \<and> snd (og_start g) \<le> int (mi now) then Inr today
        else bind_res (dt_plus (- 86400000000) now) (\<lambda>d. Inr (yr d, mo d, dy d)))"

text \<open>A new session goes in; past 64 symbols the ones of the oldest starts go out.\<close>

definition evict :: "orb_states \<Rightarrow> orb_states" where
  "evict st = (if length st \<le> 64 then st
     else let stale = map fst (take (length st - 64) (sort_key (epoch_us \<circ> os_start \<circ> snd) st)) in filter (\<lambda>(k, s). k \<notin> set stale) st)"

definition new_session :: "nat \<times> nat \<times> nat \<Rightarrow> pydt \<Rightarrow> pydt \<Rightarrow> orb_session" where
  "new_session d start_ts orb_end = \<lparr>os_date = d, os_start = start_ts, os_orb_end = orb_end, os_bars = 0, os_high = None, os_low = None, os_pv = Fin 0,
     os_volume = Fin 0, os_direction = None, os_level = None, os_price = None, os_at = None, os_deadline = None, os_emitted = 0\<rparr>"

definition session_begin :: "orb_config \<Rightarrow> nat \<times> nat \<times> nat \<Rightarrow> pydt" where
  "session_begin g = (\<lambda>(y, m, d). \<lparr>yr = y, mo = m, dy = d, hh = nat (fst (og_start g)), mi = nat (snd (og_start g)), ss = 0, us = 0, tzo = Some 0\<rparr>)"

definition resolve_state :: "orb_config \<Rightarrow> string \<Rightarrow> orb_states \<Rightarrow> (orb_states \<times> orb_session option) res" where
  "resolve_state g symbol st = bind_res (session_date g) (\<lambda>d. let begin_ts = session_begin g d in
     if epoch_us (og_now g) < epoch_us begin_ts then Inr (st, None)
     else bind_res (dt_plus (og_minutes g * 60000000) begin_ts) (\<lambda>orb_end. Inr (case map_of st symbol of
         Some s \<Rightarrow> if os_date s = d then (st, Some s)
           else let s' = new_session d begin_ts orb_end in (evict (AList.update symbol s' st), Some s')
       | None \<Rightarrow> let s' = new_session d begin_ts orb_end in (evict (AList.update symbol s' st), Some s'))))"

section \<open>One bar\<close>

record orb_bar =
  ob_open :: pyfloat
  ob_high :: pyfloat
  ob_low :: pyfloat
  ob_close :: pyfloat
  ob_volume :: pyfloat
  ob_atr :: pyfloat
  ob_tag :: pyval

text \<open>A lookup or conversion that raises skips the symbol.\<close>

definition read_bar :: "(string \<Rightarrow> pyval res) \<Rightarrow> orb_bar res" where
  "read_bar look = (let num = (\<lambda>k. bind_res (look k) (\<lambda>v. coerce_or v (Fin 0))) in
     bind_res (num ''open_5m'') (\<lambda>a. bind_res (num ''high_5m'') (\<lambda>h. bind_res (num ''low_5m'') (\<lambda>l. bind_res (num ''close_5m'') (\<lambda>c.
     bind_res (num ''volume_5m'') (\<lambda>v. bind_res (num ''atr_14_1h'') (\<lambda>r. bind_res (look ''session_tag_5m'') (\<lambda>t.
       Inr \<lparr>ob_open = a, ob_high = h, ob_low = l, ob_close = c, ob_volume = fmax (Fin 0) v, ob_atr = r, ob_tag = t\<rparr>))))))))"

definition usable_bar :: "orb_config \<Rightarrow> orb_bar \<Rightarrow> bool" where
  "usable_bar g b \<longleftrightarrow> \<not> (fle (ob_high b) (Fin 0) \<or> fle (ob_low b) (Fin 0) \<or> fle (ob_close b) (Fin 0)) \<and> normalize_token (ob_tag b) \<in> set (og_tags g)"

definition add_volume :: "orb_bar \<Rightarrow> orb_session \<Rightarrow> orb_session" where
  "add_volume b s = (if fgt (ob_volume b) (Fin 0) then s\<lparr>os_pv := fadd (os_pv s) (fmul (ob_close b) (ob_volume b)), os_volume := fadd (os_volume s) (ob_volume b)\<rparr> else s)"

definition vwap :: "orb_session \<Rightarrow> pyfloat option" where
  "vwap s = (if fgt (os_volume s) (Fin 0) then Some (fquot (os_pv s) (os_volume s)) else None)"

definition extend_range :: "orb_bar \<Rightarrow> orb_session \<Rightarrow> orb_session" where
  "extend_range b s = s\<lparr>os_bars := os_bars s + 1, os_high := Some (case os_high s of None \<Rightarrow> ob_high b | Some x \<Rightarrow> fmax x (ob_high b)),
     os_low := Some (case os_low s of None \<Rightarrow> ob_low b | Some x \<Rightarrow> fmin x (ob_low b))\<rparr>"

definition orb_width :: "pyfloat \<Rightarrow> pyfloat \<Rightarrow> pyfloat" where
  "orb_width hi lo = fmax (Fin 0) (fsub hi lo)"

definition cost_allowed :: "orb_config \<Rightarrow> pyfloat \<Rightarrow> bool" where
  "cost_allowed g w = (let r = ol_cost_ratio (og_limits g) in
     if fge r (Fin 0) \<and> fgt w (Fin 0) then \<not> fgt (fquot (og_cost g) w) r else \<not> (fge r (Fin 0) \<and> fle w (Fin 0)))"

text \<open>Python's \<open>max\<close> of three.\<close>

definition breakout_buffer :: "orb_config \<Rightarrow> orb_bar \<Rightarrow> pyfloat" where
  "breakout_buffer g b = (let l = og_limits g in fmax (fmax (ol_min_breakout l) (fmul (ob_atr b) (ol_breakout_atr l))) (fmul (og_cost g) (ol_breakout_cost l)))"

definition breakout_side :: "orb_config \<Rightarrow> orb_bar \<Rightarrow> pyfloat \<Rightarrow> pyfloat \<Rightarrow> pyfloat \<Rightarrow> string option" where
  "breakout_side g b v hi lo = (let buffer = breakout_buffer g b; bias = fmul (og_cost g) (ol_vwap_bias (og_limits g)); c = ob_close b in
     if ''long'' \<in> set (og_directions g) \<and> fgt c (fadd hi buffer) \<and> fge c (fadd v bias) then Some ''long''
     else if ''short'' \<in> set (og_directions g) \<and> flt c (fsub lo buffer) \<and> fle c (fsub v bias) then Some ''short'' else None)"

definition seek_breakout :: "orb_config \<Rightarrow> orb_bar \<Rightarrow> pyfloat \<Rightarrow> pyfloat \<Rightarrow> orb_session \<Rightarrow> orb_session \<times> unit res" where
  "seek_breakout g b hi lo s = (case vwap s of None \<Rightarrow> (s, Inr ()) | Some v \<Rightarrow> (case breakout_side g b v hi lo of None \<Rightarrow> (s, Inr ())
     | Some d \<Rightarrow> let s1 = s\<lparr>os_direction := Some d, os_level := Some (if d = ''long'' then hi else lo), os_price := Some (ob_close b), os_at := Some (og_now g)\<rparr>
         in case dt_plus (og_timeframe g * og_retest_bars g * 60000000) (og_now g) of Inl e \<Rightarrow> (s1, Inl e)
           | Inr t \<Rightarrow> (s1\<lparr>os_deadline := Some t\<rparr>, Inr ())))"

record orb_signal =
  sg_symbol :: string
  sg_direction :: string
  sg_confidence :: pyfloat
  sg_score :: pyfloat
  sg_high :: pyfloat
  sg_low :: pyfloat
  sg_width :: pyfloat
  sg_vwap :: pyfloat
  sg_distance :: pyfloat
  sg_cost :: pyfloat

definition retest_tolerance :: "orb_config \<Rightarrow> orb_bar \<Rightarrow> pyfloat" where
  "retest_tolerance g b = (let l = og_limits g in fmax (fmax (ol_min_retest l) (fmul (og_cost g) (ol_retest_cost l))) (fmul (ob_atr b) (ol_retest_atr l)))"

text \<open>The price touched, held and went on.\<close>

definition retest_holds :: "orb_config \<Rightarrow> orb_bar \<Rightarrow> string \<Rightarrow> pyfloat \<Rightarrow> pyfloat \<Rightarrow> pyfloat \<Rightarrow> bool" where
  "retest_holds g b d v level price = (let c = ob_close b; tol = retest_tolerance g b in
     if d = ''long'' then fle (ob_low b) (fadd v tol) \<and> fge c v \<and> fge c level \<and> fge c price \<and> fge c (ob_open b)
     else fge (ob_high b) (fsub v tol) \<and> fle c v \<and> fle c level \<and> fle c price \<and> fle c (ob_open b))"

definition make_signal :: "orb_config \<Rightarrow> orb_bar \<Rightarrow> string \<Rightarrow> string \<Rightarrow> pyfloat \<Rightarrow> pyfloat \<Rightarrow> pyfloat \<Rightarrow> pyfloat \<Rightarrow> orb_signal" where
  "make_signal g b symbol d v hi lo level = (let dist = (if d = ''long'' then fsub (ob_close b) level else fsub level (ob_close b));
       quality = fmax (rnd (1 / 10)) (fquot dist (fmax (og_cost g) (rnd (1 / 1000000))))
     in \<lparr>sg_symbol = symbol, sg_direction = d, sg_confidence = fround 4 (fmin (Fin 3) quality), sg_score = fround 4 quality,
         sg_high = fround 6 hi, sg_low = fround 6 lo, sg_width = fround 6 (orb_width hi lo), sg_vwap = fround 6 v,
         sg_distance = fround 6 dist, sg_cost = fround 6 (og_cost g)\<rparr>)"

definition past_deadline :: "orb_config \<Rightarrow> orb_session \<Rightarrow> bool" where
  "past_deadline g s \<longleftrightarrow> (case os_deadline s of None \<Rightarrow> False | Some t \<Rightarrow> epoch_us t < epoch_us (og_now g))"

definition retest :: "orb_config \<Rightarrow> orb_bar \<Rightarrow> string \<Rightarrow> string \<Rightarrow> pyfloat \<Rightarrow> pyfloat \<Rightarrow> orb_session \<Rightarrow> orb_session \<times> orb_signal option" where
  "retest g b symbol d hi lo s = (if past_deadline g s then (reset_breakout s, None)
     else case vwap s of None \<Rightarrow> (s, None)
       | Some v \<Rightarrow> (case (os_level s, os_price s) of
           (Some level, Some price) \<Rightarrow>
             if d = ''long'' \<and> flt (ob_close b) lo \<or> d = ''short'' \<and> fgt (ob_close b) hi then (reset_breakout s, None)
             else if retest_holds g b d v level price
               then (reset_breakout (s\<lparr>os_emitted := os_emitted s + 1\<rparr>), Some (make_signal g b symbol d v hi lo level))
               else (s, None)
         | _ \<Rightarrow> (reset_breakout s, None)))"

definition orb_step :: "orb_config \<Rightarrow> orb_bar \<Rightarrow> string \<Rightarrow> orb_session \<Rightarrow> orb_session \<times> orb_signal option res" where
  "orb_step g b symbol s0 = (let s = add_volume b s0 in
     if epoch_us (og_now g) < epoch_us (os_orb_end s) then (extend_range b s, Inr None)
     else if os_bars s < max 1 (og_minutes g div og_timeframe g) then (s, Inr None)
     else case (os_high s, os_low s) of
         (Some hi, Some lo) \<Rightarrow> if \<not> cost_allowed g (orb_width hi lo) then (s, Inr None)
           else (case os_direction s of
               None \<Rightarrow> (case seek_breakout g b hi lo s of (s', Inl e) \<Rightarrow> (s', Inl e) | (s', Inr _) \<Rightarrow> (s', Inr None))
             | Some d \<Rightarrow> (case retest g b symbol d hi lo s of (s', r) \<Rightarrow> (s', Inr r)))
       | _ \<Rightarrow> (s, Inr None))"

section \<open>A call\<close>

text \<open>The session is changed in place: the dictionary shows it where it still holds it.\<close>

definition put_session :: "string \<Rightarrow> orb_session \<Rightarrow> orb_states \<Rightarrow> orb_states" where
  "put_session symbol s st = (if map_of st symbol = None then st else AList.update symbol s st)"

definition orb_symbol :: "orb_context \<Rightarrow> orb_config \<Rightarrow> string \<Rightarrow> orb_states \<Rightarrow> orb_states \<times> orb_signal option res" where
  "orb_symbol c g symbol st = (case resolve_state g symbol st of
       Inl e \<Rightarrow> (st, Inl e)
     | Inr (st1, None) \<Rightarrow> (st1, Inr None)
     | Inr (st1, Some s) \<Rightarrow> if og_max_signals g \<le> os_emitted s then (st1, Inr None)
         else (case read_bar (oc_lookup c symbol) of Inl e \<Rightarrow> (st1, Inr None)
           | Inr b \<Rightarrow> if \<not> usable_bar g b then (st1, Inr None)
               else (case orb_step g b symbol s of (s', r) \<Rightarrow> (put_session symbol s' st1, r))))"

fun orb_symbols :: "orb_context \<Rightarrow> orb_config \<Rightarrow> string list \<Rightarrow> orb_states \<Rightarrow> orb_states \<times> orb_signal list res" where
  "orb_symbols c g [] st = (st, Inr [])"
| "orb_symbols c g (x # xs) st = (case orb_symbol c g x st of
       (st1, Inl e) \<Rightarrow> (st1, Inl e)
     | (st1, Inr r) \<Rightarrow> (case orb_symbols c g xs st1 of
           (st2, Inl e) \<Rightarrow> (st2, Inl e)
         | (st2, Inr rs) \<Rightarrow> (st2, Inr (case r of None \<Rightarrow> rs | Some sig \<Rightarrow> sig # rs))))"

definition watched :: "string list \<Rightarrow> orb_context \<Rightarrow> string list" where
  "watched default_list c = sort (remdups (if oc_watchlist c = [] then default_list else oc_watchlist c))"

definition generate_signals :: "string list \<Rightarrow> orb_context \<Rightarrow> orb_states \<Rightarrow> orb_states \<times> orb_signal list res" where
  "generate_signals default_list c st = (case resolve_config c of Inl e \<Rightarrow> (st, Inl e) | Inr None \<Rightarrow> (st, Inr [])
     | Inr (Some g) \<Rightarrow> orb_symbols c g (watched default_list c) st)"

section \<open>One bar of a session\<close>

text \<open>The fields of a breakout are set and cleared together.\<close>

definition session_ok :: "orb_session \<Rightarrow> bool" where
  "session_ok s \<longleftrightarrow> (case os_direction s of None \<Rightarrow> os_level s = None \<and> os_price s = None \<and> os_deadline s = None
     | Some d \<Rightarrow> (d = ''long'' \<or> d = ''short'') \<and> os_level s \<noteq> None \<and> os_price s \<noteq> None)"

lemma session_part_simps [simp]:
  "os_direction (add_volume b s) = os_direction s" "os_level (add_volume b s) = os_level s" "os_price (add_volume b s) = os_price s"
  "os_deadline (add_volume b s) = os_deadline s" "os_emitted (add_volume b s) = os_emitted s" "os_date (add_volume b s) = os_date s"
  "os_high (add_volume b s) = os_high s" "os_low (add_volume b s) = os_low s" "os_bars (add_volume b s) = os_bars s" "os_orb_end (add_volume b s) = os_orb_end s"
  "os_emitted (extend_range b s) = os_emitted s" "os_date (extend_range b s) = os_date s" "session_ok (extend_range b s) = session_ok s"
  "session_ok (add_volume b s) = session_ok s" "past_deadline g (add_volume b s) = past_deadline g s"
  "session_ok (reset_breakout s)" "os_emitted (reset_breakout s) = os_emitted s" "os_date (reset_breakout s) = os_date s"
  "session_ok (new_session d a e)" "os_direction (new_session d a e) = None" "os_emitted (new_session d a e) = 0" "os_date (new_session d a e) = d"
  by (simp_all add: add_volume_def extend_range_def reset_breakout_def session_ok_def new_session_def past_deadline_def split: option.split)

lemma breakout_side_words: "breakout_side g b v hi lo = Some d \<Longrightarrow> d = ''long'' \<or> d = ''short''"
  by (auto simp: breakout_side_def Let_def split: if_splits)

lemma seek_breakout_result:
  assumes "seek_breakout g b hi lo s = (s', r)" "session_ok s"
  shows "session_ok s' \<and> os_emitted s' = os_emitted s \<and> os_date s' = os_date s"
proof (cases "vwap s")
  case None
  with assms show ?thesis by (simp add: seek_breakout_def)
next
  case (Some v)
  show ?thesis
  proof (cases "breakout_side g b v hi lo")
    case None
    with assms Some show ?thesis by (simp add: seek_breakout_def)
  next
    case d: (Some d)
    from breakout_side_words [OF d] assms Some d show ?thesis
      by (cases "dt_plus (og_timeframe g * og_retest_bars g * 60000000) (og_now g)") (auto simp: seek_breakout_def session_ok_def Let_def)
  qed
qed

text \<open>What a signal of a retest means.\<close>

definition retest_signal :: "orb_config \<Rightarrow> orb_bar \<Rightarrow> string \<Rightarrow> orb_session \<Rightarrow> orb_signal \<Rightarrow> bool" where
  "retest_signal g b symbol s sig \<longleftrightarrow> (\<exists>v level price hi lo. vwap (add_volume b s) = Some v \<and> os_direction s = Some (sg_direction sig)
     \<and> os_level s = Some level \<and> os_price s = Some price \<and> os_high s = Some hi \<and> os_low s = Some lo
     \<and> epoch_us (os_orb_end s) \<le> epoch_us (og_now g) \<and> \<not> past_deadline g s \<and> cost_allowed g (orb_width hi lo)
     \<and> retest_holds g b (sg_direction sig) v level price \<and> sig = make_signal g b symbol (sg_direction sig) v hi lo level)"

lemma make_signal_sel [simp]: "sg_symbol (make_signal g b x d v hi lo level) = x" "sg_direction (make_signal g b x d v hi lo level) = d"
  by (simp_all add: make_signal_def Let_def)

lemma retest_signal_direction: "retest_signal g b symbol s sig \<Longrightarrow> os_direction s = Some (sg_direction sig) \<and> sg_symbol sig = symbol"
  unfolding retest_signal_def by (elim exE conjE) (metis make_signal_sel(1))

lemma retest_result:
  assumes "retest g b symbol d hi lo s = (s', r)" "session_ok s" "os_direction s = Some d"
  shows "session_ok s' \<and> os_date s' = os_date s \<and> os_emitted s' = os_emitted s + (if r = None then 0 else 1)
    \<and> (\<forall>sig. r = Some sig \<longrightarrow> (\<exists>v level price. vwap s = Some v \<and> os_level s = Some level \<and> os_price s = Some price \<and> \<not> past_deadline g s
         \<and> retest_holds g b d v level price \<and> sig = make_signal g b symbol d v hi lo level))"
proof -
  obtain level price where l: "os_level s = Some level" "os_price s = Some price" using assms(2,3) by (auto simp: session_ok_def)
  show ?thesis
  proof (cases "vwap s")
    case None
    with assms l show ?thesis by (auto simp: retest_def split: if_splits)
  next
    case (Some v)
    have "(s', r) = (if past_deadline g s then (reset_breakout s, None)
        else if d = ''long'' \<and> flt (ob_close b) lo \<or> d = ''short'' \<and> fgt (ob_close b) hi then (reset_breakout s, None)
        else if retest_holds g b d v level price
          then (reset_breakout (s\<lparr>os_emitted := os_emitted s + 1\<rparr>), Some (make_signal g b symbol d v hi lo level))
        else (s, None))" unfolding assms(1) [symmetric] retest_def by (simp add: Some l)
    with Some l assms(2) show ?thesis by (simp split: if_splits)
  qed
qed

lemma orb_step_result:
  assumes "orb_step g b symbol s = (s', r)" "session_ok s"
  shows "session_ok s' \<and> os_date s' = os_date s \<and> os_emitted s' = os_emitted s + (if \<exists>sig. r = Inr (Some sig) then 1 else 0)
    \<and> (\<forall>sig. r = Inr (Some sig) \<longrightarrow> retest_signal g b symbol s sig)"
proof -
  let ?s = "add_volume b s"
  consider (range) "epoch_us (og_now g) < epoch_us (os_orb_end s)" | (few) "epoch_us (os_orb_end s) \<le> epoch_us (og_now g)" "os_bars s < max 1 (og_minutes g div og_timeframe g)"
    | (open_range) "epoch_us (os_orb_end s) \<le> epoch_us (og_now g)" "\<not> os_bars s < max 1 (og_minutes g div og_timeframe g)" by linarith
  then show ?thesis
  proof cases
    case range
    with assms show ?thesis by (auto simp: orb_step_def Let_def)
  next
    case few
    with assms show ?thesis by (auto simp: orb_step_def Let_def)
  next
    case open_range
    show ?thesis
    proof (cases "\<exists>hi lo. os_high s = Some hi \<and> os_low s = Some lo \<and> cost_allowed g (orb_width hi lo)")
      case False
      then have "orb_step g b symbol s = (?s, Inr None)" using open_range by (auto simp: orb_step_def Let_def split: option.split)
      with assms show ?thesis by auto
    next
      case True
      then obtain hi lo where h: "os_high s = Some hi" "os_low s = Some lo" "cost_allowed g (orb_width hi lo)" by blast
      show ?thesis
      proof (cases "os_direction s")
        case None
        obtain s1 q where k: "seek_breakout g b hi lo ?s = (s1, q)" by (cases "seek_breakout g b hi lo ?s")
        with open_range h None assms(1) have "s' = s1" "\<nexists>sig. r = Inr (Some sig)" by (auto simp: orb_step_def Let_def split: sum.splits)
        with seek_breakout_result [OF k] assms(2) show ?thesis by simp
      next
        case (Some d)
        obtain s1 q where k: "retest g b symbol d hi lo ?s = (s1, q)" by (cases "retest g b symbol d hi lo ?s")
        with open_range h Some assms(1) have "s' = s1" "r = Inr q" by (auto simp: orb_step_def Let_def)
        with retest_result [OF k] Some assms(2) h open_range(1) show ?thesis by (auto simp: retest_signal_def)
      qed
    qed
  qed
qed

section \<open>The sessions of a strategy\<close>

definition states_ok :: "orb_states \<Rightarrow> bool" where
  "states_ok st \<longleftrightarrow> wf_dict st \<and> dict_all session_ok st"

definition emitted :: "orb_states \<Rightarrow> string \<Rightarrow> int" where
  "emitted st x = (case map_of st x of None \<Rightarrow> 0 | Some s \<Rightarrow> os_emitted s)"

lemma map_of_filter_key: "map_of (filter (\<lambda>(k, v). Q k) d) k = (if Q k then map_of d k else None)"
  by (induction d) auto

lemma wf_dict_filter: "wf_dict d \<Longrightarrow> wf_dict (filter P d)"
  by (simp add: wf_dict_def distinct_map_filter)

lemma evict_result:
  "wf_dict st \<Longrightarrow> wf_dict (evict st) \<and> map_of (evict st) k \<in> {map_of st k, None} \<and> (length st \<le> 64 \<longrightarrow> evict st = st)"
  by (auto simp: evict_def Let_def map_of_filter_key wf_dict_filter)

lemma resolve_state_cases:
  assumes "resolve_state g x st = Inr (st', r)"
  obtains (wait) "st' = st" "r = None"
  | (kept) d s where "session_date g = Inr d" "st' = st" "r = Some s" "map_of st x = Some s" "os_date s = d"
  | (fresh) d a e where "session_date g = Inr d" "st' = evict (AList.update x (new_session d a e) st)" "r = Some (new_session d a e)"
      "\<And>s. map_of st x = Some s \<Longrightarrow> os_date s \<noteq> d"
proof (cases "session_date g")
  case (Inl e)
  with assms show ?thesis by (simp add: resolve_state_def)
next
  case (Inr d)
  let ?start = "session_begin g d"
  show ?thesis
  proof (cases "epoch_us (og_now g) < epoch_us ?start")
    case True
    with assms Inr wait show ?thesis by (simp add: resolve_state_def Let_def)
  next
    case False
    with assms Inr obtain e where e: "dt_plus (og_minutes g * 60000000) ?start = Inr e"
      by (auto simp: resolve_state_def Let_def elim!: bind_res_InrE)
    show ?thesis
    proof (cases "\<exists>s. map_of st x = Some s \<and> os_date s = d")
      case True
      then obtain s where k: "map_of st x = Some s" "os_date s = d" by blast
      with assms Inr False e have "st' = st" "r = Some s" by (simp_all add: resolve_state_def Let_def)
      with kept [OF Inr] k show ?thesis by blast
    next
      case other: False
      with assms Inr False e have "st' = evict (AList.update x (new_session d ?start e) st)" "r = Some (new_session d ?start e)"
        by (auto simp: resolve_state_def Let_def split: option.splits)
      from fresh [OF Inr this] other show ?thesis by blast
    qed
  qed
qed

lemma orb_symbol_cases:
  assumes "orb_symbol c g x st = (st', r)"
  obtains (skipped) "st' = st" "\<nexists>sig. r = Inr (Some sig)"
  | (made) st1 s where "resolve_state g x st = Inr (st1, Some s)" "st' = st1" "\<nexists>sig. r = Inr (Some sig)"
  | (bar) st1 s b s' where "resolve_state g x st = Inr (st1, Some s)" "os_emitted s < og_max_signals g" "read_bar (oc_lookup c x) = Inr b"
      "usable_bar g b" "orb_step g b x s = (s', r)" "st' = put_session x s' st1"
proof (cases "resolve_state g x st")
  case (Inl e)
  with assms have "st' = st" "r = Inl e" by (auto simp: orb_symbol_def)
  from skipped [OF this(1)] this(2) show ?thesis by simp
next
  case (Inr p)
  obtain st1 o1 where p: "p = (st1, o1)" by (cases p)
  show ?thesis
  proof (cases o1)
    case None
    with Inr p have "st1 = st" by (auto elim: resolve_state_cases)
    with assms Inr p None have "st' = st" "r = Inr None" by (auto simp: orb_symbol_def)
    from skipped [OF this(1)] this(2) show ?thesis by simp
  next
    case (Some s)
    note rs = Inr [unfolded p Some]
    show ?thesis
    proof (cases "os_emitted s < og_max_signals g \<and> (\<exists>b. read_bar (oc_lookup c x) = Inr b \<and> usable_bar g b)")
      case True
      then obtain b where b: "os_emitted s < og_max_signals g" "read_bar (oc_lookup c x) = Inr b" "usable_bar g b" by blast
      obtain s' q where q: "orb_step g b x s = (s', q)" by (cases "orb_step g b x s")
      with assms rs b have "q = r" "st' = put_session x s' st1" by (simp_all add: orb_symbol_def)
      with bar [OF rs b(1,2,3)] q show ?thesis by simp
    next
      case False
      with assms rs have "st' = st1" "r = Inr None" by (auto simp: orb_symbol_def split: sum.splits if_splits)
      with made [OF rs] show ?thesis by simp
    qed
  qed
qed

lemma fresh_states:
  fixes s0 :: orb_session
  assumes "states_ok st" "session_ok s0"
  shows "states_ok (evict (AList.update x s0 st)) \<and> map_of (evict (AList.update x s0 st)) y \<in> {map_of (AList.update x s0 st) y, None}"
proof -
  have "wf_dict (AList.update x s0 st)" using assms(1) by (simp add: states_ok_def)
  note ev = evict_result [OF this]
  have all: "dict_all session_ok (AList.update x s0 st)" using assms by (simp add: states_ok_def dict_all_update)
  have "dict_all session_ok (evict (AList.update x s0 st))" unfolding dict_all_def
  proof (intro allI impI)
    fix k v
    assume "map_of (evict (AList.update x s0 st)) k = Some v"
    with ev [of k] have "map_of (AList.update x s0 st) k = Some v" by auto
    with all show "session_ok v" unfolding dict_all_def by blast
  qed
  with ev [of y] show ?thesis by (simp add: states_ok_def)
qed

lemma resolve_state_ok:
  assumes "resolve_state g x st = Inr (st1, Some s)" "states_ok st"
  shows "states_ok st1" "session_ok s" "y \<noteq> x \<Longrightarrow> map_of st1 y \<in> {map_of st y, None}" "os_direction s \<noteq> None \<Longrightarrow> map_of st x = Some s"
proof -
  from assms(1) have "states_ok st1 \<and> session_ok s \<and> (y \<noteq> x \<longrightarrow> map_of st1 y \<in> {map_of st y, None}) \<and> (os_direction s \<noteq> None \<longrightarrow> map_of st x = Some s)"
  proof (cases rule: resolve_state_cases)
    case (kept d s2)
    with assms(2) show ?thesis by (auto simp: states_ok_def dict_all_def)
  next
    case (fresh d a e)
    then have s: "s = new_session d a e" "st1 = evict (AList.update x s st)" by simp_all
    from s(1) have "session_ok s" "os_direction s = None" by simp_all
    with fresh_states [OF assms(2), of s x y] s(2) show ?thesis by (cases "y = x") auto
  qed simp
  then show "states_ok st1" "session_ok s" "y \<noteq> x \<Longrightarrow> map_of st1 y \<in> {map_of st y, None}" "os_direction s \<noteq> None \<Longrightarrow> map_of st x = Some s" by blast+
qed

lemma orb_symbol_result:
  assumes "orb_symbol c g x st = (st', r)" "states_ok st"
  shows "states_ok st'" "y \<noteq> x \<Longrightarrow> map_of st' y \<in> {map_of st y, None}"
    "r = Inr (Some sig) \<Longrightarrow> sg_symbol sig = x \<and> (\<exists>s b. map_of st x = Some s \<and> os_emitted s < og_max_signals g
         \<and> read_bar (oc_lookup c x) = Inr b \<and> usable_bar g b \<and> retest_signal g b x s sig)"
proof -
  from assms(1) have "states_ok st' \<and> (y \<noteq> x \<longrightarrow> map_of st' y \<in> {map_of st y, None}) \<and> (r = Inr (Some sig) \<longrightarrow> sg_symbol sig = x
      \<and> (\<exists>s b. map_of st x = Some s \<and> os_emitted s < og_max_signals g \<and> read_bar (oc_lookup c x) = Inr b \<and> usable_bar g b \<and> retest_signal g b x s sig))"
  proof (cases rule: orb_symbol_cases)
    case skipped
    with assms(2) show ?thesis by simp
  next
    case (made st1 s)
    have "r \<noteq> Inr (Some sig)" using made(3) by blast
    with made(2) resolve_state_ok(1,3) [OF made(1) assms(2)] show ?thesis by simp
  next
    case (bar st1 s b s')
    note st1 = resolve_state_ok [OF bar(1) assms(2)]
    note step = orb_step_result [OF bar(5) st1(2)]
    have "states_ok st'" using bar(6) st1(1) step by (auto simp: put_session_def states_ok_def intro: dict_all_update)
    moreover have "y \<noteq> x \<longrightarrow> map_of st' y \<in> {map_of st y, None}" using bar(6) st1(3) by (simp add: put_session_def)
    moreover have "sg_symbol sig = x \<and> (\<exists>s b. map_of st x = Some s \<and> os_emitted s < og_max_signals g
        \<and> read_bar (oc_lookup c x) = Inr b \<and> usable_bar g b \<and> retest_signal g b x s sig)" if "r = Inr (Some sig)"
    proof -
      from step that have sig: "retest_signal g b x s sig" by simp
      from retest_signal_direction [OF this] have d: "os_direction s \<noteq> None" and x: "sg_symbol sig = x" by simp_all
      from st1(4) [OF d] bar(2-4) sig x show ?thesis by (intro conjI exI [of _ s] exI [of _ b])
    qed
    ultimately show ?thesis by simp
  qed
  then show "states_ok st'" "y \<noteq> x \<Longrightarrow> map_of st' y \<in> {map_of st y, None}"
    "r = Inr (Some sig) \<Longrightarrow> sg_symbol sig = x \<and> (\<exists>s b. map_of st x = Some s \<and> os_emitted s < og_max_signals g
         \<and> read_bar (oc_lookup c x) = Inr b \<and> usable_bar g b \<and> retest_signal g b x s sig)" by blast+
qed

section \<open>Every signal respects the gates\<close>

lemma orb_symbols_signal:
  assumes "orb_symbols c g xs st = (st', Inr sigs)" "sig \<in> set sigs" "states_ok st" "distinct xs"
  shows "sg_symbol sig \<in> set xs \<and> (\<exists>s b. map_of st (sg_symbol sig) = Some s \<and> os_emitted s < og_max_signals g
     \<and> read_bar (oc_lookup c (sg_symbol sig)) = Inr b \<and> usable_bar g b \<and> retest_signal g b (sg_symbol sig) s sig)"
  using assms
proof (induction xs arbitrary: st sigs)
  case (Cons x xs)
  obtain st1 r where one: "orb_symbol c g x st = (st1, r)" by (cases "orb_symbol c g x st")
  obtain st2 q where rest: "orb_symbols c g xs st1 = (st2, q)" by (cases "orb_symbols c g xs st1")
  from Cons.prems(1) one rest obtain o1 rs where r: "r = Inr o1" "q = Inr rs" "sigs = (case o1 of None \<Rightarrow> rs | Some sig \<Rightarrow> sig # rs)" "st2 = st'"
    by (auto split: sum.splits)
  note result = orb_symbol_result [OF one Cons.prems(3)]
  consider (here) "o1 = Some sig" | (later) "sig \<in> set rs" using Cons.prems(2) r(3) by (cases o1) auto
  then show ?case
  proof cases
    case here
    with r have "r = Inr (Some sig)" by simp
    from result(3) [OF this] show ?thesis by auto
  next
    case later
    from Cons.prems(4) have d: "distinct xs" "x \<notin> set xs" by simp_all
    from Cons.IH [OF rest [unfolded r(2,4)] later result(1) d(1)] obtain s b where
      IH: "sg_symbol sig \<in> set xs" "map_of st1 (sg_symbol sig) = Some s" "os_emitted s < og_max_signals g"
        "read_bar (oc_lookup c (sg_symbol sig)) = Inr b" "usable_bar g b" "retest_signal g b (sg_symbol sig) s sig" by blast
    with d(2) have "sg_symbol sig \<noteq> x" by auto
    from result(2) [OF this] IH(2) have "map_of st (sg_symbol sig) = Some s" by auto
    with IH show ?thesis by auto
  qed
qed simp

text \<open>The spread of the configuration within its limit; a negative limit is none.\<close>

definition spread_within_limit :: "orb_context \<Rightarrow> bool" where
  "spread_within_limit c \<longleftrightarrow> (case (read_positive (execution_params (oc_params c)) ''spread'' (Fin 0), coerce_or (dget (filter_params (oc_params c)) ''spread_max'') (Fin (- 1))) of
     (Inr spread, Inr limit) \<Rightarrow> fge limit (Fin 0) \<longrightarrow> \<not> fgt spread limit | _ \<Rightarrow> False)"

lemma resolve_config_open:
  assumes "resolve_config c = Inr (Some g)"
  shows "list_all (\<lambda>k. k \<in> set (oc_keys c)) orb_features \<and> spread_within_limit c \<and> (\<exists>spread spread_max. gates_open c spread spread_max)
    \<and> session_allowed (og_now g) (fst (session_hours c)) (snd (session_hours c)) \<and> (\<exists>t. oc_now c = Some t \<and> as_utc t = Inr (og_now g))"
  using assms
  by (auto simp: resolve_config_def Let_def bind_res_eq_Inr case_prod_beta spread_within_limit_def gates_open_def split: if_splits option.splits)

definition blocked_states :: "orb_context \<Rightarrow> string list" where
  "blocked_states c = tokens_or (dget (filter_params (oc_params c)) ''kill_switch_blocked_states'') [''soft_stop'', ''hard_stop'', ''triggered'']"

definition board_modes :: "orb_context \<Rightarrow> string list" where
  "board_modes c = tokens_or (dget (filter_params (oc_params c)) ''board_modes'') [''normal'', ''guarded'']"

lemma symbols_states_ok: "states_ok st \<Longrightarrow> states_ok (fst (orb_symbols c g xs st))"
proof (induction xs arbitrary: st)
  case (Cons x xs)
  obtain st1 r where one: "orb_symbol c g x st = (st1, r)" by (cases "orb_symbol c g x st")
  from Cons.IH [OF orb_symbol_result(1) [OF one Cons.prems]] orb_symbol_result(1) [OF one Cons.prems] one show ?case
    by (cases r; cases "orb_symbols c g xs st1") (auto split: sum.split)
qed simp

definition orb_call :: "string list \<Rightarrow> orb_states \<Rightarrow> orb_context \<Rightarrow> orb_states" where
  "orb_call ws st c = fst (generate_signals ws c st)"

interpretation orb_sessions: step_system "orb_call ws" states_ok for ws
proof unfold_locales
  fix st c
  assume "states_ok st"
  then show "states_ok (orb_call ws st c)"
    by (auto simp: orb_call_def generate_signals_def symbols_states_ok split: sum.splits option.splits)
qed

lemma states_ok_Nil: "states_ok []"
  by (simp add: states_ok_def)

text \<open>C34: After any calls, a signal comes only with every required feature in the context, with the spread within its limit, past an open kill
  switch and board mode and within the hours of the clock's time, and only for a breakout that an earlier call recorded and that a usable
  bar retests in time.\<close>

theorem signal_respects_gates:
  assumes "generate_signals ws c (foldl (orb_call ws) [] cs) = (st', Inr sigs)" "sig \<in> set sigs"
  shows "(\<forall>k \<in> set orb_features. k \<in> set (oc_keys c)) \<and> spread_within_limit c
    \<and> kill_switch_state c \<notin> set (blocked_states c) \<and> board_mode c \<in> set (board_modes c)
    \<and> (\<exists>t utc. oc_now c = Some t \<and> as_utc t = Inr utc \<and> session_allowed utc (fst (session_hours c)) (snd (session_hours c)))
    \<and> (\<exists>g s b. resolve_config c = Inr (Some g) \<and> session_allowed (og_now g) (fst (session_hours c)) (snd (session_hours c))
       \<and> map_of (foldl (orb_call ws) [] cs) (sg_symbol sig) = Some s \<and> os_emitted s < og_max_signals g
       \<and> read_bar (oc_lookup c (sg_symbol sig)) = Inr b \<and> usable_bar g b \<and> retest_signal g b (sg_symbol sig) s sig)"
proof -
  have ok: "states_ok (foldl (orb_call ws) [] cs)" by (rule orb_sessions.run_inv [OF states_ok_Nil])
  from assms obtain g where g: "resolve_config c = Inr (Some g)" "orb_symbols c g (watched ws c) (foldl (orb_call ws) [] cs) = (st', Inr sigs)"
    by (auto simp: generate_signals_def split: sum.splits option.splits)
  have "distinct (watched ws c)" by (simp add: watched_def)
  from orb_symbols_signal [OF g(2) assms(2) ok this] obtain s b where
    sig: "map_of (foldl (orb_call ws) [] cs) (sg_symbol sig) = Some s" "os_emitted s < og_max_signals g"
      "read_bar (oc_lookup c (sg_symbol sig)) = Inr b" "usable_bar g b" "retest_signal g b (sg_symbol sig) s sig" by blast
  from resolve_config_open [OF g(1)] have "\<forall>k \<in> set orb_features. k \<in> set (oc_keys c)" "spread_within_limit c"
    "\<exists>t utc. oc_now c = Some t \<and> as_utc t = Inr utc \<and> session_allowed utc (fst (session_hours c)) (snd (session_hours c))" by (auto simp: list_all_iff)
  moreover from resolve_config_open [OF g(1)] have "kill_switch_state c \<notin> set (blocked_states c)" "board_mode c \<in> set (board_modes c)"
    "session_allowed (og_now g) (fst (session_hours c)) (snd (session_hours c))"
    by (auto simp: gates_open_def blocked_states_def board_modes_def Let_def)
  ultimately show ?thesis using g(1) sig by blast
qed

section \<open>The limit of a session\<close>

definition day_states :: "string list \<Rightarrow> nat \<times> nat \<times> nat \<Rightarrow> orb_states \<Rightarrow> bool" where
  "day_states syms d st \<longleftrightarrow> states_ok st \<and> set (map fst st) \<subseteq> set syms \<and> dict_all (\<lambda>s. os_date s = d) st"

lemma few_states: "wf_dict st \<Longrightarrow> set (map fst st) \<subseteq> set syms \<Longrightarrow> length syms \<le> 64 \<Longrightarrow> length st \<le> 64"
  using card_mono [of "set syms" "set (map fst st)"] card_length [of syms] distinct_card [of "map fst st"] by (simp add: wf_dict_def)

lemma keys_update: "set (map fst (AList.update k v d)) = insert k (set (map fst d))"
  using dom_update [of k v d] by (simp add: dom_map_of_conv_image_fst)

lemma day_update:
  "day_states syms d st \<Longrightarrow> x \<in> set syms \<Longrightarrow> session_ok s \<Longrightarrow> os_date s = d \<Longrightarrow> day_states syms d (AList.update x s st)"
  unfolding day_states_def states_ok_def keys_update by (auto intro: dict_all_update)

lemma day_resolve:
  assumes "resolve_state g x st = Inr (st1, Some s)" "day_states syms d st" "session_date g = Inr d" "x \<in> set syms" "length syms \<le> 64"
  shows "day_states syms d st1 \<and> map_of st1 x = Some s \<and> session_ok s \<and> os_date s = d \<and> emitted st1 = emitted st"
  using assms(1)
proof (cases rule: resolve_state_cases)
  case (kept d1 s1)
  with assms(2) show ?thesis by (auto simp: day_states_def states_ok_def dict_all_def)
next
  case (fresh d1 a e)
  with assms(3) have s: "s = new_session d a e" "st1 = evict (AList.update x s st)" "d1 = d" by simp_all
  have u: "day_states syms d (AList.update x s st)" using day_update [OF assms(2,4)] s(1) by simp
  then have "length (AList.update x s st) \<le> 64" using few_states assms(5) by (auto simp: day_states_def states_ok_def)
  then have st1: "st1 = AList.update x s st" by (simp add: s(2) evict_def)
  have none: "map_of st x = None"
  proof (cases "map_of st x")
    case (Some s')
    with fresh(4) s(3) assms(2) show ?thesis by (simp add: day_states_def dict_all_def)
  qed simp
  have "emitted st1 = emitted st"
    by (rule ext) (simp add: emitted_def st1 none s(1))
  with u st1 s(1) show ?thesis by simp
qed simp

lemma day_symbol:
  assumes "orb_symbol c g x st = (st', r)" "day_states syms d st" "session_date g = Inr d" "x \<in> set syms" "length syms \<le> 64"
    and "\<And>y. emitted st y \<le> m" "og_max_signals g \<le> m"
  shows "day_states syms d st' \<and> emitted st' y = emitted st y + (if y = x \<and> (\<exists>sig. r = Inr (Some sig)) then 1 else 0) \<and> emitted st' y \<le> m"
  using assms(1)
proof (cases rule: orb_symbol_cases)
  case skipped
  with assms(2,6) show ?thesis by simp
next
  case (made st1 s)
  with day_resolve [OF made(1) assms(2-5)] assms(6) show ?thesis by simp
next
  case (bar st1 s b s')
  from day_resolve [OF bar(1) assms(2-5)] have st1: "day_states syms d st1" "map_of st1 x = Some s" "session_ok s" "os_date s = d" "emitted st1 = emitted st" by simp_all
  note step = orb_step_result [OF bar(5) st1(3)]
  have st': "st' = AList.update x s' st1" using bar(6) st1(2) by (simp add: put_session_def)
  have "emitted st x = os_emitted s" using st1(2,5) by (metis (no_types, lifting) emitted_def option.simps(5))
  moreover have "emitted st' y = (if y = x then os_emitted s' else emitted st y)" using st1(5) by (simp add: emitted_def st' flip: st1(5))
  moreover have "day_states syms d st'" unfolding st' using day_update [OF st1(1) assms(4)] step st1(4) by simp
  ultimately show ?thesis using step assms(6) [of y] assms(6) [of x] assms(7) bar(2) by simp
qed

definition signals_of :: "string \<Rightarrow> orb_signal list \<Rightarrow> int" where
  "signals_of x sigs = int (length (filter (\<lambda>s. sg_symbol s = x) sigs))"

lemma day_symbols:
  assumes "orb_symbols c g xs st = (st', r)" "day_states syms d st" "session_date g = Inr d" "set xs \<subseteq> set syms" "length syms \<le> 64"
    and "\<And>y. emitted st y \<le> m" "og_max_signals g \<le> m"
  shows "day_states syms d st' \<and> emitted st y + (case r of Inr sigs \<Rightarrow> signals_of y sigs | Inl _ \<Rightarrow> 0) \<le> emitted st' y \<and> emitted st' y \<le> m"
  using assms(1,2,4,6)
proof (induction xs arbitrary: st st' r)
  case Nil
  then show ?case by (auto simp: signals_of_def)
next
  case (Cons x xs)
  obtain st1 r1 where one: "orb_symbol c g x st = (st1, r1)" by (cases "orb_symbol c g x st")
  from Cons.prems(3) have x: "x \<in> set syms" "set xs \<subseteq> set syms" by simp_all
  note step = day_symbol [OF one Cons.prems(2) assms(3) x(1) assms(5) Cons.prems(4) assms(7)]
  show ?case
  proof (cases r1)
    case (Inl e)
    with Cons.prems(1) one have "st' = st1" "r = Inl e" by simp_all
    with step [of y] show ?thesis by simp
  next
    case (Inr o1)
    obtain st2 q where rest: "orb_symbols c g xs st1 = (st2, q)" by (cases "orb_symbols c g xs st1")
    have st1: "day_states syms d st1" using step [of y] by blast
    have bound: "emitted st1 z \<le> m" for z using step [of z] by blast
    from Cons.IH [OF rest st1 x(2) bound]
    have IH: "day_states syms d st2" "emitted st1 y + (case q of Inr sigs \<Rightarrow> signals_of y sigs | Inl _ \<Rightarrow> 0) \<le> emitted st2 y" "emitted st2 y \<le> m" by simp_all
    have st': "st' = st2" using Cons.prems(1) one rest Inr by (auto split: sum.splits)
    show ?thesis
    proof (cases q)
      case (Inl e)
      with Cons.prems(1) one rest Inr have "r = Inl e" by simp
      with IH Inl st' step [of y] show ?thesis by (auto split: if_splits)
    next
      case q: (Inr rs)
      with Cons.prems(1) one rest Inr have r: "r = Inr (case o1 of None \<Rightarrow> rs | Some sig \<Rightarrow> sig # rs)" by simp
      show ?thesis
      proof (cases o1)
        case None
        with r q IH st' step [of y] Inr show ?thesis by simp
      next
        case (Some sig)
        have "states_ok st" using Cons.prems(2) by (simp add: day_states_def)
        from orb_symbol_result(3) [OF one this] Inr Some have "sg_symbol sig = x" by blast
        with r q IH st' step [of y] Inr Some show ?thesis by (auto simp: signals_of_def split: if_splits)
      qed
    qed
  qed
qed

text \<open>The states with the signals sent so far; calls of one session date over so many symbols.\<close>

definition orb_log :: "string list \<Rightarrow> orb_states \<times> orb_signal list \<Rightarrow> orb_context \<Rightarrow> orb_states \<times> orb_signal list" where
  "orb_log ws = (\<lambda>(st, sigs) c. case generate_signals ws c st of (st', r) \<Rightarrow> (st', sigs @ (case r of Inr new \<Rightarrow> new | Inl _ \<Rightarrow> [])))"

definition day_call :: "string list \<Rightarrow> string list \<Rightarrow> nat \<times> nat \<times> nat \<Rightarrow> int \<Rightarrow> orb_context \<Rightarrow> bool" where
  "day_call ws syms d m c \<longleftrightarrow> set (watched ws c) \<subseteq> set syms \<and> length syms \<le> 64
     \<and> (case resolve_config c of Inr (Some g) \<Rightarrow> session_date g = Inr d \<and> og_max_signals g \<le> m | _ \<Rightarrow> True)"

definition day_inv :: "string list \<Rightarrow> nat \<times> nat \<times> nat \<Rightarrow> int \<Rightarrow> orb_states \<times> orb_signal list \<Rightarrow> bool" where
  "day_inv syms d m = (\<lambda>(st, sigs). day_states syms d st \<and> (\<forall>y. signals_of y sigs \<le> emitted st y \<and> emitted st y \<le> m))"

lemma signals_of_append: "signals_of y (xs @ ys) = signals_of y xs + signals_of y ys"
  by (simp add: signals_of_def)

interpretation orb_day: guarded_system "orb_log ws" "day_call ws syms d m" "day_inv syms d m" for ws syms d m
proof unfold_locales
  fix p c
  assume inv: "day_inv syms d m p" and call: "day_call ws syms d m c"
  obtain st sigs where p: "p = (st, sigs)" by (cases p)
  obtain st' r where g: "generate_signals ws c st = (st', r)" by (cases "generate_signals ws c st")
  have st: "day_states syms d st" "\<And>y. signals_of y sigs \<le> emitted st y" "\<And>y. emitted st y \<le> m" using inv p by (simp_all add: day_inv_def)
  have "day_states syms d st' \<and> emitted st y + (case r of Inr new \<Rightarrow> signals_of y new | Inl _ \<Rightarrow> 0) \<le> emitted st' y \<and> emitted st' y \<le> m" for y
  proof (cases "\<exists>cfg. resolve_config c = Inr (Some cfg)")
    case True
    then obtain cfg where cfg: "resolve_config c = Inr (Some cfg)" by blast
    with g have run: "orb_symbols c cfg (watched ws c) st = (st', r)" by (simp add: generate_signals_def)
    from call cfg have "session_date cfg = Inr d" "set (watched ws c) \<subseteq> set syms" "length syms \<le> 64" "og_max_signals cfg \<le> m" by (simp_all add: day_call_def)
    from day_symbols [OF run st(1) this(1,2,3) st(3) this(4)] show ?thesis .
  next
    case False
    with g have "st' = st" "r = Inr [] \<or> (\<exists>e. r = Inl e)" by (auto simp: generate_signals_def split: sum.splits option.splits)
    with st show ?thesis by (auto simp: signals_of_def)
  qed
  then have "day_states syms d st'" "\<And>y. signals_of y sigs + (case r of Inr new \<Rightarrow> signals_of y new | Inl _ \<Rightarrow> 0) \<le> emitted st' y" "\<And>y. emitted st' y \<le> m"
    using st(2) by (blast, smt (verit), blast)
  then show "day_inv syms d m (orb_log ws p c)"
    by (cases r) (auto simp: day_inv_def orb_log_def p g signals_of_append signals_of_def)
qed

text \<open>C37: In the calls of one session no symbol, of at most 64, gets more signals than the limit.\<close>

theorem session_signal_limit:
  assumes "list_all (day_call ws syms d m) cs" "0 \<le> m"
  shows "signals_of x (snd (foldl (orb_log ws) ([], []) cs)) \<le> m"
proof -
  have "day_inv syms d m ([], [])" using assms(2) by (simp add: day_inv_def day_states_def states_ok_Nil signals_of_def emitted_def)
  from orb_day.allowed_run_inv [OF this assms(1)] show ?thesis
    by (cases "foldl (orb_log ws) ([], []) cs") (auto simp: day_inv_def intro: order_trans)
qed

section \<open>Witnesses\<close>

definition demo_orb_params :: pyval where
  "demo_orb_params = PDict [(''entry'', PDict [(''orb_minutes'', PInt 5)]), (''execution'', PDict [(''spread'', PInt 0)]),
     (''filters'', PDict [(''min_breakout_abs'', PInt 1), (''breakout_atr_mult'', PInt 0), (''breakout_cost_mult'', PInt 0), (''vwap_bias_cost_mult'', PInt 0),
       (''retest_min_abs'', PInt 1), (''retest_cost_mult'', PInt 0), (''retest_atr_mult'', PInt 0)])]"

definition demo_orb_ts :: "nat \<Rightarrow> pydt" where
  "demo_orb_ts m = \<lparr>yr = 2025, mo = 3, dy = 14, hh = 13, mi = m, ss = 0, us = 0, tzo = Some 0\<rparr>"

definition demo_lookup :: "int \<Rightarrow> int \<Rightarrow> int \<Rightarrow> int \<Rightarrow> string \<Rightarrow> string \<Rightarrow> pyval res" where
  "demo_lookup h l c v x k = (if k = ''high_5m'' then Inr (PInt h) else if k = ''low_5m'' then Inr (PInt l)
     else if k = ''volume_5m'' then Inr (PInt v) else if k = ''atr_14_1h'' then Inr (PInt 0)
     else if k = ''session_tag_5m'' then Inr (PStr ''us'') else Inr (PInt c))"

definition demo_orb_context :: "nat \<Rightarrow> int \<Rightarrow> int \<Rightarrow> int \<Rightarrow> int \<Rightarrow> orb_context" where
  "demo_orb_context m h l c v = \<lparr>oc_keys = orb_features, oc_now = Some (demo_orb_ts m\<lparr>tzo := None\<rparr>), oc_timeframe = PStr ''5m'', oc_watchlist = [''USDJPY''],
     oc_params = demo_orb_params, oc_kill = PNone, oc_reduce_only = PNone, oc_board = PNone, oc_config_board = PNone, oc_readiness = PNone,
     oc_lookup = demo_lookup h l c v\<rparr>"

definition demo_orb_config :: "nat \<Rightarrow> orb_config" where
  "demo_orb_config m = \<lparr>og_start = (13, 30), og_wraps = False, og_timeframe = 5, og_minutes = 5, og_retest_bars = 6, og_max_signals = 1, og_cost = Fin 0,
     og_tags = [''newyork'', ''overlap'', ''us''], og_directions = [''long'', ''short''],
     og_limits = \<lparr>ol_min_breakout = Fin 1, ol_breakout_atr = Fin 0, ol_breakout_cost = Fin 0, ol_vwap_bias = Fin 0, ol_min_retest = Fin 1, ol_retest_cost = Fin 0,
       ol_retest_atr = Fin 0, ol_cost_ratio = Fin (- 1)\<rparr>, og_now = demo_orb_ts m\<rparr>"

lemma demo_parses: "parse_session_range (PStr ''13-21'') = (13, 21)" "parse_hhmm (PStr ''13:30'') 13 = (13, 30)" "timeframe_to_minutes ''5m'' = Inr 5"
  "normalize_token (PStr ''us'') = ''us''"
  by code_simp+

lemma int_float: "abs i \<le> 2 ^ 53 \<Longrightarrow> py_float (PInt i) = Inr (Fin (of_int i))"
  by (simp add: py_float_def f_of_int_def rnd_int)

definition demo_orb_filters :: pydict where
  "demo_orb_filters = [(''min_breakout_abs'', PInt 1), (''breakout_atr_mult'', PInt 0), (''breakout_cost_mult'', PInt 0), (''vwap_bias_cost_mult'', PInt 0),
     (''retest_min_abs'', PInt 1), (''retest_cost_mult'', PInt 0), (''retest_atr_mult'', PInt 0)]"

lemma demo_orb_parts:
  "entry_params demo_orb_params = [(''orb_minutes'', PInt 5)]" "execution_params demo_orb_params = [(''spread'', PInt 0)]"
  "filter_params demo_orb_params = demo_orb_filters"
  by (simp_all add: demo_orb_params_def entry_params_def execution_params_def filter_params_def demo_orb_filters_def Let_def)

lemma coerce_or_simps [simp]: "coerce_or PNone x = Inr x" "coerce_or (PInt n) x = py_float (PInt n)"
  by (simp_all add: coerce_or_def)

lemma demo_orb_limits: "read_limits demo_orb_filters = Inr (og_limits (demo_orb_config m))"
  by (simp add: read_limits_def read_positive_def demo_orb_filters_def int_float demo_orb_config_def fmax_def)

lemma demo_orb_gates: "gates_open (demo_orb_context m h l c v) (Fin 0) (Fin (- 1))"
  by (simp add: gates_open_def demo_orb_context_def demo_orb_parts demo_orb_filters_def kill_switch_state_def board_mode_def filled_text_def tokens_or_def
      allowed_token_set_def Let_def)

lemma demo_orb_open: "resolve_config (demo_orb_context m h l c v) = Inr (Some (demo_orb_config m))"
proof -
  have now: "oc_now (demo_orb_context m h l c v) = Some (demo_orb_ts m\<lparr>tzo := None\<rparr>)" "as_utc (demo_orb_ts m\<lparr>tzo := None\<rparr>) = Inr (demo_orb_ts m)"
    by (simp_all add: demo_orb_context_def demo_orb_ts_def as_utc_def)
  have par: "oc_params (demo_orb_context m h l c v) = demo_orb_params" "oc_keys (demo_orb_context m h l c v) = orb_features"
    "oc_timeframe (demo_orb_context m h l c v) = PStr ''5m''" by (simp_all add: demo_orb_context_def)
  have hours: "session_hours (demo_orb_context m h l c v) = (13, 21)" "start_time (demo_orb_context m h l c v) = (13, 30)"
    by (simp_all add: session_hours_def start_time_def par demo_orb_parts demo_orb_filters_def demo_parses Let_def)
  have keys: "list_all (\<lambda>k. k \<in> set orb_features) orb_features" by (simp add: list_all_iff)
  have cost: "read_positive [(''spread'', PInt 0)] ''spread'' (Fin 0) = Inr (Fin 0)" "read_positive [(''spread'', PInt 0)] ''slippage'' (Fin 0) = Inr (Fin 0)"
    by (simp_all add: read_positive_def int_float fmax_def)
  have f: "dget demo_orb_filters k = PNone" if "k \<in> {''spread_max'', ''allowed_session_tags'', ''allowed_directions''}" for k
    using that by (auto simp: demo_orb_filters_def)
  have ok: "session_allowed (demo_orb_ts m) 13 21" by (simp add: session_allowed_def demo_orb_ts_def)
  have tf: "py_str (py_or (PStr ''5m'') (PStr ''5m'')) = ''5m''" by (simp add: py_or_def)
  show ?thesis
    by (simp add: resolve_config_def par hours keys demo_orb_parts tf demo_parses cost f demo_orb_gates demo_orb_limits [of m] now ok Let_def)
      (simp add: demo_orb_config_def coerce_int_def tokens_or_def allowed_token_set_def)
qed

lemma demo_orb_epoch: "epoch_us (demo_orb_ts m) = 1741957200000000 + int m * 60000000" "local_us (demo_orb_ts m) = 1741957200000000 + int m * 60000000"
proof -
  show e: "epoch_us (demo_orb_ts m) = 1741957200000000 + int m * 60000000" by (simp add: demo_orb_ts_def epoch_us_def days_from_civil_def)
  have "tzo (demo_orb_ts m) = Some 0" by (simp add: demo_orb_ts_def)
  with e show "local_us (demo_orb_ts m) = 1741957200000000 + int m * 60000000" by (simp add: local_us_epoch)
qed

lemma demo_orb_later: "dt_plus 300000000 (demo_orb_ts 30) = Inr (demo_orb_ts 35)" "\<exists>t. dt_plus 1800000000 (demo_orb_ts 35) = Inr t \<and> epoch_us t = 1741961100000000"
proof -
  have d: "civil_from_days 20161 = (2025, 3, 14)" by code_simp
  have z: "tzo (demo_orb_ts m) = Some 0" for m by (simp add: demo_orb_ts_def)
  show "dt_plus 300000000 (demo_orb_ts 30) = Inr (demo_orb_ts 35)"
    by (simp add: dt_plus_def z demo_orb_epoch dt_of_local_def d) (simp add: demo_orb_ts_def)
  have "\<exists>t. dt_plus 1800000000 (demo_orb_ts 35) = Inr t" by (simp add: dt_plus_def z demo_orb_epoch dt_of_local_def d)
  then obtain t where "dt_plus 1800000000 (demo_orb_ts 35) = Inr t" by blast
  with dt_plus_result(1) [OF this] show "\<exists>t. dt_plus 1800000000 (demo_orb_ts 35) = Inr t \<and> epoch_us t = 1741961100000000"
    by (simp add: demo_orb_epoch)
qed

lemma demo_bar:
  assumes "0 \<le> v" "abs h \<le> 1000" "abs l \<le> 1000" "abs c \<le> 1000" "v \<le> 1000"
  shows "read_bar (oc_lookup (demo_orb_context m h l c v) x) = Inr \<lparr>ob_open = Fin (of_int c), ob_high = Fin (of_int h), ob_low = Fin (of_int l), ob_close = Fin (of_int c),
     ob_volume = Fin (of_int v), ob_atr = Fin 0, ob_tag = PStr ''us''\<rparr>"
  using assms by (simp add: read_bar_def demo_orb_context_def demo_lookup_def int_float fmax_def Let_def)

definition demo_session :: orb_session where
  "demo_session = (new_session (2025, 3, 14) (demo_orb_ts 30) (demo_orb_ts 35))\<lparr>os_bars := 1, os_high := Some (Fin 110), os_low := Some (Fin 100)\<rparr>"

lemma demo_dates: "session_date (demo_orb_config m) = Inr (2025, 3, 14)" "session_begin (demo_orb_config m) (2025, 3, 14) = demo_orb_ts 30"
  "og_now (demo_orb_config m) = demo_orb_ts m" "og_minutes (demo_orb_config m) = 5" "og_max_signals (demo_orb_config m) = 1"
  by (simp_all add: session_date_def demo_orb_config_def session_begin_def) (simp_all add: demo_orb_ts_def)

lemma demo_first: "orb_symbol (demo_orb_context 30 110 100 104 0) (demo_orb_config 30) x [] = ([(x, demo_session)], Inr None)"
proof -
  have "resolve_state (demo_orb_config 30) x [] = Inr ([(x, new_session (2025, 3, 14) (demo_orb_ts 30) (demo_orb_ts 35))], Some (new_session (2025, 3, 14) (demo_orb_ts 30) (demo_orb_ts 35)))"
    by (simp add: resolve_state_def demo_dates demo_orb_later evict_def Let_def)
  moreover have "orb_step (demo_orb_config 30) \<lparr>ob_open = Fin 104, ob_high = Fin 110, ob_low = Fin 100, ob_close = Fin 104, ob_volume = Fin 0, ob_atr = Fin 0, ob_tag = PStr ''us''\<rparr> x
     (new_session (2025, 3, 14) (demo_orb_ts 30) (demo_orb_ts 35)) = (demo_session, Inr None)"
    by (simp add: orb_step_def demo_dates demo_orb_epoch new_session_def add_volume_def extend_range_def demo_session_def)
  ultimately show ?thesis
    by (simp add: orb_symbol_def demo_dates demo_bar [of 0 110 100 104, simplified] usable_bar_def demo_parses put_session_def) (simp add: demo_orb_config_def)
qed

definition demo_broken :: "pydt \<Rightarrow> orb_session" where
  "demo_broken t = demo_session\<lparr>os_pv := Fin 120, os_volume := Fin 1, os_direction := Some ''long'', os_level := Some (Fin 110), os_price := Some (Fin 120),
     os_at := Some (demo_orb_ts 35), os_deadline := Some t\<rparr>"

lemma demo_session_sel:
  "os_date demo_session = (2025, 3, 14)" "os_orb_end demo_session = demo_orb_ts 35" "os_bars demo_session = 1" "os_high demo_session = Some (Fin 110)"
  "os_low demo_session = Some (Fin 100)" "os_direction demo_session = None" "os_emitted demo_session = 0" "os_pv demo_session = Fin 0" "os_volume demo_session = Fin 0"
  by (simp_all add: demo_session_def new_session_def)

lemma demo_costs: "cost_allowed (demo_orb_config m) w" "og_cost (demo_orb_config m) = Fin 0" "og_timeframe (demo_orb_config m) = 5" "og_retest_bars (demo_orb_config m) = 6"
  by (simp_all add: cost_allowed_def demo_orb_config_def)

lemma demo_kept: "os_date s = (2025, 3, 14) \<Longrightarrow> 30 \<le> m \<Longrightarrow> resolve_state (demo_orb_config m) x [(x, s)] = Inr ([(x, s)], Some s)"
  by (simp add: resolve_state_def demo_dates demo_orb_later demo_orb_epoch Let_def)

lemma demo_second: "\<exists>t. orb_symbol (demo_orb_context 35 120 110 120 1) (demo_orb_config 35) x [(x, demo_session)] = ([(x, demo_broken t)], Inr None) \<and> epoch_us t = 1741961100000000"
proof -
  obtain t where t: "dt_plus 1800000000 (demo_orb_ts 35) = Inr t" "epoch_us t = 1741961100000000" using demo_orb_later(2) by blast
  let ?b = "\<lparr>ob_open = Fin 120, ob_high = Fin 120, ob_low = Fin 110, ob_close = Fin 120, ob_volume = Fin 1, ob_atr = Fin 0, ob_tag = PStr ''us''\<rparr>"
  let ?s = "demo_session\<lparr>os_pv := Fin 120, os_volume := Fin 1\<rparr>"
  have v: "add_volume ?b demo_session = ?s" by (simp add: add_volume_def demo_session_sel rnd_numeral)
  have w: "vwap ?s = Some (Fin 120)" by (simp add: vwap_def fquot_def rnd_numeral)
  have "breakout_side (demo_orb_config 35) ?b (Fin 120) (Fin 110) (Fin 100) = Some ''long''"
    by (simp add: breakout_side_def breakout_buffer_def demo_orb_config_def fmax_def rnd_numeral)
  then have "seek_breakout (demo_orb_config 35) ?b (Fin 110) (Fin 100) ?s = (demo_broken t, Inr ())"
    by (simp add: seek_breakout_def w demo_dates demo_costs t) (simp add: demo_broken_def)
  then have "orb_step (demo_orb_config 35) ?b x demo_session = (demo_broken t, Inr None)"
    by (simp add: orb_step_def v demo_dates demo_orb_epoch demo_session_sel demo_costs Let_def)
  then have "orb_symbol (demo_orb_context 35 120 110 120 1) (demo_orb_config 35) x [(x, demo_session)] = ([(x, demo_broken t)], Inr None)"
    by (simp add: orb_symbol_def demo_kept demo_session_sel demo_dates demo_bar [of 1 120 110 120, simplified] usable_bar_def demo_parses put_session_def)
      (simp add: demo_orb_config_def)
  with t(2) show ?thesis by blast
qed

lemma demo_third:
  assumes "epoch_us t = 1741961100000000"
  shows "\<exists>s sig. orb_symbol (demo_orb_context 40 120 120 120 0) (demo_orb_config 40) x [(x, demo_broken t)] = ([(x, s)], Inr (Some sig))"
proof -
  let ?b = "\<lparr>ob_open = Fin 120, ob_high = Fin 120, ob_low = Fin 120, ob_close = Fin 120, ob_volume = Fin 0, ob_atr = Fin 0, ob_tag = PStr ''us''\<rparr>"
  have sel: "os_date (demo_broken t) = (2025, 3, 14)" "os_orb_end (demo_broken t) = demo_orb_ts 35" "os_bars (demo_broken t) = 1" "os_high (demo_broken t) = Some (Fin 110)"
    "os_low (demo_broken t) = Some (Fin 100)" "os_direction (demo_broken t) = Some ''long''" "os_emitted (demo_broken t) = 0" "os_level (demo_broken t) = Some (Fin 110)"
    "os_price (demo_broken t) = Some (Fin 120)" "os_deadline (demo_broken t) = Some t" by (simp_all add: demo_broken_def demo_session_sel)
  have v: "add_volume ?b (demo_broken t) = demo_broken t" by (simp add: add_volume_def)
  have w: "vwap (demo_broken t) = Some (Fin 120)" by (simp add: vwap_def fquot_def demo_broken_def rnd_numeral)
  have "retest_holds (demo_orb_config 40) ?b ''long'' (Fin 120) (Fin 110) (Fin 120)"
    by (simp add: retest_holds_def retest_tolerance_def demo_orb_config_def fmax_def rnd_numeral)
  then have "\<exists>s sig. retest (demo_orb_config 40) ?b x ''long'' (Fin 110) (Fin 100) (demo_broken t) = (s, Some sig)"
    by (simp add: retest_def w sel past_deadline_def demo_dates demo_orb_epoch assms)
  then obtain s sig where "retest (demo_orb_config 40) ?b x ''long'' (Fin 110) (Fin 100) (demo_broken t) = (s, Some sig)" by blast
  then have "orb_step (demo_orb_config 40) ?b x (demo_broken t) = (s, Inr (Some sig))"
    by (simp add: orb_step_def v demo_dates demo_orb_epoch sel demo_costs Let_def)
  then have "orb_symbol (demo_orb_context 40 120 120 120 0) (demo_orb_config 40) x [(x, demo_broken t)] = ([(x, s)], Inr (Some sig))"
    by (simp add: orb_symbol_def demo_kept sel demo_dates demo_bar [of 0 120 120 120, simplified] usable_bar_def demo_parses put_session_def)
      (simp add: demo_orb_config_def)
  then show ?thesis by blast
qed

text \<open>The three calls: the range, the breakout, the retest.\<close>

definition demo_calls :: "orb_context list" where
  "demo_calls = [demo_orb_context 30 110 100 104 0, demo_orb_context 35 120 110 120 1]"

lemma demo_watched: "watched [] (demo_orb_context m h l c v) = [''USDJPY'']"
  by (simp add: watched_def demo_orb_context_def)

lemma demo_orb_run: "\<exists>t. foldl (orb_call []) [] demo_calls = [(''USDJPY'', demo_broken t)] \<and> epoch_us t = 1741961100000000"
  using demo_second [of "''USDJPY''"] by (auto simp: demo_calls_def orb_call_def generate_signals_def demo_orb_open demo_watched demo_first)

lemma demo_signal: "\<exists>st' sig. generate_signals [] (demo_orb_context 40 120 120 120 0) (foldl (orb_call []) [] demo_calls) = (st', Inr [sig])"
proof -
  obtain t where t: "foldl (orb_call []) [] demo_calls = [(''USDJPY'', demo_broken t)]" "epoch_us t = 1741961100000000" using demo_orb_run by blast
  from demo_third [OF t(2), of "''USDJPY''"] show ?thesis by (auto simp: t(1) generate_signals_def demo_orb_open demo_watched)
qed

theorem signal_respects_gates_witness:
  "\<exists>st' sig. generate_signals [] (demo_orb_context 40 120 120 120 0) (foldl (orb_call []) [] demo_calls) = (st', Inr [sig])
     \<and> spread_within_limit (demo_orb_context 40 120 120 120 0)
     \<and> kill_switch_state (demo_orb_context 40 120 120 120 0) \<notin> set (blocked_states (demo_orb_context 40 120 120 120 0))"
proof -
  obtain st' sig where g: "generate_signals [] (demo_orb_context 40 120 120 120 0) (foldl (orb_call []) [] demo_calls) = (st', Inr [sig])" using demo_signal by blast
  from signal_respects_gates [OF g, of sig] g show ?thesis by auto
qed

theorem session_signal_limit_witness:
  "signals_of ''USDJPY'' (snd (foldl (orb_log []) ([], []) (demo_calls @ [demo_orb_context 40 120 120 120 0]))) \<le> 1"
proof -
  have "day_call [] [''USDJPY''] (2025, 3, 14) 1 (demo_orb_context m h l c v)" for m h l c v
    by (simp add: day_call_def demo_watched demo_orb_open demo_dates)
  then have "list_all (day_call [] [''USDJPY''] (2025, 3, 14) 1) (demo_calls @ [demo_orb_context 40 120 120 120 0])" by (simp add: demo_calls_def)
  from session_signal_limit [OF this] show ?thesis by simp
qed

end
