(* ===== verification/Funding.thy ===== *)
theory Funding
  imports PyStamp
begin

text \<open>
  The funding curve and its CSV loader, \<open>funding/\<close>. A date is its day number since 1970-01-01; a row is
  what \<open>csv.DictReader\<close> gives: keys and values, either of which may be missing.

  Shown: the penalty is threefold exactly on the triple day of the pair; a loaded curve has each pair
  once, in capitals, and a file with a pair twice does not load. And where it fails: the pairs of a
  query are not put in capitals, so a query in other letters finds no rate.
\<close>

section \<open>The curve\<close>

record swap_rate_entry =
  sw_pair :: string
  sw_long :: pyfloat
  sw_short :: pyfloat
  sw_triple :: "string option"
  sw_rollover :: "string option"
  sw_verified :: "string option"
  sw_source :: "string option"

record funding_curve =
  fc_points :: "(int \<times> pyfloat) list"
  fc_swaps :: "(string \<times> swap_rate_entry) list"

definition rate_on :: "int \<Rightarrow> funding_curve \<Rightarrow> pyfloat" where
  "rate_on d c = (case map_of (fc_points c) d of None \<Rightarrow> Fin 0 | Some x \<Rightarrow> x)"

definition is_long :: "string \<Rightarrow> bool" where
  "is_long direction \<longleftrightarrow> str_lower direction = ''long'' \<or> str_lower direction = ''buy''"

definition swap_rate :: "string \<Rightarrow> string \<Rightarrow> funding_curve \<Rightarrow> pyfloat" where
  "swap_rate pair direction c = (case map_of (fc_swaps c) pair of None \<Rightarrow> Fin 0
     | Some e \<Rightarrow> if is_long direction then sw_long e else sw_short e)"

definition weekday_name :: "string \<Rightarrow> int option" where
  "weekday_name day = map_of [(''mon'', 0), (''tue'', 1), (''wed'', 2), (''thu'', 3), (''fri'', 4)] day"

definition is_triple_day :: "int \<Rightarrow> string option \<Rightarrow> bool" where
  "is_triple_day d triple = (case triple of None \<Rightarrow> False | Some t \<Rightarrow> t \<noteq> [] \<and> weekday_name (take 3 (str_lower (str_strip t))) = Some (weekday_of_days d))"

definition swap_penalty :: "string \<Rightarrow> string \<Rightarrow> int \<Rightarrow> funding_curve \<Rightarrow> pyfloat" where
  "swap_penalty pair direction d c = (let r = swap_rate pair direction c in if feq r (Fin 0) then Fin 0
     else if is_triple_day d (case map_of (fc_swaps c) pair of None \<Rightarrow> None | Some e \<Rightarrow> sw_triple e) then fmul r (Fin 3) else r)"

text \<open>\<open>curve or FundingCurve(points={})\<close>: a curve is always true.\<close>

definition funding_service :: "funding_curve option \<Rightarrow> funding_curve" where
  "funding_service c = (case c of None \<Rightarrow> \<lparr>fc_points = [], fc_swaps = []\<rparr> | Some x \<Rightarrow> x)"

section \<open>The loader\<close>

type_synonym csv_raw = "(string option \<times> string option) list list option"

definition funding_error :: "string \<Rightarrow> err" where
  "funding_error m = Raises ''FundingCsvError'' m"

definition clean_row :: "(string option \<times> string option) list \<Rightarrow> (string \<times> string) list" where
  "clean_row row = foldl (\<lambda>d (k, v). case k of None \<Rightarrow> d
     | Some key \<Rightarrow> AList.update (str_lower (str_strip key)) (str_strip (case v of None \<Rightarrow> [] | Some s \<Rightarrow> s)) d) [] row"

definition read_rows :: "string \<Rightarrow> csv_raw \<Rightarrow> (string \<times> string) list list res" where
  "read_rows path f = (case f of None \<Rightarrow> Inl (funding_error (''Funding CSV not found: '' @ path))
     | Some raws \<Rightarrow> let rows = filter (\<lambda>r. r \<noteq> []) (map clean_row raws) in
         if rows = [] then Inl (funding_error (''Funding CSV empty: '' @ path)) else Inr rows)"

text \<open>\<open>row.get(k)\<close>, with the missing one as the empty text that every caller makes of it.\<close>

definition cell :: "(string \<times> string) list \<Rightarrow> string \<Rightarrow> string" where
  "cell row k = (case map_of row k of None \<Rightarrow> [] | Some s \<Rightarrow> s)"

definition parse_date :: "string \<Rightarrow> int res" where
  "parse_date v = (let raw = str_strip v in if raw = [] then Inl (funding_error ''Funding CSV row missing date'')
     else case fromisoformat raw of None \<Rightarrow> Inl (funding_error (''Invalid date: '' @ raw)) | Some t \<Rightarrow> Inr (days_from_civil (yr t) (mo t) (dy t)))"

definition parse_number :: "string \<Rightarrow> pyfloat res" where
  "parse_number v = (let raw = str_strip v in if raw = [] then Inl (funding_error ''Funding CSV row missing numeric value'')
     else case parse_float raw of None \<Rightarrow> Inl (funding_error (''Invalid numeric value: '' @ raw)) | Some x \<Rightarrow> Inr x)"

definition normalize_pair :: "string \<Rightarrow> string option" where
  "normalize_pair v = (let raw = str_upper (str_strip v) in if raw = [] then None else Some raw)"

definition normalize_optional :: "string \<Rightarrow> string option" where
  "normalize_optional v = (let raw = str_strip v in if raw = [] then None else Some raw)"

definition swap_of_row :: "(string \<times> string) list \<Rightarrow> string \<Rightarrow> pyfloat \<Rightarrow> pyfloat \<Rightarrow> swap_rate_entry" where
  "swap_of_row row pair a b = \<lparr>sw_pair = pair, sw_long = a, sw_short = b, sw_triple = normalize_optional (cell row ''triple_day''),
     sw_rollover = normalize_optional (cell row ''rollover_time_utc''), sw_verified = normalize_optional (cell row ''last_verified_at''),
     sw_source = normalize_optional (cell row ''data_source'')\<rparr>"

definition add_row :: "(string \<times> string) list \<Rightarrow> funding_curve \<Rightarrow> funding_curve res" where
  "add_row row c =
     (if cell row ''date'' \<noteq> [] \<and> cell row ''rate'' \<noteq> [] then
        bind_res (parse_date (cell row ''date'')) (\<lambda>d. bind_res (parse_number (cell row ''rate'')) (\<lambda>x. Inr (c\<lparr>fc_points := AList.update d x (fc_points c)\<rparr>)))
      else case normalize_pair (cell row ''pair'') of None \<Rightarrow> Inl (funding_error ''CSV row missing pair'')
        | Some pair \<Rightarrow> if map_of (fc_swaps c) pair \<noteq> None then Inl (funding_error (''Duplicate pair in CSV: '' @ pair))
            else bind_res (parse_number (cell row ''swap_long'')) (\<lambda>a. bind_res (parse_number (cell row ''swap_short'')) (\<lambda>b.
              Inr (c\<lparr>fc_swaps := AList.update pair (swap_of_row row pair a b) (fc_swaps c)\<rparr>))))"

fun add_rows :: "(string \<times> string) list list \<Rightarrow> funding_curve \<Rightarrow> funding_curve res" where
  "add_rows [] c = Inr c"
| "add_rows (r # rs) c = bind_res (add_row r c) (add_rows rs)"

definition load_funding_csv :: "string \<Rightarrow> csv_raw \<Rightarrow> funding_curve res" where
  "load_funding_csv path f = bind_res (read_rows path f) (\<lambda>rows. add_rows rows \<lparr>fc_points = [], fc_swaps = []\<rparr>)"

section \<open>Penalties\<close>

text \<open>The penalty of a pair with a rate is threefold on its triple day and single on every other day; names of the weekend are never one.\<close>

theorem penalty_triple:
  assumes "map_of (fc_swaps c) pair = Some e" "weekday_name (take 3 (str_lower (str_strip t))) = Some w" "sw_triple e = Some t"
  shows "swap_penalty pair direction d c = (if feq (swap_rate pair direction c) (Fin 0) then Fin 0
     else if weekday_of_days d = w then fmul (swap_rate pair direction c) (Fin 3) else swap_rate pair direction c)"
proof -
  have "t \<noteq> []" using assms(2) by (auto simp: weekday_name_def str_lower_def)
  with assms show ?thesis by (auto simp: swap_penalty_def Let_def is_triple_day_def)
qed

section \<open>What is loaded\<close>

definition swaps_ok :: "funding_curve \<Rightarrow> bool" where
  "swaps_ok c \<longleftrightarrow> wf_dict (fc_points c) \<and> wf_dict (fc_swaps c) \<and> list_all (\<lambda>(k, e). sw_pair e = k \<and> k \<noteq> [] \<and> str_upper k = k) (fc_swaps c)"

lemma chr_upper_twice: "chr_upper (chr_upper c) = chr_upper c"
proof (cases "chr_upper c = c")
  case False
  then have "97 \<le> (of_char c :: nat)" and b: "(of_char c :: nat) \<le> 122" and "chr_upper c = char_of (of_char c - 32 :: nat)"
    by (auto simp: chr_upper_def Let_def split: if_splits)
  moreover from this have "(of_char (chr_upper c) :: nat) = of_char c - 32" by simp
  moreover have "\<not> 97 \<le> (of_char c :: nat) - 32" using b by linarith
  ultimately show ?thesis by (subst chr_upper_def) (simp only: Let_def simp_thms if_False)
qed simp

lemma upper_twice: "str_upper (str_upper s) = str_upper s"
  by (simp add: str_upper_def chr_upper_twice)

lemma normalize_pair_upper: "normalize_pair v = Some p \<Longrightarrow> p \<noteq> [] \<and> str_upper p = p"
  by (auto simp: normalize_pair_def Let_def upper_twice split: if_splits)

lemma add_row_cases:
  assumes "add_row row c = Inr c'"
  obtains (point) d x where "cell row ''date'' \<noteq> []" "cell row ''rate'' \<noteq> []" "parse_date (cell row ''date'') = Inr d"
      "c' = c\<lparr>fc_points := AList.update d x (fc_points c)\<rparr>"
  | (swap) pair e where "normalize_pair (cell row ''pair'') = Some pair" "map_of (fc_swaps c) pair = None" "sw_pair e = pair"
      "c' = c\<lparr>fc_swaps := AList.update pair e (fc_swaps c)\<rparr>"
proof (cases "cell row ''date'' \<noteq> [] \<and> cell row ''rate'' \<noteq> []")
  case True
  with assms point show ?thesis by (auto simp: add_row_def bind_res_eq_Inr)
next
  case False
  with assms obtain pair where p: "normalize_pair (cell row ''pair'') = Some pair" "map_of (fc_swaps c) pair = None"
    by (auto simp: add_row_def split: option.splits if_splits)
  from False assms p obtain a b where "c' = c\<lparr>fc_swaps := AList.update pair (swap_of_row row pair a b) (fc_swaps c)\<rparr>"
    by (auto simp: add_row_def bind_res_eq_Inr)
  with swap [OF p, of "swap_of_row row pair a b"] show ?thesis by (simp add: swap_of_row_def)
qed

lemma update_new: "map_of d k = None \<Longrightarrow> AList.update k v d = d @ [(k, v)]"
  by (induction d) (auto split: if_splits)

lemma add_row_ok:
  assumes "add_row row c = Inr c'" "swaps_ok c"
  shows "swaps_ok c'"
  using assms(1)
proof (cases rule: add_row_cases)
  case (point d x)
  with assms(2) show ?thesis by (simp add: swaps_ok_def)
next
  case (swap pair e)
  then have "AList.update pair e (fc_swaps c) = fc_swaps c @ [(pair, e)]" by (simp add: update_new)
  with swap assms(2) normalize_pair_upper [OF swap(1)] show ?thesis
    by (auto simp: swaps_ok_def wf_dict_def map_of_eq_None_iff)
qed

lemma add_rows_ok: "add_rows rows c = Inr c' \<Longrightarrow> swaps_ok c \<Longrightarrow> swaps_ok c'"
  by (induction rows arbitrary: c) (auto simp: bind_res_eq_Inr intro: add_row_ok)

lemma loaded_ok: "load_funding_csv path f = Inr c \<Longrightarrow> swaps_ok c"
proof -
  have "swaps_ok \<lparr>fc_points = [], fc_swaps = []\<rparr>" by (simp add: swaps_ok_def)
  moreover assume "load_funding_csv path f = Inr c"
  ultimately show ?thesis by (auto simp: load_funding_csv_def bind_res_eq_Inr intro: add_rows_ok)
qed

text \<open>A loaded curve has each date and each pair once, the pairs in capitals.\<close>

theorem loaded_pairs_upper:
  assumes "load_funding_csv path f = Inr c"
  shows "swaps_ok c"
  by (rule loaded_ok [OF assms])

text \<open>So a query whose letters are not all capitals finds nothing and has no penalty.\<close>

theorem lower_query_no_penalty:
  assumes "load_funding_csv path f = Inr c" "str_upper pair \<noteq> pair"
  shows "swap_penalty pair direction d c = Fin 0"
proof -
  have "swaps_ok c" by (rule loaded_ok [OF assms(1)])
  then have "map_of (fc_swaps c) pair = None"
    using assms(2) by (auto simp: swaps_ok_def list_all_iff map_of_eq_None_iff)
  then show ?thesis by (simp add: swap_penalty_def swap_rate_def Let_def)
qed

text \<open>A row with a date and a rate is a point of the curve, also where it names a pair: the swap rates of that pair are not read.\<close>

lemma dated_row_no_swap: "cell row ''date'' \<noteq> [] \<Longrightarrow> cell row ''rate'' \<noteq> [] \<Longrightarrow> add_row row c = Inr c' \<Longrightarrow> fc_swaps c' = fc_swaps c"
  by (auto simp: add_row_def bind_res_eq_Inr)

section \<open>Witnesses\<close>

definition demo_funding :: csv_raw where
  "demo_funding = Some [[(Some ''Pair'', Some ''usdjpy''), (Some ''swap_long'', Some ''2''), (Some ''swap_short'', Some ''-3''), (Some ''triple_day'', Some ''Wednesday'')]]"

definition demo_swap :: swap_rate_entry where
  "demo_swap = \<lparr>sw_pair = ''USDJPY'', sw_long = Fin 2, sw_short = Fin (- 3), sw_triple = Some ''Wednesday'', sw_rollover = None, sw_verified = None, sw_source = None\<rparr>"

lemma demo_words: "normalize_pair ''usdjpy'' = Some ''USDJPY''" "normalize_optional ''Wednesday'' = Some ''Wednesday''"
  "normalize_optional [] = None" "weekday_name (take 3 (str_lower (str_strip ''Wednesday''))) = Some 2" "str_upper ''usdjpy'' \<noteq> ''usdjpy''"
  "parse_ufloat ''2'' = Some 2" "parse_ufloat ''3'' = Some 3"
  by code_simp+

lemma demo_numbers: "parse_number ''2'' = Inr (Fin 2)" "parse_number ''-3'' = Inr (Fin (- 3))"
proof -
  have "rnd (- 3) = Fin (- 3)" using rnd_int [of "- 3"] by simp
  then show "parse_number ''2'' = Inr (Fin 2)" "parse_number ''-3'' = Inr (Fin (- 3))"
    by (simp_all add: parse_number_def parse_float_def split_sign_def str_strip_def is_space_def demo_words str_lower_def chr_lower_def rnd_numeral Let_def)
qed

lemma demo_loaded: "load_funding_csv ''funding.csv'' demo_funding = Inr \<lparr>fc_points = [], fc_swaps = [(''USDJPY'', demo_swap)]\<rparr>"
proof -
  have "clean_row [(Some ''Pair'', Some ''usdjpy''), (Some ''swap_long'', Some ''2''), (Some ''swap_short'', Some ''-3''), (Some ''triple_day'', Some ''Wednesday'')]
      = [(''pair'', ''usdjpy''), (''swap_long'', ''2''), (''swap_short'', ''-3''), (''triple_day'', ''Wednesday'')]"
    by code_simp
  then show ?thesis
    by (simp add: load_funding_csv_def read_rows_def demo_funding_def add_row_def cell_def demo_words demo_numbers swap_of_row_def demo_swap_def)
qed

theorem penalty_triple_witness:
  "swap_penalty ''USDJPY'' ''long'' 20161 \<lparr>fc_points = [], fc_swaps = [(''USDJPY'', demo_swap)]\<rparr> = Fin 2"
proof -
  have "weekday_of_days 20161 = 4" "is_long ''long''" by code_simp+
  with penalty_triple [of "\<lparr>fc_points = [], fc_swaps = [(''USDJPY'', demo_swap)]\<rparr>" "''USDJPY''" demo_swap "''Wednesday''" 2 "''long''" 20161] demo_words(4)
  show ?thesis by (simp add: swap_rate_def demo_swap_def)
qed

theorem loaded_pairs_upper_witness: "swaps_ok \<lparr>fc_points = [], fc_swaps = [(''USDJPY'', demo_swap)]\<rparr>"
  by (rule loaded_pairs_upper [OF demo_loaded])

theorem lower_query_no_penalty_witness:
  "swap_penalty ''usdjpy'' ''long'' 20161 \<lparr>fc_points = [], fc_swaps = [(''USDJPY'', demo_swap)]\<rparr> = Fin 0"
  by (rule lower_query_no_penalty [OF demo_loaded demo_words(5)])

end
