(* ===== verification/Ingest.thy ===== *)
theory Ingest
  imports PyStamp
begin

text \<open>
  The guards of the ingestion: the polling stages of \<open>data/rate_limit_guard.py\<close>, the log of
  \<open>data/fallback.py\<close>, and the evaluation of real-time feeds in \<open>data/realtime_evaluator.py\<close>. The licence
  registry is an argument: what its precheck raises, if anything; an alert is its level and message.

  Shown: a stage moves by at most one, up only at a low rate of refusals and down only at a high one;
  a poll interval is never below three seconds; a feed that gets a result is within the cost limit, and
  is alerted exactly where it is too slow. And where it fails: the worker plan can be without workers,
  and no feed is ever rejected.
\<close>

section \<open>Polling stages\<close>

record stage_decision =
  sd_provider :: string
  sd_stage :: string
  sd_decision :: string
  sd_tokens :: pyfloat
  sd_window :: int
  sd_rate :: pyfloat
  sd_max_concurrent :: int
  sd_poll :: pyfloat
  sd_source :: "string option"
  sd_runbook :: "string option"

definition stage_decision_dict :: "stage_decision \<Rightarrow> pydict" where
  "stage_decision_dict s = [(''provider'', PStr (sd_provider s)), (''stage'', PStr (sd_stage s)), (''decision'', PStr (sd_decision s)),
     (''tokens_remaining'', PFloat (sd_tokens s)), (''sample_window_min'', PInt (sd_window s)), (''429_rate'', PFloat (sd_rate s)),
     (''max_concurrent'', PInt (sd_max_concurrent s)), (''poll_interval_sec'', PFloat (sd_poll s)), (''decision_source'', ostr (sd_source s)),
     (''runbook_ref'', ostr (sd_runbook s))]"

record rate_guard =
  rg_per_minute :: pyfloat
  rg_burst :: pyfloat
  rg_poll :: pyfloat
  rg_stages :: "string list"

definition new_rate_guard :: "pyfloat \<Rightarrow> pyfloat \<Rightarrow> pyfloat \<Rightarrow> string list \<Rightarrow> rate_guard" where
  "new_rate_guard per_minute burst poll stages = \<lparr>rg_per_minute = per_minute, rg_burst = burst, rg_poll = poll,
     rg_stages = (if stages = [] then [''stage0''] else stages)\<rparr>"

text \<open>The position of a stage; an unknown stage counts as the first.\<close>

fun first_index :: "string \<Rightarrow> string list \<Rightarrow> nat option" where
  "first_index x [] = None"
| "first_index x (y # ys) = (if x = y then Some 0 else map_option Suc (first_index x ys))"

definition stage_position :: "rate_guard \<Rightarrow> string \<Rightarrow> nat" where
  "stage_position g stage = (case first_index stage (rg_stages g) of None \<Rightarrow> 0 | Some i \<Rightarrow> i)"

definition poll_interval :: "rate_guard \<Rightarrow> string \<Rightarrow> pyfloat" where
  "poll_interval g stage = fmax (fsub (rg_poll g) (fmul (Fin (of_nat (stage_position g stage))) (Fin (3 / 2)))) (Fin 3)"

text \<open>\<open>int\<close> of a quotient; the slots are zero only at an interval without bound.\<close>

definition max_concurrent :: "pyfloat \<Rightarrow> pyfloat \<Rightarrow> int res" where
  "max_concurrent tokens interval = bind_res (fdiv (Fin 60) (fmax interval (Fin 1))) (\<lambda>slots.
     if feq slots (Fin 0) then Inr 1 else bind_res (fdiv tokens slots) (\<lambda>x. py_int (PFloat x)))"

definition move_stage :: "rate_guard \<Rightarrow> pyfloat \<Rightarrow> bool \<Rightarrow> string \<Rightarrow> string \<times> string" where
  "move_stage g rate allow stage = (let i = stage_position g stage; n = length (rg_stages g)
     in if allow \<and> fle rate (rnd (1 / 100)) \<and> i < n - 1 then (rg_stages g ! min (i + 1) (n - 1), ''promote'')
        else if allow \<and> fgt rate (rnd (15 / 1000)) \<and> 0 < i then (rg_stages g ! (i - 1), ''rollback'')
        else (stage, ''hold''))"

definition evaluate_stage :: "string \<Rightarrow> pyfloat \<Rightarrow> string option \<Rightarrow> bool \<Rightarrow> string option \<Rightarrow> string option \<Rightarrow> rate_guard \<Rightarrow> stage_decision res" where
  "evaluate_stage provider rate current allow source runbook g =
     (let stage0 = (case current of Some (c # cs) \<Rightarrow> c # cs | _ \<Rightarrow> hd (rg_stages g)); (stage, decision) = move_stage g rate allow stage0;
          tokens = fmin (rg_burst g) (rg_per_minute g); interval = poll_interval g stage
      in bind_res (max_concurrent tokens interval) (\<lambda>n. Inr \<lparr>sd_provider = provider, sd_stage = stage, sd_decision = decision, sd_tokens = tokens,
           sd_window = 60, sd_rate = rate, sd_max_concurrent = n, sd_poll = interval, sd_source = source, sd_runbook = runbook\<rparr>))"

definition worker_plan :: "string \<Rightarrow> string option \<Rightarrow> rate_guard \<Rightarrow> pydict res" where
  "worker_plan provider stage g = (let s = (case stage of Some (c # cs) \<Rightarrow> c # cs | _ \<Rightarrow> hd (rg_stages g)); interval = poll_interval g s
     in bind_res (max_concurrent (rg_burst g) interval) (\<lambda>n. Inr [(''provider'', PStr provider), (''stage'', PStr s),
          (''poll_interval_sec'', PFloat interval), (''max_workers'', PInt n)]))"

section \<open>The fallback log\<close>

record fallback_task =
  ft_provider :: string
  ft_symbols :: "string list"
  ft_timeframe :: string
  ft_attempt :: int
  ft_max_attempts :: int
  ft_state :: string
  ft_backoff :: "pyfloat option"
  ft_reason :: "string option"
  ft_failover_to :: "string option"
  ft_stage :: string
  ft_runbook :: "string option"

definition fallback_event :: "pydt \<Rightarrow> fallback_task \<Rightarrow> pydict" where
  "fallback_event now t = [(''ts'', PStr (utc_iso now)), (''event'', PStr ''ingestion.failover.state''), (''state'', PStr (ft_state t)),
     (''provider'', PStr (ft_provider t)), (''symbols'', PList (map PStr (ft_symbols t))), (''timeframe'', PStr (ft_timeframe t)),
     (''attempt'', PInt (ft_attempt t)), (''max_attempts'', PInt (ft_max_attempts t)),
     (''backoff_sec'', case ft_backoff t of None \<Rightarrow> PNone | Some x \<Rightarrow> PFloat x), (''reason'', ostr (ft_reason t)),
     (''failover_to'', ostr (ft_failover_to t)), (''stage'', PStr (ft_stage t)), (''runbook_ref'', ostr (ft_runbook t))]"

definition emit_fallback :: "pydt \<Rightarrow> fallback_task \<Rightarrow> pyval list \<Rightarrow> pyval list \<times> pydict" where
  "emit_fallback now t ls = (let p = fallback_event now t in (ls @ [PDict p], p))"

section \<open>Candidates of feeds\<close>

record provider_candidate =
  pc_id :: string
  pc_name :: pyval
  pc_license :: bool
  pc_cost :: "pyfloat option"
  pc_rate_limit :: "int option"
  pc_max_symbols :: "int option"
  pc_legal :: pyval
  pc_mode :: pyval

definition optional_of :: "(pyval \<Rightarrow> 'a res) \<Rightarrow> pyval \<Rightarrow> 'a option res" where
  "optional_of f v = (if v = PNone then Inr None else or_none (f v))"

definition read_candidate :: "pydict \<Rightarrow> string \<Rightarrow> provider_candidate res" where
  "read_candidate d k = bind_res (optional_of py_float (dget d ''cost_per_hour_jpy'')) (\<lambda>cost. bind_res (optional_of py_int (dget d ''rate_limit_per_min'')) (\<lambda>limit.
     bind_res (optional_of py_int (dget d ''max_symbols'')) (\<lambda>n. Inr \<lparr>pc_id = k, pc_name = dget d ''display_name'',
       pc_license = truthy (dget_def d ''license_required'' (PBool True)), pc_cost = cost, pc_rate_limit = limit, pc_max_symbols = n,
       pc_legal = dget d ''legal_notes'', pc_mode = dget d ''mode''\<rparr>)))"

fun read_candidates :: "pyval list \<Rightarrow> (string \<times> provider_candidate) list \<Rightarrow> (string \<times> provider_candidate) list res" where
  "read_candidates [] acc = Inr acc"
| "read_candidates (v # vs) acc = (case v of
       PDict d \<Rightarrow> (let k = py_str (py_or (py_or (dget d ''provider_id'') (dget d ''id'')) (PStr [])) in
          if k = [] then read_candidates vs acc else bind_res (read_candidate d k) (\<lambda>c. read_candidates vs (AList.update k c acc)))
     | _ \<Rightarrow> read_candidates vs acc)"

definition profile_error :: "string \<Rightarrow> err" where
  "profile_error m = Raises ''ProviderProfileError'' m"

text \<open>A YAML file that does not parse raises the error of the parser.\<close>

definition load_candidates :: "json_file \<Rightarrow> (string \<times> provider_candidate) list res" where
  "load_candidates f = (case f of None \<Rightarrow> Inr [] | Some None \<Rightarrow> Inl (Raises ''YAMLError'' [])
     | Some (Some v) \<Rightarrow> (case py_or v (PDict []) of
         PDict d \<Rightarrow> (case dget_def d ''candidates'' (PList []) of
             PList vs \<Rightarrow> read_candidates vs [] | _ \<Rightarrow> Inl (profile_error ''real_time_candidates.candidates must be list''))
       | _ \<Rightarrow> Inl (profile_error ''real_time_candidates schema invalid'')))"

definition require_candidate :: "string \<Rightarrow> (string \<times> provider_candidate) list \<Rightarrow> provider_candidate res" where
  "require_candidate k cs = (case map_of cs k of None \<Rightarrow> Inl (profile_error (''unknown provider: '' @ k)) | Some c \<Rightarrow> Inr c)"

section \<open>Evaluations\<close>

record feed_limits =
  fl_max_fetch :: pyfloat
  fl_max_cost :: pyfloat
  fl_min_uptime :: pyfloat

definition default_limits :: feed_limits where
  "default_limits = \<lparr>fl_max_fetch = Fin 12000, fl_max_cost = Fin 10000, fl_min_uptime = Fin 99\<rparr>"

record feed_result =
  fr_provider :: string
  fr_window :: pyfloat
  fr_fetch_p95 :: pyfloat
  fr_fetch_p99 :: pyfloat
  fr_processing_p95 :: pyfloat
  fr_uptime :: pyfloat
  fr_hits :: int
  fr_cost :: pyfloat
  fr_gap :: pyfloat
  fr_decision :: string
  fr_notes :: "string option"
  fr_ts :: string

definition feed_result_dict :: "feed_result \<Rightarrow> pydict" where
  "feed_result_dict r = [(''ts'', PStr (fr_ts r)), (''provider_id'', PStr (fr_provider r)), (''window_hours'', PFloat (fr_window r)),
     (''fetch_p95_ms'', PFloat (fr_fetch_p95 r)), (''fetch_p99_ms'', PFloat (fr_fetch_p99 r)), (''processing_p95_ms'', PFloat (fr_processing_p95 r)),
     (''uptime_pct'', PFloat (fr_uptime r)), (''rate_limit_hits'', PInt (fr_hits r)), (''cost_per_hour_jpy'', PFloat (fr_cost r)),
     (''comparison_gap_p95_pips'', PFloat (fr_gap r)), (''decision'', PStr (fr_decision r)), (''notes'', ostr (fr_notes r))]"

text \<open>The order in which \<open>sorted\<close> leaves a list with a NaN is outside the model.\<close>

definition sample_percentile :: "pyfloat list \<Rightarrow> pyfloat \<Rightarrow> pyfloat res" where
  "sample_percentile values p = (if values = [] then Inl (Raises ''FeedEvaluationError'' ''percentile input empty'')
     else if NaN \<in> set values then Inl (Unmodelled ''sort with NaN'')
     else let ordered = sort values; n = length ordered in if fle p (Fin 0) then Inr (hd ordered) else if fge p (Fin 100) then Inr (last ordered) else
       bind_res (fdiv p (Fin 100)) (\<lambda>q. let rank = fmul q (Fin (of_nat (n - 1))) in
         bind_res (py_int (PFloat rank)) (\<lambda>i. let lower = ordered ! nat i; upper = ordered ! min (nat i + 1) (n - 1); weight = fsub rank (f_of_int i)
           in Inr (fadd lower (fmul (fsub upper lower) weight)))))"

definition feed_decision :: "feed_limits \<Rightarrow> pyfloat \<Rightarrow> pyfloat \<Rightarrow> pyfloat \<Rightarrow> string" where
  "feed_decision l fetch uptime cost = (if fgt fetch (fl_max_fetch l) \<or> flt uptime (fl_min_uptime l) then ''hold''
     else if fgt cost (fl_max_cost l) then ''reject'' else ''candidate'')"

definition feed_alert :: "feed_limits \<Rightarrow> feed_result \<Rightarrow> (string \<times> string) option" where
  "feed_alert l r = (if fle (fr_fetch_p95 r) (fl_max_fetch l) \<and> fle (fr_cost r) (fl_max_cost l) then None
     else Some (''warning'', ''[feed_eval] '' @ fr_provider r @ '': '' @ str_join ''; ''
       ((if fgt (fr_fetch_p95 r) (fl_max_fetch l) then [''fetch_p95_ms '' @ float_str (fr_fetch_p95 r) @ '' exceeds '' @ float_str (fl_max_fetch l)] else [])
        @ (if fgt (fr_cost r) (fl_max_cost l) then [''cost_per_hour_jpy '' @ float_str (fr_cost r) @ '' exceeds '' @ float_str (fl_max_cost l)] else []))))"

record feed_request =
  fq_provider :: string
  fq_window :: pyfloat
  fq_fetch :: "pyfloat list"
  fq_processing :: "pyfloat list"
  fq_gaps :: "pyfloat list"
  fq_hits :: int
  fq_uptime :: "pyfloat option"
  fq_cost :: "pyfloat option"
  fq_license_ok :: bool
  fq_notes :: "string option"

record evaluator =
  ev_candidates :: "(string \<times> provider_candidate) list"
  ev_limits :: feed_limits
  ev_precheck :: "(string \<Rightarrow> string option) option"
  ev_metrics :: "(string \<times> pyval list) list"
  ev_alerts :: "(string \<times> string) list"

definition check_license :: "evaluator \<Rightarrow> feed_request \<Rightarrow> provider_candidate \<Rightarrow> unit res" where
  "check_license v q c = (if pc_license c \<and> \<not> fq_license_ok q then Inl (Raises ''FeedLicensingError'' (''license missing for '' @ fq_provider q))
     else case (pc_license c, ev_precheck v) of
         (True, Some check) \<Rightarrow> (case check (fq_provider q) of None \<Rightarrow> Inr () | Some m \<Rightarrow> Inl (Raises ''FeedLicensingError'' m))
       | _ \<Rightarrow> Inr ())"

text \<open>\<open>candidate.cost_per_hour_jpy or 0.0\<close>.\<close>

definition feed_cost :: "feed_request \<Rightarrow> provider_candidate \<Rightarrow> pyfloat" where
  "feed_cost q c = (case fq_cost q of Some x \<Rightarrow> x | None \<Rightarrow> (case pc_cost c of None \<Rightarrow> Fin 0 | Some x \<Rightarrow> x))"

definition measure_feed :: "pydt \<Rightarrow> evaluator \<Rightarrow> feed_request \<Rightarrow> feed_result res" where
  "measure_feed now v q = bind_res (require_candidate (fq_provider q) (ev_candidates v)) (\<lambda>c. bind_res (check_license v q c) (\<lambda>_.
     if fq_fetch q = [] \<or> fq_processing q = [] then Inl (Raises ''FeedEvaluationError'' ''missing latency samples'')
     else bind_res (sample_percentile (fq_fetch q) (Fin 95)) (\<lambda>p95. bind_res (sample_percentile (fq_fetch q) (Fin 99)) (\<lambda>p99.
       bind_res (sample_percentile (fq_processing q) (Fin 95)) (\<lambda>proc.
       bind_res (if fq_gaps q = [] then Inr (Fin 0) else sample_percentile (fq_gaps q) (Fin 95)) (\<lambda>gap.
         let uptime = (case fq_uptime q of None \<Rightarrow> Fin 100 | Some x \<Rightarrow> x); cost = feed_cost q c
         in if fgt cost (fl_max_cost (ev_limits v)) then Inl (Raises ''FeedCostOverflow'' (''cost_per_hour_jpy '' @ float_str cost @ '' exceeds limit''))
            else Inr \<lparr>fr_provider = fq_provider q, fr_window = fq_window q, fr_fetch_p95 = p95, fr_fetch_p99 = p99, fr_processing_p95 = proc,
              fr_uptime = uptime, fr_hits = fq_hits q, fr_cost = cost, fr_gap = gap, fr_decision = feed_decision (ev_limits v) p95 uptime cost,
              fr_notes = fq_notes q, fr_ts = utc_iso now\<rparr>))))))"

definition run_evaluation :: "pydt \<Rightarrow> feed_request \<Rightarrow> evaluator \<Rightarrow> evaluator \<times> feed_result res" where
  "run_evaluation now q v = (case measure_feed now v q of Inl e \<Rightarrow> (v, Inl e)
     | Inr r \<Rightarrow> let k = fq_provider q; old = (case map_of (ev_metrics v) k of None \<Rightarrow> [] | Some ls \<Rightarrow> ls)
         in (v\<lparr>ev_metrics := AList.update k (old @ [PDict (feed_result_dict r)]) (ev_metrics v),
               ev_alerts := ev_alerts v @ (case feed_alert (ev_limits v) r of None \<Rightarrow> [] | Some a \<Rightarrow> [a])\<rparr>, Inr r))"

record shadow_report =
  sr_provider :: string
  sr_primary :: string
  sr_window :: pyfloat
  sr_gap :: pyfloat
  sr_missing :: pyfloat

definition shadow_report_dict :: "shadow_report \<Rightarrow> pydict" where
  "shadow_report_dict r = [(''provider_id'', PStr (sr_provider r)), (''primary_provider'', PStr (sr_primary r)), (''window_hours'', PFloat (sr_window r)),
     (''gap_p95_pips'', PFloat (sr_gap r)), (''missing_pct'', PFloat (sr_missing r))]"

definition shadow_compare :: "string \<Rightarrow> string \<Rightarrow> pyfloat \<Rightarrow> pyfloat list \<Rightarrow> pyfloat \<Rightarrow> evaluator \<Rightarrow> shadow_report res" where
  "shadow_compare provider primary window gaps missing v = bind_res (require_candidate provider (ev_candidates v)) (\<lambda>_.
     if flt missing (Fin 0) \<or> fgt missing (Fin 100) then Inl (Raises ''FeedComparisonError'' ''missing_pct must be 0-100'')
     else if gaps = [] then Inl (Raises ''FeedComparisonError'' ''comparison gaps required'')
     else bind_res (sample_percentile gaps (Fin 95)) (\<lambda>x.
       Inr \<lparr>sr_provider = provider, sr_primary = primary, sr_window = window, sr_gap = x, sr_missing = missing\<rparr>))"

record threshold_proposal =
  tp_provider :: string
  tp_fetch_p95 :: pyfloat
  tp_fetch_p99 :: pyfloat
  tp_uptime :: pyfloat
  tp_hits :: int
  tp_notes :: string

definition threshold_dict :: "threshold_proposal \<Rightarrow> pydict" where
  "threshold_dict t = [(''provider_id'', PStr (tp_provider t)), (''max_fetch_p95_ms'', PFloat (tp_fetch_p95 t)), (''max_fetch_p99_ms'', PFloat (tp_fetch_p99 t)),
     (''min_uptime_pct'', PFloat (tp_uptime t)), (''max_rate_limit_hits'', PInt (tp_hits t)), (''notes'', PStr (tp_notes t))]"

definition apply_thresholds :: "feed_result \<Rightarrow> evaluator \<Rightarrow> threshold_proposal" where
  "apply_thresholds r v = \<lparr>tp_provider = fr_provider r, tp_fetch_p95 = fmax (fr_fetch_p95 r) (fl_max_fetch (ev_limits v)),
     tp_fetch_p99 = fmul (fmax (fr_fetch_p99 r) (fr_fetch_p95 r)) (rnd (12 / 10)), tp_uptime = fmin (fr_uptime r) (Fin 100),
     tp_hits = max (fr_hits r) 1, tp_notes = ''auto-generated from feed evaluation''\<rparr>"

section \<open>Moves of a stage\<close>

lemma first_index_nth: "first_index x ys = Some i \<Longrightarrow> i < length ys \<and> ys ! i = x"
  by (induction ys arbitrary: i) (auto split: if_splits)

lemma first_index_of_nth: "distinct ys \<Longrightarrow> i < length ys \<Longrightarrow> first_index (ys ! i) ys = Some i"
  by (induction ys arbitrary: i) (auto simp: nth_Cons split: nat.splits)

lemma first_index_mem: "x \<in> set ys \<Longrightarrow> \<exists>i. first_index x ys = Some i"
  by (induction ys) auto

lemma move_stage_result:
  assumes "distinct (rg_stages g)" "stage \<in> set (rg_stages g)" "move_stage g rate allow stage = (stage', decision)"
  shows "stage' \<in> set (rg_stages g)
    \<and> (decision = ''promote'' \<and> allow \<and> fle rate (rnd (1 / 100)) \<and> stage_position g stage' = stage_position g stage + 1
      \<or> decision = ''rollback'' \<and> allow \<and> fgt rate (rnd (15 / 1000)) \<and> stage_position g stage' + 1 = stage_position g stage
      \<or> decision = ''hold'' \<and> stage' = stage)"
proof -
  from first_index_mem [OF assms(2)] obtain i where i: "first_index stage (rg_stages g) = Some i" by blast
  from first_index_nth [OF this] have lt: "i < length (rg_stages g)" by simp
  have at_pos: "stage_position g (rg_stages g ! k) = k" if "k < length (rg_stages g)" for k
    using first_index_of_nth [OF assms(1) that] by (simp add: stage_position_def)
  have pos: "stage_position g stage = i" using i by (simp add: stage_position_def)
  consider "allow" "fle rate (rnd (1 / 100))" "i < length (rg_stages g) - 1" "stage' = rg_stages g ! (i + 1)" "decision = ''promote''"
    | "allow" "fgt rate (rnd (15 / 1000))" "0 < i" "stage' = rg_stages g ! (i - 1)" "decision = ''rollback''"
    | "stage' = stage" "decision = ''hold''"
    using assms(3) by (auto simp: move_stage_def Let_def pos min_def split: if_splits)
  then show ?thesis
  proof cases
    case 1
    then have "i + 1 < length (rg_stages g)" by linarith
    with 1 at_pos [OF this] pos show ?thesis by simp
  next
    case 2
    then have "i - 1 < length (rg_stages g)" using lt by linarith
    with 2 at_pos [OF this] pos show ?thesis by simp
  next
    case 3
    with assms(2) show ?thesis by simp
  qed
qed

text \<open>An evaluation moves a known stage by at most one: up only at a rate of at most one percent, down only at one above one and a
  half, and neither where moves are not allowed.\<close>

theorem stage_moves_one:
  assumes "evaluate_stage provider rate (Some stage) allow source runbook g = Inr s" "distinct (rg_stages g)" "stage \<in> set (rg_stages g)" "stage \<noteq> []"
  shows "sd_stage s \<in> set (rg_stages g)
    \<and> (sd_decision s = ''promote'' \<and> allow \<and> fle rate (rnd (1 / 100)) \<and> stage_position g (sd_stage s) = stage_position g stage + 1
      \<or> sd_decision s = ''rollback'' \<and> allow \<and> fgt rate (rnd (15 / 1000)) \<and> stage_position g (sd_stage s) + 1 = stage_position g stage
      \<or> sd_decision s = ''hold'' \<and> sd_stage s = stage)"
proof -
  obtain stage' decision where m: "move_stage g rate allow stage = (stage', decision)" by (cases "move_stage g rate allow stage")
  have "(case stage of [] \<Rightarrow> hd (rg_stages g) | c # cs \<Rightarrow> c # cs) = stage" using assms(4) by (cases stage) simp_all
  with assms(1) m have "sd_stage s = stage'" "sd_decision s = decision" by (auto simp: evaluate_stage_def Let_def bind_res_eq_Inr)
  with move_stage_result [OF assms(2,3) m] show ?thesis by simp
qed

text \<open>A stage that is not known counts as the first one, so a low rate promotes it to the second.\<close>

theorem unknown_stage_promoted:
  assumes "stage \<notin> set (rg_stages g)" "stage \<noteq> []" "2 \<le> length (rg_stages g)" "fle rate (rnd (1 / 100))"
    and "evaluate_stage provider rate (Some stage) True source runbook g = Inr s"
  shows "sd_stage s = rg_stages g ! 1 \<and> sd_decision s = ''promote''"
proof -
  have "first_index stage (rg_stages g) = None" using assms(1) by (cases "first_index stage (rg_stages g)") (auto dest!: first_index_nth)
  moreover have "min (0 + 1) (length (rg_stages g) - 1) = 1" "0 < length (rg_stages g) - 1" using assms(3) by simp_all
  ultimately have "move_stage g rate True stage = (rg_stages g ! 1, ''promote'')" using assms(4)
    by (simp only: move_stage_def stage_position_def Let_def option.case simp_thms if_True)
  moreover have "(case stage of [] \<Rightarrow> hd (rg_stages g) | c # cs \<Rightarrow> c # cs) = stage" using assms(2) by (cases stage) simp_all
  ultimately show ?thesis using assms(5) by (auto simp: evaluate_stage_def Let_def bind_res_eq_Inr)
qed

lemma fmax_floor: "fmax x (Fin a) \<noteq> NaN \<Longrightarrow> fle (Fin a) (fmax x (Fin a))"
  by (cases x) (auto simp: fmax_def)

text \<open>No stage is polled faster than every three seconds.\<close>

theorem poll_interval_bound:
  assumes "poll_interval g stage \<noteq> NaN"
  shows "fle (Fin 3) (poll_interval g stage)"
  using assms unfolding poll_interval_def by (rule fmax_floor)

text \<open>Five tokens at three seconds a poll: the plan has no workers at all.\<close>

theorem plan_without_workers:
  "worker_plan provider None (new_rate_guard (Fin 5) (Fin 5) (Fin 3) []) =
     Inr [(''provider'', PStr provider), (''stage'', PStr ''stage0''), (''poll_interval_sec'', PFloat (Fin 3)), (''max_workers'', PInt 0)]"
proof -
  have p: "poll_interval (new_rate_guard (Fin 5) (Fin 5) (Fin 3) []) ''stage0'' = Fin 3"
    by (simp add: poll_interval_def new_rate_guard_def stage_position_def fsub_def fmax_def rnd_numeral)
  have "rnd (1 / 4) = Fin (1 / 4)" by (subst rnd_at [of "- 2" _ 4503599627370496]) (simp_all add: pow2_def)
  moreover have "floor (1 / 4 :: rat) = 0" by (rule floor_unique) simp_all
  ultimately have "max_concurrent (Fin 5) (Fin 3) = Inr 0"
    by (simp add: max_concurrent_def fmax_def rnd_numeral py_int_def rat_trunc_def)
  with p show ?thesis by (simp add: worker_plan_def Let_def new_rate_guard_def)
qed

section \<open>Evaluated feeds\<close>

lemma measure_feed_result:
  assumes "measure_feed now v q = Inr r"
  shows "fr_provider r = fq_provider q \<and> \<not> fgt (fr_cost r) (fl_max_cost (ev_limits v)) \<and> fr_decision r = feed_decision (ev_limits v) (fr_fetch_p95 r) (fr_uptime r) (fr_cost r)
    \<and> (\<exists>c. map_of (ev_candidates v) (fq_provider q) = Some c \<and> (pc_license c \<longrightarrow> fq_license_ok q))"
proof -
  from assms obtain c where c: "map_of (ev_candidates v) (fq_provider q) = Some c" "check_license v q c = Inr ()"
    by (auto simp: measure_feed_def require_candidate_def bind_res_eq_Inr split: option.splits)
  then have "pc_license c \<longrightarrow> fq_license_ok q" by (auto simp: check_license_def split: if_splits)
  with c assms show ?thesis
    by (auto simp: measure_feed_def require_candidate_def bind_res_eq_Inr Let_def split: if_splits)
qed

text \<open>A feed that gets a result is a known one with its licence, within the cost limit; its result is one new line of its metrics, it
  is alerted unless both limits hold, and it is never rejected.\<close>

theorem feed_never_rejected:
  assumes "run_evaluation now q v = (v', Inr r)"
  shows "fr_decision r \<noteq> ''reject'' \<and> (fr_decision r = ''hold'' \<longleftrightarrow> fgt (fr_fetch_p95 r) (fl_max_fetch (ev_limits v)) \<or> flt (fr_uptime r) (fl_min_uptime (ev_limits v)))
    \<and> (\<exists>c. map_of (ev_candidates v) (fq_provider q) = Some c \<and> (pc_license c \<longrightarrow> fq_license_ok q))
    \<and> map_of (ev_metrics v') (fq_provider q) = Some ((case map_of (ev_metrics v) (fq_provider q) of None \<Rightarrow> [] | Some ls \<Rightarrow> ls) @ [PDict (feed_result_dict r)])
    \<and> length (ev_alerts v') = length (ev_alerts v)
         + (if fle (fr_fetch_p95 r) (fl_max_fetch (ev_limits v)) \<and> fle (fr_cost r) (fl_max_cost (ev_limits v)) then 0 else 1)"
proof -
  from assms have m: "measure_feed now v q = Inr r" by (auto simp: run_evaluation_def Let_def split: sum.splits)
  with assms have v': "ev_metrics v' = AList.update (fq_provider q) ((case map_of (ev_metrics v) (fq_provider q) of None \<Rightarrow> [] | Some ls \<Rightarrow> ls) @ [PDict (feed_result_dict r)]) (ev_metrics v)"
    "ev_alerts v' = ev_alerts v @ (case feed_alert (ev_limits v) r of None \<Rightarrow> [] | Some a \<Rightarrow> [a])"
    by (auto simp: run_evaluation_def Let_def)
  note res = measure_feed_result [OF m]
  then have "fr_decision r \<noteq> ''reject''" by (simp add: feed_decision_def)
  moreover from res have "fr_decision r = ''hold'' \<longleftrightarrow> fgt (fr_fetch_p95 r) (fl_max_fetch (ev_limits v)) \<or> flt (fr_uptime r) (fl_min_uptime (ev_limits v))"
    by (simp add: feed_decision_def)
  moreover have "length (ev_alerts v') = length (ev_alerts v)
      + (if fle (fr_fetch_p95 r) (fl_max_fetch (ev_limits v)) \<and> fle (fr_cost r) (fl_max_cost (ev_limits v)) then 0 else 1)"
    by (simp add: v' feed_alert_def)
  ultimately show ?thesis using res v' by simp
qed

section \<open>Witnesses\<close>

definition demo_rate_guard :: rate_guard where
  "demo_rate_guard = new_rate_guard (Fin 60) (Fin 20) (Fin 3) [''a'', ''b'']"

lemma demo_poll: "poll_interval demo_rate_guard ''b'' = Fin 3" "max_concurrent (Fin 20) (Fin 3) = Inr 1" "rg_stages demo_rate_guard = [''a'', ''b'']"
  "fmin (rg_burst demo_rate_guard) (rg_per_minute demo_rate_guard) = Fin 20"
proof -
  have r: "rnd (3 / 2) = Fin (3 / 2)" by (subst rnd_at [of 0 _ 6755399441055744]) (simp_all add: pow2_def)
  show "poll_interval demo_rate_guard ''b'' = Fin 3"
    by (simp add: poll_interval_def demo_rate_guard_def new_rate_guard_def stage_position_def fsub_def fmax_def r)
  show "max_concurrent (Fin 20) (Fin 3) = Inr 1" by (simp add: max_concurrent_def fmax_def rnd_numeral py_int_def rat_trunc_def)
qed (simp_all add: demo_rate_guard_def new_rate_guard_def fmin_def)

lemma demo_moves: "fle (Fin 0) (rnd (1 / 100))"
  by (subst rnd_at [of "- 7" _ 5764607523034235]) (simp_all add: pow2_def)

lemma demo_evaluated:
  assumes "move_stage demo_rate_guard (Fin 0) True (c # cs) = (''b'', ''promote'')"
  shows "\<exists>s. evaluate_stage ''p'' (Fin 0) (Some (c # cs)) True None None demo_rate_guard = Inr s"
  by (simp add: evaluate_stage_def assms demo_poll)

theorem stage_moves_one_witness:
  "\<exists>s. evaluate_stage ''p'' (Fin 0) (Some ''a'') True None None demo_rate_guard = Inr s \<and> sd_stage s \<in> {''a'', ''b''}"
proof -
  have "move_stage demo_rate_guard (Fin 0) True ''a'' = (''b'', ''promote'')"
    using demo_moves by (simp add: move_stage_def stage_position_def demo_poll)
  from demo_evaluated [OF this] obtain s where s: "evaluate_stage ''p'' (Fin 0) (Some ''a'') True None None demo_rate_guard = Inr s" by blast
  from stage_moves_one [OF s] s show ?thesis by (auto simp: demo_poll)
qed

theorem unknown_stage_promoted_witness:
  "\<exists>s. evaluate_stage ''p'' (Fin 0) (Some ''zz'') True None None demo_rate_guard = Inr s \<and> sd_stage s = ''b''"
proof -
  have "move_stage demo_rate_guard (Fin 0) True ''zz'' = (''b'', ''promote'')"
    using demo_moves by (simp add: move_stage_def stage_position_def demo_poll)
  from demo_evaluated [OF this] obtain s where s: "evaluate_stage ''p'' (Fin 0) (Some ''zz'') True None None demo_rate_guard = Inr s" by blast
  from unknown_stage_promoted [OF _ _ _ demo_moves s] s show ?thesis by (simp add: demo_poll)
qed

theorem poll_interval_bound_witness: "fle (Fin 3) (poll_interval demo_rate_guard ''b'')"
  using poll_interval_bound [of demo_rate_guard "''b''"] by (simp add: demo_poll)

definition demo_feed :: feed_request where
  "demo_feed = \<lparr>fq_provider = ''p'', fq_window = Fin 1, fq_fetch = [Fin 100], fq_processing = [Fin 100], fq_gaps = [], fq_hits = 0, fq_uptime = None,
     fq_cost = Some (Fin 0), fq_license_ok = True, fq_notes = None\<rparr>"

definition demo_evaluator :: evaluator where
  "demo_evaluator = \<lparr>ev_candidates = [(''p'', \<lparr>pc_id = ''p'', pc_name = PNone, pc_license = True, pc_cost = None, pc_rate_limit = None, pc_max_symbols = None,
     pc_legal = PNone, pc_mode = PNone\<rparr>)], ev_limits = default_limits, ev_precheck = None, ev_metrics = [], ev_alerts = []\<rparr>"

definition demo_feed_ts :: pydt where
  "demo_feed_ts = \<lparr>yr = 2025, mo = 3, dy = 14, hh = 12, mi = 0, ss = 0, us = 0, tzo = Some 0\<rparr>"

lemma demo_percentile: "sample_percentile [Fin 100] (Fin 95) = Inr (Fin 100)" "sample_percentile [Fin 100] (Fin 99) = Inr (Fin 100)"
proof -
  have "rnd (19 / 20) = Fin (of_int 8556839292003942 * pow2 (- 1 - 52))" by (rule rnd_at) (simp_all add: pow2_def)
  moreover have "rnd (99 / 100) = Fin (of_int 8917127262193582 * pow2 (- 1 - 52))" by (rule rnd_at) (simp_all add: pow2_def)
  ultimately show "sample_percentile [Fin 100] (Fin 95) = Inr (Fin 100)" "sample_percentile [Fin 100] (Fin 99) = Inr (Fin 100)"
    by (auto simp: sample_percentile_def py_int_def rat_trunc_def f_of_int_def fsub_def rnd_numeral)
qed

theorem feed_never_rejected_witness:
  "\<exists>v' r. run_evaluation demo_feed_ts demo_feed demo_evaluator = (v', Inr r) \<and> fr_decision r \<noteq> ''reject''"
proof -
  have "\<exists>v' r. run_evaluation demo_feed_ts demo_feed demo_evaluator = (v', Inr r)"
    by (simp add: run_evaluation_def measure_feed_def demo_evaluator_def demo_feed_def require_candidate_def check_license_def demo_percentile feed_cost_def default_limits_def Let_def)
  then obtain v' r where e: "run_evaluation demo_feed_ts demo_feed demo_evaluator = (v', Inr r)" by blast
  from feed_never_rejected [OF e] e show ?thesis by blast
qed

end
