(* ===== verification/Ideas.thy ===== *)
theory Ideas
  imports PyStamp Systems
begin

text \<open>
  The registry of research ideas, \<open>research/registry.py\<close>. Each idea is a directory with a YAML manifest:
  the registry is the dictionary of those files, the events are a list of lines. A date in a manifest
  is a text; reading a naive time as local time is an argument. A file is read back as it was written.

  Shown: an advance writes the stage, its history and one event, and touches no other idea; without
  force no run of advances ever lowers a stage, and each stage entered has its evidence. And where it
  fails: stages can be skipped, and a manifest without a checklist for the stage raises AttributeError
  even with force.
\<close>

section \<open>Manifests\<close>

definition stage_names :: "string list" where
  "stage_names = [''draft'', ''screening'', ''paper'', ''ready'']"

definition stage_requirements :: "string \<Rightarrow> string list" where
  "stage_requirements s = (case map_of [(''draft'', [''hypothesis'']), (''screening'', [''data_sources'', ''baseline_metrics'']),
     (''paper'', [''validation_report'', ''risk_review'']), (''ready'', [''ops_signoff''])] s of None \<Rightarrow> [] | Some xs \<Rightarrow> xs)"

definition idea_error :: "string \<Rightarrow> err" where "idea_error m = Raises ''IdeaRegistryError'' m"
definition idea_not_found :: "string \<Rightarrow> err" where "idea_not_found k = Raises ''IdeaNotFoundError'' k"
definition transition_error :: "string \<Rightarrow> err" where "transition_error m = Raises ''StageTransitionError'' m"
definition incomplete_error :: "string \<Rightarrow> string list \<Rightarrow> err" where
  "incomplete_error k missing = Raises ''StageIncompleteError'' (''Checklist incomplete for '' @ k @ '': '' @ str_join '', '' missing)"

record checklist =
  cl_stage :: string
  cl_required :: "string list"
  cl_completed :: "string list"
  cl_signoff :: "string option"
  cl_artifacts :: "string list"

definition checklist_missing :: "checklist \<Rightarrow> string list" where
  "checklist_missing c = (let done_items = map str_strip (filter (\<lambda>x. str_strip x \<noteq> []) (cl_completed c))
     in filter (\<lambda>x. x \<notin> set done_items) (cl_required c))"

definition checklist_dict :: "checklist \<Rightarrow> pydict" where
  "checklist_dict c = [(''stage'', PStr (cl_stage c)), (''required_evidence'', PList (map PStr (cl_required c))), (''completed'', PList (map PStr (cl_completed c))),
     (''signoff'', ostr (cl_signoff c)), (''artifacts'', PList (map PStr (cl_artifacts c))), (''missing'', PList (map PStr (checklist_missing c)))]"

record idea =
  id_key :: string
  id_title :: string
  id_owner :: "string option"
  id_created :: pydt
  id_hypothesis :: "string option"
  id_sources :: "string list"
  id_risks :: "string list"
  id_stage :: string
  id_next :: "string list"
  id_reviewers :: "string list"
  id_tags :: "string list"

definition idea_dict :: "string \<Rightarrow> idea \<Rightarrow> pydict" where
  "idea_dict path i = [(''idea_id'', PStr (id_key i)), (''title'', PStr (id_title i)), (''owner'', ostr (id_owner i)), (''created_at'', PStr (iso_text (id_created i))),
     (''hypothesis'', ostr (id_hypothesis i)), (''data_sources'', PList (map PStr (id_sources i))), (''risk_flags'', PList (map PStr (id_risks i))),
     (''stage'', PStr (id_stage i)), (''next_actions'', PList (map PStr (id_next i))), (''reviewers'', PList (map PStr (id_reviewers i))),
     (''tags'', PList (map PStr (id_tags i))), (''manifest_path'', PStr path)]"

text \<open>The clock, and what \<open>astimezone\<close> makes of a naive time.\<close>

record idea_env =
  ie_now :: pydt
  ie_change :: pydt
  ie_event :: pydt
  ie_local :: "pydt \<Rightarrow> pydt res"

definition validate_stage :: "string \<Rightarrow> unit res" where
  "validate_stage s = (if s \<in> set stage_names then Inr () else Inl (transition_error (''Unknown stage '' @ s)))"

definition parse_datetime :: "idea_env \<Rightarrow> pyval \<Rightarrow> pydt option res" where
  "parse_datetime env v = (if \<not> truthy v then Inr None else case fromisoformat (str_replace ''Z'' ''+00:00'' (py_str v)) of None \<Rightarrow> Inr None
     | Some t \<Rightarrow> bind_res (if tzo t = None then ie_local env t else as_utc t) (\<lambda>u. Inr (Some u)))"

definition text_items :: "pyval \<Rightarrow> string list" where
  "text_items v = (case v of PNone \<Rightarrow> [] | PList xs \<Rightarrow> map py_str (filter (\<lambda>x. str_strip (py_str x) \<noteq> []) xs) | _ \<Rightarrow> [py_str v])"

definition text_if :: "pyval \<Rightarrow> string option" where
  "text_if v = (if truthy v then Some (py_str v) else None)"

definition parse_idea :: "idea_env \<Rightarrow> string \<Rightarrow> pydict \<Rightarrow> idea res" where
  "parse_idea env dir d = (let k = py_str (py_or (dget d ''idea_id'') (PStr dir)); stage = py_str (py_or (dget d ''stage'') (PStr ''draft''))
     in bind_res (parse_datetime env (dget d ''created_at'')) (\<lambda>t. bind_res (validate_stage stage) (\<lambda>_.
       Inr \<lparr>id_key = k, id_title = py_str (py_or (dget d ''title'') (PStr k)), id_owner = text_if (dget d ''owner''),
         id_created = (case t of None \<Rightarrow> ie_now env | Some u \<Rightarrow> u), id_hypothesis = text_if (dget d ''hypothesis''), id_sources = text_items (dget d ''data_sources''),
         id_risks = text_items (dget d ''risk_flags''), id_stage = stage, id_next = text_items (dget d ''next_actions''),
         id_reviewers = text_items (dget d ''reviewers''), id_tags = text_items (dget d ''tags'')\<rparr>)))"

text \<open>Where the checklists are no mapping an empty entry stands for the stage; where they have none for it, \<open>None.get\<close> raises.\<close>

definition parse_checklist :: "string \<Rightarrow> pydict \<Rightarrow> checklist res" where
  "parse_checklist stage d = bind_res (validate_stage stage) (\<lambda>_.
     bind_res (case py_or (dget d ''checklists'') (PDict []) of PDict cs \<Rightarrow> as_dict_get (dget cs stage) | _ \<Rightarrow> Inr []) (\<lambda>e.
       Inr \<lparr>cl_stage = stage, cl_required = stage_requirements stage, cl_completed = text_items (dget e ''completed''),
         cl_signoff = text_if (dget e ''signoff''), cl_artifacts = text_items (dget e ''artifacts'')\<rparr>))"

record stage_change =
  sc_ts :: string
  sc_from :: string
  sc_to :: string
  sc_actor :: "string option"
  sc_note :: "string option"
  sc_force :: bool

definition stage_change_dict :: "stage_change \<Rightarrow> pydict" where
  "stage_change_dict c = [(''ts'', PStr (sc_ts c)), (''from'', PStr (sc_from c)), (''to'', PStr (sc_to c)), (''actor'', ostr (sc_actor c)),
     (''note'', ostr (sc_note c)), (''force'', PBool (sc_force c))]"

definition parse_change :: "idea_env \<Rightarrow> pydict \<Rightarrow> stage_change" where
  "parse_change env d = \<lparr>sc_ts = py_str (py_or (dget d ''ts'') (PStr (utc_iso (ie_change env)))), sc_from = py_str (py_or (dget d ''from'') (PStr [])),
     sc_to = py_str (py_or (dget d ''to'') (PStr [])), sc_actor = text_if (dget d ''actor''), sc_note = text_if (dget d ''note''),
     sc_force = truthy (dget_def d ''force'' (PBool False))\<rparr>"

definition parse_history :: "idea_env \<Rightarrow> pyval \<Rightarrow> stage_change list" where
  "parse_history env v = (case v of PList xs \<Rightarrow> map (\<lambda>x. parse_change env (mapping_or_empty x)) (filter is_mapping xs) | _ \<Rightarrow> [])"

section \<open>The registry\<close>

record idea_registry =
  ir_files :: "(string \<times> pyval option) list"
  ir_events :: "pyval list"

definition load_yaml :: "string \<Rightarrow> idea_registry \<Rightarrow> pydict res" where
  "load_yaml k r = (case map_of (ir_files r) k of None \<Rightarrow> Inl (idea_not_found k) | Some None \<Rightarrow> Inl (idea_error k)
     | Some (Some v) \<Rightarrow> (case py_or v (PDict []) of PDict d \<Rightarrow> Inr d | _ \<Rightarrow> Inl (idea_error k)))"

definition get_idea :: "idea_env \<Rightarrow> string \<Rightarrow> idea_registry \<Rightarrow> idea res" where
  "get_idea env k r = bind_res (load_yaml k r) (parse_idea env k)"

definition list_ideas :: "idea_env \<Rightarrow> string option \<Rightarrow> string option \<Rightarrow> idea_registry \<Rightarrow> idea list res" where
  "list_ideas env stage owner r = bind_res (map_res (\<lambda>k. get_idea env k r) (sort (map fst (ir_files r)))) (\<lambda>ideas.
     Inr (filter (\<lambda>i. (otrue owner \<longrightarrow> id_owner i = owner)) (filter (\<lambda>i. otrue stage \<longrightarrow> Some (id_stage i) = stage) ideas)))"

definition get_checklist :: "idea_env \<Rightarrow> string \<Rightarrow> string option \<Rightarrow> idea_registry \<Rightarrow> checklist res" where
  "get_checklist env k stage r = bind_res (get_idea env k r) (\<lambda>i. bind_res (load_yaml k r) (parse_checklist (case stage of Some (c # cs) \<Rightarrow> c # cs | _ \<Rightarrow> id_stage i)))"

fun index_of :: "string \<Rightarrow> string list \<Rightarrow> nat" where
  "index_of x [] = 0"
| "index_of x (y # ys) = (if x = y then 0 else Suc (index_of x ys))"

definition stage_rank :: "string \<Rightarrow> nat" where
  "stage_rank s = index_of s stage_names"

definition changed_payload :: "idea_env \<Rightarrow> string \<Rightarrow> string \<Rightarrow> string option \<Rightarrow> string option \<Rightarrow> bool \<Rightarrow> pydict \<Rightarrow> pydict" where
  "changed_payload env from_stage target note actor force d = (let d1 = AList.update ''stage'' (PStr target) d;
       h = parse_history env (dget d1 ''stage_history'') @ [\<lparr>sc_ts = utc_iso (ie_change env), sc_from = from_stage, sc_to = target, sc_actor = actor, sc_note = note, sc_force = force\<rparr>]
     in AList.update ''stage_history'' (PList (map (PDict \<circ> stage_change_dict) h)) d1)"

definition manifest_path :: "string \<Rightarrow> string" where
  "manifest_path k = ''research/ideas/'' @ k @ ''/manifest.yaml''"

definition change_event :: "idea_env \<Rightarrow> string \<Rightarrow> string \<Rightarrow> string \<Rightarrow> string option \<Rightarrow> string option \<Rightarrow> bool \<Rightarrow> pydict" where
  "change_event env k from_stage target note actor force = [(''event'', PStr ''research.idea.stage_changed''), (''ts'', PStr (utc_iso (ie_event env))), (''idea_id'', PStr k),
     (''from'', PStr from_stage), (''to'', PStr target), (''actor'', ostr actor), (''note'', ostr note), (''force'', PBool force), (''manifest_path'', PStr (manifest_path k))]"

definition advance_stage :: "idea_env \<Rightarrow> string \<Rightarrow> string \<Rightarrow> string option \<Rightarrow> string option \<Rightarrow> bool \<Rightarrow> idea_registry \<Rightarrow> idea_registry \<times> checklist res" where
  "advance_stage env k target note actor force r = (case
     bind_res (get_idea env k r) (\<lambda>i. bind_res (validate_stage target) (\<lambda>_.
       if stage_rank target < stage_rank (id_stage i) \<and> \<not> force
         then Inl (transition_error (''Cannot regress stage from '' @ id_stage i @ '' to '' @ target @ '' without --force''))
       else bind_res (get_checklist env k (Some target) r) (\<lambda>c. if checklist_missing c \<noteq> [] \<and> \<not> force then Inl (incomplete_error k (checklist_missing c))
         else bind_res (load_yaml k r) (\<lambda>d. Inr (i, c, d))))) of
     Inl e \<Rightarrow> (r, Inl e)
   | Inr (i, c, d) \<Rightarrow> (r\<lparr>ir_files := AList.update k (Some (PDict (changed_payload env (id_stage i) target note actor force d))) (ir_files r),
       ir_events := ir_events r @ [PDict (change_event env k (id_stage i) target note actor force)]\<rparr>, Inr c))"

definition report_lines :: "idea_env \<Rightarrow> string \<Rightarrow> idea_registry \<Rightarrow> string list res" where
  "report_lines env k r = bind_res (get_idea env k r) (\<lambda>i. bind_res (get_checklist env k None r) (\<lambda>c. let missing = checklist_missing c; t = id_created i in
     Inr ([''# Idea Report: '' @ id_key i, [], ''- Title: '' @ id_title i, ''- Owner: '' @ (case id_owner i of Some (x # xs) \<Rightarrow> x # xs | _ \<Rightarrow> ''n/a''),
        ''- Stage: '' @ id_stage i, ''- Created: '' @ pad_str 4 (yr t) @ ''-'' @ pad_str 2 (mo t) @ ''-'' @ pad_str 2 (dy t), [], ''## Checklist'', [],
        ''| Item | Status |'', ''| --- | --- |'']
       @ map (\<lambda>x. ''| '' @ x @ '' | '' @ (if x \<in> set missing then ''missing'' else ''ok'') @ '' |'') (cl_required c)
       @ (if id_next i = [] then [] else [[], ''## Next Actions''] @ map (\<lambda>x. ''- '' @ x) (id_next i)))))"

section \<open>An advance\<close>

lemma advance_cases:
  assumes "advance_stage env k target note actor force r = (r', Inr c)"
  obtains i d where "get_idea env k r = Inr i" "target \<in> set stage_names" "force \<or> stage_rank (id_stage i) \<le> stage_rank target"
    "get_checklist env k (Some target) r = Inr c" "force \<or> checklist_missing c = []" "load_yaml k r = Inr d"
    "r' = r\<lparr>ir_files := AList.update k (Some (PDict (changed_payload env (id_stage i) target note actor force d))) (ir_files r),
       ir_events := ir_events r @ [PDict (change_event env k (id_stage i) target note actor force)]\<rparr>"
  using assms by (force simp: advance_stage_def validate_stage_def bind_res_eq_Inr not_le split: sum.splits prod.splits if_splits)

lemma payload_get: "dget (changed_payload env st target note actor force d) x =
   (if x = ''stage'' then PStr target else if x = ''stage_history'' then dget (changed_payload env st target note actor force d) ''stage_history'' else dget d x)"
  by (simp add: changed_payload_def Let_def dget_def)

lemma payload_nonempty: "changed_payload env st target note actor force d \<noteq> []"
  by (simp add: changed_payload_def Let_def update_nonempty)

lemma load_yaml_put:
  "d \<noteq> [] \<Longrightarrow> load_yaml k' (r\<lparr>ir_files := AList.update k (Some (PDict d)) (ir_files r), ir_events := ev\<rparr>) = (if k' = k then Inr d else load_yaml k' r)"
  by (simp add: load_yaml_def py_or_def)

lemma parse_idea_payload:
  assumes "parse_idea env k d = Inr i" "target \<in> set stage_names"
  shows "parse_idea env k (changed_payload e st target note actor force d) = Inr (i\<lparr>id_stage := target\<rparr>)"
proof -
  have g: "dget (changed_payload e st target note actor force d) x = dget d x" if "x \<noteq> ''stage''" "x \<noteq> ''stage_history''" for x
    using that by (subst payload_get) simp
  have "target \<noteq> []" using assms(2) by (auto simp: stage_names_def)
  then have t: "py_str (py_or (dget (changed_payload e st target note actor force d) ''stage'') (PStr ''draft'')) = target"
    by (subst payload_get) (simp add: py_or_def)
  show ?thesis using assms by (auto simp: parse_idea_def Let_def bind_res_eq_Inr validate_stage_def g t split: if_splits)
qed

lemma advanced_stage:
  assumes "advance_stage env k target note actor force r = (r', Inr c)"
  shows "\<exists>i. get_idea env k r = Inr i \<and> get_idea env k r' = Inr (i\<lparr>id_stage := target\<rparr>)
    \<and> ir_events r' = ir_events r @ [PDict (change_event env k (id_stage i) target note actor force)]
    \<and> (\<forall>k'. k' \<noteq> k \<longrightarrow> load_yaml k' r' = load_yaml k' r) \<and> (force \<or> checklist_missing c = [])"
  using assms
proof (cases rule: advance_cases)
  case (1 i d)
  then have "parse_idea env k d = Inr i" by (simp add: get_idea_def)
  from parse_idea_payload [OF this 1(2)] 1 show ?thesis by (simp add: get_idea_def load_yaml_put payload_nonempty)
qed

text \<open>An advance that succeeds puts the idea at the stage asked for, appends one event, leaves every other idea as it was, and without
  force had all the evidence of that stage.\<close>

theorem advance_recorded:
  assumes "advance_stage env k target note actor force r = (r', Inr c)"
  shows "\<exists>i. get_idea env k r = Inr i \<and> get_idea env k r' = Inr (i\<lparr>id_stage := target\<rparr>)
    \<and> ir_events r' = ir_events r @ [PDict (change_event env k (id_stage i) target note actor force)]
    \<and> (\<forall>k'. k' \<noteq> k \<longrightarrow> load_yaml k' r' = load_yaml k' r) \<and> (force \<or> checklist_missing c = [])"
  by (rule advanced_stage [OF assms])

section \<open>Runs\<close>

definition stage_of :: "string \<Rightarrow> idea_registry \<Rightarrow> string option" where
  "stage_of k r = (case load_yaml k r of Inl _ \<Rightarrow> None | Inr d \<Rightarrow> Some (py_str (py_or (dget d ''stage'') (PStr ''draft''))))"

lemma get_idea_stage: "get_idea env k r = Inr i \<Longrightarrow> stage_of k r = Some (id_stage i)"
  by (auto simp: get_idea_def stage_of_def parse_idea_def Let_def bind_res_eq_Inr)

record advance_op =
  ao_env :: idea_env
  ao_key :: string
  ao_target :: string
  ao_note :: "string option"
  ao_actor :: "string option"
  ao_force :: bool

definition idea_step :: "idea_registry \<Rightarrow> advance_op \<Rightarrow> idea_registry" where
  "idea_step r x = fst (advance_stage (ao_env x) (ao_key x) (ao_target x) (ao_note x) (ao_actor x) (ao_force x) r)"

lemma idea_step_cases:
  fixes x :: advance_op
  obtains "idea_step r x = r"
  | c where "advance_stage (ao_env x) (ao_key x) (ao_target x) (ao_note x) (ao_actor x) (ao_force x) r = (idea_step r x, Inr c)"
proof (cases "advance_stage (ao_env x) (ao_key x) (ao_target x) (ao_note x) (ao_actor x) (ao_force x) r")
  case (Pair r' q)
  show ?thesis
  proof (cases q)
    case (Inl e)
    with Pair have "r' = r" by (auto simp: advance_stage_def split: sum.splits prod.splits)
    with Pair that(1) show ?thesis by (simp add: idea_step_def)
  next
    case (Inr c)
    with Pair that(2) show ?thesis by (simp add: idea_step_def)
  qed
qed

text \<open>The stage of an idea is at least so far.\<close>

definition reached_stage :: "string \<Rightarrow> nat \<Rightarrow> idea_registry \<Rightarrow> bool" where
  "reached_stage k n r \<longleftrightarrow> (\<exists>s. stage_of k r = Some s \<and> n \<le> stage_rank s)"

interpretation idea_runs: guarded_system idea_step "\<lambda>x :: advance_op. \<not> ao_force x" "reached_stage k n" for k n
proof unfold_locales
  fix r and x :: advance_op
  assume inv: "reached_stage k n r" and free: "\<not> ao_force x"
  show "reached_stage k n (idea_step r x)"
  proof (cases rule: idea_step_cases [of r x])
    case 1
    with inv show ?thesis by simp
  next
    case (2 c)
    from 2 show ?thesis
    proof (cases rule: advance_cases)
      case (1 i d)
      show ?thesis
      proof (cases "ao_key x = k")
        case True
        from advanced_stage [OF 2] obtain i' where "get_idea (ao_env x) (ao_key x) (idea_step r x) = Inr i'" "id_stage i' = ao_target x" by auto
        with get_idea_stage True have "stage_of k (idea_step r x) = Some (ao_target x)" by fastforce
        with get_idea_stage [OF 1(1)] True inv 1(3) free show ?thesis by (auto simp: reached_stage_def)
      next
        case False
        with 1(7) have "load_yaml k (idea_step r x) = load_yaml k r" by (simp add: load_yaml_put payload_nonempty)
        with inv show ?thesis by (simp add: reached_stage_def stage_of_def)
      qed
    qed
  qed
qed

text \<open>C36: Without force no run of advances lowers the stage of an idea.\<close>

theorem unforced_never_lowers:
  assumes "get_idea env k r = Inr i" "list_all (\<lambda>x :: advance_op. \<not> ao_force x) ops"
  shows "\<exists>s. stage_of k (foldl idea_step r ops) = Some s \<and> stage_rank (id_stage i) \<le> stage_rank s"
proof -
  have "reached_stage k (stage_rank (id_stage i)) r" by (simp add: reached_stage_def get_idea_stage [OF assms(1)])
  from idea_runs.allowed_run_inv [OF this assms(2)] show ?thesis by (simp add: reached_stage_def)
qed

text \<open>An advance looks at the evidence of its target only: an idea goes from any stage straight to \<open>ready\<close> with a sign-off, whatever the
  stages between lack.\<close>

theorem stages_skipped:
  assumes "get_idea env k r = Inr i" "get_checklist env k (Some ''ready'') r = Inr c" "checklist_missing c = []"
  shows "snd (advance_stage env k ''ready'' note actor False r) = Inr c"
proof -
  have "id_stage i \<in> set stage_names" using assms(1) by (auto simp: get_idea_def parse_idea_def Let_def bind_res_eq_Inr validate_stage_def split: if_splits)
  then have "\<not> stage_rank ''ready'' < stage_rank (id_stage i)" by (auto simp: stage_rank_def stage_names_def)
  moreover obtain d where "load_yaml k r = Inr d" using assms(1) by (auto simp: get_idea_def bind_res_eq_Inr)
  ultimately show ?thesis using assms by (simp add: advance_stage_def validate_stage_def stage_names_def)
qed

text \<open>A manifest whose checklists have no entry for the target raises AttributeError, force or not, and nothing changes.\<close>

theorem no_checklist_raises:
  assumes "get_idea env k r = Inr i" "target \<in> set stage_names" "force \<or> stage_rank (id_stage i) \<le> stage_rank target"
    and "load_yaml k r = Inr d" "dget d ''checklists'' = PDict cs" "dget cs target = PNone"
  shows "advance_stage env k target note actor force r = (r, Inl AttributeError)"
proof -
  have t: "(case target of [] \<Rightarrow> id_stage i | c # cs \<Rightarrow> c # cs) = target" using assms(2) by (auto simp: stage_names_def split: list.splits)
  have "get_checklist env k (Some target) r = Inl AttributeError"
    using assms(1,2,4,5,6) by (cases cs) (simp_all add: get_checklist_def t parse_checklist_def validate_stage_def py_or_def as_dict_get_def)
  with assms(1,2,3) show ?thesis by (auto simp: advance_stage_def validate_stage_def)
qed

section \<open>Witnesses\<close>

definition demo_idea_ts :: pydt where
  "demo_idea_ts = \<lparr>yr = 2025, mo = 3, dy = 14, hh = 12, mi = 0, ss = 0, us = 0, tzo = Some 0\<rparr>"

definition demo_idea_env :: idea_env where
  "demo_idea_env = \<lparr>ie_now = demo_idea_ts, ie_change = demo_idea_ts, ie_event = demo_idea_ts, ie_local = Inr\<rparr>"

definition demo_manifest_dict :: pydict where
  "demo_manifest_dict = [(''stage'', PStr ''draft''), (''checklists'', PDict [(''ready'', PDict [(''completed'', PList [PStr ''ops_signoff''])])])]"

definition demo_ideas :: idea_registry where
  "demo_ideas = \<lparr>ir_files = [(''idea1'', Some (PDict demo_manifest_dict))], ir_events = []\<rparr>"

lemma demo_idea_loaded: "load_yaml ''idea1'' demo_ideas = Inr demo_manifest_dict"
  by (simp add: load_yaml_def demo_ideas_def py_or_def demo_manifest_dict_def)

lemma demo_idea_read: "\<exists>i. get_idea demo_idea_env ''idea1'' demo_ideas = Inr i \<and> id_stage i = ''draft''"
  by (simp add: get_idea_def demo_idea_loaded parse_idea_def parse_datetime_def validate_stage_def stage_names_def py_or_def) (simp add: demo_manifest_dict_def py_or_def Let_def)

lemma demo_checklist: "\<exists>c. get_checklist demo_idea_env ''idea1'' (Some ''ready'') demo_ideas = Inr c \<and> checklist_missing c = []"
proof -
  obtain i where "get_idea demo_idea_env ''idea1'' demo_ideas = Inr i" using demo_idea_read by blast
  moreover have "str_strip ''ops_signoff'' = ''ops_signoff''" by code_simp
  ultimately show ?thesis
    by (simp add: get_checklist_def demo_idea_loaded parse_checklist_def validate_stage_def stage_names_def)
      (simp add: demo_manifest_dict_def py_or_def as_dict_get_def text_items_def stage_requirements_def checklist_missing_def)
qed

lemma demo_advanced: "\<exists>r' c. advance_stage demo_idea_env ''idea1'' ''ready'' None None False demo_ideas = (r', Inr c)"
proof -
  obtain i c where "get_idea demo_idea_env ''idea1'' demo_ideas = Inr i" "id_stage i = ''draft''"
    "get_checklist demo_idea_env ''idea1'' (Some ''ready'') demo_ideas = Inr c" "checklist_missing c = []" using demo_idea_read demo_checklist by blast
  then show ?thesis by (simp add: advance_stage_def validate_stage_def stage_names_def stage_rank_def demo_idea_loaded)
qed

theorem advance_recorded_witness:
  "\<exists>r' c i. advance_stage demo_idea_env ''idea1'' ''ready'' None None False demo_ideas = (r', Inr c) \<and> get_idea demo_idea_env ''idea1'' r' = Inr i \<and> id_stage i = ''ready''"
proof -
  obtain r' c where a: "advance_stage demo_idea_env ''idea1'' ''ready'' None None False demo_ideas = (r', Inr c)" using demo_advanced by blast
  from advance_recorded [OF a] a show ?thesis by auto
qed

theorem unforced_never_lowers_witness:
  "\<exists>s. stage_of ''idea1'' (foldl idea_step demo_ideas [\<lparr>ao_env = demo_idea_env, ao_key = ''idea1'', ao_target = ''ready'', ao_note = None, ao_actor = None, ao_force = False\<rparr>])
     = Some s"
proof -
  obtain i where "get_idea demo_idea_env ''idea1'' demo_ideas = Inr i" using demo_idea_read by blast
  from unforced_never_lowers [OF this, of "[\<lparr>ao_env = demo_idea_env, ao_key = ''idea1'', ao_target = ''ready'', ao_note = None, ao_actor = None, ao_force = False\<rparr>]"]
  show ?thesis by auto
qed

theorem stages_skipped_witness:
  "\<exists>c. snd (advance_stage demo_idea_env ''idea1'' ''ready'' None None False demo_ideas) = Inr c"
proof -
  obtain i c where "get_idea demo_idea_env ''idea1'' demo_ideas = Inr i" "get_checklist demo_idea_env ''idea1'' (Some ''ready'') demo_ideas = Inr c" "checklist_missing c = []"
    using demo_idea_read demo_checklist by blast
  from stages_skipped [OF this] show ?thesis by blast
qed

theorem no_checklist_raises_witness:
  "advance_stage demo_idea_env ''idea1'' ''paper'' None None True demo_ideas = (demo_ideas, Inl AttributeError)"
proof -
  obtain i where i: "get_idea demo_idea_env ''idea1'' demo_ideas = Inr i" using demo_idea_read by blast
  have "dget demo_manifest_dict ''checklists'' = PDict [(''ready'', PDict [(''completed'', PList [PStr ''ops_signoff''])])]"
    by (simp add: demo_manifest_dict_def)
  from no_checklist_raises [OF i _ _ demo_idea_loaded this] show ?thesis by (simp add: stage_names_def)
qed

end
