(* ===== verification/Alpha.thy ===== *)
theory Alpha
  imports PyStamp
begin

text \<open>
  The alpha pulse and what is made of it: \<open>strategies/alpha_pulse.py\<close>, the overlay and the lot ladder of
  \<open>execution/alpha_overlay.py\<close>, and the feedback of \<open>analytics/pnl_feedback.py\<close>. Audit and metrics are
  lists of lines; clock readings and the identifier of a pulse are arguments.

  Shown: the conviction of a pulse is within 0 and 1 and its sizes within 0 and the lot limit; an overlay
  keeps the limit and reduces only off the normal board; the ladder takes the greatest factor of the
  rules that hold. And where it fails: a score that is no number
  counts as full conviction, a rule that would make the lot smaller has no effect, and a large adjustment turns the size negative.
\<close>

section \<open>Pulses\<close>

record target_band =
  tb_label :: string
  tb_rr :: pyfloat
  tb_min_conviction :: pyfloat
  tb_max_hold :: int
  tb_exit :: string

definition target_band_dict :: "target_band \<Rightarrow> pydict" where
  "target_band_dict b = [(''label'', PStr (tb_label b)), (''target_rr'', PFloat (tb_rr b)), (''min_conviction'', PFloat (tb_min_conviction b)),
     (''max_hold_minutes'', PInt (tb_max_hold b)), (''exit_policy'', PStr (tb_exit b))]"

record alpha_pulse =
  ap_id :: string
  ap_pair :: string
  ap_regime :: string
  ap_conviction :: pyfloat
  ap_half_life :: int
  ap_entry :: "pyfloat \<times> pyfloat"
  ap_size :: "pyfloat \<times> pyfloat"
  ap_reduce :: bool
  ap_status :: string
  ap_playbook :: "string option"
  ap_protect :: pydict
  ap_targets :: "target_band list"

definition alpha_pulse_dict :: "alpha_pulse \<Rightarrow> pydict" where
  "alpha_pulse_dict p = [(''pulse_id'', PStr (ap_id p)), (''pair'', PStr (ap_pair p)), (''regime'', PStr (ap_regime p)), (''conviction'', PFloat (ap_conviction p)),
     (''half_life_bars'', PInt (ap_half_life p)), (''entry_window_pips'', PList [PFloat (fst (ap_entry p)), PFloat (snd (ap_entry p))]),
     (''size_band'', PList [PFloat (fst (ap_size p)), PFloat (snd (ap_size p))]), (''reduce_only_hint'', PBool (ap_reduce p)), (''status'', PStr (ap_status p)),
     (''playbook_hint'', ostr (ap_playbook p)), (''protect_levels'', if ap_protect p = [] then PNone else PDict (ap_protect p)),
     (''profit_targets'', PList (map (PDict \<circ> target_band_dict) (ap_targets p)))]"

record alpha_profile =
  af_id :: string
  af_budget :: pyfloat
  af_edge :: pyfloat
  af_max_lot :: pyfloat
  af_min_conviction :: pyfloat
  af_band :: string
  af_playbooks :: "string list"
  af_max_adjust :: pyfloat
  af_notes :: "string option"

record alpha_inputs =
  ai_pair :: string
  ai_regime :: string
  ai_momentum :: pyfloat
  ai_reversion :: pyfloat
  ai_macro :: pyfloat
  ai_spread :: pyfloat
  ai_latency :: pyfloat
  ai_equity :: pyfloat
  ai_entry :: "pyfloat \<times> pyfloat"
  ai_volatility :: pyfloat
  ai_board :: string

definition clamp_unit :: "pyfloat \<Rightarrow> pyfloat" where
  "clamp_unit x = fmax (Fin 0) (fmin (Fin 1) x)"

definition clamp_ratio :: "pyfloat \<Rightarrow> pyfloat \<Rightarrow> pyfloat" where
  "clamp_ratio m x = fmax (Fin 0) (fmin m x)"

definition normalize_regime :: "string \<Rightarrow> string" where
  "normalize_regime r = (if r = ''trending'' \<or> r = ''trend'' then ''trend'' else if r = ''ranging'' \<or> r = ''range'' then ''range''
     else if r = [] then ''unknown'' else r)"

definition ensure_list :: "pyval \<Rightarrow> string list" where
  "ensure_list v = (case v of PList xs \<Rightarrow> map py_str (filter (\<lambda>x. x \<noteq> PNone) xs) | PNone \<Rightarrow> [] | _ \<Rightarrow> [py_str v])"

definition float_at :: "pydict \<Rightarrow> string \<Rightarrow> pyfloat res" where
  "float_at d k = py_float (dget_def d k (PFloat (Fin 0)))"

text \<open>A file that is missing or empty has no profiles.\<close>

definition load_profile :: "json_file \<Rightarrow> string \<Rightarrow> alpha_profile res" where
  "load_profile f k = bind_res (case f of None \<Rightarrow> Inr [] | Some None \<Rightarrow> Inl (Raises ''YAMLError'' []) | Some (Some v) \<Rightarrow> as_dict_get (py_or v (PDict []))) (\<lambda>d.
     case dget d ''profiles'' of PDict ps \<Rightarrow> (case dget ps k of
         PDict raw \<Rightarrow> bind_res (float_at raw ''risk_budget_pct'') (\<lambda>budget. bind_res (float_at raw ''baseline_edge_bps'') (\<lambda>edge.
           bind_res (float_at raw ''max_lot'') (\<lambda>lot. bind_res (float_at raw ''min_conviction'') (\<lambda>conv. bind_res (float_at raw ''max_dynamic_adjust_pct'') (\<lambda>adj.
             Inr \<lparr>af_id = k, af_budget = budget, af_edge = edge, af_max_lot = lot, af_min_conviction = conv,
               af_band = py_str (dget_def raw ''default_target_band'' (PStr [])), af_playbooks = ensure_list (dget raw ''playbooks''), af_max_adjust = adj,
               af_notes = (if truthy (dget raw ''notes'') then Some (py_str (dget raw ''notes'')) else None)\<rparr>)))))
       | _ \<Rightarrow> Inl ValueError)
     | _ \<Rightarrow> Inl ValueError)"

record synthesizer =
  sy_profile :: alpha_profile
  sy_weights :: "(string \<times> pyfloat) list"
  sy_spread_weight :: pyfloat
  sy_latency_weight :: pyfloat
  sy_half_life :: "(string \<times> int) list"
  sy_last :: "string option"
  sy_audit :: "pyval list"

definition default_weights :: "(string \<times> pyfloat) list" where
  "default_weights = [(''momentum'', rnd (4 / 10)), (''mean_reversion'', rnd (4 / 10)), (''macro'', rnd (2 / 10))]"

definition default_half_life :: "(string \<times> int) list" where
  "default_half_life = [(''trend'', 40), (''range'', 20), (''news'', 10), (''illiquid'', 6), (''unknown'', 15)]"

definition new_synthesizer :: "json_file \<Rightarrow> string \<Rightarrow> (string \<times> pyfloat) list \<Rightarrow> pyfloat \<Rightarrow> pyfloat \<Rightarrow> (string \<times> int) list \<Rightarrow> synthesizer res" where
  "new_synthesizer f k weights sw lw half = bind_res (load_profile f k) (\<lambda>p. Inr \<lparr>sy_profile = p, sy_weights = (if weights = [] then default_weights else weights),
     sy_spread_weight = sw, sy_latency_weight = lw, sy_half_life = (if half = [] then default_half_life else half), sy_last = None, sy_audit = []\<rparr>)"

definition weight :: "(string \<times> pyfloat) list \<Rightarrow> string \<Rightarrow> pyfloat" where
  "weight ws k = (case map_of ws k of None \<Rightarrow> Fin 0 | Some x \<Rightarrow> x)"

definition conviction_score :: "alpha_inputs \<Rightarrow> synthesizer \<Rightarrow> pyfloat" where
  "conviction_score x s = (let ws = sy_weights s;
       weighted = fadd (fadd (fmul (weight ws ''momentum'') (clamp_unit (ai_momentum x))) (fmul (weight ws ''mean_reversion'') (clamp_unit (ai_reversion x))))
         (fmul (weight ws ''macro'') (clamp_unit (ai_macro x)));
       spread = fmul (fmax (Fin 0) (ai_spread x)) (sy_spread_weight s); latency = fmul (fmax (Fin 0) (ai_latency x)) (sy_latency_weight s)
     in clamp_unit (fsub (fsub weighted spread) latency))"

definition board_factor :: "string \<Rightarrow> pyfloat" where
  "board_factor b = (if b = ''guarded'' then rnd (6 / 10) else if b = ''halted'' then Fin 0 else Fin 1)"

definition size_band :: "alpha_inputs \<Rightarrow> alpha_profile \<Rightarrow> pyfloat \<Rightarrow> pyfloat \<times> pyfloat" where
  "size_band x p conviction = (let v = clamp_ratio (rnd (4 / 10)) (ai_volatility x);
       base = fmax (Fin 0) (fmul (fmul (fmul (ai_equity x) (af_budget p)) conviction) (fsub (Fin 1) v));
       hi = fmax (Fin 0) (fmul (fmin (af_max_lot p) base) (board_factor (ai_board x)))
     in (fround 6 (fmul hi (Fin (1 / 2))), fround 6 hi))"

definition half_life :: "(string \<times> int) list \<Rightarrow> string \<Rightarrow> int" where
  "half_life m r = (case map_of m (if r = [] then ''unknown'' else r) of Some n \<Rightarrow> n
     | None \<Rightarrow> (case map_of m ''unknown'' of Some n \<Rightarrow> n | None \<Rightarrow> 15))"

definition pulse_audit :: "pydt \<Rightarrow> alpha_pulse \<Rightarrow> pyval" where
  "pulse_audit now p = PDict [(''event'', PStr ''audit.alpha_pulse''), (''ts'', PStr (utc_iso now)), (''pulse_id'', PStr (ap_id p)), (''pair'', PStr (ap_pair p)),
     (''regime'', PStr (ap_regime p)), (''conviction'', PFloat (ap_conviction p)), (''status'', PStr (ap_status p))]"

definition refresh :: "string \<Rightarrow> pydt \<Rightarrow> alpha_inputs \<Rightarrow> synthesizer \<Rightarrow> synthesizer \<times> alpha_pulse" where
  "refresh uid now x s = (let r = normalize_regime (ai_regime x); c = conviction_score x s; reduce = flt c (Fin (1 / 4));
       p = \<lparr>ap_id = uid, ap_pair = ai_pair x, ap_regime = r, ap_conviction = c, ap_half_life = half_life (sy_half_life s) r, ap_entry = ai_entry x,
         ap_size = size_band x (sy_profile s) c, ap_reduce = reduce,
         ap_status = (if flt c (rnd (15 / 100)) then ''observe'' else if reduce then ''reduce_only'' else ''active''),
         ap_playbook = None, ap_protect = [], ap_targets = []\<rparr>
     in (s\<lparr>sy_last := Some r, sy_audit := sy_audit s @ [pulse_audit now p]\<rparr>, p))"

section \<open>The overlay\<close>

record overlay_result =
  or_size :: pyfloat
  or_max_lot :: pyfloat
  or_reduce :: bool
  or_protect :: pydict
  or_notes :: "string list"

definition overlay_dict :: "overlay_result \<Rightarrow> pydict" where
  "overlay_dict r = [(''size_hint'', PFloat (or_size r)), (''max_lot'', PFloat (or_max_lot r)), (''reduce_only'', PBool (or_reduce r)),
     (''protect_levels'', PDict (or_protect r)), (''notes'', PList (map PStr (or_notes r)))]"

definition protect_levels :: "pyfloat option \<Rightarrow> bool \<Rightarrow> pydict" where
  "protect_levels rr reduce = [(''reduce_only_hint'', PBool reduce)] @ (case rr of None \<Rightarrow> [] | Some x \<Rightarrow> [(''target_rr'', PFloat x)])"

definition apply_overlay :: "pyfloat \<Rightarrow> alpha_pulse \<Rightarrow> alpha_profile \<Rightarrow> string \<Rightarrow> bool \<Rightarrow> bool \<Rightarrow> pyfloat option \<Rightarrow> overlay_result" where
  "apply_overlay ladder p f board kill auto rr = (let s0 = snd (ap_size p);
       s1 = (if board = ''guarded'' then fmul s0 (rnd (6 / 10)) else if board = ''halted'' then Fin 0 else s0);
       s2 = (if auto \<and> board = ''normal'' then fmul s1 (fmax (Fin 0) ladder) else s1);
       s3 = fmin s2 (af_max_lot f); reduce = (ap_reduce p \<or> kill \<or> board \<noteq> ''normal'')
     in \<lparr>or_size = fround 6 s3, or_max_lot = af_max_lot f, or_reduce = reduce, or_protect = protect_levels rr reduce,
         or_notes = (if board = ''guarded'' then [''board_mode_guarded''] else if board = ''halted'' then [''board_mode_halted''] else []) @ (if reduce then [''reduce_only''] else [])\<rparr>)"

section \<open>The lot ladder\<close>

record ladder_rule =
  lr_pf_min :: "pyfloat option"
  lr_sharpe_min :: "pyfloat option"
  lr_maxdd_max :: "pyfloat option"
  lr_watchlist_max :: "int option"
  lr_factor :: pyfloat

record performance =
  pe_pf :: pyfloat
  pe_sharpe :: pyfloat
  pe_maxdd :: pyfloat
  pe_watchlist :: int

text \<open>A rule is passed over where a bound it has is broken.\<close>

definition rule_holds :: "performance \<Rightarrow> ladder_rule \<Rightarrow> bool" where
  "rule_holds q r \<longleftrightarrow> (case lr_pf_min r of None \<Rightarrow> True | Some x \<Rightarrow> \<not> flt (pe_pf q) x) \<and> (case lr_sharpe_min r of None \<Rightarrow> True | Some x \<Rightarrow> \<not> flt (pe_sharpe q) x)
     \<and> (case lr_maxdd_max r of None \<Rightarrow> True | Some x \<Rightarrow> \<not> fgt (pe_maxdd q) x) \<and> (case lr_watchlist_max r of None \<Rightarrow> True | Some n \<Rightarrow> pe_watchlist q \<le> n)"

definition ladder_factor :: "performance \<Rightarrow> ladder_rule list \<Rightarrow> pyfloat" where
  "ladder_factor q rs = foldl (\<lambda>f r. fmax f (lr_factor r)) (Fin 1) (filter (rule_holds q) rs)"

definition apply_lot_ladder :: "pyfloat \<Rightarrow> string \<Rightarrow> bool \<Rightarrow> ladder_rule list \<Rightarrow> performance \<Rightarrow> pyfloat \<times> pyfloat" where
  "apply_lot_ladder base board auto rs q = (if \<not> auto \<or> board \<noteq> ''normal'' then (base, Fin 1) else (fmul base (ladder_factor q rs), ladder_factor q rs))"

record feedback =
  fb_realized :: pyfloat
  fb_target :: pyfloat
  fb_adverse :: "pyfloat option"
  fb_favorable :: "pyfloat option"
  fb_slippage :: "pyfloat option"

text \<open>A wide spread or a slow feed leaves the size as it is.\<close>

definition feed_poor :: "pyfloat option \<Rightarrow> pyfloat option \<Rightarrow> bool" where
  "feed_poor spread latency \<longleftrightarrow> (case spread of None \<Rightarrow> False | Some x \<Rightarrow> fgt x (rnd (5 / 100))) \<or> (case latency of None \<Rightarrow> False | Some x \<Rightarrow> fgt x (Fin 350))"

definition hands_off_sizing :: "pyfloat \<Rightarrow> string \<Rightarrow> bool \<Rightarrow> bool \<Rightarrow> ladder_rule list \<Rightarrow> performance \<Rightarrow> feedback option \<Rightarrow> pyfloat \<Rightarrow> bool
    \<Rightarrow> pyfloat option \<Rightarrow> pyfloat option \<Rightarrow> pyfloat \<times> pyfloat \<times> bool" where
  "hands_off_sizing base board auto reduce rs q fb max_adjust dynamic spread latency =
     (if \<not> auto \<or> reduce \<or> board \<noteq> ''normal'' then (base, Fin 1, False)
      else let f = ladder_factor q rs; s = fmul base f in case fb of
          None \<Rightarrow> (s, f, False)
        | Some b \<Rightarrow> if \<not> dynamic \<or> feed_poor spread latency then (s, f, False)
            else let gap = fsub (fb_realized b) (fb_target b) in
              if fge (fabs gap) (Fin (1 / 2)) then
                let adj = fmul (fmax (Fin 0) (fmin max_adjust (Fin 1))) (if fgt gap (Fin 0) then Fin 1 else Fin (- 1))
                in (fmul s (fmax (Fin 0) (fadd (Fin 1) adj)), f, True)
              else (s, f, False))"

section \<open>Feedback\<close>

definition apply_dynamic :: "pyfloat \<Rightarrow> pyfloat \<Rightarrow> feedback \<Rightarrow> pyfloat \<Rightarrow> bool \<Rightarrow> pyfloat option \<Rightarrow> pyfloat option \<Rightarrow> pyfloat \<times> pyfloat \<times> bool" where
  "apply_dynamic conviction lot fb max_adjust dynamic spread latency = (if \<not> dynamic \<or> feed_poor spread latency then (conviction, lot, False)
     else let gap = fsub (fb_realized fb) (fb_target fb); scaled = (\<lambda>d. (fmin (fmax (fmul conviction (fadd (Fin 1) d)) (Fin 0)) (Fin 1), fmul lot (fadd (Fin 1) d), True))
       in if fge gap (Fin (1 / 2)) then scaled max_adjust else if fle gap (Fin (- 1 / 2)) then scaled (fneg max_adjust) else (conviction, lot, False))"

record loop_entry =
  le_ts :: string
  le_strategy :: string
  le_pair :: string
  le_pulse :: "string option"
  le_conviction :: pyfloat
  le_realized :: pyfloat
  le_target :: pyfloat
  le_gap :: pyfloat
  le_size :: pyfloat
  le_adjust :: pyfloat
  le_applied :: bool
  le_board :: string
  le_decision_latency :: "pyfloat option"
  le_cycle :: "pyfloat option"
  le_mode :: string
  le_spread :: "pyfloat option"
  le_latency :: "pyfloat option"

definition ofloat :: "pyfloat option \<Rightarrow> pyval" where
  "ofloat x = (case x of None \<Rightarrow> PNone | Some y \<Rightarrow> PFloat y)"

definition loop_entry_dict :: "loop_entry \<Rightarrow> pydict" where
  "loop_entry_dict e = [(''timestamp'', PStr (le_ts e)), (''strategy_id'', PStr (le_strategy e)), (''pair'', PStr (le_pair e)), (''pulse_id'', ostr (le_pulse e)),
     (''conviction'', PFloat (le_conviction e)), (''realized_rr'', PFloat (le_realized e)), (''target_rr'', PFloat (le_target e)), (''rr_gap'', PFloat (le_gap e)),
     (''size_hint'', PFloat (le_size e)), (''size_adjust_pct'', PFloat (le_adjust e)), (''dynamic_adjust_applied'', PBool (le_applied e)), (''board_mode'', PStr (le_board e)),
     (''decision_latency_ms'', ofloat (le_decision_latency e)), (''feedback_cycle_minutes'', ofloat (le_cycle e)), (''mode'', PStr (le_mode e)),
     (''spread_penalty'', ofloat (le_spread e)), (''latency_p95_ms'', ofloat (le_latency e))]"

definition feedback_audit :: "loop_entry \<Rightarrow> pyval" where
  "feedback_audit e = PDict [(''event'', PStr ''audit.alpha_feedback''), (''ts'', PStr (le_ts e)), (''strategy_id'', PStr (le_strategy e)), (''pair'', PStr (le_pair e)),
     (''pulse_id'', ostr (le_pulse e)), (''rr_gap'', PFloat (le_gap e)), (''size_adjust_pct'', PFloat (le_adjust e)), (''dynamic_adjust_applied'', PBool (le_applied e)),
     (''board_mode'', PStr (le_board e)), (''mode'', PStr (le_mode e))]"

record feedback_loop =
  lo_metrics :: "pyval list"
  lo_audit :: "pyval list"

definition size_adjust :: "pyfloat \<Rightarrow> pyfloat \<Rightarrow> pyfloat" where
  "size_adjust new old = (if feq old (Fin 0) then Fin 0 else fsub (fquot new old) (Fin 1))"

text \<open>The entry carries the facts of the call; the adjusted values replace its conviction, size and flag.\<close>

definition record_feedback :: "pydt \<Rightarrow> loop_entry \<Rightarrow> feedback \<Rightarrow> pyfloat \<Rightarrow> bool \<Rightarrow> feedback_loop \<Rightarrow> feedback_loop \<times> loop_entry" where
  "record_feedback now e fb max_adjust dynamic l = (case apply_dynamic (le_conviction e) (le_size e) fb max_adjust dynamic (le_spread e) (le_latency e) of
       (c, s, applied) \<Rightarrow> let e' = e\<lparr>le_ts := utc_iso now, le_conviction := c, le_realized := fb_realized fb, le_target := fb_target fb,
           le_gap := fsub (fb_realized fb) (fb_target fb), le_size := s, le_adjust := size_adjust s (le_size e), le_applied := applied\<rparr>
         in (l\<lparr>lo_metrics := lo_metrics l @ [PDict (loop_entry_dict e')], lo_audit := lo_audit l @ [feedback_audit e']\<rparr>, e'))"

section \<open>Bounds of a pulse\<close>

lemma clamp_unit_bounds: "fle (Fin 0) (clamp_unit x) \<and> fle (clamp_unit x) (Fin 1)"
  by (cases x) (auto simp: clamp_unit_def fmax_def fmin_def)

lemma rnd_is_number: "rnd x \<noteq> NaN"
  by (rule rnd_cases [of x]) simp_all

lemma fle_ends: "x \<noteq> NaN \<Longrightarrow> fle x PInf" "x \<noteq> NaN \<Longrightarrow> fle NInf x" "\<not> flt x NaN" "fle PInf x \<longleftrightarrow> x = PInf" "fle x NInf \<longleftrightarrow> x = NInf"
  by (cases x; simp)+

lemma rhe_zero [simp]: "rhe 0 = 0"
  using rhe_of_int [of 0] by simp

lemma fround_number: "x \<noteq> NaN \<Longrightarrow> fround n x \<noteq> NaN"
  by (cases x) (simp_all add: rnd_is_number)

lemma fround_mono: "fle a b \<Longrightarrow> fle (fround n a) (fround n b)"
proof -
  assume le: "fle a b"
  have nan: "a \<noteq> NaN" "b \<noteq> NaN" using le by (cases a; cases b; simp)+
  consider (fin) x y where "a = Fin x" "b = Fin y" | (top) "b = PInf" | (bot) "a = NInf" using le nan by (cases a; cases b) auto
  then show ?thesis
  proof cases
    case (fin x y)
    with le have "x * 10 ^ n \<le> y * 10 ^ n" by simp
    then have "rhe (x * 10 ^ n) \<le> rhe (y * 10 ^ n)" by (rule rhe_mono)
    then have "(of_int (rhe (x * 10 ^ n)) / 10 ^ n :: rat) \<le> of_int (rhe (y * 10 ^ n)) / 10 ^ n" by (intro divide_right_mono) simp_all
    with fin show ?thesis by (simp add: rnd_mono)
  next
    case top
    with fround_number [OF nan(1)] show ?thesis by (simp add: fle_ends)
  next
    case bot
    with fround_number [OF nan(2)] show ?thesis by (simp add: fle_ends)
  qed
qed

lemma fmax_zero: "fle (Fin 0) (fmax (Fin 0) x) \<and> fmax (Fin 0) x \<noteq> NaN"
  by (cases x) (auto simp: fmax_def)

lemma rnd_between: "0 \<le> y \<Longrightarrow> y \<le> m \<Longrightarrow> rnd m = Fin m \<Longrightarrow> \<exists>z. rnd y = Fin z \<and> 0 \<le> z \<and> z \<le> m"
  using rnd_mono [of 0 y] rnd_mono [of y m] by (cases "rnd y") auto

text \<open>A share of at most one of a size within the limit is within the limit.\<close>

lemma share_within:
  assumes "0 \<le> k" "k \<le> 1" "fle (Fin 0) a" "rnd m = Fin m" "0 \<le> m"
  shows "\<exists>z. fmul (fmin (Fin m) a) (Fin k) = Fin z \<and> rnd z = Fin z \<and> 0 \<le> z \<and> z \<le> m \<and> (k = 0 \<longrightarrow> z = 0)"
proof -
  obtain y where y: "fmin (Fin m) a = Fin y" "0 \<le> y" "y \<le> m"
  proof (cases "flt a (Fin m)")
    case True
    with assms(3) that show ?thesis by (cases a) (simp_all add: fmin_def)
  next
    case False
    with assms(5) that show ?thesis by (simp add: fmin_def)
  qed
  have "0 \<le> y * k" "y * k \<le> m * 1" using mult_mono [OF y(3) assms(2,5,1)] assms(1) y(2) by simp_all
  from rnd_between [OF this(1)] this(2) assms(4) obtain z where z: "rnd (y * k) = Fin z" "0 \<le> z" "z \<le> m" by auto
  moreover have "rnd z = Fin z" using is_f64_rnd [of "y * k"] z(1) by (simp add: is_f64_def)
  moreover have "z = 0" if "k = 0" using z(1) that by simp
  ultimately show ?thesis by (auto simp: y(1))
qed

lemma tenths: "\<exists>k. rnd (6 / 10) = Fin k \<and> 0 \<le> k \<and> k \<le> 1"
  by (rule rnd_between) simp_all

lemma board_factor_share: "\<exists>k. board_factor b = Fin k \<and> 0 \<le> k \<and> k \<le> 1"
  using tenths by (auto simp: board_factor_def)

lemma size_band_bounds:
  assumes "af_max_lot p = Fin m" "rnd m = Fin m" "0 \<le> m" "size_band x p c = (lo, hi)"
  shows "fle (Fin 0) lo \<and> fle lo hi \<and> fle hi (fround 6 (Fin m)) \<and> (ai_board x = ''halted'' \<longrightarrow> hi = Fin 0)"
proof -
  define base where "base = fmax (Fin 0) (fmul (fmul (fmul (ai_equity x) (af_budget p)) c) (fsub (Fin 1) (clamp_ratio (rnd (4 / 10)) (ai_volatility x))))"
  obtain k where k: "board_factor (ai_board x) = Fin k" "0 \<le> k" "k \<le> 1" using board_factor_share by blast
  have "fle (Fin 0) base" using fmax_zero by (simp add: base_def)
  from share_within [OF k(2,3) this assms(2,3)] obtain y where
    y: "fmul (fmin (Fin m) base) (Fin k) = Fin y" "rnd y = Fin y" "0 \<le> y" "y \<le> m" "k = 0 \<longrightarrow> y = 0" by blast
  have "size_band x p c = (fround 6 (fmul (fmax (Fin 0) (fmul (fmin (Fin m) base) (Fin k))) (Fin (1 / 2))), fround 6 (fmax (Fin 0) (fmul (fmin (Fin m) base) (Fin k))))"
    by (simp only: size_band_def Let_def base_def assms(1) k(1))
  moreover have "fmax (Fin 0) (Fin y) = Fin y" using y(3) by (simp add: fmax_def)
  ultimately have sz: "lo = fround 6 (rnd (y / 2))" "hi = fround 6 (Fin y)" using assms(4) by (simp_all add: y(1))
  have "y / 2 \<le> y" using y(3) by simp
  from rnd_mono [OF this] have half: "fle (rnd (y / 2)) (Fin y)" using y(2) by simp
  have "fle (Fin 0) (rnd (y / 2))" using rnd_mono [of 0 "y / 2"] y(3) by simp
  from fround_mono [OF this, of 6] have "fle (Fin 0) lo" by (simp add: sz)
  moreover have "fle lo hi" using fround_mono [OF half] by (simp only: sz)
  moreover have "fle hi (fround 6 (Fin m))" using fround_mono [of "Fin y" "Fin m"] y(4) by (simp only: sz fle.simps)
  moreover have "hi = Fin 0" if "ai_board x = ''halted''"
  proof -
    from k(1) that have "k = 0" by (simp add: board_factor_def)
    with y(5) show ?thesis by (simp add: sz)
  qed
  ultimately show ?thesis by blast
qed

text \<open>C28: A pulse has a conviction within 0 and 1, sizes in order within 0 and the lot limit to six decimals and none on a halted board,
  and is marked to reduce exactly below a quarter.\<close>

theorem pulse_bounds:
  assumes "refresh uid now x s = (s', p)" "af_max_lot (sy_profile s) = Fin m" "rnd m = Fin m" "0 \<le> m"
  shows "fle (Fin 0) (ap_conviction p) \<and> fle (ap_conviction p) (Fin 1) \<and> fle (Fin 0) (fst (ap_size p)) \<and> fle (fst (ap_size p)) (snd (ap_size p))
    \<and> fle (snd (ap_size p)) (fround 6 (Fin m)) \<and> (ai_board x = ''halted'' \<longrightarrow> snd (ap_size p) = Fin 0)
    \<and> (ap_reduce p \<longleftrightarrow> flt (ap_conviction p) (Fin (1 / 4))) \<and> (ap_status p = ''active'' \<longleftrightarrow> \<not> ap_reduce p \<and> \<not> flt (ap_conviction p) (rnd (15 / 100)))"
proof -
  obtain lo hi where b: "size_band x (sy_profile s) (conviction_score x s) = (lo, hi)" by (cases "size_band x (sy_profile s) (conviction_score x s)")
  have p: "ap_conviction p = conviction_score x s" "ap_size p = (lo, hi)" "ap_reduce p \<longleftrightarrow> flt (conviction_score x s) (Fin (1 / 4))"
    "ap_status p = (if flt (conviction_score x s) (rnd (15 / 100)) then ''observe'' else if flt (conviction_score x s) (Fin (1 / 4)) then ''reduce_only'' else ''active'')"
    using assms(1) b by (auto simp: refresh_def Let_def)
  have "fle (Fin 0) (conviction_score x s) \<and> fle (conviction_score x s) (Fin 1)" by (simp only: conviction_score_def Let_def clamp_unit_bounds)
  with size_band_bounds [OF assms(2-4) b] show ?thesis by (simp add: p)
qed

definition demo_alpha_now :: pydt where
  "demo_alpha_now = \<lparr>yr = 2025, mo = 1, dy = 1, hh = 0, mi = 0, ss = 0, us = 0, tzo = Some 0\<rparr>"

definition demo_alpha_profile :: alpha_profile where
  "demo_alpha_profile = \<lparr>af_id = ''p'', af_budget = Fin 1, af_edge = Fin 0, af_max_lot = Fin 2, af_min_conviction = Fin 0, af_band = [], af_playbooks = [],
     af_max_adjust = Fin 0, af_notes = None\<rparr>"

definition demo_alpha_synthesizer :: synthesizer where
  "demo_alpha_synthesizer = \<lparr>sy_profile = demo_alpha_profile, sy_weights = default_weights, sy_spread_weight = Fin 0, sy_latency_weight = Fin 0,
     sy_half_life = default_half_life, sy_last = None, sy_audit = []\<rparr>"

definition demo_alpha_inputs :: alpha_inputs where
  "demo_alpha_inputs = \<lparr>ai_pair = ''EURUSD'', ai_regime = ''trend'', ai_momentum = Fin 1, ai_reversion = Fin 0, ai_macro = Fin 1, ai_spread = Fin 0, ai_latency = Fin 0,
     ai_equity = Fin 1, ai_entry = (Fin 0, Fin 1), ai_volatility = Fin 0, ai_board = ''halted''\<rparr>"

theorem pulse_bounds_witness:
  "let p = snd (refresh ''u'' demo_alpha_now demo_alpha_inputs demo_alpha_synthesizer) in fle (ap_conviction p) (Fin 1) \<and> snd (ap_size p) = Fin 0"
proof -
  have two: "rnd 2 = Fin 2" using rnd_int [of 2] by simp
  have lot: "af_max_lot (sy_profile demo_alpha_synthesizer) = Fin 2" by (simp add: demo_alpha_synthesizer_def demo_alpha_profile_def)
  have board: "ai_board demo_alpha_inputs = ''halted''" by (simp add: demo_alpha_inputs_def)
  obtain s' p where r: "refresh ''u'' demo_alpha_now demo_alpha_inputs demo_alpha_synthesizer = (s', p)" by (cases "refresh ''u'' demo_alpha_now demo_alpha_inputs demo_alpha_synthesizer")
  from pulse_bounds [OF r lot two] board show ?thesis by (simp add: r)
qed

text \<open>A score that is no number counts as the highest one.\<close>

theorem nan_score_is_full:
  "conviction_score (x\<lparr>ai_momentum := NaN\<rparr>) s = conviction_score (x\<lparr>ai_momentum := Fin 1\<rparr>) s"
  by (simp add: conviction_score_def clamp_unit_def fmin_def)

section \<open>Bounds of an overlay\<close>

theorem overlay_limits:
  assumes "r = apply_overlay ladder p f board kill auto rr" "af_max_lot f \<noteq> NaN"
  shows "(fle (or_size r) (fround 6 (af_max_lot f)) \<or> or_size r = NaN) \<and> (or_reduce r \<longleftrightarrow> ap_reduce p \<or> kill \<or> board \<noteq> ''normal'')
    \<and> (board = ''halted'' \<longrightarrow> fle (or_size r) (Fin 0))"
proof -
  define s where "s = (let s0 = snd (ap_size p); s1 = (if board = ''guarded'' then fmul s0 (rnd (6 / 10)) else if board = ''halted'' then Fin 0 else s0)
     in if auto \<and> board = ''normal'' then fmul s1 (fmax (Fin 0) ladder) else s1)"
  have r: "or_size r = fround 6 (fmin s (af_max_lot f))" "or_reduce r \<longleftrightarrow> ap_reduce p \<or> kill \<or> board \<noteq> ''normal''"
    by (simp_all add: assms(1) apply_overlay_def s_def Let_def)
  have "fle (or_size r) (fround 6 (af_max_lot f)) \<or> or_size r = NaN"
  proof (cases "s = NaN")
    case True
    then show ?thesis using assms(2) by (cases "af_max_lot f") (simp_all add: r(1) fmin_def fle_ends)
  next
    case False
    with assms(2) have "fle (fmin s (af_max_lot f)) (af_max_lot f)" using not_fle_iff [of s "af_max_lot f"] by (auto simp: fmin_def fle_refl_iff)
    then show ?thesis using fround_mono by (simp add: r(1))
  qed
  moreover have "fle (or_size r) (Fin 0)" if "board = ''halted''"
  proof -
    have "fle (fmin s (af_max_lot f)) (Fin 0)" using that by (auto simp: s_def fmin_def intro: flt_imp_fle)
    from fround_mono [OF this, of 6] show ?thesis by (simp add: r(1))
  qed
  ultimately show ?thesis using r(2) by blast
qed

theorem overlay_limits_witness:
  "let r = apply_overlay (Fin 1) (snd (refresh ''u'' demo_alpha_now demo_alpha_inputs demo_alpha_synthesizer)) demo_alpha_profile ''halted'' False True None
   in or_reduce r \<and> fle (or_size r) (Fin 0)"
  using overlay_limits [OF refl, of demo_alpha_profile "Fin 1" "snd (refresh ''u'' demo_alpha_now demo_alpha_inputs demo_alpha_synthesizer)" "''halted''" False True None]
  by (simp add: demo_alpha_profile_def)

section \<open>The factor of the ladder\<close>

lemma foldl_fmax_ladder:
  "a \<noteq> NaN \<Longrightarrow> let f = foldl (\<lambda>f r. fmax f (lr_factor r)) a rs in fle a f \<and> f \<noteq> NaN \<and> (\<forall>r \<in> set rs. lr_factor r \<noteq> NaN \<longrightarrow> fle (lr_factor r) f)
     \<and> (f = a \<or> (\<exists>r \<in> set rs. lr_factor r = f))"
proof (induction rs arbitrary: a)
  case Nil
  then show ?case by (simp add: fle_refl_iff)
next
  case (Cons r rs)
  have b: "fle a (fmax a (lr_factor r))" "fmax a (lr_factor r) \<noteq> NaN" "lr_factor r \<noteq> NaN \<Longrightarrow> fle (lr_factor r) (fmax a (lr_factor r))"
    using Cons.prems not_fle_iff [of "lr_factor r" a] by (auto simp: fmax_def fle_refl_iff fle_ends intro: flt_imp_fle)
  define f where "f = foldl (\<lambda>f r. fmax f (lr_factor r)) (fmax a (lr_factor r)) rs"
  note IH = Cons.IH [OF b(2), unfolded Let_def, folded f_def]
  have "fle a f" using fle_trans [OF b(1)] IH by blast
  moreover have "lr_factor r \<noteq> NaN \<Longrightarrow> fle (lr_factor r) f" using fle_trans [OF b(3)] IH by blast
  moreover have "f = a \<or> lr_factor r = f \<or> (\<exists>r \<in> set rs. lr_factor r = f)" using IH by (auto simp: fmax_def split: if_splits)
  ultimately show ?case using IH by (auto simp: f_def [symmetric] Let_def)
qed

text \<open>On a normal board with automatic execution the size is scaled by the greatest factor of the rules that hold, never by less than 1; a
  rule with a smaller factor has no effect.\<close>

theorem ladder_greatest:
  "apply_lot_ladder base ''normal'' True rs q = (fmul base (ladder_factor q rs), ladder_factor q rs)
    \<and> fle (Fin 1) (ladder_factor q rs) \<and> list_all (\<lambda>r. lr_factor r = NaN \<or> fle (lr_factor r) (ladder_factor q rs)) (filter (rule_holds q) rs)
    \<and> (ladder_factor q rs = Fin 1 \<or> ladder_factor q rs \<in> lr_factor ` set (filter (rule_holds q) rs))"
proof -
  from foldl_fmax_ladder [of "Fin 1" "filter (rule_holds q) rs", unfolded Let_def, folded ladder_factor_def]
  have "fle (Fin 1) (ladder_factor q rs)" "\<And>r. r \<in> set (filter (rule_holds q) rs) \<Longrightarrow> lr_factor r = NaN \<or> fle (lr_factor r) (ladder_factor q rs)"
    "ladder_factor q rs = Fin 1 \<or> (\<exists>r \<in> set (filter (rule_holds q) rs). lr_factor r = ladder_factor q rs)" by blast+
  moreover from this(3) have "ladder_factor q rs = Fin 1 \<or> ladder_factor q rs \<in> lr_factor ` set (filter (rule_holds q) rs)" by (metis imageI)
  ultimately show ?thesis by (auto simp: apply_lot_ladder_def list_all_iff)
qed

section \<open>Feedback\<close>

text \<open>An adjustment of more than the whole size makes it negative; the sizing for unattended operation bounds the same adjustment.\<close>

theorem adjusted_size_negative:
  "apply_dynamic (Fin 1) (Fin 1) \<lparr>fb_realized = Fin 0, fb_target = Fin 1, fb_adverse = None, fb_favorable = None, fb_slippage = None\<rparr> (Fin 2) True None None
     = (Fin 0, Fin (- 1), True)"
proof -
  have "rnd (- 1) = Fin (- 1)" using rnd_int [of "- 1"] by simp
  then show ?thesis by (simp add: apply_dynamic_def feed_poor_def fsub_def fmax_def fmin_def)
qed

end
