(* ===== verification/ConfigDiff.thy ===== *)
theory ConfigDiff
  imports PyTime "HOL-Library.List_Lexorder" "HOL-Library.Char_ord"
begin

text \<open>
  Differences of configurations, \<open>config/diff.py\<close>: two profiles are flattened to dotted paths and compared,
  every entry gets the risk level of the patterns that match its path, and a list of entries is summed
  up, rendered and signed. The profiles are what their files hold; schema validation, the hash and the
  signature are arguments, since other packages compute them.

  Shown: the entries of two configurations carry the first over into the second, in the order of the
  paths; the level of an entry is exactly that of the patterns; the counts of a summary add up. And
  what the comparison does not see: empty sections, a truth value that becomes a number, a dotted
  key that hides a section.
\<close>

section \<open>Equality of values\<close>

text \<open>\<open>==\<close> of numbers is by value. Elements of containers are equal if identical: a NaN in a list is the constant of
  the loader (both files are of one format), so it equals itself there and nowhere else.\<close>

definition number_of :: "pyval \<Rightarrow> pyfloat option" where
  "number_of v = (case v of PBool b \<Rightarrow> Some (Fin (if b then 1 else 0)) | PInt i \<Rightarrow> Some (Fin (of_int i)) | PFloat x \<Rightarrow> Some x | _ \<Rightarrow> None)"

definition number_eq :: "pyval \<Rightarrow> pyval \<Rightarrow> bool" where
  "number_eq v w \<longleftrightarrow> (case (number_of v, number_of w) of (Some x, Some y) \<Rightarrow> feq x y | _ \<Rightarrow> False)"

fun py_eq :: "pyval \<Rightarrow> pyval \<Rightarrow> bool" and same_items :: "pyval list \<Rightarrow> pyval list \<Rightarrow> bool" and same_entries :: "pydict \<Rightarrow> pydict \<Rightarrow> bool" where
  "py_eq PNone w \<longleftrightarrow> w = PNone"
| "py_eq (PStr s) w \<longleftrightarrow> w = PStr s"
| "py_eq (PList xs) w \<longleftrightarrow> (case w of PList ys \<Rightarrow> same_items xs ys | _ \<Rightarrow> False)"
| "py_eq (PDict d) w \<longleftrightarrow> (case w of PDict e \<Rightarrow> length d = length e \<and> same_entries d e | _ \<Rightarrow> False)"
| "py_eq v w \<longleftrightarrow> number_eq v w"
| "same_items [] ys \<longleftrightarrow> ys = []"
| "same_items (x # xs) ys \<longleftrightarrow> (case ys of [] \<Rightarrow> False | y # zs \<Rightarrow> (x = PFloat NaN \<and> y = PFloat NaN \<or> py_eq x y) \<and> same_items xs zs)"
| "same_entries [] e \<longleftrightarrow> True"
| "same_entries ((k, v) # d) e \<longleftrightarrow> (case map_of e k of None \<Rightarrow> False | Some w \<Rightarrow> (v = PFloat NaN \<and> w = PFloat NaN \<or> py_eq v w) \<and> same_entries d e)"

section \<open>Patterns\<close>

text \<open>\<open>fnmatch.fnmatch\<close> on a system whose paths keep their case: \<open>*\<close>, \<open>?\<close>, and a class in brackets, which may be negated and hold
  ranges. A bracket that is not closed stands for itself.\<close>

definition bracket_class :: "string \<Rightarrow> (string \<times> string) option" where
  "bracket_class ps = (let (a, q) = (case ps of [] \<Rightarrow> ([], []) | c # cs \<Rightarrow> if c = CHR ''!'' then ([c], cs) else ([], ps));
       (b, r) = (case q of [] \<Rightarrow> ([], []) | c # cs \<Rightarrow> if c = CHR '']'' then ([c], cs) else ([], q))
     in case split_at_char (\<lambda>c. c = CHR '']'') r of (body, Some rest) \<Rightarrow> Some (a @ b @ body, rest) | (_, None) \<Rightarrow> None)"

fun in_class :: "string \<Rightarrow> char \<Rightarrow> bool" where
  "in_class [] c = False"
| "in_class (x # y # z # ps) c = (if y = CHR ''-'' then x \<le> c \<and> c \<le> z \<or> in_class ps c else x = c \<or> in_class (y # z # ps) c)"
| "in_class (x # ps) c = (x = c \<or> in_class ps c)"

definition class_holds :: "string \<Rightarrow> char \<Rightarrow> bool" where
  "class_holds stuff c = (case stuff of [] \<Rightarrow> False | x # xs \<Rightarrow> if x = CHR ''!'' then \<not> in_class xs c else in_class stuff c)"

lemma split_at_char_length: "split_at_char P s = (a, Some r) \<Longrightarrow> length r < length s"
proof -
  assume s: "split_at_char P s = (a, Some r)"
  then obtain c where "dropWhile (\<lambda>c. \<not> P c) s = c # r" by (cases "dropWhile (\<lambda>c. \<not> P c) s") (simp_all add: split_at_char_def Let_def)
  with length_dropWhile_le [of "\<lambda>c. \<not> P c" s] show ?thesis by simp
qed

lemma bracket_class_length: "bracket_class ps = Some (stuff, rest) \<Longrightarrow> length rest < length ps"
  by (auto simp: bracket_class_def Let_def split: list.splits if_splits prod.splits option.splits dest: split_at_char_length)

function glob_match :: "string \<Rightarrow> string \<Rightarrow> bool" where
  "glob_match [] s = (s = [])"
| "glob_match (p # ps) s = (if p = CHR ''*'' then glob_match ps s \<or> (case s of [] \<Rightarrow> False | c # cs \<Rightarrow> glob_match (p # ps) cs)
     else case s of [] \<Rightarrow> False
       | c # cs \<Rightarrow> if p = CHR ''?'' then glob_match ps cs
           else (case (if p = CHR ''['' then bracket_class ps else None) of
               None \<Rightarrow> p = c \<and> glob_match ps cs
             | Some (stuff, rest) \<Rightarrow> class_holds stuff c \<and> glob_match rest cs))"
  by pat_completeness auto
termination
  by (relation "measure (\<lambda>(p, s). length p + length s)") (auto dest!: bracket_class_length split: if_splits)

definition matches_any :: "string \<Rightarrow> pyval list \<Rightarrow> bool res" where
  "matches_any path ps = foldr (\<lambda>p r. case p of PStr t \<Rightarrow> if glob_match t path then Inr True else r | _ \<Rightarrow> Inl TypeError) ps (Inr False)"

definition path_risk :: "string \<Rightarrow> pyval list \<Rightarrow> pyval list \<Rightarrow> string res" where
  "path_risk path critical risk = bind_res (matches_any path critical) (\<lambda>c. if c then Inr ''critical''
     else bind_res (matches_any path risk) (\<lambda>r. Inr (if r then ''risk'' else ''low'')))"

section \<open>Entries\<close>

definition merge_dict :: "pydict \<Rightarrow> pydict \<Rightarrow> pydict" where
  "merge_dict acc new = foldl (\<lambda>a (k, v). AList.update k v a) acc new"

definition sub_path :: "string \<Rightarrow> string \<Rightarrow> string" where
  "sub_path prefix k = (if prefix = [] then k else prefix @ ''.'' @ k)"

fun flatten_into :: "string \<Rightarrow> pydict \<Rightarrow> pydict \<Rightarrow> pydict" where
  "flatten_into prefix [] acc = acc"
| "flatten_into prefix ((k, v) # d) acc = flatten_into prefix d (case v of
       PDict e \<Rightarrow> merge_dict acc (flatten_into (sub_path prefix k) e []) | _ \<Rightarrow> AList.update (sub_path prefix k) v acc)"

definition flatten :: "pydict \<Rightarrow> pydict" where
  "flatten d = flatten_into [] d []"

record diff_entry =
  de_path :: string
  de_from :: pyval
  de_to :: pyval
  de_change :: string
  de_risk :: string

definition diff_entry_dict :: "diff_entry \<Rightarrow> pydict" where
  "diff_entry_dict e = [(''path'', PStr (de_path e)), (''from'', de_from e), (''to'', de_to e), (''change_type'', PStr (de_change e)), (''risk_level'', PStr (de_risk e))]"

definition compare_at :: "pydict \<Rightarrow> pydict \<Rightarrow> string \<Rightarrow> diff_entry list" where
  "compare_at a b k = (case (map_of a k, map_of b k) of
       (None, None) \<Rightarrow> []
     | (None, Some w) \<Rightarrow> [\<lparr>de_path = k, de_from = PNone, de_to = w, de_change = ''added'', de_risk = ''low''\<rparr>]
     | (Some v, None) \<Rightarrow> [\<lparr>de_path = k, de_from = v, de_to = PNone, de_change = ''removed'', de_risk = ''low''\<rparr>]
     | (Some v, Some w) \<Rightarrow> if py_eq v w then [] else [\<lparr>de_path = k, de_from = v, de_to = w, de_change = ''changed'', de_risk = ''low''\<rparr>])"

definition diff_mappings :: "pydict \<Rightarrow> pydict \<Rightarrow> diff_entry list" where
  "diff_mappings base target = (let a = flatten base; b = flatten target in concat (map (compare_at a b) (sort (remdups (map fst a @ map fst b)))))"

section \<open>The service\<close>

text \<open>Files by their path; None where there is none.\<close>

record diff_world =
  dw_files :: "string \<Rightarrow> json_file"
  dw_risk :: json_file
  dw_audit :: "pyval list"
  dw_signatures :: "(string \<times> pyval) list"

definition schema_error :: "string \<Rightarrow> err" where
  "schema_error m = Raises ''ConfigSchemaError'' m"

definition resolve_profile :: "string \<Rightarrow> diff_world \<Rightarrow> pyval option res" where
  "resolve_profile p w = (case dw_files w p of Some f \<Rightarrow> Inr f
     | None \<Rightarrow> (case dw_files w (''config/profiles/'' @ p @ ''.yaml'') of Some f \<Rightarrow> Inr f
         | None \<Rightarrow> (case dw_files w (''config/profiles/'' @ p @ ''.yml'') of Some f \<Rightarrow> Inr f
             | None \<Rightarrow> Inl (Raises ''FileNotFoundError'' (''profile not found: '' @ p)))))"

text \<open>A text that starts like JSON is read as JSON and returned as it is, else a false value of YAML counts as empty.\<close>

definition parse_config :: "pyval option \<Rightarrow> pyval res" where
  "parse_config f = (case f of None \<Rightarrow> Inl (Raises ''YAMLError'' []) | Some (PList xs) \<Rightarrow> Inr (PList xs) | Some v \<Rightarrow> Inr (py_or v (PDict [])))"

definition load_profile_config :: "(pyval \<Rightarrow> string option) \<Rightarrow> string \<Rightarrow> diff_world \<Rightarrow> pydict res" where
  "load_profile_config schema p w = bind_res (resolve_profile p w) (\<lambda>f. bind_res (parse_config f) (\<lambda>v. case v of
       PDict d \<Rightarrow> (case schema v of None \<Rightarrow> Inr d | Some m \<Rightarrow> Inl (schema_error m))
     | _ \<Rightarrow> Inl (schema_error ''config payload must be a mapping'')))"

definition load_risk_config :: "diff_world \<Rightarrow> (pyval list \<times> pyval list) res" where
  "load_risk_config w = (case dw_risk w of None \<Rightarrow> Inr ([], [])
     | Some f \<Rightarrow> bind_res (parse_config f) (\<lambda>v. bind_res (as_dict_get v) (\<lambda>d. bind_res (py_iter (py_or (dget d ''critical_paths'') (PList []))) (\<lambda>c.
         bind_res (py_iter (py_or (dget d ''risk_paths'') (PList []))) (\<lambda>r. Inr (c, r))))))"

definition enrich :: "pyval list \<Rightarrow> pyval list \<Rightarrow> diff_entry \<Rightarrow> diff_entry res" where
  "enrich c r e = bind_res (path_risk (de_path e) c r) (\<lambda>l. Inr (e\<lparr>de_risk := l\<rparr>))"

definition diff_event :: "pydt \<Rightarrow> string \<Rightarrow> string \<Rightarrow> nat \<Rightarrow> pydict" where
  "diff_event now p q n = [(''event'', PStr ''config.diff.generated''), (''ts'', PStr (utc_iso now)), (''profile_from'', PStr p), (''profile_to'', PStr q), (''diff_count'', PInt (int n))]"

definition config_diff :: "(pyval \<Rightarrow> string option) \<Rightarrow> pydt \<Rightarrow> string \<Rightarrow> string \<Rightarrow> diff_world \<Rightarrow> diff_world \<times> diff_entry list res" where
  "config_diff schema now p q w = (case
     bind_res (load_profile_config schema p w) (\<lambda>a. bind_res (load_profile_config schema q w) (\<lambda>b. bind_res (load_risk_config w) (\<lambda>(c, r).
       map_res (enrich c r) (diff_mappings a b)))) of
     Inl e \<Rightarrow> (w, Inl e)
   | Inr es \<Rightarrow> (w\<lparr>dw_audit := dw_audit w @ [PDict (diff_event now p q (length es))]\<rparr>, Inr es))"

section \<open>Summary and rendering\<close>

record diff_summary =
  ds_counts :: "(string \<times> int) list"
  ds_risks :: "(string \<times> int) list"
  ds_numeric :: "pydict list"

definition diff_summary_dict :: "diff_summary \<Rightarrow> pydict" where
  "diff_summary_dict s = [(''counts'', PDict (map (\<lambda>(k, n). (k, PInt n)) (ds_counts s))), (''risk_counts'', PDict (map (\<lambda>(k, n). (k, PInt n)) (ds_risks s))),
     (''numeric_changes'', PList (map PDict (ds_numeric s)))]"

definition count_up :: "string \<Rightarrow> (string \<times> int) list \<Rightarrow> (string \<times> int) list" where
  "count_up k d = AList.update k ((case map_of d k of None \<Rightarrow> 0 | Some n \<Rightarrow> n) + 1) d"

text \<open>Truth values are integers to \<open>isinstance\<close>.\<close>

definition whole_number :: "pyval \<Rightarrow> int option" where
  "whole_number v = (case v of PBool b \<Rightarrow> Some (if b then 1 else 0) | PInt i \<Rightarrow> Some i | _ \<Rightarrow> None)"

definition number_minus :: "pyval \<Rightarrow> pyval \<Rightarrow> pyval res" where
  "number_minus a b = (case (whole_number a, whole_number b) of (Some i, Some j) \<Rightarrow> Inr (PInt (i - j))
     | _ \<Rightarrow> bind_res (py_float a) (\<lambda>x. bind_res (py_float b) (\<lambda>y. Inr (PFloat (fsub x y)))))"

text \<open>The quotient by the absolute value; integers divide to the nearest float, or overflow.\<close>

definition relative_change :: "pyval \<Rightarrow> pyval \<Rightarrow> pyval res" where
  "relative_change delta from_value = (if \<not> truthy from_value then Inr PNone
     else case (whole_number delta, whole_number from_value) of
         (Some i, Some j) \<Rightarrow> (case rnd (of_int i / of_int (abs j)) of Fin x \<Rightarrow> Inr (PFloat (Fin x)) | _ \<Rightarrow> Inl OverflowError)
       | _ \<Rightarrow> bind_res (py_float delta) (\<lambda>x. bind_res (py_float from_value) (\<lambda>y. bind_res (fdiv x (fabs y)) (\<lambda>z. Inr (PFloat z)))))"

definition numeric_change :: "diff_entry \<Rightarrow> pydict list res" where
  "numeric_change e = (if number_of (de_from e) = None \<or> number_of (de_to e) = None then Inr []
     else bind_res (number_minus (de_to e) (de_from e)) (\<lambda>delta. bind_res (relative_change delta (de_from e)) (\<lambda>pct.
       Inr [[(''path'', PStr (de_path e)), (''from'', de_from e), (''to'', de_to e), (''delta'', delta), (''pct'', pct)]])))"

definition summarize :: "diff_entry list \<Rightarrow> diff_summary res" where
  "summarize es = bind_res (map_res numeric_change es) (\<lambda>ns. Inr
     \<lparr>ds_counts = foldl (\<lambda>d e. count_up (de_change e) d) [(''added'', 0), (''removed'', 0), (''changed'', 0)] es,
      ds_risks = foldl (\<lambda>d e. count_up (de_risk e) d) [] es, ds_numeric = concat ns\<rparr>)"

text \<open>The JSON format is the document it denotes.\<close>

datatype rendering = Rendered string | Document pyval

definition tab :: string where "tab = [char_of (9 :: nat)]"
definition newline :: string where "newline = [char_of (10 :: nat)]"

definition render :: "string \<Rightarrow> diff_entry list \<Rightarrow> rendering" where
  "render fmt es = (if fmt = ''json'' then Document (PList (map (PDict \<circ> diff_entry_dict) es))
     else if fmt = ''md'' then Rendered (str_join newline ([''| Path | From | To | Change | Risk |'', ''| --- | --- | --- | --- | --- |'']
       @ map (\<lambda>e. ''| `'' @ de_path e @ ''` | `'' @ py_str (de_from e) @ ''` | `'' @ py_str (de_to e) @ ''` | '' @ de_change e @ '' | '' @ de_risk e @ '' |'') es))
     else Rendered (str_join newline (str_join tab [''path'', ''from'', ''to'', ''change'', ''risk'']
       # map (\<lambda>e. str_join tab [de_path e, py_str (de_from e), py_str (de_to e), de_change e, de_risk e]) es)))"

section \<open>Signing\<close>

record signed_diff =
  sg_id :: string
  sg_from :: string
  sg_to :: string
  sg_sha :: string
  sg_at :: string
  sg_signer :: string
  sg_signature :: string
  sg_path :: string

definition signed_diff_dict :: "signed_diff \<Rightarrow> pydict" where
  "signed_diff_dict s = [(''diff_id'', PStr (sg_id s)), (''profile_from'', PStr (sg_from s)), (''profile_to'', PStr (sg_to s)), (''sha256'', PStr (sg_sha s)),
     (''signed_at'', PStr (sg_at s)), (''signer'', PStr (sg_signer s)), (''signature'', PStr (sg_signature s)), (''signature_path'', PStr (sg_path s))]"

definition signature_file :: "signed_diff \<Rightarrow> pydict" where
  "signature_file s = [(''diff_id'', PStr (sg_id s)), (''profile_from'', PStr (sg_from s)), (''profile_to'', PStr (sg_to s)), (''sha256'', PStr (sg_sha s)),
     (''signed_at'', PStr (sg_at s)), (''signer'', PStr (sg_signer s)), (''signature'', PStr (sg_signature s))]"

definition signed_event :: "pydt \<Rightarrow> signed_diff \<Rightarrow> pydict" where
  "signed_event now s = [(''event'', PStr ''config.diff.signed''), (''ts'', PStr (utc_iso now)), (''diff_id'', PStr (sg_id s)), (''profile_from'', PStr (sg_from s)),
     (''profile_to'', PStr (sg_to s)), (''signature_path'', PStr (sg_path s)), (''signer'', PStr (sg_signer s))]"

text \<open>The time is read for the file and again for the audit line.\<close>

definition prepare_signature :: "(pyval \<Rightarrow> string) \<Rightarrow> (string \<Rightarrow> string res) \<Rightarrow> string \<Rightarrow> pydt \<Rightarrow> pydt \<Rightarrow> string \<Rightarrow> diff_entry list \<Rightarrow> string \<Rightarrow> string \<Rightarrow> string
    \<Rightarrow> diff_world \<Rightarrow> diff_world \<times> signed_diff res" where
  "prepare_signature hash sign uid now1 now2 dir es p q signer w = (let digest = hash (PList (map (PDict \<circ> diff_entry_dict) es)) in case sign digest of
       Inl e \<Rightarrow> (w, Inl e)
     | Inr sig \<Rightarrow> let s = \<lparr>sg_id = uid, sg_from = p, sg_to = q, sg_sha = digest, sg_at = utc_iso now1, sg_signer = signer, sg_signature = sig, sg_path = dir @ ''/'' @ uid @ ''.sig''\<rparr>
         in (w\<lparr>dw_signatures := AList.update (sg_path s) (PDict (signature_file s)) (dw_signatures w), dw_audit := dw_audit w @ [PDict (signed_event now2 s)]\<rparr>, Inr s))"

section \<open>What a list of entries says\<close>

definition apply_entry :: "(string \<rightharpoonup> pyval) \<Rightarrow> diff_entry \<Rightarrow> (string \<rightharpoonup> pyval)" where
  "apply_entry m e = m(de_path e := (if de_change e = ''removed'' then None else Some (de_to e)))"

lemma compare_at_path: "e \<in> set (compare_at a b k) \<Longrightarrow> de_path e = k"
  by (auto simp: compare_at_def split: option.splits if_splits)

lemma compare_at_low: "e \<in> set (compare_at a b k) \<Longrightarrow> de_risk e = ''low''"
  by (auto simp: compare_at_def split: option.splits if_splits)

lemma apply_compare: "foldl apply_entry m (compare_at a b k) k' = (if k' \<noteq> k then m k' else case (map_of a k, map_of b k) of
    (None, None) \<Rightarrow> m k | (Some v, Some w) \<Rightarrow> if py_eq v w then m k else Some w | (_, x) \<Rightarrow> x)"
  by (auto simp: compare_at_def apply_entry_def split: option.splits)

lemma apply_compares: "foldl apply_entry m (concat (map (compare_at a b) ks)) k = (if k \<in> set ks then foldl apply_entry m (compare_at a b k) k else m k)"
proof (induction ks arbitrary: m)
  case (Cons x ks)
  then show ?case by (cases "k = x") (auto simp: apply_compare split: option.splits)
qed simp

lemma map_of_outside: "k \<notin> set (map fst d) \<Longrightarrow> map_of d k = None"
  by (simp add: map_of_eq_None_iff)

text \<open>C25: The entries of two configurations carry the values of the first over to the second: at every path they leave the value of the second,
  or one that was equal to it all along.\<close>

theorem diff_carries_over:
  "foldl apply_entry (map_of (flatten a)) (diff_mappings a b) k = map_of (flatten b) k
   \<or> (\<exists>v w. foldl apply_entry (map_of (flatten a)) (diff_mappings a b) k = Some v \<and> map_of (flatten b) k = Some w \<and> py_eq v w)"
  using map_of_outside [of k "flatten a"] map_of_outside [of k "flatten b"]
  by (auto simp: diff_mappings_def Let_def apply_compares apply_compare split: option.splits)

lemma compares_paths:
  "set (map de_path (concat (map (compare_at a b) ks))) \<subseteq> set ks"
  by (auto dest: compare_at_path)

lemma compares_sorted: "sorted ks \<Longrightarrow> distinct ks \<Longrightarrow> sorted (map de_path (concat (map (compare_at a b) ks))) \<and> distinct (map de_path (concat (map (compare_at a b) ks)))"
proof (induction ks)
  case (Cons k ks)
  have one: "map de_path (compare_at a b k) = [] \<or> map de_path (compare_at a b k) = [k]"
    by (auto simp: compare_at_def split: option.splits)
  define ps where "ps = map de_path (concat (map (compare_at a b) ks))"
  have split: "map de_path (concat (map (compare_at a b) (k # ks))) = map de_path (compare_at a b k) @ ps" by (simp add: ps_def)
  have "sorted ps" "distinct ps" using Cons by (simp_all add: ps_def)
  moreover have "\<forall>x \<in> set ps. k \<le> x" "k \<notin> set ps" using compares_paths [of a b ks, folded ps_def] Cons.prems by auto
  ultimately show ?case using one unfolding split by (elim disjE) simp_all
qed simp

text \<open>One entry for a path, in the order of the paths: an entry is there exactly where the two sides differ, and says how.\<close>

theorem diff_exact_entries:
  "sorted (map de_path (diff_mappings a b)) \<and> distinct (map de_path (diff_mappings a b))
   \<and> (e \<in> set (diff_mappings a b) \<longleftrightarrow> (case (map_of (flatten a) (de_path e), map_of (flatten b) (de_path e)) of
       (None, None) \<Rightarrow> False
     | (None, Some w) \<Rightarrow> e = \<lparr>de_path = de_path e, de_from = PNone, de_to = w, de_change = ''added'', de_risk = ''low''\<rparr>
     | (Some v, None) \<Rightarrow> e = \<lparr>de_path = de_path e, de_from = v, de_to = PNone, de_change = ''removed'', de_risk = ''low''\<rparr>
     | (Some v, Some w) \<Rightarrow> \<not> py_eq v w \<and> e = \<lparr>de_path = de_path e, de_from = v, de_to = w, de_change = ''changed'', de_risk = ''low''\<rparr>))"
proof -
  define ks where "ks = sort (remdups (map fst (flatten a) @ map fst (flatten b)))"
  have d: "diff_mappings a b = concat (map (compare_at (flatten a) (flatten b)) ks)" by (simp add: diff_mappings_def ks_def Let_def)
  have "e \<in> set (diff_mappings a b) \<longleftrightarrow> e \<in> set (compare_at (flatten a) (flatten b) (de_path e))"
  proof
    assume "e \<in> set (diff_mappings a b)"
    then obtain k where "e \<in> set (compare_at (flatten a) (flatten b) k)" by (auto simp: d)
    with compare_at_path [OF this] show "e \<in> set (compare_at (flatten a) (flatten b) (de_path e))" by simp
  next
    assume e: "e \<in> set (compare_at (flatten a) (flatten b) (de_path e))"
    then have "map_of (flatten a) (de_path e) \<noteq> None \<or> map_of (flatten b) (de_path e) \<noteq> None" by (cases "map_of (flatten a) (de_path e)"; cases "map_of (flatten b) (de_path e)") (simp_all add: compare_at_def)
    then have "de_path e \<in> set ks" unfolding ks_def by (auto simp: map_of_eq_None_iff)
    with e show "e \<in> set (diff_mappings a b)" by (auto simp: d)
  qed
  also have "\<dots> = (case (map_of (flatten a) (de_path e), map_of (flatten b) (de_path e)) of
       (None, None) \<Rightarrow> False
     | (None, Some w) \<Rightarrow> e = \<lparr>de_path = de_path e, de_from = PNone, de_to = w, de_change = ''added'', de_risk = ''low''\<rparr>
     | (Some v, None) \<Rightarrow> e = \<lparr>de_path = de_path e, de_from = v, de_to = PNone, de_change = ''removed'', de_risk = ''low''\<rparr>
     | (Some v, Some w) \<Rightarrow> \<not> py_eq v w \<and> e = \<lparr>de_path = de_path e, de_from = v, de_to = w, de_change = ''changed'', de_risk = ''low''\<rparr>)"
    by (auto simp: compare_at_def split: option.splits)
  finally show ?thesis using compares_sorted [of ks "flatten a" "flatten b"] by (simp add: d ks_def)
qed

section \<open>Levels\<close>

lemma matches_any_exact: "matches_any path ps = Inr x \<Longrightarrow> list_all (\<lambda>p. \<exists>t. p = PStr t) ps \<Longrightarrow> x \<longleftrightarrow> list_ex (\<lambda>p. glob_match (py_str p) path) ps"
proof (induction ps)
  case (Cons p ps)
  then obtain t where "p = PStr t" by auto
  with Cons show ?case by (auto simp: matches_any_def split: if_splits)
qed (simp add: matches_any_def)

lemma matches_any_texts: "matches_any path (map PStr ts) = Inr (list_ex (\<lambda>t. glob_match t path) ts)"
  by (induction ts) (simp_all add: matches_any_def)

lemma map_res_const: "(\<And>x. x \<in> set xs \<Longrightarrow> f x = Inr (g x)) \<Longrightarrow> map_res f xs = Inr (map g xs)"
  by (induction xs) simp_all

text \<open>With patterns that are texts every difference gets a level: critical exactly if a critical pattern matches its path, low exactly if none
  of either list does; one line goes to the audit.\<close>

theorem levels_exact:
  assumes "load_profile_config schema p w = Inr a" "load_profile_config schema q w = Inr b" "load_risk_config w = Inr (map PStr cs, map PStr rs)"
  shows "\<exists>es. config_diff schema now p q w = (w\<lparr>dw_audit := dw_audit w @ [PDict (diff_event now p q (length es))]\<rparr>, Inr es)
    \<and> map (\<lambda>e. e\<lparr>de_risk := ''low''\<rparr>) es = diff_mappings a b
    \<and> list_all (\<lambda>e. de_risk e = (if list_ex (\<lambda>t. glob_match t (de_path e)) cs then ''critical'' else if list_ex (\<lambda>t. glob_match t (de_path e)) rs then ''risk'' else ''low'')) es"
proof -
  define g :: "diff_entry \<Rightarrow> diff_entry" where "g = (\<lambda>e. e\<lparr>de_risk := (if list_ex (\<lambda>t. glob_match t (de_path e)) cs then ''critical'' else if list_ex (\<lambda>t. glob_match t (de_path e)) rs then ''risk'' else ''low'')\<rparr>)"
  have "enrich (map PStr cs) (map PStr rs) e = Inr (g e)" for e by (simp add: enrich_def path_risk_def matches_any_texts g_def)
  then have "map_res (enrich (map PStr cs) (map PStr rs)) (diff_mappings a b) = Inr (map g (diff_mappings a b))" by (intro map_res_const)
  then have run: "config_diff schema now p q w = (w\<lparr>dw_audit := dw_audit w @ [PDict (diff_event now p q (length (map g (diff_mappings a b))))]\<rparr>, Inr (map g (diff_mappings a b)))"
    using assms by (simp add: config_diff_def)
  have "de_risk e = ''low''" if "e \<in> set (diff_mappings a b)" for e
    using that compare_at_low by (auto simp: diff_mappings_def Let_def)
  then have "map (\<lambda>e. e\<lparr>de_risk := ''low''\<rparr>) (map g (diff_mappings a b)) = diff_mappings a b" by (simp add: g_def comp_def map_idI)
  moreover have "list_all (\<lambda>e. de_risk e = (if list_ex (\<lambda>t. glob_match t (de_path e)) cs then ''critical''
      else if list_ex (\<lambda>t. glob_match t (de_path e)) rs then ''risk'' else ''low'')) (map g (diff_mappings a b))"
    by (simp add: list_all_iff g_def)
  ultimately show ?thesis using run by blast
qed

text \<open>A section pattern \<open>risk.*\<close> matches what begins with the section and its dot, and not the section itself.\<close>

lemma star_matches: "glob_match ''*'' s"
  by (induction s) simp_all

lemma section_pattern: "set s \<inter> {CHR ''*'', CHR ''?'', CHR ''[''} = {} \<Longrightarrow> glob_match (s @ ''*'') path \<longleftrightarrow> starts_with s path"
proof (induction s arbitrary: path)
  case Nil
  then show ?case using star_matches by (simp add: starts_with_def)
next
  case (Cons c s)
  then show ?case by (cases path) (auto simp: starts_with_def)
qed

section \<open>Summaries\<close>

lemma count_up_sum: "wf_dict d \<Longrightarrow> wf_dict (count_up k d) \<and> sum_list (map snd (count_up k d)) = sum_list (map snd d) + 1"
proof -
  assume d: "wf_dict d"
  have "sum_list (map snd (AList.update k v d)) = sum_list (map snd d) - (case map_of d k of None \<Rightarrow> 0 | Some n \<Rightarrow> n) + v" if "wf_dict d" for v :: int
    using that by (induction d) (auto split: option.splits)
  with d show ?thesis by (simp add: count_up_def split: option.splits)
qed

lemma count_ups: "wf_dict d \<Longrightarrow> wf_dict (foldl (\<lambda>d e. count_up (f e) d) d es) \<and> sum_list (map snd (foldl (\<lambda>d e. count_up (f e) d) d es)) = sum_list (map snd d) + int (length es)"
  by (induction es arbitrary: d) (simp_all add: count_up_sum)

lemma count_ups_at: "(case map_of (foldl (\<lambda>d e. count_up (f e) d) d es) k of None \<Rightarrow> 0 | Some n \<Rightarrow> n)
    = (case map_of d k of None \<Rightarrow> 0 | Some n \<Rightarrow> n) + int (length (filter (\<lambda>e. f e = k) es))"
proof (induction es arbitrary: d)
  case (Cons e es)
  show ?case using Cons [of "count_up (f e) d"] by (simp add: count_up_def)
qed simp

lemma map_res_mem_number: "map_res numeric_change es = Inr ns \<Longrightarrow> length (concat ns) = length (filter (\<lambda>e. number_of (de_from e) \<noteq> None \<and> number_of (de_to e) \<noteq> None) es)"
  by (induction es arbitrary: ns) (auto simp: numeric_change_def bind_res_eq_Inr split: if_splits)

text \<open>The counts of a summary are those of its entries and each add up to their number; a numeric change is listed for every pair of numbers.\<close>

theorem summary_counts:
  assumes "summarize es = Inr s"
  shows "(case map_of (ds_counts s) k of None \<Rightarrow> 0 | Some n \<Rightarrow> n) = int (length (filter (\<lambda>e. de_change e = k) es))
    \<and> (case map_of (ds_risks s) k of None \<Rightarrow> 0 | Some n \<Rightarrow> n) = int (length (filter (\<lambda>e. de_risk e = k) es))
    \<and> sum_list (map snd (ds_counts s)) = int (length es) \<and> sum_list (map snd (ds_risks s)) = int (length es)
    \<and> length (ds_numeric s) = length (filter (\<lambda>e. number_of (de_from e) \<noteq> None \<and> number_of (de_to e) \<noteq> None) es)"
proof -
  from assms obtain ns where ns: "map_res numeric_change es = Inr ns" and s: "ds_numeric s = concat ns"
    "ds_counts s = foldl (\<lambda>d e. count_up (de_change e) d) [(''added'', 0), (''removed'', 0), (''changed'', 0)] es" "ds_risks s = foldl (\<lambda>d e. count_up (de_risk e) d) [] es"
    by (auto simp: summarize_def bind_res_eq_Inr)
  have wf: "wf_dict [(''added'', 0 :: int), (''removed'', 0), (''changed'', 0)]" by simp
  show ?thesis unfolding s count_ups_at using count_ups [OF wf, of de_change es] count_ups [OF wf_dict_Nil, of de_risk es] map_res_mem_number [OF ns]
    by (simp split: option.splits)
qed

section \<open>What is not seen\<close>

text \<open>A section without content leaves no trace: adding or removing it is no difference.\<close>

theorem empty_section_unseen: "flatten (d @ [(k, PDict [])]) = flatten d"
proof -
  have "flatten_into prefix (d @ [(k, PDict [])]) acc = flatten_into prefix d acc" for prefix acc
    by (induction prefix d acc rule: flatten_into.induct) (simp_all add: merge_dict_def)
  then show ?thesis by (simp add: flatten_def)
qed

text \<open>A switch that becomes a number, true to 1, is no difference.\<close>

theorem switch_to_number_unseen: "diff_mappings [(k, PBool True)] [(k, PInt 1)] = []"
  by (simp add: diff_mappings_def Let_def flatten_def sub_path_def compare_at_def number_eq_def number_of_def)

text \<open>A key with a dot hides behind a section of that name: what becomes of it is no difference.\<close>

theorem dotted_key_hidden:
  assumes "\<not> is_mapping v"
  shows "diff_mappings [(''risk.max_r'', v), (''risk'', PDict [(''max_r'', PInt 1)])] [(''risk.max_r'', PInt n), (''risk'', PDict [(''max_r'', PInt 1)])] = []"
  using assms by (cases v) (simp_all add: diff_mappings_def Let_def flatten_def sub_path_def merge_dict_def compare_at_def number_eq_def number_of_def is_mapping_def)

section \<open>Signatures\<close>

text \<open>What is signed is the hash of the entries; the file and the audit line carry the identifier of the signature returned.\<close>

theorem signature_recorded:
  assumes "prepare_signature hash sign uid now1 now2 dir es p q signer w = (w', Inr s)"
  shows "sg_sha s = hash (PList (map (PDict \<circ> diff_entry_dict) es)) \<and> sign (sg_sha s) = Inr (sg_signature s)
    \<and> map_of (dw_signatures w') (sg_path s) = Some (PDict (signature_file s)) \<and> dw_audit w' = dw_audit w @ [PDict (signed_event now2 s)]
    \<and> dw_files w' = dw_files w"
  using assms by (auto simp: prepare_signature_def Let_def split: sum.splits)

section \<open>Instances\<close>

definition demo_diff_now :: pydt where
  "demo_diff_now = \<lparr>yr = 2025, mo = 1, dy = 1, hh = 0, mi = 0, ss = 0, us = 0, tzo = Some 0\<rparr>"

definition demo_old :: pydict where
  "demo_old = [(''risk'', PDict [(''max_r'', PInt 1)])]"

definition demo_new :: pydict where
  "demo_new = [(''risk'', PDict [(''max_r'', PInt 2)]), (''name'', PStr ''b'')]"

definition demo_diff_world :: diff_world where
  "demo_diff_world = \<lparr>dw_files = (\<lambda>p. if p = ''a'' then Some (Some (PDict demo_old)) else if p = ''config/profiles/b.yaml'' then Some (Some (PDict demo_new)) else None),
     dw_risk = Some (Some (PDict [(''critical_paths'', PList [PStr ''risk.*'']), (''risk_paths'', PList [])])), dw_audit = [], dw_signatures = []\<rparr>"

lemma demo_profiles: "load_profile_config (\<lambda>v. None) ''a'' demo_diff_world = Inr demo_old" "load_profile_config (\<lambda>v. None) ''b'' demo_diff_world = Inr demo_new"
  "load_risk_config demo_diff_world = Inr (map PStr [''risk.*''], map PStr [])"
  by (simp_all add: load_profile_config_def resolve_profile_def parse_config_def demo_diff_world_def demo_old_def demo_new_def py_or_def load_risk_config_def dget_def py_iter_def)

lemma demo_difference: "diff_mappings demo_old demo_new = [\<lparr>de_path = ''name'', de_from = PNone, de_to = PStr ''b'', de_change = ''added'', de_risk = ''low''\<rparr>,
    \<lparr>de_path = ''risk.max_r'', de_from = PInt 1, de_to = PInt 2, de_change = ''changed'', de_risk = ''low''\<rparr>]"
proof -
  have "sort [''risk.max_r'', ''name''] = [''name'', ''risk.max_r'']" by code_simp
  then show ?thesis
    by (simp add: diff_mappings_def demo_old_def demo_new_def flatten_def sub_path_def merge_dict_def compare_at_def number_eq_def number_of_def)
qed

theorem levels_exact_witness:
  "\<exists>w' es. config_diff (\<lambda>v. None) demo_diff_now ''a'' ''b'' demo_diff_world = (w', Inr es) \<and> map (\<lambda>e. e\<lparr>de_risk := ''low''\<rparr>) es = diff_mappings demo_old demo_new"
  using levels_exact [OF demo_profiles, of demo_diff_now] by blast

theorem summary_counts_witness:
  "\<exists>s. summarize (diff_mappings demo_old demo_new) = Inr s \<and> sum_list (map snd (ds_counts s)) = 2"
proof -
  have one: "rnd 1 = Fin 1" using rnd_int [of 1] by simp
  have "\<exists>s. summarize (diff_mappings demo_old demo_new) = Inr s"
    by (simp add: demo_difference summarize_def numeric_change_def number_of_def number_minus_def whole_number_def relative_change_def one)
  then obtain s where s: "summarize (diff_mappings demo_old demo_new) = Inr s" by blast
  from summary_counts [OF s] show ?thesis by (simp add: s) (simp add: demo_difference)
qed

theorem dotted_key_hidden_witness:
  "diff_mappings [(''risk.max_r'', PInt 5), (''risk'', PDict [(''max_r'', PInt 1)])] [(''risk.max_r'', PInt 9), (''risk'', PDict [(''max_r'', PInt 1)])] = []"
  using dotted_key_hidden [of "PInt 5" 9] by (simp add: is_mapping_def)

theorem signature_recorded_witness:
  "\<exists>w' s. prepare_signature (\<lambda>v. ''d'') (\<lambda>d. Inr ''s'') ''u'' demo_diff_now demo_diff_now ''dir'' [] ''a'' ''b'' ''me'' demo_diff_world = (w', Inr s) \<and> sg_sha s = ''d''"
proof -
  obtain w' s where r: "prepare_signature (\<lambda>v. ''d'') (\<lambda>d. Inr ''s'') ''u'' demo_diff_now demo_diff_now ''dir'' [] ''a'' ''b'' ''me'' demo_diff_world = (w', Inr s)"
    by (simp add: prepare_signature_def Let_def)
  have "sg_sha s = ''d''" using signature_recorded [OF r] by simp
  with r show ?thesis by blast
qed

end
