(* ===== verification/Cost.thy ===== *)
theory Cost
  imports PyStamp
begin

text \<open>
  The round-trip cost of a position, \<open>execution/cost.py\<close>: the configuration, the session of a time, the nights
  and weekends a holding crosses, and the five components of the cost.

  Shown: the loops over days return, and count what closed forms say; every time has one session;
  with a configuration without negative values no component is negative. And where it fails: a
  holding that ends on the day before a Friday close is charged the weekend, negative values of the
  configuration make negative costs, and a configured cost can come out as zero.
\<close>

section \<open>The configuration\<close>

definition cost_error :: "string \<Rightarrow> err" where
  "cost_error m = Raises ''CostConfigError'' m"

definition required_sections :: "string list" where
  "required_sections = [''commission'', ''slippage'', ''spread'', ''swap'', ''weekend_gap'']"

text \<open>A configuration is the dictionary of its file; \<open>path\<close> is for the message.\<close>

definition load_cost_config :: "string \<Rightarrow> json_file \<Rightarrow> pydict res" where
  "load_cost_config path f = (case f of
       None \<Rightarrow> Inl (cost_error (''execution config missing at '' @ path))
     | Some None \<Rightarrow> Inl (cost_error ''execution config parse error'')
     | Some (Some (PDict d)) \<Rightarrow> (case filter (\<lambda>k. map_of d k = None) required_sections of
           [] \<Rightarrow> Inr d | ks \<Rightarrow> Inl (cost_error (''execution config missing required sections: '' @ str_join '', '' ks)))
     | Some (Some _) \<Rightarrow> Inl (cost_error ''execution config must be a mapping at the top level''))"

text \<open>A section that is a text or a list can hold the symbol too; what follows then is outside the model.\<close>

definition symbol_bucket :: "pyval \<Rightarrow> string \<Rightarrow> pydict res" where
  "symbol_bucket table symbol = (case table of
       PDict d \<Rightarrow> (case map_of d symbol of Some v \<Rightarrow> py_dict v
         | None \<Rightarrow> (case map_of d ''default'' of Some v \<Rightarrow> py_dict v
             | None \<Rightarrow> Inl (cost_error (''no cost bucket for symbol='' @ repr_str symbol @ '' and no default''))))
     | PStr _ \<Rightarrow> Inl (Unmodelled ''section that is a text'') | PList _ \<Rightarrow> Inl (Unmodelled ''section that is a list'') | _ \<Rightarrow> Inl TypeError)"

definition require_float :: "pydict \<Rightarrow> string \<Rightarrow> string \<Rightarrow> pyfloat res" where
  "require_float d k ctx = (case map_of d k of
       None \<Rightarrow> Inl (cost_error (''execution config missing '' @ ctx @ ''.'' @ k))
     | Some (PInt i) \<Rightarrow> py_float (PInt i) | Some (PFloat x) \<Rightarrow> Inr x
     | Some _ \<Rightarrow> Inl (cost_error (''execution config '' @ ctx @ ''.'' @ k @ '' must be numeric'')))"

section \<open>Sessions\<close>

definition rollover_hour :: nat where "rollover_hour = 21"

definition session_windows :: "(nat \<times> nat \<times> string) list" where
  "session_windows = [(0, 6, ''asia''), (6, 12, ''london''), (12, 16, ''overlap''), (16, 21, ''ny''), (21, 24, ''off_hours'')]"

definition dt_weekday :: "pydt \<Rightarrow> int" where
  "dt_weekday d = weekday_of_days (day_number d)"

definition session_for_timestamp :: "pydt \<Rightarrow> string res" where
  "session_for_timestamp ts = (if tzo ts = None then Inl ValueError
     else bind_res (as_utc ts) (\<lambda>utc. let wd = dt_weekday utc in Inr
       (if wd = 5 \<or> wd = 6 \<and> hh utc < rollover_hour \<or> wd = 4 \<and> rollover_hour \<le> hh utc then ''off_hours''
        else case find (\<lambda>(a, b, l). a \<le> hh utc \<and> hh utc < b) session_windows of Some (a, b, l) \<Rightarrow> l | None \<Rightarrow> ''off_hours'')))"

section \<open>Nights and weekends\<close>

definition one_day :: int where "one_day = 86400000000"

definition at_rollover :: "pydt \<Rightarrow> pydt" where
  "at_rollover d = d\<lparr>hh := rollover_hour, mi := 0, ss := 0, us := 0\<rparr>"

function night_loop :: "pydt \<Rightarrow> pydt \<Rightarrow> int \<Rightarrow> int res" where
  "night_loop e c n = (if epoch_us c < epoch_us e then (case dt_plus one_day c of Inl er \<Rightarrow> Inl er | Inr c' \<Rightarrow> night_loop e c' (n + 1)) else Inr n)"
  by pat_completeness auto
termination
  by (relation "measure (\<lambda>(e, c, n). nat (epoch_us e - epoch_us c))") (auto simp: one_day_def dest!: dt_plus_result(1))

declare night_loop.simps [simp del]

definition rollover_crossings :: "pydt \<Rightarrow> int \<Rightarrow> int res" where
  "rollover_crossings start minutes = (if minutes \<le> 0 then Inr 0
     else bind_res (as_utc start) (\<lambda>s. bind_res (dt_plus (minutes * 60000000) s) (\<lambda>e. let today = at_rollover s in
       bind_res (if epoch_us s < epoch_us today then Inr today else dt_plus one_day today) (\<lambda>c. night_loop e c 0))))"

function step_back :: "pydt \<Rightarrow> pydt \<Rightarrow> pydt res" where
  "step_back s c = (if epoch_us s < epoch_us c then (case dt_plus (- one_day) c of Inl er \<Rightarrow> Inl er | Inr c' \<Rightarrow> step_back s c') else Inr c)"
  by pat_completeness auto
termination
  by (relation "measure (\<lambda>(s, c). nat (epoch_us c - epoch_us s))") (auto simp: one_day_def dest!: dt_plus_result(1))

declare step_back.simps [simp del]

function weekend_loop :: "pydt \<Rightarrow> pydt \<Rightarrow> pydt \<Rightarrow> int \<Rightarrow> int res" where
  "weekend_loop s e c n = (if epoch_us c < epoch_us e then (case dt_plus one_day c of Inl er \<Rightarrow> Inl er
       | Inr c' \<Rightarrow> weekend_loop s e c' (if epoch_us c' \<le> epoch_us s then n else if dt_weekday c' = 4 then n + 1 else n)) else Inr n)"
  by pat_completeness auto
termination
  by (relation "measure (\<lambda>(s, e, c, n). nat (epoch_us e - epoch_us c))") (auto simp: one_day_def dest!: dt_plus_result(1))

declare weekend_loop.simps [simp del]

definition weekend_crossings :: "pydt \<Rightarrow> int \<Rightarrow> int res" where
  "weekend_crossings start minutes = (if minutes \<le> 0 then Inr 0
     else bind_res (as_utc start) (\<lambda>s. bind_res (dt_plus (minutes * 60000000) s) (\<lambda>e. bind_res (step_back s (at_rollover s)) (\<lambda>c. weekend_loop s e c 0))))"

section \<open>The cost\<close>

record trip_cost =
  tc_spread :: pyfloat
  tc_slippage :: pyfloat
  tc_commission :: pyfloat
  tc_swap :: pyfloat
  tc_gap :: pyfloat

definition total_cost :: "trip_cost \<Rightarrow> pyfloat" where
  "total_cost c = fadd (fadd (fadd (fadd (tc_spread c) (tc_slippage c)) (tc_commission c)) (tc_swap c)) (tc_gap c)"

definition mode_slippage :: "string \<Rightarrow> string \<Rightarrow> pydict \<Rightarrow> pyfloat res" where
  "mode_slippage symbol mode d = (case map_of d mode of
       None \<Rightarrow> Inl (cost_error (''execution config slippage.'' @ symbol @ '' missing mode '' @ repr_str mode))
     | Some (PDict b) \<Rightarrow> bind_res (require_float b ''p50'' (''slippage.'' @ symbol @ ''.'' @ mode)) (\<lambda>x. Inr (fmul x (Fin 2)))
     | Some _ \<Rightarrow> Inl (cost_error (''execution config slippage.'' @ symbol @ ''.'' @ mode @ '' must be a mapping'')))"

definition slippage_cost :: "pydict \<Rightarrow> string \<Rightarrow> bool \<Rightarrow> pyfloat res" where
  "slippage_cost raw symbol volatile = bind_res (dindex raw ''slippage'') (\<lambda>t. bind_res (symbol_bucket t symbol)
     (mode_slippage symbol (if volatile then ''volatile'' else ''base'')))"

text \<open>A value of the table of a section for a symbol.\<close>

definition table_value :: "pydict \<Rightarrow> string \<Rightarrow> string \<Rightarrow> string \<Rightarrow> pyfloat res" where
  "table_value raw sect symbol k = bind_res (dindex raw sect) (\<lambda>t. bind_res (symbol_bucket t symbol) (\<lambda>d. require_float d k (sect @ ''.'' @ symbol)))"

definition swap_cost :: "pydict \<Rightarrow> string \<Rightarrow> string \<Rightarrow> int \<Rightarrow> pyfloat res" where
  "swap_cost raw symbol side n = (if n \<le> 0 then Inr (Fin 0)
     else bind_res (table_value raw ''swap'' symbol (side @ ''_per_night'')) (\<lambda>x. Inr (fmul (fmax (Fin 0) (fneg x)) (f_of_int n))))"

definition gap_cost :: "pydict \<Rightarrow> string \<Rightarrow> int \<Rightarrow> pyfloat res" where
  "gap_cost raw symbol n = (if n \<le> 0 then Inr (Fin 0) else bind_res (table_value raw ''weekend_gap'' symbol ''premium'') (\<lambda>x. Inr (fmul x (f_of_int n))))"

definition round_trip_cost :: "pydict \<Rightarrow> string \<Rightarrow> string \<Rightarrow> pydt \<Rightarrow> int \<Rightarrow> bool option \<Rightarrow> trip_cost res" where
  "round_trip_cost raw symbol side ts minutes volatile =
     (if side \<noteq> ''long'' \<and> side \<noteq> ''short'' \<or> minutes < 0 \<or> tzo ts = None then Inl ValueError
      else bind_res (session_for_timestamp ts) (\<lambda>session. bind_res (table_value raw ''spread'' symbol session) (\<lambda>spread.
        bind_res (slippage_cost raw symbol (case volatile of None \<Rightarrow> session = ''off_hours'' | Some b \<Rightarrow> b)) (\<lambda>slip.
        bind_res (table_value raw ''commission'' symbol ''per_side'') (\<lambda>comm.
        bind_res (rollover_crossings ts minutes) (\<lambda>nights. bind_res (swap_cost raw symbol side nights) (\<lambda>swap.
        bind_res (weekend_crossings ts minutes) (\<lambda>weekends. bind_res (gap_cost raw symbol weekends) (\<lambda>gap.
          Inr \<lparr>tc_spread = fmul spread (Fin 2), tc_slippage = slip, tc_commission = fmul comm (Fin 2), tc_swap = swap, tc_gap = gap\<rparr>)))))))))"

section \<open>Days and their rollovers\<close>

text \<open>The rollover of the day numbered \<open>k\<close>, and the number of the first one not before an instant.\<close>

definition rollover_us :: "int \<Rightarrow> int" where
  "rollover_us k = k * 86400000000 + 75600000000"

definition first_rollover :: "int \<Rightarrow> int" where
  "first_rollover t = (t - 75600000001) div 86400000000 + 1"

lemma rollover_before: "rollover_us k < t \<longleftrightarrow> k < first_rollover t"
proof -
  define q where "q = (t - 75600000001) div 86400000000"
  define r where "r = (t - 75600000001) mod 86400000000"
  have t: "t - 75600000001 = q * 86400000000 + r" "0 \<le> r" "r < 86400000000" by (simp_all add: q_def r_def)
  have "k * 86400000000 + 75600000000 < t \<longleftrightarrow> k < q + 1"
  proof
    assume "k * 86400000000 + 75600000000 < t"
    then have "k * 86400000000 < (q + 1) * 86400000000" using t by simp
    then show "k < q + 1" by simp
  next
    assume "k < q + 1"
    then have "k * 86400000000 \<le> q * 86400000000" by simp
    then show "k * 86400000000 + 75600000000 < t" using t by simp
  qed
  then show ?thesis by (simp add: rollover_us_def first_rollover_def q_def)
qed

lemma rollover_after: "t < rollover_us k \<longleftrightarrow> first_rollover (t + 1) \<le> k"
  using rollover_before [of k "t + 1"] by linarith

lemma dt_of_local_day: "dt_of_local z t = Inr d \<Longrightarrow> day_number d = t div 86400000000"
proof -
  assume a: "dt_of_local z t = Inr d"
  obtain y m dd where c: "civil_from_days (t div 86400000000) = (y, m, dd)" by (cases "civil_from_days (t div 86400000000)")
  from a c have y: "1 \<le> y" and "yr d = nat y" "mo d = nat m" "dy d = nat dd" by (auto simp: dt_of_local_def Let_def split: if_splits)
  with days_civil_roundtrip(1) [OF c y] show ?thesis by (simp add: day_number_def)
qed

lemma dt_plus_utc: "dt_plus k d = Inr d' \<Longrightarrow> tzo d = Some 0 \<Longrightarrow> epoch_us d' = epoch_us d + k \<and> tzo d' = Some 0 \<and> day_number d' = (epoch_us d + k) div 86400000000"
  using dt_plus_result [of k d d'] dt_of_local_day [of "Some 0" "local_us d + k" d'] local_us_epoch [of d] by (simp add: dt_plus_def)

lemma aware_utc: "as_utc d = Inr d' \<Longrightarrow> tzo d \<noteq> None \<Longrightarrow> epoch_us d' = epoch_us d \<and> tzo d' = Some 0 \<and> day_number d' = epoch_us d div 86400000000"
  using as_utc_result [of d d'] dt_of_local_day [of "Some 0" "epoch_us d" d'] by (auto simp: as_utc_def)

lemma at_rollover_utc: "tzo d = Some 0 \<Longrightarrow> epoch_us (at_rollover d) = rollover_us (day_number d) \<and> tzo (at_rollover d) = Some 0"
  by (simp add: at_rollover_def epoch_us_def rollover_us_def day_number_def rollover_hour_def)

lemma rollover_us_Suc: "rollover_us k + one_day = rollover_us (k + 1)" "rollover_us k + - one_day = rollover_us (k - 1)"
  by (simp_all add: rollover_us_def one_day_def algebra_simps)

lemma rollover_us_day: "rollover_us k div 86400000000 = k"
  by (simp add: rollover_us_def)

section \<open>Nights\<close>

lemma night_loop_result:
  assumes "night_loop e c n = Inr m" "epoch_us c = rollover_us k" "tzo c = Some 0"
  shows "m = n + max 0 (first_rollover (epoch_us e) - k)"
  using assms
proof (induction e c n arbitrary: k rule: night_loop.induct)
  case (1 e c n)
  show ?case
  proof (cases "epoch_us c < epoch_us e")
    case True
    with 1(2) obtain c' where c': "dt_plus one_day c = Inr c'" "night_loop e c' (n + 1) = Inr m" by (subst (asm) night_loop.simps) (auto split: sum.splits)
    from dt_plus_utc [OF c'(1) 1(4)] have "epoch_us c' = rollover_us (k + 1)" "tzo c' = Some 0" by (simp_all add: 1(3) rollover_us_Suc)
    from "1.IH" [OF True c'(1,2) this] have "m = n + 1 + max 0 (first_rollover (epoch_us e) - (k + 1))" .
    moreover have "k < first_rollover (epoch_us e)" using True by (simp add: 1(3) rollover_before)
    ultimately show ?thesis by simp
  next
    case False
    then have "\<not> k < first_rollover (epoch_us e)" by (simp add: 1(3) rollover_before)
    moreover have "m = n" using 1(2) False by (subst (asm) night_loop.simps) simp
    ultimately show ?thesis by simp
  qed
qed

lemma rollover_neighbours: "rollover_us (t div 86400000000 - 1) \<le> t" "t < rollover_us (t div 86400000000 + 1)"
proof -
  define q r where "q = t div 86400000000" and "r = t mod 86400000000"
  have t: "t = q * 86400000000 + r" "0 \<le> r" "r < 86400000000" by (simp_all add: q_def r_def)
  show "rollover_us (t div 86400000000 - 1) \<le> t" "t < rollover_us (t div 86400000000 + 1)"
    unfolding q_def [symmetric] rollover_us_def using t by (simp_all add: algebra_simps)
qed

lemma card_int_range: "int (card {k. a \<le> k \<and> k < b}) = max 0 (b - a)" for a b :: int
proof -
  have "{k. a \<le> k \<and> k < b} = {a ..< b}" by auto
  then show ?thesis by simp
qed

lemma nights_count:
  assumes "rollover_crossings start minutes = Inr n" "0 < minutes" "tzo start \<noteq> None"
  shows "n = int (card {k. epoch_us start < rollover_us k \<and> rollover_us k < epoch_us start + minutes * 60000000})"
proof -
  from assms(1,2) obtain s e c where s: "as_utc start = Inr s" and e: "dt_plus (minutes * 60000000) s = Inr e"
    and c: "(if epoch_us s < epoch_us (at_rollover s) then Inr (at_rollover s) else dt_plus one_day (at_rollover s)) = Inr c" and n: "night_loop e c 0 = Inr n"
    by (auto simp: rollover_crossings_def Let_def bind_res_eq_Inr simp del: bind_res_simps)
  note su = aware_utc [OF s assms(3)]
  define k where "k = epoch_us start div 86400000000"
  have r: "epoch_us (at_rollover s) = rollover_us k" "tzo (at_rollover s) = Some 0" using at_rollover_utc [of s] su by (simp_all add: k_def)
  have "epoch_us c = rollover_us (first_rollover (epoch_us start + 1)) \<and> tzo c = Some 0"
  proof (cases "epoch_us start < rollover_us k")
    case True
    then have "first_rollover (epoch_us start + 1) \<le> k" by (simp only: rollover_after)
    moreover have "\<not> epoch_us start < rollover_us (k - 1)" using rollover_neighbours(1) [of "epoch_us start"] by (simp add: k_def)
    then have "\<not> first_rollover (epoch_us start + 1) \<le> k - 1" using rollover_after by blast
    ultimately have "first_rollover (epoch_us start + 1) = k" by linarith
    moreover have "c = at_rollover s" using c True r(1) su by simp
    ultimately show ?thesis using r by simp
  next
    case False
    then have "\<not> first_rollover (epoch_us start + 1) \<le> k" using rollover_after by blast
    moreover have "first_rollover (epoch_us start + 1) \<le> k + 1" using rollover_neighbours(2) [of "epoch_us start"] by (simp add: rollover_after [symmetric] k_def)
    ultimately have "first_rollover (epoch_us start + 1) = k + 1" by linarith
    moreover have "dt_plus one_day (at_rollover s) = Inr c" using c False r(1) su by simp
    ultimately show ?thesis using dt_plus_utc [of one_day "at_rollover s" c] r by (simp add: rollover_us_Suc)
  qed
  then have "n = max 0 (first_rollover (epoch_us e) - first_rollover (epoch_us start + 1))" using night_loop_result [OF n] by simp
  moreover have "epoch_us e = epoch_us start + minutes * 60000000" using dt_plus_utc [OF e] su by simp
  ultimately show ?thesis by (simp only: rollover_before rollover_after card_int_range)
qed

text \<open>The rollovers of a window that is closed at its start: one more where the start is itself a rollover.\<close>

lemma closed_window_count:
  assumes "a < b"
  shows "int (card {k. a \<le> rollover_us k \<and> rollover_us k < b})
    = int (card {k. a < rollover_us k \<and> rollover_us k < b}) + (if \<exists>k. rollover_us k = a then 1 else 0)"
proof (cases "\<exists>k. rollover_us k = a")
  case True
  then obtain k0 where k0: "rollover_us k0 = a" by blast
  have "{k. a < rollover_us k \<and> rollover_us k < b} = {first_rollover (a + 1) ..< first_rollover b}" by (auto simp: rollover_before rollover_after)
  then have "finite {k. a < rollover_us k \<and> rollover_us k < b}" by simp
  moreover have "{k. a \<le> rollover_us k \<and> rollover_us k < b} = insert k0 {k. a < rollover_us k \<and> rollover_us k < b}"
    using k0 assms by (auto simp: rollover_us_def)
  ultimately show ?thesis using True k0 by simp
next
  case False
  then have "{k. a \<le> rollover_us k \<and> rollover_us k < b} = {k. a < rollover_us k \<and> rollover_us k < b}" by (auto simp: order_less_le)
  with False show ?thesis by simp
qed

text \<open>C26: The nights of a holding are the rollovers after its start and before its end (the next rollover is today's where it is still ahead): those of the
  window [start, end) of the code's documentation less one that falls on the start itself, which the code does not count.\<close>

theorem nights_exact:
  assumes "rollover_crossings start minutes = Inr n" "0 < minutes" "tzo start \<noteq> None"
  shows "n = int (card {k. epoch_us start < rollover_us k \<and> rollover_us k < epoch_us start + minutes * 60000000})
    \<and> n + (if \<exists>k. rollover_us k = epoch_us start then 1 else 0)
      = int (card {k. epoch_us start \<le> rollover_us k \<and> rollover_us k < epoch_us start + minutes * 60000000})"
  using nights_count [OF assms] closed_window_count [of "epoch_us start" "epoch_us start + minutes * 60000000"] assms(2) by simp

section \<open>Weekends\<close>

lemma step_back_result:
  assumes "step_back s c = Inr c'" "epoch_us c = rollover_us k" "tzo c = Some 0"
  shows "epoch_us c' = rollover_us (min k (first_rollover (epoch_us s + 1) - 1)) \<and> tzo c' = Some 0"
  using assms
proof (induction s c arbitrary: k rule: step_back.induct)
  case (1 s c)
  show ?case
  proof (cases "epoch_us s < epoch_us c")
    case True
    with 1(2) obtain d where d: "dt_plus (- one_day) c = Inr d" "step_back s d = Inr c'" by (subst (asm) step_back.simps) (auto split: sum.splits)
    from dt_plus_utc [OF d(1) 1(4)] have "epoch_us d = rollover_us (k - 1)" "tzo d = Some 0" using rollover_us_Suc(2) [of k] by (simp_all add: 1(3))
    from "1.IH" [OF True d this] have "epoch_us c' = rollover_us (min (k - 1) (first_rollover (epoch_us s + 1) - 1)) \<and> tzo c' = Some 0" .
    moreover have "first_rollover (epoch_us s + 1) \<le> k" using True by (simp only: 1(3) rollover_after)
    ultimately show ?thesis by (cases "first_rollover (epoch_us s + 1) = k") (auto simp: min_def)
  next
    case False
    then have "\<not> first_rollover (epoch_us s + 1) \<le> k" by (simp only: 1(3) rollover_after) simp
    moreover have "c' = c" using 1(2) False by (subst (asm) step_back.simps) simp
    ultimately show ?thesis using 1(3,4) by (simp add: min_def)
  qed
qed

lemma friday: "(4 + k) mod 7 = (4 :: int) \<longleftrightarrow> (k + 1) mod 7 = 1"
  by presburger

lemma card_step: "int (card {j. k < j \<and> j \<le> l \<and> P j}) = (if k < l \<and> P (k + 1) then 1 else 0) + int (card {j. k + 1 < j \<and> j \<le> l \<and> P j})" for k l :: int
proof -
  have "finite {j. k + 1 < j \<and> j \<le> l \<and> P j}" by (rule finite_subset [of _ "{k + 1 .. l}"]) auto
  moreover have "{j. k < j \<and> j \<le> l \<and> P j} = (if k < l \<and> P (k + 1) then insert (k + 1) {j. k + 1 < j \<and> j \<le> l \<and> P j} else {j. k + 1 < j \<and> j \<le> l \<and> P j})"
    by (auto simp: less_le)
  ultimately show ?thesis by simp
qed

lemma weekend_loop_result:
  assumes "weekend_loop s e c n = Inr m" "epoch_us c = rollover_us k" "tzo c = Some 0" "epoch_us s < rollover_us (k + 1)"
  shows "m = n + int (card {j. k < j \<and> j \<le> first_rollover (epoch_us e) \<and> j mod 7 = 1})"
  using assms
proof (induction s e c n arbitrary: k rule: weekend_loop.induct)
  case (1 s e c n)
  show ?case
  proof (cases "epoch_us c < epoch_us e")
    case True
    from True have l: "k < first_rollover (epoch_us e)" by (simp add: 1(3) rollover_before)
    from True 1(2) obtain c' where c': "dt_plus one_day c = Inr c'"
      "weekend_loop s e c' (if epoch_us c' \<le> epoch_us s then n else if dt_weekday c' = 4 then n + 1 else n) = Inr m"
      by (subst (asm) weekend_loop.simps) (auto split: sum.splits)
    from dt_plus_utc [OF c'(1) 1(4)] have u: "epoch_us c' = rollover_us (k + 1)" "tzo c' = Some 0" "day_number c' = k + 1"
      by (simp_all add: 1(3) rollover_us_Suc rollover_us_day)
    have "epoch_us s < rollover_us (k + 1 + 1)" using 1(5) by (simp add: rollover_us_def)
    from "1.IH" [OF True c' u(1,2) this] have "m = (if (k + 1) mod 7 = 1 then n + 1 else n) + int (card {j. k + 1 < j \<and> j \<le> first_rollover (epoch_us e) \<and> j mod 7 = 1})"
      using 1(5) u(1,3) by (simp add: dt_weekday_def weekday_of_days_def friday)
    then show ?thesis using l by (simp add: card_step [of k])
  next
    case False
    then have "{j. k < j \<and> j \<le> first_rollover (epoch_us e) \<and> j mod 7 = 1} = {}" by (auto simp: 1(3) rollover_before)
    moreover have "m = n" using 1(2) False by (subst (asm) weekend_loop.simps) simp
    ultimately show ?thesis by (simp only: card.empty of_nat_0 add_0_right)
  qed
qed

lemma weekends_count:
  assumes "weekend_crossings start minutes = Inr n" "0 < minutes" "tzo start \<noteq> None"
  shows "n = int (card {k. k mod 7 = 1 \<and> epoch_us start < rollover_us k \<and> rollover_us (k - 1) < epoch_us start + minutes * 60000000})"
proof -
  from assms(1,2) obtain s e c where s: "as_utc start = Inr s" and e: "dt_plus (minutes * 60000000) s = Inr e"
    and c: "step_back s (at_rollover s) = Inr c" and n: "weekend_loop s e c 0 = Inr n"
    by (auto simp: weekend_crossings_def bind_res_eq_Inr simp del: bind_res_simps)
  note su = aware_utc [OF s assms(3)]
  define k where "k = epoch_us start div 86400000000"
  define f where "f = first_rollover (epoch_us start + 1)"
  have "epoch_us (at_rollover s) = rollover_us k" "tzo (at_rollover s) = Some 0" using at_rollover_utc [of s] su by (simp_all add: k_def)
  note step_back_result [OF c this]
  moreover have "f \<le> k + 1" using rollover_neighbours(2) [of "epoch_us start"] by (simp add: rollover_after [symmetric] k_def f_def)
  ultimately have cu: "epoch_us c = rollover_us (f - 1)" "tzo c = Some 0" using su by (cases "f = k + 1"; auto simp: f_def min_def)+
  have "epoch_us s < rollover_us (f - 1 + 1)" using su by (simp add: rollover_after f_def)
  from weekend_loop_result [OF n cu this] have "n = int (card {j. f - 1 < j \<and> j \<le> first_rollover (epoch_us e) \<and> j mod 7 = 1})" by simp
  moreover have "epoch_us e = epoch_us start + minutes * 60000000" using dt_plus_utc [OF e] su by simp
  ultimately have n': "n = int (card {j. f - 1 < j \<and> j \<le> first_rollover (epoch_us start + minutes * 60000000) \<and> j mod 7 = 1})" by simp
  have "{j. f - 1 < j \<and> j \<le> first_rollover (epoch_us start + minutes * 60000000) \<and> j mod 7 = 1}
      = {k. k mod 7 = 1 \<and> epoch_us start < rollover_us k \<and> rollover_us (k - 1) < epoch_us start + minutes * 60000000}"
    by (auto simp: rollover_before rollover_after f_def)
  with n' show ?thesis by simp
qed

text \<open>The weekends counted are the Friday rollovers after the start whose day before is before the end: one that comes up to a day after the
  end is counted too.\<close>

theorem weekends_exact:
  assumes "weekend_crossings start minutes = Inr n" "0 < minutes" "tzo start \<noteq> None"
  shows "n = int (card {k. k mod 7 = 1 \<and> epoch_us start < rollover_us k \<and> rollover_us (k - 1) < epoch_us start + minutes * 60000000})"
  using assms by (rule weekends_count)

section \<open>Sessions\<close>

text \<open>Every time has one of the five sessions; off hours are the weekend, from 21:00 on Friday to 21:00 on Sunday, and the hours from 21:00.\<close>

theorem session_exact:
  assumes "session_for_timestamp ts = Inr l"
  shows "\<exists>utc. as_utc ts = Inr utc \<and> l \<in> {''asia'', ''london'', ''overlap'', ''ny'', ''off_hours''}
    \<and> (l = ''off_hours'' \<longleftrightarrow> dt_weekday utc = 5 \<or> dt_weekday utc = 6 \<and> hh utc < 21 \<or> 21 \<le> hh utc)
    \<and> (l = ''overlap'' \<longleftrightarrow> dt_weekday utc \<noteq> 5 \<and> dt_weekday utc \<noteq> 6 \<and> 12 \<le> hh utc \<and> hh utc < 16)"
proof -
  from assms obtain utc where u: "as_utc ts = Inr utc" and l: "l = (if dt_weekday utc = 5 \<or> dt_weekday utc = 6 \<and> hh utc < 21 \<or> dt_weekday utc = 4 \<and> 21 \<le> hh utc then ''off_hours''
        else case find (\<lambda>(a, b, l). a \<le> hh utc \<and> hh utc < b) session_windows of Some (a, b, l) \<Rightarrow> l | None \<Rightarrow> ''off_hours'')"
    by (auto simp: session_for_timestamp_def bind_res_eq_Inr Let_def rollover_hour_def simp del: bind_res_simps split: if_splits)
  have "find (\<lambda>(a, b, l). a \<le> hh utc \<and> hh utc < b) session_windows = (if hh utc < 6 then Some (0, 6, ''asia'') else if hh utc < 12 then Some (6, 12, ''london'')
      else if hh utc < 16 then Some (12, 16, ''overlap'') else if hh utc < 21 then Some (16, 21, ''ny'') else if hh utc < 24 then Some (21, 24, ''off_hours'') else None)"
    by (simp add: session_windows_def)
  with l have "l = (if dt_weekday utc = 5 \<or> dt_weekday utc = 6 \<and> hh utc < 21 \<or> 21 \<le> hh utc then ''off_hours'' else if hh utc < 6 then ''asia''
      else if hh utc < 12 then ''london'' else if hh utc < 16 then ''overlap'' else ''ny'')"
    by auto
  with u show ?thesis by auto
qed

section \<open>Signs\<close>

text \<open>No number of a value is negative or a NaN.\<close>

fun no_negative :: "pyval \<Rightarrow> bool" where
  "no_negative (PInt i) \<longleftrightarrow> 0 \<le> i"
| "no_negative (PFloat x) \<longleftrightarrow> fle (Fin 0) x"
| "no_negative (PList xs) \<longleftrightarrow> list_all no_negative xs"
| "no_negative (PDict d) \<longleftrightarrow> list_all (\<lambda>(k, v). no_negative v) d"
| "no_negative _ \<longleftrightarrow> True"

lemma no_negative_at: "list_all (\<lambda>(k, v). no_negative v) d \<Longrightarrow> map_of d k = Some v \<Longrightarrow> no_negative v"
  by (auto simp: list_all_iff dest: map_of_SomeD)

lemma require_float_sign: "require_float d k ctx = Inr x \<Longrightarrow> list_all (\<lambda>(k, v). no_negative v) d \<Longrightarrow> fle (Fin 0) x"
proof -
  assume a: "require_float d k ctx = Inr x" and d: "list_all (\<lambda>(k, v). no_negative v) d"
  from a obtain v where v: "map_of d k = Some v" by (auto simp: require_float_def split: option.splits)
  note n = no_negative_at [OF d v]
  show ?thesis
  proof (cases v)
    case (PInt i)
    have "0 \<le> i" using n PInt by simp
    then have "fle (Fin 0) (rnd (of_int i))" using rnd_mono [of 0 "of_int i"] by simp
    moreover have "x = rnd (of_int i)" using a v PInt by (auto simp: require_float_def py_float_def f_of_int_def split: pyfloat.splits)
    ultimately show ?thesis by simp
  qed (use a v n in \<open>auto simp: require_float_def\<close>)
qed

lemma bucket_sign: "symbol_bucket t symbol = Inr d \<Longrightarrow> no_negative t \<Longrightarrow> list_all (\<lambda>(k, v). no_negative v) d"
proof -
  assume a: "symbol_bucket t symbol = Inr d" and t: "no_negative t"
  from a obtain e where e: "t = PDict e" by (cases t) (simp_all add: symbol_bucket_def)
  with a obtain k v where v: "map_of e k = Some v" and d: "py_dict v = Inr d" by (auto simp: symbol_bucket_def split: option.splits)
  from t e have "no_negative v" using no_negative_at [of e k v] v by simp
  with d show ?thesis by (cases v) (auto simp: py_dict_def split: if_splits)
qed

lemma table_sign: "table_value raw sect symbol k = Inr x \<Longrightarrow> no_negative (dget raw sect) \<Longrightarrow> fle (Fin 0) x"
  by (auto simp: table_value_def bind_res_eq_Inr dindex_def dget_def simp del: bind_res_simps split: option.splits intro: require_float_sign bucket_sign)

lemma fmul_sign: "fle (Fin 0) x \<Longrightarrow> 0 < k \<Longrightarrow> fle (Fin 0) (fmul x (Fin k))"
  using rnd_mono [of 0 "_ * k"] by (cases x) auto

lemma fadd_sign: "fle (Fin 0) x \<Longrightarrow> fle (Fin 0) y \<Longrightarrow> fle (Fin 0) (fadd x y)"
  using rnd_mono [of 0 "_ + _"] by (cases x; cases y) auto

lemma slippage_sign: "slippage_cost raw symbol v = Inr x \<Longrightarrow> no_negative (dget raw ''slippage'') \<Longrightarrow> fle (Fin 0) x"
proof -
  assume a: "slippage_cost raw symbol v = Inr x" and n: "no_negative (dget raw ''slippage'')"
  from a obtain t d where t: "dindex raw ''slippage'' = Inr t" "symbol_bucket t symbol = Inr d" and x: "mode_slippage symbol (if v then ''volatile'' else ''base'') d = Inr x"
    unfolding slippage_cost_def bind_res_eq_Inr by blast
  from n t(1) have "no_negative t" by (simp add: dget_def dindex_def split: option.splits)
  note b = bucket_sign [OF t(2) this]
  from x obtain mode e where e: "map_of d mode = Some e" "mode_slippage symbol mode d = Inr x" by (auto simp: mode_slippage_def split: option.splits)
  then obtain f y where f: "e = PDict f" "require_float f ''p50'' (''slippage.'' @ symbol @ ''.'' @ mode) = Inr y" "x = fmul y (Fin 2)"
    by (cases e) (auto simp: mode_slippage_def bind_res_eq_Inr simp del: bind_res_simps)
  from no_negative_at [OF b e(1)] have "list_all (\<lambda>(k, v). no_negative v) f" by (simp add: f(1))
  from require_float_sign [OF f(2) this] show ?thesis using fmul_sign [of y 2] by (simp add: f(3))
qed

text \<open>Dates end with the year 9999, so the counts are small.\<close>

lemma day_bound: "in_range d \<Longrightarrow> abs (day_number d) \<le> 5000000"
proof -
  assume r: "in_range d"
  define y where "y = int (yr d) - (if mo d \<le> 2 then 1 else 0)"
  define mp where "mp = (int (mo d) + 9) mod 12"
  have y: "- 1 \<le> y" "y \<le> 10000" using r by (auto simp: y_def in_range_def)
  have e: "- 1 \<le> y div 400" "y div 400 \<le> 25" using zdiv_mono1 [of "- 1" y 400] zdiv_mono1 [of y 10000 400] y by simp_all
  define o' where "o' = y - y div 400 * 400"
  have o': "0 \<le> o'" "o' < 400" by (simp_all add: o'_def minus_div_mult_eq_mod)
  have q: "0 \<le> o' div 4" "o' div 4 \<le> 100" "0 \<le> o' div 100" "o' div 100 \<le> 4" using zdiv_mono1 [of o' 400 4] zdiv_mono1 [of o' 400 100] o' by simp_all
  have mp: "0 \<le> mp" "mp < 12" by (simp_all add: mp_def)
  have m5: "0 \<le> (153 * mp + 2) div 5" "(153 * mp + 2) div 5 \<le> 400" using zdiv_mono1 [of "153 * mp + 2" 2000 5] mp by simp_all
  have d: "int (dy d) < 100" using r by (simp add: in_range_def)
  have "day_number d = y div 400 * 146097 + (o' * 365 + o' div 4 - o' div 100 + ((153 * mp + 2) div 5 + int (dy d) - 1)) - 719468"
    unfolding day_number_def days_from_civil_def Let_def y_def [symmetric] mp_def [symmetric] o'_def [symmetric] by (rule refl)
  with e o' q m5 d show ?thesis by linarith
qed

lemma first_rollover_day: "abs (first_rollover t - t div 86400000000) \<le> 1"
proof -
  have "t div 86400000000 - 1 < first_rollover (t + 1)" using rollover_neighbours(1) [of t] rollover_before [of "t div 86400000000 - 1" "t + 1"] by simp
  moreover have "\<not> t div 86400000000 + 1 < first_rollover t" using rollover_neighbours(2) [of t] rollover_before [of "t div 86400000000 + 1" t] by simp
  moreover have "first_rollover (t + 1) \<le> first_rollover t + 1" using zdiv_mono1 [of "t - 75600000000" "t - 75600000001 + 86400000000" 86400000000] by (simp add: first_rollover_def)
  ultimately show ?thesis by linarith
qed

lemma card_days: "finite {k. a < k \<and> k \<le> b \<and> P k} \<and> int (card {k. a < k \<and> k \<le> b \<and> P k}) \<le> max 0 (b - a)" for a b :: int
proof -
  have sub: "{k. a < k \<and> k \<le> b \<and> P k} \<subseteq> {a <.. b}" by auto
  from card_mono [OF _ this] finite_subset [OF sub] show ?thesis by simp
qed

lemma span_days: "as_utc start = Inr s \<Longrightarrow> tzo start \<noteq> None \<Longrightarrow> dt_plus k s = Inr e \<Longrightarrow> first_rollover (epoch_us start + k) - first_rollover (epoch_us start + 1) \<le> 10000010"
proof -
  assume s: "as_utc start = Inr s" and z: "tzo start \<noteq> None" and e: "dt_plus k s = Inr e"
  note su = aware_utc [OF s z]
  from z s have "in_range s" by (auto simp: as_utc_def dest: dt_of_local_range)
  from day_bound [OF this] have "abs (epoch_us start div 86400000000) \<le> 5000000" using su by simp
  moreover have "abs ((epoch_us start + k) div 86400000000) \<le> 5000000" using day_bound [OF dt_plus_range [OF e]] dt_plus_utc [OF e] su by simp
  moreover have "abs (first_rollover (epoch_us start + 1) - epoch_us start div 86400000000) \<le> 3"
    using first_rollover_day [of "epoch_us start + 1"] zdiv_mono1 [of "epoch_us start + 1" "epoch_us start + 86400000000" 86400000000] zdiv_mono1 [of "epoch_us start" "epoch_us start + 1" 86400000000] by simp
  ultimately show ?thesis using first_rollover_day [of "epoch_us start + k"] by linarith
qed

lemma counts_small:
  assumes "tzo start \<noteq> None"
  shows "rollover_crossings start minutes = Inr n \<Longrightarrow> 0 \<le> n \<and> n \<le> 10000012"
    and "weekend_crossings start minutes = Inr n \<Longrightarrow> 0 \<le> n \<and> n \<le> 10000012"
proof -
  have span: "first_rollover (epoch_us start + minutes * 60000000) - first_rollover (epoch_us start + 1) \<le> 10000010"
    if "rollover_crossings start minutes = Inr n \<or> weekend_crossings start minutes = Inr n" "0 < minutes"
  proof -
    from that obtain s e where "as_utc start = Inr s" "dt_plus (minutes * 60000000) s = Inr e"
      by (auto simp: rollover_crossings_def weekend_crossings_def bind_res_eq_Inr simp del: bind_res_simps)
    from span_days [OF this(1) assms this(2)] show ?thesis .
  qed
  show "0 \<le> n \<and> n \<le> 10000012" if r: "rollover_crossings start minutes = Inr n"
  proof (cases "0 < minutes")
    case True
    from nights_count [OF r this assms] have "n = max 0 (first_rollover (epoch_us start + minutes * 60000000) - first_rollover (epoch_us start + 1))"
      by (simp only: rollover_before rollover_after card_int_range)
    then show ?thesis using span True r by simp
  qed (use r in \<open>simp add: rollover_crossings_def\<close>)
  show "0 \<le> n \<and> n \<le> 10000012" if r: "weekend_crossings start minutes = Inr n"
  proof (cases "0 < minutes")
    case True
    define f where "f = first_rollover (epoch_us start + 1) - 1"
    define l where "l = first_rollover (epoch_us start + minutes * 60000000)"
    have "{k. k mod 7 = 1 \<and> epoch_us start < rollover_us k \<and> rollover_us (k - 1) < epoch_us start + minutes * 60000000} = {k. f < k \<and> k \<le> l \<and> k mod 7 = 1}"
      by (auto simp: rollover_before rollover_after f_def l_def)
    with weekends_count [OF r True assms] card_days [of f l "\<lambda>k. k mod 7 = 1"] have "0 \<le> n" "n \<le> max 0 (l - f)" by simp_all
    then show ?thesis using span True r by (simp add: f_def l_def)
  qed (use r in \<open>simp add: weekend_crossings_def\<close>)
qed

lemma count_float: "0 < n \<Longrightarrow> n \<le> 10000012 \<Longrightarrow> f_of_int n = Fin (of_int n)"
  using rnd_int [of n] by (simp add: f_of_int_def)

lemma paid_sign: "fle (Fin 0) (fmax (Fin 0) x)"
  by (cases x) (auto simp: fmax_def)

lemma swap_sign: "swap_cost raw symbol side n = Inr x \<Longrightarrow> n \<le> 10000012 \<Longrightarrow> fle (Fin 0) x"
  using fmul_sign [OF paid_sign, of "of_int n"]
  by (auto simp: swap_cost_def bind_res_eq_Inr count_float simp del: bind_res_simps fmul.simps split: if_splits)

lemma gap_sign: "gap_cost raw symbol n = Inr x \<Longrightarrow> no_negative (dget raw ''weekend_gap'') \<Longrightarrow> n \<le> 10000012 \<Longrightarrow> fle (Fin 0) x"
  using fmul_sign [of _ "of_int n"]
  by (auto simp: gap_cost_def bind_res_eq_Inr count_float dest!: table_sign simp del: bind_res_simps fmul.simps split: if_splits)

lemma round_trip_parts:
  assumes "round_trip_cost raw symbol side ts minutes volatile = Inr c"
  shows "tzo ts \<noteq> None \<and> (\<exists>session spread comm nights weekends v. session_for_timestamp ts = Inr session
    \<and> table_value raw ''spread'' symbol session = Inr spread \<and> tc_spread c = fmul spread (Fin 2) \<and> slippage_cost raw symbol v = Inr (tc_slippage c)
    \<and> table_value raw ''commission'' symbol ''per_side'' = Inr comm \<and> tc_commission c = fmul comm (Fin 2)
    \<and> rollover_crossings ts minutes = Inr nights \<and> swap_cost raw symbol side nights = Inr (tc_swap c)
    \<and> weekend_crossings ts minutes = Inr weekends \<and> gap_cost raw symbol weekends = Inr (tc_gap c))"
proof -
  have ok: "\<not> (side \<noteq> ''long'' \<and> side \<noteq> ''short'' \<or> minutes < 0 \<or> tzo ts = None)" using assms unfolding round_trip_cost_def by (simp split: if_splits)
  then have "tzo ts \<noteq> None" by blast
  from assms obtain session spread slip comm nights swap weekends gap where
    p: "session_for_timestamp ts = Inr session" "table_value raw ''spread'' symbol session = Inr spread"
    "slippage_cost raw symbol (case volatile of None \<Rightarrow> session = ''off_hours'' | Some b \<Rightarrow> b) = Inr slip" "table_value raw ''commission'' symbol ''per_side'' = Inr comm"
    "rollover_crossings ts minutes = Inr nights" "swap_cost raw symbol side nights = Inr swap" "weekend_crossings ts minutes = Inr weekends" "gap_cost raw symbol weekends = Inr gap"
    and c: "c = \<lparr>tc_spread = fmul spread (Fin 2), tc_slippage = slip, tc_commission = fmul comm (Fin 2), tc_swap = swap, tc_gap = gap\<rparr>"
    unfolding round_trip_cost_def if_not_P [OF ok] bind_res_eq_Inr by blast
  from p \<open>tzo ts \<noteq> None\<close> show ?thesis by (auto simp: c)
qed

text \<open>C33: With a configuration without negative values in its sections of spread, slippage, commission and weekend gap no component is negative
  or a NaN, whatever the swap; nor is the total.\<close>

theorem cost_never_negative:
  assumes "round_trip_cost raw symbol side ts minutes volatile = Inr c"
    and "list_all (\<lambda>k. no_negative (dget raw k)) [''spread'', ''slippage'', ''commission'', ''weekend_gap'']"
  shows "list_all (fle (Fin 0)) [tc_spread c, tc_slippage c, tc_commission c, tc_swap c, tc_gap c, total_cost c]"
proof -
  from round_trip_parts [OF assms(1)] obtain session spread comm nights weekends v where z: "tzo ts \<noteq> None"
    and p: "table_value raw ''spread'' symbol session = Inr spread" "tc_spread c = fmul spread (Fin 2)" "slippage_cost raw symbol v = Inr (tc_slippage c)"
    "table_value raw ''commission'' symbol ''per_side'' = Inr comm" "tc_commission c = fmul comm (Fin 2)"
    "rollover_crossings ts minutes = Inr nights" "swap_cost raw symbol side nights = Inr (tc_swap c)"
    "weekend_crossings ts minutes = Inr weekends" "gap_cost raw symbol weekends = Inr (tc_gap c)" by blast
  have n: "no_negative (dget raw ''spread'')" "no_negative (dget raw ''slippage'')" "no_negative (dget raw ''commission'')" "no_negative (dget raw ''weekend_gap'')"
    using assms(2) by simp_all
  have "fle (Fin 0) (tc_spread c)" "fle (Fin 0) (tc_commission c)" unfolding p(2,5) using table_sign [OF p(1)] table_sign [OF p(4)] n fmul_sign [of _ 2] by simp_all
  moreover have "fle (Fin 0) (tc_slippage c)" using slippage_sign [OF p(3)] n by simp
  moreover have "fle (Fin 0) (tc_swap c)" using swap_sign [OF p(7)] counts_small(1) [OF z p(6)] by simp
  moreover have "fle (Fin 0) (tc_gap c)" using gap_sign [OF p(9)] counts_small(2) [OF z p(8)] n by simp
  ultimately show ?thesis by (simp add: total_cost_def fadd_sign)
qed

section \<open>Where it fails\<close>

text \<open>A holding of one hour on a Thursday evening is charged a weekend, though no Friday rollover lies within it.\<close>

definition march_day :: "nat \<Rightarrow> nat \<Rightarrow> nat \<Rightarrow> pydt" where
  "march_day d h m = \<lparr>yr = 2025, mo = 3, dy = d, hh = h, mi = m, ss = 0, us = 0, tzo = Some 0\<rparr>"

definition thursday_evening :: pydt where "thursday_evening = march_day 13 22 0"

lemma march_parts: "tzo (march_day d h m) = Some 0" "at_rollover (march_day d h m) = march_day d 21 0" "hh (march_day d h m) = h" "day_number (march_day d h m) = 20147 + int d"
  by (simp_all add: march_day_def at_rollover_def rollover_hour_def day_number_def days_from_civil_def)

lemma march_us: "epoch_us (march_day 13 22 0) = 20160 * 86400000000 + 79200000000" "epoch_us (march_day 13 23 0) = 20160 * 86400000000 + 82800000000"
  "epoch_us (march_day 13 21 0) = 20160 * 86400000000 + 75600000000" "epoch_us (march_day 14 21 0) = 20161 * 86400000000 + 75600000000"
  "epoch_us (march_day 14 20 30) = 20161 * 86400000000 + 73800000000" "epoch_us (march_day 14 21 30) = 20161 * 86400000000 + 77400000000"
  "epoch_us (march_day 15 21 0) = 20162 * 86400000000 + 75600000000"
  by (simp_all add: march_day_def epoch_us_def days_from_civil_def Let_def)

lemma march_steps: "dt_plus 3600000000 (march_day 13 22 0) = Inr (march_day 13 23 0)" "dt_plus one_day (march_day 13 21 0) = Inr (march_day 14 21 0)"
  "dt_plus 3600000000 (march_day 14 20 30) = Inr (march_day 14 21 30)" "dt_plus one_day (march_day 14 21 0) = Inr (march_day 15 21 0)"
  "dt_plus (- one_day) (march_day 14 21 0) = Inr (march_day 13 21 0)"
  "as_utc (march_day 13 22 0) = Inr (march_day 13 22 0)" "as_utc (march_day 14 20 30) = Inr (march_day 14 20 30)"
proof -
  have d: "civil_from_days 20160 = (2025, 3, 13)" "civil_from_days 20161 = (2025, 3, 14)" "civil_from_days 20162 = (2025, 3, 15)" by code_simp+
  have z: "tzo (march_day a b c) = Some 0" for a b c by (simp add: march_day_def)
  note defs = dt_plus_def as_utc_def z local_us_epoch march_us dt_of_local_def d
  show "dt_plus 3600000000 (march_day 13 22 0) = Inr (march_day 13 23 0)" by (simp add: defs) (simp add: march_day_def)
  show "dt_plus one_day (march_day 13 21 0) = Inr (march_day 14 21 0)" by (simp add: defs one_day_def) (simp add: march_day_def)
  show "dt_plus 3600000000 (march_day 14 20 30) = Inr (march_day 14 21 30)" by (simp add: defs) (simp add: march_day_def)
  show "dt_plus one_day (march_day 14 21 0) = Inr (march_day 15 21 0)" by (simp add: defs one_day_def) (simp add: march_day_def)
  show "dt_plus (- one_day) (march_day 14 21 0) = Inr (march_day 13 21 0)" by (simp add: defs one_day_def) (simp add: march_day_def)
  show "as_utc (march_day 13 22 0) = Inr (march_day 13 22 0)" by (simp add: defs) (simp add: march_day_def)
  show "as_utc (march_day 14 20 30) = Inr (march_day 14 20 30)" by (simp add: defs) (simp add: march_day_def)
qed

lemma thursday_us: "epoch_us thursday_evening = 20160 * 86400000000 + 79200000000"
  by (simp add: thursday_evening_def march_us)

lemma thursday_weekend: "weekend_crossings thursday_evening 60 = Inr 1"
  by (simp add: weekend_crossings_def thursday_evening_def march_steps march_parts march_us step_back.simps weekend_loop.simps dt_weekday_def weekday_of_days_def)

theorem thursday_charged_weekend:
  "weekend_crossings thursday_evening 60 = Inr 1
    \<and> {k. k mod 7 = 1 \<and> epoch_us thursday_evening < rollover_us k \<and> rollover_us k < epoch_us thursday_evening + 60 * 60000000} = {}"
proof
  show "weekend_crossings thursday_evening 60 = Inr 1" by (rule thursday_weekend)
  show "{k. k mod 7 = 1 \<and> epoch_us thursday_evening < rollover_us k \<and> rollover_us k < epoch_us thursday_evening + 60 * 60000000} = {}"
    by (auto simp: thursday_us rollover_us_def)
qed

text \<open>A negative spread of the configuration makes a negative cost: nothing checks the sign.\<close>

theorem negative_spread_pays:
  assumes "round_trip_cost raw symbol side ts minutes volatile = Inr c" "session_for_timestamp ts = Inr session" "table_value raw ''spread'' symbol session = Inr (Fin (- 1))"
  shows "tc_spread c = Fin (- 2)"
proof -
  have "rnd (- 2) = Fin (- 2)" using rnd_int [of "- 2"] by simp
  with round_trip_parts [OF assms(1)] assms(2,3) show ?thesis by auto
qed

text \<open>A configuration with a swap and a weekend gap can still give a cost of zero: nothing else is charged within the day.\<close>

theorem configured_cost_zero:
  assumes "round_trip_cost raw symbol side ts 0 volatile = Inr c" "session_for_timestamp ts = Inr session" "table_value raw ''spread'' symbol session = Inr (Fin 0)"
    "tc_slippage c = Fin 0" "table_value raw ''commission'' symbol ''per_side'' = Inr (Fin 0)"
  shows "total_cost c = Fin 0"
proof -
  have "tc_swap c = Fin 0" "tc_gap c = Fin 0" "tc_spread c = Fin 0" "tc_commission c = Fin 0"
    using round_trip_parts [OF assms(1)] assms(2,3,5) by (auto simp: rollover_crossings_def weekend_crossings_def swap_cost_def gap_cost_def)
  with assms(4) show ?thesis by (simp add: total_cost_def)
qed

section \<open>Instances\<close>

definition friday_afternoon :: pydt where "friday_afternoon = march_day 14 20 30"

definition demo_costs :: "int \<Rightarrow> pydict" where
  "demo_costs spread = [(''spread'', PDict [(''default'', PDict [(''ny'', PInt spread)])]), (''slippage'', PDict [(''default'', PDict [(''base'', PDict [(''p50'', PInt 0)])])]),
     (''commission'', PDict [(''default'', PDict [(''per_side'', PInt 0)])]), (''swap'', PDict [(''default'', PDict [(''long_per_night'', PInt 1)])]),
     (''weekend_gap'', PDict [(''default'', PDict [(''premium'', PInt 3)])])]"

lemma friday_session: "session_for_timestamp friday_afternoon = Inr ''ny''" "rollover_crossings friday_afternoon 60 = Inr 1" "weekend_crossings friday_afternoon 60 = Inr 1"
proof -
  note defs = friday_afternoon_def march_steps march_parts march_us
  show "session_for_timestamp friday_afternoon = Inr ''ny''" by (simp add: session_for_timestamp_def defs dt_weekday_def weekday_of_days_def rollover_hour_def session_windows_def)
  show "rollover_crossings friday_afternoon 60 = Inr 1" by (simp add: rollover_crossings_def defs night_loop.simps)
  show "weekend_crossings friday_afternoon 60 = Inr 1"
    by (simp add: weekend_crossings_def defs step_back.simps weekend_loop.simps dt_weekday_def weekday_of_days_def)
qed

lemma demo_table: "table_value (demo_costs x) ''commission'' ''EURUSD'' ''per_side'' = Inr (Fin 0)" "slippage_cost (demo_costs x) ''EURUSD'' False = Inr (Fin 0)"
  "table_value (demo_costs x) ''spread'' ''EURUSD'' ''ny'' = py_float (PInt x)" "table_value (demo_costs x) ''swap'' ''EURUSD'' ''long_per_night'' = Inr (Fin 1)"
  "table_value (demo_costs x) ''weekend_gap'' ''EURUSD'' ''premium'' = Inr (Fin 3)"
  using rnd_int [of 3]
  by (simp_all add: table_value_def slippage_cost_def mode_slippage_def dindex_def demo_costs_def symbol_bucket_def py_dict_def require_float_def py_float_def f_of_int_def)

lemma demo_spread: "py_float (PInt (- 1)) = Inr (Fin (- 1))" "py_float (PInt 0) = Inr (Fin 0)" "py_float (PInt 1) = Inr (Fin 1)"
  using rnd_int [of "- 1"] by (simp_all add: py_float_def f_of_int_def)

lemma demo_trip: "py_float (PInt x) = Inr y \<Longrightarrow> \<exists>c. round_trip_cost (demo_costs x) ''EURUSD'' ''long'' friday_afternoon m (Some False) = Inr c \<and> tc_slippage c = Fin 0" if "m = 60 \<or> m = 0"
proof -
  assume y: "py_float (PInt x) = Inr y"
  have aware: "tzo friday_afternoon \<noteq> None" by (simp add: friday_afternoon_def march_parts)
  have zero: "rollover_crossings friday_afternoon 0 = Inr 0" "weekend_crossings friday_afternoon 0 = Inr 0" by (simp_all add: rollover_crossings_def weekend_crossings_def)
  from that aware show ?thesis by (auto simp: round_trip_cost_def friday_session demo_table y zero swap_cost_def gap_cost_def)
qed

theorem nights_exact_witness:
  "int (card {k. epoch_us friday_afternoon < rollover_us k \<and> rollover_us k < epoch_us friday_afternoon + 60 * 60000000}) = 1"
  using nights_exact [OF friday_session(2)] by (simp add: friday_afternoon_def march_parts)

theorem weekends_exact_witness:
  "int (card {k. k mod 7 = 1 \<and> epoch_us friday_afternoon < rollover_us k \<and> rollover_us (k - 1) < epoch_us friday_afternoon + 60 * 60000000}) = 1"
  using weekends_exact [OF friday_session(3)] by (simp add: friday_afternoon_def march_parts)

theorem session_exact_witness: "\<exists>utc. as_utc friday_afternoon = Inr utc \<and> hh utc < 21"
  using session_exact [OF friday_session(1)] by force

theorem cost_never_negative_witness:
  "\<exists>c. round_trip_cost (demo_costs 1) ''EURUSD'' ''long'' friday_afternoon 60 (Some False) = Inr c \<and> fle (Fin 0) (total_cost c)"
proof -
  from demo_trip [of 60, OF _ demo_spread(3)] obtain c where c: "round_trip_cost (demo_costs 1) ''EURUSD'' ''long'' friday_afternoon 60 (Some False) = Inr c" by auto
  have "list_all (\<lambda>k. no_negative (dget (demo_costs 1) k)) [''spread'', ''slippage'', ''commission'', ''weekend_gap'']" by (simp add: demo_costs_def dget_def)
  from cost_never_negative [OF c this] c show ?thesis by simp
qed

theorem negative_spread_pays_witness:
  "\<exists>c. round_trip_cost (demo_costs (- 1)) ''EURUSD'' ''long'' friday_afternoon 60 (Some False) = Inr c \<and> tc_spread c = Fin (- 2)"
proof -
  from demo_trip [of 60, OF _ demo_spread(1)] obtain c where c: "round_trip_cost (demo_costs (- 1)) ''EURUSD'' ''long'' friday_afternoon 60 (Some False) = Inr c" by auto
  have "table_value (demo_costs (- 1)) ''spread'' ''EURUSD'' ''ny'' = Inr (Fin (- 1))" by (simp only: demo_table demo_spread)
  from negative_spread_pays [OF c friday_session(1) this] c show ?thesis by blast
qed

theorem configured_cost_zero_witness:
  "\<exists>c. round_trip_cost (demo_costs 0) ''EURUSD'' ''long'' friday_afternoon 0 (Some False) = Inr c \<and> total_cost c = Fin 0"
proof -
  from demo_trip [of 0, OF _ demo_spread(2)] obtain c where c: "round_trip_cost (demo_costs 0) ''EURUSD'' ''long'' friday_afternoon 0 (Some False) = Inr c" "tc_slippage c = Fin 0" by auto
  have "table_value (demo_costs 0) ''spread'' ''EURUSD'' ''ny'' = Inr (Fin 0)" by (simp only: demo_table demo_spread)
  from configured_cost_zero [OF c(1) friday_session(1) this c(2) demo_table(1)] c(1) show ?thesis by blast
qed

end
