(* ===== verification/Records.thy ===== *)
theory Records
  imports PyDate "HOL-Library.List_Lexorder" "HOL-Library.Char_ord" Systems
begin

text \<open>
  Snapshots and audit records: \<open>core/snapshot.py\<close>, and \<open>audit.py\<close>, \<open>events.py\<close>, \<open>snapshot.py\<close> and \<open>release_audit.py\<close> of
  \<open>persistence/\<close>. A log is the list of its lines; schema validation is an argument (the message of the
  violation, or None), and so are the checksum and whether the disk takes the write.

  Shown: a snapshot that was written reads back; every line of the audit logs has the required fields
  and the two logs agree as long as the disk takes the writes. And where it fails: a comparison of
  hashes never reports a mismatch, it raises; a write that fails leaves the two logs apart.
\<close>

section \<open>Snapshots\<close>

text \<open>The values of \<open>SnapshotError\<close>.\<close>

datatype snapshot_error = PersistError | HashError | NotFoundError | CorruptedError | MismatchDetected | HashComputationError

fun snapshot_error_value :: "snapshot_error \<Rightarrow> string" where
  "snapshot_error_value PersistError = ''snapshot.persist_error''"
| "snapshot_error_value HashError = ''snapshot.hash_error''"
| "snapshot_error_value NotFoundError = ''snapshot.not_found''"
| "snapshot_error_value CorruptedError = ''snapshot.corrupted''"
| "snapshot_error_value MismatchDetected = ''snapshot.data_mismatch''"
| "snapshot_error_value HashComputationError = ''snapshot.hash_computation_error''"

definition snapshot_raises :: "snapshot_error \<Rightarrow> err" where
  "snapshot_raises e = Raises ''RuntimeError'' (snapshot_error_value e)"

record snapshot_world =
  sw_base :: string
  sw_files :: "(string \<times> pyval option) list"
  sw_events :: "pydict list"

record persist_result =
  pr_path :: string
  pr_checksum :: string

definition latest_path :: "snapshot_world \<Rightarrow> string" where
  "latest_path w = sw_base w @ ''/latest.json''"

definition snapshot_document :: "pydt \<Rightarrow> pyval \<Rightarrow> string \<Rightarrow> string \<Rightarrow> string option \<Rightarrow> pydict" where
  "snapshot_document now snapshot cfg data actor = [(''metadata'', PDict [(''cfg_hash'', PStr cfg), (''data_hash'', PStr data), (''actor'', ostr actor), (''created_at'', PStr (iso_text now))]),
     (''state'', snapshot)]"

text \<open>The file is replaced once its copy is complete, so a failed write leaves the old one.\<close>

definition persist_snapshot :: "(pyval \<Rightarrow> string) \<Rightarrow> bool \<Rightarrow> pydt \<Rightarrow> pyval \<Rightarrow> string \<Rightarrow> string \<Rightarrow> string option \<Rightarrow> snapshot_world \<Rightarrow> snapshot_world \<times> persist_result res" where
  "persist_snapshot hash write_ok now snapshot cfg data actor w = (if cfg = [] \<or> data = [] then (w, Inl (snapshot_raises HashError))
     else if \<not> write_ok then (w, Inl (snapshot_raises PersistError))
     else let doc = PDict (snapshot_document now snapshot cfg data actor) in
       (w\<lparr>sw_files := AList.update (latest_path w) (Some doc) (sw_files w)\<rparr>, Inr \<lparr>pr_path = latest_path w, pr_checksum = hash doc\<rparr>))"

definition restore_snapshot :: "string option \<Rightarrow> snapshot_world \<Rightarrow> pyval res" where
  "restore_snapshot path w = (let target = (case path of None \<Rightarrow> latest_path w | Some p \<Rightarrow> p) in case map_of (sw_files w) target of
       None \<Rightarrow> Inl (Raises ''FileNotFoundError'' target)
     | Some None \<Rightarrow> Inl (snapshot_raises CorruptedError)
     | Some (Some v) \<Rightarrow> bind_res (as_dict_get v) (\<lambda>d. bind_res (as_dict_get (py_or (dget d ''metadata'') (PDict []))) (\<lambda>m.
         if \<not> truthy (dget m ''cfg_hash'') \<or> \<not> truthy (dget m ''data_hash'') then Inl (snapshot_raises HashError) else Inr (dget d ''state''))))"

record hash_report =
  hr_expected :: string
  hr_actual :: string
  hr_matches :: bool

definition mismatch_event :: "pydt \<Rightarrow> string \<Rightarrow> string \<Rightarrow> pydict" where
  "mismatch_event now data expected = [(''event'', PStr ''snapshot.data_mismatch''), (''ts'', PStr (utc_iso now)), (''source'', PStr ''snapshot''),
     (''expected_hash'', PStr expected), (''actual_hash'', PStr data)]"

text \<open>The event is written where the disk takes it; the exception follows either way.\<close>

definition compare_hash :: "bool \<Rightarrow> pydt \<Rightarrow> string \<Rightarrow> string \<Rightarrow> snapshot_world \<Rightarrow> snapshot_world \<times> hash_report res" where
  "compare_hash write_ok now data expected w = (if data = [] \<or> expected = [] then (w, Inl (snapshot_raises HashComputationError))
     else if data = expected then (w, Inr \<lparr>hr_expected = expected, hr_actual = data, hr_matches = True\<rparr>)
     else (if write_ok then w\<lparr>sw_events := sw_events w @ [mismatch_event now data expected]\<rparr> else w, Inl (snapshot_raises MismatchDetected)))"

section \<open>The snapshot store\<close>

definition store_save :: "pyval \<Rightarrow> json_file \<Rightarrow> json_file" where
  "store_save v f = Some (Some v)"

definition store_load :: "json_file \<Rightarrow> pyval option res" where
  "store_load f = (case f of None \<Rightarrow> Inr None | Some None \<Rightarrow> Inl (Raises ''JSONDecodeError'' []) | Some (Some v) \<Rightarrow> Inr (Some v))"

section \<open>Audit records\<close>

definition required_fields :: "string list" where
  "required_fields = sort [''ts'', ''schema_version'', ''ticket_id'', ''action'', ''actor'', ''board_mode'', ''kill_switch_state'', ''spread_status'', ''profit_readiness_status'',
     ''reduce_only'', ''risk_disclosure_state'', ''cfg_hash'', ''data_hash'', ''consent_reference_id'', ''record_type'', ''delta'', ''guardrails'']"

definition delta_fields :: "string list" where "delta_fields = [''before'', ''after'', ''diff'', ''decision'']"
definition guardrail_fields :: "string list" where "guardrail_fields = [''kill_switch'', ''spread_status'', ''reduce_only'']"

definition audit_error :: "string \<Rightarrow> err" where
  "audit_error m = Raises ''ValueError'' (''audit record '' @ m)"

text \<open>The mapping at a key with its own required keys.\<close>

definition check_part :: "string \<Rightarrow> string list \<Rightarrow> pydict \<Rightarrow> unit res" where
  "check_part k fs e = (case dget e k of
       PDict d \<Rightarrow> (case find (\<lambda>f. map_of d f = None) fs of None \<Rightarrow> Inr () | Some f \<Rightarrow> Inl (audit_error (k @ '' missing required field: '' @ f)))
     | _ \<Rightarrow> Inl (audit_error (k @ '' must be an object'')))"

definition validate_required :: "pydict \<Rightarrow> unit res" where
  "validate_required e = (case filter (\<lambda>k. map_of e k = None) required_fields of
       k # ks \<Rightarrow> Inl (audit_error (''missing required fields: '' @ str_join '', '' (k # ks)))
     | [] \<Rightarrow> bind_res (check_part ''delta'' delta_fields e) (\<lambda>_. check_part ''guardrails'' guardrail_fields e))"

definition validate_record :: "(pydict \<Rightarrow> string option) \<Rightarrow> string \<Rightarrow> pydict \<Rightarrow> unit res" where
  "validate_record schema kind e = (case schema e of None \<Rightarrow> Inr () | Some m \<Rightarrow> Inl (Raises ''ValueError'' (kind @ '' schema validation failed: '' @ m)))"

record audit_logs =
  al_raw :: "pydict list"
  al_compliance :: "pydict list"

definition os_error :: err where "os_error = Raises ''OSError'' []"

definition append_line :: "bool \<Rightarrow> pydict \<Rightarrow> pydict list \<Rightarrow> pydict list res" where
  "append_line write_ok e lines = (if write_ok then Inr (lines @ [e]) else Inl os_error)"

definition record_compliance :: "(pydict \<Rightarrow> string option) \<Rightarrow> bool \<Rightarrow> pydict \<Rightarrow> audit_logs \<Rightarrow> audit_logs res" where
  "record_compliance schema write_ok e l = bind_res (validate_required e) (\<lambda>_. bind_res (validate_record schema ''audit record'' e) (\<lambda>_.
     bind_res (append_line write_ok e (al_compliance l)) (\<lambda>c. Inr (l\<lparr>al_compliance := c\<rparr>))))"

text \<open>The entry gets an empty spread state where it has none, and the health status of its guardrails.\<close>

definition with_health :: "pydict \<Rightarrow> pydict" where
  "with_health e = (if map_of e ''health_status'' \<noteq> None then e else case dget e ''guardrails'' of
       PDict g \<Rightarrow> let h = py_or (dget g ''health_state'') (dget g ''health_status'') in if h = PNone then e else AList.update ''health_status'' h e
     | _ \<Rightarrow> e)"

definition complete_entry :: "pydict \<Rightarrow> pydict" where
  "complete_entry e = with_health (if map_of e ''spread_state'' = None then AList.update ''spread_state'' (PDict []) e else e)"

definition record_ticket_action :: "(pydict \<Rightarrow> string option) \<Rightarrow> bool \<Rightarrow> bool \<Rightarrow> pydict \<Rightarrow> audit_logs \<Rightarrow> audit_logs \<times> pydict res" where
  "record_ticket_action schema ok1 ok2 payload l = (let e = complete_entry payload in case record_compliance schema ok1 e l of
       Inl er \<Rightarrow> (l, Inl er)
     | Inr l1 \<Rightarrow> (case append_line ok2 e (al_raw l1) of Inl er \<Rightarrow> (l1, Inl er) | Inr r \<Rightarrow> (l1\<lparr>al_raw := r\<rparr>, Inr e)))"

text \<open>The events log takes anything; the release log what its schema allows.\<close>

definition append_event :: "bool \<Rightarrow> pydict \<Rightarrow> pydict list \<Rightarrow> pydict list res" where
  "append_event write_ok e lines = append_line write_ok e lines"

definition record_release :: "(pydict \<Rightarrow> string option) \<Rightarrow> bool \<Rightarrow> pydict \<Rightarrow> pydict list \<Rightarrow> pydict list \<times> pydict res" where
  "record_release schema write_ok payload lines = (let e = (if map_of payload ''schema_version'' = None then AList.update ''schema_version'' (PStr ''release.audit.v1'') payload else payload)
     in case bind_res (validate_record schema ''release audit'' e) (\<lambda>_. append_line write_ok e lines) of Inl er \<Rightarrow> (lines, Inl er) | Inr l \<Rightarrow> (l, Inr e))"

section \<open>Snapshots read back\<close>

lemma snapshot_back:
  assumes "persist_snapshot hash ok now snapshot cfg data actor w = (w', Inr r)"
  shows "restore_snapshot None w' = Inr snapshot \<and> restore_snapshot (Some (pr_path r)) w' = Inr snapshot \<and> pr_path r = latest_path w"
proof -
  have w': "w' = w\<lparr>sw_files := AList.update (latest_path w) (Some (PDict (snapshot_document now snapshot cfg data actor))) (sw_files w)\<rparr>" "pr_path r = latest_path w"
    and h: "cfg \<noteq> []" "data \<noteq> []"
    using assms by (auto simp: persist_snapshot_def Let_def split: if_splits)
  then show ?thesis by (simp add: restore_snapshot_def latest_path_def snapshot_document_def dget_def py_or_def Let_def)
qed

text \<open>What was persisted is restored, and any failure before that leaves the file as it was.\<close>

theorem snapshot_roundtrip:
  assumes "persist_snapshot hash ok now snapshot cfg data actor w = (w', r)"
  shows "(case r of Inr p \<Rightarrow> restore_snapshot None w' = Inr snapshot \<and> restore_snapshot (Some (pr_path p)) w' = Inr snapshot | Inl e \<Rightarrow> w' = w)
    \<and> (\<exists>p. r = Inr p) = (cfg \<noteq> [] \<and> data \<noteq> [] \<and> ok)"
proof (cases r)
  case (Inl e)
  with assms show ?thesis by (auto simp: persist_snapshot_def Let_def split: if_splits)
next
  case (Inr p)
  with assms have "cfg \<noteq> [] \<and> data \<noteq> [] \<and> ok" by (auto simp: persist_snapshot_def Let_def split: if_splits)
  moreover from assms Inr have "persist_snapshot hash ok now snapshot cfg data actor w = (w', Inr p)" by simp
  note snapshot_back [OF this]
  ultimately show ?thesis using Inr by auto
qed

text \<open>A report of a comparison always says that the hashes match: on a mismatch there is none.\<close>

theorem mismatch_never_reported:
  assumes "compare_hash ok now data expected w = (w', r)"
  shows "r = Inr \<lparr>hr_expected = expected, hr_actual = data, hr_matches = True\<rparr> \<and> data = expected \<and> w' = w \<or> (\<exists>e. r = Inl e)"
  using assms by (auto simp: compare_hash_def split: if_splits)

section \<open>The audit logs\<close>

definition has_required :: "pydict \<Rightarrow> bool" where
  "has_required e \<longleftrightarrow> list_all (\<lambda>k. map_of e k \<noteq> None) required_fields
     \<and> (case dget e ''delta'' of PDict d \<Rightarrow> list_all (\<lambda>k. map_of d k \<noteq> None) delta_fields | _ \<Rightarrow> False)
     \<and> (case dget e ''guardrails'' of PDict d \<Rightarrow> list_all (\<lambda>k. map_of d k \<noteq> None) guardrail_fields | _ \<Rightarrow> False)"

lemma check_part_result: "check_part k fs e = Inr () \<longleftrightarrow> (case dget e k of PDict d \<Rightarrow> list_all (\<lambda>f. map_of d f \<noteq> None) fs | _ \<Rightarrow> False)"
  by (auto simp: check_part_def find_None_iff list_all_iff split: pyval.splits option.splits dest: find_Some_iff_mem)

lemma validate_required_result: "validate_required e = Inr () \<longleftrightarrow> has_required e"
proof (cases "filter (\<lambda>k. map_of e k = None) required_fields")
  case Nil
  then have "list_all (\<lambda>k. map_of e k \<noteq> None) required_fields" by (simp add: filter_empty_conv list_all_iff)
  with Nil show ?thesis by (auto simp: validate_required_def has_required_def bind_res_eq_Inr check_part_result simp del: bind_res_simps)
next
  case (Cons k ks)
  then have "k \<in> set (filter (\<lambda>k. map_of e k = None) required_fields)" by simp
  then have "\<not> list_all (\<lambda>k. map_of e k \<noteq> None) required_fields" by (auto simp: list_all_iff)
  with Cons show ?thesis by (simp add: validate_required_def has_required_def)
qed

lemma action_cases:
  assumes "record_ticket_action schema ok1 ok2 payload l = (l', r)"
  shows "l' = l \<and> (\<exists>er. r = Inl er)
    \<or> has_required (complete_entry payload) \<and> schema (complete_entry payload) = None \<and> al_compliance l' = al_compliance l @ [complete_entry payload]
      \<and> (if ok2 then al_raw l' = al_raw l @ [complete_entry payload] \<and> r = Inr (complete_entry payload) else al_raw l' = al_raw l \<and> r = Inl os_error)"
proof (cases "record_compliance schema ok1 (complete_entry payload) l")
  case (Inl er)
  with assms have "l' = l \<and> r = Inl er" by (auto simp: record_ticket_action_def Let_def)
  then show ?thesis by blast
next
  case (Inr l1)
  then have "has_required (complete_entry payload)" "schema (complete_entry payload) = None" "l1 = l\<lparr>al_compliance := al_compliance l @ [complete_entry payload]\<rparr>"
    by (auto simp: record_compliance_def bind_res_eq_Inr append_line_def validate_record_def validate_required_result [symmetric] simp del: bind_res_simps split: if_splits option.splits)
  with Inr assms show ?thesis by (auto simp: record_ticket_action_def Let_def append_line_def split: if_splits)
qed

record action_call =
  ac_payload :: pydict
  ac_compliance_ok :: bool
  ac_raw_ok :: bool

definition audit_step :: "(pydict \<Rightarrow> string option) \<Rightarrow> audit_logs \<Rightarrow> action_call \<Rightarrow> audit_logs" where
  "audit_step schema l c = fst (record_ticket_action schema (ac_compliance_ok c) (ac_raw_ok c) (ac_payload c) l)"

definition audit_ok :: "(pydict \<Rightarrow> string option) \<Rightarrow> audit_logs \<Rightarrow> bool" where
  "audit_ok schema l \<longleftrightarrow> al_raw l = al_compliance l \<and> list_all (\<lambda>e. has_required e \<and> schema e = None) (al_raw l)"

interpretation audit: guarded_system "audit_step schema" "\<lambda>c :: action_call. ac_raw_ok c" "audit_ok schema" for schema
proof unfold_locales
  fix l and c :: action_call
  assume l: "audit_ok schema l" and ok: "ac_raw_ok c"
  obtain l' r where r: "record_ticket_action schema (ac_compliance_ok c) (ac_raw_ok c) (ac_payload c) l = (l', r)"
    by (cases "record_ticket_action schema (ac_compliance_ok c) (ac_raw_ok c) (ac_payload c) l")
  then have "audit_step schema l c = l'" by (simp add: audit_step_def)
  with action_cases [OF r] l ok show "audit_ok schema (audit_step schema l c)" by (auto simp: audit_ok_def)
qed

text \<open>C35: As long as the raw log takes its writes the two logs hold the same lines, each with every required field and allowed by the schema.\<close>

theorem audit_logs_agree:
  assumes "list_all (\<lambda>c :: action_call. ac_raw_ok c) cs"
  shows "audit_ok schema (foldl (audit_step schema) \<lparr>al_raw = [], al_compliance = []\<rparr> cs)"
  using assms by (rule audit.allowed_run_inv [rotated]) (simp add: audit_ok_def)

text \<open>A raw write that fails leaves the line in the other log only, and the caller sees the exception of a record that was written.\<close>

theorem failed_write_splits_logs:
  assumes "has_required (complete_entry payload)" "schema (complete_entry payload) = None"
  shows "record_ticket_action schema True False payload l = (l\<lparr>al_compliance := al_compliance l @ [complete_entry payload]\<rparr>, Inl os_error)"
  using assms by (simp add: record_ticket_action_def record_compliance_def validate_required_result [THEN iffD2] validate_record_def append_line_def Let_def)

section \<open>Instances\<close>

definition demo_record_now :: pydt where
  "demo_record_now = \<lparr>yr = 2025, mo = 1, dy = 1, hh = 0, mi = 0, ss = 0, us = 0, tzo = Some 0\<rparr>"

definition demo_entry :: pydict where
  "demo_entry = [(''delta'', PDict (map (\<lambda>k. (k, PNone)) delta_fields)), (''guardrails'', PDict (map (\<lambda>k. (k, PNone)) guardrail_fields))]
     @ map (\<lambda>k. (k, PStr ''x'')) (filter (\<lambda>k. k \<noteq> ''delta'' \<and> k \<noteq> ''guardrails'') required_fields)"

lemma demo_complete: "has_required (complete_entry demo_entry)"
  by code_simp

theorem snapshot_roundtrip_witness:
  "\<exists>w' p. persist_snapshot (\<lambda>v. ''h'') True demo_record_now (PInt 7) ''c'' ''d'' None \<lparr>sw_base = ''snapshots'', sw_files = [], sw_events = []\<rparr> = (w', Inr p)
     \<and> restore_snapshot None w' = Inr (PInt 7)"
proof -
  obtain w' r where r: "persist_snapshot (\<lambda>v. ''h'') True demo_record_now (PInt 7) ''c'' ''d'' None \<lparr>sw_base = ''snapshots'', sw_files = [], sw_events = []\<rparr> = (w', r)"
    by (cases "persist_snapshot (\<lambda>v. ''h'') True demo_record_now (PInt 7) ''c'' ''d'' None \<lparr>sw_base = ''snapshots'', sw_files = [], sw_events = []\<rparr>")
  from snapshot_roundtrip [OF r] obtain p where "r = Inr p" by auto
  with snapshot_roundtrip [OF r] r show ?thesis by auto
qed

theorem mismatch_never_reported_witness:
  "\<exists>r w'. compare_hash True demo_record_now ''a'' ''b'' \<lparr>sw_base = ''s'', sw_files = [], sw_events = []\<rparr> = (w', r) \<and> (\<exists>e. r = Inl e)"
proof -
  obtain w' r where r: "compare_hash True demo_record_now ''a'' ''b'' \<lparr>sw_base = ''s'', sw_files = [], sw_events = []\<rparr> = (w', r)"
    by (cases "compare_hash True demo_record_now ''a'' ''b'' \<lparr>sw_base = ''s'', sw_files = [], sw_events = []\<rparr>")
  from mismatch_never_reported [OF r] r show ?thesis by auto
qed

theorem audit_logs_agree_witness:
  "audit_ok (\<lambda>e. None) (foldl (audit_step (\<lambda>e. None)) \<lparr>al_raw = [], al_compliance = []\<rparr> [\<lparr>ac_payload = demo_entry, ac_compliance_ok = True, ac_raw_ok = True\<rparr>])"
  by (rule audit_logs_agree) simp

theorem failed_write_splits_logs_witness:
  "record_ticket_action (\<lambda>e. None) True False demo_entry \<lparr>al_raw = [], al_compliance = []\<rparr> = (\<lparr>al_raw = [], al_compliance = [complete_entry demo_entry]\<rparr>, Inl os_error)"
  using failed_write_splits_logs [OF demo_complete, of "\<lambda>e. None" "\<lparr>al_raw = [], al_compliance = []\<rparr>"] by simp

end
