(* ===== verification/StrategyManifest.thy ===== *)
theory StrategyManifest
  imports PyDate "HOL-Library.List_Lexorder" "HOL-Library.Char_ord"
begin

text \<open>
  The strategy manifest of \<open>strategies/registry.py\<close>: lifecycles, entries, the validators of its models and the
  checks on a manifest; and the rotation of the log files the registry appends to. The typing of a
  document by pydantic is an argument (the typed fields, or None where it refuses the document); the
  validators run on its result. A frozen set is its sorted list; a log file is its text.

  Shown: what an effective status is; that a manifest that loads has no enabled strategy that lapsed,
  with weights that sum to at most one; that the watchlist resolved is within the symbols there are;
  and how long a rotated log can get.
\<close>

section \<open>Log files\<close>

definition tail_bytes :: "int \<Rightarrow> string \<Rightarrow> string" where
  "tail_bytes keep s = (if keep \<le> 0 then [] else if int (length s) \<le> keep then s
     else let t = drop (length s - nat keep) s in case dropWhile (\<lambda>c. of_char c \<noteq> (10 :: nat)) t of [] \<Rightarrow> t | _ # r \<Rightarrow> r)"

definition rotate_log :: "int option \<Rightarrow> int \<Rightarrow> string option \<Rightarrow> string option" where
  "rotate_log max_bytes keep f = (case (max_bytes, f) of
       (Some m, Some s) \<Rightarrow> if m \<le> 0 \<or> int (length s) \<le> m then f else Some (tail_bytes keep s)
     | _ \<Rightarrow> f)"

definition append_jsonl :: "int option \<Rightarrow> int \<Rightarrow> pydict \<Rightarrow> string option \<Rightarrow> string option" where
  "append_jsonl max_bytes keep payload f = Some ((case rotate_log max_bytes keep f of None \<Rightarrow> [] | Some s \<Rightarrow> s) @ json_text (PDict payload) @ [char_of (10 :: nat)])"

definition int_env :: "string option \<Rightarrow> int option \<Rightarrow> int option" where
  "int_env raw default_value = (case raw of None \<Rightarrow> default_value
     | Some s \<Rightarrow> if str_strip s = [] then default_value else case parse_int s of None \<Rightarrow> default_value | Some n \<Rightarrow> if n \<le> 0 then None else Some n)"

definition default_max_bytes :: int where "default_max_bytes = 64 * 1024 * 1024"
definition default_keep_bytes :: int where "default_keep_bytes = 8 * 1024 * 1024"

text \<open>The bounds of one log, as the engine reads them from the environment.\<close>

definition log_bounds :: "string option \<Rightarrow> string option \<Rightarrow> int option \<times> int" where
  "log_bounds max_raw keep_raw = (int_env max_raw (Some default_max_bytes), case int_env keep_raw (Some default_keep_bytes) of None \<Rightarrow> default_keep_bytes | Some n \<Rightarrow> n)"

section \<open>Symbols\<close>

definition to_set :: "string list \<Rightarrow> string list" where
  "to_set xs = sort (remdups xs)"

definition normalise_symbols :: "string list \<Rightarrow> string list" where
  "normalise_symbols xs = to_set (map str_upper (filter (\<lambda>t. t \<noteq> []) (map str_strip xs)))"

definition set_minus :: "string list \<Rightarrow> string list \<Rightarrow> string list" where
  "set_minus a b = filter (\<lambda>x. x \<notin> set b) a"

section \<open>Lifecycles\<close>

record dataset_reference =
  dr_id :: string
  dr_version :: string
  dr_playbook :: string

record governance_record =
  gv_ticket :: string
  gv_decision :: pydt
  gv_reviewers :: "string list"

record lifecycle =
  lc_status :: string
  lc_validated :: pydt
  lc_expires :: "pydt option"
  lc_days :: int
  lc_runbook :: "string option"

definition normalise_timestamps :: "lifecycle \<Rightarrow> lifecycle res" where
  "normalise_timestamps l = bind_res (as_utc (lc_validated l)) (\<lambda>v. bind_res (case lc_expires l of None \<Rightarrow> Inr None | Some e \<Rightarrow> bind_res (as_utc e) (\<lambda>u. Inr (Some u)))
     (\<lambda>e. Inr (l\<lparr>lc_validated := v, lc_expires := e\<rparr>)))"

definition effective_status :: "pydt \<Rightarrow> lifecycle \<Rightarrow> string res" where
  "effective_status now l = bind_res (as_utc now) (\<lambda>ref. Inr (if lc_status l = ''blocked'' then ''blocked'' else if lc_status l = ''deprecated'' then ''deprecated''
     else if (case lc_expires l of None \<Rightarrow> False | Some e \<Rightarrow> epoch_us e \<le> epoch_us ref) then ''deprecated''
     else if lc_days l * 86400000000 < epoch_us ref - epoch_us (lc_validated l) then ''deprecated'' else lc_status l))"

definition is_stale :: "pydt \<Rightarrow> lifecycle \<Rightarrow> bool res" where
  "is_stale now l = bind_res (effective_status now l) (\<lambda>s. Inr (s = ''deprecated''))"

section \<open>Entries\<close>

record strategy_meta =
  sm_name :: string
  sm_version :: string
  sm_features :: "string list"
  sm_tags :: "string list"
  sm_offset :: int

text \<open>The first of equal items stays.\<close>

definition unique_items :: "string list \<Rightarrow> string list" where
  "unique_items xs = rev (remdups (rev xs))"

definition normalise_features :: "string list \<Rightarrow> string list res" where
  "normalise_features xs = (let ys = map str_strip xs in if [] \<in> set ys \<or> ys = [] then Inl ValueError else Inr (unique_items ys))"

record strategy_entry =
  se_enabled :: bool
  se_priority :: int
  se_weight :: pyfloat
  se_meta :: strategy_meta
  se_flags :: "(string \<times> bool) list"
  se_datasets :: "dataset_reference list"
  se_governance :: "governance_record option"
  se_watchlist :: "string list option"
  se_lifecycle :: "lifecycle option"
  se_parameters :: pydict
  se_key :: string

definition normalise_watchlist :: "string list option \<Rightarrow> string list option res" where
  "normalise_watchlist w = (case w of None \<Rightarrow> Inr None
     | Some xs \<Rightarrow> let ys = map (str_upper \<circ> str_strip) xs in if [] \<in> set ys then Inl ValueError else Inr (if ys = [] then None else Some (unique_items ys)))"

definition validate_key :: "string \<Rightarrow> string res" where
  "validate_key k = (if str_strip k = [] then Inl ValueError else Inr (str_strip k))"

definition enabled_flags :: "strategy_entry \<Rightarrow> string list" where
  "enabled_flags e = to_set (map fst (filter snd (se_flags e)))"

definition entry_status :: "pydt \<Rightarrow> strategy_entry \<Rightarrow> string res" where
  "entry_status now e = (case se_lifecycle e of None \<Rightarrow> Inr (if se_enabled e then ''active'' else ''draft'') | Some l \<Rightarrow> effective_status now l)"

text \<open>The validators of an entry, on typed fields.\<close>

definition validate_entry :: "strategy_entry \<Rightarrow> strategy_entry res" where
  "validate_entry e = bind_res (normalise_features (sm_features (se_meta e))) (\<lambda>fs. bind_res (normalise_watchlist (se_watchlist e)) (\<lambda>w.
     bind_res (case se_lifecycle e of None \<Rightarrow> Inr None | Some l \<Rightarrow> bind_res (normalise_timestamps l) (\<lambda>l'. Inr (Some l'))) (\<lambda>l. bind_res (validate_key (se_key e)) (\<lambda>k.
       Inr (e\<lparr>se_meta := (se_meta e)\<lparr>sm_features := fs\<rparr>, se_watchlist := w, se_lifecycle := l, se_key := k\<rparr>)))))"

section \<open>Manifests\<close>

record strategy_manifest =
  mn_schema :: pyval
  mn_name :: string
  mn_revision :: string
  mn_reviewed :: pydt
  mn_notes :: "string option"
  mn_strategies :: "(string \<times> strategy_entry) list"

definition ensure_strategies :: "(string \<times> strategy_entry) list \<Rightarrow> (string \<times> strategy_entry) list res" where
  "ensure_strategies es = (if es = [] \<or> list_ex (\<lambda>(k, e). str_strip k = []) es then Inl ValueError
     else Inr (foldl (\<lambda>d (k, e). AList.update (str_strip k) e d) [] es))"

text \<open>\<open>sum\<close> of floats, with the compensation of Python 3.12.\<close>

fun sum_loop :: "pyfloat list \<Rightarrow> pyfloat \<Rightarrow> pyfloat \<Rightarrow> pyfloat" where
  "sum_loop [] s c = (case c of Fin z \<Rightarrow> if z = 0 then s else fadd s c | _ \<Rightarrow> s)"
| "sum_loop (x # xs) s c = (let t = fadd s x in sum_loop xs t (fadd c (if fge (fabs s) (fabs x) then fadd (fsub s t) x else fadd (fsub x t) s)))"

definition py_sum :: "pyfloat list \<Rightarrow> pyfloat" where
  "py_sum xs = (case xs of [] \<Rightarrow> Fin 0 | x # ys \<Rightarrow> sum_loop ys x (Fin 0))"

definition enabled_strategies :: "strategy_manifest \<Rightarrow> (string \<times> strategy_entry) list" where
  "enabled_strategies m = filter (se_enabled \<circ> snd) (mn_strategies m)"

definition weights_ok :: "strategy_manifest \<Rightarrow> bool" where
  "weights_ok m \<longleftrightarrow> \<not> fgt (py_sum (map (se_weight \<circ> snd) (enabled_strategies m))) (fadd (Fin 1) (rnd (1 / 1000000000)))"

definition load_error :: "string \<Rightarrow> err" where "load_error m = Raises ''ManifestLoadError'' m"
definition validation_error :: "string \<Rightarrow> err" where "validation_error m = Raises ''ManifestValidationError'' m"

definition validate_manifest :: "strategy_manifest \<Rightarrow> strategy_manifest res" where
  "validate_manifest m = bind_res (map_res (\<lambda>(k, e). bind_res (validate_entry e) (\<lambda>e'. Inr (k, e'))) (mn_strategies m)) (\<lambda>es. bind_res (ensure_strategies es) (\<lambda>d.
     let m' = m\<lparr>mn_strategies := d\<rparr> in if weights_ok m' then Inr m' else Inl ValueError))"

text \<open>Pydantic collects the errors of the validators in one; an OverflowError of a timestamp goes through.\<close>

definition manifest_from_dict :: "(pyval \<Rightarrow> strategy_manifest option) \<Rightarrow> pyval \<Rightarrow> strategy_manifest res" where
  "manifest_from_dict typed v = (case typed v of None \<Rightarrow> Inl (validation_error ''Strategy manifest validation failed'')
     | Some m \<Rightarrow> (case validate_manifest m of Inr m' \<Rightarrow> Inr m' | Inl e \<Rightarrow> Inl (if e = ValueError then validation_error ''Strategy manifest validation failed'' else e)))"

definition set_repr :: "string list \<Rightarrow> pyval" where
  "set_repr xs = PList (map PStr xs)"

definition validate_features :: "string list \<Rightarrow> strategy_manifest \<Rightarrow> unit res" where
  "validate_features available m = (let missing = filter (\<lambda>(k, fs). fs \<noteq> []) (map (\<lambda>(k, e). (k, set_minus (to_set (sm_features (se_meta e))) available)) (enabled_strategies m))
     in if missing = [] then Inr () else Inl (validation_error (''Strategy manifest references unavailable features: '' @ py_repr (PDict (map (\<lambda>(k, fs). (k, set_repr fs)) missing)))))"

definition watched_symbols :: "strategy_entry \<Rightarrow> string list" where
  "watched_symbols e = (case se_watchlist e of None \<Rightarrow> [] | Some w \<Rightarrow> w)"

definition validate_watchlists :: "string list \<Rightarrow> strategy_manifest \<Rightarrow> unit res" where
  "validate_watchlists available m = (let missing = filter (\<lambda>(k, ss). ss \<noteq> []) (map (\<lambda>(k, e). (k, set_minus (to_set (watched_symbols e)) (normalise_symbols available))) (enabled_strategies m))
     in if missing = [] then Inr () else Inl (validation_error (''Strategy watchlist references symbols missing from feature context: '' @ py_repr (PDict (map (\<lambda>(k, ss). (k, set_repr ss)) missing)))))"

text \<open>The symbols of the entries that have not lapsed; all symbols where those have none.\<close>

definition resolve_watchlist :: "pydt \<Rightarrow> string list \<Rightarrow> strategy_manifest \<Rightarrow> string list res" where
  "resolve_watchlist now available m = (let symbols = normalise_symbols available in bind_res (validate_watchlists symbols m) (\<lambda>_.
     bind_res (map_res (\<lambda>(k, e). bind_res (entry_status now e) (\<lambda>st. Inr (if st = ''deprecated'' then [] else filter (\<lambda>s. s \<in> set symbols) (watched_symbols e)))) (enabled_strategies m)) (\<lambda>ws.
       Inr (if concat ws = [] then symbols else to_set (concat ws)))))"

definition lapse_reason :: "pydt \<Rightarrow> strategy_entry \<Rightarrow> string option res" where
  "lapse_reason now e = bind_res (entry_status now e) (\<lambda>st. if st \<noteq> ''deprecated'' then Inr None
     else bind_res (case se_lifecycle e of None \<Rightarrow> Inr False | Some l \<Rightarrow> is_stale now l) (\<lambda>stale.
       Inr (Some (if stale then ''validation stale (> deprecated_after_days)'' else ''status=deprecated''))))"

definition validate_lifecycle :: "pydt \<Rightarrow> strategy_manifest \<Rightarrow> unit res" where
  "validate_lifecycle now m = bind_res (map_res (\<lambda>(k, e). bind_res (lapse_reason now e) (\<lambda>r. Inr (k, r))) (enabled_strategies m)) (\<lambda>rs.
     let stale = concat (map (\<lambda>(k, r). case r of None \<Rightarrow> [] | Some t \<Rightarrow> [k @ '': '' @ t]) rs)
     in if stale = [] then Inr () else Inl (validation_error (''Enabled strategies have lapsed lifecycle status: '' @ str_join '', '' stale)))"

definition load_strategy_manifest :: "(pyval \<Rightarrow> strategy_manifest option) \<Rightarrow> pydt \<Rightarrow> string \<Rightarrow> json_file \<Rightarrow> strategy_manifest res" where
  "load_strategy_manifest typed now path f = (case f of None \<Rightarrow> Inl (load_error (''Manifest file does not exist: '' @ path))
     | Some None \<Rightarrow> Inl (load_error ''Failed to parse manifest YAML'')
     | Some (Some v) \<Rightarrow> bind_res (manifest_from_dict typed v) (\<lambda>m. bind_res (validate_lifecycle now m) (\<lambda>_. Inr m)))"

section \<open>What a manifest that loads guarantees\<close>

lemma map_res_pairs:
  assumes "map_res (\<lambda>(k, e). bind_res (g k e) (\<lambda>r. Inr (k, r))) xs = Inr ys"
  shows "(k, e) \<in> set xs \<Longrightarrow> \<exists>r. g k e = Inr r \<and> (k, r) \<in> set ys"
  using assms
proof (induction xs arbitrary: ys)
  case (Cons x xs)
  obtain k' e' where x: "x = (k', e')" by (cases x)
  from Cons.prems(2) x obtain r rs where "g k' e' = Inr r" "map_res (\<lambda>(k, e). bind_res (g k e) (\<lambda>r. Inr (k, r))) xs = Inr rs" "ys = (k', r) # rs"
    by (auto simp: bind_res_eq_Inr)
  with Cons.IH [of rs] Cons.prems(1) x show ?case by auto
qed simp

definition lapsed :: "pydt \<Rightarrow> lifecycle \<Rightarrow> bool" where
  "lapsed now l \<longleftrightarrow> lc_status l = ''deprecated'' \<or> lc_status l \<noteq> ''blocked'' \<and> ((\<exists>e. lc_expires l = Some e \<and> epoch_us e \<le> epoch_us now)
     \<or> lc_days l * 86400000000 < epoch_us now - epoch_us (lc_validated l))"

lemma effective_status_lapsed:
  assumes "as_utc now = Inr u"
  shows "effective_status now l = Inr ''deprecated'' \<longleftrightarrow> lapsed u l"
  using assms by (auto simp: effective_status_def lapsed_def split: option.splits)

lemma validate_lifecycle_ok:
  assumes "validate_lifecycle now m = Inr ()" "(k, e) \<in> set (enabled_strategies m)"
  shows "\<exists>st. entry_status now e = Inr st \<and> st \<noteq> ''deprecated''"
proof -
  from assms(1) obtain rs where rs: "map_res (\<lambda>(k, e). bind_res (lapse_reason now e) (\<lambda>r. Inr (k, r))) (enabled_strategies m) = Inr rs"
    and none: "concat (map (\<lambda>(k, r). case r of None \<Rightarrow> [] | Some t \<Rightarrow> [k @ '': '' @ t]) rs) = []"
    by (auto simp: validate_lifecycle_def Let_def bind_res_eq_Inr split: if_splits)
  from map_res_pairs [OF rs assms(2)] obtain r where r: "lapse_reason now e = Inr r" "(k, r) \<in> set rs" by blast
  with none have "r = None" by (cases r) auto
  with r(1) show ?thesis by (auto simp: lapse_reason_def bind_res_eq_Inr split: if_splits)
qed

lemma validated_weights:
  assumes "validate_manifest m = Inr m'"
  shows "weights_ok m'"
  using assms by (auto simp: validate_manifest_def Let_def bind_res_eq_Inr split: if_splits)

text \<open>C24: A manifest that loads has no enabled strategy whose lifecycle has lapsed, and enabled weights that sum to at most one.\<close>

theorem loaded_not_lapsed:
  assumes "load_strategy_manifest typed now path f = Inr m" "as_utc now = Inr u" "(k, e) \<in> set (mn_strategies m)" "se_enabled e"
  shows "(case se_lifecycle e of None \<Rightarrow> True | Some l \<Rightarrow> \<not> lapsed u l) \<and> weights_ok m"
proof -
  from assms(1) obtain v where v: "f = Some (Some v)" by (auto simp: load_strategy_manifest_def split: option.splits)
  with assms(1) have d: "manifest_from_dict typed v = Inr m" and l: "validate_lifecycle now m = Inr ()"
    by (auto simp: load_strategy_manifest_def bind_res_eq_Inr)
  from d have w: "weights_ok m" using validated_weights by (auto simp: manifest_from_dict_def split: option.splits sum.splits if_splits)
  from assms(3,4) have "(k, e) \<in> set (enabled_strategies m)" by (simp add: enabled_strategies_def)
  from validate_lifecycle_ok [OF l this] obtain st where "entry_status now e = Inr st" "st \<noteq> ''deprecated''" by blast
  then have "case se_lifecycle e of None \<Rightarrow> True | Some l \<Rightarrow> \<not> lapsed u l"
    using effective_status_lapsed [OF assms(2)] by (cases "se_lifecycle e") (auto simp: entry_status_def simp flip: effective_status_lapsed [OF assms(2)])
  with w show ?thesis by blast
qed

text \<open>A lifecycle that is blocked never counts as lapsed: the check on loading lets an enabled strategy through that is blocked, however old.\<close>

theorem blocked_status_passes:
  assumes "enabled_strategies m = [(k, e)]" "se_lifecycle e = Some l" "lc_status l = ''blocked''" "as_utc now = Inr u"
  shows "validate_lifecycle now m = Inr ()"
  using assms by (simp add: validate_lifecycle_def lapse_reason_def entry_status_def effective_status_def)

section \<open>Watchlists\<close>

lemma to_set_set: "set (to_set xs) = set xs" "sorted (to_set xs)" "distinct (to_set xs)"
  by (simp_all add: to_set_def)

lemma watched_within:
  assumes "map_res (\<lambda>(k, e). bind_res (h e) (\<lambda>st. Inr (if st = ''deprecated'' then [] else filter (\<lambda>s. s \<in> A) (watched_symbols e)))) es = Inr ws"
  shows "set (concat ws) \<subseteq> A"
  using assms
proof (induction es arbitrary: ws)
  case (Cons x es)
  obtain k e where x: "x = (k, e)" by (cases x)
  from Cons.prems x obtain st rs where "h e = Inr st" "map_res (\<lambda>(k, e). bind_res (h e) (\<lambda>st. Inr (if st = ''deprecated'' then [] else filter (\<lambda>s. s \<in> A) (watched_symbols e)))) es = Inr rs"
    "ws = (if st = ''deprecated'' then [] else filter (\<lambda>s. s \<in> A) (watched_symbols e)) # rs"
    by (auto simp: bind_res_eq_Inr)
  with Cons.IH [of rs] show ?case by auto
qed simp

text \<open>C22: The watchlist resolved is a sorted list of available symbols without repetition, and is empty only where no symbol is available.\<close>

theorem resolved_within_symbols:
  assumes "resolve_watchlist now available m = Inr w"
  shows "set w \<subseteq> set (normalise_symbols available) \<and> sorted w \<and> distinct w \<and> (w = [] \<longleftrightarrow> normalise_symbols available = [])"
proof -
  from assms obtain ws where ws: "map_res (\<lambda>(k, e). bind_res (entry_status now e) (\<lambda>st. Inr (if st = ''deprecated'' then [] else filter (\<lambda>s. s \<in> set (normalise_symbols available)) (watched_symbols e)))) (enabled_strategies m) = Inr ws"
    and w: "w = (if concat ws = [] then normalise_symbols available else to_set (concat ws))"
    by (auto simp: resolve_watchlist_def Let_def bind_res_eq_Inr)
  have sub: "set (concat ws) \<subseteq> set (normalise_symbols available)" by (rule watched_within [OF ws])
  show ?thesis
  proof (cases "concat ws = []")
    case True
    with w have "w = normalise_symbols available" by simp
    then show ?thesis by (simp add: normalise_symbols_def to_set_set)
  next
    case False
    with w have "w = to_set (concat ws)" by (simp only: if_False)
    moreover from False have "set (concat ws) \<noteq> {}" by (metis set_empty)
    ultimately show ?thesis using sub to_set_set [of "concat ws"] by (metis set_empty subset_empty)
  qed
qed

section \<open>Rotation\<close>

lemma tail_bytes_short: "length (tail_bytes keep s) \<le> nat keep"
proof -
  have "length (case dropWhile q t of [] \<Rightarrow> t | _ # r \<Rightarrow> r) \<le> length t" for q and t :: string
    using length_dropWhile_le [of q t] by (auto split: list.splits)
  from this [where q = "\<lambda>c. of_char c \<noteq> (10 :: nat)" and t = "drop (length s - nat keep) s"] show ?thesis
    by (auto simp: tail_bytes_def Let_def)
qed

lemma rotate_short:
  assumes "0 < m" "rotate_log (Some m) keep (Some s) = Some t"
  shows "int (length t) \<le> max m keep"
  using assms tail_bytes_short [of keep s] by (auto simp: rotate_log_def split: if_splits)

definition log_line :: "pydict \<Rightarrow> string" where
  "log_line payload = json_text (PDict payload) @ [char_of (10 :: nat)]"

lemma append_short:
  assumes "0 < m"
  shows "\<exists>t. append_jsonl (Some m) keep payload f = Some (t @ log_line payload) \<and> int (length t) \<le> max m keep"
proof (cases f)
  case None
  then show ?thesis using assms by (auto simp: append_jsonl_def rotate_log_def log_line_def)
next
  case (Some s)
  obtain t where t: "rotate_log (Some m) keep (Some s) = Some t" by (cases "rotate_log (Some m) keep (Some s)") (auto simp: rotate_log_def split: if_splits)
  with Some rotate_short [OF assms t] show ?thesis by (auto simp: append_jsonl_def log_line_def)
qed

text \<open>A log with a bound never holds more than the larger of its bound and what rotation keeps, and its last line.\<close>

theorem rotated_log_bounded:
  assumes "0 < m" "ps \<noteq> []" "foldl (\<lambda>f p. append_jsonl (Some m) keep p f) f ps = Some s"
  shows "int (length s) \<le> max m keep + int (length (log_line (List.last ps)))"
proof -
  from assms(2) obtain qs p where ps: "ps = qs @ [p]" by (metis rev_exhaust)
  define g where "g = foldl (\<lambda>f p. append_jsonl (Some m) keep p f) f qs"
  from append_short [OF assms(1), of keep p g] obtain t where "append_jsonl (Some m) keep p g = Some (t @ log_line p)" "int (length t) \<le> max m keep" by blast
  with assms(3) show ?thesis by (simp add: ps g_def)
qed

definition lines_text :: "string list \<Rightarrow> string" where
  "lines_text ls = concat (map (\<lambda>l. l @ [char_of (10 :: nat)]) ls)"

lemma tail_whole_lines:
  assumes "n < length (lines_text ls)" "list_all (\<lambda>l. char_of (10 :: nat) \<notin> set l) ls"
  shows "\<exists>k. (case dropWhile (\<lambda>c. of_char c \<noteq> (10 :: nat)) (drop n (lines_text ls)) of [] \<Rightarrow> drop n (lines_text ls) | _ # r \<Rightarrow> r) = lines_text (drop k ls)"
  using assms
proof (induction ls arbitrary: n)
  case (Cons l ls)
  show ?case
  proof (cases "n \<le> length l")
    case True
    have "of_char c \<noteq> (10 :: nat)" if "c \<in> set (drop n l)" for c
    proof
      assume "of_char c = (10 :: nat)"
      then have "c = char_of (10 :: nat)" by (metis char_of_char)
      with that Cons.prems(2) show False by (auto dest: in_set_dropD)
    qed
    then have "dropWhile (\<lambda>c. of_char c \<noteq> (10 :: nat)) (drop n l @ char_of (10 :: nat) # lines_text ls) = char_of (10 :: nat) # lines_text ls"
      by (simp add: dropWhile_append2)
    moreover have "drop n (lines_text (l # ls)) = drop n l @ char_of (10 :: nat) # lines_text ls" using True by (simp add: lines_text_def)
    ultimately show ?thesis by (intro exI [of _ 1]) simp
  next
    case False
    then have e: "drop n (lines_text (l # ls)) = drop (n - Suc (length l)) (lines_text ls)"
      by (simp add: lines_text_def drop_Cons' not_le Suc_diff_Suc)
    have "n - Suc (length l) < length (lines_text ls)" using False Cons.prems(1) by (simp add: lines_text_def)
    moreover have "list_all (\<lambda>l. char_of (10 :: nat) \<notin> set l) ls" using Cons.prems(2) by simp
    ultimately obtain k where "(case dropWhile (\<lambda>c. of_char c \<noteq> (10 :: nat)) (drop n (lines_text (l # ls))) of [] \<Rightarrow> drop n (lines_text (l # ls)) | _ # r \<Rightarrow> r) = lines_text (drop k ls)"
      unfolding e using Cons.IH [of "n - Suc (length l)"] by blast
    then show ?thesis by (intro exI [of _ "Suc k"]) simp
  qed
qed (simp add: lines_text_def)

text \<open>Rotation of a file of lines keeps whole lines, the last ones.\<close>

theorem rotation_keeps_lines:
  assumes "list_all (\<lambda>l. char_of (10 :: nat) \<notin> set l) ls" "0 < keep"
  shows "\<exists>k. rotate_log (Some m) keep (Some (lines_text ls)) = Some (lines_text (drop k ls))"
proof (cases "m \<le> 0 \<or> int (length (lines_text ls)) \<le> m \<or> int (length (lines_text ls)) \<le> keep")
  case True
  then have "rotate_log (Some m) keep (Some (lines_text ls)) = Some (lines_text (drop 0 ls))" using assms(2) by (auto simp: rotate_log_def tail_bytes_def)
  then show ?thesis by blast
next
  case False
  then have "length (lines_text ls) - nat keep < length (lines_text ls)" using assms(2) by linarith
  from tail_whole_lines [OF this assms(1)] False assms(2) show ?thesis by (auto simp: rotate_log_def tail_bytes_def Let_def)
qed

section \<open>Instances\<close>

definition demo_manifest_now :: pydt where
  "demo_manifest_now = \<lparr>yr = 2025, mo = 3, dy = 14, hh = 12, mi = 0, ss = 0, us = 0, tzo = None\<rparr>"

definition demo_lifecycle :: "string \<Rightarrow> lifecycle" where
  "demo_lifecycle st = \<lparr>lc_status = st, lc_validated = demo_manifest_now, lc_expires = None, lc_days = 30, lc_runbook = None\<rparr>"

definition demo_strategy :: "string \<Rightarrow> strategy_entry" where
  "demo_strategy st = \<lparr>se_enabled = True, se_priority = 1, se_weight = Fin 1, se_meta = \<lparr>sm_name = ''orb'', sm_version = ''1'', sm_features = [''close''], sm_tags = [], sm_offset = 0\<rparr>,
     se_flags = [], se_datasets = [], se_governance = None, se_watchlist = Some [''EURUSD''], se_lifecycle = Some (demo_lifecycle st), se_parameters = [], se_key = ''k''\<rparr>"

definition demo_manifest :: "string \<Rightarrow> strategy_manifest" where
  "demo_manifest st = \<lparr>mn_schema = PInt 1, mn_name = ''m'', mn_revision = ''r'', mn_reviewed = demo_manifest_now, mn_notes = None, mn_strategies = [(''orb'', demo_strategy st)]\<rparr>"


lemma demo_now_utc: "as_utc demo_manifest_now = Inr (demo_manifest_now\<lparr>tzo := Some 0\<rparr>)"
  by (simp add: as_utc_def demo_manifest_now_def)

lemma one_within: "\<not> fgt (Fin 1) (fadd (Fin 1) (rnd (1 / 1000000000)))"
proof -
  have e: "fle (Fin 0) (rnd (1 / 1000000000))" using rnd_mono [of 0 "1 / 1000000000"] by simp
  have "fle (Fin 1) (fadd (Fin 1) (rnd (1 / 1000000000)))"
  proof (cases "rnd (1 / 1000000000)")
    case (Fin z)
    with e have "1 \<le> 1 + z" by simp
    from rnd_mono [OF this] Fin show ?thesis by simp
  qed (use e in simp_all)
  then show ?thesis by (cases "fadd (Fin 1) (rnd (1 / 1000000000))") auto
qed

lemma demo_texts: "str_strip ''orb'' = ''orb''" "str_strip ''close'' = ''close''" "str_strip ''k'' = ''k''" "str_strip ''EURUSD'' = ''EURUSD''" "str_upper ''EURUSD'' = ''EURUSD''"
  by code_simp+

lemma demo_enabled: "enabled_strategies (demo_manifest st) = [(''orb'', demo_strategy st)]"
  by (simp add: enabled_strategies_def demo_manifest_def demo_strategy_def)

definition demo_checked :: strategy_manifest where
  "demo_checked = (demo_manifest ''active'')\<lparr>mn_strategies := [(''orb'', (demo_strategy ''active'')\<lparr>se_lifecycle := Some ((demo_lifecycle ''active'')\<lparr>lc_validated := demo_manifest_now\<lparr>tzo := Some 0\<rparr>\<rparr>)\<rparr>)]\<rparr>"

lemma demo_validates: "validate_manifest (demo_manifest ''active'') = Inr demo_checked"
proof -
  have "validate_entry (demo_strategy ''active'') = Inr ((demo_strategy ''active'')\<lparr>se_lifecycle := Some ((demo_lifecycle ''active'')\<lparr>lc_validated := demo_manifest_now\<lparr>tzo := Some 0\<rparr>\<rparr>)\<rparr>)"
    by (simp add: validate_entry_def demo_strategy_def normalise_features_def normalise_watchlist_def unique_items_def validate_key_def normalise_timestamps_def demo_lifecycle_def demo_now_utc demo_texts)
  then show ?thesis
    by (simp add: validate_manifest_def demo_manifest_def ensure_strategies_def demo_texts demo_checked_def weights_ok_def enabled_strategies_def py_sum_def demo_strategy_def one_within)
qed

lemma demo_loads: "load_strategy_manifest (\<lambda>v. Some (demo_manifest ''active'')) demo_manifest_now ''p'' (Some (Some PNone)) = Inr demo_checked"
  by (simp add: load_strategy_manifest_def manifest_from_dict_def demo_validates validate_lifecycle_def enabled_strategies_def demo_checked_def demo_strategy_def
      lapse_reason_def entry_status_def demo_lifecycle_def effective_status_def demo_now_utc epoch_us_def demo_manifest_now_def as_utc_def)

theorem loaded_not_lapsed_witness:
  "\<not> lapsed (demo_manifest_now\<lparr>tzo := Some 0\<rparr>) ((demo_lifecycle ''active'')\<lparr>lc_validated := demo_manifest_now\<lparr>tzo := Some 0\<rparr>\<rparr>) \<and> weights_ok demo_checked"
  using loaded_not_lapsed [OF demo_loads demo_now_utc, of "''orb''" "snd (hd (mn_strategies demo_checked))"] by (simp add: demo_checked_def demo_strategy_def)

theorem blocked_status_passes_witness: "validate_lifecycle demo_manifest_now (demo_manifest ''blocked'') = Inr ()"
  by (rule blocked_status_passes [OF _ _ _ demo_now_utc, where e = "demo_strategy ''blocked''" and k = "''orb''" and l = "demo_lifecycle ''blocked''"])
     (simp_all add: demo_enabled, simp_all add: demo_strategy_def demo_lifecycle_def)

theorem resolved_within_symbols_witness:
  "\<exists>w. resolve_watchlist demo_manifest_now [''EURUSD''] (demo_manifest ''active'') = Inr w \<and> w \<noteq> [] \<and> sorted w"
proof -
  have n: "normalise_symbols [''EURUSD''] = [''EURUSD'']" by (simp add: normalise_symbols_def demo_texts to_set_def)
  have "entry_status demo_manifest_now (demo_strategy ''active'') = Inr ''active''"
    by (simp add: entry_status_def demo_strategy_def demo_lifecycle_def effective_status_def demo_now_utc epoch_us_def demo_manifest_now_def as_utc_def)
  then obtain w where w: "resolve_watchlist demo_manifest_now [''EURUSD''] (demo_manifest ''active'') = Inr w"
    by (simp add: resolve_watchlist_def n validate_watchlists_def demo_enabled set_minus_def watched_symbols_def to_set_def demo_strategy_def)
  from resolved_within_symbols [OF w] n w show ?thesis by auto
qed

theorem rotation_keeps_lines_witness: "\<exists>k. rotate_log (Some 5) 4 (Some (lines_text [''ab'', ''cd'', ''ef''])) = Some (lines_text (drop k [''ab'', ''cd'', ''ef'']))"
  by (rule rotation_keeps_lines) (simp_all add: char_of_def)

theorem rotated_log_bounded_witness:
  "\<exists>s. foldl (\<lambda>f p. append_jsonl (Some 9) 4 p f) None [[], []] = Some s \<and> int (length s) \<le> 9 + int (length (log_line []))"
proof -
  obtain s where s: "foldl (\<lambda>f p. append_jsonl (Some 9) 4 p f) None [[], []] = Some s" by (auto simp: append_jsonl_def)
  from rotated_log_bounded [OF _ _ s] s show ?thesis by simp
qed

end
