(* ===== verification/TradeFields.thy ===== *)
theory TradeFields
  imports PyDate Allocation
begin

text \<open>
  From a signal to a trade: \<open>_derive_signal_trade_fields\<close> and \<open>_build_candidate_trade\<close> of
  \<open>strategies/registry.py\<close>, with the helpers that read numbers, times and bar lengths. A signal is the
  dictionary of its attributes, with its two times beside it where they are datetimes. A lookup of the
  feature context gives a value (a series stands for its last element) or None where it raises; the
  digest of a candidate is an argument.

  Shown: the distance at risk lies between its two bounds and the stop and the target on their sides of
  the entry; the stored cost of a candidate is never the signal's.
\<close>

section \<open>Reading\<close>

definition coerce_number :: "pyval \<Rightarrow> pyfloat option res" where
  "coerce_number v = (case v of PNone \<Rightarrow> Inr None | PBool _ \<Rightarrow> bind_res (py_float v) (\<lambda>x. Inr (Some x)) | PInt _ \<Rightarrow> bind_res (py_float v) (\<lambda>x. Inr (Some x))
     | _ \<Rightarrow> (case py_float v of Inr x \<Rightarrow> Inr (Some x) | Inl _ \<Rightarrow> Inr None))"

definition bar_minutes :: "string \<Rightarrow> int" where
  "bar_minutes value = (let t = str_lower (str_strip (if value = [] then ''5m'' else value));
       units = (\<lambda>k n0. case parse_int (butlast t) of None \<Rightarrow> n0 | Some n \<Rightarrow> max 1 n * k)
     in if ends_with ''m'' t then units 1 5 else if ends_with ''h'' t then units 60 60 else if ends_with ''d'' t then units 1440 1440 else 5)"

text \<open>\<open>a or b\<close> on optional floats, the second read only where the first is None or zero.\<close>

definition or_number :: "pyfloat option res \<Rightarrow> pyfloat option res \<Rightarrow> pyfloat option res" where
  "or_number a b = bind_res a (\<lambda>x. case x of Some y \<Rightarrow> if y \<noteq> Fin 0 then Inr x else b | None \<Rightarrow> b)"

definition number_or :: "pyfloat option res \<Rightarrow> pyfloat option res \<Rightarrow> pyfloat \<Rightarrow> pyfloat res" where
  "number_or a b z = bind_res (or_number (or_number a b) (Inr (Some z))) (\<lambda>x. Inr (case x of Some y \<Rightarrow> y | None \<Rightarrow> z))"

record raw_signal =
  rs_attrs :: pydict
  rs_timestamp :: "pydt option"
  rs_expire :: "pydt option"

definition iso_or_none :: "pydt option \<Rightarrow> pyval \<Rightarrow> string option res" where
  "iso_or_none d v = (case d of Some t \<Rightarrow> bind_res (as_utc t) (\<lambda>u. Inr (Some (iso_text u)))
     | None \<Rightarrow> (case v of PStr s \<Rightarrow> Inr (Some s) | _ \<Rightarrow> Inr None))"

record strategy_context =
  sc_lookup :: "string \<Rightarrow> string \<Rightarrow> string \<Rightarrow> pyval option"
  sc_watchlist :: "string list"
  sc_now :: "pydt option"
  sc_seed :: int
  sc_parameters :: pydict

definition latest_feature :: "strategy_context \<Rightarrow> string \<Rightarrow> string \<Rightarrow> string \<Rightarrow> pyfloat option res" where
  "latest_feature c symb feature timeframe = (case sc_lookup c symb feature timeframe of None \<Rightarrow> Inr None | Some v \<Rightarrow> coerce_number v)"

section \<open>Trade fields\<close>

record trade_fields =
  tf_entry :: "pyfloat option"
  tf_stop :: "pyfloat option"
  tf_target :: "pyfloat option"
  tf_level :: "pyfloat option"
  tf_buffer :: "pyfloat option"
  tf_expire :: "string option"
  tf_ttl :: int
  tf_minutes :: int
  tf_r_multiple :: pyfloat
  tf_trail :: "pyfloat option"
  tf_spread :: pyfloat
  tf_slippage :: pyfloat
  tf_slippage_std :: pyfloat
  tf_atr :: pyfloat

definition trade_fields_dict :: "trade_fields \<Rightarrow> pydict" where
  "trade_fields_dict t = [(''entry'', ofl (tf_entry t)), (''stop'', ofl (tf_stop t)), (''target'', ofl (tf_target t)), (''level'', ofl (tf_level t)), (''buffer'', ofl (tf_buffer t)),
     (''expire_at'', ostr (tf_expire t)), (''ttl_bars'', PInt (tf_ttl t)), (''entry_timeframe_minutes'', PInt (tf_minutes t)), (''target_r_multiple'', PFloat (tf_r_multiple t)),
     (''trail_atr_mult'', ofl (tf_trail t)), (''spread_pips'', PFloat (tf_spread t)), (''slippage_pips'', PFloat (tf_slippage t)), (''slippage_std'', PFloat (tf_slippage_std t)),
     (''atr_value'', PFloat (tf_atr t))]"

definition trade_symbol :: "pydict \<Rightarrow> string option" where
  "trade_symbol a = (case dget a ''symbol'' of PStr s \<Rightarrow> if str_strip s \<noteq> [] then Some (str_upper s) else None | _ \<Rightarrow> None)"

definition trade_side :: "pydict \<Rightarrow> string option" where
  "trade_side a = (case dget a ''direction'' of PStr s \<Rightarrow> Some (str_lower s) | _ \<Rightarrow> None)"

definition config_section :: "pydict \<Rightarrow> string \<Rightarrow> pydict" where
  "config_section params k = mapping_or_empty (dget params k)"

text \<open>How many bars a signal lives, and how long they are.\<close>

definition ttl_bars :: "pydict \<Rightarrow> pydict \<Rightarrow> int res" where
  "ttl_bars a sizing = bind_res (py_int (py_or (py_or (dget sizing ''ttl_bars'') (dget a ''ttl_bars'')) (PInt 0))) (\<lambda>n. Inr (if n \<le> 0 then 1 else n))"

definition entry_minutes :: "pydict \<Rightarrow> pydict \<Rightarrow> int res" where
  "entry_minutes a entry_cfg = bind_res (py_int (py_or (dget a ''entry_timeframe_minutes'') (PInt (bar_minutes (py_str (dget_def entry_cfg ''timeframe'' (PStr ''5m''))))))) (\<lambda>n. Inr (max 1 n))"

text \<open>A number of the signal, else one of the configuration, else the last argument.\<close>

definition signal_number :: "pydict \<Rightarrow> string \<Rightarrow> pydict \<Rightarrow> string \<Rightarrow> pyfloat \<Rightarrow> pyfloat res" where
  "signal_number a k cfg k' z = number_or (coerce_number (dget a k)) (coerce_number (dget cfg k')) z"

text \<open>Prices: the closing price, the average true range and the entry.\<close>

definition close_price :: "strategy_context \<Rightarrow> raw_signal \<Rightarrow> pyfloat option res" where
  "close_price c r = (case trade_symbol (rs_attrs r) of
       None \<Rightarrow> coerce_number (dget (rs_attrs r) ''price'')
     | Some s \<Rightarrow> or_number (coerce_number (dget (rs_attrs r) ''price'')) (latest_feature c s ''close_5m'' ''5m''))"

definition atr_or_default :: "strategy_context \<Rightarrow> raw_signal \<Rightarrow> pyfloat res" where
  "atr_or_default c r = number_or (case trade_symbol (rs_attrs r) of None \<Rightarrow> Inr None | Some s \<Rightarrow> latest_feature c s ''atr_14_1h'' ''1h'') (Inr None) (rnd (8 / 100))"

definition entry_price :: "string option \<Rightarrow> pyfloat option \<Rightarrow> pyfloat option \<Rightarrow> pyfloat \<Rightarrow> pyfloat \<Rightarrow> pyfloat option" where
  "entry_price side given close spread slippage = (case (given, close) of
       (None, Some p) \<Rightarrow> if side = Some ''long'' then Some (fadd (fadd p spread) slippage) else if side = Some ''short'' then Some (fsub (fsub p spread) slippage) else None
     | _ \<Rightarrow> given)"

text \<open>The distance at risk: that of a given stop, else a multiple of the average true range, within bounds by the price.\<close>

definition least_distance :: "pyfloat \<Rightarrow> pyfloat" where
  "least_distance p = fmax (fmul p (rnd (2 / 10000))) (rnd (5 / 10000))"

definition greatest_distance :: "pyfloat \<Rightarrow> pyfloat" where
  "greatest_distance p = fmax (fmul p (rnd (2 / 100))) (least_distance p)"

definition raw_distance :: "pyfloat \<Rightarrow> pyfloat \<Rightarrow> pyfloat" where
  "raw_distance atr k = fmax (fmul atr (fmax (rnd (1 / 10)) k)) (Fin 0)"

definition bounded_distance :: "pyfloat \<Rightarrow> pyfloat \<Rightarrow> pyfloat \<Rightarrow> pyfloat" where
  "bounded_distance p atr k = fmin (fmax (raw_distance atr k) (least_distance p)) (greatest_distance p)"

definition risk_distance :: "pyfloat option \<Rightarrow> pyfloat option \<Rightarrow> pyfloat option \<Rightarrow> pyfloat \<Rightarrow> pyfloat \<Rightarrow> pyfloat option" where
  "risk_distance entry stop close atr k = (case (entry, stop) of (Some e, Some s) \<Rightarrow> Some (fabs (fsub e s))
     | _ \<Rightarrow> map_option (\<lambda>p. bounded_distance p atr k) close)"

definition away :: "string option \<Rightarrow> string \<Rightarrow> pyfloat option \<Rightarrow> pyfloat option \<Rightarrow> pyfloat option \<Rightarrow> pyfloat option" where
  "away side up given from_price gap = (case (given, from_price, gap) of
       (None, Some e, Some d) \<Rightarrow> if side = Some ''long'' \<or> side = Some ''short'' then Some (if side = Some up then fadd e d else fsub e d) else None
     | _ \<Rightarrow> given)"

definition expire_text :: "strategy_context \<Rightarrow> string option \<Rightarrow> int \<Rightarrow> string option res" where
  "expire_text c given minutes = (case given of Some s \<Rightarrow> Inr (Some s)
     | None \<Rightarrow> (case sc_now c of None \<Rightarrow> Inr None | Some now \<Rightarrow> bind_res (as_utc now) (\<lambda>u. bind_res (dt_plus (minutes * 60000000) u) (\<lambda>t. Inr (Some (iso_text t))))))"

definition derive_trade_fields :: "strategy_context \<Rightarrow> raw_signal \<Rightarrow> trade_fields res" where
  "derive_trade_fields c r = (let a = rs_attrs r; side = trade_side a; sizing = config_section (sc_parameters c) ''sizing''; execution = config_section (sc_parameters c) ''execution'' in
     bind_res (coerce_number (dget a ''level'')) (\<lambda>level. bind_res (coerce_number (dget a ''buffer'')) (\<lambda>buffer.
     bind_res (coerce_number (dget a ''entry'')) (\<lambda>entry0. bind_res (coerce_number (dget a ''stop'')) (\<lambda>stop0. bind_res (coerce_number (dget a ''target'')) (\<lambda>target0.
     bind_res (iso_or_none (rs_expire r) (dget a ''expire_at'')) (\<lambda>expire0. bind_res (ttl_bars a sizing) (\<lambda>ttl. bind_res (entry_minutes a (config_section (sc_parameters c) ''entry'')) (\<lambda>minutes.
     bind_res (signal_number a ''target_r_multiple'' sizing ''tp_r_multiple'' (Fin 1)) (\<lambda>rm. bind_res (number_or (coerce_number (dget sizing ''atr_sl_mult'')) (Inr None) (Fin 1)) (\<lambda>k.
     bind_res (signal_number a ''spread_pips'' execution ''spread'' (Fin 0)) (\<lambda>spread. bind_res (signal_number a ''slippage_pips'' execution ''slippage'' (Fin 0)) (\<lambda>slippage.
     bind_res (signal_number a ''slippage_std'' execution ''slippage_std'' (Fin 0)) (\<lambda>std. bind_res (or_number (coerce_number (dget a ''trail_atr_mult'')) (coerce_number (dget sizing ''atr_sl_mult''))) (\<lambda>trail.
     bind_res (close_price c r) (\<lambda>close. bind_res (atr_or_default c r) (\<lambda>atr.
       let entry = entry_price side entry0 close spread slippage; gap = risk_distance entry stop0 close atr k
       in bind_res (expire_text c expire0 (minutes * ttl)) (\<lambda>expire. Inr \<lparr>tf_entry = entry, tf_stop = away side ''short'' stop0 entry gap,
            tf_target = away side ''long'' target0 entry (map_option (fmul rm) gap), tf_level = (case level of None \<Rightarrow> entry | Some l \<Rightarrow> level), tf_buffer = (case buffer of None \<Rightarrow> gap | Some b \<Rightarrow> buffer),
            tf_expire = expire, tf_ttl = ttl, tf_minutes = minutes, tf_r_multiple = rm, tf_trail = trail, tf_spread = spread, tf_slippage = slippage, tf_slippage_std = std, tf_atr = atr\<rparr>))))))))))))))))))"

section \<open>Candidates\<close>

definition or_default :: "string \<Rightarrow> string \<Rightarrow> string" where
  "or_default s s0 = (if s = [] then s0 else s)"

text \<open>\<open>str(getattr(signal, k, "") or "").strip()\<close>.\<close>

definition attr_text :: "pydict \<Rightarrow> string \<Rightarrow> string" where
  "attr_text a k = str_strip (py_str (py_or (dget a k) (PStr [])))"

definition float_part :: "pyfloat option \<Rightarrow> string" where
  "float_part x = (case x of None \<Rightarrow> [] | Some y \<Rightarrow> py_str (PFloat y))"

definition candidate_id :: "(string \<Rightarrow> string) \<Rightarrow> string list \<Rightarrow> string" where
  "candidate_id digest parts = digest (str_join ''|'' parts)"

definition known_pairs :: "pydict \<Rightarrow> pydict" where
  "known_pairs d = filter (\<lambda>(k, v). v \<noteq> PNone) d"

text \<open>The metadata of a strategy under the policy: its group, its bucket and how long it holds.\<close>

definition policy_fields :: "policy option \<Rightarrow> string \<Rightarrow> string \<Rightarrow> (string \<times> string \<times> pyfloat option) res" where
  "policy_fields pol sid symb = (case pol of None \<Rightarrow> Inr ([], [], None)
     | Some p \<Rightarrow> bind_res (candidate_metadata p sid (Some symb)) (\<lambda>m. Inr (str_strip (cm_portfolio_group m), str_strip (cm_exposure_bucket m), Some (cm_holding_minutes m))))"

text \<open>The time of a candidate: the signal's, else the clock's, else the wall clock's; an empty text counts as none.\<close>

definition candidate_time :: "strategy_context \<Rightarrow> string \<Rightarrow> raw_signal \<Rightarrow> string res" where
  "candidate_time c wall r = bind_res (iso_or_none (rs_timestamp r) (dget (rs_attrs r) ''timestamp'')) (\<lambda>x. case x of
       Some s \<Rightarrow> if s \<noteq> [] then Inr s else bind_res (iso_or_none (sc_now c) PNone) (\<lambda>y. Inr (case y of Some u \<Rightarrow> or_default u wall | None \<Rightarrow> wall))
     | None \<Rightarrow> bind_res (iso_or_none (sc_now c) PNone) (\<lambda>y. Inr (case y of Some u \<Rightarrow> or_default u wall | None \<Rightarrow> wall)))"

definition build_candidate_trade :: "(string \<Rightarrow> string) \<Rightarrow> policy option \<Rightarrow> strategy_context \<Rightarrow> string \<Rightarrow> string \<Rightarrow> raw_signal \<Rightarrow> candidate_trade res" where
  "build_candidate_trade digest pol c wall sid r = (let a = rs_attrs r; symb = or_default (str_upper (attr_text a ''symbol'')) ''UNKNOWN''; side = or_default (str_lower (attr_text a ''direction'')) ''unknown'' in
     bind_res (derive_trade_fields c r) (\<lambda>t. bind_res (policy_fields pol sid symb) (\<lambda>(grp, exposure, holding). bind_res (candidate_time c wall r) (\<lambda>ts.
     bind_res (coerce_number (dget a ''confidence'')) (\<lambda>confidence. bind_res (coerce_number (dget_def (trade_fields_dict t) ''cost_estimate'' PNone)) (\<lambda>cost.
     bind_res (coerce_number (dget a ''quality_score'')) (\<lambda>quality. bind_res (coerce_number (dget a ''score'')) (\<lambda>fit.
     bind_res (coerce_number (dget a ''atr_value'')) (\<lambda>atr. bind_res (coerce_number (dget a ''trend_value'')) (\<lambda>trend. bind_res (coerce_number (dget a ''cost_ratio'')) (\<lambda>ratio.
       Inr \<lparr>ct_candidate_id = candidate_id digest [sid, symb, side, ts, float_part (tf_entry t), float_part (tf_stop t), float_part (tf_target t)],
            ct_strategy_id = sid, ct_symbol = symb, ct_side = side, ct_timestamp = ts, ct_entry = tf_entry t, ct_stop = tf_stop t, ct_target = tf_target t, ct_confidence = confidence,
            ct_holding_minutes = holding, ct_portfolio_group = grp, ct_exposure_bucket = exposure, ct_expected_edge = None, ct_estimated_cost = cost, ct_quality_score = quality,
            ct_regime_fit = fit, ct_session_tag = (case dget a ''session_tag'' of PNone \<Rightarrow> None | v \<Rightarrow> Some (str_lower (str_strip (py_str v)))), ct_atr_value = atr, ct_trend_value = trend, ct_cost_ratio = ratio,
            ct_metadata = known_pairs [(''rationale'', dget a ''rationale''), (''breakout'', dget a ''breakout''), (''level'', dget a ''level''), (''buffer'', dget a ''buffer''), (''badges'', dget a ''badges''),
              (''expire_at'', ostr (tf_expire t)), (''ttl_bars'', PInt (tf_ttl t)), (''target_r_multiple'', PFloat (tf_r_multiple t)), (''slippage_std'', PFloat (tf_slippage_std t))]\<rparr>)))))))))))"

section \<open>Distances and sides\<close>

lemma derive_parts:
  assumes "derive_trade_fields c r = Inr t"
  obtains entry0 stop0 target0 buffer0 k close where "number_or (coerce_number (dget (config_section (sc_parameters c) ''sizing'') ''atr_sl_mult'')) (Inr None) (Fin 1) = Inr k" "coerce_number (dget (rs_attrs r) ''entry'') = Inr entry0" "coerce_number (dget (rs_attrs r) ''stop'') = Inr stop0"
    "coerce_number (dget (rs_attrs r) ''target'') = Inr target0" "coerce_number (dget (rs_attrs r) ''buffer'') = Inr buffer0" "close_price c r = Inr close"
    "tf_entry t = entry_price (trade_side (rs_attrs r)) entry0 close (tf_spread t) (tf_slippage t)"
    "tf_stop t = away (trade_side (rs_attrs r)) ''short'' stop0 (tf_entry t) (risk_distance (tf_entry t) stop0 close (tf_atr t) k)"
    "tf_target t = away (trade_side (rs_attrs r)) ''long'' target0 (tf_entry t) (map_option (fmul (tf_r_multiple t)) (risk_distance (tf_entry t) stop0 close (tf_atr t) k))"
    "tf_buffer t = (case buffer0 of None \<Rightarrow> risk_distance (tf_entry t) stop0 close (tf_atr t) k | Some b \<Rightarrow> buffer0)"
    "atr_or_default c r = Inr (tf_atr t)" "signal_number (rs_attrs r) ''target_r_multiple'' (config_section (sc_parameters c) ''sizing'') ''tp_r_multiple'' (Fin 1) = Inr (tf_r_multiple t)"
  using assms unfolding derive_trade_fields_def Let_def
  apply (elim bind_res_InrE)
  apply (simp only: sum.inject)
  apply hypsubst
  apply (rule that)
          apply assumption+
     apply (simp_all cong: option.case_cong)
  done

lemma rnd_number: "rnd x \<noteq> NaN"
  by (rule rnd_cases [of x]) simp_all

lemma fmax_above: "a \<noteq> NaN \<Longrightarrow> b \<noteq> NaN \<Longrightarrow> fle a (fmax a b) \<and> fle b (fmax a b) \<and> fmax a b \<noteq> NaN"
  by (cases a; cases b) (auto simp: fmax_def)

lemma fmin_within: "a \<noteq> NaN \<Longrightarrow> b \<noteq> NaN \<Longrightarrow> fle c a \<Longrightarrow> fle c b \<Longrightarrow> fle c (fmin a b) \<and> fle (fmin a b) b"
  by (cases a; cases b; cases c) (auto simp: fmin_def)

lemma small_share: "0 \<le> q \<Longrightarrow> q \<le> 1 \<Longrightarrow> fmul (Fin z) (rnd q) \<noteq> NaN"
  using rnd_mono [of 0 q] rnd_mono [of q 1] by (cases "rnd q") (auto simp: rnd_number)

lemma least_number: "least_distance (Fin z) \<noteq> NaN" "fle (rnd (5 / 10000)) (least_distance (Fin z))"
  using fmax_above [OF small_share [of "2 / 10000" z] rnd_number [of "5 / 10000"]] by (simp_all add: least_distance_def)

lemma greatest_number: "greatest_distance (Fin z) \<noteq> NaN" "fle (least_distance (Fin z)) (greatest_distance (Fin z))"
  using fmax_above [OF small_share [of "2 / 100" z] least_number(1) [of z]] by (simp_all add: greatest_distance_def)

lemma nan_keeps: "fmax NaN b = NaN" "fmin NaN b = NaN"
  by (cases b; simp add: fmax_def fmin_def)+

lemma f64_sum: "is_f64 (fadd a b)" "is_f64 (fsub a b)"
proof -
  show "is_f64 (fadd a b)" for a b by (cases a; cases b) (simp_all add: is_f64_def [of PInf] is_f64_def [of NInf] is_f64_def [of NaN])
  then show "is_f64 (fsub a b)" by (simp add: fsub_def)
qed

text \<open>A number with a default that is not zero is never zero, and the default of the true range is not.\<close>

lemma number_or_not_zero: "number_or a b z = Inr y \<Longrightarrow> z \<noteq> Fin 0 \<Longrightarrow> y \<noteq> Fin 0"
  by (cases a; cases b) (auto simp: number_or_def or_number_def split: option.splits if_splits)

lemma tenth_positive: "flt (Fin 0) (rnd (1 / 10))" and range_positive: "flt (Fin 0) (rnd (8 / 100))" and least_positive: "flt (Fin 0) (rnd (5 / 10000))"
proof -
  have s: "rnd (1 / 2048) = Fin (1 / 2048)" by (subst rnd_at [of "- 11" _ "2 ^ 52"]) (simp_all add: pow2_def)
  have "flt (Fin 0) (rnd x)" if "1 / 2048 \<le> x" for x using rnd_mono [OF that] unfolding s by (cases "rnd x") simp_all
  then show "flt (Fin 0) (rnd (1 / 10))" "flt (Fin 0) (rnd (8 / 100))" "flt (Fin 0) (rnd (5 / 10000))" by simp_all
qed

lemma range_not_zero: "atr_or_default c r = Inr a \<Longrightarrow> a \<noteq> Fin 0"
  unfolding atr_or_default_def by (rule number_or_not_zero) (use range_positive in auto)

lemma raw_number:
  assumes "atr \<noteq> NaN" "atr \<noteq> Fin 0"
  shows "raw_distance atr k \<noteq> NaN"
proof -
  have "flt (Fin 0) (fmax (rnd (1 / 10)) k)" using tenth_positive by (cases "rnd (1 / 10)"; cases k) (auto simp: fmax_def)
  with assms have "fmul atr (fmax (rnd (1 / 10)) k) \<noteq> NaN" by (cases atr; cases "fmax (rnd (1 / 10)) k") (auto simp: rnd_number)
  from fmax_above [OF this] show ?thesis by (simp add: raw_distance_def)
qed

lemma bounded_within:
  assumes "atr \<noteq> NaN" "atr \<noteq> Fin 0"
  shows "fle (least_distance (Fin z)) (bounded_distance (Fin z) atr k) \<and> fle (bounded_distance (Fin z) atr k) (greatest_distance (Fin z))"
proof -
  from fmax_above [OF raw_number [OF assms] least_number(1) [of z]] have "fle (least_distance (Fin z)) (fmax (raw_distance atr k) (least_distance (Fin z)))" "fmax (raw_distance atr k) (least_distance (Fin z)) \<noteq> NaN"
    by blast+
  from fmin_within [OF this(2) greatest_number(1) this(1) greatest_number(2)] show ?thesis by (simp only: bounded_distance_def)
qed

lemma sides:
  assumes "is_f64 (Fin x)" "fle (Fin 0) d"
  shows "fle (fsub (Fin x) d) (Fin x)" "fle (Fin x) (fadd (Fin x) d)"
  using assms rnd_mono [of _ x] rnd_mono [of x] by (cases d; force simp: fsub_def is_f64_def)+

lemma multiple_sign: "flt (Fin 0) a \<Longrightarrow> flt (Fin 0) b \<Longrightarrow> fle (Fin 0) (fmul a b)"
  using rnd_mono [of 0 "_ * _"] by (cases a; cases b) (auto split: if_splits)

text \<open>The fields of a signal without prices of its own, over the distance \<open>d\<close> at risk.\<close>

lemma derived_from_distance:
  assumes "derive_trade_fields c r = Inr t" "trade_side (rs_attrs r) = Some side" "side = ''long'' \<or> side = ''short''"
    and "dget (rs_attrs r) ''entry'' = PNone" "dget (rs_attrs r) ''stop'' = PNone" "dget (rs_attrs r) ''target'' = PNone" "dget (rs_attrs r) ''buffer'' = PNone"
    and "close_price c r = Inr (Some (Fin p))" "tf_entry t = Some (Fin x)"
  obtains k d where "d = bounded_distance (Fin p) (tf_atr t) k" "tf_atr t \<noteq> Fin 0" "tf_r_multiple t \<noteq> Fin 0" "is_f64 (Fin x)" "tf_buffer t = Some d"
    "tf_stop t = Some (if side = ''short'' then fadd (Fin x) d else fsub (Fin x) d)"
    "tf_target t = Some (if side = ''long'' then fadd (Fin x) (fmul (tf_r_multiple t) d) else fsub (Fin x) (fmul (tf_r_multiple t) d))"
  using assms(1)
proof (rule derive_parts)
  fix entry0 stop0 target0 buffer0 k close
  assume "number_or (coerce_number (dget (config_section (sc_parameters c) ''sizing'') ''atr_sl_mult'')) (Inr None) (Fin 1) = Inr k"
    and parts: "coerce_number (dget (rs_attrs r) ''entry'') = Inr entry0" "coerce_number (dget (rs_attrs r) ''stop'') = Inr stop0"
    "coerce_number (dget (rs_attrs r) ''target'') = Inr target0" "coerce_number (dget (rs_attrs r) ''buffer'') = Inr buffer0" "close_price c r = Inr close"
    "tf_entry t = entry_price (trade_side (rs_attrs r)) entry0 close (tf_spread t) (tf_slippage t)"
    "tf_stop t = away (trade_side (rs_attrs r)) ''short'' stop0 (tf_entry t) (risk_distance (tf_entry t) stop0 close (tf_atr t) k)"
    "tf_target t = away (trade_side (rs_attrs r)) ''long'' target0 (tf_entry t) (map_option (fmul (tf_r_multiple t)) (risk_distance (tf_entry t) stop0 close (tf_atr t) k))"
    "tf_buffer t = (case buffer0 of None \<Rightarrow> risk_distance (tf_entry t) stop0 close (tf_atr t) k | Some b \<Rightarrow> buffer0)"
    "atr_or_default c r = Inr (tf_atr t)" "signal_number (rs_attrs r) ''target_r_multiple'' (config_section (sc_parameters c) ''sizing'') ''tp_r_multiple'' (Fin 1) = Inr (tf_r_multiple t)"
  define d where "d = bounded_distance (Fin p) (tf_atr t) k"
  have none: "entry0 = None" "stop0 = None" "target0 = None" "buffer0 = None" "close = Some (Fin p)"
    using parts(1-5) assms(4-8) by (simp_all add: coerce_number_def)
  have far: "risk_distance (Some (Fin x)) None (Some (Fin p)) (tf_atr t) k = Some d" by (simp add: d_def risk_distance_def)
  have "Fin x = (if side = ''long'' then fadd (fadd (Fin p) (tf_spread t)) (tf_slippage t) else fsub (fsub (Fin p) (tf_spread t)) (tf_slippage t))"
    using parts(6) assms(3) unfolding assms(2,9) none by (elim disjE) (simp_all add: entry_price_def)
  then have e: "is_f64 (Fin x)" by (simp add: f64_sum split: if_splits)
  have b: "tf_buffer t = Some d" using parts(9) assms(9) none far by simp
  have s: "tf_stop t = Some (if side = ''short'' then fadd (Fin x) d else fsub (Fin x) d)"
    using assms(3) by (elim disjE) (simp_all add: parts(7) far assms(2,9) none away_def)
  have g: "tf_target t = Some (if side = ''long'' then fadd (Fin x) (fmul (tf_r_multiple t) d) else fsub (Fin x) (fmul (tf_r_multiple t) d))"
    using assms(3) by (elim disjE) (simp_all add: parts(8) far assms(2,9) none away_def)
  from parts(11) have m: "tf_r_multiple t \<noteq> Fin 0" unfolding signal_number_def by (rule number_or_not_zero) simp
  from d_def range_not_zero [OF parts(10)] m e b s g show thesis by (rule that)
qed

text \<open>C11: A signal with a side, a finite closing price and no entry, stop, target or buffer of its own, whose entry comes out finite, whose true range is a number and whose
  multiple is not negative, gets a stop, a target and a distance at risk: the distance lies between its two bounds, the stop and the target on their sides of the entry.\<close>

theorem risk_on_its_side:
  assumes "derive_trade_fields c r = Inr t" "trade_side (rs_attrs r) = Some side" "side = ''long'' \<or> side = ''short''"
    and "dget (rs_attrs r) ''entry'' = PNone" "dget (rs_attrs r) ''stop'' = PNone" "dget (rs_attrs r) ''target'' = PNone" "dget (rs_attrs r) ''buffer'' = PNone"
    and "close_price c r = Inr (Some (Fin p))" "tf_entry t = Some (Fin x)" "tf_atr t \<noteq> NaN" "fle (Fin 0) (tf_r_multiple t)"
  shows "\<exists>d s g. tf_buffer t = Some d \<and> tf_stop t = Some s \<and> tf_target t = Some g
    \<and> fle (rnd (5 / 10000)) d \<and> fle (least_distance (Fin p)) d \<and> fle d (greatest_distance (Fin p))
    \<and> (if side = ''long'' then fle s (Fin x) \<and> fle (Fin x) g else fle (Fin x) s \<and> fle g (Fin x))"
proof -
  from assms(1-9) obtain k d where d: "d = bounded_distance (Fin p) (tf_atr t) k" "tf_atr t \<noteq> Fin 0" "tf_r_multiple t \<noteq> Fin 0" "is_f64 (Fin x)" "tf_buffer t = Some d"
    "tf_stop t = Some (if side = ''short'' then fadd (Fin x) d else fsub (Fin x) d)"
    "tf_target t = Some (if side = ''long'' then fadd (Fin x) (fmul (tf_r_multiple t) d) else fsub (Fin x) (fmul (tf_r_multiple t) d))"
    by (rule derived_from_distance)
  from bounded_within [OF assms(10) d(2)] have w: "fle (least_distance (Fin p)) d" "fle d (greatest_distance (Fin p))" unfolding d(1) by blast+
  from fle_trans [OF least_number(2) w(1)] have five: "fle (rnd (5 / 10000)) d" .
  then have pos: "flt (Fin 0) d" using least_positive by (cases d; cases "rnd (5 / 10000)") auto
  then have d0: "fle (Fin 0) d" by (cases d) auto
  have "flt (Fin 0) (tf_r_multiple t)" using assms(11) d(3) by (cases "tf_r_multiple t") auto
  then have m: "fle (Fin 0) (fmul (tf_r_multiple t) d)" using pos by (rule multiple_sign)
  show ?thesis using five w assms(3) sides [OF d(4) d0] sides [OF d(4) m] by (auto simp: d(5-7))
qed

text \<open>A true range that is no number passes the test for a missing one and leaves the trade a distance that is no number.\<close>

theorem nan_range_no_distance: "bounded_distance p NaN k = NaN"
  by (simp add: bounded_distance_def raw_distance_def nan_keeps)

section \<open>The cost of a candidate\<close>

lemma built_trade:
  assumes "build_candidate_trade digest pol c wall sid r = Inr t"
  shows "ct_strategy_id t = sid \<and> ct_estimated_cost t = None \<and> ct_symbol t = or_default (str_upper (attr_text (rs_attrs r) ''symbol'')) ''UNKNOWN''"
  using assms unfolding build_candidate_trade_def Let_def
  by (elim bind_res_InrE) (auto simp: trade_fields_dict_def dget_def_def coerce_number_def bind_res_eq_Inr split: prod.splits)

text \<open>The trade fields hold no cost: whatever estimate a signal carries, its candidate has none, and the allocation takes the configured one.\<close>

theorem signal_cost_ignored:
  assumes "build_candidate_trade digest pol c wall sid r = Inr t"
  shows "ct_estimated_cost t = None
    \<and> candidate_estimated_cost \<lparr>cn_oid = n, cn_strategy_id = sid, cn_signal = rs_attrs r, cn_priority = pr, cn_weight = w, cn_parameters = ps, cn_trade = Some t\<rparr>
      = bind_res (extract_cost_estimate ps) (\<lambda>(spread, slippage). Inr (fadd spread slippage))"
  using built_trade [OF assms] by (simp add: candidate_estimated_cost_def)

section \<open>Instances\<close>

definition demo_trade_context :: strategy_context where
  "demo_trade_context = \<lparr>sc_lookup = (\<lambda>s f t. None), sc_watchlist = [], sc_now = None, sc_seed = 0, sc_parameters = []\<rparr>"

definition demo_signal :: raw_signal where
  "demo_signal = \<lparr>rs_attrs = [(''direction'', PStr ''long''), (''price'', PFloat (Fin 1)), (''cost_estimate'', PFloat (Fin 1))], rs_timestamp = None, rs_expire = None\<rparr>"

lemma demo_trade_texts: "str_strip ''long'' = ''long''" "str_lower ''long'' = ''long''" "bar_minutes ''5m'' = 5" "str_strip [] = []" "str_upper [] = []"
  by code_simp+

lemma demo_derived:
  "\<exists>t. derive_trade_fields demo_trade_context demo_signal = Inr t \<and> tf_entry t = Some (Fin 1) \<and> tf_atr t = rnd (8 / 100) \<and> tf_r_multiple t = Fin 1"
  by (simp add: derive_trade_fields_def Let_def demo_trade_context_def demo_signal_def dget_def coerce_number_def iso_or_none_def ttl_bars_def config_section_def mapping_or_empty_def py_or_def py_int_def
      entry_minutes_def dget_def_def py_str_def demo_trade_texts signal_number_def number_or_def or_number_def close_price_def trade_symbol_def trade_side_def atr_or_default_def
      py_float_def entry_price_def risk_distance_def expire_text_def away_def)

theorem risk_on_its_side_witness:
  "\<exists>t. derive_trade_fields demo_trade_context demo_signal = Inr t \<and> tf_entry t = Some (Fin 1) \<and> (\<exists>d s. tf_buffer t = Some d \<and> tf_stop t = Some s \<and> fle (rnd (5 / 10000)) d \<and> fle s (Fin 1))"
proof -
  from demo_derived obtain t where t: "derive_trade_fields demo_trade_context demo_signal = Inr t" "tf_entry t = Some (Fin 1)" "tf_atr t = rnd (8 / 100)" "tf_r_multiple t = Fin 1" by blast
  have attrs: "trade_side (rs_attrs demo_signal) = Some ''long''" "dget (rs_attrs demo_signal) ''entry'' = PNone" "dget (rs_attrs demo_signal) ''stop'' = PNone"
    "dget (rs_attrs demo_signal) ''target'' = PNone" "dget (rs_attrs demo_signal) ''buffer'' = PNone" "close_price demo_trade_context demo_signal = Inr (Some (Fin 1))"
    by (simp_all add: demo_signal_def dget_def trade_side_def demo_trade_texts close_price_def trade_symbol_def coerce_number_def py_float_def)
  have "tf_atr t \<noteq> NaN" "fle (Fin 0) (tf_r_multiple t)" by (simp_all add: t(3,4) rnd_number)
  from risk_on_its_side [OF t(1) attrs(1) _ attrs(2-6) t(2) this] t(1,2) show ?thesis by auto
qed

theorem signal_cost_ignored_witness:
  "\<exists>t. build_candidate_trade (\<lambda>s. s) None demo_trade_context ''now'' ''orb'' demo_signal = Inr t \<and> ct_estimated_cost t = None"
proof -
  from demo_derived obtain t where t: "derive_trade_fields demo_trade_context demo_signal = Inr t" by blast
  obtain u where u: "build_candidate_trade (\<lambda>s. s) None demo_trade_context ''now'' ''orb'' demo_signal = Inr u"
    by (simp add: build_candidate_trade_def Let_def t policy_fields_def)
       (simp add: candidate_time_def iso_or_none_def demo_signal_def demo_trade_context_def dget_def coerce_number_def trade_fields_dict_def dget_def_def)
  from signal_cost_ignored [OF u] u show ?thesis by blast
qed

end
