(* ===== verification/Engine.thy ===== *)
theory Engine
  imports TradeFields StrategyManifest Systems
begin

text \<open>
  The strategy engine, \<open>StrategyEngine\<close> of \<open>strategies/registry.py\<close>: registering plugins, loading the
  manifest, a run over the enabled strategies and the allocation of its candidates, with the events it
  writes. What the plugins return is an argument: the signals of an iterable and the exception that
  ends it, or the exception of the call itself. Digests, the texts of the wall clock (the one at each
  event) and which log files can be written are arguments too. The
  messages of errors name the strategy and not every detail of a mismatch.

  Shown: what is registered; that a guarded gate lets only the strategies through that ask for it;
  the order of a run; that its events account for its signals; that its records account for its
  candidates and its selections; and which candidate its records name.
\<close>

section \<open>The engine\<close>

record log_file =
  lf_max :: "int option"
  lf_keep :: int
  lf_text :: "string option"

text \<open>A log that cannot be written is passed over.\<close>

definition write_log :: "bool \<Rightarrow> pydict \<Rightarrow> log_file \<Rightarrow> log_file" where
  "write_log ok payload f = (if ok then f\<lparr>lf_text := append_jsonl (lf_max f) (lf_keep f) payload (lf_text f)\<rparr> else f)"

text \<open>A plugin: its attributes, and whether it has all the protocol asks for; no metadata where the attribute is of another type.\<close>

record strategy_plugin =
  pg_id :: pyval
  pg_key :: pyval
  pg_meta :: "strategy_meta option"
  pg_protocol :: bool

record engine =
  eg_plugins :: "(string \<times> strategy_plugin) list"
  eg_manifest :: "strategy_manifest option"
  eg_policy :: "policy option"
  eg_determinism :: "pydict list"
  eg_outcomes :: "pydict list"
  eg_trades :: "pydict list"
  eg_log :: log_file
  eg_metrics :: log_file
  eg_signals :: log_file
  eg_reads :: nat

definition new_log :: "string option \<Rightarrow> string option \<Rightarrow> string option \<Rightarrow> log_file" where
  "new_log max_raw keep_raw f = \<lparr>lf_max = fst (log_bounds max_raw keep_raw), lf_keep = snd (log_bounds max_raw keep_raw), lf_text = f\<rparr>"

definition new_engine :: "log_file \<Rightarrow> log_file \<Rightarrow> log_file \<Rightarrow> engine" where
  "new_engine l m s = \<lparr>eg_plugins = [], eg_manifest = None, eg_policy = None, eg_determinism = [], eg_outcomes = [], eg_trades = [], eg_log = l, eg_metrics = m, eg_signals = s, eg_reads = 0\<rparr>"

definition registration_error :: "string \<Rightarrow> err" where "registration_error m = Raises ''StrategyRegistrationError'' m"

definition check_plugin :: "strategy_plugin \<Rightarrow> engine \<Rightarrow> string res" where
  "check_plugin p e = (if \<not> pg_protocol p then Inl (registration_error ''Plugin does not satisfy StrategyPluginProtocol'') else case pg_id p of
       PStr sid \<Rightarrow> if sid = [] then Inl (registration_error ''Strategy plugins must define a non-empty id attribute'')
         else if map_of (eg_plugins e) sid \<noteq> None then Inl (registration_error (''Strategy '' @ sid @ '' is already registered''))
         else if \<not> (case pg_key p of PStr k \<Rightarrow> str_strip k \<noteq> [] | _ \<Rightarrow> False) then Inl (registration_error (''Strategy '' @ sid @ '' must declare a non-empty determinism_key''))
         else if pg_meta p = None then Inl (registration_error (''Strategy '' @ sid @ '' must expose StrategyMetadata'')) else Inr sid
     | _ \<Rightarrow> Inl (registration_error ''Strategy plugins must define a non-empty id attribute''))"

definition register_plugin :: "strategy_plugin \<Rightarrow> engine \<Rightarrow> engine \<times> unit res" where
  "register_plugin p e = (case check_plugin p e of Inl er \<Rightarrow> (e, Inl er) | Inr sid \<Rightarrow> (e\<lparr>eg_plugins := eg_plugins e @ [(sid, p)]\<rparr>, Inr ()))"

definition load_manifest :: "(pyval \<Rightarrow> strategy_manifest option) \<Rightarrow> pydt \<Rightarrow> string \<Rightarrow> json_file \<Rightarrow> engine \<Rightarrow> engine \<times> strategy_manifest res" where
  "load_manifest typed now path f e = (case load_strategy_manifest typed now path f of Inl er \<Rightarrow> (e, Inl er) | Inr m \<Rightarrow> (e\<lparr>eg_manifest := Some m\<rparr>, Inr m))"

definition set_allocation_policy :: "policy option \<Rightarrow> engine \<Rightarrow> engine" where
  "set_allocation_policy p e = e\<lparr>eg_policy := p\<rparr>"

definition get_parameters :: "string \<Rightarrow> engine \<Rightarrow> pydict res" where
  "get_parameters sid e = (case eg_manifest e of None \<Rightarrow> Inl (load_error ''Strategy manifest has not been loaded'')
     | Some m \<Rightarrow> (case map_of (mn_strategies m) sid of None \<Rightarrow> Inl (registration_error (''Strategy '' @ sid @ '' is not defined in the manifest'')) | Some en \<Rightarrow> Inr (se_parameters en)))"

section \<open>A run and its surroundings\<close>

datatype signals = Signals "raw_signal list" "err option"

record run_env =
  rn_keys :: "string list"
  rn_symbols :: "string list"
  rn_lookup :: "string \<Rightarrow> string \<Rightarrow> string \<Rightarrow> pyval option"
  rn_version :: pyval
  rn_data_hash :: pyval
  rn_feature_seed :: pyval
  rn_gate :: gate_state
  rn_board_cfg :: pyval
  rn_kill_cfg :: pyval
  rn_now :: "pydt option"
  rn_watchlist :: "string list option"
  rn_seed :: int
  rn_positions :: "(pydict \<times> pydt option) list"
  rn_wall :: pydt
  rn_stamp :: "nat \<Rightarrow> string"
  rn_signal_ok :: bool
  rn_log_ok :: bool
  rn_metrics_ok :: bool
  rn_digest :: "string \<Rightarrow> string"
  rn_hash :: "pyval \<Rightarrow> string"
  rn_generate :: "string \<Rightarrow> strategy_context \<Rightarrow> signals res"
  rn_evaluate :: "string \<Rightarrow> strategy_context \<Rightarrow> signals res"

definition is_guarded_mode :: "gate_state \<Rightarrow> bool" where
  "is_guarded_mode g \<longleftrightarrow> rg_reduce_only (gs_risk g) \<or> str_lower (mg_readiness (gs_market g)) \<in> {''guarded'', ''halted''}"

definition build_context :: "run_env \<Rightarrow> string list \<Rightarrow> strategy_meta \<Rightarrow> pydict \<Rightarrow> strategy_context" where
  "build_context v w pm params = \<lparr>sc_lookup = rn_lookup v, sc_watchlist = w, sc_now = rn_now v, sc_seed = rn_seed v + sm_offset pm, sc_parameters = params\<rparr>"

text \<open>The payload whose digest stands for an evaluation; the strategy configuration is never given.\<close>

definition determinism_payload :: "string \<Rightarrow> string \<Rightarrow> int \<Rightarrow> string list \<Rightarrow> string list \<Rightarrow> pyval \<Rightarrow> pyval \<Rightarrow> pydict" where
  "determinism_payload sid key seed w fs version data_hash = [(''strategy_id'', PStr sid), (''determinism_key'', PStr (str_strip key)), (''seed'', PInt seed),
     (''watchlist'', PList (map PStr (sort w))), (''required_features'', PList (map PStr (sort fs)))]
     @ (if truthy version then [(''feature_version'', version)] else []) @ (if truthy data_hash then [(''data_manifest_hash'', data_hash)] else [])"

definition put_all :: "pydict \<Rightarrow> pydict \<Rightarrow> pydict" where
  "put_all d new = foldl (\<lambda>a (k, x). AList.update k x a) d new"

definition signal_keys :: "string list" where
  "signal_keys = [''symbol'', ''direction'', ''confidence'', ''rationale'', ''breakout'', ''level'', ''buffer'', ''breakout_width'', ''filter_flags'', ''filter_block_reason'', ''quality_score'', ''score'',
     ''badges'', ''compression_high'', ''compression_low'', ''compression_range'', ''breakout_distance'', ''cost_estimate'', ''orb_high'', ''orb_low'', ''orb_width'', ''vwap'']"

definition pick :: "string list \<Rightarrow> pydict \<Rightarrow> pydict" where
  "pick ks a = map (\<lambda>k. (k, dget a k)) ks"

definition flags_dict :: "(string \<times> bool) list \<Rightarrow> pyval" where
  "flags_dict fs = PDict (map (\<lambda>(k, b). (k, PBool b)) fs)"

definition signal_event :: "string \<Rightarrow> string \<Rightarrow> strategy_context \<Rightarrow> (string \<times> bool) list \<Rightarrow> string \<Rightarrow> string option \<Rightarrow> pydict" where
  "signal_event ts sid c flags status reason = [(''event'', PStr ''signal.generated''), (''ts'', PStr ts), (''status'', PStr status), (''reason'', ostr reason), (''strategy_id'', PStr sid),
     (''feature_flags'', flags_dict flags), (''seed'', PInt (sc_seed c)), (''watchlist'', PList (map PStr (sort (sc_watchlist c))))]"

definition with_candidate :: "candidate_trade \<Rightarrow> pydict \<Rightarrow> pydict" where
  "with_candidate t d = put_all d [(''candidate'', PDict (trade_to_dict t)), (''candidate_id'', PStr (ct_candidate_id t))]"

definition write_signal_event :: "run_env \<Rightarrow> pydict \<Rightarrow> engine \<Rightarrow> engine" where
  "write_signal_event v payload e = e\<lparr>eg_signals := write_log (rn_signal_ok v) payload (eg_signals e), eg_reads := eg_reads e + 1\<rparr>"

text \<open>The event of a strategy that is held back, and that of a signal with its candidate.\<close>

definition emit_suppressed :: "run_env \<Rightarrow> string \<Rightarrow> strategy_context \<Rightarrow> (string \<times> bool) list \<Rightarrow> engine \<Rightarrow> engine" where
  "emit_suppressed v sid c flags e = write_signal_event v (signal_event (rn_stamp v (eg_reads e)) sid c flags ''suppressed_guarded'' (Some ''guarded_mode'')) e"

definition emit_generated :: "run_env \<Rightarrow> string \<Rightarrow> strategy_context \<Rightarrow> (string \<times> bool) list \<Rightarrow> raw_signal \<Rightarrow> candidate_trade \<Rightarrow> engine \<Rightarrow> engine res" where
  "emit_generated v sid c flags r t e = bind_res (derive_trade_fields c r) (\<lambda>tf. Inr (write_signal_event v
     (with_candidate t (put_all (put_all (signal_event (rn_stamp v (eg_reads e)) sid c flags ''generated'' None) (pick signal_keys (rs_attrs r))) (trade_fields_dict tf))) e))"

section \<open>One strategy\<close>

definition plugin_of :: "run_env \<Rightarrow> string \<Rightarrow> strategy_entry \<Rightarrow> engine \<Rightarrow> (strategy_plugin \<times> strategy_meta) res" where
  "plugin_of v sid en e = (case map_of (eg_plugins e) sid of None \<Rightarrow> Inl (registration_error (''Strategy '' @ sid @ '' defined in manifest but not registered''))
     | Some p \<Rightarrow> (case pg_meta p of None \<Rightarrow> Inl AttributeError | Some pm \<Rightarrow>
         if sm_name (se_meta en) \<noteq> sm_name pm \<or> sm_version (se_meta en) \<noteq> sm_version pm then Inl (registration_error (''Manifest metadata mismatch for strategy '' @ sid))
         else if to_set (sm_features (se_meta en)) \<noteq> to_set (sm_features pm) then Inl (registration_error (''Required features mismatch for strategy '' @ sid))
         else if set_minus (to_set (sm_features pm)) (rn_keys v) \<noteq> [] then Inl (validation_error (''Strategy '' @ sid @ '' missing required features'')) else Inr (p, pm)))"

definition new_candidate :: "nat \<Rightarrow> string \<Rightarrow> strategy_entry \<Rightarrow> raw_signal \<Rightarrow> candidate_trade \<Rightarrow> alloc_candidate" where
  "new_candidate n sid en r t = \<lparr>cn_oid = n, cn_strategy_id = sid, cn_signal = rs_attrs r, cn_priority = se_priority en, cn_weight = se_weight en, cn_parameters = se_parameters en, cn_trade = Some t\<rparr>"

text \<open>The candidates so far go along; an exception within the loop is wrapped.\<close>

definition execution_error :: "string \<Rightarrow> err" where
  "execution_error sid = Raises ''StrategyExecutionError'' (''Strategy '' @ sid @ '' execution failed'')"

fun take_signals :: "run_env \<Rightarrow> string \<Rightarrow> strategy_entry \<Rightarrow> strategy_context \<Rightarrow> raw_signal list \<Rightarrow> engine \<Rightarrow> alloc_candidate list \<Rightarrow> engine \<times> alloc_candidate list res" where
  "take_signals v sid en c [] e cs = (e, Inr cs)"
| "take_signals v sid en c (r # rs) e cs = (case build_candidate_trade (rn_digest v) (eg_policy e) c (rn_stamp v (eg_reads e)) sid r of
       Inl er \<Rightarrow> (e, Inl (execution_error sid))
     | Inr t \<Rightarrow> let e1 = e\<lparr>eg_trades := eg_trades e @ [trade_to_dict t]\<rparr> in (case emit_generated v sid c (se_flags en) r t e1 of
           Inl er \<Rightarrow> (e1, Inl (execution_error sid))
         | Inr e2 \<Rightarrow> take_signals v sid en c rs e2 (cs @ [new_candidate (length cs) sid en r t])))"

definition metrics_record :: "pydict \<Rightarrow> pydict" where
  "metrics_record p = [(''ts'', dget p ''ts''), (''strategy_id'', dget p ''strategy_id''), (''feature_version'', dget p ''feature_version''), (''determinism_hash'', dget p ''determinism_hash''),
     (''status'', PStr ''ok''), (''latency_ms'', dget p ''latency_ms''), (''mode'', py_or (dget p ''mode'') (PStr ''unknown''))]"

text \<open>A log that fails keeps the metrics from being written.\<close>

definition record_determinism :: "run_env \<Rightarrow> pydict \<Rightarrow> engine \<Rightarrow> engine" where
  "record_determinism v p e = e\<lparr>eg_determinism := eg_determinism e @ [p], eg_log := write_log (rn_log_ok v) p (eg_log e),
     eg_metrics := write_log (rn_log_ok v \<and> rn_metrics_ok v) (metrics_record p) (eg_metrics e), eg_reads := eg_reads e + 1\<rparr>"

definition plugin_key :: "strategy_plugin \<Rightarrow> string" where
  "plugin_key p = (case pg_key p of PStr s \<Rightarrow> s | _ \<Rightarrow> [])"

definition determinism_event :: "run_env \<Rightarrow> string \<Rightarrow> string \<Rightarrow> strategy_entry \<Rightarrow> strategy_plugin \<Rightarrow> strategy_meta \<Rightarrow> strategy_context \<Rightarrow> nat \<Rightarrow> pydict" where
  "determinism_event v ts sid en p pm c n = (let h = PStr (rn_hash v (PDict (determinism_payload sid (plugin_key p) (sc_seed c) (sc_watchlist c) (to_set (sm_features pm)) (rn_version v) (rn_data_hash v))))
     in [(''event'', PStr ''strategy.determinism''), (''ts'', PStr ts), (''strategy_id'', PStr sid), (''determinism_key'', PStr (plugin_key p)), (''deterministic_hash'', h), (''determinism_hash'', h),
       (''seed'', PInt (sc_seed c)), (''feature_seed'', rn_feature_seed v), (''feature_version'', rn_version v), (''data_manifest_hash'', rn_data_hash v), (''watchlist'', PList (map PStr (sort (sc_watchlist c)))),
       (''required_features'', PList (map PStr (to_set (sm_features pm)))), (''signal_count'', PInt (int n)), (''feature_flags'', flags_dict (se_flags en)),
       (''manifest_metadata'', PDict [(''name'', PStr (sm_name (se_meta en))), (''version'', PStr (sm_version (se_meta en)))]), (''priority'', PInt (se_priority en))])"

definition held_back :: "run_env \<Rightarrow> strategy_entry \<Rightarrow> bool" where
  "held_back v en \<longleftrightarrow> is_guarded_mode (rn_gate v) \<and> map_of (se_flags en) ''guarded_board_required'' \<noteq> Some True"

text \<open>The signals of a plugin: where the call raises AttributeError the other method is called.\<close>

definition plugin_signals :: "run_env \<Rightarrow> string \<Rightarrow> strategy_context \<Rightarrow> signals res" where
  "plugin_signals v sid c = (if rn_generate v sid c = Inl AttributeError then rn_evaluate v sid c else rn_generate v sid c)"

definition run_strategy :: "run_env \<Rightarrow> string list \<Rightarrow> string \<times> strategy_entry \<Rightarrow> engine \<Rightarrow> alloc_candidate list \<Rightarrow> engine \<times> alloc_candidate list res" where
  "run_strategy v w entry e cs = (let (sid, en) = entry in case plugin_of v sid en e of
       Inl er \<Rightarrow> (e, Inl er)
     | Inr (p, pm) \<Rightarrow> let c = build_context v w pm (se_parameters en) in
         if held_back v en then (emit_suppressed v sid c (se_flags en) e, Inr cs)
         else (case plugin_signals v sid c of
             Inl er \<Rightarrow> (e, Inl er)
           | Inr (Signals rs stop) \<Rightarrow> (case take_signals v sid en c rs e cs of
                 (e1, Inl er) \<Rightarrow> (e1, Inl er)
               | (e1, Inr cs1) \<Rightarrow> if stop \<noteq> None then (e1, Inl (execution_error sid))
                   else (record_determinism v (determinism_event v (rn_stamp v (eg_reads e1)) sid en p pm c (length rs)) e1, Inr cs1))))"

fun run_strategies :: "run_env \<Rightarrow> string list \<Rightarrow> (string \<times> strategy_entry) list \<Rightarrow> engine \<Rightarrow> alloc_candidate list \<Rightarrow> engine \<times> alloc_candidate list res" where
  "run_strategies v w [] e cs = (e, Inr cs)"
| "run_strategies v w (x # xs) e cs = (case run_strategy v w x e cs of (e1, Inl er) \<Rightarrow> (e1, Inl er) | (e1, Inr cs1) \<Rightarrow> run_strategies v w xs e1 cs1)"

section \<open>Allocation with its records\<close>

definition open_position :: "pydict \<times> pydt option \<Rightarrow> active_position option res" where
  "open_position = (\<lambda>(raw, opened). let symb = str_upper (attr_text raw ''symbol'') in if symb = [] then Inr None else
     bind_res (case opened of None \<Rightarrow> Inr None | Some d \<Rightarrow> bind_res (as_utc d) (\<lambda>u. Inr (Some u))) (\<lambda>t.
       Inr (Some \<lparr>ap_strategy_id = attr_text raw ''strategy_id'', ap_symbol = symb, ap_direction = str_lower (attr_text raw ''direction''), ap_opened_at = t,
         ap_position_id = str_strip (py_str (py_or (py_or (dget raw ''position_id'') (dget raw ''id'')) (PStr []))), ap_portfolio_group = attr_text raw ''portfolio_group'', ap_exposure_bucket = attr_text raw ''exposure_bucket''\<rparr>)))"

definition open_positions :: "(pydict \<times> pydt option) list \<Rightarrow> active_position list res" where
  "open_positions raws = bind_res (map_res open_position raws) (\<lambda>ps. Inr (concat (map (\<lambda>q. case q of None \<Rightarrow> [] | Some a \<Rightarrow> [a]) ps)))"

definition allocation_now :: "run_env \<Rightarrow> pydt res" where
  "allocation_now v = (case rn_now v of Some d \<Rightarrow> as_utc d | None \<Rightarrow> Inr (rn_wall v))"

definition regime_value :: "run_env \<Rightarrow> string \<Rightarrow> pyfloat option res" where
  "regime_value v symb = (case rn_lookup v symb ''regime_trend_1h'' ''1h'' of None \<Rightarrow> Inr None | Some x \<Rightarrow> coerce_number x)"

definition lookup_symbol :: "alloc_candidate \<Rightarrow> string" where
  "lookup_symbol c = or_default (str_upper (str_strip (py_str (dget_def (cn_signal c) ''symbol'' (PStr ''UNKNOWN''))))) ''UNKNOWN''"

text \<open>The candidate of an outcome: of those with its strategy and symbol the last one.\<close>

definition candidate_of :: "alloc_candidate list \<Rightarrow> alloc_outcome \<Rightarrow> alloc_candidate option" where
  "candidate_of cs o1 = map_of (rev (map (\<lambda>c. ((cn_strategy_id c, lookup_symbol c), c)) cs)) (oc_strategy_id o1, oc_symbol o1)"

definition context_payload :: "alloc_context \<Rightarrow> pydict" where
  "context_payload x = [(''ts'', PStr (iso_text (ac_now x))), (''board_mode'', PStr (ac_board_mode x)), (''kill_switch_state'', PStr (ac_kill_switch x)), (''regime_value'', ofl (ac_regime x)),
     (''open_position_count'', PInt (int (length (ac_positions x))))]"

definition admission_event :: "string \<Rightarrow> alloc_candidate \<Rightarrow> pydict \<Rightarrow> (string \<times> bool) list \<Rightarrow> pydict" where
  "admission_event stamp c payload flags = (let d = [(''event'', PStr ''portfolio.admission''), (''ts'', py_or (dget payload ''ts'') (PStr stamp)), (''strategy_id'', PStr (cn_strategy_id c)),
       (''status'', dget payload ''decision''), (''reason'', dget payload ''reason_code''), (''feature_flags'', flags_dict flags), (''allocation_decision'', PDict payload)]
       @ pick [''symbol'', ''direction'', ''confidence'', ''score'', ''quality_score''] (cn_signal c)
     in case cn_trade c of None \<Rightarrow> d | Some t \<Rightarrow> with_candidate t d)"

definition strategy_flags :: "engine \<Rightarrow> string \<Rightarrow> (string \<times> bool) list" where
  "strategy_flags e sid = (case eg_manifest e of None \<Rightarrow> [] | Some m \<Rightarrow> (case map_of (mn_strategies m) sid of None \<Rightarrow> [] | Some en \<Rightarrow> se_flags en))"

definition record_outcome :: "run_env \<Rightarrow> alloc_candidate list \<Rightarrow> alloc_context \<Rightarrow> engine \<Rightarrow> alloc_outcome \<Rightarrow> engine" where
  "record_outcome v cs x e o1 = (let payload = put_all (outcome_to_dict o1) (context_payload x); e1 = e\<lparr>eg_outcomes := eg_outcomes e @ [payload]\<rparr> in
     case candidate_of cs o1 of None \<Rightarrow> e1
     | Some c \<Rightarrow> write_signal_event v (admission_event (rn_stamp v (eg_reads e1)) c payload (strategy_flags e1 (oc_strategy_id o1))) e1)"

definition record_outcomes :: "run_env \<Rightarrow> alloc_candidate list \<Rightarrow> alloc_context \<Rightarrow> alloc_outcome list \<Rightarrow> engine \<Rightarrow> engine" where
  "record_outcomes v cs x os e = foldl (record_outcome v cs x) e os"

fun allocate_each :: "run_env \<Rightarrow> policy \<Rightarrow> pydt \<Rightarrow> active_position list \<Rightarrow> (string \<times> alloc_candidate list) list \<Rightarrow> engine \<Rightarrow> engine \<times> pydict list res" where
  "allocate_each v p now positions [] e = (e, Inr [])"
| "allocate_each v p now positions ((symb, cs) # gs) e = (case regime_value v symb of Inl er \<Rightarrow> (e, Inl er)
     | Inr regime \<Rightarrow> let x = allocation_context now (rn_board_cfg v) (rn_kill_cfg v) (rn_gate v) positions regime in (case allocate p x cs of
           Inl er \<Rightarrow> (e, Inl er)
         | Inr r \<Rightarrow> (case allocate_each v p now positions gs (record_outcomes v cs x (ar_outcomes r) e) of
               (e1, Inl er) \<Rightarrow> (e1, Inl er) | (e1, Inr sigs) \<Rightarrow> (e1, Inr (map cn_signal (ar_selected r) @ sigs)))))"

definition allocate_all :: "run_env \<Rightarrow> alloc_candidate list \<Rightarrow> engine \<Rightarrow> engine \<times> pydict list res" where
  "allocate_all v cs e = (case eg_policy e of None \<Rightarrow> (e, Inr (map cn_signal cs))
     | Some p \<Rightarrow> if cs = [] then (e, Inr []) else (case allocation_now v of Inl er \<Rightarrow> (e, Inl er)
         | Inr now \<Rightarrow> (case open_positions (rn_positions v) of Inl er \<Rightarrow> (e, Inl er)
             | Inr positions \<Rightarrow> allocate_each v p now positions (sort_key fst (by_symbol registry_symbol cs)) e)))"

section \<open>A run\<close>

definition chosen_watchlist :: "run_env \<Rightarrow> strategy_manifest \<Rightarrow> string list res" where
  "chosen_watchlist v m = (case rn_watchlist v of
       Some (x # xs) \<Rightarrow> (let w = normalise_symbols (x # xs); missing = set_minus w (normalise_symbols (rn_symbols v)) in
         if missing \<noteq> [] then Inl (validation_error (''Provided watchlist contains symbols missing from feature context: '' @ py_repr (set_repr missing))) else Inr w)
     | _ \<Rightarrow> resolve_watchlist (rn_wall v) (rn_symbols v) m)"

definition ordered_entries :: "strategy_manifest \<Rightarrow> (string \<times> strategy_entry) list" where
  "ordered_entries m = sort_key (\<lambda>(k, en). (se_priority en, k)) (enabled_strategies m)"

definition clear_run :: "engine \<Rightarrow> engine" where
  "clear_run e = e\<lparr>eg_determinism := [], eg_outcomes := [], eg_trades := []\<rparr>"

definition run_all :: "run_env \<Rightarrow> engine \<Rightarrow> engine \<times> pydict list res" where
  "run_all v e = (case eg_manifest e of None \<Rightarrow> (e, Inl (load_error ''Strategy manifest has not been loaded''))
     | Some m \<Rightarrow> let e0 = clear_run e in
         (case bind_res (validate_features (rn_keys v) m) (\<lambda>_. bind_res (validate_watchlists (rn_symbols v) m) (\<lambda>_. chosen_watchlist v m)) of
             Inl er \<Rightarrow> (e0, Inl er)
           | Inr w \<Rightarrow> (case run_strategies v w (ordered_entries m) e0 [] of (e1, Inl er) \<Rightarrow> (e1, Inl er) | (e1, Inr cs) \<Rightarrow> allocate_all v cs e1)))"

section \<open>What a run leaves alone\<close>

definition standing :: "engine \<Rightarrow> (string \<times> strategy_plugin) list \<times> strategy_manifest option \<times> policy option" where
  "standing e = (eg_plugins e, eg_manifest e, eg_policy e)"

text \<open>What a run has gathered: the candidates handed on, and the determinism events.\<close>

definition gathered :: "engine \<Rightarrow> pydict list \<times> pydict list" where
  "gathered e = (eg_trades e, eg_determinism e)"

lemma write_signal_event_keeps [simp]: "standing (write_signal_event v p e) = standing e" "gathered (write_signal_event v p e) = gathered e"
  by (simp_all add: write_signal_event_def standing_def gathered_def)

lemma emit_keeps:
  "standing (emit_suppressed v sid c fs e) = standing e" "gathered (emit_suppressed v sid c fs e) = gathered e"
  "emit_generated v sid c fs r t e = Inr e2 \<Longrightarrow> standing e2 = standing e \<and> gathered e2 = gathered e"
  by (auto simp: emit_suppressed_def emit_generated_def bind_res_eq_Inr)

lemma record_outcomes_keeps: "standing (record_outcomes v cs x os e) = standing e \<and> gathered (record_outcomes v cs x os e) = gathered e"
proof (induction os arbitrary: e)
  case (Cons o1 os)
  have "standing (record_outcome v cs x e o1) = standing e \<and> gathered (record_outcome v cs x e o1) = gathered e"
    by (simp add: record_outcome_def Let_def split: option.split) (simp add: standing_def gathered_def)
  with Cons.IH [of "record_outcome v cs x e o1"] show ?case by (simp add: record_outcomes_def)
qed (simp add: record_outcomes_def)

lemma allocate_each_keeps:
  "allocate_each v p now ps gs e = (e', r) \<Longrightarrow> standing e' = standing e \<and> gathered e' = gathered e"
proof (induction v p now ps gs e arbitrary: e' r rule: allocate_each.induct)
  case (2 v p now ps symb cs gs e)
  show ?case
  proof (cases "regime_value v symb")
    case (Inl er)
    with 2(2) show ?thesis by simp
  next
    case regime: (Inr regime)
    define x where "x = allocation_context now (rn_board_cfg v) (rn_kill_cfg v) (rn_gate v) ps regime"
    show ?thesis
    proof (cases "allocate p x cs")
      case (Inl er)
      with 2(2) regime show ?thesis by (simp add: x_def)
    next
      case (Inr a)
      obtain e1 r1 where g: "allocate_each v p now ps gs (record_outcomes v cs x (ar_outcomes a) e) = (e1, r1)" by fastforce
      from 2(1) [OF regime x_def Inr g] have "standing e1 = standing e \<and> gathered e1 = gathered e" using record_outcomes_keeps by metis
      moreover have "e' = e1" using 2(2) regime Inr g by (auto simp: x_def [symmetric] split: sum.splits)
      ultimately show ?thesis by simp
    qed
  qed
qed simp

lemma allocate_all_keeps: "allocate_all v cs e = (e', r) \<Longrightarrow> standing e' = standing e \<and> gathered e' = gathered e"
  by (auto simp: allocate_all_def split: option.splits if_splits sum.splits dest: allocate_each_keeps)

lemma take_signals_keeps:
  "take_signals v sid en c rs e cs = (e', r) \<Longrightarrow> standing e' = standing e \<and> eg_determinism e' = eg_determinism e
     \<and> (\<exists>ts. eg_trades e' = eg_trades e @ ts \<and> list_all (\<lambda>t. dget t ''strategy_id'' = PStr sid) ts
        \<and> (\<forall>cs'. r = Inr cs' \<longrightarrow> length ts = length rs \<and> length cs' = length cs + length rs))"
proof (induction v sid en c rs e cs arbitrary: e' r rule: take_signals.induct)
  case (2 v sid en c r1 rs e cs)
  show ?case
  proof (cases "build_candidate_trade (rn_digest v) (eg_policy e) c (rn_stamp v (eg_reads e)) sid r1")
    case (Inl er)
    with 2(2) show ?thesis by auto
  next
    case (Inr t)
    have t: "dget (trade_to_dict t) ''strategy_id'' = PStr sid" using built_trade [OF Inr] by (simp add: trade_to_dict_def dget_def)
    define e1 where "e1 = e\<lparr>eg_trades := eg_trades e @ [trade_to_dict t]\<rparr>"
    have e1: "standing e1 = standing e" "eg_determinism e1 = eg_determinism e" "eg_trades e1 = eg_trades e @ [trade_to_dict t]" by (simp_all add: e1_def standing_def)
    show ?thesis
    proof (cases "emit_generated v sid c (se_flags en) r1 t e1")
      case (Inl er)
      then have "e' = e1" "r = Inl (execution_error sid)" using 2(2) Inr by (auto simp: e1_def)
      with e1 t show ?thesis by auto
    next
      case emit: (Inr e2)
      from emit_keeps(3) [OF this] e1 have e2: "standing e2 = standing e" "eg_determinism e2 = eg_determinism e" "eg_trades e2 = eg_trades e @ [trade_to_dict t]"
        by (simp_all add: gathered_def)
      have "take_signals v sid en c rs e2 (cs @ [new_candidate (length cs) sid en r1 t]) = (e', r)" using 2(2) Inr emit by (simp add: e1_def [symmetric])
      from 2(1) [OF Inr e1_def emit this] e2 obtain ts where "standing e' = standing e" "eg_determinism e' = eg_determinism e" "eg_trades e' = eg_trades e @ trade_to_dict t # ts"
        "list_all (\<lambda>t. dget t ''strategy_id'' = PStr sid) ts" "\<forall>cs'. r = Inr cs' \<longrightarrow> length ts = length rs \<and> length cs' = Suc (length cs) + length rs" by auto
      with t show ?thesis by (intro conjI exI [of _ "trade_to_dict t # ts"]) auto
    qed
  qed
qed auto

section \<open>What a strategy does to a run\<close>

definition signal_count :: "pydict \<Rightarrow> nat" where
  "signal_count p = (case dget p ''signal_count'' of PInt i \<Rightarrow> nat i | _ \<Rightarrow> 0)"

text \<open>The strategies of the trades are, in order, those of the events, each as often as its event counts signals.\<close>

definition accounted :: "engine \<Rightarrow> bool" where
  "accounted e \<longleftrightarrow> map (\<lambda>t. dget t ''strategy_id'') (eg_trades e) = concat (map (\<lambda>p. replicate (signal_count p) (dget p ''strategy_id'')) (eg_determinism e))"

lemma run_strategy_cases:
  assumes "run_strategy v w (sid, en) e cs = (e', r)"
  shows "standing e' = standing e \<and> (\<exists>ts. eg_trades e' = eg_trades e @ ts \<and> list_all (\<lambda>t. dget t ''strategy_id'' = PStr sid) ts \<and> (held_back v en \<longrightarrow> ts = [])
      \<and> (ts \<noteq> [] \<longrightarrow> map_of (eg_plugins e) sid \<noteq> None)
      \<and> (\<forall>cs'. r = Inr cs' \<longrightarrow> length cs' = length cs + length ts
           \<and> (if held_back v en then eg_determinism e' = eg_determinism e
              else \<exists>p. eg_determinism e' = eg_determinism e @ [p] \<and> dget p ''strategy_id'' = PStr sid \<and> signal_count p = length ts)))"
proof (cases "plugin_of v sid en e")
  case (Inl er)
  with assms show ?thesis by (auto simp: run_strategy_def)
next
  case (Inr q)
  obtain p pm where q: "q = (p, pm)" by (cases q)
  have known: "map_of (eg_plugins e) sid \<noteq> None" using Inr by (auto simp: plugin_of_def split: option.splits)
  define c where "c = build_context v w pm (se_parameters en)"
  show ?thesis
  proof (cases "held_back v en")
    case True
    then have "e' = emit_suppressed v sid c (se_flags en) e" "r = Inr cs" using assms Inr q by (auto simp: run_strategy_def c_def Let_def)
    with True emit_keeps(1,2) [of v sid c "se_flags en" e] show ?thesis by (simp add: gathered_def)
  next
    case False
    show ?thesis
    proof (cases "plugin_signals v sid c")
      case (Inl er)
      with False assms Inr q have "e' = e" "r = Inl er" by (auto simp: run_strategy_def c_def)
      with False show ?thesis by auto
    next
      case sigs: (Inr s)
      obtain rs stop where s: "s = Signals rs stop" by (cases s)
      obtain e1 r1 where tk: "take_signals v sid en c rs e cs = (e1, r1)" by fastforce
      from take_signals_keeps [OF tk] obtain ts where ts: "standing e1 = standing e" "eg_determinism e1 = eg_determinism e" "eg_trades e1 = eg_trades e @ ts"
        "list_all (\<lambda>t. dget t ''strategy_id'' = PStr sid) ts" "\<forall>cs'. r1 = Inr cs' \<longrightarrow> length ts = length rs \<and> length cs' = length cs + length rs" by blast
      show ?thesis
      proof (cases r1)
        case (Inl er)
        with False assms Inr q sigs s tk have "e' = e1" "r = Inl er" by (auto simp: run_strategy_def c_def [symmetric])
        with ts known False show ?thesis by auto
      next
        case took: (Inr cs1)
        show ?thesis
        proof (cases "stop = None")
          case True
          define ev where "ev = determinism_event v (rn_stamp v (eg_reads e1)) sid en p pm c (length rs)"
          from True False assms Inr q sigs s tk took have e': "e' = record_determinism v ev e1" "r = Inr cs1" by (auto simp: run_strategy_def c_def [symmetric] ev_def)
          have "dget ev ''strategy_id'' = PStr sid" "signal_count ev = length rs" by (simp_all add: ev_def determinism_event_def Let_def dget_def signal_count_def)
          with e' ts took known False show ?thesis by (auto simp: record_determinism_def standing_def)
        next
          case stopped: False
          with False assms Inr q sigs s tk took have "e' = e1" "r = Inl (execution_error sid)" by (auto simp: run_strategy_def c_def [symmetric])
          with ts known False show ?thesis by auto
        qed
      qed
    qed
  qed
qed

lemma run_strategies_result:
  "run_strategies v w xs e cs = (e', r) \<Longrightarrow> standing e' = standing e \<and> (\<exists>ts. eg_trades e' = eg_trades e @ ts
     \<and> list_all (\<lambda>t. \<exists>sid en. (sid, en) \<in> set xs \<and> \<not> held_back v en \<and> dget t ''strategy_id'' = PStr sid \<and> map_of (eg_plugins e) sid \<noteq> None) ts
     \<and> (\<forall>cs'. r = Inr cs' \<longrightarrow> length cs' = length cs + length ts \<and> (\<exists>ps. eg_determinism e' = eg_determinism e @ ps
         \<and> map (\<lambda>p. dget p ''strategy_id'') ps = map (PStr \<circ> fst) (filter (\<lambda>(sid, en). \<not> held_back v en) xs)
         \<and> map (\<lambda>t. dget t ''strategy_id'') ts = concat (map (\<lambda>p. replicate (signal_count p) (dget p ''strategy_id'')) ps))))"
proof (induction xs arbitrary: e cs)
  case (Cons x xs)
  obtain sid en where x: "x = (sid, en)" by (cases x)
  obtain e1 r1 where one: "run_strategy v w (sid, en) e cs = (e1, r1)" by fastforce
  from run_strategy_cases [OF one] obtain ts where keep: "standing e1 = standing e" and ts: "eg_trades e1 = eg_trades e @ ts" "list_all (\<lambda>t. dget t ''strategy_id'' = PStr sid) ts"
      "held_back v en \<longrightarrow> ts = []" "ts \<noteq> [] \<longrightarrow> map_of (eg_plugins e) sid \<noteq> None"
    and ok: "\<forall>cs'. r1 = Inr cs' \<longrightarrow> length cs' = length cs + length ts \<and> (if held_back v en then eg_determinism e1 = eg_determinism e
       else \<exists>p. eg_determinism e1 = eg_determinism e @ [p] \<and> dget p ''strategy_id'' = PStr sid \<and> signal_count p = length ts)" by blast
  have mine: "list_all (\<lambda>t. \<exists>sid en. (sid, en) \<in> set (x # xs) \<and> \<not> held_back v en \<and> dget t ''strategy_id'' = PStr sid \<and> map_of (eg_plugins e) sid \<noteq> None) ts"
  proof (cases "ts = []")
    case False
    with ts x have "list_all (\<lambda>t. (sid, en) \<in> set (x # xs) \<and> \<not> held_back v en \<and> dget t ''strategy_id'' = PStr sid \<and> map_of (eg_plugins e) sid \<noteq> None) ts" by (auto simp: list_all_iff)
    then show ?thesis by (rule list.pred_mono_strong) blast
  qed simp
  show ?case
  proof (cases r1)
    case (Inl er)
    with Cons.prems x one have "e' = e1" "r = Inl er" by simp_all
    with keep ts(1) mine show ?thesis by auto
  next
    case (Inr cs1)
    with Cons.prems x one have "run_strategies v w xs e1 cs1 = (e', r)" by simp
    from Cons.IH [OF this] obtain us where rest: "standing e' = standing e1" "eg_trades e' = eg_trades e1 @ us"
      "list_all (\<lambda>t. \<exists>sid en. (sid, en) \<in> set xs \<and> \<not> held_back v en \<and> dget t ''strategy_id'' = PStr sid \<and> map_of (eg_plugins e1) sid \<noteq> None) us"
      "\<forall>cs'. r = Inr cs' \<longrightarrow> length cs' = length cs1 + length us \<and> (\<exists>ps. eg_determinism e' = eg_determinism e1 @ ps
         \<and> map (\<lambda>p. dget p ''strategy_id'') ps = map (PStr \<circ> fst) (filter (\<lambda>(sid, en). \<not> held_back v en) xs)
         \<and> map (\<lambda>t. dget t ''strategy_id'') us = concat (map (\<lambda>p. replicate (signal_count p) (dget p ''strategy_id'')) ps))" by blast
    have plugins: "eg_plugins e1 = eg_plugins e" using keep by (simp add: standing_def)
    have theirs: "list_all (\<lambda>t. \<exists>sid en. (sid, en) \<in> set (x # xs) \<and> \<not> held_back v en \<and> dget t ''strategy_id'' = PStr sid \<and> map_of (eg_plugins e) sid \<noteq> None) us"
      using rest(3) by (rule list.pred_mono_strong) (auto simp: plugins)
    have counts: "length cs' = length cs + length (ts @ us) \<and> (\<exists>ps. eg_determinism e' = eg_determinism e @ ps
         \<and> map (\<lambda>p. dget p ''strategy_id'') ps = map (PStr \<circ> fst) (filter (\<lambda>(sid, en). \<not> held_back v en) (x # xs))
         \<and> map (\<lambda>t. dget t ''strategy_id'') (ts @ us) = concat (map (\<lambda>p. replicate (signal_count p) (dget p ''strategy_id'')) ps))" if r: "r = Inr cs'" for cs'
    proof -
      from rest(4) r obtain ps where ps: "length cs' = length cs1 + length us" "eg_determinism e' = eg_determinism e1 @ ps"
        "map (\<lambda>p. dget p ''strategy_id'') ps = map (PStr \<circ> fst) (filter (\<lambda>(sid, en). \<not> held_back v en) xs)"
        "map (\<lambda>t. dget t ''strategy_id'') us = concat (map (\<lambda>p. replicate (signal_count p) (dget p ''strategy_id'')) ps)" by blast
      have same: "map (\<lambda>t. dget t ''strategy_id'') ts = replicate (length ts) (PStr sid)" using ts(2) by (induction ts) auto
      show ?thesis
      proof (cases "held_back v en")
        case True
        with ts(3) ok Inr ps x show ?thesis by (intro conjI exI [of _ ps]) auto
      next
        case False
        with ok Inr obtain p where p: "eg_determinism e1 = eg_determinism e @ [p]" "dget p ''strategy_id'' = PStr sid" "signal_count p = length ts" by auto
        with ok Inr ps x False same show ?thesis by (intro conjI exI [of _ "p # ps"]) auto
      qed
    qed
    have all: "list_all (\<lambda>t. \<exists>sid en. (sid, en) \<in> set (x # xs) \<and> \<not> held_back v en \<and> dget t ''strategy_id'' = PStr sid \<and> map_of (eg_plugins e) sid \<noteq> None) (ts @ us)"
      unfolding list_all_append using mine theirs by (rule conjI)
    have "standing e' = standing e" "eg_trades e' = eg_trades e @ (ts @ us)" using keep ts(1) rest(1,2) by simp_all
    then show ?thesis using all counts by blast
  qed
qed auto

lemma run_all_cases:
  assumes "run_all v e = (e', r)" "eg_manifest e = Some m"
  shows "standing e' = standing e
    \<and> list_all (\<lambda>t. \<exists>sid en. (sid, en) \<in> set (ordered_entries m) \<and> \<not> held_back v en \<and> dget t ''strategy_id'' = PStr sid \<and> map_of (eg_plugins e) sid \<noteq> None) (eg_trades e')
    \<and> (\<forall>sigs. r = Inr sigs \<longrightarrow> (\<exists>w e1 cs. run_strategies v w (ordered_entries m) (clear_run e) [] = (e1, Inr cs) \<and> allocate_all v cs e1 = (e', Inr sigs) \<and> length cs = length (eg_trades e')
        \<and> map (\<lambda>p. dget p ''strategy_id'') (eg_determinism e') = map (PStr \<circ> fst) (filter (\<lambda>(sid, en). \<not> held_back v en) (ordered_entries m)) \<and> accounted e'))"
proof -
  have clear: "standing (clear_run e) = standing e" "eg_trades (clear_run e) = []" "eg_determinism (clear_run e) = []" "eg_plugins (clear_run e) = eg_plugins e"
    by (simp_all add: clear_run_def standing_def)
  define start where "start = bind_res (validate_features (rn_keys v) m) (\<lambda>_. bind_res (validate_watchlists (rn_symbols v) m) (\<lambda>_. chosen_watchlist v m))"
  show ?thesis
  proof (cases start)
    case (Inl er)
    with assms have "e' = clear_run e" "r = Inl er" by (auto simp: run_all_def start_def [symmetric])
    with clear show ?thesis by simp
  next
    case (Inr w)
    obtain e1 r1 where rs: "run_strategies v w (ordered_entries m) (clear_run e) [] = (e1, r1)" by fastforce
    from run_strategies_result [OF rs] clear obtain ts where ts: "standing e1 = standing e" "eg_trades e1 = ts"
      "list_all (\<lambda>t. \<exists>sid en. (sid, en) \<in> set (ordered_entries m) \<and> \<not> held_back v en \<and> dget t ''strategy_id'' = PStr sid \<and> map_of (eg_plugins e) sid \<noteq> None) ts"
      "\<forall>cs'. r1 = Inr cs' \<longrightarrow> length cs' = length ts \<and> map (\<lambda>p. dget p ''strategy_id'') (eg_determinism e1) = map (PStr \<circ> fst) (filter (\<lambda>(sid, en). \<not> held_back v en) (ordered_entries m))
         \<and> map (\<lambda>t. dget t ''strategy_id'') ts = concat (map (\<lambda>p. replicate (signal_count p) (dget p ''strategy_id'')) (eg_determinism e1))" by auto
    show ?thesis
    proof (cases r1)
      case (Inl er)
      with assms Inr rs have "e' = e1" "r = Inl er" by (auto simp: run_all_def start_def [symmetric] Let_def)
      with ts show ?thesis by simp
    next
      case took: (Inr cs)
      with assms Inr rs have al: "allocate_all v cs e1 = (e', r)" by (simp add: run_all_def start_def [symmetric] Let_def)
      from allocate_all_keeps [OF this] have "standing e' = standing e1" "eg_trades e' = eg_trades e1" "eg_determinism e' = eg_determinism e1" by (simp_all add: gathered_def)
      with ts took al rs show ?thesis by (auto simp: accounted_def)
    qed
  qed
qed

section \<open>Guarded gates\<close>

lemma ordered_set: "(sid, en) \<in> set (ordered_entries m) \<longleftrightarrow> (sid, en) \<in> set (mn_strategies m) \<and> se_enabled en"
  by (simp add: ordered_entries_def enabled_strategies_def)

text \<open>C23: Under a guarded gate every candidate is of an enabled, registered strategy that asks to run on a guarded board, and where none does nothing is signalled.\<close>

theorem guarded_strategies_silent:
  assumes "run_all v e = (e', r)" "eg_manifest e = Some m" "is_guarded_mode (rn_gate v)"
  shows "list_all (\<lambda>t. \<exists>sid en. (sid, en) \<in> set (mn_strategies m) \<and> se_enabled en \<and> map_of (se_flags en) ''guarded_board_required'' = Some True
       \<and> dget t ''strategy_id'' = PStr sid \<and> map_of (eg_plugins e) sid \<noteq> None) (eg_trades e')
    \<and> (list_all (\<lambda>(sid, en). map_of (se_flags en) ''guarded_board_required'' \<noteq> Some True) (enabled_strategies m) \<longrightarrow> eg_trades e' = [] \<and> (r = Inr [] \<or> (\<exists>er. r = Inl er)))"
proof
  note cases = run_all_cases [OF assms(1,2)]
  show own: "list_all (\<lambda>t. \<exists>sid en. (sid, en) \<in> set (mn_strategies m) \<and> se_enabled en \<and> map_of (se_flags en) ''guarded_board_required'' = Some True
       \<and> dget t ''strategy_id'' = PStr sid \<and> map_of (eg_plugins e) sid \<noteq> None) (eg_trades e')"
    by (rule list.pred_mono_strong [OF cases [THEN conjunct2, THEN conjunct1]]) (use assms(3) in \<open>auto simp: held_back_def ordered_set\<close>)
  show "list_all (\<lambda>(sid, en). map_of (se_flags en) ''guarded_board_required'' \<noteq> Some True) (enabled_strategies m) \<longrightarrow> eg_trades e' = [] \<and> (r = Inr [] \<or> (\<exists>er. r = Inl er))"
  proof
    assume none: "list_all (\<lambda>(sid, en). map_of (se_flags en) ''guarded_board_required'' \<noteq> Some True) (enabled_strategies m)"
    have trades: "eg_trades e' = []"
    proof (rule ccontr)
      assume "eg_trades e' \<noteq> []"
      then obtain t where "t \<in> set (eg_trades e')" by (cases "eg_trades e'") auto
      with own obtain sid en where "(sid, en) \<in> set (mn_strategies m)" "se_enabled en" "map_of (se_flags en) ''guarded_board_required'' = Some True" by (auto simp: list_all_iff)
      with none show False by (auto simp: list_all_iff enabled_strategies_def)
    qed
    show "eg_trades e' = [] \<and> (r = Inr [] \<or> (\<exists>er. r = Inl er))"
    proof (cases r)
      case (Inr sigs)
      with cases obtain e1 cs where "allocate_all v cs e1 = (e', Inr sigs)" "length cs = length (eg_trades e')" by blast
      with trades Inr show ?thesis by (auto simp: allocate_all_def split: option.splits)
    qed (use trades in simp)
  qed
qed

section \<open>The order of a run and its events\<close>

lemma ordered_sorted: "sorted (map (\<lambda>(sid, en). (se_priority en, sid)) (ordered_entries m))"
  by (simp add: ordered_entries_def)

text \<open>C12: A run that returns has evaluated the enabled strategies that are not held back, once each and by priority, with one event each; the events count the
  candidates of each strategy in their order, and without a policy every candidate's signal is returned.\<close>

theorem events_account:
  assumes "run_all v e = (e', Inr sigs)" "eg_manifest e = Some m"
  shows "map (\<lambda>p. dget p ''strategy_id'') (eg_determinism e') = map (PStr \<circ> fst) (filter (\<lambda>(sid, en). \<not> held_back v en) (ordered_entries m))
    \<and> sorted (map (\<lambda>(sid, en). (se_priority en, sid)) (ordered_entries m)) \<and> accounted e'
    \<and> length (eg_trades e') = sum_list (map signal_count (eg_determinism e')) \<and> (eg_policy e = None \<longrightarrow> length sigs = length (eg_trades e'))"
proof -
  from run_all_cases [OF assms] obtain w e1 cs where rs: "run_strategies v w (ordered_entries m) (clear_run e) [] = (e1, Inr cs)" and al: "allocate_all v cs e1 = (e', Inr sigs)"
    and len: "length cs = length (eg_trades e')" and ids: "map (\<lambda>p. dget p ''strategy_id'') (eg_determinism e') = map (PStr \<circ> fst) (filter (\<lambda>(sid, en). \<not> held_back v en) (ordered_entries m))"
    and acc: "accounted e'" by blast
  have "length (eg_trades e') = length (concat (map (\<lambda>p. replicate (signal_count p) (dget p ''strategy_id'')) (eg_determinism e')))"
    using acc unfolding accounted_def by (metis length_map)
  then have total: "length (eg_trades e') = sum_list (map signal_count (eg_determinism e'))" by (simp add: length_concat comp_def)
  from run_strategies_result [OF rs] have "eg_policy e1 = eg_policy e" by (simp add: standing_def clear_run_def)
  with al len have "eg_policy e = None \<longrightarrow> length sigs = length (eg_trades e')" by (auto simp: allocate_all_def)
  with ids ordered_sorted acc total show ?thesis by blast
qed

section \<open>Allocation and its records\<close>

lemma allocate_each_result:
  assumes "\<And>symb. regime_value v symb = Inr (regime symb)"
  shows "snd (allocate_each v p now ps gs e) = bind_res (map_res (\<lambda>(symb, cs). allocate p (allocation_context now (rn_board_cfg v) (rn_kill_cfg v) (rn_gate v) ps (regime symb)) cs) gs)
     (\<lambda>rs. Inr (concat (map (map cn_signal \<circ> ar_selected) rs)))"
proof (induction gs arbitrary: e)
  case (Cons x gs)
  obtain symb cs where x: "x = (symb, cs)" by (cases x)
  show ?case
  proof (cases "allocate p (allocation_context now (rn_board_cfg v) (rn_kill_cfg v) (rn_gate v) ps (regime symb)) cs")
    case (Inl er)
    then show ?thesis by (simp add: x assms)
  next
    case (Inr a)
    obtain e1 r1 where g: "allocate_each v p now ps gs (record_outcomes v cs (allocation_context now (rn_board_cfg v) (rn_kill_cfg v) (rn_gate v) ps (regime symb)) (ar_outcomes a) e) = (e1, r1)" by fastforce
    with Cons.IH [of "record_outcomes v cs (allocation_context now (rn_board_cfg v) (rn_kill_cfg v) (rn_gate v) ps (regime symb)) (ar_outcomes a) e"]
    have r1: "r1 = bind_res (map_res (\<lambda>(symb, cs). allocate p (allocation_context now (rn_board_cfg v) (rn_kill_cfg v) (rn_gate v) ps (regime symb)) cs) gs) (\<lambda>rs. Inr (concat (map (map cn_signal \<circ> ar_selected) rs)))"
      by (simp only: snd_conv)
    show ?thesis
      by (cases "map_res (\<lambda>(symb, cs). allocate p (allocation_context now (rn_board_cfg v) (rn_kill_cfg v) (rn_gate v) ps (regime symb)) cs) gs") (simp_all add: x assms Inr g r1 comp_def)
  qed
qed simp

text \<open>\<open>apply_allocation\<close>, which leaves the records out, and this loop are the same lines of the code.\<close>

lemma recorded_allocation_refines:
  assumes "allocation_now v = Inr now" "open_positions (rn_positions v) = Inr ps" "\<And>symb. regime_value v symb = Inr (regime symb)"
  shows "snd (allocate_all v cs e) = apply_allocation (eg_policy e) now (rn_board_cfg v) (rn_kill_cfg v) (rn_gate v) ps regime cs"
proof (cases "eg_policy e")
  case (Some p)
  show ?thesis
  proof (cases "cs = []")
    case True
    then show ?thesis by (simp add: allocate_all_def apply_allocation_def Some by_symbol_def)
  next
    case False
    then show ?thesis by (simp add: allocate_all_def apply_allocation_def Some assms(1,2) allocate_each_result [OF assms(3)])
  qed
qed (simp add: allocate_all_def apply_allocation_def)

text \<open>The candidates of a run so far beside its trades, with no outcome yet.\<close>

definition in_step :: "engine \<Rightarrow> alloc_candidate list \<Rightarrow> bool" where
  "in_step e cs \<longleftrightarrow> map (\<lambda>t. dget t ''strategy_id'') (eg_trades e) = map (PStr \<circ> cn_strategy_id) cs \<and> map cn_oid cs = [0 ..< length cs] \<and> eg_outcomes e = []"

lemma in_step_event [simp]: "in_step (write_signal_event v p e) cs = in_step e cs"
  by (simp add: in_step_def write_signal_event_def)

lemma take_signals_in_step: "take_signals v sid en c rs e cs = (e', Inr cs') \<Longrightarrow> in_step e cs \<Longrightarrow> in_step e' cs'"
proof (induction v sid en c rs e cs arbitrary: e' cs' rule: take_signals.induct)
  case (2 v sid en c r1 rs e cs)
  from 2(2) obtain t where t: "build_candidate_trade (rn_digest v) (eg_policy e) c (rn_stamp v (eg_reads e)) sid r1 = Inr t" by (simp split: sum.splits)
  define e1 where "e1 = e\<lparr>eg_trades := eg_trades e @ [trade_to_dict t]\<rparr>"
  from 2(2) t obtain e2 where e2: "emit_generated v sid c (se_flags en) r1 t e1 = Inr e2" by (auto simp: e1_def Let_def split: sum.splits)
  from 2(2) t e2 have rest: "take_signals v sid en c rs e2 (cs @ [new_candidate (length cs) sid en r1 t]) = (e', Inr cs')" by (simp add: e1_def [symmetric] Let_def)
  have "dget (trade_to_dict t) ''strategy_id'' = PStr sid" using built_trade [OF t] by (simp add: trade_to_dict_def dget_def)
  with 2(3) have "in_step e1 (cs @ [new_candidate (length cs) sid en r1 t])" by (simp add: in_step_def e1_def new_candidate_def)
  then have "in_step e2 (cs @ [new_candidate (length cs) sid en r1 t])" using e2 by (auto simp: emit_generated_def bind_res_eq_Inr)
  from 2(1) [OF t e1_def e2 rest this] show ?case .
qed simp

lemma run_strategies_in_step: "run_strategies v w xs e cs = (e', Inr cs') \<Longrightarrow> in_step e cs \<Longrightarrow> in_step e' cs'"
proof (induction xs arbitrary: e cs)
  case (Cons x xs)
  from Cons.prems(1) obtain e1 cs1 where one: "run_strategy v w x e cs = (e1, Inr cs1)" and rest: "run_strategies v w xs e1 cs1 = (e', Inr cs')"
    by (auto split: prod.splits sum.splits)
  have "in_step e1 cs1"
    using one Cons.prems(2) take_signals_in_step [of v]
    by (auto simp: run_strategy_def Let_def emit_suppressed_def record_determinism_def split: prod.splits sum.splits signals.splits if_splits) (auto simp: in_step_def)
  with Cons.IH rest show ?case by blast
qed simp

lemma record_outcomes_adds:
  "map (\<lambda>q. dget q ''strategy_id'') (eg_outcomes (record_outcomes v cs x os e)) = map (\<lambda>q. dget q ''strategy_id'') (eg_outcomes e) @ map (PStr \<circ> oc_strategy_id) os
    \<and> map (\<lambda>q. dget q ''selected'') (eg_outcomes (record_outcomes v cs x os e)) = map (\<lambda>q. dget q ''selected'') (eg_outcomes e) @ map (PBool \<circ> oc_selected) os"
proof (induction os arbitrary: e)
  case (Cons o1 os)
  have "dget (put_all (outcome_to_dict o1) (context_payload x)) ''strategy_id'' = PStr (oc_strategy_id o1)"
    "dget (put_all (outcome_to_dict o1) (context_payload x)) ''selected'' = PBool (oc_selected o1)"
    by (simp_all add: put_all_def context_payload_def outcome_to_dict_def dget_def)
  moreover have "eg_outcomes (record_outcome v cs x e o1) = eg_outcomes e @ [put_all (outcome_to_dict o1) (context_payload x)]"
    by (simp add: record_outcome_def Let_def write_signal_event_def split: option.split)
  ultimately show ?case using Cons.IH [of "record_outcome v cs x e o1"] by (simp add: record_outcomes_def)
qed (simp add: record_outcomes_def)

lemma allocate_each_adds:
  "allocate_each v p now ps gs e = (e', Inr sigs) \<Longrightarrow> distinct (map cn_oid (concat (map snd gs))) \<Longrightarrow>
    \<exists>qs :: alloc_outcome list. map (\<lambda>q. dget q ''strategy_id'') (eg_outcomes e') = map (\<lambda>q. dget q ''strategy_id'') (eg_outcomes e) @ map (PStr \<circ> oc_strategy_id) qs
      \<and> map (\<lambda>q. dget q ''selected'') (eg_outcomes e') = map (\<lambda>q. dget q ''selected'') (eg_outcomes e) @ map (PBool \<circ> oc_selected) qs
      \<and> mset (map oc_strategy_id qs) = mset (map cn_strategy_id (concat (map snd gs))) \<and> length (filter oc_selected qs) = length sigs"
proof (induction gs arbitrary: e sigs)
  case (Cons a gs)
  obtain symb cs where a: "a = (symb, cs)" by (cases a)
  from Cons.prems(1) a obtain regime where regime: "regime_value v symb = Inr regime" by (auto split: sum.splits)
  define x where "x = allocation_context now (rn_board_cfg v) (rn_kill_cfg v) (rn_gate v) ps regime"
  from Cons.prems(1) a regime obtain r where r: "allocate p x cs = Inr r" by (auto simp: x_def Let_def split: sum.splits)
  from Cons.prems(1) a regime r obtain sigs' where rest: "allocate_each v p now ps gs (record_outcomes v cs x (ar_outcomes r) e) = (e', Inr sigs')"
    and sigs: "sigs = map cn_signal (ar_selected r) @ sigs'" by (auto simp: x_def [symmetric] Let_def split: prod.splits sum.splits)
  have d: "distinct (map cn_oid cs)" "distinct (map cn_oid (concat (map snd gs)))" using Cons.prems(2) by (simp_all add: a)
  from Cons.IH [OF rest d(2)] obtain qs :: "alloc_outcome list" where qs: "map (\<lambda>q. dget q ''strategy_id'') (eg_outcomes e') = map (\<lambda>q. dget q ''strategy_id'') (eg_outcomes (record_outcomes v cs x (ar_outcomes r) e)) @ map (PStr \<circ> oc_strategy_id) qs"
      "map (\<lambda>q. dget q ''selected'') (eg_outcomes e') = map (\<lambda>q. dget q ''selected'') (eg_outcomes (record_outcomes v cs x (ar_outcomes r) e)) @ map (PBool \<circ> oc_selected) qs"
      "mset (map oc_strategy_id qs) = mset (map cn_strategy_id (concat (map snd gs)))" "length (filter oc_selected qs) = length sigs'" by blast
  note allocated = allocation_outcomes [OF r d(1)]
  have "map (\<lambda>q. dget q ''strategy_id'') (eg_outcomes e') = map (\<lambda>q. dget q ''strategy_id'') (eg_outcomes e) @ map (PStr \<circ> oc_strategy_id) (ar_outcomes r @ qs)"
    "map (\<lambda>q. dget q ''selected'') (eg_outcomes e') = map (\<lambda>q. dget q ''selected'') (eg_outcomes e) @ map (PBool \<circ> oc_selected) (ar_outcomes r @ qs)"
    using qs(1,2) record_outcomes_adds [of v cs x "ar_outcomes r" e] by simp_all
  moreover have "mset (map oc_strategy_id (ar_outcomes r @ qs)) = mset (map cn_strategy_id (concat (map snd (a # gs))))"
    using allocated(1) qs(3) by (simp add: a)
  moreover have "length (filter oc_selected (ar_outcomes r @ qs)) = length sigs" using allocated(2) qs(4) by (simp add: sigs)
  ultimately show ?case by blast
qed simp

lemma grouped_mset: "mset (concat (map snd (sort_key fst (by_symbol registry_symbol cs)))) = mset cs"
  using by_symbol_mset [of registry_symbol cs] by (simp add: mset_concat flip: sum_mset_sum_list)

text \<open>C19: A run that returns keeps one record of its allocation for every candidate it built, under the candidate's strategy, and marks as many of them as selected as it
  returns signals; nothing of an earlier run is among them. Without a policy nothing is recorded.\<close>

theorem run_records_outcomes:
  assumes "run_all v e = (e', Inr sigs)"
  shows "if eg_policy e = None then eg_outcomes e' = []
    else mset (map (\<lambda>q. dget q ''strategy_id'') (eg_outcomes e')) = mset (map (\<lambda>t. dget t ''strategy_id'') (eg_trades e'))
      \<and> length (filter (\<lambda>q. dget q ''selected'' = PBool True) (eg_outcomes e')) = length sigs"
proof -
  from assms obtain m where m: "eg_manifest e = Some m" by (auto simp: run_all_def split: option.splits)
  from run_all_cases [OF assms m] obtain w e1 cs where rs: "run_strategies v w (ordered_entries m) (clear_run e) [] = (e1, Inr cs)" and al: "allocate_all v cs e1 = (e', Inr sigs)" by blast
  have step: "in_step e1 cs" using rs by (rule run_strategies_in_step) (simp add: in_step_def clear_run_def)
  have policy: "eg_policy e1 = eg_policy e" using run_strategies_result [OF rs] by (simp add: standing_def clear_run_def)
  have trades: "eg_trades e' = eg_trades e1" using allocate_all_keeps [OF al] by (simp add: gathered_def)
  show ?thesis
  proof (cases "eg_policy e = None \<or> cs = []")
    case True
    then have "e' = e1" "eg_policy e \<noteq> None \<Longrightarrow> sigs = []" using al policy by (auto simp: allocate_all_def split: option.splits)
    with step True show ?thesis by (auto simp: in_step_def)
  next
    case False
    then obtain p now ps where p: "eg_policy e = Some p" and each: "allocate_each v p now ps (sort_key fst (by_symbol registry_symbol cs)) e1 = (e', Inr sigs)"
      using al policy by (auto simp: allocate_all_def split: option.splits sum.splits)
    have "distinct (map cn_oid cs)" using step by (simp add: in_step_def)
    with grouped_mset [of cs] have "distinct (map cn_oid (concat (map snd (sort_key fst (by_symbol registry_symbol cs)))))" by (metis mset_eq_imp_distinct_iff mset_map)
    from allocate_each_adds [OF each this] step obtain qs :: "alloc_outcome list" where qs: "map (\<lambda>q. dget q ''strategy_id'') (eg_outcomes e') = map (PStr \<circ> oc_strategy_id) qs"
      "map (\<lambda>q. dget q ''selected'') (eg_outcomes e') = map (PBool \<circ> oc_selected) qs"
      "mset (map oc_strategy_id qs) = mset (map cn_strategy_id (concat (map snd (sort_key fst (by_symbol registry_symbol cs)))))" "length (filter oc_selected qs) = length sigs"
      by (auto simp: in_step_def)
    have own: "mset (map oc_strategy_id qs) = image_mset cn_strategy_id (mset cs)" unfolding qs(3) by (simp only: mset_map grouped_mset)
    have "mset (map (\<lambda>q. dget q ''strategy_id'') (eg_outcomes e')) = image_mset PStr (mset (map oc_strategy_id qs))" by (simp only: qs(1)) (simp add: image_mset.compositionality)
    also have "\<dots> = image_mset PStr (image_mset cn_strategy_id (mset cs))" unfolding own ..
    also have "\<dots> = mset (map (\<lambda>t. dget t ''strategy_id'') (eg_trades e'))" using step by (simp add: in_step_def trades image_mset.compositionality)
    finally have ids: "mset (map (\<lambda>q. dget q ''strategy_id'') (eg_outcomes e')) = mset (map (\<lambda>t. dget t ''strategy_id'') (eg_trades e'))" .
    have "length (filter (\<lambda>q. dget q ''selected'' = PBool True) (eg_outcomes e')) = length (filter (\<lambda>b. b = PBool True) (map (\<lambda>q. dget q ''selected'') (eg_outcomes e')))"
      by (simp add: filter_map comp_def)
    also have "\<dots> = length (filter oc_selected qs)" unfolding qs(2) by (simp add: filter_map comp_def)
    finally show ?thesis using ids p qs(4) by simp
  qed
qed

text \<open>Of two candidates of one strategy on one symbol the records name the last, for the outcome of either.\<close>

theorem admission_names_last:
  assumes "cn_strategy_id c = oc_strategy_id o1" "lookup_symbol c = oc_symbol o1"
  shows "candidate_of (cs @ [c]) o1 = Some c"
  using assms by (simp add: candidate_of_def)

section \<open>The registered plugins\<close>

datatype engine_op =
    Register strategy_plugin
  | Load "pyval \<Rightarrow> strategy_manifest option" pydt string json_file
  | SetPolicy "policy option"
  | RunAll run_env

fun engine_step :: "engine \<Rightarrow> engine_op \<Rightarrow> engine" where
  "engine_step e (Register p) = fst (register_plugin p e)"
| "engine_step e (Load typed now path f) = fst (load_manifest typed now path f e)"
| "engine_step e (SetPolicy p) = set_allocation_policy p e"
| "engine_step e (RunAll v) = fst (run_all v e)"

definition valid_plugin :: "string \<Rightarrow> strategy_plugin \<Rightarrow> bool" where
  "valid_plugin sid p \<longleftrightarrow> sid \<noteq> [] \<and> pg_id p = PStr sid \<and> pg_protocol p \<and> pg_meta p \<noteq> None \<and> str_strip (plugin_key p) \<noteq> []"

definition engine_ok :: "engine \<Rightarrow> bool" where
  "engine_ok e \<longleftrightarrow> wf_dict (eg_plugins e) \<and> list_all (\<lambda>(sid, p). valid_plugin sid p) (eg_plugins e) \<and> (\<forall>m. eg_manifest e = Some m \<longrightarrow> weights_ok m)"

lemma check_plugin_valid: "check_plugin p e = Inr sid \<Longrightarrow> valid_plugin sid p \<and> map_of (eg_plugins e) sid = None"
  by (auto simp: check_plugin_def valid_plugin_def plugin_key_def split: if_splits pyval.splits)

lemma register_engine_ok: "engine_ok e \<Longrightarrow> engine_ok (fst (register_plugin p e))"
proof (cases "check_plugin p e")
  case (Inr sid)
  assume "engine_ok e"
  with check_plugin_valid [OF Inr] Inr show ?thesis by (auto simp: register_plugin_def engine_ok_def wf_dict_def map_of_eq_None_iff)
qed (simp add: register_plugin_def)

lemma loaded_weights: "load_strategy_manifest typed now path f = Inr m \<Longrightarrow> weights_ok m"
  by (auto simp: load_strategy_manifest_def manifest_from_dict_def bind_res_eq_Inr validated_weights split: option.splits sum.splits if_splits)

lemma load_engine_ok: "engine_ok e \<Longrightarrow> engine_ok (fst (load_manifest typed now path f e))"
  by (auto simp: load_manifest_def engine_ok_def loaded_weights split: sum.splits)

lemma run_all_standing: "standing (fst (run_all v e)) = standing e"
proof (cases "eg_manifest e")
  case (Some m)
  obtain e' r where r: "run_all v e = (e', r)" by fastforce
  with run_all_cases [OF r Some] show ?thesis by simp
qed (simp add: run_all_def)

interpretation eng: step_system engine_step engine_ok
proof unfold_locales
  fix e x
  assume e: "engine_ok e"
  show "engine_ok (engine_step e x)"
  proof (cases x)
    case (RunAll v)
    with e run_all_standing [of v e] show ?thesis by (simp add: engine_ok_def standing_def)
  qed (use e in \<open>simp_all add: register_engine_ok load_engine_ok\<close>, simp add: engine_ok_def set_allocation_policy_def)
qed

text \<open>C39: After any operations every plugin is registered once, under its own name, with metadata and a determinism key, and the manifest, where there is one, has weights within one.\<close>

theorem engine_registry_ok: "engine_ok (foldl engine_step (new_engine l mt sg) xs)"
  by (rule eng.run_inv) (simp add: engine_ok_def new_engine_def wf_dict_def)

section \<open>Instances\<close>

definition demo_plugin :: strategy_plugin where
  "demo_plugin = \<lparr>pg_id = PStr ''orb'', pg_key = PStr ''k'', pg_meta = Some \<lparr>sm_name = ''orb'', sm_version = ''1'', sm_features = [''close''], sm_tags = [], sm_offset = 0\<rparr>, pg_protocol = True\<rparr>"

definition demo_file :: log_file where
  "demo_file = \<lparr>lf_max = None, lf_keep = 0, lf_text = None\<rparr>"

definition demo_engine :: engine where
  "demo_engine = (new_engine demo_file demo_file demo_file)\<lparr>eg_plugins := [(''orb'', demo_plugin)], eg_manifest := Some (demo_manifest ''active'')\<rparr>"

definition demo_run :: "gate_state \<Rightarrow> run_env" where
  "demo_run g = \<lparr>rn_keys = [''close''], rn_symbols = [''EURUSD''], rn_lookup = (\<lambda>s f t. None), rn_version = PNone, rn_data_hash = PNone, rn_feature_seed = PNone, rn_gate = g,
     rn_board_cfg = PNone, rn_kill_cfg = PNone, rn_now = None, rn_watchlist = Some [''EURUSD''], rn_seed = 0, rn_positions = [], rn_wall = demo_manifest_now, rn_stamp = (\<lambda>n. ''now''),
     rn_signal_ok = True, rn_log_ok = True, rn_metrics_ok = True, rn_digest = (\<lambda>s. s), rn_hash = (\<lambda>x. ''h''),
     rn_generate = (\<lambda>sid c. Inr (Signals [demo_signal] None)), rn_evaluate = (\<lambda>sid c. Inr (Signals [] None))\<rparr>"

definition demo_guarded :: gate_state where
  "demo_guarded = gate_default\<lparr>gs_risk := risk_default\<lparr>rg_reduce_only := True\<rparr>\<rparr>"

lemma demo_begins:
  "eg_manifest demo_engine = Some (demo_manifest ''active'')" "ordered_entries (demo_manifest ''active'') = [(''orb'', demo_strategy ''active'')]"
  "bind_res (validate_features (rn_keys (demo_run g)) (demo_manifest ''active'')) (\<lambda>_. bind_res (validate_watchlists (rn_symbols (demo_run g)) (demo_manifest ''active''))
     (\<lambda>_. chosen_watchlist (demo_run g) (demo_manifest ''active''))) = Inr [''EURUSD'']"
  "plugin_of (demo_run g) ''orb'' (demo_strategy ''active'') (clear_run demo_engine) = Inr (demo_plugin, the (pg_meta demo_plugin))"
proof -
  have n: "normalise_symbols [''EURUSD''] = [''EURUSD'']" by (simp add: normalise_symbols_def demo_texts to_set_def)
  show "bind_res (validate_features (rn_keys (demo_run g)) (demo_manifest ''active'')) (\<lambda>_. bind_res (validate_watchlists (rn_symbols (demo_run g)) (demo_manifest ''active''))
     (\<lambda>_. chosen_watchlist (demo_run g) (demo_manifest ''active''))) = Inr [''EURUSD'']"
    by (simp add: demo_run_def validate_features_def validate_watchlists_def chosen_watchlist_def demo_enabled demo_strategy_def n set_minus_def to_set_def watched_symbols_def)
qed (simp_all add: demo_engine_def ordered_entries_def demo_enabled plugin_of_def clear_run_def demo_plugin_def demo_strategy_def demo_run_def set_minus_def to_set_def)

lemma demo_gates: "is_guarded_mode demo_guarded" "\<not> is_guarded_mode gate_default" "map_of (se_flags (demo_strategy st)) k = None"
proof -
  have "str_lower ''ok'' = ''ok''" by code_simp
  then show "\<not> is_guarded_mode gate_default" by (simp add: is_guarded_mode_def gate_default_def market_default_def risk_default_def)
qed (simp_all add: is_guarded_mode_def demo_guarded_def demo_strategy_def)

theorem guarded_strategies_silent_witness: "\<exists>e'. run_all (demo_run demo_guarded) demo_engine = (e', Inr []) \<and> eg_trades e' = []"
proof -
  obtain e' where r: "run_all (demo_run demo_guarded) demo_engine = (e', Inr [])"
    by (simp add: run_all_def demo_begins run_strategy_def held_back_def demo_gates Let_def, simp add: demo_run_def demo_gates demo_strategy_def)
       (simp add: allocate_all_def emit_suppressed_def write_signal_event_def clear_run_def demo_engine_def new_engine_def)
  have "is_guarded_mode (rn_gate (demo_run demo_guarded))" by (simp add: demo_run_def demo_gates)
  from guarded_strategies_silent [OF r demo_begins(1) this] r demo_gates(3) show ?thesis by (auto simp: demo_enabled)
qed

lemma demo_builds:
  fixes w n wall
  defines "c \<equiv> demo_trade_context\<lparr>sc_watchlist := w, sc_seed := n\<rparr>"
  shows "\<exists>tf. derive_trade_fields c demo_signal = Inr tf" "\<exists>t. build_candidate_trade (\<lambda>s. s) None c wall ''orb'' demo_signal = Inr t"
proof -
  from demo_derived obtain tf where tf: "derive_trade_fields demo_trade_context demo_signal = Inr tf" by blast
  have "derive_trade_fields c demo_signal = derive_trade_fields demo_trade_context demo_signal"
    by (simp add: c_def derive_trade_fields_def Let_def close_price_def atr_or_default_def latest_feature_def expire_text_def cong: option.case_cong)
  with tf have tf': "derive_trade_fields c demo_signal = Inr tf" by simp
  then show "\<exists>tf. derive_trade_fields c demo_signal = Inr tf" by blast
  show "\<exists>t. build_candidate_trade (\<lambda>s. s) None c wall ''orb'' demo_signal = Inr t"
    by (simp add: build_candidate_trade_def Let_def tf' policy_fields_def)
       (simp add: c_def candidate_time_def iso_or_none_def demo_signal_def demo_trade_context_def dget_def coerce_number_def trade_fields_dict_def dget_def_def)
qed

theorem events_account_witness:
  "\<exists>e' sigs. run_all (demo_run gate_default) demo_engine = (e', Inr sigs) \<and> length sigs = 1 \<and> sum_list (map signal_count (eg_determinism e')) = 1"
proof -
  define c where "c = build_context (demo_run gate_default) [''EURUSD''] (the (pg_meta demo_plugin)) (se_parameters (demo_strategy ''active''))"
  have c: "c = demo_trade_context\<lparr>sc_watchlist := [''EURUSD''], sc_seed := 0\<rparr>" by (simp add: c_def build_context_def demo_run_def demo_trade_context_def demo_plugin_def demo_strategy_def)
  obtain t where t: "build_candidate_trade (\<lambda>s. s) None c ''now'' ''orb'' demo_signal = Inr t" using demo_builds(2) unfolding c by blast
  obtain tf where tf: "derive_trade_fields c demo_signal = Inr tf" using demo_builds(1) unfolding c by blast
  have take: "\<exists>e1 x. take_signals (demo_run gate_default) ''orb'' (demo_strategy ''active'') c [demo_signal] (clear_run demo_engine) [] = (e1, Inr [x]) \<and> eg_policy e1 = None"
    by (simp add: demo_run_def clear_run_def demo_engine_def new_engine_def t emit_generated_def tf Let_def write_signal_event_def)
  then obtain e1 x where e1: "take_signals (demo_run gate_default) ''orb'' (demo_strategy ''active'') c [demo_signal] (clear_run demo_engine) [] = (e1, Inr [x])" "eg_policy e1 = None" by blast
  have sigs: "plugin_signals (demo_run gate_default) ''orb'' c = Inr (Signals [demo_signal] None)" by (simp add: plugin_signals_def demo_run_def)
  have free: "\<not> held_back (demo_run gate_default) (demo_strategy ''active'')" by (simp add: held_back_def demo_run_def demo_gates)
  have "\<exists>e'. run_all (demo_run gate_default) demo_engine = (e', Inr [cn_signal x])"
    by (simp add: run_all_def demo_begins run_strategy_def free Let_def c_def [symmetric] sigs e1(1) del: take_signals.simps)
       (simp add: allocate_all_def record_determinism_def e1(2))
  then obtain e' where r: "run_all (demo_run gate_default) demo_engine = (e', Inr [cn_signal x])" by blast
  have "eg_policy demo_engine = None" by (simp add: demo_engine_def new_engine_def)
  with events_account [OF r demo_begins(1)] r show ?thesis by auto
qed

definition demo_open_policy :: policy where
  "demo_open_policy = demo_policy\<lparr>pl_mode := ''pass_through''\<rparr>"

definition demo_admitting :: engine where
  "demo_admitting = demo_engine\<lparr>eg_policy := Some demo_open_policy\<rparr>"

lemma demo_open_fields: "\<exists>q. policy_fields (Some demo_open_policy) ''orb'' symb = Inr q"
  by (simp add: policy_fields_def candidate_metadata_def demo_open_policy_def demo_policy_def strategy_cfg_def filter_defs)

lemma demo_built_open:
  fixes w n wall
  defines "c \<equiv> demo_trade_context\<lparr>sc_watchlist := w, sc_seed := n\<rparr>"
  shows "\<exists>t. build_candidate_trade (\<lambda>s. s) (Some demo_open_policy) c wall ''orb'' demo_signal = Inr t \<and> ct_expected_edge t = None \<and> ct_confidence t = None
    \<and> ct_quality_score t = None \<and> ct_estimated_cost t = None"
proof -
  obtain tf where tf: "derive_trade_fields c demo_signal = Inr tf" using demo_builds(1) unfolding c_def by blast
  obtain grp ex hold where q: "policy_fields (Some demo_open_policy) ''orb'' (or_default (str_upper (attr_text (rs_attrs demo_signal) ''symbol'')) ''UNKNOWN'') = Inr (grp, ex, hold)"
    using demo_open_fields by (metis prod_cases3)
  show ?thesis
    by (simp add: build_candidate_trade_def Let_def tf q)
       (simp add: c_def candidate_time_def iso_or_none_def demo_signal_def demo_trade_context_def dget_def coerce_number_def trade_fields_dict_def dget_def_def)
qed

theorem run_records_outcomes_witness:
  "\<exists>e' s. run_all (demo_run gate_default) demo_admitting = (e', Inr [s]) \<and> length (filter (\<lambda>q. dget q ''selected'' = PBool True) (eg_outcomes e')) = 1"
proof -
  define c where "c = build_context (demo_run gate_default) [''EURUSD''] (the (pg_meta demo_plugin)) (se_parameters (demo_strategy ''active''))"
  have c: "c = demo_trade_context\<lparr>sc_watchlist := [''EURUSD''], sc_seed := 0\<rparr>" by (simp add: c_def build_context_def demo_run_def demo_trade_context_def demo_plugin_def demo_strategy_def)
  obtain t where t: "build_candidate_trade (\<lambda>s. s) (Some demo_open_policy) c ''now'' ''orb'' demo_signal = Inr t" "ct_expected_edge t = None" "ct_confidence t = None"
    "ct_quality_score t = None" "ct_estimated_cost t = None" using demo_built_open unfolding c by blast
  obtain tf where tf: "derive_trade_fields c demo_signal = Inr tf" using demo_builds(1) unfolding c by blast
  define x where "x = new_candidate 0 ''orb'' (demo_strategy ''active'') demo_signal t"
  have take: "\<exists>e1. take_signals (demo_run gate_default) ''orb'' (demo_strategy ''active'') c [demo_signal] (clear_run demo_admitting) [] = (e1, Inr [x]) \<and> eg_policy e1 = Some demo_open_policy"
    by (simp add: demo_run_def clear_run_def demo_admitting_def demo_engine_def new_engine_def t(1) emit_generated_def tf Let_def write_signal_event_def x_def)
  then obtain e1 where e1: "take_signals (demo_run gate_default) ''orb'' (demo_strategy ''active'') c [demo_signal] (clear_run demo_admitting) [] = (e1, Inr [x])" "eg_policy e1 = Some demo_open_policy" by blast
  have sigs: "plugin_signals (demo_run gate_default) ''orb'' c = Inr (Signals [demo_signal] None)" by (simp add: plugin_signals_def demo_run_def)
  have free: "\<not> held_back (demo_run gate_default) (demo_strategy ''active'')" by (simp add: held_back_def demo_run_def demo_gates)
  have plug: "plugin_of (demo_run gate_default) ''orb'' (demo_strategy ''active'') (clear_run demo_admitting) = Inr (demo_plugin, the (pg_meta demo_plugin))"
    using demo_begins(4) [of gate_default] by (simp add: plugin_of_def clear_run_def demo_admitting_def)
  have man: "eg_manifest demo_admitting = Some (demo_manifest ''active'')" using demo_begins(1) by (simp add: demo_admitting_def)
  have "candidate_score x = Inr (Fin 1)"
    by (simp add: candidate_score_def x_def new_candidate_def t signal_score_def demo_signal_def dget_def coerce_float_or_def)
  moreover have "candidate_estimated_cost x = Inr (Fin 0)"
    by (simp add: candidate_estimated_cost_def x_def new_candidate_def t cost_defs demo_strategy_def Let_def)
  ultimately obtain q where "pass_through_outcome x = Inr q" by (simp add: pass_through_outcome_def)
  then have al: "allocate demo_open_policy k [x] = Inr \<lparr>ar_selected = [x], ar_outcomes = [q]\<rparr>" for k
    by (simp add: allocate_def is_pass_through_def demo_open_policy_def)
  have env: "regime_value (demo_run gate_default) symb = Inr None" "allocation_now (demo_run gate_default) = Inr demo_manifest_now" "open_positions (rn_positions (demo_run gate_default)) = Inr []" for symb
    by (simp_all add: regime_value_def allocation_now_def demo_run_def open_positions_def)
  have "\<exists>e'. run_all (demo_run gate_default) demo_admitting = (e', Inr [cn_signal x])"
    by (simp add: run_all_def man demo_begins(2,3) run_strategy_def plug free Let_def c_def [symmetric] sigs e1(1) del: take_signals.simps)
       (simp add: allocate_all_def record_determinism_def e1(2) env by_symbol_def al Let_def)
  then obtain e' where r: "run_all (demo_run gate_default) demo_admitting = (e', Inr [cn_signal x])" by blast
  from run_records_outcomes [OF r] r show ?thesis by (auto simp: demo_admitting_def)
qed

definition demo_twin :: "nat \<Rightarrow> alloc_candidate" where
  "demo_twin n = new_candidate n ''orb'' (demo_strategy ''active'') demo_signal nan_trade"

definition demo_admitted :: alloc_outcome where
  "demo_admitted = \<lparr>oc_strategy_id = ''orb'', oc_symbol = lookup_symbol (demo_twin 0), oc_selected = True, oc_reason = ''selected'', oc_score = None,
      oc_decision = ''accept'', oc_portfolio_group = [], oc_exposure_bucket = [], oc_estimated_cost = None, oc_slot_cost = None, oc_blocked_by_strategy = None, oc_blocked_by_position = None,
      oc_replaced_candidate = None, oc_notes = None\<rparr>"

theorem admission_names_last_witness: "candidate_of [demo_twin 0, demo_twin 1] demo_admitted = Some (demo_twin 1)"
proof -
  have "cn_strategy_id (demo_twin 1) = oc_strategy_id demo_admitted" "lookup_symbol (demo_twin 1) = oc_symbol demo_admitted"
    by (simp_all add: demo_twin_def demo_admitted_def new_candidate_def lookup_symbol_def)
  from admission_names_last [OF this, of "[demo_twin 0]"] show ?thesis by simp
qed

end
