(* ===== verification/Spec2Isabelle.thy ===== *)
theory Spec2Isabelle
  imports Risk Sprt Emergency Failover Lifecycle Router Allocation HealthStore Liquidity Scheduler Workflow Fills Exposure TimeSync
    Spread Gateway ShadowStore Resync Orb Funding Ingest Ideas Alpha ConfigDiff Cost Records StrategyManifest TradeFields Engine
begin

text \<open>
  A verification development of the trading-control core of this repository: the parts under
  \<open>src/\<close> (of the repository) that decide whether the system may trade, in what mode, and that keep
  the records of those decisions.

  \<^bold>\<open>The program.\<close> Services compute partial gate states (news, calendar, spread, liquidity, risk,
  human), which the gate aggregator merges. The risk manager turns drawdown and exposure into
  guidance, raises conditions with the health monitor and decides on tickets. The health monitor
  keeps the reasons and the status and derives the guardrail snapshot the command line exits with.
  The stage guard holds the autonomy stage, which the order lifecycle manager asks before it creates
  an order; the lifecycle manager saves every state in the order store and has the recovery planner
  plan broker errors. A broker failover writes a state file that the stage guard reads; the
  emergency orchestrator runs playbooks. The order router sends an order only past the failover
  state, the kill-switch file, the broker policy and the rate limiter, and has the API monitor record
  what the adapter answers. The allocator chooses among the candidates of the strategies, under the
  kill-switch state that the registry reads from the gate. The event bus carries the events of the
  services to their subscribers and keeps a log to replay; the scheduler runs the periodic jobs,
  among them the clock guard and the escalation of a health state that stays degraded; the position
  sizer computes lots and stops under the broker rules; the fill store, the drift detector, the
  liquidity monitor and the exposure analyser watch what was executed and raise alerts. The spread
  guard blocks trading on wide spreads, clock drift and the news of the economic calendar. The shadow
  gateway keeps streaming sessions and an offline cache that it flushes to files of the data manifest;
  shadow sessions record tickets, alerts and acknowledgements; the resynchronisation fills gaps in
  the market data from a queue of jobs. Of the strategies two are modelled: the opening-range strategy,
  which signals under the kill switch and the board mode, and the alpha pulse with the overlay that
  sizes from it; the manifest says which strategies are enabled and on what symbols, and a signal becomes
  a candidate trade with an entry, a stop and a target; the strategy engine runs them in order of priority,
  holds them back under a guarded gate and hands the candidates to the allocator. Around them stand the funding curve, the
  round-trip cost, the guards and evaluations of data feeds, the registry of research ideas with its
  stages, the differences between configurations with their signatures, snapshots and audit logs.

  \<^bold>\<open>The theories.\<close>
  \<^item> \<open>Prelude\<close>: results, dictionaries (association lists in insertion order), list lemmas.
    \<open>PyFloat\<close>: binary64 floats as exact rationals with correct rounding. \<open>PyValue\<close>: the values read
    from JSON and YAML, and \<open>str\<close>, \<open>int\<close>, \<open>float\<close>, string methods, JSON text. \<open>PyTime\<close>: \<open>datetime\<close>,
    \<open>isoformat\<close> and \<open>fromisoformat\<close>, instants and dates.
  \<^item> \<open>Systems\<close>: the interfaces, as locales: steps that keep an invariant (all of them, or those an
    \<open>allowed\<close> predicate admits), steps that append to a log, stores keyed by a record's key. The
    components interpret them on their own operations.
  \<^item> \<open>Gate\<close>: \<open>core/gate.py\<close>. \<open>gate_state\<close> is \<open>GateState\<close>; one function per method of
    \<open>GateAggregator\<close>, collected in \<open>gate_step\<close>; the \<open>to_dict\<close>/\<open>from_dict\<close> pairs.
  \<^item> \<open>Health\<close>: \<open>core/health.py\<close>. \<open>monitor\<close> is \<open>HealthMonitor\<close> with its event log; \<open>health_step\<close>
    collects its methods; \<open>guardrail_snapshot\<close>.
  \<^item> \<open>Risk\<close>: \<open>risk/manager.py\<close>, \<open>capital_guard.py\<close>, \<open>correlation_guard.py\<close>. \<open>Sprt\<close>: \<open>risk/sprt.py\<close>.
  \<^item> \<open>StageGuard\<close>: \<open>brokers/stage_guard.py\<close>. \<open>guard\<close> is \<open>AutonomyStageGuard\<close> with its files;
    \<open>guard_step\<close> collects its methods.
  \<^item> \<open>Emergency\<close>: \<open>emergency/orchestrator.py\<close>. \<open>Failover\<close>: \<open>brokers/failover.py\<close> and
    \<open>emergency/planner.py\<close>.
  \<^item> \<open>Orders\<close>: \<open>brokers/order_store.py\<close>. \<open>Recovery\<close>: \<open>brokers/recovery.py\<close>. \<open>Lifecycle\<close>:
    \<open>brokers/order_lifecycle.py\<close>.
  \<^item> \<open>RateLimit\<close> and \<open>ApiMonitor\<close>: \<open>brokers/monitor.py\<close>. \<open>Policy\<close>: \<open>infra/broker_rules.py\<close> and
    \<open>brokers/policy.py\<close>. \<open>Router\<close>: \<open>execution/order_router.py\<close> with the registry of
    \<open>brokers/adapter.py\<close> and the adapter of \<open>brokers/sandbox.py\<close>.
  \<^item> \<open>AllocationConfig\<close> and \<open>Allocation\<close>: \<open>strategies/allocation.py\<close>, \<open>strategies/candidate.py\<close> and
    \<open>_apply_allocation\<close> of \<open>strategies/registry.py\<close>.
  \<^item> \<open>EventBus\<close>: \<open>core/event_bus.py\<close>. \<open>event_bus\<close> is the bus with its queue, log and waiting
    publishers; \<open>bus_step\<close> collects publish, take and wake. \<open>PyDate\<close>: comparisons of datetimes and
    weekday counts; \<open>HealthStore\<close>: \<open>core/health_store.py\<close> and \<open>core/health_jobs.py\<close>.
  \<^item> \<open>Scheduler\<close>: \<open>core/scheduler.py\<close>; a round of an interval job is a step on the locals of its
    loop. \<open>Workflow\<close>: \<open>core/workflow.py\<close>. \<open>TimeSync\<close>: \<open>core/time_sync.py\<close>.
  \<^item> \<open>Liquidity\<close>: \<open>risk/liquidity_monitor.py\<close>. \<open>Sizing\<close>: \<open>sizing/\<close>. \<open>Fills\<close>: \<open>brokers/fill_shadow.py\<close>
    and \<open>brokers/fill_drift.py\<close>. \<open>Exposure\<close>: \<open>infra/alert.py\<close> and \<open>risk/portfolio_exposure.py\<close>.
  \<^item> \<open>PyStamp\<close>: the text order of instants in UTC. \<open>Calendar\<close>: \<open>calendar/\<close>, the service and its CSV
    reader. \<open>Spread\<close>: \<open>execution/spread.py\<close> and \<open>core/spread_guard.py\<close>; \<open>guard_monitor\<close> is
    \<open>SpreadMonitor\<close> over the \<open>spread_monitor\<close> of its base class.
  \<^item> \<open>DataManifest\<close>: \<open>data/manifest.py\<close>. \<open>Gateway\<close>: \<open>shadow_gateway/\<close>, all parts on one record \<open>gateway\<close>
    since they share flags, audit and metrics. \<open>ShadowStore\<close>: \<open>shadow/\<close>. \<open>Resync\<close>: \<open>core/resync.py\<close>.
  \<^item> \<open>Orb\<close>: \<open>strategies/us_orb_vwap_retest.py\<close>; \<open>orb_states\<close> are the sessions of the strategy, by symbol.
    \<open>Alpha\<close>: \<open>strategies/alpha_pulse.py\<close>, \<open>execution/alpha_overlay.py\<close> and \<open>analytics/pnl_feedback.py\<close>.
  \<^item> \<open>Funding\<close>: \<open>funding/\<close>. \<open>Ingest\<close>: \<open>data/rate_limit_guard.py\<close>, \<open>data/fallback.py\<close> and
    \<open>data/realtime_evaluator.py\<close>. \<open>Ideas\<close>: \<open>research/registry.py\<close>; \<open>idea_registry\<close> is the directory of
    manifests with the log of stage changes.
  \<^item> \<open>StrategyManifest\<close>: the models and checks of the manifest and the log rotation of
    \<open>strategies/registry.py\<close>. \<open>TradeFields\<close>: \<open>_derive_signal_trade_fields\<close> and
    \<open>_build_candidate_trade\<close> there. \<open>Engine\<close>: \<open>StrategyEngine\<close> there, with its runs; \<open>run_env\<close> is what
    surrounds a run, the outputs of the plugins among it.
  \<^item> \<open>ConfigDiff\<close>: \<open>config/diff.py\<close>; \<open>diff_world\<close> holds the files and the audit of the service.
    \<open>Cost\<close>: \<open>execution/cost.py\<close>. \<open>Records\<close>: \<open>core/snapshot.py\<close> and \<open>persistence/\<close>.

  \<^bold>\<open>Conventions.\<close> A method is a function from the state record (and its arguments) to the new record,
  with its result where it has one; an exception is the left value of a result. Clock readings,
  fresh identifiers and hashes are arguments. A log file is the list of documents written to it, a
  JSON file the value last written; JSON text and the value it denotes are identified. Files are
  written successfully unless a definition takes the outcome as an argument. Strings are ASCII.
  Where a dataclass field has a declared type and the code copies a JSON value into it unchecked,
  the model either keeps it as a \<open>pyval\<close> or reports a value of another type as TypeError; the
  theory says which.

  \<^bold>\<open>What is shown.\<close> Invariants over all runs of a component (auto-execute is off under reduce-only;
  the health status dominates the recorded reasons; the stage history and the audit log agree with
  the stage; the playbook store), functional behaviour on every branch of the decisions (kill-switch
  guidance, ticket decisions, exit codes, promotions), refinements (per-symbol gate blocks as maps,
  the order store as a map to the last state saved), equivalences with a specification on histories
  (when an interval job gives up, when a retried command succeeds, what the audit log says of the
  stage), accounting of every message
  of the bus and of every candidate of a strategy run, liveness of publishers and jobs, round trips of the documents, and safety across
  components. The properties of kind \<open>error\<close> state where the code falls short of what its
  documentation promises.

  \<^bold>\<open>Termination and bounds.\<close> Every definition is total: recursion is structural or has a measure (the
  weekday loop of the health store is shown to return for every pair of days it can be given), and
  no fuel is used but in the shortest-decimal search of \<open>float_str\<close>, whose 17 digits always
  determine a binary64 number.

  \<^bold>\<open>Not modelled.\<close> Market-data ingestion, indicators, the other strategies and back-tests (pandas frames), HTTP
  adapters and gateways, report rendering and command-line glue, archived and vendored code.
  Most of what is left of the components below \<open>src/\<close> computes over data frames and arrays, draws
  random numbers, or reads configuration and renders reports around the modelled services; the session
  service of \<open>core/session.py\<close>, which wires the services together, is not modelled either.
\<close>

end
